(* ===== verification/MMI_Prelude.thy ===== *)
theory MMI_Prelude
  imports Main "HOL-Library.Word" "HOL-Library.Signed_Division"
begin

text \<open>
  Shared vocabulary of the development: kernel error numbers, C integers with their
  wrap-around, faults of the kernel (the outcomes that are not a return value), the
  sequencing of operations that can fault, and the generic lemmas on lists, folds and
  integers that the component theories use.

  C's \<open>int\<close> is modelled by \<open>int\<close> with the 32-bit wrap-around \<open>i32\<close> written out at
  every operation whose result could leave the range: the kernel is built with
  \<open>-fno-strict-overflow\<close>, so signed arithmetic wraps. Division truncates towards
  zero (\<open>sdiv\<close> of \<open>Signed_Division\<close>).
\<close>

named_theorems fault_simps
named_theorems i32_simps
named_theorems frame_simps

section \<open>Error numbers\<close>

abbreviation (input) ENOENT :: int where "ENOENT \<equiv> 2"
abbreviation (input) EIO :: int where "EIO \<equiv> 5"
abbreviation (input) ENOMEM :: int where "ENOMEM \<equiv> 12"
abbreviation (input) EACCES :: int where "EACCES \<equiv> 13"
abbreviation (input) EFAULT :: int where "EFAULT \<equiv> 14"
abbreviation (input) EBUSY :: int where "EBUSY \<equiv> 16"
abbreviation (input) EEXIST :: int where "EEXIST \<equiv> 17"
abbreviation (input) ENODEV :: int where "ENODEV \<equiv> 19"
abbreviation (input) EINVAL :: int where "EINVAL \<equiv> 22"

section \<open>C integers\<close>

abbreviation (input) INT_MAX :: int where "INT_MAX \<equiv> 2147483647"
abbreviation (input) INT_MIN :: int where "INT_MIN \<equiv> - 2147483648"
abbreviation (input) UINT_MAX :: int where "UINT_MAX \<equiv> 4294967295"

definition i32 :: "int \<Rightarrow> int" where
  "i32 x = signed_take_bit 31 x"

definition u32 :: "int \<Rightarrow> int" where
  "u32 x = x mod 4294967296"

definition in_i32 :: "int \<Rightarrow> bool" where
  "in_i32 x \<longleftrightarrow> INT_MIN \<le> x \<and> x \<le> INT_MAX"

lemma i32_id [i32_simps]: "in_i32 x \<Longrightarrow> i32 x = x"
  by (simp add: i32_def in_i32_def signed_take_bit_int_eq_self_iff)

lemma in_i32_i32 [simp]: "in_i32 (i32 x)"
proof -
  have "- (2 ^ 31) \<le> signed_take_bit 31 x" and "signed_take_bit 31 x < 2 ^ 31"
    by (rule signed_take_bit_int_greater_eq_minus_exp, rule signed_take_bit_int_less_exp)
  then show ?thesis by (simp add: i32_def in_i32_def)
qed

lemma i32_i32 [simp]: "i32 (i32 x) = i32 x"
  by (simp add: i32_id)

lemma u32_id [i32_simps]: "0 \<le> x \<Longrightarrow> x \<le> UINT_MAX \<Longrightarrow> u32 x = x"
  by (simp add: u32_def)

lemma u32_range: "0 \<le> u32 x \<and> u32 x \<le> UINT_MAX"
  using pos_mod_bound[of 4294967296 x] by (simp add: u32_def)

section \<open>Faults\<close>

text \<open>
  A \<open>kfault\<close> is an outcome of kernel code that is not a return: a dereference of NULL,
  an access outside an array, a dereference of freed memory, a lock taken twice by its
  owner (the thread never returns), a loop that does not end, a division by zero.
\<close>

datatype kfault = NullDeref | OutOfBounds | UseAfterFree | Deadlock | Livelock | DivByZero

type_synonym 'a kres = "kfault + 'a"

definition kbind :: "'a kres \<Rightarrow> ('a \<Rightarrow> 'b kres) \<Rightarrow> 'b kres" where
  "kbind m f = (case m of Inl e \<Rightarrow> Inl e | Inr x \<Rightarrow> f x)"

text \<open>Evaluation sees the case distinction, so that it enters \<open>f\<close> only with a value.\<close>

declare kbind_def [code_unfold]

lemma kbind_Inl [simp, fault_simps]: "kbind (Inl e) f = Inl e"
  by (simp add: kbind_def)

lemma kbind_Inr [simp, fault_simps]: "kbind (Inr x) f = f x"
  by (simp add: kbind_def)

lemma kbind_eq_Inr [fault_simps]: "kbind m f = Inr y \<longleftrightarrow> (\<exists>x. m = Inr x \<and> f x = Inr y)"
  by (cases m) simp_all

lemma kbind_assoc: "kbind (kbind m f) g = kbind m (\<lambda>x. kbind (f x) g)"
  by (cases m) simp_all

section \<open>Scans of an array for the best entry\<close>

text \<open>
  Several components walk an array of votes and keep the best entry seen so far, with
  its index: \<open>vote_min\<close> and \<open>vote_max\<close> of the voter, \<open>mmi_get_effective_voter\<close> of the
  charger. The locale holds the contract of one such loop body, and proves once what
  the whole scan computes.
\<close>

locale vote_scan =
  fixes takes_part :: "'s \<Rightarrow> nat \<Rightarrow> bool"
    and ballot :: "'s \<Rightarrow> nat \<Rightarrow> int"
    and better :: "int \<Rightarrow> int \<Rightarrow> bool"
    and body :: "'s \<Rightarrow> nat \<Rightarrow> int \<times> int \<Rightarrow> int \<times> int"
  assumes body_eq: "body s i (res, eid) =
      (if takes_part s i \<and> better (ballot s i) res then (ballot s i, int i) else (res, eid))"
    and better_irrefl: "\<not> better a a"
    and better_trans: "better a b \<Longrightarrow> better b c \<Longrightarrow> better a c"
    and better_linear: "a \<noteq> b \<Longrightarrow> better a b \<or> better b a"
begin

lemma not_better_trans: "\<not> better a b \<Longrightarrow> \<not> better b c \<Longrightarrow> \<not> better a c"
  using better_linear better_trans by metis

lemma scan_none:
  assumes "\<forall>i\<in>set js. takes_part s i \<longrightarrow> \<not> better (ballot s i) res"
  shows "fold (body s) js (res, eid) = (res, eid)"
  using assms by (induction js) (auto simp: body_eq)

lemma scan_result:
  "(\<exists>i\<in>set js. takes_part s i \<and> fold (body s) js (res, eid) = (ballot s i, int i)
      \<and> better (ballot s i) res)
   \<or> (fold (body s) js (res, eid) = (res, eid)
      \<and> (\<forall>i\<in>set js. takes_part s i \<longrightarrow> \<not> better (ballot s i) res))"
proof (induction js arbitrary: res eid)
  case Nil
  then show ?case by simp
next
  case (Cons j js)
  show ?case
  proof (cases "takes_part s j \<and> better (ballot s j) res")
    case True
    then show ?thesis using Cons.IH[of "ballot s j" "int j"] better_trans
      by (auto simp: body_eq)
  next
    case False
    then have "body s j (res, eid) = (res, eid)" by (simp only: body_eq if_False)
    then show ?thesis using Cons.IH[of res eid] False by auto
  qed
qed

lemma scan_optimal:
  "j \<in> set js \<Longrightarrow> takes_part s j \<Longrightarrow> \<not> better (ballot s j) (fst (fold (body s) js (res, eid)))"
proof (induction js arbitrary: res eid)
  case Nil
  then show ?case by simp
next
  case (Cons k js)
  obtain r e where re: "body s k (res, eid) = (r, e)" by (cases "body s k (res, eid)")
  show ?case
  proof (cases "j \<in> set js")
    case True
    then show ?thesis using Cons re by simp
  next
    case False
    then have "j = k" using Cons.prems(1) by simp
    then have "\<not> better (ballot s j) r"
      using re Cons.prems(2) better_irrefl by (auto simp: body_eq split: if_splits)
    moreover have "\<not> better r (fst (fold (body s) js (r, e)))"
      using scan_result[of js s r e] better_irrefl better_trans[of r _ r] by fastforce
    ultimately show ?thesis using re not_better_trans by simp
  qed
qed

end

section \<open>Lists\<close>

lemma takeWhile_prefix_Some:
  "takeWhile (\<lambda>s. s \<noteq> None) (map Some xs @ replicate n None) = map Some xs"
  by (induction xs) (simp_all add: takeWhile_eq_Nil_iff)

lemma takeWhile_upt_prefix:
  assumes "k \<le> n" "\<And>i. i < k \<Longrightarrow> P i" "k < n \<Longrightarrow> \<not> P k"
  shows "takeWhile P [0..<n] = [0..<k]"
proof -
  have "[0..<n] = [0..<k] @ [k..<n]" using assms(1) upt_add_eq_append[of 0 k "n - k"] by simp
  moreover have "takeWhile P [k..<n] = []"
    using assms(3) by (cases "k < n") (simp_all add: upt_conv_Cons)
  ultimately show ?thesis using assms(2) by (simp add: takeWhile_append)
qed

lemma zip_take_length: "zip xs (take (length xs) ys) = zip xs ys"
proof -
  have "zip xs ys = take (length xs) (zip xs ys)" by simp
  then show ?thesis by (simp only: take_zip take_all order_refl)
qed

lemma map_of_zip_update:
  "distinct xs \<Longrightarrow> i < length xs \<Longrightarrow> i < length ys \<Longrightarrow>
    map_of (zip xs (ys[i := y])) = (map_of (zip xs ys))(xs ! i \<mapsto> y)"
proof (induction xs arbitrary: i ys)
  case Nil
  then show ?case by simp
next
  case (Cons x xs)
  then show ?case
    by (cases ys; cases i) (auto simp: fun_eq_iff dest: nth_mem)
qed

lemma find_Some_upt:
  "List.find P [0..<n] = Some i \<longleftrightarrow> i < n \<and> P i \<and> (\<forall>j<i. \<not> P j)"
  by (auto simp: find_Some_iff)

lemma find_None_upt:
  "List.find P [0..<n] = None \<longleftrightarrow> (\<forall>i<n. \<not> P i)"
  by (auto simp: find_None_iff)

lemma find_Some_upt_from:
  assumes "List.find P [m..<n] = Some i"
  shows "m \<le> i \<and> i < n \<and> P i \<and> (\<forall>j. m \<le> j \<and> j < i \<longrightarrow> \<not> P j)"
proof -
  obtain k where k: "m + k < n" "i = m + k" "P i" "\<forall>j<k. \<not> P (m + j)"
    using assms unfolding find_Some_iff by (auto simp: less_diff_conv add.commute)
  have "\<not> P j" if "m \<le> j" "j < i" for j
    using k(2) k(4)[rule_format, of "j - m"] that by simp
  then show ?thesis using k by simp
qed

lemma find_Some_rev_upt:
  "List.find P (rev [0..<n]) = Some i \<Longrightarrow> i < n \<and> P i \<and> (\<forall>j. i < j \<and> j < n \<longrightarrow> \<not> P j)"
proof (induction n)
  case 0
  then show ?case by simp
next
  case (Suc n)
  then show ?case by (cases "P n") (auto simp: less_Suc_eq)
qed

lemma find_None_rev_upt:
  "List.find P (rev [0..<n]) = None \<longleftrightarrow> (\<forall>i<n. \<not> P i)"
  by (auto simp: find_None_iff)

lemma last_filter_upt:
  assumes "t < n" "P t" "m \<le> t"
  shows "last (filter P [m..<n]) < n \<and> P (last (filter P [m..<n])) \<and>
    (\<forall>j. last (filter P [m..<n]) < j \<and> j < n \<longrightarrow> \<not> P j)"
  using assms
proof (induction n)
  case 0
  then show ?case by simp
next
  case (Suc n)
  show ?case
  proof (cases "P n")
    case True
    then show ?thesis using Suc.prems by auto
  next
    case False
    then have "t < n" using Suc.prems by (metis less_antisym)
    then have IH: "last (filter P [m..<n]) < n" "P (last (filter P [m..<n]))"
      "\<And>j. last (filter P [m..<n]) < j \<Longrightarrow> j < n \<Longrightarrow> \<not> P j" using Suc by blast+
    have "filter P [m..<Suc n] = filter P [m..<n]" using False by simp
    moreover have "\<not> P j" if "last (filter P [m..<n]) < j" "j < Suc n" for j
      using IH(3)[OF that(1)] that(2) False by (cases "j = n") auto
    ultimately show ?thesis using IH(1,2) by (simp only: less_SucI) blast
  qed
qed

end
