(* ===== verification/Voter.thy ===== *)
theory Voter
  imports MMI_Prelude
begin

text \<open>
  The vote arbiter of the discrete charger,
  \<open>src/drivers/power/mmi_discrete_charger/mmi_discrete_voter.c\<close>: up to 32 named
  clients vote on a value (an input current, a float voltage, a disable flag), the
  arbiter elects the minimum, the maximum or the disjunction and calls the owner's
  callback when the outcome changes. This theory holds the votable itself; the
  list of votables is in \<open>Voter_Registry\<close>.

  The callback is code of the driver that owns the votable: it is the parameter \<open>cb\<close>,
  a function from the votable, the result and the client's name to its return code,
  and every operation returns the list of calls it made. The argument \<open>alloc\<close> says
  whether \<open>kstrdup\<close> succeeds. The mutex is the field \<open>locked\<close>.
\<close>

section \<open>Data\<close>

abbreviation (input) NUM_MAX_CLIENTS :: nat where "NUM_MAX_CLIENTS \<equiv> 32"
abbreviation (input) VOTE_MIN :: int where "VOTE_MIN \<equiv> 0"
abbreviation (input) VOTE_MAX :: int where "VOTE_MAX \<equiv> 1"
abbreviation (input) VOTE_SET_ANY :: int where "VOTE_SET_ANY \<equiv> 2"
abbreviation (input) NUM_VOTABLE_TYPES :: int where "NUM_VOTABLE_TYPES \<equiv> 3"

definition DEBUG_FORCE_CLIENT :: string where
  "DEBUG_FORCE_CLIENT = ''DEBUG_FORCE_CLIENT''"

record client_vote =
  cv_enabled :: bool
  cv_value :: int

record votable =
  vt_name :: string
  override_client :: "string option"
  votes :: "client_vote list"
  num_clients :: nat
  vtype :: int
  effective_client_id :: int
  effective_result :: int
  override_result :: int
  locked :: bool
  has_callback :: bool
  client_strs :: "string option list"
  voted_on :: bool
  force_val :: "32 word"
  force_active :: bool

type_synonym cb_call = "int \<times> string option"
type_synonym callback = "votable \<Rightarrow> int \<Rightarrow> string option \<Rightarrow> int"
type_synonym vote_res = "(int \<times> votable option \<times> cb_call list) kres"

section \<open>Elections\<close>

text \<open>The clients a loop \<open>for (i = 0; i < num_clients && client_strs[i]; i++)\<close> visits.\<close>

definition scan_clients :: "votable \<Rightarrow> nat list" where
  "scan_clients v = takeWhile (\<lambda>i. client_strs v ! i \<noteq> None) [0..<num_clients v]"

definition vote_set_any :: "votable \<Rightarrow> int \<Rightarrow> int \<times> int" where
  "vote_set_any v client_id =
     (fold (\<lambda>i res. or res (of_bool (cv_enabled (votes v ! i)))) (scan_clients v) 0, client_id)"

definition vote_min_body :: "votable \<Rightarrow> nat \<Rightarrow> int \<times> int \<Rightarrow> int \<times> int" where
  "vote_min_body v i = (\<lambda>(eff_res, eff_id).
     if cv_enabled (votes v ! i) \<and> eff_res > cv_value (votes v ! i)
     then (cv_value (votes v ! i), int i) else (eff_res, eff_id))"

definition vote_min :: "votable \<Rightarrow> int \<times> int" where
  "vote_min v =
     (let (eff_res, eff_id) = fold (vote_min_body v) (scan_clients v) (INT_MAX, - EINVAL)
      in if eff_id = - EINVAL then (- EINVAL, eff_id) else (eff_res, eff_id))"

definition vote_max_body :: "votable \<Rightarrow> nat \<Rightarrow> int \<times> int \<Rightarrow> int \<times> int" where
  "vote_max_body v i = (\<lambda>(eff_res, eff_id).
     if cv_enabled (votes v ! i) \<and> eff_res < cv_value (votes v ! i)
     then (cv_value (votes v ! i), int i) else (eff_res, eff_id))"

definition vote_max :: "votable \<Rightarrow> int \<times> int" where
  "vote_max v =
     (let (eff_res, eff_id) = fold (vote_max_body v) (scan_clients v) (INT_MIN, - EINVAL)
      in if eff_id = - EINVAL then (- EINVAL, eff_id) else (eff_res, eff_id))"

text \<open>The \<open>switch (votable->type)\<close> of \<open>vote\<close>; \<open>None\<close> is its default branch.\<close>

definition elect :: "votable \<Rightarrow> int \<Rightarrow> (int \<times> int) option" where
  "elect v client_id =
     (if vtype v = VOTE_MIN then Some (vote_min v)
      else if vtype v = VOTE_MAX then Some (vote_max v)
      else if vtype v = VOTE_SET_ANY then Some (vote_set_any v client_id)
      else None)"

section \<open>Clients\<close>

definition get_client_id :: "bool \<Rightarrow> votable \<Rightarrow> string \<Rightarrow> int \<times> votable" where
  "get_client_id alloc v client_str =
     (case List.find (\<lambda>i. client_strs v ! i = Some client_str) [0..<num_clients v] of
        Some i \<Rightarrow> (int i, v)
      | None \<Rightarrow>
          (case List.find (\<lambda>i. client_strs v ! i = None) [0..<num_clients v] of
             Some i \<Rightarrow>
               if alloc then (int i, v\<lparr>client_strs := (client_strs v)[i := Some client_str]\<rparr>)
               else (- ENOMEM, v)
           | None \<Rightarrow> (- EINVAL, v)))"

definition get_client_str :: "votable \<Rightarrow> int \<Rightarrow> string option kres" where
  "get_client_str v client_id =
     (if client_id = - EINVAL then Inr None
      else if 0 \<le> client_id \<and> client_id < int NUM_MAX_CLIENTS
      then Inr (client_strs v ! nat client_id) else Inl OutOfBounds)"

definition lock_votable :: "votable \<Rightarrow> votable kres" where
  "lock_votable v = (if locked v then Inl Deadlock else Inr (v\<lparr>locked := True\<rparr>))"

definition unlock_votable :: "votable \<Rightarrow> votable" where
  "unlock_votable v = v\<lparr>locked := False\<rparr>"

section \<open>Queries\<close>

definition is_override_vote_enabled_locked :: "votable option \<Rightarrow> bool" where
  "is_override_vote_enabled_locked vo =
     (case vo of None \<Rightarrow> False | Some v \<Rightarrow> override_result v \<noteq> - EINVAL)"

definition is_override_vote_enabled :: "votable option \<Rightarrow> (bool \<times> votable option) kres" where
  "is_override_vote_enabled vo =
     (case vo of None \<Rightarrow> Inr (False, vo)
      | Some v \<Rightarrow> kbind (lock_votable v) (\<lambda>v.
          Inr (is_override_vote_enabled_locked (Some v), Some (unlock_votable v))))"

definition is_client_vote_enabled_locked ::
  "bool \<Rightarrow> votable option \<Rightarrow> string option \<Rightarrow> bool \<times> votable option" where
  "is_client_vote_enabled_locked alloc vo co =
     (case (vo, co) of
        (Some v, Some c) \<Rightarrow>
          (let (client_id, v) = get_client_id alloc v c
           in if client_id < 0 then (False, Some v)
              else (cv_enabled (votes v ! nat client_id), Some v))
      | _ \<Rightarrow> (False, vo))"

definition is_client_vote_enabled ::
  "bool \<Rightarrow> votable option \<Rightarrow> string option \<Rightarrow> (bool \<times> votable option) kres" where
  "is_client_vote_enabled alloc vo co =
     (case (vo, co) of
        (Some v, Some c) \<Rightarrow> kbind (lock_votable v) (\<lambda>v.
          let (en, vo') = is_client_vote_enabled_locked alloc (Some v) co
          in Inr (en, map_option unlock_votable vo'))
      | _ \<Rightarrow> Inr (False, vo))"

definition get_client_vote_locked ::
  "bool \<Rightarrow> votable option \<Rightarrow> string option \<Rightarrow> int \<times> votable option" where
  "get_client_vote_locked alloc vo co =
     (case (vo, co) of
        (Some v, Some c) \<Rightarrow>
          (let (client_id, v) = get_client_id alloc v c
           in if client_id < 0 then (- EINVAL, Some v)
              else if vtype v \<noteq> VOTE_SET_ANY \<and> \<not> cv_enabled (votes v ! nat client_id)
              then (- EINVAL, Some v)
              else (cv_value (votes v ! nat client_id), Some v))
      | _ \<Rightarrow> (- EINVAL, vo))"

definition get_client_vote ::
  "bool \<Rightarrow> votable option \<Rightarrow> string option \<Rightarrow> (int \<times> votable option) kres" where
  "get_client_vote alloc vo co =
     (case (vo, co) of
        (Some v, Some c) \<Rightarrow> kbind (lock_votable v) (\<lambda>v.
          let (val, vo') = get_client_vote_locked alloc (Some v) co
          in Inr (val, map_option unlock_votable vo'))
      | _ \<Rightarrow> Inr (- EINVAL, vo))"

definition get_effective_result_locked :: "votable option \<Rightarrow> int" where
  "get_effective_result_locked vo =
     (case vo of None \<Rightarrow> - EINVAL
      | Some v \<Rightarrow> if force_active v then sint (force_val v)
          else if override_result v \<noteq> - EINVAL then override_result v
          else effective_result v)"

definition get_effective_result :: "votable option \<Rightarrow> (int \<times> votable option) kres" where
  "get_effective_result vo =
     (case vo of None \<Rightarrow> Inr (- EINVAL, vo)
      | Some v \<Rightarrow> kbind (lock_votable v) (\<lambda>v.
          Inr (get_effective_result_locked (Some v), Some (unlock_votable v))))"

definition get_effective_client_locked :: "votable option \<Rightarrow> string option kres" where
  "get_effective_client_locked vo =
     (case vo of None \<Rightarrow> Inr None
      | Some v \<Rightarrow> if force_active v then Inr (Some DEBUG_FORCE_CLIENT)
          else if override_result v \<noteq> - EINVAL then Inr (override_client v)
          else get_client_str v (effective_client_id v))"

definition get_effective_client :: "votable option \<Rightarrow> (string option \<times> votable option) kres" where
  "get_effective_client vo =
     (case vo of None \<Rightarrow> Inr (None, vo)
      | Some v \<Rightarrow> kbind (lock_votable v) (\<lambda>v.
          kbind (get_effective_client_locked (Some v)) (\<lambda>cs.
          Inr (cs, Some (unlock_votable v)))))"

section \<open>Votes\<close>

text \<open>
  \<open>vote_locked\<close> is the body of \<open>vote\<close> between \<open>lock_votable\<close> and the label \<open>out\<close>, the
  unlock of \<open>out\<close> included; its \<open>None\<close> branch of \<open>elect\<close> is the \<open>return\<close> of the
  \<open>switch\<close>'s default, which leaves the mutex held.
\<close>

definition vote_locked :: "callback \<Rightarrow> bool \<Rightarrow> votable \<Rightarrow> string \<Rightarrow> bool \<Rightarrow> int \<Rightarrow> vote_res" where
  "vote_locked cb alloc v0 client_str en val0 =
     (let (client_id, v1) = get_client_id alloc v0 client_str
      in if client_id < 0 then Inr (client_id, Some (unlock_votable v1), [])
      else let
        val = (if vtype v1 = VOTE_SET_ANY then of_bool en else val0);
        old = votes v1 ! nat client_id;
        similar_vote = (cv_enabled old = en \<and> cv_value old = val);
        v2 = v1\<lparr>votes := (votes v1)[nat client_id := \<lparr>cv_enabled = en, cv_value = val\<rparr>]\<rparr>
      in if similar_vote \<and> voted_on v2 then Inr (0, Some (unlock_votable v2), [])
      else case elect v2 client_id of
        None \<Rightarrow> Inr (- EINVAL, Some v2, [])
      | Some (eff_res, eff_id) \<Rightarrow>
          if \<not> voted_on v2 \<or> eff_res \<noteq> effective_result v2
          then let v3 = v2\<lparr>effective_client_id := eff_id, effective_result := eff_res\<rparr>
            in kbind (get_client_str v3 eff_id) (\<lambda>cs.
              if has_callback v3 \<and> \<not> force_active v3 \<and> override_result v3 = - EINVAL
              then Inr (cb v3 eff_res cs, Some (unlock_votable (v3\<lparr>voted_on := True\<rparr>)),
                        [(eff_res, cs)])
              else Inr (0, Some (unlock_votable (v3\<lparr>voted_on := True\<rparr>)), []))
          else Inr (0, Some (unlock_votable (v2\<lparr>voted_on := True\<rparr>)), []))"

definition vote ::
  "callback \<Rightarrow> bool \<Rightarrow> votable option \<Rightarrow> string option \<Rightarrow> bool \<Rightarrow> int \<Rightarrow> vote_res" where
  "vote cb alloc vo co en val =
     (case (vo, co) of
        (Some v, Some c) \<Rightarrow> kbind (lock_votable v) (\<lambda>v. vote_locked cb alloc v c en val)
      | _ \<Rightarrow> Inr (- EINVAL, vo, []))"

definition vote_override ::
  "callback \<Rightarrow> votable option \<Rightarrow> string option \<Rightarrow> bool \<Rightarrow> int \<Rightarrow> vote_res" where
  "vote_override cb vo co en val =
     (case (vo, co) of
        (Some v, Some c) \<Rightarrow> kbind (lock_votable v) (\<lambda>v.
          if force_active v
          then Inr (0, Some (unlock_votable
                 (v\<lparr>override_result := (if en then val else - EINVAL)\<rparr>)), [])
          else if \<not> has_callback v then Inl NullDeref
          else if en
          then let rc = cb v val (Some c)
            in Inr (rc, Some (unlock_votable (if rc = 0
                 then v\<lparr>override_client := Some c, override_result := val\<rparr> else v)),
                 [(val, Some c)])
          else kbind (get_client_str v (effective_client_id v)) (\<lambda>cs.
            Inr (cb v (effective_result v) cs,
                 Some (unlock_votable (v\<lparr>override_result := - EINVAL\<rparr>)),
                 [(effective_result v, cs)])))
      | _ \<Rightarrow> Inr (- EINVAL, vo, []))"

definition rerun_election :: "callback \<Rightarrow> votable option \<Rightarrow> vote_res" where
  "rerun_election cb vo =
     (case vo of None \<Rightarrow> Inr (- EINVAL, vo, [])
      | Some v \<Rightarrow> kbind (lock_votable v) (\<lambda>v.
          let res = get_effective_result_locked (Some v)
          in if has_callback v
             then kbind (get_client_str v (effective_client_id v)) (\<lambda>cs.
               Inr (cb v res cs, Some (unlock_votable v), [(res, cs)]))
             else Inr (0, Some (unlock_votable v), [])))"

definition force_active_get :: "votable \<Rightarrow> int" where
  "force_active_get v = of_bool (force_active v)"

definition force_active_set :: "callback \<Rightarrow> votable \<Rightarrow> 64 word \<Rightarrow> vote_res" where
  "force_active_set cb v0 val =
     kbind (lock_votable v0) (\<lambda>v0.
       let v = v0\<lparr>force_active := (val \<noteq> 0)\<rparr>
       in if \<not> has_callback v then Inr (0, Some (unlock_votable v), [])
       else if force_active v
       then Inr (cb v (sint (force_val v)) (Some DEBUG_FORCE_CLIENT), Some (unlock_votable v),
                 [(sint (force_val v), Some DEBUG_FORCE_CLIENT)])
       else if override_result v \<noteq> - EINVAL
       then Inr (cb v (override_result v) (override_client v), Some (unlock_votable v),
                 [(override_result v, override_client v)])
       else kbind (get_client_str v (effective_client_id v)) (\<lambda>cs.
         Inr (cb v (effective_result v) cs, Some (unlock_votable v),
              [(effective_result v, cs)])))"

definition pmic_vote_force_val_set :: "votable option \<Rightarrow> 32 word \<Rightarrow> int \<times> votable option" where
  "pmic_vote_force_val_set vo val =
     (case vo of Some v \<Rightarrow> (0, Some (v\<lparr>force_val := val\<rparr>)) | None \<Rightarrow> (- EINVAL, vo))"

definition pmic_vote_force_active_get :: "votable option \<Rightarrow> int \<Rightarrow> int \<times> int" where
  "pmic_vote_force_active_get vo old =
     (case vo of Some v \<Rightarrow> (0, force_active_get v) | None \<Rightarrow> (- EINVAL, old))"

definition pmic_vote_force_active_set :: "callback \<Rightarrow> votable option \<Rightarrow> 64 word \<Rightarrow> vote_res" where
  "pmic_vote_force_active_set cb vo val =
     (case vo of Some v \<Rightarrow> force_active_set cb v val | None \<Rightarrow> Inr (- EINVAL, vo, []))"

text \<open>The object \<open>create_votable\<close> sets up between \<open>kzalloc\<close> and \<open>list_add\<close>.\<close>

definition init_votable :: "string \<Rightarrow> int \<Rightarrow> bool \<Rightarrow> votable" where
  "init_votable name votable_type callback_set =
     \<lparr>vt_name = name, override_client = None,
      votes = replicate NUM_MAX_CLIENTS \<lparr>cv_enabled = False, cv_value = 0\<rparr>,
      num_clients = NUM_MAX_CLIENTS, vtype = votable_type,
      effective_client_id = - EINVAL,
      effective_result = (if votable_type = VOTE_SET_ANY then 0 else - EINVAL),
      override_result = - EINVAL, locked = False, has_callback = callback_set,
      client_strs = replicate NUM_MAX_CLIENTS None, voted_on = False,
      force_val = 0, force_active = False\<rparr>"


section \<open>Specification: what an election promises\<close>

text \<open>
  The clients in the order they registered, the ballots as a map from names to votes,
  and the values the enabled ballots carry. \<open>election_spec\<close> is the outcome as a
  function of the ballots alone. The two scans start from \<open>INT_MAX\<close> and \<open>INT_MIN\<close> with
  a strict comparison, so a vote for exactly that value is not counted.
\<close>

definition clients :: "votable \<Rightarrow> string list" where
  "clients v = map the (takeWhile (\<lambda>s. s \<noteq> None) (client_strs v))"

definition ballots :: "votable \<Rightarrow> string \<rightharpoonup> client_vote" where
  "ballots v = map_of (zip (clients v) (votes v))"

definition ballot_values :: "(string \<rightharpoonup> client_vote) \<Rightarrow> int set" where
  "ballot_values m = cv_value ` {b \<in> ran m. cv_enabled b}"

definition election_spec :: "int \<Rightarrow> (string \<rightharpoonup> client_vote) \<Rightarrow> int" where
  "election_spec ty m =
     (if ty = VOTE_MIN then
        (let A = ballot_values m \<inter> {..<INT_MAX} in if A = {} then - EINVAL else Min A)
      else if ty = VOTE_MAX then
        (let A = ballot_values m \<inter> {INT_MIN<..} in if A = {} then - EINVAL else Max A)
      else of_bool (\<exists>b\<in>ran m. cv_enabled b))"

text \<open>
  The invariant of a votable at rest: arrays of 32 entries, the client slots filled from
  the front without duplicates, no vote in a free slot, a known type, the mutex free, and
  the cached outcome equal to the election over the current votes.
\<close>

definition slots_ok :: "votable \<Rightarrow> bool" where
  "slots_ok v \<longleftrightarrow>
     length (votes v) = NUM_MAX_CLIENTS \<and> num_clients v = NUM_MAX_CLIENTS \<and>
     length (clients v) \<le> NUM_MAX_CLIENTS \<and> distinct (clients v) \<and>
     client_strs v = map Some (clients v) @ replicate (NUM_MAX_CLIENTS - length (clients v)) None \<and>
     (\<forall>i\<in>{length (clients v)..<NUM_MAX_CLIENTS}.
        votes v ! i = \<lparr>cv_enabled = False, cv_value = 0\<rparr>)"

definition core_ok :: "votable \<Rightarrow> bool" where
  "core_ok v \<longleftrightarrow>
     slots_ok v \<and> vtype v \<in> {VOTE_MIN, VOTE_MAX, VOTE_SET_ANY} \<and>
     effective_result v = election_spec (vtype v) (ballots v) \<and>
     (effective_client_id v = - EINVAL \<or>
        (0 \<le> effective_client_id v \<and> effective_client_id v < int (length (clients v))))"

definition votable_ok :: "votable \<Rightarrow> bool" where
  "votable_ok v \<longleftrightarrow> core_ok v \<and> \<not> locked v"

section \<open>The scans\<close>

interpretation smin: vote_scan "\<lambda>v i. cv_enabled (votes v ! i)" "\<lambda>v i. cv_value (votes v ! i)"
    "\<lambda>a b. a < b" vote_min_body
  by unfold_locales (auto simp: vote_min_body_def)

interpretation smax: vote_scan "\<lambda>v i. cv_enabled (votes v ! i)" "\<lambda>v i. cv_value (votes v ! i)"
    "\<lambda>a b. a > b" vote_max_body
  by unfold_locales (auto simp: vote_max_body_def)

lemma clients_eq:
  "client_strs v = map Some cs @ replicate n None \<Longrightarrow> clients v = cs"
  by (simp add: clients_def takeWhile_prefix_Some comp_def del: not_None_eq)

lemma slots_sizes:
  assumes "slots_ok v"
  shows "length (votes v) = NUM_MAX_CLIENTS" "num_clients v = NUM_MAX_CLIENTS"
    "length (clients v) \<le> NUM_MAX_CLIENTS" "length (client_strs v) = NUM_MAX_CLIENTS"
  using assms unfolding slots_ok_def by (simp_all add: arg_cong[where f = length and x = "client_strs v"])

lemma client_strs_nth:
  assumes "slots_ok v" "i < NUM_MAX_CLIENTS"
  shows "client_strs v ! i = (if i < length (clients v) then Some (clients v ! i) else None)"
proof -
  have strs: "client_strs v = map Some (clients v) @ replicate (NUM_MAX_CLIENTS - length (clients v)) None"
    using assms(1) by (simp add: slots_ok_def)
  show ?thesis using assms(2) by (subst strs) (simp add: nth_append)
qed

lemma scan_clients_ok: "slots_ok v \<Longrightarrow> scan_clients v = [0..<length (clients v)]"
  unfolding scan_clients_def
  using slots_sizes[of v] by (intro takeWhile_upt_prefix) (auto simp: client_strs_nth)

lemma ran_ballots:
  assumes "slots_ok v"
  shows "ran (ballots v) = (!) (votes v) ` {0..<length (clients v)}"
proof -
  let ?n = "length (clients v)"
  have le: "?n \<le> length (votes v)" using assms by (simp add: slots_ok_def)
  have "ballots v = map_of (zip (clients v) (take ?n (votes v)))"
    by (simp add: ballots_def zip_take_length)
  then have "ran (ballots v) = set (take ?n (votes v))"
    using assms le by (simp add: slots_ok_def ran_map_of_zip)
  also have "\<dots> = (!) (votes v) ` {0..<?n}" using le by (simp add: nth_image)
  finally show ?thesis .
qed

lemma ballots_enabled_iff:
  assumes "slots_ok v"
  shows "(\<exists>b\<in>ran (ballots v). cv_enabled b) \<longleftrightarrow> (\<exists>i<length (clients v). cv_enabled (votes v ! i))"
  using assms by (auto simp: ran_ballots)

lemma ballot_values_eq:
  assumes "slots_ok v"
  shows "ballot_values (ballots v) =
    {cv_value (votes v ! i) | i. i < length (clients v) \<and> cv_enabled (votes v ! i)}"
  using assms by (auto simp: ballot_values_def ran_ballots)

lemma finite_ballot_values: "slots_ok v \<Longrightarrow> finite (ballot_values (ballots v))"
  by (simp add: ballot_values_def ran_ballots)

lemma vote_min_spec:
  assumes "slots_ok v"
  shows "fst (vote_min v) = election_spec VOTE_MIN (ballots v)"
    and "snd (vote_min v) = - EINVAL \<or> (0 \<le> snd (vote_min v) \<and> snd (vote_min v) < int (length (clients v)))"
proof -
  let ?n = "length (clients v)" and ?A = "ballot_values (ballots v) \<inter> {..<INT_MAX}"
  obtain r e where re: "fold (vote_min_body v) [0..<?n] (INT_MAX, - EINVAL) = (r, e)" by fastforce
  have opt: "i < ?n \<Longrightarrow> cv_enabled (votes v ! i) \<Longrightarrow> \<not> cv_value (votes v ! i) < r" for i
    using smin.scan_optimal[of i "[0..<?n]" v INT_MAX "- EINVAL"] re by simp
  have fin: "finite ?A" using assms finite_ballot_values by blast
  have "fst (vote_min v) = election_spec VOTE_MIN (ballots v) \<and>
    (snd (vote_min v) = - EINVAL \<or> (0 \<le> snd (vote_min v) \<and> snd (vote_min v) < int ?n))"
  proof (cases "\<exists>i<?n. cv_enabled (votes v ! i) \<and> cv_value (votes v ! i) < INT_MAX")
    case True
    then obtain i where i: "i < ?n" "cv_enabled (votes v ! i)" "r = cv_value (votes v ! i)"
        "e = int i" "r < INT_MAX"
      using smin.scan_result[of "[0..<?n]" v INT_MAX "- EINVAL"] re by auto
    then have "r \<in> ?A" using assms by (auto simp: ballot_values_eq)
    moreover have "\<forall>a\<in>?A. r \<le> a" using opt assms by (force simp: ballot_values_eq)
    ultimately have "Min ?A = r" using fin by (meson Min_eqI)
    then show ?thesis using i \<open>r \<in> ?A\<close> re assms
      by (auto simp: vote_min_def scan_clients_ok election_spec_def Let_def)
  next
    case False
    then have "r = INT_MAX" "e = - EINVAL"
      using smin.scan_none[of "[0..<?n]" v INT_MAX "- EINVAL"] re by auto
    moreover have "?A = {}" using False assms by (auto simp: ballot_values_eq)
    ultimately show ?thesis using re assms
      by (auto simp: vote_min_def scan_clients_ok election_spec_def)
  qed
  then show "fst (vote_min v) = election_spec VOTE_MIN (ballots v)"
    and "snd (vote_min v) = - EINVAL \<or> (0 \<le> snd (vote_min v) \<and> snd (vote_min v) < int ?n)"
    by blast+
qed

lemma vote_max_spec:
  assumes "slots_ok v"
  shows "fst (vote_max v) = election_spec VOTE_MAX (ballots v)"
    and "snd (vote_max v) = - EINVAL \<or> (0 \<le> snd (vote_max v) \<and> snd (vote_max v) < int (length (clients v)))"
proof -
  let ?n = "length (clients v)" and ?A = "ballot_values (ballots v) \<inter> {INT_MIN<..}"
  obtain r e where re: "fold (vote_max_body v) [0..<?n] (INT_MIN, - EINVAL) = (r, e)" by fastforce
  have opt: "i < ?n \<Longrightarrow> cv_enabled (votes v ! i) \<Longrightarrow> \<not> cv_value (votes v ! i) > r" for i
    using smax.scan_optimal[of i "[0..<?n]" v INT_MIN "- EINVAL"] re by simp
  have fin: "finite ?A" using assms finite_ballot_values by blast
  have "fst (vote_max v) = election_spec VOTE_MAX (ballots v) \<and>
    (snd (vote_max v) = - EINVAL \<or> (0 \<le> snd (vote_max v) \<and> snd (vote_max v) < int ?n))"
  proof (cases "\<exists>i<?n. cv_enabled (votes v ! i) \<and> cv_value (votes v ! i) > INT_MIN")
    case True
    then obtain i where i: "i < ?n" "cv_enabled (votes v ! i)" "r = cv_value (votes v ! i)"
        "e = int i" "r > INT_MIN"
      using smax.scan_result[of "[0..<?n]" v INT_MIN "- EINVAL"] re by auto
    then have "r \<in> ?A" using assms by (auto simp: ballot_values_eq)
    moreover have "\<forall>a\<in>?A. a \<le> r" using opt assms by (force simp: ballot_values_eq)
    ultimately have "Max ?A = r" using fin by (meson Max_eqI)
    then show ?thesis using i \<open>r \<in> ?A\<close> re assms
      by (auto simp: vote_max_def scan_clients_ok election_spec_def Let_def)
  next
    case False
    then have "r = INT_MIN" "e = - EINVAL"
      using smax.scan_none[of "[0..<?n]" v INT_MIN "- EINVAL"] re by auto
    moreover have "?A = {}" using False assms by (auto simp: ballot_values_eq)
    ultimately show ?thesis using re assms
      by (auto simp: vote_max_def scan_clients_ok election_spec_def)
  qed
  then show "fst (vote_max v) = election_spec VOTE_MAX (ballots v)"
    and "snd (vote_max v) = - EINVAL \<or> (0 \<le> snd (vote_max v) \<and> snd (vote_max v) < int ?n)"
    by blast+
qed

lemma fold_or_bools:
  "fold (\<lambda>i res. or res (of_bool (P i))) js (of_bool b :: int) = of_bool (b \<or> (\<exists>i\<in>set js. P i))"
proof (induction js arbitrary: b)
  case Nil
  then show ?case by simp
next
  case (Cons j js)
  have step: "or (of_bool b) (of_bool (P j)) = (of_bool (b \<or> P j) :: int)"
    by (cases b; cases "P j") simp_all
  show ?case by (simp only: fold_simps step Cons.IH) auto
qed

lemma vote_set_any_spec:
  assumes "slots_ok v"
  shows "vote_set_any v c = (election_spec VOTE_SET_ANY (ballots v), c)"
  using assms fold_or_bools[of "\<lambda>i. cv_enabled (votes v ! i)" "scan_clients v" False]
  by (auto simp: vote_set_any_def election_spec_def ballots_enabled_iff scan_clients_ok Ball_def)


lemma elect_total:
  "vtype v \<in> {VOTE_MIN, VOTE_MAX, VOTE_SET_ANY} \<longleftrightarrow> elect v c \<noteq> None"
  by (simp add: elect_def)

lemma elect_spec:
  assumes "slots_ok v" "elect v c = Some (r, e)"
  shows "r = election_spec (vtype v) (ballots v)"
    and "e = - EINVAL \<or> e = c \<or> (0 \<le> e \<and> e < int (length (clients v)))"
proof -
  have "fst (vote_min v) = election_spec VOTE_MIN (ballots v)"
    and "fst (vote_max v) = election_spec VOTE_MAX (ballots v)"
    using assms(1) vote_min_spec(1) vote_max_spec(1) by auto
  then show "r = election_spec (vtype v) (ballots v)"
    using assms by (auto simp: elect_def vote_set_any_spec split: if_splits)
  show "e = - EINVAL \<or> e = c \<or> (0 \<le> e \<and> e < int (length (clients v)))"
    using vote_min_spec(2)[OF assms(1)] vote_max_spec(2)[OF assms(1)] assms
    by (auto simp: elect_def vote_set_any_spec split: if_splits)
qed

section \<open>Client slots\<close>

lemma slots_ok_cong:
  "\<lbrakk>votes w = votes v; num_clients w = num_clients v; client_strs w = client_strs v\<rbrakk>
    \<Longrightarrow> slots_ok w = slots_ok v \<and> clients w = clients v \<and> ballots w = ballots v"
  by (simp add: slots_ok_def clients_def ballots_def)

lemma find_client:
  assumes "slots_ok v"
  shows "List.find (\<lambda>i. client_strs v ! i = Some c) [0..<num_clients v] = Some i \<longleftrightarrow>
    i < length (clients v) \<and> clients v ! i = c"
proof -
  have d: "distinct (clients v)" and le: "length (clients v) \<le> NUM_MAX_CLIENTS"
    and n: "num_clients v = NUM_MAX_CLIENTS" using assms by (simp_all add: slots_ok_def)
  show ?thesis
  proof
    assume "List.find (\<lambda>i. client_strs v ! i = Some c) [0..<num_clients v] = Some i"
    then show "i < length (clients v) \<and> clients v ! i = c"
      using assms n by (auto simp: find_Some_upt client_strs_nth split: if_splits)
  next
    assume i: "i < length (clients v) \<and> clients v ! i = c"
    then have "\<forall>j<i. clients v ! j \<noteq> c" using d by (auto simp: nth_eq_iff_index_eq)
    then show "List.find (\<lambda>i. client_strs v ! i = Some c) [0..<num_clients v] = Some i"
      using i le n assms by (simp add: find_Some_upt client_strs_nth)
  qed
qed

lemma find_free:
  assumes "slots_ok v"
  shows "List.find (\<lambda>i. client_strs v ! i = None) [0..<num_clients v] =
    (if length (clients v) < NUM_MAX_CLIENTS then Some (length (clients v)) else None)"
proof (cases "length (clients v) < NUM_MAX_CLIENTS")
  case True
  then show ?thesis using assms slots_sizes[OF assms] by (simp add: find_Some_upt client_strs_nth)
next
  case False
  then show ?thesis using assms slots_sizes[OF assms] by (simp add: find_None_upt client_strs_nth)
qed

lemma get_client_id_known:
  assumes "slots_ok v" "i < length (clients v)" "clients v ! i = c"
  shows "get_client_id alloc v c = (int i, v)"
proof -
  have "List.find (\<lambda>i. client_strs v ! i = Some c) [0..<num_clients v] = Some i"
    using find_client[OF assms(1)] assms(2,3) by blast
  then show ?thesis by (simp add: get_client_id_def)
qed

lemma get_client_id_unknown:
  assumes "slots_ok v" "c \<notin> set (clients v)"
  shows "get_client_id alloc v c =
    (if length (clients v) < NUM_MAX_CLIENTS
     then if alloc then (int (length (clients v)),
            v\<lparr>client_strs := (client_strs v)[length (clients v) := Some c]\<rparr>)
          else (- ENOMEM, v)
     else (- EINVAL, v))"
proof -
  have "List.find (\<lambda>i. client_strs v ! i = Some c) [0..<num_clients v] = None"
    using find_client[OF assms(1), of c] assms(2) nth_mem
    by (metis not_Some_eq)
  then show ?thesis using assms by (simp add: get_client_id_def find_free)
qed

lemma register_client:
  assumes "slots_ok v" "c \<notin> set (clients v)" "length (clients v) < NUM_MAX_CLIENTS"
  defines "w \<equiv> v\<lparr>client_strs := (client_strs v)[length (clients v) := Some c]\<rparr>"
  shows "slots_ok w" and "clients w = clients v @ [c]"
    and "ballots w = (ballots v)(c \<mapsto> \<lparr>cv_enabled = False, cv_value = 0\<rparr>)"
proof -
  let ?n = "length (clients v)"
  have strs: "client_strs v = map Some (clients v) @ replicate (NUM_MAX_CLIENTS - ?n) None"
    using assms(1) by (simp add: slots_ok_def)
  obtain m where m: "NUM_MAX_CLIENTS - ?n = Suc m"
    using assms(3) by (metis Suc_diff_Suc)
  have w: "client_strs w = map Some (clients v @ [c]) @ replicate (NUM_MAX_CLIENTS - Suc ?n) None"
    unfolding w_def using m by (simp add: strs list_update_append)
  then show cw: "clients w = clients v @ [c]" by (rule clients_eq)
  show "slots_ok w" using assms w cw by (auto simp: slots_ok_def w_def)
  have "?n < length (votes v)" using assms(1,3) by (simp add: slots_ok_def)
  moreover have "votes v ! ?n = \<lparr>cv_enabled = False, cv_value = 0\<rparr>"
    using assms(1,3) by (simp add: slots_ok_def)
  ultimately have "drop ?n (votes v) = \<lparr>cv_enabled = False, cv_value = 0\<rparr> # drop (Suc ?n) (votes v)"
    by (simp add: Cons_nth_drop_Suc [symmetric])
  then have "zip (clients v @ [c]) (votes v) =
      zip (clients v) (votes v) @ [(c, \<lparr>cv_enabled = False, cv_value = 0\<rparr>)]"
    by (simp add: zip_append1 zip_take_length)
  moreover have "c \<notin> dom (map_of (zip (clients v) (votes v)))"
    using assms(2) by (auto simp: dom_map_of_conv_image_fst dest: set_zip_leftD)
  ultimately show "ballots w = (ballots v)(c \<mapsto> \<lparr>cv_enabled = False, cv_value = 0\<rparr>)"
    using cw by (simp add: ballots_def w_def map_add_upd_left map_of_append [symmetric] map_add_def fun_eq_iff)
       (auto simp: map_add_def split: option.splits)
qed


lemma cast_ballot:
  fixes b :: client_vote
  assumes "slots_ok v" "i < length (clients v)"
  defines "w \<equiv> v\<lparr>votes := (votes v)[i := b]\<rparr>"
  shows "slots_ok w" and "clients w = clients v" and "ballots w = (ballots v)(clients v ! i \<mapsto> b)"
proof -
  show cw: "clients w = clients v" by (simp add: clients_def w_def)
  show "slots_ok w" using assms(1,2) cw by (auto simp: slots_ok_def w_def)
  show "ballots w = (ballots v)(clients v ! i \<mapsto> b)"
    unfolding ballots_def cw using assms(1,2)
    by (simp add: w_def slots_ok_def map_of_zip_update)
qed

lemma dom_ballots:
  assumes "slots_ok v"
  shows "dom (ballots v) = set (clients v)"
proof -
  have "ballots v = map_of (zip (clients v) (take (length (clients v)) (votes v)))"
    by (simp add: ballots_def zip_take_length)
  then show ?thesis using slots_sizes[OF assms] by (simp add: dom_map_of_zip)
qed

lemma election_disabled:
  assumes "m c = None" "\<not> cv_enabled b"
  shows "election_spec ty (m(c \<mapsto> b)) = election_spec ty m"
proof -
  have "{x \<in> ran (m(c \<mapsto> b)). cv_enabled x} = {x \<in> ran m. cv_enabled x}"
    using assms by (auto simp: ran_map_upd)
  then show ?thesis
    using assms by (auto simp: election_spec_def ballot_values_def ran_map_upd)
qed

lemma get_client_id_cases:
  assumes "slots_ok v" "get_client_id alloc v c = (cid, w)"
  obtains (known) i where "i < length (clients v)" "clients v ! i = c" "cid = int i" "w = v"
  | (added) "c \<notin> set (clients v)" "length (clients v) < NUM_MAX_CLIENTS" "alloc"
      "cid = int (length (clients v))"
      "w = v\<lparr>client_strs := (client_strs v)[length (clients v) := Some c]\<rparr>"
  | (nomem) "c \<notin> set (clients v)" "\<not> alloc" "cid = - ENOMEM" "w = v"
  | (noslot) "c \<notin> set (clients v)" "length (clients v) = NUM_MAX_CLIENTS" "cid = - EINVAL" "w = v"
proof (cases "c \<in> set (clients v)")
  case True
  then obtain i where i: "i < length (clients v)" "clients v ! i = c" by (auto simp: in_set_conv_nth)
  have "cid = int i" and "w = v"
    using assms(2) get_client_id_known[OF assms(1) i, of alloc] by simp_all
  then show ?thesis by (rule known[OF i])
next
  case False
  note eq = get_client_id_unknown[OF assms(1) False, of alloc, unfolded assms(2)]
  show ?thesis
  proof (cases "length (clients v) < NUM_MAX_CLIENTS")
    case True
    show ?thesis
    proof (cases alloc)
      case True
      with eq False \<open>length (clients v) < NUM_MAX_CLIENTS\<close> show ?thesis by (intro added) simp_all
    next
      case alloc: False
      with eq False True show ?thesis by (intro nomem) simp_all
    qed
  next
    case full: False
    with eq False slots_sizes(3)[OF assms(1)] show ?thesis by (intro noslot) simp_all
  qed
qed

lemma get_client_id_ok:
  assumes "slots_ok v" "get_client_id alloc v c = (cid, w)"
  shows "slots_ok w" and "w = v\<lparr>client_strs := client_strs w\<rparr>"
    and "length (clients v) \<le> length (clients w)"
    and "election_spec ty (ballots w) = election_spec ty (ballots v)"
    and "cid < 0 \<Longrightarrow> w = v \<and> (cid = - EINVAL \<or> cid = - ENOMEM)"
    and "0 \<le> cid \<Longrightarrow> nat cid < length (clients w) \<and> clients w ! nat cid = c"
    and "(ballots w)(c := None) = (ballots v)(c := None)"
proof -
  have none: "c \<notin> set (clients v) \<Longrightarrow> ballots v c = None"
    using dom_ballots[OF assms(1)] by auto
  have "slots_ok w \<and> w = v\<lparr>client_strs := client_strs w\<rparr> \<and> length (clients v) \<le> length (clients w)
    \<and> election_spec ty (ballots w) = election_spec ty (ballots v)
    \<and> (cid < 0 \<longrightarrow> w = v \<and> (cid = - EINVAL \<or> cid = - ENOMEM))
    \<and> (0 \<le> cid \<longrightarrow> nat cid < length (clients w) \<and> clients w ! nat cid = c)
    \<and> (ballots w)(c := None) = (ballots v)(c := None)"
    using assms
  proof (cases rule: get_client_id_cases)
    case added
    then show ?thesis using register_client[OF assms(1) added(1,2)] none
      by (simp add: election_disabled)
  qed (use assms in auto)
  then show "slots_ok w" and "w = v\<lparr>client_strs := client_strs w\<rparr>"
    and "length (clients v) \<le> length (clients w)"
    and "election_spec ty (ballots w) = election_spec ty (ballots v)"
    and "cid < 0 \<Longrightarrow> w = v \<and> (cid = - EINVAL \<or> cid = - ENOMEM)"
    and "0 \<le> cid \<Longrightarrow> nat cid < length (clients w) \<and> clients w ! nat cid = c"
    and "(ballots w)(c := None) = (ballots v)(c := None)" by blast+
qed


section \<open>A vote\<close>

definition new_ballot :: "votable \<Rightarrow> bool \<Rightarrow> int \<Rightarrow> client_vote" where
  "new_ballot v en val =
     \<lparr>cv_enabled = en, cv_value = (if vtype v = VOTE_SET_ANY then of_bool en else val)\<rparr>"

definition quiet :: "votable \<Rightarrow> bool" where
  "quiet v \<longleftrightarrow> \<not> has_callback v \<or> force_active v \<or> override_result v \<noteq> - EINVAL"

lemma core_ok_unlock [simp]: "core_ok (unlock_votable v) = core_ok v"
  by (simp add: core_ok_def unlock_votable_def slots_ok_def clients_def ballots_def)

lemma votable_ok_unlock [simp]: "votable_ok (unlock_votable v) = core_ok v"
  by (simp add: votable_ok_def) (simp add: unlock_votable_def)

lemma unlock_frame [frame_simps]:
  "ballots (unlock_votable v) = ballots v" "clients (unlock_votable v) = clients v"
  "effective_result (unlock_votable v) = effective_result v" "vtype (unlock_votable v) = vtype v"
  "votes (unlock_votable v) = votes v"
  "effective_client_id (unlock_votable v) = effective_client_id v"
  "voted_on (unlock_votable v) = voted_on v" "force_active (unlock_votable v) = force_active v"
  "override_result (unlock_votable v) = override_result v"
  by (simp_all add: unlock_votable_def ballots_def clients_def)

lemma lock_ok: "votable_ok v \<Longrightarrow> lock_votable v = Inr (v\<lparr>locked := True\<rparr>) \<and> core_ok (v\<lparr>locked := True\<rparr>)"
  by (simp add: votable_ok_def core_ok_def lock_votable_def slots_ok_def clients_def ballots_def)

lemma locked_frame [frame_simps]:
  "ballots (v\<lparr>locked := b\<rparr>) = ballots v" "clients (v\<lparr>locked := b\<rparr>) = clients v"
  "quiet (v\<lparr>locked := b\<rparr>) = quiet v" "new_ballot (v\<lparr>locked := b\<rparr>) = new_ballot v"
  by (simp_all add: ballots_def clients_def quiet_def new_ballot_def fun_eq_iff)

lemma get_client_str_ok:
  assumes "slots_ok v" "e = - EINVAL \<or> (0 \<le> e \<and> e < int (length (clients v)))"
  shows "\<exists>cs. get_client_str v e = Inr cs"
  using assms slots_sizes(3)[OF assms(1)] by (auto simp: get_client_str_def)

lemma vote_prepare:
  assumes ok: "core_ok v"
    and slot: "c \<in> set (clients v) \<or> (length (clients v) < NUM_MAX_CLIENTS \<and> alloc)"
  obtains cid v1 v2 r e where
    "get_client_id alloc v c = (cid, v1)" "0 \<le> cid" "vtype v1 = vtype v" "voted_on v1 = voted_on v"
    "v2 = v1\<lparr>votes := (votes v1)[nat cid := new_ballot v en val]\<rparr>"
    "v2 = v\<lparr>client_strs := client_strs v2, votes := votes v2\<rparr>"
    "slots_ok v2" "ballots v2 = (ballots v)(c \<mapsto> new_ballot v en val)"
    "votes v1 ! nat cid = new_ballot v en val \<Longrightarrow>
       election_spec (vtype v) (ballots v2) = effective_result v"
    "effective_client_id v = - EINVAL \<or>
       0 \<le> effective_client_id v \<and> effective_client_id v < int (length (clients v2))"
    "elect v2 cid = Some (r, e)" "r = election_spec (vtype v) (ballots v2)"
    "e = - EINVAL \<or> 0 \<le> e \<and> e < int (length (clients v2))"
proof -
  obtain cid v1 where gid: "get_client_id alloc v c = (cid, v1)" by fastforce
  have slots: "slots_ok v" using ok by (simp add: core_ok_def)
  note g = get_client_id_ok[OF slots gid]
  have pos: "0 \<le> cid" using slots gid by (cases rule: get_client_id_cases) (use slot in auto)
  let ?i = "nat cid" and ?b = "new_ballot v en val"
  define v2 where "v2 = v1\<lparr>votes := (votes v1)[?i := ?b]\<rparr>"
  have i: "?i < length (clients v1)" "clients v1 ! ?i = c" using g(6) pos by auto
  note cb2 = cast_ballot[OF g(1) i(1), of ?b, folded v2_def, unfolded i(2)]
  have "(ballots v1)(c \<mapsto> ?b) = (ballots v)(c \<mapsto> ?b)" using g(7) by (metis fun_upd_upd)
  then have b2: "ballots v2 = (ballots v)(c \<mapsto> ?b)" using cb2(3) by simp
  have v2f: "v2 = v\<lparr>client_strs := client_strs v2, votes := votes v2\<rparr>" and "vtype v1 = vtype v"
    "voted_on v1 = voted_on v"
    unfolding v2_def by (subst g(2), simp)+
  have vt: "vtype v2 = vtype v" by (subst v2f) simp
  have cid2: "0 \<le> cid \<and> cid < int (length (clients v2))" using i(1) pos cb2(2) by simp
  obtain r e where el: "elect v2 cid = Some (r, e)"
    using ok elect_total[of v2 cid] by (auto simp: core_ok_def vt)
  show ?thesis
  proof (rule that[OF gid pos _ _ v2_def v2f cb2(1) b2 _ _ el])
    show "election_spec (vtype v) (ballots v2) = effective_result v" if "votes v1 ! ?i = ?b"
    proof -
      have "(votes v1)[?i := ?b] = votes v1" using that by (metis list_update_id)
      then have "v2 = v1" by (simp add: v2_def)
      then show ?thesis using g(4) ok by (simp add: core_ok_def)
    qed
    show "r = election_spec (vtype v) (ballots v2)" "e = - EINVAL \<or> 0 \<le> e \<and> e < int (length (clients v2))"
      using elect_spec[OF cb2(1) el] cid2 vt by auto
    show "effective_client_id v = - EINVAL \<or>
       0 \<le> effective_client_id v \<and> effective_client_id v < int (length (clients v2))"
      using ok g(3) cb2(2) by (auto simp: core_ok_def)
  qed fact+
qed

lemma slots_ok_frame [frame_simps]:
  "slots_ok (v\<lparr>voted_on := b\<rparr>) = slots_ok v" "clients (v\<lparr>voted_on := b\<rparr>) = clients v"
  "ballots (v\<lparr>voted_on := b\<rparr>) = ballots v"
  "slots_ok (v\<lparr>effective_client_id := e, effective_result := r\<rparr>) = slots_ok v"
  "clients (v\<lparr>effective_client_id := e, effective_result := r\<rparr>) = clients v"
  "ballots (v\<lparr>effective_client_id := e, effective_result := r\<rparr>) = ballots v"
  by (simp_all add: slots_ok_def clients_def ballots_def)

lemma vote_locked_spec:
  fixes en :: bool and val :: int
  assumes ok: "core_ok v"
    and slot: "c \<in> set (clients v) \<or> (length (clients v) < NUM_MAX_CLIENTS \<and> alloc)"
  defines "m \<equiv> (ballots v)(c \<mapsto> new_ballot v en val)"
  shows "\<exists>rc v' calls. vote_locked cb alloc v c en val = Inr (rc, Some v', calls) \<and> votable_ok v'
    \<and> ballots v' = m \<and> vtype v' = vtype v \<and> effective_result v' = election_spec (vtype v) m
    \<and> (calls \<noteq> [] \<longleftrightarrow> \<not> quiet v \<and> (\<not> voted_on v \<or> election_spec (vtype v) m \<noteq> effective_result v))
    \<and> map fst calls = (if calls = [] then [] else [election_spec (vtype v) m])"
  using ok slot
proof (cases rule: vote_prepare[where en = en and val = val])
  case (1 cid v1 v2 r e)
  note p = 1[folded m_def]
  have f: "vtype v2 = vtype v" "voted_on v2 = voted_on v" "effective_result v2 = effective_result v"
    "effective_client_id v2 = effective_client_id v" "force_active v2 = force_active v"
    "has_callback v2 = has_callback v" "override_result v2 = override_result v"
    by (subst p(6), simp)+
  have ty: "vtype v \<in> {VOTE_MIN, VOTE_MAX, VOTE_SET_ANY}" using ok by (simp add: core_ok_def)
  have core2: "core_ok v2" "core_ok (v2\<lparr>voted_on := True\<rparr>)" if "r = effective_result v"
    using p that f ty by (auto simp: core_ok_def frame_simps)
  have core3: "core_ok (v2\<lparr>effective_client_id := e, effective_result := r, voted_on := True\<rparr>)"
    using p f ty by (auto simp: core_ok_def slots_ok_def clients_def ballots_def)
  obtain cs where cs: "get_client_str (v2\<lparr>effective_client_id := e, effective_result := r\<rparr>) e = Inr cs"
    using get_client_str_ok[of "v2\<lparr>effective_client_id := e, effective_result := r\<rparr>" e] p
    by (auto simp: frame_simps)
  show ?thesis
  proof (cases "votes v1 ! nat cid = new_ballot v en val \<and> voted_on v")
    case True
    then show ?thesis using p core2 f
      by (auto simp: vote_locked_def Let_def new_ballot_def frame_simps)
  next
    case False
    then have "\<not> ((cv_enabled (votes v1 ! nat cid) = en \<and> cv_value (votes v1 ! nat cid) =
        (if vtype v1 = VOTE_SET_ANY then of_bool en else val)) \<and> voted_on v2)"
      using p(3) f by (auto simp: new_ballot_def)
    then show ?thesis using p core2 core3 cs f
      by (auto simp: vote_locked_def Let_def new_ballot_def quiet_def frame_simps)
  qed
qed


lemma vote_locked_no_slot:
  assumes "slots_ok v" "c \<notin> set (clients v)" "length (clients v) = NUM_MAX_CLIENTS \<or> \<not> alloc"
  shows "vote_locked cb alloc v c en val =
    Inr (if length (clients v) = NUM_MAX_CLIENTS then - EINVAL else - ENOMEM, Some (unlock_votable v), [])"
  using assms slots_sizes(3)[OF assms(1)]
  by (auto simp: vote_locked_def get_client_id_unknown)

section \<open>Every operation keeps the invariant\<close>

lemma unlock_lock_frame: "\<not> locked v \<Longrightarrow> unlock_votable (v\<lparr>locked := True\<rparr>) = v"
  by (simp add: unlock_votable_def)

lemma vote_ok:
  assumes "votable_ok v" "vote cb alloc (Some v) co en val = Inr (rc, Some v', calls)"
  shows "votable_ok v'"
proof (cases co)
  case None
  then show ?thesis using assms by (simp add: vote_def)
next
  case (Some c)
  let ?l = "v\<lparr>locked := True\<rparr>"
  have l: "lock_votable v = Inr ?l" "core_ok ?l" using lock_ok[OF assms(1)] by auto
  then have vl: "vote_locked cb alloc ?l c en val = Inr (rc, Some v', calls)"
    using assms(2) Some by (simp add: vote_def)
  show ?thesis
  proof (cases "c \<in> set (clients ?l) \<or> (length (clients ?l) < NUM_MAX_CLIENTS \<and> alloc)")
    case True
    then show ?thesis using vote_locked_spec[OF l(2) True, of cb en val] vl by auto
  next
    case False
    have s: "slots_ok ?l" using l(2) by (simp add: core_ok_def)
    then show ?thesis
      using vote_locked_no_slot[OF s, of c alloc cb en val] False vl l(2) slots_sizes(3)[OF s] by auto
  qed
qed

lemma core_ok_frame [frame_simps]:
  "core_ok (v\<lparr>override_result := r\<rparr>) = core_ok v"
  "core_ok (v\<lparr>override_client := cl\<rparr>) = core_ok v"
  "core_ok (v\<lparr>force_active := b\<rparr>) = core_ok v" "core_ok (v\<lparr>force_val := w\<rparr>) = core_ok v"
  by (simp_all add: core_ok_def slots_ok_def clients_def ballots_def)

lemma vote_override_ok:
  assumes "votable_ok v" "vote_override cb (Some v) co en val = Inr (rc, Some v', calls)"
  shows "votable_ok v'"
  using assms lock_ok[OF assms(1)]
  by (auto simp: vote_override_def Let_def kbind_eq_Inr frame_simps split: option.splits if_splits)

lemma rerun_election_ok:
  assumes "votable_ok v" "rerun_election cb (Some v) = Inr (rc, Some v', calls)"
  shows "votable_ok v'"
  using assms lock_ok[OF assms(1)]
  by (auto simp: rerun_election_def Let_def kbind_eq_Inr split: if_splits)

lemma force_active_set_ok:
  assumes "votable_ok v" "pmic_vote_force_active_set cb (Some v) val = Inr (rc, Some v', calls)"
  shows "votable_ok v'"
  using assms lock_ok[OF assms(1)]
  by (auto simp: pmic_vote_force_active_set_def force_active_set_def Let_def kbind_eq_Inr frame_simps
      split: if_splits)

lemma get_client_id_core:
  assumes "core_ok v" "get_client_id alloc v c = (cid, w)"
  shows "core_ok w"
proof -
  have s: "slots_ok v" using assms(1) by (simp add: core_ok_def)
  note g = get_client_id_ok[OF s assms(2)]
  have f: "vtype w = vtype v" "effective_result w = effective_result v"
    "effective_client_id w = effective_client_id v" by (subst g(2), simp)+
  show ?thesis using assms(1) g(1,3) g(4)[of "vtype v"] f by (auto simp: core_ok_def)
qed

lemma is_client_vote_enabled_ok:
  assumes "votable_ok v" "is_client_vote_enabled alloc (Some v) co = Inr (b, Some v')"
  shows "votable_ok v'"
  using assms lock_ok[OF assms(1)]
  by (auto simp: is_client_vote_enabled_def is_client_vote_enabled_locked_def Let_def
      split: option.splits prod.splits if_splits dest: get_client_id_core)

lemma get_client_vote_ok:
  assumes "votable_ok v" "get_client_vote alloc (Some v) co = Inr (b, Some v')"
  shows "votable_ok v'"
  using assms lock_ok[OF assms(1)]
  by (auto simp: get_client_vote_def get_client_vote_locked_def Let_def
      split: option.splits prod.splits if_splits dest: get_client_id_core)

lemma init_votable_clients: "clients (init_votable n ty cbk) = []"
  by (rule clients_eq[where n = NUM_MAX_CLIENTS]) (simp add: init_votable_def)

lemma init_votable_ok:
  "ty \<in> {VOTE_MIN, VOTE_MAX, VOTE_SET_ANY} \<Longrightarrow> votable_ok (init_votable n ty cbk)"
  using init_votable_clients[of n ty cbk]
  by (auto simp: votable_ok_def core_ok_def slots_ok_def ballots_def election_spec_def
      ballot_values_def init_votable_def)

section \<open>Runs of a votable\<close>

text \<open>
  One step is one call of the interface by any client; the calls are serialised by the
  votable's mutex, so every interleaving of clients is a sequence of such steps.
\<close>

inductive votable_step :: "callback \<Rightarrow> votable \<Rightarrow> votable \<Rightarrow> bool" for cb :: callback where
  step_vote: "vote cb alloc (Some v) co en val = Inr (rc, Some v', calls) \<Longrightarrow> votable_step cb v v'"
| step_override: "vote_override cb (Some v) co en val = Inr (rc, Some v', calls) \<Longrightarrow> votable_step cb v v'"
| step_rerun: "rerun_election cb (Some v) = Inr (rc, Some v', calls) \<Longrightarrow> votable_step cb v v'"
| step_force: "pmic_vote_force_active_set cb (Some v) x = Inr (rc, Some v', calls) \<Longrightarrow> votable_step cb v v'"
| step_force_val: "pmic_vote_force_val_set (Some v) w = (rc, Some v') \<Longrightarrow> votable_step cb v v'"
| step_query: "is_client_vote_enabled alloc (Some v) co = Inr (b, Some v') \<Longrightarrow> votable_step cb v v'"
| step_get: "get_client_vote alloc (Some v) co = Inr (b, Some v') \<Longrightarrow> votable_step cb v v'"
| step_result: "get_effective_result (Some v) = Inr (r, Some v') \<Longrightarrow> votable_step cb v v'"

inductive votable_reach :: "callback \<Rightarrow> votable \<Rightarrow> bool" for cb :: callback where
  reach_init: "ty \<in> {VOTE_MIN, VOTE_MAX, VOTE_SET_ANY} \<Longrightarrow> votable_reach cb (init_votable n ty cbk)"
| reach_step: "votable_reach cb v \<Longrightarrow> votable_step cb v v' \<Longrightarrow> votable_reach cb v'"

lemma votable_step_ok: "votable_step cb v v' \<Longrightarrow> votable_ok v \<Longrightarrow> votable_ok v'"
proof (induction rule: votable_step.induct)
  case (step_force_val v w rc v')
  then show ?case by (auto simp: pmic_vote_force_val_set_def votable_ok_def frame_simps)
next
  case (step_result v r v')
  then show ?case using lock_ok[of v] by (auto simp: get_effective_result_def)
qed (blast dest: vote_ok vote_override_ok rerun_election_ok force_active_set_ok
      is_client_vote_enabled_ok get_client_vote_ok)+


section \<open>Properties\<close>

text \<open>
  C33. Invariant of the arbiter: in every state reachable by any sequence of interface
  calls from a freshly created votable, the mutex is free, the client slots are filled
  from the front with distinct names, and the cached result is the election over the
  votes currently stored.
\<close>

theorem voter_invariant:
  "votable_reach cb v \<Longrightarrow> votable_ok v"
proof (induction rule: votable_reach.induct)
  case (reach_init ty n cbk)
  then show ?case by (rule init_votable_ok)
next
  case (reach_step v v')
  then show ?case using votable_step_ok by blast
qed

theorem voter_invariant_witness:
  "votable_ok (init_votable ''FCC'' VOTE_MIN True)"
  by (rule voter_invariant[where cb = "\<lambda>_ _ _. 0"], rule votable_reach.reach_init) simp

text \<open>
  C2. Refinement: on a votable whose invariant holds, \<open>vote\<close> by a client that has or
  can get a slot always returns, and its effect on the abstract ballots is the map
  update \<open>client \<mapsto> ballot\<close>; the new cached result is the abstract election over the
  updated ballots (the minimum or maximum of the enabled values, or their disjunction).
\<close>

theorem vote_refines:
  assumes "votable_ok v"
    and "c \<in> set (clients v) \<or> (length (clients v) < NUM_MAX_CLIENTS \<and> alloc)"
  shows "\<exists>rc v' calls. vote cb alloc (Some v) (Some c) en val = Inr (rc, Some v', calls)
    \<and> votable_ok v'
    \<and> ballots v' = (ballots v)(c \<mapsto> \<lparr>cv_enabled = en,
        cv_value = (if vtype v = VOTE_SET_ANY then of_bool en else val)\<rparr>)
    \<and> effective_result v' = election_spec (vtype v) (ballots v')"
proof -
  note l = lock_ok[OF assms(1)]
  show ?thesis
    using vote_locked_spec[of "v\<lparr>locked := True\<rparr>" c alloc cb en val] l assms(2)
    by (auto simp: vote_def frame_simps new_ballot_def)
qed

theorem vote_refines_witness:
  "\<exists>rc v' calls. vote (\<lambda>_ _ _. 0) True (Some (init_votable ''FCC'' VOTE_MIN True)) (Some ''PD'')
      True 3000 = Inr (rc, Some v', calls) \<and> votable_ok v'
    \<and> ballots v' = (ballots (init_votable ''FCC'' VOTE_MIN True))(''PD'' \<mapsto>
        \<lparr>cv_enabled = True, cv_value = 3000\<rparr>)
    \<and> effective_result v' = election_spec VOTE_MIN (ballots v')"
proof -
  have ok: "votable_ok (init_votable ''FCC'' VOTE_MIN True)" by (rule init_votable_ok) simp
  have "''PD'' \<in> set (clients (init_votable ''FCC'' VOTE_MIN True)) \<or>
      (length (clients (init_votable ''FCC'' VOTE_MIN True)) < NUM_MAX_CLIENTS \<and> True)"
    by (simp add: init_votable_clients)
  from vote_refines[OF ok this, of "\<lambda>_ _ _. 0" True 3000] show ?thesis
    by (simp add: init_votable_def)
qed

text \<open>
  C34. Notification: a vote calls the owner's callback exactly when the outcome of the
  election changed or this is the first vote, and neither a debug force nor an override
  is in effect; it calls it once, with the new outcome.
\<close>

theorem vote_callback:
  assumes "votable_ok v"
    and "c \<in> set (clients v) \<or> (length (clients v) < NUM_MAX_CLIENTS \<and> alloc)"
    and "vote cb alloc (Some v) (Some c) en val = Inr (rc, Some v', calls)"
  shows "(calls \<noteq> [] \<longleftrightarrow> has_callback v \<and> \<not> force_active v \<and> override_result v = - EINVAL
            \<and> (\<not> voted_on v \<or> effective_result v' \<noteq> effective_result v))
    \<and> map fst calls = (if calls = [] then [] else [effective_result v'])"
proof -
  note l = lock_ok[OF assms(1)]
  show ?thesis
    using vote_locked_spec[of "v\<lparr>locked := True\<rparr>" c alloc cb en val] l assms(2,3)
    by (auto simp: vote_def frame_simps quiet_def)
qed

theorem vote_callback_witness:
  "\<exists>rc v' calls. vote (\<lambda>_ _ _. 0) True (Some (init_votable ''FCC'' VOTE_MIN True)) (Some ''PD'')
      True 3000 = Inr (rc, Some v', calls) \<and> calls \<noteq> []
    \<and> map fst calls = [effective_result v']"
proof -
  let ?v = "init_votable ''FCC'' VOTE_MIN True"
  have ok: "votable_ok ?v" by (rule init_votable_ok) simp
  have sl: "''PD'' \<in> set (clients ?v) \<or> (length (clients ?v) < NUM_MAX_CLIENTS \<and> True)"
    by (simp add: init_votable_clients)
  obtain rc v' calls where v: "vote (\<lambda>_ _ _. 0) True (Some ?v) (Some ''PD'') True 3000 =
      Inr (rc, Some v', calls)"
    using vote_locked_spec[of "?v\<lparr>locked := True\<rparr>" "''PD''" True "\<lambda>_ _ _. 0" True 3000] lock_ok[OF ok] sl
    by (auto simp: vote_def frame_simps)
  show ?thesis using vote_callback[OF ok sl v] v by (auto simp: init_votable_def)
qed

lemma override_sticky_step:
  assumes "votable_ok v" "\<not> force_active v" "override_result v = r" "r \<noteq> - EINVAL"
    and "vote cb alloc (Some v) co en val = Inr (rc, Some v', calls)"
  shows "override_result v' = r \<and> \<not> force_active v' \<and> calls = []"
  using assms lock_ok[OF assms(1)]
  by (auto simp: vote_def vote_locked_def Let_def kbind_eq_Inr get_client_id_def unlock_votable_def
      split: option.splits prod.splits if_splits)

definition vote_step :: "callback \<Rightarrow> votable \<Rightarrow> votable \<Rightarrow> bool" where
  "vote_step cb v v' \<longleftrightarrow>
     (\<exists>alloc co en val rc calls. vote cb alloc (Some v) co en val = Inr (rc, Some v', calls))"

text \<open>
  An override holds until it is withdrawn: once \<open>vote_override\<close> was accepted
  (returned 0) with a value, any number of ordinary votes afterwards leaves the value
  that readers get unchanged.
\<close>

theorem override_holds:
  assumes "votable_ok v" "\<not> force_active v" "r \<noteq> - EINVAL"
    and "vote_override cb (Some v) (Some c) True r = Inr (0, Some v1, calls)"
    and "(vote_step cb)\<^sup>*\<^sup>* v1 v2"
  shows "get_effective_result_locked (Some v2) = r"
proof -
  have v1: "votable_ok v1" "override_result v1 = r" "\<not> force_active v1"
    using assms(1-4) vote_override_ok[OF assms(1,4)] lock_ok[OF assms(1)]
    by (auto simp: vote_override_def Let_def unlock_votable_def split: if_splits)
  from assms(5) have "votable_ok v2 \<and> override_result v2 = r \<and> \<not> force_active v2"
  proof (induction rule: rtranclp_induct)
    case base
    then show ?case using v1 by simp
  next
    case (step v v')
    then show ?case using vote_ok override_sticky_step[OF _ _ _ assms(3)]
      unfolding vote_step_def by blast
  qed
  then show ?thesis using assms(3) by (simp add: get_effective_result_locked_def)
qed

theorem override_holds_witness:
  "\<exists>v1 calls. vote_override (\<lambda>_ _ _. 0) (Some (init_votable ''ICL'' VOTE_MIN True)) (Some ''HW'') True 500
      = Inr (0, Some v1, calls) \<and> get_effective_result_locked (Some v1) = 500"
proof -
  let ?v = "init_votable ''ICL'' VOTE_MIN True"
  have ok: "votable_ok ?v" by (rule init_votable_ok) simp
  have "\<not> force_active ?v" "(500::int) \<noteq> - EINVAL" by (simp_all add: init_votable_def)
  moreover obtain v1 calls where
    o: "vote_override (\<lambda>_ _ _. 0) (Some ?v) (Some ''HW'') True 500 = Inr (0, Some v1, calls)"
    using lock_ok[OF ok] by (auto simp: vote_override_def Let_def init_votable_def)
  ultimately show ?thesis
    using override_holds[OF ok _ _ o rtranclp.rtrancl_refl] by auto
qed


text \<open>
  A full arbiter: with 32 clients registered, a vote by a 33rd returns \<open>-EINVAL\<close>,
  calls nothing and changes nothing.
\<close>

theorem vote_no_slot:
  assumes "votable_ok v" "c \<notin> set (clients v)" "length (clients v) = NUM_MAX_CLIENTS"
  shows "vote cb alloc (Some v) (Some c) en val = Inr (- EINVAL, Some v, [])"
proof -
  have l: "lock_votable v = Inr (v\<lparr>locked := True\<rparr>)" "slots_ok (v\<lparr>locked := True\<rparr>)"
    using lock_ok[OF assms(1)] by (auto simp: core_ok_def)
  have "\<not> locked v" using assms(1) by (simp add: votable_ok_def)
  then show ?thesis
    using vote_locked_no_slot[OF l(2), of c alloc cb en val] assms(2,3) l(1)
    by (simp add: vote_def frame_simps unlock_lock_frame)
qed

definition client_names :: "string list" where
  "client_names = map (\<lambda>i. replicate i CHR ''a'') [0..<NUM_MAX_CLIENTS]"

definition full_votable :: votable where
  "full_votable = (init_votable ''FV'' VOTE_MAX False)\<lparr>client_strs := map Some client_names\<rparr>"

lemma distinct_client_names: "distinct client_names"
  unfolding client_names_def by (simp add: distinct_map inj_on_def)

lemma full_votable_ok: "votable_ok full_votable" and full_votable_clients: "clients full_votable = client_names"
proof -
  have len: "length client_names = NUM_MAX_CLIENTS" by (simp add: client_names_def)
  show c: "clients full_votable = client_names"
    by (rule clients_eq[where n = 0]) (simp add: full_votable_def)
  have z: "ballots full_votable = map_of (map (\<lambda>n. (n, \<lparr>cv_enabled = False, cv_value = 0\<rparr>)) client_names)"
    unfolding ballots_def c using len
    by (simp add: full_votable_def init_votable_def zip_replicate2 min_def)
  then have "\<forall>b\<in>ran (ballots full_votable). \<not> cv_enabled b"
    by (auto simp: ran_def dest!: map_of_SomeD)
  then have "election_spec VOTE_MAX (ballots full_votable) = - EINVAL"
    by (auto simp: election_spec_def ballot_values_def)
  then show "votable_ok full_votable"
    using c len distinct_client_names
    by (simp add: votable_ok_def core_ok_def slots_ok_def)
       (simp add: full_votable_def init_votable_def)
qed

theorem vote_no_slot_witness:
  "vote (\<lambda>_ _ _. 0) True (Some full_votable) (Some ''PD'') True 9000 = Inr (- EINVAL, Some full_votable, [])"
proof (rule vote_no_slot[OF full_votable_ok])
  show "''PD'' \<notin> set (clients full_votable)"
  proof -
    have "\<forall>s\<in>set client_names. set s \<subseteq> {CHR ''a''}" by (auto simp: client_names_def)
    moreover have "\<not> set ''PD'' \<subseteq> {CHR ''a''}" by simp
    ultimately show ?thesis unfolding full_votable_clients by blast
  qed
  show "length (clients full_votable) = NUM_MAX_CLIENTS"
    by (simp add: full_votable_clients client_names_def)
qed

text \<open>
  A query is not read-only: asking \<open>is_client_vote_enabled\<close> about a name that never
  voted answers false and registers the name, so queries use up the 32 slots.
\<close>

theorem query_takes_slot:
  assumes "votable_ok v" "c \<notin> set (clients v)" "length (clients v) < NUM_MAX_CLIENTS"
  shows "\<exists>v'. is_client_vote_enabled True (Some v) (Some c) = Inr (False, Some v')
    \<and> clients v' = clients v @ [c]"
proof -
  let ?l = "v\<lparr>locked := True\<rparr>"
  have l: "lock_votable v = Inr ?l" and s: "slots_ok ?l"
    using lock_ok[OF assms(1)] by (auto simp: core_ok_def)
  have "\<not> cv_enabled (votes v ! length (clients v))"
    using s assms(3) by (simp add: slots_ok_def frame_simps)
  then show ?thesis
    using get_client_id_unknown[OF s, of c True] register_client[OF s, of c] assms(2,3) l
    by (simp add: is_client_vote_enabled_def is_client_vote_enabled_locked_def frame_simps)
qed

theorem query_takes_slot_witness:
  "\<exists>v'. is_client_vote_enabled True (Some (init_votable ''FCC'' VOTE_MIN True)) (Some ''X'') =
      Inr (False, Some v') \<and> clients v' = [''X'']"
proof -
  have "''X'' \<notin> set (clients (init_votable ''FCC'' VOTE_MIN True))"
    "length (clients (init_votable ''FCC'' VOTE_MIN True)) < NUM_MAX_CLIENTS"
    by (simp_all add: init_votable_clients)
  from query_takes_slot[OF init_votable_ok this] show ?thesis
    by (simp add: init_votable_clients)
qed

definition after_votes :: "votable kres \<Rightarrow> string \<Rightarrow> bool \<Rightarrow> int \<Rightarrow> votable kres" where
  "after_votes m c en val = kbind m (\<lambda>v.
     kbind (vote (\<lambda>_ _ _. 0) True (Some v) (Some c) en val) (\<lambda>(rc, vo, calls).
       case vo of Some v' \<Rightarrow> Inr v' | None \<Rightarrow> Inl NullDeref))"

text \<open>
  The reported winner can be stale: after two clients vote the same minimum and the
  first withdraws, the result is still right but \<open>get_effective_client\<close> names the client
  whose vote is disabled, because the winner is stored only when the result changes.
\<close>

theorem effective_client_stale:
  "case after_votes (after_votes (after_votes
        (Inr (init_votable ''FCC'' VOTE_MIN True)) ''A'' True 500) ''B'' True 500) ''A'' False 0 of
      Inl _ \<Rightarrow> False
    | Inr v \<Rightarrow> get_effective_result_locked (Some v) = 500
      \<and> get_effective_client_locked (Some v) = Inr (Some ''A'')
      \<and> fst (is_client_vote_enabled_locked True (Some v) (Some ''A'')) = False"
  by code_simp

text \<open>
  A type the \<open>switch\<close> does not know leaves the mutex held: \<open>create_votable\<close> accepts
  a negative type, the first vote on it returns \<open>-EINVAL\<close> and the next one never returns.
\<close>

theorem unknown_type_keeps_lock:
  assumes "ty < 0"
  shows "\<exists>v'. vote cb True (Some (init_votable n ty cbk)) (Some c) en val = Inr (- EINVAL, Some v', [])
    \<and> (\<forall>cb' alloc c' en' val'. vote cb' alloc (Some v') (Some c') en' val' = Inl Deadlock)"
proof -
  let ?v = "(init_votable n ty cbk)\<lparr>locked := True\<rparr>"
  have "get_client_id True ?v c = (0, ?v\<lparr>client_strs := (client_strs ?v)[0 := Some c]\<rparr>)"
  proof -
    have "slots_ok ?v" "clients ?v = []"
      using init_votable_clients[of n ty cbk] by (simp_all add: slots_ok_def init_votable_def clients_def)
    then show ?thesis by (simp add: get_client_id_unknown)
  qed
  then show ?thesis using assms
    by (simp add: vote_def lock_votable_def vote_locked_def init_votable_def elect_def)
qed

theorem unknown_type_keeps_lock_witness:
  "\<exists>v'. vote (\<lambda>_ _ _. 0) True (Some (init_votable ''X'' (- 1) True)) (Some ''A'') True 1 =
      Inr (- EINVAL, Some v', [])
    \<and> (\<forall>cb' alloc c' en' val'. vote cb' alloc (Some v') (Some c') en' val' = Inl Deadlock)"
  by (rule unknown_type_keeps_lock) simp

end
