(* ===== verification/Voter_Registry.thy ===== *)
theory Voter_Registry
  imports Voter
begin

text \<open>
  The list of votables of \<open>mmi_discrete_voter.c\<close>: \<open>create_votable\<close>, \<open>find_votable\<close> and
  \<open>destroy_votable\<close> over an explicit heap, since what matters here is which objects the
  list still points to after an error path has freed them. Addresses are never reused,
  so a freed address in the list is a use after free when the list is walked. What the
  kernel services used by \<open>create_votable\<close> (\<open>kzalloc\<close>, \<open>kstrdup\<close>, \<open>debugfs_create_*\<close>)
  answer is the argument \<open>create_env\<close>.
\<close>

record voter_sys =
  votable_list :: "nat list"
  vs_heap :: "nat \<rightharpoonup> votable"
  vs_next :: nat
  debug_root :: bool

record create_env =
  ce_debug_root :: bool
  ce_kzalloc :: bool
  ce_kstrdup :: bool
  ce_root :: bool
  ce_status :: bool
  ce_force_val :: bool
  ce_force_active :: bool

fun find_in_list :: "(nat \<rightharpoonup> votable) \<Rightarrow> string \<Rightarrow> nat list \<Rightarrow> nat option kres" where
  "find_in_list h name [] = Inr None"
| "find_in_list h name (p # ps) =
     (case h p of None \<Rightarrow> Inl UseAfterFree
      | Some v \<Rightarrow> if vt_name v = name then Inr (Some p) else find_in_list h name ps)"

definition find_votable :: "voter_sys \<Rightarrow> string option \<Rightarrow> nat option kres" where
  "find_votable s no =
     (case no of None \<Rightarrow> Inr None | Some name \<Rightarrow> find_in_list (vs_heap s) name (votable_list s))"

text \<open>\<open>Inl e\<close> in the result of \<open>create_votable\<close> is \<open>ERR_PTR(e)\<close>.\<close>

definition create_votable ::
  "voter_sys \<Rightarrow> create_env \<Rightarrow> string option \<Rightarrow> int \<Rightarrow> bool \<Rightarrow> ((int + nat) \<times> voter_sys) kres" where
  "create_votable s env no votable_type callback_set =
     (case no of None \<Rightarrow> Inr (Inl (- EINVAL), s)
      | Some name \<Rightarrow> kbind (find_votable s no) (\<lambda>found.
          if found \<noteq> None then Inr (Inl (- EEXIST), s)
          else if \<not> debug_root s \<and> \<not> ce_debug_root env then Inr (Inl (- ENOMEM), s)
          else let s = s\<lparr>debug_root := True\<rparr>
          in if votable_type \<ge> NUM_VOTABLE_TYPES then Inr (Inl (- EINVAL), s)
          else if \<not> ce_kzalloc env then Inr (Inl (- ENOMEM), s)
          else if \<not> ce_kstrdup env then Inr (Inl (- ENOMEM), s)
          else let p = vs_next s;
              v = init_votable name votable_type callback_set;
              s1 = s\<lparr>vs_heap := (vs_heap s)(p \<mapsto> v), vs_next := Suc p,
                      votable_list := p # votable_list s\<rparr>;
              freed = s1\<lparr>vs_heap := (vs_heap s1)(p := None)\<rparr>
          in if \<not> ce_root env then Inr (Inl (- ENOMEM), freed)
          else if \<not> ce_status env then Inr (Inl (- EEXIST), freed)
          else if \<not> ce_force_val env then Inr (Inl (- EEXIST), freed)
          else if \<not> ce_force_active env then Inr (Inl (- EEXIST), freed)
          else Inr (Inr p, s1)))"

definition destroy_votable :: "voter_sys \<Rightarrow> nat option \<Rightarrow> voter_sys kres" where
  "destroy_votable s po =
     (case po of None \<Rightarrow> Inr s
      | Some p \<Rightarrow> if vs_heap s p = None then Inl UseAfterFree
          else Inr (s\<lparr>votable_list := remove1 p (votable_list s),
                      vs_heap := (vs_heap s)(p := None)\<rparr>))"

section \<open>The registry as a map from names\<close>

definition registry_ok :: "voter_sys \<Rightarrow> bool" where
  "registry_ok s \<longleftrightarrow>
     distinct (votable_list s) \<and> dom (vs_heap s) = set (votable_list s) \<and>
     (\<forall>p\<in>set (votable_list s). p < vs_next s) \<and>
     inj_on (\<lambda>p. vt_name (the (vs_heap s p))) (set (votable_list s))"

definition lookup_name :: "voter_sys \<Rightarrow> string \<Rightarrow> nat option" where
  "lookup_name s name =
     (case find_votable s (Some name) of Inr r \<Rightarrow> r | Inl _ \<Rightarrow> None)"

definition all_services :: create_env where
  "all_services = \<lparr>ce_debug_root = True, ce_kzalloc = True, ce_kstrdup = True, ce_root = True,
     ce_status = True, ce_force_val = True, ce_force_active = True\<rparr>"

text \<open>
  The interface clients rely on: names are looked up, added once and removed, and an
  operation on one name leaves every other name alone.
\<close>

locale name_registry =
  fixes invar :: "'s \<Rightarrow> bool"
    and look :: "'s \<Rightarrow> string \<Rightarrow> 'p option"
    and add :: "'s \<Rightarrow> string \<Rightarrow> 'p \<Rightarrow> 's \<Rightarrow> bool"
    and del :: "'s \<Rightarrow> 'p \<Rightarrow> 's \<Rightarrow> bool"
  assumes add_invar: "invar s \<Longrightarrow> add s n p s' \<Longrightarrow> invar s'"
    and add_look: "invar s \<Longrightarrow> add s n p s' \<Longrightarrow> look s' = (look s)(n \<mapsto> p)"
    and add_fresh: "invar s \<Longrightarrow> add s n p s' \<Longrightarrow> look s n = None"
    and del_invar: "invar s \<Longrightarrow> look s n = Some p \<Longrightarrow> del s p s' \<Longrightarrow> invar s'"
    and del_look: "invar s \<Longrightarrow> look s n = Some p \<Longrightarrow> del s p s' \<Longrightarrow> look s' = (look s)(n := None)"
begin

lemma add_twice_refused: "invar s \<Longrightarrow> add s n p s1 \<Longrightarrow> \<not> add s1 n q s2"
  using add_look add_fresh add_invar by (metis fun_upd_same option.distinct(1))

lemma add_then_del: "invar s \<Longrightarrow> add s n p s1 \<Longrightarrow> del s1 p s2 \<Longrightarrow> look s2 = look s \<and> invar s2"
proof -
  assume a: "invar s" "add s n p s1" "del s1 p s2"
  have l: "look s1 n = Some p" using add_look[OF a(1,2)] by simp
  have "look s2 = (look s)(n := None)"
    using del_look[OF add_invar[OF a(1,2)] l a(3)] add_look[OF a(1,2)] by simp
  then show "look s2 = look s \<and> invar s2"
    using add_fresh[OF a(1,2)] del_invar[OF add_invar[OF a(1,2)] l a(3)]
    by (simp add: fun_upd_idem)
qed

end

lemma find_in_list_ok:
  assumes "\<forall>p\<in>set ps. h p \<noteq> None"
  shows "find_in_list h name ps = Inr (List.find (\<lambda>p. vt_name (the (h p)) = name) ps)"
  using assms by (induction ps) auto

lemma find_votable_ok:
  assumes "registry_ok s"
  shows "find_votable s (Some n) = Inr (List.find (\<lambda>p. vt_name (the (vs_heap s p)) = n) (votable_list s))"
  using assms by (simp add: find_votable_def registry_ok_def find_in_list_ok domIff flip: not_None_eq)
     (metis domIff find_in_list_ok)

lemma lookup_name_Some:
  assumes "registry_ok s"
  shows "lookup_name s n = Some p \<longleftrightarrow> p \<in> set (votable_list s) \<and> vt_name (the (vs_heap s p)) = n"
proof -
  have inj: "inj_on (\<lambda>p. vt_name (the (vs_heap s p))) (set (votable_list s))"
    using assms by (simp add: registry_ok_def)
  have "List.find (\<lambda>p. vt_name (the (vs_heap s p)) = n) (votable_list s) = Some p \<longleftrightarrow>
      p \<in> set (votable_list s) \<and> vt_name (the (vs_heap s p)) = n"
  proof
    assume "List.find (\<lambda>p. vt_name (the (vs_heap s p)) = n) (votable_list s) = Some p"
    then show "p \<in> set (votable_list s) \<and> vt_name (the (vs_heap s p)) = n"
      by (auto simp: find_Some_iff)
  next
    assume p: "p \<in> set (votable_list s) \<and> vt_name (the (vs_heap s p)) = n"
    then obtain q where q: "List.find (\<lambda>p. vt_name (the (vs_heap s p)) = n) (votable_list s) = Some q"
      by (cases "List.find (\<lambda>p. vt_name (the (vs_heap s p)) = n) (votable_list s)")
        (auto simp: find_None_iff)
    then have "q \<in> set (votable_list s)" "vt_name (the (vs_heap s q)) = n" by (auto simp: find_Some_iff)
    then have "q = p" using p inj by (auto dest: inj_onD)
    then show "List.find (\<lambda>p. vt_name (the (vs_heap s p)) = n) (votable_list s) = Some p" using q by simp
  qed
  then show ?thesis using find_votable_ok[OF assms] by (simp add: lookup_name_def)
qed

definition created :: "voter_sys \<Rightarrow> string \<Rightarrow> nat \<Rightarrow> voter_sys \<Rightarrow> bool" where
  "created s n p s' \<longleftrightarrow> (\<exists>env ty cbk. create_votable s env (Some n) ty cbk = Inr (Inr p, s'))"

definition destroyed :: "voter_sys \<Rightarrow> nat \<Rightarrow> voter_sys \<Rightarrow> bool" where
  "destroyed s p s' \<longleftrightarrow> destroy_votable s (Some p) = Inr s'"

lemma created_cases:
  assumes "registry_ok s" "created s n p s'"
  obtains ty cbk where "lookup_name s n = None" "p = vs_next s"
    "s' = s\<lparr>debug_root := True, vs_heap := (vs_heap s)(p \<mapsto> init_votable n ty cbk), vs_next := Suc p,
            votable_list := p # votable_list s\<rparr>"
proof -
  obtain env ty cbk where c: "create_votable s env (Some n) ty cbk = Inr (Inr p, s')"
    using assms(2) by (auto simp: created_def)
  then have "lookup_name s n = None" "p = vs_next s"
    "s' = s\<lparr>debug_root := True, vs_heap := (vs_heap s)(p \<mapsto> init_votable n ty cbk), vs_next := Suc p,
            votable_list := p # votable_list s\<rparr>"
    using find_votable_ok[OF assms(1), of n]
    by (auto simp: create_votable_def Let_def lookup_name_def split: if_splits)
  then show ?thesis by (rule that)
qed

lemma created_ok:
  assumes "registry_ok s" "created s n p s'"
  shows "registry_ok s'" and "lookup_name s' = (lookup_name s)(n \<mapsto> p)" and "lookup_name s n = None"
proof -
  obtain ty cbk where c: "lookup_name s n = None" "p = vs_next s"
    "s' = s\<lparr>debug_root := True, vs_heap := (vs_heap s)(p \<mapsto> init_votable n ty cbk), vs_next := Suc p,
            votable_list := p # votable_list s\<rparr>"
    using created_cases[OF assms] .
  have fresh: "p \<notin> set (votable_list s)" using assms(1) c(2) by (auto simp: registry_ok_def)
  have nn: "\<forall>q\<in>set (votable_list s). vt_name (the (vs_heap s q)) \<noteq> n"
    using c(1) lookup_name_Some[OF assms(1), of n] by auto
  have nm: "vt_name (init_votable n ty cbk) = n" by (simp add: init_votable_def)
  show ok: "registry_ok s'"
    using assms(1) c fresh nn nm
    by (auto simp: registry_ok_def inj_on_def less_Suc_eq)
  show "lookup_name s n = None" by (rule c(1))
  show "lookup_name s' = (lookup_name s)(n \<mapsto> p)"
  proof
    fix m
    have "lookup_name s' m = Some q \<longleftrightarrow> ((lookup_name s)(n \<mapsto> p)) m = Some q" for q
      using lookup_name_Some[OF ok, of m q] lookup_name_Some[OF assms(1), of m q] c fresh nn nm
      by auto
    then show "lookup_name s' m = ((lookup_name s)(n \<mapsto> p)) m"
      by (metis not_Some_eq)
  qed
qed

lemma destroyed_ok:
  assumes "registry_ok s" "lookup_name s n = Some p" "destroyed s p s'"
  shows "registry_ok s'" and "lookup_name s' = (lookup_name s)(n := None)"
proof -
  have p: "p \<in> set (votable_list s)" "vt_name (the (vs_heap s p)) = n"
    using lookup_name_Some[OF assms(1)] assms(2) by auto
  have s': "s' = s\<lparr>votable_list := remove1 p (votable_list s), vs_heap := (vs_heap s)(p := None)\<rparr>"
    using assms(3) by (auto simp: destroyed_def destroy_votable_def split: if_splits)
  have set': "set (remove1 p (votable_list s)) = set (votable_list s) - {p}"
    using assms(1) by (simp add: registry_ok_def)
  show ok: "registry_ok s'"
    using assms(1) set' by (auto simp: registry_ok_def s' inj_on_def)
  have uniq: "q \<in> set (votable_list s) \<Longrightarrow> vt_name (the (vs_heap s q)) = n \<Longrightarrow> q = p" for q
    using assms(1) p by (auto simp: registry_ok_def dest: inj_onD)
  show "lookup_name s' = (lookup_name s)(n := None)"
  proof
    fix m
    have "lookup_name s' m = Some q \<longleftrightarrow> ((lookup_name s)(n := None)) m = Some q" for q
    proof -
      have "lookup_name s' m = Some q \<longleftrightarrow>
          q \<in> set (votable_list s) \<and> q \<noteq> p \<and> vt_name (the (vs_heap s q)) = m"
        unfolding lookup_name_Some[OF ok] using set' by (auto simp: s')
      also have "\<dots> \<longleftrightarrow> m \<noteq> n \<and> lookup_name s m = Some q"
        unfolding lookup_name_Some[OF assms(1)] using uniq p by blast
      finally show ?thesis by simp
    qed
    then show "lookup_name s' m = ((lookup_name s)(n := None)) m" by (metis not_Some_eq)
  qed
qed

interpretation votables: name_registry registry_ok lookup_name created destroyed
  by unfold_locales (fact created_ok destroyed_ok)+


section \<open>Properties\<close>

lemma create_votable_all_services:
  assumes "registry_ok s" "lookup_name s n = None" "ty < NUM_VOTABLE_TYPES"
  shows "\<exists>s'. create_votable s all_services (Some n) ty cbk = Inr (Inr (vs_next s), s')"
  using assms find_votable_ok[OF assms(1), of n]
  by (auto simp: create_votable_def Let_def all_services_def lookup_name_def)

text \<open>
  Creation and destruction: creating a votable under an unused name with every kernel
  service available succeeds and finds it under that name only, keeps the registry
  well formed, and destroying it restores every lookup.
\<close>

theorem create_destroy:
  assumes "registry_ok s" "lookup_name s n = None" "ty < NUM_VOTABLE_TYPES"
  shows "\<exists>p s1 s2. create_votable s all_services (Some n) ty cbk = Inr (Inr p, s1)
    \<and> registry_ok s1 \<and> lookup_name s1 = (lookup_name s)(n \<mapsto> p)
    \<and> destroy_votable s1 (Some p) = Inr s2 \<and> registry_ok s2 \<and> lookup_name s2 = lookup_name s"
proof -
  obtain s1 where c: "create_votable s all_services (Some n) ty cbk = Inr (Inr (vs_next s), s1)"
    using create_votable_all_services[OF assms] by blast
  then have cr: "created s n (vs_next s) s1" by (auto simp: created_def)
  note s1 = votables.add_invar[OF assms(1) cr] votables.add_look[OF assms(1) cr]
  have "vs_next s \<in> set (votable_list s1)"
    using lookup_name_Some[OF s1(1), of n "vs_next s"] s1(2) by simp
  then have "vs_heap s1 (vs_next s) \<noteq> None" using s1(1) by (auto simp: registry_ok_def)
  then obtain s2 where d: "destroy_votable s1 (Some (vs_next s)) = Inr s2"
    by (auto simp: destroy_votable_def)
  then have "destroyed s1 (vs_next s) s2" by (simp add: destroyed_def)
  then show ?thesis using c s1 d votables.add_then_del[OF assms(1) cr] by blast
qed

definition empty_sys :: voter_sys where
  "empty_sys = \<lparr>votable_list = [], vs_heap = Map.empty, vs_next = 1, debug_root = False\<rparr>"

lemma empty_sys_ok: "registry_ok empty_sys" and empty_sys_lookup: "lookup_name empty_sys n = None"
  by (simp_all add: empty_sys_def registry_ok_def lookup_name_def find_votable_def)

theorem create_destroy_witness:
  "\<exists>p s1 s2. create_votable empty_sys all_services (Some ''FCC'') VOTE_MIN True = Inr (Inr p, s1)
    \<and> registry_ok s1 \<and> lookup_name s1 = (lookup_name empty_sys)(''FCC'' \<mapsto> p)
    \<and> destroy_votable s1 (Some p) = Inr s2 \<and> registry_ok s2
    \<and> lookup_name s2 = lookup_name empty_sys"
  by (rule create_destroy[OF empty_sys_ok empty_sys_lookup]) simp

text \<open>
  The error paths after \<open>list_add\<close> free the votable without \<open>list_del\<close>: when one of
  the four \<open>debugfs\<close> calls fails, \<open>create_votable\<close> reports an error and the next search
  for any name walks freed memory.
\<close>

theorem create_error_dangles:
  assumes "registry_ok s" "lookup_name s n = None" "ty < NUM_VOTABLE_TYPES"
    and "ce_debug_root env" "ce_kzalloc env" "ce_kstrdup env"
    and "\<not> (ce_root env \<and> ce_status env \<and> ce_force_val env \<and> ce_force_active env)"
  shows "\<exists>e s'. create_votable s env (Some n) ty cbk = Inr (Inl e, s') \<and> e < 0
    \<and> (\<forall>m. find_votable s' (Some m) = Inl UseAfterFree)"
  using assms find_votable_ok[OF assms(1), of n]
  by (auto simp: create_votable_def Let_def lookup_name_def find_votable_def[of "_\<lparr>vs_heap := _\<rparr>"])

theorem create_error_dangles_witness:
  "\<exists>e s'. create_votable empty_sys (all_services\<lparr>ce_status := False\<rparr>) (Some ''FCC'') VOTE_MIN True =
      Inr (Inl e, s') \<and> e < 0 \<and> (\<forall>m. find_votable s' (Some m) = Inl UseAfterFree)"
  by (rule create_error_dangles[OF empty_sys_ok empty_sys_lookup]) (simp_all add: all_services_def)

end
