(* ===== verification/Charger_Data.thy ===== *)
theory Charger_Data
  imports MMI_Prelude
begin

text \<open>
  The data of the common charger driver, \<open>src/drivers/power/mmi_charger/mmi_charger.c\<close>
  and \<open>mmi_charger.h\<close>: one record per struct, one datatype per enum. Pointers between
  structures are kept as addresses, because several chargers share one battery pack: a
  charger is named by \<open>ch_id\<close> and a pack by \<open>bp_id\<close>; \<open>battery\<close> of a charger,
  \<open>paired_batt\<close> of a pack and \<open>info\<close> of a pack (which points to the \<open>batt_info\<close> of a
  charger) are such addresses. Fields used only for logging, for kernel bookkeeping
  (locks, list links, device handles) or as buffers of a notification are left out.
\<close>

section \<open>Constants\<close>

abbreviation (input) HYST_STEP_MV :: int where "HYST_STEP_MV \<equiv> 50"
abbreviation (input) DEMO_MODE_HYS_SOC :: int where "DEMO_MODE_HYS_SOC \<equiv> 5"
abbreviation (input) WARM_TEMP :: int where "WARM_TEMP \<equiv> 45"
abbreviation (input) COOL_TEMP :: int where "COOL_TEMP \<equiv> 0"
abbreviation (input) HEARTBEAT_DELAY_MS :: int where "HEARTBEAT_DELAY_MS \<equiv> 60000"
abbreviation (input) HEARTBEAT_FACTORY_MS :: int where "HEARTBEAT_FACTORY_MS \<equiv> 1000"
abbreviation (input) HEARTBEAT_DISCHARGE_MS :: int where "HEARTBEAT_DISCHARGE_MS \<equiv> 100000"
abbreviation (input) MIN_TEMP_C :: int where "MIN_TEMP_C \<equiv> - 20"
abbreviation (input) MAX_TEMP_C :: int where "MAX_TEMP_C \<equiv> 60"
abbreviation (input) MIN_MAX_TEMP_C :: int where "MIN_MAX_TEMP_C \<equiv> 47"
abbreviation (input) HYSTERESIS_DEGC :: int where "HYSTERESIS_DEGC \<equiv> 2"

text \<open>\<open>enum mmi_temp_zones\<close>: 0 to 9 are reserved for entries of the zone table.\<close>

abbreviation (input) MAX_NUM_TEMP_ZONE :: int where "MAX_NUM_TEMP_ZONE \<equiv> 10"
abbreviation (input) ZONE_FIRST :: int where "ZONE_FIRST \<equiv> 0"
abbreviation (input) ZONE_HOT :: int where "ZONE_HOT \<equiv> 10"
abbreviation (input) ZONE_COLD :: int where "ZONE_COLD \<equiv> 11"
abbreviation (input) ZONE_NONE :: int where "ZONE_NONE \<equiv> 12"

text \<open>\<open>MMI_POWER_SUPPLY_CHARGE_RATE_*\<close>.\<close>

abbreviation (input) RATE_NONE :: int where "RATE_NONE \<equiv> 0"
abbreviation (input) RATE_NORMAL :: int where "RATE_NORMAL \<equiv> 1"
abbreviation (input) RATE_WEAK :: int where "RATE_WEAK \<equiv> 2"
abbreviation (input) RATE_TURBO :: int where "RATE_TURBO \<equiv> 3"
abbreviation (input) RATE_TURBO_30W :: int where "RATE_TURBO_30W \<equiv> 4"
abbreviation (input) RATE_HYPER :: int where "RATE_HYPER \<equiv> 5"

text \<open>The kernel's \<open>POWER_SUPPLY_STATUS_*\<close> and \<open>POWER_SUPPLY_HEALTH_*\<close>.\<close>

abbreviation (input) PS_STATUS_UNKNOWN :: int where "PS_STATUS_UNKNOWN \<equiv> 0"
abbreviation (input) PS_STATUS_CHARGING :: int where "PS_STATUS_CHARGING \<equiv> 1"
abbreviation (input) PS_STATUS_DISCHARGING :: int where "PS_STATUS_DISCHARGING \<equiv> 2"
abbreviation (input) PS_STATUS_NOT_CHARGING :: int where "PS_STATUS_NOT_CHARGING \<equiv> 3"
abbreviation (input) PS_STATUS_FULL :: int where "PS_STATUS_FULL \<equiv> 4"
abbreviation (input) PS_HEALTH_UNKNOWN :: int where "PS_HEALTH_UNKNOWN \<equiv> 0"
abbreviation (input) PS_HEALTH_GOOD :: int where "PS_HEALTH_GOOD \<equiv> 1"
abbreviation (input) PS_HEALTH_OVERHEAT :: int where "PS_HEALTH_OVERHEAT \<equiv> 2"
abbreviation (input) PS_HEALTH_COLD :: int where "PS_HEALTH_COLD \<equiv> 6"

section \<open>Structures\<close>

record mmi_temp_zone =
  temp_c :: int
  norm_mv :: int
  fcc_max_ma :: int
  fcc_norm_ma :: int

record mmi_ffc_zone =
  ffc_temp :: int
  ffc_fv :: int
  ffc_chrg_iterm :: int
  ffc_fg_iterm :: int

datatype mmi_chrg_step =
  STEP_MAX | STEP_NORM | STEP_FULL | STEP_FLOAT | STEP_DEMO | STEP_STOP | STEP_NONE

datatype charging_limit_modes = CHARGING_LIMIT_OFF | CHARGING_LIMIT_RUN | CHARGING_LIMIT_UNKNOWN

record mmi_battery_info =
  batt_mv :: int
  batt_ma :: int
  batt_soc :: int
  batt_temp :: int
  batt_status :: int
  batt_full_uah :: int
  batt_design_uah :: int
  batt_chg_counter :: int
  batt_fv_mv :: int
  batt_fcc_ma :: int
  batt_sn :: string

record mmi_charger_info =
  chrg_mv :: int
  chrg_ma :: int
  chrg_type :: int
  chrg_pmax_mw :: int
  chrg_present :: int
  chrg_otg_enabled :: bool
  ci_lpd_present :: int
  ci_vbus_present :: int

record mmi_charger_cfg =
  target_fcc :: int
  target_fv :: int
  cfg_fg_iterm :: int
  cfg_chrg_iterm :: int
  full_charged :: bool
  charging_reset :: bool
  taper_kickoff :: bool
  charging_disable :: bool
  charger_suspend :: bool

record mmi_charger_constraint =
  con_demo_mode :: int
  con_factory_mode :: bool
  con_factory_version :: bool
  con_dcp_pmax :: int
  con_hvdcp_pmax :: int
  con_pd_pmax :: int
  con_wls_pmax :: int

record mmi_charger_profile =
  noffc_fg_iterm :: int
  noffc_chrg_iterm :: int
  noffc_max_fv_mv :: int
  shutdown_empty_vbat_mv :: int
  fg_iterm :: int
  chrg_iterm :: int
  max_fv_mv :: int
  max_fcc_ma :: int
  vfloat_comp_mv :: int
  demo_fv_mv :: int
  num_temp_zones :: int
  temp_zones :: "mmi_temp_zone list option"
  num_ffc_zones :: int
  ffc_zones :: "mmi_ffc_zone list option"

text \<open>\<open>temp_zone\<close> points into the zone table, which is never written: it is the entry.\<close>

record mmi_charger_status =
  demo_full_soc :: int
  demo_chrg_suspend :: bool
  temp_zone :: "mmi_temp_zone option"
  pres_temp_zone :: int
  pres_chrg_step :: mmi_chrg_step
  charging_limit_mode :: charging_limit_modes

record mmi_battery_pack =
  bp_id :: nat
  health :: int
  bp_status :: int
  age :: int
  cycles :: int
  pending :: int
  reference :: int
  charger_rate :: int
  soc_cycles_start :: int
  paired_id :: "32 word"
  paired_batt :: "nat option"
  info :: nat
  bp_sn :: string

text \<open>
  A low-level charger driver is code outside this driver: it is identified by \<open>drv_id\<close>
  (its address) and its presence bits say which callbacks are not NULL; \<open>has_mandatory\<close>
  stands for the five callbacks the registration insists on.
\<close>

record mmi_charger_driver =
  drv_id :: nat
  has_mandatory :: bool
  has_charge_halt :: bool
  has_notify_paired :: bool

record mmi_charger =
  ch_id :: nat
  profile :: mmi_charger_profile
  status :: mmi_charger_status
  driver :: mmi_charger_driver
  batt_info :: mmi_battery_info
  chg_info :: mmi_charger_info
  cfg :: mmi_charger_cfg
  con :: mmi_charger_constraint
  battery :: nat

abbreviation (input) MMI_VOTE_NUM_MAX :: nat where "MMI_VOTE_NUM_MAX \<equiv> 32"

record mmi_vote =
  vote_votes :: "int list"
  voters :: "string option list"

record mmi_charger_chip =
  charger_list :: "mmi_charger list"
  battery_list :: "mmi_battery_pack list"
  batt_psy :: bool
  combo_cycles :: int
  combo_soc :: int
  combo_age :: int
  combo_voltage_mv :: int
  combo_current_ma :: int
  combo_status :: int
  combo_health :: int
  combo_temp :: int
  combo_charge_counter :: int
  charge_full :: int
  charge_full_design :: int
  init_cycles :: int
  max_charger_rate :: int
  vbus_present :: bool
  lpd_present :: bool
  power_watt :: int
  suspended :: "32 word"
  demo_mode :: int
  factory_mode :: bool
  factory_version :: bool
  factory_kill_armed :: bool
  force_charger_disabled :: bool
  force_charging_enabled :: bool
  dcp_pmax :: int
  hvdcp_pmax :: int
  pd_pmax :: int
  wls_pmax :: int
  max_chrg_temp :: int
  enable_charging_limit :: bool
  enable_factory_poweroff :: bool
  start_factory_kill_disabled :: bool
  upper_limit_capacity :: int
  lower_limit_capacity :: int
  heartbeat_interval :: int
  suspend_charger_vote :: mmi_vote
  disable_charging_vote :: mmi_vote
  factory_kill_debounce_ms :: int
  empty_vbat_shutdown_triggered :: bool
  heartbeat_dischg_ms :: int
  ibat_calc_alignment_time :: int

section \<open>Zeroed structures\<close>

text \<open>
  What \<open>devm_kzalloc\<close> and \<open>kzalloc\<close> return for these structures: every field zero, every
  pointer NULL, every enum its first constant.
\<close>

definition zero_battery_info :: mmi_battery_info where
  "zero_battery_info =
     \<lparr>batt_mv = 0, batt_ma = 0, batt_soc = 0, batt_temp = 0, batt_status = 0, batt_full_uah = 0, batt_design_uah = 0, batt_chg_counter = 0, batt_fv_mv = 0, batt_fcc_ma = 0, batt_sn =
      []\<rparr>"

definition zero_charger_info :: mmi_charger_info where
  "zero_charger_info =
     \<lparr>chrg_mv = 0, chrg_ma = 0, chrg_type = 0, chrg_pmax_mw = 0, chrg_present = 0,
      chrg_otg_enabled = False, ci_lpd_present = 0, ci_vbus_present = 0\<rparr>"

definition zero_charger_cfg :: mmi_charger_cfg where
  "zero_charger_cfg =
     \<lparr>target_fcc = 0, target_fv = 0, cfg_fg_iterm = 0, cfg_chrg_iterm = 0, full_charged =
      False, charging_reset = False, taper_kickoff = False, charging_disable = False,
      charger_suspend = False\<rparr>"

definition zero_charger_constraint :: mmi_charger_constraint where
  "zero_charger_constraint =
     \<lparr>con_demo_mode = 0, con_factory_mode = False, con_factory_version = False, con_dcp_pmax =
      0, con_hvdcp_pmax = 0, con_pd_pmax = 0, con_wls_pmax = 0\<rparr>"

definition zero_charger_profile :: mmi_charger_profile where
  "zero_charger_profile =
     \<lparr>noffc_fg_iterm = 0, noffc_chrg_iterm = 0, noffc_max_fv_mv = 0, shutdown_empty_vbat_mv =
      0, fg_iterm = 0, chrg_iterm = 0, max_fv_mv = 0, max_fcc_ma = 0, vfloat_comp_mv = 0,
      demo_fv_mv = 0, num_temp_zones = 0, temp_zones = None, num_ffc_zones = 0, ffc_zones =
      None\<rparr>"

definition zero_charger_status :: mmi_charger_status where
  "zero_charger_status =
     \<lparr>demo_full_soc = 0, demo_chrg_suspend = False, temp_zone = None, pres_temp_zone = 0,
      pres_chrg_step = STEP_MAX, charging_limit_mode = CHARGING_LIMIT_OFF\<rparr>"

definition zero_battery_pack :: mmi_battery_pack where
  "zero_battery_pack =
     \<lparr>bp_id = 0, health = 0, bp_status = 0, age = 0, cycles = 0, pending = 0, reference = 0,
      charger_rate = 0, soc_cycles_start = 0, paired_id = 0, paired_batt = None, info = 0,
      bp_sn = []\<rparr>"

definition zero_charger_driver :: mmi_charger_driver where
  "zero_charger_driver =
     \<lparr>drv_id = 0, has_mandatory = False, has_charge_halt = False, has_notify_paired = False\<rparr>"

definition zero_charger :: mmi_charger where
  "zero_charger =
     \<lparr>ch_id = 0, profile = zero_charger_profile, status = zero_charger_status, driver =
      zero_charger_driver, batt_info = zero_battery_info, chg_info = zero_charger_info, cfg =
      zero_charger_cfg, con = zero_charger_constraint, battery = 0\<rparr>"

definition zero_vote :: mmi_vote where
  "zero_vote =
     \<lparr>vote_votes = replicate MMI_VOTE_NUM_MAX 0, voters = replicate MMI_VOTE_NUM_MAX None\<rparr>"

definition zero_charger_chip :: mmi_charger_chip where
  "zero_charger_chip =
     \<lparr>charger_list = [], battery_list = [], batt_psy = False, combo_cycles = 0, combo_soc = 0,
      combo_age = 0, combo_voltage_mv = 0, combo_current_ma = 0, combo_status = 0,
      combo_health = 0, combo_temp = 0, combo_charge_counter = 0, charge_full = 0,
      charge_full_design = 0, init_cycles = 0, max_charger_rate = 0, vbus_present = False,
      lpd_present = False, power_watt = 0, suspended = 0, demo_mode = 0, factory_mode = False,
      factory_version = False, factory_kill_armed = False, force_charger_disabled = False,
      force_charging_enabled = False, dcp_pmax = 0, hvdcp_pmax = 0, pd_pmax = 0, wls_pmax = 0,
      max_chrg_temp = 0, enable_charging_limit = False, enable_factory_poweroff = False,
      start_factory_kill_disabled = False, upper_limit_capacity = 0, lower_limit_capacity = 0,
      heartbeat_interval = 0, suspend_charger_vote = zero_vote, disable_charging_vote =
      zero_vote, factory_kill_debounce_ms = 0, empty_vbat_shutdown_triggered = False,
      heartbeat_dischg_ms = 0, ibat_calc_alignment_time = 0\<rparr>"

lemmas zero_defs = zero_battery_info_def zero_charger_info_def zero_charger_cfg_def
  zero_charger_constraint_def zero_charger_profile_def zero_charger_status_def
  zero_battery_pack_def zero_charger_driver_def zero_charger_def zero_vote_def
  zero_charger_chip_def

text \<open>
  What a driver's callbacks answer during one pass of the heartbeat: the two info calls
  fill in a structure, \<open>is_charge_tapered\<close> is asked with a current, \<open>is_charge_halt\<close>
  without. These are parameters of the model, as is \<open>recharger_hawao_mode\<close>, the build option
  \<open>CONFIG_MMI_RECHARGER_HAWAO_MODE\<close> (\<open>Android.mk\<close> sets it for some products).
\<close>

record driver_env =
  get_batt_info :: "mmi_battery_info \<Rightarrow> mmi_battery_info"
  get_chg_info :: "mmi_charger_info \<Rightarrow> mmi_charger_info"
  is_charge_tapered :: "int \<Rightarrow> bool"
  is_charge_halt :: bool
  recharger_hawao_mode :: bool

text \<open>The calls the charger makes on a driver, in order, with what it passes.\<close>

datatype drv_call =
  NotifyPaired nat mmi_battery_info
| SetConstraint nat mmi_charger_constraint
| ConfigCharge nat mmi_charger_cfg

end
