(* ===== verification/Charger_Zones.thy ===== *)
theory Charger_Zones
  imports Charger_Data
begin

text \<open>
  Temperature zones of \<open>mmi_charger.c\<close>: the search for the next colder and hotter entry
  of the zone table, the choice between entries of one temperature by battery voltage,
  the state machine \<open>mmi_get_temp_zone\<close> with its hysteresis, and the flash-fast-charge
  profile switch \<open>mmi_update_charger_profile\<close>. A zone is an index into the table or one
  of \<open>ZONE_HOT\<close>, \<open>ZONE_COLD\<close>, \<open>ZONE_NONE\<close>. A read of the table outside its bounds is the
  fault \<open>OutOfBounds\<close>. The driver sets \<open>num_temp_zones\<close> to the number of entries when it
  allocates the table, so the length of the list stands for it.
\<close>

section \<open>Zone searches\<close>

text \<open>
  The loop shared by the three searches: among the indices in \<open>js\<close> whose entry has the
  temperature \<open>t\<close>, take each in turn and stop at the first whose \<open>norm_mv\<close> is above the
  battery voltage.
\<close>

fun pick_by_voltage :: "mmi_temp_zone list \<Rightarrow> int \<Rightarrow> int \<Rightarrow> nat list \<Rightarrow> int \<Rightarrow> int" where
  "pick_by_voltage zones t vbat [] target = target"
| "pick_by_voltage zones t vbat (i # js) target =
     (if t = temp_c (zones ! i)
      then if vbat < norm_mv (zones ! i) then int i
           else pick_by_voltage zones t vbat js (int i)
      else pick_by_voltage zones t vbat js target)"

definition zone_index :: "mmi_temp_zone list \<Rightarrow> int \<Rightarrow> bool" where
  "zone_index zones z \<longleftrightarrow> 0 \<le> z \<and> z < int (length zones)"

definition colder_target :: "mmi_temp_zone list \<Rightarrow> int \<Rightarrow> nat \<Rightarrow> int" where
  "colder_target zones vbat colder_zone =
     pick_by_voltage zones (temp_c (zones ! colder_zone)) vbat [0..<colder_zone] (int colder_zone)"

definition mmi_find_colder_temp_zone :: "int \<Rightarrow> int \<Rightarrow> mmi_temp_zone list \<Rightarrow> int kres" where
  "mmi_find_colder_temp_zone pres_zone vbat zones =
     (if pres_zone = ZONE_HOT
      then if zones = [] then Inr (- 1)
           else Inr (colder_target zones vbat (length zones - 1))
      else if pres_zone = ZONE_COLD then Inr ZONE_COLD
      else if \<not> zone_index zones pres_zone then Inl OutOfBounds
      else if temp_c (zones ! nat pres_zone) = temp_c (zones ! 0) then Inr ZONE_COLD
      else case List.find (\<lambda>i. temp_c (zones ! nat pres_zone) > temp_c (zones ! i))
                 (rev [0..<nat pres_zone]) of
             None \<Rightarrow> Inr ZONE_COLD
           | Some colder_zone \<Rightarrow> Inr (colder_target zones vbat colder_zone))"

definition hotter_target :: "mmi_temp_zone list \<Rightarrow> int \<Rightarrow> nat \<Rightarrow> int" where
  "hotter_target zones vbat hotter_zone =
     pick_by_voltage zones (temp_c (zones ! hotter_zone)) vbat [hotter_zone..<length zones]
       (int hotter_zone)"

definition mmi_find_hotter_temp_zone :: "int \<Rightarrow> int \<Rightarrow> mmi_temp_zone list \<Rightarrow> int kres" where
  "mmi_find_hotter_temp_zone pres_zone vbat zones =
     (if pres_zone = ZONE_COLD then Inr (hotter_target zones vbat 0)
      else if pres_zone = ZONE_HOT then Inr ZONE_HOT
      else if \<not> zone_index zones pres_zone then Inl OutOfBounds
      else if temp_c (zones ! nat pres_zone) = temp_c (zones ! (length zones - 1)) then Inr ZONE_HOT
      else case List.find (\<lambda>i. temp_c (zones ! nat pres_zone) < temp_c (zones ! i))
                 [Suc (nat pres_zone)..<length zones] of
             None \<Rightarrow> Inr ZONE_HOT
           | Some hotter_zone \<Rightarrow> Inr (hotter_target zones vbat hotter_zone))"

definition mmi_refresh_temp_zone :: "int \<Rightarrow> int \<Rightarrow> mmi_temp_zone list \<Rightarrow> int kres" where
  "mmi_refresh_temp_zone pres_zone vbat zones =
     (if pres_zone = ZONE_COLD \<or> pres_zone = ZONE_HOT then Inr pres_zone
      else if \<not> zone_index zones pres_zone then Inl OutOfBounds
      else Inr (pick_by_voltage zones (temp_c (zones ! nat pres_zone)) vbat [0..<length zones] pres_zone))"

section \<open>The zone state machine\<close>

definition zone_max_temp :: "mmi_charger_chip \<Rightarrow> mmi_temp_zone list option \<Rightarrow> int kres" where
  "zone_max_temp chip zo =
     (if max_chrg_temp chip \<ge> MIN_MAX_TEMP_C then Inr (max_chrg_temp chip)
      else case zo of None \<Rightarrow> Inr MAX_TEMP_C
      | Some zones \<Rightarrow> if zones = [] then Inl OutOfBounds else Inr (temp_c (last zones)))"

text \<open>The first choice, from \<open>ZONE_NONE\<close>: the hottest entry at or below the temperature.\<close>

definition zone_first_choice :: "int \<Rightarrow> int \<Rightarrow> mmi_temp_zone list \<Rightarrow> int kres" where
  "zone_first_choice tc vbat zones =
     (case List.find (\<lambda>i. tc \<ge> temp_c (zones ! i)) (rev [0..<length zones]) of
        Some i \<Rightarrow> mmi_find_hotter_temp_zone (int i) vbat zones
      | None \<Rightarrow> if tc < MIN_TEMP_C then Inr ZONE_COLD
                else mmi_find_hotter_temp_zone ZONE_COLD vbat zones)"

text \<open>A step from an entry of the table.\<close>

definition zone_step_entry :: "int \<Rightarrow> int \<Rightarrow> int \<Rightarrow> int \<Rightarrow> mmi_temp_zone list \<Rightarrow> int kres" where
  "zone_step_entry prev_zone tc vbat max_temp zones =
     kbind (mmi_find_hotter_temp_zone prev_zone vbat zones) (\<lambda>hotter_zone.
     kbind (mmi_find_colder_temp_zone prev_zone vbat zones) (\<lambda>colder_zone.
       let prev = zones ! nat prev_zone;
         hotter_fcc = (if hotter_zone = ZONE_HOT then 0 else fcc_max_ma (zones ! nat hotter_zone));
         hotter_t = temp_c prev;
         colder_fcc = (if colder_zone = ZONE_COLD then 0 else fcc_max_ma (zones ! nat colder_zone));
         colder_t = (if colder_zone = ZONE_COLD then MIN_TEMP_C else temp_c (zones ! nat colder_zone));
         hotter_t = (if fcc_max_ma prev < hotter_fcc then hotter_t + HYSTERESIS_DEGC else hotter_t);
         colder_t = (if fcc_max_ma prev < colder_fcc then colder_t - HYSTERESIS_DEGC else colder_t)
       in if tc < MIN_TEMP_C then Inr ZONE_COLD
          else if tc \<ge> max_temp then Inr ZONE_HOT
          else if tc \<ge> hotter_t then Inr hotter_zone
          else if tc < colder_t then Inr colder_zone
          else mmi_refresh_temp_zone prev_zone vbat zones))"

definition next_temp_zone ::
  "int \<Rightarrow> int \<Rightarrow> int \<Rightarrow> int \<Rightarrow> mmi_temp_zone list option \<Rightarrow> int kres" where
  "next_temp_zone prev_zone tc vbat max_temp zo =
     (let num_zones = (case zo of None \<Rightarrow> 0 | Some zones \<Rightarrow> length zones);
          zones = (case zo of None \<Rightarrow> [] | Some zones \<Rightarrow> zones)
      in if prev_zone = ZONE_NONE \<and> zo \<noteq> None then zone_first_choice tc vbat zones
      else if prev_zone = ZONE_COLD then
        if tc \<ge> MIN_TEMP_C + HYSTERESIS_DEGC
        then if num_zones = 0 then Inr ZONE_FIRST else mmi_find_hotter_temp_zone prev_zone vbat zones
        else Inr prev_zone
      else if prev_zone = ZONE_HOT then
        if tc \<le> max_temp - HYSTERESIS_DEGC
        then if num_zones = 0 then Inr ZONE_FIRST else mmi_find_colder_temp_zone prev_zone vbat zones
        else Inr prev_zone
      else if zo \<noteq> None then zone_step_entry prev_zone tc vbat max_temp zones
      else if tc < MIN_TEMP_C then Inr ZONE_COLD
      else if tc \<ge> max_temp then Inr ZONE_HOT
      else Inr ZONE_FIRST)"

definition mmi_get_temp_zone :: "mmi_charger_chip \<Rightarrow> mmi_charger \<Rightarrow> mmi_charger kres" where
  "mmi_get_temp_zone chip charger =
     (let zo = temp_zones (profile charger);
          prev_zone = pres_temp_zone (status charger)
      in kbind (zone_max_temp chip zo) (\<lambda>max_temp.
         kbind (next_temp_zone prev_zone (batt_temp (batt_info charger)) (batt_mv (batt_info charger))
                  max_temp zo) (\<lambda>z.
           let tz = (case zo of None \<Rightarrow> Inr None
                     | Some zones \<Rightarrow> if z = ZONE_COLD \<or> z = ZONE_HOT then Inr None
                         else if zone_index zones z then Inr (Some (zones ! nat z))
                         else Inl OutOfBounds)
           in kbind tz (\<lambda>p. Inr (charger\<lparr>status := (status charger)\<lparr>pres_temp_zone := z, temp_zone := p\<rparr>\<rparr>)))))"

section \<open>Flash fast charging\<close>

text \<open>
  \<open>while (i < num_zones && temp > zones[i++].temp)\<close>: the value of \<open>i\<close> after the loop.
  The index is incremented also by the test that ends the loop, so the entry taken is
  the one the loop stopped at.
\<close>

fun ffc_scan :: "mmi_ffc_zone list \<Rightarrow> int \<Rightarrow> int \<Rightarrow> nat \<Rightarrow> nat kres" where
  "ffc_scan [] temp n i = (if n \<le> 0 then Inr i else Inl OutOfBounds)"
| "ffc_scan (z # zs) temp n i =
     (if n \<le> 0 then Inr i
      else if temp > ffc_temp z then ffc_scan zs temp (n - 1) (Suc i) else Inr (Suc i))"

abbreviation (input) TURBO_CHRG_FFC_THRSH_MW :: int where "TURBO_CHRG_FFC_THRSH_MW \<equiv> 25000"

definition mmi_update_charger_profile :: "mmi_charger \<Rightarrow> mmi_charger kres" where
  "mmi_update_charger_profile charger =
     (let p = profile charger
      in if \<not> (chrg_pmax_mw (chg_info charger) > TURBO_CHRG_FFC_THRSH_MW)
      then Inr (charger\<lparr>profile := p\<lparr>max_fv_mv := noffc_max_fv_mv p, fg_iterm := noffc_fg_iterm p,
                  chrg_iterm := noffc_chrg_iterm p\<rparr>\<rparr>)
      else case ffc_zones p of
        None \<Rightarrow> if num_ffc_zones p \<le> 0 then Inr charger else Inl NullDeref
      | Some zones \<Rightarrow> kbind (ffc_scan zones (batt_temp (batt_info charger)) (num_ffc_zones p) 0) (\<lambda>i.
          if i = 0 then Inr charger
          else let z = zones ! (i - 1)
            in Inr (charger\<lparr>profile := p\<lparr>max_fv_mv := ffc_fv z, fg_iterm := ffc_fg_iterm z,
                      chrg_iterm := ffc_chrg_iterm z\<rparr>\<rparr>)))"

text \<open>The FFC zone that applies to a temperature.\<close>

definition ffc_choice :: "mmi_ffc_zone list \<Rightarrow> int \<Rightarrow> mmi_ffc_zone" where
  "ffc_choice zones temp =
     (case List.find (\<lambda>z. temp \<le> ffc_temp z) zones of Some z \<Rightarrow> z | None \<Rightarrow> last zones)"

lemma ffc_scan_choice:
  assumes "zones \<noteq> []"
  shows "\<exists>i<length zones. ffc_scan zones temp (int (length zones)) k = Inr (Suc (k + i)) \<and>
    zones ! i = ffc_choice zones temp"
  using assms
proof (induction zones arbitrary: k)
  case Nil
  then show ?case by simp
next
  case (Cons z zones)
  show ?case
  proof (cases "temp \<le> ffc_temp z \<or> zones = []")
    case True
    then show ?thesis by (intro exI[of _ 0]) (auto simp: ffc_choice_def)
  next
    case False
    then obtain i where "i < length zones"
        "ffc_scan zones temp (int (length zones)) (Suc k) = Inr (Suc (Suc k + i))"
        "zones ! i = ffc_choice zones temp"
      using Cons.IH by blast
    then show ?thesis using False by (intro exI[of _ "Suc i"]) (auto simp: ffc_choice_def split: option.splits)
  qed
qed

section \<open>The choice by voltage\<close>

lemma pick_by_voltage_eq:
  "pick_by_voltage zones t vbat js target =
     (case List.find (\<lambda>i. t = temp_c (zones ! i) \<and> vbat < norm_mv (zones ! i)) js of
        Some i \<Rightarrow> int i
      | None \<Rightarrow> (case filter (\<lambda>i. t = temp_c (zones ! i)) js of
                   [] \<Rightarrow> target | is \<Rightarrow> int (last is)))"
  by (induction js arbitrary: target) (auto split: option.splits list.splits)

lemma pick_by_voltage_entry:
  assumes "T = temp_c (zones ! t)" "t < n" "\<forall>j\<in>set js. j < n"
  shows "\<exists>r<n. pick_by_voltage zones T vbat js (int t) = int r \<and> temp_c (zones ! r) = T"
  using assms by (induction js arbitrary: t) auto

text \<open>What the choice promises: an entry of the wanted temperature, the first one the
  battery has not filled yet, or the last one when all are filled.\<close>

definition voltage_choice :: "mmi_temp_zone list \<Rightarrow> int \<Rightarrow> int \<Rightarrow> nat \<Rightarrow> bool" where
  "voltage_choice zones t vbat r \<longleftrightarrow>
     r < length zones \<and> temp_c (zones ! r) = t \<and>
     (if \<exists>i<length zones. temp_c (zones ! i) = t \<and> vbat < norm_mv (zones ! i)
      then vbat < norm_mv (zones ! r) \<and>
           (\<forall>j<r. temp_c (zones ! j) = t \<longrightarrow> norm_mv (zones ! j) \<le> vbat)
      else \<forall>j. r < j \<and> j < length zones \<longrightarrow> temp_c (zones ! j) \<noteq> t)"

lemma pick_all_choice:
  assumes "t < length zones" "T = temp_c (zones ! t)"
  shows "\<exists>r. pick_by_voltage zones T vbat [0..<length zones] k = int r \<and> voltage_choice zones T vbat r"
proof -
  let ?P = "\<lambda>i. T = temp_c (zones ! i) \<and> vbat < norm_mv (zones ! i)"
  show ?thesis
  proof (cases "List.find ?P [0..<length zones]")
    case (Some r)
    then have "pick_by_voltage zones T vbat [0..<length zones] k = int r"
      by (simp add: pick_by_voltage_eq)
    moreover have "voltage_choice zones T vbat r"
      using Some unfolding voltage_choice_def find_Some_upt by (auto simp: not_less)
    ultimately show ?thesis by blast
  next
    case None
    let ?is = "filter (\<lambda>i. T = temp_c (zones ! i)) [0..<length zones]"
    have "?is \<noteq> []" using assms by (auto simp: filter_empty_conv)
    then have "pick_by_voltage zones T vbat [0..<length zones] k = int (last ?is)"
      using None by (simp add: pick_by_voltage_eq split: list.splits)
    moreover obtain l where l: "l = last ?is" by blast
    note lf = last_filter_upt[of t "length zones" "\<lambda>i. T = temp_c (zones ! i)" 0, OF assms le0, folded l]
    have "l < length zones" "temp_c (zones ! l) = T"
        "\<forall>j. l < j \<and> j < length zones \<longrightarrow> temp_c (zones ! j) \<noteq> T"
      using lf unfolding eq_commute[of T] by blast+
    moreover from None have "\<not> (\<exists>i<length zones. temp_c (zones ! i) = T \<and> vbat < norm_mv (zones ! i))"
      by (auto simp only: find_None_upt)
    ultimately have "voltage_choice zones T vbat l" unfolding voltage_choice_def by simp
    with l \<open>pick_by_voltage zones T vbat [0..<length zones] k = int (last ?is)\<close>
    show ?thesis by blast
  qed
qed

lemma pick_by_voltage_range:
  "pick_by_voltage zones T vbat js target = target \<or>
    (\<exists>i\<in>set js. pick_by_voltage zones T vbat js target = int i)"
  by (induction js arbitrary: target) auto

lemma pick_by_voltage_member:
  assumes "k \<in> set js" "T = temp_c (zones ! k)"
  shows "\<exists>i\<in>set js. pick_by_voltage zones T vbat js target = int i"
  using assms
proof (induction js arbitrary: target)
  case Nil
  then show ?case by simp
next
  case (Cons j js)
  then show ?case using pick_by_voltage_range[of zones T vbat js "int j"]
    by (cases "k \<in> set js") auto
qed

section \<open>Every search stays inside the table\<close>

definition zones_ok :: "mmi_temp_zone list \<Rightarrow> bool" where
  "zones_ok zones \<longleftrightarrow> zones \<noteq> [] \<and> length zones \<le> 10"

definition zone_ok :: "mmi_temp_zone list \<Rightarrow> int \<Rightarrow> bool" where
  "zone_ok zones z \<longleftrightarrow> zone_index zones z \<or> z = ZONE_HOT \<or> z = ZONE_COLD"

lemma zone_index_small: "zones_ok zones \<Longrightarrow> zone_index zones z \<Longrightarrow> 0 \<le> z \<and> z < 10 \<and> nat z < length zones"
  by (auto simp: zones_ok_def zone_index_def)

lemma zone_index_int [simp]: "zone_index zones (int i) \<longleftrightarrow> i < length zones"
  by (simp add: zone_index_def)

lemma hotter_target_entry:
  assumes "h < length zones"
  shows "\<exists>r<length zones. hotter_target zones vbat h = int r \<and> temp_c (zones ! r) = temp_c (zones ! h)"
  unfolding hotter_target_def using assms by (intro pick_by_voltage_entry) auto

lemma colder_target_entry:
  assumes "c < length zones"
  shows "\<exists>r<length zones. colder_target zones vbat c = int r \<and> temp_c (zones ! r) = temp_c (zones ! c)"
  unfolding colder_target_def using assms by (intro pick_by_voltage_entry) auto

text \<open>The hotter search from an entry: either no entry is hotter, or it finds one.\<close>

lemma find_hotter_entry:
  assumes "zones_ok zones" "zone_index zones z"
  shows "mmi_find_hotter_temp_zone z vbat zones = Inr ZONE_HOT \<or>
    (\<exists>h r. nat z < h \<and> h < length zones \<and> r < length zones \<and>
       mmi_find_hotter_temp_zone z vbat zones = Inr (int r) \<and>
       temp_c (zones ! r) = temp_c (zones ! h) \<and>
       temp_c (zones ! nat z) < temp_c (zones ! r) \<and>
       (\<forall>j. nat z < j \<and> j < h \<longrightarrow> temp_c (zones ! j) \<le> temp_c (zones ! nat z)))"
proof -
  note sm = zone_index_small[OF assms]
  let ?P = "\<lambda>i. temp_c (zones ! nat z) < temp_c (zones ! i)"
  show ?thesis
  proof (cases "List.find ?P [Suc (nat z)..<length zones]")
    case None
    then show ?thesis using sm assms by (auto simp: mmi_find_hotter_temp_zone_def)
  next
    case (Some h)
    then have h: "nat z < h" "h < length zones" "?P h" "\<forall>j. nat z < j \<and> j < h \<longrightarrow> \<not> ?P j"
      using find_Some_upt_from[OF Some] by auto
    obtain r where r: "r < length zones" "hotter_target zones vbat h = int r"
        "temp_c (zones ! r) = temp_c (zones ! h)"
      using hotter_target_entry[OF h(2)] by blast
    have "mmi_find_hotter_temp_zone z vbat zones \<in> {Inr ZONE_HOT, Inr (int r)}"
      using sm assms Some r(2) by (simp add: mmi_find_hotter_temp_zone_def)
    then show ?thesis using h r by (auto simp: not_less)
  qed
qed

lemma find_colder_entry:
  assumes "zones_ok zones" "zone_index zones z"
  shows "mmi_find_colder_temp_zone z vbat zones = Inr ZONE_COLD \<or>
    (\<exists>c r. c < nat z \<and> r < length zones \<and>
       mmi_find_colder_temp_zone z vbat zones = Inr (int r) \<and>
       temp_c (zones ! r) = temp_c (zones ! c) \<and>
       temp_c (zones ! r) < temp_c (zones ! nat z) \<and>
       (\<forall>j. c < j \<and> j < nat z \<longrightarrow> temp_c (zones ! nat z) \<le> temp_c (zones ! j)))"
proof -
  note sm = zone_index_small[OF assms]
  let ?P = "\<lambda>i. temp_c (zones ! nat z) > temp_c (zones ! i)"
  show ?thesis
  proof (cases "List.find ?P (rev [0..<nat z])")
    case None
    then show ?thesis using sm assms by (auto simp: mmi_find_colder_temp_zone_def)
  next
    case (Some c)
    then have c: "c < nat z" "?P c" "\<forall>j. c < j \<and> j < nat z \<longrightarrow> \<not> ?P j"
      using find_Some_rev_upt[OF Some] by auto
    obtain r where r: "r < length zones" "colder_target zones vbat c = int r"
        "temp_c (zones ! r) = temp_c (zones ! c)"
      using colder_target_entry[of c zones vbat] c(1) sm by auto
    have "mmi_find_colder_temp_zone z vbat zones \<in> {Inr ZONE_COLD, Inr (int r)}"
      using sm assms Some r(2) by (simp add: mmi_find_colder_temp_zone_def)
    then show ?thesis using c r by (auto simp: not_less)
  qed
qed

lemma find_hotter_ok:
  assumes "zones_ok zones" "zone_ok zones z"
  obtains h where "mmi_find_hotter_temp_zone z vbat zones = Inr h" "zone_ok zones h" "h \<noteq> ZONE_COLD"
proof (cases "zone_index zones z")
  case True
  then show ?thesis using find_hotter_entry[OF assms(1) True, of vbat] assms(1) that
    by (fastforce simp: zone_ok_def zones_ok_def)
next
  case False
  then have "z = ZONE_HOT \<or> z = ZONE_COLD" using assms(2) by (simp add: zone_ok_def)
  moreover obtain r where "r < length zones" "hotter_target zones vbat 0 = int r"
    using hotter_target_entry[of 0 zones vbat] assms(1) by (auto simp: zones_ok_def)
  ultimately show ?thesis using that assms(1)
    by (fastforce simp: mmi_find_hotter_temp_zone_def zone_ok_def zones_ok_def)
qed

lemma find_colder_ok:
  assumes "zones_ok zones" "zone_ok zones z"
  obtains c where "mmi_find_colder_temp_zone z vbat zones = Inr c" "zone_ok zones c" "c \<noteq> ZONE_HOT"
proof (cases "zone_index zones z")
  case True
  then show ?thesis using find_colder_entry[OF assms(1) True, of vbat] assms(1) that
    by (fastforce simp: zone_ok_def zones_ok_def)
next
  case False
  then have "z = ZONE_HOT \<or> z = ZONE_COLD" using assms(2) by (simp add: zone_ok_def)
  moreover obtain r where "r < length zones" "colder_target zones vbat (length zones - 1) = int r"
    using colder_target_entry[of "length zones - 1" zones vbat] assms(1) by (auto simp: zones_ok_def)
  ultimately show ?thesis using that assms(1)
    by (fastforce simp: mmi_find_colder_temp_zone_def zone_ok_def zones_ok_def)
qed

lemma zone_step_entry_ok:
  assumes "zones_ok zones" "zone_index zones z"
  obtains z' where "zone_step_entry z tc vbat m zones = Inr z'" "zone_ok zones z'"
    "tc < MIN_TEMP_C \<longrightarrow> z' = ZONE_COLD" "MIN_TEMP_C \<le> tc \<and> m \<le> tc \<longrightarrow> z' = ZONE_HOT"
proof -
  have zok: "zone_ok zones z" using assms(2) by (simp add: zone_ok_def)
  obtain h where h: "mmi_find_hotter_temp_zone z vbat zones = Inr h" "zone_ok zones h"
    using find_hotter_ok[OF assms(1) zok] by metis
  obtain c where c: "mmi_find_colder_temp_zone z vbat zones = Inr c" "zone_ok zones c"
    using find_colder_ok[OF assms(1) zok] by metis
  have nz: "nat z < length zones" "z \<noteq> ZONE_HOT" "z \<noteq> ZONE_COLD"
    using zone_index_small[OF assms] by auto
  obtain r where r: "pick_by_voltage zones (temp_c (zones ! nat z)) vbat [0..<length zones] z = int r"
      "voltage_choice zones (temp_c (zones ! nat z)) vbat r"
    using pick_all_choice[OF nz(1) refl] by metis
  then have f: "mmi_refresh_temp_zone z vbat zones = Inr (int r)" "zone_ok zones (int r)"
    using nz assms(2) by (simp_all add: mmi_refresh_temp_zone_def voltage_choice_def zone_ok_def)
  have "zone_step_entry z tc vbat m zones \<in> Inr ` {ZONE_COLD, ZONE_HOT, h, c, int r}"
    using h c f by (simp add: zone_step_entry_def Let_def)
  then obtain z' where z': "zone_step_entry z tc vbat m zones = Inr z'"
      "z' \<in> {ZONE_COLD, ZONE_HOT, h, c, int r}"
    by blast
  moreover have "tc < MIN_TEMP_C \<longrightarrow> z' = ZONE_COLD" "MIN_TEMP_C \<le> tc \<and> m \<le> tc \<longrightarrow> z' = ZONE_HOT"
    using z'(1) h c by (auto simp: zone_step_entry_def Let_def)
  ultimately show ?thesis using that z' h(2) c(2) f(2) by (auto simp: zone_ok_def)
qed

lemma zone_first_choice_ok:
  assumes "zones_ok zones"
  obtains z' where "zone_first_choice tc vbat zones = Inr z'" "zone_ok zones z'"
    "z' = ZONE_COLD \<longleftrightarrow> tc < MIN_TEMP_C \<and> (\<forall>i<length zones. tc < temp_c (zones ! i))"
proof (cases "List.find (\<lambda>i. tc \<ge> temp_c (zones ! i)) (rev [0..<length zones])")
  case (Some i)
  then have i: "i < length zones" "tc \<ge> temp_c (zones ! i)"
    using find_Some_rev_upt[OF Some] by auto
  obtain h where "mmi_find_hotter_temp_zone (int i) vbat zones = Inr h" "zone_ok zones h" "h \<noteq> ZONE_COLD"
    by (rule find_hotter_ok[OF assms, of "int i"]) (simp_all add: i zone_ok_def)
  then show ?thesis using Some i that[of h] by (force simp: zone_first_choice_def)
next
  case None
  then have n: "\<forall>i<length zones. tc < temp_c (zones ! i)" by (simp add: find_None_rev_upt not_le)
  obtain h where "mmi_find_hotter_temp_zone ZONE_COLD vbat zones = Inr h" "zone_ok zones h" "h \<noteq> ZONE_COLD"
    by (rule find_hotter_ok[OF assms, of ZONE_COLD]) (simp_all add: zone_ok_def)
  then show ?thesis using None n that[of h] that[of ZONE_COLD]
    by (cases "tc < MIN_TEMP_C") (simp_all add: zone_first_choice_def zone_ok_def)
qed

lemma sorted_temp_mono:
  "sorted (map temp_c zones) \<Longrightarrow> i \<le> j \<Longrightarrow> j < length zones \<Longrightarrow> temp_c (zones ! i) \<le> temp_c (zones ! j)"
  using sorted_nth_mono[of "map temp_c zones" i j] by simp

lemma hotter_adjacent:
  assumes "zones_ok zones" "sorted (map temp_c zones)" "zone_index zones z"
    "mmi_find_hotter_temp_zone z vbat zones = Inr (int r)" "r < length zones"
    "j < length zones" "temp_c (zones ! nat z) < temp_c (zones ! j)"
  shows "temp_c (zones ! r) \<le> temp_c (zones ! j)"
proof -
  have "int r \<noteq> ZONE_HOT" using assms(1,5) by (auto simp: zones_ok_def)
  then obtain h where h: "h < length zones" "temp_c (zones ! r) = temp_c (zones ! h)"
      "\<forall>i. nat z < i \<and> i < h \<longrightarrow> temp_c (zones ! i) \<le> temp_c (zones ! nat z)"
    using find_hotter_entry[OF assms(1,3), of vbat] assms(4) by auto
  have "nat z < length zones" using zone_index_small[OF assms(1,3)] by simp
  then have "nat z < j" using sorted_temp_mono[OF assms(2), of j "nat z"] assms(7)
    by (cases "j \<le> nat z") auto
  then have "h \<le> j" using h(3) assms(7) by (meson not_le)
  then show ?thesis using sorted_temp_mono[OF assms(2)] assms(6) h(2) by simp
qed

text \<open>What a step to another entry, to cold and to hot says of the temperature.\<close>

lemma zone_step_entry_cases:
  assumes "zones_ok zones" "zone_index zones z" "zone_step_entry z tc vbat m zones = Inr z'"
  shows "(tc < MIN_TEMP_C \<and> z' = ZONE_COLD) \<or> (MIN_TEMP_C \<le> tc \<and> m \<le> tc \<and> z' = ZONE_HOT) \<or>
    (MIN_TEMP_C \<le> tc \<and> tc < m \<and>
      (mmi_find_hotter_temp_zone z vbat zones = Inr z' \<and> temp_c (zones ! nat z) \<le> tc \<and>
         (zone_index zones z' \<longrightarrow> temp_c (zones ! nat z) < temp_c (zones ! nat z')) \<and> z' \<noteq> ZONE_COLD \<or>
       zone_index zones z' \<and> tc < temp_c (zones ! nat z') \<and> temp_c (zones ! nat z') < temp_c (zones ! nat z) \<or>
       zone_index zones z' \<and> temp_c (zones ! nat z') = temp_c (zones ! nat z)))"
proof -
  have sm: "nat z < length zones" "z \<noteq> ZONE_HOT" "z \<noteq> ZONE_COLD"
    using zone_index_small[OF assms(1,2)] by auto
  have zok: "zone_ok zones z" using assms(2) by (simp add: zone_ok_def)
  obtain h where h: "mmi_find_hotter_temp_zone z vbat zones = Inr h" "h \<noteq> ZONE_COLD"
    using find_hotter_ok[OF assms(1) zok] by metis
  have h': "zone_index zones h \<longrightarrow> temp_c (zones ! nat z) < temp_c (zones ! nat h)"
    using find_hotter_entry[OF assms(1,2), of vbat] h(1) assms(1) by (auto simp: zones_ok_def zone_index_def)
  obtain c where c: "mmi_find_colder_temp_zone z vbat zones = Inr c"
    using find_colder_ok[OF assms(1) zok] by metis
  have c': "c = ZONE_COLD \<or> zone_index zones c \<and> temp_c (zones ! nat c) < temp_c (zones ! nat z)"
    using find_colder_entry[OF assms(1,2), of vbat] c by auto
  obtain r where r: "mmi_refresh_temp_zone z vbat zones = Inr (int r)"
      "voltage_choice zones (temp_c (zones ! nat z)) vbat r"
    using pick_all_choice[OF sm(1) refl, of vbat z] sm assms(2)
    by (auto simp: mmi_refresh_temp_zone_def)
  then have r': "zone_index zones (int r)" "temp_c (zones ! r) = temp_c (zones ! nat z)"
    by (auto simp: voltage_choice_def)
  show ?thesis
    using assms(3) h h' c c' r r'
    by (auto simp: zone_step_entry_def Let_def split: if_splits)
qed

text \<open>The thermal limits, as a relation between the zone before and after a pass.\<close>

definition thermal_limits :: "mmi_temp_zone list \<Rightarrow> int \<Rightarrow> int \<Rightarrow> int \<Rightarrow> int \<Rightarrow> bool" where
  "thermal_limits zones m tc z z' \<longleftrightarrow>
     (zone_index zones z \<longrightarrow> (tc < MIN_TEMP_C \<longrightarrow> z' = ZONE_COLD) \<and>
                            (MIN_TEMP_C \<le> tc \<and> m \<le> tc \<longrightarrow> z' = ZONE_HOT)) \<and>
     (z = ZONE_HOT \<longrightarrow> (z' = ZONE_HOT \<longleftrightarrow> m - HYSTERESIS_DEGC < tc)) \<and>
     (z = ZONE_COLD \<longrightarrow> (z' = ZONE_COLD \<longleftrightarrow> tc < MIN_TEMP_C + HYSTERESIS_DEGC)) \<and>
     (z = ZONE_NONE \<longrightarrow> (z' = ZONE_COLD \<longleftrightarrow>
        tc < MIN_TEMP_C \<and> (\<forall>i<length zones. tc < temp_c (zones ! i))))"

lemma next_temp_zone_ok:
  assumes "zones_ok zones" "zone_ok zones z \<or> z = ZONE_NONE"
  obtains z' where "next_temp_zone z tc vbat m (Some zones) = Inr z'" "zone_ok zones z'"
    "thermal_limits zones m tc z z'"
proof -
  have len: "zones \<noteq> []" "length zones \<le> 10" using assms(1) by (auto simp: zones_ok_def)
  consider "z = ZONE_NONE" | "z = ZONE_COLD" | "z = ZONE_HOT" | "zone_index zones z"
    using assms(2) by (auto simp: zone_ok_def)
  then show ?thesis
  proof cases
    case 1
    obtain z' where "zone_first_choice tc vbat zones = Inr z'" "zone_ok zones z'"
      "z' = ZONE_COLD \<longleftrightarrow> tc < MIN_TEMP_C \<and> (\<forall>i<length zones. tc < temp_c (zones ! i))"
      by (rule zone_first_choice_ok[OF assms(1)])
    then show ?thesis using 1 len
      by (intro that[of z']) (simp_all add: next_temp_zone_def thermal_limits_def zone_index_def)
  next
    case 2
    obtain h where "mmi_find_hotter_temp_zone ZONE_COLD vbat zones = Inr h" "zone_ok zones h" "h \<noteq> ZONE_COLD"
      by (rule find_hotter_ok[OF assms(1), of ZONE_COLD]) (simp_all add: zone_ok_def)
    then show ?thesis using 2 len
      by (intro that[of "if tc \<ge> MIN_TEMP_C + HYSTERESIS_DEGC then h else ZONE_COLD"])
        (simp_all add: next_temp_zone_def thermal_limits_def zone_index_def zone_ok_def)
  next
    case 3
    obtain c where "mmi_find_colder_temp_zone ZONE_HOT vbat zones = Inr c" "zone_ok zones c" "c \<noteq> ZONE_HOT"
      by (rule find_colder_ok[OF assms(1), of ZONE_HOT]) (simp_all add: zone_ok_def)
    then show ?thesis using 3 len
      by (intro that[of "if tc \<le> m - HYSTERESIS_DEGC then c else ZONE_HOT"])
        (simp_all add: next_temp_zone_def thermal_limits_def zone_index_def zone_ok_def not_le)
  next
    case 4
    then have nz: "z \<noteq> ZONE_HOT" "z \<noteq> ZONE_COLD" "z \<noteq> ZONE_NONE"
      using zone_index_small[OF assms(1) 4] by auto
    obtain z' where "zone_step_entry z tc vbat m zones = Inr z'" "zone_ok zones z'"
      "tc < MIN_TEMP_C \<longrightarrow> z' = ZONE_COLD" "MIN_TEMP_C \<le> tc \<and> m \<le> tc \<longrightarrow> z' = ZONE_HOT"
      by (rule zone_step_entry_ok[OF assms(1) 4, of tc vbat m])
    then show ?thesis using nz
      by (intro that[of z']) (auto simp: next_temp_zone_def thermal_limits_def)
  qed
qed

lemma mmi_get_temp_zone_step:
  fixes chip :: mmi_charger_chip and charger :: mmi_charger
  defines "z \<equiv> pres_temp_zone (status charger)" and "tc \<equiv> batt_temp (batt_info charger)"
  assumes zones: "temp_zones (profile charger) = Some zones" "zones_ok zones"
    and z: "zone_ok zones z \<or> z = ZONE_NONE"
  shows "\<exists>z'. zone_ok zones z' \<and>
    thermal_limits zones (if max_chrg_temp chip \<ge> MIN_MAX_TEMP_C then max_chrg_temp chip
                          else temp_c (last zones)) tc z z' \<and>
    mmi_get_temp_zone chip charger = Inr (charger\<lparr>status := (status charger)\<lparr>
      pres_temp_zone := z',
      temp_zone := (if zone_index zones z' then Some (zones ! nat z') else None)\<rparr>\<rparr>)"
proof -
  let ?m = "if max_chrg_temp chip \<ge> MIN_MAX_TEMP_C then max_chrg_temp chip else temp_c (last zones)"
  have ne: "zones \<noteq> []" using zones(2) by (simp add: zones_ok_def)
  obtain z' where z': "next_temp_zone z tc (batt_mv (batt_info charger)) ?m (Some zones) = Inr z'"
      "zone_ok zones z'" "thermal_limits zones ?m tc z z'"
    by (rule next_temp_zone_ok[OF zones(2) z])
  have "z' = ZONE_COLD \<or> z' = ZONE_HOT \<longleftrightarrow> \<not> zone_index zones z'"
    using z'(2) zones(2) by (auto simp: zone_ok_def zones_ok_def zone_index_def)
  then show ?thesis using z' zones(1) ne
    by (intro exI[of _ z']) (auto simp: mmi_get_temp_zone_def zone_max_temp_def z_def tc_def Let_def)
qed

text \<open>The zone table the driver's README gives as its example, and a charger that uses it.\<close>

definition readme_zones :: "mmi_temp_zone list" where
  "readme_zones =
     [\<lparr>temp_c = 0, norm_mv = 4200, fcc_max_ma = 880, fcc_norm_ma = 0\<rparr>,
      \<lparr>temp_c = 10, norm_mv = 4200, fcc_max_ma = 2185, fcc_norm_ma = 880\<rparr>,
      \<lparr>temp_c = 15, norm_mv = 0, fcc_max_ma = 2185, fcc_norm_ma = 2185\<rparr>,
      \<lparr>temp_c = 45, norm_mv = 4000, fcc_max_ma = 3600, fcc_norm_ma = 3600\<rparr>,
      \<lparr>temp_c = 45, norm_mv = 4250, fcc_max_ma = 3600, fcc_norm_ma = 3000\<rparr>,
      \<lparr>temp_c = 45, norm_mv = 4350, fcc_max_ma = 3000, fcc_norm_ma = 2000\<rparr>,
      \<lparr>temp_c = 60, norm_mv = 4200, fcc_max_ma = 2185, fcc_norm_ma = 0\<rparr>]"

definition readme_charger :: "int \<Rightarrow> int \<Rightarrow> int \<Rightarrow> mmi_charger" where
  "readme_charger z tc vbat = zero_charger
     \<lparr>profile := zero_charger_profile\<lparr>num_temp_zones := int (length readme_zones), temp_zones := Some readme_zones\<rparr>,
      status := zero_charger_status\<lparr>pres_temp_zone := z\<rparr>,
      batt_info := zero_battery_info\<lparr>batt_temp := tc, batt_mv := vbat\<rparr>\<rparr>"

text \<open>
  C36. With a zone table of one to ten entries, a pass of \<open>mmi_get_temp_zone\<close> from any
  zone reads only entries of the table and returns; the new zone is again an entry, hot
  or cold, and the cached \<open>temp_zone\<close> pointer is that entry. The thermal limits hold: from
  an entry, below -20 the zone is cold and at or above the limit it is hot; hot is left
  exactly at two degrees below the limit, cold exactly at two degrees above -20. The limit
  is the user's maximum when it is at least 47, else the temperature of the last entry.
\<close>

theorem get_temp_zone_ok:
  fixes chip :: mmi_charger_chip and charger :: mmi_charger
  defines "z \<equiv> pres_temp_zone (status charger)" and "tc \<equiv> batt_temp (batt_info charger)"
  assumes zones: "temp_zones (profile charger) = Some zones" "zones_ok zones"
    and z: "zone_ok zones z \<or> z = ZONE_NONE"
  shows "\<exists>z'. zone_ok zones z' \<and>
    thermal_limits zones (if max_chrg_temp chip \<ge> MIN_MAX_TEMP_C then max_chrg_temp chip
                          else temp_c (last zones)) tc z z' \<and>
    mmi_get_temp_zone chip charger = Inr (charger\<lparr>status := (status charger)\<lparr>
      pres_temp_zone := z',
      temp_zone := (if zone_index zones z' then Some (zones ! nat z') else None)\<rparr>\<rparr>)"
  using mmi_get_temp_zone_step zones z unfolding z_def tc_def by blast

lemma get_temp_zone_ok_witness:
  "\<exists>z'. zone_ok readme_zones z' \<and> thermal_limits readme_zones 60 58 5 z' \<and>
    mmi_get_temp_zone zero_charger_chip (readme_charger 5 58 4300) =
      Inr ((readme_charger 5 58 4300)\<lparr>status := zero_charger_status\<lparr>
        pres_temp_zone := z',
        temp_zone := (if zone_index readme_zones z' then Some (readme_zones ! nat z') else None)\<rparr>\<rparr>)"
  using get_temp_zone_ok[of "readme_charger 5 58 4300" readme_zones zero_charger_chip]
  by (simp add: readme_charger_def readme_zones_def zero_defs zones_ok_def zone_ok_def zone_index_def)

text \<open>
  \<open>mmi_refresh_temp_zone\<close> keeps the temperature of the present zone and chooses by
  battery voltage: the first entry of that temperature whose \<open>norm_mv\<close> is above the
  voltage, or the last entry of that temperature when there is none.
\<close>

theorem refresh_by_voltage:
  assumes "zones_ok zones" "zone_index zones z"
  shows "\<exists>r. mmi_refresh_temp_zone z vbat zones = Inr (int r) \<and>
    voltage_choice zones (temp_c (zones ! nat z)) vbat r"
proof -
  have nz: "nat z < length zones" "z \<noteq> ZONE_HOT" "z \<noteq> ZONE_COLD"
    using zone_index_small[OF assms] by auto
  then show ?thesis using pick_all_choice[OF nz(1) refl, of vbat z] assms(2)
    by (simp add: mmi_refresh_temp_zone_def)
qed

lemma refresh_by_voltage_witness:
  "\<exists>r. mmi_refresh_temp_zone 3 4300 readme_zones = Inr (int r) \<and>
    voltage_choice readme_zones 45 4300 r"
  using refresh_by_voltage[of readme_zones 3 4300]
  by (simp add: readme_zones_def zones_ok_def zone_index_def)

text \<open>
  C37. The zones do not chatter: in a table sorted by temperature, when a step moves from
  an entry to an entry of a hotter group, the next step at the same temperature (and any
  battery voltage) does not move back to a colder one, and after a move to a colder group
  the next step does not move to a hotter one.
\<close>

theorem zones_do_not_chatter:
  assumes "zones_ok zones" "sorted (map temp_c zones)" "zone_index zones z" "r < length zones"
    and step: "zone_step_entry z tc vbat m zones = Inr (int r)"
  shows "\<exists>z'. zone_step_entry (int r) tc vbat' m zones = Inr z' \<and> zone_ok zones z' \<and>
    (temp_c (zones ! nat z) < temp_c (zones ! r) \<longrightarrow>
       z' = ZONE_HOT \<or> (zone_index zones z' \<and> temp_c (zones ! r) \<le> temp_c (zones ! nat z'))) \<and>
    (temp_c (zones ! r) < temp_c (zones ! nat z) \<longrightarrow>
       z' = ZONE_COLD \<or> (zone_index zones z' \<and> temp_c (zones ! nat z') \<le> temp_c (zones ! r)))"
proof -
  have r: "zone_index zones (int r)" "int r \<noteq> ZONE_COLD" "int r \<noteq> ZONE_HOT"
    using assms(1,4) by (auto simp: zones_ok_def)
  obtain z' where z': "zone_step_entry (int r) tc vbat' m zones = Inr z'" "zone_ok zones z'"
    by (rule zone_step_entry_ok[OF assms(1) r(1), of tc vbat' m])
  note c1 = zone_step_entry_cases[OF assms(1,3) step]
  note c2 = zone_step_entry_cases[OF assms(1) r(1) z'(1)]
  have hot: "z' = ZONE_HOT \<or> (zone_index zones z' \<and> temp_c (zones ! r) \<le> temp_c (zones ! nat z'))"
    if up: "temp_c (zones ! nat z) < temp_c (zones ! r)"
  proof -
    have "mmi_find_hotter_temp_zone z vbat zones = Inr (int r)" "MIN_TEMP_C \<le> tc"
        "temp_c (zones ! nat z) \<le> tc"
      using c1 up r(2,3) by auto
    moreover from this have "z' \<noteq> ZONE_COLD" using c2 assms(1) by (auto simp: zone_index_def zones_ok_def)
    ultimately show ?thesis
      using c2 hotter_adjacent[OF assms(1-3) _ assms(4), of vbat "nat z'"] z'(2) assms(1)
      by (force simp: zone_ok_def zone_index_def zones_ok_def)
  qed
  have cold: "z' = ZONE_COLD \<or> (zone_index zones z' \<and> temp_c (zones ! nat z') \<le> temp_c (zones ! r))"
    if "temp_c (zones ! r) < temp_c (zones ! nat z)"
    using c1 c2 that r by auto
  show ?thesis using z' hot cold by blast
qed

lemma zones_do_not_chatter_witness:
  "zone_step_entry 2 20 4300 60 readme_zones = Inr 5 \<and>
   (\<exists>z'. zone_step_entry 5 20 4100 60 readme_zones = Inr z' \<and> zone_ok readme_zones z' \<and>
     (z' = ZONE_HOT \<or> (zone_index readme_zones z' \<and> 45 \<le> temp_c (readme_zones ! nat z'))))"
proof -
  have s: "zone_step_entry 2 20 4300 60 readme_zones = Inr 5" by code_simp
  have h: "zones_ok readme_zones" "sorted (map temp_c readme_zones)" "zone_index readme_zones 2"
    "5 < length readme_zones" "temp_c (readme_zones ! 5) = 45" "temp_c (readme_zones ! nat 2) = 15"
    by (simp_all add: readme_zones_def zones_ok_def zone_index_def)
  show ?thesis using zones_do_not_chatter[OF h(1-4), of 20 4300 60 4100] s h(5,6) by auto
qed

text \<open>
  The search for the next colder zone never takes the last entry of a temperature
  group that has several, whatever the battery voltage: its loop ends before the entry it
  started from. A battery above every other \<open>norm_mv\<close> of the group is charged for one
  pass with the limits of a lower-voltage entry.
\<close>

theorem colder_skips_last:
  assumes "zones_ok zones" "zone_index zones z"
    and res: "mmi_find_colder_temp_zone z vbat zones = Inr (int r)" "r < length zones"
    and other: "k < length zones" "k \<noteq> r" "temp_c (zones ! k) = temp_c (zones ! r)"
  shows "\<exists>j. r < j \<and> j < length zones \<and> temp_c (zones ! j) = temp_c (zones ! r)"
proof -
  have "int r \<noteq> ZONE_COLD" using assms(1) res(2) by (auto simp: zones_ok_def)
  then obtain c where "c < nat z" and c2: "colder_target zones vbat c = int r"
    using res zone_index_small[OF assms(1,2)] assms(2)
    by (auto simp: mmi_find_colder_temp_zone_def split: if_splits option.splits
        dest!: find_Some_rev_upt)
  then have c: "c < length zones" "colder_target zones vbat c = int r"
    using zone_index_small[OF assms(1,2)] by auto
  have tr: "temp_c (zones ! r) = temp_c (zones ! c)"
    using colder_target_entry[OF c(1), of vbat] c(2) by auto
  show ?thesis
  proof (cases "r = c")
    case True
    have "\<not> k < c"
      using pick_by_voltage_member[of k "[0..<c]" "temp_c (zones ! c)" zones vbat "int c"] True other(3) c(2)
      by (auto simp: colder_target_def)
    then show ?thesis using True other by (intro exI[of _ k]) auto
  next
    case False
    then have "r < c"
      using pick_by_voltage_range[of zones "temp_c (zones ! c)" vbat "[0..<c]" "int c"] c(2)
      by (auto simp: colder_target_def)
    then show ?thesis using c(1) tr by auto
  qed
qed

lemma colder_skips_last_witness:
  "mmi_find_colder_temp_zone 6 4300 readme_zones = Inr 4 \<and>
   mmi_refresh_temp_zone 4 4300 readme_zones = Inr 5 \<and>
   (\<exists>j. 4 < j \<and> j < length readme_zones \<and> temp_c (readme_zones ! j) = temp_c (readme_zones ! 4))"
proof -
  have s: "mmi_find_colder_temp_zone 6 4300 readme_zones = Inr 4"
    "mmi_refresh_temp_zone 4 4300 readme_zones = Inr 5" by code_simp+
  have h: "zones_ok readme_zones" "zone_index readme_zones 6" "4 < length readme_zones"
    "5 < length readme_zones" "temp_c (readme_zones ! 5) = temp_c (readme_zones ! 4)"
    by (simp_all add: readme_zones_def zones_ok_def zone_index_def)
  show ?thesis using colder_skips_last[OF h(1,2) _ h(3,4) _ h(5), of 4300] s by simp
qed

text \<open>
  The flash-fast-charge profile: above 25 W, with a table of FFC zones, the float
  voltage and the two termination currents come from the first zone whose temperature is
  not below the battery's, or from the last zone when all are; at or below 25 W the
  profile read at registration is restored. Nothing else of the charger changes.
\<close>

theorem ffc_profile:
  assumes "ffc_zones (profile charger) = Some zones" "num_ffc_zones (profile charger) = int (length zones)"
    "zones \<noteq> []"
  shows "mmi_update_charger_profile charger = Inr (charger\<lparr>profile := (profile charger)
    \<lparr>max_fv_mv := (if chrg_pmax_mw (chg_info charger) > TURBO_CHRG_FFC_THRSH_MW
        then ffc_fv (ffc_choice zones (batt_temp (batt_info charger)))
        else noffc_max_fv_mv (profile charger)),
     fg_iterm := (if chrg_pmax_mw (chg_info charger) > TURBO_CHRG_FFC_THRSH_MW
        then ffc_fg_iterm (ffc_choice zones (batt_temp (batt_info charger)))
        else noffc_fg_iterm (profile charger)),
     chrg_iterm := (if chrg_pmax_mw (chg_info charger) > TURBO_CHRG_FFC_THRSH_MW
        then ffc_chrg_iterm (ffc_choice zones (batt_temp (batt_info charger)))
        else noffc_chrg_iterm (profile charger))\<rparr>\<rparr>)"
  using assms ffc_scan_choice[OF assms(3), of "batt_temp (batt_info charger)" 0]
  by (auto simp: mmi_update_charger_profile_def Let_def)

lemma ffc_profile_witness:
  fixes z1 z2 :: mmi_ffc_zone
  defines "z1 \<equiv> \<lparr>ffc_temp = 0, ffc_fv = 4450, ffc_chrg_iterm = 243, ffc_fg_iterm = 500\<rparr>"
    and "z2 \<equiv> \<lparr>ffc_temp = 23, ffc_fv = 4480, ffc_chrg_iterm = 670, ffc_fg_iterm = 980\<rparr>"
  shows "\<exists>c. profile c = zero_charger_profile\<lparr>ffc_zones := Some [z1, z2], num_ffc_zones := 2\<rparr> \<and>
    mmi_update_charger_profile c = Inr (c\<lparr>profile := (profile c)\<lparr>max_fv_mv := 4480, fg_iterm := 980, chrg_iterm := 670\<rparr>\<rparr>)"
proof -
  let ?c = "zero_charger\<lparr>profile := zero_charger_profile\<lparr>ffc_zones := Some [z1, z2], num_ffc_zones := 2\<rparr>,
    batt_info := zero_battery_info\<lparr>batt_temp := 20\<rparr>,
    chg_info := zero_charger_info\<lparr>chrg_pmax_mw := 30000\<rparr>\<rparr>"
  show ?thesis using ffc_profile[of ?c "[z1, z2]"]
    by (intro exI[of _ ?c]) (simp add: zero_defs ffc_choice_def z1_def z2_def)
qed

end
