(* ===== verification/Charger_Vote.thy ===== *)
theory Charger_Vote
  imports Charger_Data
begin

text \<open>
  The two small vote tables of \<open>mmi_charger.c\<close> (\<open>mmi_vote\<close>, \<open>mmi_get_effective_voter\<close>):
  32 slots of a voter's name and a value, used to disable charging and to suspend the
  charger. A voter is registered while its slot holds its name. \<open>mmi_vote\<close> finds the
  chip through the global \<open>this_chip\<close>, which is NULL before the probe.
\<close>

section \<open>Operations\<close>

definition mmi_vote :: "bool \<Rightarrow> mmi_vote \<Rightarrow> string option \<Rightarrow> bool \<Rightarrow> int \<Rightarrow> int \<times> mmi_vote" where
  "mmi_vote chip_set vote voter en val =
     (if \<not> chip_set then (- ENODEV, vote)
      else case voter of None \<Rightarrow> (- EINVAL, vote)
      | Some v \<Rightarrow>
        (case List.find (\<lambda>i. voters vote ! i = Some v) [0..<MMI_VOTE_NUM_MAX] of
           Some i \<Rightarrow>
             if en then (0, vote\<lparr>voters := (voters vote)[i := Some v], vote_votes := (vote_votes vote)[i := val]\<rparr>)
             else (0, vote\<lparr>voters := (voters vote)[i := None], vote_votes := (vote_votes vote)[i := 0]\<rparr>)
         | None \<Rightarrow>
             if \<not> en then (0, vote)
             else (case List.find (\<lambda>i. voters vote ! i = None) [0..<MMI_VOTE_NUM_MAX] of
                     None \<Rightarrow> (- ENOENT, vote)
                   | Some free \<Rightarrow>
                       (0, vote\<lparr>voters := (voters vote)[free := Some v],
                                vote_votes := (vote_votes vote)[free := val]\<rparr>))))"

definition effective_voter_body :: "mmi_vote \<Rightarrow> nat \<Rightarrow> int \<times> int \<Rightarrow> int \<times> int" where
  "effective_voter_body vote i = (\<lambda>(win_vote, win_voter).
     if voters vote ! i \<noteq> None \<and> vote_votes vote ! i < win_vote
     then (vote_votes vote ! i, int i) else (win_vote, win_voter))"

definition mmi_get_effective_voter :: "mmi_vote \<Rightarrow> int" where
  "mmi_get_effective_voter vote =
     snd (fold (effective_voter_body vote) [0..<MMI_VOTE_NUM_MAX] (INT_MAX, - EINVAL))"

definition mmi_vote_charging_disable ::
  "mmi_charger_chip option \<Rightarrow> string option \<Rightarrow> bool \<Rightarrow> int \<times> mmi_charger_chip option" where
  "mmi_vote_charging_disable this_chip voter en =
     (case this_chip of None \<Rightarrow> (- EINVAL, None)
      | Some chip \<Rightarrow>
          (let (rc, v) = mmi_vote True (disable_charging_vote chip) voter en 0
           in (rc, Some (chip\<lparr>disable_charging_vote := v\<rparr>))))"

definition mmi_vote_charger_suspend ::
  "mmi_charger_chip option \<Rightarrow> string option \<Rightarrow> bool \<Rightarrow> int \<times> mmi_charger_chip option" where
  "mmi_vote_charger_suspend this_chip voter en =
     (case this_chip of None \<Rightarrow> (- EINVAL, None)
      | Some chip \<Rightarrow>
          (let (rc, v) = mmi_vote True (suspend_charger_vote chip) voter en 0
           in (rc, Some (chip\<lparr>suspend_charger_vote := v\<rparr>))))"

section \<open>Specification\<close>

text \<open>
  A table promises a set of registered voters, each in one slot. \<open>vote_ok\<close> is its
  invariant: 32 slots and no name twice.
\<close>

definition registered :: "mmi_vote \<Rightarrow> string set" where
  "registered vote = {v. Some v \<in> set (voters vote)}"

definition vote_ok :: "mmi_vote \<Rightarrow> bool" where
  "vote_ok vote \<longleftrightarrow> length (voters vote) = MMI_VOTE_NUM_MAX \<and> length (vote_votes vote) = MMI_VOTE_NUM_MAX \<and>
     (\<forall>v. \<forall>i<MMI_VOTE_NUM_MAX. \<forall>j<MMI_VOTE_NUM_MAX.
        voters vote ! i = Some v \<and> voters vote ! j = Some v \<longrightarrow> i = j) \<and>
     (\<forall>x\<in>set (vote_votes vote). x < INT_MAX)"

interpretation seff: vote_scan "\<lambda>t i. voters t ! i \<noteq> None" "\<lambda>t i. vote_votes t ! i"
    "\<lambda>a b. a < b" effective_voter_body
  by unfold_locales (auto simp: effective_voter_body_def)

lemma registered_iff:
  "length (voters vote) = MMI_VOTE_NUM_MAX \<Longrightarrow>
    v \<in> registered vote \<longleftrightarrow> (\<exists>i<MMI_VOTE_NUM_MAX. voters vote ! i = Some v)"
  by (auto simp: registered_def in_set_conv_nth)

lemma zero_vote_ok: "vote_ok zero_vote" "registered zero_vote = {}"
  by (simp_all add: vote_ok_def zero_vote_def registered_def)

text \<open>The effective voter is a slot exactly when somebody is registered.\<close>

lemma effective_voter_iff:
  assumes "vote_ok vote"
  shows "0 \<le> mmi_get_effective_voter vote \<longleftrightarrow> registered vote \<noteq> {}"
proof -
  have len: "length (voters vote) = MMI_VOTE_NUM_MAX" "length (vote_votes vote) = MMI_VOTE_NUM_MAX"
    and lt: "\<And>i. i < MMI_VOTE_NUM_MAX \<Longrightarrow> vote_votes vote ! i < INT_MAX"
    using assms by (auto simp: vote_ok_def)
  show ?thesis
  proof (cases "registered vote = {}")
    case True
    have "voters vote ! i = None" if "i < MMI_VOTE_NUM_MAX" for i
      using True registered_iff[OF len(1), of "the (voters vote ! i)"] that
      by (cases "voters vote ! i") auto
    then have "\<forall>i\<in>set [0..<MMI_VOTE_NUM_MAX]. voters vote ! i = None" by simp
    then show ?thesis using True seff.scan_none[of "[0..<MMI_VOTE_NUM_MAX]" vote INT_MAX "- EINVAL"]
      by (simp add: mmi_get_effective_voter_def)
  next
    case False
    then obtain i where "i < MMI_VOTE_NUM_MAX" "voters vote ! i \<noteq> None"
      using len(1) by (auto simp: registered_iff set_eq_iff)
    then show ?thesis using False lt[of i] seff.scan_result[of "[0..<MMI_VOTE_NUM_MAX]" vote INT_MAX "- EINVAL"]
      by (auto simp: mmi_get_effective_voter_def)
  qed
qed

section \<open>Updates\<close>

lemma vote_ok_update:
  assumes "vote_ok vote" "i < MMI_VOTE_NUM_MAX" "x < INT_MAX"
    "\<forall>v. w = Some v \<longrightarrow> (\<forall>j<MMI_VOTE_NUM_MAX. voters vote ! j = Some v \<longrightarrow> j = i)"
  shows "vote_ok (vote\<lparr>voters := (voters vote)[i := w], vote_votes := (vote_votes vote)[i := x]\<rparr>)"
proof -
  have inj: "k = j" if "k < MMI_VOTE_NUM_MAX" "j < MMI_VOTE_NUM_MAX"
      "(voters vote)[i := w] ! k = Some v" "(voters vote)[i := w] ! j = Some v" for v k j
    using assms that unfolding vote_ok_def by (auto simp: nth_list_update split: if_splits)
  have "\<forall>y\<in>set ((vote_votes vote)[i := x]). y < INT_MAX"
    using set_update_subset_insert[of "vote_votes vote" i x] assms(1,3) by (auto simp: vote_ok_def)
  then show ?thesis using inj assms(1) by (auto simp: vote_ok_def)
qed

lemma registered_update:
  assumes "vote_ok vote" "i < MMI_VOTE_NUM_MAX"
  shows "registered (vote\<lparr>voters := (voters vote)[i := w], vote_votes := vs\<rparr>) =
    registered vote - {v. voters vote ! i = Some v} \<union> {v. w = Some v}"
proof (rule set_eqI)
  fix v
  have len: "length (voters vote) = MMI_VOTE_NUM_MAX" using assms by (simp add: vote_ok_def)
  have inj: "j = i" if "j < MMI_VOTE_NUM_MAX" "voters vote ! i = Some v" "voters vote ! j = Some v" for j
    using assms that unfolding vote_ok_def by blast
  have "(\<exists>j<MMI_VOTE_NUM_MAX. (voters vote)[i := w] ! j = Some v) \<longleftrightarrow>
    (\<exists>j<MMI_VOTE_NUM_MAX. j \<noteq> i \<and> voters vote ! j = Some v) \<or> w = Some v"
    using assms(2) len by (auto simp: nth_list_update)
  also have "\<dots> \<longleftrightarrow> (\<exists>j<MMI_VOTE_NUM_MAX. voters vote ! j = Some v) \<and> voters vote ! i \<noteq> Some v \<or> w = Some v"
    using assms(2) inj by auto
  finally show "v \<in> registered (vote\<lparr>voters := (voters vote)[i := w], vote_votes := vs\<rparr>) \<longleftrightarrow>
    v \<in> registered vote - {v. voters vote ! i = Some v} \<union> {v. w = Some v}"
    using len by (simp add: registered_iff)
qed

lemma card_registered:
  assumes "vote_ok vote"
  shows "card (registered vote) = MMI_VOTE_NUM_MAX \<longleftrightarrow> (\<forall>i<MMI_VOTE_NUM_MAX. voters vote ! i \<noteq> None)"
proof -
  let ?I = "{i. i < MMI_VOTE_NUM_MAX \<and> voters vote ! i \<noteq> None}"
  have len: "length (voters vote) = MMI_VOTE_NUM_MAX"
    and inj: "\<forall>v. \<forall>i<MMI_VOTE_NUM_MAX. \<forall>j<MMI_VOTE_NUM_MAX.
        voters vote ! i = Some v \<and> voters vote ! j = Some v \<longrightarrow> i = j"
    using assms by (auto simp: vote_ok_def)
  have "bij_betw (\<lambda>i. the (voters vote ! i)) ?I (registered vote)"
  proof (rule bij_betw_imageI)
    show "inj_on (\<lambda>i. the (voters vote ! i)) ?I"
    proof (rule inj_onI)
      fix i j assume "i \<in> ?I" "j \<in> ?I" and eq: "the (voters vote ! i) = the (voters vote ! j)"
      then obtain v where "voters vote ! i = Some v" "voters vote ! j = Some v"
        "i < MMI_VOTE_NUM_MAX" "j < MMI_VOTE_NUM_MAX"
        by auto
      then show "i = j" using inj by blast
    qed
    show "(\<lambda>i. the (voters vote ! i)) ` ?I = registered vote"
      using len by (force simp: registered_iff image_iff)
  qed
  then have c: "card (registered vote) = card ?I" by (simp add: bij_betw_same_card)
  show ?thesis
  proof
    assume "card (registered vote) = MMI_VOTE_NUM_MAX"
    then have "?I = {..<MMI_VOTE_NUM_MAX}" using c by (intro card_subset_eq) auto
    then show "\<forall>i<MMI_VOTE_NUM_MAX. voters vote ! i \<noteq> None" by blast
  next
    assume "\<forall>i<MMI_VOTE_NUM_MAX. voters vote ! i \<noteq> None"
    then have "?I = {..<MMI_VOTE_NUM_MAX}" by auto
    then show "card (registered vote) = MMI_VOTE_NUM_MAX" using c by simp
  qed
qed

text \<open>One vote: the table, the set of registered voters and the return code after it.\<close>

definition vote_result :: "mmi_vote \<Rightarrow> string \<Rightarrow> bool \<Rightarrow> int \<Rightarrow> mmi_vote \<Rightarrow> bool" where
  "vote_result vote v en rc vote' \<longleftrightarrow> vote_ok vote' \<and> registered vote' =
      (if rc = 0 then (if en then insert v (registered vote) else registered vote - {v}) else registered vote) \<and>
    rc = (if en \<and> v \<notin> registered vote \<and> card (registered vote) = MMI_VOTE_NUM_MAX then - ENOENT else 0)"

lemma vote_known:
  assumes "vote_ok vote" "val < INT_MAX" "mmi_vote True vote (Some v) en val = (rc, vote')"
    and found: "List.find (\<lambda>i. voters vote ! i = Some v) [0..<MMI_VOTE_NUM_MAX] = Some i"
  shows "vote_result vote v en rc vote'"
proof -
  have len: "length (voters vote) = MMI_VOTE_NUM_MAX" using assms(1) by (simp add: vote_ok_def)
  have i: "i < MMI_VOTE_NUM_MAX" "voters vote ! i = Some v" using found by (simp_all add: find_Some_upt)
  then have reg: "v \<in> registered vote" using len by (auto simp: registered_iff)
  have only: "\<forall>w. Some v = Some w \<longrightarrow> (\<forall>j<MMI_VOTE_NUM_MAX. voters vote ! j = Some w \<longrightarrow> j = i)"
    using assms(1) i unfolding vote_ok_def by blast
  note on = vote_ok_update[OF assms(1) i(1) assms(2) only]
  have off: "vote_ok (vote\<lparr>voters := (voters vote)[i := None], vote_votes := (vote_votes vote)[i := 0]\<rparr>)"
    by (rule vote_ok_update[OF assms(1) i(1)]) simp_all
  have "rc = 0" and v': "vote' = (if en
      then vote\<lparr>voters := (voters vote)[i := Some v], vote_votes := (vote_votes vote)[i := val]\<rparr>
      else vote\<lparr>voters := (voters vote)[i := None], vote_votes := (vote_votes vote)[i := 0]\<rparr>)"
    using assms(3) found by (auto simp: mmi_vote_def split: if_splits)
  then show ?thesis using on off i(2) reg unfolding vote_result_def
    by (cases en) (auto simp: registered_update[OF assms(1) i(1)])
qed

lemma vote_unknown:
  assumes "vote_ok vote" "val < INT_MAX" "mmi_vote True vote (Some v) en val = (rc, vote')"
    and unknown: "List.find (\<lambda>i. voters vote ! i = Some v) [0..<MMI_VOTE_NUM_MAX] = None"
  shows "vote_result vote v en rc vote'"
proof -
  have len: "length (voters vote) = MMI_VOTE_NUM_MAX" using assms(1) by (simp add: vote_ok_def)
  have reg: "v \<notin> registered vote" using unknown len by (simp add: find_None_upt registered_iff)
  show ?thesis
  proof (cases "List.find (\<lambda>i. voters vote ! i = None) [0..<MMI_VOTE_NUM_MAX]")
    case (Some i)
    then have i: "i < MMI_VOTE_NUM_MAX" "voters vote ! i = None" by (simp_all add: find_Some_upt)
    then have nfull: "card (registered vote) \<noteq> MMI_VOTE_NUM_MAX"
      using card_registered[OF assms(1)] by blast
    have only: "\<forall>w. Some v = Some w \<longrightarrow> (\<forall>j<MMI_VOTE_NUM_MAX. voters vote ! j = Some w \<longrightarrow> j = i)"
      using reg len by (simp add: registered_iff)
    note on = vote_ok_update[OF assms(1) i(1) assms(2) only]
    have "rc = 0" and v': "vote' = (if en
        then vote\<lparr>voters := (voters vote)[i := Some v], vote_votes := (vote_votes vote)[i := val]\<rparr>
        else vote)"
      using assms(3) unknown Some by (auto simp: mmi_vote_def split: if_splits)
    then show ?thesis using on assms(1) i(2) reg nfull unfolding vote_result_def
      by (cases en) (auto simp: registered_update[OF assms(1) i(1)])
  next
    case full: None
    then have "card (registered vote) = MMI_VOTE_NUM_MAX"
      using card_registered[OF assms(1)] by (simp add: find_None_upt)
    then show ?thesis using assms full reg unfolding vote_result_def
      by (auto simp: mmi_vote_def split: if_splits)
  qed
qed

text \<open>
  A vote table is a set of voters. \<open>mmi_vote\<close> on a well-formed table keeps it
  well-formed; an accepted vote adds the voter or removes it and no other; a new voter is
  refused with -ENOENT exactly when all 32 slots are taken, and then nothing changes. The
  effective voter is a slot number exactly when the set is not empty: charging is disabled
  (and the charger suspended) as long as one voter asks for it.
\<close>

theorem mmi_vote_set:
  assumes "vote_ok vote" "val < INT_MAX" "mmi_vote True vote (Some v) en val = (rc, vote')"
  shows "vote_ok vote' \<and>
    registered vote' =
      (if rc = 0 then (if en then insert v (registered vote) else registered vote - {v}) else registered vote) \<and>
    rc = (if en \<and> v \<notin> registered vote \<and> card (registered vote) = MMI_VOTE_NUM_MAX then - ENOENT else 0) \<and>
    (0 \<le> mmi_get_effective_voter vote' \<longleftrightarrow> registered vote' \<noteq> {})"
proof -
  have "vote_result vote v en rc vote'"
    using vote_known[OF assms] vote_unknown[OF assms]
    by (cases "List.find (\<lambda>i. voters vote ! i = Some v) [0..<MMI_VOTE_NUM_MAX]") simp_all
  then show ?thesis using effective_voter_iff[of vote'] unfolding vote_result_def by blast
qed

lemma mmi_vote_set_witness:
  "\<exists>vote'. mmi_vote True zero_vote (Some ''demo'') True 0 = (0, vote') \<and>
    vote_ok vote' \<and> registered vote' = {''demo''} \<and> 0 \<le> mmi_get_effective_voter vote'"
proof -
  obtain rc vote' where r: "mmi_vote True zero_vote (Some ''demo'') True 0 = (rc, vote')" by fastforce
  then show ?thesis using mmi_vote_set[of zero_vote 0 "''demo''" True rc vote'] zero_vote_ok by auto
qed

end
