(* ===== verification/Charger_Step.thy ===== *)
theory Charger_Step
  imports Charger_Zones Charger_Vote
begin

text \<open>
  One charger in a heartbeat of \<open>mmi_charger.c\<close>: reading the driver
  (\<open>mmi_get_charger_info\<close>), resetting the configuration (\<open>mmi_reset_charger_configure\<close>),
  the step state machine (\<open>mmi_update_charger_status\<close>) and the configuration handed to
  the low-level driver (\<open>mmi_configure_charger\<close>).

  The driver's answers are the parameter \<open>env\<close>; the calls made on drivers are returned in
  order. A battery pack or a charger that is reached through a pointer and is not in its
  list any more is the fault \<open>UseAfterFree\<close>. Voltages and currents are in mV and mA, far
  from the bounds of \<open>int\<close>, so the sums of readings and constants here are unbounded. The
  build option \<open>CONFIG_MMI_RECHARGER_HAWAO_MODE\<close>, which moves the point where a full battery is
  charged again, is a field of \<open>env\<close>.
\<close>

section \<open>Packs and chargers behind pointers\<close>

definition find_pack :: "mmi_charger_chip \<Rightarrow> nat \<Rightarrow> mmi_battery_pack kres" where
  "find_pack chip b =
     (case List.find (\<lambda>p. bp_id p = b) (battery_list chip) of None \<Rightarrow> Inl UseAfterFree | Some p \<Rightarrow> Inr p)"

definition find_charger :: "mmi_charger_chip \<Rightarrow> nat \<Rightarrow> mmi_charger kres" where
  "find_charger chip c =
     (case List.find (\<lambda>x. ch_id x = c) (charger_list chip) of None \<Rightarrow> Inl UseAfterFree | Some x \<Rightarrow> Inr x)"

definition set_pack :: "mmi_charger_chip \<Rightarrow> nat \<Rightarrow> (mmi_battery_pack \<Rightarrow> mmi_battery_pack) \<Rightarrow> mmi_charger_chip kres" where
  "set_pack chip b f =
     kbind (find_pack chip b) (\<lambda>_.
       Inr (chip\<lparr>battery_list := map (\<lambda>p. if bp_id p = b then f p else p) (battery_list chip)\<rparr>))"

section \<open>Reading the driver, resetting the configuration\<close>

definition mmi_get_charger_info :: "driver_env \<Rightarrow> mmi_charger \<Rightarrow> mmi_charger" where
  "mmi_get_charger_info env charger =
     charger\<lparr>batt_info := get_batt_info env (batt_info charger),
             chg_info := get_chg_info env (chg_info charger)\<rparr>"

definition mmi_reset_charger_configure :: "mmi_charger_chip \<Rightarrow> mmi_charger \<Rightarrow> mmi_charger" where
  "mmi_reset_charger_configure chip charger =
     charger\<lparr>cfg := (cfg charger)
               \<lparr>target_fv := max_fv_mv (profile charger), target_fcc := - EINVAL,
                cfg_chrg_iterm := chrg_iterm (profile charger), cfg_fg_iterm := fg_iterm (profile charger),
                taper_kickoff := False, charging_reset := False, full_charged := False,
                charging_disable := False, charger_suspend := False\<rparr>,
             con := (con charger)
               \<lparr>con_demo_mode := demo_mode chip, con_factory_version := factory_version chip,
                con_factory_mode := factory_mode chip, con_dcp_pmax := dcp_pmax chip,
                con_hvdcp_pmax := hvdcp_pmax chip, con_pd_pmax := pd_pmax chip,
                con_wls_pmax := wls_pmax chip\<rparr>\<rparr>"

section \<open>The step state machine\<close>

definition charging_limit :: "mmi_charger_chip \<Rightarrow> int \<Rightarrow> charging_limit_modes \<Rightarrow> charging_limit_modes" where
  "charging_limit chip soc mode =
     (if enable_charging_limit chip \<and> factory_version chip then
        if mode \<noteq> CHARGING_LIMIT_RUN \<and> soc \<ge> upper_limit_capacity chip then CHARGING_LIMIT_RUN
        else if mode \<noteq> CHARGING_LIMIT_OFF \<and> soc \<le> lower_limit_capacity chip then CHARGING_LIMIT_OFF
        else mode
      else mode)"

text \<open>The demo-mode branch.\<close>

definition demo_step :: "driver_env \<Rightarrow> mmi_charger_chip \<Rightarrow> mmi_charger \<Rightarrow> mmi_charger" where
  "demo_step env chip charger =
     (let st = (status charger)\<lparr>pres_chrg_step := STEP_DEMO\<rparr>;
          bi = batt_info charger; pr = profile charger;
          voltage_full = (\<not> demo_chrg_suspend st \<and> batt_mv bi + HYST_STEP_MV \<ge> demo_fv_mv pr \<and>
                          is_charge_tapered env (chrg_iterm pr))
      in if \<not> demo_chrg_suspend st \<and> (batt_soc bi \<ge> demo_mode chip \<or> voltage_full)
         then charger\<lparr>status := st\<lparr>demo_full_soc := batt_soc bi, demo_chrg_suspend := True\<rparr>\<rparr>
         else if demo_chrg_suspend st \<and> batt_soc bi \<le> demo_full_soc st - DEMO_MODE_HYS_SOC
         then charger\<lparr>status := st\<lparr>demo_chrg_suspend := False\<rparr>,
                      cfg := (cfg charger)\<lparr>taper_kickoff := True\<rparr>\<rparr>
         else charger\<lparr>status := st\<rparr>)"

text \<open>
  The steps inside a temperature zone \<open>tz\<close>: the new step, whether \<open>taper_kickoff\<close> and
  whether \<open>charging_reset\<close> is set.
\<close>

definition enter_step :: "mmi_temp_zone \<Rightarrow> int \<Rightarrow> int \<Rightarrow> mmi_chrg_step" where
  "enter_step tz vbat hyst =
     (if norm_mv tz \<noteq> 0 \<and> vbat + hyst \<ge> norm_mv tz
      then if fcc_norm_ma tz \<noteq> 0 then STEP_NORM else STEP_STOP
      else STEP_MAX)"

definition step_max ::
  "driver_env \<Rightarrow> mmi_charger \<Rightarrow> mmi_temp_zone \<Rightarrow> mmi_chrg_step \<times> bool \<times> bool" where
  "step_max env charger tz =
     (let vbat = batt_mv (batt_info charger)
      in if norm_mv tz = 0 then
        ((if vbat + HYST_STEP_MV \<ge> max_fv_mv (profile charger) then STEP_NORM else STEP_MAX), True, False)
      else if vbat + HYST_STEP_MV < norm_mv tz then (STEP_MAX, True, False)
      else if fcc_norm_ma tz = 0 then (STEP_FLOAT, False, False)
      else if is_charge_tapered env (fcc_norm_ma tz)
      then (STEP_NORM, True, has_charge_halt (driver charger) \<and> is_charge_halt env)
      else (STEP_MAX, False, False))"

definition step_norm ::
  "driver_env \<Rightarrow> mmi_charger \<Rightarrow> mmi_temp_zone \<Rightarrow> mmi_chrg_step \<times> bool \<times> bool" where
  "step_norm env charger tz =
     (let bi = batt_info charger; pr = profile charger
      in if fcc_norm_ma tz = 0 then (STEP_FLOAT, False, False)
      else if batt_soc bi < 100 \<or> batt_mv bi + HYST_STEP_MV < max_fv_mv pr then (STEP_NORM, True, False)
      else if is_charge_tapered env (chrg_iterm pr) then (STEP_FULL, False, False)
      else (STEP_NORM, False, False))"

definition step_full :: "driver_env \<Rightarrow> mmi_charger \<Rightarrow> mmi_chrg_step \<times> bool \<times> bool" where
  "step_full env charger =
     (let bi = batt_info charger;
          recharge = (if recharger_hawao_mode env
                      then batt_soc bi \<le> 98 \<or> batt_mv bi < max_fv_mv (profile charger) - 100 * 2
                      else batt_soc bi \<le> 99 \<or> batt_mv bi < max_fv_mv (profile charger) - HYST_STEP_MV * 2)
      in if recharge then (STEP_NORM, True, False) else (STEP_FULL, False, False))"

definition step_float ::
  "driver_env \<Rightarrow> mmi_charger \<Rightarrow> mmi_temp_zone \<Rightarrow> mmi_chrg_step \<times> bool \<times> bool" where
  "step_float env charger tz =
     (if fcc_norm_ma tz \<noteq> 0 \<or> batt_mv (batt_info charger) + HYST_STEP_MV < norm_mv tz
      then (STEP_MAX, False, False)
      else if is_charge_tapered env (chrg_iterm (profile charger)) then (STEP_STOP, False, False)
      else (STEP_FLOAT, False, False))"

definition zone_charge_step ::
  "driver_env \<Rightarrow> mmi_charger \<Rightarrow> mmi_temp_zone \<Rightarrow> mmi_chrg_step \<times> bool \<times> bool" where
  "zone_charge_step env charger tz =
     (let vbat = batt_mv (batt_info charger)
      in case pres_chrg_step (status charger) of
        STEP_NONE \<Rightarrow> (enter_step tz vbat HYST_STEP_MV, False, False)
      | STEP_STOP \<Rightarrow>
          (enter_step tz vbat (if batt_temp (batt_info charger) > COOL_TEMP then 2 * HYST_STEP_MV
                               else 5 * HYST_STEP_MV), False, False)
      | STEP_MAX \<Rightarrow> step_max env charger tz
      | STEP_NORM \<Rightarrow> step_norm env charger tz
      | STEP_FULL \<Rightarrow> step_full env charger
      | STEP_FLOAT \<Rightarrow> step_float env charger tz
      | STEP_DEMO \<Rightarrow> (STEP_DEMO, False, False))"

definition charge_step :: "driver_env \<Rightarrow> mmi_charger_chip \<Rightarrow> mmi_charger \<Rightarrow> mmi_charger" where
  "charge_step env chip charger =
     (let st = status charger
      in if chrg_present (chg_info charger) = 0
         then charger\<lparr>status := st\<lparr>pres_chrg_step := STEP_NONE\<rparr>\<rparr>
      else if pres_temp_zone st = ZONE_HOT \<or> pres_temp_zone st = ZONE_COLD \<or>
              charging_limit_mode st = CHARGING_LIMIT_RUN
         then charger\<lparr>status := st\<lparr>pres_chrg_step := STEP_STOP\<rparr>\<rparr>
      else if demo_mode chip \<noteq> 0 then demo_step env chip charger
      else case temp_zone st of
        None \<Rightarrow> charger\<lparr>status := st\<lparr>pres_chrg_step := STEP_MAX\<rparr>\<rparr>
      | Some tz \<Rightarrow>
          (let (step, kick, reset) = zone_charge_step env charger tz
           in charger\<lparr>status := st\<lparr>pres_chrg_step := step\<rparr>,
                      cfg := (cfg charger)\<lparr>taper_kickoff := taper_kickoff (cfg charger) \<or> kick,
                                           charging_reset := charging_reset (cfg charger) \<or> reset\<rparr>\<rparr>))"

definition mmi_update_charger_status ::
  "driver_env \<Rightarrow> mmi_charger_chip \<Rightarrow> mmi_charger \<Rightarrow> (mmi_charger_chip \<times> mmi_charger) kres" where
  "mmi_update_charger_status env chip charger =
     (let empty_vbat = shutdown_empty_vbat_mv (profile charger);
          chip = (if empty_vbat > 0 \<and> empty_vbat \<ge> batt_mv (batt_info charger)
                  then chip\<lparr>empty_vbat_shutdown_triggered := True\<rparr> else chip);
          charger = charger\<lparr>status := (status charger)\<lparr>charging_limit_mode :=
            charging_limit chip (batt_soc (batt_info charger)) (charging_limit_mode (status charger))\<rparr>\<rparr>
      in kbind (mmi_get_temp_zone chip charger) (\<lambda>charger.
         kbind (set_pack chip (battery charger) (\<lambda>p. p\<lparr>pending := pending p + 1\<rparr>)) (\<lambda>chip.
           Inr (chip, charge_step env chip charger))))"

section \<open>The configuration\<close>

definition mmi_notify_paired_battery :: "mmi_charger_chip \<Rightarrow> mmi_charger \<Rightarrow> drv_call list kres" where
  "mmi_notify_paired_battery chip charger =
     kbind (find_pack chip (battery charger)) (\<lambda>pack.
       case paired_batt pack of
         None \<Rightarrow> Inr []
       | Some pb \<Rightarrow>
           if \<not> has_notify_paired (driver charger) then Inr []
           else kbind (find_pack chip pb) (\<lambda>pp. kbind (find_charger chip (info pp)) (\<lambda>c.
             Inr [NotifyPaired (drv_id (driver charger)) (batt_info c)])))"

text \<open>The \<open>switch\<close> on the step: float voltage, charge current, and the full flag.\<close>

definition step_target :: "mmi_charger \<Rightarrow> int \<times> int \<times> bool" where
  "step_target charger =
     (let pr = profile charger; tz = temp_zone (status charger);
          fcc_norm = (case tz of None \<Rightarrow> max_fcc_ma pr | Some z \<Rightarrow> fcc_norm_ma z);
          full_max = (case tz of
              None \<Rightarrow> (max_fv_mv pr + vfloat_comp_mv pr, max_fcc_ma pr, False)
            | Some z \<Rightarrow> ((if norm_mv z = 0 then max_fv_mv pr else norm_mv z) + vfloat_comp_mv pr,
                          fcc_max_ma z, False))
      in case pres_chrg_step (status charger) of
        STEP_FLOAT \<Rightarrow> full_max
      | STEP_MAX \<Rightarrow> full_max
      | STEP_FULL \<Rightarrow> (max_fv_mv pr, - EINVAL, True)
      | STEP_NORM \<Rightarrow> (max_fv_mv pr + vfloat_comp_mv pr, fcc_norm, False)
      | STEP_NONE \<Rightarrow> (max_fv_mv pr, fcc_norm, False)
      | STEP_STOP \<Rightarrow> (max_fv_mv pr, - EINVAL, False)
      | STEP_DEMO \<Rightarrow> (demo_fv_mv pr, fcc_norm, False))"

definition configure_cfg :: "mmi_charger_chip \<Rightarrow> mmi_charger \<Rightarrow> mmi_charger_cfg" where
  "configure_cfg chip charger =
     (let (fv, fcc, full) = step_target charger;
          c1 = (cfg charger)\<lparr>target_fv := fv, target_fcc := fcc,
                 full_charged := full_charged (cfg charger) \<or> full,
                 charging_disable := (fcc < 0 \<or> mmi_get_effective_voter (disable_charging_vote chip) \<ge> 0)\<rparr>;
          c2 = (if factory_mode chip
                then c1\<lparr>target_fv := 4400, target_fcc := 3000, charging_disable := True,
                        taper_kickoff := False, charging_reset := False\<rparr> else c1);
          c3 = (if force_charger_disabled chip \<or> demo_chrg_suspend (status charger) \<or>
                   mmi_get_effective_voter (suspend_charger_vote chip) \<ge> 0
                then c2\<lparr>charger_suspend := True\<rparr> else c2)
      in if force_charging_enabled chip then c3\<lparr>charging_disable := False\<rparr> else c3)"

definition mmi_configure_charger ::
  "mmi_charger_chip \<Rightarrow> mmi_charger \<Rightarrow> (mmi_charger \<times> drv_call list) kres" where
  "mmi_configure_charger chip charger =
     (let charger = charger\<lparr>cfg := configure_cfg chip charger\<rparr>
      in kbind (mmi_notify_paired_battery chip charger) (\<lambda>calls.
         Inr (charger, calls @ [SetConstraint (drv_id (driver charger)) (con charger),
                                ConfigCharge (drv_id (driver charger)) (cfg charger)])))"

end
