(* ===== verification/Charger_Battery.thy ===== *)
theory Charger_Battery
  imports Charger_Step
begin

text \<open>
  The battery side of \<open>mmi_charger.c\<close>: the pack status computed from all the chargers of
  a pack (\<open>mmi_update_battery_status\<close> with its \<open>pending\<close> and \<open>reference\<close> counters), the
  values combined over all packs (\<open>mmi_combine_battery_*\<close>), the pairing of packs and the
  events sent to user space.

  All arithmetic is 32-bit: \<open>i32\<close> stands at every sum and product. \<open>psy_found\<close> says
  whether the supply named "battery" exists, \<open>alloc\<close> whether \<open>kmalloc\<close> succeeds.
\<close>

section \<open>Events\<close>

datatype chip_event =
  ChargeRateEvent int | LpdPresentEvent bool | VbusPresentEvent bool | PowerWattEvent int
| PowerSupplyChanged

datatype notify_type = CHG_RATE | LPD_PRESENT | VBUS_PRESENT | POWER_WATT

definition notify_text :: "mmi_charger_chip \<Rightarrow> notify_type \<Rightarrow> chip_event kres" where
  "notify_text chip ty =
     (case ty of
        CHG_RATE \<Rightarrow> if 0 \<le> max_charger_rate chip \<and> max_charger_rate chip \<le> RATE_HYPER
                    then Inr (ChargeRateEvent (max_charger_rate chip)) else Inl OutOfBounds
      | LPD_PRESENT \<Rightarrow> Inr (LpdPresentEvent (lpd_present chip))
      | VBUS_PRESENT \<Rightarrow> Inr (VbusPresentEvent (vbus_present chip))
      | POWER_WATT \<Rightarrow> Inr (PowerWattEvent (power_watt chip sdiv 1000)))"

definition mmi_battery_supply_init :: "bool \<Rightarrow> mmi_charger_chip \<Rightarrow> mmi_charger_chip" where
  "mmi_battery_supply_init psy_found chip = chip\<lparr>batt_psy := batt_psy chip \<or> psy_found\<rparr>"

definition mmi_notify_charger_event ::
  "bool \<Rightarrow> bool \<Rightarrow> notify_type \<Rightarrow> mmi_charger_chip \<Rightarrow> (mmi_charger_chip \<times> chip_event list) kres" where
  "mmi_notify_charger_event psy_found alloc ty chip =
     (let chip = mmi_battery_supply_init psy_found chip
      in if \<not> batt_psy chip \<or> \<not> alloc then Inr (chip, [])
         else kbind (notify_text chip ty) (\<lambda>e. Inr (chip, [e])))"

section \<open>One charger\<close>

abbreviation (input) WEAK_CHRG_THRSH_MW :: int where "WEAK_CHRG_THRSH_MW \<equiv> 2500"
abbreviation (input) TURBO_CHRG_THRSH_MW :: int where "TURBO_CHRG_THRSH_MW \<equiv> 12500"
abbreviation (input) TURBO_CHRG_30W_THRSH_MW :: int where "TURBO_CHRG_30W_THRSH_MW \<equiv> 25000"
abbreviation (input) HYPER_CHRG_THRSH_MW :: int where "HYPER_CHRG_THRSH_MW \<equiv> 40000"

definition mmi_get_battery_charger_rate :: "mmi_charger \<Rightarrow> int" where
  "mmi_get_battery_charger_rate charger =
     (let ci = chg_info charger
      in if chrg_present ci = 0 then RATE_NONE
      else if chrg_pmax_mw ci < WEAK_CHRG_THRSH_MW then RATE_WEAK
      else if chrg_pmax_mw ci < TURBO_CHRG_THRSH_MW then RATE_NORMAL
      else if chrg_pmax_mw ci < TURBO_CHRG_30W_THRSH_MW then RATE_TURBO
      else if chrg_pmax_mw ci < HYPER_CHRG_THRSH_MW then RATE_TURBO_30W
      else RATE_HYPER)"

definition mmi_get_battery_health :: "mmi_charger \<Rightarrow> int" where
  "mmi_get_battery_health charger =
     (let st = status charger; t = batt_temp (batt_info charger)
      in if pres_temp_zone st = ZONE_HOT then PS_HEALTH_OVERHEAT
      else if pres_temp_zone st = ZONE_COLD then PS_HEALTH_COLD
      else if t \<ge> WARM_TEMP then if pres_chrg_step st = STEP_STOP then PS_HEALTH_OVERHEAT else PS_HEALTH_GOOD
      else if t \<le> COOL_TEMP then if pres_chrg_step st = STEP_STOP then PS_HEALTH_COLD else PS_HEALTH_GOOD
      else PS_HEALTH_GOOD)"

section \<open>Values combined over the packs\<close>

text \<open>\<open>battery->info\<close> of every pack of the list, in order: the reads of the loops.\<close>

fun packs_info :: "mmi_charger_chip \<Rightarrow> mmi_battery_pack list \<Rightarrow> (mmi_battery_pack \<times> mmi_battery_info) list kres" where
  "packs_info chip [] = Inr []"
| "packs_info chip (p # ps) =
     kbind (find_charger chip (info p)) (\<lambda>c. kbind (packs_info chip ps) (\<lambda>r. Inr ((p, batt_info c) # r)))"

definition mmi_combine_battery_soc :: "(mmi_battery_pack \<times> mmi_battery_info) list \<Rightarrow> int" where
  "mmi_combine_battery_soc bs =
     (let (remain, full) = fold (\<lambda>(_, bi) (remain, full).
            (i32 (remain + i32 (batt_soc bi * batt_full_uah bi)), i32 (full + batt_full_uah bi))) bs (0, 0)
      in if full > 0 \<and> remain \<ge> 0
         then let soc = remain sdiv full in if soc > 100 then 100 else soc
         else - 1)"

fun combine_status_loop :: "mmi_battery_pack list \<Rightarrow> int \<Rightarrow> int" where
  "combine_status_loop [] st = st"
| "combine_status_loop (p # ps) st =
     (if bp_status p = PS_STATUS_CHARGING then PS_STATUS_CHARGING
      else if bp_status p = PS_STATUS_NOT_CHARGING \<or> st = PS_STATUS_NOT_CHARGING
      then combine_status_loop ps PS_STATUS_NOT_CHARGING
      else if bp_status p = PS_STATUS_DISCHARGING \<or> st = PS_STATUS_DISCHARGING
      then combine_status_loop ps PS_STATUS_DISCHARGING
      else combine_status_loop ps (bp_status p))"

definition mmi_combine_battery_status :: "mmi_charger_chip \<Rightarrow> int" where
  "mmi_combine_battery_status chip = combine_status_loop (battery_list chip) PS_STATUS_UNKNOWN"

definition mmi_combine_battery_cycles :: "(mmi_battery_pack \<times> mmi_battery_info) list \<Rightarrow> int" where
  "mmi_combine_battery_cycles bs =
     (let (cyc, full) = fold (\<lambda>(p, bi) (cyc, full).
            (i32 (cyc + i32 (cycles p * batt_full_uah bi)), i32 (full + batt_full_uah bi))) bs (0, 0)
      in if full > 0 \<and> cyc \<ge> 0 then cyc sdiv full else - 1)"

definition mmi_combine_battery_age ::
  "(mmi_battery_pack \<times> mmi_battery_info) list \<Rightarrow> mmi_charger_chip \<Rightarrow> int \<times> mmi_charger_chip" where
  "mmi_combine_battery_age bs chip =
     (let (full, full_design) = fold (\<lambda>(_, bi) (full, full_design).
            (i32 (full + batt_full_uah bi), i32 (full_design + batt_design_uah bi))) bs (0, 0);
          chip = chip\<lparr>charge_full := full, charge_full_design := full_design\<rparr>
      in if full_design > 0 \<and> full > 0
         then let a = i32 (full * 100) sdiv full_design in ((if a > 100 then 100 else a), chip)
         else (- 1, chip))"

definition mmi_combine_battery_current :: "(mmi_battery_pack \<times> mmi_battery_info) list \<Rightarrow> int" where
  "mmi_combine_battery_current bs = fold (\<lambda>(_, bi) s. i32 (s + batt_ma bi)) bs 0"

definition mmi_combine_charge_counter :: "(mmi_battery_pack \<times> mmi_battery_info) list \<Rightarrow> int" where
  "mmi_combine_charge_counter bs = fold (\<lambda>(_, bi) s. i32 (s + batt_chg_counter bi)) bs 0"

definition mmi_combine_battery_voltage :: "(mmi_battery_pack \<times> mmi_battery_info) list \<Rightarrow> int" where
  "mmi_combine_battery_voltage bs =
     (let (v, count) = fold (\<lambda>(_, bi) (v, count). (i32 (v + batt_mv bi), i32 (count + 1))) bs (0, 0)
      in if count \<noteq> 0 then v sdiv count else v)"

section \<open>The pack status\<close>

text \<open>The accumulators of the loop over the chargers.\<close>

record batt_acc =
  acc_max_rate :: int
  acc_power :: int
  acc_vbus :: bool
  acc_lpd :: bool

definition first_charger_update :: "mmi_charger \<Rightarrow> mmi_battery_pack \<Rightarrow> mmi_battery_pack" where
  "first_charger_update charger p =
     (let bi = batt_info charger
      in p\<lparr>bp_status := PS_STATUS_DISCHARGING, charger_rate := RATE_NONE,
           health := mmi_get_battery_health charger,
           age := (if batt_design_uah bi > 0 then i32 (batt_full_uah bi * 100) sdiv batt_design_uah bi else age p),
           cycles := (if soc_cycles_start p < batt_soc bi
                      then i32 (cycles p + (batt_soc bi - soc_cycles_start p)) else cycles p),
           soc_cycles_start := batt_soc bi,
           info := ch_id charger\<rparr>)"

definition pack_status :: "mmi_charger \<Rightarrow> int \<Rightarrow> int" where
  "pack_status charger st =
     (let b = batt_status (batt_info charger)
      in if b = PS_STATUS_FULL \<or> st = PS_STATUS_FULL \<or> pres_chrg_step (status charger) = STEP_FULL
         then PS_STATUS_FULL
      else if b = PS_STATUS_CHARGING \<or> st = PS_STATUS_CHARGING then PS_STATUS_CHARGING
      else if b = PS_STATUS_NOT_CHARGING \<or> st = PS_STATUS_NOT_CHARGING then PS_STATUS_NOT_CHARGING
      else PS_STATUS_DISCHARGING)"

text \<open>The updates of the pack for one charger, up to \<open>battery->pending--\<close>.\<close>

definition charger_update :: "mmi_charger \<Rightarrow> mmi_battery_pack \<Rightarrow> mmi_battery_pack" where
  "charger_update charger p0 =
     (let p1 = (if pending p0 = reference p0 then first_charger_update charger p0 else p0);
          rate = mmi_get_battery_charger_rate charger
      in p1\<lparr>charger_rate := (if charger_rate p1 < rate then rate else charger_rate p1),
            bp_status := pack_status charger (bp_status p1),
            pending := pending p1 - 1\<rparr>)"

definition status_body ::
  "mmi_charger \<Rightarrow> mmi_charger_chip \<times> batt_acc \<Rightarrow> (mmi_charger_chip \<times> batt_acc) kres" where
  "status_body charger = (\<lambda>(chip, acc).
     kbind (find_pack chip (battery charger)) (\<lambda>p0.
       let p = charger_update charger p0; ci = chg_info charger;
           last = pending p \<le> 0;
           acc = acc\<lparr>acc_power := (if chrg_pmax_mw ci > acc_power acc then chrg_pmax_mw ci else acc_power acc),
                     acc_max_rate := (if last \<and> acc_max_rate acc < charger_rate p then charger_rate p
                                      else acc_max_rate acc),
                     acc_vbus := acc_vbus acc \<or> ci_vbus_present ci \<noteq> 0,
                     acc_lpd := acc_lpd acc \<or> ci_lpd_present ci \<noteq> 0\<rparr>
       in kbind (set_pack chip (battery charger) (\<lambda>_. if last then p\<lparr>pending := 0\<rparr> else p)) (\<lambda>chip.
            Inr (chip, acc))))"

fun status_loop ::
  "mmi_charger list \<Rightarrow> mmi_charger_chip \<times> batt_acc \<Rightarrow> (mmi_charger_chip \<times> batt_acc) kres" where
  "status_loop [] s = Inr s"
| "status_loop (c # cs) s = kbind (status_body c s) (status_loop cs)"

section \<open>The combined values of the chip\<close>

text \<open>
  The health and temperature of the hottest pack. \<open>batt_temp\<close> is not initialised before
  the loop: \<open>junk\<close> is what the stack holds.
\<close>

fun hottest :: "(mmi_battery_pack \<times> mmi_battery_info) list \<Rightarrow> int \<Rightarrow> int \<Rightarrow> int \<times> int" where
  "hottest [] h t = (h, t)"
| "hottest ((p, bi) # bs) h t =
     (if h = PS_HEALTH_UNKNOWN then hottest bs (health p) (batt_temp bi)
      else if batt_temp bi > t then hottest bs (health p) (batt_temp bi)
      else hottest bs h t)"

definition combo_update ::
  "(mmi_battery_pack \<times> mmi_battery_info) list \<Rightarrow> mmi_charger_chip \<Rightarrow> mmi_charger_chip \<times> bool" where
  "combo_update bs chip =
     (let soc = mmi_combine_battery_soc bs; st = mmi_combine_battery_status chip;
          cyc = mmi_combine_battery_cycles bs; (a, chip) = mmi_combine_battery_age bs chip;
          v = mmi_combine_battery_voltage bs; i = mmi_combine_battery_current bs;
          cc = mmi_combine_charge_counter bs;
          ch1 = soc \<ge> 0 \<and> combo_soc chip \<noteq> soc;
          ch2 = combo_status chip \<noteq> st;
          ch3 = cyc \<ge> 0 \<and> combo_cycles chip sdiv 100 \<noteq> cyc sdiv 100;
          ch4 = a > 0 \<and> combo_age chip \<noteq> a
      in (chip\<lparr>combo_soc := (if ch1 then soc else combo_soc chip),
               combo_status := st,
               combo_cycles := (if ch3 then cyc else combo_cycles chip),
               combo_age := (if ch4 then a else combo_age chip),
               combo_voltage_mv := (if v > 0 then v else combo_voltage_mv chip),
               combo_current_ma := i, combo_charge_counter := cc\<rparr>,
          ch1 \<or> ch2 \<or> ch3 \<or> ch4))"

text \<open>A value that is stored and announced when it changed.\<close>

definition announce ::
  "bool \<Rightarrow> bool \<Rightarrow> bool \<Rightarrow> (mmi_charger_chip \<Rightarrow> mmi_charger_chip) \<Rightarrow> notify_type \<Rightarrow>
   mmi_charger_chip \<times> bool \<times> chip_event list \<Rightarrow> (mmi_charger_chip \<times> bool \<times> chip_event list) kres" where
  "announce psy_found alloc differs upd ty = (\<lambda>(chip, changed, evs).
     if differs
     then kbind (mmi_notify_charger_event psy_found alloc ty (upd chip)) (\<lambda>(chip, es).
       Inr (chip, True, evs @ es))
     else Inr (chip, changed, evs))"

definition mmi_update_battery_status ::
  "bool \<Rightarrow> bool \<Rightarrow> int \<Rightarrow> mmi_charger_chip \<Rightarrow> (mmi_charger_chip \<times> chip_event list) kres" where
  "mmi_update_battery_status psy_found alloc junk chip =
     kbind (status_loop (charger_list chip)
              (chip, \<lparr>acc_max_rate = RATE_NONE, acc_power = 0, acc_vbus = False, acc_lpd = False\<rparr>)) (\<lambda>(chip, acc).
     kbind (packs_info chip (battery_list chip)) (\<lambda>bs.
       let (chip, changed) = combo_update bs chip
       in kbind (announce psy_found alloc (max_charger_rate chip \<noteq> acc_max_rate acc)
                   (\<lambda>c. c\<lparr>max_charger_rate := acc_max_rate acc\<rparr>) CHG_RATE (chip, changed, [])) (\<lambda>s.
          kbind (announce psy_found alloc (lpd_present chip \<noteq> acc_lpd acc)
                   (\<lambda>c. c\<lparr>lpd_present := acc_lpd acc\<rparr>) LPD_PRESENT s) (\<lambda>s.
          kbind (announce psy_found alloc (vbus_present chip \<noteq> acc_vbus acc)
                   (\<lambda>c. c\<lparr>vbus_present := acc_vbus acc\<rparr>) VBUS_PRESENT s) (\<lambda>s.
          kbind (announce psy_found alloc (power_watt chip sdiv 1000 \<noteq> acc_power acc sdiv 1000)
                   (\<lambda>c. c\<lparr>power_watt := acc_power acc\<rparr>) POWER_WATT s) (\<lambda>(chip, changed, evs).
            let (h, t) = hottest bs PS_HEALTH_UNKNOWN junk;
                differs = (combo_health chip \<noteq> h \<or> combo_temp chip \<noteq> t)
            in Inr (chip\<lparr>combo_health := h, combo_temp := t\<rparr>,
                    evs @ (if changed \<or> differs then [PowerSupplyChanged] else []))))))))"

section \<open>Pairing of packs\<close>

text \<open>
  \<open>pack\<close> is the new pack, not in the list yet: the result is the pack and the list with
  the packs that name it as their target. The ids are shifted as signed integers.
\<close>

definition mmi_update_paired_battery ::
  "mmi_charger_chip \<Rightarrow> mmi_battery_pack \<Rightarrow> mmi_charger_chip \<times> mmi_battery_pack" where
  "mmi_update_paired_battery chip pack =
     (if paired_id pack = 0 then (chip, pack\<lparr>paired_batt := None\<rparr>)
      else
        (chip\<lparr>battery_list := map (\<lambda>batt.
             if signed_drop_bit 16 (paired_id pack) = and (paired_id batt) 0xFFFF
             then batt\<lparr>paired_batt := Some (bp_id pack)\<rparr> else batt) (battery_list chip)\<rparr>,
         fold (\<lambda>batt b. if signed_drop_bit 16 (paired_id batt) = and (paired_id b) 0xFFFF
                        then b\<lparr>paired_batt := Some (bp_id batt)\<rparr> else b) (battery_list chip) pack))"

end
