(* ===== verification/Charger_Combine.thy ===== *)
theory Charger_Combine
  imports Charger_Battery
begin

text \<open>
  The values combined over all battery packs (\<open>mmi_combine_battery_*\<close> of
  \<open>mmi_charger.c\<close>): the capacity-weighted means they compute while the 32-bit sums do not
  overflow, the bounds that hold always, and the capacity at which the cycle count fails.
\<close>

section \<open>Sums that wrap\<close>

lemma fold_i32_pair:
  assumes "\<forall>x\<in>set xs. 0 \<le> f x \<and> 0 \<le> g x" "0 \<le> a" "0 \<le> b"
    "a + sum_list (map f xs) \<le> INT_MAX" "b + sum_list (map g xs) \<le> INT_MAX"
  shows "fold (\<lambda>x s. (i32 (fst s + i32 (f x)), i32 (snd s + g x))) xs (a, b) =
    (a + sum_list (map f xs), b + sum_list (map g xs))"
  using assms
proof (induction xs arbitrary: a b)
  case Nil
  then show ?case by simp
next
  case (Cons x xs)
  have pos: "0 \<le> sum_list (map f xs)" "0 \<le> sum_list (map g xs)"
    using Cons.prems(1) by (auto intro!: sum_list_nonneg)
  have ge: "0 \<le> f x" "0 \<le> g x" using Cons.prems(1) by auto
  then have "i32 (f x) = f x" "i32 (a + f x) = a + f x" "i32 (b + g x) = b + g x"
    using Cons.prems(2-5) pos by (auto intro!: i32_id simp: in_i32_def)
  then show ?case using Cons.IH[of "a + f x" "b + g x"] Cons.prems ge by (simp add: add.assoc)
qed

definition total_full :: "(mmi_battery_pack \<times> mmi_battery_info) list \<Rightarrow> int" where
  "total_full bs = sum_list (map (\<lambda>x. batt_full_uah (snd x)) bs)"

definition weighted :: "(mmi_battery_pack \<times> mmi_battery_info \<Rightarrow> int) \<Rightarrow>
    (mmi_battery_pack \<times> mmi_battery_info) list \<Rightarrow> int" where
  "weighted f bs = sum_list (map (\<lambda>x. f x * batt_full_uah (snd x)) bs)"

section \<open>Capacity\<close>

lemma sdiv_pos: "0 \<le> a \<Longrightarrow> 0 < b \<Longrightarrow> a sdiv b = a div (b :: int)"
  by (simp add: signed_divide_int_def sgn_if)

lemma combine_soc_unfold:
  "mmi_combine_battery_soc bs =
     (let s = fold (\<lambda>x s. (i32 (fst s + i32 (batt_soc (snd x) * batt_full_uah (snd x))), i32 (snd s + batt_full_uah (snd x)))) bs (0, 0)
      in if snd s > 0 \<and> fst s \<ge> 0 then min 100 (fst s sdiv snd s) else - 1)"
  by (simp add: mmi_combine_battery_soc_def case_prod_unfold Let_def min_def)

text \<open>
  C38. The combined capacity. Whatever the drivers report, the combined state of charge is
  -1 (unknown, and then not published) or between 0 and 100 percent. When every pack reports
  a capacity of at least 0 and a charge of at least 0 percent and the weighted sum fits into
  32 bits, it is the mean of the packs' charges weighted by their capacities, rounded down
  and limited to 100.
\<close>

theorem combined_soc:
  "- 1 \<le> mmi_combine_battery_soc bs \<and> mmi_combine_battery_soc bs \<le> 100 \<and>
   ((\<forall>x\<in>set bs. 0 \<le> batt_soc (snd x) \<and> 0 \<le> batt_full_uah (snd x)) \<and> 0 < total_full bs \<and>
      total_full bs \<le> INT_MAX \<and> weighted (\<lambda>x. batt_soc (snd x)) bs \<le> INT_MAX \<longrightarrow>
    mmi_combine_battery_soc bs = min 100 (weighted (\<lambda>x. batt_soc (snd x)) bs div total_full bs))"
proof -
  obtain r f where rf: "fold (\<lambda>x s. (i32 (fst s + i32 (batt_soc (snd x) * batt_full_uah (snd x))),
      i32 (snd s + batt_full_uah (snd x)))) bs (0, 0) = (r, f)" by fastforce
  have eq: "mmi_combine_battery_soc bs = (if f > 0 \<and> r \<ge> 0 then min 100 (r sdiv f) else - 1)"
    unfolding combine_soc_unfold rf Let_def by simp
  have "- 1 \<le> mmi_combine_battery_soc bs \<and> mmi_combine_battery_soc bs \<le> 100"
    unfolding eq by (auto simp: sdiv_pos pos_imp_zdiv_nonneg_iff intro: order_trans[of _ 0])
  moreover have "mmi_combine_battery_soc bs = min 100 (weighted (\<lambda>x. batt_soc (snd x)) bs div total_full bs)"
    if h: "\<forall>x\<in>set bs. 0 \<le> batt_soc (snd x) \<and> 0 \<le> batt_full_uah (snd x)" "0 < total_full bs"
      "total_full bs \<le> INT_MAX" "weighted (\<lambda>x. batt_soc (snd x)) bs \<le> INT_MAX"
  proof -
    have "(r, f) = (weighted (\<lambda>x. batt_soc (snd x)) bs, total_full bs)"
      using fold_i32_pair[of bs "\<lambda>x. batt_soc (snd x) * batt_full_uah (snd x)" "\<lambda>x. batt_full_uah (snd x)" 0 0] h rf
      by (simp add: weighted_def total_full_def)
    moreover have "0 \<le> weighted (\<lambda>x. batt_soc (snd x)) bs"
      using h(1) unfolding weighted_def by (intro sum_list_nonneg) (auto intro!: mult_nonneg_nonneg)
    ultimately show ?thesis using eq h(2) by (simp add: sdiv_pos)
  qed
  ultimately show ?thesis by blast
qed

definition pack_reading :: "int \<Rightarrow> int \<Rightarrow> int \<Rightarrow> mmi_battery_pack \<times> mmi_battery_info" where
  "pack_reading cyc soc full =
     (zero_battery_pack\<lparr>cycles := cyc\<rparr>, zero_battery_info\<lparr>batt_soc := soc, batt_full_uah := full\<rparr>)"

lemma combined_soc_witness:
  "mmi_combine_battery_soc [pack_reading 0 80 3000000, pack_reading 0 50 1000000] = 72"
proof -
  let ?bs = "[pack_reading 0 80 3000000, pack_reading 0 50 1000000]"
  have "mmi_combine_battery_soc ?bs = min 100 (weighted (\<lambda>x. batt_soc (snd x)) ?bs div total_full ?bs)"
    using combined_soc[of ?bs] by (simp add: pack_reading_def weighted_def total_full_def)
  then show ?thesis by (simp add: pack_reading_def weighted_def total_full_def)
qed

section \<open>Cycles\<close>

lemma i32_over: "INT_MAX < x \<Longrightarrow> x \<le> UINT_MAX \<Longrightarrow> i32 x = x - 4294967296"
proof -
  assume h: "INT_MAX < x" "x \<le> UINT_MAX"
  have "(x + 2147483648) mod 4294967296 = x - 2147483648"
    using h mod_add_self2[of "x - 2147483648" 4294967296] by (simp add: mod_pos_pos_trivial add.commute)
  then show "i32 x = x - 4294967296"
    by (simp add: i32_def signed_take_bit_eq_take_bit_shift take_bit_eq_mod)
qed

text \<open>
  The cycle count of a single pack. \<open>mmi_combine_battery_cycles\<close> weights the count
  (100 per full charge) by the capacity in uAh in 32-bit arithmetic. As long as the product
  fits it returns the count; as soon as the product exceeds \<open>INT_MAX\<close> it returns -1, so the
  published count stops: for a pack of 5 Ah after 4.29 full charges.
\<close>

theorem cycles_overflow:
  assumes "0 < full" "full \<le> INT_MAX" "0 \<le> cyc"
  shows "(cyc * full \<le> INT_MAX \<longrightarrow> mmi_combine_battery_cycles [pack_reading cyc soc full] = cyc) \<and>
    (INT_MAX < cyc * full \<and> cyc * full \<le> UINT_MAX \<longrightarrow>
       mmi_combine_battery_cycles [pack_reading cyc soc full] = - 1)"
proof -
  have full: "i32 full = full" using assms by (simp add: i32_id in_i32_def)
  have eq: "mmi_combine_battery_cycles [pack_reading cyc soc full] =
      (if i32 (cyc * full) \<ge> 0 then i32 (cyc * full) sdiv full else - 1)"
    using assms full by (simp add: mmi_combine_battery_cycles_def pack_reading_def)
  have "0 \<le> cyc * full" using assms by simp
  then have "cyc * full \<le> INT_MAX \<Longrightarrow> i32 (cyc * full) = cyc * full"
    by (simp add: i32_id in_i32_def)
  then show ?thesis using eq assms i32_over[of "cyc * full"] by (auto simp: sdiv_pos)
qed

lemma cycles_overflow_witness:
  "mmi_combine_battery_cycles [pack_reading 429 50 5000000] = 429 \<and>
   mmi_combine_battery_cycles [pack_reading 430 50 5000000] = - 1"
  using cycles_overflow[of 5000000 429 50] cycles_overflow[of 5000000 430 50] by simp

end
