(* ===== verification/Charger_Heartbeat.thy ===== *)
theory Charger_Heartbeat
  imports Charger_Battery
begin

text \<open>
  The life of the common charger driver, \<open>mmi_charger.c\<close>: reading the device tree
  (\<open>mmi_parse_dt\<close>, \<open>mmi_get_charger_profile\<close>), the probe, the registration and removal of
  low-level drivers, and the periodic \<open>mmi_charger_heartbeat_work\<close> with the work and the
  alarm it schedules.

  The device tree, the allocator and the clock are parameters. What the driver asks of
  the kernel (work, alarm, wake lock, power off) is returned as a list of actions.
\<close>

section \<open>Device tree\<close>

text \<open>
  A property of cells: its length in bytes and what \<open>of_property_read_u32_array\<close> returns
  for it, an error or the cells. \<open>of_property_read_u32\<close> gives \<open>None\<close> on an error and then
  leaves its target alone; a cell stored in an \<open>int\<close> is read as signed.
\<close>

record dt_cells =
  byte_len :: nat
  read_cells :: "int + int list"

record dt_node =
  dt_u32 :: "string \<rightharpoonup> int"
  dt_bool :: "string \<Rightarrow> bool"
  dt_string :: "string \<rightharpoonup> string"
  dt_array :: "string \<rightharpoonup> dt_cells"

definition read_int :: "dt_node \<Rightarrow> string \<Rightarrow> int \<Rightarrow> int" where
  "read_int node name dflt = (case dt_u32 node name of Some x \<Rightarrow> i32 x | None \<Rightarrow> dflt)"

definition read_u32 :: "dt_node \<Rightarrow> string \<Rightarrow> int \<Rightarrow> int" where
  "read_u32 node name dflt = (case dt_u32 node name of Some x \<Rightarrow> u32 x | None \<Rightarrow> dflt)"

text \<open>The bytes of the property seen as an array of structures of four \<open>int\<close>.\<close>

fun cells_zones :: "int list \<Rightarrow> mmi_temp_zone list" where
  "cells_zones (a # b # c # d # xs) =
     \<lparr>temp_c = i32 a, norm_mv = i32 b, fcc_max_ma = i32 c, fcc_norm_ma = i32 d\<rparr> # cells_zones xs"
| "cells_zones xs = []"

fun cells_ffc :: "int list \<Rightarrow> mmi_ffc_zone list" where
  "cells_ffc (a # b # c # d # xs) =
     \<lparr>ffc_temp = i32 a, ffc_fv = i32 b, ffc_chrg_iterm = i32 c, ffc_fg_iterm = i32 d\<rparr> # cells_ffc xs"
| "cells_ffc xs = []"

text \<open>The scalar properties of \<open>mmi_get_charger_profile\<close>.\<close>

definition profile_scalars :: "dt_node \<Rightarrow> mmi_charger_profile \<Rightarrow> mmi_charger_profile" where
  "profile_scalars node p =
     (let ci = read_int node ''mmi,chrg-iterm-ma'' 300;
          fi = read_int node ''mmi,fg-iterm-ma'' (i32 (ci + 50));
          fv = read_int node ''mmi,max-fv-mv'' 4400
      in p\<lparr>shutdown_empty_vbat_mv := read_int node ''mmi,shutdown-empty-vbat-mv'' (- EINVAL),
           chrg_iterm := ci, noffc_chrg_iterm := ci, fg_iterm := fi, noffc_fg_iterm := fi,
           vfloat_comp_mv := read_int node ''mmi,vfloat-comp-uv'' 0 sdiv 1000,
           max_fv_mv := fv, noffc_max_fv_mv := fv,
           max_fcc_ma := read_int node ''mmi,max-fcc-ma'' 4400,
           demo_fv_mv := read_int node ''mmi,demo-fv-mv'' 4000\<rparr>)"

definition profile_temp_zones ::
  "dt_node \<Rightarrow> bool \<Rightarrow> mmi_charger_profile \<Rightarrow> int \<times> mmi_charger_profile" where
  "profile_temp_zones node alloc p =
     (case dt_array node ''mmi,mmi-temp-zones'' of
        None \<Rightarrow> (0, p)
      | Some a \<Rightarrow>
          if (byte_len a div 4) mod 4 \<noteq> 0 then (- ENODEV, p)
          else if \<not> alloc then (- ENOMEM, p\<lparr>temp_zones := None\<rparr>)
          else (case read_cells a of
                  Inl rc \<Rightarrow> (rc, p\<lparr>num_temp_zones := int (byte_len a div 16), temp_zones := None\<rparr>)
                | Inr cells \<Rightarrow> (0, p\<lparr>num_temp_zones := int (byte_len a div 16),
                                      temp_zones := Some (cells_zones cells)\<rparr>)))"

definition profile_ffc_zones ::
  "dt_node \<Rightarrow> bool \<Rightarrow> mmi_charger_profile \<Rightarrow> int \<times> mmi_charger_profile" where
  "profile_ffc_zones node alloc p =
     (case dt_array node ''mmi,mmi-ffc-zones'' of
        None \<Rightarrow> (0, p)
      | Some a \<Rightarrow>
          if (byte_len a div 4) mod 4 \<noteq> 0 then (- ENODEV, p)
          else if \<not> alloc then (- ENOMEM, p\<lparr>ffc_zones := None\<rparr>)
          else (case read_cells a of
                  Inl rc \<Rightarrow> (rc, p\<lparr>num_ffc_zones := int (byte_len a div 16), ffc_zones := None\<rparr>)
                | Inr cells \<Rightarrow> (0, p\<lparr>num_ffc_zones := int (byte_len a div 16),
                                      ffc_zones := Some (cells_ffc cells)\<rparr>)))"

definition mmi_get_charger_profile ::
  "dt_node option \<Rightarrow> bool \<Rightarrow> bool \<Rightarrow> mmi_charger \<Rightarrow> int \<times> mmi_charger" where
  "mmi_get_charger_profile dev_node alloc1 alloc2 charger =
     (case dev_node of None \<Rightarrow> (- EINVAL, charger)
      | Some node \<Rightarrow>
          (let (rc, p) = profile_temp_zones node alloc1 (profile_scalars node (profile charger))
           in if rc \<noteq> 0 then (rc, charger\<lparr>profile := p\<rparr>)
              else let (rc, p) = profile_ffc_zones node alloc2 p in (rc, charger\<lparr>profile := p\<rparr>)))"

abbreviation (input) CHARGER_POWER_7P5W :: int where "CHARGER_POWER_7P5W \<equiv> 7500"
abbreviation (input) CHARGER_POWER_10W :: int where "CHARGER_POWER_10W \<equiv> 10000"
abbreviation (input) CHARGER_POWER_15W :: int where "CHARGER_POWER_15W \<equiv> 15000"
abbreviation (input) CHARGER_POWER_18W :: int where "CHARGER_POWER_18W \<equiv> 18000"
abbreviation (input) CHARGER_POWER_20W :: int where "CHARGER_POWER_20W \<equiv> 20000"

text \<open>\<open>strstr\<close>: whether the second string occurs in the first.\<close>

primrec strstr :: "string \<Rightarrow> string \<Rightarrow> bool" where
  "strstr [] t = (t = [])"
| "strstr (c # s) t = (take (length t) (c # s) = t \<or> strstr s t)"

definition chosen_power :: "dt_node \<Rightarrow> mmi_charger_chip \<Rightarrow> mmi_charger_chip" where
  "chosen_power chosen chip =
     (let chip = (case dt_string chosen ''mmi,charger'' of None \<Rightarrow> chip
          | Some a \<Rightarrow> if strstr a ''15W'' then chip\<lparr>hvdcp_pmax := CHARGER_POWER_15W\<rparr>
                      else if strstr a ''18W'' then chip\<lparr>hvdcp_pmax := CHARGER_POWER_18W\<rparr>
                      else if strstr a ''20W'' then chip\<lparr>hvdcp_pmax := CHARGER_POWER_20W\<rparr> else chip)
      in case dt_string chosen ''mmi,usb_dcp'' of None \<Rightarrow> chip
         | Some a \<Rightarrow> if strstr a ''1.5A'' then chip\<lparr>dcp_pmax := CHARGER_POWER_7P5W\<rparr>
                     else if strstr a ''2A'' then chip\<lparr>dcp_pmax := CHARGER_POWER_10W\<rparr> else chip)"

definition mmi_parse_dt :: "dt_node \<Rightarrow> dt_node option \<Rightarrow> mmi_charger_chip \<Rightarrow> mmi_charger_chip" where
  "mmi_parse_dt node chosen chip =
     (let chip = chip
        \<lparr>enable_charging_limit := dt_bool node ''mmi,enable-charging-limit'',
         enable_factory_poweroff := dt_bool node ''mmi,enable-factory-poweroff'',
         start_factory_kill_disabled := dt_bool node ''mmi,start-factory-kill-disabled'',
         factory_kill_debounce_ms := read_u32 node ''mmi,factory-kill-debounce-ms'' 0,
         upper_limit_capacity := read_int node ''mmi,upper-limit-capacity'' 100,
         lower_limit_capacity := read_int node ''mmi,lower-limit-capacity'' 0,
         heartbeat_interval := read_int node ''mmi,heartbeat-interval'' HEARTBEAT_DELAY_MS,
         dcp_pmax := read_int node ''mmi,dcp-power-max'' CHARGER_POWER_7P5W,
         hvdcp_pmax := read_int node ''mmi,hvdcp-power-max'' CHARGER_POWER_15W,
         pd_pmax := read_int node ''mmi,pd-power-max'' CHARGER_POWER_18W,
         wls_pmax := read_int node ''mmi,wls-power-max'' CHARGER_POWER_10W,
         heartbeat_dischg_ms := read_int node ''mmi,heartbeat-discharger-ms'' HEARTBEAT_DISCHARGE_MS,
         ibat_calc_alignment_time := read_u32 node ''mmi,ibat-calc-alignment-time'' UINT_MAX\<rparr>
      in case chosen of None \<Rightarrow> chip | Some c \<Rightarrow> chosen_power c chip)"

section \<open>Actions asked of the kernel\<close>

datatype hb_action =
  ScheduleWork int | CancelWork | AlarmStart | AlarmCancel | StayAwake | Relax
| WakeSourceAwake | WakeSourceRelax | PowerOff | DriverCall drv_call | ChipEvent chip_event

text \<open>The globals and the function-static variables of the driver.\<close>

record hb_statics =
  start_ts :: "int \<times> int"
  shutdown_triggered :: bool
  factory_kill_disable :: int
  suspend_wakeups :: int

text \<open>One call of the heartbeat: the drivers' answers, the clock, the allocator, the stack.\<close>

record hb_env =
  drv_env :: "nat \<Rightarrow> driver_env"
  now_ts :: "int \<times> int"
  psy_ok :: bool
  alloc_ok :: bool
  stack_junk :: int

section \<open>The heartbeat\<close>

definition poll_charger ::
  "driver_env \<Rightarrow> mmi_charger_chip \<Rightarrow> mmi_charger \<Rightarrow> (mmi_charger_chip \<times> mmi_charger) kres" where
  "poll_charger env chip charger =
     kbind (mmi_update_charger_profile (mmi_get_charger_info env charger)) (\<lambda>c.
       mmi_update_charger_status env chip (mmi_reset_charger_configure chip c))"

fun poll_loop ::
  "(nat \<Rightarrow> driver_env) \<Rightarrow> mmi_charger_chip \<Rightarrow> mmi_charger list \<Rightarrow> (mmi_charger_chip \<times> mmi_charger list) kres" where
  "poll_loop envs chip [] = Inr (chip, [])"
| "poll_loop envs chip (c # cs) =
     kbind (poll_charger (envs (drv_id (driver c))) chip c) (\<lambda>(chip, c').
     kbind (poll_loop envs chip cs) (\<lambda>(chip, cs'). Inr (chip, c' # cs')))"

fun configure_loop ::
  "mmi_charger_chip \<Rightarrow> mmi_charger list \<Rightarrow> (mmi_charger list \<times> drv_call list) kres" where
  "configure_loop chip [] = Inr ([], [])"
| "configure_loop chip (c # cs) =
     kbind (mmi_configure_charger chip c) (\<lambda>(c', calls).
     kbind (configure_loop chip cs) (\<lambda>(cs', calls'). Inr (c' # cs', calls @ calls')))"

text \<open>
  The part under \<open>charger_lock\<close>. The list of the chip is replaced after each loop: the
  functions of the first loop read no other charger, those of the second read only the
  battery readings of other chargers, which it does not change.
\<close>

definition heartbeat_locked ::
  "hb_env \<Rightarrow> mmi_charger_chip \<Rightarrow> (mmi_charger_chip \<times> drv_call list \<times> chip_event list) kres" where
  "heartbeat_locked e chip =
     kbind (poll_loop (drv_env e) chip (charger_list chip)) (\<lambda>(chip, cs).
     let chip = chip\<lparr>charger_list := cs\<rparr>
     in kbind (configure_loop chip cs) (\<lambda>(cs, calls).
        let chip = chip\<lparr>charger_list := cs\<rparr>
        in kbind (mmi_update_battery_status (psy_ok e) (alloc_ok e) (stack_junk e) chip) (\<lambda>(chip, evs).
           Inr (chip, calls, evs))))"

definition elapsed_ms :: "int \<times> int \<Rightarrow> int \<times> int \<Rightarrow> int" where
  "elapsed_ms now start =
     u32 (u32 ((fst now - fst start) * 1000) + (snd now - snd start) sdiv 1000000)"

definition factory_kill ::
  "hb_env \<Rightarrow> mmi_charger_chip \<Rightarrow> hb_statics \<Rightarrow> mmi_charger_chip \<times> hb_statics \<times> hb_action list" where
  "factory_kill e chip g =
     (if factory_mode chip \<or> (factory_version chip \<and> enable_factory_poweroff chip) then
        if max_charger_rate chip > RATE_NONE
        then (chip\<lparr>factory_kill_armed := True\<rparr>, g\<lparr>start_ts := now_ts e\<rparr>, [])
        else if factory_kill_armed chip \<and> factory_kill_disable g = 0 then
          if elapsed_ms (now_ts e) (start_ts g) < factory_kill_debounce_ms chip then (chip, g, [])
          else if \<not> shutdown_triggered g then (chip, g\<lparr>shutdown_triggered := True\<rparr>, [PowerOff])
          else (chip, g, [])
        else (chip\<lparr>factory_kill_armed := False\<rparr>, g, [])
      else (chip, g, []))"

definition empty_vbat_kill :: "mmi_charger_chip \<Rightarrow> hb_statics \<Rightarrow> hb_statics \<times> hb_action list" where
  "empty_vbat_kill chip g =
     (if empty_vbat_shutdown_triggered chip \<and> \<not> shutdown_triggered g
      then (g\<lparr>shutdown_triggered := True\<rparr>, [PowerOff]) else (g, []))"

definition hb_resch_time :: "mmi_charger_chip \<Rightarrow> int" where
  "hb_resch_time chip =
     (if factory_mode chip then HEARTBEAT_FACTORY_MS
      else if max_charger_rate chip \<noteq> RATE_NONE then heartbeat_interval chip
      else heartbeat_dischg_ms chip)"

definition IS_SUSPENDED :: "32 word" where "IS_SUSPENDED = 1"
definition WAS_SUSPENDED :: "32 word" where "WAS_SUSPENDED = 2"

definition mmi_charger_heartbeat_work ::
  "hb_env \<Rightarrow> mmi_charger_chip \<Rightarrow> hb_statics \<Rightarrow> (mmi_charger_chip \<times> hb_statics \<times> hb_action list) kres" where
  "mmi_charger_heartbeat_work e chip g =
     (if and (suspended chip) IS_SUSPENDED \<noteq> 0 then Inr (chip, g, [ScheduleWork 100])
      else kbind (heartbeat_locked e chip) (\<lambda>(chip, calls, evs).
        let (chip, g, off1) = factory_kill e chip g;
            (g, off2) = empty_vbat_kill chip g;
            chip = chip\<lparr>suspended := 0\<rparr>;
            powered = max_charger_rate chip \<noteq> RATE_NONE
        in Inr (chip, g,
             [StayAwake, AlarmCancel] @ map DriverCall calls @ map ChipEvent evs @ off1 @ off2 @
             [ScheduleWork (hb_resch_time chip)] @
             (if suspend_wakeups g \<noteq> 0 \<or> powered then [AlarmStart] else []) @
             (if \<not> powered then [Relax] else []) @ [WakeSourceRelax])))"

text \<open>\<open>mmi_get_charger_configure\<close>: one charger only, asked for by its driver.\<close>

fun configure_one ::
  "(nat \<Rightarrow> driver_env) \<Rightarrow> nat \<Rightarrow> mmi_charger_chip \<Rightarrow> mmi_charger list \<Rightarrow> mmi_charger list \<Rightarrow>
   (mmi_charger_chip \<times> drv_call list) kres" where
  "configure_one envs d chip done [] = Inr (chip, [])"
| "configure_one envs d chip done (c # cs) =
     (if drv_id (driver c) = d
      then kbind (poll_charger (envs d) chip c) (\<lambda>(chip, c').
        kbind (mmi_configure_charger (chip\<lparr>charger_list := done @ c' # cs\<rparr>) c') (\<lambda>(c'', calls).
          Inr (chip\<lparr>charger_list := done @ c'' # cs\<rparr>, calls)))
      else configure_one envs d chip (done @ [c]) cs)"

definition mmi_get_charger_configure ::
  "hb_env \<Rightarrow> mmi_charger_chip option \<Rightarrow> nat \<Rightarrow> (mmi_charger_chip option \<times> drv_call list \<times> chip_event list) kres" where
  "mmi_get_charger_configure e this_chip d =
     (case this_chip of None \<Rightarrow> Inr (None, [], [])
      | Some chip \<Rightarrow>
          kbind (configure_one (drv_env e) d chip [] (charger_list chip)) (\<lambda>(chip, calls).
          kbind (mmi_update_battery_status (psy_ok e) (alloc_ok e) (stack_junk e) chip) (\<lambda>(chip, evs).
            Inr (Some chip, calls, evs))))"

end
