(* ===== verification/Charger_Registry.thy ===== *)
theory Charger_Registry
  imports Charger_Heartbeat
begin

text \<open>
  Registration and removal of low-level drivers, the probe and the power-management and
  notifier callbacks of \<open>mmi_charger.c\<close>. Addresses returned by \<open>devm_kzalloc\<close> are
  parameters (\<open>None\<close> when it fails); a freed object leaves its list.
\<close>

section \<open>Registration\<close>

text \<open>The loop over the registered chargers: -EEXIST for a known driver, else the pack of
  the first charger whose battery has the serial number.\<close>

fun find_shared ::
  "mmi_charger_chip \<Rightarrow> nat \<Rightarrow> string \<Rightarrow> mmi_charger list \<Rightarrow> nat option \<Rightarrow> (nat option) option kres" where
  "find_shared chip d sn [] b = Inr (Some b)"
| "find_shared chip d sn (c # cs) b =
     (if drv_id (driver c) = d then Inr None
      else case b of
        Some _ \<Rightarrow> find_shared chip d sn cs b
      | None \<Rightarrow> kbind (find_pack chip (battery c)) (\<lambda>p.
          find_shared chip d sn cs (if bp_sn p = sn then Some (battery c) else None)))"

definition new_pack :: "nat \<Rightarrow> string \<Rightarrow> dt_node \<Rightarrow> mmi_battery_pack" where
  "new_pack addr sn node = zero_battery_pack
     \<lparr>bp_id := addr, reference := 1, age := 100, cycles := 0, soc_cycles_start := 100, bp_sn := sn,
      paired_id := (case dt_u32 node ''mmi,paired-id'' of Some x \<Rightarrow> word_of_int x | None \<Rightarrow> 0)\<rparr>"

text \<open>The new charger, linked to its pack.\<close>

definition new_charger ::
  "nat \<Rightarrow> mmi_charger_driver \<Rightarrow> mmi_battery_info \<Rightarrow> mmi_charger_info \<Rightarrow> nat \<Rightarrow> mmi_charger" where
  "new_charger addr drv bi ci b = zero_charger
     \<lparr>ch_id := addr,
      status := zero_charger_status\<lparr>pres_temp_zone := ZONE_NONE, pres_chrg_step := STEP_NONE,
        demo_full_soc := 100, charging_limit_mode := CHARGING_LIMIT_UNKNOWN\<rparr>,
      batt_info := bi, chg_info := ci, driver := drv, battery := b\<rparr>"

record reg_env =
  reg_node :: "dt_node option"
  charger_addr :: "nat option"
  pack_addr :: "nat option"
  zone_alloc :: bool
  ffc_alloc :: bool

definition attach_charger ::
  "reg_env \<Rightarrow> mmi_charger_driver \<Rightarrow> mmi_battery_info \<Rightarrow> mmi_charger_info \<Rightarrow> nat \<Rightarrow> nat \<Rightarrow>
   mmi_charger_chip \<Rightarrow> (int \<times> mmi_charger_chip) kres" where
  "attach_charger r drv bi ci addr b chip =
     kbind (set_pack chip b (\<lambda>p. p\<lparr>info := addr\<rparr>)) (\<lambda>chip.
       let (_, c) = mmi_get_charger_profile (reg_node r) (zone_alloc r) (ffc_alloc r) (new_charger addr drv bi ci b)
       in Inr (0, chip\<lparr>charger_list := charger_list chip @ [c]\<rparr>))"

definition mmi_register_charger_driver ::
  "driver_env \<Rightarrow> reg_env \<Rightarrow> mmi_charger_chip option \<Rightarrow> mmi_charger_driver option \<Rightarrow>
   (int \<times> mmi_charger_chip option) kres" where
  "mmi_register_charger_driver env r this_chip drvo =
     (case this_chip of None \<Rightarrow> Inr (- ENODEV, None)
      | Some chip \<Rightarrow>
        (case drvo of None \<Rightarrow> Inr (- EINVAL, this_chip)
         | Some drv \<Rightarrow>
           if \<not> has_mandatory drv then Inr (- EINVAL, this_chip)
           else
             let bi = get_batt_info env zero_battery_info; ci = get_chg_info env zero_charger_info
             in kbind (find_shared chip (drv_id drv) (batt_sn bi) (charger_list chip) None) (\<lambda>found.
               case found of None \<Rightarrow> Inr (- EEXIST, this_chip)
               | Some shared \<Rightarrow>
                 (case charger_addr r of None \<Rightarrow> Inr (- ENOMEM, this_chip)
                  | Some addr \<Rightarrow>
                    kbind
                      (case shared of
                         Some b \<Rightarrow> kbind (set_pack chip b (\<lambda>p. p\<lparr>reference := reference p + 1\<rparr>)) (\<lambda>chip.
                           attach_charger r drv bi ci addr b chip)
                       | None \<Rightarrow>
                           (case pack_addr r of None \<Rightarrow> Inr (- ENOMEM, chip)
                            | Some b \<Rightarrow>
                              (case reg_node r of None \<Rightarrow> Inl NullDeref
                               | Some node \<Rightarrow>
                                 let (chip, p) = mmi_update_paired_battery chip (new_pack b (batt_sn bi) node)
                                 in attach_charger r drv bi ci addr b
                                      (chip\<lparr>battery_list := battery_list chip @ [p]\<rparr>))))
                      (\<lambda>(rc, chip). Inr (rc, Some chip))))))"

definition mmi_unregister_charger_driver ::
  "mmi_charger_chip option \<Rightarrow> mmi_charger_driver option \<Rightarrow> (int \<times> mmi_charger_chip option) kres" where
  "mmi_unregister_charger_driver this_chip drvo =
     (case this_chip of None \<Rightarrow> Inr (- ENODEV, None)
      | Some chip \<Rightarrow>
        (case drvo of None \<Rightarrow> Inr (- EINVAL, this_chip)
         | Some drv \<Rightarrow>
           (case List.find (\<lambda>c. drv_id (driver c) = drv_id drv) (charger_list chip) of
              None \<Rightarrow> Inr (- ENOENT, this_chip)
            | Some c \<Rightarrow>
              kbind (set_pack chip (battery c) (\<lambda>p. p\<lparr>reference := reference p - 1\<rparr>)) (\<lambda>chip.
              kbind (find_pack chip (battery c)) (\<lambda>p.
                Inr (0, Some (chip
                  \<lparr>battery_list := (if reference p \<le> 0 then filter (\<lambda>q. bp_id q \<noteq> battery c) (battery_list chip)
                                    else battery_list chip),
                   charger_list := filter (\<lambda>x. ch_id x \<noteq> ch_id c) (charger_list chip)\<rparr>)))))))"

section \<open>Probe and removal\<close>

text \<open>
  The chip after \<open>mmi_charger_probe\<close>. \<open>psy_reg\<close> is the result of registering the power
  supply; after an error the chip stays the value of \<open>this_chip\<close>. The files and notifiers
  the probe creates have no state in this model.
\<close>

record probe_env =
  probe_node :: dt_node
  chosen_node :: "dt_node option"
  bootinfo_version :: bool
  bootinfo_mode :: bool
  chip_alloc :: bool
  psy_reg :: int
  psy_present :: bool

definition probed_chip :: "probe_env \<Rightarrow> mmi_charger_chip" where
  "probed_chip e =
     mmi_parse_dt (probe_node e) (chosen_node e)
       (zero_charger_chip\<lparr>suspended := 0, combo_status := 0, combo_age := 100, combo_soc := 100,
         factory_version := bootinfo_version e, factory_mode := bootinfo_mode e\<rparr>)"

definition mmi_charger_probe ::
  "probe_env \<Rightarrow> mmi_charger_chip option \<Rightarrow> hb_statics \<Rightarrow>
   int \<times> mmi_charger_chip option \<times> hb_statics \<times> hb_action list" where
  "mmi_charger_probe e this_chip g =
     (if \<not> chip_alloc e then (- ENOMEM, this_chip, g, [])
      else
        let chip = probed_chip e
        in if psy_reg e < 0 then (psy_reg e, Some chip, g, [])
           else (0, Some (mmi_battery_supply_init (psy_present e) chip),
                 (if start_factory_kill_disabled chip then g\<lparr>factory_kill_disable := 1\<rparr> else g),
                 [CancelWork, ScheduleWork 0]))"

definition mmi_charger_remove :: "mmi_charger_chip \<Rightarrow> int \<times> hb_action list" where
  "mmi_charger_remove chip =
     (if charger_list chip \<noteq> [] then (- EBUSY, []) else (0, [CancelWork]))"

section \<open>Callbacks\<close>

definition mmi_heartbeat_alarm_cb :: "hb_action list" where
  "mmi_heartbeat_alarm_cb = [WakeSourceAwake, CancelWork, ScheduleWork 500]"

abbreviation (input) NOTIFY_DONE :: int where "NOTIFY_DONE \<equiv> 0"
abbreviation (input) NOTIFY_OK :: int where "NOTIFY_OK \<equiv> 1"
abbreviation (input) PSY_EVENT_PROP_CHANGED :: int where "PSY_EVENT_PROP_CHANGED \<equiv> 0"
abbreviation (input) SYS_POWER_OFF :: int where "SYS_POWER_OFF \<equiv> 3"

definition mmi_psy_notifier_call :: "int \<Rightarrow> string option \<Rightarrow> int \<times> hb_action list" where
  "mmi_psy_notifier_call val psy =
     (if val \<noteq> PSY_EVENT_PROP_CHANGED then (NOTIFY_OK, [])
      else case psy of
        Some name \<Rightarrow>
          if name = ''battery'' \<or> name = ''usb'' \<or> name = ''wireless''
          then (NOTIFY_OK, [CancelWork, ScheduleWork 0]) else (NOTIFY_OK, [])
      | None \<Rightarrow> (NOTIFY_OK, []))"

text \<open>
  The wait of \<open>mmi_charger_reboot\<close> reads \<open>max_charger_rate\<close>, which the heartbeat changes
  meanwhile. \<open>rates\<close> are the values it reads, one every 100 ms; \<open>None\<close> is a wait that has
  not ended when they are used up.
\<close>

fun reboot_wait :: "int list \<Rightarrow> nat \<Rightarrow> nat option" where
  "reboot_wait [] n = None"
| "reboot_wait (r # rates) n = (if r \<noteq> RATE_NONE then reboot_wait rates (Suc n) else Some n)"

definition mmi_charger_reboot ::
  "int list \<Rightarrow> int \<Rightarrow> mmi_charger_chip \<Rightarrow> hb_statics \<Rightarrow>
   (int \<times> mmi_charger_chip \<times> hb_statics \<times> hb_action list) option" where
  "mmi_charger_reboot rates event chip g =
     (if \<not> factory_mode chip then Some (NOTIFY_DONE, chip, g, [])
      else if event = SYS_POWER_OFF
      then map_option (\<lambda>_. (NOTIFY_DONE, chip\<lparr>force_charger_disabled := True\<rparr>,
             g\<lparr>factory_kill_disable := 1\<rparr>, [ScheduleWork 0])) (reboot_wait rates 0)
      else Some (NOTIFY_DONE, chip, g, []))"

definition mmi_charger_suspend :: "mmi_charger_chip \<Rightarrow> mmi_charger_chip" where
  "mmi_charger_suspend chip =
     chip\<lparr>suspended := or (and (suspended chip) (not WAS_SUSPENDED)) IS_SUSPENDED\<rparr>"

definition mmi_charger_resume :: "mmi_charger_chip \<Rightarrow> mmi_charger_chip" where
  "mmi_charger_resume chip =
     chip\<lparr>suspended := or (and (suspended chip) (not IS_SUSPENDED)) WAS_SUSPENDED\<rparr>"

end
