(* ===== verification/Charger_Sysfs.thy ===== *)
theory Charger_Sysfs
  imports Charger_Registry
begin

text \<open>
  The user-space interface of \<open>mmi_charger.c\<close>: the sysfs attributes and the properties of
  the \<open>mmi_battery\<close> power supply. \<open>parsed\<close> is the result of \<open>kstrtoul\<close> on the text written
  (\<open>None\<close> when it is not a number); \<open>count\<close> is the length of the text. A read attribute
  returns the value it prints, or an error.
\<close>

section \<open>Written attributes\<close>

type_synonym store_res = "int \<times> mmi_charger_chip option \<times> hb_action list"

text \<open>The frame all the store functions share: the checks, then the effect.\<close>

definition store_attr ::
  "mmi_charger_chip option \<Rightarrow> int option \<Rightarrow> int \<Rightarrow>
   (mmi_charger_chip \<Rightarrow> int \<Rightarrow> mmi_charger_chip \<times> hb_action list) \<Rightarrow> store_res" where
  "store_attr this_chip parsed count eff =
     (case this_chip of None \<Rightarrow> (- ENODEV, None, [])
      | Some chip \<Rightarrow>
        (case parsed of None \<Rightarrow> (- EINVAL, this_chip, [])
         | Some v \<Rightarrow> (let (chip, acts) = eff chip v in (count, Some chip, acts))))"

abbreviation (input) CHARGER_POWER_5W :: int where "CHARGER_POWER_5W \<equiv> 5000"
abbreviation (input) CHARGER_POWER_MAX :: int where "CHARGER_POWER_MAX \<equiv> 100000"

definition dcp_pmax_store :: "mmi_charger_chip option \<Rightarrow> int option \<Rightarrow> int \<Rightarrow> store_res" where
  "dcp_pmax_store this_chip parsed count = store_attr this_chip parsed count (\<lambda>chip pmax.
     if dcp_pmax chip \<noteq> pmax \<and> CHARGER_POWER_5W \<le> pmax \<and> pmax \<le> CHARGER_POWER_10W
     then (chip\<lparr>dcp_pmax := pmax\<rparr>, [CancelWork, ScheduleWork 0]) else (chip, []))"

definition hvdcp_pmax_store :: "mmi_charger_chip option \<Rightarrow> int option \<Rightarrow> int \<Rightarrow> store_res" where
  "hvdcp_pmax_store this_chip parsed count = store_attr this_chip parsed count (\<lambda>chip pmax.
     if hvdcp_pmax chip \<noteq> pmax \<and> CHARGER_POWER_7P5W \<le> pmax \<and> pmax \<le> CHARGER_POWER_MAX
     then (chip\<lparr>hvdcp_pmax := pmax\<rparr>, [CancelWork, ScheduleWork 0]) else (chip, []))"

definition pd_pmax_store :: "mmi_charger_chip option \<Rightarrow> int option \<Rightarrow> int \<Rightarrow> store_res" where
  "pd_pmax_store this_chip parsed count = store_attr this_chip parsed count (\<lambda>chip pmax.
     if pd_pmax chip \<noteq> pmax \<and> CHARGER_POWER_15W \<le> pmax \<and> pmax \<le> CHARGER_POWER_MAX
     then (chip\<lparr>pd_pmax := pmax\<rparr>, [CancelWork, ScheduleWork 0]) else (chip, []))"

definition wls_pmax_store :: "mmi_charger_chip option \<Rightarrow> int option \<Rightarrow> int \<Rightarrow> store_res" where
  "wls_pmax_store this_chip parsed count = store_attr this_chip parsed count (\<lambda>chip pmax.
     if wls_pmax chip \<noteq> pmax \<and> CHARGER_POWER_5W \<le> pmax \<and> pmax \<le> CHARGER_POWER_MAX
     then (chip\<lparr>wls_pmax := pmax\<rparr>, [CancelWork, ScheduleWork 0]) else (chip, []))"

definition factory_image_mode_store :: "mmi_charger_chip option \<Rightarrow> int option \<Rightarrow> int \<Rightarrow> store_res" where
  "factory_image_mode_store this_chip parsed count = store_attr this_chip parsed count (\<lambda>chip mode.
     (chip\<lparr>factory_version := (mode \<noteq> 0)\<rparr>, []))"

abbreviation (input) MMI_CHIP_MODE_LOWER_LIMIT :: int where "MMI_CHIP_MODE_LOWER_LIMIT \<equiv> 35"
abbreviation (input) MMI_CHIP_MODE_UPPER_LIMIT :: int where "MMI_CHIP_MODE_UPPER_LIMIT \<equiv> 80"

definition force_demo_mode_store :: "mmi_charger_chip option \<Rightarrow> int option \<Rightarrow> int \<Rightarrow> store_res" where
  "force_demo_mode_store this_chip parsed count = store_attr this_chip parsed count (\<lambda>chip mode.
     (chip\<lparr>demo_mode := (if MMI_CHIP_MODE_LOWER_LIMIT \<le> mode \<and> mode \<le> MMI_CHIP_MODE_UPPER_LIMIT
                         then mode else MMI_CHIP_MODE_LOWER_LIMIT)\<rparr>, []))"

definition force_max_chrg_temp_store :: "mmi_charger_chip option \<Rightarrow> int option \<Rightarrow> int \<Rightarrow> store_res" where
  "force_max_chrg_temp_store this_chip parsed count = store_attr this_chip parsed count (\<lambda>chip mode.
     (chip\<lparr>max_chrg_temp := (if MIN_MAX_TEMP_C \<le> mode \<and> mode \<le> MAX_TEMP_C then mode else MAX_TEMP_C)\<rparr>, []))"

definition force_charger_suspend_store :: "mmi_charger_chip option \<Rightarrow> int option \<Rightarrow> int \<Rightarrow> store_res" where
  "force_charger_suspend_store this_chip parsed count = store_attr this_chip parsed count (\<lambda>chip mode.
     (chip\<lparr>force_charger_disabled := (mode \<noteq> 0)\<rparr>, [CancelWork, ScheduleWork 0]))"

definition force_charging_enable_store :: "mmi_charger_chip option \<Rightarrow> int option \<Rightarrow> int \<Rightarrow> store_res" where
  "force_charging_enable_store this_chip parsed count = store_attr this_chip parsed count (\<lambda>chip mode.
     (chip\<lparr>force_charging_enabled := (mode \<noteq> 0)\<rparr>, [CancelWork, ScheduleWork 0]))"

definition force_charging_disable_store :: "mmi_charger_chip option \<Rightarrow> int option \<Rightarrow> int \<Rightarrow> store_res" where
  "force_charging_disable_store this_chip parsed count = store_attr this_chip parsed count (\<lambda>chip mode.
     (the (snd (mmi_vote_charging_disable (Some chip) (Some ''MMI_USER'') (mode \<noteq> 0))),
      [CancelWork, ScheduleWork 0]))"

definition state_sync_store ::
  "bool \<Rightarrow> bool \<Rightarrow> mmi_charger_chip option \<Rightarrow> int option \<Rightarrow> int \<Rightarrow> store_res kres" where
  "state_sync_store psy_found alloc this_chip parsed count =
     (case this_chip of None \<Rightarrow> Inr (- ENODEV, None, [])
      | Some chip \<Rightarrow>
        (case parsed of None \<Rightarrow> Inr (- EINVAL, this_chip, [])
         | Some mode \<Rightarrow>
           if mode = 0 then Inr (count, this_chip, [])
           else kbind (mmi_notify_charger_event psy_found alloc CHG_RATE chip) (\<lambda>(chip, e1).
             kbind (mmi_notify_charger_event psy_found alloc LPD_PRESENT chip) (\<lambda>(chip, e2).
             kbind (mmi_notify_charger_event psy_found alloc VBUS_PRESENT chip) (\<lambda>(chip, e3).
             kbind (mmi_notify_charger_event psy_found alloc POWER_WATT chip) (\<lambda>(chip, e4).
               Inr (count, Some chip, map ChipEvent (e1 @ e2 @ e3 @ e4) @ [CancelWork, ScheduleWork 0])))))))"

section \<open>Read attributes\<close>

definition show_attr :: "mmi_charger_chip option \<Rightarrow> (mmi_charger_chip \<Rightarrow> int) \<Rightarrow> int + int" where
  "show_attr this_chip f = (case this_chip of None \<Rightarrow> Inl (- ENODEV) | Some chip \<Rightarrow> Inr (f chip))"

definition dcp_pmax_show :: "mmi_charger_chip option \<Rightarrow> int + int" where
  "dcp_pmax_show this_chip = show_attr this_chip dcp_pmax"

definition hvdcp_pmax_show :: "mmi_charger_chip option \<Rightarrow> int + int" where
  "hvdcp_pmax_show this_chip = show_attr this_chip hvdcp_pmax"

definition pd_pmax_show :: "mmi_charger_chip option \<Rightarrow> int + int" where
  "pd_pmax_show this_chip = show_attr this_chip pd_pmax"

definition wls_pmax_show :: "mmi_charger_chip option \<Rightarrow> int + int" where
  "wls_pmax_show this_chip = show_attr this_chip wls_pmax"

definition factory_image_mode_show :: "mmi_charger_chip option \<Rightarrow> int + int" where
  "factory_image_mode_show this_chip = show_attr this_chip (\<lambda>c. of_bool (factory_version c))"

definition factory_charge_upper_show :: "mmi_charger_chip option \<Rightarrow> int + int" where
  "factory_charge_upper_show this_chip = show_attr this_chip upper_limit_capacity"

definition force_demo_mode_show :: "mmi_charger_chip option \<Rightarrow> int + int" where
  "force_demo_mode_show this_chip = show_attr this_chip demo_mode"

definition force_max_chrg_temp_show :: "mmi_charger_chip option \<Rightarrow> int + int" where
  "force_max_chrg_temp_show this_chip = show_attr this_chip max_chrg_temp"

definition age_show :: "mmi_charger_chip option \<Rightarrow> int + int" where
  "age_show this_chip = show_attr this_chip combo_age"

definition force_charger_suspend_show :: "mmi_charger_chip option \<Rightarrow> int + int" where
  "force_charger_suspend_show this_chip = show_attr this_chip (\<lambda>c. of_bool (force_charger_disabled c))"

definition force_charging_enable_show :: "mmi_charger_chip option \<Rightarrow> int + int" where
  "force_charging_enable_show this_chip = show_attr this_chip (\<lambda>c. of_bool (force_charging_enabled c))"

definition charge_rate :: "string list" where
  "charge_rate = [''None'', ''Normal'', ''Weak'', ''Turbo'', ''Turbo_30W'', ''Hyper'']"

definition charge_rate_show :: "mmi_charger_chip option \<Rightarrow> (int + string) kres" where
  "charge_rate_show this_chip =
     (case this_chip of None \<Rightarrow> Inr (Inl (- ENODEV))
      | Some chip \<Rightarrow>
          if 0 \<le> max_charger_rate chip \<and> max_charger_rate chip < int (length charge_rate)
          then Inr (Inr (charge_rate ! nat (max_charger_rate chip))) else Inl OutOfBounds)"

section \<open>The power supply\<close>

datatype power_supply_property =
  PROP_STATUS | PROP_HEALTH | PROP_TEMP | PROP_CAPACITY | PROP_CYCLE_COUNT | PROP_CHARGE_FULL
| PROP_CHARGE_FULL_DESIGN | PROP_VOLTAGE_NOW | PROP_CURRENT_NOW | PROP_CHARGE_COUNTER | PROP_OTHER

text \<open>
  The refresh of the current reading: when the last one is older than
  \<open>ibat_calc_alignment_time\<close>, a heartbeat is scheduled. \<open>start\<close> is the static time stamp.
\<close>

definition current_refresh ::
  "mmi_charger_chip \<Rightarrow> int \<times> int \<Rightarrow> int \<times> int \<Rightarrow> (int \<times> int) \<times> hb_action list" where
  "current_refresh chip now start =
     (let (ms, start) = (if fst now \<ge> fst start then (elapsed_ms now start, start) else (0, now))
      in if ms \<ge> ibat_calc_alignment_time chip then (now, [CancelWork, ScheduleWork 0]) else (start, []))"

definition prop_value :: "mmi_charger_chip \<Rightarrow> power_supply_property \<Rightarrow> int" where
  "prop_value chip psp =
     (case psp of
        PROP_STATUS \<Rightarrow> combo_status chip
      | PROP_HEALTH \<Rightarrow> combo_health chip
      | PROP_TEMP \<Rightarrow> i32 (combo_temp chip * 10)
      | PROP_CAPACITY \<Rightarrow> combo_soc chip
      | PROP_CYCLE_COUNT \<Rightarrow> i32 (init_cycles chip + combo_cycles chip sdiv 100)
      | PROP_CHARGE_FULL_DESIGN \<Rightarrow> charge_full_design chip
      | PROP_CHARGE_FULL \<Rightarrow> charge_full chip
      | PROP_VOLTAGE_NOW \<Rightarrow> i32 (combo_voltage_mv chip * 1000)
      | PROP_CURRENT_NOW \<Rightarrow> i32 (combo_current_ma chip * 1000)
      | PROP_CHARGE_COUNTER \<Rightarrow> combo_charge_counter chip
      | PROP_OTHER \<Rightarrow> - EINVAL)"

definition mmi_get_prop ::
  "int \<times> int \<Rightarrow> int \<times> int \<Rightarrow> mmi_charger_chip \<Rightarrow> power_supply_property \<Rightarrow>
   int \<times> int \<times> (int \<times> int) \<times> hb_action list" where
  "mmi_get_prop now start chip psp =
     (let (start, acts) =
        (if psp = PROP_CURRENT_NOW \<and> ibat_calc_alignment_time chip \<noteq> UINT_MAX
         then current_refresh chip now start else (start, []))
      in (0, prop_value chip psp, start, acts))"

definition mmi_set_prop :: "mmi_charger_chip \<Rightarrow> power_supply_property \<Rightarrow> int \<Rightarrow> int \<times> mmi_charger_chip" where
  "mmi_set_prop chip prop val =
     (case prop of PROP_CYCLE_COUNT \<Rightarrow> (0, chip\<lparr>init_cycles := val\<rparr>) | _ \<Rightarrow> (0, chip))"

definition mmi_prop_is_writeable :: "power_supply_property \<Rightarrow> int" where
  "mmi_prop_is_writeable psp = (case psp of PROP_CYCLE_COUNT \<Rightarrow> 1 | _ \<Rightarrow> 0)"

end
