(* ===== verification/Charger_Correct.thy ===== *)
theory Charger_Correct
  imports Charger_Sysfs
begin

text \<open>
  Correctness of the common charger driver across its parts: the invariant of the chip
  (links between chargers and packs, reference counts, zone tables) and its preservation
  by the heartbeat and by registration, the meaning of the pack status and of the
  configuration given to the drivers, and the thermal safety of a charging pass.
\<close>

section \<open>The invariant\<close>

definition charger_ok :: "mmi_charger \<Rightarrow> bool" where
  "charger_ok c \<longleftrightarrow>
     (\<forall>zs. temp_zones (profile c) = Some zs \<longrightarrow>
        zones_ok zs \<and> (zone_ok zs (pres_temp_zone (status c)) \<or> pres_temp_zone (status c) = ZONE_NONE)) \<and>
     (ffc_zones (profile c) = None \<longrightarrow> num_ffc_zones (profile c) \<le> 0) \<and>
     (\<forall>zs. ffc_zones (profile c) = Some zs \<longrightarrow> num_ffc_zones (profile c) = int (length zs))"

definition chargers_of :: "mmi_charger list \<Rightarrow> nat \<Rightarrow> mmi_charger list" where
  "chargers_of cs b = filter (\<lambda>c. battery c = b) cs"

definition links_ok :: "mmi_charger list \<Rightarrow> mmi_battery_pack list \<Rightarrow> bool" where
  "links_ok cs ps \<longleftrightarrow>
     distinct (map ch_id cs) \<and> distinct (map bp_id ps) \<and>
     (\<forall>c\<in>set cs. battery c \<in> bp_id ` set ps) \<and>
     (\<forall>p\<in>set ps. info p \<in> ch_id ` set cs \<and> (\<forall>q. paired_batt p = Some q \<longrightarrow> q \<in> bp_id ` set ps))"

definition chip_ok :: "mmi_charger_chip \<Rightarrow> bool" where
  "chip_ok chip \<longleftrightarrow>
     links_ok (charger_list chip) (battery_list chip) \<and>
     (\<forall>c\<in>set (charger_list chip). charger_ok c) \<and>
     (\<forall>p\<in>set (battery_list chip). pending p = 0 \<and> reference p > 0 \<and>
        reference p = int (length (chargers_of (charger_list chip) (bp_id p))))"

section \<open>Lookups\<close>

lemma find_pack_ok:
  "b \<in> bp_id ` set (battery_list chip) \<Longrightarrow> \<exists>p\<in>set (battery_list chip). find_pack chip b = Inr p \<and> bp_id p = b"
  unfolding find_pack_def
  by (auto split: option.splits simp: find_None_iff find_Some_iff)

lemma find_charger_ok:
  "c \<in> ch_id ` set (charger_list chip) \<Longrightarrow>
    \<exists>x\<in>set (charger_list chip). find_charger chip c = Inr x \<and> ch_id x = c"
  unfolding find_charger_def
  by (auto split: option.splits simp: find_None_iff find_Some_iff)

lemma set_pack_ok:
  assumes "b \<in> bp_id ` set (battery_list chip)"
  shows "set_pack chip b f =
    Inr (chip\<lparr>battery_list := map (\<lambda>p. if bp_id p = b then f p else p) (battery_list chip)\<rparr>)"
  using find_pack_ok[OF assms] by (auto simp: set_pack_def)

lemma packs_info_ok:
  assumes "\<forall>p\<in>set ps. info p \<in> ch_id ` set (charger_list chip)"
  shows "\<exists>bs. packs_info chip ps = Inr bs"
  using assms
proof (induction ps)
  case Nil
  then show ?case by simp
next
  case (Cons p ps)
  then obtain c bs where "find_charger chip (info p) = Inr c" "packs_info chip ps = Inr bs"
    using find_charger_ok[of "info p" chip] by auto
  then show ?case by simp
qed

section \<open>Polling the chargers\<close>

lemma update_profile_ok:
  assumes "charger_ok c"
  shows "\<exists>p. mmi_update_charger_profile c = Inr (c\<lparr>profile := p\<rparr>) \<and>
    temp_zones p = temp_zones (profile c) \<and> ffc_zones p = ffc_zones (profile c) \<and>
    num_ffc_zones p = num_ffc_zones (profile c)"
proof (cases "ffc_zones (profile c)")
  case None
  then have "num_ffc_zones (profile c) \<le> 0" using assms by (simp add: charger_ok_def)
  then show ?thesis using None
    by (cases "chrg_pmax_mw (chg_info c) > TURBO_CHRG_FFC_THRSH_MW")
      (auto simp: mmi_update_charger_profile_def Let_def intro: exI[of _ "profile c"])
next
  case (Some zs)
  then have n: "num_ffc_zones (profile c) = int (length zs)" using assms by (simp add: charger_ok_def)
  show ?thesis
  proof (cases "zs = []")
    case True
    then show ?thesis using Some n
      by (cases "chrg_pmax_mw (chg_info c) > TURBO_CHRG_FFC_THRSH_MW")
        (auto simp: mmi_update_charger_profile_def Let_def intro: exI[of _ "profile c"])
  next
    case False
    obtain i where "ffc_scan zs (batt_temp (batt_info c)) (int (length zs)) 0 = Inr (Suc i)"
      using ffc_scan_choice[OF False, of "batt_temp (batt_info c)" 0] by auto
    then show ?thesis using Some n
      by (cases "chrg_pmax_mw (chg_info c) > TURBO_CHRG_FFC_THRSH_MW")
        (auto simp: mmi_update_charger_profile_def Let_def)
  qed
qed

definition max_temp_limit :: "mmi_charger_chip \<Rightarrow> mmi_temp_zone list \<Rightarrow> int" where
  "max_temp_limit chip zs =
     (if max_chrg_temp chip \<ge> MIN_MAX_TEMP_C then max_chrg_temp chip else temp_c (last zs))"

text \<open>What a pass of the zone machine says of the zone it leaves, when there is a table.\<close>

definition zone_result :: "mmi_charger_chip \<Rightarrow> mmi_charger \<Rightarrow> int \<Rightarrow> mmi_temp_zone option \<Rightarrow> bool" where
  "zone_result chip c z tz \<longleftrightarrow>
     (\<forall>zs. temp_zones (profile c) = Some zs \<longrightarrow> zone_ok zs z \<and>
        tz = (if zone_index zs z then Some (zs ! nat z) else None) \<and>
        thermal_limits zs (max_temp_limit chip zs) (batt_temp (batt_info c)) (pres_temp_zone (status c)) z)"

lemma get_temp_zone_total:
  assumes "charger_ok c"
  shows "\<exists>z tz. mmi_get_temp_zone chip c =
      Inr (c\<lparr>status := (status c)\<lparr>pres_temp_zone := z, temp_zone := tz\<rparr>\<rparr>) \<and> zone_result chip c z tz"
proof (cases "temp_zones (profile c)")
  case None
  then show ?thesis
    by (auto simp: mmi_get_temp_zone_def zone_max_temp_def next_temp_zone_def Let_def zone_result_def)
next
  case (Some zs)
  then have "zones_ok zs" "zone_ok zs (pres_temp_zone (status c)) \<or> pres_temp_zone (status c) = ZONE_NONE"
    using assms by (auto simp: charger_ok_def)
  then obtain z' where z': "zone_ok zs z'"
      "thermal_limits zs (max_temp_limit chip zs) (batt_temp (batt_info c)) (pres_temp_zone (status c)) z'"
      "mmi_get_temp_zone chip c = Inr (c\<lparr>status := (status c)\<lparr>pres_temp_zone := z',
         temp_zone := (if zone_index zs z' then Some (zs ! nat z') else None)\<rparr>\<rparr>)"
    using mmi_get_temp_zone_step[of c zs chip] Some unfolding max_temp_limit_def by blast
  then have "zone_result chip c z' (if zone_index zs z' then Some (zs ! nat z') else None)"
    using Some unfolding zone_result_def by simp
  then show ?thesis using z'(3) by blast
qed

lemma charge_step_frame:
  "charge_step env chip c =
     c\<lparr>status := status (charge_step env chip c), cfg := cfg (charge_step env chip c)\<rparr>"
  by (cases c) (simp add: charge_step_def demo_step_def Let_def split: option.splits prod.splits)

lemma charge_step_zone [simp]:
  "pres_temp_zone (status (charge_step env chip c)) = pres_temp_zone (status c)"
  "temp_zone (status (charge_step env chip c)) = temp_zone (status c)"
  by (simp_all add: charge_step_def demo_step_def Let_def split: option.splits prod.splits)

lemma charge_step_links [simp]:
  "ch_id (charge_step env chip c) = ch_id c" "battery (charge_step env chip c) = battery c"
  "driver (charge_step env chip c) = driver c" "profile (charge_step env chip c) = profile c"
  "batt_info (charge_step env chip c) = batt_info c" "chg_info (charge_step env chip c) = chg_info c"
  by (subst charge_step_frame, simp)+

definition same_links :: "mmi_charger \<Rightarrow> mmi_charger \<Rightarrow> bool" where
  "same_links c c' \<longleftrightarrow> ch_id c' = ch_id c \<and> battery c' = battery c \<and> driver c' = driver c"

definition bump :: "mmi_charger list \<Rightarrow> mmi_battery_pack list \<Rightarrow> mmi_battery_pack list" where
  "bump cs ps = map (\<lambda>p. p\<lparr>pending := pending p + int (length (chargers_of cs (bp_id p)))\<rparr>) ps"

lemma bump_Nil [simp]: "bump [] ps = ps"
  by (simp add: bump_def chargers_of_def)

lemma bump_Cons:
  "bump (c # cs) ps = bump cs (map (\<lambda>p. if bp_id p = battery c then p\<lparr>pending := pending p + 1\<rparr> else p) ps)"
  by (auto simp: bump_def chargers_of_def)

lemma bp_id_bump [simp]: "bp_id ` set (bump cs ps) = bp_id ` set ps"
  by (simp add: bump_def image_image)

lemma chip_upd_swap:
  "chip\<lparr>empty_vbat_shutdown_triggered := e, battery_list := b\<rparr> =
     (chip :: mmi_charger_chip)\<lparr>battery_list := b, empty_vbat_shutdown_triggered := e\<rparr>"
  by (cases chip) simp

text \<open>The chip after a poll of \<open>c\<close>: one more pending update of its pack, and the empty flag.\<close>

abbreviation polled_chip :: "mmi_charger_chip \<Rightarrow> mmi_charger \<Rightarrow> bool \<Rightarrow> mmi_charger_chip" where
  "polled_chip chip c e \<equiv>
     chip\<lparr>battery_list := bump [c] (battery_list chip), empty_vbat_shutdown_triggered := e\<rparr>"

lemma update_status_unfold:
  assumes "charger_ok c" "battery c \<in> bp_id ` set (battery_list chip)"
  obtains c2 e where
    "mmi_update_charger_status env chip c = Inr (polled_chip chip c e, charge_step env (polled_chip chip c e) c2)"
    "c2 = c\<lparr>status := status c2\<rparr>" "pres_chrg_step (status c2) = pres_chrg_step (status c)"
    "zone_result chip c (pres_temp_zone (status c2)) (temp_zone (status c2))"
proof -
  define e where "e = (empty_vbat_shutdown_triggered chip \<or> shutdown_empty_vbat_mv (profile c) > 0 \<and>
    shutdown_empty_vbat_mv (profile c) \<ge> batt_mv (batt_info c))"
  define chip1 where "chip1 = chip\<lparr>empty_vbat_shutdown_triggered := e\<rparr>"
  have chip1: "(if shutdown_empty_vbat_mv (profile c) > 0 \<and> shutdown_empty_vbat_mv (profile c) \<ge> batt_mv (batt_info c)
      then chip\<lparr>empty_vbat_shutdown_triggered := True\<rparr> else chip) = chip1"
    by (cases chip) (auto simp: chip1_def e_def)
  define c1 where "c1 = c\<lparr>status := (status c)\<lparr>charging_limit_mode :=
    charging_limit chip1 (batt_soc (batt_info c)) (charging_limit_mode (status c))\<rparr>\<rparr>"
  have "charger_ok c1" using assms(1) by (simp add: charger_ok_def c1_def)
  then obtain z tz where tz: "mmi_get_temp_zone chip1 c1 =
        Inr (c1\<lparr>status := (status c1)\<lparr>pres_temp_zone := z, temp_zone := tz\<rparr>\<rparr>)" "zone_result chip1 c1 z tz"
    using get_temp_zone_total by blast
  define c2 where "c2 = c1\<lparr>status := (status c1)\<lparr>pres_temp_zone := z, temp_zone := tz\<rparr>\<rparr>"
  have sp: "set_pack chip1 (battery c2) (\<lambda>p. p\<lparr>pending := pending p + 1\<rparr>) = Inr (polled_chip chip c e)"
    using set_pack_ok[of "battery c2" chip1] assms(2)
    by (simp add: bump_Cons chip1_def c2_def c1_def chip_upd_swap)
  have "mmi_update_charger_status env chip c =
      Inr (polled_chip chip c e, charge_step env (polled_chip chip c e) c2)"
    unfolding mmi_update_charger_status_def Let_def chip1 c1_def[symmetric] tz(1) kbind_Inr c2_def[symmetric] sp ..
  moreover have "zone_result chip1 c1 z tz = zone_result chip c z tz"
    by (simp add: zone_result_def max_temp_limit_def chip1_def c1_def)
  ultimately show ?thesis using tz(2) by (intro that[of e c2]) (simp_all add: c2_def c1_def)
qed

lemma poll_prepare:
  assumes "charger_ok c"
  obtains c3 where "poll_charger env chip c = mmi_update_charger_status env chip c3"
    "charger_ok c3" "same_links c c3" "status c3 = status c"
    "batt_info c3 = get_batt_info env (batt_info c)" "chg_info c3 = get_chg_info env (chg_info c)"
    "temp_zones (profile c3) = temp_zones (profile c)"
proof -
  define c1 where "c1 = mmi_get_charger_info env c"
  have "charger_ok c1" using assms(1) by (simp add: c1_def mmi_get_charger_info_def charger_ok_def)
  then obtain p where p: "mmi_update_charger_profile c1 = Inr (c1\<lparr>profile := p\<rparr>)"
      "temp_zones p = temp_zones (profile c1)" "ffc_zones p = ffc_zones (profile c1)"
      "num_ffc_zones p = num_ffc_zones (profile c1)"
    using update_profile_ok by blast
  have "poll_charger env chip c =
      mmi_update_charger_status env chip (mmi_reset_charger_configure chip (c1\<lparr>profile := p\<rparr>))"
    unfolding poll_charger_def c1_def[symmetric] p(1) by simp
  then show ?thesis using \<open>charger_ok c1\<close> p(2-4)
    by (intro that[of "mmi_reset_charger_configure chip (c1\<lparr>profile := p\<rparr>)"])
      (simp_all add: c1_def mmi_reset_charger_configure_def mmi_get_charger_info_def charger_ok_def same_links_def)
qed

lemma poll_charger_unfold:
  assumes "charger_ok c" "battery c \<in> bp_id ` set (battery_list chip)"
  obtains c2 e where
    "poll_charger env chip c = Inr (polled_chip chip c e, charge_step env (polled_chip chip c e) c2)"
    "same_links c c2" "charger_ok c2" "pres_chrg_step (status c2) = pres_chrg_step (status c)"
    "batt_info c2 = get_batt_info env (batt_info c)" "chg_info c2 = get_chg_info env (chg_info c)"
    "temp_zones (profile c2) = temp_zones (profile c)"
    "\<forall>zs. temp_zones (profile c) = Some zs \<longrightarrow> zone_ok zs (pres_temp_zone (status c2)) \<and>
       temp_zone (status c2) = (if zone_index zs (pres_temp_zone (status c2))
         then Some (zs ! nat (pres_temp_zone (status c2))) else None) \<and>
       thermal_limits zs (max_temp_limit chip zs) (batt_temp (batt_info c2)) (pres_temp_zone (status c))
         (pres_temp_zone (status c2))"
proof -
  obtain c3 where c3: "poll_charger env chip c = mmi_update_charger_status env chip c3"
    "charger_ok c3" "same_links c c3" "status c3 = status c"
    "batt_info c3 = get_batt_info env (batt_info c)" "chg_info c3 = get_chg_info env (chg_info c)"
    "temp_zones (profile c3) = temp_zones (profile c)"
    by (rule poll_prepare[OF assms(1), of env chip])
  have b: "battery c3 = battery c" and bump: "bump [c3] (battery_list chip) = bump [c] (battery_list chip)"
    using c3(3) by (simp_all add: same_links_def bump_def chargers_of_def)
  obtain c2 e where c2: "mmi_update_charger_status env chip c3 =
        Inr (polled_chip chip c3 e, charge_step env (polled_chip chip c3 e) c2)"
      "c2 = c3\<lparr>status := status c2\<rparr>" "pres_chrg_step (status c2) = pres_chrg_step (status c3)"
      "zone_result chip c3 (pres_temp_zone (status c2)) (temp_zone (status c2))"
    by (rule update_status_unfold[OF c3(2), of chip env]) (use assms(2) b in simp)
  obtain st where st: "c2 = c3\<lparr>status := st\<rparr>" using c2(2) by blast
  show ?thesis
    using c2(1,3,4) c3 unfolding bump
    by (intro that[of e c2]) (auto simp: st zone_result_def same_links_def charger_ok_def)
qed

lemma poll_charger_ok:
  assumes "charger_ok c" "battery c \<in> bp_id ` set (battery_list chip)"
  shows "\<exists>c' e. poll_charger env chip c = Inr (polled_chip chip c e, c') \<and> same_links c c' \<and> charger_ok c'"
proof -
  obtain c2 e where c2: "poll_charger env chip c = Inr (polled_chip chip c e, charge_step env (polled_chip chip c e) c2)"
    "same_links c c2" "charger_ok c2"
    by (rule poll_charger_unfold[OF assms, of env])
  have "same_links c (charge_step env (polled_chip chip c e) c2)" using c2(2) by (simp add: same_links_def)
  moreover have "charger_ok (charge_step env (polled_chip chip c e) c2)" using c2(3) by (simp add: charger_ok_def)
  ultimately show ?thesis using c2(1) by blast
qed

lemma poll_loop_ok:
  assumes "\<forall>c\<in>set cs. charger_ok c \<and> battery c \<in> bp_id ` set (battery_list chip)"
  shows "\<exists>e cs'. poll_loop envs chip cs = Inr (chip\<lparr>battery_list := bump cs (battery_list chip),
      empty_vbat_shutdown_triggered := e\<rparr>, cs') \<and>
    list_all2 same_links cs cs' \<and> (\<forall>c\<in>set cs'. charger_ok c)"
  using assms
proof (induction cs arbitrary: chip)
  case Nil
  show ?case
    by (rule exI[of _ "empty_vbat_shutdown_triggered chip"], rule exI[of _ "[]"]) (cases chip, simp)
next
  case (Cons c cs)
  obtain c' e where c': "poll_charger (envs (drv_id (driver c))) chip c =
      Inr (chip\<lparr>battery_list := bump [c] (battery_list chip), empty_vbat_shutdown_triggered := e\<rparr>, c')"
      "same_links c c'" "charger_ok c'"
    using poll_charger_ok[of c chip "envs (drv_id (driver c))"] Cons.prems by auto
  let ?chip = "chip\<lparr>battery_list := bump [c] (battery_list chip), empty_vbat_shutdown_triggered := e\<rparr>"
  obtain e' cs' where "poll_loop envs ?chip cs = Inr (?chip\<lparr>battery_list := bump cs (battery_list ?chip),
      empty_vbat_shutdown_triggered := e'\<rparr>, cs')" "list_all2 same_links cs cs'" "\<forall>c\<in>set cs'. charger_ok c"
    using Cons.IH[of ?chip] Cons.prems by auto
  moreover have "bump cs (bump [c] (battery_list chip)) = bump (c # cs) (battery_list chip)"
    by (simp add: bump_Cons)
  ultimately show ?case using c' by auto
qed

section \<open>Configuring the chargers\<close>

lemma notify_paired_ok:
  assumes "links_ok (charger_list chip) (battery_list chip)" "battery c \<in> bp_id ` set (battery_list chip)"
  shows "\<exists>calls. mmi_notify_paired_battery chip c = Inr calls"
proof -
  obtain p where p: "p \<in> set (battery_list chip)" "find_pack chip (battery c) = Inr p"
    using find_pack_ok[OF assms(2)] by blast
  show ?thesis
  proof (cases "paired_batt p")
    case None
    then show ?thesis using p by (simp add: mmi_notify_paired_battery_def)
  next
    case (Some q)
    then have "q \<in> bp_id ` set (battery_list chip)" using assms(1) p(1) by (simp add: links_ok_def)
    then obtain pq where pq: "pq \<in> set (battery_list chip)" "find_pack chip q = Inr pq"
      using find_pack_ok by blast
    then have "info pq \<in> ch_id ` set (charger_list chip)" using assms(1) by (simp add: links_ok_def)
    then obtain x where "find_charger chip (info pq) = Inr x" using find_charger_ok by blast
    then show ?thesis using p pq Some by (simp add: mmi_notify_paired_battery_def)
  qed
qed

lemma configure_loop_ok:
  assumes "links_ok (charger_list chip) (battery_list chip)"
    "\<forall>c\<in>set cs. battery c \<in> bp_id ` set (battery_list chip)"
  shows "\<exists>calls. configure_loop chip cs = Inr (map (\<lambda>c. c\<lparr>cfg := configure_cfg chip c\<rparr>) cs, calls)"
  using assms(2)
proof (induction cs)
  case Nil
  then show ?case by simp
next
  case (Cons c cs)
  let ?c = "c\<lparr>cfg := configure_cfg chip c\<rparr>"
  obtain n where "mmi_notify_paired_battery chip ?c = Inr n"
    using notify_paired_ok[OF assms(1), of ?c] Cons.prems by auto
  then show ?case using Cons by (auto simp: mmi_configure_charger_def Let_def)
qed

section \<open>The pack status\<close>

text \<open>What one charger does to its pack in the loop, the reset of \<open>pending\<close> included.\<close>

definition pack_pass :: "mmi_charger \<Rightarrow> mmi_battery_pack \<Rightarrow> mmi_battery_pack" where
  "pack_pass c p =
     (let q = charger_update c p in if pending q \<le> 0 then q\<lparr>pending := 0\<rparr> else q)"

lemma bp_id_charger_update [simp]: "bp_id (charger_update c p) = bp_id p"
  by (simp add: charger_update_def first_charger_update_def Let_def)

lemma bp_id_pack_pass [simp]: "bp_id (pack_pass c p) = bp_id p"
  by (simp add: pack_pass_def Let_def)

text \<open>The loop works on every pack separately.\<close>

definition pack_fold :: "mmi_charger list \<Rightarrow> mmi_battery_pack \<Rightarrow> mmi_battery_pack" where
  "pack_fold cs p = fold pack_pass (chargers_of cs (bp_id p)) p"

lemma bp_id_fold_pack_pass [simp]: "bp_id (fold pack_pass cs p) = bp_id p"
  by (induction cs arbitrary: p) simp_all

lemma bp_id_pack_fold [simp]: "bp_id (pack_fold cs p) = bp_id p"
  by (simp add: pack_fold_def)

lemma pack_fold_Cons:
  "pack_fold (c # cs) p = pack_fold cs (if bp_id p = battery c then pack_pass c p else p)"
  by (auto simp: pack_fold_def chargers_of_def)

lemma status_body_ok:
  assumes "battery c \<in> bp_id ` set (battery_list chip)" "distinct (map bp_id (battery_list chip))"
  shows "\<exists>acc'. status_body c (chip, acc) =
    Inr (chip\<lparr>battery_list := map (\<lambda>p. if bp_id p = battery c then pack_pass c p else p) (battery_list chip)\<rparr>, acc')"
proof -
  obtain p0 where p0: "p0 \<in> set (battery_list chip)" "find_pack chip (battery c) = Inr p0" "bp_id p0 = battery c"
    using find_pack_ok[OF assms(1)] by blast
  have only: "p = p0" if "p \<in> set (battery_list chip)" "bp_id p = battery c" for p
    using that p0 assms(2) unfolding distinct_map inj_on_def by metis
  have "map (\<lambda>p. if bp_id p = battery c then pack_pass c p0 else p) (battery_list chip) =
    map (\<lambda>p. if bp_id p = battery c then pack_pass c p else p) (battery_list chip)"
    using only by auto
  note sp = set_pack_ok[OF assms(1), of "\<lambda>_. pack_pass c p0", unfolded this]
  have pp: "(if pending (charger_update c p0) \<le> 0 then (charger_update c p0)\<lparr>pending := 0\<rparr>
      else charger_update c p0) = pack_pass c p0"
    by (simp add: pack_pass_def Let_def)
  show ?thesis
    by (simp only: status_body_def p0(2) prod.case kbind_Inr Let_def pp sp) blast
qed

lemma status_loop_ok:
  assumes "\<forall>c\<in>set cs. battery c \<in> bp_id ` set (battery_list chip)" "distinct (map bp_id (battery_list chip))"
  shows "\<exists>acc'. status_loop cs (chip, acc) =
    Inr (chip\<lparr>battery_list := map (pack_fold cs) (battery_list chip)\<rparr>, acc')"
  using assms
proof (induction cs arbitrary: chip acc)
  case Nil
  have "pack_fold [] = (\<lambda>p. p)" by (simp add: pack_fold_def chargers_of_def fun_eq_iff)
  then show ?case by simp
next
  case (Cons c cs)
  let ?l = "map (\<lambda>p. if bp_id p = battery c then pack_pass c p else p) (battery_list chip)"
  obtain acc1 where 1: "status_body c (chip, acc) = Inr (chip\<lparr>battery_list := ?l\<rparr>, acc1)"
    using status_body_ok[of c chip acc] Cons.prems by auto
  have ids: "map bp_id ?l = map bp_id (battery_list chip)" by simp
  then have "bp_id ` set ?l = bp_id ` set (battery_list chip)" by (metis set_map)
  then obtain acc2 where "status_loop cs (chip\<lparr>battery_list := ?l\<rparr>, acc1) =
      Inr (chip\<lparr>battery_list := map (pack_fold cs) ?l\<rparr>, acc2)"
    using Cons.IH[of "chip\<lparr>battery_list := ?l\<rparr>" acc1] Cons.prems ids
    by (simp del: map_map set_map) blast
  moreover have "map (pack_fold cs) ?l = map (pack_fold (c # cs)) (battery_list chip)"
    by (simp add: pack_fold_Cons)
  ultimately show ?case using 1 by auto
qed

text \<open>
  What the status of a pack means: full when one of its chargers says so, else charging
  when one says so, else not charging when one says so, else discharging.
\<close>

definition says_full :: "mmi_charger \<Rightarrow> bool" where
  "says_full c \<longleftrightarrow> batt_status (batt_info c) = PS_STATUS_FULL \<or> pres_chrg_step (status c) = STEP_FULL"

definition join_status :: "int \<Rightarrow> mmi_charger list \<Rightarrow> int" where
  "join_status st cs =
     (if st = PS_STATUS_FULL \<or> (\<exists>c\<in>set cs. says_full c) then PS_STATUS_FULL
      else if st = PS_STATUS_CHARGING \<or> (\<exists>c\<in>set cs. batt_status (batt_info c) = PS_STATUS_CHARGING)
      then PS_STATUS_CHARGING
      else if st = PS_STATUS_NOT_CHARGING \<or> (\<exists>c\<in>set cs. batt_status (batt_info c) = PS_STATUS_NOT_CHARGING)
      then PS_STATUS_NOT_CHARGING
      else PS_STATUS_DISCHARGING)"

lemma join_status_Cons: "join_status (pack_status c st) cs = join_status st (c # cs)"
  by (auto simp: join_status_def pack_status_def says_full_def Let_def)

abbreviation top_rate :: "int \<Rightarrow> mmi_charger list \<Rightarrow> int" where
  "top_rate r cs \<equiv> Max (insert r (mmi_get_battery_charger_rate ` set cs))"

lemma top_rate_Cons: "top_rate (max r (mmi_get_battery_charger_rate c)) cs = top_rate r (c # cs)"
  by (cases "cs = []") (simp_all add: max.assoc)

text \<open>The chargers of a pack after its first one: \<open>pending\<close> counts those that are left.\<close>

lemma pack_pass_later:
  assumes "pending p \<noteq> reference p"
  shows "pack_pass c p = p\<lparr>charger_rate := max (charger_rate p) (mmi_get_battery_charger_rate c),
    bp_status := pack_status c (bp_status p), pending := max 0 (pending p - 1)\<rparr>"
  using assms by (simp add: pack_pass_def charger_update_def Let_def max_def)

lemma fold_pack_pass_later:
  assumes "pending p = int (length cs)" "pending p < reference p" "cs \<noteq> []"
  shows "fold pack_pass cs p = p\<lparr>charger_rate := top_rate (charger_rate p) cs,
    bp_status := join_status (bp_status p) cs, pending := 0\<rparr>"
  using assms
proof (induction cs arbitrary: p)
  case Nil
  then show ?case by simp
next
  case (Cons c cs)
  have first: "pack_pass c p = p\<lparr>charger_rate := max (charger_rate p) (mmi_get_battery_charger_rate c),
      bp_status := pack_status c (bp_status p), pending := int (length cs)\<rparr>"
    using pack_pass_later[of p c] Cons.prems by simp
  show ?case
  proof (cases "cs = []")
    case True
    then show ?thesis using first by (simp add: join_status_Cons[of c "bp_status p" "[]", symmetric])
        (simp add: join_status_def pack_status_def Let_def)
  next
    case False
    then show ?thesis using Cons.IH[of "pack_pass c p"] Cons.prems first
      by (simp add: join_status_Cons top_rate_Cons)
  qed
qed

lemma charger_rate_range: "0 \<le> mmi_get_battery_charger_rate c \<and> mmi_get_battery_charger_rate c \<le> RATE_HYPER"
  by (simp add: mmi_get_battery_charger_rate_def Let_def)

lemma pack_pass_first:
  assumes "pending p = reference p"
  shows "pack_pass c p = (first_charger_update c p)
    \<lparr>charger_rate := mmi_get_battery_charger_rate c, bp_status := pack_status c PS_STATUS_DISCHARGING,
     pending := max 0 (pending p - 1)\<rparr>"
  using assms charger_rate_range[of c]
  by (simp add: pack_pass_def charger_update_def Let_def max_def first_charger_update_def)

lemma pack_fold_result:
  assumes "pending p = reference p" "reference p > 0"
    "reference p = int (length (chargers_of cs (bp_id p)))"
  shows "pack_fold cs p = (first_charger_update (hd (chargers_of cs (bp_id p))) p)
    \<lparr>charger_rate := top_rate RATE_NONE (chargers_of cs (bp_id p)),
     bp_status := join_status PS_STATUS_DISCHARGING (chargers_of cs (bp_id p)), pending := 0\<rparr>"
proof -
  obtain d ds where ds: "chargers_of cs (bp_id p) = d # ds"
    using assms(2,3) by (cases "chargers_of cs (bp_id p)") auto
  have f: "pack_pass d p = (first_charger_update d p)
    \<lparr>charger_rate := mmi_get_battery_charger_rate d, bp_status := pack_status d PS_STATUS_DISCHARGING,
     pending := int (length ds)\<rparr>"
    using pack_pass_first[OF assms(1)] assms ds by simp
  have r: "reference (first_charger_update d p) = reference p" for d
    by (simp add: first_charger_update_def Let_def)
  show ?thesis
  proof (cases "ds = []")
    case True
    then show ?thesis using f ds charger_rate_range[of d]
      by (simp add: pack_fold_def join_status_Cons[of d PS_STATUS_DISCHARGING "[]", symmetric] max_def)
        (simp add: join_status_def pack_status_def Let_def)
  next
    case False
    then show ?thesis
      using fold_pack_pass_later[of "pack_pass d p" ds] f ds assms r charger_rate_range[of d]
      by (simp add: pack_fold_def join_status_Cons top_rate_Cons[of RATE_NONE, symmetric] max_def)
  qed
qed

section \<open>The rate of the chip\<close>

text \<open>The packs a list of chargers serves, with the rates they end with.\<close>

definition served_rates :: "mmi_charger list \<Rightarrow> mmi_battery_pack list \<Rightarrow> int set" where
  "served_rates cs ps = (\<lambda>p. charger_rate (pack_fold cs p)) ` {p \<in> set ps. chargers_of cs (bp_id p) \<noteq> []}"

lemma finite_served_rates [simp]: "finite (served_rates cs ps)"
  by (simp add: served_rates_def)

lemma served_rates_Cons:
  fixes ps c
  defines "ps' \<equiv> map (\<lambda>p. if bp_id p = battery c then pack_pass c p else p) ps"
  assumes "p0 \<in> set ps" "bp_id p0 = battery c" "\<forall>p\<in>set ps. bp_id p = battery c \<longrightarrow> p = p0"
  shows "served_rates (c # cs) ps =
    (if chargers_of cs (battery c) = [] then insert (charger_rate (pack_pass c p0)) (served_rates cs ps')
     else served_rates cs ps')"
proof -
  have pass: "pack_fold cs (pack_pass c p0) = pack_pass c p0" if "chargers_of cs (battery c) = []"
    using that assms(3) by (simp add: pack_fold_def)
  define g where "g = (\<lambda>p. if bp_id p = battery c then pack_pass c p else p)"
  have g: "bp_id (g p) = bp_id p" "pack_fold (c # cs) p = pack_fold cs (g p)" for p
    by (simp_all add: g_def pack_fold_Cons)
  have "{p \<in> set ps. chargers_of (c # cs) (bp_id p) \<noteq> []} =
      {p \<in> set ps. bp_id p = battery c \<or> chargers_of cs (bp_id p) \<noteq> []}"
    by (auto simp: chargers_of_def)
  moreover have "{p \<in> set ps'. bp_id p = battery c \<or> chargers_of cs (bp_id p) \<noteq> []} =
      g ` {p \<in> set ps. bp_id p = battery c \<or> chargers_of cs (bp_id p) \<noteq> []}"
    unfolding ps'_def g_def[symmetric] using g(1) by auto
  ultimately have "served_rates (c # cs) ps = (\<lambda>p. charger_rate (pack_fold cs p)) `
      {p \<in> set ps'. bp_id p = battery c \<or> chargers_of cs (bp_id p) \<noteq> []}"
    unfolding served_rates_def g(2) by (simp only: image_image)
  also have "{p \<in> set ps'. bp_id p = battery c \<or> chargers_of cs (bp_id p) \<noteq> []} =
      insert (pack_pass c p0) {p \<in> set ps'. chargers_of cs (bp_id p) \<noteq> []}"
  proof -
    have "p \<in> set ps' \<and> bp_id p = battery c \<longleftrightarrow> p = pack_pass c p0" for p
    proof
      assume "p \<in> set ps' \<and> bp_id p = battery c"
      then obtain q where "q \<in> set ps" "p = g q" "bp_id q = battery c"
        unfolding ps'_def g_def[symmetric] using g(1) by auto
      then show "p = pack_pass c p0" using assms(4) by (simp add: g_def)
    next
      assume "p = pack_pass c p0"
      then have "p = g p0" using assms(3) by (simp add: g_def)
      then show "p \<in> set ps' \<and> bp_id p = battery c"
        unfolding ps'_def g_def[symmetric] using assms(2,3) g(1) by simp
    qed
    then show ?thesis by blast
  qed
  finally have main: "served_rates (c # cs) ps =
      insert (charger_rate (pack_fold cs (pack_pass c p0))) (served_rates cs ps')"
    unfolding served_rates_def by simp
  have "charger_rate (pack_fold cs (pack_pass c p0)) \<in> served_rates cs ps'"
    if "chargers_of cs (battery c) \<noteq> []"
  proof -
    have "pack_pass c p0 \<in> set ps'"
      unfolding ps'_def using assms(2,3) by (auto simp: image_iff)
    then show ?thesis unfolding served_rates_def using that assms(3) by auto
  qed
  then show ?thesis using main pass by (simp add: insert_absorb)
qed

lemma status_body_acc:
  assumes "find_pack chip (battery c) = Inr p0" "pending p0 \<ge> 1" "status_body c (chip, acc) = Inr (chip', acc')"
  shows "acc_max_rate acc' = (if pending p0 = 1 then max (acc_max_rate acc) (charger_rate (pack_pass c p0))
    else acc_max_rate acc)"
proof -
  have "pending (charger_update c p0) = pending p0 - 1"
    by (simp add: charger_update_def first_charger_update_def Let_def)
  then show ?thesis using assms
    by (auto simp: status_body_def Let_def fault_simps pack_pass_def max_def)
qed

lemma status_loop_acc:
  assumes "\<forall>c\<in>set cs. battery c \<in> bp_id ` set (battery_list chip)" "distinct (map bp_id (battery_list chip))"
    "\<forall>p\<in>set (battery_list chip). pending p = int (length (chargers_of cs (bp_id p)))"
    "status_loop cs (chip, acc) = Inr (chip', acc')"
  shows "acc_max_rate acc' = Max (insert (acc_max_rate acc) (served_rates cs (battery_list chip)))"
  using assms
proof (induction cs arbitrary: chip acc)
  case Nil
  then show ?case by (simp add: served_rates_def chargers_of_def)
next
  case (Cons c cs)
  let ?ps = "map (\<lambda>p. if bp_id p = battery c then pack_pass c p else p) (battery_list chip)"
  obtain p0 where p0: "p0 \<in> set (battery_list chip)" "find_pack chip (battery c) = Inr p0" "bp_id p0 = battery c"
    using find_pack_ok[of "battery c" chip] Cons.prems(1) by auto
  have only: "\<forall>p\<in>set (battery_list chip). bp_id p = battery c \<longrightarrow> p = p0"
    using p0 Cons.prems(2) unfolding distinct_map inj_on_def by metis
  have pend: "pending p0 = 1 + int (length (chargers_of cs (battery c)))"
    using Cons.prems(3) p0 by (auto simp: chargers_of_def)
  obtain acc1 where b: "status_body c (chip, acc) = Inr (chip\<lparr>battery_list := ?ps\<rparr>, acc1)"
    using status_body_ok[of c chip acc] Cons.prems by auto
  have a1: "acc_max_rate acc1 = (if chargers_of cs (battery c) = []
      then max (acc_max_rate acc) (charger_rate (pack_pass c p0)) else acc_max_rate acc)"
    using status_body_acc[OF p0(2) _ b] pend by simp
  have pass: "pending (pack_pass c p) = max 0 (pending p - 1)" for p
    by (simp add: pack_pass_def charger_update_def first_charger_update_def Let_def max_def)
  have "\<forall>p\<in>set ?ps. pending p = int (length (chargers_of cs (bp_id p)))"
    using Cons.prems(3) pass by (auto simp: chargers_of_def)
  moreover have ids: "map bp_id ?ps = map bp_id (battery_list chip)" by simp
  then have "bp_id ` set ?ps = bp_id ` set (battery_list chip)" by (metis set_map)
  ultimately have "acc_max_rate acc' = Max (insert (acc_max_rate acc1) (served_rates cs ?ps))"
    using Cons.IH[of "chip\<lparr>battery_list := ?ps\<rparr>" acc1] Cons.prems(1,2,4) ids b
    by (simp del: map_map set_map)
  then show ?case
    unfolding served_rates_Cons[OF p0(1,3) only] a1
    by (cases "served_rates cs ?ps = {}") (simp_all add: max.assoc max.left_commute max.commute)
qed

text \<open>Packs whose chargers have all been polled.\<close>

definition polled :: "mmi_charger list \<Rightarrow> mmi_battery_pack list \<Rightarrow> bool" where
  "polled cs ps \<longleftrightarrow> (\<forall>p\<in>set ps. pending p = reference p \<and> reference p > 0 \<and>
     reference p = int (length (chargers_of cs (bp_id p))))"

lemma polled_fold:
  assumes "polled cs ps" "p \<in> set ps"
  shows "pack_fold cs p = (first_charger_update (hd (chargers_of cs (bp_id p))) p)
    \<lparr>charger_rate := top_rate RATE_NONE (chargers_of cs (bp_id p)),
     bp_status := join_status PS_STATUS_DISCHARGING (chargers_of cs (bp_id p)), pending := 0\<rparr>"
  using assms unfolding polled_def by (intro pack_fold_result) blast+

lemma polled_rate:
  assumes "polled cs ps" "p \<in> set ps"
  shows "charger_rate (pack_fold cs p) = top_rate RATE_NONE (chargers_of cs (bp_id p))"
  unfolding polled_fold[OF assms] by simp

lemma served_rates_top:
  assumes "polled cs ps" "\<forall>c\<in>set cs. battery c \<in> bp_id ` set ps"
  shows "Max (insert RATE_NONE (served_rates cs ps)) = top_rate RATE_NONE cs"
proof (rule antisym)
  have rate: "charger_rate (pack_fold cs p) = top_rate RATE_NONE (chargers_of cs (bp_id p))" if "p \<in> set ps" for p
    by (rule polled_rate[OF assms(1) that])
  have sub: "set (chargers_of cs b) \<subseteq> set cs" for b by (auto simp: chargers_of_def)
  show "Max (insert RATE_NONE (served_rates cs ps)) \<le> top_rate RATE_NONE cs"
  proof (intro Max.boundedI)
    fix r assume "r \<in> insert RATE_NONE (served_rates cs ps)"
    then consider "r = RATE_NONE" | p where "p \<in> set ps" "r = top_rate RATE_NONE (chargers_of cs (bp_id p))"
      using rate by (auto simp: served_rates_def)
    then show "r \<le> top_rate RATE_NONE cs"
    proof cases
      case (2 p)
      have "top_rate RATE_NONE (chargers_of cs (bp_id p)) \<le> top_rate RATE_NONE cs"
        using sub[of "bp_id p"] by (intro Max_mono insert_mono image_mono) simp_all
      then show ?thesis using 2 by simp
    qed simp
  qed simp_all
  show "top_rate RATE_NONE cs \<le> Max (insert RATE_NONE (served_rates cs ps))"
  proof (intro Max.boundedI)
    fix r assume "r \<in> insert RATE_NONE (mmi_get_battery_charger_rate ` set cs)"
    then consider "r = RATE_NONE" | c where "c \<in> set cs" "r = mmi_get_battery_charger_rate c" by auto
    then show "r \<le> Max (insert RATE_NONE (served_rates cs ps))"
    proof cases
      case 2
      then obtain p where p: "p \<in> set ps" "bp_id p = battery c" using assms(2) by auto
      then have c: "c \<in> set (chargers_of cs (bp_id p))" using 2 by (simp add: chargers_of_def)
      then have "r \<le> charger_rate (pack_fold cs p)" using rate[OF p(1)] 2 by simp
      moreover have "chargers_of cs (bp_id p) \<noteq> []" using c by auto
      then have "charger_rate (pack_fold cs p) \<in> served_rates cs ps"
        using p(1) by (auto simp: served_rates_def)
      then have "charger_rate (pack_fold cs p) \<le> Max (insert RATE_NONE (served_rates cs ps))" by simp
      ultimately show ?thesis by simp
    qed simp
  qed simp_all
qed

lemma top_rate_range: "0 \<le> top_rate RATE_NONE cs \<and> top_rate RATE_NONE cs \<le> RATE_HYPER"
  using charger_rate_range by (auto intro!: Max.boundedI)

text \<open>The parts of the chip that the combination and the announcements leave alone.\<close>

lemma combo_update_frame:
  assumes "combo_update bs chip = (chip', changed)"
  shows "charger_list chip' = charger_list chip" "battery_list chip' = battery_list chip"
    "max_charger_rate chip' = max_charger_rate chip"
  using assms
  by (auto simp: combo_update_def mmi_combine_battery_age_def Let_def split: prod.splits if_splits)

lemma supply_init_frame [simp]:
  "charger_list (mmi_battery_supply_init pf chip) = charger_list chip"
  "battery_list (mmi_battery_supply_init pf chip) = battery_list chip"
  "max_charger_rate (mmi_battery_supply_init pf chip) = max_charger_rate chip"
  by (simp_all add: mmi_battery_supply_init_def)

definition core :: "mmi_charger_chip \<Rightarrow> mmi_charger list \<times> mmi_battery_pack list \<times> int" where
  "core chip = (charger_list chip, battery_list chip, max_charger_rate chip)"

lemma notify_event_ok:
  assumes "ty = CHG_RATE \<longrightarrow> 0 \<le> max_charger_rate chip \<and> max_charger_rate chip \<le> RATE_HYPER"
  shows "\<exists>es. mmi_notify_charger_event pf al ty chip = Inr (mmi_battery_supply_init pf chip, es)"
  using assms by (cases ty) (auto simp: mmi_notify_charger_event_def notify_text_def Let_def)

lemma announce_ok:
  assumes "ty = CHG_RATE \<longrightarrow> 0 \<le> max_charger_rate (upd (fst s)) \<and> max_charger_rate (upd (fst s)) \<le> RATE_HYPER"
  obtains s' where "announce pf al differs upd ty s = Inr s'"
    "core (fst s') = (if differs then core (upd (fst s)) else core (fst s))"
proof -
  obtain chip ch evs where s: "s = (chip, ch, evs)" by (cases s)
  obtain es where es: "mmi_notify_charger_event pf al ty (upd chip) = Inr (mmi_battery_supply_init pf (upd chip), es)"
    using notify_event_ok[of ty "upd chip" pf al] assms s by auto
  show ?thesis
  proof (cases differs)
    case True
    then show ?thesis using es s
      by (intro that[of "(mmi_battery_supply_init pf (upd chip), True, evs @ es)"])
        (simp_all add: announce_def core_def)
  next
    case False
    then show ?thesis using s by (intro that[of s]) (simp_all add: announce_def)
  qed
qed

lemma announce_same:
  assumes "ty \<noteq> CHG_RATE" "core (upd (fst s)) = core (fst s)"
  obtains s' where "announce pf al differs upd ty s = Inr s'" "core (fst s') = core (fst s)"
  using announce_ok[of ty upd s pf al differs] assms by metis

lemma polled_info:
  assumes "polled cs ps" "p \<in> set ps"
  shows "info (pack_fold cs p) = ch_id (hd (chargers_of cs (bp_id p)))"
    "hd (chargers_of cs (bp_id p)) \<in> set cs" "paired_batt (pack_fold cs p) = paired_batt p"
    "pending (pack_fold cs p) = 0" "reference (pack_fold cs p) = reference p"
proof -
  have "chargers_of cs (bp_id p) \<noteq> []" using assms by (auto simp: polled_def)
  then have "hd (chargers_of cs (bp_id p)) \<in> set (chargers_of cs (bp_id p))" by simp
  then show "hd (chargers_of cs (bp_id p)) \<in> set cs" unfolding chargers_of_def by simp
qed (simp_all add: polled_fold[OF assms] first_charger_update_def Let_def)

lemma links_ok_fold:
  assumes "links_ok cs ps" "polled cs ps"
  shows "links_ok cs (map (pack_fold cs) ps)"
proof -
  have "map bp_id (map (pack_fold cs) ps) = map bp_id ps" by simp
  moreover from this have "bp_id ` set (map (pack_fold cs) ps) = bp_id ` set ps" by (metis set_map)
  ultimately show ?thesis using assms polled_info[OF assms(2)] unfolding links_ok_def
    by (simp del: map_map set_map add: image_iff) (metis (no_types, lifting) imageE list.set_map)
qed

lemma update_battery_status_ok:
  fixes chip
  defines "cs \<equiv> charger_list chip" and "ps \<equiv> battery_list chip"
  assumes "links_ok cs ps" "polled cs ps"
  shows "\<exists>chip' evs. mmi_update_battery_status pf al junk chip = Inr (chip', evs) \<and>
    charger_list chip' = cs \<and> battery_list chip' = map (pack_fold cs) ps \<and>
    max_charger_rate chip' = top_rate RATE_NONE cs"
proof -
  have batt: "\<forall>c\<in>set cs. battery c \<in> bp_id ` set ps" and dist: "distinct (map bp_id ps)"
    using assms(3) by (auto simp: links_ok_def)
  let ?acc = "\<lparr>acc_max_rate = RATE_NONE, acc_power = 0, acc_vbus = False, acc_lpd = False\<rparr>"
  obtain acc where loop: "status_loop cs (chip, ?acc) = Inr (chip\<lparr>battery_list := map (pack_fold cs) ps\<rparr>, acc)"
    using status_loop_ok[of cs chip ?acc] batt dist unfolding ps_def by auto
  have rate: "acc_max_rate acc = top_rate RATE_NONE cs"
    using status_loop_acc[OF _ _ _ loop] batt dist served_rates_top[OF assms(4) batt] assms(4)
    unfolding ps_def polled_def by simp
  let ?c1 = "chip\<lparr>battery_list := map (pack_fold cs) ps\<rparr>"
  obtain bs where bs: "packs_info ?c1 (battery_list ?c1) = Inr bs"
    using packs_info_ok[of "battery_list ?c1" ?c1] links_ok_fold[OF assms(3,4)]
    unfolding links_ok_def cs_def by auto
  obtain c2 ch where c2: "combo_update bs ?c1 = (c2, ch)" by fastforce
  note fr = combo_update_frame[OF c2]
  obtain s1 where s1: "announce pf al (max_charger_rate c2 \<noteq> acc_max_rate acc)
      (\<lambda>c. c\<lparr>max_charger_rate := acc_max_rate acc\<rparr>) CHG_RATE (c2, ch, []) = Inr s1"
      "core (fst s1) = (cs, map (pack_fold cs) ps, top_rate RATE_NONE cs)"
    by (rule announce_ok[of CHG_RATE "\<lambda>c. c\<lparr>max_charger_rate := acc_max_rate acc\<rparr>" "(c2, ch, [])" pf al
          "max_charger_rate c2 \<noteq> acc_max_rate acc"])
      (use rate top_rate_range[of cs] fr in \<open>simp_all add: core_def cs_def split: if_splits\<close>)
  obtain s2 where s2: "announce pf al (lpd_present c2 \<noteq> acc_lpd acc)
      (\<lambda>c. c\<lparr>lpd_present := acc_lpd acc\<rparr>) LPD_PRESENT s1 = Inr s2" "core (fst s2) = core (fst s1)"
    by (rule announce_same[of LPD_PRESENT "\<lambda>c. c\<lparr>lpd_present := acc_lpd acc\<rparr>" s1 pf al "lpd_present c2 \<noteq> acc_lpd acc"]) (simp_all add: core_def)
  obtain s3 where s3: "announce pf al (vbus_present c2 \<noteq> acc_vbus acc)
      (\<lambda>c. c\<lparr>vbus_present := acc_vbus acc\<rparr>) VBUS_PRESENT s2 = Inr s3" "core (fst s3) = core (fst s2)"
    by (rule announce_same[of VBUS_PRESENT "\<lambda>c. c\<lparr>vbus_present := acc_vbus acc\<rparr>" s2 pf al "vbus_present c2 \<noteq> acc_vbus acc"]) (simp_all add: core_def)
  obtain s4 where s4: "announce pf al (power_watt c2 sdiv 1000 \<noteq> acc_power acc sdiv 1000)
      (\<lambda>c. c\<lparr>power_watt := acc_power acc\<rparr>) POWER_WATT s3 = Inr s4" "core (fst s4) = core (fst s3)"
    by (rule announce_same[of POWER_WATT "\<lambda>c. c\<lparr>power_watt := acc_power acc\<rparr>" s3 pf al "power_watt c2 sdiv 1000 \<noteq> acc_power acc sdiv 1000"]) (simp_all add: core_def)
  obtain c4 ch4 evs where c4: "s4 = (c4, ch4, evs)" by (cases s4)
  have "core c4 = (cs, map (pack_fold cs) ps, top_rate RATE_NONE cs)" using s1 s2 s3 s4 c4 by simp
  then show ?thesis
    unfolding mmi_update_battery_status_def cs_def[symmetric] loop kbind_Inr prod.case bs c2 Let_def s1(1) s2(1) s3(1) s4(1) c4
    by (auto simp: core_def split: prod.splits)
qed

section \<open>The heartbeat\<close>

lemma same_links_maps:
  assumes "list_all2 same_links cs cs'"
  shows "map ch_id cs' = map ch_id cs" "map battery cs' = map battery cs"
  using assms by (induction rule: list_all2_induct) (simp_all add: same_links_def)

lemma length_chargers_of: "length (chargers_of cs b) = count_list (map battery cs) b"
  by (induction cs) (auto simp: chargers_of_def)

lemma links_ok_cong:
  assumes "map ch_id cs' = map ch_id cs" "map battery cs' = map battery cs" "links_ok cs ps"
  shows "links_ok cs' ps"
proof -
  have "ch_id ` set cs' = ch_id ` set cs" "battery ` set cs' = battery ` set cs"
    using assms(1,2) by (metis set_map)+
  then show ?thesis using assms(1,3) unfolding links_ok_def by (metis (no_types, lifting) image_iff)
qed

lemma links_ok_bump: "links_ok cs ps \<Longrightarrow> links_ok cs (bump cs' ps)"
proof -
  assume l: "links_ok cs ps"
  have "map bp_id (bump cs' ps) = map bp_id ps" by (simp add: bump_def)
  then show "links_ok cs (bump cs' ps)"
    using l unfolding links_ok_def bp_id_bump by simp (auto simp: bump_def)
qed

lemma polled_bump:
  assumes "chip_ok chip"
  shows "polled (charger_list chip) (bump (charger_list chip) (battery_list chip))"
  using assms by (auto simp: polled_def chip_ok_def bump_def)

lemma polled_cong:
  assumes "map battery cs' = map battery cs" "polled cs ps"
  shows "polled cs' ps"
  using assms(2) unfolding polled_def length_chargers_of assms(1) .

text \<open>The state after the two loops: every charger polled and configured, every pack waiting.\<close>

lemma heartbeat_locked_eq:
  assumes "chip_ok chip"
  obtains cs calls e' chip' evs where
    "heartbeat_locked e chip = Inr (chip', calls, evs)"
    "map ch_id cs = map ch_id (charger_list chip)" "map battery cs = map battery (charger_list chip)"
    "\<forall>c\<in>set cs. charger_ok c" "charger_list chip' = cs"
    "battery_list chip' = map (pack_fold cs) (bump (charger_list chip) (battery_list chip))"
    "max_charger_rate chip' = top_rate RATE_NONE cs"
proof -
  let ?cs = "charger_list chip" and ?ps = "battery_list chip"
  have l: "links_ok ?cs ?ps" and b: "\<forall>c\<in>set ?cs. charger_ok c \<and> battery c \<in> bp_id ` set ?ps"
    using assms by (auto simp: chip_ok_def links_ok_def)
  obtain e1 cs1 where 1: "poll_loop (drv_env e) chip ?cs =
      Inr (chip\<lparr>battery_list := bump ?cs ?ps, empty_vbat_shutdown_triggered := e1\<rparr>, cs1)"
      "list_all2 same_links ?cs cs1" "\<forall>c\<in>set cs1. charger_ok c"
    using poll_loop_ok[OF b] by blast
  note m1 = same_links_maps[OF 1(2)]
  define c1 where "c1 = chip\<lparr>battery_list := bump ?cs ?ps, empty_vbat_shutdown_triggered := e1, charger_list := cs1\<rparr>"
  have l1: "links_ok cs1 (bump ?cs ?ps)" using links_ok_cong[OF m1] links_ok_bump[OF l] by blast
  then have "\<forall>c\<in>set cs1. battery c \<in> bp_id ` set (battery_list c1)" by (simp add: links_ok_def c1_def)
  then obtain calls where 2: "configure_loop c1 cs1 = Inr (map (\<lambda>c. c\<lparr>cfg := configure_cfg c1 c\<rparr>) cs1, calls)"
    using configure_loop_ok[of c1 cs1] l1 by (auto simp: c1_def)
  define cs2 where "cs2 = map (\<lambda>c. c\<lparr>cfg := configure_cfg c1 c\<rparr>) cs1"
  have m2: "map ch_id cs2 = map ch_id ?cs" "map battery cs2 = map battery ?cs"
    using m1 by (simp_all add: cs2_def comp_def)
  have "charger_ok c \<Longrightarrow> charger_ok (c\<lparr>cfg := x\<rparr>)" for c x by (simp add: charger_ok_def)
  then have ok2: "\<forall>c\<in>set cs2. charger_ok c" using 1(3) by (auto simp: cs2_def)
  let ?c2 = "c1\<lparr>charger_list := cs2\<rparr>"
  have "links_ok cs2 (bump ?cs ?ps)" using links_ok_cong[OF m2 links_ok_bump[OF l]] .
  moreover have "polled cs2 (bump ?cs ?ps)" using polled_cong[OF m2(2) polled_bump[OF assms]] .
  ultimately obtain chip' evs where 3: "mmi_update_battery_status (psy_ok e) (alloc_ok e) (stack_junk e) ?c2 = Inr (chip', evs)"
      "charger_list chip' = cs2" "battery_list chip' = map (pack_fold cs2) (bump ?cs ?ps)"
      "max_charger_rate chip' = top_rate RATE_NONE cs2"
    using update_battery_status_ok[of ?c2 "psy_ok e" "alloc_ok e" "stack_junk e"] by (auto simp: c1_def)
  have "heartbeat_locked e chip = Inr (chip', calls, evs)"
    unfolding heartbeat_locked_def 1(1) kbind_Inr prod.case Let_def c1_def[symmetric] 2 cs2_def[symmetric] 3(1) ..
  then show ?thesis using that m2 ok2 3 by blast
qed

lemma heartbeat_locked_ok:
  assumes "chip_ok chip" "heartbeat_locked e chip = Inr (chip', calls, evs)"
  shows "chip_ok chip'"
proof -
  let ?cs = "charger_list chip" and ?ps = "battery_list chip"
  obtain cs where cs: "map ch_id cs = map ch_id ?cs" "map battery cs = map battery ?cs"
      "\<forall>c\<in>set cs. charger_ok c" "charger_list chip' = cs"
      "battery_list chip' = map (pack_fold cs) (bump ?cs ?ps)"
    by (rule heartbeat_locked_eq[OF assms(1), of e]) (use assms(2) in auto)
  have pol: "polled cs (bump ?cs ?ps)" using polled_cong[OF cs(2) polled_bump[OF assms(1)]] .
  have "links_ok cs (bump ?cs ?ps)"
    using links_ok_cong[OF cs(1,2)] links_ok_bump assms(1) by (auto simp: chip_ok_def)
  from links_ok_fold[OF this pol] show ?thesis
    using cs(3-5) pol polled_info(4,5)[OF pol] by (auto simp: chip_ok_def polled_def)
qed

lemma heartbeat_work_cases:
  assumes "chip_ok chip"
  obtains (suspended) "mmi_charger_heartbeat_work e chip g = Inr (chip, g, [ScheduleWork 100])"
    "and (suspended chip) IS_SUSPENDED \<noteq> 0"
  | (run) chip1 calls evs chip' g' acts where "and (suspended chip) IS_SUSPENDED = 0"
    "heartbeat_locked e chip = Inr (chip1, calls, evs)"
    "mmi_charger_heartbeat_work e chip g = Inr (chip', g', acts)"
    "core chip' = core chip1"
proof (cases "and (suspended chip) IS_SUSPENDED = 0")
  case False
  then show ?thesis by (intro suspended) (simp_all add: mmi_charger_heartbeat_work_def)
next
  case True
  obtain chip1 calls evs where h: "heartbeat_locked e chip = Inr (chip1, calls, evs)"
    by (rule heartbeat_locked_eq[OF assms, of e]) blast
  obtain c2 g2 o1 where f: "factory_kill e chip1 g = (c2, g2, o1)" by (cases "factory_kill e chip1 g")
  have "core c2 = core chip1" using f by (auto simp: factory_kill_def core_def split: if_splits)
  then have "core (c2\<lparr>suspended := 0\<rparr>) = core chip1" by (simp add: core_def)
  moreover obtain g3 o2 where "empty_vbat_kill c2 g2 = (g3, o2)" by fastforce
  then obtain acts where "mmi_charger_heartbeat_work e chip g = Inr (c2\<lparr>suspended := 0\<rparr>, g3, acts)"
    using True h f by (simp add: mmi_charger_heartbeat_work_def Let_def)
  ultimately show ?thesis by (intro run[OF True h])
qed

lemma chip_ok_core: "core chip' = core chip \<Longrightarrow> chip_ok chip' \<longleftrightarrow> chip_ok chip"
  by (simp add: core_def chip_ok_def)

lemma heartbeat_work_ok:
  assumes "chip_ok chip"
  shows "\<exists>chip' g' acts. mmi_charger_heartbeat_work e chip g = Inr (chip', g', acts) \<and> chip_ok chip'"
  using assms
proof (cases rule: heartbeat_work_cases[of chip e g])
  case suspended
  then show ?thesis using assms by blast
next
  case (run chip1 calls evs chip' g' acts)
  then show ?thesis using heartbeat_locked_ok[OF assms run(2)] chip_ok_core by blast
qed

text \<open>
  C9. Meaning of the battery state a heartbeat leaves behind. On a well-formed chip, each
  pack is updated exactly once per heartbeat although several chargers may serve it: its
  status is full when one of its chargers reports full, else charging when one does, else
  not charging when one does, else discharging; its rate is the highest of its chargers;
  health and readings come from its first charger; no update is left pending. The rate of
  the chip is the highest over all chargers.
\<close>

theorem heartbeat_pack_status:
  assumes "chip_ok chip" "heartbeat_locked e chip = Inr (chip', calls, evs)"
  shows "(\<forall>p\<in>set (battery_list chip').
      let ds = chargers_of (charger_list chip') (bp_id p)
      in ds \<noteq> [] \<and> bp_status p = join_status PS_STATUS_DISCHARGING ds \<and> charger_rate p = top_rate RATE_NONE ds \<and>
         health p = mmi_get_battery_health (hd ds) \<and> info p = ch_id (hd ds) \<and> pending p = 0) \<and>
    max_charger_rate chip' = top_rate RATE_NONE (charger_list chip')"
proof -
  let ?b = "bump (charger_list chip) (battery_list chip)"
  obtain cs where cs: "map battery cs = map battery (charger_list chip)" "charger_list chip' = cs"
      "battery_list chip' = map (pack_fold cs) ?b" "max_charger_rate chip' = top_rate RATE_NONE cs"
    by (rule heartbeat_locked_eq[OF assms(1), of e]) (use assms(2) in auto)
  have pol: "polled cs ?b" using polled_cong[OF cs(1) polled_bump[OF assms(1)]] .
  show ?thesis
  proof (intro conjI ballI)
    fix p assume "p \<in> set (battery_list chip')"
    then obtain q where q: "q \<in> set ?b" "p = pack_fold cs q" using cs(3) by auto
    have "chargers_of cs (bp_id q) \<noteq> []" using pol q(1) by (auto simp: polled_def)
    then show "let ds = chargers_of (charger_list chip') (bp_id p)
      in ds \<noteq> [] \<and> bp_status p = join_status PS_STATUS_DISCHARGING ds \<and> charger_rate p = top_rate RATE_NONE ds \<and>
         health p = mmi_get_battery_health (hd ds) \<and> info p = ch_id (hd ds) \<and> pending p = 0"
      using polled_fold[OF pol q(1)] q(2) cs(2) by (simp add: first_charger_update_def Let_def)
  qed (use cs in simp)
qed

text \<open>A chip with two chargers on one battery, and a heartbeat in which both drivers report.\<close>

definition sample_charger :: "nat \<Rightarrow> mmi_charger" where
  "sample_charger n = (readme_charger 3 30 4100)
     \<lparr>ch_id := n, driver := zero_charger_driver\<lparr>drv_id := n, has_mandatory := True\<rparr>, battery := 7\<rparr>"

definition sample_chip :: mmi_charger_chip where
  "sample_chip = zero_charger_chip
     \<lparr>charger_list := [sample_charger 1, sample_charger 2],
      battery_list := [zero_battery_pack\<lparr>bp_id := 7, reference := 2, info := 1\<rparr>]\<rparr>"

definition sample_driver_env :: "int \<Rightarrow> int \<Rightarrow> driver_env" where
  "sample_driver_env st pmax =
     \<lparr>get_batt_info = (\<lambda>b. b\<lparr>batt_status := st, batt_soc := 60, batt_temp := 30, batt_mv := 4100,
                              batt_full_uah := 4000000, batt_design_uah := 4000000\<rparr>),
      get_chg_info = (\<lambda>c. c\<lparr>chrg_present := 1, chrg_pmax_mw := pmax\<rparr>),
      is_charge_tapered = (\<lambda>_. False), is_charge_halt = False,
      recharger_hawao_mode = False\<rparr>"

definition sample_hb_env :: hb_env where
  "sample_hb_env =
     \<lparr>drv_env = (\<lambda>d. if d = 1 then sample_driver_env PS_STATUS_NOT_CHARGING 15000
                     else sample_driver_env PS_STATUS_CHARGING 30000),
      now_ts = (0, 0), psy_ok = True, alloc_ok = True, stack_junk = 0\<rparr>"

lemma sample_chip_ok: "chip_ok sample_chip"
proof -
  have z: "zones_ok readme_zones" "zone_index readme_zones 3"
    by (simp_all add: zones_ok_def readme_zones_def zone_index_def)
  have "charger_ok (sample_charger n)" for n
    using z by (simp add: charger_ok_def sample_charger_def readme_charger_def zone_ok_def zero_defs)
  then show ?thesis
    by (simp add: chip_ok_def sample_chip_def links_ok_def chargers_of_def)
      (simp add: sample_charger_def zero_defs)
qed

lemma heartbeat_pack_status_witness:
  "\<exists>chip' calls evs. heartbeat_locked sample_hb_env sample_chip = Inr (chip', calls, evs) \<and>
    (\<forall>p\<in>set (battery_list chip').
      let ds = chargers_of (charger_list chip') (bp_id p)
      in ds \<noteq> [] \<and> bp_status p = join_status PS_STATUS_DISCHARGING ds \<and> pending p = 0) \<and>
    max_charger_rate chip' = top_rate RATE_NONE (charger_list chip')"
proof -
  obtain chip' calls evs where h: "heartbeat_locked sample_hb_env sample_chip = Inr (chip', calls, evs)"
    by (rule heartbeat_locked_eq[OF sample_chip_ok, of sample_hb_env]) blast
  show ?thesis using heartbeat_pack_status[OF sample_chip_ok h] h by (auto simp: Let_def)
qed

end
