(* ===== verification/Charger_Safety.thy ===== *)
theory Charger_Safety
  imports Charger_Correct
begin

text \<open>
  What the low-level drivers are told: when charging is disabled and the charger
  suspended, when a battery counts as full, that a battery outside the thermal limits is not
  charged, and which current and voltage are handed out at the taper voltage of a zone.
\<close>

section \<open>The decision to charge\<close>

definition currents_ok :: "mmi_charger \<Rightarrow> bool" where
  "currents_ok c \<longleftrightarrow> 0 \<le> max_fcc_ma (profile c) \<and>
     (\<forall>z. temp_zone (status c) = Some z \<longrightarrow> 0 \<le> fcc_max_ma z \<and> 0 \<le> fcc_norm_ma z)"

lemma configure_cfg_disable:
  "charging_disable (configure_cfg chip c) \<longleftrightarrow> \<not> force_charging_enabled chip \<and>
     (factory_mode chip \<or> fst (snd (step_target c)) < 0 \<or>
      mmi_get_effective_voter (disable_charging_vote chip) \<ge> 0)"
  by (auto simp: configure_cfg_def Let_def split: prod.splits)

lemma configure_cfg_suspend:
  "charger_suspend (configure_cfg chip c) \<longleftrightarrow> charger_suspend (cfg c) \<or> force_charger_disabled chip \<or>
     demo_chrg_suspend (status c) \<or> mmi_get_effective_voter (suspend_charger_vote chip) \<ge> 0"
  by (auto simp: configure_cfg_def Let_def split: prod.splits)

lemma step_target_negative:
  assumes "currents_ok c"
  shows "fst (snd (step_target c)) < 0 \<longleftrightarrow> pres_chrg_step (status c) \<in> {STEP_FULL, STEP_STOP}"
  using assms
  by (auto simp: step_target_def currents_ok_def Let_def split: mmi_chrg_step.splits option.splits)

text \<open>
  C8. The decision to charge. \<open>mmi_configure_charger\<close> disables charging exactly when
  charging is not forced on and the device is in factory mode, or the step is full or stop,
  or somebody votes to disable charging; it suspends the charger (after the reset of the
  configuration) exactly when this is forced, or demo mode has reached its limit, or
  somebody votes to suspend. The last calls it makes on the driver carry these decisions.
\<close>

theorem configure_decision:
  assumes "currents_ok c" "vote_ok (disable_charging_vote chip)" "vote_ok (suspend_charger_vote chip)"
    "\<not> charger_suspend (cfg c)" "mmi_configure_charger chip c = Inr (c', calls)"
  shows "\<exists>pre. calls = pre @ [SetConstraint (drv_id (driver c)) (con c), ConfigCharge (drv_id (driver c)) (cfg c')] \<and>
    (charging_disable (cfg c') \<longleftrightarrow> \<not> force_charging_enabled chip \<and>
       (factory_mode chip \<or> pres_chrg_step (status c) \<in> {STEP_FULL, STEP_STOP} \<or>
        registered (disable_charging_vote chip) \<noteq> {})) \<and>
    (charger_suspend (cfg c') \<longleftrightarrow> force_charger_disabled chip \<or> demo_chrg_suspend (status c) \<or>
       registered (suspend_charger_vote chip) \<noteq> {})"
proof -
  have c': "c' = c\<lparr>cfg := configure_cfg chip c\<rparr>"
    using assms(5) by (auto simp: mmi_configure_charger_def Let_def fault_simps)
  have "\<exists>pre. calls = pre @ [SetConstraint (drv_id (driver c)) (con c), ConfigCharge (drv_id (driver c)) (cfg c')]"
    using assms(5) c' by (auto simp: mmi_configure_charger_def Let_def fault_simps)
  then show ?thesis
    using c' configure_cfg_disable[of chip c] configure_cfg_suspend[of chip c] step_target_negative[OF assms(1)]
      effective_voter_iff[OF assms(2)] effective_voter_iff[OF assms(3)] assms(4) by simp
qed

lemma configure_decision_witness:
  "\<exists>c' calls. mmi_configure_charger sample_chip (sample_charger 1) = Inr (c', calls) \<and>
    \<not> charging_disable (cfg c') \<and> \<not> charger_suspend (cfg c')"
proof -
  have l: "links_ok (charger_list sample_chip) (battery_list sample_chip)"
    using sample_chip_ok by (simp add: chip_ok_def)
  obtain n where "mmi_notify_paired_battery sample_chip (sample_charger 1\<lparr>cfg := configure_cfg sample_chip (sample_charger 1)\<rparr>) = Inr n"
    using notify_paired_ok[OF l] by (fastforce simp: sample_chip_def sample_charger_def)
  then obtain c' calls where r: "mmi_configure_charger sample_chip (sample_charger 1) = Inr (c', calls)"
    by (auto simp: mmi_configure_charger_def Let_def)
  have h: "currents_ok (sample_charger 1)" "vote_ok (disable_charging_vote sample_chip)"
    "vote_ok (suspend_charger_vote sample_chip)" "\<not> charger_suspend (cfg (sample_charger 1))"
    using zero_vote_ok by (simp_all add: currents_ok_def sample_charger_def readme_charger_def sample_chip_def zero_defs)
  show ?thesis using configure_decision[OF h r] r zero_vote_ok
    by (simp add: sample_chip_def sample_charger_def readme_charger_def zero_defs)
qed

section \<open>Thermal safety\<close>

lemma charge_step_stop:
  assumes "chrg_present (chg_info c) \<noteq> 0" "pres_temp_zone (status c) = ZONE_HOT \<or> pres_temp_zone (status c) = ZONE_COLD"
  shows "pres_chrg_step (status (charge_step env chip c)) = STEP_STOP"
  using assms by (auto simp: charge_step_def Let_def)

text \<open>
  C1. Thermal safety of a pass. Poll a charger whose battery reads a temperature at or
  above its limit or below -20 degrees (from a zone of the table), or which is still inside
  the two-degree hysteresis after such an excursion: if a charger is present, the
  configuration computed in that pass disables charging, unless user space forces charging.
\<close>

theorem thermal_stop:
  fixes c chip env
  defines "tc \<equiv> batt_temp (get_batt_info env (batt_info c))" and "z \<equiv> pres_temp_zone (status c)"
  assumes "charger_ok c" "battery c \<in> bp_id ` set (battery_list chip)" "temp_zones (profile c) = Some zs"
    and hot: "zone_index zs z \<and> (tc < MIN_TEMP_C \<or> max_temp_limit chip zs \<le> tc) \<or>
      z = ZONE_HOT \<and> max_temp_limit chip zs - HYSTERESIS_DEGC < tc \<or>
      z = ZONE_COLD \<and> tc < MIN_TEMP_C + HYSTERESIS_DEGC"
    and "chrg_present (get_chg_info env (chg_info c)) \<noteq> 0" "\<not> force_charging_enabled chip"
  shows "\<exists>chip' c'. poll_charger env chip c = Inr (chip', c') \<and>
    pres_chrg_step (status c') = STEP_STOP \<and> charging_disable (configure_cfg chip' c')"
proof -
  obtain c2 e where c2: "poll_charger env chip c = Inr (polled_chip chip c e, charge_step env (polled_chip chip c e) c2)"
      "batt_info c2 = get_batt_info env (batt_info c)" "chg_info c2 = get_chg_info env (chg_info c)"
      "\<forall>zs. temp_zones (profile c) = Some zs \<longrightarrow> zone_ok zs (pres_temp_zone (status c2)) \<and>
       temp_zone (status c2) = (if zone_index zs (pres_temp_zone (status c2))
         then Some (zs ! nat (pres_temp_zone (status c2))) else None) \<and>
       thermal_limits zs (max_temp_limit chip zs) (batt_temp (batt_info c2)) (pres_temp_zone (status c))
         (pres_temp_zone (status c2))"
    by (rule poll_charger_unfold[OF assms(3,4), of env])
  then have "thermal_limits zs (max_temp_limit chip zs) tc z (pres_temp_zone (status c2))"
    using assms(5) by (simp add: tc_def z_def)
  then have "pres_temp_zone (status c2) = ZONE_HOT \<or> pres_temp_zone (status c2) = ZONE_COLD"
    using hot unfolding thermal_limits_def by (meson not_le)
  then have stop: "pres_chrg_step (status (charge_step env (polled_chip chip c e) c2)) = STEP_STOP"
    using charge_step_stop[of c2 env "polled_chip chip c e"] c2(3) assms(7) by simp
  then have "fst (snd (step_target (charge_step env (polled_chip chip c e) c2))) < 0"
    by (simp add: step_target_def Let_def)
  then show ?thesis using c2(1) stop assms(8) by (auto simp: configure_cfg_disable)
qed

lemma thermal_stop_witness:
  fixes env
  defines "env \<equiv> (sample_driver_env PS_STATUS_CHARGING 15000)
    \<lparr>get_batt_info := (\<lambda>b. b\<lparr>batt_temp := 61, batt_mv := 4100\<rparr>)\<rparr>"
  shows "\<exists>chip' c'. poll_charger env sample_chip (sample_charger 1) = Inr (chip', c') \<and>
    pres_chrg_step (status c') = STEP_STOP \<and> charging_disable (configure_cfg chip' c')"
proof -
  have "charger_ok (sample_charger 1)" using sample_chip_ok by (simp add: chip_ok_def sample_chip_def)
  then show ?thesis
    using thermal_stop[of "sample_charger 1" sample_chip readme_zones env]
    by (simp add: env_def sample_chip_def sample_charger_def readme_charger_def sample_driver_env_def
        max_temp_limit_def readme_zones_def zone_index_def zero_defs)
qed

section \<open>The steps of a charge\<close>

text \<open>The transitions of the step machine while a charger is present, charging is not
  limited, the battery is in a zone of the table and demo mode is off.\<close>

inductive charge_edge :: "mmi_chrg_step \<Rightarrow> mmi_chrg_step \<Rightarrow> bool" where
  enter_max: "s \<in> {STEP_NONE, STEP_STOP} \<Longrightarrow> charge_edge s STEP_MAX"
| enter_norm: "s \<in> {STEP_NONE, STEP_STOP} \<Longrightarrow> charge_edge s STEP_NORM"
| enter_stop: "s \<in> {STEP_NONE, STEP_STOP} \<Longrightarrow> charge_edge s STEP_STOP"
| max_norm: "charge_edge STEP_MAX STEP_NORM"
| max_float: "charge_edge STEP_MAX STEP_FLOAT"
| norm_float: "charge_edge STEP_NORM STEP_FLOAT"
| norm_full: "charge_edge STEP_NORM STEP_FULL"
| full_norm: "charge_edge STEP_FULL STEP_NORM"
| float_max: "charge_edge STEP_FLOAT STEP_MAX"
| float_stop: "charge_edge STEP_FLOAT STEP_STOP"

inductive_simps charge_edge_full [simp]: "charge_edge s STEP_FULL"

lemma charge_step_in_zone:
  assumes "chrg_present (chg_info c) \<noteq> 0" "temp_zone (status c) = Some tz"
    "pres_temp_zone (status c) \<noteq> ZONE_HOT" "pres_temp_zone (status c) \<noteq> ZONE_COLD"
    "charging_limit_mode (status c) \<noteq> CHARGING_LIMIT_RUN" "demo_mode chip = 0"
  shows "pres_chrg_step (status (charge_step env chip c)) = fst (zone_charge_step env c tz)"
  using assms by (simp add: charge_step_def Let_def split: prod.splits)





text \<open>
  A charger that has reached a given step in a given zone, with the limits of the \<open>README\<close>,
  and a driver that reads a given charge, temperature and voltage and a current below
  \<open>lim\<close>.
\<close>

definition stepping_charger :: "mmi_chrg_step \<Rightarrow> int \<Rightarrow> mmi_charger" where
  "stepping_charger s z = (sample_charger 1)
     \<lparr>profile := (profile (sample_charger 1))\<lparr>noffc_max_fv_mv := 4400, noffc_chrg_iterm := 300, vfloat_comp_mv := 20\<rparr>,
      status := (status (sample_charger 1))\<lparr>pres_chrg_step := s, pres_temp_zone := z\<rparr>\<rparr>"

definition reading_env :: "int \<Rightarrow> int \<Rightarrow> int \<Rightarrow> int \<Rightarrow> driver_env" where
  "reading_env soc temp mv ma = (sample_driver_env PS_STATUS_CHARGING 15000)
     \<lparr>get_batt_info := (\<lambda>b. b\<lparr>batt_soc := soc, batt_temp := temp, batt_mv := mv\<rparr>),
      is_charge_tapered := (\<lambda>lim. ma \<le> lim)\<rparr>"

lemma stepping_charger_ok:
  assumes "zone_index readme_zones z"
  shows "charger_ok (stepping_charger s z)" "battery (stepping_charger s z) \<in> bp_id ` set (battery_list sample_chip)"
proof -
  have "zones_ok readme_zones" by (simp add: zones_ok_def readme_zones_def)
  then show "charger_ok (stepping_charger s z)"
    using assms by (simp add: charger_ok_def stepping_charger_def sample_charger_def readme_charger_def zone_ok_def zero_defs)
  show "battery (stepping_charger s z) \<in> bp_id ` set (battery_list sample_chip)"
    by (simp add: stepping_charger_def sample_charger_def sample_chip_def)
qed

definition polls_to ::
  "driver_env \<Rightarrow> mmi_charger_chip \<Rightarrow> mmi_charger \<Rightarrow> (mmi_charger \<Rightarrow> bool) \<Rightarrow> bool" where
  "polls_to env chip c P = (case poll_charger env chip c of Inl _ \<Rightarrow> False | Inr (_, c') \<Rightarrow> P c')"

lemma polls_toE:
  assumes "polls_to env chip c P"
  obtains chip' c' where "poll_charger env chip c = Inr (chip', c')" "P c'"
  using assms by (auto simp: polls_to_def split: sum.splits)


section \<open>The taper rule\<close>

text \<open>
  When a pass that finds the battery at the taper voltage of its zone goes on with the zone's
  full rate: in the step max until the current has come down to the taper rate, and in a zone
  without a taper rate in the step float until it has come down to the terminating current.
  From the steps none, stop and full the full rate is not started.
\<close>

definition full_rate_kept :: "driver_env \<Rightarrow> mmi_charger_profile \<Rightarrow> mmi_temp_zone \<Rightarrow> mmi_chrg_step \<Rightarrow> bool" where
  "full_rate_kept env p z s =
     (case s of
        STEP_MAX \<Rightarrow> fcc_norm_ma z = 0 \<or> \<not> is_charge_tapered env (fcc_norm_ma z)
      | STEP_NORM \<Rightarrow> fcc_norm_ma z = 0
      | STEP_FLOAT \<Rightarrow> fcc_norm_ma z \<noteq> 0 \<or> \<not> is_charge_tapered env (chrg_iterm p)
      | _ \<Rightarrow> False)"

lemma zone_charge_step_above_taper:
  assumes "norm_mv z \<noteq> 0" "norm_mv z \<le> batt_mv (batt_info c) + HYST_STEP_MV" "pres_chrg_step (status c) \<noteq> STEP_DEMO"
  shows "fst (zone_charge_step env c z) \<in> {STEP_MAX, STEP_FLOAT} \<longleftrightarrow>
      full_rate_kept env (profile c) z (pres_chrg_step (status c))"
    "fst (zone_charge_step env c z) \<notin> {STEP_NONE, STEP_DEMO}"
  using assms
  by (cases "pres_chrg_step (status c)";
      simp add: zone_charge_step_def full_rate_kept_def enter_step_def step_max_def step_norm_def step_full_def
        step_float_def Let_def)+

lemma configure_cfg_target:
  assumes "\<not> factory_mode chip"
  shows "target_fv (configure_cfg chip c) = fst (step_target c)"
    "target_fcc (configure_cfg chip c) = fst (snd (step_target c))"
  using assms by (auto simp: configure_cfg_def Let_def split: prod.splits)

lemma charge_step_above_taper:
  fixes chip env c
  defines "s \<equiv> pres_chrg_step (status (charge_step env chip c))"
  assumes "temp_zone (status c) = Some z" "pres_temp_zone (status c) \<noteq> ZONE_HOT" "pres_temp_zone (status c) \<noteq> ZONE_COLD"
    "demo_mode chip = 0" "norm_mv z \<noteq> 0" "norm_mv z \<le> batt_mv (batt_info c) + HYST_STEP_MV"
    "pres_chrg_step (status c) \<noteq> STEP_DEMO"
  shows "s \<in> {STEP_MAX, STEP_FLOAT} \<longleftrightarrow> chrg_present (chg_info c) \<noteq> 0 \<and>
      charging_limit_mode (status c) \<noteq> CHARGING_LIMIT_RUN \<and>
      full_rate_kept env (profile c) z (pres_chrg_step (status c))"
    "s \<noteq> STEP_DEMO" "s = STEP_NONE \<longleftrightarrow> chrg_present (chg_info c) = 0"
proof -
  consider "chrg_present (chg_info c) = 0" | "chrg_present (chg_info c) \<noteq> 0" "charging_limit_mode (status c) = CHARGING_LIMIT_RUN"
    | "s = fst (zone_charge_step env c z)" "chrg_present (chg_info c) \<noteq> 0" "charging_limit_mode (status c) \<noteq> CHARGING_LIMIT_RUN"
    using charge_step_in_zone[OF _ assms(2-4) _ assms(5), of env] s_def by blast
  then have "(s \<in> {STEP_MAX, STEP_FLOAT} \<longleftrightarrow> chrg_present (chg_info c) \<noteq> 0 \<and>
      charging_limit_mode (status c) \<noteq> CHARGING_LIMIT_RUN \<and>
      full_rate_kept env (profile c) z (pres_chrg_step (status c))) \<and> s \<noteq> STEP_DEMO \<and>
      (s = STEP_NONE \<longleftrightarrow> chrg_present (chg_info c) = 0)"
  proof cases
    case 3
    then show ?thesis using zone_charge_step_above_taper[OF assms(6-8), of env] by auto
  qed (simp_all add: s_def charge_step_def Let_def)
  then show "s \<in> {STEP_MAX, STEP_FLOAT} \<longleftrightarrow> chrg_present (chg_info c) \<noteq> 0 \<and>
      charging_limit_mode (status c) \<noteq> CHARGING_LIMIT_RUN \<and>
      full_rate_kept env (profile c) z (pres_chrg_step (status c))"
    "s \<noteq> STEP_DEMO" "s = STEP_NONE \<longleftrightarrow> chrg_present (chg_info c) = 0" by blast+
qed

lemma step_target_in_zone:
  assumes "temp_zone (status c) = Some z" "norm_mv z \<noteq> 0" "pres_chrg_step (status c) \<noteq> STEP_DEMO"
  shows "step_target c =
    (if pres_chrg_step (status c) \<in> {STEP_MAX, STEP_FLOAT} then (norm_mv z + vfloat_comp_mv (profile c), fcc_max_ma z, False)
     else if pres_chrg_step (status c) \<in> {STEP_FULL, STEP_STOP} then (max_fv_mv (profile c), - EINVAL, pres_chrg_step (status c) = STEP_FULL)
     else (max_fv_mv (profile c) + (if pres_chrg_step (status c) = STEP_NORM then vfloat_comp_mv (profile c) else 0),
       fcc_norm_ma z, False))"
  using assms by (cases "pres_chrg_step (status c)") (simp_all add: step_target_def Let_def)

text \<open>
  C6. The taper rule. Poll a charger that ends up in an entry of its zone table with a taper
  voltage, the battery reading that voltage less 50 mV or more, outside factory and demo mode.
  When a charger is present, charging is not limited and \<open>full_rate_kept\<close> holds of the step
  before the pass, the driver gets the full rate, but with the taper voltage (plus the
  compensation) as float voltage, so that the current comes down; in every other case it gets
  the taper rate, or charging is disabled (unless user space forces charging).
\<close>

theorem taper_rule:
  fixes chip' c' zs
  defines "cf \<equiv> configure_cfg chip' c'" and "z \<equiv> zs ! nat (pres_temp_zone (status c'))"
  assumes "charger_ok c" "battery c \<in> bp_id ` set (battery_list chip)" "poll_charger env chip c = Inr (chip', c')"
    and "temp_zones (profile c) = Some zs" "zone_index zs (pres_temp_zone (status c'))"
    and "\<not> factory_mode chip" "demo_mode chip = 0" "pres_chrg_step (status c) \<noteq> STEP_DEMO"
    and "norm_mv z \<noteq> 0" "norm_mv z \<le> batt_mv (batt_info c') + HYST_STEP_MV"
  shows "if chrg_present (chg_info c') \<noteq> 0 \<and> charging_limit_mode (status c') \<noteq> CHARGING_LIMIT_RUN \<and>
        full_rate_kept env (profile c') z (pres_chrg_step (status c))
      then target_fcc cf = fcc_max_ma z \<and> target_fv cf = norm_mv z + vfloat_comp_mv (profile c')
      else target_fcc cf = fcc_norm_ma z \<and> pres_chrg_step (status c') \<in> {STEP_NORM, STEP_NONE} \<or>
        target_fcc cf < 0 \<and> pres_chrg_step (status c') \<in> {STEP_FULL, STEP_STOP} \<and>
        (charging_disable cf \<or> force_charging_enabled chip')"
proof -
  obtain c2 e where c2: "poll_charger env chip c = Inr (polled_chip chip c e, charge_step env (polled_chip chip c e) c2)"
      "pres_chrg_step (status c2) = pres_chrg_step (status c)"
      "\<forall>zs. temp_zones (profile c) = Some zs \<longrightarrow> zone_ok zs (pres_temp_zone (status c2)) \<and>
       temp_zone (status c2) = (if zone_index zs (pres_temp_zone (status c2))
         then Some (zs ! nat (pres_temp_zone (status c2))) else None) \<and>
       thermal_limits zs (max_temp_limit chip zs) (batt_temp (batt_info c2)) (pres_temp_zone (status c))
         (pres_temp_zone (status c2))" and ok2: "charger_ok c2" and tz2: "temp_zones (profile c2) = temp_zones (profile c)"
    by (rule poll_charger_unfold[OF assms(3,4), of env])
  let ?chip = "polled_chip chip c e"
  have c': "c' = charge_step env ?chip c2" "chip' = ?chip" using c2(1) assms(5) by simp_all
  have frame: "chg_info c' = chg_info c2" "batt_info c' = batt_info c2" "profile c' = profile c2"
      "pres_temp_zone (status c') = pres_temp_zone (status c2)" "temp_zone (status c') = temp_zone (status c2)"
      "charging_limit_mode (status c') = charging_limit_mode (status c2)"
    unfolding c'(1) by (simp_all add: charge_step_def demo_step_def Let_def split: option.splits prod.splits)
  have zi: "zone_index zs (pres_temp_zone (status c2))" using assms(7) frame(4) by simp
  have z2: "temp_zone (status c2) = Some z" using c2(3) assms(6) zi frame(4) by (simp add: z_def)
  have "zones_ok zs" using ok2 tz2 assms(6) by (simp add: charger_ok_def)
  then have nothc: "pres_temp_zone (status c2) \<noteq> ZONE_HOT" "pres_temp_zone (status c2) \<noteq> ZONE_COLD"
    using zi by (auto simp: zones_ok_def zone_index_def)
  have demo: "demo_mode ?chip = 0" using assms(9) by simp
  note above = charge_step_above_taper[OF z2 nothc demo assms(11), of env]
  have vb: "norm_mv z \<le> batt_mv (batt_info c2) + HYST_STEP_MV" using assms(12) frame(2) by simp
  note st = above[OF vb assms(10)[folded c2(2)], folded c'(1)]
  have cf: "target_fv cf = fst (step_target c')" "target_fcc cf = fst (snd (step_target c'))"
    using configure_cfg_target[of chip' c'] assms(8) c'(2) by (simp_all add: cf_def)
  have tgt: "temp_zone (status c') = Some z" "pres_chrg_step (status c') \<noteq> STEP_DEMO" using z2 frame(5) st(2) by simp_all
  note t = step_target_in_zone[OF tgt(1) assms(11) tgt(2)]
  show ?thesis
    using st cf t configure_cfg_disable[of chip' c'] frame c2(2)
    by (cases "pres_chrg_step (status c')") (auto simp: cf_def)
qed

text \<open>
  Above the taper voltage at 5 degrees: a charger in the step max keeps the full rate while the
  current is 1500 mA, and is limited to the taper rate once it is 800 mA.
\<close>

lemma taper_rule_witness:
  "(\<exists>chip' c'. poll_charger (reading_env 60 5 4190 1500) sample_chip (stepping_charger STEP_MAX 1) = Inr (chip', c') \<and>
     target_fcc (configure_cfg chip' c') = 2185 \<and> target_fv (configure_cfg chip' c') = 4220) \<and>
   (\<exists>chip' c'. poll_charger (reading_env 60 5 4190 800) sample_chip (stepping_charger STEP_MAX 1) = Inr (chip', c') \<and>
     target_fcc (configure_cfg chip' c') = 880)"
proof
  let ?c = "stepping_charger STEP_MAX 1"
  let ?P = "\<lambda>s c'. pres_chrg_step (status c') = s \<and> pres_temp_zone (status c') = 1 \<and> batt_mv (batt_info c') = 4190 \<and>
    chrg_present (chg_info c') = 1 \<and> charging_limit_mode (status c') \<noteq> CHARGING_LIMIT_RUN \<and> vfloat_comp_mv (profile c') = 20"
  have zi: "zone_index readme_zones 1" by (simp add: zone_index_def readme_zones_def)
  have pre: "temp_zones (profile ?c) = Some readme_zones" "\<not> factory_mode sample_chip" "demo_mode sample_chip = 0"
      "pres_chrg_step (status ?c) \<noteq> STEP_DEMO" "pres_chrg_step (status ?c) = STEP_MAX"
    by (simp_all add: stepping_charger_def sample_charger_def readme_charger_def sample_chip_def zero_defs)
  have z: "norm_mv (readme_zones ! 1) = 4200" "fcc_max_ma (readme_zones ! 1) = 2185" "fcc_norm_ma (readme_zones ! 1) = 880"
    by (simp_all add: readme_zones_def)
  note use = taper_rule[OF stepping_charger_ok[OF zi] _ pre(1) _ pre(2-4)]
  have "polls_to (reading_env 60 5 4190 1500) sample_chip ?c (?P STEP_MAX)" by code_simp
  then obtain chip' c' where "poll_charger (reading_env 60 5 4190 1500) sample_chip ?c = Inr (chip', c')" "?P STEP_MAX c'"
    by (rule polls_toE)
  then show "\<exists>chip' c'. poll_charger (reading_env 60 5 4190 1500) sample_chip ?c = Inr (chip', c') \<and>
     target_fcc (configure_cfg chip' c') = 2185 \<and> target_fv (configure_cfg chip' c') = 4220"
    using use[of "reading_env 60 5 4190 1500" chip' c'] zi z pre(5)
    by (simp add: full_rate_kept_def reading_env_def)
  have "polls_to (reading_env 60 5 4190 800) sample_chip ?c (?P STEP_NORM)" by code_simp
  then obtain chip' c' where "poll_charger (reading_env 60 5 4190 800) sample_chip ?c = Inr (chip', c')" "?P STEP_NORM c'"
    by (rule polls_toE)
  then show "\<exists>chip' c'. poll_charger (reading_env 60 5 4190 800) sample_chip ?c = Inr (chip', c') \<and>
     target_fcc (configure_cfg chip' c') = 880"
    using use[of "reading_env 60 5 4190 800" chip' c'] zi z pre(5)
    by (simp add: full_rate_kept_def reading_env_def)
qed

end
