(* ===== verification/Charger_Reach.thy ===== *)
theory Charger_Reach
  imports Charger_Safety
begin

text \<open>
  The states the common charger driver can reach: the registration of drivers keeps the
  invariant of the chip, so no sequence of registrations, heartbeats, votes and writes
  from user space makes a heartbeat fault; the removal of a driver does not keep it.
\<close>

section \<open>Registration\<close>

lemma length_cells_zones: "length (cells_zones xs) = length xs div 4"
  by (induction xs rule: cells_zones.induct) simp_all

lemma length_cells_ffc: "length (cells_ffc xs) = length xs div 4"
  by (induction xs rule: cells_ffc.induct) simp_all

text \<open>
  A usable device tree node: \<open>of_property_read_u32_array\<close> returns as many cells as asked
  for, the zone table has one to ten entries and the FFC table can be read.
\<close>

definition reg_ok :: "reg_env \<Rightarrow> bool" where
  "reg_ok r \<longleftrightarrow> (\<exists>node. reg_node r = Some node \<and>
     (\<forall>a. dt_array node ''mmi,mmi-temp-zones'' = Some a \<longrightarrow>
        1 \<le> byte_len a div 16 \<and> byte_len a div 16 \<le> 10 \<and>
        (\<forall>cells. read_cells a = Inr cells \<longrightarrow> length cells = byte_len a div 4)) \<and>
     (\<forall>a. dt_array node ''mmi,mmi-ffc-zones'' = Some a \<longrightarrow>
        (\<exists>cells. read_cells a = Inr cells \<and> length cells = byte_len a div 4)))"

lemma profile_temp_zones_ok:
  assumes "\<forall>a. dt_array node ''mmi,mmi-temp-zones'' = Some a \<longrightarrow>
        1 \<le> byte_len a div 16 \<and> byte_len a div 16 \<le> 10 \<and>
        (\<forall>cells. read_cells a = Inr cells \<longrightarrow> length cells = byte_len a div 4)"
    "temp_zones p = None" "profile_temp_zones node al p = (rc, p')"
  shows "(\<forall>zs. temp_zones p' = Some zs \<longrightarrow> zones_ok zs) \<and> ffc_zones p' = ffc_zones p \<and>
    num_ffc_zones p' = num_ffc_zones p"
proof -
  have "zones_ok (cells_zones cells)" if "1 \<le> b div 16" "b div 16 \<le> 10" "length cells = b div 4" for b cells
    using that length_cells_zones[of cells] by (auto simp: zones_ok_def div_mult2_eq[of b 4 4, simplified, symmetric])
  then show ?thesis using assms
    by (auto simp: profile_temp_zones_def split: option.splits if_splits sum.splits)
qed

lemma profile_ffc_zones_ok:
  assumes "\<forall>a. dt_array node ''mmi,mmi-ffc-zones'' = Some a \<longrightarrow>
        (\<exists>cells. read_cells a = Inr cells \<and> length cells = byte_len a div 4)"
    "ffc_zones p = None" "num_ffc_zones p = 0" "profile_ffc_zones node al p = (rc, p')"
  shows "(ffc_zones p' = None \<longrightarrow> num_ffc_zones p' \<le> 0) \<and>
    (\<forall>zs. ffc_zones p' = Some zs \<longrightarrow> num_ffc_zones p' = int (length zs)) \<and> temp_zones p' = temp_zones p"
proof -
  have "int (b div 16) = int (length (cells_ffc cells))" if "length cells = b div 4" for b cells
    using that length_cells_ffc[of cells] by (simp add: div_mult2_eq[of b 4 4, simplified, symmetric])
  then show ?thesis using assms
    by (auto simp: profile_ffc_zones_def split: option.splits if_splits sum.splits)
qed

lemma new_charger_profile_ok:
  assumes "reg_ok r" "mmi_get_charger_profile (reg_node r) al1 al2 (new_charger addr drv bi ci b) = (rc, c)"
  shows "charger_ok c" "ch_id c = addr" "battery c = b"
proof -
  obtain node where node: "reg_node r = Some node" using assms(1) by (auto simp: reg_ok_def)
  let ?n = "new_charger addr drv bi ci b"
  let ?p0 = "profile_scalars node (profile ?n)"
  have p0: "temp_zones ?p0 = None" "ffc_zones ?p0 = None" "num_ffc_zones ?p0 = 0"
    by (simp_all add: profile_scalars_def Let_def new_charger_def zero_defs)
  obtain rc1 p1 where p1: "profile_temp_zones node al1 ?p0 = (rc1, p1)" by fastforce
  obtain rc2 p2 where p2: "profile_ffc_zones node al2 p1 = (rc2, p2)" by fastforce
  have t: "(\<forall>zs. temp_zones p1 = Some zs \<longrightarrow> zones_ok zs) \<and> ffc_zones p1 = None \<and> num_ffc_zones p1 = 0"
    using profile_temp_zones_ok[OF _ p0(1) p1] assms(1) node p0(2,3) by (auto simp: reg_ok_def)
  then have f: "(ffc_zones p2 = None \<longrightarrow> num_ffc_zones p2 \<le> 0) \<and>
    (\<forall>zs. ffc_zones p2 = Some zs \<longrightarrow> num_ffc_zones p2 = int (length zs)) \<and> temp_zones p2 = temp_zones p1"
    using profile_ffc_zones_ok[OF _ _ _ p2] assms(1) node by (auto simp: reg_ok_def)
  have c: "c = ?n\<lparr>profile := (if rc1 \<noteq> 0 then p1 else p2)\<rparr>"
    using assms(2) node p1 p2 by (auto simp: mmi_get_charger_profile_def split: if_splits)
  show "charger_ok c" "ch_id c = addr" "battery c = b"
    using t f by (auto simp: c charger_ok_def new_charger_def)
qed

text \<open>
  The chip while a new charger on the pack \<open>b\<close> is not linked yet: as \<open>chip_ok\<close>, except that
  the pack already counts it and need not know a charger.
\<close>

definition half_registered :: "nat \<Rightarrow> mmi_charger_chip \<Rightarrow> bool" where
  "half_registered b chip \<longleftrightarrow>
     distinct (map ch_id (charger_list chip)) \<and> distinct (map bp_id (battery_list chip)) \<and>
     (\<forall>c\<in>set (charger_list chip). charger_ok c \<and> battery c \<in> bp_id ` set (battery_list chip)) \<and>
     (\<forall>p\<in>set (battery_list chip).
        (bp_id p = b \<or> info p \<in> ch_id ` set (charger_list chip)) \<and>
        (\<forall>q. paired_batt p = Some q \<longrightarrow> q \<in> bp_id ` set (battery_list chip)) \<and>
        pending p = 0 \<and> reference p > 0 \<and>
        reference p = int (length (chargers_of (charger_list chip) (bp_id p))) + of_bool (bp_id p = b))"

lemma attach_charger_ok:
  assumes "half_registered b chip" "reg_ok r" "b \<in> bp_id ` set (battery_list chip)"
    "addr \<notin> ch_id ` set (charger_list chip)"
  shows "\<exists>chip'. attach_charger r drv bi ci addr b chip = Inr (0, chip') \<and> chip_ok chip'"
proof -
  let ?ps = "map (\<lambda>p. if bp_id p = b then p\<lparr>info := addr\<rparr> else p) (battery_list chip)"
  obtain rc c where c: "mmi_get_charger_profile (reg_node r) (zone_alloc r) (ffc_alloc r)
      (new_charger addr drv bi ci b) = (rc, c)" by fastforce
  note ok = new_charger_profile_ok[OF assms(2) c]
  let ?chip = "chip\<lparr>battery_list := ?ps, charger_list := charger_list chip @ [c]\<rparr>"
  have "attach_charger r drv bi ci addr b chip = Inr (0, ?chip)"
    using c by (simp add: attach_charger_def set_pack_ok[OF assms(3)])
  moreover have "chip_ok ?chip"
  proof -
    have ids: "map bp_id ?ps = map bp_id (battery_list chip)" by simp
    then have idset: "bp_id ` set ?ps = bp_id ` set (battery_list chip)" by (metis set_map)
    have cons: "chargers_of (charger_list chip @ [c]) x =
        chargers_of (charger_list chip) x @ (if x = b then [c] else [])" for x
      using ok(3) by (simp add: chargers_of_def)
    have chs: "ch_id ` set (charger_list chip @ [c]) = insert addr (ch_id ` set (charger_list chip))"
      using ok(2) by simp
    have packs: "info p \<in> insert addr (ch_id ` set (charger_list chip)) \<and>
        (\<forall>q. paired_batt p = Some q \<longrightarrow> q \<in> bp_id ` set (battery_list chip)) \<and> pending p = 0 \<and> reference p > 0 \<and>
        reference p = int (length (chargers_of (charger_list chip @ [c]) (bp_id p)))" if p: "p \<in> set ?ps" for p
    proof -
      obtain q where q: "q \<in> set (battery_list chip)" "p = (if bp_id q = b then q\<lparr>info := addr\<rparr> else q)"
        using p by auto
      then show ?thesis using assms(1) cons unfolding half_registered_def by (cases "bp_id q = b") auto
    qed
    have "distinct (map ch_id (charger_list chip @ [c]))"
      using assms(1,4) ok(2) by (simp add: half_registered_def)
    moreover have "\<forall>x\<in>set (charger_list chip @ [c]). charger_ok x \<and> battery x \<in> bp_id ` set (battery_list chip)"
      using assms(1,3) ok(1,3) by (simp add: half_registered_def)
    moreover have lists: "charger_list ?chip = charger_list chip @ [c]" "battery_list ?chip = ?ps" by simp_all
    moreover have "distinct (map bp_id ?ps)" using assms(1) unfolding ids half_registered_def by blast
    ultimately show ?thesis
      using packs unfolding chip_ok_def links_ok_def lists idset chs by blast
  qed
  ultimately show ?thesis by blast
qed

lemma find_shared_ok:
  assumes "\<forall>c\<in>set cs. battery c \<in> bp_id ` set (battery_list chip)"
    "\<forall>b. b0 = Some b \<longrightarrow> b \<in> bp_id ` set (battery_list chip)"
  shows "\<exists>r. find_shared chip d sn cs b0 = Inr r \<and>
    (\<forall>b. r = Some (Some b) \<longrightarrow> b \<in> bp_id ` set (battery_list chip))"
  using assms
proof (induction cs arbitrary: b0)
  case Nil
  then show ?case by simp
next
  case (Cons c cs)
  obtain p where p: "find_pack chip (battery c) = Inr p"
    using find_pack_ok[of "battery c" chip] Cons.prems(1) by auto
  show ?case
    using Cons.IH[of b0] Cons.IH[of "if bp_sn p = sn then Some (battery c) else None"] Cons.prems p
    by (cases b0) auto
qed

lemma half_registered_shared:
  assumes "chip_ok chip" "b \<in> bp_id ` set (battery_list chip)"
  shows "\<exists>chip'. set_pack chip b (\<lambda>p. p\<lparr>reference := reference p + 1\<rparr>) = Inr chip' \<and>
    half_registered b chip' \<and> charger_list chip' = charger_list chip \<and>
    b \<in> bp_id ` set (battery_list chip')"
proof -
  let ?ps = "map (\<lambda>p. if bp_id p = b then p\<lparr>reference := reference p + 1\<rparr> else p) (battery_list chip)"
  have ids: "map bp_id ?ps = map bp_id (battery_list chip)" by simp
  then have idset: "bp_id ` set ?ps = bp_id ` set (battery_list chip)" by (metis set_map)
  have packs: "info p \<in> ch_id ` set (charger_list chip) \<and>
      (\<forall>q. paired_batt p = Some q \<longrightarrow> q \<in> bp_id ` set (battery_list chip)) \<and> pending p = 0 \<and> reference p > 0 \<and>
      reference p = int (length (chargers_of (charger_list chip) (bp_id p))) + of_bool (bp_id p = b)"
    if p: "p \<in> set ?ps" for p
  proof -
    obtain q where "q \<in> set (battery_list chip)"
        "p = (if bp_id q = b then q\<lparr>reference := reference q + 1\<rparr> else q)" using p by auto
    then show ?thesis using assms(1) unfolding chip_ok_def links_ok_def by (cases "bp_id q = b") auto
  qed
  have lists: "charger_list (chip\<lparr>battery_list := ?ps\<rparr>) = charger_list chip"
    "battery_list (chip\<lparr>battery_list := ?ps\<rparr>) = ?ps" by simp_all
  have "distinct (map bp_id ?ps)" using assms(1) unfolding ids chip_ok_def links_ok_def by blast
  then have "half_registered b (chip\<lparr>battery_list := ?ps\<rparr>)"
    using packs assms(1) unfolding half_registered_def chip_ok_def links_ok_def lists idset by blast
  then show ?thesis using assms(2) idset by (simp add: set_pack_ok[OF assms(2)] del: set_map)
qed

lemma paired_fold:
  "fold (\<lambda>batt b. if P batt (b :: mmi_battery_pack) then b\<lparr>paired_batt := Some (bp_id batt)\<rparr> else b) ps p =
     p\<lparr>paired_batt := paired_batt (fold (\<lambda>batt b. if P batt b then b\<lparr>paired_batt := Some (bp_id batt)\<rparr> else b) ps p)\<rparr>"
proof (induction ps arbitrary: p)
  case Nil
  then show ?case by (cases p) simp
next
  case (Cons q ps)
  show ?case
    using Cons.IH[of p] Cons.IH[of "p\<lparr>paired_batt := Some (bp_id q)\<rparr>"]
    by (cases "P q p") (simp_all only: fold_simps if_True if_False; simp)+
qed

lemma paired_fold_range:
  assumes "\<forall>q. paired_batt p = Some q \<longrightarrow> q \<in> A" "bp_id ` set ps \<subseteq> A"
    "paired_batt (fold (\<lambda>batt b. if P batt b then b\<lparr>paired_batt := Some (bp_id batt)\<rparr> else b) ps p) = Some q"
  shows "q \<in> A"
  using assms
proof (induction ps arbitrary: p)
  case Nil
  then show ?case by simp
next
  case (Cons r ps)
  have "q \<in> A" if "paired_batt (fold (\<lambda>batt b. if P batt b then b\<lparr>paired_batt := Some (bp_id batt)\<rparr> else b) ps p') = Some q"
      "\<forall>q. paired_batt p' = Some q \<longrightarrow> q \<in> A" for p'
    using Cons.IH[of p'] that Cons.prems(2) by simp
  then show ?case using Cons.prems by (cases "P r p") auto
qed

text \<open>Pairing a new pack: only \<open>paired_batt\<close> changes, and it names packs of the chip or the new one.\<close>

lemma update_paired_ok:
  assumes "paired_batt np = None" "mmi_update_paired_battery chip np = (chip', p)"
    "\<forall>x\<in>set (battery_list chip). \<forall>q. paired_batt x = Some q \<longrightarrow> q \<in> bp_id ` set (battery_list chip)"
  shows "\<exists>f pp. chip' = chip\<lparr>battery_list := map (\<lambda>x. x\<lparr>paired_batt := f x\<rparr>) (battery_list chip)\<rparr> \<and>
    p = np\<lparr>paired_batt := pp\<rparr> \<and>
    (\<forall>q. pp = Some q \<longrightarrow> q \<in> bp_id ` set (battery_list chip)) \<and>
    (\<forall>x\<in>set (battery_list chip). \<forall>q. f x = Some q \<longrightarrow> q \<in> insert (bp_id np) (bp_id ` set (battery_list chip)))"
proof (cases "paired_id np = 0")
  case True
  have "map (\<lambda>x. x\<lparr>paired_batt := paired_batt x\<rparr>) (battery_list chip) = battery_list chip"
    by (rule map_idI) (rename_tac x, case_tac x, simp)
  then show ?thesis using assms True
    by (intro exI[of _ paired_batt] exI[of _ None]) (auto simp: mmi_update_paired_battery_def)
next
  case False
  let ?Q = "\<lambda>x. signed_drop_bit 16 (paired_id np) = and (paired_id x) 0xFFFF"
  let ?f = "\<lambda>x. if ?Q x then Some (bp_id np) else paired_batt x"
  let ?P = "\<lambda>batt b. signed_drop_bit 16 (paired_id batt) = and (paired_id b) 0xFFFF"
  have "(\<lambda>x. if ?Q x then x\<lparr>paired_batt := Some (bp_id np)\<rparr> else x) = (\<lambda>x. x\<lparr>paired_batt := ?f x\<rparr>)"
    by (rule ext) (rename_tac x, case_tac x, simp)
  then have "chip' = chip\<lparr>battery_list := map (\<lambda>x. x\<lparr>paired_batt := ?f x\<rparr>) (battery_list chip)\<rparr>"
    using assms(2) False by (auto simp: mmi_update_paired_battery_def)
  moreover have p: "p = fold (\<lambda>batt b. if ?P batt b then b\<lparr>paired_batt := Some (bp_id batt)\<rparr> else b) (battery_list chip) np"
    using assms(2) False by (auto simp: mmi_update_paired_battery_def)
  then have "p = np\<lparr>paired_batt := paired_batt p\<rparr>" using paired_fold[of ?P "battery_list chip" np] by simp
  moreover have "\<forall>q. paired_batt p = Some q \<longrightarrow> q \<in> bp_id ` set (battery_list chip)"
    using paired_fold_range[of np "bp_id ` set (battery_list chip)" "battery_list chip" ?P] assms(1) p by auto
  moreover have "\<forall>x\<in>set (battery_list chip). \<forall>q. ?f x = Some q \<longrightarrow> q \<in> insert (bp_id np) (bp_id ` set (battery_list chip))"
    using assms(3) by auto
  ultimately show ?thesis by (intro exI[of _ ?f] exI[of _ "paired_batt p"] conjI)
qed

lemma half_registered_new:
  assumes "chip_ok chip" "b \<notin> bp_id ` set (battery_list chip)"
    "mmi_update_paired_battery chip (new_pack b sn node) = (chip', p)"
  shows "half_registered b (chip'\<lparr>battery_list := battery_list chip' @ [p]\<rparr>)"
    "charger_list chip' = charger_list chip" "bp_id p = b"
proof -
  let ?np = "new_pack b sn node"
  have np: "paired_batt ?np = None" "bp_id ?np = b" "pending ?np = 0" "reference ?np = 1"
    by (simp_all add: new_pack_def zero_battery_pack_def)
  obtain f pp where fp: "chip' = chip\<lparr>battery_list := map (\<lambda>x. x\<lparr>paired_batt := f x\<rparr>) (battery_list chip)\<rparr>"
    "p = ?np\<lparr>paired_batt := pp\<rparr>" "\<forall>q. pp = Some q \<longrightarrow> q \<in> bp_id ` set (battery_list chip)"
    "\<forall>x\<in>set (battery_list chip). \<forall>q. f x = Some q \<longrightarrow> q \<in> insert (bp_id ?np) (bp_id ` set (battery_list chip))"
    using update_paired_ok[OF np(1) assms(3)] assms(1) unfolding chip_ok_def links_ok_def by blast
  show cl: "charger_list chip' = charger_list chip" and pid: "bp_id p = b" using fp np by simp_all
  let ?c = "chip'\<lparr>battery_list := battery_list chip' @ [p]\<rparr>"
  let ?ps = "map (\<lambda>x. x\<lparr>paired_batt := f x\<rparr>) (battery_list chip) @ [p]"
  have lists: "charger_list ?c = charger_list chip" "battery_list ?c = ?ps" using fp(1) by simp_all
  have ids: "map bp_id ?ps = map bp_id (battery_list chip) @ [b]" using pid by simp
  then have idset: "bp_id ` set ?ps = insert b (bp_id ` set (battery_list chip))"
    by (metis list.set_map set_append list.set(1,2) Un_insert_right sup_bot_right)
  have none: "chargers_of (charger_list chip) b = []"
    using assms(1,2) by (auto simp: chargers_of_def filter_empty_conv chip_ok_def links_ok_def)
  have packs: "(bp_id x = b \<or> info x \<in> ch_id ` set (charger_list chip)) \<and>
      (\<forall>q. paired_batt x = Some q \<longrightarrow> q \<in> insert b (bp_id ` set (battery_list chip))) \<and> pending x = 0 \<and>
      reference x > 0 \<and> reference x = int (length (chargers_of (charger_list chip) (bp_id x))) + of_bool (bp_id x = b)"
    if x: "x \<in> set ?ps" for x
  proof (cases "x = p")
    case True
    then show ?thesis using fp(2,3) np none by auto
  next
    case False
    then obtain y where y: "y \<in> set (battery_list chip)" "x = y\<lparr>paired_batt := f y\<rparr>" using x by auto
    then have "bp_id y \<noteq> b" using assms(2) by auto
    then show ?thesis using y fp(4) np(2) assms(1) unfolding chip_ok_def links_ok_def by auto
  qed
  have "distinct (map bp_id ?ps)" unfolding ids using assms(1,2) by (simp add: chip_ok_def links_ok_def)
  then show "half_registered b ?c"
    using packs assms(1) unfolding half_registered_def chip_ok_def links_ok_def lists idset by blast
qed

lemma register_driver_ok:
  assumes "chip_ok chip" "reg_ok r"
    "\<forall>a. charger_addr r = Some a \<longrightarrow> a \<notin> ch_id ` set (charger_list chip)"
    "\<forall>b. pack_addr r = Some b \<longrightarrow> b \<notin> bp_id ` set (battery_list chip)"
  shows "\<exists>rc chip'. mmi_register_charger_driver env r (Some chip) drvo = Inr (rc, Some chip') \<and> chip_ok chip'"
proof (cases "\<exists>drv. drvo = Some drv \<and> has_mandatory drv")
  case False
  then show ?thesis using assms(1) by (cases drvo) (auto simp: mmi_register_charger_driver_def)
next
  case True
  then obtain drv where drv: "drvo = Some drv" "has_mandatory drv" by blast
  let ?bi = "get_batt_info env zero_battery_info" and ?ci = "get_chg_info env zero_charger_info"
  have batt: "\<forall>c\<in>set (charger_list chip). battery c \<in> bp_id ` set (battery_list chip)"
    using assms(1) by (simp add: chip_ok_def links_ok_def)
  obtain found where found: "find_shared chip (drv_id drv) (batt_sn ?bi) (charger_list chip) None = Inr found"
      "\<forall>b. found = Some (Some b) \<longrightarrow> b \<in> bp_id ` set (battery_list chip)"
    using find_shared_ok[OF batt, of None "drv_id drv" "batt_sn ?bi"] by auto
  obtain node where node: "reg_node r = Some node" using assms(2) by (auto simp: reg_ok_def)
  note simps = mmi_register_charger_driver_def drv found(1) node Let_def
  show ?thesis
  proof (cases "found = None \<or> charger_addr r = None \<or> (found = Some None \<and> pack_addr r = None)")
    case True
    then show ?thesis using assms(1)
      by (cases found; cases "charger_addr r"; cases "pack_addr r") (auto simp: simps)
  next
    case False
    then obtain shared addr where sh: "found = Some shared" "charger_addr r = Some addr"
        "shared = None \<longrightarrow> pack_addr r \<noteq> None" by auto
    then have addr: "addr \<notin> ch_id ` set (charger_list chip)" using assms(3) by simp
    show ?thesis
    proof (cases shared)
      case (Some b)
      then have b: "b \<in> bp_id ` set (battery_list chip)" using found(2) sh(1) by simp
      obtain c1 where c1: "set_pack chip b (\<lambda>p. p\<lparr>reference := reference p + 1\<rparr>) = Inr c1"
          "half_registered b c1" "charger_list c1 = charger_list chip" "b \<in> bp_id ` set (battery_list c1)"
        using half_registered_shared[OF assms(1) b] by blast
      then obtain c2 where "attach_charger r drv ?bi ?ci addr b c1 = Inr (0, c2)" "chip_ok c2"
        using attach_charger_ok[OF c1(2) assms(2) c1(4)] addr by metis
      then show ?thesis using sh Some c1(1) by (simp add: simps)
    next
      case None
      then obtain b where b: "pack_addr r = Some b" "b \<notin> bp_id ` set (battery_list chip)"
        using sh(3) assms(4) by auto
      obtain c1 p where c1: "mmi_update_paired_battery chip (new_pack b (batt_sn ?bi) node) = (c1, p)" by fastforce
      note h = half_registered_new[OF assms(1) b(2) c1]
      then obtain c2 where "attach_charger r drv ?bi ?ci addr b (c1\<lparr>battery_list := battery_list c1 @ [p]\<rparr>) = Inr (0, c2)"
          "chip_ok c2"
        using attach_charger_ok[OF h(1) assms(2), of addr drv ?bi ?ci] addr by auto
      then show ?thesis using sh None b(1) c1 by (simp add: simps)
    qed
  qed
qed

section \<open>Reachable states\<close>

text \<open>
  The steps of a running system that change the chip, in any order: heartbeats, drivers
  that register, votes, writes from user space, suspend and resume.
\<close>

inductive chip_step :: "mmi_charger_chip \<Rightarrow> mmi_charger_chip \<Rightarrow> bool" where
  heartbeat: "mmi_charger_heartbeat_work e chip g = Inr (chip', g', acts) \<Longrightarrow> chip_step chip chip'"
| register: "reg_ok r \<Longrightarrow> (\<forall>a. charger_addr r = Some a \<longrightarrow> a \<notin> ch_id ` set (charger_list chip)) \<Longrightarrow>
    (\<forall>b. pack_addr r = Some b \<longrightarrow> b \<notin> bp_id ` set (battery_list chip)) \<Longrightarrow>
    mmi_register_charger_driver env r (Some chip) drvo = Inr (rc, Some chip') \<Longrightarrow> chip_step chip chip'"
| vote_disable: "mmi_vote_charging_disable (Some chip) v en = (rc, Some chip') \<Longrightarrow> chip_step chip chip'"
| vote_suspend: "mmi_vote_charger_suspend (Some chip) v en = (rc, Some chip') \<Longrightarrow> chip_step chip chip'"
| store: "store \<in> {dcp_pmax_store, hvdcp_pmax_store, pd_pmax_store, wls_pmax_store, factory_image_mode_store,
      force_demo_mode_store, force_max_chrg_temp_store, force_charger_suspend_store,
      force_charging_enable_store, force_charging_disable_store} \<Longrightarrow>
    store (Some chip) parsed count = (n, Some chip', acts) \<Longrightarrow> chip_step chip chip'"
| set_prop: "mmi_set_prop chip prop val = (rc, chip') \<Longrightarrow> chip_step chip chip'"
| suspend: "chip_step chip (mmi_charger_suspend chip)"
| resume: "chip_step chip (mmi_charger_resume chip)"

inductive chip_reach :: "mmi_charger_chip \<Rightarrow> bool" where
  probe: "chip_reach (mmi_battery_supply_init pf (probed_chip pe))"
| step: "chip_reach chip \<Longrightarrow> chip_step chip chip' \<Longrightarrow> chip_reach chip'"

lemmas store_defs = dcp_pmax_store_def hvdcp_pmax_store_def pd_pmax_store_def wls_pmax_store_def
  factory_image_mode_store_def force_demo_mode_store_def force_max_chrg_temp_store_def
  force_charger_suspend_store_def force_charging_enable_store_def force_charging_disable_store_def
  store_attr_def

lemma probed_chip_core: "core (mmi_battery_supply_init pf (probed_chip pe)) = ([], [], 0)"
  by (simp add: core_def probed_chip_def mmi_parse_dt_def chosen_power_def Let_def zero_defs
      split: option.splits)

lemma store_core:
  assumes "store \<in> {dcp_pmax_store, hvdcp_pmax_store, pd_pmax_store, wls_pmax_store, factory_image_mode_store,
      force_demo_mode_store, force_max_chrg_temp_store, force_charger_suspend_store,
      force_charging_enable_store, force_charging_disable_store}"
    "store (Some chip) parsed count = (n, Some chip', acts)"
  shows "core chip' = core chip"
  using assms
  by (auto simp: store_defs core_def mmi_vote_charging_disable_def split: option.splits prod.splits if_splits)

lemma chip_step_ok:
  assumes "chip_step chip chip'" "chip_ok chip"
  shows "chip_ok chip'"
  using assms
proof (induction rule: chip_step.induct)
  case (heartbeat e chip g chip' g' acts)
  then show ?case using heartbeat_work_ok[of chip e g] by auto
next
  case (register r chip env drvo rc chip')
  then show ?case using register_driver_ok[of chip r env drvo] by auto
next
  case (store store chip parsed count n chip' acts)
  then show ?case using store_core chip_ok_core by blast
qed (auto simp: mmi_vote_charging_disable_def mmi_vote_charger_suspend_def mmi_set_prop_def
    mmi_charger_suspend_def mmi_charger_resume_def chip_ok_def
    split: option.splits prod.splits power_supply_property.splits)

lemma chip_reach_ok: "chip_reach chip \<Longrightarrow> chip_ok chip"
proof (induction rule: chip_reach.induct)
  case (probe pf pe)
  then show ?case using probed_chip_core[of pf pe] by (simp add: chip_ok_def links_ok_def core_def)
next
  case (step chip chip')
  then show ?case using chip_step_ok by blast
qed

text \<open>
  C5. Provided every driver registers with a device tree of one to ten temperature zones (or
  none) and a readable table of FFC zones (or none), as \<open>reg_ok\<close> says, and no driver is
  removed: after the probe, no sequence of heartbeats, registrations, votes, sysfs writes,
  suspends and resumes brings the chip to a state in which the heartbeat faults. It never reads
  outside a zone table, never follows a dangling pointer between packs and chargers, and leaves
  the chip well-formed (every pack counts its chargers and has no update pending). The driver
  itself checks neither table; \<open>unregister_dangles\<close> below shows what a removal can do.
\<close>

theorem heartbeat_never_faults:
  assumes "chip_reach chip"
  shows "chip_ok chip \<and>
    (\<exists>chip' g' acts. mmi_charger_heartbeat_work e chip g = Inr (chip', g', acts) \<and> chip_ok chip')"
  using chip_reach_ok[OF assms] heartbeat_work_ok by blast

text \<open>A probe with an empty device tree.\<close>

definition empty_node :: dt_node where
  "empty_node = \<lparr>dt_u32 = Map.empty, dt_bool = (\<lambda>_. False), dt_string = Map.empty, dt_array = Map.empty\<rparr>"

definition plain_probe :: probe_env where
  "plain_probe = \<lparr>probe_node = empty_node, chosen_node = None, bootinfo_version = False, bootinfo_mode = False,
     chip_alloc = True, psy_reg = 0, psy_present = True\<rparr>"

definition plain_statics :: hb_statics where
  "plain_statics = \<lparr>start_ts = (0, 0), shutdown_triggered = False, factory_kill_disable = 0, suspend_wakeups = 0\<rparr>"

text \<open>A driver that registers with a table of two zones, and no FFC zones.\<close>

definition two_zones_node :: dt_node where
  "two_zones_node = empty_node\<lparr>dt_array := [''mmi,mmi-temp-zones'' \<mapsto>
     \<lparr>byte_len = 32, read_cells = Inr [10, 4200, 2185, 880, 45, 4350, 3000, 2000]\<rparr>]\<rparr>"

definition two_zones_reg :: reg_env where
  "two_zones_reg = \<lparr>reg_node = Some two_zones_node, charger_addr = Some 1, pack_addr = Some 7,
     zone_alloc = True, ffc_alloc = True\<rparr>"

text \<open>The chip after the probe and after this registration; the registered charger has the two zones.\<close>

lemma heartbeat_never_faults_witness:
  fixes chip0 drv
  defines "chip0 \<equiv> mmi_battery_supply_init True (probed_chip plain_probe)"
    and "drv \<equiv> zero_charger_driver\<lparr>drv_id := 1, has_mandatory := True\<rparr>"
  shows "\<exists>chip1 c zs. mmi_register_charger_driver (sample_driver_env PS_STATUS_CHARGING 15000) two_zones_reg
      (Some chip0) (Some drv) = Inr (0, Some chip1) \<and>
    charger_list chip1 = [c] \<and> temp_zones (profile c) = Some zs \<and> length zs = 2 \<and> chip_ok chip1 \<and>
    (\<exists>chip' g' acts. mmi_charger_heartbeat_work sample_hb_env chip1 plain_statics = Inr (chip', g', acts) \<and> chip_ok chip')"
proof -
  have core: "charger_list chip0 = []" "battery_list chip0 = []"
    using probed_chip_core[of True plain_probe] by (simp_all add: chip0_def core_def)
  have ok: "reg_ok two_zones_reg"
    by (simp add: reg_ok_def two_zones_reg_def two_zones_node_def empty_node_def)
  obtain chip1 c zs where r: "mmi_register_charger_driver (sample_driver_env PS_STATUS_CHARGING 15000) two_zones_reg
      (Some chip0) (Some drv) = Inr (0, Some chip1)" "charger_list chip1 = [c]" "temp_zones (profile c) = Some zs" "length zs = 2"
  proof -
    have "case mmi_register_charger_driver (sample_driver_env PS_STATUS_CHARGING 15000) two_zones_reg (Some chip0) (Some drv)
      of Inr (rc, Some chip1) \<Rightarrow> rc = 0 \<and> (case charger_list chip1 of
          [c] \<Rightarrow> (case temp_zones (profile c) of Some zs \<Rightarrow> length zs = 2 | None \<Rightarrow> False) | _ \<Rightarrow> False)
      | _ \<Rightarrow> False"
      unfolding chip0_def drv_def by code_simp
    then show ?thesis by (auto intro!: that split: sum.splits prod.splits option.splits list.splits)
  qed
  have "chip_reach chip0" unfolding chip0_def by (rule chip_reach.probe)
  moreover have "chip_step chip0 chip1" by (rule chip_step.register[OF ok _ _ r(1)]) (simp_all add: core)
  ultimately have "chip_reach chip1" by (rule chip_reach.step)
  from heartbeat_never_faults[OF this, of sample_hb_env plain_statics] show ?thesis using r by blast
qed

section \<open>Removal\<close>

lemma find_pack_unique:
  assumes "distinct (map bp_id (battery_list chip))" "p \<in> set (battery_list chip)"
  shows "find_pack chip (bp_id p) = Inr p"
proof -
  obtain x where x: "x \<in> set (battery_list chip)" "find_pack chip (bp_id p) = Inr x" "bp_id x = bp_id p"
    using find_pack_ok[of "bp_id p" chip] assms(2) by auto
  moreover have "x = p" using x assms unfolding distinct_map inj_on_def by blast
  ultimately show ?thesis by simp
qed

text \<open>
  Removing a driver can leave a dangling pointer. When the pack \<open>p\<close> is paired with the
  pack \<open>q\<close> and the only charger of \<open>q\<close> is unregistered, the pack \<open>q\<close> is freed while \<open>p\<close>
  still points to it; the next configuration of a charger of \<open>p\<close> whose driver wants to
  know its paired battery reads freed memory.
\<close>

theorem unregister_dangles:
  assumes ok: "chip_ok chip"
    and p: "p \<in> set (battery_list chip)" "paired_batt p = Some (bp_id q)" "bp_id p \<noteq> bp_id q"
    and q: "q \<in> set (battery_list chip)" "reference q = 1"
    and drv: "List.find (\<lambda>c. drv_id (driver c) = drv_id d) (charger_list chip) = Some cq" "battery cq = bp_id q"
    and cp: "battery cp = bp_id p" "has_notify_paired (driver cp)"
  shows "\<exists>chip'. mmi_unregister_charger_driver (Some chip) (Some d) = Inr (0, Some chip') \<and>
    p \<in> set (battery_list chip') \<and> mmi_configure_charger chip' cp = Inl UseAfterFree"
proof -
  have dist: "distinct (map bp_id (battery_list chip))" using ok by (simp add: chip_ok_def links_ok_def)
  let ?dec = "\<lambda>x. if bp_id x = bp_id q then x\<lparr>reference := reference x - 1\<rparr> else x"
  let ?c1 = "chip\<lparr>battery_list := map ?dec (battery_list chip)\<rparr>"
  have sp: "set_pack chip (battery cq) (\<lambda>p. p\<lparr>reference := reference p - 1\<rparr>) = Inr ?c1"
    using set_pack_ok[of "bp_id q" chip] q(1) drv(2) by simp
  have ids: "map bp_id (battery_list ?c1) = map bp_id (battery_list chip)" by simp
  then have dist1: "distinct (map bp_id (battery_list ?c1))" using dist by (simp only:)
  have "?dec q \<in> set (battery_list ?c1)" using q(1) by simp
  then have fq: "find_pack ?c1 (battery cq) = Inr (?dec q)"
    using find_pack_unique[OF dist1, of "?dec q"] drv(2) by simp
  define chip' where "chip' = ?c1\<lparr>battery_list := filter (\<lambda>x. bp_id x \<noteq> bp_id q) (battery_list ?c1),
    charger_list := filter (\<lambda>x. ch_id x \<noteq> ch_id cq) (charger_list chip)\<rparr>"
  have un: "mmi_unregister_charger_driver (Some chip) (Some d) = Inr (0, Some chip')"
    using drv sp fq q(2) by (simp add: mmi_unregister_charger_driver_def chip'_def)
  have bl: "battery_list chip' = filter (\<lambda>x. bp_id x \<noteq> bp_id q) (map ?dec (battery_list chip))"
    by (simp add: chip'_def)
  have pin: "p \<in> set (battery_list chip')" using p unfolding bl by (auto simp: image_iff intro!: bexI[of _ p])
  have "distinct (map bp_id (battery_list chip'))" unfolding bl
    using dist1 by (simp add: distinct_map_filter)
  from find_pack_unique[OF this pin] have "find_pack chip' (bp_id p) = Inr p" .
  moreover have "List.find (\<lambda>x. bp_id x = bp_id q) (battery_list chip') = None"
    unfolding find_None_iff bl by simp
  then have "find_pack chip' (bp_id q) = Inl UseAfterFree" by (simp add: find_pack_def)
  ultimately have "mmi_notify_paired_battery chip' x = Inl UseAfterFree"
    if "battery x = bp_id p" "has_notify_paired (driver x)" for x
    using that p(2) by (simp add: mmi_notify_paired_battery_def)
  then have "mmi_configure_charger chip' cp = Inl UseAfterFree"
    using cp by (simp add: mmi_configure_charger_def Let_def)
  then show ?thesis using un pin by blast
qed

definition pair_pack :: "nat \<Rightarrow> nat \<Rightarrow> mmi_battery_pack" where
  "pair_pack b other = zero_battery_pack\<lparr>bp_id := b, reference := 1, info := b, paired_batt := Some other\<rparr>"

definition pair_charger :: "nat \<Rightarrow> mmi_charger" where
  "pair_charger n = zero_charger\<lparr>ch_id := n, battery := n,
     driver := zero_charger_driver\<lparr>drv_id := n, has_mandatory := True, has_notify_paired := True\<rparr>\<rparr>"

definition pair_chip :: mmi_charger_chip where
  "pair_chip = zero_charger_chip\<lparr>charger_list := [pair_charger 1, pair_charger 2],
     battery_list := [pair_pack 1 2, pair_pack 2 1]\<rparr>"

lemma unregister_dangles_witness:
  "\<exists>chip'. mmi_unregister_charger_driver (Some pair_chip) (Some (driver (pair_charger 2))) = Inr (0, Some chip') \<and>
    mmi_configure_charger chip' (pair_charger 1) = Inl UseAfterFree"
proof -
  have ok: "chip_ok pair_chip"
    by (simp add: chip_ok_def links_ok_def pair_chip_def pair_charger_def pair_pack_def chargers_of_def
        charger_ok_def zero_defs)
  show ?thesis
    using unregister_dangles[OF ok, of "pair_pack 1 2" "pair_pack 2 1" "driver (pair_charger 2)"
        "pair_charger 2" "pair_charger 1"]
    by (auto simp: pair_chip_def pair_pack_def pair_charger_def)
qed

section \<open>Powering off\<close>

text \<open>
  C39. The device is powered off at most once. A heartbeat that runs requests the power
  off exactly when it sets the static flag \<open>shutdown_triggered\<close>, once, and never after the
  flag is set; the flag is never cleared. In factory mode, when the charger has been removed
  for at least the debounce time after the kill was armed and the kill is not disabled, the
  request is made in that heartbeat.
\<close>

theorem poweroff_once:
  assumes "chip_ok chip" "mmi_charger_heartbeat_work e chip g = Inr (chip', g', acts)"
  shows "count_list acts PowerOff = of_bool (shutdown_triggered g' \<and> \<not> shutdown_triggered g) \<and>
    (shutdown_triggered g \<longrightarrow> shutdown_triggered g') \<and>
    (and (suspended chip) IS_SUSPENDED = 0 \<and> factory_mode chip' \<and> max_charger_rate chip' = RATE_NONE \<and>
     factory_kill_armed chip' \<and> factory_kill_disable g = 0 \<and>
     factory_kill_debounce_ms chip' \<le> elapsed_ms (now_ts e) (start_ts g) \<longrightarrow> shutdown_triggered g')"
proof (cases "and (suspended chip) IS_SUSPENDED = 0")
  case False
  then show ?thesis using assms(2) by (auto simp: mmi_charger_heartbeat_work_def)
next
  case True
  obtain chip1 calls evs where h: "heartbeat_locked e chip = Inr (chip1, calls, evs)"
    by (rule heartbeat_locked_eq[OF assms(1), of e]) blast
  obtain c2 g2 o1 where f: "factory_kill e chip1 g = (c2, g2, o1)" by (cases "factory_kill e chip1 g")
  obtain g3 o2 where v: "empty_vbat_kill c2 g2 = (g3, o2)" by fastforce
  have no: "count_list (map DriverCall calls) PowerOff = 0" "count_list (map ChipEvent evs) PowerOff = 0"
    by (auto simp: count_list_0_iff)
  have res: "g' = g3" "chip' = c2\<lparr>suspended := 0\<rparr>" "count_list acts PowerOff = count_list (o1 @ o2) PowerOff"
    using assms(2) True h f v no by (auto simp: mmi_charger_heartbeat_work_def Let_def)
  have "count_list (o1 @ o2) PowerOff = of_bool (shutdown_triggered g3 \<and> \<not> shutdown_triggered g) \<and>
      (shutdown_triggered g \<longrightarrow> shutdown_triggered g3)"
    using f v by (auto simp: factory_kill_def empty_vbat_kill_def split: if_splits)
  moreover have "shutdown_triggered g3" if "factory_mode c2" "max_charger_rate c2 = RATE_NONE"
      "factory_kill_armed c2" "factory_kill_disable g = 0"
      "factory_kill_debounce_ms c2 \<le> elapsed_ms (now_ts e) (start_ts g)"
    using f v that by (auto simp: factory_kill_def empty_vbat_kill_def split: if_splits)
  ultimately show ?thesis using res by simp
qed

lemma poweroff_once_witness:
  "\<exists>chip' g' acts. mmi_charger_heartbeat_work sample_hb_env sample_chip plain_statics = Inr (chip', g', acts) \<and>
    count_list acts PowerOff = of_bool (shutdown_triggered g')"
proof -
  obtain chip' g' acts where h: "mmi_charger_heartbeat_work sample_hb_env sample_chip plain_statics = Inr (chip', g', acts)"
    using heartbeat_work_ok[OF sample_chip_ok] by blast
  show ?thesis using poweroff_once[OF sample_chip_ok h] h by (simp add: plain_statics_def)
qed

end
