(* ===== verification/Pd_States.thy ===== *)
theory Pd_States
  imports Main
begin

text \<open>
  The states of the policy engine (\<open>enum pd_pe_state\<close> of \<open>inc/pd_policy_engine.h\<close>) and
  the timers (\<open>inc/tcpci_timer.h\<close>), under \<open>src/drivers/usb/typec/mmi_tcpc\<close>. The code keeps
  both in bytes and compares their numbers, so they are natural numbers here, with the
  values that the enumerations have in the configuration of \<open>inc/tcpci_config.h\<close>.
\<close>

type_synonym pe_state = nat
type_synonym tcpc_timer = nat

section \<open>States of the policy engine\<close>

abbreviation (input) PE_SRC_STARTUP :: nat where "PE_SRC_STARTUP \<equiv> 0"
abbreviation (input) PE_SRC_DISCOVERY :: nat where "PE_SRC_DISCOVERY \<equiv> 1"
abbreviation (input) PE_SRC_SEND_CAPABILITIES :: nat where "PE_SRC_SEND_CAPABILITIES \<equiv> 2"
abbreviation (input) PE_SRC_NEGOTIATE_CAPABILITIES :: nat where "PE_SRC_NEGOTIATE_CAPABILITIES \<equiv> 3"
abbreviation (input) PE_SRC_TRANSITION_SUPPLY :: nat where "PE_SRC_TRANSITION_SUPPLY \<equiv> 4"
abbreviation (input) PE_SRC_TRANSITION_SUPPLY2 :: nat where "PE_SRC_TRANSITION_SUPPLY2 \<equiv> 5"
abbreviation (input) PE_SRC_READY :: nat where "PE_SRC_READY \<equiv> 6"
abbreviation (input) PE_SRC_DISABLED :: nat where "PE_SRC_DISABLED \<equiv> 7"
abbreviation (input) PE_SRC_CAPABILITY_RESPONSE :: nat where "PE_SRC_CAPABILITY_RESPONSE \<equiv> 8"
abbreviation (input) PE_SRC_HARD_RESET :: nat where "PE_SRC_HARD_RESET \<equiv> 9"
abbreviation (input) PE_SRC_HARD_RESET_RECEIVED :: nat where "PE_SRC_HARD_RESET_RECEIVED \<equiv> 10"
abbreviation (input) PE_SRC_TRANSITION_TO_DEFAULT :: nat where "PE_SRC_TRANSITION_TO_DEFAULT \<equiv> 11"
abbreviation (input) PE_SRC_GET_SINK_CAP :: nat where "PE_SRC_GET_SINK_CAP \<equiv> 12"
abbreviation (input) PE_SRC_WAIT_NEW_CAPABILITIES :: nat where "PE_SRC_WAIT_NEW_CAPABILITIES \<equiv> 13"
abbreviation (input) PE_SRC_SEND_SOFT_RESET :: nat where "PE_SRC_SEND_SOFT_RESET \<equiv> 14"
abbreviation (input) PE_SRC_SOFT_RESET :: nat where "PE_SRC_SOFT_RESET \<equiv> 15"
abbreviation (input) PE_SRC_CBL_SEND_SOFT_RESET :: nat where "PE_SRC_CBL_SEND_SOFT_RESET \<equiv> 16"
abbreviation (input) PE_SRC_VDM_IDENTITY_REQUEST :: nat where "PE_SRC_VDM_IDENTITY_REQUEST \<equiv> 17"
abbreviation (input) PE_SRC_VDM_IDENTITY_ACKED :: nat where "PE_SRC_VDM_IDENTITY_ACKED \<equiv> 18"
abbreviation (input) PE_SRC_VDM_IDENTITY_NAKED :: nat where "PE_SRC_VDM_IDENTITY_NAKED \<equiv> 19"
abbreviation (input) PE_SRC_SEND_NOT_SUPPORTED :: nat where "PE_SRC_SEND_NOT_SUPPORTED \<equiv> 20"
abbreviation (input) PE_SRC_NOT_SUPPORTED_RECEIVED :: nat where "PE_SRC_NOT_SUPPORTED_RECEIVED \<equiv> 21"
abbreviation (input) PE_SRC_CHUNK_RECEIVED :: nat where "PE_SRC_CHUNK_RECEIVED \<equiv> 22"
abbreviation (input) PE_SRC_SEND_SOURCE_ALERT :: nat where "PE_SRC_SEND_SOURCE_ALERT \<equiv> 23"
abbreviation (input) PE_SRC_SINK_ALERT_RECEIVED :: nat where "PE_SRC_SINK_ALERT_RECEIVED \<equiv> 24"
abbreviation (input) PE_SRC_GIVE_SOURCE_CAP_EXT :: nat where "PE_SRC_GIVE_SOURCE_CAP_EXT \<equiv> 25"
abbreviation (input) PE_SRC_GIVE_SOURCE_STATUS :: nat where "PE_SRC_GIVE_SOURCE_STATUS \<equiv> 26"
abbreviation (input) PE_SRC_GET_SINK_STATUS :: nat where "PE_SRC_GET_SINK_STATUS \<equiv> 27"
abbreviation (input) PE_SNK_STARTUP :: nat where "PE_SNK_STARTUP \<equiv> 28"
abbreviation (input) PE_SNK_DISCOVERY :: nat where "PE_SNK_DISCOVERY \<equiv> 29"
abbreviation (input) PE_SNK_WAIT_FOR_CAPABILITIES :: nat where "PE_SNK_WAIT_FOR_CAPABILITIES \<equiv> 30"
abbreviation (input) PE_SNK_EVALUATE_CAPABILITY :: nat where "PE_SNK_EVALUATE_CAPABILITY \<equiv> 31"
abbreviation (input) PE_SNK_SELECT_CAPABILITY :: nat where "PE_SNK_SELECT_CAPABILITY \<equiv> 32"
abbreviation (input) PE_SNK_TRANSITION_SINK :: nat where "PE_SNK_TRANSITION_SINK \<equiv> 33"
abbreviation (input) PE_SNK_READY :: nat where "PE_SNK_READY \<equiv> 34"
abbreviation (input) PE_SNK_HARD_RESET :: nat where "PE_SNK_HARD_RESET \<equiv> 35"
abbreviation (input) PE_SNK_TRANSITION_TO_DEFAULT :: nat where "PE_SNK_TRANSITION_TO_DEFAULT \<equiv> 36"
abbreviation (input) PE_SNK_GIVE_SINK_CAP :: nat where "PE_SNK_GIVE_SINK_CAP \<equiv> 37"
abbreviation (input) PE_SNK_GET_SOURCE_CAP :: nat where "PE_SNK_GET_SOURCE_CAP \<equiv> 38"
abbreviation (input) PE_SNK_SEND_SOFT_RESET :: nat where "PE_SNK_SEND_SOFT_RESET \<equiv> 39"
abbreviation (input) PE_SNK_SOFT_RESET :: nat where "PE_SNK_SOFT_RESET \<equiv> 40"
abbreviation (input) PE_SNK_SEND_NOT_SUPPORTED :: nat where "PE_SNK_SEND_NOT_SUPPORTED \<equiv> 41"
abbreviation (input) PE_SNK_NOT_SUPPORTED_RECEIVED :: nat where "PE_SNK_NOT_SUPPORTED_RECEIVED \<equiv> 42"
abbreviation (input) PE_SNK_CHUNK_RECEIVED :: nat where "PE_SNK_CHUNK_RECEIVED \<equiv> 43"
abbreviation (input) PE_SNK_SOURCE_ALERT_RECEIVED :: nat where "PE_SNK_SOURCE_ALERT_RECEIVED \<equiv> 44"
abbreviation (input) PE_SNK_SEND_SINK_ALERT :: nat where "PE_SNK_SEND_SINK_ALERT \<equiv> 45"
abbreviation (input) PE_SNK_GET_SOURCE_CAP_EXT :: nat where "PE_SNK_GET_SOURCE_CAP_EXT \<equiv> 46"
abbreviation (input) PE_SNK_GET_SOURCE_STATUS :: nat where "PE_SNK_GET_SOURCE_STATUS \<equiv> 47"
abbreviation (input) PE_SNK_GIVE_SINK_STATUS :: nat where "PE_SNK_GIVE_SINK_STATUS \<equiv> 48"
abbreviation (input) PE_SNK_GET_PPS_STATUS :: nat where "PE_SNK_GET_PPS_STATUS \<equiv> 49"
abbreviation (input) PE_DRS_DFP_UFP_EVALUATE_DR_SWAP :: nat where "PE_DRS_DFP_UFP_EVALUATE_DR_SWAP \<equiv> 50"
abbreviation (input) PE_DRS_DFP_UFP_ACCEPT_DR_SWAP :: nat where "PE_DRS_DFP_UFP_ACCEPT_DR_SWAP \<equiv> 51"
abbreviation (input) PE_DRS_DFP_UFP_CHANGE_TO_UFP :: nat where "PE_DRS_DFP_UFP_CHANGE_TO_UFP \<equiv> 52"
abbreviation (input) PE_DRS_DFP_UFP_SEND_DR_SWAP :: nat where "PE_DRS_DFP_UFP_SEND_DR_SWAP \<equiv> 53"
abbreviation (input) PE_DRS_DFP_UFP_REJECT_DR_SWAP :: nat where "PE_DRS_DFP_UFP_REJECT_DR_SWAP \<equiv> 54"
abbreviation (input) PE_DRS_UFP_DFP_EVALUATE_DR_SWAP :: nat where "PE_DRS_UFP_DFP_EVALUATE_DR_SWAP \<equiv> 55"
abbreviation (input) PE_DRS_UFP_DFP_ACCEPT_DR_SWAP :: nat where "PE_DRS_UFP_DFP_ACCEPT_DR_SWAP \<equiv> 56"
abbreviation (input) PE_DRS_UFP_DFP_CHANGE_TO_DFP :: nat where "PE_DRS_UFP_DFP_CHANGE_TO_DFP \<equiv> 57"
abbreviation (input) PE_DRS_UFP_DFP_SEND_DR_SWAP :: nat where "PE_DRS_UFP_DFP_SEND_DR_SWAP \<equiv> 58"
abbreviation (input) PE_DRS_UFP_DFP_REJECT_DR_SWAP :: nat where "PE_DRS_UFP_DFP_REJECT_DR_SWAP \<equiv> 59"
abbreviation (input) PE_PRS_SRC_SNK_EVALUATE_PR_SWAP :: nat where "PE_PRS_SRC_SNK_EVALUATE_PR_SWAP \<equiv> 60"
abbreviation (input) PE_PRS_SRC_SNK_ACCEPT_PR_SWAP :: nat where "PE_PRS_SRC_SNK_ACCEPT_PR_SWAP \<equiv> 61"
abbreviation (input) PE_PRS_SRC_SNK_TRANSITION_TO_OFF :: nat where "PE_PRS_SRC_SNK_TRANSITION_TO_OFF \<equiv> 62"
abbreviation (input) PE_PRS_SRC_SNK_ASSERT_RD :: nat where "PE_PRS_SRC_SNK_ASSERT_RD \<equiv> 63"
abbreviation (input) PE_PRS_SRC_SNK_WAIT_SOURCE_ON :: nat where "PE_PRS_SRC_SNK_WAIT_SOURCE_ON \<equiv> 64"
abbreviation (input) PE_PRS_SRC_SNK_SEND_SWAP :: nat where "PE_PRS_SRC_SNK_SEND_SWAP \<equiv> 65"
abbreviation (input) PE_PRS_SRC_SNK_REJECT_PR_SWAP :: nat where "PE_PRS_SRC_SNK_REJECT_PR_SWAP \<equiv> 66"
abbreviation (input) PE_PRS_SNK_SRC_EVALUATE_PR_SWAP :: nat where "PE_PRS_SNK_SRC_EVALUATE_PR_SWAP \<equiv> 67"
abbreviation (input) PE_PRS_SNK_SRC_ACCEPT_PR_SWAP :: nat where "PE_PRS_SNK_SRC_ACCEPT_PR_SWAP \<equiv> 68"
abbreviation (input) PE_PRS_SNK_SRC_TRANSITION_TO_OFF :: nat where "PE_PRS_SNK_SRC_TRANSITION_TO_OFF \<equiv> 69"
abbreviation (input) PE_PRS_SNK_SRC_ASSERT_RP :: nat where "PE_PRS_SNK_SRC_ASSERT_RP \<equiv> 70"
abbreviation (input) PE_PRS_SNK_SRC_SOURCE_ON :: nat where "PE_PRS_SNK_SRC_SOURCE_ON \<equiv> 71"
abbreviation (input) PE_PRS_SNK_SRC_SEND_SWAP :: nat where "PE_PRS_SNK_SRC_SEND_SWAP \<equiv> 72"
abbreviation (input) PE_PRS_SNK_SRC_REJECT_SWAP :: nat where "PE_PRS_SNK_SRC_REJECT_SWAP \<equiv> 73"
abbreviation (input) PE_DR_SRC_GET_SOURCE_CAP :: nat where "PE_DR_SRC_GET_SOURCE_CAP \<equiv> 74"
abbreviation (input) PE_DR_SRC_GIVE_SINK_CAP :: nat where "PE_DR_SRC_GIVE_SINK_CAP \<equiv> 75"
abbreviation (input) PE_DR_SNK_GET_SINK_CAP :: nat where "PE_DR_SNK_GET_SINK_CAP \<equiv> 76"
abbreviation (input) PE_DR_SNK_GIVE_SOURCE_CAP :: nat where "PE_DR_SNK_GIVE_SOURCE_CAP \<equiv> 77"
abbreviation (input) PE_DR_SNK_GIVE_SOURCE_CAP_EXT :: nat where "PE_DR_SNK_GIVE_SOURCE_CAP_EXT \<equiv> 78"
abbreviation (input) PE_DR_SRC_GET_SOURCE_CAP_EXT :: nat where "PE_DR_SRC_GET_SOURCE_CAP_EXT \<equiv> 79"
abbreviation (input) PE_VCS_SEND_SWAP :: nat where "PE_VCS_SEND_SWAP \<equiv> 80"
abbreviation (input) PE_VCS_EVALUATE_SWAP :: nat where "PE_VCS_EVALUATE_SWAP \<equiv> 81"
abbreviation (input) PE_VCS_ACCEPT_SWAP :: nat where "PE_VCS_ACCEPT_SWAP \<equiv> 82"
abbreviation (input) PE_VCS_REJECT_VCONN_SWAP :: nat where "PE_VCS_REJECT_VCONN_SWAP \<equiv> 83"
abbreviation (input) PE_VCS_WAIT_FOR_VCONN :: nat where "PE_VCS_WAIT_FOR_VCONN \<equiv> 84"
abbreviation (input) PE_VCS_TURN_OFF_VCONN :: nat where "PE_VCS_TURN_OFF_VCONN \<equiv> 85"
abbreviation (input) PE_VCS_TURN_ON_VCONN :: nat where "PE_VCS_TURN_ON_VCONN \<equiv> 86"
abbreviation (input) PE_VCS_SEND_PS_RDY :: nat where "PE_VCS_SEND_PS_RDY \<equiv> 87"
abbreviation (input) PE_UFP_VDM_GET_IDENTITY :: nat where "PE_UFP_VDM_GET_IDENTITY \<equiv> 88"
abbreviation (input) PE_UFP_VDM_GET_SVIDS :: nat where "PE_UFP_VDM_GET_SVIDS \<equiv> 89"
abbreviation (input) PE_UFP_VDM_GET_MODES :: nat where "PE_UFP_VDM_GET_MODES \<equiv> 90"
abbreviation (input) PE_UFP_VDM_EVALUATE_MODE_ENTRY :: nat where "PE_UFP_VDM_EVALUATE_MODE_ENTRY \<equiv> 91"
abbreviation (input) PE_UFP_VDM_MODE_EXIT :: nat where "PE_UFP_VDM_MODE_EXIT \<equiv> 92"
abbreviation (input) PE_UFP_VDM_ATTENTION_REQUEST :: nat where "PE_UFP_VDM_ATTENTION_REQUEST \<equiv> 93"
abbreviation (input) PE_UFP_VDM_DP_STATUS_UPDATE :: nat where "PE_UFP_VDM_DP_STATUS_UPDATE \<equiv> 94"
abbreviation (input) PE_UFP_VDM_DP_CONFIGURE :: nat where "PE_UFP_VDM_DP_CONFIGURE \<equiv> 95"
abbreviation (input) PE_DFP_UFP_VDM_IDENTITY_REQUEST :: nat where "PE_DFP_UFP_VDM_IDENTITY_REQUEST \<equiv> 96"
abbreviation (input) PE_DFP_UFP_VDM_IDENTITY_ACKED :: nat where "PE_DFP_UFP_VDM_IDENTITY_ACKED \<equiv> 97"
abbreviation (input) PE_DFP_UFP_VDM_IDENTITY_NAKED :: nat where "PE_DFP_UFP_VDM_IDENTITY_NAKED \<equiv> 98"
abbreviation (input) PE_DFP_CBL_VDM_IDENTITY_REQUEST :: nat where "PE_DFP_CBL_VDM_IDENTITY_REQUEST \<equiv> 99"
abbreviation (input) PE_DFP_CBL_VDM_IDENTITY_ACKED :: nat where "PE_DFP_CBL_VDM_IDENTITY_ACKED \<equiv> 100"
abbreviation (input) PE_DFP_CBL_VDM_IDENTITY_NAKED :: nat where "PE_DFP_CBL_VDM_IDENTITY_NAKED \<equiv> 101"
abbreviation (input) PE_DFP_VDM_SVIDS_REQUEST :: nat where "PE_DFP_VDM_SVIDS_REQUEST \<equiv> 102"
abbreviation (input) PE_DFP_VDM_SVIDS_ACKED :: nat where "PE_DFP_VDM_SVIDS_ACKED \<equiv> 103"
abbreviation (input) PE_DFP_VDM_SVIDS_NAKED :: nat where "PE_DFP_VDM_SVIDS_NAKED \<equiv> 104"
abbreviation (input) PE_DFP_VDM_MODES_REQUEST :: nat where "PE_DFP_VDM_MODES_REQUEST \<equiv> 105"
abbreviation (input) PE_DFP_VDM_MODES_ACKED :: nat where "PE_DFP_VDM_MODES_ACKED \<equiv> 106"
abbreviation (input) PE_DFP_VDM_MODES_NAKED :: nat where "PE_DFP_VDM_MODES_NAKED \<equiv> 107"
abbreviation (input) PE_DFP_VDM_MODE_ENTRY_REQUEST :: nat where "PE_DFP_VDM_MODE_ENTRY_REQUEST \<equiv> 108"
abbreviation (input) PE_DFP_VDM_MODE_ENTRY_ACKED :: nat where "PE_DFP_VDM_MODE_ENTRY_ACKED \<equiv> 109"
abbreviation (input) PE_DFP_VDM_MODE_ENTRY_NAKED :: nat where "PE_DFP_VDM_MODE_ENTRY_NAKED \<equiv> 110"
abbreviation (input) PE_DFP_VDM_MODE_EXIT_REQUEST :: nat where "PE_DFP_VDM_MODE_EXIT_REQUEST \<equiv> 111"
abbreviation (input) PE_DFP_VDM_MODE_EXIT_ACKED :: nat where "PE_DFP_VDM_MODE_EXIT_ACKED \<equiv> 112"
abbreviation (input) PE_DFP_VDM_ATTENTION_REQUEST :: nat where "PE_DFP_VDM_ATTENTION_REQUEST \<equiv> 113"
abbreviation (input) PE_DFP_CBL_SEND_SOFT_RESET :: nat where "PE_DFP_CBL_SEND_SOFT_RESET \<equiv> 114"
abbreviation (input) PE_DFP_CBL_SEND_CABLE_RESET :: nat where "PE_DFP_CBL_SEND_CABLE_RESET \<equiv> 115"
abbreviation (input) PE_DFP_VDM_DP_STATUS_UPDATE_REQUEST :: nat where "PE_DFP_VDM_DP_STATUS_UPDATE_REQUEST \<equiv> 116"
abbreviation (input) PE_DFP_VDM_DP_STATUS_UPDATE_ACKED :: nat where "PE_DFP_VDM_DP_STATUS_UPDATE_ACKED \<equiv> 117"
abbreviation (input) PE_DFP_VDM_DP_STATUS_UPDATE_NAKED :: nat where "PE_DFP_VDM_DP_STATUS_UPDATE_NAKED \<equiv> 118"
abbreviation (input) PE_DFP_VDM_DP_CONFIGURATION_REQUEST :: nat where "PE_DFP_VDM_DP_CONFIGURATION_REQUEST \<equiv> 119"
abbreviation (input) PE_DFP_VDM_DP_CONFIGURATION_ACKED :: nat where "PE_DFP_VDM_DP_CONFIGURATION_ACKED \<equiv> 120"
abbreviation (input) PE_DFP_VDM_DP_CONFIGURATION_NAKED :: nat where "PE_DFP_VDM_DP_CONFIGURATION_NAKED \<equiv> 121"
abbreviation (input) PE_UFP_UVDM_RECV :: nat where "PE_UFP_UVDM_RECV \<equiv> 122"
abbreviation (input) PE_DFP_UVDM_SEND :: nat where "PE_DFP_UVDM_SEND \<equiv> 123"
abbreviation (input) PE_DFP_UVDM_ACKED :: nat where "PE_DFP_UVDM_ACKED \<equiv> 124"
abbreviation (input) PE_DFP_UVDM_NAKED :: nat where "PE_DFP_UVDM_NAKED \<equiv> 125"
abbreviation (input) PE_UFP_VDM_SEND_NAK :: nat where "PE_UFP_VDM_SEND_NAK \<equiv> 126"
abbreviation (input) PE_GET_BATTERY_CAP :: nat where "PE_GET_BATTERY_CAP \<equiv> 127"
abbreviation (input) PE_GIVE_BATTERY_CAP :: nat where "PE_GIVE_BATTERY_CAP \<equiv> 128"
abbreviation (input) PE_GET_BATTERY_STATUS :: nat where "PE_GET_BATTERY_STATUS \<equiv> 129"
abbreviation (input) PE_GIVE_BATTERY_STATUS :: nat where "PE_GIVE_BATTERY_STATUS \<equiv> 130"
abbreviation (input) PE_GET_MANUFACTURER_INFO :: nat where "PE_GET_MANUFACTURER_INFO \<equiv> 131"
abbreviation (input) PE_GIVE_MANUFACTURER_INFO :: nat where "PE_GIVE_MANUFACTURER_INFO \<equiv> 132"
abbreviation (input) PE_GET_COUNTRY_CODES :: nat where "PE_GET_COUNTRY_CODES \<equiv> 133"
abbreviation (input) PE_GIVE_COUNTRY_CODES :: nat where "PE_GIVE_COUNTRY_CODES \<equiv> 134"
abbreviation (input) PE_GET_COUNTRY_INFO :: nat where "PE_GET_COUNTRY_INFO \<equiv> 135"
abbreviation (input) PE_GIVE_COUNTRY_INFO :: nat where "PE_GIVE_COUNTRY_INFO \<equiv> 136"
abbreviation (input) PE_VDM_NOT_SUPPORTED :: nat where "PE_VDM_NOT_SUPPORTED \<equiv> 137"
abbreviation (input) PE_REJECT :: nat where "PE_REJECT \<equiv> 138"
abbreviation (input) PE_ERROR_RECOVERY :: nat where "PE_ERROR_RECOVERY \<equiv> 139"
abbreviation (input) PE_ERROR_RECOVERY_ONCE :: nat where "PE_ERROR_RECOVERY_ONCE \<equiv> 140"
abbreviation (input) PE_BIST_TEST_DATA :: nat where "PE_BIST_TEST_DATA \<equiv> 141"
abbreviation (input) PE_BIST_CARRIER_MODE_2 :: nat where "PE_BIST_CARRIER_MODE_2 \<equiv> 142"
abbreviation (input) PE_IDLE1 :: nat where "PE_IDLE1 \<equiv> 143"
abbreviation (input) PE_IDLE2 :: nat where "PE_IDLE2 \<equiv> 144"
abbreviation (input) PD_NR_PE_STATES :: nat where "PD_NR_PE_STATES \<equiv> 145"

section \<open>Timers\<close>

abbreviation (input) PD_TIMER_DISCOVER_ID :: nat where "PD_TIMER_DISCOVER_ID \<equiv> 0"
abbreviation (input) PD_TIMER_BIST_CONT_MODE :: nat where "PD_TIMER_BIST_CONT_MODE \<equiv> 1"
abbreviation (input) PD_TIMER_HARD_RESET_COMPLETE :: nat where "PD_TIMER_HARD_RESET_COMPLETE \<equiv> 2"
abbreviation (input) PD_TIMER_NO_RESPONSE :: nat where "PD_TIMER_NO_RESPONSE \<equiv> 3"
abbreviation (input) PD_TIMER_PS_HARD_RESET :: nat where "PD_TIMER_PS_HARD_RESET \<equiv> 4"
abbreviation (input) PD_TIMER_PS_SOURCE_OFF :: nat where "PD_TIMER_PS_SOURCE_OFF \<equiv> 5"
abbreviation (input) PD_TIMER_PS_SOURCE_ON :: nat where "PD_TIMER_PS_SOURCE_ON \<equiv> 6"
abbreviation (input) PD_TIMER_PS_TRANSITION :: nat where "PD_TIMER_PS_TRANSITION \<equiv> 7"
abbreviation (input) PD_TIMER_SENDER_RESPONSE :: nat where "PD_TIMER_SENDER_RESPONSE \<equiv> 8"
abbreviation (input) PD_TIMER_SINK_REQUEST :: nat where "PD_TIMER_SINK_REQUEST \<equiv> 9"
abbreviation (input) PD_TIMER_SINK_WAIT_CAP :: nat where "PD_TIMER_SINK_WAIT_CAP \<equiv> 10"
abbreviation (input) PD_TIMER_SOURCE_CAPABILITY :: nat where "PD_TIMER_SOURCE_CAPABILITY \<equiv> 11"
abbreviation (input) PD_TIMER_SOURCE_START :: nat where "PD_TIMER_SOURCE_START \<equiv> 12"
abbreviation (input) PD_TIMER_VCONN_ON :: nat where "PD_TIMER_VCONN_ON \<equiv> 13"
abbreviation (input) PD_TIMER_VCONN_STABLE :: nat where "PD_TIMER_VCONN_STABLE \<equiv> 14"
abbreviation (input) PD_TIMER_VDM_MODE_ENTRY :: nat where "PD_TIMER_VDM_MODE_ENTRY \<equiv> 15"
abbreviation (input) PD_TIMER_VDM_MODE_EXIT :: nat where "PD_TIMER_VDM_MODE_EXIT \<equiv> 16"
abbreviation (input) PD_TIMER_VDM_RESPONSE :: nat where "PD_TIMER_VDM_RESPONSE \<equiv> 17"
abbreviation (input) PD_TIMER_SOURCE_TRANSITION :: nat where "PD_TIMER_SOURCE_TRANSITION \<equiv> 18"
abbreviation (input) PD_TIMER_SRC_RECOVER :: nat where "PD_TIMER_SRC_RECOVER \<equiv> 19"
abbreviation (input) PD_TIMER_CK_NOT_SUPPORTED :: nat where "PD_TIMER_CK_NOT_SUPPORTED \<equiv> 20"
abbreviation (input) PD_TIMER_SINK_TX :: nat where "PD_TIMER_SINK_TX \<equiv> 21"
abbreviation (input) PD_TIMER_VSAFE0V_DELAY :: nat where "PD_TIMER_VSAFE0V_DELAY \<equiv> 22"
abbreviation (input) PD_TIMER_VSAFE0V_TOUT :: nat where "PD_TIMER_VSAFE0V_TOUT \<equiv> 23"
abbreviation (input) PD_TIMER_DISCARD :: nat where "PD_TIMER_DISCARD \<equiv> 24"
abbreviation (input) PD_TIMER_VBUS_STABLE :: nat where "PD_TIMER_VBUS_STABLE \<equiv> 25"
abbreviation (input) PD_TIMER_VBUS_PRESENT :: nat where "PD_TIMER_VBUS_PRESENT \<equiv> 26"
abbreviation (input) PD_TIMER_UVDM_RESPONSE :: nat where "PD_TIMER_UVDM_RESPONSE \<equiv> 27"
abbreviation (input) PD_TIMER_DFP_FLOW_DELAY :: nat where "PD_TIMER_DFP_FLOW_DELAY \<equiv> 28"
abbreviation (input) PD_TIMER_UFP_FLOW_DELAY :: nat where "PD_TIMER_UFP_FLOW_DELAY \<equiv> 29"
abbreviation (input) PD_TIMER_VCONN_READY :: nat where "PD_TIMER_VCONN_READY \<equiv> 30"
abbreviation (input) PD_PE_VDM_POSTPONE :: nat where "PD_PE_VDM_POSTPONE \<equiv> 31"
abbreviation (input) PD_TIMER_DEFERRED_EVT :: nat where "PD_TIMER_DEFERRED_EVT \<equiv> 32"
abbreviation (input) PD_TIMER_SNK_FLOW_DELAY :: nat where "PD_TIMER_SNK_FLOW_DELAY \<equiv> 33"
abbreviation (input) PD_TIMER_PE_IDLE_TOUT :: nat where "PD_TIMER_PE_IDLE_TOUT \<equiv> 34"
abbreviation (input) PD_PE_TIMER_END_ID :: nat where "PD_PE_TIMER_END_ID \<equiv> 35"
abbreviation (input) TYPEC_RT_TIMER_START_ID :: nat where "TYPEC_RT_TIMER_START_ID \<equiv> 35"
abbreviation (input) TYPEC_RT_TIMER_SAFE0V_DELAY :: nat where "TYPEC_RT_TIMER_SAFE0V_DELAY \<equiv> 35"
abbreviation (input) TYPEC_RT_TIMER_SAFE0V_TOUT :: nat where "TYPEC_RT_TIMER_SAFE0V_TOUT \<equiv> 36"
abbreviation (input) TYPEC_RT_TIMER_ROLE_SWAP_START :: nat where "TYPEC_RT_TIMER_ROLE_SWAP_START \<equiv> 37"
abbreviation (input) TYPEC_RT_TIMER_ROLE_SWAP_STOP :: nat where "TYPEC_RT_TIMER_ROLE_SWAP_STOP \<equiv> 38"
abbreviation (input) TYPEC_RT_TIMER_STATE_CHANGE :: nat where "TYPEC_RT_TIMER_STATE_CHANGE \<equiv> 39"
abbreviation (input) TYPEC_RT_TIMER_NOT_LEGACY :: nat where "TYPEC_RT_TIMER_NOT_LEGACY \<equiv> 40"
abbreviation (input) TYPEC_RT_TIMER_LEGACY_STABLE :: nat where "TYPEC_RT_TIMER_LEGACY_STABLE \<equiv> 41"
abbreviation (input) TYPEC_RT_TIMER_LEGACY_RECYCLE :: nat where "TYPEC_RT_TIMER_LEGACY_RECYCLE \<equiv> 42"
abbreviation (input) TYPEC_RT_TIMER_DISCHARGE :: nat where "TYPEC_RT_TIMER_DISCHARGE \<equiv> 43"
abbreviation (input) TYPEC_RT_TIMER_LOW_POWER_MODE :: nat where "TYPEC_RT_TIMER_LOW_POWER_MODE \<equiv> 44"
abbreviation (input) TYPEC_RT_TIMER_PE_IDLE :: nat where "TYPEC_RT_TIMER_PE_IDLE \<equiv> 45"
abbreviation (input) TYPEC_TIMER_ERROR_RECOVERY :: nat where "TYPEC_TIMER_ERROR_RECOVERY \<equiv> 46"
abbreviation (input) TYPEC_TRY_TIMER_START_ID :: nat where "TYPEC_TRY_TIMER_START_ID \<equiv> 47"
abbreviation (input) TYPEC_TRY_TIMER_DRP_TRY :: nat where "TYPEC_TRY_TIMER_DRP_TRY \<equiv> 47"
abbreviation (input) TYPEC_TRY_TIMER_DRP_TRYWAIT :: nat where "TYPEC_TRY_TIMER_DRP_TRYWAIT \<equiv> 48"
abbreviation (input) TYPEC_TIMER_START_ID :: nat where "TYPEC_TIMER_START_ID \<equiv> 49"
abbreviation (input) TYPEC_TIMER_CCDEBOUNCE :: nat where "TYPEC_TIMER_CCDEBOUNCE \<equiv> 49"
abbreviation (input) TYPEC_TIMER_PDDEBOUNCE :: nat where "TYPEC_TIMER_PDDEBOUNCE \<equiv> 50"
abbreviation (input) TYPEC_TIMER_TRYCCDEBOUNCE :: nat where "TYPEC_TIMER_TRYCCDEBOUNCE \<equiv> 51"
abbreviation (input) TYPEC_TIMER_SRCDISCONNECT :: nat where "TYPEC_TIMER_SRCDISCONNECT \<equiv> 52"
abbreviation (input) TYPEC_TIMER_DRP_SRC_TOGGLE :: nat where "TYPEC_TIMER_DRP_SRC_TOGGLE \<equiv> 53"
abbreviation (input) TYPEC_TIMER_NORP_SRC :: nat where "TYPEC_TIMER_NORP_SRC \<equiv> 54"
abbreviation (input) PD_TIMER_NR :: nat where "PD_TIMER_NR \<equiv> 55"

end
