(* ===== verification/Tcpc_Data.thy ===== *)
theory Tcpc_Data
  imports MMI_Prelude Pd_States
begin

unbundle bit_operations_syntax

text \<open>
  Data of the USB Type-C port controller (\<open>src/drivers/usb/typec/mmi_tcpc\<close>) as far as
  its event layer uses them: messages and events (\<open>inc/tcpci_event.h\<close>), requests of the
  Type-C port manager (\<open>inc/tcpm.h\<close>), and the fields of \<open>struct tcpc_device\<close> and
  \<open>struct pd_port\<close> that \<open>tcpci_event.c\<close> and \<open>tcpci_alert.c\<close> read or write.

  A pointer to a message is an index into \<open>pd_msg_buffer\<close>. The counters and indices are
  \<open>uint8_t\<close> in C; they are kept as natural numbers with the wrap-around \<open>u8\<close> where they
  are incremented. The bit mask of allocated messages is an \<open>8 word\<close>. What the code asks
  of other parts (timers, callbacks, notifications, register writes) is appended to
  \<open>tc_log\<close>, a field that the source does not have. The configuration is the one of
  \<open>inc/tcpci_config.h\<close> with \<open>CONFIG_USB_POWER_DELIVERY\<close>.
\<close>

section \<open>Constants\<close>

abbreviation (input) PD_MSG_BUF_SIZE :: nat where "PD_MSG_BUF_SIZE \<equiv> 8"
abbreviation (input) PD_EVENT_BUF_SIZE :: nat where "PD_EVENT_BUF_SIZE \<equiv> 16"
abbreviation (input) TCP_EVENT_BUF_SIZE :: nat where "TCP_EVENT_BUF_SIZE \<equiv> 4"

abbreviation (input) PD_EVT_PD_MSG :: nat where "PD_EVT_PD_MSG \<equiv> 0"
abbreviation (input) PD_EVT_CTRL_MSG :: nat where "PD_EVT_CTRL_MSG \<equiv> 1"
abbreviation (input) PD_EVT_HW_MSG :: nat where "PD_EVT_HW_MSG \<equiv> 5"
abbreviation (input) PD_EVT_PE_MSG :: nat where "PD_EVT_PE_MSG \<equiv> 6"
abbreviation (input) PD_EVT_TCP_MSG :: nat where "PD_EVT_TCP_MSG \<equiv> 8"

abbreviation (input) PD_CTRL_GOOD_CRC :: nat where "PD_CTRL_GOOD_CRC \<equiv> 1"
abbreviation (input) PD_CTRL_PING :: nat where "PD_CTRL_PING \<equiv> 5"
abbreviation (input) PD_DATA_BIST :: nat where "PD_DATA_BIST \<equiv> 3"
abbreviation (input) PD_DATA_VENDOR_DEF :: nat where "PD_DATA_VENDOR_DEF \<equiv> 15"

abbreviation (input) PD_HW_CC_DETACHED :: nat where "PD_HW_CC_DETACHED \<equiv> 0"
abbreviation (input) PD_HW_CC_ATTACHED :: nat where "PD_HW_CC_ATTACHED \<equiv> 1"
abbreviation (input) PD_HW_RECV_HARD_RESET :: nat where "PD_HW_RECV_HARD_RESET \<equiv> 2"
abbreviation (input) PD_HW_VBUS_PRESENT :: nat where "PD_HW_VBUS_PRESENT \<equiv> 3"
abbreviation (input) PD_HW_VBUS_ABSENT :: nat where "PD_HW_VBUS_ABSENT \<equiv> 4"
abbreviation (input) PD_HW_VBUS_SAFE0V :: nat where "PD_HW_VBUS_SAFE0V \<equiv> 5"
abbreviation (input) PD_HW_VBUS_STABLE :: nat where "PD_HW_VBUS_STABLE \<equiv> 6"
abbreviation (input) PD_HW_TX_FAILED :: nat where "PD_HW_TX_FAILED \<equiv> 7"
abbreviation (input) PD_HW_TX_DISCARD :: nat where "PD_HW_TX_DISCARD \<equiv> 8"
abbreviation (input) PD_HW_RETRY_VDM :: nat where "PD_HW_RETRY_VDM \<equiv> 9"
abbreviation (input) PD_HW_SINK_TX_CHANGE :: nat where "PD_HW_SINK_TX_CHANGE \<equiv> 10"

abbreviation (input) PD_PE_HARD_RESET_COMPLETED :: nat where "PD_PE_HARD_RESET_COMPLETED \<equiv> 2"
abbreviation (input) PD_PE_IDLE :: nat where "PD_PE_IDLE \<equiv> 3"
abbreviation (input) PD_PE_VDM_RESET :: nat where "PD_PE_VDM_RESET \<equiv> 4"

abbreviation (input) PD_TX_STATE_GOOD_CRC :: nat where "PD_TX_STATE_GOOD_CRC \<equiv> 0"
abbreviation (input) PD_TX_STATE_NO_GOOD_CRC :: nat where "PD_TX_STATE_NO_GOOD_CRC \<equiv> 1"
abbreviation (input) PD_TX_STATE_DISCARD :: nat where "PD_TX_STATE_DISCARD \<equiv> 2"
abbreviation (input) PD_TX_STATE_HARD_RESET :: nat where "PD_TX_STATE_HARD_RESET \<equiv> 3"
abbreviation (input) PD_TX_STATE_WAIT :: nat where "PD_TX_STATE_WAIT \<equiv> 5"
abbreviation (input) PD_TX_STATE_WAIT_CRC_VDM :: nat where "PD_TX_STATE_WAIT_CRC_VDM \<equiv> 5"
abbreviation (input) PD_TX_STATE_WAIT_CRC_PD :: nat where "PD_TX_STATE_WAIT_CRC_PD \<equiv> 6"
abbreviation (input) PD_TX_STATE_WAIT_HARD_RESET :: nat where "PD_TX_STATE_WAIT_HARD_RESET \<equiv> 7"

abbreviation (input) PD_WAIT_VBUS_DISABLE :: nat where "PD_WAIT_VBUS_DISABLE \<equiv> 0"
abbreviation (input) PD_WAIT_VBUS_VALID_ONCE :: nat where "PD_WAIT_VBUS_VALID_ONCE \<equiv> 1"
abbreviation (input) PD_WAIT_VBUS_INVALID_ONCE :: nat where "PD_WAIT_VBUS_INVALID_ONCE \<equiv> 2"
abbreviation (input) PD_WAIT_VBUS_SAFE0V_ONCE :: nat where "PD_WAIT_VBUS_SAFE0V_ONCE \<equiv> 3"
abbreviation (input) PD_WAIT_VBUS_STABLE_ONCE :: nat where "PD_WAIT_VBUS_STABLE_ONCE \<equiv> 4"

abbreviation (input) PD_BIST_MODE_DISABLE :: nat where "PD_BIST_MODE_DISABLE \<equiv> 0"
abbreviation (input) PD_BIST_MODE_EVENT_PENDING :: nat where "PD_BIST_MODE_EVENT_PENDING \<equiv> 1"

abbreviation (input) TCPC_VBUS_SAFE0V :: nat where "TCPC_VBUS_SAFE0V \<equiv> 0"
abbreviation (input) TCPC_VBUS_INVALID :: nat where "TCPC_VBUS_INVALID \<equiv> 1"
abbreviation (input) TCPC_VBUS_VALID :: nat where "TCPC_VBUS_VALID \<equiv> 2"

abbreviation (input) TCP_HRESET_RESULT_DONE :: nat where "TCP_HRESET_RESULT_DONE \<equiv> 0"
abbreviation (input) TCP_HRESET_RESULT_FAIL :: nat where "TCP_HRESET_RESULT_FAIL \<equiv> 1"
abbreviation (input) TCP_HRESET_SIGNAL_SEND :: nat where "TCP_HRESET_SIGNAL_SEND \<equiv> 2"
abbreviation (input) TCP_HRESET_SIGNAL_RECV :: nat where "TCP_HRESET_SIGNAL_RECV \<equiv> 3"

abbreviation (input) TCP_DPM_EVT_UNKONW :: nat where "TCP_DPM_EVT_UNKONW \<equiv> 0"
abbreviation (input) TCP_DPM_EVT_SOFTRESET :: nat where "TCP_DPM_EVT_SOFTRESET \<equiv> 8"
abbreviation (input) TCP_DPM_EVT_CABLE_SOFTRESET :: nat where "TCP_DPM_EVT_CABLE_SOFTRESET \<equiv> 9"
abbreviation (input) TCP_DPM_EVT_VDM_COMMAND :: nat where "TCP_DPM_EVT_VDM_COMMAND \<equiv> 28"
abbreviation (input) TCP_DPM_EVT_DISCOVER_CABLE :: nat where "TCP_DPM_EVT_DISCOVER_CABLE \<equiv> 28"
abbreviation (input) TCP_DPM_EVT_IMMEDIATELY :: nat where "TCP_DPM_EVT_IMMEDIATELY \<equiv> 39"
abbreviation (input) TCP_DPM_EVT_HARD_RESET :: nat where "TCP_DPM_EVT_HARD_RESET \<equiv> 39"
abbreviation (input) TCP_DPM_EVT_ERROR_RECOVERY :: nat where "TCP_DPM_EVT_ERROR_RECOVERY \<equiv> 40"

abbreviation (input) TCP_DPM_RET_SUCCESS :: nat where "TCP_DPM_RET_SUCCESS \<equiv> 0"
abbreviation (input) TCP_DPM_RET_SENT :: nat where "TCP_DPM_RET_SENT \<equiv> 0"
abbreviation (input) TCP_DPM_RET_DROP_CC_DETACH :: nat where "TCP_DPM_RET_DROP_CC_DETACH \<equiv> 10"
abbreviation (input) TCP_DPM_RET_DROP_SENT_SRESET :: nat where "TCP_DPM_RET_DROP_SENT_SRESET \<equiv> 11"
abbreviation (input) TCP_DPM_RET_DROP_SENT_HRESET :: nat where "TCP_DPM_RET_DROP_SENT_HRESET \<equiv> 13"
abbreviation (input) TCP_DPM_RET_DROP_RECV_HRESET :: nat where "TCP_DPM_RET_DROP_RECV_HRESET \<equiv> 14"
abbreviation (input) TCP_DPM_RET_DROP_ERROR_REOCVERY :: nat where "TCP_DPM_RET_DROP_ERROR_REOCVERY \<equiv> 15"

abbreviation (input) TYPEC_UNATTACHED :: nat where "TYPEC_UNATTACHED \<equiv> 0"
abbreviation (input) TYPEC_ATTACHED_SNK :: nat where "TYPEC_ATTACHED_SNK \<equiv> 1"
abbreviation (input) TYPEC_ATTACHED_SRC :: nat where "TYPEC_ATTACHED_SRC \<equiv> 2"
abbreviation (input) TYPEC_ATTACHED_DBGACC_SNK :: nat where "TYPEC_ATTACHED_DBGACC_SNK \<equiv> 5"
abbreviation (input) TYPEC_CC_VOLT_SNK_3_0 :: nat where "TYPEC_CC_VOLT_SNK_3_0 \<equiv> 7"
abbreviation (input) TYPEC_CC_VOLT_SNK_DFT :: nat where "TYPEC_CC_VOLT_SNK_DFT \<equiv> 5"
abbreviation (input) TYPEC_CC_VOLT_SNK_1_5 :: nat where "TYPEC_CC_VOLT_SNK_1_5 \<equiv> 6"
abbreviation (input) TYPEC_RP_DFT :: nat where "TYPEC_RP_DFT \<equiv> 0"
abbreviation (input) TYPEC_RP_1_5 :: nat where "TYPEC_RP_1_5 \<equiv> 1"
abbreviation (input) TYPEC_RP_3_0 :: nat where "TYPEC_RP_3_0 \<equiv> 2"
abbreviation (input) TYPEC_CC_RP_1_5 :: nat where "TYPEC_CC_RP_1_5 \<equiv> 9"
abbreviation (input) TYPEC_CC_RP_3_0 :: nat where "TYPEC_CC_RP_3_0 \<equiv> 17"
abbreviation (input) PD_SINK_TX_OK :: nat where "PD_SINK_TX_OK \<equiv> 0"
abbreviation (input) PD_SINK_TX_NG :: nat where "PD_SINK_TX_NG \<equiv> 1"
abbreviation (input) PD_SOURCE_TX_OK :: nat where "PD_SOURCE_TX_OK \<equiv> 2"
abbreviation (input) PD_SOURCE_TX_START :: nat where "PD_SOURCE_TX_START \<equiv> 3"
abbreviation (input) PD_SINK_TX_START :: nat where "PD_SINK_TX_START \<equiv> 4"
abbreviation (input) PD_REV30 :: nat where "PD_REV30 \<equiv> 2"
abbreviation (input) PD_ROLE_UFP :: nat where "PD_ROLE_UFP \<equiv> 0"
abbreviation (input) TCPC_TX_SOP :: nat where "TCPC_TX_SOP \<equiv> 0"
abbreviation (input) TCPC_FLAGS_RETRY_CRC_DISCARD :: "32 word" where "TCPC_FLAGS_RETRY_CRC_DISCARD \<equiv> 1"
abbreviation (input) TCPC_FLAGS_ALERT_V10 :: "32 word" where "TCPC_FLAGS_ALERT_V10 \<equiv> 4096"
abbreviation (input) DPM_REACTION_VCONN_STABLE_DELAY :: "32 word" where
  "DPM_REACTION_VCONN_STABLE_DELAY \<equiv> 4096"
abbreviation (input) DPM_REACTION_DYNAMIC_VCONN :: "32 word" where "DPM_REACTION_DYNAMIC_VCONN \<equiv> 524288"
abbreviation (input) DPM_REACTION_CAP_READY_ONCE :: "32 word" where
  "DPM_REACTION_CAP_READY_ONCE \<equiv> 536870912"

definition u8 :: "nat \<Rightarrow> nat" where
  "u8 x = x mod 256"

lemma u8_id [simp]: "x < 256 \<Longrightarrow> u8 x = x"
  by (simp add: u8_def)

section \<open>Messages and events\<close>

record pd_msg =
  frame_type :: nat
  msg_hdr :: "16 word"
  payload :: "32 word list"

record pd_event =
  event_type :: nat
  msg :: nat
  msg_sec :: nat
  pd_msg :: "nat option"

record tcp_dpm_event =
  event_id :: nat
  user_data :: nat
  event_cb :: "nat option"
  tcp_dpm_data :: "32 word list"

definition PD_HEADER_CNT :: "16 word \<Rightarrow> nat" where
  "PD_HEADER_CNT header = unat (drop_bit 12 header AND 7)"

definition PD_HEADER_TYPE :: "16 word \<Rightarrow> nat" where
  "PD_HEADER_TYPE header = unat (header AND 0x1F)"

definition PD_HEADER_EXT :: "16 word \<Rightarrow> nat" where
  "PD_HEADER_EXT header = unat (drop_bit 15 header AND 1)"

definition PD_VDO_SVDM :: "32 word \<Rightarrow> bool" where
  "PD_VDO_SVDM vdo \<longleftrightarrow> drop_bit 15 vdo AND 1 \<noteq> 0"

definition PD_VDO_CMD :: "32 word \<Rightarrow> nat" where
  "PD_VDO_CMD vdo = unat (vdo AND 0x1f)"

definition PD_VDO_CMDT :: "32 word \<Rightarrow> nat" where
  "PD_VDO_CMDT vdo = unat (drop_bit 6 vdo AND 3)"

abbreviation (input) CMDT_INIT :: nat where "CMDT_INIT \<equiv> 0"
abbreviation (input) CMD_ATTENTION :: nat where "CMD_ATTENTION \<equiv> 6"

definition pd_event_msg_match :: "pd_event \<Rightarrow> nat \<Rightarrow> nat \<Rightarrow> bool" where
  "pd_event_msg_match e ty m \<longleftrightarrow> (if event_type e \<noteq> ty then False else msg e = m)"

definition pd_event_ctrl_msg_match :: "pd_event \<Rightarrow> nat \<Rightarrow> bool" where
  "pd_event_ctrl_msg_match e m \<longleftrightarrow> pd_event_msg_match e PD_EVT_CTRL_MSG m"

section \<open>The device\<close>

text \<open>
  Calls of the alternate modes (\<open>pd_dpm_alt_mode_*.c\<close>, \<open>pd_dpm_mmi_adapter.c\<close>): through the
  function pointers of \<open>struct svdm_svid_ops\<close>, and directly for DisplayPort.
\<close>

datatype alt_call =
  AltInformId bool | AltInformSvids bool | AltInformModes "16 word" bool
| AltInformEnterMode "16 word" nat bool | AltInformExitMode "16 word" nat | AltInformAttention "16 word"
| AltPeReady | AltUfpEnterMode "16 word" nat | AltUfpExitMode "16 word" nat | AltUfpUvdm "16 word" | AltDfpUvdm "16 word" bool
| DpUfpStatus | DpUfpConfig | DpUfpAttention | DpDfpSendStatus | DpDfpInformStatus bool | DpDfpSendConfig | DpDfpInformConfig bool

text \<open>What the event layer asks of others, and the two warnings (\<open>PD_BUG_ON\<close>).\<close>

datatype tcpc_act =
  EnableTimer tcpc_timer | DisableTimer tcpc_timer | RestartTimer tcpc_timer
| WarnAlloc | WarnFree | WarnNullMsg
| EventCb nat tcp_dpm_event | NotifyHardReset nat | ForceDischarge bool
| SetBistTestMode bool | Retransmit | UpdateConnectState nat | UpdateVdmVerify bool
| TypecErrorRecovery | TypecPrSwap | SetCc nat
| SetRxEnable nat | AlertStatusClear "32 word" | InitAlertMask | TransmitHardReset | WakeLock bool | NotifyTypecState | DetachWakeLock bool
| SinkVbus nat int int | SourceVbus nat int int | SetVconn bool | NotifyVconnSwap bool | EnableWatchdog bool | PpsRequestThread bool
| Transmit nat "16 word" "32 word list" | SetMsgHeader nat nat | NotifyRoleSwap nat nat
| AltModeReset | AltModeStartup | AltMode alt_call | EnterMode "16 word" nat "32 word" | ExitMode "16 word"
| ResetPeTimers | AttachWakeup | NotifyAlert "32 word" | NotifyStatus | RequestBatInfo nat
| NotifyUvdm bool | WarnState

text \<open>
  Power capabilities: the number of objects in use and an array of seven objects.
\<close>

record pd_port_power_caps =
  caps_nr :: nat
  caps_pdos :: "32 word list"

text \<open>
  Members of \<open>struct pe_data\<close> that the event layer does not touch, and the members of
  \<open>struct pd_port\<close> that hold the vendor message in progress. \<open>svid_data\<close> are the registered
  alternate modes; \<open>remote_svids\<close> are the entries in use of
  \<open>remote_svid_list\<close>. \<open>port_info\<close> is what the port tells about itself: the extended source
  capabilities, manufacturer, batteries, countries and status, as the bytes that are sent.
\<close>

record pe_data =
  pd_connected :: bool
  modal_operation :: bool
  pe_ready :: bool
  reset_vdm_state :: bool
  cable_rev_discovered :: bool
  cap_counter :: nat
  discover_id_counter :: nat
  hard_reset_counter :: nat
  renegotiation_count :: nat
  vdm_discard_retry_flag :: bool
  vdm_discard_retry_count :: nat
  dpm_reaction_id :: "32 word"
  dpm_reaction_retry :: nat
  pe_state_flags :: "8 word"
  pe_state_flags2 :: "8 word"
  vdm_state_flags :: "8 word"
  pe_state_timer :: nat
  local_alert :: "32 word"
  remote_alert :: "32 word"
  remote_svids :: "16 word list"
  dp_local_status :: "32 word"
  dp_local_config :: "32 word"
  dpm_svdm_retry_cnt :: nat
  get_status_once :: bool
  pd_status_event :: "8 word"
  partner_id_present :: bool
  partner_vdos :: "32 word list"

record svdm_mode =
  mode_cnt :: nat
  mode_vdo :: "32 word list"

record svdm_svid_data =
  sd_svid :: "16 word"
  sd_exist :: bool
  active_mode :: nat
  local_mode :: svdm_mode
  remote_mode :: svdm_mode

record pd_battery_info =
  bat_status :: "32 word"
  bat_mfrs :: "8 word list"
  bat_mfrs_string :: "8 word list"
  bat_cap :: "8 word list"

record port_info =
  src_cap_ext :: "8 word list"
  mfrs_ids :: "8 word list"
  mfrs_string :: "8 word list"
  fix_bat_info :: "pd_battery_info list"
  country_info :: "(16 word \<times> 8 word list) list"
  pd_status_present_in :: "8 word"
  pd_status_bat_in :: "8 word"
  pd_status_temp :: "8 word"
  pd_status_temp_status :: "8 word"

record vdm_info =
  curr_vdm_hdr :: "32 word"
  curr_vdm_ops :: nat
  curr_vdm_svid :: "16 word"
  uvdm_wait_resp :: bool
  uvdm_cnt :: nat
  uvdm_data :: "32 word list"
  mode_svid :: "16 word"
  mode_obj_pos :: nat
  svid_data :: "svdm_svid_data list"
  uvdm_svid :: "16 word"
  id_header :: "32 word"
  id_vdos :: "32 word list"
  id_vdo_nr :: nat

record pd_port =
  rx_cap :: nat
  pe_pd_state :: pe_state
  pe_vdm_state :: pe_state
  pe_state_curr :: pe_state
  curr_ready_state :: pe_state
  data_role :: nat
  pd_revision0 :: nat
  request_v :: int
  request_apdo :: bool
  tcp_event :: tcp_dpm_event
  tcp_event_id_1st :: nat
  tcp_event_id_2nd :: nat
  tcp_event_drop_reset_once :: bool
  explicit_contract :: bool
  during_swap :: bool
  pd_traffic_idle :: bool
  pd_traffic_control :: nat
  vdm_state_timer :: nat
  dpm_ready_reactions :: "32 word"
  request_i :: int
  request_v_new :: int
  request_i_new :: int
  request_i_op :: int
  request_i_max :: int
  request_v_apdo :: int
  request_i_apdo :: int
  request_apdo_new :: bool
  last_rdo :: "32 word"
  dpm_caps :: "32 word"
  dpm_flags :: "16 word"
  dpm_charging_policy :: "8 word"
  cap_miss_match :: "8 word"
  local_src_cap :: pd_port_power_caps
  local_snk_cap :: pd_port_power_caps
  local_src_cap_default :: pd_port_power_caps
  local_snk_cap_nr_pd30 :: nat
  local_snk_cap_nr_pd20 :: nat
  remote_src_cap :: pd_port_power_caps
  remote_snk_cap :: pd_port_power_caps
  local_selected_cap :: nat
  remote_selected_cap :: nat
  invalid_contract :: bool
  power_cable_present :: bool
  pd_prev_connected :: bool
  cable_vdos :: "32 word list"
  vconn_role :: nat
  vconn_highv_prot :: bool
  vconn_highv_prot_role :: nat
  curr_pd_event :: pd_event
  pd_msg_data_count :: nat
  pd_msg_data_payload :: "nat option"
  msg_id_tx :: "nat list"
  msg_id_rx :: "nat list"
  pe_state_next :: pe_state
  state_machine :: nat
  power_role :: nat
  curr_hreset_state :: pe_state
  curr_sreset_state :: pe_state
  curr_unsupported_msg :: bool
  curr_msg_hdr :: "16 word"
  curr_is_vdm_evt :: bool
  miss_msg :: bool
  msg_id_pr_swap_last :: nat
  error_recovery_once :: nat
  pd_revision1 :: nat
  bat_nr :: nat
  country_nr :: nat
  pd_msg_data_size :: nat
  dpm_charging_policy_default :: "8 word"
  msg_output_lock :: bool
  pe_data :: pe_data
  vdm_info :: vdm_info
  port_info :: port_info

record tcpc_device =
  pending_event :: nat
  typec_local_rp_level :: nat
  typec_remote_rp_level :: nat
  typec_usb_sink_curr :: int
  typec_polarity :: bool
  typec_remote_cc1 :: nat
  typec_remote_cc2 :: nat
  typec_attach_old :: nat
  typec_attach_new :: nat
  wake_lock_pd :: nat
  tcpc_flags :: "32 word"
  pd_event_count :: nat
  pd_event_head_index :: nat
  pd_msg_buffer_allocated :: "8 word"
  pd_pending_vdm_event :: bool
  pd_pending_vdm_reset :: bool
  pd_pending_vdm_good_crc :: bool
  pd_pending_vdm_discard :: bool
  pd_pending_vdm_attention :: bool
  pd_postpone_vdm_timeout :: bool
  pd_last_vdm_msg :: pd_msg
  pd_attention_vdm_msg :: pd_msg
  pd_vdm_event :: pd_event
  pd_msg_buffer :: "pd_msg list"
  pd_event_ring_buffer :: "pd_event list"
  tcp_event_count :: nat
  tcp_event_head_index :: nat
  tcp_event_ring_buffer :: "tcp_dpm_event list"
  pd_pe_running :: bool
  pd_wait_pe_idle :: bool
  pd_hard_reset_event_pending :: bool
  pd_wait_hard_reset_complete :: bool
  pd_wait_pr_swap_complete :: bool
  pd_ping_event_pending :: bool
  pd_bist_mode :: nat
  pd_transmit_state :: nat
  pd_retry_count :: nat
  pd_wait_vbus_once :: nat
  pd_during_direct_charge :: bool
  pd_discard_pending :: bool
  disable_pe :: bool
  tcpc_vconn_supply :: nat
  vbus_level :: nat
  vbus_safe0v :: bool
  vbus_present :: bool
  pd_inited_flag :: bool
  pd_port :: pd_port
  tc_log :: "tcpc_act list"

definition act :: "tcpc_act \<Rightarrow> tcpc_device \<Rightarrow> tcpc_device" where
  "act a t = t\<lparr>tc_log := tc_log t @ [a]\<rparr>"

definition upd_port :: "(pd_port \<Rightarrow> pd_port) \<Rightarrow> tcpc_device \<Rightarrow> tcpc_device" where
  "upd_port f t = t\<lparr>pd_port := f (pd_port t)\<rparr>"

end
