(* ===== verification/Ring_Queue.thy ===== *)
theory Ring_Queue
  imports MMI_Prelude
begin

text \<open>
  The contract of a ring buffer kept in an array of fixed size with a head index and a
  count, and what a client may conclude: the buffer is a bounded first-in first-out
  queue. The event queues of the Type-C controller (\<open>tcpci_event.c\<close>) provide it.

  The head index returns to 0 when the last element is taken, as the drivers do it.
\<close>

locale ring_queue =
  fixes slots :: nat
    and cnt :: "'s \<Rightarrow> nat"
    and head :: "'s \<Rightarrow> nat"
    and buf :: "'s \<Rightarrow> 'e list"
    and put :: "'e \<Rightarrow> 's \<Rightarrow> bool \<times> 's"
    and get :: "'s \<Rightarrow> 'e option \<times> 's"
  assumes slots_pos: "0 < slots"
    and put_full: "slots \<le> cnt s \<Longrightarrow> \<not> fst (put e s) \<and> cnt (snd (put e s)) = cnt s \<and>
      head (snd (put e s)) = head s \<and> buf (snd (put e s)) = buf s"
    and put_free: "cnt s < slots \<Longrightarrow> fst (put e s) \<and> cnt (snd (put e s)) = cnt s + 1 \<and>
      head (snd (put e s)) = head s \<and> buf (snd (put e s)) = (buf s)[(head s + cnt s) mod slots := e]"
    and get_empty: "cnt s = 0 \<Longrightarrow> get s = (None, s)"
    and get_some: "0 < cnt s \<Longrightarrow> fst (get s) = Some (buf s ! head s) \<and> cnt (snd (get s)) = cnt s - 1 \<and>
      buf (snd (get s)) = buf s \<and>
      head (snd (get s)) = (if cnt s = 1 then 0 else (head s + 1) mod slots)"
begin

definition ring_ok :: "'s \<Rightarrow> bool" where
  "ring_ok s \<longleftrightarrow> length (buf s) = slots \<and> head s < slots \<and> cnt s \<le> slots"

definition contents :: "'s \<Rightarrow> 'e list" where
  "contents s = map (\<lambda>i. buf s ! ((head s + i) mod slots)) [0..<cnt s]"

lemma length_contents [simp]: "length (contents s) = cnt s"
  by (simp add: contents_def)

lemma contents_cong:
  "cnt t = cnt s \<Longrightarrow> head t = head s \<Longrightarrow> buf t = buf s \<Longrightarrow> contents t = contents s"
  by (simp add: contents_def)

lemma ring_ok_cong:
  "cnt t = cnt s \<Longrightarrow> head t = head s \<Longrightarrow> buf t = buf s \<Longrightarrow> ring_ok t = ring_ok s"
  by (simp add: ring_ok_def)

lemma slot_distinct:
  assumes "i < k" "k < slots"
  shows "(h + k) mod slots \<noteq> (h + i) mod slots"
proof
  assume "(h + k) mod slots = (h + i) mod slots"
  then have "slots dvd (h + k) - (h + i)" using assms(1) by (simp add: mod_eq_dvd_iff_nat)
  then have "slots dvd k - i" by simp
  moreover have "0 < k - i" "k - i < slots" using assms by simp_all
  ultimately show False using dvd_imp_le by fastforce
qed

lemma put_fifo:
  assumes "ring_ok s"
  shows "fst (put e s) \<longleftrightarrow> length (contents s) < slots"
    and "contents (snd (put e s)) = (if length (contents s) < slots then contents s @ [e] else contents s)"
    and "ring_ok (snd (put e s))"
proof -
  show "fst (put e s) \<longleftrightarrow> length (contents s) < slots"
    using put_full[of s e] put_free[of s e] by (cases "cnt s < slots") simp_all
  show "contents (snd (put e s)) = (if length (contents s) < slots then contents s @ [e] else contents s)"
  proof (cases "cnt s < slots")
    case True
    note p = put_free[OF True, of e]
    have "buf (snd (put e s)) ! ((head s + i) mod slots) = buf s ! ((head s + i) mod slots)"
      if "i < cnt s" for i
      using slot_distinct[OF that True, of "head s"] p by simp
    moreover have "buf (snd (put e s)) ! ((head s + cnt s) mod slots) = e"
      using p assms slots_pos by (simp add: ring_ok_def)
    ultimately show ?thesis using p True by (simp add: contents_def)
  next
    case False
    then show ?thesis using put_full[of s e] by (simp add: contents_def)
  qed
  show "ring_ok (snd (put e s))"
    using assms put_full[of s e] put_free[of s e]
    by (cases "cnt s < slots") (simp_all add: ring_ok_def)
qed

lemma get_fifo:
  assumes "ring_ok s"
  shows "fst (get s) = (case contents s of [] \<Rightarrow> None | e # es \<Rightarrow> Some e)"
    and "contents (snd (get s)) = tl (contents s)"
    and "ring_ok (snd (get s))"
proof -
  have split: "contents s = buf s ! head s # map (\<lambda>i. buf s ! ((head s + i) mod slots)) [1..<cnt s]"
    if "0 < cnt s"
    using that assms by (simp add: contents_def ring_ok_def upt_conv_Cons)
  show "fst (get s) = (case contents s of [] \<Rightarrow> None | e # es \<Rightarrow> Some e)"
    using get_empty[of s] get_some[of s] split by (cases "cnt s = 0") (simp_all add: contents_def)
  show "contents (snd (get s)) = tl (contents s)"
  proof (cases "cnt s \<le> 1")
    case True
    then consider "cnt s = 0" | "cnt s = 1" by linarith
    then show ?thesis using get_empty[of s] get_some[of s] by cases (simp_all add: contents_def)
  next
    case False
    then have g: "cnt (snd (get s)) = cnt s - 1" "buf (snd (get s)) = buf s"
      "head (snd (get s)) = (head s + 1) mod slots" using get_some[of s] by simp_all
    have "[1..<cnt s] = map Suc [0..<cnt s - 1]" using False by (simp add: map_Suc_upt)
    then have "tl (contents s) = map (\<lambda>i. buf s ! ((head s + Suc i) mod slots)) [0..<cnt s - 1]"
      using split False by (simp add: comp_def)
    moreover have "((head s + 1) mod slots + i) mod slots = (head s + Suc i) mod slots" for i
      by (simp add: mod_add_left_eq)
    ultimately show ?thesis using g by (simp add: contents_def)
  qed
  show "ring_ok (snd (get s))"
    using assms get_empty[of s] get_some[of s] slots_pos
    by (cases "cnt s = 0") (auto simp: ring_ok_def)
qed

lemma get_decreases: "fst (get s) \<noteq> None \<Longrightarrow> cnt (snd (get s)) < cnt s"
  using get_empty[of s] get_some[of s] by (cases "cnt s = 0") auto

end

end
