(* ===== verification/Tcpc_Event.thy ===== *)
theory Tcpc_Event
  imports Tcpc_Data Ring_Queue "HOL-Library.While_Combinator"
begin

unbundle bit_operations_syntax

text \<open>
  The event layer of the Type-C controller, \<open>tcpci_event.c\<close>: the pool of eight message
  buffers, the queue of sixteen events for the policy engine, the slot of the vendor
  message (VDM) with its pending flags, the queue of four deferred requests, the resets
  of all of them, and the functions by which the interrupt handlers and the policy
  engine post events.

  A function \<open>f_locked\<close> is the source's \<open>__f\<close>, which runs with \<open>access_lock\<close> held. The
  public functions take the lock around their body, so a body is one atomic step. A
  function that fills \<open>*pd_event\<close> and returns a flag returns an option here.
\<close>

section \<open>Message buffers\<close>

definition postpone_vdm_event :: "tcpc_device \<Rightarrow> tcpc_device" where
  "postpone_vdm_event t =
     (if pd_pending_vdm_event t \<and> pd_msg (pd_vdm_event t) \<noteq> None
      then act (RestartTimer PD_PE_VDM_POSTPONE) (t\<lparr>pd_postpone_vdm_timeout := False\<rparr>)
      else t)"

definition pd_alloc_msg_locked :: "tcpc_device \<Rightarrow> nat option \<times> tcpc_device" where
  "pd_alloc_msg_locked t =
     (case List.find (\<lambda>i. push_bit i 1 AND pd_msg_buffer_allocated t = 0) [0..<PD_MSG_BUF_SIZE] of
        Some i \<Rightarrow> (Some i, t\<lparr>pd_msg_buffer_allocated := pd_msg_buffer_allocated t OR push_bit i 1\<rparr>)
      | None \<Rightarrow> (None, act WarnAlloc t))"

definition pd_alloc_msg :: "tcpc_device \<Rightarrow> nat option \<times> tcpc_device" where
  "pd_alloc_msg t = pd_alloc_msg_locked t"

definition pd_free_msg_locked :: "nat \<Rightarrow> tcpc_device \<Rightarrow> tcpc_device" where
  "pd_free_msg_locked m t =
     (let msk = push_bit m 1 :: 8 word;
          t = (if msk AND pd_msg_buffer_allocated t = 0 then act WarnFree t else t)
      in t\<lparr>pd_msg_buffer_allocated := pd_msg_buffer_allocated t AND NOT msk\<rparr>)"

definition pd_free_event_locked :: "pd_event \<Rightarrow> tcpc_device \<Rightarrow> pd_event \<times> tcpc_device" where
  "pd_free_event_locked e t =
     (case pd_msg e of None \<Rightarrow> (e, t)
      | Some m \<Rightarrow> (e\<lparr>pd_msg := None\<rparr>, pd_free_msg_locked m t))"

definition pd_free_msg :: "nat \<Rightarrow> tcpc_device \<Rightarrow> tcpc_device" where
  "pd_free_msg m t = pd_free_msg_locked m t"

definition pd_free_event :: "pd_event \<Rightarrow> tcpc_device \<Rightarrow> pd_event \<times> tcpc_device" where
  "pd_free_event e t = pd_free_event_locked e t"

text \<open>\<open>__pd_free_event(tcpc, &tcpc->pd_vdm_event)\<close>: the event lives in the device.\<close>

definition free_vdm_event :: "tcpc_device \<Rightarrow> tcpc_device" where
  "free_vdm_event t =
     (let (e, t) = pd_free_event_locked (pd_vdm_event t) t in t\<lparr>pd_vdm_event := e\<rparr>)"

section \<open>The event queue\<close>

definition pd_get_event_locked :: "tcpc_device \<Rightarrow> pd_event option \<times> tcpc_device" where
  "pd_get_event_locked t =
     (if pd_event_count t \<le> 0 then (None, t)
      else let
        count = pd_event_count t - 1;
        e = pd_event_ring_buffer t ! pd_event_head_index t;
        index = (if count \<noteq> 0 then (pd_event_head_index t + 1) mod PD_EVENT_BUF_SIZE else 0)
      in (Some e, t\<lparr>pd_event_count := count, pd_event_head_index := index\<rparr>))"

definition pd_get_event :: "tcpc_device \<Rightarrow> pd_event option \<times> tcpc_device" where
  "pd_get_event t = pd_get_event_locked t"

definition pd_put_event_locked :: "pd_event \<Rightarrow> bool \<Rightarrow> tcpc_device \<Rightarrow> bool \<times> tcpc_device" where
  "pd_put_event_locked e from_port_partner t =
     (let t = (if from_port_partner then postpone_vdm_event t else t)
      in if pd_event_count t \<ge> PD_EVENT_BUF_SIZE then (False, t)
      else let index = (pd_event_head_index t + pd_event_count t) mod PD_EVENT_BUF_SIZE
      in (True, t\<lparr>pd_event_count := u8 (pd_event_count t + 1),
                  pd_event_ring_buffer := (pd_event_ring_buffer t)[index := e],
                  pending_event := pending_event t + 1\<rparr>))"

definition pd_put_event :: "pd_event \<Rightarrow> bool \<Rightarrow> tcpc_device \<Rightarrow> bool \<times> tcpc_device" where
  "pd_put_event e from_port_partner t = pd_put_event_locked e from_port_partner t"

section \<open>The vendor message slot\<close>

definition pd_get_attention_event :: "tcpc_device \<Rightarrow> pd_event \<times> tcpc_device" where
  "pd_get_attention_event t =
     (let e = \<lparr>event_type = PD_EVT_PD_MSG, msg = PD_DATA_VENDOR_DEF, msg_sec = 0, pd_msg = None\<rparr>
      in case pd_alloc_msg_locked t of
        (None, t) \<Rightarrow> (e, t)
      | (Some m, t) \<Rightarrow>
          (e\<lparr>pd_msg := Some m\<rparr>,
           t\<lparr>pd_pending_vdm_attention := False,
             pd_msg_buffer := (pd_msg_buffer t)[m := pd_attention_vdm_msg t]\<rparr>))"

definition pd_check_vdm_state_ready :: "pd_port \<Rightarrow> bool" where
  "pd_check_vdm_state_ready p \<longleftrightarrow> pe_vdm_state p = PE_SNK_READY \<or> pe_vdm_state p = PE_SRC_READY"

definition pd_get_vdm_event :: "tcpc_device \<Rightarrow> pd_event option \<times> tcpc_device" where
  "pd_get_vdm_event t =
     (let delay_evt = \<lparr>event_type = PD_EVT_CTRL_MSG, msg = PD_CTRL_GOOD_CRC, msg_sec = 0, pd_msg = None\<rparr>;
          reset_evt = \<lparr>event_type = PD_EVT_PE_MSG, msg = PD_PE_VDM_RESET, msg_sec = 0, pd_msg = None\<rparr>;
          discard_evt = \<lparr>event_type = PD_EVT_HW_MSG, msg = PD_HW_TX_DISCARD, msg_sec = 0, pd_msg = None\<rparr>
      in if pd_pending_vdm_discard t then (Some discard_evt, t\<lparr>pd_pending_vdm_discard := False\<rparr>)
      else if pd_pending_vdm_event t then
        if pd_msg (pd_vdm_event t) \<noteq> None \<and> \<not> pd_postpone_vdm_timeout t then (None, t)
        else if pd_pending_vdm_good_crc t then (Some delay_evt, t\<lparr>pd_pending_vdm_good_crc := False\<rparr>)
        else if pd_pending_vdm_reset t then (Some reset_evt, t\<lparr>pd_pending_vdm_reset := False\<rparr>)
        else (Some (pd_vdm_event t), t\<lparr>pd_pending_vdm_event := False\<rparr>)
      else if pd_pending_vdm_attention t \<and> pd_check_vdm_state_ready (pd_port t)
      then let (e, t) = pd_get_attention_event t in (Some e, t)
      else (None, t))"

definition reset_pe_vdm_state :: "32 word \<Rightarrow> tcpc_device \<Rightarrow> bool \<times> tcpc_device" where
  "reset_pe_vdm_state vdm_hdr t =
     (let vdm_reset = (if PD_VDO_SVDM vdm_hdr then PD_VDO_CMDT vdm_hdr = CMDT_INIT
                       else data_role (pd_port t) = PD_ROLE_UFP)
      in (vdm_reset, if vdm_reset then t\<lparr>pd_pending_vdm_reset := True\<rparr> else t))"

text \<open>\<open>pd_event->pd_msg->payload[0]\<close> of message \<open>m\<close>.\<close>

definition vdm_header :: "nat \<Rightarrow> tcpc_device \<Rightarrow> 32 word" where
  "vdm_header m t = payload (pd_msg_buffer t ! m) ! 0"

definition pd_is_init_attention_event :: "nat \<Rightarrow> tcpc_device \<Rightarrow> bool" where
  "pd_is_init_attention_event m t \<longleftrightarrow>
     (let vdm_hdr = vdm_header m t
      in if \<not> PD_VDO_SVDM vdm_hdr then False
         else PD_VDO_CMDT vdm_hdr = CMDT_INIT \<and> PD_VDO_CMD vdm_hdr = CMD_ATTENTION)"

text \<open>The event replaces the pending one: \<open>tcpc->pd_vdm_event = *pd_event\<close> and what follows.\<close>

definition vdm_accept :: "pd_event \<Rightarrow> bool \<Rightarrow> tcpc_device \<Rightarrow> tcpc_device" where
  "vdm_accept e from_port_partner t =
     (let t = t\<lparr>pd_vdm_event := e, pd_pending_vdm_event := True, pd_postpone_vdm_timeout := True\<rparr>
      in if from_port_partner then
        (case pd_msg e of
           None \<Rightarrow> act WarnNullMsg t
         | Some m \<Rightarrow>
             postpone_vdm_event (snd (reset_pe_vdm_state (vdm_header m t)
               (t\<lparr>pd_last_vdm_msg := pd_msg_buffer t ! m\<rparr>))))
      else t\<lparr>pending_event := pending_event t + 1\<rparr>)"

definition pd_put_vdm_event :: "pd_event \<Rightarrow> bool \<Rightarrow> tcpc_device \<Rightarrow> (bool \<times> tcpc_device) kres" where
  "pd_put_vdm_event e from_port_partner t =
     (if from_port_partner \<and> pd_msg e = None then Inl NullDeref
      else let
        attention = (from_port_partner \<and> pd_is_init_attention_event (the (pd_msg e)) t);
        t = (if attention
             then t\<lparr>pd_pending_vdm_attention := True,
                    pd_attention_vdm_msg := pd_msg_buffer t ! the (pd_msg e),
                    pending_event := pending_event t + 1\<rparr>
             else t);
        busy = (pd_pending_vdm_event t \<and> \<not> attention);
        ignore_evt = (attention \<or> busy \<and> \<not> from_port_partner);
        t = (if busy \<and> from_port_partner
             then free_vdm_event
               (if pd_event_ctrl_msg_match (pd_vdm_event t) PD_CTRL_GOOD_CRC
                then t\<lparr>pd_pending_vdm_good_crc := True\<rparr> else t)
             else t)
      in if ignore_evt then Inr (False, snd (pd_free_event_locked e t))
         else Inr (True, vdm_accept e from_port_partner t))"

text \<open>The second half of \<open>pd_put_last_vdm_event\<close>: the last message is put into the slot again.\<close>

definition retry_last_vdm :: "tcpc_device \<Rightarrow> bool \<times> tcpc_device" where
  "retry_last_vdm t =
     (let t = t\<lparr>pd_vdm_event := (pd_vdm_event t)\<lparr>event_type := PD_EVT_HW_MSG, msg := PD_HW_RETRY_VDM\<rparr>\<rparr>;
          t = (if pd_pending_vdm_event t then free_vdm_event t else t)
      in case pd_alloc_msg_locked t of
        (None, t) \<Rightarrow> (False, t\<lparr>pd_vdm_event := (pd_vdm_event t)\<lparr>pd_msg := None\<rparr>\<rparr>)
      | (Some i, t) \<Rightarrow>
          (True, postpone_vdm_event
            (t\<lparr>pd_vdm_event := (pd_vdm_event t)\<lparr>pd_msg := Some i\<rparr>,
               pd_msg_buffer := (pd_msg_buffer t)[i := pd_last_vdm_msg t],
               pd_pending_vdm_event := True, pd_postpone_vdm_timeout := True\<rparr>)))"

definition pd_put_last_vdm_event :: "tcpc_device \<Rightarrow> bool \<times> tcpc_device" where
  "pd_put_last_vdm_event t =
     (let t = t\<lparr>pd_pending_vdm_discard := True, pending_event := pending_event t + 1\<rparr>;
          (again, t) = reset_pe_vdm_state (payload (pd_last_vdm_msg t) ! 0) t
      in if again then retry_last_vdm t else (True, t))"

section \<open>Deferred requests of the port manager\<close>

definition pd_get_deferred_tcp_event_locked :: "tcpc_device \<Rightarrow> tcp_dpm_event option \<times> tcpc_device" where
  "pd_get_deferred_tcp_event_locked t =
     (if tcp_event_count t \<le> 0 then (None, t)
      else let
        count = tcp_event_count t - 1;
        e = tcp_event_ring_buffer t ! tcp_event_head_index t;
        index = (if count \<noteq> 0 then (tcp_event_head_index t + 1) mod TCP_EVENT_BUF_SIZE else 0)
      in (Some e, t\<lparr>tcp_event_count := count, tcp_event_head_index := index\<rparr>))"

definition pd_get_deferred_tcp_event :: "tcpc_device \<Rightarrow> tcp_dpm_event option \<times> tcpc_device" where
  "pd_get_deferred_tcp_event t =
     (let (e, t) = pd_get_deferred_tcp_event_locked t
      in (e, if tcp_event_count t \<noteq> 0 then act (RestartTimer PD_TIMER_DEFERRED_EVT) t
             else act (DisableTimer PD_TIMER_DEFERRED_EVT) t))"

definition pd_put_deferred_tcp_event_locked :: "tcp_dpm_event \<Rightarrow> tcpc_device \<Rightarrow> bool \<times> tcpc_device" where
  "pd_put_deferred_tcp_event_locked e t =
     (let index = (tcp_event_head_index t + tcp_event_count t) mod TCP_EVENT_BUF_SIZE
      in (True, t\<lparr>tcp_event_count := u8 (tcp_event_count t + 1),
                  tcp_event_ring_buffer := (tcp_event_ring_buffer t)[index := e],
                  pending_event := pending_event t + 1\<rparr>))"

definition dpm_reaction_set :: "32 word \<Rightarrow> pd_port \<Rightarrow> pd_port" where
  "dpm_reaction_set bits p = p\<lparr>dpm_ready_reactions := dpm_ready_reactions p OR bits\<rparr>"

definition dpm_reaction_set_ready_once :: "pd_port \<Rightarrow> pd_port" where
  "dpm_reaction_set_ready_once p =
     (if pe_state_curr p = curr_ready_state p then dpm_reaction_set DPM_REACTION_CAP_READY_ONCE p else p)"

definition pd_put_deferred_tcp_event :: "tcp_dpm_event \<Rightarrow> tcpc_device \<Rightarrow> bool \<times> tcpc_device" where
  "pd_put_deferred_tcp_event e t =
     (if \<not> pd_pe_running t \<or> pd_wait_pe_idle t then (False, t)
      else if tcp_event_count t \<ge> TCP_EVENT_BUF_SIZE then (False, t)
      else if pd_wait_hard_reset_complete t then (False, t)
      else let
        t = (if event_id e = TCP_DPM_EVT_DISCOVER_CABLE \<or> event_id e = TCP_DPM_EVT_CABLE_SOFTRESET
             then upd_port (dpm_reaction_set
               (DPM_REACTION_DYNAMIC_VCONN OR DPM_REACTION_VCONN_STABLE_DELAY)) t else t);
        (ret, t) = pd_put_deferred_tcp_event_locked e t;
        t = (if ret then upd_port (\<lambda>p. p\<lparr>pd_traffic_idle := False\<rparr>) t else t);
        t = (if tcp_event_count t = 1 then act (EnableTimer PD_TIMER_DEFERRED_EVT) t else t)
      in (ret, upd_port dpm_reaction_set_ready_once t))"

section \<open>Results of requests\<close>

text \<open>\<open>if (tcp_event->event_cb != NULL) tcp_event->event_cb(tcpc, ret, tcp_event)\<close>.\<close>

definition call_event_cb :: "nat \<Rightarrow> tcp_dpm_event \<Rightarrow> tcpc_device \<Rightarrow> tcpc_device" where
  "call_event_cb ret e t = (if event_cb e \<noteq> None then act (EventCb ret e) t else t)"

definition is_vdm_request :: "nat \<Rightarrow> bool" where
  "is_vdm_request i \<longleftrightarrow> i \<ge> TCP_DPM_EVT_VDM_COMMAND \<and> i < TCP_DPM_EVT_IMMEDIATELY"

definition pd_notify_tcp_vdm_event_2nd_result :: "nat \<Rightarrow> tcpc_device \<Rightarrow> tcpc_device" where
  "pd_notify_tcp_vdm_event_2nd_result ret t =
     (let id2 = tcp_event_id_2nd (pd_port t)
      in if id2 = TCP_DPM_EVT_UNKONW then t
      else if id2 < TCP_DPM_EVT_VDM_COMMAND \<or> id2 \<ge> TCP_DPM_EVT_IMMEDIATELY then t
      else upd_port (\<lambda>p. p\<lparr>tcp_event_id_2nd := TCP_DPM_EVT_UNKONW\<rparr>)
             (call_event_cb ret (tcp_event (pd_port t)) t))"

definition pd_notify_tcp_event_2nd_result :: "nat \<Rightarrow> tcpc_device \<Rightarrow> tcpc_device" where
  "pd_notify_tcp_event_2nd_result ret t =
     (let id2 = tcp_event_id_2nd (pd_port t); once = tcp_event_drop_reset_once (pd_port t);
          clear_once = upd_port (\<lambda>p. p\<lparr>tcp_event_drop_reset_once := False\<rparr>) t;
          notify = upd_port (\<lambda>p. p\<lparr>tcp_event_id_2nd := TCP_DPM_EVT_UNKONW\<rparr>)
             (call_event_cb ret (tcp_event (pd_port t)) t)
      in if id2 = TCP_DPM_EVT_UNKONW then t
      else if ret = TCP_DPM_RET_DROP_SENT_SRESET
      then if id2 = TCP_DPM_EVT_SOFTRESET \<and> once then clear_once else notify
      else if ret = TCP_DPM_RET_DROP_SENT_HRESET
      then if id2 = TCP_DPM_EVT_HARD_RESET \<and> once then clear_once else notify
      else if ret = TCP_DPM_RET_SUCCESS
      then if is_vdm_request id2 then t else notify
      else notify)"

definition pd_notify_tcp_event_1st_result :: "nat \<Rightarrow> tcpc_device \<Rightarrow> tcpc_device" where
  "pd_notify_tcp_event_1st_result ret t =
     (if tcp_event_id_1st (pd_port t) = TCP_DPM_EVT_UNKONW then t
      else let
        e = tcp_event (pd_port t);
        t = (if ret = TCP_DPM_RET_SENT then upd_port (\<lambda>p. p\<lparr>tcp_event_id_2nd := event_id e\<rparr>) t
             else call_event_cb ret e t)
      in upd_port (\<lambda>p. p\<lparr>tcp_event_id_1st := TCP_DPM_EVT_UNKONW\<rparr>) t)"

section \<open>Resets\<close>

text \<open>
  The loops that empty the queues. Taking an event always decreases the count, so the
  loops are total functions.
\<close>

lemma get_event_decreases:
  "pd_get_event_locked t = (Some e, t') \<Longrightarrow> pd_event_count t' < pd_event_count t"
  by (auto simp: pd_get_event_locked_def Let_def split: if_splits)

lemma get_tcp_event_decreases:
  "pd_get_deferred_tcp_event_locked t = (Some e, t') \<Longrightarrow> tcp_event_count t' < tcp_event_count t"
  by (auto simp: pd_get_deferred_tcp_event_locked_def Let_def split: if_splits)

lemma free_event_count [simp]:
  "pd_event_count (snd (pd_free_event_locked e t)) = pd_event_count t"
  by (simp add: pd_free_event_locked_def pd_free_msg_locked_def act_def Let_def split: option.splits)

lemma call_event_cb_count [simp]: "tcp_event_count (call_event_cb r e t) = tcp_event_count t"
  by (simp add: call_event_cb_def act_def)

function tcp_event_drain :: "nat \<Rightarrow> tcpc_device \<Rightarrow> tcpc_device" where
  "tcp_event_drain reason t =
     (case pd_get_deferred_tcp_event_locked t of
        (None, t') \<Rightarrow> t'
      | (Some e, t') \<Rightarrow> tcp_event_drain reason (call_event_cb reason e t'))"
  by pat_completeness auto
termination
  by (relation "measure (\<lambda>(r, t). tcp_event_count t)") (auto dest: get_tcp_event_decreases[OF sym])

function pd_event_drain :: "tcpc_device \<Rightarrow> tcpc_device" where
  "pd_event_drain t =
     (case pd_get_event_locked t of
        (None, t') \<Rightarrow> t'
      | (Some e, t') \<Rightarrow> pd_event_drain (snd (pd_free_event_locked e t')))"
  by pat_completeness auto
termination
  by (relation "measure pd_event_count") (auto dest: get_event_decreases[OF sym])

declare tcp_event_drain.simps [simp del] pd_event_drain.simps [simp del]

definition tcp_event_buf_reset_locked :: "nat \<Rightarrow> tcpc_device \<Rightarrow> tcpc_device" where
  "tcp_event_buf_reset_locked reason t = tcp_event_drain reason (pd_notify_tcp_event_2nd_result reason t)"

definition pd_notify_tcp_event_buf_reset :: "nat \<Rightarrow> tcpc_device \<Rightarrow> tcpc_device" where
  "pd_notify_tcp_event_buf_reset reason t =
     tcp_event_buf_reset_locked reason (pd_notify_tcp_event_1st_result reason t)"

definition pd_event_buf_reset_locked :: "nat \<Rightarrow> tcpc_device \<Rightarrow> tcpc_device" where
  "pd_event_buf_reset_locked reason t =
     (let t = pd_event_drain (t\<lparr>pd_hard_reset_event_pending := False\<rparr>);
          t = (if pd_pending_vdm_event t
               then (free_vdm_event t)\<lparr>pd_pending_vdm_event := False\<rparr> else t)
      in tcp_event_buf_reset_locked reason
           (t\<lparr>pd_pending_vdm_reset := False, pd_pending_vdm_good_crc := False,
              pd_pending_vdm_attention := False, pd_pending_vdm_discard := False\<rparr>))"

definition pd_event_buf_reset :: "tcpc_device \<Rightarrow> tcpc_device" where
  "pd_event_buf_reset t = pd_event_buf_reset_locked TCP_DPM_RET_DROP_CC_DETACH t"

end
