(* ===== verification/Tcpc_Post.thy ===== *)
theory Tcpc_Post
  imports Tcpc_Event
begin

unbundle bit_operations_syntax

text \<open>
  The callers' side of the event layer: the functions of \<open>tcpci_event.c\<close> by which the
  Type-C state machine and the interrupt handlers post events (attach and detach, hard
  reset, received messages, VBUS changes) and by which the policy engine tells the
  controller of its state, and the transmit and receive alerts of \<open>tcpci_alert.c\<close>.
\<close>

abbreviation (input) DPM_READY_REACTION_BUSY :: nat where "DPM_READY_REACTION_BUSY \<equiv> 255"

section \<open>Simple events\<close>

definition simple_evt :: "nat \<Rightarrow> nat \<Rightarrow> nat \<Rightarrow> pd_event" where
  "simple_evt ty m sec = \<lparr>event_type = ty, msg = m, msg_sec = sec, pd_msg = None\<rparr>"

definition pd_put_hw_event_locked :: "nat \<Rightarrow> tcpc_device \<Rightarrow> bool \<times> tcpc_device" where
  "pd_put_hw_event_locked hw t = pd_put_event_locked (simple_evt PD_EVT_HW_MSG hw 0) False t"

definition pd_put_pe_event_locked :: "nat \<Rightarrow> tcpc_device \<Rightarrow> bool \<times> tcpc_device" where
  "pd_put_pe_event_locked pe t = pd_put_event_locked (simple_evt PD_EVT_PE_MSG pe 0) False t"

definition pd_put_hw_event :: "nat \<Rightarrow> tcpc_device \<Rightarrow> bool \<times> tcpc_device" where
  "pd_put_hw_event hw t = pd_put_event (simple_evt PD_EVT_HW_MSG hw 0) False t"

definition vdm_put_hw_event :: "nat \<Rightarrow> tcpc_device \<Rightarrow> (bool \<times> tcpc_device) kres" where
  "vdm_put_hw_event hw t = pd_put_vdm_event (simple_evt PD_EVT_HW_MSG hw 0) False t"

definition pd_put_tcp_pd_event :: "nat \<Rightarrow> tcpc_device \<Rightarrow> bool \<times> tcpc_device" where
  "pd_put_tcp_pd_event ev t = pd_put_event (simple_evt PD_EVT_TCP_MSG ev 1) False t"

definition pd_put_sink_tx_event :: "nat \<Rightarrow> tcpc_device \<Rightarrow> bool \<times> tcpc_device" where
  "pd_put_sink_tx_event cc_res t =
     pd_put_event (simple_evt PD_EVT_HW_MSG PD_HW_SINK_TX_CHANGE (of_bool (cc_res = TYPEC_CC_VOLT_SNK_3_0)))
       False t"

section \<open>Attach, detach and hard reset\<close>

definition tcpci_notify_hard_reset_state :: "nat \<Rightarrow> tcpc_device \<Rightarrow> tcpc_device" where
  "tcpci_notify_hard_reset_state state t =
     (if state \<ge> TCP_HRESET_SIGNAL_SEND
      then act (NotifyHardReset state) (t\<lparr>pd_wait_hard_reset_complete := True\<rparr>)
      else if pd_wait_hard_reset_complete t
      then act (NotifyHardReset state) (t\<lparr>pd_wait_hard_reset_complete := False\<rparr>)
      else t)"

definition pd_put_cc_attached_event :: "nat \<Rightarrow> tcpc_device \<Rightarrow> bool \<times> tcpc_device" where
  "pd_put_cc_attached_event ty t =
     (let t = (if ty = TYPEC_ATTACHED_SNK \<or> ty = TYPEC_ATTACHED_SRC \<or> ty = TYPEC_ATTACHED_DBGACC_SNK
               then t\<lparr>pd_pe_running := True, pd_wait_pe_idle := False\<rparr> else t)
      in pd_put_event_locked (simple_evt PD_EVT_HW_MSG PD_HW_CC_ATTACHED ty) False t)"

definition pd_put_cc_detached_event :: "tcpc_device \<Rightarrow> tcpc_device" where
  "pd_put_cc_detached_event t =
     (let t = tcpci_notify_hard_reset_state TCP_HRESET_RESULT_FAIL t;
          t = pd_event_buf_reset_locked TCP_DPM_RET_DROP_CC_DETACH t;
          t = snd (pd_put_hw_event_locked PD_HW_CC_DETACHED t)
      in t\<lparr>pd_wait_pe_idle := True, pd_pe_running := False, pd_wait_pr_swap_complete := False,
           pd_hard_reset_event_pending := False, pd_wait_vbus_once := PD_WAIT_VBUS_DISABLE,
           pd_bist_mode := PD_BIST_MODE_DISABLE, pd_ping_event_pending := False,
           pd_during_direct_charge := False, pd_discard_pending := False\<rparr>)"

definition pd_put_recv_hard_reset_event :: "tcpc_device \<Rightarrow> tcpc_device" where
  "pd_put_recv_hard_reset_event t =
     (let t = tcpci_notify_hard_reset_state TCP_HRESET_SIGNAL_RECV t;
          t = t\<lparr>pd_transmit_state := PD_TX_STATE_HARD_RESET\<rparr>;
          t = (if \<not> pd_hard_reset_event_pending t \<and> \<not> pd_wait_pe_idle t \<and> pd_pe_running t
               then let t = pd_event_buf_reset_locked TCP_DPM_RET_DROP_RECV_HRESET t;
                        t = snd (pd_put_hw_event_locked PD_HW_RECV_HARD_RESET t)
                    in t\<lparr>pd_bist_mode := PD_BIST_MODE_DISABLE, pd_hard_reset_event_pending := True,
                         pd_ping_event_pending := False, pd_during_direct_charge := False\<rparr>
               else t)
      in t\<lparr>pd_discard_pending := False\<rparr>)"

definition pd_put_sent_hard_reset_event :: "tcpc_device \<Rightarrow> tcpc_device" where
  "pd_put_sent_hard_reset_event t =
     (let t = (if pd_wait_hard_reset_complete t
               then pd_event_buf_reset_locked TCP_DPM_RET_DROP_SENT_HRESET t else t);
          t = t\<lparr>pd_transmit_state := PD_TX_STATE_GOOD_CRC\<rparr>
      in snd (pd_put_pe_event_locked PD_PE_HARD_RESET_COMPLETED t))"

section \<open>Received messages\<close>

text \<open>
  \<open>pd_put_pd_msg_event\<close> up to the release of the lock: \<open>None\<close> when the message is
  dropped, else whether a discarded transmission was pending.
\<close>

definition pd_msg_filter :: "nat \<Rightarrow> tcpc_device \<Rightarrow> bool option \<times> tcpc_device" where
  "pd_msg_filter m t =
     (let pm = pd_msg_buffer t ! m; cnt = PD_HEADER_CNT (msg_hdr pm); cmd = PD_HEADER_TYPE (msg_hdr pm);
          extend = PD_HEADER_EXT (msg_hdr pm)
      in if pd_bist_mode t \<noteq> PD_BIST_MODE_DISABLE then (None, pd_free_msg_locked m t)
      else let
        discard = (pd_discard_pending t \<and> frame_type pm = TCPC_TX_SOP \<and>
                   tcpc_flags t AND TCPC_FLAGS_RETRY_CRC_DISCARD \<noteq> 0);
        t = (if discard then t\<lparr>pd_discard_pending := False\<rparr> else t)
      in if discard \<and> cmd = PD_CTRL_GOOD_CRC \<and> cnt = 0
         then (None, act Retransmit (act (DisableTimer PD_TIMER_DISCARD) (pd_free_msg_locked m t)))
      else if cnt = 0 \<and> cmd = PD_CTRL_PING \<and> pd_ping_event_pending t
         then (None, pd_free_msg_locked m t)
      else let
        t = (if cnt = 0 \<and> cmd = PD_CTRL_PING
             then act (SetBistTestMode True) (t\<lparr>pd_ping_event_pending := True\<rparr>) else t);
        t = (if cnt \<noteq> 0 \<and> cmd = PD_DATA_BIST \<and> extend = 0
             then t\<lparr>pd_bist_mode := PD_BIST_MODE_EVENT_PENDING\<rparr> else t)
      in (Some discard, t))"

definition pd_put_pd_msg_event :: "nat \<Rightarrow> tcpc_device \<Rightarrow> (bool \<times> tcpc_device) kres" where
  "pd_put_pd_msg_event m t =
     (let pm = pd_msg_buffer t ! m; cnt = PD_HEADER_CNT (msg_hdr pm); cmd = PD_HEADER_TYPE (msg_hdr pm);
          e = \<lparr>event_type = PD_EVT_PD_MSG, msg = 0, msg_sec = 0, pd_msg = Some m\<rparr>
      in case pd_msg_filter m t of
        (None, t) \<Rightarrow> Inr (False, t)
      | (Some discard, t) \<Rightarrow>
          (let t = (if discard then snd (pd_put_hw_event PD_HW_TX_FAILED (act (DisableTimer PD_TIMER_DISCARD) t))
                    else t)
           in if cnt \<noteq> 0 \<and> cmd = PD_DATA_VENDOR_DEF then pd_put_vdm_event e True t
           else case pd_put_event e True t of
             (True, t) \<Rightarrow> Inr (True, t)
           | (False, t) \<Rightarrow> Inr (False, snd (pd_free_event e t))))"

section \<open>VBUS\<close>

definition tcpci_check_vbus_valid :: "tcpc_device \<Rightarrow> bool" where
  "tcpci_check_vbus_valid t \<longleftrightarrow> vbus_level t \<ge> TCPC_VBUS_VALID"

definition tcpci_check_vsafe0v :: "tcpc_device \<Rightarrow> bool" where
  "tcpci_check_vsafe0v t \<longleftrightarrow> vbus_level t = TCPC_VBUS_SAFE0V"

definition pd_report_vbus_present :: "tcpc_device \<Rightarrow> tcpc_device" where
  "pd_report_vbus_present t =
     snd (pd_put_hw_event_locked PD_HW_VBUS_PRESENT (t\<lparr>pd_wait_vbus_once := PD_WAIT_VBUS_DISABLE\<rparr>))"

definition pd_put_vbus_changed_event :: "bool \<Rightarrow> tcpc_device \<Rightarrow> tcpc_device" where
  "pd_put_vbus_changed_event from_ic t =
     (let vbus_valid = tcpci_check_vbus_valid t
      in if pd_wait_vbus_once t = PD_WAIT_VBUS_VALID_ONCE
         then if vbus_valid
              then if from_ic then act (EnableTimer PD_TIMER_VBUS_PRESENT) t else pd_report_vbus_present t
              else t
      else if pd_wait_vbus_once t = PD_WAIT_VBUS_INVALID_ONCE
         then if \<not> vbus_valid
              then snd (pd_put_hw_event_locked PD_HW_VBUS_ABSENT
                     (t\<lparr>pd_wait_vbus_once := PD_WAIT_VBUS_DISABLE\<rparr>))
              else t
      else t)"

definition pd_put_vbus_safe0v_event :: "tcpc_device \<Rightarrow> tcpc_device" where
  "pd_put_vbus_safe0v_event t =
     (if pd_wait_vbus_once t = PD_WAIT_VBUS_SAFE0V_ONCE
      then snd (pd_put_hw_event_locked PD_HW_VBUS_SAFE0V
             (act (ForceDischarge False) (t\<lparr>pd_wait_vbus_once := PD_WAIT_VBUS_DISABLE\<rparr>)))
      else t)"

definition pd_put_vbus_stable_event :: "tcpc_device \<Rightarrow> tcpc_device" where
  "pd_put_vbus_stable_event t =
     (if pd_wait_vbus_once t = PD_WAIT_VBUS_STABLE_ONCE
      then snd (pd_put_hw_event_locked PD_HW_VBUS_STABLE (t\<lparr>pd_wait_vbus_once := PD_WAIT_VBUS_DISABLE\<rparr>))
      else t)"

definition pd_put_vbus_present_event :: "tcpc_device \<Rightarrow> tcpc_device" where
  "pd_put_vbus_present_event t = pd_report_vbus_present t"

section \<open>Notifications by the policy engine\<close>

definition pd_try_put_pe_idle_event :: "tcpc_device \<Rightarrow> tcpc_device" where
  "pd_try_put_pe_idle_event t =
     (if pd_transmit_state t < PD_TX_STATE_WAIT then snd (pd_put_pe_event_locked PD_PE_IDLE t) else t)"

definition pd_notify_pe_idle :: "tcpc_device \<Rightarrow> tcpc_device" where
  "pd_notify_pe_idle t =
     (let notify = pd_wait_pe_idle t;
          t = t\<lparr>pd_wait_pe_idle := False, pd_pe_running := False\<rparr>;
          t = act (UpdateVdmVerify False) (act (UpdateConnectState 0) t)
      in if notify then act (EnableTimer TYPEC_RT_TIMER_PE_IDLE) t else t)"

definition pd_notify_pe_wait_vbus_once :: "nat \<Rightarrow> tcpc_device \<Rightarrow> tcpc_device" where
  "pd_notify_pe_wait_vbus_once wait_evt t =
     (let t = t\<lparr>pd_wait_vbus_once := wait_evt\<rparr>
      in if wait_evt = PD_WAIT_VBUS_VALID_ONCE \<or> wait_evt = PD_WAIT_VBUS_INVALID_ONCE
         then pd_put_vbus_changed_event False t
      else if wait_evt = PD_WAIT_VBUS_SAFE0V_ONCE
         then if tcpci_check_vsafe0v t then pd_put_vbus_safe0v_event t
              else act (ForceDischarge True) t
      else t)"

definition pd_notify_pe_error_recovery :: "tcpc_device \<Rightarrow> tcpc_device" where
  "pd_notify_pe_error_recovery t =
     (let t = tcpci_notify_hard_reset_state TCP_HRESET_RESULT_FAIL t;
          t = t\<lparr>pd_wait_pr_swap_complete := False\<rparr>;
          t = tcp_event_buf_reset_locked TCP_DPM_RET_DROP_ERROR_REOCVERY t
      in act TypecErrorRecovery t)"

definition pd_notify_pe_transit_to_default :: "nat \<Rightarrow> tcpc_device \<Rightarrow> tcpc_device" where
  "pd_notify_pe_transit_to_default hard_reset_state t =
     (act (UpdateConnectState hard_reset_state) t)
       \<lparr>pd_hard_reset_event_pending := False, pd_wait_pr_swap_complete := False,
        pd_bist_mode := PD_BIST_MODE_DISABLE, pd_during_direct_charge := False\<rparr>"

definition pd_notify_pe_hard_reset_completed :: "tcpc_device \<Rightarrow> tcpc_device" where
  "pd_notify_pe_hard_reset_completed t = tcpci_notify_hard_reset_state TCP_HRESET_RESULT_DONE t"

definition pd_notify_pe_send_hard_reset :: "tcpc_device \<Rightarrow> tcpc_device" where
  "pd_notify_pe_send_hard_reset t =
     tcpci_notify_hard_reset_state TCP_HRESET_SIGNAL_SEND
       (t\<lparr>pd_transmit_state := PD_TX_STATE_WAIT_HARD_RESET\<rparr>)"

definition pd_notify_pe_execute_pr_swap :: "bool \<Rightarrow> tcpc_device \<Rightarrow> tcpc_device" where
  "pd_notify_pe_execute_pr_swap start_swap t =
     (upd_port (\<lambda>p. p\<lparr>during_swap := start_swap\<rparr>) t)\<lparr>pd_wait_pr_swap_complete := True\<rparr>"

definition pd_notify_pe_cancel_pr_swap :: "tcpc_device \<Rightarrow> tcpc_device" where
  "pd_notify_pe_cancel_pr_swap t =
     (if \<not> pd_wait_pr_swap_complete t then t
      else let
        t = (upd_port (\<lambda>p. p\<lparr>during_swap := False\<rparr>) t)\<lparr>pd_wait_pr_swap_complete := False\<rparr>;
        t = act (EnableTimer TYPEC_TIMER_PDDEBOUNCE) t
      in if \<not> tcpci_check_vbus_valid t \<and> request_v (pd_port t) \<ge> 4000
         then snd (pd_put_tcp_pd_event TCP_DPM_EVT_ERROR_RECOVERY t) else t)"

definition pd_notify_pe_reset_protocol :: "tcpc_device \<Rightarrow> tcpc_device" where
  "pd_notify_pe_reset_protocol t = t\<lparr>pd_wait_pr_swap_complete := False\<rparr>"

definition pd_noitfy_pe_bist_mode :: "nat \<Rightarrow> tcpc_device \<Rightarrow> tcpc_device" where
  "pd_noitfy_pe_bist_mode mode t = t\<lparr>pd_bist_mode := mode\<rparr>"

definition pd_notify_pe_transmit_msg :: "nat \<Rightarrow> tcpc_device \<Rightarrow> tcpc_device" where
  "pd_notify_pe_transmit_msg ty t = t\<lparr>pd_transmit_state := ty\<rparr>"

definition pd_notify_pe_pr_changed :: "tcpc_device \<Rightarrow> tcpc_device" where
  "pd_notify_pe_pr_changed t = act TypecPrSwap t"

definition pd_notify_pe_snk_explicit_contract :: "tcpc_device \<Rightarrow> tcpc_device" where
  "pd_notify_pe_snk_explicit_contract t =
     (if explicit_contract (pd_port t) then t
      else if typec_remote_rp_level t = TYPEC_CC_VOLT_SNK_3_0
      then act (RestartTimer PD_TIMER_SNK_FLOW_DELAY)
             (upd_port (\<lambda>p. p\<lparr>pd_traffic_control := PD_SINK_TX_START\<rparr>) t)
      else upd_port (\<lambda>p. p\<lparr>pd_traffic_control := PD_SINK_TX_NG\<rparr>) t)"

definition pd_check_rev30 :: "pd_port \<Rightarrow> bool" where
  "pd_check_rev30 p \<longleftrightarrow> pd_revision0 p \<ge> PD_REV30"

definition pd_notify_pe_src_explicit_contract :: "tcpc_device \<Rightarrow> tcpc_device" where
  "pd_notify_pe_src_explicit_contract t =
     (if explicit_contract (pd_port t)
      then if pd_check_rev30 (pd_port t) \<and> pd_traffic_control (pd_port t) = PD_SOURCE_TX_START
           then act (RestartTimer PD_TIMER_SINK_TX) t else t
      else let
        pull = (if typec_local_rp_level t = TYPEC_RP_DFT then TYPEC_CC_RP_1_5 else 0);
        (pull, t) = (if pd_check_rev30 (pd_port t)
          then (TYPEC_CC_RP_3_0, act (EnableTimer PD_TIMER_SINK_TX)
                 (upd_port (\<lambda>p. p\<lparr>pd_traffic_control := PD_SOURCE_TX_START\<rparr>) t))
          else (pull, t))
      in if pull \<noteq> 0 then act (SetCc pull) t else t)"

definition pd_notify_pe_direct_charge :: "bool \<Rightarrow> tcpc_device \<Rightarrow> tcpc_device" where
  "pd_notify_pe_direct_charge en t =
     t\<lparr>pd_during_direct_charge := (if request_apdo (pd_port t) then True else en)\<rparr>"

end
