(* ===== verification/Tcpc_Alert.thy ===== *)
theory Tcpc_Alert
  imports Tcpc_Post
begin

unbundle bit_operations_syntax

text \<open>
  The two ends of the event layer: the alert handlers of \<open>tcpci_alert.c\<close> that turn
  interrupts of the controller chip into events, and the part of \<open>pd_policy_engine.c\<close>
  that takes the next event. What the chip answers (its id, the received message) is an
  argument. The registers are \<open>32 word\<close>.
\<close>

abbreviation (input) TCPC_REG_ALERT_RX_MASK :: "32 word" where "TCPC_REG_ALERT_RX_MASK \<equiv> 0x404"
abbreviation (input) TCPC_REG_ALERT_HRESET_SUCCESS :: "32 word" where "TCPC_REG_ALERT_HRESET_SUCCESS \<equiv> 0x50"
abbreviation (input) TCPC_REG_ALERT_TX_DISCARDED :: "32 word" where "TCPC_REG_ALERT_TX_DISCARDED \<equiv> 0x20"
abbreviation (input) TCPC_REG_POWER_STATUS_VBUS_PRES :: "16 word" where "TCPC_REG_POWER_STATUS_VBUS_PRES \<equiv> 0x4"
abbreviation (input) TCPC_REG_POWER_STATUS_EXT_VSAFE0V :: "16 word" where
  "TCPC_REG_POWER_STATUS_EXT_VSAFE0V \<equiv> 0x8000"
abbreviation (input) PD_RX_CAP_PE_STARTUP :: nat where "PD_RX_CAP_PE_STARTUP \<equiv> 32"

section \<open>VBUS level\<close>

definition tcpci_vbus_level_init_v10 :: "16 word \<Rightarrow> tcpc_device \<Rightarrow> tcpc_device" where
  "tcpci_vbus_level_init_v10 power_status t =
     (let level = (if power_status AND TCPC_REG_POWER_STATUS_VBUS_PRES \<noteq> 0 then TCPC_VBUS_VALID
                   else TCPC_VBUS_INVALID)
      in t\<lparr>vbus_level := (if power_status AND TCPC_REG_POWER_STATUS_EXT_VSAFE0V \<noteq> 0 \<and> level = TCPC_VBUS_INVALID
                          then TCPC_VBUS_SAFE0V else level)\<rparr>)"

definition tcpci_vbus_level_refresh :: "tcpc_device \<Rightarrow> tcpc_device" where
  "tcpci_vbus_level_refresh t =
     (let level = (if vbus_present t then TCPC_VBUS_VALID else TCPC_VBUS_INVALID)
      in t\<lparr>vbus_level := (if vbus_safe0v t \<and> level = TCPC_VBUS_INVALID then TCPC_VBUS_SAFE0V else level)\<rparr>)"

definition tcpci_vbus_level_init :: "16 word \<Rightarrow> tcpc_device \<Rightarrow> tcpc_device" where
  "tcpci_vbus_level_init power_status t =
     (if tcpc_flags t AND TCPC_FLAGS_ALERT_V10 \<noteq> 0 then tcpci_vbus_level_init_v10 power_status t
      else tcpci_vbus_level_refresh
             (t\<lparr>vbus_present := (power_status AND TCPC_REG_POWER_STATUS_VBUS_PRES \<noteq> 0)\<rparr>))"

section \<open>Alerts\<close>

definition tcpci_alert_tx_success :: "tcpc_device \<Rightarrow> tcpc_device kres" where
  "tcpci_alert_tx_success t =
     (let e = simple_evt PD_EVT_CTRL_MSG PD_CTRL_GOOD_CRC 0;
          tx_state = pd_transmit_state t;
          t = t\<lparr>pd_transmit_state := PD_TX_STATE_GOOD_CRC\<rparr>
      in if tx_state = PD_TX_STATE_WAIT_CRC_VDM
         then kbind (pd_put_vdm_event e False t) (\<lambda>r. Inr (snd r))
         else Inr (snd (pd_put_event e False t)))"

definition tcpci_alert_tx_failed :: "tcpc_device \<Rightarrow> tcpc_device kres" where
  "tcpci_alert_tx_failed t =
     (let tx_state = pd_transmit_state t;
          t = t\<lparr>pd_transmit_state := PD_TX_STATE_NO_GOOD_CRC\<rparr>
      in if tx_state = PD_TX_STATE_WAIT_CRC_VDM
         then kbind (vdm_put_hw_event PD_HW_TX_FAILED t) (\<lambda>r. Inr (snd r))
         else Inr (snd (pd_put_hw_event PD_HW_TX_FAILED t)))"

definition tcpci_alert_tx_discard :: "tcpc_device \<Rightarrow> tcpc_device" where
  "tcpci_alert_tx_discard t =
     (let tx_state = pd_transmit_state t;
          t = t\<lparr>pd_transmit_state := PD_TX_STATE_DISCARD\<rparr>
      in if tx_state = PD_TX_STATE_WAIT_CRC_VDM then snd (pd_put_last_vdm_event t)
      else if tcpc_flags t AND TCPC_FLAGS_RETRY_CRC_DISCARD \<noteq> 0
      then act (EnableTimer PD_TIMER_DISCARD) (t\<lparr>pd_discard_pending := True\<rparr>)
      else snd (pd_put_hw_event PD_HW_TX_FAILED t))"

text \<open>
  What the chip returns: whether it is an SC2150A (its id could be read and matches), the
  return code of \<open>get_message\<close>, the header, the payload and the frame type.
\<close>

record rx_env =
  rx_is_sc2150a :: bool
  rx_rv :: int
  rx_hdr :: "16 word"
  rx_payload :: "32 word list"
  rx_type :: nat

definition tcpci_alert_recv_msg :: "rx_env \<Rightarrow> tcpc_device \<Rightarrow> (int \<times> tcpc_device) kres" where
  "tcpci_alert_recv_msg r t =
     (let t = (if rx_is_sc2150a r then act (SetRxEnable PD_RX_CAP_PE_STARTUP) t else t)
      in case pd_alloc_msg t of
        (None, t) \<Rightarrow> Inr (- EINVAL, act (AlertStatusClear TCPC_REG_ALERT_RX_MASK) t)
      | (Some m, t) \<Rightarrow>
          if rx_rv r < 0
          then Inr (rx_rv r, act (AlertStatusClear TCPC_REG_ALERT_RX_MASK) (pd_free_msg m t))
          else let
            t = (if rx_rv r = 0 \<and> rx_is_sc2150a r then act (SetRxEnable (rx_cap (pd_port t))) t else t);
            t = t\<lparr>pd_msg_buffer := (pd_msg_buffer t)[m :=
                   \<lparr>frame_type = rx_type r, msg_hdr = rx_hdr r, payload = rx_payload r\<rparr>]\<rparr>
          in kbind (pd_put_pd_msg_event m t) (\<lambda>(_, t).
               Inr (rx_rv r, act (AlertStatusClear TCPC_REG_ALERT_RX_MASK) t)))"

definition tcpci_alert_rx_overflow :: "rx_env \<Rightarrow> tcpc_device \<Rightarrow> (int \<times> tcpc_device) kres" where
  "tcpci_alert_rx_overflow r t = tcpci_alert_recv_msg r t"

definition tcpci_alert_recv_hard_reset :: "tcpc_device \<Rightarrow> tcpc_device" where
  "tcpci_alert_recv_hard_reset t = act InitAlertMask (pd_put_recv_hard_reset_event t)"

definition tcpci_check_hard_reset_complete :: "32 word \<Rightarrow> tcpc_device \<Rightarrow> bool \<times> tcpc_device" where
  "tcpci_check_hard_reset_complete alert_status t =
     (if alert_status AND TCPC_REG_ALERT_HRESET_SUCCESS = TCPC_REG_ALERT_HRESET_SUCCESS
      then (True, pd_put_sent_hard_reset_event t)
      else if alert_status AND TCPC_REG_ALERT_TX_DISCARDED \<noteq> 0 then (False, act TransmitHardReset t)
      else (False, t))"

section \<open>Attach and detach reports\<close>

definition tcpci_set_wake_lock_pd :: "bool \<Rightarrow> tcpc_device \<Rightarrow> tcpc_device" where
  "tcpci_set_wake_lock_pd pd_lock t =
     (let n = (if pd_lock then u8 (wake_lock_pd t + 1)
               else if wake_lock_pd t > 0 then wake_lock_pd t - 1 else wake_lock_pd t);
          t = (if n = 0 then act (DetachWakeLock True) t else t);
          t = (if (n \<noteq> 0) \<noteq> (wake_lock_pd t \<noteq> 0) then act (WakeLock (n \<noteq> 0)) t else t);
          t = t\<lparr>wake_lock_pd := n\<rparr>
      in if n = 1 then act (DetachWakeLock False) t else t)"

definition tcpci_report_usb_port_attached :: "tcpc_device \<Rightarrow> tcpc_device" where
  "tcpci_report_usb_port_attached t =
     (let t = tcpci_set_wake_lock_pd True t
      in if disable_pe t then t
      else if pd_inited_flag t then snd (pd_put_cc_attached_event (typec_attach_new t) t) else t)"

definition tcpci_report_usb_port_detached :: "tcpc_device \<Rightarrow> tcpc_device" where
  "tcpci_report_usb_port_detached t =
     (let t = (if pd_inited_flag t then pd_put_cc_detached_event t
               else act (EnableTimer TYPEC_RT_TIMER_PE_IDLE) (pd_event_buf_reset t))
      in tcpci_set_wake_lock_pd False t)"

definition tcpci_report_usb_port_changed :: "tcpc_device \<Rightarrow> tcpc_device" where
  "tcpci_report_usb_port_changed t0 =
     (let t = act NotifyTypecState t0
      in if typec_attach_old t = TYPEC_UNATTACHED then tcpci_report_usb_port_attached t
      else if typec_attach_new t = TYPEC_UNATTACHED then tcpci_report_usb_port_detached t
      else t)"

section \<open>Taking the next event\<close>

definition pd_try_get_vdm_event :: "bool \<Rightarrow> tcpc_device \<Rightarrow> pd_event option \<times> tcpc_device" where
  "pd_try_get_vdm_event is_sc2150a t =
     (let st = pe_pd_state (pd_port t)
      in if st = PE_SNK_TRANSITION_SINK then if is_sc2150a then pd_get_vdm_event t else (None, t)
         else if st = PE_SNK_READY \<or> st = PE_SRC_READY \<or> st = PE_SRC_STARTUP \<or> st = PE_SRC_DISCOVERY
                 \<or> st = PE_SRC_CBL_SEND_SOFT_RESET \<or> st = PE_IDLE1
         then pd_get_vdm_event t
         else (None, t))"

definition pd_try_get_deferred_tcp_event :: "tcpc_device \<Rightarrow> nat \<times> tcpc_device" where
  "pd_try_get_deferred_tcp_event t =
     (case pd_get_deferred_tcp_event t of
        (None, t) \<Rightarrow> (DPM_READY_REACTION_BUSY, t)
      | (Some e, t) \<Rightarrow>
          (event_id e, upd_port (\<lambda>p. p\<lparr>tcp_event := e, tcp_event_drop_reset_once := True,
                                       tcp_event_id_1st := event_id e\<rparr>) t))"

end
