(* ===== verification/Tcpc_Queue.thy ===== *)
theory Tcpc_Queue
  imports Tcpc_Alert
begin

unbundle bit_operations_syntax

text \<open>
  Both queues of the Type-C event layer are bounded first-in first-out queues, the pool
  of message buffers is a set of at most eight indices, and the loops that empty the
  queues end. The queues are interpretations of the ring buffer contract.
\<close>

section \<open>The two ring buffers\<close>

interpretation pdq: ring_queue PD_EVENT_BUF_SIZE pd_event_count pd_event_head_index
  pd_event_ring_buffer "\<lambda>e. pd_put_event_locked e b" pd_get_event_locked for b
  by unfold_locales
    (auto simp: pd_put_event_locked_def pd_get_event_locked_def postpone_vdm_event_def act_def Let_def)

definition tcp_put :: "tcp_dpm_event \<Rightarrow> tcpc_device \<Rightarrow> bool \<times> tcpc_device" where
  "tcp_put e t = (if tcp_event_count t \<ge> TCP_EVENT_BUF_SIZE then (False, t)
     else pd_put_deferred_tcp_event_locked e t)"

interpretation tcpq: ring_queue TCP_EVENT_BUF_SIZE tcp_event_count tcp_event_head_index
  tcp_event_ring_buffer tcp_put pd_get_deferred_tcp_event_locked
  by unfold_locales
    (auto simp: tcp_put_def pd_put_deferred_tcp_event_locked_def pd_get_deferred_tcp_event_locked_def Let_def)

definition events :: "tcpc_device \<Rightarrow> pd_event list" where
  "events t = pdq.contents t"

definition requests :: "tcpc_device \<Rightarrow> tcp_dpm_event list" where
  "requests t = tcpq.contents t"

definition queues_ok :: "tcpc_device \<Rightarrow> bool" where
  "queues_ok t \<longleftrightarrow> pdq.ring_ok t \<and> tcpq.ring_ok t"

lemma queues_frame:
  assumes "pd_event_count t = pd_event_count s" "pd_event_head_index t = pd_event_head_index s"
    "pd_event_ring_buffer t = pd_event_ring_buffer s" "tcp_event_count t = tcp_event_count s"
    "tcp_event_head_index t = tcp_event_head_index s" "tcp_event_ring_buffer t = tcp_event_ring_buffer s"
  shows "events t = events s" "requests t = requests s" "queues_ok t = queues_ok s"
  unfolding events_def requests_def queues_ok_def
  using pdq.contents_cong[OF assms(1-3)] tcpq.contents_cong[OF assms(4-6)]
    pdq.ring_ok_cong[OF assms(1-3)] tcpq.ring_ok_cong[OF assms(4-6)] by simp_all

lemma put_event_frame [simp]:
  "tcp_event_count (snd (pd_put_event_locked e b t)) = tcp_event_count t"
  "tcp_event_head_index (snd (pd_put_event_locked e b t)) = tcp_event_head_index t"
  "tcp_event_ring_buffer (snd (pd_put_event_locked e b t)) = tcp_event_ring_buffer t"
  "pd_msg_buffer_allocated (snd (pd_put_event_locked e b t)) = pd_msg_buffer_allocated t"
  "pd_pending_vdm_event (snd (pd_put_event_locked e b t)) = pd_pending_vdm_event t"
  "pd_vdm_event (snd (pd_put_event_locked e b t)) = pd_vdm_event t"
  "pd_wait_hard_reset_complete (snd (pd_put_event_locked e b t)) = pd_wait_hard_reset_complete t"
  "pd_pe_running (snd (pd_put_event_locked e b t)) = pd_pe_running t"
  "pd_wait_pe_idle (snd (pd_put_event_locked e b t)) = pd_wait_pe_idle t"
  by (simp_all add: pd_put_event_locked_def postpone_vdm_event_def act_def Let_def)

lemma get_event_frame [simp]:
  "tcp_event_count (snd (pd_get_event_locked t)) = tcp_event_count t"
  "tcp_event_head_index (snd (pd_get_event_locked t)) = tcp_event_head_index t"
  "tcp_event_ring_buffer (snd (pd_get_event_locked t)) = tcp_event_ring_buffer t"
  "pd_msg_buffer_allocated (snd (pd_get_event_locked t)) = pd_msg_buffer_allocated t"
  "pd_pending_vdm_event (snd (pd_get_event_locked t)) = pd_pending_vdm_event t"
  "pd_vdm_event (snd (pd_get_event_locked t)) = pd_vdm_event t"
  "tc_log (snd (pd_get_event_locked t)) = tc_log t"
  "pending_event (snd (pd_get_event_locked t)) = pending_event t"
  "pd_wait_hard_reset_complete (snd (pd_get_event_locked t)) = pd_wait_hard_reset_complete t"
  "pd_port (snd (pd_get_event_locked t)) = pd_port t"
  by (simp_all add: pd_get_event_locked_def Let_def)

lemma put_event_fifo:
  assumes "queues_ok t"
  shows "fst (pd_put_event_locked e b t) \<longleftrightarrow> length (events t) < PD_EVENT_BUF_SIZE"
    and "events (snd (pd_put_event_locked e b t)) =
      (if length (events t) < PD_EVENT_BUF_SIZE then events t @ [e] else events t)"
    and "queues_ok (snd (pd_put_event_locked e b t))"
    and "requests (snd (pd_put_event_locked e b t)) = requests t"
  using assms pdq.put_fifo[of t e b]
  by (simp_all add: events_def requests_def queues_ok_def cong: tcpq.ring_ok_cong tcpq.contents_cong)

lemma get_event_fifo:
  assumes "queues_ok t"
  shows "fst (pd_get_event_locked t) = (case events t of [] \<Rightarrow> None | e # es \<Rightarrow> Some e)"
    and "events (snd (pd_get_event_locked t)) = tl (events t)"
    and "queues_ok (snd (pd_get_event_locked t))"
    and "requests (snd (pd_get_event_locked t)) = requests t"
  using assms pdq.get_fifo[of t]
  by (simp_all add: events_def requests_def queues_ok_def cong: tcpq.ring_ok_cong tcpq.contents_cong)

lemma put_request_fifo:
  assumes "queues_ok t"
  shows "requests (snd (tcp_put e t)) =
      (if length (requests t) < TCP_EVENT_BUF_SIZE then requests t @ [e] else requests t)"
    and "queues_ok (snd (tcp_put e t))"
    and "events (snd (tcp_put e t)) = events t"
proof -
  have frame: "pd_event_count (snd (tcp_put e t)) = pd_event_count t"
    "pd_event_head_index (snd (tcp_put e t)) = pd_event_head_index t"
    "pd_event_ring_buffer (snd (tcp_put e t)) = pd_event_ring_buffer t"
    by (simp_all add: tcp_put_def pd_put_deferred_tcp_event_locked_def Let_def)
  show "requests (snd (tcp_put e t)) =
      (if length (requests t) < TCP_EVENT_BUF_SIZE then requests t @ [e] else requests t)"
    and "queues_ok (snd (tcp_put e t))" and "events (snd (tcp_put e t)) = events t"
    using assms tcpq.put_fifo[of t e] frame pdq.ring_ok_cong[OF frame] pdq.contents_cong[OF frame]
    by (simp_all add: events_def requests_def queues_ok_def)
qed

lemma get_request_fifo:
  assumes "queues_ok t"
  shows "fst (pd_get_deferred_tcp_event_locked t) = (case requests t of [] \<Rightarrow> None | e # es \<Rightarrow> Some e)"
    and "requests (snd (pd_get_deferred_tcp_event_locked t)) = tl (requests t)"
    and "queues_ok (snd (pd_get_deferred_tcp_event_locked t))"
    and "events (snd (pd_get_deferred_tcp_event_locked t)) = events t"
proof -
  let ?t = "snd (pd_get_deferred_tcp_event_locked t)"
  have frame: "pd_event_count ?t = pd_event_count t"
    "pd_event_head_index ?t = pd_event_head_index t"
    "pd_event_ring_buffer ?t = pd_event_ring_buffer t"
    by (simp_all add: pd_get_deferred_tcp_event_locked_def Let_def)
  show "fst (pd_get_deferred_tcp_event_locked t) = (case requests t of [] \<Rightarrow> None | e # es \<Rightarrow> Some e)"
    and "requests ?t = tl (requests t)" and "queues_ok ?t" and "events ?t = events t"
    using assms tcpq.get_fifo[of t] pdq.ring_ok_cong[OF frame] pdq.contents_cong[OF frame]
    by (simp_all add: events_def requests_def queues_ok_def)
qed

section \<open>The pool of message buffers\<close>

definition allocated :: "tcpc_device \<Rightarrow> nat set" where
  "allocated t = {m. m < PD_MSG_BUF_SIZE \<and> bit (pd_msg_buffer_allocated t) m}"

lemma bit_mask: "bit (2 ^ m :: 8 word) n \<longleftrightarrow> n = m \<and> m < 8"
  by (auto simp: bit_exp_iff)

lemma mask_bit:
  assumes "m < 8"
  shows "((2 ^ m :: 8 word) AND w = 0) \<longleftrightarrow> \<not> bit w m"
proof -
  have "((2 ^ m :: 8 word) AND w = 0) \<longleftrightarrow> (\<forall>n<8. \<not> bit ((2 ^ m :: 8 word) AND w) n)"
    unfolding bit_eq_iff[of "(2 ^ m :: 8 word) AND w" 0] by simp
  then show ?thesis using assms by (auto simp: bit_and_iff bit_mask)
qed

lemma allocated_bit: "bit (pd_msg_buffer_allocated t) m \<longleftrightarrow> m \<in> allocated t"
  using bit_imp_le_length[of "pd_msg_buffer_allocated t" m] by (auto simp: allocated_def)

lemma finite_allocated [simp]: "finite (allocated t)"
  by (simp add: allocated_def)

text \<open>A device that differs only in the set of allocated buffers.\<close>

definition with_pool :: "8 word \<Rightarrow> tcpc_device \<Rightarrow> tcpc_device" where
  "with_pool w t = t\<lparr>pd_msg_buffer_allocated := w\<rparr>"

lemma alloc_msg:
  "(\<exists>m. m < PD_MSG_BUF_SIZE \<and> m \<notin> allocated t \<and> pd_alloc_msg_locked t = (Some m, snd (pd_alloc_msg_locked t)) \<and>
      allocated (snd (pd_alloc_msg_locked t)) = insert m (allocated t) \<and>
      snd (pd_alloc_msg_locked t) = with_pool (pd_msg_buffer_allocated (snd (pd_alloc_msg_locked t))) t) \<or>
   allocated t = {..<PD_MSG_BUF_SIZE} \<and> pd_alloc_msg_locked t = (None, act WarnAlloc t)"
proof (cases "List.find (\<lambda>i. push_bit i 1 AND pd_msg_buffer_allocated t = 0) [0..<PD_MSG_BUF_SIZE]")
  case None
  then have all: "\<forall>i<8. \<not> push_bit i 1 AND pd_msg_buffer_allocated t = 0" unfolding find_None_upt .
  have "bit (pd_msg_buffer_allocated t) m" if "m < 8" for m
    using all[rule_format, OF that] mask_bit[OF that, of "pd_msg_buffer_allocated t"] by simp
  then show ?thesis using None by (auto simp: pd_alloc_msg_locked_def allocated_def)
next
  case (Some m)
  have m: "m < 8" "push_bit m 1 AND pd_msg_buffer_allocated t = 0"
    using Some unfolding find_Some_upt by blast+
  have "pd_alloc_msg_locked t =
      (Some m, t\<lparr>pd_msg_buffer_allocated := pd_msg_buffer_allocated t OR push_bit m 1\<rparr>)"
    using Some by (simp add: pd_alloc_msg_locked_def)
  then show ?thesis
    using m mask_bit[OF m(1), of "pd_msg_buffer_allocated t"]
    by (intro disjI1 exI[of _ m]) (auto simp: allocated_def with_pool_def bit_or_iff bit_mask)
qed

lemma free_msg:
  assumes "m \<in> allocated t"
  shows "allocated (pd_free_msg_locked m t) = allocated t - {m}"
    and "pd_free_msg_locked m t = with_pool (pd_msg_buffer_allocated (pd_free_msg_locked m t)) t"
proof -
  have m: "m < 8" "bit (pd_msg_buffer_allocated t) m" using assms by (simp_all add: allocated_def)
  then have "pd_free_msg_locked m t =
      t\<lparr>pd_msg_buffer_allocated := pd_msg_buffer_allocated t AND NOT (push_bit m 1)\<rparr>"
    using mask_bit[OF m(1), of "pd_msg_buffer_allocated t"] by (simp add: pd_free_msg_locked_def)
  then show "allocated (pd_free_msg_locked m t) = allocated t - {m}"
    and "pd_free_msg_locked m t = with_pool (pd_msg_buffer_allocated (pd_free_msg_locked m t)) t"
    by (auto simp: allocated_def with_pool_def bit_and_iff bit_not_iff bit_mask)
qed

end
