(* ===== verification/Tcpc_Owner.thy ===== *)
theory Tcpc_Owner
  imports Tcpc_Queue "HOL-Library.Multiset"
begin

unbundle bit_operations_syntax

text \<open>
  Who owns a message buffer of the Type-C event layer. Every allocated buffer is
  referenced exactly once: by an event in the queue, by the pending vendor message, or
  by a caller that has not handed it on yet. \<open>held\<close> is the multiset of the latter: the
  interrupt handler between allocation and posting, and the policy engine that handles
  an event. Under this invariant no buffer is freed twice and none leaks.
\<close>

section \<open>The invariant\<close>

definition msg_of :: "pd_event \<Rightarrow> nat multiset" where
  "msg_of e = (case pd_msg e of None \<Rightarrow> {#} | Some m \<Rightarrow> {#m#})"

definition slot :: "tcpc_device \<Rightarrow> nat multiset" where
  "slot t = (if pd_pending_vdm_event t then msg_of (pd_vdm_event t) else {#})"

definition refs :: "tcpc_device \<Rightarrow> nat multiset" where
  "refs t = sum_list (map msg_of (events t)) + slot t"

definition warns :: "tcpc_device \<Rightarrow> tcpc_act list" where
  "warns t = filter (\<lambda>a. a = WarnFree \<or> a = WarnNullMsg) (tc_log t)"

definition tcpc_ok :: "nat multiset \<Rightarrow> tcpc_device \<Rightarrow> bool" where
  "tcpc_ok held t \<longleftrightarrow> queues_ok t \<and> mset_set (allocated t) = refs t + held \<and> warns t = []"

text \<open>What the invariant depends on.\<close>

definition core where
  "core t = (pd_event_count t, pd_event_head_index t, pd_event_ring_buffer t,
     tcp_event_count t, tcp_event_head_index t, tcp_event_ring_buffer t,
     pd_msg_buffer_allocated t, pd_pending_vdm_event t, pd_vdm_event t, warns t)"

lemma core_queues:
  assumes "core t = core s"
  shows "events t = events s" "requests t = requests s" "queues_ok t = queues_ok s"
  using assms queues_frame[of t s] by (simp_all add: core_def)

lemma core_refs:
  assumes "core t = core s"
  shows "refs t = refs s" "slot t = slot s" "allocated t = allocated s" "warns t = warns s"
  using assms core_queues(1)[OF assms] by (simp_all add: core_def refs_def slot_def allocated_def)

lemma tcpc_ok_core: "core t = core s \<Longrightarrow> tcpc_ok held t = tcpc_ok held s"
  using core_queues[of t s] core_refs[of t s] by (simp add: tcpc_ok_def)

lemma core_act [simp]: "a \<noteq> WarnFree \<Longrightarrow> a \<noteq> WarnNullMsg \<Longrightarrow> core (act a t) = core t"
  by (simp add: core_def warns_def act_def)

lemma core_upd_port [simp]: "core (upd_port f t) = core t"
  by (simp add: core_def warns_def upd_port_def)

section \<open>Changes of the pool\<close>

lemma with_pool_queues [simp]:
  "events (with_pool w t) = events t" "requests (with_pool w t) = requests t"
  "queues_ok (with_pool w t) = queues_ok t" "slot (with_pool w t) = slot t"
  "warns (with_pool w t) = warns t" "refs (with_pool w t) = refs t"
proof -
  show e: "events (with_pool w t) = events t" and "requests (with_pool w t) = requests t"
    and "queues_ok (with_pool w t) = queues_ok t"
    using queues_frame[of "with_pool w t" t] by (simp_all add: with_pool_def)
  show s: "slot (with_pool w t) = slot t" and "warns (with_pool w t) = warns t"
    by (simp_all add: slot_def warns_def with_pool_def)
  show "refs (with_pool w t) = refs t" using e s by (simp add: refs_def)
qed

lemma free_event:
  assumes "msg_of e \<subseteq># mset_set (allocated t)"
  shows "mset_set (allocated (snd (pd_free_event_locked e t))) = mset_set (allocated t) - msg_of e"
    and "\<exists>w. snd (pd_free_event_locked e t) = with_pool w t"
proof -
  have in_alloc: "m \<in> allocated t" if "pd_msg e = Some m" for m
    using assms that by (simp add: msg_of_def)
  show "mset_set (allocated (snd (pd_free_event_locked e t))) = mset_set (allocated t) - msg_of e"
    using in_alloc free_msg(1)
    by (auto simp: pd_free_event_locked_def msg_of_def mset_set_Diff split: option.splits)
  have same: "t = with_pool (pd_msg_buffer_allocated t) t" by (simp add: with_pool_def)
  show "\<exists>w. snd (pd_free_event_locked e t) = with_pool w t"
    using in_alloc free_msg(2) same
    by (cases "pd_msg e") (auto simp: pd_free_event_locked_def)
qed

text \<open>A caller drops an event whose message it holds.\<close>

lemma ok_free_event:
  assumes "tcpc_ok held t" "msg_of e \<subseteq># held"
  shows "tcpc_ok (held - msg_of e) (snd (pd_free_event_locked e t))"
    and "events (snd (pd_free_event_locked e t)) = events t"
    and "slot (snd (pd_free_event_locked e t)) = slot t"
proof -
  have "msg_of e \<subseteq># mset_set (allocated t)"
    using assms by (simp add: tcpc_ok_def subset_mset.add_increasing)
  note f = free_event[OF this]
  obtain w where w: "snd (pd_free_event_locked e t) = with_pool w t" using f(2) by blast
  show "tcpc_ok (held - msg_of e) (snd (pd_free_event_locked e t))"
    using assms f(1) w by (simp add: tcpc_ok_def)
  show "events (snd (pd_free_event_locked e t)) = events t"
    and "slot (snd (pd_free_event_locked e t)) = slot t" using w by simp_all
qed

lemma ok_alloc:
  assumes "tcpc_ok held t" "pd_alloc_msg_locked t = (Some m, t')"
  shows "tcpc_ok (add_mset m held) t'" and "\<exists>w. t' = with_pool w t"
proof -
  have m: "m \<notin> allocated t" "allocated t' = insert m (allocated t)"
    "t' = with_pool (pd_msg_buffer_allocated t') t"
    using alloc_msg[of t] assms(2) by auto
  then show "tcpc_ok (add_mset m held) t'"
    using assms(1) by (simp add: tcpc_ok_def) (metis with_pool_queues(3,5,6))
  show "\<exists>w. t' = with_pool w t" using m(3) by blast
qed

section \<open>Queue operations\<close>

lemma ok_put_event:
  assumes "tcpc_ok held t" "msg_of e \<subseteq># held"
  shows "tcpc_ok (if fst (pd_put_event_locked e b t) then held - msg_of e else held)
    (snd (pd_put_event_locked e b t))"
proof -
  have q: "queues_ok t" using assms(1) by (simp add: tcpc_ok_def)
  let ?t = "snd (pd_put_event_locked e b t)"
  have "warns ?t = warns t"
    by (simp add: pd_put_event_locked_def postpone_vdm_event_def act_def warns_def Let_def)
  moreover have "slot ?t = slot t" "allocated ?t = allocated t" by (simp_all add: slot_def allocated_def)
  moreover have "held - msg_of e + msg_of e = held" using assms(2) by simp
  moreover note put_event_fifo[OF q, of e b]
  ultimately show ?thesis using assms(1)
    by (auto simp: tcpc_ok_def refs_def simp flip: add.assoc simp: add.commute add.left_commute)
qed

lemma ok_get_event:
  assumes "tcpc_ok held t" "pd_get_event_locked t = (Some e, t')"
  shows "tcpc_ok (held + msg_of e) t'" and "slot t' = slot t"
proof -
  have q: "queues_ok t" using assms(1) by (simp add: tcpc_ok_def)
  have t': "t' = snd (pd_get_event_locked t)" using assms(2) by simp
  have same: "slot t' = slot t" "allocated t' = allocated t" "warns t' = warns t"
    unfolding t' by (simp_all add: slot_def allocated_def warns_def)
  have ev: "events t = e # events t'"
    using get_event_fifo(1,2)[OF q] assms(2) by (auto split: list.splits)
  show "tcpc_ok (held + msg_of e) t'"
    using assms(1) same ev get_event_fifo(3)[OF q] t' by (simp add: tcpc_ok_def refs_def ac_simps)
  show "slot t' = slot t" by (rule same)
qed

section \<open>The vendor message slot\<close>

lemma slot_frame:
  fixes t
  defines "t' p e \<equiv> t\<lparr>pd_pending_vdm_event := p, pd_vdm_event := e\<rparr>"
  shows "events (t' p e) = events t" "queues_ok (t' p e) = queues_ok t"
    "allocated (t' p e) = allocated t" "warns (t' p e) = warns t"
    "slot (t' p e) = (if p then msg_of e else {#})"
  using queues_frame[of "t' p e" t]
  by (simp_all add: t'_def allocated_def warns_def slot_def)

text \<open>The content of the slot changes hands: from \<open>held\<close> into the slot and back.\<close>

lemma ok_slot:
  assumes "tcpc_ok held t" "held' + (if p then msg_of e else {#}) = held + slot t"
  shows "tcpc_ok held' (t\<lparr>pd_pending_vdm_event := p, pd_vdm_event := e\<rparr>)"
  using assms by (simp add: tcpc_ok_def refs_def slot_frame ac_simps)

lemma ok_slot_clear:
  assumes "tcpc_ok held t"
  shows "tcpc_ok (held + slot t) (t\<lparr>pd_pending_vdm_event := False\<rparr>)"
  using ok_slot[OF assms, of "held + slot t" False "pd_vdm_event t"] by simp

lemma free_vdm_event_eq:
  assumes "tcpc_ok held t" "pd_pending_vdm_event t"
  shows "tcpc_ok held (free_vdm_event t)" "pd_pending_vdm_event (free_vdm_event t)"
    "pd_msg (pd_vdm_event (free_vdm_event t)) = None"
    "events (free_vdm_event t) = events t"
    "\<exists>w e. free_vdm_event t = with_pool w t\<lparr>pd_vdm_event := e\<rparr>"
proof -
  let ?e = "pd_vdm_event t" and ?f = "pd_free_event_locked (pd_vdm_event t)"
  have sl: "slot t = msg_of ?e" using assms(2) by (simp add: slot_def)
  have le: "msg_of ?e \<subseteq># mset_set (allocated t)"
    using assms(1) sl by (simp add: tcpc_ok_def refs_def ac_simps)
  obtain w where w: "snd (?f t) = with_pool w t" using free_event(2)[OF le] by blast
  have fe: "pd_msg (fst (?f t)) = None" by (simp add: pd_free_event_locked_def split: option.splits)
  have eq: "free_vdm_event t = with_pool w t\<lparr>pd_vdm_event := fst (?f t)\<rparr>"
    using w by (simp add: free_vdm_event_def case_prod_beta)
  have pend: "pd_pending_vdm_event (with_pool w t)" using assms(2) by (simp add: with_pool_def)
  have upd: "free_vdm_event t =
      with_pool w t\<lparr>pd_pending_vdm_event := True, pd_vdm_event := fst (?f t)\<rparr>"
    using pend unfolding eq by (cases "with_pool w t") simp
  have al: "mset_set (allocated (with_pool w t)) = mset_set (allocated t) - msg_of ?e"
    using free_event(1)[OF le] w by simp
  have "mset_set (allocated t) - msg_of ?e = sum_list (map msg_of (events t)) + held"
    using assms(1) sl by (simp add: tcpc_ok_def refs_def ac_simps)
  then show "tcpc_ok held (free_vdm_event t)"
    using assms(1) al fe unfolding upd by (simp add: tcpc_ok_def refs_def slot_frame msg_of_def)
  show "pd_pending_vdm_event (free_vdm_event t)" "pd_msg (pd_vdm_event (free_vdm_event t)) = None"
    using fe unfolding upd by simp_all
  show "events (free_vdm_event t) = events t" unfolding upd by (simp add: slot_frame)
  show "\<exists>w e. free_vdm_event t = with_pool w t\<lparr>pd_vdm_event := e\<rparr>" using eq by blast
qed

lemma get_vdm_cases:
  assumes "pd_get_vdm_event t = (Some e, t')"
  shows "pd_msg e = None \<and> core t' = core t \<or>
    pd_pending_vdm_event t \<and> e = pd_vdm_event t \<and> t' = t\<lparr>pd_pending_vdm_event := False\<rparr> \<or>
    pd_get_attention_event t = (e, t')"
proof (cases "pd_pending_vdm_discard t \<or> pd_pending_vdm_event t")
  case True
  then show ?thesis using assms
    by (simp add: pd_get_vdm_event_def Let_def split: if_splits)
      (auto simp: core_def warns_def simp del: split_paired_Ex)
next
  case False
  then have "pd_pending_vdm_attention t \<and> pd_check_vdm_state_ready (pd_port t)"
    using assms by (simp add: pd_get_vdm_event_def Let_def split: if_splits)
  then show ?thesis using False assms
    by (simp add: pd_get_vdm_event_def Let_def split: prod.splits)
qed

lemma ok_get_vdm_event:
  assumes "tcpc_ok held t" "pd_get_vdm_event t = (Some e, t')"
  shows "tcpc_ok (held + msg_of e) t'"
proof -
  consider (simple) "msg_of e = {#}" "core t' = core t"
    | (slot) "pd_pending_vdm_event t" "e = pd_vdm_event t" "t' = t\<lparr>pd_pending_vdm_event := False\<rparr>"
    | (att) "pd_get_attention_event t = (e, t')"
    using get_vdm_cases[OF assms(2)] by (auto simp: msg_of_def)
  then show ?thesis
  proof cases
    case simple
    then show ?thesis using assms(1) tcpc_ok_core[of t' t] by simp
  next
    case slot
    then show ?thesis using ok_slot_clear[OF assms(1)] by (simp add: slot_def)
  next
    case att
    obtain r s where rs: "pd_alloc_msg_locked t = (r, s)" by fastforce
    show ?thesis
    proof (cases r)
      case None
      then have "s = act WarnAlloc t" using rs alloc_msg[of t] by auto
      then show ?thesis using att rs None assms(1) tcpc_ok_core[of t' t]
        by (auto simp: pd_get_attention_event_def msg_of_def)
    next
      case (Some m)
      have "core t' = core s" "msg_of e = {#m#}" using att rs Some
        by (auto simp: pd_get_attention_event_def core_def warns_def msg_of_def)
      then show ?thesis using ok_alloc(1)[OF assms(1) rs[unfolded Some]] tcpc_ok_core[of t' s] by simp
    qed
  qed
qed

lemma core_postpone [simp]: "core (postpone_vdm_event t) = core t"
  by (simp add: postpone_vdm_event_def core_def warns_def act_def)

lemma core_reset_pe_vdm [simp]: "core (snd (reset_pe_vdm_state h t)) = core t"
  by (simp add: reset_pe_vdm_state_def core_def warns_def Let_def)

lemma core_vdm_accept:
  assumes "b \<Longrightarrow> pd_msg e \<noteq> None"
  shows "core (vdm_accept e b t) = core (t\<lparr>pd_pending_vdm_event := True, pd_vdm_event := e\<rparr>)"
proof (cases b)
  case True
  then obtain m where "pd_msg e = Some m" using assms by blast
  then show ?thesis using True by (simp add: vdm_accept_def Let_def) (simp add: core_def warns_def)
next
  case False
  then show ?thesis by (simp add: vdm_accept_def Let_def) (simp add: core_def warns_def)
qed

lemma ok_vdm_accept:
  assumes "tcpc_ok held t" "msg_of e \<subseteq># held" "slot t = {#}" "b \<Longrightarrow> pd_msg e \<noteq> None"
  shows "tcpc_ok (held - msg_of e) (vdm_accept e b t)"
proof -
  have "tcpc_ok (held - msg_of e) (t\<lparr>pd_pending_vdm_event := True, pd_vdm_event := e\<rparr>)"
    using ok_slot[OF assms(1), of "held - msg_of e" True e] assms(2,3) by simp
  then show ?thesis using tcpc_ok_core[OF core_vdm_accept[OF assms(4)]] by blast
qed

lemma ok_put_vdm_event:
  assumes "tcpc_ok held t" "msg_of e \<subseteq># held" "b \<Longrightarrow> pd_msg e \<noteq> None"
  shows "\<exists>r t'. pd_put_vdm_event e b t = Inr (r, t') \<and> tcpc_ok (held - msg_of e) t'"
proof -
  define att where "att \<longleftrightarrow> b \<and> pd_is_init_attention_event (the (pd_msg e)) t"
  define t1 where "t1 = (if att
    then t\<lparr>pd_pending_vdm_attention := True, pd_attention_vdm_msg := pd_msg_buffer t ! the (pd_msg e),
           pending_event := pending_event t + 1\<rparr> else t)"
  define t2 where "t2 = (if pd_event_ctrl_msg_match (pd_vdm_event t1) PD_CTRL_GOOD_CRC
    then t1\<lparr>pd_pending_vdm_good_crc := True\<rparr> else t1)"
  have c: "core t1 = core t" "core t2 = core t"
    by (simp_all add: t1_def t2_def core_def warns_def)
  have ok1: "tcpc_ok held t1" and ok2: "tcpc_ok held t2"
    using assms(1) tcpc_ok_core[OF c(1)] tcpc_ok_core[OF c(2)] by simp_all
  have pend: "pd_pending_vdm_event t1 = pd_pending_vdm_event t" "pd_pending_vdm_event t2 = pd_pending_vdm_event t"
    using c by (simp_all add: core_def)
  consider (ignored) "att \<or> pd_pending_vdm_event t \<and> \<not> b"
    | (replace) "\<not> att" "pd_pending_vdm_event t" b
    | (fresh) "\<not> att" "\<not> pd_pending_vdm_event t" by blast
  then show ?thesis
  proof cases
    case ignored
    then have "pd_put_vdm_event e b t = Inr (False, snd (pd_free_event_locked e t1))"
      using assms(3) by (auto simp: pd_put_vdm_event_def Let_def att_def t1_def)
    then show ?thesis using ok_free_event(1)[OF ok1 assms(2)] by blast
  next
    case replace
    have "pd_put_vdm_event e b t = Inr (True, vdm_accept e b (free_vdm_event t2))"
      using replace assms(3) by (auto simp: pd_put_vdm_event_def Let_def att_def t1_def t2_def)
    moreover note f = free_vdm_event_eq[OF ok2]
    have "slot (free_vdm_event t2) = {#}" using f(3) replace pend(2) by (simp add: slot_def msg_of_def)
    then have "tcpc_ok (held - msg_of e) (vdm_accept e b (free_vdm_event t2))"
      using ok_vdm_accept f(1) assms(2,3) replace pend(2) by blast
    ultimately show ?thesis by blast
  next
    case fresh
    have "pd_put_vdm_event e b t = Inr (True, vdm_accept e b t1)"
      using fresh assms(3) by (auto simp: pd_put_vdm_event_def Let_def att_def t1_def)
    moreover have "slot t1 = {#}" using fresh pend(1) by (simp add: slot_def)
    ultimately show ?thesis using ok_vdm_accept[OF ok1 assms(2)] assms(3) by blast
  qed
qed

lemma ok_retry_last_vdm:
  assumes ok1: "tcpc_ok held t1"
  shows "tcpc_ok held (snd (retry_last_vdm t1))"
proof -
  define t2 where "t2 = t1\<lparr>pd_vdm_event := (pd_vdm_event t1)\<lparr>event_type := PD_EVT_HW_MSG, msg := PD_HW_RETRY_VDM\<rparr>\<rparr>"
  have "t2 = t1\<lparr>pd_pending_vdm_event := pd_pending_vdm_event t1, pd_vdm_event := pd_vdm_event t2\<rparr>"
    by (cases t1) (simp add: t2_def)
  moreover have "msg_of (pd_vdm_event t2) = msg_of (pd_vdm_event t1)" by (simp add: t2_def msg_of_def)
  ultimately have ok2: "tcpc_ok held t2"
    using ok_slot[OF ok1, of held "pd_pending_vdm_event t1" "pd_vdm_event t2"] by (simp add: slot_def)
  define t3 where "t3 = (if pd_pending_vdm_event t2 then free_vdm_event t2 else t2)"
  have ok3: "tcpc_ok held t3" and sl3: "slot t3 = {#}"
    using ok2 free_vdm_event_eq[OF ok2] by (simp_all add: t3_def slot_def msg_of_def)
  obtain r t4 where a: "pd_alloc_msg_locked t3 = (r, t4)" by fastforce
  define e where "e = (pd_vdm_event t4)\<lparr>pd_msg := r\<rparr>"
  have res: "snd (retry_last_vdm t1) = (case r of None \<Rightarrow> t4\<lparr>pd_vdm_event := e\<rparr>
      | Some i \<Rightarrow> postpone_vdm_event (t4\<lparr>pd_vdm_event := e,
               pd_msg_buffer := (pd_msg_buffer t4)[i := pd_last_vdm_msg t4],
               pd_pending_vdm_event := True, pd_postpone_vdm_timeout := True\<rparr>))"
    unfolding retry_last_vdm_def Let_def t2_def[symmetric] t3_def[symmetric] a e_def
    by (simp split: option.splits)
  show ?thesis
  proof (cases r)
    case None
    then have "t4 = act WarnAlloc t3" using a alloc_msg[of t3] by auto
    then have c4: "core t4 = core t3" by simp
    have "t4\<lparr>pd_vdm_event := e\<rparr> = t4\<lparr>pd_pending_vdm_event := pd_pending_vdm_event t4, pd_vdm_event := e\<rparr>"
      by (cases t4) simp
    moreover have "msg_of e = {#}" using None by (simp add: e_def msg_of_def)
    ultimately have "tcpc_ok held (t4\<lparr>pd_vdm_event := e\<rparr>)"
      using ok_slot[of held t4 held "pd_pending_vdm_event t4" e] ok3 tcpc_ok_core[OF c4]
        core_refs(2)[OF c4] sl3 by simp
    then show ?thesis using res None by simp
  next
    case (Some m)
    note al = ok_alloc[OF ok3 a[unfolded Some]]
    have sl4: "slot t4 = {#}" using al(2) sl3 by auto
    have "tcpc_ok held (t4\<lparr>pd_pending_vdm_event := True, pd_vdm_event := e\<rparr>)"
      using ok_slot[OF al(1), of held True e] sl4 Some by (simp add: e_def msg_of_def)
    moreover have "core (snd (retry_last_vdm t1)) =
        core (t4\<lparr>pd_pending_vdm_event := True, pd_vdm_event := e\<rparr>)"
      using Some res by simp (simp add: core_def warns_def)
    ultimately show ?thesis using tcpc_ok_core by blast
  qed
qed

lemma ok_put_last_vdm_event:
  assumes "tcpc_ok held t"
  shows "tcpc_ok held (snd (pd_put_last_vdm_event t))"
proof -
  define t0 where "t0 = t\<lparr>pd_pending_vdm_discard := True, pending_event := pending_event t + 1\<rparr>"
  define t1 where "t1 = snd (reset_pe_vdm_state (payload (pd_last_vdm_msg t0) ! 0) t0)"
  have c1: "core t1 = core t" by (simp add: t1_def) (simp add: t0_def core_def warns_def)
  have ok1: "tcpc_ok held t1" using assms tcpc_ok_core[OF c1] by simp
  have "snd (pd_put_last_vdm_event t) = t1 \<or> snd (pd_put_last_vdm_event t) = snd (retry_last_vdm t1)"
    unfolding pd_put_last_vdm_event_def Let_def t0_def[symmetric] t1_def by (simp add: case_prod_beta)
  then show ?thesis using ok1 ok_retry_last_vdm[OF ok1] by auto
qed

section \<open>Resets\<close>

lemma ok_event_drain:
  "tcpc_ok held t \<Longrightarrow> tcpc_ok held (pd_event_drain t) \<and> events (pd_event_drain t) = [] \<and>
    slot (pd_event_drain t) = slot t \<and> requests (pd_event_drain t) = requests t \<and>
    pd_port (pd_event_drain t) = pd_port t \<and> tc_log (pd_event_drain t) = tc_log t \<and>
    pd_wait_hard_reset_complete (pd_event_drain t) = pd_wait_hard_reset_complete t \<and>
    pending_event (pd_event_drain t) = pending_event t"
proof (induction t rule: pd_event_drain.induct)
  case (1 t)
  obtain r t' where g: "pd_get_event_locked t = (r, t')" by fastforce
  have q: "queues_ok t" using 1(2) by (simp add: tcpc_ok_def)
  show ?case
  proof (cases r)
    case None
    then have "t' = t" using g by (auto simp: pd_get_event_locked_def Let_def split: if_splits)
    moreover have "events t = []" using get_event_fifo(1)[OF q] g None by (auto split: list.splits)
    ultimately show ?thesis using g None 1(2) pd_event_drain.simps[of t] by simp
  next
    case (Some e)
    note g1 = g[unfolded Some]
    note ok' = ok_get_event[OF 1(2) g1]
    let ?f = "snd (pd_free_event_locked e t')"
    have f: "tcpc_ok held ?f" "slot ?f = slot t'"
      using ok_free_event[OF ok'(1), of e] by simp_all
    have "msg_of e \<subseteq># mset_set (allocated t')" using ok'(1) by (simp add: tcpc_ok_def)
    then obtain w where w: "?f = with_pool w t'" using free_event(2) by blast
    have same: "requests ?f = requests t" "pd_port ?f = pd_port t" "tc_log ?f = tc_log t"
      "pd_wait_hard_reset_complete ?f = pd_wait_hard_reset_complete t" "pending_event ?f = pending_event t"
      using get_event_fifo(4)[OF q] get_event_frame[of t] g1 unfolding w by (simp_all add: with_pool_def)
        (metis with_pool_queues(2) with_pool_def)
    have "pd_event_drain t = pd_event_drain ?f" using g1 pd_event_drain.simps[of t] by simp
    then show ?thesis using 1(1)[OF _ Some f(1)] g f(2) ok'(2) same by auto
  qed
qed

text \<open>The callbacks for a list of requests that end with \<open>reason\<close>.\<close>

definition callbacks :: "nat \<Rightarrow> tcp_dpm_event list \<Rightarrow> tcpc_act list" where
  "callbacks reason es = map (EventCb reason) (filter (\<lambda>e. event_cb e \<noteq> None) es)"

lemma callbacks_simps [simp]:
  "callbacks r [] = []"
  "callbacks r (e # es) = (if event_cb e \<noteq> None then EventCb r e # callbacks r es else callbacks r es)"
  by (simp_all add: callbacks_def)

lemma warns_callbacks [simp]:
  "filter (\<lambda>a. a = WarnFree \<or> a = WarnNullMsg) (callbacks r es) = []"
  by (simp add: callbacks_def)

text \<open>What a device keeps when only its requests and its log change.\<close>

definition pd_side where
  "pd_side t = (pd_event_count t, pd_event_head_index t, pd_event_ring_buffer t,
     pd_msg_buffer_allocated t, pd_pending_vdm_event t, pd_vdm_event t, pd_port t,
     pd_wait_hard_reset_complete t, pending_event t,
     (pd_pending_vdm_reset t, pd_pending_vdm_good_crc t, pd_pending_vdm_attention t, pd_pending_vdm_discard t))"

lemma pd_side_refs:
  assumes "pd_side t = pd_side s"
  shows "slot t = slot s" "allocated t = allocated s"
  using assms by (simp_all add: pd_side_def slot_def allocated_def)

lemma call_event_cb_eq: "call_event_cb r e t = t\<lparr>tc_log := tc_log t @ callbacks r [e]\<rparr>"
  by (cases t) (simp add: call_event_cb_def act_def)

lemma tcp_event_drain_eq:
  "queues_ok t \<Longrightarrow> requests (tcp_event_drain r t) = [] \<and> queues_ok (tcp_event_drain r t) \<and>
    events (tcp_event_drain r t) = events t \<and> pd_side (tcp_event_drain r t) = pd_side t \<and>
    tc_log (tcp_event_drain r t) = tc_log t @ callbacks r (requests t)"
proof (induction r t rule: tcp_event_drain.induct)
  case (1 r t)
  obtain o' t' where g: "pd_get_deferred_tcp_event_locked t = (o', t')" by fastforce
  note fifo = get_request_fifo[OF 1(2)]
  have side: "pd_side t' = pd_side t" "tc_log t' = tc_log t"
    using g by (auto simp: pd_get_deferred_tcp_event_locked_def pd_side_def Let_def split: if_splits)
  show ?case
  proof (cases o')
    case None
    then have "requests t = []" using fifo(1) g by (auto split: list.splits)
    then show ?thesis using g None fifo side tcp_event_drain.simps[of r t] by simp
  next
    case (Some e)
    let ?c = "call_event_cb r e t'"
    have rq: "requests t = e # requests t'" using fifo(1,2) g Some by (auto split: list.splits)
    have c: "events ?c = events t'" "requests ?c = requests t'" "queues_ok ?c = queues_ok t'"
      using queues_frame[of ?c t'] by (simp_all add: call_event_cb_eq)
    have cs: "pd_side ?c = pd_side t'" "tc_log ?c = tc_log t' @ callbacks r [e]"
      by (simp_all add: call_event_cb_eq pd_side_def)
    have "tcp_event_drain r t = tcp_event_drain r ?c" using g Some tcp_event_drain.simps[of r t] by simp
    then show ?thesis using 1(1)[OF _ Some, of t'] g Some fifo side c cs rq by simp
  qed
qed

lemma notify_2nd_core [simp]: "core (pd_notify_tcp_event_2nd_result r t) = core t"
  by (simp add: pd_notify_tcp_event_2nd_result_def call_event_cb_def Let_def)

lemma notify_1st_core [simp]: "core (pd_notify_tcp_event_1st_result r t) = core t"
  by (simp add: pd_notify_tcp_event_1st_result_def call_event_cb_def Let_def)

lemma ok_tcp_reset:
  assumes "tcpc_ok held t"
  shows "tcpc_ok held (tcp_event_buf_reset_locked r t) \<and> requests (tcp_event_buf_reset_locked r t) = [] \<and>
    events (tcp_event_buf_reset_locked r t) = events t \<and> slot (tcp_event_buf_reset_locked r t) = slot t"
proof -
  let ?n = "pd_notify_tcp_event_2nd_result r t" and ?d = "tcp_event_buf_reset_locked r t"
  have c: "core ?n = core t" by simp
  have ok: "tcpc_ok held ?n" using assms tcpc_ok_core[OF c] by simp
  note d = tcp_event_drain_eq[of ?n r]
  have dd: "requests ?d = []" "queues_ok ?d" "events ?d = events ?n" "pd_side ?d = pd_side ?n"
    "tc_log ?d = tc_log ?n @ callbacks r (requests ?n)"
    using d ok by (simp_all add: tcpc_ok_def tcp_event_buf_reset_locked_def)
  have "warns ?d = warns ?n" using dd(5) by (simp add: warns_def)
  moreover note pd_side_refs[OF dd(4)]
  ultimately have "tcpc_ok held ?d" using ok dd by (simp add: tcpc_ok_def refs_def)
  then show ?thesis using dd pd_side_refs(1)[OF dd(4)] core_queues(1)[OF c] core_refs(2)[OF c] by simp
qed

lemma ok_event_buf_reset:
  assumes "tcpc_ok held t"
  shows "tcpc_ok held (pd_event_buf_reset_locked r t) \<and> refs (pd_event_buf_reset_locked r t) = {#} \<and>
    events (pd_event_buf_reset_locked r t) = [] \<and> requests (pd_event_buf_reset_locked r t) = []"
proof -
  define t0 where "t0 = t\<lparr>pd_hard_reset_event_pending := False\<rparr>"
  have c0: "core t0 = core t" by (simp add: t0_def core_def warns_def)
  have ok0: "tcpc_ok held t0" using assms tcpc_ok_core[OF c0] by simp
  define t1 where "t1 = pd_event_drain t0"
  have ok1: "tcpc_ok held t1" "events t1 = []" using ok_event_drain[OF ok0] by (simp_all add: t1_def)
  define t2 where "t2 = (if pd_pending_vdm_event t1 then (free_vdm_event t1)\<lparr>pd_pending_vdm_event := False\<rparr> else t1)"
  have ok2: "tcpc_ok held t2 \<and> events t2 = [] \<and> slot t2 = {#}"
  proof (cases "pd_pending_vdm_event t1")
    case True
    note f = free_vdm_event_eq[OF ok1(1) True]
    have "slot (free_vdm_event t1) = {#}" using f(3) by (simp add: slot_def msg_of_def)
    then have "tcpc_ok held t2" using ok_slot_clear[OF f(1)] True by (simp add: t2_def)
    moreover have "events t2 = events (free_vdm_event t1)"
      using True queues_frame(1)[of t2 "free_vdm_event t1"] by (simp add: t2_def)
    ultimately show ?thesis using f(4) ok1(2) True by (simp add: t2_def slot_def)
  next
    case False
    then show ?thesis using ok1 by (simp add: t2_def slot_def)
  qed
  define t3 where "t3 = t2\<lparr>pd_pending_vdm_reset := False, pd_pending_vdm_good_crc := False,
              pd_pending_vdm_attention := False, pd_pending_vdm_discard := False\<rparr>"
  have c3: "core t3 = core t2" by (simp add: t3_def core_def warns_def)
  have "pd_event_buf_reset_locked r t = tcp_event_buf_reset_locked r t3"
    unfolding pd_event_buf_reset_locked_def Let_def t0_def[symmetric] t1_def[symmetric]
      t2_def[symmetric] t3_def ..
  moreover have "tcpc_ok held t3" "events t3 = []" "slot t3 = {#}"
    using ok2 tcpc_ok_core[OF c3] core_queues(1)[OF c3] core_refs(2)[OF c3] by simp_all
  ultimately show ?thesis using ok_tcp_reset[of held t3 r] by (simp add: refs_def)
qed

end
