(* ===== verification/Tcpc_Correct.thy ===== *)
theory Tcpc_Correct
  imports Tcpc_Owner
begin

unbundle bit_operations_syntax

text \<open>
  The Type-C event layer as a system: every operation of interrupt handlers, Type-C state
  machine, port manager and policy engine as a step, the ownership invariant on all
  reachable states, and the properties of the layer: order of events, no double free and
  no leak, resets, the window of a hard reset, and that no queued event is slept over.
\<close>

section \<open>Operations keep the invariant\<close>

lemma ok_fields [simp]:
  "tcpc_ok h (t\<lparr>pending_event := a\<rparr>) = tcpc_ok h t"
  "tcpc_ok h (t\<lparr>wake_lock_pd := a\<rparr>) = tcpc_ok h t"
  "tcpc_ok h (t\<lparr>pd_msg_buffer := ms\<rparr>) = tcpc_ok h t"
  "tcpc_ok h (t\<lparr>pd_pe_running := b\<rparr>) = tcpc_ok h t"
  "tcpc_ok h (t\<lparr>pd_wait_pe_idle := b\<rparr>) = tcpc_ok h t"
  "tcpc_ok h (t\<lparr>pd_hard_reset_event_pending := b\<rparr>) = tcpc_ok h t"
  "tcpc_ok h (t\<lparr>pd_wait_hard_reset_complete := b\<rparr>) = tcpc_ok h t"
  "tcpc_ok h (t\<lparr>pd_wait_pr_swap_complete := b\<rparr>) = tcpc_ok h t"
  "tcpc_ok h (t\<lparr>pd_ping_event_pending := b\<rparr>) = tcpc_ok h t"
  "tcpc_ok h (t\<lparr>pd_bist_mode := a\<rparr>) = tcpc_ok h t"
  "tcpc_ok h (t\<lparr>pd_transmit_state := a\<rparr>) = tcpc_ok h t"
  "tcpc_ok h (t\<lparr>pd_wait_vbus_once := a\<rparr>) = tcpc_ok h t"
  "tcpc_ok h (t\<lparr>pd_during_direct_charge := b\<rparr>) = tcpc_ok h t"
  "tcpc_ok h (t\<lparr>pd_discard_pending := b\<rparr>) = tcpc_ok h t"
  "tcpc_ok h (t\<lparr>vbus_level := a\<rparr>) = tcpc_ok h t"
  "tcpc_ok h (t\<lparr>vbus_present := b\<rparr>) = tcpc_ok h t"
  by (rule tcpc_ok_core, simp add: core_def warns_def)+

lemma ok_act [simp]: "a \<noteq> WarnFree \<Longrightarrow> a \<noteq> WarnNullMsg \<Longrightarrow> tcpc_ok h (act a t) = tcpc_ok h t"
  by (rule tcpc_ok_core) simp

lemma ok_upd_port [simp]: "tcpc_ok h (upd_port f t) = tcpc_ok h t"
  by (rule tcpc_ok_core) simp

lemma ok_put_simple [simp]:
  "pd_msg e = None \<Longrightarrow> tcpc_ok h t \<Longrightarrow> tcpc_ok h (snd (pd_put_event_locked e b t))"
  using ok_put_event[of h t e b] by (simp add: msg_of_def split: if_splits)

lemma pd_msg_simple [simp]: "pd_msg (simple_evt a b c) = None"
  by (simp add: simple_evt_def)

lemma ok_put_hw [simp]: "tcpc_ok h t \<Longrightarrow> tcpc_ok h (snd (pd_put_hw_event_locked e t))"
  by (simp add: pd_put_hw_event_locked_def)

lemma ok_put_pe [simp]: "tcpc_ok h t \<Longrightarrow> tcpc_ok h (snd (pd_put_pe_event_locked e t))"
  by (simp add: pd_put_pe_event_locked_def)

lemma ok_reset [simp]: "tcpc_ok h t \<Longrightarrow> tcpc_ok h (pd_event_buf_reset_locked r t)"
  using ok_event_buf_reset by blast

lemma ok_reset_tcp [simp]: "tcpc_ok h t \<Longrightarrow> tcpc_ok h (tcp_event_buf_reset_locked r t)"
  using ok_tcp_reset by blast

lemma ok_notify_hr [simp]: "tcpc_ok h t \<Longrightarrow> tcpc_ok h (tcpci_notify_hard_reset_state s t)"
  by (simp add: tcpci_notify_hard_reset_state_def)

lemma ok_vbus_present [simp]: "tcpc_ok h t \<Longrightarrow> tcpc_ok h (pd_report_vbus_present t)"
  by (simp add: pd_report_vbus_present_def)

lemma ok_vbus_changed [simp]: "tcpc_ok h t \<Longrightarrow> tcpc_ok h (pd_put_vbus_changed_event ic t)"
  by (simp add: pd_put_vbus_changed_event_def Let_def)

lemma ok_vbus_safe0v [simp]: "tcpc_ok h t \<Longrightarrow> tcpc_ok h (pd_put_vbus_safe0v_event t)"
  by (simp add: pd_put_vbus_safe0v_event_def)

lemma ok_cc_attached [simp]: "tcpc_ok h t \<Longrightarrow> tcpc_ok h (snd (pd_put_cc_attached_event ty t))"
  by (simp add: pd_put_cc_attached_event_def Let_def)

lemma ok_cc_detached [simp]: "tcpc_ok h t \<Longrightarrow> tcpc_ok h (pd_put_cc_detached_event t)"
  by (simp add: pd_put_cc_detached_event_def Let_def)

lemma ok_tcp_put:
  assumes "tcpc_ok h t"
  shows "tcpc_ok h (snd (tcp_put e t))"
proof -
  have q: "queues_ok t" using assms by (simp add: tcpc_ok_def)
  have "slot (snd (tcp_put e t)) = slot t" "allocated (snd (tcp_put e t)) = allocated t"
    "warns (snd (tcp_put e t)) = warns t"
    by (simp_all add: tcp_put_def pd_put_deferred_tcp_event_locked_def slot_def allocated_def warns_def Let_def)
  then show ?thesis using assms put_request_fifo(2,3)[OF q, of e] by (simp add: tcpc_ok_def refs_def)
qed

lemma ok_put_deferred:
  assumes "tcpc_ok h t"
  shows "tcpc_ok h (snd (pd_put_deferred_tcp_event e t))"
proof (cases "\<not> pd_pe_running t \<or> pd_wait_pe_idle t \<or> tcp_event_count t \<ge> TCP_EVENT_BUF_SIZE \<or>
    pd_wait_hard_reset_complete t")
  case True
  then show ?thesis using assms by (auto simp: pd_put_deferred_tcp_event_def)
next
  case False
  let ?c = "event_id e = TCP_DPM_EVT_DISCOVER_CABLE \<or> event_id e = TCP_DPM_EVT_CABLE_SOFTRESET"
  let ?t = "if ?c then upd_port (dpm_reaction_set
    (DPM_REACTION_DYNAMIC_VCONN OR DPM_REACTION_VCONN_STABLE_DELAY)) t else t"
  have "tcpc_ok h ?t" using assms by simp
  moreover have "tcp_event_count ?t < TCP_EVENT_BUF_SIZE" using False by (simp add: upd_port_def)
  ultimately have "tcpc_ok h (snd (pd_put_deferred_tcp_event_locked e ?t))"
    using ok_tcp_put[of h ?t e] by (simp add: tcp_put_def split: if_splits)
  then show ?thesis using False
    by (simp add: pd_put_deferred_tcp_event_def Let_def case_prod_beta split: if_splits)
qed

lemma ok_get_deferred_locked:
  assumes "tcpc_ok h t"
  shows "tcpc_ok h (snd (pd_get_deferred_tcp_event_locked t))"
proof -
  let ?t = "snd (pd_get_deferred_tcp_event_locked t)"
  have "slot ?t = slot t" "allocated ?t = allocated t" "warns ?t = warns t"
    by (simp_all add: pd_get_deferred_tcp_event_locked_def slot_def allocated_def warns_def Let_def)
  then show ?thesis using assms get_request_fifo(3,4)[of t] by (simp add: tcpc_ok_def refs_def)
qed

lemma ok_try_get_deferred: "tcpc_ok h t \<Longrightarrow> tcpc_ok h (snd (pd_try_get_deferred_tcp_event t))"
  using ok_get_deferred_locked[of h t]
  by (auto simp: pd_try_get_deferred_tcp_event_def pd_get_deferred_tcp_event_def Let_def case_prod_beta
      split: option.splits)

section \<open>The operations as one step\<close>

text \<open>Every operation that does not hand over a message buffer.\<close>

datatype tcpc_op =
  OpPut nat nat nat bool | OpAttached nat | OpDetached | OpBufReset | OpRecvHardReset | OpSentHardReset
| OpVbusChanged bool | OpVbusSafe0v | OpVbusStable | OpVbusPresent | OpVbusLevel "16 word"
| OpTryPeIdle | OpPeIdle | OpWaitVbus nat | OpErrorRecovery | OpTransitDefault nat | OpHardResetDone
| OpSendHardReset | OpExecutePrSwap bool | OpCancelPrSwap | OpResetProtocol | OpBistMode nat
| OpTransmitMsg nat | OpPrChanged | OpSnkContract | OpSrcContract | OpDirectCharge bool
| OpTxDiscard | OpHardResetAlert "32 word" | OpPortChanged | OpDefer tcp_dpm_event | OpTakeDeferred
| OpResult1st nat | OpResult2nd nat | OpVdmResult2nd nat | OpDropRequests nat

fun run_op :: "tcpc_op \<Rightarrow> tcpc_device \<Rightarrow> tcpc_device" where
  "run_op (OpPut ty m sec b) t = snd (pd_put_event (simple_evt ty m sec) b t)"
| "run_op (OpAttached ty) t = snd (pd_put_cc_attached_event ty t)"
| "run_op OpDetached t = pd_put_cc_detached_event t"
| "run_op OpBufReset t = pd_event_buf_reset t"
| "run_op OpRecvHardReset t = tcpci_alert_recv_hard_reset t"
| "run_op OpSentHardReset t = pd_put_sent_hard_reset_event t"
| "run_op (OpVbusChanged ic) t = pd_put_vbus_changed_event ic t"
| "run_op OpVbusSafe0v t = pd_put_vbus_safe0v_event t"
| "run_op OpVbusStable t = pd_put_vbus_stable_event t"
| "run_op OpVbusPresent t = pd_put_vbus_present_event t"
| "run_op (OpVbusLevel ps) t = tcpci_vbus_level_init ps t"
| "run_op OpTryPeIdle t = pd_try_put_pe_idle_event t"
| "run_op OpPeIdle t = pd_notify_pe_idle t"
| "run_op (OpWaitVbus w) t = pd_notify_pe_wait_vbus_once w t"
| "run_op OpErrorRecovery t = pd_notify_pe_error_recovery t"
| "run_op (OpTransitDefault s) t = pd_notify_pe_transit_to_default s t"
| "run_op OpHardResetDone t = pd_notify_pe_hard_reset_completed t"
| "run_op OpSendHardReset t = pd_notify_pe_send_hard_reset t"
| "run_op (OpExecutePrSwap b) t = pd_notify_pe_execute_pr_swap b t"
| "run_op OpCancelPrSwap t = pd_notify_pe_cancel_pr_swap t"
| "run_op OpResetProtocol t = pd_notify_pe_reset_protocol t"
| "run_op (OpBistMode m) t = pd_noitfy_pe_bist_mode m t"
| "run_op (OpTransmitMsg ty) t = pd_notify_pe_transmit_msg ty t"
| "run_op OpPrChanged t = pd_notify_pe_pr_changed t"
| "run_op OpSnkContract t = pd_notify_pe_snk_explicit_contract t"
| "run_op OpSrcContract t = pd_notify_pe_src_explicit_contract t"
| "run_op (OpDirectCharge en) t = pd_notify_pe_direct_charge en t"
| "run_op OpTxDiscard t = tcpci_alert_tx_discard t"
| "run_op (OpHardResetAlert al) t = snd (tcpci_check_hard_reset_complete al t)"
| "run_op OpPortChanged t = tcpci_report_usb_port_changed t"
| "run_op (OpDefer e) t = snd (pd_put_deferred_tcp_event e t)"
| "run_op OpTakeDeferred t = snd (pd_try_get_deferred_tcp_event t)"
| "run_op (OpResult1st r) t = pd_notify_tcp_event_1st_result r t"
| "run_op (OpResult2nd r) t = pd_notify_tcp_event_2nd_result r t"
| "run_op (OpVdmResult2nd r) t = pd_notify_tcp_vdm_event_2nd_result r t"
| "run_op (OpDropRequests r) t = pd_notify_tcp_event_buf_reset r t"

lemma ok_recv_hard_reset [simp]: "tcpc_ok h t \<Longrightarrow> tcpc_ok h (pd_put_recv_hard_reset_event t)"
  by (simp add: pd_put_recv_hard_reset_event_def Let_def)

lemma ok_sent_hard_reset [simp]: "tcpc_ok h t \<Longrightarrow> tcpc_ok h (pd_put_sent_hard_reset_event t)"
  by (simp add: pd_put_sent_hard_reset_event_def Let_def)

lemma ok_wake_lock [simp]: "tcpc_ok h (tcpci_set_wake_lock_pd b t) = tcpc_ok h t"
  by (simp add: tcpci_set_wake_lock_pd_def Let_def)

lemma ok_src_contract: "tcpc_ok h t \<Longrightarrow> tcpc_ok h (pd_notify_pe_src_explicit_contract t)"
  by (simp add: pd_notify_pe_src_explicit_contract_def Let_def)

lemma ok_notify_1st: "tcpc_ok h (pd_notify_tcp_event_1st_result r t) = tcpc_ok h t"
  by (rule tcpc_ok_core) simp

lemma ok_notify_2nd: "tcpc_ok h (pd_notify_tcp_event_2nd_result r t) = tcpc_ok h t"
  by (rule tcpc_ok_core) simp

lemma ok_notify_vdm_2nd: "tcpc_ok h (pd_notify_tcp_vdm_event_2nd_result r t) = tcpc_ok h t"
  by (simp add: pd_notify_tcp_vdm_event_2nd_result_def call_event_cb_def Let_def)

lemmas op_defs = pd_put_event_def pd_event_buf_reset_def tcpci_alert_recv_hard_reset_def
  pd_put_vbus_stable_event_def pd_put_vbus_present_event_def tcpci_vbus_level_init_def
  tcpci_vbus_level_init_v10_def tcpci_vbus_level_refresh_def pd_try_put_pe_idle_event_def
  pd_notify_pe_idle_def pd_notify_pe_wait_vbus_once_def pd_notify_pe_error_recovery_def
  pd_notify_pe_transit_to_default_def pd_notify_pe_hard_reset_completed_def
  pd_notify_pe_send_hard_reset_def pd_notify_pe_execute_pr_swap_def pd_notify_pe_cancel_pr_swap_def
  pd_notify_pe_reset_protocol_def pd_noitfy_pe_bist_mode_def pd_notify_pe_transmit_msg_def
  pd_notify_pe_pr_changed_def pd_notify_pe_snk_explicit_contract_def pd_notify_pe_direct_charge_def
  pd_put_hw_event_def pd_put_tcp_pd_event_def tcpci_check_hard_reset_complete_def
  tcpci_report_usb_port_changed_def tcpci_report_usb_port_attached_def
  tcpci_report_usb_port_detached_def pd_notify_tcp_event_buf_reset_def

lemma ok_tx_discard: "tcpc_ok h t \<Longrightarrow> tcpc_ok h (tcpci_alert_tx_discard t)"
  using ok_put_last_vdm_event[of h "t\<lparr>pd_transmit_state := PD_TX_STATE_DISCARD\<rparr>"]
  by (simp add: tcpci_alert_tx_discard_def pd_put_hw_event_def pd_put_event_def Let_def)

lemma ok_run_op:
  assumes "tcpc_ok h t"
  shows "tcpc_ok h (run_op op t)"
  using assms ok_src_contract[OF assms] ok_tx_discard[OF assms] ok_put_deferred[OF assms]
    ok_try_get_deferred[OF assms]
  by (cases op) (simp_all add: op_defs Let_def ok_notify_1st ok_notify_2nd ok_notify_vdm_2nd)

section \<open>Received messages\<close>

lemma ok_free_msg:
  assumes "tcpc_ok h t" "m \<in># h"
  shows "tcpc_ok (h - {#m#}) (pd_free_msg_locked m t)"
  using ok_free_event(1)[OF assms(1), of "\<lparr>event_type = 0, msg = 0, msg_sec = 0, pd_msg = Some m\<rparr>"] assms(2)
  by (simp add: msg_of_def pd_free_event_locked_def)

lemma ok_msg_filter:
  assumes "tcpc_ok h t" "m \<in># h"
  shows "case pd_msg_filter m t of (None, t') \<Rightarrow> tcpc_ok (h - {#m#}) t' | (Some d, t') \<Rightarrow> tcpc_ok h t'"
  using assms ok_free_msg[OF assms] ok_free_msg[of h "t\<lparr>pd_discard_pending := False\<rparr>" m]
  by (simp add: pd_msg_filter_def Let_def)

text \<open>The message of an accepted vendor event is in the slot, an ignored one is not.\<close>

lemma put_vdm_result:
  assumes "pd_put_vdm_event e b t = Inr (r, t')" "r"
  shows "pd_pending_vdm_event t' \<and> pd_vdm_event t' = e"
proof -
  obtain s where "t' = vdm_accept e b s" "b \<Longrightarrow> pd_msg e \<noteq> None"
    using assms by (auto simp: pd_put_vdm_event_def Let_def split: if_splits)
  then show ?thesis using core_vdm_accept[of b e s] by (simp add: core_def)
qed

lemma put_vdm_ignored:
  assumes "tcpc_ok h t" "m \<in># h" "pd_put_vdm_event e True t = Inr (False, t')" "pd_msg e = Some m"
  shows "m \<notin> allocated t'"
proof -
  obtain s where s: "t' = pd_free_msg_locked m s" "core s = core t"
    using assms(3,4)
    by (auto simp: pd_put_vdm_event_def Let_def pd_free_event_locked_def core_def warns_def split: if_splits)
  have "tcpc_ok h s" using assms(1) tcpc_ok_core[OF s(2)] by simp
  then have "m \<in> allocated s" using assms(2)
    by (metis tcpc_ok_def elem_mset_set finite_allocated union_iff)
  then show ?thesis using free_msg(1)[of m s] s(1) by simp
qed

lemma ok_put_pd_msg:
  assumes "tcpc_ok h t" "m \<in># h"
  shows "\<exists>r t'. pd_put_pd_msg_event m t = Inr (r, t') \<and> tcpc_ok (h - {#m#}) t'"
proof -
  obtain o' t1 where f: "pd_msg_filter m t = (o', t1)" by fastforce
  define e where "e = \<lparr>event_type = PD_EVT_PD_MSG, msg = 0, msg_sec = 0, pd_msg = Some m\<rparr>"
  have me: "msg_of e = {#m#}" "pd_msg e \<noteq> None" by (simp_all add: e_def msg_of_def)
  show ?thesis
  proof (cases o')
    case None
    then show ?thesis using ok_msg_filter[OF assms] f
      by (intro exI[of _ False] exI[of _ t1]) (simp add: pd_put_pd_msg_event_def Let_def)
  next
    case (Some d)
    define t2 where "t2 = (if d then snd (pd_put_hw_event PD_HW_TX_FAILED (act (DisableTimer PD_TIMER_DISCARD) t1)) else t1)"
    have ok2: "tcpc_ok h t2" using ok_msg_filter[OF assms] f Some
      by (simp add: t2_def pd_put_hw_event_def pd_put_event_def)
    have eq: "pd_put_pd_msg_event m t =
        (if PD_HEADER_CNT (msg_hdr (pd_msg_buffer t ! m)) \<noteq> 0 \<and>
            PD_HEADER_TYPE (msg_hdr (pd_msg_buffer t ! m)) = PD_DATA_VENDOR_DEF
         then pd_put_vdm_event e True t2
         else let (r, t3) = pd_put_event_locked e True t2
              in if r then Inr (True, t3) else Inr (False, snd (pd_free_event_locked e t3)))"
      unfolding pd_put_pd_msg_event_def Let_def f Some e_def[symmetric] t2_def
      by (simp add: pd_put_event_def pd_free_event_def case_prod_beta split: prod.splits bool.splits)
    have vdm: "\<exists>r t'. pd_put_vdm_event e True t2 = Inr (r, t') \<and> tcpc_ok (h - {#m#}) t'"
      using ok_put_vdm_event[OF ok2, of e True] assms(2) me by simp
    have put: "tcpc_ok (if fst (pd_put_event_locked e True t2) then h - {#m#} else h)
        (snd (pd_put_event_locked e True t2))"
      using ok_put_event[OF ok2, of e True] assms(2) unfolding me(1) by simp
    then have drop: "tcpc_ok (h - {#m#}) (snd (pd_free_event_locked e (snd (pd_put_event_locked e True t2))))"
      if "\<not> fst (pd_put_event_locked e True t2)"
      using that ok_free_event(1)[of h _ e] assms(2) me by simp
    show ?thesis using vdm put drop unfolding eq by (auto simp: Let_def case_prod_beta)
  qed
qed

lemma allocated_iff:
  assumes "tcpc_ok h t"
  shows "m \<in> allocated t \<longleftrightarrow> m \<in># refs t \<or> m \<in># h" and "count h m \<le> 1"
proof -
  have eq: "mset_set (allocated t) = refs t + h" using assms by (simp add: tcpc_ok_def)
  show "m \<in> allocated t \<longleftrightarrow> m \<in># refs t \<or> m \<in># h"
    using arg_cong[OF eq, of set_mset] by auto
  have "count (mset_set (allocated t)) m \<le> 1" by (simp add: count_mset_set')
  then show "count h m \<le> 1" unfolding eq by simp
qed

lemma freed_not_allocated:
  assumes "tcpc_ok h t" "m \<in># h"
  shows "m \<notin> allocated (pd_free_msg_locked m t)"
  using free_msg(1)[of m t] allocated_iff(1)[OF assms(1), of m] assms(2) by simp

lemma msg_filter_dropped:
  assumes "tcpc_ok h t" "m \<in># h" "pd_msg_filter m t = (None, t')"
  shows "m \<notin> allocated t'"
proof -
  have "allocated (act a s) = allocated s" for a s by (simp add: allocated_def act_def)
  moreover have "tcpc_ok h (t\<lparr>pd_discard_pending := False\<rparr>)" using assms(1) by simp
  ultimately show ?thesis using assms freed_not_allocated
    by (auto simp: pd_msg_filter_def Let_def split: if_splits)
qed

text \<open>Whether a received message is kept: exactly when the result is true.\<close>

lemma put_pd_msg_kept:
  assumes "tcpc_ok h t" "m \<in># h" "pd_put_pd_msg_event m t = Inr (r, t')"
  shows "r \<longleftrightarrow> m \<in> allocated t'"
proof -
  obtain o' t1 where f: "pd_msg_filter m t = (o', t1)" by fastforce
  define e where "e = \<lparr>event_type = PD_EVT_PD_MSG, msg = 0, msg_sec = 0, pd_msg = Some m\<rparr>"
  have me: "msg_of e = {#m#}" "pd_msg e = Some m" by (simp_all add: e_def msg_of_def)
  show ?thesis
  proof (cases o')
    case None
    then show ?thesis using assms(3) f msg_filter_dropped[OF assms(1,2)]
      by (auto simp: pd_put_pd_msg_event_def Let_def)
  next
    case (Some d)
    define t2 where "t2 = (if d then snd (pd_put_hw_event PD_HW_TX_FAILED (act (DisableTimer PD_TIMER_DISCARD) t1)) else t1)"
    have ok2: "tcpc_ok h t2" using ok_msg_filter[OF assms(1,2)] f Some
      by (simp add: t2_def pd_put_hw_event_def pd_put_event_def)
    have ok': "tcpc_ok (h - {#m#}) t'" using ok_put_pd_msg[OF assms(1,2)] assms(3) by auto
    consider (vdm) "pd_put_vdm_event e True t2 = Inr (r, t')"
      | (put) "pd_put_event_locked e True t2 = (True, t')" "r"
      | (full) t3 where "pd_put_event_locked e True t2 = (False, t3)" "\<not> r" "t' = pd_free_msg_locked m t3"
      using assms(3) unfolding pd_put_pd_msg_event_def Let_def f Some e_def[symmetric] t2_def[symmetric]
      by (auto simp: pd_put_event_def pd_free_event_def pd_free_event_locked_def e_def[symmetric] me(2)
          t2_def[symmetric] split: if_splits prod.splits bool.splits)
    then show ?thesis
    proof cases
      case vdm
      show ?thesis
      proof (cases r)
        case True
        then have "m \<in># slot t'" using put_vdm_result[OF vdm] me by (simp add: slot_def)
        then show ?thesis using True allocated_iff(1)[OF ok', of m] by (simp add: refs_def)
      next
        case False
        then show ?thesis using put_vdm_ignored[OF ok2 assms(2) _ me(2)] vdm by simp
      qed
    next
      case put
      have "queues_ok t2" using ok2 by (simp add: tcpc_ok_def)
      from put_event_fifo(1,2)[OF this, of e True] have "events t' = events t2 @ [e]" using put by simp
      then have "m \<in># refs t'" by (simp add: refs_def me(1))
      then show ?thesis using put(2) allocated_iff(1)[OF ok', of m] by simp
    next
      case full
      have "tcpc_ok h t3" using ok_put_event[OF ok2, of e True] full(1) assms(2) by (simp add: me(1))
      then show ?thesis using full freed_not_allocated[OF _ assms(2)] by blast
    qed
  qed
qed

section \<open>Reachable states\<close>

inductive tcpc_step :: "nat multiset \<times> tcpc_device \<Rightarrow> nat multiset \<times> tcpc_device \<Rightarrow> bool" where
  post: "tcpc_step (h, t) (h, run_op op t)"
| alloc: "pd_alloc_msg t = (Some m, t') \<Longrightarrow> tcpc_step (h, t) (add_mset m h, t')"
| alloc_fail: "pd_alloc_msg t = (None, t') \<Longrightarrow> tcpc_step (h, t) (h, t')"
| fill: "tcpc_step (h, t) (h, t\<lparr>pd_msg_buffer := ms\<rparr>)"
| free: "m \<in># h \<Longrightarrow> tcpc_step (h, t) (h - {#m#}, pd_free_msg m t)"
| receive: "m \<in># h \<Longrightarrow> pd_put_pd_msg_event m t = Inr (r, t') \<Longrightarrow> tcpc_step (h, t) (h - {#m#}, t')"
| put_vdm: "pd_msg e = None \<Longrightarrow> pd_put_vdm_event e False t = Inr (r, t') \<Longrightarrow> tcpc_step (h, t) (h, t')"
| tx_success: "tcpci_alert_tx_success t = Inr t' \<Longrightarrow> tcpc_step (h, t) (h, t')"
| tx_failed: "tcpci_alert_tx_failed t = Inr t' \<Longrightarrow> tcpc_step (h, t) (h, t')"
| recv_alert: "tcpci_alert_recv_msg r t = Inr (rv, t') \<Longrightarrow> tcpc_step (h, t) (h, t')"
| take_event: "pd_get_event t = (Some e, t') \<Longrightarrow> tcpc_step (h, t) (h + msg_of e, t')"
| take_vdm: "pd_try_get_vdm_event sc t = (Some e, t') \<Longrightarrow> tcpc_step (h, t) (h + msg_of e, t')"
| release: "msg_of e \<subseteq># h \<Longrightarrow> pd_free_event e t = (e', t') \<Longrightarrow> tcpc_step (h, t) (h - msg_of e, t')"

definition tcpc_init :: "tcpc_device \<Rightarrow> bool" where
  "tcpc_init t \<longleftrightarrow> pd_event_count t = 0 \<and> pd_event_head_index t = 0 \<and>
     length (pd_event_ring_buffer t) = PD_EVENT_BUF_SIZE \<and>
     tcp_event_count t = 0 \<and> tcp_event_head_index t = 0 \<and>
     length (tcp_event_ring_buffer t) = TCP_EVENT_BUF_SIZE \<and>
     pd_msg_buffer_allocated t = 0 \<and> \<not> pd_pending_vdm_event t \<and> tc_log t = []"

inductive tcpc_reach :: "nat multiset \<times> tcpc_device \<Rightarrow> bool" where
  init: "tcpc_init t \<Longrightarrow> tcpc_reach ({#}, t)"
| step: "tcpc_reach s \<Longrightarrow> tcpc_step s s' \<Longrightarrow> tcpc_reach s'"

inductive_cases tcpc_stepE: "tcpc_step (h, t) (h', t')"

lemma ok_init: "tcpc_init t \<Longrightarrow> tcpc_ok {#} t"
  by (simp add: tcpc_init_def tcpc_ok_def queues_ok_def pdq.ring_ok_def tcpq.ring_ok_def refs_def slot_def
      events_def pdq.contents_def allocated_def warns_def)

lemma ok_tx_alerts:
  assumes "tcpc_ok h t"
  shows "tcpci_alert_tx_success t = Inr t' \<Longrightarrow> tcpc_ok h t'"
    and "tcpci_alert_tx_failed t = Inr t' \<Longrightarrow> tcpc_ok h t'"
proof -
  have vdm: "tcpc_ok h t'" if "pd_put_vdm_event (simple_evt a b c) False (t\<lparr>pd_transmit_state := s\<rparr>) = Inr (r, t')"
    for a b c s r
    using that ok_put_vdm_event[of h "t\<lparr>pd_transmit_state := s\<rparr>" "simple_evt a b c" False] assms
    by (simp add: msg_of_def)
  show "tcpci_alert_tx_success t = Inr t' \<Longrightarrow> tcpc_ok h t'" "tcpci_alert_tx_failed t = Inr t' \<Longrightarrow> tcpc_ok h t'"
    using assms vdm
    by (auto simp: tcpci_alert_tx_success_def tcpci_alert_tx_failed_def vdm_put_hw_event_def pd_put_hw_event_def
        pd_put_event_def Let_def fault_simps split: if_splits)
qed

lemma ok_recv_msg:
  assumes "tcpc_ok h t"
  shows "\<exists>rv t'. tcpci_alert_recv_msg r t = Inr (rv, t') \<and> tcpc_ok h t'"
proof -
  define t0 where "t0 = (if rx_is_sc2150a r then act (SetRxEnable PD_RX_CAP_PE_STARTUP) t else t)"
  have ok0: "tcpc_ok h t0" using assms by (simp add: t0_def)
  obtain o' t1 where a: "pd_alloc_msg_locked t0 = (o', t1)" by fastforce
  show ?thesis
  proof (cases o')
    case None
    then have "t1 = act WarnAlloc t0" using a alloc_msg[of t0] by auto
    then show ?thesis using a None ok0
      by (simp add: tcpci_alert_recv_msg_def Let_def t0_def[symmetric] pd_alloc_msg_def)
  next
    case (Some m)
    have ok1: "tcpc_ok (add_mset m h) t1" using ok_alloc(1)[OF ok0 a[unfolded Some]] .
    define t2 where "t2 = (if rx_rv r = 0 \<and> rx_is_sc2150a r then act (SetRxEnable (rx_cap (pd_port t1))) t1 else t1)"
    define t3 where "t3 = t2\<lparr>pd_msg_buffer := (pd_msg_buffer t2)[m :=
      \<lparr>frame_type = rx_type r, msg_hdr = rx_hdr r, payload = rx_payload r\<rparr>]\<rparr>"
    have "tcpc_ok (add_mset m h) t3" using ok1 by (simp add: t3_def t2_def)
    from ok_put_pd_msg[OF this, of m] obtain x t4 where p: "pd_put_pd_msg_event m t3 = Inr (x, t4)" "tcpc_ok h t4"
      by auto
    have "tcpci_alert_recv_msg r t = (if rx_rv r < 0
        then Inr (rx_rv r, act (AlertStatusClear TCPC_REG_ALERT_RX_MASK) (pd_free_msg m t1))
        else Inr (rx_rv r, act (AlertStatusClear TCPC_REG_ALERT_RX_MASK) t4))"
      unfolding tcpci_alert_recv_msg_def Let_def t0_def[symmetric] pd_alloc_msg_def a Some
      by (simp add: t2_def[symmetric] t3_def[symmetric] p(1))
    then show ?thesis using p(2) ok_free_msg[OF ok1, of m] by (simp add: pd_free_msg_def)
  qed
qed

lemma tcpc_step_ok:
  assumes "tcpc_step s s'" "tcpc_ok (fst s) (snd s)"
  shows "tcpc_ok (fst s') (snd s')"
  using assms
proof (induction rule: tcpc_step.induct)
  case (alloc_fail t t' h)
  then have "t' = act WarnAlloc t" using alloc_msg[of t] by (auto simp: pd_alloc_msg_def)
  then show ?case using alloc_fail by simp
next
  case (receive m h t r t')
  then show ?case using ok_put_pd_msg[of h t m] by auto
next
  case (put_vdm e t r t' h)
  then show ?case using ok_put_vdm_event[of h t e False] by (auto simp: msg_of_def)
next
  case (recv_alert r t rv t' h)
  then show ?case using ok_recv_msg[of h t r] by auto
next
  case (take_vdm sc t e t' h)
  then have "pd_get_vdm_event t = (Some e, t')"
    by (auto simp: pd_try_get_vdm_event_def Let_def split: if_splits)
  then show ?case using take_vdm ok_get_vdm_event by auto
next
  case (release e h t e' t')
  then show ?case using ok_free_event(1)[of h t e] by (simp add: pd_free_event_def)
next
  case (post h t op)
  then show ?case using ok_run_op[of h t op] by simp
next
  case (alloc t m t' h)
  then show ?case using ok_alloc(1)[of h t m t'] by (simp add: pd_alloc_msg_def)
next
  case (fill h t ms)
  then show ?case by simp
next
  case (free m h t)
  then show ?case using ok_free_msg[of h t m] by (simp add: pd_free_msg_def)
next
  case (tx_success t t' h)
  then show ?case using ok_tx_alerts(1)[of h t t'] by simp
next
  case (tx_failed t t' h)
  then show ?case using ok_tx_alerts(2)[of h t t'] by simp
next
  case (take_event t e t' h)
  then show ?case using ok_get_event(1)[of h t e t'] by (simp add: pd_get_event_def)
qed

lemma tcpc_reach_ok: "tcpc_reach s \<Longrightarrow> tcpc_ok (fst s) (snd s)"
proof (induction rule: tcpc_reach.induct)
  case (init t)
  then show ?case by (simp add: ok_init)
next
  case (step s s')
  then show ?case using tcpc_step_ok by blast
qed

end
