(* ===== verification/Tcpc_Spec.thy ===== *)
theory Tcpc_Spec
  imports Tcpc_Correct
begin

unbundle bit_operations_syntax

text \<open>
  The promises of the Type-C event layer, on every state that its operations can reach:
  first-in first-out order, every message buffer freed exactly once, a detach that
  leaves nothing behind and answers every deferred request, loops that end, requests
  refused during a hard reset, and an event thread that does not sleep over an event.
\<close>

section \<open>A concrete device\<close>

definition zero_msg :: pd_msg where
  "zero_msg = \<lparr>frame_type = 0, msg_hdr = 0, payload = replicate 7 0\<rparr>"

definition zero_tcp_event :: tcp_dpm_event where
  "zero_tcp_event = \<lparr>event_id = 0, user_data = 0, event_cb = None, tcp_dpm_data = replicate 7 0\<rparr>"

definition zero_caps :: pd_port_power_caps where
  "zero_caps = \<lparr>caps_nr = 0, caps_pdos = replicate 7 0\<rparr>"

definition zero_pe_data :: pe_data where
  "zero_pe_data = \<lparr>pd_connected = False, modal_operation = False, pe_ready = False, reset_vdm_state = False,
     cable_rev_discovered = False, cap_counter = 0, discover_id_counter = 0, hard_reset_counter = 0,
     renegotiation_count = 0, vdm_discard_retry_flag = False, vdm_discard_retry_count = 0, dpm_reaction_id = 0, dpm_reaction_retry = 0,
     pe_state_flags = 0, pe_state_flags2 = 0, vdm_state_flags = 0, pe_state_timer = 0, local_alert = 0,
     remote_alert = 0, remote_svids = [], dp_local_status = 0, dp_local_config = 0, dpm_svdm_retry_cnt = 0,
     get_status_once = False, pd_status_event = 0, partner_id_present = False, partner_vdos = replicate 6 0\<rparr>"

definition zero_vdm :: vdm_info where
  "zero_vdm = \<lparr>curr_vdm_hdr = 0, curr_vdm_ops = 0, curr_vdm_svid = 0, uvdm_wait_resp = False, uvdm_cnt = 0,
     uvdm_data = replicate 7 0, mode_svid = 0, mode_obj_pos = 0, svid_data = [], uvdm_svid = 0,
     id_header = 0, id_vdos = replicate 6 0, id_vdo_nr = 0\<rparr>"

definition zero_info :: port_info where
  "zero_info = \<lparr>src_cap_ext = replicate 24 0, mfrs_ids = replicate 4 0, mfrs_string = replicate 22 0, fix_bat_info = [],
     country_info = [], pd_status_present_in = 0, pd_status_bat_in = 0, pd_status_temp = 0, pd_status_temp_status = 0\<rparr>"

definition zero_port :: pd_port where
  "zero_port = \<lparr>rx_cap = 0, pe_pd_state = 0, pe_vdm_state = 0, pe_state_curr = 0,
     curr_ready_state = 0, data_role = 0, pd_revision0 = 0, request_v = 0, request_apdo = False,
     tcp_event = zero_tcp_event, tcp_event_id_1st = 0, tcp_event_id_2nd = 0, tcp_event_drop_reset_once = False,
     explicit_contract = False, during_swap = False, pd_traffic_idle = False, pd_traffic_control = 0,
     vdm_state_timer = 0, dpm_ready_reactions = 0, request_i = - 1, request_v_new = 0, request_i_new = 0,
     request_i_op = 0, request_i_max = 0, request_v_apdo = 0, request_i_apdo = 0, request_apdo_new = False,
     last_rdo = 0, dpm_caps = 0, dpm_flags = 0, dpm_charging_policy = 0, cap_miss_match = 0,
     local_src_cap = zero_caps, local_snk_cap = zero_caps, local_src_cap_default = zero_caps,
     local_snk_cap_nr_pd30 = 0, local_snk_cap_nr_pd20 = 0, remote_src_cap = zero_caps,
     remote_snk_cap = zero_caps, local_selected_cap = 0, remote_selected_cap = 0,
     invalid_contract = False, power_cable_present = False, pd_prev_connected = False,
     cable_vdos = replicate 6 0, vconn_role = 0, vconn_highv_prot = False, vconn_highv_prot_role = 0,
     curr_pd_event = simple_evt 0 0 0, pd_msg_data_count = 0, pd_msg_data_payload = None,
     msg_id_tx = replicate 3 0, msg_id_rx = replicate 3 8,
     pe_state_next = 0, state_machine = 0, power_role = 0, curr_hreset_state = 0, curr_sreset_state = 0,
     curr_unsupported_msg = False, curr_msg_hdr = 0, curr_is_vdm_evt = False, miss_msg = False,
     msg_id_pr_swap_last = 0, error_recovery_once = 0, pd_revision1 = 0, bat_nr = 0, country_nr = 0,
     pd_msg_data_size = 0, dpm_charging_policy_default = 0,
     msg_output_lock = False, pe_data = zero_pe_data, vdm_info = zero_vdm, port_info = zero_info\<rparr>"

definition zero_tcpc :: tcpc_device where
  "zero_tcpc = \<lparr>pending_event = 0, typec_local_rp_level = 0, typec_remote_rp_level = 0, typec_usb_sink_curr = 500, typec_polarity = False,
     typec_remote_cc1 = 0, typec_remote_cc2 = 0, typec_attach_old = 0,
     typec_attach_new = 0, wake_lock_pd = 0, tcpc_flags = 0, pd_event_count = 0, pd_event_head_index = 0,
     pd_msg_buffer_allocated = 0, pd_pending_vdm_event = False, pd_pending_vdm_reset = False,
     pd_pending_vdm_good_crc = False, pd_pending_vdm_discard = False, pd_pending_vdm_attention = False,
     pd_postpone_vdm_timeout = False, pd_last_vdm_msg = zero_msg, pd_attention_vdm_msg = zero_msg,
     pd_vdm_event = simple_evt 0 0 0, pd_msg_buffer = replicate PD_MSG_BUF_SIZE zero_msg,
     pd_event_ring_buffer = replicate PD_EVENT_BUF_SIZE (simple_evt 0 0 0), tcp_event_count = 0,
     tcp_event_head_index = 0, tcp_event_ring_buffer = replicate TCP_EVENT_BUF_SIZE zero_tcp_event,
     pd_pe_running = False, pd_wait_pe_idle = False, pd_hard_reset_event_pending = False,
     pd_wait_hard_reset_complete = False, pd_wait_pr_swap_complete = False, pd_ping_event_pending = False,
     pd_bist_mode = 0, pd_transmit_state = 0, pd_retry_count = 0, pd_wait_vbus_once = 0, pd_during_direct_charge = False,
     pd_discard_pending = False, disable_pe = False, tcpc_vconn_supply = 0, vbus_level = 0, vbus_safe0v = False, vbus_present = False,
     pd_inited_flag = True, pd_port = zero_port, tc_log = []\<rparr>"

lemma zero_reach: "tcpc_reach ({#}, zero_tcpc)"
  by (rule tcpc_reach.init) (simp add: tcpc_init_def zero_tcpc_def)

text \<open>A device with one message allocated.\<close>

definition one_msg :: tcpc_device where
  "one_msg = snd (pd_alloc_msg zero_tcpc)"

lemma alloc_zero: "pd_alloc_msg zero_tcpc = (Some 0, one_msg)"
  by (simp add: one_msg_def pd_alloc_msg_def pd_alloc_msg_locked_def zero_tcpc_def upt_rec)

lemma one_msg_reach: "tcpc_reach ({#0#}, one_msg)"
  using tcpc_reach.step[OF zero_reach tcpc_step.alloc[OF alloc_zero]] .

lemma reach_op: "tcpc_reach (h, t) \<Longrightarrow> tcpc_reach (h, run_op op t)"
  using tcpc_reach.step tcpc_step.post by blast

section \<open>Order of events\<close>

text \<open>
  C28. The event queue is a bounded first-in first-out queue of 16 events and the queue of
  deferred requests one of 4: a put succeeds exactly while there is room and appends, a
  get takes the oldest element or reports that there is none.\<close>
theorem event_queues_fifo:
  assumes "tcpc_reach (h, t)"
  shows "(fst (pd_put_event e b t) \<longleftrightarrow> length (events t) < PD_EVENT_BUF_SIZE) \<and>
    events (snd (pd_put_event e b t)) = (if length (events t) < PD_EVENT_BUF_SIZE then events t @ [e] else events t) \<and>
    fst (pd_get_event t) = (case events t of [] \<Rightarrow> None | e # es \<Rightarrow> Some e) \<and>
    events (snd (pd_get_event t)) = tl (events t) \<and>
    fst (pd_get_deferred_tcp_event t) = (case requests t of [] \<Rightarrow> None | r # rs \<Rightarrow> Some r) \<and>
    requests (snd (pd_get_deferred_tcp_event t)) = tl (requests t) \<and>
    requests (snd (pd_put_deferred_tcp_event r t)) =
      (if fst (pd_put_deferred_tcp_event r t) then requests t @ [r] else requests t) \<and>
    (fst (pd_put_deferred_tcp_event r t) \<longrightarrow> length (requests t) < TCP_EVENT_BUF_SIZE)"
proof -
  have q: "queues_ok t" using tcpc_reach_ok[OF assms] by (simp add: tcpc_ok_def)
  have act_upd: "requests (act a s) = requests s" "requests (upd_port f s) = requests s"
    for a s f
    using queues_frame(2)[of "act a s" s] queues_frame(2)[of "upd_port f s" s]
    by (simp_all add: act_def upd_port_def)
  have get: "fst (pd_get_deferred_tcp_event t) = fst (pd_get_deferred_tcp_event_locked t)"
    "requests (snd (pd_get_deferred_tcp_event t)) = requests (snd (pd_get_deferred_tcp_event_locked t))"
    by (simp_all add: pd_get_deferred_tcp_event_def Let_def case_prod_beta act_upd)
  have len: "length (requests t) = tcp_event_count t" by (simp add: requests_def)
  have put: "requests (snd (pd_put_deferred_tcp_event r t)) =
      (if fst (pd_put_deferred_tcp_event r t) then requests t @ [r] else requests t)"
    "fst (pd_put_deferred_tcp_event r t) \<longrightarrow> length (requests t) < TCP_EVENT_BUF_SIZE"
  proof -
    let ?c = "event_id r = TCP_DPM_EVT_DISCOVER_CABLE \<or> event_id r = TCP_DPM_EVT_CABLE_SOFTRESET"
    let ?t = "if ?c then upd_port (dpm_reaction_set
      (DPM_REACTION_DYNAMIC_VCONN OR DPM_REACTION_VCONN_STABLE_DELAY)) t else t"
    have q': "queues_ok ?t" "requests ?t = requests t" "tcp_event_count ?t = tcp_event_count t"
      using q queues_frame(3)[of ?t t] act_upd(2) by (simp_all add: upd_port_def)
    have "requests (snd (pd_put_deferred_tcp_event_locked r ?t)) = requests t @ [r]"
      if "tcp_event_count t < 4"
      using put_request_fifo(1)[OF q'(1), of r] q'(2,3) that len by (simp add: tcp_put_def)
    then show "requests (snd (pd_put_deferred_tcp_event r t)) =
      (if fst (pd_put_deferred_tcp_event r t) then requests t @ [r] else requests t)"
      "fst (pd_put_deferred_tcp_event r t) \<longrightarrow> length (requests t) < TCP_EVENT_BUF_SIZE"
      by (auto simp: pd_put_deferred_tcp_event_def Let_def case_prod_beta act_upd len
          pd_put_deferred_tcp_event_locked_def[of r ?t])
  qed
  show ?thesis
    using put_event_fifo(1,2)[OF q, of e b] get_event_fifo(1,2)[OF q] get_request_fifo(1,2)[OF q] get put
    by (simp add: pd_put_event_def pd_get_event_def)
qed

lemma event_queues_fifo_witness:
  "fst (pd_put_event (simple_evt 5 1 1) False zero_tcpc) \<and> fst (pd_get_event zero_tcpc) = None \<and>
   events (snd (pd_put_event (simple_evt 5 1 1) False zero_tcpc)) = [simple_evt 5 1 1]"
proof -
  have "events zero_tcpc = []" by (simp add: events_def pdq.contents_def zero_tcpc_def)
  then show ?thesis
    using event_queues_fifo[OF zero_reach, of "simple_evt 5 1 1" False zero_tcp_event] by simp
qed

section \<open>Message buffers\<close>

text \<open>
  C3. In every reachable state each allocated message buffer is referenced exactly once,
  by a queued event, by the pending vendor message or by the code that holds it; no
  buffer was ever freed twice, and posting a held message always returns.\<close>
theorem no_double_free:
  assumes "tcpc_reach (h, t)"
  shows "mset_set (allocated t) = refs t + h \<and> WarnFree \<notin> set (tc_log t) \<and> WarnNullMsg \<notin> set (tc_log t) \<and>
    (\<forall>m. m \<in># h \<longrightarrow> (\<exists>r t'. pd_put_pd_msg_event m t = Inr (r, t')))"
proof -
  have ok: "tcpc_ok h t" using tcpc_reach_ok[OF assms] by simp
  then have "warns t = []" by (simp add: tcpc_ok_def)
  then have "WarnFree \<notin> set (tc_log t)" "WarnNullMsg \<notin> set (tc_log t)"
    by (auto simp: warns_def filter_empty_conv)
  moreover have "\<forall>m. m \<in># h \<longrightarrow> (\<exists>r t'. pd_put_pd_msg_event m t = Inr (r, t'))"
    using ok_put_pd_msg[OF ok] by blast
  ultimately show ?thesis using ok by (simp add: tcpc_ok_def)
qed

lemma no_double_free_witness:
  "mset_set (allocated one_msg) = refs one_msg + {#0#} \<and> (\<exists>r t'. pd_put_pd_msg_event 0 one_msg = Inr (r, t'))"
  using no_double_free[OF one_msg_reach] by simp

text \<open>
  C32. A received message that is posted is either kept or freed, never both and never
  neither: \<open>pd_put_pd_msg_event\<close> returns true exactly when the buffer stays allocated and
  is then referenced by the queue or by the vendor message slot.\<close>
theorem message_handed_over:
  assumes "tcpc_reach (h, t)" "m \<in># h" "pd_put_pd_msg_event m t = Inr (r, t')"
  shows "(r \<longleftrightarrow> m \<in> allocated t') \<and> (r \<longleftrightarrow> m \<in># refs t')"
proof -
  have ok: "tcpc_ok h t" using tcpc_reach_ok[OF assms(1)] by simp
  have "tcpc_reach (h - {#m#}, t')"
    using tcpc_reach.step[OF assms(1) tcpc_step.receive[OF assms(2,3)]] .
  then have ok': "tcpc_ok (h - {#m#}) t'" using tcpc_reach_ok by fastforce
  have "m \<notin># h - {#m#}" using allocated_iff(2)[OF ok, of m] assms(2)
    by (simp add: not_in_iff)
  then show ?thesis using put_pd_msg_kept[OF ok assms(2,3)] allocated_iff(1)[OF ok', of m] by simp
qed

lemma message_handed_over_witness:
  "\<exists>r t'. pd_put_pd_msg_event 0 one_msg = Inr (r, t') \<and> (r \<longleftrightarrow> 0 \<in> allocated t')"
proof -
  obtain r t' where "pd_put_pd_msg_event 0 one_msg = Inr (r, t')"
    using ok_put_pd_msg[of "{#0#}" one_msg 0] tcpc_reach_ok[OF one_msg_reach] by auto
  then show ?thesis using message_handed_over[OF one_msg_reach, of 0] by auto
qed

section \<open>Resets\<close>

text \<open>
  C40. The loops that empty the two queues end from every state, whatever the indices are:
  the iteration of the loop body reaches a state with an empty queue, and it is the
  result of the reset.\<close>
theorem drain_loops_end:
  "while_option (\<lambda>t. fst (pd_get_event_locked t) \<noteq> None)
     (\<lambda>t. snd (pd_free_event_locked (the (fst (pd_get_event_locked t))) (snd (pd_get_event_locked t)))) t
   = Some (pd_event_drain t) \<and>
   while_option (\<lambda>t. fst (pd_get_deferred_tcp_event_locked t) \<noteq> None)
     (\<lambda>t. call_event_cb reason (the (fst (pd_get_deferred_tcp_event_locked t)))
        (snd (pd_get_deferred_tcp_event_locked t))) t
   = Some (tcp_event_drain reason t)"
proof
  show "while_option (\<lambda>t. fst (pd_get_event_locked t) \<noteq> None)
     (\<lambda>t. snd (pd_free_event_locked (the (fst (pd_get_event_locked t))) (snd (pd_get_event_locked t)))) t
   = Some (pd_event_drain t)"
  proof (induction t rule: pd_event_drain.induct)
    case (1 t)
    obtain r t' where g: "pd_get_event_locked t = (r, t')" by fastforce
    have "t' = t" if "r = None"
      using that g by (auto simp: pd_get_event_locked_def Let_def split: if_splits)
    then show ?case using 1[of r t'] g pd_event_drain.simps[of t]
      by (subst while_option_unfold) (cases r, simp_all)
  qed
  show "while_option (\<lambda>t. fst (pd_get_deferred_tcp_event_locked t) \<noteq> None)
     (\<lambda>t. call_event_cb reason (the (fst (pd_get_deferred_tcp_event_locked t)))
        (snd (pd_get_deferred_tcp_event_locked t))) t
   = Some (tcp_event_drain reason t)"
  proof (induction reason t rule: tcp_event_drain.induct)
    case (1 reason t)
    obtain r t' where g: "pd_get_deferred_tcp_event_locked t = (r, t')" by fastforce
    have "t' = t" if "r = None"
      using that g by (auto simp: pd_get_deferred_tcp_event_locked_def Let_def split: if_splits)
    then show ?case using 1[of r t'] g tcp_event_drain.simps[of reason t]
      by (subst while_option_unfold) (cases r, simp_all)
  qed
qed

lemma put_event_log: "tc_log (snd (pd_put_event_locked e False t)) = tc_log t"
  by (simp add: pd_put_event_locked_def Let_def)

text \<open>The log and the hard-reset flag through a reset.\<close>

lemma reset_log:
  assumes "tcpc_ok h t"
  shows "\<exists>mid. tc_log (pd_event_buf_reset_locked r t) = tc_log t @ mid @ callbacks r (requests t) \<and>
      set mid \<subseteq> {EventCb r (tcp_event (pd_port t))}"
    and "pd_wait_hard_reset_complete (pd_event_buf_reset_locked r t) = pd_wait_hard_reset_complete t"
    and "pending_event (pd_event_buf_reset_locked r t) = pending_event t"
proof -
  define t0 where "t0 = t\<lparr>pd_hard_reset_event_pending := False\<rparr>"
  have c0: "core t0 = core t" by (simp add: t0_def core_def warns_def)
  have ok0: "tcpc_ok h t0" using assms tcpc_ok_core[OF c0] by simp
  define t1 where "t1 = pd_event_drain t0"
  note d = ok_event_drain[OF ok0]
  have t1: "tcpc_ok h t1" "requests t1 = requests t" "pd_port t1 = pd_port t" "tc_log t1 = tc_log t"
    "pd_wait_hard_reset_complete t1 = pd_wait_hard_reset_complete t" "pending_event t1 = pending_event t"
    using d core_queues(2)[OF c0] unfolding t1_def[symmetric] by (simp_all add: t0_def)
  define t2 where "t2 = (if pd_pending_vdm_event t1 then (free_vdm_event t1)\<lparr>pd_pending_vdm_event := False\<rparr> else t1)"
  define t3 where "t3 = t2\<lparr>pd_pending_vdm_reset := False, pd_pending_vdm_good_crc := False,
              pd_pending_vdm_attention := False, pd_pending_vdm_discard := False\<rparr>"
  have t2: "requests t2 = requests t1 \<and> queues_ok t2 \<and> pd_port t2 = pd_port t1 \<and> tc_log t2 = tc_log t1 \<and>
    pd_wait_hard_reset_complete t2 = pd_wait_hard_reset_complete t1 \<and> pending_event t2 = pending_event t1"
  proof (cases "pd_pending_vdm_event t1")
    case True
    obtain w e where "free_vdm_event t1 = with_pool w t1\<lparr>pd_vdm_event := e\<rparr>"
      using free_vdm_event_eq(5)[OF t1(1) True] by blast
    then show ?thesis using True t1(1) queues_frame(2,3)[of t2 t1]
      by (simp add: t2_def with_pool_def tcpc_ok_def)
  next
    case False
    then show ?thesis using t1(1) by (simp add: t2_def tcpc_ok_def)
  qed
  have q3: "requests t3 = requests t" "queues_ok t3" "pd_port t3 = pd_port t" "tc_log t3 = tc_log t"
    "pd_wait_hard_reset_complete t3 = pd_wait_hard_reset_complete t" "pending_event t3 = pending_event t"
    using t1 t2 queues_frame(2,3)[of t3 t2] by (simp_all add: t3_def)
  define n where "n = pd_notify_tcp_event_2nd_result r t3"
  have cn: "core n = core t3" by (simp add: n_def)
  have n: "\<exists>mid. tc_log n = tc_log t @ mid \<and> set mid \<subseteq> {EventCb r (tcp_event (pd_port t))}"
    "pd_wait_hard_reset_complete n = pd_wait_hard_reset_complete t" "pending_event n = pending_event t"
    unfolding n_def pd_notify_tcp_event_2nd_result_def call_event_cb_def Let_def
    using q3 by (auto simp: act_def upd_port_def)
  have res: "pd_event_buf_reset_locked r t = tcp_event_drain r n"
    unfolding pd_event_buf_reset_locked_def Let_def t0_def[symmetric] t1_def[symmetric]
      t2_def[symmetric] t3_def n_def tcp_event_buf_reset_locked_def ..
  note dr = tcp_event_drain_eq[of n r]
  have qn: "queues_ok n" "requests n = requests t"
    using core_queues[OF cn] q3 by simp_all
  show "\<exists>mid. tc_log (pd_event_buf_reset_locked r t) = tc_log t @ mid @ callbacks r (requests t) \<and>
      set mid \<subseteq> {EventCb r (tcp_event (pd_port t))}"
    using dr qn n(1) unfolding res by auto
  show "pd_wait_hard_reset_complete (pd_event_buf_reset_locked r t) = pd_wait_hard_reset_complete t"
    "pending_event (pd_event_buf_reset_locked r t) = pending_event t"
    using dr qn n(2,3) unfolding res by (simp_all add: pd_side_def)
qed

text \<open>
  C29. After the report of a detach the queue holds exactly the detach event, no request is
  deferred and no vendor message is pending; all message buffers that no one holds are
  free; every request that was deferred has been answered once, in order, with the reason
  of the detach; and new requests are refused until the next attach.\<close>
theorem detach_leaves_nothing:
  assumes "tcpc_reach (h, t)"
  shows "let t' = pd_put_cc_detached_event t
    in events t' = [simple_evt PD_EVT_HW_MSG PD_HW_CC_DETACHED 0] \<and> requests t' = [] \<and> slot t' = {#} \<and>
       mset_set (allocated t') = h \<and> \<not> pd_wait_hard_reset_complete t' \<and>
       (\<exists>mid. tc_log t' = tc_log t @ mid @ callbacks TCP_DPM_RET_DROP_CC_DETACH (requests t) \<and>
          set mid \<subseteq> {NotifyHardReset TCP_HRESET_RESULT_FAIL,
                      EventCb TCP_DPM_RET_DROP_CC_DETACH (tcp_event (pd_port t))}) \<and>
       pd_put_deferred_tcp_event e t' = (False, t')"
proof -
  have ok: "tcpc_ok h t" using tcpc_reach_ok[OF assms] by simp
  define t1 where "t1 = tcpci_notify_hard_reset_state TCP_HRESET_RESULT_FAIL t"
  have ok1: "tcpc_ok h t1" using ok by (simp add: t1_def)
  have c1: "core t1 = core t" by (simp add: t1_def tcpci_notify_hard_reset_state_def) (simp add: core_def warns_def)
  have t1: "\<exists>m. tc_log t1 = tc_log t @ m \<and> set m \<subseteq> {NotifyHardReset TCP_HRESET_RESULT_FAIL}"
    "\<not> pd_wait_hard_reset_complete t1" "pd_port t1 = pd_port t"
    by (auto simp: t1_def tcpci_notify_hard_reset_state_def act_def)
  define t2 where "t2 = pd_event_buf_reset_locked TCP_DPM_RET_DROP_CC_DETACH t1"
  have ok2: "tcpc_ok h t2" "events t2 = []" "requests t2 = []" "refs t2 = {#}"
    using ok_event_buf_reset[OF ok1] by (simp_all add: t2_def)
  define t3 where "t3 = snd (pd_put_hw_event_locked PD_HW_CC_DETACHED t2)"
  have q2: "queues_ok t2" using ok2(1) by (simp add: tcpc_ok_def)
  have t3: "events t3 = [simple_evt PD_EVT_HW_MSG PD_HW_CC_DETACHED 0]" "requests t3 = []" "tcpc_ok h t3"
    "slot t3 = {#}" "tc_log t3 = tc_log t2" "allocated t3 = allocated t2"
    using put_event_fifo(2,4)[OF q2, of "simple_evt PD_EVT_HW_MSG PD_HW_CC_DETACHED 0" False] ok2
    by (simp_all add: t3_def pd_put_hw_event_locked_def refs_def slot_def allocated_def put_event_log
        split: if_splits)
  define t4 where "t4 = pd_put_cc_detached_event t"
  have c4: "core t4 = core t3" "tc_log t4 = tc_log t3" "\<not> pd_pe_running t4"
    "pd_wait_hard_reset_complete t4 = pd_wait_hard_reset_complete t3"
    unfolding t4_def pd_put_cc_detached_event_def Let_def t1_def[symmetric] t2_def[symmetric] t3_def[symmetric]
    by (simp_all add: core_def warns_def)
  have hr: "\<not> pd_wait_hard_reset_complete t3"
    using reset_log(2)[OF ok1] t1(2) by (simp add: t3_def t2_def pd_put_hw_event_locked_def)
  obtain mid where mid: "tc_log t2 = tc_log t1 @ mid @ callbacks TCP_DPM_RET_DROP_CC_DETACH (requests t)"
    "set mid \<subseteq> {EventCb TCP_DPM_RET_DROP_CC_DETACH (tcp_event (pd_port t))}"
    using reset_log(1)[OF ok1, of TCP_DPM_RET_DROP_CC_DETACH] t1(3) core_queues(2)[OF c1] unfolding t2_def by auto
  obtain m where m: "tc_log t1 = tc_log t @ m" "set m \<subseteq> {NotifyHardReset TCP_HRESET_RESULT_FAIL}"
    using t1(1) by blast
  have log: "\<exists>mid. tc_log t4 = tc_log t @ mid @ callbacks TCP_DPM_RET_DROP_CC_DETACH (requests t) \<and>
      set mid \<subseteq> {NotifyHardReset TCP_HRESET_RESULT_FAIL, EventCb TCP_DPM_RET_DROP_CC_DETACH (tcp_event (pd_port t))}"
    using m mid c4(2) t3(5) by (intro exI[of _ "m @ mid"]) auto
  have al: "mset_set (allocated t4) = h"
    using core_refs(3)[OF c4(1)] t3(6) ok2(1,4) by (simp add: tcpc_ok_def)
  show ?thesis unfolding Let_def t4_def[symmetric]
    using core_queues[OF c4(1)] core_refs(2)[OF c4(1)] t3 c4 hr log al
    by (simp add: pd_put_deferred_tcp_event_def)
qed

lemma detach_leaves_nothing_witness:
  "events (pd_put_cc_detached_event zero_tcpc) = [simple_evt PD_EVT_HW_MSG PD_HW_CC_DETACHED 0] \<and>
   mset_set (allocated (pd_put_cc_detached_event zero_tcpc)) = {#}"
  using detach_leaves_nothing[OF zero_reach, of zero_tcp_event] unfolding Let_def by blast

end
