(* ===== verification/Tcpc_Reset.thy ===== *)
theory Tcpc_Reset
  imports Tcpc_Spec
begin

text \<open>
  The window of a hard reset of the Type-C port: from the signal until its end the
  controller refuses requests of the port manager, and only the end of the reset, a
  detach or an error recovery closes the window.
\<close>

abbreviation hr :: "tcpc_device \<Rightarrow> bool" where
  "hr \<equiv> pd_wait_hard_reset_complete"

lemma hr_simps [simp]:
  "hr (act a t) = hr t" "hr (upd_port f t) = hr t" "hr (postpone_vdm_event t) = hr t"
  "hr (snd (reset_pe_vdm_state x t)) = hr t" "hr (snd (pd_alloc_msg_locked t)) = hr t"
  "hr (snd (pd_free_event_locked e t)) = hr t" "hr (free_vdm_event t) = hr t"
  "hr (call_event_cb r ev t) = hr t" "hr (snd (pd_get_deferred_tcp_event_locked t)) = hr t"
  by (auto simp: act_def upd_port_def postpone_vdm_event_def reset_pe_vdm_state_def
      pd_alloc_msg_locked_def pd_free_event_locked_def pd_free_msg_locked_def free_vdm_event_def
      call_event_cb_def pd_get_deferred_tcp_event_locked_def Let_def case_prod_beta split: option.splits)

lemma hr_event_drain [simp]: "hr (pd_event_drain t) = hr t"
proof (induction t rule: pd_event_drain.induct)
  case (1 t)
  obtain r t' where g: "pd_get_event_locked t = (r, t')" by fastforce
  then have "hr t' = hr t" using get_event_frame(9)[of t] by simp
  then show ?case using 1[of r t'] g by (cases r) (simp_all add: pd_event_drain.simps[of t])
qed

lemma hr_tcp_drain [simp]: "hr (tcp_event_drain reason t) = hr t"
proof (induction reason t rule: tcp_event_drain.induct)
  case (1 reason t)
  obtain r t' where g: "pd_get_deferred_tcp_event_locked t = (r, t')" by fastforce
  then have "hr t' = hr t" using hr_simps(9)[of t] by simp
  then show ?case using 1[of r t'] g by (cases r) (simp_all add: tcp_event_drain.simps[of reason t])
qed

lemma hr_results [simp]:
  "hr (pd_notify_tcp_event_1st_result r t) = hr t" "hr (pd_notify_tcp_event_2nd_result r t) = hr t"
  "hr (pd_notify_tcp_vdm_event_2nd_result r t) = hr t"
  by (simp_all add: pd_notify_tcp_event_1st_result_def pd_notify_tcp_event_2nd_result_def
      pd_notify_tcp_vdm_event_2nd_result_def Let_def)

lemma hr_resets [simp]:
  "hr (tcp_event_buf_reset_locked r t) = hr t" "hr (pd_event_buf_reset_locked r t) = hr t"
  by (simp_all add: tcp_event_buf_reset_locked_def pd_event_buf_reset_locked_def Let_def)

lemma hr_put_last [simp]: "hr (snd (pd_put_last_vdm_event t)) = hr t"
proof -
  have "hr (snd (retry_last_vdm s)) = hr s" for s
  proof -
    define u where "u = (let u = s\<lparr>pd_vdm_event := (pd_vdm_event s)\<lparr>event_type := PD_EVT_HW_MSG, msg := PD_HW_RETRY_VDM\<rparr>\<rparr>
      in if pd_pending_vdm_event u then free_vdm_event u else u)"
    have "hr u = hr s" by (simp add: u_def Let_def)
    moreover obtain m v where a: "pd_alloc_msg_locked u = (m, v)" by fastforce
    moreover have "hr v = hr u" using hr_simps(5)[of u] a by simp
    ultimately show ?thesis
      unfolding retry_last_vdm_def Let_def u_def[unfolded Let_def, symmetric] by (cases m) simp_all
  qed
  then show ?thesis by (simp add: pd_put_last_vdm_event_def Let_def case_prod_beta)
qed

lemma hr_posts [simp]:
  "hr (snd (pd_put_hw_event_locked e t)) = hr t" "hr (snd (pd_put_pe_event_locked e t)) = hr t"
  "hr (pd_report_vbus_present t) = hr t" "hr (pd_put_vbus_changed_event ic t) = hr t"
  "hr (pd_put_vbus_safe0v_event t) = hr t" "hr (snd (pd_put_cc_attached_event ty t)) = hr t"
  "hr (pd_put_sent_hard_reset_event t) = hr t" "hr (pd_notify_pe_src_explicit_contract t) = hr t"
  "hr (snd (pd_put_deferred_tcp_event ev t)) = hr t" "hr (snd (pd_try_get_deferred_tcp_event t)) = hr t"
  by (simp_all add: pd_put_hw_event_locked_def pd_put_pe_event_locked_def pd_report_vbus_present_def
      pd_put_vbus_changed_event_def pd_put_vbus_safe0v_event_def pd_put_cc_attached_event_def
      pd_put_sent_hard_reset_event_def pd_notify_pe_src_explicit_contract_def
      pd_put_deferred_tcp_event_def pd_put_deferred_tcp_event_locked_def
      pd_try_get_deferred_tcp_event_def pd_get_deferred_tcp_event_def Let_def case_prod_beta
      split: option.splits)

text \<open>
  C31. While a hard reset is in progress no request of the port manager is accepted and
  none changes the device; of all operations only the end of the reset, a detach (also
  reported as a change of the port) or an error recovery ends this; and a signal sent or
  received starts it.\<close>
theorem hard_reset_window:
  "(hr t \<longrightarrow> pd_put_deferred_tcp_event e t = (False, t) \<and>
     (op \<notin> {OpHardResetDone, OpDetached, OpErrorRecovery, OpPortChanged} \<longrightarrow> hr (run_op op t))) \<and>
   hr (run_op OpSendHardReset t) \<and> hr (run_op OpRecvHardReset t) \<and>
   \<not> hr (run_op OpHardResetDone t) \<and> \<not> hr (run_op OpDetached t) \<and> \<not> hr (run_op OpErrorRecovery t)"
proof -
  have refuse: "pd_put_deferred_tcp_event e t = (False, t)" if "hr t"
    using that by (auto simp: pd_put_deferred_tcp_event_def)
  have keep: "hr (run_op op t)" if "hr t" "op \<notin> {OpHardResetDone, OpDetached, OpErrorRecovery, OpPortChanged}"
    using that by (cases op) (simp_all add: op_defs pd_put_recv_hard_reset_event_def
        tcpci_notify_hard_reset_state_def tcpci_alert_tx_discard_def Let_def)
  show ?thesis using refuse keep
    by (simp add: op_defs pd_put_recv_hard_reset_event_def pd_put_cc_detached_event_def
        tcpci_notify_hard_reset_state_def Let_def)
qed

lemma hard_reset_window_witness:
  "pd_put_deferred_tcp_event zero_tcp_event (run_op OpSendHardReset zero_tcpc) =
    (False, run_op OpSendHardReset zero_tcpc)"
proof -
  have "hr (run_op OpSendHardReset zero_tcpc)" using hard_reset_window[of zero_tcpc zero_tcp_event OpPeIdle] by blast
  then show ?thesis
    using hard_reset_window[of "run_op OpSendHardReset zero_tcpc" zero_tcp_event OpPeIdle] by blast
qed

end
