(* ===== verification/Tcpc_Thread.thy ===== *)
theory Tcpc_Thread
  imports Tcpc_Spec
begin

unbundle bit_operations_syntax

text \<open>
  The event thread of the Type-C controller (\<open>tcpc_event_thread_fn\<close>) against all the
  other contexts: it sleeps until the counter \<open>pending_event\<close> is positive and then takes
  events until there is none. Every operation that queues an event increments the
  counter, so the thread never sleeps over a queued event.
\<close>

section \<open>Wake-ups\<close>

text \<open>From \<open>t\<close> to \<open>s\<close>: the counter does not fall, and it grows when the queue stops being empty.\<close>

definition wakes :: "tcpc_device \<Rightarrow> tcpc_device \<Rightarrow> bool" where
  "wakes t s \<longleftrightarrow> pending_event t \<le> pending_event s \<and>
     (events s \<noteq> [] \<longrightarrow> events t \<noteq> [] \<or> pending_event t < pending_event s)"

definition good :: "nat multiset \<Rightarrow> tcpc_device \<Rightarrow> tcpc_device \<Rightarrow> bool" where
  "good h t s \<longleftrightarrow> tcpc_ok h s \<and> wakes t s"

lemma wakes_refl: "wakes t t"
  by (simp add: wakes_def)

lemma wakes_frame: "events s' = events s \<Longrightarrow> pending_event s' = pending_event s \<Longrightarrow> wakes t s' = wakes t s"
  by (simp add: wakes_def)

lemma good_frame:
  assumes "core s' = core s" "pending_event s' = pending_event s"
  shows "good h t s' = good h t s"
  using tcpc_ok_core[OF assms(1)] wakes_frame[OF core_queues(1)[OF assms(1)] assms(2)]
  by (simp add: good_def)

lemma good_mono:
  assumes "good h t s" "tcpc_ok h s'" "events s' = events s \<or> events s' = []"
    "pending_event s \<le> pending_event s'"
  shows "good h t s'"
  using assms by (auto simp: good_def wakes_def)

lemma wakes_put:
  assumes "queues_ok s" "wakes t s"
  shows "wakes t (snd (pd_put_event_locked e b s))"
proof -
  have "pending_event (snd (pd_put_event_locked e b s)) =
      (if fst (pd_put_event_locked e b s) then pending_event s + 1 else pending_event s)"
    by (simp add: pd_put_event_locked_def postpone_vdm_event_def act_def Let_def)
  then show ?thesis using assms(2) put_event_fifo(1,2)[OF assms(1), of e b] by (auto simp: wakes_def)
qed

lemma good_put [simp]:
  "pd_msg e = None \<Longrightarrow> good h t s \<Longrightarrow> good h t (snd (pd_put_event_locked e b s))"
  using wakes_put[of s t e b] by (simp add: good_def) (simp add: tcpc_ok_def)

lemma good_act [simp]: "a \<noteq> WarnFree \<Longrightarrow> a \<noteq> WarnNullMsg \<Longrightarrow> good h t (act a s) = good h t s"
  by (rule good_frame) (simp_all add: act_def core_def warns_def)

lemma good_upd_port [simp]: "good h t (upd_port f s) = good h t s"
  by (rule good_frame) (simp_all add: upd_port_def core_def warns_def)

lemma good_fields [simp]:
  "good h t (s\<lparr>wake_lock_pd := a\<rparr>) = good h t s"
  "good h t (s\<lparr>pd_msg_buffer := ms\<rparr>) = good h t s"
  "good h t (s\<lparr>pd_pe_running := b\<rparr>) = good h t s"
  "good h t (s\<lparr>pd_wait_pe_idle := b\<rparr>) = good h t s"
  "good h t (s\<lparr>pd_hard_reset_event_pending := b\<rparr>) = good h t s"
  "good h t (s\<lparr>pd_wait_hard_reset_complete := b\<rparr>) = good h t s"
  "good h t (s\<lparr>pd_wait_pr_swap_complete := b\<rparr>) = good h t s"
  "good h t (s\<lparr>pd_ping_event_pending := b\<rparr>) = good h t s"
  "good h t (s\<lparr>pd_bist_mode := a\<rparr>) = good h t s"
  "good h t (s\<lparr>pd_transmit_state := a\<rparr>) = good h t s"
  "good h t (s\<lparr>pd_wait_vbus_once := a\<rparr>) = good h t s"
  "good h t (s\<lparr>pd_during_direct_charge := b\<rparr>) = good h t s"
  "good h t (s\<lparr>pd_discard_pending := b\<rparr>) = good h t s"
  "good h t (s\<lparr>vbus_level := a\<rparr>) = good h t s"
  "good h t (s\<lparr>vbus_present := b\<rparr>) = good h t s"
  by (rule good_frame; simp add: core_def warns_def)+

lemma good_put_hw [simp]: "good h t s \<Longrightarrow> good h t (snd (pd_put_hw_event_locked e s))"
  by (simp add: pd_put_hw_event_locked_def)

lemma good_put_pe [simp]: "good h t s \<Longrightarrow> good h t (snd (pd_put_pe_event_locked e s))"
  by (simp add: pd_put_pe_event_locked_def)

lemma good_reset [simp]:
  assumes "good h t s"
  shows "good h t (pd_event_buf_reset_locked r s)"
proof (rule good_mono[OF assms])
  have ok: "tcpc_ok h s" using assms by (simp add: good_def)
  show "tcpc_ok h (pd_event_buf_reset_locked r s)"
    "events (pd_event_buf_reset_locked r s) = events s \<or> events (pd_event_buf_reset_locked r s) = []"
    "pending_event s \<le> pending_event (pd_event_buf_reset_locked r s)"
    using ok_event_buf_reset[OF ok] reset_log(3)[OF ok] by simp_all
qed

lemma notify_2nd_pending [simp]: "pending_event (pd_notify_tcp_event_2nd_result r t) = pending_event t"
  by (simp add: pd_notify_tcp_event_2nd_result_def call_event_cb_def act_def upd_port_def Let_def)

lemma notify_1st_pending [simp]: "pending_event (pd_notify_tcp_event_1st_result r t) = pending_event t"
  by (simp add: pd_notify_tcp_event_1st_result_def call_event_cb_def act_def upd_port_def Let_def)

lemma good_notify [simp]:
  "good h t (pd_notify_tcp_event_2nd_result r s) = good h t s"
  "good h t (pd_notify_tcp_event_1st_result r s) = good h t s"
  "good h t (pd_notify_tcp_vdm_event_2nd_result r s) = good h t s"
  by (rule good_frame; simp)+
    (simp add: pd_notify_tcp_vdm_event_2nd_result_def call_event_cb_def Let_def)

lemma good_tcp_reset [simp]:
  assumes "good h t s"
  shows "good h t (tcp_event_buf_reset_locked r s)"
proof (rule good_mono[OF assms])
  have ok: "tcpc_ok h s" using assms by (simp add: good_def)
  have "queues_ok (pd_notify_tcp_event_2nd_result r s)" using ok_notify_2nd[of h r s] ok by (simp add: tcpc_ok_def)
  from tcp_event_drain_eq[OF this, of r]
  show "pending_event s \<le> pending_event (tcp_event_buf_reset_locked r s)"
    by (simp add: tcp_event_buf_reset_locked_def pd_side_def)
  show "tcpc_ok h (tcp_event_buf_reset_locked r s)"
    "events (tcp_event_buf_reset_locked r s) = events s \<or> events (tcp_event_buf_reset_locked r s) = []"
    using ok_tcp_reset[OF ok] by simp_all
qed

lemma good_notify_hr [simp]: "good h t s \<Longrightarrow> good h t (tcpci_notify_hard_reset_state st s)"
  by (simp add: tcpci_notify_hard_reset_state_def)

lemma good_vbus [simp]:
  "good h t s \<Longrightarrow> good h t (pd_report_vbus_present s)"
  "good h t s \<Longrightarrow> good h t (pd_put_vbus_safe0v_event s)"
  "good h t s \<Longrightarrow> good h t (pd_put_vbus_changed_event ic s)"
  by (simp_all add: pd_report_vbus_present_def pd_put_vbus_safe0v_event_def pd_put_vbus_changed_event_def Let_def)

lemma good_cc [simp]:
  "good h t s \<Longrightarrow> good h t (snd (pd_put_cc_attached_event ty s))"
  "good h t s \<Longrightarrow> good h t (pd_put_cc_detached_event s)"
  by (simp_all add: pd_put_cc_attached_event_def pd_put_cc_detached_event_def Let_def)

lemma good_hard_reset [simp]:
  "good h t s \<Longrightarrow> good h t (pd_put_recv_hard_reset_event s)"
  "good h t s \<Longrightarrow> good h t (pd_put_sent_hard_reset_event s)"
  by (simp_all add: pd_put_recv_hard_reset_event_def pd_put_sent_hard_reset_event_def Let_def)

lemma good_wake_lock [simp]: "good h t (tcpci_set_wake_lock_pd b s) = good h t s"
  by (simp add: tcpci_set_wake_lock_pd_def Let_def)

lemma good_src_contract: "good h t s \<Longrightarrow> good h t (pd_notify_pe_src_explicit_contract s)"
  by (simp add: pd_notify_pe_src_explicit_contract_def Let_def)

text \<open>The vendor message slot and the requests do not touch the event queue.\<close>

definition ring :: "tcpc_device \<Rightarrow> nat \<times> nat \<times> pd_event list" where
  "ring t = (pd_event_count t, pd_event_head_index t, pd_event_ring_buffer t)"

lemma events_ring: "ring s = ring t \<Longrightarrow> events s = events t"
  unfolding events_def ring_def using pdq.contents_cong[of s t] by simp

lemma ring_simps [simp]:
  "ring (act a t) = ring t" "ring (upd_port f t) = ring t" "ring (postpone_vdm_event t) = ring t"
  "ring (snd (reset_pe_vdm_state x t)) = ring t" "ring (snd (pd_alloc_msg_locked t)) = ring t"
  "ring (snd (pd_free_event_locked e t)) = ring t" "ring (free_vdm_event t) = ring t"
  "ring (vdm_accept e b t) = ring t" "ring (pd_free_msg_locked m t) = ring t"
  by (auto simp: ring_def act_def upd_port_def postpone_vdm_event_def reset_pe_vdm_state_def
      pd_alloc_msg_locked_def pd_free_event_locked_def pd_free_msg_locked_def free_vdm_event_def
      vdm_accept_def Let_def case_prod_beta split: option.splits)

lemma ring_fields [simp]:
  "ring (t\<lparr>pd_vdm_event := e\<rparr>) = ring t" "ring (t\<lparr>pd_msg_buffer := ms\<rparr>) = ring t"
  "ring (t\<lparr>pd_pending_vdm_event := b\<rparr>) = ring t" "ring (t\<lparr>pd_postpone_vdm_timeout := b\<rparr>) = ring t"
  "ring (t\<lparr>pd_pending_vdm_discard := b\<rparr>) = ring t" "ring (t\<lparr>pending_event := n\<rparr>) = ring t"
  "ring (t\<lparr>pd_transmit_state := n\<rparr>) = ring t" "ring (t\<lparr>pd_discard_pending := b\<rparr>) = ring t"
  "ring (t\<lparr>pd_ping_event_pending := b\<rparr>) = ring t" "ring (t\<lparr>pd_bist_mode := n\<rparr>) = ring t"
  "ring (t\<lparr>pd_pending_vdm_attention := b\<rparr>) = ring t" "ring (t\<lparr>pd_attention_vdm_msg := m\<rparr>) = ring t"
  "ring (t\<lparr>pd_pending_vdm_good_crc := b\<rparr>) = ring t"
  by (simp_all add: ring_def)

lemma pending_simps [simp]:
  "pending_event (act a t) = pending_event t" "pending_event (upd_port f t) = pending_event t"
  "pending_event (postpone_vdm_event t) = pending_event t"
  "pending_event (snd (reset_pe_vdm_state x t)) = pending_event t"
  "pending_event (snd (pd_alloc_msg_locked t)) = pending_event t"
  "pending_event (snd (pd_free_event_locked e t)) = pending_event t"
  "pending_event (free_vdm_event t) = pending_event t"
  "pending_event (pd_free_msg_locked m t) = pending_event t"
  by (auto simp: act_def upd_port_def postpone_vdm_event_def reset_pe_vdm_state_def
      pd_alloc_msg_locked_def pd_free_event_locked_def pd_free_msg_locked_def free_vdm_event_def
      Let_def case_prod_beta split: option.splits)

lemma retry_ring: "ring (snd (retry_last_vdm t)) = ring t \<and> pending_event (snd (retry_last_vdm t)) = pending_event t"
proof -
  define s where "s = (let u = t\<lparr>pd_vdm_event := (pd_vdm_event t)\<lparr>event_type := PD_EVT_HW_MSG, msg := PD_HW_RETRY_VDM\<rparr>\<rparr>
    in if pd_pending_vdm_event u then free_vdm_event u else u)"
  have s: "ring s = ring t" "pending_event s = pending_event t"
    unfolding s_def Let_def by simp_all
  obtain m u where a: "pd_alloc_msg_locked s = (m, u)" by fastforce
  have u: "ring u = ring s" "pending_event u = pending_event s"
    using ring_simps(5)[of s] pending_simps(5)[of s] a by simp_all
  have "snd (retry_last_vdm t) = (case m of None \<Rightarrow> u\<lparr>pd_vdm_event := (pd_vdm_event u)\<lparr>pd_msg := None\<rparr>\<rparr>
    | Some i \<Rightarrow> postpone_vdm_event
            (u\<lparr>pd_vdm_event := (pd_vdm_event u)\<lparr>pd_msg := Some i\<rparr>,
               pd_msg_buffer := (pd_msg_buffer u)[i := pd_last_vdm_msg u],
               pd_pending_vdm_event := True, pd_postpone_vdm_timeout := True\<rparr>))"
    unfolding retry_last_vdm_def Let_def s_def[unfolded Let_def, symmetric] a
    by (simp split: option.splits)
  then show ?thesis using s u by (cases m) simp_all
qed

lemma put_last_ring:
  "ring (snd (pd_put_last_vdm_event t)) = ring t \<and> pending_event t \<le> pending_event (snd (pd_put_last_vdm_event t))"
proof -
  define t0 where "t0 = t\<lparr>pd_pending_vdm_discard := True, pending_event := pending_event t + 1\<rparr>"
  define t1 where "t1 = snd (reset_pe_vdm_state (payload (pd_last_vdm_msg t0) ! 0) t0)"
  have "snd (pd_put_last_vdm_event t) = t1 \<or> snd (pd_put_last_vdm_event t) = snd (retry_last_vdm t1)"
    unfolding pd_put_last_vdm_event_def Let_def t0_def[symmetric] t1_def by (simp add: case_prod_beta)
  moreover have "ring t1 = ring t" "pending_event t1 = pending_event t + 1"
    by (simp_all add: t1_def t0_def)
  ultimately show ?thesis using retry_ring[of t1] by auto
qed

lemma good_ring:
  assumes "good h t s" "tcpc_ok h' s'" "ring s' = ring s" "pending_event s \<le> pending_event s'"
  shows "good h' t s'"
  using assms events_ring[OF assms(3)] by (auto simp: good_def wakes_def)

lemma good_tx_discard:
  assumes "good h t s"
  shows "good h t (tcpci_alert_tx_discard s)"
proof -
  have "tcpc_ok h s" using assms by (simp add: good_def)
  then have "tcpc_ok h (snd (pd_put_last_vdm_event (s\<lparr>pd_transmit_state := PD_TX_STATE_DISCARD\<rparr>)))"
    using ok_put_last_vdm_event[of h "s\<lparr>pd_transmit_state := PD_TX_STATE_DISCARD\<rparr>"] by simp
  then have "good h t (snd (pd_put_last_vdm_event (s\<lparr>pd_transmit_state := PD_TX_STATE_DISCARD\<rparr>)))"
    using good_ring[OF assms] put_last_ring[of "s\<lparr>pd_transmit_state := PD_TX_STATE_DISCARD\<rparr>"]
    by simp
  then show ?thesis using assms
    by (simp add: tcpci_alert_tx_discard_def pd_put_hw_event_def pd_put_event_def Let_def)
qed

lemma put_deferred_ring:
  "ring (snd (pd_put_deferred_tcp_event e t)) = ring t \<and>
    pending_event t \<le> pending_event (snd (pd_put_deferred_tcp_event e t))"
  by (simp add: pd_put_deferred_tcp_event_def pd_put_deferred_tcp_event_locked_def Let_def ring_def
      act_def upd_port_def)

lemma try_get_deferred_ring:
  "ring (snd (pd_try_get_deferred_tcp_event t)) = ring t \<and>
    pending_event (snd (pd_try_get_deferred_tcp_event t)) = pending_event t"
  by (simp add: pd_try_get_deferred_tcp_event_def pd_get_deferred_tcp_event_def
      pd_get_deferred_tcp_event_locked_def Let_def ring_def act_def upd_port_def)

lemma good_run_op:
  assumes "good h t s"
  shows "good h t (run_op op s)"
proof -
  have ok: "tcpc_ok h s" using assms by (simp add: good_def)
  have "good h t (snd (pd_put_deferred_tcp_event e s))" "good h t (snd (pd_try_get_deferred_tcp_event s))" for e
    using good_ring[OF assms ok_put_deferred[OF ok]] put_deferred_ring[of e s]
      good_ring[OF assms ok_try_get_deferred[OF ok]] try_get_deferred_ring[of s] by simp_all
  then show ?thesis using assms good_src_contract[OF assms] good_tx_discard[OF assms]
    by (cases op) (simp_all add: op_defs Let_def)
qed

section \<open>Steps\<close>

lemma wakes_ring:
  assumes "wakes t s" "ring s' = ring s" "pending_event s \<le> pending_event s'"
  shows "wakes t s'"
  using assms events_ring[OF assms(2)] by (auto simp: wakes_def)

lemma pending_vdm_accept [simp]:
  "pending_event (vdm_accept e b t) = (if b then pending_event t else pending_event t + 1)"
  by (simp add: vdm_accept_def Let_def split: option.splits)

lemma put_vdm_ring:
  assumes "pd_put_vdm_event e b t = Inr (r, t')"
  shows "ring t' = ring t" and "pending_event t \<le> pending_event t'"
  using assms by (auto simp: pd_put_vdm_event_def Let_def split: if_splits)

lemma msg_filter_ring:
  "ring (snd (pd_msg_filter m t)) = ring t \<and> pending_event (snd (pd_msg_filter m t)) = pending_event t"
  by (simp add: pd_msg_filter_def Let_def)

lemma put_pd_msg_wakes:
  assumes "tcpc_ok h t" "m \<in># h" "pd_put_pd_msg_event m t = Inr (r, t')"
  shows "wakes t t'"
proof -
  obtain o' t1 where f: "pd_msg_filter m t = (o', t1)" by fastforce
  have w1: "wakes t t1" using wakes_ring[OF wakes_refl, of t1 t] msg_filter_ring[of m t] f by simp
  show ?thesis
  proof (cases o')
    case None
    then show ?thesis using assms(3) f w1 by (auto simp: pd_put_pd_msg_event_def Let_def)
  next
    case (Some d)
    define e where "e = \<lparr>event_type = PD_EVT_PD_MSG, msg = 0, msg_sec = 0, pd_msg = Some m\<rparr>"
    define t2 where "t2 = (if d then snd (pd_put_hw_event PD_HW_TX_FAILED (act (DisableTimer PD_TIMER_DISCARD) t1)) else t1)"
    have "good h t t1" using w1 ok_msg_filter[OF assms(1,2)] f Some by (simp add: good_def)
    then have "good h t t2" by (simp add: t2_def pd_put_hw_event_def pd_put_event_def)
    then have ok2: "queues_ok t2" and w2: "wakes t t2" by (simp_all add: good_def tcpc_ok_def)
    consider (vdm) "pd_put_vdm_event e True t2 = Inr (r, t')"
      | (put) "t' = snd (pd_put_event_locked e True t2) \<or>
          t' = snd (pd_free_event_locked e (snd (pd_put_event_locked e True t2)))"
      using assms(3) unfolding pd_put_pd_msg_event_def Let_def f Some e_def[symmetric] t2_def[symmetric]
      by (auto simp: pd_put_event_def pd_free_event_def e_def[symmetric] t2_def[symmetric]
          split: if_splits prod.splits bool.splits)
    then show ?thesis
    proof cases
      case vdm
      then show ?thesis using wakes_ring[OF w2] put_vdm_ring[OF vdm] by simp
    next
      case put
      then show ?thesis using wakes_put[OF ok2 w2, of e True] wakes_ring by (auto simp del: wakes_def)
    qed
  qed
qed

lemma recv_msg_wakes:
  assumes "tcpc_ok h t" "tcpci_alert_recv_msg r t = Inr (rv, t')"
  shows "wakes t t'"
proof -
  define t0 where "t0 = (if rx_is_sc2150a r then act (SetRxEnable PD_RX_CAP_PE_STARTUP) t else t)"
  have ok0: "tcpc_ok h t0" using assms(1) by (simp add: t0_def)
  obtain o' t1 where a: "pd_alloc_msg_locked t0 = (o', t1)" by fastforce
  have "ring t0 = ring t" "pending_event t0 = pending_event t" by (simp_all add: t0_def)
  then have r1: "ring t1 = ring t" "pending_event t1 = pending_event t"
    using ring_simps(5)[of t0] pending_simps(5)[of t0] a by simp_all
  show ?thesis
  proof (cases o')
    case None
    then have "t' = act (AlertStatusClear TCPC_REG_ALERT_RX_MASK) t1"
      using assms(2) a by (simp add: tcpci_alert_recv_msg_def Let_def t0_def[symmetric] pd_alloc_msg_def)
    then show ?thesis using r1 wakes_ring[OF wakes_refl, of t' t] by simp
  next
    case (Some m)
    have ok1: "tcpc_ok (add_mset m h) t1" using ok_alloc(1)[OF ok0 a[unfolded Some]] .
    define t2 where "t2 = (if rx_rv r = 0 \<and> rx_is_sc2150a r then act (SetRxEnable (rx_cap (pd_port t1))) t1 else t1)"
    define t3 where "t3 = t2\<lparr>pd_msg_buffer := (pd_msg_buffer t2)[m :=
      \<lparr>frame_type = rx_type r, msg_hdr = rx_hdr r, payload = rx_payload r\<rparr>]\<rparr>"
    have ok3: "tcpc_ok (add_mset m h) t3" using ok1 by (simp add: t3_def t2_def)
    have r3: "ring t3 = ring t" "pending_event t3 = pending_event t" using r1 by (simp_all add: t3_def t2_def)
    obtain x t4 where p: "pd_put_pd_msg_event m t3 = Inr (x, t4)" using ok_put_pd_msg[OF ok3, of m] by auto
    have w4: "wakes t t4" using put_pd_msg_wakes[OF ok3 _ p] r3 events_ring[OF r3(1)] by (simp add: wakes_def)
    have "t' = act (AlertStatusClear TCPC_REG_ALERT_RX_MASK) (if rx_rv r < 0 then pd_free_msg m t1 else t4)"
      using assms(2) unfolding tcpci_alert_recv_msg_def Let_def t0_def[symmetric] pd_alloc_msg_def a Some
      by (simp add: t2_def[symmetric] t3_def[symmetric] p split: if_splits)
    then show ?thesis
      using w4 r1 wakes_ring[OF wakes_refl, of t' t] wakes_ring[OF w4, of t'] by (simp add: pd_free_msg_def split: if_splits)
  qed
qed

lemma get_vdm_ring:
  assumes "pd_get_vdm_event t = (Some e, t')"
  shows "ring t' = ring t \<and> pending_event t' = pending_event t"
proof -
  have "ring (snd (pd_get_attention_event t)) = ring t \<and>
      pending_event (snd (pd_get_attention_event t)) = pending_event t"
  proof -
    obtain r u where a: "pd_alloc_msg_locked t = (r, u)" by fastforce
    then have "ring u = ring t" "pending_event u = pending_event t"
      using ring_simps(5)[of t] pending_simps(5)[of t] by simp_all
    then show ?thesis using a by (cases r) (simp_all add: pd_get_attention_event_def Let_def)
  qed
  then show ?thesis using assms
    by (simp add: pd_get_vdm_event_def Let_def split: if_splits prod.splits) (auto simp: ring_def)
qed

lemma tx_alert_wakes:
  assumes "tcpc_ok h t"
  shows "tcpci_alert_tx_success t = Inr t' \<Longrightarrow> wakes t t'" "tcpci_alert_tx_failed t = Inr t' \<Longrightarrow> wakes t t'"
proof -
  have vdm: "wakes t t'" if "pd_put_vdm_event e False (t\<lparr>pd_transmit_state := n\<rparr>) = Inr (r, t')" for e n r
    using wakes_ring[OF wakes_refl, of t' t] put_vdm_ring[OF that] by simp
  have "good h t t" using assms wakes_refl by (simp add: good_def)
  then have "good h t (t\<lparr>pd_transmit_state := n\<rparr>)" for n by simp
  then have put: "wakes t (snd (pd_put_event_locked e False (t\<lparr>pd_transmit_state := n\<rparr>)))"
    if "pd_msg e = None" for e n
    using good_put[OF that, of h t "t\<lparr>pd_transmit_state := n\<rparr>" False] by (simp add: good_def[of h t "snd x" for x])
  show "tcpci_alert_tx_success t = Inr t' \<Longrightarrow> wakes t t'" "tcpci_alert_tx_failed t = Inr t' \<Longrightarrow> wakes t t'"
    using vdm put
    by (auto simp: tcpci_alert_tx_success_def tcpci_alert_tx_failed_def vdm_put_hw_event_def pd_put_hw_event_def
        pd_put_event_def Let_def fault_simps split: if_splits)
qed

lemma tcpc_step_wakes:
  assumes "tcpc_step s s'" "tcpc_ok (fst s) (snd s)"
  shows "wakes (snd s) (snd s')"
  using assms
proof (induction rule: tcpc_step.induct)
  case (post h t op)
  then show ?case using good_run_op[of h t t op] wakes_refl by (simp add: good_def)
next
  case (alloc t m t' h)
  then show ?case using wakes_ring[OF wakes_refl, of t' t] ring_simps(5)[of t] pending_simps(5)[of t]
    by (simp add: pd_alloc_msg_def)
next
  case (alloc_fail t t' h)
  then show ?case using wakes_ring[OF wakes_refl, of t' t] ring_simps(5)[of t] pending_simps(5)[of t]
    by (simp add: pd_alloc_msg_def)
next
  case (fill h t ms)
  then show ?case using wakes_ring[OF wakes_refl, of "t\<lparr>pd_msg_buffer := ms\<rparr>" t] by simp
next
  case (free m h t)
  then show ?case using wakes_ring[OF wakes_refl, of "pd_free_msg m t" t] by (simp add: pd_free_msg_def)
next
  case (receive m h t r t')
  then show ?case using put_pd_msg_wakes[of h t m r t'] by simp
next
  case (put_vdm e t r t' h)
  then show ?case using wakes_ring[OF wakes_refl, of t' t] put_vdm_ring[of e False t r t'] by simp
next
  case (tx_success t t' h)
  then show ?case using tx_alert_wakes(1)[of h t t'] by simp
next
  case (tx_failed t t' h)
  then show ?case using tx_alert_wakes(2)[of h t t'] by simp
next
  case (recv_alert r t rv t' h)
  then show ?case using recv_msg_wakes[of h t r rv t'] by simp
next
  case (take_event t e t' h)
  then have "queues_ok t" "t' = snd (pd_get_event_locked t)" by (simp_all add: tcpc_ok_def pd_get_event_def)
  then show ?case using get_event_fifo(2)[of t] by (auto simp: wakes_def)
next
  case (take_vdm sc t e t' h)
  then have "pd_get_vdm_event t = (Some e, t')"
    by (auto simp: pd_try_get_vdm_event_def Let_def split: if_splits)
  then show ?case using wakes_ring[OF wakes_refl, of t' t] get_vdm_ring[of t e t'] by simp
next
  case (release e h t e' t')
  then have "t' = snd (pd_free_event_locked e t)" by (simp add: pd_free_event_def)
  then show ?case using wakes_ring[OF wakes_refl, of t' t] by simp
qed

section \<open>The event thread\<close>

text \<open>Where the thread is: in \<open>wait_event_interruptible\<close>, before the decrement, before a run
  of the policy engine.\<close>

datatype thread_pc = Waiting | Woken | Running

text \<open>
  \<open>others\<close> is a step of any context, the handling of an event by the policy engine
  included; the thread wakes when the counter is positive, decrements it and runs the
  engine until it finds no event.
\<close>

inductive thread_step ::
  "thread_pc \<times> nat multiset \<times> tcpc_device \<Rightarrow> thread_pc \<times> nat multiset \<times> tcpc_device \<Rightarrow> bool" where
  others: "tcpc_step (h, t) (h', t') \<Longrightarrow> thread_step (pc, h, t) (pc, h', t')"
| wake: "0 < pending_event t \<Longrightarrow> thread_step (Waiting, h, t) (Woken, h, t)"
| decrement: "thread_step (Woken, h, t) (Running, h, t\<lparr>pending_event := pending_event t - 1\<rparr>)"
| run: "pd_get_event t = (Some e, t') \<Longrightarrow> thread_step (Running, h, t) (Woken, h + msg_of e, t')"
| run_vdm: "pd_get_event t = (None, t') \<Longrightarrow> pd_try_get_vdm_event sc t' = (Some e, t'') \<Longrightarrow>
    thread_step (Running, h, t) (Woken, h + msg_of e, t'')"
| idle: "pd_get_event t = (None, t') \<Longrightarrow> thread_step (Running, h, t) (Waiting, h, t')"

inductive thread_reach :: "thread_pc \<times> nat multiset \<times> tcpc_device \<Rightarrow> bool" where
  init: "tcpc_init t \<Longrightarrow> thread_reach (Waiting, {#}, t)"
| step: "thread_reach s \<Longrightarrow> thread_step s s' \<Longrightarrow> thread_reach s'"

definition thread_ok :: "thread_pc \<times> nat multiset \<times> tcpc_device \<Rightarrow> bool" where
  "thread_ok s \<longleftrightarrow> (case s of (pc, h, t) \<Rightarrow> tcpc_ok h t \<and> (pc = Waiting \<and> events t \<noteq> [] \<longrightarrow> 0 < pending_event t))"

lemma get_event_none:
  assumes "tcpc_ok h t" "pd_get_event t = (None, t')"
  shows "t' = t" "events t = []"
proof -
  have q: "queues_ok t" using assms(1) by (simp add: tcpc_ok_def)
  show "t' = t" using assms(2) by (auto simp: pd_get_event_def pd_get_event_locked_def Let_def split: if_splits)
  show "events t = []" using get_event_fifo(1)[OF q] assms(2) by (auto simp: pd_get_event_def split: list.splits)
qed

lemma thread_step_ok:
  assumes "thread_step s s'" "thread_ok s"
  shows "thread_ok s'"
  using assms
proof (induction rule: thread_step.induct)
  case (others h t h' t' pc)
  have ok: "tcpc_ok h t" using others(2) by (simp add: thread_ok_def)
  then have "tcpc_ok h' t'" "wakes t t'"
    using tcpc_step_ok[OF others(1)] tcpc_step_wakes[OF others(1)] by simp_all
  then show ?case using others(2) by (auto simp: thread_ok_def wakes_def)
next
  case (run t e t' h)
  then show ?case using ok_get_event(1)[of h t e t'] by (simp add: thread_ok_def pd_get_event_def)
next
  case (run_vdm t t' sc e t'' h)
  then have "tcpc_ok h t'" using get_event_none(1)[of h t t'] by (simp add: thread_ok_def)
  moreover have "pd_get_vdm_event t' = (Some e, t'')" using run_vdm(2)
    by (auto simp: pd_try_get_vdm_event_def Let_def split: if_splits)
  ultimately show ?case using ok_get_vdm_event[of h t' e t''] by (simp add: thread_ok_def)
next
  case (idle t t' h)
  then show ?case using get_event_none[of h t t'] by (simp add: thread_ok_def)
qed (simp_all add: thread_ok_def)

lemma thread_reach_ok: "thread_reach s \<Longrightarrow> thread_ok s"
proof (induction rule: thread_reach.induct)
  case (init t)
  then have "events t = []" by (simp add: tcpc_init_def events_def pdq.contents_def)
  then show ?case using ok_init[OF init] by (simp add: thread_ok_def)
next
  case (step s s')
  then show ?case using thread_step_ok by blast
qed

text \<open>
  C30. No lost wake-up: whatever the other contexts do, when the event thread waits and an
  event is queued, its wake-up condition holds, and the first thing the woken thread
  does is to take the oldest event.\<close>
theorem no_lost_wakeup:
  assumes "thread_reach (Waiting, h, t)" "events t = e # es"
  shows "thread_step (Waiting, h, t) (Woken, h, t) \<and>
    (\<exists>t1 t2. thread_step (Woken, h, t) (Running, h, t1) \<and>
       thread_step (Running, h, t1) (Woken, h + msg_of e, t2) \<and> events t2 = es)"
proof -
  have ok: "tcpc_ok h t" and pos: "0 < pending_event t"
    using thread_reach_ok[OF assms(1)] assms(2) by (simp_all add: thread_ok_def)
  define t1 where "t1 = t\<lparr>pending_event := pending_event t - 1\<rparr>"
  have c: "core t1 = core t" by (simp add: t1_def core_def warns_def)
  have q: "queues_ok t1" "events t1 = e # es"
    using ok core_queues[OF c] assms(2) by (simp_all add: tcpc_ok_def)
  have "pd_get_event t1 = (Some e, snd (pd_get_event t1))" "events (snd (pd_get_event t1)) = es"
    using get_event_fifo(1,2)[OF q(1)] q(2) by (simp_all add: pd_get_event_def prod_eq_iff)
  then show ?thesis
    using thread_step.wake[OF pos] thread_step.decrement[of h t] thread_step.run[of t1 e _ h]
    unfolding t1_def by blast
qed

definition woken_device :: tcpc_device where
  "woken_device = run_op (OpAttached TYPEC_ATTACHED_SNK) zero_tcpc"

lemma no_lost_wakeup_witness: "thread_step (Waiting, {#}, woken_device) (Woken, {#}, woken_device)"
proof -
  have "tcpc_init zero_tcpc" by (simp add: tcpc_init_def zero_tcpc_def)
  from thread_reach.step[OF thread_reach.init[OF this] thread_step.others[OF tcpc_step.post]]
  have r: "thread_reach (Waiting, {#}, woken_device)" unfolding woken_device_def .
  have "events woken_device = [simple_evt PD_EVT_HW_MSG PD_HW_CC_ATTACHED TYPEC_ATTACHED_SNK]"
    by (simp add: woken_device_def pd_put_cc_attached_event_def pd_put_event_locked_def events_def
        pdq.contents_def zero_tcpc_def)
  from no_lost_wakeup[OF r this] show ?thesis by blast
qed

end
