(* ===== verification/Pd_Pdo.thy ===== *)
theory Pd_Pdo
  imports MMI_Prelude
begin

unbundle bit_operations_syntax

text \<open>
  Power data objects and request data objects of USB Power Delivery
  (\<open>inc/pd_core.h\<close>, \<open>pd_dpm_pdo_select.c\<close>, \<open>pd_core.c\<close> under
  \<open>src/drivers/usb/typec/mmi_tcpc\<close>): the bit fields of the 32-bit words, the decoding of
  a capability into voltages, current and power, the encoding of a request, its decoding
  by the source, and the limit that a cable puts on an advertised capability.

  The words are \<open>32 word\<close>; the decoded quantities are C \<open>int\<close>s, with their wrap-around
  written out where two of them are multiplied. A capability of a battery has its current
  computed by a division by its minimum voltage, which the partner supplies.
\<close>

named_theorems pdo_simps

section \<open>Power data objects\<close>

abbreviation (input) PDO_TYPE_FIXED :: "32 word" where "PDO_TYPE_FIXED \<equiv> 0"
abbreviation (input) PDO_TYPE_BATTERY :: "32 word" where "PDO_TYPE_BATTERY \<equiv> 0x40000000"
abbreviation (input) PDO_TYPE_VARIABLE :: "32 word" where "PDO_TYPE_VARIABLE \<equiv> 0x80000000"
abbreviation (input) PDO_TYPE_APDO :: "32 word" where "PDO_TYPE_APDO \<equiv> 0xC0000000"
abbreviation (input) PDO_TYPE_MASK :: "32 word" where "PDO_TYPE_MASK \<equiv> 0xC0000000"

abbreviation (input) PDO_FIXED_DUAL_ROLE :: "32 word" where "PDO_FIXED_DUAL_ROLE \<equiv> 0x20000000"
abbreviation (input) PDO_FIXED_SUSPEND :: "32 word" where "PDO_FIXED_SUSPEND \<equiv> 0x10000000"
abbreviation (input) PDO_FIXED_EXTERNAL :: "32 word" where "PDO_FIXED_EXTERNAL \<equiv> 0x8000000"
abbreviation (input) PDO_FIXED_COMM_CAP :: "32 word" where "PDO_FIXED_COMM_CAP \<equiv> 0x4000000"
abbreviation (input) PDO_FIXED_DATA_SWAP :: "32 word" where "PDO_FIXED_DATA_SWAP \<equiv> 0x2000000"

abbreviation (input) APDO_TYPE_MASK :: "32 word" where "APDO_TYPE_MASK \<equiv> 0x30000000"
abbreviation (input) APDO_TYPE_PPS :: "32 word" where "APDO_TYPE_PPS \<equiv> 0"
abbreviation (input) APDO_PPS_CURR_FOLDBACK :: "32 word" where "APDO_PPS_CURR_FOLDBACK \<equiv> 0x4000000"

abbreviation (input) DPM_PDO_TYPE_FIXED :: int where "DPM_PDO_TYPE_FIXED \<equiv> 0"
abbreviation (input) DPM_PDO_TYPE_BAT :: int where "DPM_PDO_TYPE_BAT \<equiv> 1"
abbreviation (input) DPM_PDO_TYPE_VAR :: int where "DPM_PDO_TYPE_VAR \<equiv> 2"
abbreviation (input) DPM_PDO_TYPE_APDO :: int where "DPM_PDO_TYPE_APDO \<equiv> 3"
abbreviation (input) TCPM_POWER_CAP_VAL_TYPE_UNKNOWN :: int where
  "TCPM_POWER_CAP_VAL_TYPE_UNKNOWN \<equiv> 0xff"
abbreviation (input) DPM_APDO_TYPE_PPS :: "8 word" where "DPM_APDO_TYPE_PPS \<equiv> 1"
abbreviation (input) DPM_APDO_TYPE_PPS_CF :: "8 word" where "DPM_APDO_TYPE_PPS_CF \<equiv> 0x80"

definition PDO_TYPE :: "32 word \<Rightarrow> 32 word" where
  "PDO_TYPE raw = raw AND PDO_TYPE_MASK"

definition PDO_TYPE_VAL :: "32 word \<Rightarrow> int" where
  "PDO_TYPE_VAL raw = uint (drop_bit 30 (PDO_TYPE raw))"

definition PDO_FIXED_CURR :: "int \<Rightarrow> 32 word" where
  "PDO_FIXED_CURR ma = word_of_int (ma sdiv 10) AND 0x3ff"

definition PDO_FIXED_EXTRACT_VOLT :: "32 word \<Rightarrow> int" where
  "PDO_FIXED_EXTRACT_VOLT raw = uint (drop_bit 10 raw AND 0x3ff) * 50"

definition PDO_FIXED_EXTRACT_CURR :: "32 word \<Rightarrow> int" where
  "PDO_FIXED_EXTRACT_CURR raw = uint (drop_bit 0 raw AND 0x3ff) * 10"

definition PDO_FIXED_RESET_CURR :: "32 word \<Rightarrow> int \<Rightarrow> 32 word" where
  "PDO_FIXED_RESET_CURR raw ma = (raw AND NOT 0x3ff) OR PDO_FIXED_CURR ma"

definition PDO_VAR_OP_CURR :: "int \<Rightarrow> 32 word" where
  "PDO_VAR_OP_CURR ma = word_of_int (ma sdiv 10) AND 0x3ff"

definition PDO_VAR_EXTRACT_MAX_VOLT :: "32 word \<Rightarrow> int" where
  "PDO_VAR_EXTRACT_MAX_VOLT raw = uint (drop_bit 20 raw AND 0x3ff) * 50"

definition PDO_VAR_EXTRACT_MIN_VOLT :: "32 word \<Rightarrow> int" where
  "PDO_VAR_EXTRACT_MIN_VOLT raw = uint (drop_bit 10 raw AND 0x3ff) * 50"

definition PDO_VAR_EXTRACT_CURR :: "32 word \<Rightarrow> int" where
  "PDO_VAR_EXTRACT_CURR raw = uint (drop_bit 0 raw AND 0x3ff) * 10"

definition PDO_VAR_RESET_CURR :: "32 word \<Rightarrow> int \<Rightarrow> 32 word" where
  "PDO_VAR_RESET_CURR raw ma = (raw AND NOT 0x3ff) OR PDO_VAR_OP_CURR ma"

definition PDO_BATT_EXTRACT_MAX_VOLT :: "32 word \<Rightarrow> int" where
  "PDO_BATT_EXTRACT_MAX_VOLT raw = uint (drop_bit 20 raw AND 0x3ff) * 50"

definition PDO_BATT_EXTRACT_MIN_VOLT :: "32 word \<Rightarrow> int" where
  "PDO_BATT_EXTRACT_MIN_VOLT raw = uint (drop_bit 10 raw AND 0x3ff) * 50"

definition PDO_BATT_EXTRACT_OP_POWER :: "32 word \<Rightarrow> int" where
  "PDO_BATT_EXTRACT_OP_POWER raw = uint (drop_bit 0 raw AND 0x3ff) * 250"

definition APDO_TYPE :: "32 word \<Rightarrow> 32 word" where
  "APDO_TYPE raw = raw AND APDO_TYPE_MASK"

definition APDO_PPS_EXTRACT_PWR_LIMIT :: "32 word \<Rightarrow> int" where
  "APDO_PPS_EXTRACT_PWR_LIMIT raw = uint (drop_bit 27 raw AND 1)"

definition APDO_PPS_EXTRACT_MAX_VOLT :: "32 word \<Rightarrow> int" where
  "APDO_PPS_EXTRACT_MAX_VOLT raw = uint (drop_bit 17 raw AND 0xff) * 100"

definition APDO_PPS_EXTRACT_MIN_VOLT :: "32 word \<Rightarrow> int" where
  "APDO_PPS_EXTRACT_MIN_VOLT raw = uint (drop_bit 8 raw AND 0xff) * 100"

definition APDO_PPS_EXTRACT_CURR :: "32 word \<Rightarrow> int" where
  "APDO_PPS_EXTRACT_CURR raw = uint (drop_bit 0 raw AND 0x7f) * 50"

section \<open>Decoded capabilities\<close>

record dpm_pdo_info_t =
  pi_type :: int
  pi_apdo_type :: "8 word"
  pi_pwr_limit :: int
  pi_vmin :: int
  pi_vmax :: int
  pi_uw :: int
  pi_ma :: int

definition zero_pdo_info :: dpm_pdo_info_t where
  "zero_pdo_info = \<lparr>pi_type = 0, pi_apdo_type = 0, pi_pwr_limit = 0, pi_vmin = 0,
     pi_vmax = 0, pi_uw = 0, pi_ma = 0\<rparr>"

definition dpm_extract_apdo_info :: "32 word \<Rightarrow> dpm_pdo_info_t \<Rightarrow> dpm_pdo_info_t" where
  "dpm_extract_apdo_info pdo info =
    (if APDO_TYPE pdo = APDO_TYPE_PPS
     then let apdo = (if pdo AND APDO_PPS_CURR_FOLDBACK \<noteq> 0
                      then DPM_APDO_TYPE_PPS OR DPM_APDO_TYPE_PPS_CF else DPM_APDO_TYPE_PPS);
              ma = APDO_PPS_EXTRACT_CURR pdo;
              vmax = APDO_PPS_EXTRACT_MAX_VOLT pdo
          in info\<lparr>pi_apdo_type := apdo, pi_pwr_limit := APDO_PPS_EXTRACT_PWR_LIMIT pdo,
                pi_ma := ma, pi_vmin := APDO_PPS_EXTRACT_MIN_VOLT pdo, pi_vmax := vmax,
                pi_uw := i32 (ma * vmax)\<rparr>
     else info\<lparr>pi_type := TCPM_POWER_CAP_VAL_TYPE_UNKNOWN\<rparr>)"

definition dpm_extract_pdo_info :: "32 word \<Rightarrow> dpm_pdo_info_t kres" where
  "dpm_extract_pdo_info pdo =
    (let info = zero_pdo_info\<lparr>pi_type := PDO_TYPE_VAL pdo\<rparr>; ty = PDO_TYPE pdo
     in if ty = PDO_TYPE_FIXED
        then let ma = PDO_FIXED_EXTRACT_CURR pdo; v = PDO_FIXED_EXTRACT_VOLT pdo
             in Inr (info\<lparr>pi_ma := ma, pi_vmin := v, pi_vmax := v, pi_uw := i32 (ma * v)\<rparr>)
        else if ty = PDO_TYPE_VARIABLE
        then let ma = PDO_VAR_EXTRACT_CURR pdo; vmax = PDO_VAR_EXTRACT_MAX_VOLT pdo
             in Inr (info\<lparr>pi_ma := ma, pi_vmin := PDO_VAR_EXTRACT_MIN_VOLT pdo,
                  pi_vmax := vmax, pi_uw := i32 (ma * vmax)\<rparr>)
        else if ty = PDO_TYPE_BATTERY
        then let uw = i32 (PDO_BATT_EXTRACT_OP_POWER pdo * 1000);
                 vmin = PDO_BATT_EXTRACT_MIN_VOLT pdo
             in if vmin = 0 then Inl DivByZero
                else Inr (info\<lparr>pi_uw := uw, pi_vmin := vmin,
                       pi_vmax := PDO_BATT_EXTRACT_MAX_VOLT pdo, pi_ma := uw sdiv vmin\<rparr>)
        else if ty = PDO_TYPE_APDO then Inr (dpm_extract_apdo_info pdo info)
        else Inr info)"

section \<open>Request data objects\<close>

abbreviation (input) RDO_GIVE_BACK :: "32 word" where "RDO_GIVE_BACK \<equiv> 0x8000000"
abbreviation (input) RDO_CAP_MISMATCH :: "32 word" where "RDO_CAP_MISMATCH \<equiv> 0x4000000"
abbreviation (input) RDO_COMM_CAP :: "32 word" where "RDO_COMM_CAP \<equiv> 0x2000000"
abbreviation (input) RDO_NO_SUSPEND :: "32 word" where "RDO_NO_SUSPEND \<equiv> 0x1000000"

definition RDO_OBJ_POS :: "nat \<Rightarrow> 32 word" where
  "RDO_OBJ_POS n = push_bit 28 (of_nat n AND 7)"

definition RDO_POS :: "32 word \<Rightarrow> nat" where
  "RDO_POS rdo = unat (drop_bit 28 rdo AND 7)"

definition RDO_FIXED :: "nat \<Rightarrow> 32 word \<Rightarrow> 32 word \<Rightarrow> 32 word \<Rightarrow> 32 word" where
  "RDO_FIXED n op_ma max_ma flags = RDO_OBJ_POS n OR flags OR
     push_bit 10 (op_ma div 10 AND 0x3ff) OR (max_ma div 10 AND 0x3ff)"

definition RDO_BATT :: "nat \<Rightarrow> 32 word \<Rightarrow> 32 word \<Rightarrow> 32 word \<Rightarrow> 32 word" where
  "RDO_BATT n op_mw max_mw flags = RDO_OBJ_POS n OR flags OR
     push_bit 10 (op_mw div 250 AND 0x3ff) OR (max_mw div 250 AND 0x3ff)"

definition RDO_APDO :: "nat \<Rightarrow> int \<Rightarrow> 32 word \<Rightarrow> 32 word \<Rightarrow> 32 word" where
  "RDO_APDO n op_mv op_ma flags = RDO_OBJ_POS n OR flags OR
     push_bit 9 (word_of_int (op_mv sdiv 20) AND 0x7ff) OR (op_ma div 50 AND 0x7f)"

definition RDO_FIXED_VAR_EXTRACT_OP_CURR :: "32 word \<Rightarrow> 32 word" where
  "RDO_FIXED_VAR_EXTRACT_OP_CURR raw = (drop_bit 10 raw AND 0x3ff) * 10"

definition RDO_FIXED_VAR_EXTRACT_MAX_CURR :: "32 word \<Rightarrow> 32 word" where
  "RDO_FIXED_VAR_EXTRACT_MAX_CURR raw = (drop_bit 0 raw AND 0x3ff) * 10"

definition RDO_BATT_EXTRACT_OP_POWER :: "32 word \<Rightarrow> 32 word" where
  "RDO_BATT_EXTRACT_OP_POWER raw = (drop_bit 10 raw AND 0x3ff) * 250"

definition RDO_BATT_EXTRACT_MAX_POWER :: "32 word \<Rightarrow> 32 word" where
  "RDO_BATT_EXTRACT_MAX_POWER raw = (drop_bit 0 raw AND 0x3ff) * 250"

text \<open>What the source reads from a request: operating and maximum current.\<close>

definition pd_extract_rdo_power :: "32 word \<Rightarrow> 32 word \<Rightarrow> (32 word \<times> 32 word) kres" where
  "pd_extract_rdo_power rdo pdo =
    (let ty = pdo AND PDO_TYPE_MASK
     in if ty = PDO_TYPE_FIXED \<or> ty = PDO_TYPE_VARIABLE
        then Inr (RDO_FIXED_VAR_EXTRACT_OP_CURR rdo, RDO_FIXED_VAR_EXTRACT_MAX_CURR rdo)
        else if ty = PDO_TYPE_BATTERY
        then let vmin = word_of_int (PDO_BATT_EXTRACT_MIN_VOLT pdo);
                 op_power = RDO_BATT_EXTRACT_OP_POWER rdo;
                 max_power = RDO_BATT_EXTRACT_MAX_POWER rdo
             in if vmin = 0 then Inl DivByZero
                else Inr (op_power div vmin, max_power div vmin)
        else Inr (0, 0))"

text \<open>The limit of the cable (\<open>imax\<close>) on a capability that is advertised.\<close>

definition pd_reset_pdo_power :: "32 word \<Rightarrow> int \<Rightarrow> 32 word" where
  "pd_reset_pdo_power pdo imax =
    (let ty = pdo AND PDO_TYPE_MASK
     in if ty = PDO_TYPE_FIXED
        then if PDO_FIXED_EXTRACT_CURR pdo > imax then PDO_FIXED_RESET_CURR pdo imax else pdo
        else if ty = PDO_TYPE_VARIABLE
        then if PDO_VAR_EXTRACT_CURR pdo > imax then PDO_VAR_RESET_CURR pdo imax else pdo
        else pdo)"

section \<open>Bit fields\<close>

lemma take10: "(x :: 32 word) AND 0x3ff = take_bit 10 x"
  using take_bit_eq_mask[of 10 x] by (simp add: mask_numeral)

lemma take8: "(x :: 32 word) AND 0xff = take_bit 8 x"
  using take_bit_eq_mask[of 8 x] by (simp add: mask_numeral)

lemma take7: "(x :: 32 word) AND 0x7f = take_bit 7 x"
  using take_bit_eq_mask[of 7 x] by (simp add: mask_numeral)

lemma take3: "(x :: 32 word) AND 7 = take_bit 3 x"
  using take_bit_eq_mask[of 3 x] by (simp add: mask_numeral)

lemma take11: "(x :: 32 word) AND 0x7ff = take_bit 11 x"
  using take_bit_eq_mask[of 11 x] by (simp add: mask_numeral)

lemma uint_take_range: "0 \<le> uint (take_bit n (x :: 32 word)) \<and> uint (take_bit n x) < 2 ^ n"
  by (simp add: unsigned_take_bit_eq)

lemmas uint_take10 = uint_take_range[of 10, simplified]
lemmas uint_take8 = uint_take_range[of 8, simplified]
lemmas uint_take7 = uint_take_range[of 7, simplified]

lemma PDO_TYPE_cases:
  obtains "PDO_TYPE pdo = PDO_TYPE_FIXED" "PDO_TYPE_VAL pdo = 0"
  | "PDO_TYPE pdo = PDO_TYPE_BATTERY" "PDO_TYPE_VAL pdo = 1"
  | "PDO_TYPE pdo = PDO_TYPE_VARIABLE" "PDO_TYPE_VAL pdo = 2"
  | "PDO_TYPE pdo = PDO_TYPE_APDO" "PDO_TYPE_VAL pdo = 3"
proof -
  have m: "(0xC0000000 :: 32 word) = push_bit 30 3" by simp
  have t: "PDO_TYPE pdo = push_bit 30 (drop_bit 30 pdo AND 3)"
    by (rule bit_word_eqI)
      (auto simp: PDO_TYPE_def m bit_simps simp del: push_bit_numeral)
  have "drop_bit 30 pdo AND 3 = take_bit 2 (drop_bit 30 pdo)"
    using take_bit_eq_mask[of 2 "drop_bit 30 pdo"] by (simp add: mask_numeral)
  then have "uint (drop_bit 30 pdo AND 3) < 4" using uint_take_range[of 2] by simp
  moreover have "0 \<le> uint (drop_bit 30 pdo AND 3)" by simp
  ultimately consider "uint (drop_bit 30 pdo AND 3) = 0" | "uint (drop_bit 30 pdo AND 3) = 1"
    | "uint (drop_bit 30 pdo AND 3) = 2" | "uint (drop_bit 30 pdo AND 3) = 3" by linarith
  then consider "drop_bit 30 pdo AND 3 = 0" | "drop_bit 30 pdo AND 3 = 1"
    | "drop_bit 30 pdo AND 3 = 2" | "drop_bit 30 pdo AND 3 = 3"
    by cases (metis word_of_int_uint word_of_int_0 word_of_int_1 of_int_numeral)+
  then show ?thesis
    by cases (use that t in \<open>simp_all add: PDO_TYPE_VAL_def\<close>)
qed

lemma PDO_TYPE_VAL_simps [pdo_simps]:
  "PDO_TYPE pdo = PDO_TYPE_FIXED \<Longrightarrow> PDO_TYPE_VAL pdo = DPM_PDO_TYPE_FIXED"
  "PDO_TYPE pdo = PDO_TYPE_BATTERY \<Longrightarrow> PDO_TYPE_VAL pdo = DPM_PDO_TYPE_BAT"
  "PDO_TYPE pdo = PDO_TYPE_VARIABLE \<Longrightarrow> PDO_TYPE_VAL pdo = DPM_PDO_TYPE_VAR"
  "PDO_TYPE pdo = PDO_TYPE_APDO \<Longrightarrow> PDO_TYPE_VAL pdo = DPM_PDO_TYPE_APDO"
  by (cases pdo rule: PDO_TYPE_cases; simp)+

section \<open>Decoding\<close>

text \<open>
  A capability is decodable unless it is a battery with a minimum voltage of zero. The
  decoded quantities are those of the bit fields: no product wraps around.
\<close>

definition pdo_ok :: "32 word \<Rightarrow> bool" where
  "pdo_ok pdo \<longleftrightarrow> PDO_TYPE pdo = PDO_TYPE_BATTERY \<longrightarrow> PDO_BATT_EXTRACT_MIN_VOLT pdo \<noteq> 0"

lemma volt_curr_range:
  "0 \<le> PDO_FIXED_EXTRACT_VOLT p \<and> PDO_FIXED_EXTRACT_VOLT p \<le> 51150"
  "0 \<le> PDO_FIXED_EXTRACT_CURR p \<and> PDO_FIXED_EXTRACT_CURR p \<le> 10230"
  "0 \<le> PDO_VAR_EXTRACT_MAX_VOLT p \<and> PDO_VAR_EXTRACT_MAX_VOLT p \<le> 51150"
  "0 \<le> PDO_VAR_EXTRACT_MIN_VOLT p \<and> PDO_VAR_EXTRACT_MIN_VOLT p \<le> 51150"
  "0 \<le> PDO_VAR_EXTRACT_CURR p \<and> PDO_VAR_EXTRACT_CURR p \<le> 10230"
  "0 \<le> PDO_BATT_EXTRACT_MAX_VOLT p \<and> PDO_BATT_EXTRACT_MAX_VOLT p \<le> 51150"
  "0 \<le> PDO_BATT_EXTRACT_MIN_VOLT p \<and> PDO_BATT_EXTRACT_MIN_VOLT p \<le> 51150"
  "0 \<le> PDO_BATT_EXTRACT_OP_POWER p \<and> PDO_BATT_EXTRACT_OP_POWER p \<le> 255750"
  "0 \<le> APDO_PPS_EXTRACT_MAX_VOLT p \<and> APDO_PPS_EXTRACT_MAX_VOLT p \<le> 25500"
  "0 \<le> APDO_PPS_EXTRACT_MIN_VOLT p \<and> APDO_PPS_EXTRACT_MIN_VOLT p \<le> 25500"
  "0 \<le> APDO_PPS_EXTRACT_CURR p \<and> APDO_PPS_EXTRACT_CURR p \<le> 6350"
  using uint_take10[of "drop_bit 10 p"] uint_take10[of "drop_bit 20 p"] uint_take10[of p]
    uint_take8[of "drop_bit 17 p"] uint_take8[of "drop_bit 8 p"] uint_take7[of p]
  by (simp_all add: PDO_FIXED_EXTRACT_VOLT_def PDO_FIXED_EXTRACT_CURR_def
      PDO_VAR_EXTRACT_MAX_VOLT_def PDO_VAR_EXTRACT_MIN_VOLT_def PDO_VAR_EXTRACT_CURR_def
      PDO_BATT_EXTRACT_MAX_VOLT_def PDO_BATT_EXTRACT_MIN_VOLT_def PDO_BATT_EXTRACT_OP_POWER_def
      APDO_PPS_EXTRACT_MAX_VOLT_def APDO_PPS_EXTRACT_MIN_VOLT_def APDO_PPS_EXTRACT_CURR_def
      take10 take8 take7)

lemma i32_power:
  assumes "0 \<le> a \<and> a \<le> 10230" "0 \<le> v \<and> v \<le> 51150"
  shows "i32 (a * v) = a * v"
proof -
  have "a * v \<le> 10230 * 51150" using assms by (intro mult_mono) auto
  moreover have "0 \<le> a * v" using assms by simp
  ultimately show ?thesis by (intro i32_id) (simp add: in_i32_def)
qed

text \<open>What decoding promises about every decodable capability.\<close>

definition pdo_info_ok :: "dpm_pdo_info_t \<Rightarrow> bool" where
  "pdo_info_ok info \<longleftrightarrow> 0 \<le> pi_vmin info \<and> pi_vmin info \<le> 51150 \<and>
     0 \<le> pi_vmax info \<and> pi_vmax info \<le> 51150 \<and> 0 \<le> pi_ma info \<and> 0 \<le> pi_uw info \<and>
     pi_uw info \<le> 523264500 \<and>
     (if pi_type info = DPM_PDO_TYPE_BAT then pi_vmin info \<noteq> 0 \<and> pi_ma info = pi_uw info div pi_vmin info
      else pi_ma info \<le> 10230 \<and> pi_uw info = pi_ma info * pi_vmax info)"

definition pdo_info :: "32 word \<Rightarrow> dpm_pdo_info_t" where
  "pdo_info pdo = (case dpm_extract_pdo_info pdo of Inl _ \<Rightarrow> zero_pdo_info | Inr info \<Rightarrow> info)"

lemmas extract_defs = dpm_extract_pdo_info_def dpm_extract_apdo_info_def zero_pdo_info_def Let_def

lemma extract_total: "pdo_ok pdo \<Longrightarrow> dpm_extract_pdo_info pdo = Inr (pdo_info pdo)"
  by (simp add: pdo_info_def pdo_ok_def dpm_extract_pdo_info_def Let_def)

lemma extract_div_by_zero: "\<not> pdo_ok pdo \<Longrightarrow> dpm_extract_pdo_info pdo = Inl DivByZero"
  by (simp add: pdo_ok_def dpm_extract_pdo_info_def Let_def)

lemma extract_Inr_iff [pdo_simps]:
  "dpm_extract_pdo_info pdo = Inr info \<longleftrightarrow> pdo_ok pdo \<and> info = pdo_info pdo"
  using extract_total extract_div_by_zero by (cases "pdo_ok pdo") auto

lemma pdo_info_fixed:
  assumes "PDO_TYPE pdo = PDO_TYPE_FIXED"
  shows "pdo_info pdo = \<lparr>pi_type = DPM_PDO_TYPE_FIXED, pi_apdo_type = 0, pi_pwr_limit = 0,
     pi_vmin = PDO_FIXED_EXTRACT_VOLT pdo, pi_vmax = PDO_FIXED_EXTRACT_VOLT pdo,
     pi_uw = PDO_FIXED_EXTRACT_CURR pdo * PDO_FIXED_EXTRACT_VOLT pdo,
     pi_ma = PDO_FIXED_EXTRACT_CURR pdo\<rparr>"
  using assms volt_curr_range(1,2)[of pdo]
  by (simp add: pdo_info_def extract_defs i32_power PDO_TYPE_VAL_simps)

lemma pdo_info_variable:
  assumes "PDO_TYPE pdo = PDO_TYPE_VARIABLE"
  shows "pdo_info pdo = \<lparr>pi_type = DPM_PDO_TYPE_VAR, pi_apdo_type = 0, pi_pwr_limit = 0,
     pi_vmin = PDO_VAR_EXTRACT_MIN_VOLT pdo, pi_vmax = PDO_VAR_EXTRACT_MAX_VOLT pdo,
     pi_uw = PDO_VAR_EXTRACT_CURR pdo * PDO_VAR_EXTRACT_MAX_VOLT pdo,
     pi_ma = PDO_VAR_EXTRACT_CURR pdo\<rparr>"
  using assms volt_curr_range(3,5)[of pdo]
  by (simp add: pdo_info_def extract_defs i32_power PDO_TYPE_VAL_simps)

lemma sdiv_nonneg: "0 \<le> a \<Longrightarrow> 0 \<le> b \<Longrightarrow> a sdiv b = a div b" for a b :: int
  by (simp add: signed_divide_int_def sgn_if)

lemma pdo_info_battery:
  assumes "PDO_TYPE pdo = PDO_TYPE_BATTERY" "pdo_ok pdo"
  shows "pdo_info pdo = \<lparr>pi_type = DPM_PDO_TYPE_BAT, pi_apdo_type = 0, pi_pwr_limit = 0,
     pi_vmin = PDO_BATT_EXTRACT_MIN_VOLT pdo, pi_vmax = PDO_BATT_EXTRACT_MAX_VOLT pdo,
     pi_uw = PDO_BATT_EXTRACT_OP_POWER pdo * 1000,
     pi_ma = PDO_BATT_EXTRACT_OP_POWER pdo * 1000 div PDO_BATT_EXTRACT_MIN_VOLT pdo\<rparr>"
proof -
  have uw: "i32 (PDO_BATT_EXTRACT_OP_POWER pdo * 1000) = PDO_BATT_EXTRACT_OP_POWER pdo * 1000"
    using volt_curr_range(8)[of pdo] by (intro i32_id) (simp add: in_i32_def)
  have ma: "(PDO_BATT_EXTRACT_OP_POWER pdo * 1000) sdiv PDO_BATT_EXTRACT_MIN_VOLT pdo =
      PDO_BATT_EXTRACT_OP_POWER pdo * 1000 div PDO_BATT_EXTRACT_MIN_VOLT pdo"
    using volt_curr_range(7,8)[of pdo] by (intro sdiv_nonneg) auto
  have "PDO_TYPE_VAL pdo = 1" "PDO_BATT_EXTRACT_MIN_VOLT pdo \<noteq> 0"
    using assms by (simp_all add: pdo_ok_def PDO_TYPE_VAL_simps)
  then show ?thesis
    using assms(1) by (simp add: pdo_info_def extract_defs uw ma)
qed

lemma pdo_info_augmented:
  assumes "PDO_TYPE pdo = PDO_TYPE_APDO"
  shows "pdo_info pdo = dpm_extract_apdo_info pdo (zero_pdo_info\<lparr>pi_type := DPM_PDO_TYPE_APDO\<rparr>)"
  using assms by (simp add: pdo_info_def dpm_extract_pdo_info_def Let_def PDO_TYPE_VAL_simps)

lemma pdo_info_ok: "pdo_ok pdo \<Longrightarrow> pdo_info_ok (pdo_info pdo)"
proof (cases pdo rule: PDO_TYPE_cases)
  case 1
  then show ?thesis using volt_curr_range(1,2)[of pdo] mult_mono[of "PDO_FIXED_EXTRACT_CURR pdo" 10230
      "PDO_FIXED_EXTRACT_VOLT pdo" 51150]
    by (simp add: pdo_info_fixed pdo_info_ok_def)
next
  case 2
  assume ok: "pdo_ok pdo"
  then have "PDO_BATT_EXTRACT_MIN_VOLT pdo > 0" using 2 volt_curr_range(7)[of pdo]
    by (simp add: pdo_ok_def order_less_le)
  then show ?thesis using 2 ok volt_curr_range(6-8)[of pdo]
    by (simp add: pdo_info_battery pdo_info_ok_def pos_imp_zdiv_nonneg_iff)
next
  case 3
  then show ?thesis using volt_curr_range(3-5)[of pdo] mult_mono[of "PDO_VAR_EXTRACT_CURR pdo" 10230
      "PDO_VAR_EXTRACT_MAX_VOLT pdo" 51150]
    by (simp add: pdo_info_variable pdo_info_ok_def)
next
  case 4
  then show ?thesis using volt_curr_range(9-11)[of pdo] mult_mono[of "APDO_PPS_EXTRACT_CURR pdo" 10230
      "APDO_PPS_EXTRACT_MAX_VOLT pdo" 51150]
    by (simp add: pdo_info_augmented dpm_extract_apdo_info_def zero_pdo_info_def Let_def
        pdo_info_ok_def i32_power)
qed

end
