(* ===== verification/Pd_Select.thy ===== *)
theory Pd_Select
  imports Pd_Pdo Tcpc_Data
begin

unbundle bit_operations_syntax

text \<open>
  The choice of a source capability (\<open>pd_dpm_pdo_select.c\<close>): one comparison per charging
  policy, and \<open>dpm_find_match_req_info\<close>, which walks the capabilities of the source and
  keeps the best one for a given capability of the sink.

  A union of \<open>max_uw\<close> and \<open>max_ma\<close> (\<open>oper_uw\<close> and \<open>oper_ma\<close>) is one field
  \<open>ri_max\<close> (\<open>ri_oper\<close>) of 32 bits. The configuration has \<open>CONFIG_USB_PD_ALT_MODE_RTDC\<close>,
  \<open>CONFIG_USB_PD_REV30\<close> and \<open>CONFIG_USB_PD_REV30_PPS_SINK\<close>.
\<close>

section \<open>Policies\<close>

abbreviation (input) DPM_CHARGING_POLICY_MASK :: "32 word" where "DPM_CHARGING_POLICY_MASK \<equiv> 0x0f"
abbreviation (input) DPM_CHARGING_POLICY_MAX_POWER :: "32 word" where
  "DPM_CHARGING_POLICY_MAX_POWER \<equiv> 1"
abbreviation (input) DPM_CHARGING_POLICY_CUSTOM :: "32 word" where "DPM_CHARGING_POLICY_CUSTOM \<equiv> 2"
abbreviation (input) DPM_CHARGING_POLICY_DIRECT_CHARGE :: "32 word" where
  "DPM_CHARGING_POLICY_DIRECT_CHARGE \<equiv> 3"
abbreviation (input) DPM_CHARGING_POLICY_PPS :: "32 word" where "DPM_CHARGING_POLICY_PPS \<equiv> 4"
abbreviation (input) DPM_CHARGING_POLICY_IGNORE_MISMATCH_CURR :: "8 word" where
  "DPM_CHARGING_POLICY_IGNORE_MISMATCH_CURR \<equiv> 0x10"
abbreviation (input) DPM_CHARGING_POLICY_PREFER_LOW_VOLTAGE :: "8 word" where
  "DPM_CHARGING_POLICY_PREFER_LOW_VOLTAGE \<equiv> 0x20"
abbreviation (input) DPM_CHARGING_POLICY_PREFER_HIGH_VOLTAGE :: "8 word" where
  "DPM_CHARGING_POLICY_PREFER_HIGH_VOLTAGE \<equiv> 0x40"

abbreviation (input) TCPC_VBUS_SINK_0V :: int where "TCPC_VBUS_SINK_0V \<equiv> 0"
abbreviation (input) TCPC_VBUS_SINK_5V :: int where "TCPC_VBUS_SINK_5V \<equiv> 5000"

record dpm_select_info_t =
  sel_pos :: nat
  sel_max_uw :: int
  sel_cur_mv :: int
  sel_policy :: "8 word"

record dpm_rdo_info_t =
  ri_pos :: nat
  ri_type :: int
  ri_mismatch :: bool
  ri_vmin :: int
  ri_vmax :: int
  ri_max :: "32 word"
  ri_oper :: "32 word"

definition zero_rdo_info :: dpm_rdo_info_t where
  "zero_rdo_info = \<lparr>ri_pos = 0, ri_type = 0, ri_mismatch = False, ri_vmin = 0, ri_vmax = 0,
     ri_max = 0, ri_oper = 0\<rparr>"

section \<open>One comparison per policy\<close>

definition dpm_calc_src_cap_power_uw :: "dpm_pdo_info_t \<Rightarrow> dpm_pdo_info_t \<Rightarrow> int" where
  "dpm_calc_src_cap_power_uw source sink =
    (if pi_type source = DPM_PDO_TYPE_BAT
     then if pi_type sink = DPM_PDO_TYPE_BAT then min (pi_uw source) (pi_uw sink) else pi_uw source
     else let ma = (if pi_type sink \<noteq> DPM_PDO_TYPE_BAT then min (pi_ma source) (pi_ma sink)
                    else pi_ma source)
          in i32 (ma * pi_vmax source))"

text \<open>A comparison returns whether the capability is taken, and the updated selection.\<close>

definition take_if_more_power ::
  "dpm_select_info_t \<Rightarrow> dpm_pdo_info_t \<Rightarrow> dpm_pdo_info_t \<Rightarrow> bool \<times> dpm_select_info_t" where
  "take_if_more_power select_info sink source =
    (let uw = dpm_calc_src_cap_power_uw source sink
     in if uw > sel_max_uw select_info
        then (True, select_info\<lparr>sel_max_uw := uw, sel_cur_mv := pi_vmax source\<rparr>)
        else (False, select_info))"

definition dpm_select_pdo_from_vsafe5v ::
  "dpm_select_info_t \<Rightarrow> dpm_pdo_info_t \<Rightarrow> dpm_pdo_info_t \<Rightarrow> bool \<times> dpm_select_info_t" where
  "dpm_select_pdo_from_vsafe5v select_info sink source =
    (if pi_vmax sink \<noteq> TCPC_VBUS_SINK_5V \<or> pi_vmin sink \<noteq> TCPC_VBUS_SINK_5V
        \<or> pi_vmax source \<noteq> TCPC_VBUS_SINK_5V \<or> pi_vmin source \<noteq> TCPC_VBUS_SINK_5V
     then (False, select_info)
     else take_if_more_power select_info sink source)"

definition dpm_select_pdo_from_direct_charge ::
  "dpm_select_info_t \<Rightarrow> dpm_pdo_info_t \<Rightarrow> dpm_pdo_info_t \<Rightarrow> bool \<times> dpm_select_info_t" where
  "dpm_select_pdo_from_direct_charge select_info sink source =
    (if pi_type sink \<noteq> DPM_PDO_TYPE_VAR \<or> pi_type source \<noteq> DPM_PDO_TYPE_VAR then (False, select_info)
     else if pi_vmin source \<ge> TCPC_VBUS_SINK_5V then (False, select_info)
     else if pi_vmax sink < pi_vmax source then (False, select_info)
     else if pi_vmin sink > pi_vmin source then (False, select_info)
     else take_if_more_power select_info sink source)"

definition dpm_select_pdo_from_custom ::
  "dpm_select_info_t \<Rightarrow> dpm_pdo_info_t \<Rightarrow> dpm_pdo_info_t \<Rightarrow> bool \<times> dpm_select_info_t" where
  "dpm_select_pdo_from_custom select_info sink source =
     dpm_select_pdo_from_vsafe5v select_info sink source"

definition dpm_is_valid_pdo_pair :: "dpm_pdo_info_t \<Rightarrow> dpm_pdo_info_t \<Rightarrow> 8 word \<Rightarrow> bool" where
  "dpm_is_valid_pdo_pair sink source policy =
    (if pi_vmax sink < pi_vmax source then False
     else if pi_vmin sink > pi_vmin source then False
     else if policy AND DPM_CHARGING_POLICY_IGNORE_MISMATCH_CURR \<noteq> 0 then True
     else pi_ma sink \<le> pi_ma source)"

definition dpm_select_pdo_from_max_power ::
  "dpm_select_info_t \<Rightarrow> dpm_pdo_info_t \<Rightarrow> dpm_pdo_info_t \<Rightarrow> bool \<times> dpm_select_info_t" where
  "dpm_select_pdo_from_max_power select_info sink source =
    (if pi_type sink = DPM_PDO_TYPE_VAR \<and> pi_vmin sink < 5000 then (False, select_info)
     else if pi_type sink = DPM_PDO_TYPE_APDO then (False, select_info)
     else if \<not> dpm_is_valid_pdo_pair sink source (sel_policy select_info) then (False, select_info)
     else let uw = dpm_calc_src_cap_power_uw source sink;
              overload =
                (if uw > sel_max_uw select_info then True
                 else if uw = sel_max_uw select_info
                 then if sel_policy select_info AND DPM_CHARGING_POLICY_PREFER_LOW_VOLTAGE \<noteq> 0
                      then pi_vmax source < sel_cur_mv select_info
                      else if sel_policy select_info AND DPM_CHARGING_POLICY_PREFER_HIGH_VOLTAGE \<noteq> 0
                      then pi_vmax source > sel_cur_mv select_info
                      else False
                 else False)
          in if overload
             then (True, select_info\<lparr>sel_max_uw := uw, sel_cur_mv := pi_vmax source\<rparr>)
             else (False, select_info))"

definition dpm_select_pdo_from_pps ::
  "dpm_select_info_t \<Rightarrow> dpm_pdo_info_t \<Rightarrow> dpm_pdo_info_t \<Rightarrow> bool \<times> dpm_select_info_t" where
  "dpm_select_pdo_from_pps select_info sink source =
    (if pi_type sink \<noteq> DPM_PDO_TYPE_APDO \<or> pi_type source \<noteq> DPM_PDO_TYPE_APDO then (False, select_info)
     else if pi_apdo_type source AND DPM_APDO_TYPE_PPS = 0 then (False, select_info)
     else if pi_vmax sink > pi_vmax source then (False, select_info)
     else if pi_vmin sink < pi_vmin source then (False, select_info)
     else if sel_policy select_info AND DPM_CHARGING_POLICY_IGNORE_MISMATCH_CURR = 0
             \<and> pi_ma source < pi_ma sink then (False, select_info)
     else let uw = i32 (pi_vmax sink * pi_ma source);
              diff_mv = i32 (pi_vmax source - pi_vmax sink);
              overload = (if uw > sel_max_uw select_info then True
                          else if uw < sel_max_uw select_info then False
                          else if sel_cur_mv select_info < 300 \<and> diff_mv > 300 then True
                          else diff_mv < sel_cur_mv select_info)
          in if overload then (True, select_info\<lparr>sel_max_uw := uw, sel_cur_mv := diff_mv\<rparr>)
             else (False, select_info))"

section \<open>The walk over the capabilities of the source\<close>

text \<open>A read of an array of capabilities; the array has seven elements.\<close>

definition pdo_at :: "32 word list \<Rightarrow> nat \<Rightarrow> 32 word kres" where
  "pdo_at pdos i = (if i < length pdos then Inr (pdos ! i) else Inl OutOfBounds)"

definition select_pdo_fun ::
  "32 word \<Rightarrow> dpm_select_info_t \<Rightarrow> dpm_pdo_info_t \<Rightarrow> dpm_pdo_info_t \<Rightarrow> bool \<times> dpm_select_info_t" where
  "select_pdo_fun policy =
    (let p = policy AND DPM_CHARGING_POLICY_MASK
     in if p = DPM_CHARGING_POLICY_MAX_POWER then dpm_select_pdo_from_max_power
        else if p = DPM_CHARGING_POLICY_CUSTOM then dpm_select_pdo_from_custom
        else if p = DPM_CHARGING_POLICY_DIRECT_CHARGE then dpm_select_pdo_from_direct_charge
        else if p = DPM_CHARGING_POLICY_PPS then dpm_select_pdo_from_pps
        else dpm_select_pdo_from_vsafe5v)"

definition select_one where
  "select_one f sink src_pdos i select =
     kbind (pdo_at src_pdos i) (\<lambda>pdo.
     kbind (dpm_extract_pdo_info pdo) (\<lambda>source.
       case f select sink source of
         (taken, select') \<Rightarrow> Inr (if taken then select'\<lparr>sel_pos := u8 (i + 1)\<rparr> else select')))"

primrec select_loop where
  "select_loop f sink src_pdos [] select = Inr select"
| "select_loop f sink src_pdos (i # is) select =
     kbind (select_one f sink src_pdos i select) (select_loop f sink src_pdos is)"

definition fill_req_info ::
  "dpm_select_info_t \<Rightarrow> dpm_pdo_info_t \<Rightarrow> dpm_pdo_info_t \<Rightarrow> dpm_rdo_info_t \<Rightarrow> dpm_rdo_info_t" where
  "fill_req_info select sink source req_info =
    (let r = req_info\<lparr>ri_pos := sel_pos select, ri_type := pi_type source,
               ri_vmax := pi_vmax source, ri_vmin := pi_vmin source,
               ri_mismatch := (if pi_type sink = DPM_PDO_TYPE_BAT then sel_max_uw select < pi_uw sink
                               else pi_ma source < pi_ma sink)\<rparr>;
         r1 = (if pi_type source = DPM_PDO_TYPE_BAT
               then r\<lparr>ri_max := word_of_int (pi_uw sink), ri_oper := word_of_int (sel_max_uw select)\<rparr>
               else r\<lparr>ri_max := word_of_int (pi_ma sink),
                      ri_oper := word_of_int (min (pi_ma sink) (pi_ma source))\<rparr>)
     in if pi_type source = DPM_PDO_TYPE_APDO
        then r1\<lparr>ri_vmax := pi_vmax sink, ri_vmin := pi_vmin sink\<rparr> else r1)"

definition dpm_find_match_req_info ::
  "dpm_rdo_info_t \<Rightarrow> dpm_pdo_info_t \<Rightarrow> nat \<Rightarrow> 32 word list \<Rightarrow> int \<Rightarrow> 32 word \<Rightarrow>
     (bool \<times> dpm_rdo_info_t) kres" where
  "dpm_find_match_req_info req_info sink cnt src_pdos min_uw policy =
     kbind (select_loop (select_pdo_fun policy) sink src_pdos [0..<cnt]
       \<lparr>sel_pos = 0, sel_max_uw = min_uw, sel_cur_mv = 0, sel_policy = ucast policy\<rparr>) (\<lambda>select.
     if sel_pos select > 0
     then kbind (pdo_at src_pdos (sel_pos select - 1)) (\<lambda>pdo.
          kbind (dpm_extract_pdo_info pdo) (\<lambda>source.
            Inr (True, fill_req_info select sink source req_info)))
     else Inr (False, req_info))"

end
