(* ===== verification/Pd_Choose.thy ===== *)
theory Pd_Choose
  imports Pd_Select
begin

unbundle bit_operations_syntax

text \<open>
  What the walk of \<open>dpm_find_match_req_info\<close> returns. Every comparison takes a capability
  when it is eligible for the sink and better than the one kept so far (\<open>cap_choice\<close>); so
  the one that is kept is eligible. Where \<open>better\<close> is a strict order up to ties
  (\<open>cap_best\<close>), the one kept is the best of all, and the first one among the best. All
  policies are instances of the first contract, and all but PPS of the second.
\<close>

lemma select_loop_append:
  "select_loop f sink pdos (xs @ ys) st =
     kbind (select_loop f sink pdos xs st) (select_loop f sink pdos ys)"
proof (induction xs arbitrary: st)
  case (Cons x xs)
  then have "select_loop f sink pdos (xs @ ys) =
      (\<lambda>st. kbind (select_loop f sink pdos xs st) (select_loop f sink pdos ys))" by blast
  then show ?case by (simp add: kbind_assoc)
qed simp

section \<open>The contract of a comparison\<close>

locale cap_choice =
  fixes f :: "dpm_select_info_t \<Rightarrow> dpm_pdo_info_t \<Rightarrow> dpm_pdo_info_t \<Rightarrow> bool \<times> dpm_select_info_t"
    and pol :: "8 word"
    and elig :: "dpm_pdo_info_t \<Rightarrow> dpm_pdo_info_t \<Rightarrow> bool"
    and key :: "dpm_pdo_info_t \<Rightarrow> dpm_pdo_info_t \<Rightarrow> int \<times> int"
    and better :: "int \<times> int \<Rightarrow> int \<times> int \<Rightarrow> bool"
  assumes f_eq: "sel_policy st = pol \<Longrightarrow> f st sink source =
      (if elig sink source \<and> better (key sink source) (sel_max_uw st, sel_cur_mv st)
       then (True, st\<lparr>sel_max_uw := fst (key sink source), sel_cur_mv := snd (key sink source)\<rparr>)
       else (False, st))"
begin

definition kept :: "dpm_select_info_t \<Rightarrow> int \<times> int" where
  "kept st = (sel_max_uw st, sel_cur_mv st)"

lemma select_one_eq:
  assumes "i < length pdos" "pdo_ok (pdos ! i)" "sel_policy st = pol" "i < 255"
  shows "select_one f sink pdos i st =
    Inr (if elig sink (pdo_info (pdos ! i)) \<and> better (key sink (pdo_info (pdos ! i))) (kept st)
         then \<lparr>sel_pos = i + 1, sel_max_uw = fst (key sink (pdo_info (pdos ! i))),
               sel_cur_mv = snd (key sink (pdo_info (pdos ! i))), sel_policy = pol\<rparr>
         else st)"
  using assms by (cases st) (simp add: select_one_def pdo_at_def extract_total f_eq kept_def)

lemma loop_keeps:
  assumes "\<forall>i\<in>set is. i < length pdos \<and> pdo_ok (pdos ! i) \<and> i < 255" "sel_policy st = pol"
  shows "\<exists>st'. select_loop f sink pdos is st = Inr st' \<and> sel_policy st' = pol \<and>
    (st' = st \<or> (\<exists>i\<in>set is. sel_pos st' = i + 1 \<and> elig sink (pdo_info (pdos ! i)) \<and>
                  kept st' = key sink (pdo_info (pdos ! i))))"
  using assms
proof (induction "is" arbitrary: st)
  case Nil
  then show ?case by simp
next
  case (Cons i "is")
  obtain st1 where st1: "select_one f sink pdos i st = Inr st1" "sel_policy st1 = pol"
    "st1 = st \<or> sel_pos st1 = i + 1 \<and> elig sink (pdo_info (pdos ! i)) \<and>
       kept st1 = key sink (pdo_info (pdos ! i))"
    using select_one_eq[of i pdos st sink] Cons.prems by (auto simp: kept_def)
  obtain st' where "select_loop f sink pdos is st1 = Inr st'" "sel_policy st' = pol"
    "st' = st1 \<or> (\<exists>j\<in>set is. sel_pos st' = j + 1 \<and> elig sink (pdo_info (pdos ! j)) \<and>
       kept st' = key sink (pdo_info (pdos ! j)))"
    using Cons.IH[OF _ st1(2)] Cons.prems(1) by auto
  then show ?case using st1 by auto
qed

end

text \<open>An order on the keys: irreflexive, and incomparability is transitive.\<close>

locale cap_best = cap_choice +
  assumes better_irrefl: "\<not> better k k"
    and better_trans: "better a b \<Longrightarrow> better b c \<Longrightarrow> better a c"
    and better_weak: "better a c \<Longrightarrow> better a b \<or> better b c"
begin

text \<open>
  The selection after the first \<open>n\<close> capabilities, started from \<open>st0\<close>.
\<close>

definition best_of :: "nat \<Rightarrow> 32 word list \<Rightarrow> dpm_pdo_info_t \<Rightarrow> dpm_select_info_t \<Rightarrow> dpm_select_info_t \<Rightarrow> bool"
  where
  "best_of n pdos sink st0 st \<longleftrightarrow> sel_policy st = pol \<and>
    (\<forall>q < n. elig sink (pdo_info (pdos ! q)) \<longrightarrow> \<not> better (key sink (pdo_info (pdos ! q))) (kept st)) \<and>
    (if sel_pos st = 0 then st = st0
     else (let p = sel_pos st - 1 in p < n \<and> elig sink (pdo_info (pdos ! p)) \<and>
       kept st = key sink (pdo_info (pdos ! p)) \<and> better (kept st) (kept st0) \<and>
       (\<forall>q < p. elig sink (pdo_info (pdos ! q)) \<longrightarrow>
          better (kept st) (key sink (pdo_info (pdos ! q))))))"

lemma best_of_step:
  assumes b: "best_of n pdos sink st0 st"
    and n: "n < length pdos" "pdo_ok (pdos ! n)" "n < 255"
  shows "\<exists>st'. select_one f sink pdos n st = Inr st' \<and> best_of (Suc n) pdos sink st0 st'"
proof (cases "elig sink (pdo_info (pdos ! n)) \<and> better (key sink (pdo_info (pdos ! n))) (kept st)")
  case False
  then have "select_one f sink pdos n st = Inr st"
    using select_one_eq[OF n(1,2) _ n(3), of st sink] b by (auto simp: best_of_def)
  moreover have "best_of (Suc n) pdos sink st0 st"
    using b False by (auto simp: best_of_def less_Suc_eq Let_def)
  ultimately show ?thesis by blast
next
  case True
  let ?k = "key sink (pdo_info (pdos ! n))"
  define st' where "st' = \<lparr>sel_pos = n + 1, sel_max_uw = fst ?k, sel_cur_mv = snd ?k, sel_policy = pol\<rparr>"
  have st': "select_one f sink pdos n st = Inr st'" "kept st' = ?k"
    using select_one_eq[OF n(1,2) _ n(3), of st sink] b True
    by (auto simp: best_of_def st'_def kept_def)
  have over: "better ?k (key sink (pdo_info (pdos ! q)))"
    if "q < n" "elig sink (pdo_info (pdos ! q))" for q
    using that b True better_weak[of ?k "kept st" "key sink (pdo_info (pdos ! q))"]
    by (auto simp: best_of_def)
  then have "\<not> better (key sink (pdo_info (pdos ! q))) ?k" if "q \<le> n" "elig sink (pdo_info (pdos ! q))" for q
    using that better_irrefl better_trans by (metis order_le_less)
  moreover have "better ?k (kept st0)"
    using b True better_trans[of ?k "kept st" "kept st0"]
    by (cases "sel_pos st = 0") (auto simp: best_of_def Let_def)
  ultimately have "best_of (Suc n) pdos sink st0 st'"
    using over True st'(2) by (simp add: best_of_def st'_def less_Suc_eq_le)
  then show ?thesis using st'(1) by blast
qed

lemma loop_best:
  assumes "\<forall>i < n. i < length pdos \<and> pdo_ok (pdos ! i) \<and> i < 255"
    and "sel_policy st0 = pol" "sel_pos st0 = 0"
  shows "\<exists>st. select_loop f sink pdos [0..<n] st0 = Inr st \<and> best_of n pdos sink st0 st"
  using assms
proof (induction n)
  case 0
  then show ?case by (simp add: best_of_def)
next
  case (Suc n)
  then obtain st where st: "select_loop f sink pdos [0..<n] st0 = Inr st" "best_of n pdos sink st0 st"
    by auto
  then obtain st' where "select_one f sink pdos n st = Inr st'" "best_of (Suc n) pdos sink st0 st'"
    using best_of_step[OF st(2)] Suc.prems(1) by auto
  then show ?case using st(1) by (simp add: select_loop_append)
qed

end

section \<open>The policies\<close>

definition cap_key :: "dpm_pdo_info_t \<Rightarrow> dpm_pdo_info_t \<Rightarrow> int \<times> int" where
  "cap_key sink source = (dpm_calc_src_cap_power_uw source sink, pi_vmax source)"

definition more_power :: "int \<times> int \<Rightarrow> int \<times> int \<Rightarrow> bool" where
  "more_power k k' \<longleftrightarrow> fst k > fst k'"

definition vsafe5v_elig :: "dpm_pdo_info_t \<Rightarrow> dpm_pdo_info_t \<Rightarrow> bool" where
  "vsafe5v_elig sink source \<longleftrightarrow> pi_vmax sink = 5000 \<and> pi_vmin sink = 5000 \<and>
     pi_vmax source = 5000 \<and> pi_vmin source = 5000"

definition direct_elig :: "dpm_pdo_info_t \<Rightarrow> dpm_pdo_info_t \<Rightarrow> bool" where
  "direct_elig sink source \<longleftrightarrow> pi_type sink = DPM_PDO_TYPE_VAR \<and> pi_type source = DPM_PDO_TYPE_VAR \<and>
     pi_vmin source < 5000 \<and> pi_vmin sink \<le> pi_vmin source \<and> pi_vmax source \<le> pi_vmax sink"

definition max_power_elig :: "8 word \<Rightarrow> dpm_pdo_info_t \<Rightarrow> dpm_pdo_info_t \<Rightarrow> bool" where
  "max_power_elig pol sink source \<longleftrightarrow> \<not> (pi_type sink = DPM_PDO_TYPE_VAR \<and> pi_vmin sink < 5000) \<and>
     pi_type sink \<noteq> DPM_PDO_TYPE_APDO \<and> pi_vmin sink \<le> pi_vmin source \<and> pi_vmax source \<le> pi_vmax sink \<and>
     (pol AND DPM_CHARGING_POLICY_IGNORE_MISMATCH_CURR \<noteq> 0 \<or> pi_ma sink \<le> pi_ma source)"

definition max_power_better :: "8 word \<Rightarrow> int \<times> int \<Rightarrow> int \<times> int \<Rightarrow> bool" where
  "max_power_better pol k k' \<longleftrightarrow> fst k > fst k' \<or> fst k = fst k' \<and>
     (if pol AND DPM_CHARGING_POLICY_PREFER_LOW_VOLTAGE \<noteq> 0 then snd k < snd k'
      else if pol AND DPM_CHARGING_POLICY_PREFER_HIGH_VOLTAGE \<noteq> 0 then snd k > snd k' else False)"

definition pps_elig :: "8 word \<Rightarrow> dpm_pdo_info_t \<Rightarrow> dpm_pdo_info_t \<Rightarrow> bool" where
  "pps_elig pol sink source \<longleftrightarrow> pi_type sink = DPM_PDO_TYPE_APDO \<and> pi_type source = DPM_PDO_TYPE_APDO \<and>
     pi_apdo_type source AND DPM_APDO_TYPE_PPS \<noteq> 0 \<and> pi_vmin source \<le> pi_vmin sink \<and>
     pi_vmax sink \<le> pi_vmax source \<and>
     (pol AND DPM_CHARGING_POLICY_IGNORE_MISMATCH_CURR \<noteq> 0 \<or> pi_ma sink \<le> pi_ma source)"

definition pps_key :: "dpm_pdo_info_t \<Rightarrow> dpm_pdo_info_t \<Rightarrow> int \<times> int" where
  "pps_key sink source = (i32 (pi_vmax sink * pi_ma source), i32 (pi_vmax source - pi_vmax sink))"

definition pps_better :: "int \<times> int \<Rightarrow> int \<times> int \<Rightarrow> bool" where
  "pps_better k k' \<longleftrightarrow> fst k > fst k' \<or> fst k = fst k' \<and>
     (snd k' < 300 \<and> snd k > 300 \<or> snd k < snd k')"

interpretation vsafe5v: cap_best dpm_select_pdo_from_vsafe5v pol vsafe5v_elig cap_key more_power for pol
  by unfold_locales (auto simp: dpm_select_pdo_from_vsafe5v_def take_if_more_power_def vsafe5v_elig_def
      cap_key_def more_power_def Let_def)

interpretation custom: cap_best dpm_select_pdo_from_custom pol vsafe5v_elig cap_key more_power for pol
  by unfold_locales (auto simp: dpm_select_pdo_from_custom_def vsafe5v.f_eq more_power_def)

interpretation direct: cap_best dpm_select_pdo_from_direct_charge pol direct_elig cap_key more_power for pol
  by unfold_locales (auto simp: dpm_select_pdo_from_direct_charge_def take_if_more_power_def direct_elig_def
      cap_key_def more_power_def Let_def)

interpretation maxp: cap_best dpm_select_pdo_from_max_power pol "max_power_elig pol" cap_key
  "max_power_better pol" for pol
  by unfold_locales (auto simp: dpm_select_pdo_from_max_power_def dpm_is_valid_pdo_pair_def max_power_elig_def
      cap_key_def max_power_better_def Let_def split: if_splits)

interpretation pps: cap_choice dpm_select_pdo_from_pps pol "pps_elig pol" pps_key pps_better for pol
  by unfold_locales (auto simp: dpm_select_pdo_from_pps_def pps_elig_def pps_key_def pps_better_def Let_def)

end
