(* ===== verification/Pd_Match.thy ===== *)
theory Pd_Match
  imports Pd_Choose
begin

unbundle bit_operations_syntax

text \<open>
  What \<open>dpm_find_match_req_info\<close> returns, for every policy: no fault when the
  capabilities can be decoded, a request that names one of them, and that one eligible
  under the policy. Under the policy of maximum power it is the best one.
\<close>

section \<open>All policies\<close>

definition policy_elig :: "32 word \<Rightarrow> dpm_pdo_info_t \<Rightarrow> dpm_pdo_info_t \<Rightarrow> bool" where
  "policy_elig policy =
    (let p = policy AND DPM_CHARGING_POLICY_MASK
     in if p = DPM_CHARGING_POLICY_MAX_POWER then max_power_elig (ucast policy)
        else if p = DPM_CHARGING_POLICY_DIRECT_CHARGE then direct_elig
        else if p = DPM_CHARGING_POLICY_PPS then pps_elig (ucast policy)
        else vsafe5v_elig)"

definition policy_key :: "32 word \<Rightarrow> dpm_pdo_info_t \<Rightarrow> dpm_pdo_info_t \<Rightarrow> int \<times> int" where
  "policy_key policy =
    (if policy AND DPM_CHARGING_POLICY_MASK = DPM_CHARGING_POLICY_PPS then pps_key else cap_key)"

definition policy_better :: "32 word \<Rightarrow> int \<times> int \<Rightarrow> int \<times> int \<Rightarrow> bool" where
  "policy_better policy =
    (let p = policy AND DPM_CHARGING_POLICY_MASK
     in if p = DPM_CHARGING_POLICY_MAX_POWER then max_power_better (ucast policy)
        else if p = DPM_CHARGING_POLICY_PPS then pps_better else more_power)"

interpretation policy: cap_choice "select_pdo_fun policy" "ucast policy" "policy_elig policy"
  "policy_key policy" "policy_better policy" for policy
proof
  fix st :: dpm_select_info_t and sink source
  assume pol: "sel_policy st = ucast policy"
  show "select_pdo_fun policy st sink source =
      (if policy_elig policy sink source \<and>
          policy_better policy (policy_key policy sink source) (sel_max_uw st, sel_cur_mv st)
       then (True, st\<lparr>sel_max_uw := fst (policy_key policy sink source),
                      sel_cur_mv := snd (policy_key policy sink source)\<rparr>)
       else (False, st))"
    by (simp add: select_pdo_fun_def policy_elig_def policy_key_def policy_better_def Let_def
        maxp.f_eq[OF pol] custom.f_eq[OF pol] direct.f_eq[OF pol] pps.f_eq[OF pol] vsafe5v.f_eq[OF pol])
qed

text \<open>The capabilities that the walk reads: inside the array, and decodable.\<close>

definition caps_ok :: "nat \<Rightarrow> 32 word list \<Rightarrow> bool" where
  "caps_ok cnt pdos \<longleftrightarrow> cnt \<le> length pdos \<and> length pdos \<le> 7 \<and> (\<forall>i < cnt. pdo_ok (pdos ! i))"

definition start :: "int \<Rightarrow> 32 word \<Rightarrow> dpm_select_info_t" where
  "start min_uw policy = \<lparr>sel_pos = 0, sel_max_uw = min_uw, sel_cur_mv = 0, sel_policy = ucast policy\<rparr>"

lemma find_of_loop:
  assumes "caps_ok cnt pdos"
    and "select_loop (select_pdo_fun policy) sink pdos [0..<cnt] (start min_uw policy) = Inr st"
    and "sel_pos st \<noteq> 0 \<Longrightarrow> sel_pos st - 1 < cnt"
  shows "dpm_find_match_req_info req sink cnt pdos min_uw policy =
    Inr (sel_pos st \<noteq> 0, if sel_pos st \<noteq> 0
         then fill_req_info st sink (pdo_info (pdos ! (sel_pos st - 1))) req else req)"
proof (cases "sel_pos st = 0")
  case True
  then show ?thesis using assms(2) by (simp add: dpm_find_match_req_info_def start_def[symmetric])
next
  case False
  then have "sel_pos st - 1 < length pdos" "pdo_ok (pdos ! (sel_pos st - 1))"
    using assms(1,3) by (auto simp: caps_ok_def)
  then show ?thesis using assms(2) False
    by (simp add: dpm_find_match_req_info_def start_def[symmetric] pdo_at_def extract_total)
qed

lemma find_match:
  assumes ok: "caps_ok cnt pdos"
  obtains st where
    "dpm_find_match_req_info req sink cnt pdos min_uw policy =
      Inr (sel_pos st \<noteq> 0, if sel_pos st \<noteq> 0
           then fill_req_info st sink (pdo_info (pdos ! (sel_pos st - 1))) req else req)"
    "sel_pos st \<noteq> 0 \<Longrightarrow> sel_pos st - 1 < cnt"
    "sel_pos st \<noteq> 0 \<Longrightarrow> policy_elig policy sink (pdo_info (pdos ! (sel_pos st - 1)))"
    "sel_pos st \<noteq> 0 \<Longrightarrow> sel_max_uw st = fst (policy_key policy sink (pdo_info (pdos ! (sel_pos st - 1))))"
proof -
  have "\<forall>i\<in>set [0..<cnt]. i < length pdos \<and> pdo_ok (pdos ! i) \<and> i < 255"
    using ok by (auto simp: caps_ok_def)
  from policy.loop_keeps[OF this, of "start min_uw policy" policy sink]
  obtain st where st: "select_loop (select_pdo_fun policy) sink pdos [0..<cnt] (start min_uw policy) = Inr st"
    "st = start min_uw policy \<or> (\<exists>i < cnt. sel_pos st = i + 1 \<and>
       policy_elig policy sink (pdo_info (pdos ! i)) \<and>
       policy.kept st = policy_key policy sink (pdo_info (pdos ! i)))"
    by (auto simp: start_def)
  have p: "sel_pos st - 1 < cnt \<and> policy_elig policy sink (pdo_info (pdos ! (sel_pos st - 1))) \<and>
      sel_max_uw st = fst (policy_key policy sink (pdo_info (pdos ! (sel_pos st - 1))))" if "sel_pos st \<noteq> 0"
    using st(2) that by (auto simp: start_def policy.kept_def dest: arg_cong[where f = fst])
  show thesis
    by (rule that[OF find_of_loop[OF ok st(1)]]) (use p in auto)
qed

section \<open>Maximum power\<close>

lemma find_max_power:
  assumes ok: "caps_ok cnt pdos" and pol: "policy AND DPM_CHARGING_POLICY_MASK = DPM_CHARGING_POLICY_MAX_POWER"
  obtains st where
    "dpm_find_match_req_info req sink cnt pdos min_uw policy =
      Inr (sel_pos st \<noteq> 0, if sel_pos st \<noteq> 0
           then fill_req_info st sink (pdo_info (pdos ! (sel_pos st - 1))) req else req)"
    "maxp.best_of (ucast policy) cnt pdos sink (start min_uw policy) st"
proof -
  have f: "select_pdo_fun policy = dpm_select_pdo_from_max_power"
    using pol by (simp add: select_pdo_fun_def)
  have "\<forall>i < cnt. i < length pdos \<and> pdo_ok (pdos ! i) \<and> i < 255"
    using ok by (auto simp: caps_ok_def)
  from maxp.loop_best[OF this, of "start min_uw policy" "ucast policy" sink]
  obtain st where st: "select_loop (select_pdo_fun policy) sink pdos [0..<cnt] (start min_uw policy) = Inr st"
    "maxp.best_of (ucast policy) cnt pdos sink (start min_uw policy) st"
    by (auto simp: start_def f)
  show thesis
    by (rule that[OF find_of_loop[OF ok st(1)] st(2)]) (use st(2) in \<open>simp add: maxp.best_of_def Let_def\<close>)
qed

lemma calc_power_nonneg:
  assumes "pdo_info_ok source" "0 \<le> pi_ma sink" "0 \<le> pi_uw sink"
  shows "0 \<le> dpm_calc_src_cap_power_uw source sink"
proof -
  have "i32 (min (pi_ma source) (pi_ma sink) * pi_vmax source) = min (pi_ma source) (pi_ma sink) * pi_vmax source"
    "i32 (pi_ma source * pi_vmax source) = pi_ma source * pi_vmax source"
    if "pi_type source \<noteq> DPM_PDO_TYPE_BAT"
    using that assms by (intro i32_power; simp add: pdo_info_ok_def min_def)+
  then show ?thesis using assms by (simp add: dpm_calc_src_cap_power_uw_def pdo_info_ok_def)
qed

text \<open>
  Under the policy of maximum power the choice among decodable source
  capabilities is the best one for the given sink capability: a request is found exactly
  when some capability is eligible; it names an eligible one; no eligible one has more
  power, or the same power at a preferred voltage; and every earlier eligible one is
  strictly worse.
\<close>

theorem max_power_choice:
  assumes "caps_ok cnt pdos"
    and "policy AND DPM_CHARGING_POLICY_MASK = DPM_CHARGING_POLICY_MAX_POWER"
    and "0 \<le> pi_ma sink" "0 \<le> pi_uw sink"
  defines "elig \<equiv> \<lambda>i. max_power_elig (ucast policy) sink (pdo_info (pdos ! i))"
    and "better \<equiv> \<lambda>i j. max_power_better (ucast policy) (cap_key sink (pdo_info (pdos ! i)))
                           (cap_key sink (pdo_info (pdos ! j)))"
  shows "\<exists>found r. dpm_find_match_req_info req sink cnt pdos (- 1) policy = Inr (found, r) \<and>
    (found \<longleftrightarrow> (\<exists>i < cnt. elig i)) \<and> (\<not> found \<longrightarrow> r = req) \<and>
    (found \<longrightarrow> (\<exists>p < cnt. ri_pos r = p + 1 \<and> elig p \<and> (\<forall>q < cnt. elig q \<longrightarrow> \<not> better q p) \<and>
       (\<forall>q < p. elig q \<longrightarrow> better p q)))"
proof -
  obtain st where st: "dpm_find_match_req_info req sink cnt pdos (- 1) policy =
      Inr (sel_pos st \<noteq> 0, if sel_pos st \<noteq> 0
           then fill_req_info st sink (pdo_info (pdos ! (sel_pos st - 1))) req else req)"
    "maxp.best_of (ucast policy) cnt pdos sink (start (- 1) policy) st"
    using find_max_power[OF assms(1,2)] by blast
  have pow: "0 \<le> dpm_calc_src_cap_power_uw (pdo_info (pdos ! i)) sink" if "i < cnt" for i
    using assms(1) that assms(3,4) by (intro calc_power_nonneg pdo_info_ok) (auto simp: caps_ok_def)
  have none: "\<not> elig i" if "sel_pos st = 0" "i < cnt" for i
    using st(2) that pow[OF that(2)]
    by (auto simp: maxp.best_of_def maxp.kept_def start_def max_power_better_def cap_key_def elig_def)
  have pos: "ri_pos (fill_req_info st sink s req) = sel_pos st" for s
    by (simp add: fill_req_info_def Let_def)
  show ?thesis
  proof (cases "sel_pos st = 0")
    case True
    then show ?thesis using st(1) none by auto
  next
    case False
    then have "sel_pos st - 1 < cnt" "elig (sel_pos st - 1)"
      "\<forall>q < cnt. elig q \<longrightarrow> \<not> better q (sel_pos st - 1)" "\<forall>q < sel_pos st - 1. elig q \<longrightarrow> better (sel_pos st - 1) q"
      using st(2) by (auto simp: maxp.best_of_def Let_def elig_def better_def)
    then show ?thesis using st(1) False pos
      by (intro exI[of _ True] exI[of _ "fill_req_info st sink (pdo_info (pdos ! (sel_pos st - 1))) req"]
          conjI impI exI[of _ "sel_pos st - 1"]) auto
  qed
qed

end
