(* ===== verification/Pd_Dpm.thy ===== *)
theory Pd_Dpm
  imports Pd_Select Tcpc_Post
begin

unbundle bit_operations_syntax

text \<open>
  The device policy manager as far as it negotiates power (\<open>pd_dpm_core.c\<close>,
  \<open>pd_core.c\<close>, \<open>tcpci.c\<close> under \<open>src/drivers/usb/typec/mmi_tcpc\<close>): the request that the sink
  builds from the capabilities of the source, the requests of the port manager, the
  evaluation of a request by the source, the capabilities that are sent, and the power
  levels of a transition.

  The operations work on the device of the event layer; what they post is put into its
  queue. Messages that are sent and notifications are appended to the log of the device.
  An \<open>int\<close> that is converted to \<open>uint32_t\<close> is \<open>word_of_int\<close>, and back \<open>sint\<close>.
\<close>

section \<open>Constants\<close>

abbreviation (input) PD_EVT_DPM_MSG :: nat where "PD_EVT_DPM_MSG \<equiv> 4"
abbreviation (input) PD_EVT_DATA_MSG :: nat where "PD_EVT_DATA_MSG \<equiv> 2"
abbreviation (input) PD_DPM_NOTIFIED :: nat where "PD_DPM_NOTIFIED \<equiv> 0"
abbreviation (input) PD_DPM_ACK :: nat where "PD_DPM_ACK \<equiv> 0"
abbreviation (input) PD_DPM_NAK :: nat where "PD_DPM_NAK \<equiv> 1"
abbreviation (input) PD_DPM_NAK_REJECT :: nat where "PD_DPM_NAK_REJECT \<equiv> 0"
abbreviation (input) PD_DATA_SOURCE_CAP :: nat where "PD_DATA_SOURCE_CAP \<equiv> 1"
abbreviation (input) PD_DATA_REQUEST :: nat where "PD_DATA_REQUEST \<equiv> 2"
abbreviation (input) PD_DATA_SINK_CAP :: nat where "PD_DATA_SINK_CAP \<equiv> 4"
abbreviation (input) PD_PE_RESET_PRL_COMPLETED :: nat where "PD_PE_RESET_PRL_COMPLETED \<equiv> 0"
abbreviation (input) PD_PE_POWER_ROLE_AT_DEFAULT :: nat where "PD_PE_POWER_ROLE_AT_DEFAULT \<equiv> 1"

abbreviation (input) TCP_VBUS_CTRL_PD :: nat where "TCP_VBUS_CTRL_PD \<equiv> 2"
abbreviation (input) TCP_VBUS_CTRL_HRESET :: nat where "TCP_VBUS_CTRL_HRESET \<equiv> 2"
abbreviation (input) TCP_VBUS_CTRL_REQUEST :: nat where "TCP_VBUS_CTRL_REQUEST \<equiv> 4"
abbreviation (input) TCP_VBUS_CTRL_STANDBY :: nat where "TCP_VBUS_CTRL_STANDBY \<equiv> 5"
abbreviation (input) TCP_VBUS_CTRL_STANDBY_UP :: nat where "TCP_VBUS_CTRL_STANDBY_UP \<equiv> 6"
abbreviation (input) TCP_VBUS_CTRL_STANDBY_DOWN :: nat where "TCP_VBUS_CTRL_STANDBY_DOWN \<equiv> 7"
abbreviation (input) TCP_VBUS_CTRL_PD_DETECT :: nat where "TCP_VBUS_CTRL_PD_DETECT \<equiv> 128"

abbreviation (input) TCP_DPM_RET_DENIED_INVALID_REQUEST :: nat where
  "TCP_DPM_RET_DENIED_INVALID_REQUEST \<equiv> 6"
abbreviation (input) TCP_DPM_RET_DENIED_REPEAT_REQUEST :: nat where
  "TCP_DPM_RET_DENIED_REPEAT_REQUEST \<equiv> 7"

abbreviation (input) DPM_CAP_LOCAL_USB_COMM :: "32 word" where "DPM_CAP_LOCAL_USB_COMM \<equiv> 8"
abbreviation (input) DPM_CAP_LOCAL_GIVE_BACK :: "32 word" where "DPM_CAP_LOCAL_GIVE_BACK \<equiv> 0x40"
abbreviation (input) DPM_CAP_LOCAL_NO_SUSPEND :: "32 word" where "DPM_CAP_LOCAL_NO_SUSPEND \<equiv> 0x80"

abbreviation (input) DPM_FLAGS_PARTNER_DR_POWER :: "16 word" where "DPM_FLAGS_PARTNER_DR_POWER \<equiv> 1"
abbreviation (input) DPM_FLAGS_PARTNER_DR_DATA :: "16 word" where "DPM_FLAGS_PARTNER_DR_DATA \<equiv> 2"
abbreviation (input) DPM_FLAGS_PARTNER_EXTPOWER :: "16 word" where "DPM_FLAGS_PARTNER_EXTPOWER \<equiv> 4"
abbreviation (input) DPM_FLAGS_PARTNER_USB_COMM :: "16 word" where "DPM_FLAGS_PARTNER_USB_COMM \<equiv> 8"
abbreviation (input) DPM_FLAGS_PARTNER_USB_SUSPEND :: "16 word" where
  "DPM_FLAGS_PARTNER_USB_SUSPEND \<equiv> 0x10"
abbreviation (input) DPM_FLAGS_PARTNER_MISMATCH :: "16 word" where "DPM_FLAGS_PARTNER_MISMATCH \<equiv> 0x80"

abbreviation (input) DPM_REACTION_GET_SINK_CAP :: "32 word" where "DPM_REACTION_GET_SINK_CAP \<equiv> 4"
abbreviation (input) DPM_REACTION_GET_SOURCE_CAP :: "32 word" where "DPM_REACTION_GET_SOURCE_CAP \<equiv> 8"
abbreviation (input) DPM_REACTION_ATTEMPT_GET_FLAG :: "32 word" where
  "DPM_REACTION_ATTEMPT_GET_FLAG \<equiv> 0x10"

abbreviation (input) TCPC_FLAGS_VCONN_SAFE5V_ONLY :: "32 word" where
  "TCPC_FLAGS_VCONN_SAFE5V_ONLY \<equiv> 0x800"
abbreviation (input) PD_ROLE_VCONN_OFF :: nat where "PD_ROLE_VCONN_OFF \<equiv> 0"
abbreviation (input) PD_ROLE_VCONN_ON :: nat where "PD_ROLE_VCONN_ON \<equiv> 1"
abbreviation (input) PD_ROLE_VCONN_DYNAMIC_ON :: nat where "PD_ROLE_VCONN_DYNAMIC_ON \<equiv> 3"
abbreviation (input) TCPC_TX_SOP_PRIME :: nat where "TCPC_TX_SOP_PRIME \<equiv> 1"
abbreviation (input) TCPC_TX_SOP_PRIME_PRIME :: nat where "TCPC_TX_SOP_PRIME_PRIME \<equiv> 2"
abbreviation (input) PD_REV20 :: nat where "PD_REV20 \<equiv> 1"
abbreviation (input) PD_RETRY_COUNT :: nat where "PD_RETRY_COUNT \<equiv> 3"
abbreviation (input) PD30_RETRY_COUNT :: nat where "PD30_RETRY_COUNT \<equiv> 2"
abbreviation (input) TCPC_FLAGS_PD_REV30 :: "32 word" where "TCPC_FLAGS_PD_REV30 \<equiv> 128"
abbreviation (input) PD_MSG_ID_MAX :: nat where "PD_MSG_ID_MAX \<equiv> 8"
abbreviation (input) CONFIG_TYPEC_SRC_CURR_DFT :: int where "CONFIG_TYPEC_SRC_CURR_DFT \<equiv> 500"

section \<open>Events of the policy manager\<close>

definition pd_put_dpm_notify_event :: "nat \<Rightarrow> tcpc_device \<Rightarrow> tcpc_device" where
  "pd_put_dpm_notify_event notify t = snd (pd_put_event (simple_evt PD_EVT_DPM_MSG PD_DPM_NOTIFIED notify) False t)"

definition pd_put_dpm_ack_event :: "tcpc_device \<Rightarrow> tcpc_device" where
  "pd_put_dpm_ack_event t = snd (pd_put_event (simple_evt PD_EVT_DPM_MSG PD_DPM_ACK 0) False t)"

definition pd_put_dpm_nak_event :: "nat \<Rightarrow> tcpc_device \<Rightarrow> tcpc_device" where
  "pd_put_dpm_nak_event notify t = snd (pd_put_event (simple_evt PD_EVT_DPM_MSG PD_DPM_NAK notify) False t)"

definition pd_put_pe_event :: "nat \<Rightarrow> tcpc_device \<Rightarrow> tcpc_device" where
  "pd_put_pe_event m t = snd (pd_put_event (simple_evt PD_EVT_PE_MSG m 0) False t)"

section \<open>Sources and sinks of VBUS\<close>

definition tcpci_source_vbus :: "nat \<Rightarrow> int \<Rightarrow> int \<Rightarrow> tcpc_device \<Rightarrow> tcpc_device" where
  "tcpci_source_vbus type mv ma t =
    (let type' = (if type \<ge> TCP_VBUS_CTRL_PD \<and> pd_prev_connected (pd_port t)
                  then type OR TCP_VBUS_CTRL_PD_DETECT else type);
         ma' = (if ma < 0
                then if mv \<noteq> 0
                     then if typec_local_rp_level t = TYPEC_RP_3_0 then 3000
                          else if typec_local_rp_level t = TYPEC_RP_1_5 then 1500
                          else CONFIG_TYPEC_SRC_CURR_DFT
                     else 0
                else ma)
     in act (SourceVbus type' mv ma') (act (EnableWatchdog (mv \<noteq> 0)) t))"

definition tcpci_sink_vbus :: "nat \<Rightarrow> int \<Rightarrow> int \<Rightarrow> tcpc_device \<Rightarrow> tcpc_device" where
  "tcpci_sink_vbus type mv ma t =
    (let type' = (if type \<ge> TCP_VBUS_CTRL_PD \<and> pd_prev_connected (pd_port t)
                  then type OR TCP_VBUS_CTRL_PD_DETECT else type);
         ma' = (if ma < 0
                then if mv \<noteq> 0
                     then if typec_remote_rp_level t = TYPEC_CC_VOLT_SNK_1_5 then 1500
                          else if typec_remote_rp_level t = TYPEC_CC_VOLT_SNK_3_0 then 3000
                          else typec_usb_sink_curr t
                     else 0
                else ma)
     in act (SinkVbus type' mv ma') t)"

text \<open>
  \<open>vconn_rv\<close> is what the chip answers to \<open>tcpci_set_vconn\<close>. A result below zero ends the
  operation early.
\<close>

definition pe_reset_msg_id :: "nat \<Rightarrow> pd_port \<Rightarrow> pd_port" where
  "pe_reset_msg_id sop p = p\<lparr>msg_id_tx := (msg_id_tx p)[sop := 0],
     msg_id_rx := (msg_id_rx p)[sop := PD_MSG_ID_MAX]\<rparr>"

definition pd_set_vconn :: "int \<Rightarrow> nat \<Rightarrow> tcpc_device \<Rightarrow> int \<times> tcpc_device" where
  "pd_set_vconn vconn_rv role t =
    (let p = pd_port t; enable = (role AND PD_ROLE_VCONN_ON \<noteq> 0);
         en_role = (role \<noteq> PD_ROLE_VCONN_OFF); en_role_old = (vconn_role p \<noteq> PD_ROLE_VCONN_OFF);
         out = (\<lambda>ret t.
           let t = (if role = PD_ROLE_VCONN_DYNAMIC_ON then act (RestartTimer PD_TIMER_VCONN_STABLE) t else t);
               t = (if \<not> enable then upd_port (pe_reset_msg_id TCPC_TX_SOP_PRIME) t else t)
           in (ret, t))
     in if vconn_highv_prot p then (- 1, t)
        else if role = vconn_role p then out 0 t
        else let t = act (SetVconn enable) (upd_port (\<lambda>p. p\<lparr>vconn_role := role\<rparr>) t)
             in if vconn_rv < 0 then (vconn_rv, t)
                else out vconn_rv (if en_role \<noteq> en_role_old then act (NotifyVconnSwap en_role) t else t))"

definition pd_enable_vbus_valid_detection :: "bool \<Rightarrow> tcpc_device \<Rightarrow> tcpc_device" where
  "pd_enable_vbus_valid_detection wait_valid =
     pd_notify_pe_wait_vbus_once (if wait_valid then PD_WAIT_VBUS_VALID_ONCE else PD_WAIT_VBUS_INVALID_ONCE)"

definition pd_enable_vbus_safe0v_detection :: "tcpc_device \<Rightarrow> tcpc_device" where
  "pd_enable_vbus_safe0v_detection = pd_notify_pe_wait_vbus_once PD_WAIT_VBUS_SAFE0V_ONCE"

definition pd_enable_vbus_stable_detection :: "tcpc_device \<Rightarrow> tcpc_device" where
  "pd_enable_vbus_stable_detection = pd_notify_pe_wait_vbus_once PD_WAIT_VBUS_STABLE_ONCE"

section \<open>Messages that are sent\<close>

text \<open>
  A message takes its number from \<open>msg_id_tx\<close> of the kind of packet and goes to the chip,
  unless nothing is attached or a hard reset is pending. What the chip answers is only
  logged, except after a structured vendor request (\<open>pd_send_svdm_request\<close>).
\<close>

definition pd_get_rev :: "nat \<Rightarrow> tcpc_device \<Rightarrow> nat" where
  "pd_get_rev sop_type t =
    (let p = pd_port t
     in if sop_type = TCPC_TX_SOP then pd_revision0 p
        else if explicit_contract p \<or> cable_rev_discovered (pe_data p) then pd_revision1 p
        else if tcpc_flags t AND TCPC_FLAGS_PD_REV30 \<noteq> 0 then PD_REV30
        else PD_REV20)"

definition PD_HEADER_ROLE :: "nat \<Rightarrow> nat \<Rightarrow> 16 word" where
  "PD_HEADER_ROLE prole drole = push_bit 5 (of_nat drole) OR push_bit 8 (of_nat prole)"

definition PD_HEADER_COMMON :: "nat \<Rightarrow> nat \<Rightarrow> nat \<Rightarrow> nat \<Rightarrow> bool \<Rightarrow> 16 word \<Rightarrow> 16 word" where
  "PD_HEADER_COMMON msg_type pd_rev msg_id cnt ext private =
    of_nat msg_type OR push_bit 6 (of_nat pd_rev) OR push_bit 9 (of_nat msg_id) OR
    push_bit 12 (of_nat cnt) OR push_bit 15 (of_bool ext) OR private"

definition pd_send_message :: "nat \<Rightarrow> nat \<Rightarrow> bool \<Rightarrow> 32 word list \<Rightarrow> tcpc_device \<Rightarrow> tcpc_device" where
  "pd_send_message sop_type m ext data t =
    (let p = pd_port t; pd_rev = pd_get_rev sop_type t; count = length data
     in if typec_attach_old t = TYPEC_UNATTACHED then t
        else if pd_hard_reset_event_pending t then t
        else let
          private = (if sop_type = TCPC_TX_SOP then PD_HEADER_ROLE (power_role p) (data_role p) else 0);
          t = t\<lparr>pd_retry_count := (if pd_rev \<ge> PD_REV30 then PD30_RETRY_COUNT else PD_RETRY_COUNT)\<rparr>;
          msg_id = msg_id_tx p ! sop_type;
          hdr = PD_HEADER_COMMON m pd_rev msg_id count ext private;
          type = (if count > 0 \<and> m = PD_DATA_VENDOR_DEF then PD_TX_STATE_WAIT_CRC_VDM else PD_TX_STATE_WAIT_CRC_PD);
          t = upd_port (\<lambda>p. p\<lparr>msg_id_tx := (msg_id_tx p)[sop_type := (msg_id + 1) mod PD_MSG_ID_MAX]\<rparr>) t
        in act (Transmit sop_type hdr data) (pd_notify_pe_transmit_msg type t))"

definition pd_send_sop_ctrl_msg :: "nat \<Rightarrow> tcpc_device \<Rightarrow> tcpc_device" where
  "pd_send_sop_ctrl_msg m = pd_send_message TCPC_TX_SOP m False []"

definition pd_send_sop_data_msg :: "nat \<Rightarrow> 32 word list \<Rightarrow> tcpc_device \<Rightarrow> tcpc_device" where
  "pd_send_sop_data_msg m data = pd_send_message TCPC_TX_SOP m False data"

lemma send_message_port [simp]:
  "pd_port (pd_send_message sop m ext data t) =
     (if typec_attach_old t = 0 \<or> pd_hard_reset_event_pending t then pd_port t
      else (pd_port t)\<lparr>msg_id_tx := (msg_id_tx (pd_port t))[sop := (msg_id_tx (pd_port t) ! sop + 1) mod 8]\<rparr>)"
  by (simp add: pd_send_message_def pd_notify_pe_transmit_msg_def act_def upd_port_def Let_def)

section \<open>Capabilities that are sent\<close>

definition pd_get_cable_curr_lvl :: "pd_port \<Rightarrow> nat" where
  "pd_get_cable_curr_lvl p = unat (drop_bit 5 (cable_vdos p ! 3) AND 3)"

definition pd_get_cable_current_limit :: "pd_port \<Rightarrow> int" where
  "pd_get_cable_current_limit p =
    (let lvl = pd_get_cable_curr_lvl p in if lvl = 0 then 1500 else if lvl = 2 then 5000 else 3000)"

definition pd_dpm_send_sink_caps :: "tcpc_device \<Rightarrow> tcpc_device" where
  "pd_dpm_send_sink_caps t =
    (let p = pd_port t;
         cap = (local_snk_cap p)\<lparr>caps_nr := (if pd_check_rev30 p then local_snk_cap_nr_pd30 p
                                              else local_snk_cap_nr_pd20 p)\<rparr>
     in pd_send_sop_data_msg PD_DATA_SINK_CAP (take (caps_nr cap) (caps_pdos cap))
          (upd_port (\<lambda>p. p\<lparr>local_snk_cap := cap\<rparr>) t))"

text \<open>The loop writes \<open>src_cap1->pdos[i]\<close> from \<open>src_cap0->pdos[i]\<close>, both of seven elements.\<close>

primrec limit_caps :: "int \<Rightarrow> 32 word list \<Rightarrow> nat list \<Rightarrow> 32 word list \<Rightarrow> 32 word list kres" where
  "limit_caps imax src [] dst = Inr dst"
| "limit_caps imax src (i # is) dst =
     kbind (pdo_at src i) (\<lambda>pdo.
       if i < length dst then limit_caps imax src is (dst[i := pd_reset_pdo_power pdo imax])
       else Inl OutOfBounds)"

definition pd_dpm_send_source_caps :: "tcpc_device \<Rightarrow> tcpc_device kres" where
  "pd_dpm_send_source_caps t =
    (let p = pd_port t; cap0 = local_src_cap_default p;
         cable_curr = (if power_cable_present p then pd_get_cable_current_limit p else 3000)
     in kbind (limit_caps cable_curr (caps_pdos cap0) [0..<caps_nr cap0] (caps_pdos (local_src_cap p)))
          (\<lambda>pdos. Inr (pd_send_sop_data_msg PD_DATA_SOURCE_CAP (take (caps_nr cap0) pdos)
             (upd_port (\<lambda>p. p\<lparr>local_src_cap := \<lparr>caps_nr = caps_nr cap0, caps_pdos = pdos\<rparr>\<rparr>) t))))"

section \<open>Capabilities that are received\<close>

definition set_if :: "bool \<Rightarrow> 16 word \<Rightarrow> 16 word \<Rightarrow> 16 word" where
  "set_if b bits flags = (if b then flags OR bits else flags)"

definition pd_dpm_update_pdos_flags :: "32 word \<Rightarrow> pd_port \<Rightarrow> pd_port" where
  "pd_dpm_update_pdos_flags pdo p =
    (let flags = dpm_flags p AND NOT 0x1f;
         flags = (if pdo AND PDO_TYPE_MASK = PDO_TYPE_FIXED
                  then set_if (pdo AND PDO_FIXED_SUSPEND \<noteq> 0) DPM_FLAGS_PARTNER_USB_SUSPEND
                      (set_if (pdo AND PDO_FIXED_COMM_CAP \<noteq> 0) DPM_FLAGS_PARTNER_USB_COMM
                      (set_if (pdo AND PDO_FIXED_EXTERNAL \<noteq> 0) DPM_FLAGS_PARTNER_EXTPOWER
                      (set_if (pdo AND PDO_FIXED_DATA_SWAP \<noteq> 0) DPM_FLAGS_PARTNER_DR_DATA
                      (set_if (pdo AND PDO_FIXED_DUAL_ROLE \<noteq> 0) DPM_FLAGS_PARTNER_DR_POWER flags))))
                  else flags)
     in p\<lparr>dpm_flags := flags\<rparr>)"

definition dpm_reaction_clear :: "32 word \<Rightarrow> pd_port \<Rightarrow> pd_port" where
  "dpm_reaction_clear bits p = p\<lparr>dpm_ready_reactions := dpm_ready_reactions p AND NOT bits\<rparr>"

text \<open>\<open>memcpy\<close> of the objects of the current message over an array of capabilities.\<close>

definition copy_caps :: "tcpc_device \<Rightarrow> pd_port_power_caps \<Rightarrow> pd_port_power_caps kres" where
  "copy_caps t cap =
    (case pd_msg_data_payload (pd_port t) of
       None \<Rightarrow> Inl NullDeref
     | Some m \<Rightarrow>
         let n = pd_msg_data_count (pd_port t)
         in if n \<le> length (caps_pdos cap) \<and> n \<le> length (payload (pd_msg_buffer t ! m))
            then Inr \<lparr>caps_nr = n, caps_pdos = take n (payload (pd_msg_buffer t ! m)) @ drop n (caps_pdos cap)\<rparr>
            else Inl OutOfBounds)"

definition pd_dpm_dr_inform_sink_cap :: "tcpc_device \<Rightarrow> tcpc_device kres" where
  "pd_dpm_dr_inform_sink_cap t =
    (if \<not> pd_event_msg_match (curr_pd_event (pd_port t)) PD_EVT_DATA_MSG PD_DATA_SINK_CAP then Inr t
     else kbind (copy_caps t (remote_snk_cap (pd_port t))) (\<lambda>cap.
          kbind (pdo_at (caps_pdos cap) 0) (\<lambda>pdo.
            Inr (upd_port (\<lambda>p. dpm_reaction_clear (DPM_REACTION_GET_SINK_CAP OR DPM_REACTION_ATTEMPT_GET_FLAG)
                   (pd_dpm_update_pdos_flags pdo (p\<lparr>remote_snk_cap := cap\<rparr>))) t))))"

definition pd_dpm_dr_inform_source_cap :: "tcpc_device \<Rightarrow> tcpc_device kres" where
  "pd_dpm_dr_inform_source_cap t =
    (if \<not> pd_event_msg_match (curr_pd_event (pd_port t)) PD_EVT_DATA_MSG PD_DATA_SOURCE_CAP then Inr t
     else kbind (copy_caps t (remote_src_cap (pd_port t))) (\<lambda>cap.
          kbind (pdo_at (caps_pdos cap) 0) (\<lambda>pdo.
            Inr (upd_port (\<lambda>p.
              let p = pd_dpm_update_pdos_flags pdo (p\<lparr>remote_src_cap := cap\<rparr>);
                  clear = DPM_REACTION_GET_SOURCE_CAP OR DPM_REACTION_ATTEMPT_GET_FLAG;
                  clear = (if dpm_flags p AND DPM_FLAGS_PARTNER_DR_POWER = 0
                           then clear OR DPM_REACTION_GET_SINK_CAP else clear)
              in dpm_reaction_clear clear p) t))))"

end
