(* ===== verification/Pd_Request.thy ===== *)
theory Pd_Request
  imports Pd_Dpm
begin

unbundle bit_operations_syntax

text \<open>
  The request of the sink (\<open>pd_dpm_core.c\<close>): which capability of the source it asks for,
  the word that is sent, and the power levels while the supply changes; and the source's
  side, the evaluation of a request.
\<close>

section \<open>Building a request\<close>

text \<open>
  The members \<open>apdo_type\<close> and \<open>pwr_limit\<close> are left as they were in memory; nothing reads
  them of a sink.
\<close>

definition dpm_build_sink_pdo_info :: "int \<Rightarrow> int \<Rightarrow> int \<Rightarrow> dpm_pdo_info_t" where
  "dpm_build_sink_pdo_info type req_v req_i =
    (let v = (if type = DPM_PDO_TYPE_APDO then (req_v sdiv 20) * 20 else req_v);
         i = (if type = DPM_PDO_TYPE_APDO then (req_i sdiv 50) * 50 else (req_i sdiv 10) * 10)
     in zero_pdo_info\<lparr>pi_type := type, pi_vmin := v, pi_vmax := v, pi_ma := i, pi_uw := i32 (v * i)\<rparr>)"

definition dpm_build_request_info_apdo ::
  "pd_port \<Rightarrow> dpm_rdo_info_t \<Rightarrow> pd_port_power_caps \<Rightarrow> 8 word \<Rightarrow> (bool \<times> dpm_rdo_info_t) kres" where
  "dpm_build_request_info_apdo p req_info src_cap charging_policy =
     dpm_find_match_req_info req_info
       (dpm_build_sink_pdo_info DPM_PDO_TYPE_APDO (request_v_apdo p) (request_i_apdo p))
       (caps_nr src_cap) (caps_pdos src_cap) (- 1) (ucast charging_policy)"

text \<open>
  The walk over the sink's own capabilities carries the request, the power of the best
  match so far and \<open>local_selected_cap\<close>.
\<close>

definition req_power :: "dpm_rdo_info_t \<Rightarrow> int" where
  "req_power r = (if ri_type r = DPM_PDO_TYPE_BAT then sint (ri_oper r)
                  else sint (word_of_int (ri_vmax r) * ri_oper r))"

primrec request_loop where
  "request_loop src_cap policy snk_pdos [] acc = Inr acc"
| "request_loop src_cap policy snk_pdos (i # is) acc =
    (case acc of (req_info, max_uw, selected) \<Rightarrow>
     kbind (pdo_at snk_pdos i) (\<lambda>pdo.
     kbind (dpm_extract_pdo_info pdo) (\<lambda>sink.
     kbind (dpm_find_match_req_info req_info sink (caps_nr src_cap) (caps_pdos src_cap) max_uw (ucast policy))
       (\<lambda>(found, req_info).
          request_loop src_cap policy snk_pdos is
            (if found then (req_info, req_power req_info, u8 (i + 1)) else (req_info, max_uw, selected))))))"

definition dpm_build_request_info_pdo ::
  "pd_port \<Rightarrow> dpm_rdo_info_t \<Rightarrow> pd_port_power_caps \<Rightarrow> 8 word \<Rightarrow> (bool \<times> dpm_rdo_info_t \<times> pd_port) kres" where
  "dpm_build_request_info_pdo p req_info src_cap charging_policy =
     kbind (request_loop src_cap charging_policy (caps_pdos (local_snk_cap p)) [0..<caps_nr (local_snk_cap p)]
       (req_info, - 1, local_selected_cap p)) (\<lambda>(req_info, max_uw, selected).
         Inr (max_uw > 0, req_info, p\<lparr>local_selected_cap := selected\<rparr>))"

definition dpm_build_request_info :: "pd_port \<Rightarrow> (bool \<times> dpm_rdo_info_t \<times> pd_port) kres" where
  "dpm_build_request_info p =
    (let policy = dpm_charging_policy p; src_cap = remote_src_cap p
     in if ucast policy AND DPM_CHARGING_POLICY_MASK = DPM_CHARGING_POLICY_PPS
        then kbind (dpm_build_request_info_apdo p zero_rdo_info src_cap policy)
               (\<lambda>(found, r). Inr (found, r, p))
        else dpm_build_request_info_pdo p zero_rdo_info src_cap policy)"

definition dpm_build_default_request_info ::
  "dpm_rdo_info_t \<Rightarrow> pd_port \<Rightarrow> (dpm_rdo_info_t \<times> pd_port) kres" where
  "dpm_build_default_request_info req_info p =
     kbind (kbind (pdo_at (caps_pdos (local_snk_cap p)) 0) dpm_extract_pdo_info) (\<lambda>sink.
     kbind (kbind (pdo_at (caps_pdos (remote_src_cap p)) 0) dpm_extract_pdo_info) (\<lambda>source.
       let r = req_info\<lparr>ri_pos := 1, ri_type := pi_type source, ri_mismatch := True,
                 ri_vmax := 5000, ri_vmin := 5000\<rparr>
       in Inr (if ri_type r = DPM_PDO_TYPE_BAT
               then r\<lparr>ri_max := word_of_int (pi_uw sink), ri_oper := word_of_int (pi_uw source)\<rparr>
               else r\<lparr>ri_max := word_of_int (pi_ma sink), ri_oper := word_of_int (pi_ma source)\<rparr>,
               p\<lparr>local_selected_cap := 1\<rparr>)))"

section \<open>The word that is sent\<close>

definition dpm_update_request_i_new :: "dpm_rdo_info_t \<Rightarrow> pd_port \<Rightarrow> pd_port" where
  "dpm_update_request_i_new req_info p =
     p\<lparr>request_i_new := (if ri_mismatch req_info then request_i_op p else request_i_max p)\<rparr>"

definition dpm_update_request_bat :: "dpm_rdo_info_t \<Rightarrow> 32 word \<Rightarrow> pd_port \<Rightarrow> pd_port kres" where
  "dpm_update_request_bat req_info flags p =
    (let mw_op = ri_oper req_info div 1000; mw_max = ri_max req_info div 1000;
         vmin = word_of_int (ri_vmin req_info)
     in if vmin = 0 then Inl DivByZero
        else Inr ((dpm_update_request_i_new req_info
               (p\<lparr>request_i_op := sint (ri_oper req_info div vmin),
                  request_i_max := sint (ri_max req_info div vmin)\<rparr>))
               \<lparr>last_rdo := RDO_BATT (ri_pos req_info) mw_op mw_max flags\<rparr>))"

definition dpm_update_request_not_bat :: "dpm_rdo_info_t \<Rightarrow> 32 word \<Rightarrow> pd_port \<Rightarrow> pd_port" where
  "dpm_update_request_not_bat req_info flags p =
    (let p = dpm_update_request_i_new req_info
               (p\<lparr>request_i_op := sint (ri_oper req_info), request_i_max := sint (ri_max req_info)\<rparr>)
     in if ri_type req_info = DPM_PDO_TYPE_APDO
        then p\<lparr>request_apdo_new := True,
               last_rdo := RDO_APDO (ri_pos req_info) (ri_vmin req_info) (ri_oper req_info) flags\<rparr>
        else if ri_mismatch req_info \<and> cap_miss_match p = 3
        then p\<lparr>cap_miss_match := 0,
               last_rdo := RDO_FIXED (ri_pos req_info) (ri_oper req_info) (ri_oper req_info)
                             (flags AND NOT RDO_CAP_MISMATCH)\<rparr>
        else p\<lparr>last_rdo := RDO_FIXED (ri_pos req_info) (ri_oper req_info) (ri_max req_info) flags\<rparr>)"

definition rdo_local_flags :: "32 word \<Rightarrow> bool \<Rightarrow> 32 word" where
  "rdo_local_flags caps mismatch =
     (if caps AND DPM_CAP_LOCAL_GIVE_BACK \<noteq> 0 then RDO_GIVE_BACK else 0) OR
     (if caps AND DPM_CAP_LOCAL_NO_SUSPEND \<noteq> 0 then RDO_NO_SUSPEND else 0) OR
     (if caps AND DPM_CAP_LOCAL_USB_COMM \<noteq> 0 then RDO_COMM_CAP else 0) OR
     (if mismatch then RDO_CAP_MISMATCH else 0)"

definition dpm_update_request :: "dpm_rdo_info_t \<Rightarrow> tcpc_device \<Rightarrow> tcpc_device kres" where
  "dpm_update_request req_info t =
    (let p = (pd_port t)\<lparr>request_apdo_new := False\<rparr>;
         flags = rdo_local_flags (dpm_caps p) (ri_mismatch req_info);
         p = (if ri_mismatch req_info then p\<lparr>cap_miss_match := cap_miss_match p OR 1\<rparr> else p);
         p = p\<lparr>request_v_new := ri_vmax req_info\<rparr>
     in kbind (if ri_type req_info = DPM_PDO_TYPE_BAT then dpm_update_request_bat req_info flags p
               else Inr (dpm_update_request_not_bat req_info flags p)) (\<lambda>p.
          Inr (pd_notify_pe_direct_charge (ri_vmin req_info < TCPC_VBUS_SINK_5V) (t\<lparr>pd_port := p\<rparr>))))"

section \<open>Requests of the port manager\<close>

definition pd_dpm_update_tcp_request :: "int \<Rightarrow> int \<Rightarrow> tcpc_device \<Rightarrow> (nat \<times> tcpc_device) kres" where
  "pd_dpm_update_tcp_request mv ma t =
    (let p = pd_port t; policy = dpm_charging_policy p;
         is_pps = (ucast policy AND DPM_CHARGING_POLICY_MASK = DPM_CHARGING_POLICY_PPS);
         sink = dpm_build_sink_pdo_info (if is_pps then DPM_PDO_TYPE_APDO else DPM_PDO_TYPE_FIXED) mv ma
     in if request_apdo p \<and> pi_vmin sink = request_v p \<and> pi_ma sink = request_i p
        then Inr (TCP_DPM_RET_DENIED_REPEAT_REQUEST, t)
        else kbind (dpm_find_match_req_info zero_rdo_info sink (caps_nr (remote_src_cap p))
                      (caps_pdos (remote_src_cap p)) (- 1) (ucast policy)) (\<lambda>(found, req_info).
          if \<not> found then Inr (TCP_DPM_RET_DENIED_INVALID_REQUEST, t)
          else kbind (dpm_update_request req_info
                 (upd_port (\<lambda>p. if is_pps then p\<lparr>request_v_apdo := pi_vmin sink, request_i_apdo := pi_ma sink\<rparr>
                                else p) t)) (\<lambda>t. Inr (TCP_DPM_RET_SUCCESS, t))))"

definition pd_dpm_update_tcp_request_ex ::
  "nat \<Rightarrow> 32 word \<Rightarrow> 32 word \<Rightarrow> tcpc_device \<Rightarrow> (nat \<times> tcpc_device) kres" where
  "pd_dpm_update_tcp_request_ex pos mx oper t =
    (let p = pd_port t; src_cap = remote_src_cap p
     in if pos > caps_nr src_cap then Inr (0, t)
        else if ucast (dpm_charging_policy p) = DPM_CHARGING_POLICY_PPS
        then Inr (TCP_DPM_RET_DENIED_INVALID_REQUEST, t)
        else if pos = 0 then Inl OutOfBounds
        else kbind (kbind (pdo_at (caps_pdos src_cap) (pos - 1)) dpm_extract_pdo_info) (\<lambda>source.
             kbind (dpm_update_request \<lparr>ri_pos = pos, ri_type = pi_type source, ri_mismatch = (oper < mx),
                      ri_vmin = pi_vmin source, ri_vmax = pi_vmax source, ri_max = mx, ri_oper = oper\<rparr> t)
               (\<lambda>t. Inr (TCP_DPM_RET_SUCCESS, t))))"

text \<open>Both callers fall back to the default request when no capability is found.\<close>

definition build_request :: "pd_port \<Rightarrow> (dpm_rdo_info_t \<times> pd_port) kres" where
  "build_request p =
     kbind (dpm_build_request_info p) (\<lambda>(found, req_info, p).
       if \<not> found then dpm_build_default_request_info req_info p else Inr (req_info, p))"

definition pd_dpm_update_tcp_request_again :: "tcpc_device \<Rightarrow> (nat \<times> tcpc_device) kres" where
  "pd_dpm_update_tcp_request_again t =
    (let p = pd_port t
     in if caps_nr (remote_src_cap p) = 0 \<or> caps_nr (local_snk_cap p) = 0
        then Inr (TCP_DPM_RET_DENIED_INVALID_REQUEST, t)
        else kbind (build_request p) (\<lambda>(req_info, p).
             kbind (dpm_update_request req_info (t\<lparr>pd_port := p\<rparr>)) (\<lambda>t. Inr (TCP_DPM_RET_SUCCESS, t))))"

definition pd_dpm_snk_evaluate_caps :: "tcpc_device \<Rightarrow> tcpc_device kres" where
  "pd_dpm_snk_evaluate_caps t =
     kbind (pd_dpm_dr_inform_source_cap
       (if pd_msg_data_payload (pd_port t) = None then act WarnNullMsg t else t)) (\<lambda>t.
       let p = pd_port t
       in if caps_nr (remote_src_cap p) = 0 \<or> caps_nr (local_snk_cap p) = 0 then Inr t
          else kbind (build_request p) (\<lambda>(req_info, p).
               kbind (dpm_update_request req_info (t\<lparr>pd_port := p\<rparr>)) (\<lambda>t.
                 Inr (if ri_pos req_info > 0 then pd_put_dpm_notify_event (ri_pos req_info) t else t))))"

section \<open>Power levels of the sink\<close>

text \<open>
  While the supply changes its voltage the sink draws at most \<open>pSnkStdby\<close>, 2.5 W.
  \<open>vconn_rv\<close> is the answer of the chip to switching VCONN off.
\<close>

definition pd_dpm_snk_standby_power :: "int \<Rightarrow> tcpc_device \<Rightarrow> tcpc_device kres" where
  "pd_dpm_snk_standby_power vconn_rv t =
    (let v = max (request_v (pd_port t)) (request_v_new (pd_port t))
     in if v = 0 then Inl DivByZero
        else let standby_curr = 2500000 sdiv v;
                 highv = request_v_new (pd_port t) > 5000;
                 t = (if \<not> vconn_highv_prot (pd_port t) \<and> highv
                         \<and> tcpc_flags t AND TCPC_FLAGS_VCONN_SAFE5V_ONLY \<noteq> 0
                      then upd_port (\<lambda>p. p\<lparr>vconn_highv_prot := highv\<rparr>)
                             (snd (pd_set_vconn vconn_rv PD_ROLE_VCONN_OFF
                               (upd_port (\<lambda>p. p\<lparr>vconn_highv_prot_role := vconn_role p\<rparr>) t)))
                      else t);
                 p = pd_port t
             in Inr (if request_apdo_new p then t
                     else if request_v_new p > request_v p
                     then if standby_curr \<ge> 0
                          then tcpci_sink_vbus TCP_VBUS_CTRL_STANDBY_UP (request_v_new p) standby_curr t else t
                     else if request_v_new p < request_v p
                     then if standby_curr \<ge> 0
                          then tcpci_sink_vbus TCP_VBUS_CTRL_STANDBY_DOWN (request_v_new p) standby_curr t else t
                     else if request_i_new p < request_i p
                     then if request_i_new p \<ge> 0
                          then tcpci_sink_vbus TCP_VBUS_CTRL_STANDBY (request_v_new p) (request_i_new p) t else t
                     else t))"

definition pd_dpm_start_pps_request_thread :: "bool \<Rightarrow> tcpc_device \<Rightarrow> tcpc_device" where
  "pd_dpm_start_pps_request_thread en = act (PpsRequestThread en)"

definition pd_dpm_snk_transition_power :: "tcpc_device \<Rightarrow> tcpc_device" where
  "pd_dpm_snk_transition_power t =
    (let p = pd_port t;
         t = tcpci_sink_vbus TCP_VBUS_CTRL_REQUEST (request_v_new p) (request_i_new p) t;
         t = upd_port (\<lambda>p. p\<lparr>request_v := request_v_new p, request_i := request_i_new p\<rparr>) t
     in if request_apdo (pd_port t) \<noteq> request_apdo_new (pd_port t)
        then pd_dpm_start_pps_request_thread (request_apdo_new (pd_port t))
               (upd_port (\<lambda>p. p\<lparr>request_apdo := request_apdo_new p\<rparr>) t)
        else t)"

definition pd_dpm_snk_hard_reset :: "tcpc_device \<Rightarrow> tcpc_device" where
  "pd_dpm_snk_hard_reset t =
    (let t = (if \<not> pd_prev_connected (pd_port t)
              then tcpci_sink_vbus TCP_VBUS_CTRL_HRESET TCPC_VBUS_SINK_5V (- 1) t
              else tcpci_sink_vbus TCP_VBUS_CTRL_HRESET 0 0 t)
     in pd_put_pe_event PD_PE_POWER_ROLE_AT_DEFAULT t)"

section \<open>The source\<close>

definition dpm_evaluate_request :: "32 word \<Rightarrow> nat \<Rightarrow> pd_port \<Rightarrow> (bool \<times> pd_port) kres" where
  "dpm_evaluate_request rdo rdo_pos p =
    (let p = p\<lparr>dpm_flags := dpm_flags p AND NOT DPM_FLAGS_PARTNER_MISMATCH\<rparr>; src_cap = local_src_cap p
     in if rdo_pos = 0 \<or> rdo_pos > caps_nr src_cap then Inr (False, p)
        else kbind (pdo_at (caps_pdos src_cap) (rdo_pos - 1)) (\<lambda>pdo.
             kbind (dpm_extract_pdo_info pdo) (\<lambda>src_info.
             kbind (pd_extract_rdo_power rdo pdo) (\<lambda>(op_curr, max_curr).
               if word_of_int (pi_ma src_info) < op_curr then Inr (False, p)
               else let mismatch = (rdo AND RDO_CAP_MISMATCH \<noteq> 0);
                        p = (if mismatch then p\<lparr>dpm_flags := dpm_flags p OR DPM_FLAGS_PARTNER_MISMATCH\<rparr> else p)
                    in if \<not> mismatch \<and> word_of_int (pi_ma src_info) < max_curr then Inr (False, p)
                       else Inr (True, p\<lparr>request_i_op := sint op_curr, request_i_max := sint max_curr,
                              request_i_new := (if mismatch then sint op_curr else sint max_curr),
                              request_v_new := pi_vmin src_info\<rparr>)))))"

definition pd_dpm_src_evaluate_request :: "tcpc_device \<Rightarrow> tcpc_device kres" where
  "pd_dpm_src_evaluate_request t =
    (case pd_msg_data_payload (pd_port t) of
       None \<Rightarrow> Inl NullDeref
     | Some m \<Rightarrow>
         let rdo = hd (payload (pd_msg_buffer t ! m)); rdo_pos = RDO_POS rdo
         in kbind (dpm_evaluate_request rdo rdo_pos (pd_port t)) (\<lambda>(accepted, p).
              Inr (if accepted
                   then pd_put_dpm_notify_event rdo_pos (t\<lparr>pd_port := p\<lparr>local_selected_cap := rdo_pos\<rparr>\<rparr>)
                   else pd_put_dpm_nak_event PD_DPM_NAK_REJECT
                          (t\<lparr>pd_port := p\<lparr>invalid_contract := False, local_selected_cap := 0\<rparr>\<rparr>))))"

definition pd_dpm_src_transition_power :: "tcpc_device \<Rightarrow> tcpc_device" where
  "pd_dpm_src_transition_power t =
    (let t = pd_enable_vbus_stable_detection t; p = pd_port t;
         t = tcpci_source_vbus TCP_VBUS_CTRL_REQUEST (request_v_new p) (request_i_new p) t;
         t = (if request_v p = request_v_new p then pd_put_vbus_stable_event t
              else act (EnableTimer PD_TIMER_VBUS_STABLE) t)
     in upd_port (\<lambda>p. p\<lparr>request_v := request_v_new p, request_i := request_i_new p\<rparr>) t)"

definition pd_dpm_src_hard_reset :: "tcpc_device \<Rightarrow> tcpc_device" where
  "pd_dpm_src_hard_reset t =
     pd_enable_vbus_safe0v_detection (tcpci_source_vbus TCP_VBUS_CTRL_HRESET 0 0 t)"

end
