(* ===== verification/Pd_Rdo.thy ===== *)
theory Pd_Rdo
  imports Pd_Pdo
begin

unbundle bit_operations_syntax

text \<open>
  Requests survive their encoding: what the source reads from the word that the sink
  built is the position, the flags and the two currents, in the unit of the field. And
  the limit of a cable leaves a capability as it was but for its current.
\<close>

section \<open>Requests\<close>

text \<open>The flags of a request are the bits 24 to 27.\<close>

definition rdo_flags :: "32 word \<Rightarrow> bool" where
  "rdo_flags flags \<longleftrightarrow> flags AND 0xF0FFFFFF = 0"

lemma rdo_flags_bit:
  assumes "rdo_flags flags" "bit flags n"
  shows "24 \<le> n \<and> n < 28"
proof (rule ccontr)
  assume out: "\<not> (24 \<le> n \<and> n < 28)"
  have n: "n < 32" using assms(2) bit_imp_le_length by fastforce
  have m: "(0xF0FFFFFF :: 32 word) = push_bit 28 15 OR mask 24" by (simp add: mask_numeral)
  have "bit (15 :: 32 word) (n - 28)" if "28 \<le> n"
  proof -
    have "n - 28 < 4" using n that by linarith
    then have "bit (mask 4 :: 32 word) (n - 28)" by (simp add: bit_mask_iff)
    then show ?thesis by (simp add: mask_numeral)
  qed
  then have "bit (flags AND 0xF0FFFFFF) n"
    using out n assms(2) unfolding m by (auto simp: bit_simps simp del: push_bit_numeral)
  then show False using assms(1) by (simp add: rdo_flags_def)
qed

lemma rdo_flags_or [intro]: "rdo_flags a \<Longrightarrow> rdo_flags b \<Longrightarrow> rdo_flags (a OR b)"
  by (simp add: rdo_flags_def bit.conj_disj_distrib2)

lemma rdo_flags_and [intro]: "rdo_flags a \<Longrightarrow> rdo_flags (a AND b)"
  unfolding rdo_flags_def by (metis and.assoc and.commute bit.conj_zero_right)

lemma rdo_flags_consts [simp]:
  "rdo_flags 0" "rdo_flags RDO_GIVE_BACK" "rdo_flags RDO_CAP_MISMATCH" "rdo_flags RDO_COMM_CAP"
  "rdo_flags RDO_NO_SUSPEND"
  by (simp_all add: rdo_flags_def)

text \<open>The common layout of a request for a fixed, variable or battery supply.\<close>

definition rdo_word :: "nat \<Rightarrow> 32 word \<Rightarrow> 32 word \<Rightarrow> 32 word \<Rightarrow> 32 word" where
  "rdo_word n op mx flags = push_bit 28 (take_bit 3 (of_nat n)) OR flags OR
     push_bit 10 (take_bit 10 op) OR take_bit 10 mx"

lemma RDO_FIXED_word: "RDO_FIXED n op mx flags = rdo_word n (op div 10) (mx div 10) flags"
  by (simp add: RDO_FIXED_def rdo_word_def RDO_OBJ_POS_def take10 take3)

lemma RDO_BATT_word: "RDO_BATT n op mx flags = rdo_word n (op div 250) (mx div 250) flags"
  by (simp add: RDO_BATT_def rdo_word_def RDO_OBJ_POS_def take10 take3)

lemma rdo_word_pos:
  assumes "n < 8" "rdo_flags flags"
  shows "RDO_POS (rdo_word n op mx flags) = n"
proof -
  have "take_bit 3 (drop_bit 28 (rdo_word n op mx flags)) = take_bit 3 (of_nat n :: 32 word)"
    by (rule bit_word_eqI)
      (use rdo_flags_bit[OF assms(2)] in \<open>fastforce simp: rdo_word_def bit_simps\<close>)
  moreover have "unat (take_bit 3 (of_nat n :: 32 word)) = n"
    using assms(1) by (simp add: unsigned_take_bit_eq unat_of_nat take_bit_nat_eq_self_iff
        take_bit_nat_def)
  ultimately show ?thesis by (simp add: RDO_POS_def take3)
qed

lemma rdo_word_op:
  assumes "rdo_flags flags"
  shows "take_bit 10 (drop_bit 10 (rdo_word n op mx flags)) = take_bit 10 op"
  by (rule bit_word_eqI) (use rdo_flags_bit[OF assms] in \<open>fastforce simp: rdo_word_def bit_simps\<close>)

lemma rdo_word_max:
  assumes "rdo_flags flags"
  shows "take_bit 10 (rdo_word n op mx flags) = take_bit 10 mx"
  by (rule bit_word_eqI) (use rdo_flags_bit[OF assms] in \<open>fastforce simp: rdo_word_def bit_simps\<close>)

lemma rdo_word_mismatch:
  shows "rdo_word n op mx flags AND RDO_CAP_MISMATCH = flags AND RDO_CAP_MISMATCH"
proof -
  have m: "(0x4000000 :: 32 word) = push_bit 26 1" by simp
  show ?thesis
    by (rule bit_word_eqI) (auto simp: rdo_word_def m bit_simps simp del: push_bit_numeral push_bit_of_1)
qed

lemma unit_field:
  assumes "uint (x :: 32 word) < 10240"
  shows "take_bit 10 (x div 10) = x div 10"
proof -
  have "uint (x div 10) = uint x div 10" by (simp add: uint_div_distrib)
  then have "uint (x div 10) < 2 ^ 10" using assms by simp
  then have "take_bit 10 (uint (x div 10)) = uint (x div 10)"
    by (simp add: take_bit_int_eq_self_iff)
  then show ?thesis by (intro word_uint_eqI) (simp add: unsigned_take_bit_eq)
qed

lemma unit_multiple:
  assumes "10 dvd uint (x :: 32 word)"
  shows "x div 10 * 10 = x"
proof (rule word_uint_eqI)
  have x: "uint x div 10 * 10 = uint x" using assms by simp
  have "uint (x div 10 * 10) = take_bit 32 (uint (x div 10) * 10)"
    by (simp add: uint_word_ariths take_bit_eq_mod)
  also have "\<dots> = take_bit 32 (uint x)" by (simp add: uint_div_distrib x)
  finally show "uint (x div 10 * 10) = uint x" using uint_bounded[of x]
    by (simp add: take_bit_int_eq_self_iff)
qed

lemma rdo_fields:
  assumes "n < 8" "rdo_flags flags" "10 dvd uint op" "10 dvd uint mx"
    and "uint op < 10240" "uint mx < 10240"
  shows "RDO_POS (RDO_FIXED n op mx flags) = n"
    and "RDO_FIXED_VAR_EXTRACT_OP_CURR (RDO_FIXED n op mx flags) = op"
    and "RDO_FIXED_VAR_EXTRACT_MAX_CURR (RDO_FIXED n op mx flags) = mx"
    and "RDO_FIXED n op mx flags AND RDO_CAP_MISMATCH = flags AND RDO_CAP_MISMATCH"
  using assms
  by (simp_all add: RDO_FIXED_word rdo_word_pos rdo_word_mismatch RDO_FIXED_VAR_EXTRACT_OP_CURR_def
      RDO_FIXED_VAR_EXTRACT_MAX_CURR_def take10 rdo_word_op rdo_word_max unit_field unit_multiple)

section \<open>The limit of a cable\<close>

lemma reset_curr_fields:
  fixes raw x :: "32 word"
  defines "r \<equiv> raw AND NOT 0x3ff OR (x AND 0x3ff)"
  shows "take_bit 10 r = take_bit 10 x" "drop_bit 10 r = drop_bit 10 raw"
    and "drop_bit 20 r = drop_bit 20 raw" "r AND PDO_TYPE_MASK = raw AND PDO_TYPE_MASK"
proof -
  have r: "r = raw AND NOT (mask 10) OR take_bit 10 x"
    by (simp add: r_def take10 mask_numeral)
  have m: "(0xC0000000 :: 32 word) = push_bit 30 3" by simp
  show "take_bit 10 r = take_bit 10 x" "drop_bit 10 r = drop_bit 10 raw"
    "drop_bit 20 r = drop_bit 20 raw"
    unfolding r by (rule bit_word_eqI; auto simp: bit_simps dest: bit_imp_le_length)+
  show "r AND PDO_TYPE_MASK = raw AND PDO_TYPE_MASK"
    unfolding r m by (rule bit_word_eqI) (auto simp: bit_simps simp del: push_bit_numeral)
qed

lemma reset_curr_value:
  assumes "0 \<le> m" "m < 10240"
  shows "uint (take_bit 10 (word_of_int (m sdiv 10) :: 32 word)) = m div 10"
proof -
  have d: "m sdiv 10 = m div 10" "0 \<le> m div 10" "m div 10 < 2 ^ 10"
    using assms by (simp_all add: sdiv_nonneg)
  have "take_bit 10 (take_bit 32 (m div 10)) = take_bit 10 (m div 10)" by simp
  also have "\<dots> = m div 10" using d by (simp add: take_bit_int_eq_self_iff)
  finally show ?thesis by (simp add: unsigned_take_bit_eq uint_word_of_int_eq d(1))
qed

lemma limit_of_units:
  fixes k imax :: int
  shows "\<not> imax < k * 10 \<Longrightarrow> min (k * 10) (imax div 10 * 10) = k * 10"
    and "imax < k * 10 \<Longrightarrow> min (k * 10) (imax div 10 * 10) = imax div 10 * 10"
  by simp_all

lemma reset_fixed:
  assumes "0 \<le> imax"
  shows "PDO_TYPE pdo = PDO_TYPE_FIXED \<Longrightarrow> imax < PDO_FIXED_EXTRACT_CURR pdo \<Longrightarrow>
      PDO_FIXED_EXTRACT_CURR (PDO_FIXED_RESET_CURR pdo imax) = imax div 10 * 10"
    and "PDO_FIXED_EXTRACT_VOLT (PDO_FIXED_RESET_CURR pdo imax) = PDO_FIXED_EXTRACT_VOLT pdo"
    and "PDO_TYPE (PDO_FIXED_RESET_CURR pdo imax) = PDO_TYPE pdo"
proof -
  show "PDO_FIXED_EXTRACT_CURR (PDO_FIXED_RESET_CURR pdo imax) = imax div 10 * 10"
    if "imax < PDO_FIXED_EXTRACT_CURR pdo"
    using that volt_curr_range(2)[of pdo] assms reset_curr_value[of imax]
      reset_curr_fields(1)[of pdo "word_of_int (imax sdiv 10)"]
    by (simp add: PDO_FIXED_RESET_CURR_def PDO_FIXED_CURR_def PDO_FIXED_EXTRACT_CURR_def take10)
qed (simp_all only: PDO_FIXED_EXTRACT_VOLT_def PDO_FIXED_RESET_CURR_def PDO_FIXED_CURR_def
      PDO_TYPE_def reset_curr_fields(2,4))

lemma reset_var:
  assumes "0 \<le> imax"
  shows "imax < PDO_VAR_EXTRACT_CURR pdo \<Longrightarrow>
      PDO_VAR_EXTRACT_CURR (PDO_VAR_RESET_CURR pdo imax) = imax div 10 * 10"
    and "PDO_VAR_EXTRACT_MIN_VOLT (PDO_VAR_RESET_CURR pdo imax) = PDO_VAR_EXTRACT_MIN_VOLT pdo"
    and "PDO_VAR_EXTRACT_MAX_VOLT (PDO_VAR_RESET_CURR pdo imax) = PDO_VAR_EXTRACT_MAX_VOLT pdo"
    and "PDO_TYPE (PDO_VAR_RESET_CURR pdo imax) = PDO_TYPE pdo"
proof -
  show "PDO_VAR_EXTRACT_CURR (PDO_VAR_RESET_CURR pdo imax) = imax div 10 * 10"
    if "imax < PDO_VAR_EXTRACT_CURR pdo"
    using that volt_curr_range(5)[of pdo] assms reset_curr_value[of imax]
      reset_curr_fields(1)[of pdo "word_of_int (imax sdiv 10)"]
    by (simp add: PDO_VAR_RESET_CURR_def PDO_VAR_OP_CURR_def PDO_VAR_EXTRACT_CURR_def take10)
qed (simp_all only: PDO_VAR_EXTRACT_MIN_VOLT_def PDO_VAR_EXTRACT_MAX_VOLT_def
      PDO_VAR_RESET_CURR_def PDO_VAR_OP_CURR_def PDO_TYPE_def reset_curr_fields(2-4))

text \<open>
  A fixed or variable capability limited by a cable keeps its type and its voltages,
  and its current becomes the smaller of its own and the limit (in units of 10 mA).
\<close>

lemma reset_limits:
  assumes "0 \<le> imax" "PDO_TYPE pdo = PDO_TYPE_FIXED \<or> PDO_TYPE pdo = PDO_TYPE_VARIABLE"
  defines "pdo' \<equiv> pd_reset_pdo_power pdo imax"
  shows "PDO_TYPE pdo' = PDO_TYPE pdo \<and> pi_vmin (pdo_info pdo') = pi_vmin (pdo_info pdo) \<and>
    pi_vmax (pdo_info pdo') = pi_vmax (pdo_info pdo) \<and>
    pi_ma (pdo_info pdo') = min (pi_ma (pdo_info pdo)) (imax div 10 * 10)"
proof -
  have u: "PDO_FIXED_EXTRACT_CURR pdo = uint (take_bit 10 pdo) * 10"
    "PDO_VAR_EXTRACT_CURR pdo = uint (take_bit 10 pdo) * 10"
    by (simp_all add: PDO_FIXED_EXTRACT_CURR_def PDO_VAR_EXTRACT_CURR_def take10)
  from assms(2) show ?thesis
  proof
    assume f: "PDO_TYPE pdo = PDO_TYPE_FIXED"
    then show ?thesis
      using reset_fixed[OF assms(1), of pdo] limit_of_units[of imax "uint (take_bit 10 pdo)"] u(1)
      by (cases "imax < PDO_FIXED_EXTRACT_CURR pdo")
        (simp_all add: pdo'_def pd_reset_pdo_power_def PDO_TYPE_def[symmetric] pdo_info_fixed)
  next
    assume v: "PDO_TYPE pdo = PDO_TYPE_VARIABLE"
    then show ?thesis
      using reset_var[OF assms(1), of pdo] limit_of_units[of imax "uint (take_bit 10 pdo)"] u(2)
      by (cases "imax < PDO_VAR_EXTRACT_CURR pdo")
        (simp_all add: pdo'_def pd_reset_pdo_power_def PDO_TYPE_def[symmetric] pdo_info_variable)
  qed
qed

end
