(* ===== verification/Pd_Negotiate.thy ===== *)
theory Pd_Negotiate
  imports Pd_Match Pd_Request Pd_Rdo
begin

unbundle bit_operations_syntax

text \<open>
  What the request of the sink promises: it names a capability of the source that is
  eligible for one of the sink's own, it does not exceed either of them, and a source that
  runs the same code and advertised these capabilities accepts it.
\<close>

section \<open>The walk over the sink's capabilities\<close>

text \<open>A request that matches one capability of the sink with one of the source.\<close>

definition matched :: "32 word \<Rightarrow> dpm_pdo_info_t \<Rightarrow> pd_port_power_caps \<Rightarrow> dpm_rdo_info_t \<Rightarrow> bool" where
  "matched policy sink src_cap r \<longleftrightarrow>
    (\<exists>st. 0 < sel_pos st \<and> sel_pos st \<le> caps_nr src_cap \<and>
       policy_elig policy sink (pdo_info (caps_pdos src_cap ! (sel_pos st - 1))) \<and>
       sel_max_uw st = fst (policy_key policy sink (pdo_info (caps_pdos src_cap ! (sel_pos st - 1)))) \<and>
       r = fill_req_info st sink (pdo_info (caps_pdos src_cap ! (sel_pos st - 1))) zero_rdo_info)"

lemma fill_req_info_base: "fill_req_info st sink source r = fill_req_info st sink source zero_rdo_info"
  by (cases r) (simp add: fill_req_info_def zero_rdo_info_def Let_def)

lemma find_matched:
  assumes "caps_ok (caps_nr src_cap) (caps_pdos src_cap)"
  shows "\<exists>found r'. dpm_find_match_req_info r sink (caps_nr src_cap) (caps_pdos src_cap) min_uw policy = Inr (found, r')
    \<and> (if found then matched policy sink src_cap r' else r' = r)"
proof -
  obtain st where "dpm_find_match_req_info r sink (caps_nr src_cap) (caps_pdos src_cap) min_uw policy =
      Inr (sel_pos st \<noteq> 0, if sel_pos st \<noteq> 0
           then fill_req_info st sink (pdo_info (caps_pdos src_cap ! (sel_pos st - 1))) r else r)"
    "sel_pos st \<noteq> 0 \<Longrightarrow> sel_pos st - 1 < caps_nr src_cap"
    "sel_pos st \<noteq> 0 \<Longrightarrow> policy_elig policy sink (pdo_info (caps_pdos src_cap ! (sel_pos st - 1)))"
    "sel_pos st \<noteq> 0 \<Longrightarrow>
       sel_max_uw st = fst (policy_key policy sink (pdo_info (caps_pdos src_cap ! (sel_pos st - 1))))"
    using find_match[OF assms] by blast
  then show ?thesis
    by (auto simp: matched_def fill_req_info_base[of _ _ _ r] intro!: exI[of _ st])
qed

lemma request_loop_sound:
  assumes src: "caps_ok (caps_nr src_cap) (caps_pdos src_cap)"
    and snk: "\<forall>i\<in>set is. i < length snk_pdos \<and> pdo_ok (snk_pdos ! i) \<and> i < 255"
  shows "\<exists>r' m' sel'. request_loop src_cap policy snk_pdos is (r, m, sel) = Inr (r', m', sel') \<and>
    ((r', m', sel') = (r, m, sel) \<or> m' = req_power r' \<and>
      (\<exists>i\<in>set is. sel' = i + 1 \<and> matched (ucast policy) (pdo_info (snk_pdos ! i)) src_cap r'))"
  using snk
proof (induction "is" arbitrary: r m sel)
  case Nil
  then show ?case by simp
next
  case (Cons i "is")
  let ?sink = "pdo_info (snk_pdos ! i)"
  obtain found r1 where f: "dpm_find_match_req_info r ?sink (caps_nr src_cap) (caps_pdos src_cap) m (ucast policy)
      = Inr (found, r1)" "if found then matched (ucast policy) ?sink src_cap r1 else r1 = r"
    using find_matched[OF src] by blast
  define acc where "acc = (if found then (r1, req_power r1, u8 (i + 1)) else (r1, m, sel))"
  obtain r2 m2 s2 where acc: "acc = (r2, m2, s2)" by (cases acc) auto
  have step: "request_loop src_cap policy snk_pdos (i # is) (r, m, sel) =
      request_loop src_cap policy snk_pdos is acc"
    using Cons.prems f(1) by (simp add: pdo_at_def extract_total acc_def)
  have acc1: "acc = (r, m, sel) \<or> m2 = req_power r2 \<and> s2 = i + 1 \<and> matched (ucast policy) ?sink src_cap r2"
    using f(2) acc Cons.prems by (auto simp: acc_def split: if_splits)
  have "\<exists>r' m' sel'. request_loop src_cap policy snk_pdos is acc = Inr (r', m', sel') \<and>
    ((r', m', sel') = acc \<or> m' = req_power r' \<and>
      (\<exists>j\<in>set is. sel' = j + 1 \<and> matched (ucast policy) (pdo_info (snk_pdos ! j)) src_cap r'))"
    unfolding acc using Cons.IH Cons.prems by auto
  then show ?case using acc1 unfolding step acc by auto
qed

section \<open>The request of a port\<close>

text \<open>
  A port whose capabilities can be walked: its own are in use and decodable, and so are
  those of the partner.
\<close>

definition power_ok :: "pd_port \<Rightarrow> bool" where
  "power_ok p \<longleftrightarrow> caps_ok (caps_nr (local_snk_cap p)) (caps_pdos (local_snk_cap p)) \<and>
     caps_ok (caps_nr (remote_src_cap p)) (caps_pdos (remote_src_cap p)) \<and>
     0 < caps_nr (local_snk_cap p) \<and> 0 < caps_nr (remote_src_cap p)"

definition snk_info :: "pd_port \<Rightarrow> nat \<Rightarrow> dpm_pdo_info_t" where
  "snk_info p i = pdo_info (caps_pdos (local_snk_cap p) ! i)"

definition src_info :: "pd_port \<Rightarrow> nat \<Rightarrow> dpm_pdo_info_t" where
  "src_info p i = pdo_info (caps_pdos (remote_src_cap p) ! i)"

definition default_req :: "pd_port \<Rightarrow> dpm_rdo_info_t" where
  "default_req p =
    (let bat = (pi_type (src_info p 0) = DPM_PDO_TYPE_BAT)
     in \<lparr>ri_pos = 1, ri_type = pi_type (src_info p 0), ri_mismatch = True, ri_vmin = 5000, ri_vmax = 5000,
         ri_max = word_of_int (if bat then pi_uw (snk_info p 0) else pi_ma (snk_info p 0)),
         ri_oper = word_of_int (if bat then pi_uw (src_info p 0) else pi_ma (src_info p 0))\<rparr>)"

lemma default_request:
  assumes "power_ok p"
  shows "dpm_build_default_request_info r p = Inr (default_req p, p\<lparr>local_selected_cap := 1\<rparr>)"
proof -
  have "caps_pdos (local_snk_cap p) \<noteq> []" "caps_pdos (remote_src_cap p) \<noteq> []"
    "pdo_ok (caps_pdos (local_snk_cap p) ! 0)" "pdo_ok (caps_pdos (remote_src_cap p) ! 0)"
    using assms by (auto simp: power_ok_def caps_ok_def)
  then show ?thesis
    by (cases r) (simp add: dpm_build_default_request_info_def pdo_at_def extract_total
        default_req_def src_info_def snk_info_def Let_def)
qed

lemma default_req_selected [simp]: "default_req (p\<lparr>local_selected_cap := sel\<rparr>) = default_req p"
  by (simp add: default_req_def src_info_def snk_info_def Let_def)

abbreviation (input) policy_of :: "pd_port \<Rightarrow> 32 word" where
  "policy_of p \<equiv> ucast (dpm_charging_policy p)"

lemma request_loop_port:
  assumes ok: "power_ok p"
  obtains r m sel where "request_loop (remote_src_cap p) (dpm_charging_policy p) (caps_pdos (local_snk_cap p))
      [0..<caps_nr (local_snk_cap p)] (zero_rdo_info, - 1, local_selected_cap p) = Inr (r, m, sel)"
    "m = - 1 \<or> m = req_power r \<and> 0 < sel \<and> sel \<le> caps_nr (local_snk_cap p) \<and>
       matched (policy_of p) (snk_info p (sel - 1)) (remote_src_cap p) r"
proof -
  have src: "caps_ok (caps_nr (remote_src_cap p)) (caps_pdos (remote_src_cap p))"
    and snk: "\<forall>i\<in>set [0..<caps_nr (local_snk_cap p)]. i < length (caps_pdos (local_snk_cap p)) \<and>
        pdo_ok (caps_pdos (local_snk_cap p) ! i) \<and> i < 255"
    using ok by (auto simp: power_ok_def caps_ok_def)
  show thesis
    using request_loop_sound[OF src snk, of "dpm_charging_policy p" zero_rdo_info "- 1" "local_selected_cap p"] that
    by (auto simp: snk_info_def)
qed

lemma build_of_loop:
  assumes ok: "power_ok p" and pol: "policy_of p AND DPM_CHARGING_POLICY_MASK \<noteq> DPM_CHARGING_POLICY_PPS"
    and loop: "request_loop (remote_src_cap p) (dpm_charging_policy p) (caps_pdos (local_snk_cap p))
      [0..<caps_nr (local_snk_cap p)] (zero_rdo_info, - 1, local_selected_cap p) = Inr (r, m, sel)"
  shows "build_request p = Inr (if m > 0 then (r, p\<lparr>local_selected_cap := sel\<rparr>)
                                else (default_req p, p\<lparr>local_selected_cap := 1\<rparr>))"
proof -
  have b: "dpm_build_request_info p = Inr (m > 0, r, p\<lparr>local_selected_cap := sel\<rparr>)"
    using pol loop by (simp add: dpm_build_request_info_def dpm_build_request_info_pdo_def Let_def)
  have "power_ok (p\<lparr>local_selected_cap := sel\<rparr>)" using ok by (simp add: power_ok_def)
  then have "dpm_build_default_request_info r (p\<lparr>local_selected_cap := sel\<rparr>) =
      Inr (default_req p, p\<lparr>local_selected_cap := 1\<rparr>)" by (simp add: default_request)
  then show ?thesis using b by (simp add: build_request_def)
qed

section \<open>The word that is sent\<close>

lemma matched_not_pps:
  assumes "matched policy sink src_cap r"
  obtains i where "i < caps_nr src_cap" "ri_pos r = i + 1"
    "policy_elig policy sink (pdo_info (caps_pdos src_cap ! i))"
    "ri_type r = pi_type (pdo_info (caps_pdos src_cap ! i))"
    "pi_type (pdo_info (caps_pdos src_cap ! i)) \<noteq> DPM_PDO_TYPE_APDO \<Longrightarrow>
       ri_vmax r = pi_vmax (pdo_info (caps_pdos src_cap ! i)) \<and>
       ri_vmin r = pi_vmin (pdo_info (caps_pdos src_cap ! i))"
    "pi_type (pdo_info (caps_pdos src_cap ! i)) \<noteq> DPM_PDO_TYPE_BAT \<Longrightarrow>
       ri_max r = word_of_int (pi_ma sink) \<and>
       ri_oper r = word_of_int (min (pi_ma sink) (pi_ma (pdo_info (caps_pdos src_cap ! i))))"
    "pi_type sink \<noteq> DPM_PDO_TYPE_BAT \<Longrightarrow>
       ri_mismatch r = (pi_ma (pdo_info (caps_pdos src_cap ! i)) < pi_ma sink)"
proof -
  obtain st where st: "0 < sel_pos st" "sel_pos st \<le> caps_nr src_cap"
    "policy_elig policy sink (pdo_info (caps_pdos src_cap ! (sel_pos st - 1)))"
    "r = fill_req_info st sink (pdo_info (caps_pdos src_cap ! (sel_pos st - 1))) zero_rdo_info"
    using assms by (auto simp: matched_def)
  show thesis
    by (rule that[of "sel_pos st - 1"]) (use st in \<open>auto simp: fill_req_info_def Let_def\<close>)
qed

definition sent_rdo :: "dpm_rdo_info_t \<Rightarrow> pd_port \<Rightarrow> 32 word" where
  "sent_rdo r p =
    (let flags = rdo_local_flags (dpm_caps p) (ri_mismatch r)
     in if ri_mismatch r \<and> cap_miss_match p OR 1 = 3
        then RDO_FIXED (ri_pos r) (ri_oper r) (ri_oper r) (flags AND NOT RDO_CAP_MISMATCH)
        else RDO_FIXED (ri_pos r) (ri_oper r) (ri_max r) flags)"

lemma update_request_fixed:
  assumes "ri_type r \<noteq> DPM_PDO_TYPE_BAT" "ri_type r \<noteq> DPM_PDO_TYPE_APDO"
  shows "\<exists>t'. dpm_update_request r t = Inr t' \<and> request_v_new (pd_port t') = ri_vmax r \<and>
    request_i_new (pd_port t') = (if ri_mismatch r then sint (ri_oper r) else sint (ri_max r)) \<and>
    request_i_op (pd_port t') = sint (ri_oper r) \<and> \<not> request_apdo_new (pd_port t') \<and>
    last_rdo (pd_port t') = sent_rdo r (pd_port t)"
  using assms
  by (simp add: dpm_update_request_def dpm_update_request_not_bat_def dpm_update_request_i_new_def
      pd_notify_pe_direct_charge_def sent_rdo_def Let_def)

lemma update_request_selected:
  "dpm_update_request r t = Inr t' \<Longrightarrow> local_selected_cap (pd_port t') = local_selected_cap (pd_port t)"
  by (auto simp: dpm_update_request_def dpm_update_request_bat_def dpm_update_request_not_bat_def
      dpm_update_request_i_new_def pd_notify_pe_direct_charge_def Let_def kbind_eq_Inr split: if_splits)

lemma rdo_local_flags: "rdo_flags (rdo_local_flags caps mismatch)"
  unfolding rdo_local_flags_def by (intro rdo_flags_or) simp_all

lemma rdo_local_flags_mismatch:
  "rdo_local_flags caps mismatch AND RDO_CAP_MISMATCH = 0 \<longleftrightarrow> \<not> mismatch"
  by (simp add: rdo_local_flags_def bit.conj_disj_distrib2)

section \<open>The source accepts\<close>

definition plain_pdo :: "32 word \<Rightarrow> bool" where
  "plain_pdo pdo \<longleftrightarrow> PDO_TYPE pdo = PDO_TYPE_FIXED \<or> PDO_TYPE pdo = PDO_TYPE_VARIABLE"

lemma plain_pdo_info:
  assumes "plain_pdo pdo"
  shows "pdo_ok pdo" "0 \<le> pi_ma (pdo_info pdo)" "pi_ma (pdo_info pdo) \<le> 10230" "10 dvd pi_ma (pdo_info pdo)"
    and "pi_type (pdo_info pdo) \<noteq> DPM_PDO_TYPE_BAT" "pi_type (pdo_info pdo) \<noteq> DPM_PDO_TYPE_APDO"
proof -
  have d: "10 dvd PDO_FIXED_EXTRACT_CURR pdo" "10 dvd PDO_VAR_EXTRACT_CURR pdo"
    by (simp_all add: PDO_FIXED_EXTRACT_CURR_def PDO_VAR_EXTRACT_CURR_def)
  show "pdo_ok pdo" using assms by (auto simp: plain_pdo_def pdo_ok_def)
  show "0 \<le> pi_ma (pdo_info pdo)" "pi_ma (pdo_info pdo) \<le> 10230" "10 dvd pi_ma (pdo_info pdo)"
    "pi_type (pdo_info pdo) \<noteq> DPM_PDO_TYPE_BAT" "pi_type (pdo_info pdo) \<noteq> DPM_PDO_TYPE_APDO"
    using assms d volt_curr_range(2,5)[of pdo]
    by (auto simp: plain_pdo_def pdo_info_fixed pdo_info_variable)
qed

lemma word_current:
  assumes "0 \<le> a" "a \<le> 10230"
  shows "uint (word_of_int a :: 32 word) = a" "sint (word_of_int a :: 32 word) = a"
  using assms by (simp_all add: uint_word_of_int_eq sint_sbintrunc' take_bit_int_eq_self_iff
      signed_take_bit_int_eq_self_iff)

text \<open>
  A request for a fixed or variable supply that stays within the supply is accepted, and the
  source takes over the current that was asked for.
\<close>

lemma evaluate_accepts:
  assumes pos: "0 < pos" "pos \<le> caps_nr (local_src_cap q)"
    and len: "caps_nr (local_src_cap q) \<le> length (caps_pdos (local_src_cap q))" "length (caps_pdos (local_src_cap q)) \<le> 7"
    and plain: "plain_pdo (caps_pdos (local_src_cap q) ! (pos - 1))"
    and op: "0 \<le> op" "op \<le> pi_ma (pdo_info (caps_pdos (local_src_cap q) ! (pos - 1)))" "10 dvd op"
    and mx: "0 \<le> mx" "mx \<le> 10230" "10 dvd mx"
    and fl: "rdo_flags flags"
    and within: "flags AND RDO_CAP_MISMATCH \<noteq> 0 \<or> mx \<le> pi_ma (pdo_info (caps_pdos (local_src_cap q) ! (pos - 1)))"
  defines "rdo \<equiv> RDO_FIXED pos (word_of_int op) (word_of_int mx) flags"
  shows "RDO_POS rdo = pos \<and> (\<exists>q'. dpm_evaluate_request rdo pos q = Inr (True, q') \<and>
    request_i_new q' = (if flags AND RDO_CAP_MISMATCH \<noteq> 0 then op else mx) \<and>
    request_v_new q' = pi_vmin (pdo_info (caps_pdos (local_src_cap q) ! (pos - 1))))"
proof -
  let ?pdo = "caps_pdos (local_src_cap q) ! (pos - 1)"
  note i = plain_pdo_info[OF plain]
  have op': "op \<le> 10230" using op(2) i(3) by simp
  have rt: "RDO_POS rdo = pos" "RDO_FIXED_VAR_EXTRACT_OP_CURR rdo = word_of_int op"
    "RDO_FIXED_VAR_EXTRACT_MAX_CURR rdo = word_of_int mx"
    "rdo AND RDO_CAP_MISMATCH = flags AND RDO_CAP_MISMATCH"
    using rdo_fields[of pos flags "word_of_int op" "word_of_int mx"] pos len fl op mx op'
    by (simp_all add: rdo_def word_current)
  have ex: "pd_extract_rdo_power rdo ?pdo = Inr (word_of_int op, word_of_int mx)"
    using plain rt by (auto simp: pd_extract_rdo_power_def plain_pdo_def PDO_TYPE_def[symmetric])
  have cmp: "(word_of_int (pi_ma (pdo_info ?pdo)) :: 32 word) < word_of_int op \<longleftrightarrow> pi_ma (pdo_info ?pdo) < op"
    "(word_of_int (pi_ma (pdo_info ?pdo)) :: 32 word) < word_of_int mx \<longleftrightarrow> pi_ma (pdo_info ?pdo) < mx"
    using i op mx op' by (simp_all add: word_less_def word_current)
  have read: "pdo_at (caps_pdos (local_src_cap q)) (pos - 1) = Inr ?pdo"
    using pos len by (simp add: pdo_at_def)
  have "\<exists>q'. dpm_evaluate_request rdo pos q = Inr (True, q') \<and>
      request_i_new q' = (if flags AND RDO_CAP_MISMATCH \<noteq> 0 then op else mx) \<and>
      request_v_new q' = pi_vmin (pdo_info ?pdo)"
    using pos op within word_current(2)[OF op(1) op'] word_current(2)[OF mx(1,2)]
    by (auto simp: dpm_evaluate_request_def Let_def read[unfolded One_nat_def] rt(4) cmp[unfolded One_nat_def]
        extract_total[OF i(1), unfolded One_nat_def] ex[unfolded One_nat_def])
  then show ?thesis using rt(1) by blast
qed

lemma sent_rdo_shape:
  assumes "ri_oper r = word_of_int op" "ri_max r = word_of_int mx"
    and "0 \<le> op" "op \<le> S" "S \<le> 10230" "10 dvd op" "0 \<le> mx" "mx \<le> 10230" "10 dvd mx"
    and "\<not> ri_mismatch r \<Longrightarrow> mx \<le> S"
  obtains mx' flags where "sent_rdo r p = RDO_FIXED (ri_pos r) (word_of_int op) (word_of_int mx') flags"
    "rdo_flags flags" "0 \<le> mx'" "mx' \<le> 10230" "10 dvd mx'" "flags AND RDO_CAP_MISMATCH \<noteq> 0 \<or> mx' \<le> S"
    "(if flags AND RDO_CAP_MISMATCH \<noteq> 0 then op else mx') = (if ri_mismatch r then op else mx)"
proof -
  let ?f = "rdo_local_flags (dpm_caps p) (ri_mismatch r)"
  show thesis
  proof (cases "ri_mismatch r \<and> cap_miss_match p OR 1 = 3")
    case True
    have "?f AND NOT RDO_CAP_MISMATCH AND RDO_CAP_MISMATCH = 0" by (simp add: ac_simps)
    then show thesis
      by (intro that[of op "?f AND NOT RDO_CAP_MISMATCH"])
        (use assms True in \<open>simp_all add: sent_rdo_def rdo_flags_and rdo_local_flags\<close>)
  next
    case False
    then show thesis
      by (intro that[of mx ?f])
        (use assms in \<open>auto simp: sent_rdo_def rdo_local_flags rdo_local_flags_mismatch\<close>)
  qed
qed

section \<open>Both sides of a negotiation\<close>

text \<open>A port that knows only fixed and variable capabilities, its own and its partner's.\<close>

definition plain_caps :: "pd_port_power_caps \<Rightarrow> bool" where
  "plain_caps cap \<longleftrightarrow> 0 < caps_nr cap \<and> caps_nr cap \<le> length (caps_pdos cap) \<and> length (caps_pdos cap) \<le> 7 \<and>
     (\<forall>i < caps_nr cap. plain_pdo (caps_pdos cap ! i))"

lemma plain_caps_ok: "plain_caps cap \<Longrightarrow> caps_ok (caps_nr cap) (caps_pdos cap)"
  by (simp add: plain_caps_def caps_ok_def plain_pdo_info(1))

text \<open>
  The request of a port: the capability \<open>j\<close> of the source, asked for the capability \<open>i\<close> of
  the sink, or the default.
\<close>

definition asks_for :: "pd_port \<Rightarrow> nat \<Rightarrow> nat \<Rightarrow> dpm_rdo_info_t \<Rightarrow> bool" where
  "asks_for p i j r \<longleftrightarrow> i < caps_nr (local_snk_cap p) \<and> j < caps_nr (remote_src_cap p) \<and> ri_pos r = j + 1 \<and>
     ri_type r = pi_type (src_info p j) \<and> ri_max r = word_of_int (pi_ma (snk_info p i)) \<and>
     (policy_elig (policy_of p) (snk_info p i) (src_info p j) \<and>
        ri_vmax r = pi_vmax (src_info p j) \<and>
        ri_oper r = word_of_int (min (pi_ma (snk_info p i)) (pi_ma (src_info p j))) \<and>
        ri_mismatch r = (pi_ma (src_info p j) < pi_ma (snk_info p i))
      \<or> i = 0 \<and> j = 0 \<and> ri_vmax r = 5000 \<and> ri_mismatch r \<and>
        ri_oper r = word_of_int (pi_ma (src_info p 0)))"

lemma default_asks:
  assumes "plain_caps (local_snk_cap p)" "plain_caps (remote_src_cap p)"
  shows "asks_for p 0 0 (default_req p)"
  using assms plain_pdo_info(5)
  by (simp add: asks_for_def default_req_def plain_caps_def src_info_def Let_def)

lemma matched_asks:
  assumes snk: "plain_caps (local_snk_cap p)" and src: "plain_caps (remote_src_cap p)"
    and i: "i < caps_nr (local_snk_cap p)" and m: "matched (policy_of p) (snk_info p i) (remote_src_cap p) r"
  obtains j where "asks_for p i j r" "policy_elig (policy_of p) (snk_info p i) (src_info p j)"
    "ri_vmax r = pi_vmax (src_info p j)"
    "ri_oper r = word_of_int (min (pi_ma (snk_info p i)) (pi_ma (src_info p j)))"
    "ri_mismatch r = (pi_ma (src_info p j) < pi_ma (snk_info p i))"
proof -
  have s: "plain_pdo (caps_pdos (local_snk_cap p) ! i)" using snk i by (simp add: plain_caps_def)
  from m obtain j where j: "j < caps_nr (remote_src_cap p)" "ri_pos r = j + 1"
    "policy_elig (policy_of p) (snk_info p i) (src_info p j)" "ri_type r = pi_type (src_info p j)"
    "pi_type (src_info p j) \<noteq> DPM_PDO_TYPE_APDO \<Longrightarrow> ri_vmax r = pi_vmax (src_info p j)"
    "pi_type (src_info p j) \<noteq> DPM_PDO_TYPE_BAT \<Longrightarrow> ri_max r = word_of_int (pi_ma (snk_info p i)) \<and>
      ri_oper r = word_of_int (min (pi_ma (snk_info p i)) (pi_ma (src_info p j)))"
    "pi_type (snk_info p i) \<noteq> DPM_PDO_TYPE_BAT \<Longrightarrow>
      ri_mismatch r = (pi_ma (src_info p j) < pi_ma (snk_info p i))"
    unfolding src_info_def using matched_not_pps by blast
  have "plain_pdo (caps_pdos (remote_src_cap p) ! j)" using src j(1) by (simp add: plain_caps_def)
  then show thesis
    using that[of j] j i plain_pdo_info(5)[OF s] plain_pdo_info(5,6)[of "caps_pdos (remote_src_cap p) ! j"]
    by (simp add: asks_for_def src_info_def snk_info_def)
qed

lemma plain_power_ok: "plain_caps (local_snk_cap p) \<Longrightarrow> plain_caps (remote_src_cap p) \<Longrightarrow> power_ok p"
  by (simp add: power_ok_def plain_caps_ok) (simp add: plain_caps_def)

lemma plain_request:
  assumes snk: "plain_caps (local_snk_cap p)" and src: "plain_caps (remote_src_cap p)"
    and pol: "policy_of p AND DPM_CHARGING_POLICY_MASK \<noteq> DPM_CHARGING_POLICY_PPS"
  obtains r i j where "build_request p = Inr (r, p\<lparr>local_selected_cap := i + 1\<rparr>)" "asks_for p i j r"
proof -
  obtain r m sel where l: "request_loop (remote_src_cap p) (dpm_charging_policy p) (caps_pdos (local_snk_cap p))
      [0..<caps_nr (local_snk_cap p)] (zero_rdo_info, - 1, local_selected_cap p) = Inr (r, m, sel)"
    "m = - 1 \<or> m = req_power r \<and> 0 < sel \<and> sel \<le> caps_nr (local_snk_cap p) \<and>
       matched (policy_of p) (snk_info p (sel - 1)) (remote_src_cap p) r"
    using request_loop_port[OF plain_power_ok[OF snk src]] .
  note b = build_of_loop[OF plain_power_ok[OF snk src] pol l(1)]
  show thesis
  proof (cases "m > 0")
    case True
    then have "sel - 1 < caps_nr (local_snk_cap p)" "0 < sel"
      "matched (policy_of p) (snk_info p (sel - 1)) (remote_src_cap p) r" using l(2) by auto
    then show thesis using matched_asks[OF snk src, of "sel - 1" r] that[of r "sel - 1"] b True
      by (metis One_nat_def Suc_pred' Suc_eq_plus1)
  next
    case False
    then show thesis using that[of "default_req p" 0 0] default_asks[OF snk src] b by simp
  qed
qed

end
