(* ===== verification/Pd_Best.thy ===== *)
theory Pd_Best
  imports Pd_Negotiate
begin

unbundle bit_operations_syntax

text \<open>
  Under the policy of maximum power, the walk over the sink's capabilities ends with the
  largest power of all pairs of a sink and a source capability that fit: the loop of
  \<open>dpm_build_request_info_pdo\<close> carries the best power from one sink capability to the next.
\<close>

definition pair_power :: "dpm_pdo_info_t \<Rightarrow> dpm_pdo_info_t \<Rightarrow> int" where
  "pair_power sink source = min (pi_ma sink) (pi_ma source) * pi_vmax source"

lemma pair_power_calc:
  assumes "plain_pdo snk" "plain_pdo src"
  shows "dpm_calc_src_cap_power_uw (pdo_info src) (pdo_info snk) = pair_power (pdo_info snk) (pdo_info src)"
    and "sint (word_of_int (pi_vmax (pdo_info src)) *
           (word_of_int (min (pi_ma (pdo_info snk)) (pi_ma (pdo_info src))) :: 32 word)) =
         pair_power (pdo_info snk) (pdo_info src)"
proof -
  note k = plain_pdo_info[OF assms(1)] and s = plain_pdo_info[OF assms(2)]
  have v: "0 \<le> pi_vmax (pdo_info src)" "pi_vmax (pdo_info src) \<le> 51150"
    using pdo_info_ok[OF s(1)] by (simp_all add: pdo_info_ok_def)
  let ?m = "min (pi_ma (pdo_info snk)) (pi_ma (pdo_info src))"
  have m: "0 \<le> ?m \<and> ?m \<le> 10230" using k s by simp
  have i: "i32 (?m * pi_vmax (pdo_info src)) = ?m * pi_vmax (pdo_info src)" using m v by (intro i32_power) auto
  then show "dpm_calc_src_cap_power_uw (pdo_info src) (pdo_info snk) = pair_power (pdo_info snk) (pdo_info src)"
    using k(5) s(5) by (simp add: dpm_calc_src_cap_power_uw_def pair_power_def min.commute)
  have "sint (word_of_int (pi_vmax (pdo_info src)) * (word_of_int ?m :: 32 word)) =
      i32 (pi_vmax (pdo_info src) * ?m)"
    by (simp only: of_int_mult[symmetric] sint_sbintrunc' i32_def) simp
  then show "sint (word_of_int (pi_vmax (pdo_info src)) * (word_of_int ?m :: 32 word)) =
         pair_power (pdo_info snk) (pdo_info src)"
    using i by (simp add: pair_power_def mult.commute)
qed

text \<open>The pairs that fit: the eligibility of the policy of maximum power.\<close>

abbreviation (input) fits :: "32 word \<Rightarrow> 32 word \<Rightarrow> 32 word \<Rightarrow> bool" where
  "fits policy snk src \<equiv> max_power_elig (ucast policy) (pdo_info snk) (pdo_info src)"

lemma better_power: "max_power_better pol k k' \<Longrightarrow> fst k' \<le> fst k"
  "\<not> max_power_better pol k k' \<Longrightarrow> fst k \<le> fst k'"
  by (auto simp: max_power_better_def)

lemma best_of_power:
  assumes "maxp.best_of pol n pdos sink st0 st"
  shows "q < n \<Longrightarrow> max_power_elig pol sink (pdo_info (pdos ! q)) \<Longrightarrow>
      fst (cap_key sink (pdo_info (pdos ! q))) \<le> sel_max_uw st"
    and "sel_pos st \<noteq> 0 \<Longrightarrow> sel_pos st - 1 < n"
    and "sel_pos st \<noteq> 0 \<Longrightarrow> sel_max_uw st = fst (cap_key sink (pdo_info (pdos ! (sel_pos st - 1))))"
    and "sel_pos st \<noteq> 0 \<Longrightarrow> sel_max_uw st0 \<le> sel_max_uw st"
    and "sel_pos st = 0 \<Longrightarrow> st = st0"
proof -
  have k: "fst (maxp.kept st) = sel_max_uw st" "fst (maxp.kept st0) = sel_max_uw st0"
    by (simp_all add: maxp.kept_def)
  show "fst (cap_key sink (pdo_info (pdos ! q))) \<le> sel_max_uw st"
    if "q < n" "max_power_elig pol sink (pdo_info (pdos ! q))"
    using assms that better_power(2)[of pol _ "maxp.kept st"] k(1) by (auto simp: maxp.best_of_def)
  show "sel_pos st - 1 < n" "sel_max_uw st = fst (cap_key sink (pdo_info (pdos ! (sel_pos st - 1))))"
    "sel_max_uw st0 \<le> sel_max_uw st" if "sel_pos st \<noteq> 0"
    using assms that better_power(1)[of pol "maxp.kept st" "maxp.kept st0"] k
    by (auto simp: maxp.best_of_def Let_def)
  show "st = st0" if "sel_pos st = 0" using assms that by (simp add: maxp.best_of_def)
qed

lemma find_power:
  assumes src: "plain_caps src_cap" and snk: "plain_pdo snk"
    and pol: "policy AND DPM_CHARGING_POLICY_MASK = DPM_CHARGING_POLICY_MAX_POWER"
  obtains found r' where "dpm_find_match_req_info r (pdo_info snk) (caps_nr src_cap) (caps_pdos src_cap) m policy
      = Inr (found, r')" "found \<Longrightarrow> m \<le> req_power r'" "\<not> found \<Longrightarrow> r' = r"
    "\<And>j. j < caps_nr src_cap \<Longrightarrow> fits policy snk (caps_pdos src_cap ! j) \<Longrightarrow>
       pair_power (pdo_info snk) (pdo_info (caps_pdos src_cap ! j)) \<le> (if found then req_power r' else m)"
    "found \<Longrightarrow> \<exists>j < caps_nr src_cap. req_power r' = pair_power (pdo_info snk) (pdo_info (caps_pdos src_cap ! j))"
proof -
  obtain st where st: "dpm_find_match_req_info r (pdo_info snk) (caps_nr src_cap) (caps_pdos src_cap) m policy =
      Inr (sel_pos st \<noteq> 0, if sel_pos st \<noteq> 0
           then fill_req_info st (pdo_info snk) (pdo_info (caps_pdos src_cap ! (sel_pos st - 1))) r else r)"
    and best: "maxp.best_of (ucast policy) (caps_nr src_cap) (caps_pdos src_cap) (pdo_info snk) (start m policy) st"
    using find_max_power[OF plain_caps_ok[OF src] pol] by blast
  let ?pos = "sel_pos st \<noteq> 0" and ?s = "pdo_info (caps_pdos src_cap ! (sel_pos st - 1))"
  define r' where "r' = (if ?pos then fill_req_info st (pdo_info snk) ?s r else r)"
  have calc: "fst (cap_key (pdo_info snk) (pdo_info (caps_pdos src_cap ! j))) =
      pair_power (pdo_info snk) (pdo_info (caps_pdos src_cap ! j))" if "j < caps_nr src_cap" for j
    using src that snk by (simp add: plain_caps_def cap_key_def pair_power_calc(1))
  have pos: "sel_pos st - 1 < caps_nr src_cap" "sel_max_uw st = pair_power (pdo_info snk) ?s" "m \<le> sel_max_uw st"
    if ?pos
    using best_of_power(2-4)[OF best that] calc[of "sel_pos st - 1"] by (simp_all add: start_def)
  have rp: "req_power r' = sel_max_uw st" if p: ?pos
  proof -
    have s: "plain_pdo (caps_pdos src_cap ! (sel_pos st - 1))" using src pos(1)[OF p] by (simp add: plain_caps_def)
    then show ?thesis
      using p plain_pdo_info(5,6)[OF s] pair_power_calc(2)[OF snk s] pos(2)[OF p]
      by (simp add: r'_def req_power_def fill_req_info_def Let_def)
  qed
  have m0: "sel_max_uw st = m" if "\<not> ?pos"
    using best_of_power(5)[OF best] that by (simp add: start_def)
  have up: "pair_power (pdo_info snk) (pdo_info (caps_pdos src_cap ! j)) \<le> sel_max_uw st"
    if "j < caps_nr src_cap" "fits policy snk (caps_pdos src_cap ! j)" for j
    using best_of_power(1)[OF best that] calc[OF that(1)] by simp
  show thesis
    by (rule that[of ?pos r']) (use st pos rp m0 up in \<open>auto simp: r'_def[symmetric]\<close>, auto simp: r'_def)
qed

lemma request_loop_best:
  assumes src: "plain_caps src_cap" and snk: "\<forall>i\<in>set is. i < length snk_pdos \<and> plain_pdo (snk_pdos ! i)"
    and pol: "ucast policy AND DPM_CHARGING_POLICY_MASK = DPM_CHARGING_POLICY_MAX_POWER"
    and loop: "request_loop src_cap policy snk_pdos is (r, m, sel) = Inr (r', m', sel')"
  shows "m \<le> m' \<and> (\<forall>i\<in>set is. \<forall>j < caps_nr src_cap. fits (ucast policy) (snk_pdos ! i) (caps_pdos src_cap ! j) \<longrightarrow>
    pair_power (pdo_info (snk_pdos ! i)) (pdo_info (caps_pdos src_cap ! j)) \<le> m')"
  using snk loop
proof (induction "is" arbitrary: r m sel)
  case Nil
  then show ?case by simp
next
  case (Cons i "is")
  obtain found r1 where f: "dpm_find_match_req_info r (pdo_info (snk_pdos ! i)) (caps_nr src_cap)
      (caps_pdos src_cap) m (ucast policy) = Inr (found, r1)" "found \<Longrightarrow> m \<le> req_power r1"
    "\<And>j. j < caps_nr src_cap \<Longrightarrow> fits (ucast policy) (snk_pdos ! i) (caps_pdos src_cap ! j) \<Longrightarrow>
       pair_power (pdo_info (snk_pdos ! i)) (pdo_info (caps_pdos src_cap ! j)) \<le> (if found then req_power r1 else m)"
    using find_power[OF src _ pol] Cons.prems(1) by (metis list.set_intros(1))
  let ?m = "if found then req_power r1 else m"
  have "\<exists>sel1. request_loop src_cap policy snk_pdos is (r1, ?m, sel1) = Inr (r', m', sel')"
    using Cons.prems f(1) by (auto simp: pdo_at_def extract_total[OF plain_pdo_info(1)] split: if_splits)
  then obtain sel1 where "request_loop src_cap policy snk_pdos is (r1, ?m, sel1) = Inr (r', m', sel')" by blast
  then have "?m \<le> m' \<and> (\<forall>i\<in>set is. \<forall>j < caps_nr src_cap. fits (ucast policy) (snk_pdos ! i) (caps_pdos src_cap ! j) \<longrightarrow>
      pair_power (pdo_info (snk_pdos ! i)) (pdo_info (caps_pdos src_cap ! j)) \<le> m')"
    using Cons.IH Cons.prems(1) by auto
  then show ?case using f(2,3) by (fastforce split: if_splits)
qed

end
