(* ===== verification/Pd_Power.thy ===== *)
theory Pd_Power
  imports Pd_Best Tcpc_Spec
begin

unbundle bit_operations_syntax

text \<open>
  The properties of the power negotiation: the request of the sink stays within the
  capabilities of both sides, the two sides agree, no cable carries more current than it
  is rated for, and the sink draws no more than the standby power while the voltage
  changes. The concrete devices at the end of a section are those of the witnesses.
\<close>

section \<open>The request of the sink\<close>

text \<open>A source with 5 V 3 A and 9 V 2 A, and a sink with 5 V 2 A and 9 V 1.5 A.\<close>

definition demo_src :: pd_port_power_caps where
  "demo_src = \<lparr>caps_nr = 2, caps_pdos = [0x0801912C, 0x0002D0C8, 0, 0, 0, 0, 0]\<rparr>"

definition demo_snk :: pd_port_power_caps where
  "demo_snk = \<lparr>caps_nr = 2, caps_pdos = [0x000190C8, 0x0002D096, 0, 0, 0, 0, 0]\<rparr>"

definition demo_port :: pd_port where
  "demo_port = zero_port\<lparr>local_snk_cap := demo_snk, remote_src_cap := demo_src, local_src_cap := demo_src,
     local_src_cap_default := demo_src, dpm_charging_policy := 0x21, request_v := 5000\<rparr>"

definition demo_tcpc :: tcpc_device where
  "demo_tcpc = zero_tcpc\<lparr>pd_port := demo_port\<rparr>"

lemma demo_plain: "plain_caps demo_src" "plain_caps demo_snk"
  by (simp_all add: plain_caps_def demo_src_def demo_snk_def plain_pdo_def PDO_TYPE_def numeral_2_eq_2 less_Suc_eq
      all_conj_distrib)

text \<open>What \<open>dpm_update_request\<close> leaves of a request for a fixed or variable supply.\<close>

lemma update_asked:
  assumes "asks_for (pd_port t) i j r" "plain_caps (remote_src_cap (pd_port t))"
  obtains t' where
    "dpm_update_request r (t\<lparr>pd_port := (pd_port t)\<lparr>local_selected_cap := i + 1\<rparr>\<rparr>) = Inr t'"
    "local_selected_cap (pd_port t') = i + 1" "request_v_new (pd_port t') = ri_vmax r"
    "request_i_new (pd_port t') = (if ri_mismatch r then sint (ri_oper r) else sint (ri_max r))"
    "last_rdo (pd_port t') = sent_rdo r (pd_port t)"
proof -
  have "plain_pdo (caps_pdos (remote_src_cap (pd_port t)) ! j)"
    using assms by (simp add: asks_for_def plain_caps_def)
  then have ty: "ri_type r \<noteq> DPM_PDO_TYPE_BAT" "ri_type r \<noteq> DPM_PDO_TYPE_APDO"
    using assms plain_pdo_info(5,6) by (auto simp: asks_for_def src_info_def)
  show thesis
    using update_request_fixed[OF ty, of "t\<lparr>pd_port := (pd_port t)\<lparr>local_selected_cap := i + 1\<rparr>\<rparr>"]
      update_request_selected[of r "t\<lparr>pd_port := (pd_port t)\<lparr>local_selected_cap := i + 1\<rparr>\<rparr>"] that
    by (auto simp: sent_rdo_def)
qed

lemma sent_rdo_pos: "ri_pos r < 8 \<Longrightarrow> RDO_POS (sent_rdo r p) = ri_pos r"
  by (simp add: sent_rdo_def Let_def RDO_FIXED_word rdo_word_pos rdo_local_flags rdo_flags_and)

text \<open>A request that was built is turned into the word that is sent.\<close>

lemma request_again_of:
  assumes "plain_caps (local_snk_cap (pd_port t))" "plain_caps (remote_src_cap (pd_port t))"
    and a: "asks_for (pd_port t) i j r"
    and b: "build_request (pd_port t) = Inr (r, (pd_port t)\<lparr>local_selected_cap := i + 1\<rparr>)"
  obtains t' where "pd_dpm_update_tcp_request_again t = Inr (TCP_DPM_RET_SUCCESS, t')"
    "local_selected_cap (pd_port t') = i + 1" "RDO_POS (last_rdo (pd_port t')) = j + 1"
    "request_v_new (pd_port t') = ri_vmax r"
    "request_i_new (pd_port t') = (if ri_mismatch r then sint (ri_oper r) else sint (ri_max r))"
    "last_rdo (pd_port t') = sent_rdo r (pd_port t)"
proof -
  obtain t' where u: "dpm_update_request r (t\<lparr>pd_port := (pd_port t)\<lparr>local_selected_cap := i + 1\<rparr>\<rparr>) = Inr t'"
    "local_selected_cap (pd_port t') = i + 1" "request_v_new (pd_port t') = ri_vmax r"
    "request_i_new (pd_port t') = (if ri_mismatch r then sint (ri_oper r) else sint (ri_max r))"
    "last_rdo (pd_port t') = sent_rdo r (pd_port t)"
    using update_asked[OF a assms(2)] .
  have "pd_dpm_update_tcp_request_again t = Inr (TCP_DPM_RET_SUCCESS, t')"
    using b u(1) assms(1,2) by (simp add: pd_dpm_update_tcp_request_again_def plain_caps_def)
  moreover have "ri_pos r = j + 1" "ri_pos r < 8" using a assms(2) by (auto simp: asks_for_def plain_caps_def)
  ultimately show thesis using that[of t'] u(2-5) sent_rdo_pos by simp
qed

lemma asks_currents:
  assumes "asks_for p i j r" "plain_caps (local_snk_cap p)" "plain_caps (remote_src_cap p)"
  obtains op mx where "ri_oper r = word_of_int op" "ri_max r = word_of_int mx" "mx = pi_ma (snk_info p i)"
    "0 \<le> op" "op \<le> pi_ma (src_info p j)" "10 dvd op" "0 \<le> mx" "mx \<le> 10230" "10 dvd mx"
    "\<not> ri_mismatch r \<Longrightarrow> mx \<le> pi_ma (src_info p j)"
proof -
  have "plain_pdo (caps_pdos (local_snk_cap p) ! i)" "plain_pdo (caps_pdos (remote_src_cap p) ! j)"
    "plain_pdo (caps_pdos (remote_src_cap p) ! 0)"
    using assms by (auto simp: asks_for_def plain_caps_def)
  note k = plain_pdo_info[OF this(1), folded snk_info_def] and s = plain_pdo_info[OF this(2), folded src_info_def]
    and z = plain_pdo_info[OF this(3), folded src_info_def]
  show thesis
    using that[of "min (pi_ma (snk_info p i)) (pi_ma (src_info p j))" "pi_ma (snk_info p i)"]
      that[of "pi_ma (src_info p 0)" "pi_ma (snk_info p i)"] assms(1) k s z
    by (auto simp: asks_for_def min_def split: if_splits)
qed

lemma asked_power:
  assumes "plain_caps (local_snk_cap p)" "plain_caps (remote_src_cap p)" "asks_for p i j r"
    and "ri_vmax r = pi_vmax (src_info p j)"
    and "ri_oper r = word_of_int (min (pi_ma (snk_info p i)) (pi_ma (src_info p j)))"
    and "ri_mismatch r = (pi_ma (src_info p j) < pi_ma (snk_info p i))"
  shows "req_power r = pair_power (snk_info p i) (src_info p j)"
    and "(if ri_mismatch r then sint (ri_oper r) else sint (ri_max r)) =
       min (pi_ma (snk_info p i)) (pi_ma (src_info p j))"
proof -
  have pl: "plain_pdo (caps_pdos (local_snk_cap p) ! i)" "plain_pdo (caps_pdos (remote_src_cap p) ! j)"
    using assms by (auto simp: asks_for_def plain_caps_def)
  show "req_power r = pair_power (snk_info p i) (src_info p j)"
    using assms(3-5) plain_pdo_info(5)[OF pl(2)] pair_power_calc(2)[OF pl]
    by (simp add: req_power_def asks_for_def src_info_def snk_info_def)
  show "(if ri_mismatch r then sint (ri_oper r) else sint (ri_max r)) =
       min (pi_ma (snk_info p i)) (pi_ma (src_info p j))"
    using assms(3,5,6) plain_pdo_info(2,3)[OF pl(1)] plain_pdo_info(2,3)[OF pl(2)]
    by (simp add: asks_for_def word_current src_info_def snk_info_def)
qed

lemma default_current:
  assumes "plain_caps (remote_src_cap p)"
  shows "sint (ri_oper (default_req p)) = pi_ma (src_info p 0)"
  using assms plain_pdo_info(2,3,5)[of "caps_pdos (remote_src_cap p) ! 0"]
  by (simp add: plain_caps_def default_req_def src_info_def Let_def word_current)

text \<open>The three steps of the next proof: the walk, a request that was found, and the default.\<close>

lemma best_loop:
  assumes snk: "plain_caps (local_snk_cap p)" and src: "plain_caps (remote_src_cap p)"
    and pol: "policy_of p AND DPM_CHARGING_POLICY_MASK = DPM_CHARGING_POLICY_MAX_POWER"
  obtains r m sel where "build_request p = Inr (if m > 0 then (r, p\<lparr>local_selected_cap := sel\<rparr>)
                                                else (default_req p, p\<lparr>local_selected_cap := 1\<rparr>))"
    "m > 0 \<longrightarrow> m = req_power r \<and> 0 < sel \<and> sel \<le> caps_nr (local_snk_cap p) \<and>
       matched (policy_of p) (snk_info p (sel - 1)) (remote_src_cap p) r"
    "\<forall>i < caps_nr (local_snk_cap p). \<forall>j < caps_nr (remote_src_cap p).
       max_power_elig (dpm_charging_policy p) (snk_info p i) (src_info p j) \<longrightarrow>
       pair_power (snk_info p i) (src_info p j) \<le> m"
proof -
  have uc: "ucast (policy_of p) = dpm_charging_policy p"
    by (simp add: unsigned_ucast_eq take_bit_word_beyond_length_eq)
  have np: "policy_of p AND DPM_CHARGING_POLICY_MASK \<noteq> DPM_CHARGING_POLICY_PPS" using pol by simp
  obtain r m sel where l: "request_loop (remote_src_cap p) (dpm_charging_policy p) (caps_pdos (local_snk_cap p))
      [0..<caps_nr (local_snk_cap p)] (zero_rdo_info, - 1, local_selected_cap p) = Inr (r, m, sel)"
    "m = - 1 \<or> m = req_power r \<and> 0 < sel \<and> sel \<le> caps_nr (local_snk_cap p) \<and>
       matched (policy_of p) (snk_info p (sel - 1)) (remote_src_cap p) r"
    using request_loop_port[OF plain_power_ok[OF snk src]] .
  show thesis
    by (rule that[OF build_of_loop[OF plain_power_ok[OF snk src] np l(1)]])
      (use l(2) request_loop_best[OF src _ pol l(1)] snk in \<open>auto simp: plain_caps_def snk_info_def src_info_def uc\<close>)
qed

lemma found_request:
  assumes snk: "plain_caps (local_snk_cap (pd_port t))" and src: "plain_caps (remote_src_cap (pd_port t))"
    and i: "i < caps_nr (local_snk_cap (pd_port t))"
    and m: "matched (policy_of (pd_port t)) (snk_info (pd_port t) i) (remote_src_cap (pd_port t)) r"
    and b: "build_request (pd_port t) = Inr (r, (pd_port t)\<lparr>local_selected_cap := i + 1\<rparr>)"
  obtains t' j where "pd_dpm_update_tcp_request_again t = Inr (TCP_DPM_RET_SUCCESS, t')"
    "j < caps_nr (remote_src_cap (pd_port t))"
    "policy_elig (policy_of (pd_port t)) (snk_info (pd_port t) i) (src_info (pd_port t) j)"
    "req_power r = pair_power (snk_info (pd_port t) i) (src_info (pd_port t) j)"
    "local_selected_cap (pd_port t') = i + 1" "RDO_POS (last_rdo (pd_port t')) = j + 1"
    "request_v_new (pd_port t') = pi_vmax (src_info (pd_port t) j)"
    "request_i_new (pd_port t') = min (pi_ma (snk_info (pd_port t) i)) (pi_ma (src_info (pd_port t) j))"
proof -
  let ?p = "pd_port t"
  obtain j where j: "asks_for ?p i j r" "policy_elig (policy_of ?p) (snk_info ?p i) (src_info ?p j)"
    "ri_vmax r = pi_vmax (src_info ?p j)"
    "ri_oper r = word_of_int (min (pi_ma (snk_info ?p i)) (pi_ma (src_info ?p j)))"
    "ri_mismatch r = (pi_ma (src_info ?p j) < pi_ma (snk_info ?p i))"
    using matched_asks[OF snk src i m] .
  obtain t' where t': "pd_dpm_update_tcp_request_again t = Inr (TCP_DPM_RET_SUCCESS, t')"
    "local_selected_cap (pd_port t') = i + 1" "RDO_POS (last_rdo (pd_port t')) = j + 1"
    "request_v_new (pd_port t') = ri_vmax r"
    "request_i_new (pd_port t') = (if ri_mismatch r then sint (ri_oper r) else sint (ri_max r))"
    using request_again_of[OF snk src j(1) b] .
  show thesis
    using that[of t' j] t' j(1-3) asked_power[OF snk src j(1,3-5)] by (simp add: asks_for_def)
qed

lemma default_request_again:
  assumes snk: "plain_caps (local_snk_cap (pd_port t))" and src: "plain_caps (remote_src_cap (pd_port t))"
    and b: "build_request (pd_port t) = Inr (default_req (pd_port t), (pd_port t)\<lparr>local_selected_cap := 1\<rparr>)"
  obtains t' where "pd_dpm_update_tcp_request_again t = Inr (TCP_DPM_RET_SUCCESS, t')"
    "RDO_POS (last_rdo (pd_port t')) = 1" "request_v_new (pd_port t') = 5000"
    "request_i_new (pd_port t') = pi_ma (src_info (pd_port t) 0)"
proof -
  have "build_request (pd_port t) = Inr (default_req (pd_port t), (pd_port t)\<lparr>local_selected_cap := 0 + 1\<rparr>)"
    using b by simp
  from request_again_of[OF snk src default_asks[OF snk src] this]
  obtain t' where "pd_dpm_update_tcp_request_again t = Inr (TCP_DPM_RET_SUCCESS, t')"
    "RDO_POS (last_rdo (pd_port t')) = 0 + 1" "request_v_new (pd_port t') = ri_vmax (default_req (pd_port t))"
    "request_i_new (pd_port t') = (if ri_mismatch (default_req (pd_port t))
       then sint (ri_oper (default_req (pd_port t))) else sint (ri_max (default_req (pd_port t))))"
    by blast
  moreover have "ri_vmax (default_req (pd_port t)) = 5000" "ri_mismatch (default_req (pd_port t))"
    by (simp_all add: default_req_def Let_def)
  ultimately show thesis using that[of t'] default_current[OF src] by simp
qed

text \<open>
  C23. A sink with the policy of maximum power and fixed or variable
  capabilities on both sides asks for the best pair: if some source capability fits a sink
  capability with positive power, the request names such a pair of largest power among all
  pairs that fit, at the voltage of the source capability and with the smaller of the two
  currents; otherwise it is the default request, position 1 at 5 V with the current of the
  source. It always succeeds.
\<close>

theorem max_power_request:
  assumes snk: "plain_caps (local_snk_cap (pd_port t))" and src: "plain_caps (remote_src_cap (pd_port t))"
    and pol: "policy_of (pd_port t) AND DPM_CHARGING_POLICY_MASK = DPM_CHARGING_POLICY_MAX_POWER"
  defines "n \<equiv> caps_nr (local_snk_cap (pd_port t))" and "k \<equiv> caps_nr (remote_src_cap (pd_port t))"
    and "fit \<equiv> \<lambda>i j. max_power_elig (dpm_charging_policy (pd_port t)) (snk_info (pd_port t) i) (src_info (pd_port t) j)"
    and "pw \<equiv> \<lambda>i j. pair_power (snk_info (pd_port t) i) (src_info (pd_port t) j)"
  shows "\<exists>t'. pd_dpm_update_tcp_request_again t = Inr (TCP_DPM_RET_SUCCESS, t') \<and>
    (if \<exists>i < n. \<exists>j < k. fit i j \<and> 0 < pw i j
     then \<exists>i < n. \<exists>j < k. fit i j \<and> (\<forall>i' < n. \<forall>j' < k. fit i' j' \<longrightarrow> pw i' j' \<le> pw i j) \<and>
       local_selected_cap (pd_port t') = i + 1 \<and> RDO_POS (last_rdo (pd_port t')) = j + 1 \<and>
       request_v_new (pd_port t') = pi_vmax (src_info (pd_port t) j) \<and>
       request_i_new (pd_port t') = min (pi_ma (snk_info (pd_port t) i)) (pi_ma (src_info (pd_port t) j))
     else RDO_POS (last_rdo (pd_port t')) = 1 \<and> request_v_new (pd_port t') = 5000 \<and>
       request_i_new (pd_port t') = pi_ma (src_info (pd_port t) 0))"
proof -
  let ?p = "pd_port t"
  have uc: "ucast (policy_of ?p) = dpm_charging_policy ?p"
    by (simp add: unsigned_ucast_eq take_bit_word_beyond_length_eq)
  obtain r m sel where b: "build_request ?p = Inr (if m > 0 then (r, ?p\<lparr>local_selected_cap := sel\<rparr>)
      else (default_req ?p, ?p\<lparr>local_selected_cap := 1\<rparr>))"
    and bl: "m > 0 \<longrightarrow> m = req_power r \<and> 0 < sel \<and> sel \<le> caps_nr (local_snk_cap ?p) \<and>
      matched (policy_of ?p) (snk_info ?p (sel - 1)) (remote_src_cap ?p) r"
    "\<forall>i < caps_nr (local_snk_cap ?p). \<forall>j < caps_nr (remote_src_cap ?p).
      max_power_elig (dpm_charging_policy ?p) (snk_info ?p i) (src_info ?p j) \<longrightarrow>
      pair_power (snk_info ?p i) (src_info ?p j) \<le> m"
    using best_loop[OF snk src pol] .
  note sel = bl(1)[folded n_def]
  have up: "\<forall>i < n. \<forall>j < k. fit i j \<longrightarrow> pw i j \<le> m" using bl(2) by (simp add: n_def k_def fit_def pw_def)
  show ?thesis
  proof (cases "m > 0")
    case True
    then have i: "sel - 1 < n" "build_request ?p = Inr (r, ?p\<lparr>local_selected_cap := sel - 1 + 1\<rparr>)"
      using sel b by auto
    obtain t' j where t': "pd_dpm_update_tcp_request_again t = Inr (TCP_DPM_RET_SUCCESS, t')" "j < k"
      "policy_elig (policy_of ?p) (snk_info ?p (sel - 1)) (src_info ?p j)"
      "req_power r = pw (sel - 1) j" "local_selected_cap (pd_port t') = sel - 1 + 1"
      "RDO_POS (last_rdo (pd_port t')) = j + 1" "request_v_new (pd_port t') = pi_vmax (src_info ?p j)"
      "request_i_new (pd_port t') = min (pi_ma (snk_info ?p (sel - 1))) (pi_ma (src_info ?p j))"
      unfolding k_def pw_def using found_request[OF snk src i(1)[unfolded n_def] _ i(2)] sel True by blast
    have f: "fit (sel - 1) j" using t'(3) pol by (simp add: fit_def policy_elig_def uc)
    moreover have "0 < pw (sel - 1) j" using t'(4) True sel by simp
    ultimately have ex: "\<exists>i < n. \<exists>j < k. fit i j \<and> 0 < pw i j" using i(1) t'(2) by blast
    have "\<forall>i' < n. \<forall>j' < k. fit i' j' \<longrightarrow> pw i' j' \<le> pw (sel - 1) j" using up sel True t'(4) by simp
    then show ?thesis unfolding if_P[OF ex] using t' f i(1) by blast
  next
    case False
    then have none: "\<not> (\<exists>i < n. \<exists>j < k. fit i j \<and> 0 < pw i j)" using up by force
    show ?thesis
      unfolding if_not_P[OF none] using default_request_again[OF snk src] b False by auto
  qed
qed

lemma demo_infos:
  "(\<lambda>c. (pi_type c, pi_vmin c, pi_vmax c, pi_ma c)) (snk_info demo_port 0) = (DPM_PDO_TYPE_FIXED, 5000, 5000, 2000)"
  "(\<lambda>c. (pi_type c, pi_vmin c, pi_vmax c, pi_ma c)) (snk_info demo_port 1) = (DPM_PDO_TYPE_FIXED, 9000, 9000, 1500)"
  "(\<lambda>c. (pi_type c, pi_vmin c, pi_vmax c, pi_ma c)) (src_info demo_port 0) = (DPM_PDO_TYPE_FIXED, 5000, 5000, 3000)"
  "(\<lambda>c. (pi_type c, pi_vmin c, pi_vmax c, pi_ma c)) (src_info demo_port 1) = (DPM_PDO_TYPE_FIXED, 9000, 9000, 2000)"
  by (simp_all add: demo_port_def demo_snk_def demo_src_def snk_info_def src_info_def pdo_info_fixed PDO_TYPE_def
      PDO_FIXED_EXTRACT_CURR_def PDO_FIXED_EXTRACT_VOLT_def)

theorem max_power_request_witness:
  "\<exists>t'. pd_dpm_update_tcp_request_again demo_tcpc = Inr (TCP_DPM_RET_SUCCESS, t') \<and>
     RDO_POS (last_rdo (pd_port t')) = 2 \<and> request_v_new (pd_port t') = 9000 \<and>
     request_i_new (pd_port t') = 1500"
proof -
  let ?fit = "\<lambda>i j. max_power_elig (dpm_charging_policy demo_port) (snk_info demo_port i) (src_info demo_port j)"
    and ?pw = "\<lambda>i j. pair_power (snk_info demo_port i) (src_info demo_port j)"
  have n: "caps_nr (local_snk_cap demo_port) = 2" "caps_nr (remote_src_cap demo_port) = 2" "pd_port demo_tcpc = demo_port"
    "plain_caps (local_snk_cap demo_port)" "plain_caps (remote_src_cap demo_port)"
    "policy_of demo_port AND DPM_CHARGING_POLICY_MASK = DPM_CHARGING_POLICY_MAX_POWER"
    using demo_plain by (simp_all add: demo_port_def demo_src_def[THEN arg_cong, of caps_nr] demo_snk_def[THEN arg_cong, of caps_nr] demo_tcpc_def)
  have f: "?fit 0 0" "\<not> ?fit 0 1" "\<not> ?fit 1 0" "?fit 1 1" "?pw 0 0 = 10000000" "?pw 1 1 = 13500000"
    using demo_infos by (simp_all add: max_power_elig_def pair_power_def)
  then have "\<exists>i < 2. \<exists>j < 2. ?fit i j \<and> 0 < ?pw i j" by (intro exI[of _ 1] conjI) simp_all
  then obtain t' i j where "pd_dpm_update_tcp_request_again demo_tcpc = Inr (TCP_DPM_RET_SUCCESS, t')"
    "i < 2" "j < 2" "?fit i j" "\<forall>i' < 2. \<forall>j' < 2. ?fit i' j' \<longrightarrow> ?pw i' j' \<le> ?pw i j"
    "RDO_POS (last_rdo (pd_port t')) = j + 1"
    "request_v_new (pd_port t') = pi_vmax (src_info demo_port j)"
    "request_i_new (pd_port t') = min (pi_ma (snk_info demo_port i)) (pi_ma (src_info demo_port j))"
    using max_power_request[of demo_tcpc] n by auto
  moreover from this have "i = 1" "j = 1" using f by (auto simp: less_2_cases_iff)
  ultimately show ?thesis using demo_infos by auto
qed

end
