(* ===== verification/Pd_Contract.thy ===== *)
theory Pd_Contract
  imports Pd_Power
begin

unbundle bit_operations_syntax

text \<open>
  The contract between the two sides of a connection: a source that runs the same code and
  sent its capabilities accepts the request of the sink, and both sides record the same
  current; no cable carries more than it is rated for (all this for fixed and variable
  capabilities); what the sink orders before the supply moves; and what a capability of the
  partner can do to the decoder.
\<close>

section \<open>Both sides agree\<close>

lemma put_dpm_port [simp]:
  "pd_port (pd_put_dpm_notify_event n t) = pd_port t" "pd_port (pd_put_dpm_nak_event n t) = pd_port t"
  by (simp_all add: pd_put_dpm_notify_event_def pd_put_dpm_nak_event_def pd_put_event_def
      pd_put_event_locked_def Let_def)

text \<open>The request of a plain port, and what the source makes of the word that was sent.\<close>

lemma asked_accepted:
  assumes a: "asks_for p i j r" and snk: "plain_caps (local_snk_cap p)" and src: "plain_caps (remote_src_cap p)"
    and same: "local_src_cap q = remote_src_cap p"
  obtains q' where "RDO_POS (sent_rdo r p) = j + 1" "dpm_evaluate_request (sent_rdo r p) (j + 1) q = Inr (True, q')"
    "request_i_new q' = (if ri_mismatch r then sint (ri_oper r) else sint (ri_max r))"
    "request_i_new q' \<le> pi_ma (src_info p j)" "request_v_new q' = pi_vmin (src_info p j)"
proof -
  obtain op mx where c: "ri_oper r = word_of_int op" "ri_max r = word_of_int mx"
    "0 \<le> op" "op \<le> pi_ma (src_info p j)" "10 dvd op" "0 \<le> mx" "mx \<le> 10230" "10 dvd mx"
    "\<not> ri_mismatch r \<Longrightarrow> mx \<le> pi_ma (src_info p j)"
    using asks_currents[OF a snk src] by blast
  have j: "j < caps_nr (remote_src_cap p)" "ri_pos r = j + 1" using a by (simp_all add: asks_for_def)
  then have pl: "plain_pdo (caps_pdos (remote_src_cap p) ! j)"
    and len: "caps_nr (remote_src_cap p) \<le> length (caps_pdos (remote_src_cap p))"
      "length (caps_pdos (remote_src_cap p)) \<le> 7"
    using src by (simp_all add: plain_caps_def)
  have S: "pi_ma (src_info p j) \<le> 10230" using plain_pdo_info(3)[OF pl] by (simp add: src_info_def)
  obtain mx' fl where w: "sent_rdo r p = RDO_FIXED (j + 1) (word_of_int op) (word_of_int mx') fl"
    "rdo_flags fl" "0 \<le> mx'" "mx' \<le> 10230" "10 dvd mx'"
    "fl AND RDO_CAP_MISMATCH \<noteq> 0 \<or> mx' \<le> pi_ma (src_info p j)"
    "(if fl AND RDO_CAP_MISMATCH \<noteq> 0 then op else mx') = (if ri_mismatch r then op else mx)"
    using sent_rdo_shape[OF c(1-4) S c(5-9), of p] j(2) by metis
  obtain q' where q: "RDO_POS (sent_rdo r p) = j + 1" "dpm_evaluate_request (sent_rdo r p) (j + 1) q = Inr (True, q')"
    "request_i_new q' = (if fl AND RDO_CAP_MISMATCH \<noteq> 0 then op else mx')"
    "request_v_new q' = pi_vmin (src_info p j)"
    using evaluate_accepts[of "j + 1" q op mx' fl] j(1) len pl c(3-5) w same by (auto simp: src_info_def)
  have "(if ri_mismatch r then sint (ri_oper r) else sint (ri_max r)) = (if ri_mismatch r then op else mx)"
    using c S by (simp add: word_current)
  then show thesis using that[of q'] q w(7) c(4,9) by (auto split: if_splits)
qed

text \<open>
  C24. With fixed and variable capabilities on both sides and any charging policy but PPS, the
  request that the sink sends is accepted by a source that runs this code and advertised the
  capabilities the sink has: the source selects the position in the request, both sides
  record the same current, and it does not exceed that of the capability. When the
  capabilities are fixed and the first is 5 V, both record the same voltage.
\<close>

theorem negotiation_agrees:
  assumes snk: "plain_caps (local_snk_cap (pd_port t))" and src: "plain_caps (remote_src_cap (pd_port t))"
    and pol: "policy_of (pd_port t) AND DPM_CHARGING_POLICY_MASK \<noteq> DPM_CHARGING_POLICY_PPS"
    and same: "local_src_cap (pd_port s) = remote_src_cap (pd_port t)"
    and msg: "pd_msg_data_payload (pd_port s) = Some m"
    and sent: "\<And>t'. pd_dpm_update_tcp_request_again t = Inr (TCP_DPM_RET_SUCCESS, t') \<Longrightarrow>
      hd (payload (pd_msg_buffer s ! m)) = last_rdo (pd_port t')"
  shows "\<exists>t' s' j. pd_dpm_update_tcp_request_again t = Inr (TCP_DPM_RET_SUCCESS, t') \<and>
    pd_dpm_src_evaluate_request s = Inr s' \<and> j < caps_nr (remote_src_cap (pd_port t)) \<and>
    local_selected_cap (pd_port s') = j + 1 \<and>
    request_i_new (pd_port s') = request_i_new (pd_port t') \<and>
    request_i_new (pd_port s') \<le> pi_ma (src_info (pd_port t) j) \<and>
    ((\<forall>k < caps_nr (remote_src_cap (pd_port t)). PDO_TYPE (caps_pdos (remote_src_cap (pd_port t)) ! k) = PDO_TYPE_FIXED) \<and>
       pi_vmin (src_info (pd_port t) 0) = 5000 \<longrightarrow> request_v_new (pd_port s') = request_v_new (pd_port t'))"
proof -
  let ?p = "pd_port t"
  obtain r i j where b: "build_request ?p = Inr (r, ?p\<lparr>local_selected_cap := i + 1\<rparr>)" and a: "asks_for ?p i j r"
    using plain_request[OF snk src pol] .
  obtain t' where t': "pd_dpm_update_tcp_request_again t = Inr (TCP_DPM_RET_SUCCESS, t')"
    "request_v_new (pd_port t') = ri_vmax r" "last_rdo (pd_port t') = sent_rdo r ?p"
    "request_i_new (pd_port t') = (if ri_mismatch r then sint (ri_oper r) else sint (ri_max r))"
    using request_again_of[OF snk src a b] .
  obtain q' where q: "RDO_POS (sent_rdo r ?p) = j + 1" "dpm_evaluate_request (sent_rdo r ?p) (j + 1) (pd_port s) = Inr (True, q')"
    "request_i_new q' = (if ri_mismatch r then sint (ri_oper r) else sint (ri_max r))"
    "request_i_new q' \<le> pi_ma (src_info ?p j)" "request_v_new q' = pi_vmin (src_info ?p j)"
    using asked_accepted[OF a snk src same] .
  obtain s' where s': "pd_dpm_src_evaluate_request s = Inr s'" "pd_port s' = q'\<lparr>local_selected_cap := j + 1\<rparr>"
    using q(1,2) msg sent[OF t'(1)] t'(3) by (simp add: pd_dpm_src_evaluate_request_def Let_def)
  have "request_v_new q' = ri_vmax r"
    if "\<forall>k < caps_nr (remote_src_cap ?p). PDO_TYPE (caps_pdos (remote_src_cap ?p) ! k) = PDO_TYPE_FIXED"
      "pi_vmin (src_info ?p 0) = 5000"
    using that a q(5) pdo_info_fixed[of "caps_pdos (remote_src_cap ?p) ! j"]
    by (auto simp: asks_for_def src_info_def)
  then show ?thesis using t' s' q a by (intro exI[of _ t'] exI[of _ s'] exI[of _ j]) (simp add: asks_for_def)
qed

text \<open>The source of the demonstration has received the word that its sink sends.\<close>

definition demo_source :: tcpc_device where
  "demo_source = zero_tcpc\<lparr>pd_port := demo_port\<lparr>pd_msg_data_payload := Some 0\<rparr>,
     pd_msg_buffer := [zero_msg\<lparr>payload := [0x20025896]\<rparr>]\<rparr>"

lemma demo_sent: "map_sum id (\<lambda>(r, t). last_rdo (pd_port t)) (pd_dpm_update_tcp_request_again demo_tcpc) = Inr 0x20025896"
  by code_simp

theorem negotiation_agrees_witness:
  "\<exists>t' s' j. pd_dpm_update_tcp_request_again demo_tcpc = Inr (TCP_DPM_RET_SUCCESS, t') \<and>
    pd_dpm_src_evaluate_request demo_source = Inr s' \<and> j < 2 \<and> local_selected_cap (pd_port s') = j + 1 \<and>
    request_i_new (pd_port s') = request_i_new (pd_port t')"
proof -
  have c: "caps_nr demo_src = 2" by (simp add: demo_src_def)
  have n: "pd_port demo_tcpc = demo_port" "plain_caps (local_snk_cap demo_port)" "plain_caps (remote_src_cap demo_port)"
    "policy_of demo_port AND DPM_CHARGING_POLICY_MASK \<noteq> DPM_CHARGING_POLICY_PPS"
    "caps_nr (remote_src_cap demo_port) = 2" "local_src_cap (pd_port demo_source) = remote_src_cap demo_port"
    "pd_msg_data_payload (pd_port demo_source) = Some 0" "hd (payload (pd_msg_buffer demo_source ! 0)) = 0x20025896"
    using demo_plain c by (simp_all add: demo_port_def demo_tcpc_def demo_source_def)
  have "\<And>t'. pd_dpm_update_tcp_request_again demo_tcpc = Inr (TCP_DPM_RET_SUCCESS, t') \<Longrightarrow>
      hd (payload (pd_msg_buffer demo_source ! 0)) = last_rdo (pd_port t')"
    using demo_sent n(8) by simp
  from negotiation_agrees[of demo_tcpc demo_source 0, unfolded n(1), OF n(2-4,6,7) this] show ?thesis
    unfolding n(5) by blast
qed

section \<open>The cable\<close>

text \<open>
  What a cable may carry: an e-marked cable tells its rating (1.5 A, 3 A or 5 A), any other
  cable counts for 3 A.
\<close>

definition cable_rating :: "pd_port \<Rightarrow> int" where
  "cable_rating p = (if power_cable_present p then pd_get_cable_current_limit p else 3000)"

lemma cable_rating_cases: "cable_rating p \<in> {1500, 3000, 5000}"
  by (simp add: cable_rating_def pd_get_cable_current_limit_def Let_def)

lemma limit_caps_all:
  assumes "\<forall>i\<in>set is. i < length src \<and> i < length dst"
  shows "\<exists>pdos. limit_caps imax src is dst = Inr pdos \<and> length pdos = length dst \<and>
    (\<forall>i < length dst. pdos ! i = (if i \<in> set is then pd_reset_pdo_power (src ! i) imax else dst ! i))"
  using assms
proof (induction "is" arbitrary: dst)
  case Nil
  then show ?case by simp
next
  case (Cons k "is")
  from Cons.IH[of "dst[k := pd_reset_pdo_power (src ! k) imax]"] Cons.prems show ?case
    by (fastforce simp: pdo_at_def nth_list_update)
qed

lemma accepted_bound:
  assumes "dpm_evaluate_request rdo pos p = Inr (True, p')" "pos \<le> length (caps_pdos (local_src_cap p))"
    "plain_pdo (caps_pdos (local_src_cap p) ! (pos - 1))"
  shows "request_i_new p' \<le> pi_ma (pdo_info (caps_pdos (local_src_cap p) ! (pos - 1)))"
proof -
  let ?ma = "pi_ma (pdo_info (caps_pdos (local_src_cap p) ! (pos - 1)))"
  note i = plain_pdo_info[OF assms(3)]
  have le: "sint x \<le> ?ma" if "\<not> (word_of_int ?ma :: 32 word) < x" for x
  proof -
    have "uint x \<le> ?ma" using that i(2,3) by (simp add: word_less_def word_current)
    then have "signed_take_bit 31 (uint x) = uint x" 
      using i(3) by (intro signed_take_bit_int_eq_self order_trans[OF _ uint_ge_0]) auto
    then show ?thesis using \<open>uint x \<le> ?ma\<close> by (simp add: sint_uint)
  qed
  show ?thesis
    using assms le
    by (auto simp: dpm_evaluate_request_def Let_def kbind_eq_Inr pdo_at_def extract_total[OF i(1), unfolded One_nat_def]
        split: if_splits prod.splits)
qed

lemma stable_port [simp]:
  "pd_port (pd_enable_vbus_stable_detection t) = pd_port t" "pd_port (pd_put_vbus_stable_event t) = pd_port t"
  "pd_port (tcpci_source_vbus ty mv ma t) = pd_port t" "pd_port (act a t) = pd_port t"
  by (simp_all add: pd_enable_vbus_stable_detection_def pd_notify_pe_wait_vbus_once_def pd_put_vbus_stable_event_def
      pd_put_hw_event_locked_def pd_put_event_locked_def tcpci_source_vbus_def act_def Let_def)

lemma transition_current: "request_i (pd_port (pd_dpm_src_transition_power t)) = request_i_new (pd_port t)"
  by (simp add: pd_dpm_src_transition_power_def upd_port_def Let_def)

lemma evaluate_pos:
  "dpm_evaluate_request rdo pos p = Inr (True, p') \<Longrightarrow> 0 < pos \<and> pos \<le> caps_nr (local_src_cap p)"
  by (auto simp: dpm_evaluate_request_def Let_def split: if_splits)

lemma accepted_request:
  assumes "pd_dpm_src_evaluate_request s = Inr s'" "local_selected_cap (pd_port s') \<noteq> 0"
  obtains pos rdo p' where "dpm_evaluate_request rdo pos (pd_port s) = Inr (True, p')"
    "0 < pos" "pos \<le> caps_nr (local_src_cap (pd_port s))" "request_i_new (pd_port s') = request_i_new p'"
proof -
  obtain m where m: "pd_msg_data_payload (pd_port s) = Some m"
    using assms(1) by (auto simp: pd_dpm_src_evaluate_request_def split: option.splits)
  let ?rdo = "hd (payload (pd_msg_buffer s ! m))"
  obtain acc p' where e: "dpm_evaluate_request ?rdo (RDO_POS ?rdo) (pd_port s) = Inr (acc, p')"
    using assms(1) m by (auto simp: pd_dpm_src_evaluate_request_def Let_def kbind_eq_Inr)
  have acc: "acc" using assms m e by (auto simp: pd_dpm_src_evaluate_request_def Let_def split: if_splits)
  then have "request_i_new (pd_port s') = request_i_new p'"
    using assms(1) m e by (auto simp: pd_dpm_src_evaluate_request_def Let_def)
  then show thesis using that[of ?rdo "RDO_POS ?rdo" p'] e acc evaluate_pos by simp
qed

text \<open>
  C25. A source with fixed and variable capabilities only (battery and augmented ones are sent
  as they are) never supplies more than the cable is rated for: once it has sent its capabilities, every capability it offers is within the rating,
  and whatever request it accepts for them, the current it then switches to is within the
  rating too.
\<close>

theorem cable_limit:
  assumes plain: "plain_caps (local_src_cap_default (pd_port t))" and len: "length (caps_pdos (local_src_cap (pd_port t))) = 7"
  shows "\<exists>t'. pd_dpm_send_source_caps t = Inr t' \<and> plain_caps (local_src_cap (pd_port t')) \<and>
    caps_nr (local_src_cap (pd_port t')) = caps_nr (local_src_cap_default (pd_port t)) \<and>
    (\<forall>i < caps_nr (local_src_cap (pd_port t')).
       pi_ma (pdo_info (caps_pdos (local_src_cap (pd_port t')) ! i)) \<le> cable_rating (pd_port t)) \<and>
    (\<forall>s s'. local_src_cap (pd_port s) = local_src_cap (pd_port t') \<longrightarrow> pd_dpm_src_evaluate_request s = Inr s' \<longrightarrow>
       local_selected_cap (pd_port s') \<noteq> 0 \<longrightarrow>
       request_i (pd_port (pd_dpm_src_transition_power s')) \<le> cable_rating (pd_port t))"
proof -
  let ?d = "local_src_cap_default (pd_port t)" and ?R = "cable_rating (pd_port t)"
  have R: "0 \<le> ?R" "?R div 10 * 10 = ?R" using cable_rating_cases[of "pd_port t"] by auto
  obtain pdos where p: "limit_caps ?R (caps_pdos ?d) [0..<caps_nr ?d] (caps_pdos (local_src_cap (pd_port t))) = Inr pdos"
    "length pdos = 7" "\<forall>i < caps_nr ?d. pdos ! i = pd_reset_pdo_power (caps_pdos ?d ! i) ?R"
    using limit_caps_all[of "[0..<caps_nr ?d]" "caps_pdos ?d" "caps_pdos (local_src_cap (pd_port t))" ?R] plain len
    by (auto simp: plain_caps_def)
  define t' where "t' = pd_send_sop_data_msg PD_DATA_SOURCE_CAP (take (caps_nr ?d) pdos)
    (upd_port (\<lambda>p. p\<lparr>local_src_cap := \<lparr>caps_nr = caps_nr ?d, caps_pdos = pdos\<rparr>\<rparr>) t)"
  have t': "pd_dpm_send_source_caps t = Inr t'" "local_src_cap (pd_port t') = \<lparr>caps_nr = caps_nr ?d, caps_pdos = pdos\<rparr>"
    using p(1) by (simp_all add: pd_dpm_send_source_caps_def t'_def cable_rating_def[symmetric] Let_def pd_send_sop_data_msg_def upd_port_def)
  have each: "plain_pdo (pdos ! i) \<and> pi_ma (pdo_info (pdos ! i)) \<le> ?R" if "i < caps_nr ?d" for i
    using that p(3) plain reset_limits[OF R(1), of "caps_pdos ?d ! i"] R(2) by (auto simp: plain_caps_def plain_pdo_def)
  have "request_i (pd_port (pd_dpm_src_transition_power s')) \<le> ?R"
    if s: "local_src_cap (pd_port s) = local_src_cap (pd_port t')" "pd_dpm_src_evaluate_request s = Inr s'"
      "local_selected_cap (pd_port s') \<noteq> 0" for s s'
  proof -
    obtain pos rdo p' where r: "dpm_evaluate_request rdo pos (pd_port s) = Inr (True, p')" "0 < pos"
      "pos \<le> caps_nr (local_src_cap (pd_port s))" "request_i_new (pd_port s') = request_i_new p'"
      using accepted_request[OF s(2,3)] .
    have i: "pos - 1 < caps_nr ?d" using r(2,3) s(1) t'(2) by simp
    show ?thesis
      using accepted_bound[OF r(1)] each[OF i] s(1) t'(2) r(3,4) p(2) plain
      by (auto simp: transition_current plain_caps_def)
  qed
  then show ?thesis using t' each p(2) plain by (auto simp: plain_caps_def)
qed

text \<open>The same source behind an e-marked cable that says 1.5 A.\<close>

definition demo_cabled :: tcpc_device where
  "demo_cabled = zero_tcpc\<lparr>pd_port := demo_port\<lparr>power_cable_present := True\<rparr>\<rparr>"

theorem cable_limit_witness:
  "\<exists>t'. pd_dpm_send_source_caps demo_cabled = Inr t' \<and> caps_nr (local_src_cap (pd_port t')) = 2 \<and>
    (\<forall>i < 2. pi_ma (pdo_info (caps_pdos (local_src_cap (pd_port t')) ! i)) \<le> 1500)"
proof -
  have "local_src_cap_default (pd_port demo_cabled) = demo_src" "caps_nr demo_src = 2" "cable_rating (pd_port demo_cabled) = 1500"
    "length (caps_pdos (local_src_cap (pd_port demo_cabled))) = 7"
    by (simp_all add: demo_cabled_def demo_port_def demo_src_def zero_port_def cable_rating_def
        pd_get_cable_current_limit_def pd_get_cable_curr_lvl_def)
  with cable_limit[of demo_cabled] demo_plain show ?thesis by auto
qed

section \<open>Standby power of the sink\<close>

lemma standby_current:
  assumes "0 < (v :: int)"
  shows "0 \<le> 2500000 sdiv v" "2500000 sdiv v * v \<le> 2500000" "2500000 < (2500000 sdiv v + 1) * v"
proof -
  have d: "2500000 sdiv v = 2500000 div v" using assms by (simp add: sdiv_nonneg)
  show "0 \<le> 2500000 sdiv v" using assms by (simp add: d pos_imp_zdiv_nonneg_iff)
  have "2500000 div v * v + 2500000 mod v = 2500000" "0 \<le> 2500000 mod v" "2500000 mod v < v" using assms by simp_all
  then show "2500000 sdiv v * v \<le> 2500000" "2500000 < (2500000 sdiv v + 1) * v"
    unfolding d distrib_right by linarith+
qed

lemma set_vconn_port [simp]:
  "request_v (pd_port (snd (pd_set_vconn rv role t))) = request_v (pd_port t)"
  "request_v_new (pd_port (snd (pd_set_vconn rv role t))) = request_v_new (pd_port t)"
  "request_apdo_new (pd_port (snd (pd_set_vconn rv role t))) = request_apdo_new (pd_port t)"
  "request_i (pd_port (snd (pd_set_vconn rv role t))) = request_i (pd_port t)"
  "request_i_new (pd_port (snd (pd_set_vconn rv role t))) = request_i_new (pd_port t)"
  by (simp_all add: pd_set_vconn_def pe_reset_msg_id_def upd_port_def Let_def)

text \<open>The orders to draw a current at a voltage, in the order they were given.\<close>

fun sink_order :: "tcpc_act \<Rightarrow> (int \<times> int) list" where
  "sink_order (SinkVbus ty mv ma) = [(mv, ma)]"
| "sink_order _ = []"

definition sink_orders :: "tcpc_device \<Rightarrow> (int \<times> int) list" where
  "sink_orders t = concat (map sink_order (tc_log t))"

lemma sink_orders_simps [simp]:
  "sink_orders (upd_port f t) = sink_orders t" "sink_orders (act a t) = sink_orders t @ sink_order a"
  "sink_orders (snd (pd_set_vconn rv role t)) = sink_orders t"
  "0 \<le> ma \<Longrightarrow> sink_orders (tcpci_sink_vbus ty mv ma t) = sink_orders t @ [(mv, ma)]"
  by (simp_all add: sink_orders_def upd_port_def act_def pd_set_vconn_def tcpci_sink_vbus_def Let_def)

text \<open>
  C26. What the sink orders before the supply moves, with and without the switch-off of VCONN and
  whatever the chip answers to it. When the voltage changes, it orders one current at the new
  voltage, the largest one whose power is within 2.5 W at the higher of the two voltages, so that
  the sink draws no more than that at either of them. When only the current falls, it orders the
  new current; when it does not fall, nothing. For a programmable supply (\<open>request_apdo_new\<close>) it
  orders nothing. The two voltages are not negative and not both zero.
\<close>

theorem standby_power:
  fixes t :: tcpc_device
  defines "v \<equiv> request_v (pd_port t)" and "v' \<equiv> request_v_new (pd_port t)"
    and "i \<equiv> request_i (pd_port t)" and "i' \<equiv> request_i_new (pd_port t)"
  assumes "0 \<le> v" "0 \<le> v'" "0 < max v v'"
  shows "\<exists>t' new. pd_dpm_snk_standby_power rv t = Inr t' \<and> sink_orders t' = sink_orders t @ new \<and>
    (if request_apdo_new (pd_port t) then new = []
     else if v' \<noteq> v then \<exists>ma. new = [(v', ma)] \<and> 0 \<le> ma \<and> ma * v \<le> 2500000 \<and> ma * v' \<le> 2500000 \<and>
       2500000 < (ma + 1) * max v v'
     else if 0 \<le> i' \<and> i' < i then new = [(v', i')] else new = [])"
proof -
  let ?ma = "2500000 sdiv max v v'"
  have v: "max (request_v (pd_port t)) (request_v_new (pd_port t)) = max v v'" "max v v' \<noteq> 0"
    using assms(7) by (simp_all add: v_def v'_def)
  note c = standby_current[OF assms(7)]
  define t1 where "t1 = (if \<not> vconn_highv_prot (pd_port t) \<and> request_v_new (pd_port t) > 5000
      \<and> tcpc_flags t AND TCPC_FLAGS_VCONN_SAFE5V_ONLY \<noteq> 0
    then upd_port (\<lambda>p. p\<lparr>vconn_highv_prot := request_v_new (pd_port t) > 5000\<rparr>)
      (snd (pd_set_vconn rv PD_ROLE_VCONN_OFF (upd_port (\<lambda>p. p\<lparr>vconn_highv_prot_role := vconn_role p\<rparr>) t)))
    else t)"
  have p: "request_v (pd_port t1) = v" "request_v_new (pd_port t1) = v'" "request_i (pd_port t1) = i"
    "request_i_new (pd_port t1) = i'" "request_apdo_new (pd_port t1) = request_apdo_new (pd_port t)"
    "sink_orders t1 = sink_orders t"
    by (simp_all add: t1_def v_def v'_def i_def i'_def) (simp_all add: upd_port_def)
  have bound: "?ma * w \<le> 2500000" if "w \<le> max v v'" for w
    using order_trans[OF mult_left_mono[OF that c(1)] c(2)] .
  have "\<exists>t'. pd_dpm_snk_standby_power rv t = Inr t' \<and> sink_orders t' = sink_orders t @
     (if request_apdo_new (pd_port t) then [] else if v' \<noteq> v then [(v', ?ma)] else if 0 \<le> i' \<and> i' < i then [(v', i')] else [])"
    unfolding pd_dpm_snk_standby_power_def Let_def t1_def[symmetric] v(1)
    using v(2) c(1) p by auto
  then show ?thesis using bound[of v] bound[of v'] c(1,3) by fastforce
qed

text \<open>From 5 V to 9 V, with a fixed and with a programmable supply.\<close>

definition demo_moves :: "bool \<Rightarrow> tcpc_device" where
  "demo_moves apdo =
     upd_port (\<lambda>p. p\<lparr>request_v := 5000, request_v_new := 9000, request_apdo_new := apdo\<rparr>) demo_tcpc"

theorem standby_power_witness:
  "(\<exists>t' ma. pd_dpm_snk_standby_power 0 (demo_moves False) = Inr t' \<and> sink_orders t' = [(9000, ma)] \<and>
      ma * 9000 \<le> 2500000 \<and> 2500000 < (ma + 1) * 9000) \<and>
   (\<exists>t'. pd_dpm_snk_standby_power 0 (demo_moves True) = Inr t' \<and> sink_orders t' = [])"
proof -
  have d: "request_v (pd_port (demo_moves b)) = 5000" "request_v_new (pd_port (demo_moves b)) = 9000"
    "request_apdo_new (pd_port (demo_moves b)) = b" "sink_orders (demo_moves b) = []" for b
    by (simp_all add: demo_moves_def upd_port_def demo_tcpc_def zero_tcpc_def sink_orders_def)
  show ?thesis
    using standby_power[of "demo_moves False" 0] standby_power[of "demo_moves True" 0] unfolding d by auto
qed

section \<open>What the partner can send\<close>

lemma select_loop_bad:
  assumes "\<forall>i\<in>set is. i < length pdos" "\<exists>i\<in>set is. \<not> pdo_ok (pdos ! i)"
  shows "select_loop f sink pdos is st = Inl DivByZero"
  using assms
proof (induction "is" arbitrary: st)
  case Nil
  then show ?case by simp
next
  case (Cons i "is")
  show ?case
  proof (cases "pdo_ok (pdos ! i)")
    case True
    then show ?thesis using Cons by (simp add: select_one_def pdo_at_def extract_total split: prod.split)
  next
    case False
    then show ?thesis using Cons.prems by (simp add: select_one_def pdo_at_def extract_div_by_zero)
  qed
qed

lemma find_bad:
  assumes "cnt \<le> length pdos" "i < cnt" "\<not> pdo_ok (pdos ! i)"
  shows "dpm_find_match_req_info r sink cnt pdos min_uw policy = Inl DivByZero"
proof -
  have "\<forall>i\<in>set [0..<cnt]. i < length pdos" "\<exists>i\<in>set [0..<cnt]. \<not> pdo_ok (pdos ! i)" using assms by auto
  then show ?thesis by (simp add: dpm_find_match_req_info_def select_loop_bad)
qed

lemma build_bad:
  assumes "caps_nr (remote_src_cap p) \<le> length (caps_pdos (remote_src_cap p))" "i < caps_nr (remote_src_cap p)"
    "\<not> pdo_ok (caps_pdos (remote_src_cap p) ! i)"
    and "0 < caps_nr (local_snk_cap p)" "caps_ok (caps_nr (local_snk_cap p)) (caps_pdos (local_snk_cap p))"
  shows "build_request p = Inl DivByZero"
proof -
  obtain n where n: "caps_nr (local_snk_cap p) = Suc n" using assms(4) by (cases "caps_nr (local_snk_cap p)") auto
  then have "0 < length (caps_pdos (local_snk_cap p))" "pdo_ok (caps_pdos (local_snk_cap p) ! 0)"
    using assms(5) by (auto simp: caps_ok_def)
  then show ?thesis
    using find_bad[OF assms(1-3)]
    by (simp add: build_request_def dpm_build_request_info_def dpm_build_request_info_apdo_def
        dpm_build_request_info_pdo_def n upt_conv_Cons pdo_at_def extract_total Let_def del: upt_Suc)
qed

text \<open>
  C27. A source capability for a battery whose minimum voltage is zero stops the sink: whatever the
  policy and whatever else is in the message, evaluating the received capabilities divides
  by zero.
\<close>

theorem battery_divides_by_zero:
  assumes "curr_pd_event (pd_port t) = \<lparr>event_type = PD_EVT_DATA_MSG, msg = PD_DATA_SOURCE_CAP, msg_sec = sec, pd_msg = Some m\<rparr>"
    and msg: "pd_msg_data_payload (pd_port t) = Some m" "pd_msg_data_count (pd_port t) = n" "n \<le> 7"
    and len: "length (payload (pd_msg_buffer t ! m)) = 7" "length (caps_pdos (remote_src_cap (pd_port t))) = 7"
    and snk: "0 < caps_nr (local_snk_cap (pd_port t))"
      "caps_ok (caps_nr (local_snk_cap (pd_port t))) (caps_pdos (local_snk_cap (pd_port t)))"
    and bat: "i < n" "PDO_TYPE (payload (pd_msg_buffer t ! m) ! i) = PDO_TYPE_BATTERY"
      "PDO_BATT_EXTRACT_MIN_VOLT (payload (pd_msg_buffer t ! m) ! i) = 0"
  shows "pd_dpm_snk_evaluate_caps t = Inl DivByZero"
proof -
  let ?cap = "\<lparr>caps_nr = n, caps_pdos = take n (payload (pd_msg_buffer t ! m)) @ drop n (caps_pdos (remote_src_cap (pd_port t)))\<rparr>"
  have "copy_caps t (remote_src_cap (pd_port t)) = Inr ?cap" "caps_pdos ?cap \<noteq> []"
    using msg len bat(1) by (auto simp: copy_caps_def Let_def)
  then obtain t' where t': "pd_dpm_dr_inform_source_cap t = Inr t'" "remote_src_cap (pd_port t') = ?cap"
    "local_snk_cap (pd_port t') = local_snk_cap (pd_port t)"
    using assms(1) by (simp add: pd_dpm_dr_inform_source_cap_def pd_event_msg_match_def pdo_at_def upd_port_def
        dpm_reaction_clear_def pd_dpm_update_pdos_flags_def Let_def)
  have "\<not> pdo_ok (caps_pdos ?cap ! i)" using bat len msg(3) by (simp add: pdo_ok_def nth_append)
  then have "build_request (pd_port t') = Inl DivByZero"
    using build_bad[of "pd_port t'" i] t'(2,3) snk bat(1) msg(3) len by simp
  then show ?thesis
    using t' msg(1) bat(1) snk(1) by (simp add: pd_dpm_snk_evaluate_caps_def Let_def)
qed

definition demo_battery :: tcpc_device where
  "demo_battery = zero_tcpc\<lparr>pd_port := demo_port\<lparr>pd_msg_data_payload := Some 0, pd_msg_data_count := 1,
     curr_pd_event := \<lparr>event_type = PD_EVT_DATA_MSG, msg = PD_DATA_SOURCE_CAP, msg_sec = 0, pd_msg = Some 0\<rparr>\<rparr>,
     pd_msg_buffer := [zero_msg\<lparr>payload := [0x40000010, 0, 0, 0, 0, 0, 0]\<rparr>]\<rparr>"

theorem battery_divides_by_zero_witness: "pd_dpm_snk_evaluate_caps demo_battery = Inl DivByZero"
proof (rule battery_divides_by_zero[of demo_battery 0 0 1 0])
  show "caps_ok (caps_nr (local_snk_cap (pd_port demo_battery))) (caps_pdos (local_snk_cap (pd_port demo_battery)))"
    using plain_caps_ok[OF demo_plain(2)] by (simp add: demo_battery_def demo_port_def)
qed (simp_all add: demo_battery_def demo_port_def demo_src_def demo_snk_def zero_msg_def PDO_TYPE_def PDO_BATT_EXTRACT_MIN_VOLT_def)

end
