(* ===== verification/Pe_Base.thy ===== *)
theory Pe_Base
  imports Pd_Request
begin

unbundle bit_operations_syntax

text \<open>
  The policy engine of the USB Power Delivery stack, its shared part: the choice of the
  next state (\<open>inc/pd_process_evt.h\<close>), the reactions to protocol errors and failed
  transmissions, the checks on a received message and the start of the engine
  (\<open>pd_process_evt.c\<close>), and the functions of \<open>pd_core.c\<close> that they call.

  In the code every handler gets the event as an argument that always points to
  \<open>pd_port->curr_pd_event\<close>; here the handlers read it there. A handler returns whether the
  state changes, and the device in which it has put the next state into \<open>pe_state_next\<close>.
  The alternate modes are called back through function pointers; the calls are recorded.
\<close>

section \<open>Constants\<close>

abbreviation (input) PD_EVT_EXT_MSG :: nat where "PD_EVT_EXT_MSG \<equiv> 3"
abbreviation (input) PD_EVT_PD_MSG_END :: nat where "PD_EVT_PD_MSG_END \<equiv> 4"
abbreviation (input) PD_EVT_TIMER_MSG :: nat where "PD_EVT_TIMER_MSG \<equiv> 7"

abbreviation (input) PD_CTRL_GOTO_MIN :: nat where "PD_CTRL_GOTO_MIN \<equiv> 2"
abbreviation (input) PD_CTRL_ACCEPT :: nat where "PD_CTRL_ACCEPT \<equiv> 3"
abbreviation (input) PD_CTRL_REJECT :: nat where "PD_CTRL_REJECT \<equiv> 4"
abbreviation (input) PD_CTRL_PS_RDY :: nat where "PD_CTRL_PS_RDY \<equiv> 6"
abbreviation (input) PD_CTRL_GET_SOURCE_CAP :: nat where "PD_CTRL_GET_SOURCE_CAP \<equiv> 7"
abbreviation (input) PD_CTRL_GET_SINK_CAP :: nat where "PD_CTRL_GET_SINK_CAP \<equiv> 8"
abbreviation (input) PD_CTRL_DR_SWAP :: nat where "PD_CTRL_DR_SWAP \<equiv> 9"
abbreviation (input) PD_CTRL_PR_SWAP :: nat where "PD_CTRL_PR_SWAP \<equiv> 10"
abbreviation (input) PD_CTRL_VCONN_SWAP :: nat where "PD_CTRL_VCONN_SWAP \<equiv> 11"
abbreviation (input) PD_CTRL_WAIT :: nat where "PD_CTRL_WAIT \<equiv> 12"
abbreviation (input) PD_CTRL_SOFT_RESET :: nat where "PD_CTRL_SOFT_RESET \<equiv> 13"
abbreviation (input) PD_CTRL_PD30_START :: nat where "PD_CTRL_PD30_START \<equiv> 16"
abbreviation (input) PD_CTRL_NOT_SUPPORTED :: nat where "PD_CTRL_NOT_SUPPORTED \<equiv> 16"
abbreviation (input) PD_CTRL_GET_SOURCE_CAP_EXT :: nat where "PD_CTRL_GET_SOURCE_CAP_EXT \<equiv> 17"
abbreviation (input) PD_CTRL_GET_STATUS :: nat where "PD_CTRL_GET_STATUS \<equiv> 18"
abbreviation (input) PD_CTRL_GET_COUNTRY_CODE :: nat where "PD_CTRL_GET_COUNTRY_CODE \<equiv> 21"
abbreviation (input) PD_CTRL_MSG_NR :: nat where "PD_CTRL_MSG_NR \<equiv> 22"

abbreviation (input) PD_DATA_PD30_START :: nat where "PD_DATA_PD30_START \<equiv> 5"
abbreviation (input) PD_DATA_BAT_STATUS :: nat where "PD_DATA_BAT_STATUS \<equiv> 5"
abbreviation (input) PD_DATA_ALERT :: nat where "PD_DATA_ALERT \<equiv> 6"
abbreviation (input) PD_DATA_GET_COUNTRY_INFO :: nat where "PD_DATA_GET_COUNTRY_INFO \<equiv> 7"
abbreviation (input) PD_DATA_MSG_NR :: nat where "PD_DATA_MSG_NR \<equiv> 16"

abbreviation (input) PD_EXT_SOURCE_CAP_EXT :: nat where "PD_EXT_SOURCE_CAP_EXT \<equiv> 1"
abbreviation (input) PD_EXT_STATUS :: nat where "PD_EXT_STATUS \<equiv> 2"
abbreviation (input) PD_EXT_GET_BAT_CAP :: nat where "PD_EXT_GET_BAT_CAP \<equiv> 3"
abbreviation (input) PD_EXT_GET_BAT_STATUS :: nat where "PD_EXT_GET_BAT_STATUS \<equiv> 4"
abbreviation (input) PD_EXT_BAT_CAP :: nat where "PD_EXT_BAT_CAP \<equiv> 5"
abbreviation (input) PD_EXT_GET_MFR_INFO :: nat where "PD_EXT_GET_MFR_INFO \<equiv> 6"
abbreviation (input) PD_EXT_MFR_INFO :: nat where "PD_EXT_MFR_INFO \<equiv> 7"
abbreviation (input) PD_EXT_PPS_STATUS :: nat where "PD_EXT_PPS_STATUS \<equiv> 12"
abbreviation (input) PD_EXT_COUNTRY_INFO :: nat where "PD_EXT_COUNTRY_INFO \<equiv> 13"
abbreviation (input) PD_EXT_COUNTRY_CODES :: nat where "PD_EXT_COUNTRY_CODES \<equiv> 14"

abbreviation (input) PD_DPM_CAP_CHANGED :: nat where "PD_DPM_CAP_CHANGED \<equiv> 2"
abbreviation (input) PD_DPM_NOT_SUPPORT :: nat where "PD_DPM_NOT_SUPPORT \<equiv> 3"
abbreviation (input) PD_PE_VDM_NOT_SUPPORT :: nat where "PD_PE_VDM_NOT_SUPPORT \<equiv> 5"
abbreviation (input) PD_TCP_FROM_TCPM :: nat where "PD_TCP_FROM_TCPM \<equiv> 0"

abbreviation (input) PD_ROLE_SINK :: nat where "PD_ROLE_SINK \<equiv> 0"
abbreviation (input) PD_ROLE_SOURCE :: nat where "PD_ROLE_SOURCE \<equiv> 1"
abbreviation (input) PD_ROLE_DFP :: nat where "PD_ROLE_DFP \<equiv> 1"

abbreviation (input) PE_STATE_MACHINE_NORMAL :: nat where "PE_STATE_MACHINE_NORMAL \<equiv> 1"
abbreviation (input) PE_STATE_MACHINE_DR_SWAP :: nat where "PE_STATE_MACHINE_DR_SWAP \<equiv> 2"
abbreviation (input) PE_STATE_MACHINE_PR_SWAP :: nat where "PE_STATE_MACHINE_PR_SWAP \<equiv> 3"
abbreviation (input) PE_STATE_MACHINE_VCONN_SWAP :: nat where "PE_STATE_MACHINE_VCONN_SWAP \<equiv> 4"

abbreviation (input) PE_STATE_FLAG_BACK_READY_IF_RECV_WAIT :: "8 word" where
  "PE_STATE_FLAG_BACK_READY_IF_RECV_WAIT \<equiv> 1"
abbreviation (input) PE_STATE_FLAG_BACK_READY_IF_RECV_REJECT :: "8 word" where
  "PE_STATE_FLAG_BACK_READY_IF_RECV_REJECT \<equiv> 2"
abbreviation (input) PE_STATE_FLAG_BACK_READY_IF_SR_TIMER_TOUT :: "8 word" where
  "PE_STATE_FLAG_BACK_READY_IF_SR_TIMER_TOUT \<equiv> 4"
abbreviation (input) PE_STATE_FLAG_BACK_READY_IF_TX_FAILED :: "8 word" where
  "PE_STATE_FLAG_BACK_READY_IF_TX_FAILED \<equiv> 8"
abbreviation (input) PE_STATE_FLAG_HRESET_IF_SR_TIMEOUT :: "8 word" where
  "PE_STATE_FLAG_HRESET_IF_SR_TIMEOUT \<equiv> 16"
abbreviation (input) PE_STATE_FLAG_HRESET_IF_TX_FAILED :: "8 word" where
  "PE_STATE_FLAG_HRESET_IF_TX_FAILED \<equiv> 32"
abbreviation (input) PE_STATE_FLAG_IGNORE_UNKNOWN_EVENT :: "8 word" where
  "PE_STATE_FLAG_IGNORE_UNKNOWN_EVENT \<equiv> 64"
abbreviation (input) PE_STATE_FLAG_ENABLE_SENDER_RESPONSE_TIMER :: "8 word" where
  "PE_STATE_FLAG_ENABLE_SENDER_RESPONSE_TIMER \<equiv> 128"
abbreviation (input) PE_STATE_FLAG_BACK_READY_IF_RECV_GOOD_CRC :: "8 word" where
  "PE_STATE_FLAG_BACK_READY_IF_RECV_GOOD_CRC \<equiv> 1"
abbreviation (input) PE_STATE_FLAG_BACK_READY_IF_DPM_ACK :: "8 word" where
  "PE_STATE_FLAG_BACK_READY_IF_DPM_ACK \<equiv> 2"
abbreviation (input) PE_STATE_FLAG_DPM_ACK_IMMEDIATELY :: "8 word" where
  "PE_STATE_FLAG_DPM_ACK_IMMEDIATELY \<equiv> 128"

abbreviation (input) DPM_CAP_LOCAL_DR_POWER :: "32 word" where "DPM_CAP_LOCAL_DR_POWER \<equiv> 1"
abbreviation (input) DPM_CAP_LOCAL_DR_DATA :: "32 word" where "DPM_CAP_LOCAL_DR_DATA \<equiv> 2"
abbreviation (input) DPM_CAP_LOCAL_VCONN_SUPPLY :: "32 word" where "DPM_CAP_LOCAL_VCONN_SUPPLY \<equiv> 0x100"
abbreviation (input) DPM_CAP_ATTEMP_DISCOVER_CABLE_DFP :: "32 word" where
  "DPM_CAP_ATTEMP_DISCOVER_CABLE_DFP \<equiv> 0x1000"
abbreviation (input) DPM_CAP_ATTEMP_DISCOVER_CABLE :: "32 word" where "DPM_CAP_ATTEMP_DISCOVER_CABLE \<equiv> 0x4000"
abbreviation (input) DPM_CAP_PR_SWAP_REJECT_AS_SRC :: "32 word" where "DPM_CAP_PR_SWAP_REJECT_AS_SRC \<equiv> 0x100000"
abbreviation (input) DPM_CAP_PR_SWAP_REJECT_AS_SNK :: "32 word" where "DPM_CAP_PR_SWAP_REJECT_AS_SNK \<equiv> 0x200000"
abbreviation (input) DPM_CAP_PR_SWAP_CHECK_GP_SRC :: "32 word" where "DPM_CAP_PR_SWAP_CHECK_GP_SRC \<equiv> 0x400000"
abbreviation (input) DPM_CAP_DR_SWAP_REJECT_AS_DFP :: "32 word" where "DPM_CAP_DR_SWAP_REJECT_AS_DFP \<equiv> 0x1000000"
abbreviation (input) DPM_CAP_DR_SWAP_REJECT_AS_UFP :: "32 word" where "DPM_CAP_DR_SWAP_REJECT_AS_UFP \<equiv> 0x2000000"
abbreviation (input) DPM_CAP_DR_CHECK_PREFER_UFP :: "32 word" where "DPM_CAP_DR_CHECK_PREFER_UFP \<equiv> 1"

abbreviation (input) DPM_REACTION_REQUEST_PR_SWAP :: "32 word" where "DPM_REACTION_REQUEST_PR_SWAP \<equiv> 1"
abbreviation (input) DPM_REACTION_REQUEST_DR_SWAP :: "32 word" where "DPM_REACTION_REQUEST_DR_SWAP \<equiv> 2"
abbreviation (input) DPM_REACTION_REQUEST_VCONN_SRC :: "32 word" where "DPM_REACTION_REQUEST_VCONN_SRC \<equiv> 0x20"
abbreviation (input) DPM_REACTION_REJECT_CANCEL :: "32 word" where "DPM_REACTION_REJECT_CANCEL \<equiv> 0x80"
abbreviation (input) DPM_REACTION_DFP_FLOW_DELAY :: "32 word" where "DPM_REACTION_DFP_FLOW_DELAY \<equiv> 0x400"
abbreviation (input) DPM_REACTION_UFP_FLOW_DELAY :: "32 word" where "DPM_REACTION_UFP_FLOW_DELAY \<equiv> 0x800"
abbreviation (input) DPM_REACTION_DISCOVER_ID :: "32 word" where "DPM_REACTION_DISCOVER_ID \<equiv> 0x10000"
abbreviation (input) DPM_REACTION_DISCOVER_SVID :: "32 word" where "DPM_REACTION_DISCOVER_SVID \<equiv> 0x20000"
abbreviation (input) DPM_REACTION_DISCOVER_CABLE :: "32 word" where "DPM_REACTION_DISCOVER_CABLE \<equiv> 0x40000"
abbreviation (input) DPM_REACTION_GET_SOURCE_CAP_EXT :: "32 word" where "DPM_REACTION_GET_SOURCE_CAP_EXT \<equiv> 0x1000000"
abbreviation (input) DPM_REACTION_CAP_RESET_CABLE :: "32 word" where "DPM_REACTION_CAP_RESET_CABLE \<equiv> 0x10000000"
abbreviation (input) DPM_REACTION_CAP_DISCOVER_CABLE :: "32 word" where "DPM_REACTION_CAP_DISCOVER_CABLE \<equiv> 0x40000000"
abbreviation (input) DPM_REACTION_CAP_ALWAYS :: "32 word" where "DPM_REACTION_CAP_ALWAYS \<equiv> 0x80000000"

abbreviation (input) PD_HARD_RESET_COUNT :: nat where "PD_HARD_RESET_COUNT \<equiv> 2"
abbreviation (input) PD_CAPS_COUNT :: nat where "PD_CAPS_COUNT \<equiv> 50"
abbreviation (input) PD_DISCOVER_ID_COUNT :: nat where "PD_DISCOVER_ID_COUNT \<equiv> 3"
abbreviation (input) SC2150A_DID :: nat where "SC2150A_DID \<equiv> 0"
abbreviation (input) MAX_EXTENDED_MSG_CHUNK_LEN :: nat where "MAX_EXTENDED_MSG_CHUNK_LEN \<equiv> 26"

abbreviation (input) TCP_DPM_RET_DENIED_UNKNOWN :: nat where "TCP_DPM_RET_DENIED_UNKNOWN \<equiv> 1"
abbreviation (input) TCP_DPM_RET_DENIED_NOT_READY :: nat where "TCP_DPM_RET_DENIED_NOT_READY \<equiv> 2"
abbreviation (input) TCP_DPM_RET_DENIED_LOCAL_CAP :: nat where "TCP_DPM_RET_DENIED_LOCAL_CAP \<equiv> 3"
abbreviation (input) TCP_DPM_RET_DENIED_PARTNER_CAP :: nat where "TCP_DPM_RET_DENIED_PARTNER_CAP \<equiv> 4"
abbreviation (input) TCP_DPM_RET_DENIED_SAME_ROLE :: nat where "TCP_DPM_RET_DENIED_SAME_ROLE \<equiv> 5"
abbreviation (input) TCP_DPM_RET_DENIED_WRONG_DATA_ROLE :: nat where "TCP_DPM_RET_DENIED_WRONG_DATA_ROLE \<equiv> 8"
abbreviation (input) TCP_DPM_RET_DENIED_PD_REV :: nat where "TCP_DPM_RET_DENIED_PD_REV \<equiv> 9"
abbreviation (input) TCP_DPM_RET_DROP_PE_BUSY :: nat where "TCP_DPM_RET_DROP_PE_BUSY \<equiv> 17"
abbreviation (input) TCP_DPM_RET_WAIT :: nat where "TCP_DPM_RET_WAIT \<equiv> 18"
abbreviation (input) TCP_DPM_RET_REJECT :: nat where "TCP_DPM_RET_REJECT \<equiv> 19"
abbreviation (input) TCP_DPM_RET_TIMEOUT :: nat where "TCP_DPM_RET_TIMEOUT \<equiv> 20"
abbreviation (input) TCP_DPM_RET_VDM_ACK :: nat where "TCP_DPM_RET_VDM_ACK \<equiv> 0"
abbreviation (input) TCP_DPM_RET_VDM_NAK :: nat where "TCP_DPM_RET_VDM_NAK \<equiv> 21"
abbreviation (input) TCP_DPM_RET_NOT_SUPPORT :: nat where "TCP_DPM_RET_NOT_SUPPORT \<equiv> 22"
abbreviation (input) TCP_DPM_RET_NO_RESPONSE :: nat where "TCP_DPM_RET_NO_RESPONSE \<equiv> 24"

text \<open>
  What the chip answers while an event is handled: whether it has \<open>get_chip_id\<close> (0) and
  the number it gives, the results of \<open>tcpci_set_vconn\<close>, \<open>tcpci_set_msg_header\<close> and
  \<open>tcpci_transmit\<close>, and result and value of \<open>tcpci_get_alert_status\<close>;
  and whether an alternate mode is busy when the port is ready (\<open>svdm_notify_pe_ready\<close>). \<open>chip0\<close> is a chip that answers every call.
\<close>

record chip_env =
  chip_rv :: int
  chip_id :: nat
  chip_vconn :: int
  chip_msg_header :: int
  chip_transmit :: int
  chip_alert_rv :: int
  chip_alert :: "32 word"
  modes_busy :: bool

definition chip0 :: chip_env where
  "chip0 = \<lparr>chip_rv = 0, chip_id = 1, chip_vconn = 0, chip_msg_header = 0, chip_transmit = 0, chip_alert_rv = 0, chip_alert = 0, modes_busy = False\<rparr>"

section \<open>Access to the port\<close>

abbreviation evt :: "tcpc_device \<Rightarrow> pd_event" where
  "evt t \<equiv> curr_pd_event (pd_port t)"

abbreviation curr :: "tcpc_device \<Rightarrow> pe_state" where
  "curr t \<equiv> pe_state_curr (pd_port t)"

abbreviation next_state :: "tcpc_device \<Rightarrow> pe_state" where
  "next_state t \<equiv> pe_state_next (pd_port t)"

abbreviation (input) has_flag :: "'a::len word \<Rightarrow> 'a word \<Rightarrow> bool" where
  "has_flag flags f \<equiv> flags AND f \<noteq> 0"

definition upd_pe :: "(pe_data \<Rightarrow> pe_data) \<Rightarrow> tcpc_device \<Rightarrow> tcpc_device" where
  "upd_pe f = upd_port (\<lambda>p. p\<lparr>pe_data := f (pe_data p)\<rparr>)"

definition set_msg :: "nat \<Rightarrow> tcpc_device \<Rightarrow> tcpc_device" where
  "set_msg m = upd_port (\<lambda>p. p\<lparr>curr_pd_event := (curr_pd_event p)\<lparr>msg := m\<rparr>\<rparr>)"

definition set_unsupported :: "tcpc_device \<Rightarrow> tcpc_device" where
  "set_unsupported = upd_port (\<lambda>p. p\<lparr>curr_unsupported_msg := True\<rparr>)"

section \<open>The next state\<close>

definition PE_TRANSIT_STATE :: "pe_state \<Rightarrow> tcpc_device \<Rightarrow> tcpc_device" where
  "PE_TRANSIT_STATE s = upd_port (\<lambda>p. p\<lparr>pe_state_next := s\<rparr>)"

definition PE_TRANSIT_DATA_STATE :: "pe_state \<Rightarrow> pe_state \<Rightarrow> tcpc_device \<Rightarrow> tcpc_device" where
  "PE_TRANSIT_DATA_STATE ufp dfp t =
     PE_TRANSIT_STATE (if data_role (pd_port t) = PD_ROLE_UFP then ufp else dfp) t"

text \<open>\<open>PE_TRANSIT_STATE(pd_port, s); return true;\<close>\<close>

definition transit :: "pe_state \<Rightarrow> tcpc_device \<Rightarrow> bool \<times> tcpc_device" where
  "transit s t = (True, PE_TRANSIT_STATE s t)"

definition pe_get_curr_evaluate_pr_swap_state :: "pd_port \<Rightarrow> pe_state" where
  "pe_get_curr_evaluate_pr_swap_state p =
     (if power_role p = PD_ROLE_SINK then PE_PRS_SNK_SRC_EVALUATE_PR_SWAP else PE_PRS_SRC_SNK_EVALUATE_PR_SWAP)"

definition pe_get_curr_send_pr_swap_state :: "pd_port \<Rightarrow> pe_state" where
  "pe_get_curr_send_pr_swap_state p =
     (if power_role p = PD_ROLE_SINK then PE_PRS_SNK_SRC_SEND_SWAP else PE_PRS_SRC_SNK_SEND_SWAP)"

definition pd_get_curr_hard_reset_recv_state :: "pd_port \<Rightarrow> pe_state" where
  "pd_get_curr_hard_reset_recv_state p =
     (if power_role p = PD_ROLE_SINK then PE_SNK_TRANSITION_TO_DEFAULT else PE_SRC_HARD_RESET_RECEIVED)"

definition pd_get_curr_soft_reset_recv_state :: "pd_port \<Rightarrow> pe_state" where
  "pd_get_curr_soft_reset_recv_state p =
     (if power_role p = PD_ROLE_SINK then PE_SNK_SOFT_RESET else PE_SRC_SOFT_RESET)"

definition pe_transit_ready_state :: "tcpc_device \<Rightarrow> tcpc_device" where
  "pe_transit_ready_state t = PE_TRANSIT_STATE (curr_ready_state (pd_port t)) t"

definition pe_transit_hard_reset_state :: "tcpc_device \<Rightarrow> tcpc_device" where
  "pe_transit_hard_reset_state t = PE_TRANSIT_STATE (curr_hreset_state (pd_port t)) t"

definition pe_transit_soft_reset_state :: "tcpc_device \<Rightarrow> tcpc_device" where
  "pe_transit_soft_reset_state t = PE_TRANSIT_STATE (curr_sreset_state (pd_port t)) t"

definition pe_transit_soft_reset_recv_state :: "tcpc_device \<Rightarrow> tcpc_device" where
  "pe_transit_soft_reset_recv_state t = PE_TRANSIT_STATE (pd_get_curr_soft_reset_recv_state (pd_port t)) t"

definition pe_transit_evaluate_pr_swap_state :: "tcpc_device \<Rightarrow> tcpc_device" where
  "pe_transit_evaluate_pr_swap_state t = PE_TRANSIT_STATE (pe_get_curr_evaluate_pr_swap_state (pd_port t)) t"

definition pe_transit_send_pr_swap_state :: "tcpc_device \<Rightarrow> tcpc_device" where
  "pe_transit_send_pr_swap_state t = PE_TRANSIT_STATE (pe_get_curr_send_pr_swap_state (pd_port t)) t"

definition pe_transit_hard_reset_recv_state :: "tcpc_device \<Rightarrow> tcpc_device" where
  "pe_transit_hard_reset_recv_state t = PE_TRANSIT_STATE (pd_get_curr_hard_reset_recv_state (pd_port t)) t"

definition pd_check_pe_state_ready :: "tcpc_device \<Rightarrow> bool" where
  "pd_check_pe_state_ready t \<longleftrightarrow> curr t = curr_ready_state (pd_port t)"

definition pd_make_pe_state_transit_single :: "pe_state \<Rightarrow> pe_state \<Rightarrow> tcpc_device \<Rightarrow> bool \<times> tcpc_device" where
  "pd_make_pe_state_transit_single reaction_state s t =
     (if curr t = reaction_state then transit s t else (False, t))"

text \<open>A table is searched from its start for the current state.\<close>

primrec transition_of :: "(pe_state \<times> pe_state) list \<Rightarrow> pe_state \<Rightarrow> pe_state option" where
  "transition_of [] s = None"
| "transition_of (x # xs) s = (if fst x = s then Some (snd x) else transition_of xs s)"

definition pd_make_pe_state_transit :: "(pe_state \<times> pe_state) list \<Rightarrow> tcpc_device \<Rightarrow> bool \<times> tcpc_device" where
  "pd_make_pe_state_transit table t =
     (case transition_of table (curr t) of Some s \<Rightarrow> transit s t | None \<Rightarrow> (False, t))"

text \<open>\<open>if (r) return true; break;\<close> before a common tail \<open>f\<close>.\<close>

definition or_else :: "bool \<times> tcpc_device \<Rightarrow> (tcpc_device \<Rightarrow> bool \<times> tcpc_device) \<Rightarrow> bool \<times> tcpc_device" where
  "or_else r f = (if fst r then r else f (snd r))"

section \<open>Protocol errors\<close>

definition pd_get_msg_hdr_id :: "pd_port \<Rightarrow> nat" where
  "pd_get_msg_hdr_id p = unat (drop_bit 9 (curr_msg_hdr p) AND 7)"

definition pd_get_msg_hdr_rev :: "pd_port \<Rightarrow> nat" where
  "pd_get_msg_hdr_rev p = unat (drop_bit 6 (curr_msg_hdr p) AND 3)"

definition pd_is_multi_chunk_msg :: "pd_port \<Rightarrow> bool" where
  "pd_is_multi_chunk_msg p \<longleftrightarrow>
     PD_HEADER_EXT (curr_msg_hdr p) \<noteq> 0 \<and> pd_msg_data_size p > MAX_EXTENDED_MSG_CHUNK_LEN"

abbreviation pd_check_pe_during_hard_reset :: "tcpc_device \<Rightarrow> bool" where
  "pd_check_pe_during_hard_reset t \<equiv> pd_wait_hard_reset_complete t"

definition pd_process_ready_protocol_error :: "tcpc_device \<Rightarrow> bool \<times> tcpc_device" where
  "pd_process_ready_protocol_error t =
     (let p = pd_port t
      in if \<not> curr_unsupported_msg p then (True, pe_transit_soft_reset_state t)
         else if \<not> pd_check_rev30 p then transit PE_REJECT t
         else if power_role p = PD_ROLE_SINK
         then transit (if pd_is_multi_chunk_msg p then PE_SNK_CHUNK_RECEIVED else PE_SNK_SEND_NOT_SUPPORTED) t
         else transit (if pd_is_multi_chunk_msg p then PE_SRC_CHUNK_RECEIVED else PE_SRC_SEND_NOT_SUPPORTED) t)"

definition pd_process_protocol_error :: "tcpc_device \<Rightarrow> bool \<times> tcpc_device" where
  "pd_process_protocol_error t =
     (let s = curr t; ping = pd_event_msg_match (evt t) PD_EVT_CTRL_MSG PD_CTRL_PING;
          power_change = (s = PE_SNK_TRANSITION_SINK \<or> s = PE_SRC_TRANSITION_SUPPLY \<or> s = PE_SRC_TRANSITION_SUPPLY2)
      in if has_flag (pe_state_flags (pe_data (pd_port t))) PE_STATE_FLAG_IGNORE_UNKNOWN_EVENT then (False, t)
         else if pd_check_pe_during_hard_reset t then (False, t)
         else if (power_change \<or> s = PE_PRS_SRC_SNK_WAIT_SOURCE_ON) \<and> ping then (False, t)
         else if s = PE_SNK_READY \<or> s = PE_SRC_READY then pd_process_ready_protocol_error t
         else if during_swap (pd_port t) then transit PE_ERROR_RECOVERY t
         else if power_change then (True, pe_transit_hard_reset_state t)
         else (True, pe_transit_soft_reset_state t))"

definition pd_process_tx_failed :: "tcpc_device \<Rightarrow> bool \<times> tcpc_device" where
  "pd_process_tx_failed t =
     (if pd_check_pe_state_ready t \<or> pd_check_pe_during_hard_reset t then (False, t)
      else (True, pe_transit_soft_reset_state t))"

end
