(* ===== verification/Pe_Recv.thy ===== *)
theory Pe_Recv
  imports Pe_Base
begin

unbundle bit_operations_syntax

text \<open>
  What \<open>pd_process_event\<close> (\<open>pd_process_evt.c\<close>) does before it hands an event to a state
  machine: messages of the cable, the message data, the checks on the number and the data
  role of a received message, the translation of its header, the recovery of a lost message
  (\<open>pd_core.c\<close>), and the start of the engine on an attach, with \<open>pd_dpm_notify_pe_startup\<close>
  (\<open>pd_dpm_core.c\<close>).
\<close>

section \<open>Events of the vendor message slot\<close>

definition pd_put_tcp_vdm_event :: "nat \<Rightarrow> tcpc_device \<Rightarrow> (bool \<times> tcpc_device) kres" where
  "pd_put_tcp_vdm_event event t = pd_put_vdm_event (simple_evt PD_EVT_TCP_MSG event 1) False t"

definition vdm_put_pe_event :: "nat \<Rightarrow> tcpc_device \<Rightarrow> (bool \<times> tcpc_device) kres" where
  "vdm_put_pe_event pe_event t = pd_put_vdm_event (simple_evt PD_EVT_PE_MSG pe_event 0) False t"

definition vdm_put_dpm_discover_cable_event :: "tcpc_device \<Rightarrow> (bool \<times> tcpc_device) kres" where
  "vdm_put_dpm_discover_cable_event = pd_put_tcp_vdm_event TCP_DPM_EVT_DISCOVER_CABLE"

definition pd_put_dpm_event :: "nat \<Rightarrow> tcpc_device \<Rightarrow> tcpc_device" where
  "pd_put_dpm_event m t = snd (pd_put_event (simple_evt PD_EVT_DPM_MSG m 0) False t)"

section \<open>Cable\<close>

definition pd_process_cable_ctrl_msg_accept :: "tcpc_device \<Rightarrow> (bool \<times> tcpc_device) kres" where
  "pd_process_cable_ctrl_msg_accept t =
     (if curr t = PE_SRC_CBL_SEND_SOFT_RESET
      then kbind (vdm_put_dpm_discover_cable_event t) (\<lambda>r. Inr (False, snd r))
      else if curr t = PE_DFP_CBL_SEND_SOFT_RESET then Inr (True, pe_transit_ready_state t)
      else Inr (False, t))"

definition pd_process_event_cable :: "tcpc_device \<Rightarrow> (bool \<times> tcpc_device) kres" where
  "pd_process_event_cable t =
     (if msg (evt t) = PD_CTRL_ACCEPT then pd_process_cable_ctrl_msg_accept t else Inr (False, t))"

section \<open>Message data\<close>

text \<open>
  The payload pointer is the index of the message in the pool. For an extended message it
  points behind the 16 bits of the extended header.
\<close>

definition pd_copy_msg_data :: "nat option \<Rightarrow> nat \<Rightarrow> nat \<Rightarrow> tcpc_device \<Rightarrow> tcpc_device" where
  "pd_copy_msg_data data count unit_sz =
     upd_port (\<lambda>p. p\<lparr>pd_msg_data_size := count * unit_sz, pd_msg_data_count := count, pd_msg_data_payload := data\<rparr>)"

definition PD_EXT_HEADER_DATA_SIZE :: "32 word \<Rightarrow> nat" where
  "PD_EXT_HEADER_DATA_SIZE header = unat (header AND 0x1FF)"

definition pd_copy_msg_data_from_evt :: "tcpc_device \<Rightarrow> tcpc_device kres" where
  "pd_copy_msg_data_from_evt t =
     (let e = evt t
      in if event_type e = PD_EVT_DATA_MSG
         then case pd_msg e of None \<Rightarrow> Inl NullDeref
              | Some m \<Rightarrow> Inr (pd_copy_msg_data (Some m) (PD_HEADER_CNT (curr_msg_hdr (pd_port t))) 4 t)
         else if event_type e = PD_EVT_EXT_MSG
         then case pd_msg e of None \<Rightarrow> Inl NullDeref
              | Some m \<Rightarrow> Inr (pd_copy_msg_data (Some m) (PD_EXT_HEADER_DATA_SIZE (vdm_header m t)) 1 t)
         else Inr (pd_copy_msg_data None 0 0 t))"

section \<open>Checks on a received message\<close>

text \<open>
  \<open>msg_id_rx\<close> has an entry for each of the three kinds of packets. It is indexed by the frame
  type that the chip has reported.
\<close>

definition pe_is_valid_pd_msg_id :: "pd_msg \<Rightarrow> tcpc_device \<Rightarrow> (bool \<times> tcpc_device) kres" where
  "pe_is_valid_pd_msg_id pm t =
     (let p = pd_port t; e = evt t; sop_type = frame_type pm; msg_id = pd_get_msg_hdr_id p;
          ctrl = (event_type e = PD_EVT_CTRL_MSG)
      in if pe_state_curr p = PE_BIST_TEST_DATA then Inr (False, t)
         else if ctrl \<and> msg e = PD_CTRL_SOFT_RESET then Inr (msg_id = 0, t)
         else if ctrl \<and> msg e = PD_CTRL_GOOD_CRC then Inr (True, t)
         else if ctrl \<and> msg e = PD_CTRL_PS_RDY \<and> msg_id_pr_swap_last p = msg_id then Inr (False, t)
         else if sop_type \<ge> length (msg_id_rx p) then Inl OutOfBounds
         else if msg_id_rx p ! sop_type = msg_id then Inr (False, t)
         else Inr (True, upd_port (\<lambda>p. p\<lparr>miss_msg := (miss_msg p \<or> (msg_id_rx p ! sop_type + 2) mod PD_MSG_ID_MAX = msg_id),
                                         msg_id_rx := (msg_id_rx p)[sop_type := msg_id]\<rparr>) t))"

definition PD_HEADER_DR :: "16 word \<Rightarrow> nat" where
  "PD_HEADER_DR header = unat (drop_bit 5 header AND 1)"

definition pe_is_valid_pd_msg_role :: "pd_msg \<Rightarrow> tcpc_device \<Rightarrow> bool" where
  "pe_is_valid_pd_msg_role pm t \<longleftrightarrow>
     frame_type pm \<noteq> TCPC_TX_SOP \<or> PD_HEADER_DR (msg_hdr pm) \<noteq> data_role (pd_port t)"

definition pd_sync_sop_prime_spec_revision :: "nat \<Rightarrow> pd_port \<Rightarrow> pd_port" where
  "pd_sync_sop_prime_spec_revision r p =
     (if \<not> cable_rev_discovered (pe_data p)
      then p\<lparr>pe_data := (pe_data p)\<lparr>cable_rev_discovered := True\<rparr>, pd_revision1 := min (pd_revision1 p) r\<rparr> else p)"

definition pd_sync_sop_spec_revision :: "pd_port \<Rightarrow> pd_port" where
  "pd_sync_sop_spec_revision p =
     (let r = pd_get_msg_hdr_rev p
      in if \<not> pd_connected (pe_data p)
         then p\<lparr>pd_revision0 := min PD_REV30 r, pd_revision1 := min (pd_revision1 p) r\<rparr> else p)"

definition pe_translate_pd_msg_event :: "pd_msg \<Rightarrow> tcpc_device \<Rightarrow> tcpc_device" where
  "pe_translate_pd_msg_event pm t =
     (let hdr = msg_hdr pm;
          ty = (if PD_HEADER_EXT hdr \<noteq> 0 then PD_EVT_EXT_MSG
                else if PD_HEADER_CNT hdr \<noteq> 0 then PD_EVT_DATA_MSG else PD_EVT_CTRL_MSG);
          t = upd_port (\<lambda>p. p\<lparr>curr_msg_hdr := hdr,
                curr_pd_event := (curr_pd_event p)\<lparr>msg := PD_HEADER_TYPE hdr, event_type := ty\<rparr>\<rparr>) t
      in if frame_type pm = TCPC_TX_SOP_PRIME
         then upd_port (\<lambda>p. pd_sync_sop_prime_spec_revision (pd_get_msg_hdr_rev p) p) t else t)"

text \<open>
  A message with the number after the next one shows that a message was lost. The code
  makes up the lost one, puts a copy of the message in hand behind it and takes back its
  number, so that the copy is not dropped as a repetition.
\<close>

definition pd_add_miss_msg :: "nat \<Rightarrow> tcpc_device \<Rightarrow> tcpc_device kres" where
  "pd_add_miss_msg m t =
     (let src = pd_msg (evt t);
          sop_type = (case src of None \<Rightarrow> 0 | Some i \<Rightarrow> frame_type (pd_msg_buffer t ! i));
          t = snd (pd_put_event (simple_evt PD_EVT_CTRL_MSG m 0) True t)
      in case pd_alloc_msg t of
           (None, t) \<Rightarrow> Inr t
         | (Some j, t) \<Rightarrow>
             kbind (pd_put_pd_msg_event j
                      (case src of None \<Rightarrow> t
                       | Some i \<Rightarrow> t\<lparr>pd_msg_buffer := (pd_msg_buffer t)[j := pd_msg_buffer t ! i]\<rparr>))
               (\<lambda>r. let t = snd r
                    in if sop_type \<ge> length (msg_id_rx (pd_port t)) then Inl OutOfBounds
                       else Inr (upd_port (\<lambda>p. p\<lparr>msg_id_rx := (msg_id_rx p)
                         [sop_type := u8 (msg_id_rx p ! sop_type + 255)]\<rparr>) t)))"

section \<open>Start of the engine\<close>

definition pd_init_spec_revision :: "tcpc_device \<Rightarrow> tcpc_device" where
  "pd_init_spec_revision t =
     (let r = (if has_flag (tcpc_flags t) TCPC_FLAGS_PD_REV30 then PD_REV30 else PD_REV20)
      in upd_port (\<lambda>p. p\<lparr>pd_revision0 := r, pd_revision1 := r\<rparr>) t)"

definition pd_update_msg_header :: "tcpc_device \<Rightarrow> tcpc_device" where
  "pd_update_msg_header t = act (SetMsgHeader (power_role (pd_port t)) (data_role (pd_port t))) t"

definition pd_init_message_hdr :: "bool \<Rightarrow> tcpc_device \<Rightarrow> tcpc_device" where
  "pd_init_message_hdr act_as_sink t =
     pd_update_msg_header (pd_init_spec_revision (upd_port (\<lambda>p.
       if act_as_sink
       then p\<lparr>power_role := PD_ROLE_SINK, data_role := PD_ROLE_UFP, vconn_role := PD_ROLE_VCONN_OFF\<rparr>
       else p\<lparr>power_role := PD_ROLE_SOURCE, data_role := PD_ROLE_DFP, vconn_role := PD_ROLE_VCONN_ON\<rparr>) t))"

text \<open>\<open>None\<close> is the value \<open>0xff\<close> of \<open>startup_state\<close>.\<close>

definition pe_get_startup_state :: "tcpc_device \<Rightarrow> pe_state option \<times> tcpc_device" where
  "pe_get_startup_state t =
     (let sec = msg_sec (evt t);
          act_as_sink = (sec \<noteq> TYPEC_ATTACHED_SRC);
          s = (if sec = TYPEC_ATTACHED_DBGACC_SNK \<or> sec = TYPEC_ATTACHED_SNK then Some PE_SNK_STARTUP
               else if sec = TYPEC_ATTACHED_SRC then Some PE_SRC_STARTUP else None);
          s = (if error_recovery_once (pd_port t) > 4 then Some PE_ERROR_RECOVERY_ONCE else s)
      in (s, pd_init_message_hdr act_as_sink t))"

definition svdm_reset_state :: "tcpc_device \<Rightarrow> tcpc_device" where
  "svdm_reset_state t = act AltModeReset (upd_port (\<lambda>p. p\<lparr>dpm_charging_policy := dpm_charging_policy_default p\<rparr>) t)"

definition svdm_notify_pe_startup :: "tcpc_device \<Rightarrow> tcpc_device" where
  "svdm_notify_pe_startup = act AltModeStartup"

definition DPM_CAP_EXTRACT_DR_CHECK :: "32 word \<Rightarrow> 32 word" where
  "DPM_CAP_EXTRACT_DR_CHECK raw = drop_bit 22 raw AND 3"

definition startup_reactions :: "32 word \<Rightarrow> 32 word" where
  "startup_reactions caps =
     DPM_REACTION_CAP_ALWAYS OR DPM_REACTION_DFP_FLOW_DELAY OR DPM_REACTION_UFP_FLOW_DELAY OR
     DPM_REACTION_ATTEMPT_GET_FLAG OR DPM_REACTION_REQUEST_PR_SWAP OR
     (if DPM_CAP_EXTRACT_DR_CHECK caps \<noteq> 0 then DPM_REACTION_REQUEST_DR_SWAP else 0) OR
     (if DPM_CAP_EXTRACT_DR_CHECK caps = DPM_CAP_DR_CHECK_PREFER_UFP then DPM_REACTION_ATTEMPT_GET_FLAG else 0) OR
     (if has_flag caps DPM_CAP_ATTEMP_DISCOVER_CABLE then DPM_REACTION_CAP_DISCOVER_CABLE else 0) OR
     (if has_flag caps DPM_CAP_ATTEMP_DISCOVER_CABLE_DFP
      then DPM_REACTION_DISCOVER_CABLE OR DPM_REACTION_REQUEST_VCONN_SRC OR
           DPM_REACTION_VCONN_STABLE_DELAY OR DPM_REACTION_DYNAMIC_VCONN else 0) OR
     DPM_REACTION_DISCOVER_ID OR DPM_REACTION_DISCOVER_SVID OR DPM_REACTION_GET_SOURCE_CAP_EXT"

definition pd_dpm_notify_pe_startup :: "tcpc_device \<Rightarrow> tcpc_device" where
  "pd_dpm_notify_pe_startup t =
     svdm_notify_pe_startup (svdm_reset_state
       (upd_port (\<lambda>p. dpm_reaction_set (startup_reactions (dpm_caps p)) p) t))"

definition pe_transit_startup_state :: "tcpc_device \<Rightarrow> bool \<times> tcpc_device" where
  "pe_transit_startup_state t =
     (case pe_get_startup_state t of
        (None, t) \<Rightarrow> (False, t)
      | (Some s, t) \<Rightarrow> transit s (pd_dpm_notify_pe_startup t))"

datatype tii = TII_TRAP_IN_IDLE | TII_TRANSIT_STATE | TII_PE_RUNNING

definition pe_check_trap_in_idle_state :: "tcpc_device \<Rightarrow> tii \<times> tcpc_device" where
  "pe_check_trap_in_idle_state t =
     (let s = pe_pd_state (pd_port t); e = evt t
      in if s = PE_IDLE1 \<or> s = PE_ERROR_RECOVERY
         then if pd_event_msg_match e PD_EVT_PE_MSG PD_PE_IDLE
              then (TII_TRANSIT_STATE, PE_TRANSIT_STATE PE_IDLE2 t)
              else (TII_TRAP_IN_IDLE, pd_try_put_pe_idle_event t)
         else if s = PE_IDLE2
         then let (ok, t) = (if pd_event_msg_match e PD_EVT_HW_MSG PD_HW_CC_ATTACHED
                             then pe_transit_startup_state t else (False, t))
              in if ok then (TII_TRANSIT_STATE, t)
                 else (TII_TRAP_IN_IDLE,
                       if pd_event_msg_match e PD_EVT_HW_MSG PD_HW_CC_DETACHED then pd_notify_pe_idle t else t)
         else if pd_event_msg_match e PD_EVT_HW_MSG PD_HW_CC_DETACHED
              then (TII_TRANSIT_STATE, PE_TRANSIT_STATE PE_IDLE1 t)
              else (TII_PE_RUNNING, t))"

definition pe_init_curr_state :: "tcpc_device \<Rightarrow> tcpc_device" where
  "pe_init_curr_state = upd_port (\<lambda>p.
     (if power_role p = PD_ROLE_SINK
      then p\<lparr>curr_ready_state := PE_SNK_READY, curr_hreset_state := PE_SNK_HARD_RESET,
             curr_sreset_state := PE_SNK_SEND_SOFT_RESET\<rparr>
      else p\<lparr>curr_ready_state := PE_SRC_READY, curr_hreset_state := PE_SRC_HARD_RESET,
             curr_sreset_state := PE_SRC_SEND_SOFT_RESET\<rparr>)\<lparr>curr_unsupported_msg := False\<rparr>)"

end
