(* ===== verification/Pe_Com.thy ===== *)
theory Pe_Com
  imports Pe_Recv
begin

unbundle bit_operations_syntax

text \<open>
  Reactions that sources and sinks share (\<open>pd_process_evt_com.c\<close>): swaps that the partner
  asks for, built-in tests, rejections, soft and hard resets, timeouts.
\<close>

abbreviation (input) BDO_MODE_CARRIER2 :: "32 word" where "BDO_MODE_CARRIER2 \<equiv> 0x50000000"
abbreviation (input) BDO_MODE_TEST_DATA :: "32 word" where "BDO_MODE_TEST_DATA \<equiv> 0x80000000"
abbreviation (input) PD_BIST_MODE_TEST_DATA :: nat where "PD_BIST_MODE_TEST_DATA \<equiv> 2"

section \<open>Swaps\<close>

definition pd_evaluate_reject_dr_swap :: "pd_port \<Rightarrow> bool" where
  "pd_evaluate_reject_dr_swap p \<longleftrightarrow>
     (if has_flag (dpm_caps p) DPM_CAP_LOCAL_DR_DATA
      then if power_role p = PD_ROLE_DFP then has_flag (dpm_caps p) DPM_CAP_DR_SWAP_REJECT_AS_UFP
           else has_flag (dpm_caps p) DPM_CAP_DR_SWAP_REJECT_AS_DFP
      else True)"

definition pd_evaluate_reject_pr_swap :: "pd_port \<Rightarrow> bool" where
  "pd_evaluate_reject_pr_swap p \<longleftrightarrow>
     (if has_flag (dpm_caps p) DPM_CAP_LOCAL_DR_POWER
      then if power_role p = PD_ROLE_SOURCE then has_flag (dpm_caps p) DPM_CAP_PR_SWAP_REJECT_AS_SNK
           else has_flag (dpm_caps p) DPM_CAP_PR_SWAP_REJECT_AS_SRC
      else True)"

definition pd_evaluate_accept_vconn_swap :: "pd_port \<Rightarrow> bool" where
  "pd_evaluate_accept_vconn_swap p \<longleftrightarrow> has_flag (dpm_caps p) DPM_CAP_LOCAL_VCONN_SUPPLY"

definition pd_process_ctrl_msg_dr_swap :: "tcpc_device \<Rightarrow> bool \<times> tcpc_device" where
  "pd_process_ctrl_msg_dr_swap t =
     (if modal_operation (pe_data (pd_port t)) then (True, pe_transit_hard_reset_state t)
      else if \<not> pd_check_pe_state_ready t then (False, t)
      else if \<not> pd_evaluate_reject_dr_swap (pd_port t)
      then (True, PE_TRANSIT_DATA_STATE PE_DRS_UFP_DFP_EVALUATE_DR_SWAP PE_DRS_DFP_UFP_EVALUATE_DR_SWAP
              (upd_port (\<lambda>p. p\<lparr>during_swap := False, state_machine := PE_STATE_MACHINE_DR_SWAP\<rparr>) t))
      else transit PE_REJECT t)"

definition pd_process_ctrl_msg_pr_swap :: "tcpc_device \<Rightarrow> bool \<times> tcpc_device" where
  "pd_process_ctrl_msg_pr_swap t =
     (if \<not> pd_evaluate_reject_pr_swap (pd_port t)
      then (True, pe_transit_evaluate_pr_swap_state
              (upd_port (\<lambda>p. p\<lparr>during_swap := False, state_machine := PE_STATE_MACHINE_PR_SWAP\<rparr>) t))
      else transit PE_REJECT t)"

definition pd_process_ctrl_msg_vconn_swap :: "tcpc_device \<Rightarrow> bool \<times> tcpc_device" where
  "pd_process_ctrl_msg_vconn_swap t =
     (if \<not> pd_check_pe_state_ready t then (False, t)
      else if pd_evaluate_accept_vconn_swap (pd_port t)
      then transit PE_VCS_EVALUATE_SWAP (upd_port (\<lambda>p. p\<lparr>state_machine := PE_STATE_MACHINE_VCONN_SWAP\<rparr>) t)
      else if \<not> pd_check_rev30 (pd_port t) then transit PE_REJECT t
      else (False, t))"

section \<open>Built-in self test\<close>

definition BDO_MODE :: "32 word \<Rightarrow> 32 word" where
  "BDO_MODE obj = obj AND 0xF0000000"

definition pd_process_data_msg_bist :: "tcpc_device \<Rightarrow> (bool \<times> tcpc_device) kres" where
  "pd_process_data_msg_bist t =
     (if request_v (pd_port t) > 5000 then Inr (False, t)
      else case pd_msg (evt t) of
        None \<Rightarrow> Inl NullDeref
      | Some m \<Rightarrow>
          (let mode = BDO_MODE (vdm_header m t)
           in if mode = BDO_MODE_TEST_DATA
              then Inr (True, pd_noitfy_pe_bist_mode PD_BIST_MODE_TEST_DATA (PE_TRANSIT_STATE PE_BIST_TEST_DATA t))
              else if mode = BDO_MODE_CARRIER2
              then Inr (True, pd_noitfy_pe_bist_mode PD_BIST_MODE_DISABLE (PE_TRANSIT_STATE PE_BIST_CARRIER_MODE_2 t))
              else Inr (False, pd_noitfy_pe_bist_mode PD_BIST_MODE_DISABLE t)))"

section \<open>Control messages\<close>

definition pd_cancel_dpm_reaction :: "tcpc_device \<Rightarrow> tcpc_device" where
  "pd_cancel_dpm_reaction t =
     (let r = dpm_reaction_id (pe_data (pd_port t))
      in if r < DPM_REACTION_REJECT_CANCEL then upd_port (dpm_reaction_clear r) t else t)"

definition pd_process_ctrl_msg_wait_reject :: "tcpc_device \<Rightarrow> bool \<times> tcpc_device" where
  "pd_process_ctrl_msg_wait_reject t =
     (let t = pd_cancel_dpm_reaction t;
          t = (if state_machine (pd_port t) = PE_STATE_MACHINE_PR_SWAP then pd_notify_pe_cancel_pr_swap t else t)
      in (True, pe_transit_ready_state t))"

definition pd_process_ctrl_msg_com :: "tcpc_device \<Rightarrow> (bool \<times> tcpc_device) kres" where
  "pd_process_ctrl_msg_com t =
     (let m = msg (evt t); flags = pe_state_flags (pe_data (pd_port t));
          flags2 = pe_state_flags2 (pe_data (pd_port t))
      in if \<not> pd_check_rev30 (pd_port t) \<and> m \<ge> PD_CTRL_PD30_START then Inr (False, set_msg PD_CTRL_MSG_NR t)
      else if m = PD_CTRL_GOOD_CRC then
        (let t = (if has_flag flags PE_STATE_FLAG_ENABLE_SENDER_RESPONSE_TIMER
                  then act (EnableTimer PD_TIMER_SENDER_RESPONSE) t else t)
         in if has_flag flags2 PE_STATE_FLAG_BACK_READY_IF_RECV_GOOD_CRC
            then Inr (True, pe_transit_ready_state t) else Inr (False, t))
      else if m = PD_CTRL_REJECT then
        (let t = pd_notify_tcp_event_2nd_result TCP_DPM_RET_REJECT t
         in if has_flag flags PE_STATE_FLAG_BACK_READY_IF_RECV_REJECT
            then Inr (pd_process_ctrl_msg_wait_reject t) else Inr (False, t))
      else if m = PD_CTRL_WAIT then
        (let t = pd_notify_tcp_event_2nd_result TCP_DPM_RET_WAIT t
         in if has_flag flags PE_STATE_FLAG_BACK_READY_IF_RECV_WAIT
            then Inr (pd_process_ctrl_msg_wait_reject t) else Inr (False, t))
      else if m = PD_CTRL_SOFT_RESET then
        (if \<not> during_swap (pd_port t) \<and> \<not> pd_check_pe_during_hard_reset t
         then Inr (True, pe_transit_soft_reset_recv_state t) else Inr (False, t))
      else if m = PD_CTRL_DR_SWAP then Inr (pd_process_ctrl_msg_dr_swap t)
      else if m = PD_CTRL_PR_SWAP then Inr (pd_process_ctrl_msg_pr_swap t)
      else if m = PD_CTRL_VCONN_SWAP then Inr (pd_process_ctrl_msg_vconn_swap t)
      else if m = PD_CTRL_GET_COUNTRY_CODE then
        (if country_nr (pd_port t) \<noteq> 0
         then Inr (pd_make_pe_state_transit_single (curr_ready_state (pd_port t)) PE_GIVE_COUNTRY_CODES t)
         else Inr (False, t))
      else if m = PD_CTRL_NOT_SUPPORTED then
        (let t = pd_notify_tcp_event_2nd_result TCP_DPM_RET_NOT_SUPPORT (pd_cancel_dpm_reaction t)
         in if has_flag flags PE_STATE_FLAG_BACK_READY_IF_SR_TIMER_TOUT
            then Inr (True, pe_transit_ready_state t)
            else if vdm_state_timer (pd_port t) \<noteq> 0
            then kbind (vdm_put_pe_event PD_PE_VDM_NOT_SUPPORT t) (\<lambda>r. Inr (False, snd r))
            else Inr (False, t))
      else Inr (False, t))"

section \<open>Data and extended messages\<close>

definition pd_process_data_msg_com :: "tcpc_device \<Rightarrow> (bool \<times> tcpc_device) kres" where
  "pd_process_data_msg_com t =
     (let m = msg (evt t); ready = curr_ready_state (pd_port t)
      in if \<not> pd_check_rev30 (pd_port t) \<and> m \<ge> PD_DATA_PD30_START then Inr (False, set_msg PD_DATA_MSG_NR t)
      else if m = PD_DATA_BIST then (if curr t = ready then pd_process_data_msg_bist t else Inr (False, t))
      else if m = PD_DATA_BAT_STATUS then Inr (pd_make_pe_state_transit_single PE_GET_BATTERY_STATUS ready t)
      else if m = PD_DATA_GET_COUNTRY_INFO then
        (if country_nr (pd_port t) \<noteq> 0
         then Inr (pd_make_pe_state_transit_single ready PE_GIVE_COUNTRY_INFO t) else Inr (False, t))
      else Inr (False, t))"

definition pd_process_ext_msg_com :: "tcpc_device \<Rightarrow> bool \<times> tcpc_device" where
  "pd_process_ext_msg_com t =
     (let m = msg (evt t); ready = curr_ready_state (pd_port t); single = pd_make_pe_state_transit_single
      in if \<not> pd_check_rev30 (pd_port t) then (False, set_msg PD_DATA_MSG_NR t)
      else if curr t = ready \<and> pd_is_multi_chunk_msg (pd_port t) then pd_process_protocol_error (set_unsupported t)
      else if m = PD_EXT_GET_BAT_CAP then
        (if bat_nr (pd_port t) \<noteq> 0 then single ready PE_GIVE_BATTERY_CAP t else (False, t))
      else if m = PD_EXT_GET_BAT_STATUS then
        (if bat_nr (pd_port t) \<noteq> 0 then single ready PE_GIVE_BATTERY_STATUS t else (False, t))
      else if m = PD_EXT_BAT_CAP then single PE_GET_BATTERY_CAP ready t
      else if m = PD_EXT_GET_MFR_INFO then single ready PE_GIVE_MANUFACTURER_INFO t
      else if m = PD_EXT_MFR_INFO then single PE_GET_MANUFACTURER_INFO ready t
      else if m = PD_EXT_COUNTRY_INFO then single PE_GET_COUNTRY_INFO ready t
      else if m = PD_EXT_COUNTRY_CODES then single PE_GET_COUNTRY_CODES ready t
      else (False, t))"

section \<open>Device policy manager, hardware and timers\<close>

definition pd_process_dpm_msg_com :: "tcpc_device \<Rightarrow> bool \<times> tcpc_device" where
  "pd_process_dpm_msg_com t =
     (if msg (evt t) = PD_DPM_ACK then
        (if has_flag (pe_state_flags2 (pe_data (pd_port t))) PE_STATE_FLAG_BACK_READY_IF_DPM_ACK
         then (True, pe_transit_ready_state t) else (False, t))
      else if msg (evt t) = PD_DPM_NOT_SUPPORT then
        (if pd_check_rev30 (pd_port t) then transit PE_VDM_NOT_SUPPORTED t else (False, t))
      else (False, t))"

text \<open>The counter of renegotiations is a byte.\<close>

definition pd_process_recv_hard_reset :: "tcpc_device \<Rightarrow> bool \<times> tcpc_device" where
  "pd_process_recv_hard_reset t =
     (let t = (if pd_check_pe_during_hard_reset t
               then upd_pe (\<lambda>d. d\<lparr>renegotiation_count := u8 (renegotiation_count d + 1)\<rparr>) t else t)
      in (True, pe_transit_hard_reset_recv_state t))"

definition pd_process_hw_msg_tx_failed_com :: "tcpc_device \<Rightarrow> bool \<times> tcpc_device" where
  "pd_process_hw_msg_tx_failed_com t =
     (let d = pe_data (pd_port t)
      in if renegotiation_count d > PD_HARD_RESET_COUNT then transit PE_ERROR_RECOVERY t
         else if has_flag (pe_state_flags d) PE_STATE_FLAG_BACK_READY_IF_TX_FAILED
         then (True, pe_transit_ready_state (pd_notify_tcp_event_2nd_result TCP_DPM_RET_NO_RESPONSE t))
         else if has_flag (pe_state_flags d) PE_STATE_FLAG_HRESET_IF_TX_FAILED
         then (True, pe_transit_hard_reset_state t)
         else (False, t))"

definition pd_process_hw_msg_com :: "tcpc_device \<Rightarrow> bool \<times> tcpc_device" where
  "pd_process_hw_msg_com t =
     (if msg (evt t) = PD_HW_RECV_HARD_RESET then pd_process_recv_hard_reset t
      else if msg (evt t) = PD_HW_TX_FAILED then pd_process_hw_msg_tx_failed_com t
      else (False, t))"

definition dpm_reaction_set_clear :: "32 word \<Rightarrow> 32 word \<Rightarrow> pd_port \<Rightarrow> pd_port" where
  "dpm_reaction_set_clear s c p = p\<lparr>dpm_ready_reactions := (dpm_ready_reactions p OR s) AND NOT c\<rparr>"

definition pd_process_timer_msg_com :: "chip_env \<Rightarrow> tcpc_device \<Rightarrow> bool \<times> tcpc_device" where
  "pd_process_timer_msg_com env t =
     (let m = msg (evt t); ready = curr_ready_state (pd_port t); flags = pe_state_flags (pe_data (pd_port t))
      in if m = PD_TIMER_SENDER_RESPONSE then
        (let t = pd_notify_tcp_event_2nd_result TCP_DPM_RET_TIMEOUT
                   (pd_notify_pe_cancel_pr_swap (pd_cancel_dpm_reaction t))
         in if has_flag flags PE_STATE_FLAG_BACK_READY_IF_SR_TIMER_TOUT then transit ready t
            else if has_flag flags PE_STATE_FLAG_HRESET_IF_SR_TIMEOUT then (True, pe_transit_hard_reset_state t)
            else (False, t))
      else if m = PD_TIMER_BIST_CONT_MODE then pd_make_pe_state_transit_single PE_BIST_CARRIER_MODE_2 ready t
      else if m = PD_TIMER_DFP_FLOW_DELAY then
        (False, if curr t = ready \<and> data_role (pd_port t) = PD_ROLE_DFP
                then upd_port (dpm_reaction_set_clear DPM_REACTION_CAP_READY_ONCE DPM_REACTION_DFP_FLOW_DELAY) t else t)
      else if m = PD_TIMER_UFP_FLOW_DELAY then
        (False, if curr t = ready \<and> data_role (pd_port t) = PD_ROLE_UFP
                then upd_port (dpm_reaction_set_clear DPM_REACTION_CAP_READY_ONCE DPM_REACTION_UFP_FLOW_DELAY) t else t)
      else if m = PD_TIMER_VCONN_STABLE then
        (False, if vconn_role (pd_port t) = PD_ROLE_VCONN_DYNAMIC_ON
                then upd_port (dpm_reaction_set_clear DPM_REACTION_CAP_READY_ONCE DPM_REACTION_VCONN_STABLE_DELAY)
                       (snd (pd_set_vconn (chip_vconn env) PD_ROLE_VCONN_ON t)) else t)
      else if m = PD_TIMER_DEFERRED_EVT then (False, pd_notify_tcp_event_buf_reset TCP_DPM_RET_DROP_PE_BUSY t)
      else (False, t))"

definition pd_process_event_com :: "chip_env \<Rightarrow> tcpc_device \<Rightarrow> (bool \<times> tcpc_device) kres" where
  "pd_process_event_com env t =
     (let ty = event_type (evt t)
      in if ty = PD_EVT_CTRL_MSG then pd_process_ctrl_msg_com t
         else if ty = PD_EVT_DATA_MSG then pd_process_data_msg_com t
         else if ty = PD_EVT_EXT_MSG then Inr (pd_process_ext_msg_com t)
         else if ty = PD_EVT_DPM_MSG then Inr (pd_process_dpm_msg_com t)
         else if ty = PD_EVT_HW_MSG then Inr (pd_process_hw_msg_com t)
         else if ty = PD_EVT_TIMER_MSG then Inr (pd_process_timer_msg_com env t)
         else Inr (False, t))"

end
