(* ===== verification/Pe_Snk.thy ===== *)
theory Pe_Snk
  imports Pe_Com
begin

unbundle bit_operations_syntax

text \<open>
  Reactions of a sink (\<open>pd_process_evt_snk.c\<close>): the tables of transitions, and the
  handlers of control, data and extended messages, of events of the device policy manager,
  of the hardware and of the engine itself, and of timers.
\<close>

abbreviation (input) TCP_VBUS_CTRL_PR_SWAP :: nat where "TCP_VBUS_CTRL_PR_SWAP \<equiv> 3"
abbreviation (input) PD_RX_CAP_PE_IDLE :: nat where "PD_RX_CAP_PE_IDLE \<equiv> 0"
abbreviation (input) PD_CONNECT_TYPEC_ONLY_SNK_DFT :: nat where "PD_CONNECT_TYPEC_ONLY_SNK_DFT \<equiv> 1"
abbreviation (input) PD_CONNECT_TYPEC_ONLY_SNK :: nat where "PD_CONNECT_TYPEC_ONLY_SNK \<equiv> 2"

section \<open>Operations of the port\<close>

definition pd_dpm_sink_vbus :: "bool \<Rightarrow> tcpc_device \<Rightarrow> tcpc_device" where
  "pd_dpm_sink_vbus en = tcpci_sink_vbus TCP_VBUS_CTRL_REQUEST (if en then 5000 else 0) (- 1)"

definition pd_dpm_source_vbus :: "bool \<Rightarrow> tcpc_device \<Rightarrow> tcpc_device" where
  "pd_dpm_source_vbus en = tcpci_source_vbus TCP_VBUS_CTRL_REQUEST (if en then 5000 else 0) (- 1)"

definition pd_set_rx_enable :: "nat \<Rightarrow> tcpc_device \<Rightarrow> tcpc_device" where
  "pd_set_rx_enable enable t = act (SetRxEnable enable) (upd_port (\<lambda>p. p\<lparr>rx_cap := enable\<rparr>) t)"

definition pd_enable_pe_state_timer :: "tcpc_timer \<Rightarrow> tcpc_device \<Rightarrow> tcpc_device" where
  "pd_enable_pe_state_timer timer_id t =
     act (EnableTimer timer_id) (upd_pe (\<lambda>d. d\<lparr>pe_state_timer := timer_id\<rparr>) t)"

definition pd_disable_pe_state_timer :: "tcpc_device \<Rightarrow> tcpc_device" where
  "pd_disable_pe_state_timer t =
     upd_pe (\<lambda>d. d\<lparr>pe_state_timer := 0\<rparr>) (act (DisableTimer (pe_state_timer (pe_data (pd_port t)))) t)"

definition typec_get_cc_res :: "tcpc_device \<Rightarrow> nat" where
  "typec_get_cc_res t = (if typec_polarity t then typec_remote_cc2 t else typec_remote_cc1 t)"

section \<open>Control messages\<close>

definition PD_CTRL_MSG_ACCEPT_snk :: "(pe_state \<times> pe_state) list" where
  "PD_CTRL_MSG_ACCEPT_snk =
     [(PE_SNK_SELECT_CAPABILITY, PE_SNK_TRANSITION_SINK),
      (PE_SNK_SEND_SOFT_RESET, PE_SNK_WAIT_FOR_CAPABILITIES)]"

definition PD_DATA_MSG_SOURCE_CAP_snk :: "(pe_state \<times> pe_state) list" where
  "PD_DATA_MSG_SOURCE_CAP_snk =
     [(PE_SNK_WAIT_FOR_CAPABILITIES, PE_SNK_EVALUATE_CAPABILITY),
      (PE_SNK_READY, PE_SNK_EVALUATE_CAPABILITY),
      (PE_SNK_STARTUP, PE_SNK_EVALUATE_CAPABILITY),
      (PE_SNK_DISCOVERY, PE_SNK_EVALUATE_CAPABILITY),
      (PE_SNK_GET_SOURCE_CAP, PE_SNK_EVALUATE_CAPABILITY)]"

definition pd_process_ctrl_msg_get_source_cap :: "pe_state \<Rightarrow> tcpc_device \<Rightarrow> bool \<times> tcpc_device" where
  "pd_process_ctrl_msg_get_source_cap s t =
     (if curr t \<noteq> PE_SNK_READY then (False, t)
      else if has_flag (dpm_caps (pd_port t)) DPM_CAP_LOCAL_DR_POWER then transit s t
      else (False, set_unsupported t))"

text \<open>The switch at the start of \<open>pd_process_ctrl_msg\<close>: a request of the partner comes first.\<close>

definition partner_first_snk :: "tcpc_device \<Rightarrow> tcpc_device" where
  "partner_first_snk t =
     (if (curr t = PE_SNK_GET_SOURCE_CAP \<or> curr t = PE_DR_SNK_GET_SINK_CAP) \<and>
         PD_CTRL_GET_SOURCE_CAP \<le> msg (evt t) \<and> msg (evt t) \<le> PD_CTRL_VCONN_SWAP
      then act (DisableTimer PD_TIMER_SENDER_RESPONSE) (upd_port (\<lambda>p. p\<lparr>pe_state_curr := PE_SNK_READY\<rparr>) t)
      else t)"

definition pd_process_ctrl_msg_snk :: "tcpc_device \<Rightarrow> bool \<times> tcpc_device" where
  "pd_process_ctrl_msg_snk t =
     (let t = partner_first_snk t; m = msg (evt t);
          single = pd_make_pe_state_transit_single; err = pd_process_protocol_error
      in if m = PD_CTRL_GOOD_CRC then single PE_SNK_SOFT_RESET PE_SNK_WAIT_FOR_CAPABILITIES t
      else if m = PD_CTRL_GOTO_MIN then or_else (single PE_SNK_READY PE_SNK_TRANSITION_SINK t) err
      else if m = PD_CTRL_ACCEPT then or_else (pd_make_pe_state_transit PD_CTRL_MSG_ACCEPT_snk t) err
      else if m = PD_CTRL_PS_RDY then
        (if curr t = PE_SNK_TRANSITION_SINK then transit PE_SNK_READY (pd_dpm_snk_transition_power t)
         else if curr t = PE_PRS_SRC_SNK_WAIT_SOURCE_ON \<or> curr t = PE_PRS_SNK_SRC_TRANSITION_TO_OFF then (False, t)
         else err t)
      else if m = PD_CTRL_GET_SOURCE_CAP then
        or_else (pd_process_ctrl_msg_get_source_cap PE_DR_SNK_GIVE_SOURCE_CAP t) err
      else if m = PD_CTRL_GET_SINK_CAP then or_else (single PE_SNK_READY PE_SNK_GIVE_SINK_CAP t) err
      else if m = PD_CTRL_REJECT \<or> m = PD_CTRL_WAIT then
        (if curr t = PE_SNK_SELECT_CAPABILITY
         then transit (if explicit_contract (pd_port t) then PE_SNK_READY else PE_SNK_WAIT_FOR_CAPABILITIES) t
         else err t)
      else if m = PD_CTRL_NOT_SUPPORTED then or_else (single PE_SNK_READY PE_SNK_NOT_SUPPORTED_RECEIVED t) err
      else if m = PD_CTRL_GET_SOURCE_CAP_EXT then
        or_else (pd_process_ctrl_msg_get_source_cap PE_DR_SNK_GIVE_SOURCE_CAP_EXT t) err
      else if m = PD_CTRL_GET_STATUS then or_else (single PE_SNK_READY PE_SNK_GIVE_SINK_STATUS t) err
      else err (set_unsupported t))"

section \<open>Data and extended messages\<close>

definition pd_process_data_msg_snk :: "tcpc_device \<Rightarrow> bool \<times> tcpc_device" where
  "pd_process_data_msg_snk t =
     (let m = msg (evt t); single = pd_make_pe_state_transit_single; err = pd_process_protocol_error
      in if m = PD_DATA_SOURCE_CAP then
        or_else (pd_make_pe_state_transit PD_DATA_MSG_SOURCE_CAP_snk
                   (upd_port (\<lambda>p. p\<lparr>msg_id_pr_swap_last := 255\<rparr>) t)) err
      else if m = PD_DATA_SINK_CAP then or_else (single PE_DR_SNK_GET_SINK_CAP PE_SNK_READY t) err
      else if m = PD_DATA_ALERT then or_else (single PE_SNK_READY PE_SNK_SOURCE_ALERT_RECEIVED t) err
      else err (set_unsupported t))"

definition pd_process_ext_msg_snk :: "tcpc_device \<Rightarrow> bool \<times> tcpc_device" where
  "pd_process_ext_msg_snk t =
     (let m = msg (evt t); single = pd_make_pe_state_transit_single; err = pd_process_protocol_error
      in if m = PD_EXT_SOURCE_CAP_EXT then or_else (single PE_SNK_GET_SOURCE_CAP_EXT PE_SNK_READY t) err
      else if m = PD_EXT_STATUS then or_else (single PE_SNK_GET_SOURCE_STATUS PE_SNK_READY t) err
      else if m = PD_EXT_PPS_STATUS then or_else (single PE_SNK_GET_PPS_STATUS PE_SNK_READY t) err
      else err (set_unsupported t))"

section \<open>Device policy manager and hardware\<close>

definition pd_process_dpm_msg_snk :: "tcpc_device \<Rightarrow> bool \<times> tcpc_device" where
  "pd_process_dpm_msg_snk t =
     (if msg (evt t) = PD_DPM_ACK
      then pd_make_pe_state_transit_single PE_SNK_EVALUATE_CAPABILITY PE_SNK_SELECT_CAPABILITY t
      else (False, t))"

definition pd_process_hw_msg_sink_tx_change :: "tcpc_device \<Rightarrow> bool \<times> tcpc_device" where
  "pd_process_hw_msg_sink_tx_change t =
     (let p = pd_port t; pd_traffic = (if msg_sec (evt t) \<noteq> 0 then PD_SINK_TX_OK else PD_SINK_TX_NG)
      in if pd_traffic_control p = PD_SINK_TX_START then (False, t)
         else if \<not> pd_check_rev30 p then (False, t)
         else if pd_traffic_control p = pd_traffic then (False, t)
         else (False, upd_port (\<lambda>p. dpm_reaction_set_ready_once (p\<lparr>pd_traffic_control := pd_traffic\<rparr>)) t))"

definition pd_process_vbus_absent :: "tcpc_device \<Rightarrow> bool \<times> tcpc_device" where
  "pd_process_vbus_absent t =
     (if curr t \<noteq> PE_SNK_DISCOVERY then (False, t)
      else (False, pd_enable_vbus_valid_detection True (pd_disable_pe_state_timer (pd_dpm_sink_vbus False t))))"

definition pd_process_hw_msg_snk :: "tcpc_device \<Rightarrow> bool \<times> tcpc_device" where
  "pd_process_hw_msg_snk t =
     (let m = msg (evt t)
      in if m = PD_HW_VBUS_PRESENT
         then pd_make_pe_state_transit_single PE_SNK_DISCOVERY PE_SNK_WAIT_FOR_CAPABILITIES t
         else if m = PD_HW_VBUS_ABSENT then pd_process_vbus_absent t
         else if m = PD_HW_TX_FAILED then pd_process_tx_failed t
         else if m = PD_HW_SINK_TX_CHANGE then pd_process_hw_msg_sink_tx_change t
         else (False, t))"

definition pd_process_pe_msg_snk :: "tcpc_device \<Rightarrow> bool \<times> tcpc_device" where
  "pd_process_pe_msg_snk t =
     (let m = msg (evt t); single = pd_make_pe_state_transit_single
      in if m = PD_PE_RESET_PRL_COMPLETED then single PE_SNK_STARTUP PE_SNK_DISCOVERY t
         else if m = PD_PE_HARD_RESET_COMPLETED then single PE_SNK_HARD_RESET PE_SNK_TRANSITION_TO_DEFAULT t
         else if m = PD_PE_POWER_ROLE_AT_DEFAULT then single PE_SNK_TRANSITION_TO_DEFAULT PE_SNK_STARTUP t
         else (False, t))"

section \<open>Timers\<close>

definition pd_report_typec_only_charger :: "tcpc_device \<Rightarrow> tcpc_device" where
  "pd_report_typec_only_charger t =
     (let state = (if typec_remote_rp_level t = TYPEC_CC_VOLT_SNK_DFT then PD_CONNECT_TYPEC_ONLY_SNK_DFT
                   else PD_CONNECT_TYPEC_ONLY_SNK)
      in act (UpdateConnectState state)
           (pd_notify_pe_hard_reset_completed (pd_set_rx_enable PD_RX_CAP_PE_IDLE (pd_dpm_sink_vbus True t))))"

definition snk_flow_delay :: "tcpc_device \<Rightarrow> tcpc_device" where
  "snk_flow_delay t =
     (if pd_traffic_control (pd_port t) = PD_SINK_TX_START
      then let tc = (if typec_get_cc_res t = TYPEC_CC_VOLT_SNK_3_0 then PD_SINK_TX_OK else PD_SINK_TX_NG);
               t = upd_port (\<lambda>p. p\<lparr>pd_traffic_control := tc\<rparr>) t
           in if pd_check_rev30 (pd_port t) then upd_port dpm_reaction_set_ready_once t else t
      else t)"

text \<open>
  The case of \<open>PD_TIMER_CK_NOT_SUPPORTED\<close> falls through to that of
  \<open>PD_TIMER_SNK_FLOW_DELAY\<close> when it does not change the state.
\<close>

definition pd_process_timer_msg_snk :: "tcpc_device \<Rightarrow> (bool \<times> tcpc_device) kres" where
  "pd_process_timer_msg_snk t =
     (let m = msg (evt t); p = pd_port t
      in if m = PD_TIMER_SINK_REQUEST
         then Inr (pd_make_pe_state_transit_single PE_SNK_READY PE_SNK_SELECT_CAPABILITY t)
      else if m = PD_TIMER_SINK_WAIT_CAP \<or> m = PD_TIMER_PS_TRANSITION then
        (if curr t \<noteq> PE_SNK_DISCOVERY \<and> hard_reset_counter (pe_data p) \<le> PD_HARD_RESET_COUNT
         then Inr (transit PE_SNK_HARD_RESET t)
         else if request_v p = 5000 then Inr (False, pd_report_typec_only_charger t)
         else Inr (transit PE_ERROR_RECOVERY t))
      else if m = PD_TIMER_DISCOVER_ID
         then kbind (vdm_put_dpm_discover_cable_event t) (\<lambda>r. Inr (False, snd r))
      else if m = PD_TIMER_CK_NOT_SUPPORTED
         then Inr (or_else (pd_make_pe_state_transit_single PE_SNK_CHUNK_RECEIVED PE_SNK_SEND_NOT_SUPPORTED t)
                     (\<lambda>t. (False, snk_flow_delay t)))
      else if m = PD_TIMER_SNK_FLOW_DELAY then Inr (False, snk_flow_delay t)
      else Inr (False, t))"

definition pd_process_event_snk :: "tcpc_device \<Rightarrow> (bool \<times> tcpc_device) kres" where
  "pd_process_event_snk t =
     (let ty = event_type (evt t)
      in if ty = PD_EVT_CTRL_MSG then Inr (pd_process_ctrl_msg_snk t)
         else if ty = PD_EVT_DATA_MSG then Inr (pd_process_data_msg_snk t)
         else if ty = PD_EVT_EXT_MSG then Inr (pd_process_ext_msg_snk t)
         else if ty = PD_EVT_DPM_MSG then Inr (pd_process_dpm_msg_snk t)
         else if ty = PD_EVT_HW_MSG then Inr (pd_process_hw_msg_snk t)
         else if ty = PD_EVT_PE_MSG then Inr (pd_process_pe_msg_snk t)
         else if ty = PD_EVT_TIMER_MSG then pd_process_timer_msg_snk t
         else Inr (False, t))"

end
