(* ===== verification/Pe_Src.thy ===== *)
theory Pe_Src
  imports Pe_Snk
begin

unbundle bit_operations_syntax

text \<open>
  Reactions of a source (\<open>pd_process_evt_src.c\<close>), with the functions of \<open>pd_core.c\<close> that
  decide whether the source talks to the cable.
\<close>

section \<open>Cable\<close>

definition pd_is_cable_communication_available :: "pd_port \<Rightarrow> bool" where
  "pd_is_cable_communication_available p \<longleftrightarrow> \<not> (pd_check_rev30 p \<and> vconn_role p = PD_ROLE_VCONN_OFF)"

definition pd_is_reset_cable :: "pd_port \<Rightarrow> bool" where
  "pd_is_reset_cable p \<longleftrightarrow>
     has_flag (dpm_ready_reactions p) DPM_REACTION_CAP_RESET_CABLE \<and> pd_is_cable_communication_available p"

definition pd_is_discover_cable :: "tcpc_device \<Rightarrow> bool \<times> tcpc_device" where
  "pd_is_discover_cable t =
     (let p = pd_port t
      in if \<not> has_flag (dpm_ready_reactions p) DPM_REACTION_CAP_DISCOVER_CABLE then (False, t)
         else if discover_id_counter (pe_data p) \<ge> PD_DISCOVER_ID_COUNT
         then (False, upd_port (dpm_reaction_clear (DPM_REACTION_DISCOVER_CABLE OR DPM_REACTION_CAP_DISCOVER_CABLE)) t)
         else (pd_is_cable_communication_available p, t))"

text \<open>The counters are bytes.\<close>

definition pd_handle_hard_reset_recovery :: "tcpc_device \<Rightarrow> tcpc_device" where
  "pd_handle_hard_reset_recovery t =
     (let t = act (DisableTimer PD_TIMER_NO_RESPONSE) (upd_pe (\<lambda>d. d\<lparr>hard_reset_counter := 0\<rparr>) t);
          t = upd_pe (\<lambda>d. d\<lparr>renegotiation_count := u8 (renegotiation_count d + 1)\<rparr>) t
      in pd_notify_pe_hard_reset_completed t)"

section \<open>Control messages\<close>

definition PD_DATA_MSG_REQUEST_src :: "(pe_state \<times> pe_state) list" where
  "PD_DATA_MSG_REQUEST_src =
     [(PE_SRC_SEND_CAPABILITIES, PE_SRC_NEGOTIATE_CAPABILITIES),
      (PE_SRC_READY, PE_SRC_NEGOTIATE_CAPABILITIES)]"

definition PD_DPM_MSG_ACK_src :: "(pe_state \<times> pe_state) list" where
  "PD_DPM_MSG_ACK_src = [(PE_SRC_NEGOTIATE_CAPABILITIES, PE_SRC_TRANSITION_SUPPLY)]"

definition PD_DPM_MSG_CAP_CHANGED_src :: "(pe_state \<times> pe_state) list" where
  "PD_DPM_MSG_CAP_CHANGED_src =
     [(PE_SRC_READY, PE_SRC_SEND_CAPABILITIES),
      (PE_SRC_WAIT_NEW_CAPABILITIES, PE_SRC_SEND_CAPABILITIES)]"

definition PD_TIMER_PS_HARD_RESET_src :: "(pe_state \<times> pe_state) list" where
  "PD_TIMER_PS_HARD_RESET_src =
     [(PE_SRC_HARD_RESET, PE_SRC_TRANSITION_TO_DEFAULT),
      (PE_SRC_HARD_RESET_RECEIVED, PE_SRC_TRANSITION_TO_DEFAULT)]"

definition pd_process_ctrl_msg_good_crc_src :: "tcpc_device \<Rightarrow> bool \<times> tcpc_device" where
  "pd_process_ctrl_msg_good_crc_src t =
     (let s = curr t; p = pd_port t
      in if s = PE_SRC_SEND_CAPABILITIES
         then (False, pd_handle_hard_reset_recovery (upd_pe (\<lambda>d. d\<lparr>cap_counter := 0\<rparr>) t))
         else if s = PE_SRC_TRANSITION_SUPPLY then (False, pd_enable_pe_state_timer PD_TIMER_SOURCE_TRANSITION t)
         else if s = PE_SRC_CAPABILITY_RESPONSE
         then transit (if \<not> explicit_contract p then PE_SRC_WAIT_NEW_CAPABILITIES
                       else if invalid_contract p then PE_SRC_HARD_RESET else PE_SRC_READY) t
         else if s = PE_SRC_SOFT_RESET then transit PE_SRC_SEND_CAPABILITIES t
         else (False, t))"

definition pd_process_ctrl_msg_get_sink_cap :: "tcpc_device \<Rightarrow> bool \<times> tcpc_device" where
  "pd_process_ctrl_msg_get_sink_cap t =
     (if curr t \<noteq> PE_SRC_READY then (False, t)
      else if has_flag (dpm_caps (pd_port t)) DPM_CAP_LOCAL_DR_POWER then transit PE_DR_SRC_GIVE_SINK_CAP t
      else (False, set_unsupported t))"

definition partner_first_src :: "tcpc_device \<Rightarrow> tcpc_device" where
  "partner_first_src t =
     (if (curr t = PE_SRC_GET_SINK_CAP \<or> curr t = PE_DR_SRC_GET_SOURCE_CAP) \<and>
         PD_CTRL_GET_SOURCE_CAP \<le> msg (evt t) \<and> msg (evt t) \<le> PD_CTRL_VCONN_SWAP
      then act (DisableTimer PD_TIMER_SENDER_RESPONSE) (upd_port (\<lambda>p. p\<lparr>pe_state_curr := PE_SRC_READY\<rparr>) t)
      else t)"

definition pd_process_ctrl_msg_src :: "tcpc_device \<Rightarrow> bool \<times> tcpc_device" where
  "pd_process_ctrl_msg_src t =
     (let t = partner_first_src t; m = msg (evt t);
          single = pd_make_pe_state_transit_single; err = pd_process_protocol_error
      in if m = PD_CTRL_GOOD_CRC then pd_process_ctrl_msg_good_crc_src t
      else if m = PD_CTRL_ACCEPT then or_else (single PE_SRC_SEND_SOFT_RESET PE_SRC_SEND_CAPABILITIES t) err
      else if m = PD_CTRL_GET_SOURCE_CAP then or_else (single PE_SRC_READY PE_SRC_SEND_CAPABILITIES t) err
      else if m = PD_CTRL_GET_SINK_CAP then or_else (pd_process_ctrl_msg_get_sink_cap t) err
      else if m = PD_CTRL_NOT_SUPPORTED then or_else (single PE_SRC_READY PE_SRC_NOT_SUPPORTED_RECEIVED t) err
      else if m = PD_CTRL_GET_SOURCE_CAP_EXT then or_else (single PE_SRC_READY PE_SRC_GIVE_SOURCE_CAP_EXT t) err
      else if m = PD_CTRL_GET_STATUS then or_else (single PE_SRC_READY PE_SRC_GIVE_SOURCE_STATUS t) err
      else err (set_unsupported t))"

section \<open>Data and extended messages\<close>

definition pd_process_data_msg_src :: "tcpc_device \<Rightarrow> bool \<times> tcpc_device" where
  "pd_process_data_msg_src t =
     (let m = msg (evt t); single = pd_make_pe_state_transit_single; err = pd_process_protocol_error
      in if m = PD_DATA_SOURCE_CAP then or_else (single PE_DR_SRC_GET_SOURCE_CAP PE_SRC_READY t) err
      else if m = PD_DATA_SINK_CAP then or_else (single PE_SRC_GET_SINK_CAP PE_SRC_READY t) err
      else if m = PD_DATA_REQUEST then or_else (pd_make_pe_state_transit PD_DATA_MSG_REQUEST_src t) err
      else if m = PD_DATA_ALERT then or_else (single PE_SRC_READY PE_SRC_SINK_ALERT_RECEIVED t) err
      else err (set_unsupported t))"

definition pd_process_ext_msg_src :: "tcpc_device \<Rightarrow> bool \<times> tcpc_device" where
  "pd_process_ext_msg_src t =
     (let m = msg (evt t); single = pd_make_pe_state_transit_single; err = pd_process_protocol_error
      in if m = PD_EXT_SOURCE_CAP_EXT then or_else (single PE_DR_SRC_GET_SOURCE_CAP_EXT PE_SRC_READY t) err
      else if m = PD_EXT_STATUS then or_else (single PE_SRC_GET_SINK_STATUS PE_SRC_READY t) err
      else err (set_unsupported t))"

section \<open>Device policy manager, hardware and engine\<close>

definition pd_process_dpm_msg_src :: "tcpc_device \<Rightarrow> bool \<times> tcpc_device" where
  "pd_process_dpm_msg_src t =
     (let m = msg (evt t)
      in if m = PD_DPM_ACK then pd_make_pe_state_transit PD_DPM_MSG_ACK_src t
         else if m = PD_DPM_NAK
         then pd_make_pe_state_transit_single PE_SRC_NEGOTIATE_CAPABILITIES PE_SRC_CAPABILITY_RESPONSE t
         else if m = PD_DPM_CAP_CHANGED then pd_make_pe_state_transit PD_DPM_MSG_CAP_CHANGED_src t
         else (False, t))"

definition pd_process_hw_msg_vbus_present :: "tcpc_device \<Rightarrow> bool \<times> tcpc_device" where
  "pd_process_hw_msg_vbus_present t =
     (False, if curr t = PE_SRC_STARTUP then act (EnableTimer PD_TIMER_SOURCE_START) t
             else if curr t = PE_SRC_TRANSITION_TO_DEFAULT then pd_put_pe_event PD_PE_POWER_ROLE_AT_DEFAULT t
             else t)"

definition pd_process_hw_msg_tx_failed_src :: "tcpc_device \<Rightarrow> bool \<times> tcpc_device" where
  "pd_process_hw_msg_tx_failed_src t =
     (let p = pd_port t
      in if curr t = PE_SRC_SEND_CAPABILITIES \<and> (\<not> pd_connected (pe_data p) \<or> \<not> explicit_contract p)
         then transit PE_SRC_DISCOVERY t
         else if curr t = PE_SRC_CBL_SEND_SOFT_RESET then transit PE_SRC_SEND_CAPABILITIES t
         else pd_process_tx_failed t)"

definition pd_process_hw_msg_src :: "tcpc_device \<Rightarrow> bool \<times> tcpc_device" where
  "pd_process_hw_msg_src t =
     (let m = msg (evt t)
      in if m = PD_HW_VBUS_PRESENT then pd_process_hw_msg_vbus_present t
         else if m = PD_HW_VBUS_SAFE0V then (False, act (EnableTimer PD_TIMER_SRC_RECOVER) t)
         else if m = PD_HW_VBUS_STABLE
         then pd_make_pe_state_transit_single PE_SRC_TRANSITION_SUPPLY PE_SRC_TRANSITION_SUPPLY2 t
         else if m = PD_HW_TX_FAILED then pd_process_hw_msg_tx_failed_src t
         else (False, t))"

definition pd_process_pe_msg_src :: "tcpc_device \<Rightarrow> bool \<times> tcpc_device" where
  "pd_process_pe_msg_src t =
     (let m = msg (evt t); single = pd_make_pe_state_transit_single
      in if m = PD_PE_RESET_PRL_COMPLETED then single PE_SRC_STARTUP PE_SRC_SEND_CAPABILITIES t
         else if m = PD_PE_POWER_ROLE_AT_DEFAULT then single PE_SRC_TRANSITION_TO_DEFAULT PE_SRC_STARTUP t
         else (False, t))"

section \<open>Timers\<close>

definition source_start :: "tcpc_device \<Rightarrow> bool \<times> tcpc_device" where
  "source_start t =
     (if curr t = PE_SRC_STARTUP \<or> curr t = PE_SRC_CBL_SEND_SOFT_RESET
      then transit PE_SRC_SEND_CAPABILITIES t else (False, t))"

definition pd_process_timer_msg_source_start :: "tcpc_device \<Rightarrow> (bool \<times> tcpc_device) kres" where
  "pd_process_timer_msg_source_start t =
     (let (discover, t) = pd_is_discover_cable t
      in if discover \<and> msg_id_tx (pd_port t) ! TCPC_TX_SOP_PRIME = 0
         then if pd_is_reset_cable (pd_port t) then Inr (transit PE_SRC_CBL_SEND_SOFT_RESET t)
              else kbind (vdm_put_dpm_discover_cable_event t)
                     (\<lambda>r. if fst r then Inr (False, snd r) else Inr (source_start (snd r)))
         else Inr (source_start t))"

definition pd_process_timer_msg_source_cap :: "tcpc_device \<Rightarrow> bool \<times> tcpc_device" where
  "pd_process_timer_msg_source_cap t =
     (if curr t \<noteq> PE_SRC_DISCOVERY then (False, t)
      else transit (if cap_counter (pe_data (pd_port t)) \<le> PD_CAPS_COUNT then PE_SRC_SEND_CAPABILITIES
                    else PE_SRC_DISABLED) t)"

definition pd_process_timer_msg_no_response :: "tcpc_device \<Rightarrow> bool \<times> tcpc_device" where
  "pd_process_timer_msg_no_response t =
     transit (if hard_reset_counter (pe_data (pd_port t)) \<le> PD_HARD_RESET_COUNT then PE_SRC_HARD_RESET
              else if pd_prev_connected (pd_port t) then PE_ERROR_RECOVERY else PE_SRC_DISABLED) t"

definition src_sink_tx :: "pd_port \<Rightarrow> pd_port" where
  "src_sink_tx p =
     (let p = (if pd_traffic_control p = PD_SINK_TX_NG then p\<lparr>pd_traffic_control := PD_SOURCE_TX_OK\<rparr> else p)
      in if pd_traffic_control p = PD_SOURCE_TX_START then p\<lparr>pd_traffic_control := PD_SINK_TX_OK\<rparr> else p)"

definition pd_process_timer_msg_src :: "tcpc_device \<Rightarrow> (bool \<times> tcpc_device) kres" where
  "pd_process_timer_msg_src t =
     (let m = msg (evt t)
      in if m = PD_TIMER_SOURCE_CAPABILITY then Inr (pd_process_timer_msg_source_cap t)
      else if m = PD_TIMER_SENDER_RESPONSE
         then Inr (pd_make_pe_state_transit_single PE_SRC_CBL_SEND_SOFT_RESET PE_SRC_SEND_CAPABILITIES t)
      else if m = PD_TIMER_PS_HARD_RESET then Inr (pd_make_pe_state_transit PD_TIMER_PS_HARD_RESET_src t)
      else if m = PD_TIMER_SOURCE_START then pd_process_timer_msg_source_start t
      else if m = PD_TIMER_NO_RESPONSE then Inr (pd_process_timer_msg_no_response t)
      else if m = PD_TIMER_SOURCE_TRANSITION
         then Inr (False, if state_machine (pd_port t) \<noteq> PE_STATE_MACHINE_PR_SWAP
                          then pd_dpm_src_transition_power t else t)
      else if m = PD_TIMER_DISCOVER_ID
         then kbind (vdm_put_dpm_discover_cable_event t) (\<lambda>r. Inr (False, snd r))
      else if m = PD_TIMER_SRC_RECOVER
         then Inr (False, pd_enable_vbus_valid_detection True (pd_dpm_source_vbus True t))
      else if m = PD_TIMER_SINK_TX then Inr (False, upd_port src_sink_tx t)
      else if m = PD_TIMER_CK_NOT_SUPPORTED
         then Inr (pd_make_pe_state_transit_single PE_SRC_CHUNK_RECEIVED PE_SRC_SEND_NOT_SUPPORTED t)
      else Inr (False, t))"

definition pd_process_event_src :: "tcpc_device \<Rightarrow> (bool \<times> tcpc_device) kres" where
  "pd_process_event_src t =
     (let ty = event_type (evt t)
      in if ty = PD_EVT_CTRL_MSG then Inr (pd_process_ctrl_msg_src t)
         else if ty = PD_EVT_DATA_MSG then Inr (pd_process_data_msg_src t)
         else if ty = PD_EVT_EXT_MSG then Inr (pd_process_ext_msg_src t)
         else if ty = PD_EVT_DPM_MSG then Inr (pd_process_dpm_msg_src t)
         else if ty = PD_EVT_HW_MSG then Inr (pd_process_hw_msg_src t)
         else if ty = PD_EVT_PE_MSG then Inr (pd_process_pe_msg_src t)
         else if ty = PD_EVT_TIMER_MSG then pd_process_timer_msg_src t
         else Inr (False, t))"

end
