(* ===== verification/Pe_Swap.thy ===== *)
theory Pe_Swap
  imports Pe_Src
begin

unbundle bit_operations_syntax

text \<open>
  The three swaps: of the data role (\<open>pd_process_evt_drs.c\<close>), of the power role
  (\<open>pd_process_evt_prs.c\<close>, with \<open>CONFIG_USB_PD_PR_SWAP_ERROR_RECOVERY\<close> and
  \<open>CONFIG_USB_PD_VBUS_DETECTION_DURING_PR_SWAP\<close>) and of the supply of VCONN
  (\<open>pd_process_evt_vcs.c\<close>).
\<close>

section \<open>Data role\<close>

definition PD_CTRL_MSG_GOOD_CRC_drs :: "(pe_state \<times> pe_state) list" where
  "PD_CTRL_MSG_GOOD_CRC_drs =
     [(PE_DRS_DFP_UFP_ACCEPT_DR_SWAP, PE_DRS_DFP_UFP_CHANGE_TO_UFP),
      (PE_DRS_UFP_DFP_ACCEPT_DR_SWAP, PE_DRS_UFP_DFP_CHANGE_TO_DFP)]"

definition PD_CTRL_MSG_ACCEPT_drs :: "(pe_state \<times> pe_state) list" where
  "PD_CTRL_MSG_ACCEPT_drs =
     [(PE_DRS_DFP_UFP_SEND_DR_SWAP, PE_DRS_DFP_UFP_CHANGE_TO_UFP),
      (PE_DRS_UFP_DFP_SEND_DR_SWAP, PE_DRS_UFP_DFP_CHANGE_TO_DFP)]"

definition PD_DPM_MSG_ACK_drs :: "(pe_state \<times> pe_state) list" where
  "PD_DPM_MSG_ACK_drs =
     [(PE_DRS_DFP_UFP_EVALUATE_DR_SWAP, PE_DRS_DFP_UFP_ACCEPT_DR_SWAP),
      (PE_DRS_UFP_DFP_EVALUATE_DR_SWAP, PE_DRS_UFP_DFP_ACCEPT_DR_SWAP)]"

definition PD_DPM_MSG_NAK_drs :: "(pe_state \<times> pe_state) list" where
  "PD_DPM_MSG_NAK_drs =
     [(PE_DRS_DFP_UFP_EVALUATE_DR_SWAP, PE_DRS_DFP_UFP_REJECT_DR_SWAP),
      (PE_DRS_UFP_DFP_EVALUATE_DR_SWAP, PE_DRS_UFP_DFP_REJECT_DR_SWAP)]"

definition pd_process_event_drs :: "tcpc_device \<Rightarrow> bool \<times> tcpc_device" where
  "pd_process_event_drs t =
     (let ty = event_type (evt t); m = msg (evt t)
      in if ty = PD_EVT_CTRL_MSG then
           (if m = PD_CTRL_GOOD_CRC then pd_make_pe_state_transit PD_CTRL_MSG_GOOD_CRC_drs t
            else if m = PD_CTRL_ACCEPT then pd_make_pe_state_transit PD_CTRL_MSG_ACCEPT_drs t
            else (False, t))
         else if ty = PD_EVT_DPM_MSG then
           (if m = PD_DPM_ACK then pd_make_pe_state_transit PD_DPM_MSG_ACK_drs t
            else if m = PD_DPM_NAK then pd_make_pe_state_transit PD_DPM_MSG_NAK_drs t
            else (False, t))
         else (False, t))"

section \<open>Power role\<close>

definition PD_CTRL_MSG_GOOD_CRC_prs :: "(pe_state \<times> pe_state) list" where
  "PD_CTRL_MSG_GOOD_CRC_prs =
     [(PE_PRS_SRC_SNK_ACCEPT_PR_SWAP, PE_PRS_SRC_SNK_TRANSITION_TO_OFF),
      (PE_PRS_SNK_SRC_ACCEPT_PR_SWAP, PE_PRS_SNK_SRC_TRANSITION_TO_OFF),
      (PE_PRS_SNK_SRC_SOURCE_ON, PE_SRC_STARTUP)]"

definition PD_CTRL_MSG_ACCEPT_prs :: "(pe_state \<times> pe_state) list" where
  "PD_CTRL_MSG_ACCEPT_prs =
     [(PE_PRS_SRC_SNK_SEND_SWAP, PE_PRS_SRC_SNK_TRANSITION_TO_OFF),
      (PE_PRS_SNK_SRC_SEND_SWAP, PE_PRS_SNK_SRC_TRANSITION_TO_OFF)]"

definition PD_CTRL_MSG_PS_RDY_prs :: "(pe_state \<times> pe_state) list" where
  "PD_CTRL_MSG_PS_RDY_prs =
     [(PE_PRS_SRC_SNK_WAIT_SOURCE_ON, PE_SNK_STARTUP),
      (PE_PRS_SNK_SRC_TRANSITION_TO_OFF, PE_PRS_SNK_SRC_ASSERT_RP)]"

definition PD_DPM_MSG_ACK_prs :: "(pe_state \<times> pe_state) list" where
  "PD_DPM_MSG_ACK_prs =
     [(PE_PRS_SRC_SNK_EVALUATE_PR_SWAP, PE_PRS_SRC_SNK_ACCEPT_PR_SWAP),
      (PE_PRS_SNK_SRC_EVALUATE_PR_SWAP, PE_PRS_SNK_SRC_ACCEPT_PR_SWAP),
      (PE_PRS_SRC_SNK_ASSERT_RD, PE_PRS_SRC_SNK_WAIT_SOURCE_ON),
      (PE_PRS_SNK_SRC_ASSERT_RP, PE_PRS_SNK_SRC_SOURCE_ON)]"

definition PD_DPM_MSG_NAK_prs :: "(pe_state \<times> pe_state) list" where
  "PD_DPM_MSG_NAK_prs =
     [(PE_PRS_SRC_SNK_EVALUATE_PR_SWAP, PE_PRS_SRC_SNK_REJECT_PR_SWAP),
      (PE_PRS_SNK_SRC_EVALUATE_PR_SWAP, PE_PRS_SNK_SRC_REJECT_SWAP)]"

definition PD_HW_VBUS_PRESENT_prs :: "(pe_state \<times> pe_state) list" where
  "PD_HW_VBUS_PRESENT_prs = [(PE_PRS_SRC_SNK_WAIT_SOURCE_ON, PE_SNK_STARTUP)]"

definition PD_HW_TX_FAILED_prs :: "(pe_state \<times> pe_state) list" where
  "PD_HW_TX_FAILED_prs =
     [(PE_PRS_SRC_SNK_WAIT_SOURCE_ON, PE_ERROR_RECOVERY),
      (PE_PRS_SNK_SRC_SOURCE_ON, PE_ERROR_RECOVERY)]"

definition PD_HW_VBUS_SAFE0V_prs :: "(pe_state \<times> pe_state) list" where
  "PD_HW_VBUS_SAFE0V_prs =
     [(PE_PRS_SRC_SNK_TRANSITION_TO_OFF, PE_PRS_SRC_SNK_ASSERT_RD),
      (PE_PRS_SNK_SRC_TRANSITION_TO_OFF, PE_PRS_SNK_SRC_ASSERT_RP)]"

definition pd_dpm_prs_enable_power_source :: "bool \<Rightarrow> tcpc_device \<Rightarrow> tcpc_device" where
  "pd_dpm_prs_enable_power_source en t =
     (let t = tcpci_source_vbus TCP_VBUS_CTRL_PR_SWAP (if en then 5000 else 0) (- 1) t
      in if en then pd_enable_vbus_valid_detection en t else pd_enable_vbus_safe0v_detection t)"

definition pd_process_ctrl_msg_good_crc_prs :: "tcpc_device \<Rightarrow> bool \<times> tcpc_device" where
  "pd_process_ctrl_msg_good_crc_prs t =
     (if curr t = PE_PRS_SRC_SNK_WAIT_SOURCE_ON then (False, pd_enable_pe_state_timer PD_TIMER_PS_SOURCE_ON t)
      else pd_make_pe_state_transit PD_CTRL_MSG_GOOD_CRC_prs t)"

definition pd_process_ctrl_msg_ps_rdy :: "tcpc_device \<Rightarrow> bool \<times> tcpc_device" where
  "pd_process_ctrl_msg_ps_rdy t =
     (if curr t = PE_PRS_SRC_SNK_WAIT_SOURCE_ON then (False, pd_enable_vbus_valid_detection True t)
      else if curr t = PE_PRS_SNK_SRC_TRANSITION_TO_OFF then (False, pd_enable_vbus_safe0v_detection t)
      else pd_make_pe_state_transit PD_CTRL_MSG_PS_RDY_prs t)"

definition pd_process_ctrl_msg_prs :: "tcpc_device \<Rightarrow> bool \<times> tcpc_device" where
  "pd_process_ctrl_msg_prs t =
     (let m = msg (evt t)
      in if m = PD_CTRL_GOOD_CRC then pd_process_ctrl_msg_good_crc_prs t
         else if m = PD_CTRL_ACCEPT then pd_make_pe_state_transit PD_CTRL_MSG_ACCEPT_prs t
         else if m = PD_CTRL_PS_RDY then pd_process_ctrl_msg_ps_rdy t
         else (False, t))"

definition pd_process_dpm_msg_prs :: "tcpc_device \<Rightarrow> bool \<times> tcpc_device" where
  "pd_process_dpm_msg_prs t =
     (let m = msg (evt t)
      in if m = PD_DPM_ACK then pd_make_pe_state_transit PD_DPM_MSG_ACK_prs t
         else if m = PD_DPM_NAK then pd_make_pe_state_transit PD_DPM_MSG_NAK_prs t
         else (False, t))"

definition pd_process_hw_msg_prs :: "tcpc_device \<Rightarrow> bool \<times> tcpc_device" where
  "pd_process_hw_msg_prs t =
     (let m = msg (evt t)
      in if m = PD_HW_VBUS_PRESENT
         then pd_make_pe_state_transit PD_HW_VBUS_PRESENT_prs
                (if curr t = PE_PRS_SNK_SRC_SOURCE_ON then pd_send_sop_ctrl_msg PD_CTRL_PS_RDY t else t)
         else if m = PD_HW_TX_FAILED then pd_make_pe_state_transit PD_HW_TX_FAILED_prs t
         else if m = PD_HW_VBUS_SAFE0V then pd_make_pe_state_transit PD_HW_VBUS_SAFE0V_prs t
         else (False, t))"

definition pd_process_timer_msg_prs :: "tcpc_device \<Rightarrow> bool \<times> tcpc_device" where
  "pd_process_timer_msg_prs t =
     (let m = msg (evt t)
      in if m = PD_TIMER_PS_SOURCE_ON
         then pd_make_pe_state_transit_single PE_PRS_SRC_SNK_WAIT_SOURCE_ON PE_ERROR_RECOVERY t
         else if m = PD_TIMER_PS_SOURCE_OFF
         then pd_make_pe_state_transit_single PE_PRS_SNK_SRC_TRANSITION_TO_OFF PE_ERROR_RECOVERY t
         else if m = PD_TIMER_SOURCE_TRANSITION then (False, pd_dpm_prs_enable_power_source False t)
         else (False, t))"

definition pd_process_event_prs :: "tcpc_device \<Rightarrow> bool \<times> tcpc_device" where
  "pd_process_event_prs t =
     (let ty = event_type (evt t)
      in if ty = PD_EVT_CTRL_MSG then pd_process_ctrl_msg_prs t
         else if ty = PD_EVT_DPM_MSG then pd_process_dpm_msg_prs t
         else if ty = PD_EVT_HW_MSG then pd_process_hw_msg_prs t
         else if ty = PD_EVT_TIMER_MSG then pd_process_timer_msg_prs t
         else (False, t))"

section \<open>VCONN\<close>

definition PD_DPM_MSG_ACK_vcs :: "(pe_state \<times> pe_state) list" where
  "PD_DPM_MSG_ACK_vcs =
     [(PE_VCS_EVALUATE_SWAP, PE_VCS_ACCEPT_SWAP),
      (PE_VCS_TURN_ON_VCONN, PE_VCS_SEND_PS_RDY)]"

definition pd_process_ctrl_msg_vcs :: "tcpc_device \<Rightarrow> bool \<times> tcpc_device" where
  "pd_process_ctrl_msg_vcs t =
     (let m = msg (evt t); single = pd_make_pe_state_transit_single;
          vconn_state = (if vconn_role (pd_port t) \<noteq> PD_ROLE_VCONN_OFF then PE_VCS_WAIT_FOR_VCONN
                         else PE_VCS_TURN_ON_VCONN)
      in if m = PD_CTRL_GOOD_CRC then single PE_VCS_ACCEPT_SWAP vconn_state t
         else if m = PD_CTRL_ACCEPT then single PE_VCS_SEND_SWAP vconn_state t
         else if m = PD_CTRL_PS_RDY then single PE_VCS_WAIT_FOR_VCONN PE_VCS_TURN_OFF_VCONN t
         else (False, t))"

definition pd_process_dpm_msg_vcs :: "tcpc_device \<Rightarrow> bool \<times> tcpc_device" where
  "pd_process_dpm_msg_vcs t =
     (let m = msg (evt t)
      in if m = PD_DPM_ACK then pd_make_pe_state_transit PD_DPM_MSG_ACK_vcs t
         else if m = PD_DPM_NAK then pd_make_pe_state_transit_single PE_VCS_EVALUATE_SWAP PE_VCS_REJECT_VCONN_SWAP t
         else (False, t))"

definition pd_process_timer_msg_vcs :: "tcpc_device \<Rightarrow> bool \<times> tcpc_device" where
  "pd_process_timer_msg_vcs t =
     (let m = msg (evt t)
      in if m = PD_TIMER_VCONN_ON
         then pd_make_pe_state_transit_single PE_VCS_WAIT_FOR_VCONN (curr_hreset_state (pd_port t)) t
         else if m = PD_TIMER_VCONN_READY
         then (False, upd_pe (\<lambda>d. d\<lparr>pe_state_flags2 := pe_state_flags2 d OR PE_STATE_FLAG_DPM_ACK_IMMEDIATELY\<rparr>) t)
         else (False, t))"

definition pd_process_event_vcs :: "tcpc_device \<Rightarrow> bool \<times> tcpc_device" where
  "pd_process_event_vcs t =
     (let ty = event_type (evt t)
      in if ty = PD_EVT_CTRL_MSG then pd_process_ctrl_msg_vcs t
         else if ty = PD_EVT_DPM_MSG then pd_process_dpm_msg_vcs t
         else if ty = PD_EVT_TIMER_MSG then pd_process_timer_msg_vcs t
         else (False, t))"

end
