(* ===== verification/Pe_Tcp.thy ===== *)
theory Pe_Tcp
  imports Pe_Swap
begin

unbundle bit_operations_syntax

text \<open>
  Requests of the port manager that the policy engine carries out
  (\<open>pd_process_evt_tcp.c\<close>). A handler returns a code of the enumeration \<open>TCP_DPM_RET\<close>; the
  state changes when it is \<open>TCP_DPM_RET_SENT\<close>, which is 0.
\<close>

abbreviation (input) TCP_DPM_EVT_PR_SWAP_AS_SNK :: nat where "TCP_DPM_EVT_PR_SWAP_AS_SNK \<equiv> 1"
abbreviation (input) TCP_DPM_EVT_PR_SWAP_AS_SRC :: nat where "TCP_DPM_EVT_PR_SWAP_AS_SRC \<equiv> 2"
abbreviation (input) TCP_DPM_EVT_DR_SWAP_AS_UFP :: nat where "TCP_DPM_EVT_DR_SWAP_AS_UFP \<equiv> 3"
abbreviation (input) TCP_DPM_EVT_DR_SWAP_AS_DFP :: nat where "TCP_DPM_EVT_DR_SWAP_AS_DFP \<equiv> 4"
abbreviation (input) TCP_DPM_EVT_VCONN_SWAP_OFF :: nat where "TCP_DPM_EVT_VCONN_SWAP_OFF \<equiv> 5"
abbreviation (input) TCP_DPM_EVT_VCONN_SWAP_ON :: nat where "TCP_DPM_EVT_VCONN_SWAP_ON \<equiv> 6"
abbreviation (input) TCP_DPM_EVT_GOTOMIN :: nat where "TCP_DPM_EVT_GOTOMIN \<equiv> 7"
abbreviation (input) TCP_DPM_EVT_GET_SOURCE_CAP :: nat where "TCP_DPM_EVT_GET_SOURCE_CAP \<equiv> 10"
abbreviation (input) TCP_DPM_EVT_GET_SINK_CAP :: nat where "TCP_DPM_EVT_GET_SINK_CAP \<equiv> 11"
abbreviation (input) TCP_DPM_EVT_REQUEST :: nat where "TCP_DPM_EVT_REQUEST \<equiv> 12"
abbreviation (input) TCP_DPM_EVT_REQUEST_EX :: nat where "TCP_DPM_EVT_REQUEST_EX \<equiv> 13"
abbreviation (input) TCP_DPM_EVT_REQUEST_AGAIN :: nat where "TCP_DPM_EVT_REQUEST_AGAIN \<equiv> 14"
abbreviation (input) TCP_DPM_EVT_BIST_CM2 :: nat where "TCP_DPM_EVT_BIST_CM2 \<equiv> 15"
abbreviation (input) TCP_DPM_EVT_PD30_COMMAND :: nat where "TCP_DPM_EVT_PD30_COMMAND \<equiv> 17"
abbreviation (input) TCP_DPM_EVT_GET_SOURCE_CAP_EXT :: nat where "TCP_DPM_EVT_GET_SOURCE_CAP_EXT \<equiv> 17"
abbreviation (input) TCP_DPM_EVT_GET_STATUS :: nat where "TCP_DPM_EVT_GET_STATUS \<equiv> 18"
abbreviation (input) TCP_DPM_EVT_GET_COUNTRY_CODE :: nat where "TCP_DPM_EVT_GET_COUNTRY_CODE \<equiv> 21"
abbreviation (input) TCP_DPM_EVT_GET_PPS_STATUS :: nat where "TCP_DPM_EVT_GET_PPS_STATUS \<equiv> 22"
abbreviation (input) TCP_DPM_EVT_ALERT :: nat where "TCP_DPM_EVT_ALERT \<equiv> 23"
abbreviation (input) TCP_DPM_EVT_GET_COUNTRY_INFO :: nat where "TCP_DPM_EVT_GET_COUNTRY_INFO \<equiv> 24"
abbreviation (input) TCP_DPM_EVT_GET_BAT_CAP :: nat where "TCP_DPM_EVT_GET_BAT_CAP \<equiv> 25"
abbreviation (input) TCP_DPM_EVT_GET_BAT_STATUS :: nat where "TCP_DPM_EVT_GET_BAT_STATUS \<equiv> 26"
abbreviation (input) TCP_DPM_EVT_GET_MFRS_INFO :: nat where "TCP_DPM_EVT_GET_MFRS_INFO \<equiv> 27"
abbreviation (input) DPM_FLAGS_PARTNER_GIVE_BACK :: "16 word" where "DPM_FLAGS_PARTNER_GIVE_BACK \<equiv> 0x100"

text \<open>
  The data of a request is a union of 32 bytes; its words in memory order, zero beyond what
  the request has set.
\<close>

definition tcp_word :: "nat \<Rightarrow> tcpc_device \<Rightarrow> 32 word" where
  "tcp_word i t = (let d = tcp_dpm_data (tcp_event (pd_port t)) in if i < length d then d ! i else 0)"

section \<open>Swaps\<close>

definition pd_handle_tcp_event_pr_swap :: "nat \<Rightarrow> tcpc_device \<Rightarrow> nat \<times> tcpc_device" where
  "pd_handle_tcp_event_pr_swap new_role t =
     (if power_role (pd_port t) = new_role then (TCP_DPM_RET_DENIED_SAME_ROLE, t)
      else if \<not> has_flag (dpm_caps (pd_port t)) DPM_CAP_LOCAL_DR_POWER then (TCP_DPM_RET_DENIED_LOCAL_CAP, t)
      else if \<not> pd_check_pe_state_ready t then (TCP_DPM_RET_DENIED_NOT_READY, t)
      else (TCP_DPM_RET_SENT, pe_transit_send_pr_swap_state
              (upd_port (\<lambda>p. p\<lparr>during_swap := False, state_machine := PE_STATE_MACHINE_PR_SWAP\<rparr>) t)))"

definition pd_handle_tcp_event_dr_swap :: "nat \<Rightarrow> tcpc_device \<Rightarrow> nat \<times> tcpc_device" where
  "pd_handle_tcp_event_dr_swap new_role t =
     (if data_role (pd_port t) = new_role then (TCP_DPM_RET_DENIED_SAME_ROLE, t)
      else if \<not> has_flag (dpm_caps (pd_port t)) DPM_CAP_LOCAL_DR_DATA then (TCP_DPM_RET_DENIED_LOCAL_CAP, t)
      else if \<not> pd_check_pe_state_ready t then (TCP_DPM_RET_DENIED_NOT_READY, t)
      else (TCP_DPM_RET_SENT, PE_TRANSIT_DATA_STATE PE_DRS_UFP_DFP_SEND_DR_SWAP PE_DRS_DFP_UFP_SEND_DR_SWAP
              (upd_port (\<lambda>p. p\<lparr>during_swap := False, state_machine := PE_STATE_MACHINE_DR_SWAP\<rparr>) t)))"

definition pd_handle_tcp_event_vconn_swap :: "nat \<Rightarrow> tcpc_device \<Rightarrow> nat \<times> tcpc_device" where
  "pd_handle_tcp_event_vconn_swap new_role t =
     (let p = pd_port t; old_role = (if vconn_role p \<noteq> PD_ROLE_VCONN_OFF then 1 else 0)
      in if old_role = new_role then (TCP_DPM_RET_DENIED_SAME_ROLE, t)
         else if vconn_role p = PD_ROLE_VCONN_OFF \<and> \<not> has_flag (dpm_caps p) DPM_CAP_LOCAL_VCONN_SUPPLY
         then (TCP_DPM_RET_DENIED_LOCAL_CAP, t)
         else if \<not> pd_check_pe_state_ready t then (TCP_DPM_RET_DENIED_NOT_READY, t)
         else (TCP_DPM_RET_SENT, PE_TRANSIT_STATE PE_VCS_SEND_SWAP
                 (upd_port (\<lambda>p. p\<lparr>state_machine := PE_STATE_MACHINE_VCONN_SWAP\<rparr>) t)))"

section \<open>Power and resets\<close>

definition pd_handle_tcp_event_gotomin :: "tcpc_device \<Rightarrow> nat \<times> tcpc_device" where
  "pd_handle_tcp_event_gotomin t =
     (if curr t \<noteq> PE_SRC_READY then (TCP_DPM_RET_DENIED_NOT_READY, t)
      else if \<not> has_flag (dpm_flags (pd_port t)) DPM_FLAGS_PARTNER_GIVE_BACK then (TCP_DPM_RET_DENIED_PARTNER_CAP, t)
      else (TCP_DPM_RET_SENT, PE_TRANSIT_STATE PE_SRC_TRANSITION_SUPPLY t))"

definition pd_handle_tcp_event_softreset :: "tcpc_device \<Rightarrow> nat \<times> tcpc_device" where
  "pd_handle_tcp_event_softreset t =
     (if \<not> pd_check_pe_state_ready t then (TCP_DPM_RET_DENIED_NOT_READY, t)
      else (TCP_DPM_RET_SENT, pe_transit_soft_reset_state t))"

definition pd_handle_tcp_event_cable_softreset :: "tcpc_device \<Rightarrow> nat \<times> tcpc_device" where
  "pd_handle_tcp_event_cable_softreset t =
     (let p = pd_port t;
          role_check = (if pd_check_rev30 p then vconn_role p \<noteq> PD_ROLE_VCONN_OFF else data_role p = PD_ROLE_DFP)
      in if \<not> pd_check_pe_state_ready t then (TCP_DPM_RET_DENIED_NOT_READY, t)
         else if \<not> role_check then (TCP_DPM_RET_DENIED_WRONG_DATA_ROLE, t)
         else (TCP_DPM_RET_SENT, PE_TRANSIT_STATE PE_DFP_CBL_SEND_SOFT_RESET t))"

definition pd_handle_tcp_event_get_source_cap :: "tcpc_device \<Rightarrow> nat \<times> tcpc_device" where
  "pd_handle_tcp_event_get_source_cap t =
     (if curr t = PE_SNK_READY then (TCP_DPM_RET_SENT, PE_TRANSIT_STATE PE_SNK_GET_SOURCE_CAP t)
      else if curr t = PE_SRC_READY
      then if has_flag (dpm_caps (pd_port t)) DPM_CAP_LOCAL_DR_POWER
           then (TCP_DPM_RET_SENT, PE_TRANSIT_STATE PE_DR_SRC_GET_SOURCE_CAP t) else (TCP_DPM_RET_DENIED_LOCAL_CAP, t)
      else (TCP_DPM_RET_DENIED_NOT_READY, t))"

definition pd_handle_tcp_event_get_sink_cap :: "tcpc_device \<Rightarrow> nat \<times> tcpc_device" where
  "pd_handle_tcp_event_get_sink_cap t =
     (if curr t = PE_SRC_READY then (TCP_DPM_RET_SENT, PE_TRANSIT_STATE PE_SRC_GET_SINK_CAP t)
      else if curr t = PE_SNK_READY
      then if has_flag (dpm_caps (pd_port t)) DPM_CAP_LOCAL_DR_POWER
           then (TCP_DPM_RET_SENT, PE_TRANSIT_STATE PE_DR_SNK_GET_SINK_CAP t) else (TCP_DPM_RET_DENIED_LOCAL_CAP, t)
      else (TCP_DPM_RET_DENIED_NOT_READY, t))"

definition pd_handle_tcp_event_request :: "tcpc_device \<Rightarrow> (nat \<times> tcpc_device) kres" where
  "pd_handle_tcp_event_request t =
     (let m = msg (evt t)
      in if curr t \<noteq> PE_SNK_READY then Inr (TCP_DPM_RET_DENIED_NOT_READY, t)
         else kbind (if m = TCP_DPM_EVT_REQUEST
                     then pd_dpm_update_tcp_request (sint (tcp_word 0 t)) (sint (tcp_word 1 t)) t
                     else if m = TCP_DPM_EVT_REQUEST_EX
                     then pd_dpm_update_tcp_request_ex (unat (tcp_word 0 t AND 0xFF)) (tcp_word 1 t) (tcp_word 2 t) t
                     else if m = TCP_DPM_EVT_REQUEST_AGAIN then pd_dpm_update_tcp_request_again t
                     else Inr (0, t))
                (\<lambda>(ret, t). if ret \<noteq> TCP_DPM_RET_SUCCESS then Inr (ret, t)
                            else Inr (TCP_DPM_RET_SENT, PE_TRANSIT_STATE PE_SNK_SELECT_CAPABILITY t)))"

definition pd_handle_tcp_event_bist_cm2 :: "tcpc_device \<Rightarrow> nat \<times> tcpc_device" where
  "pd_handle_tcp_event_bist_cm2 t =
     (if \<not> pd_check_pe_state_ready t then (TCP_DPM_RET_DENIED_NOT_READY, t)
      else (TCP_DPM_RET_SENT, pd_send_sop_data_msg PD_DATA_BIST [BDO_MODE_CARRIER2] t))"

section \<open>Requests of revision 3\<close>

definition pd_handle_tcp_event_get_source_cap_ext :: "tcpc_device \<Rightarrow> nat \<times> tcpc_device" where
  "pd_handle_tcp_event_get_source_cap_ext t =
     (if curr t = PE_SNK_READY then (TCP_DPM_RET_SENT, PE_TRANSIT_STATE PE_SNK_GET_SOURCE_CAP_EXT t)
      else if curr t = PE_SRC_READY
      then if has_flag (dpm_caps (pd_port t)) DPM_CAP_LOCAL_DR_POWER
           then (TCP_DPM_RET_SENT, PE_TRANSIT_STATE PE_DR_SRC_GET_SOURCE_CAP_EXT t)
           else (TCP_DPM_RET_DENIED_LOCAL_CAP, t)
      else (TCP_DPM_RET_DENIED_NOT_READY, t))"

definition pd_handle_tcp_event_get_pps_status :: "tcpc_device \<Rightarrow> nat \<times> tcpc_device" where
  "pd_handle_tcp_event_get_pps_status t =
     (if curr t \<noteq> PE_SNK_READY then (TCP_DPM_RET_DENIED_NOT_READY, t)
      else (TCP_DPM_RET_SENT, PE_TRANSIT_STATE PE_SNK_GET_PPS_STATUS t))"

definition pd_make_tcp_event_transit_ready :: "pe_state \<Rightarrow> tcpc_device \<Rightarrow> nat \<times> tcpc_device" where
  "pd_make_tcp_event_transit_ready s t =
     (if \<not> pd_check_pe_state_ready t then (TCP_DPM_RET_DENIED_NOT_READY, t)
      else (TCP_DPM_RET_SENT, PE_TRANSIT_STATE s t))"

definition pd_make_tcp_event_transit_ready2 :: "pe_state \<Rightarrow> pe_state \<Rightarrow> tcpc_device \<Rightarrow> nat \<times> tcpc_device" where
  "pd_make_tcp_event_transit_ready2 snk_state src_state t =
     (if curr t = PE_SNK_READY then (TCP_DPM_RET_SENT, PE_TRANSIT_STATE snk_state t)
      else if curr t = PE_SRC_READY then (TCP_DPM_RET_SENT, PE_TRANSIT_STATE src_state t)
      else (TCP_DPM_RET_DENIED_NOT_READY, t))"

definition pd_handle_tcp_event_alert :: "tcpc_device \<Rightarrow> nat \<times> tcpc_device" where
  "pd_handle_tcp_event_alert t =
     (let t = (if msg_sec (evt t) = PD_TCP_FROM_TCPM
               then upd_pe (\<lambda>d. d\<lparr>local_alert := local_alert d OR tcp_word 0 t\<rparr>) t else t)
      in pd_make_tcp_event_transit_ready2 PE_SNK_SEND_SINK_ALERT PE_SRC_SEND_SOURCE_ALERT t)"

section \<open>The handler\<close>

definition pd_handle_tcp_dpm_event :: "tcpc_device \<Rightarrow> (nat \<times> tcpc_device) kres" where
  "pd_handle_tcp_dpm_event t =
     (let m = msg (evt t)
      in if m \<ge> TCP_DPM_EVT_PD30_COMMAND \<and> m < TCP_DPM_EVT_VDM_COMMAND \<and> \<not> pd_check_rev30 (pd_port t)
         then Inr (TCP_DPM_RET_DENIED_PD_REV, t)
      else if m = TCP_DPM_EVT_PR_SWAP_AS_SNK \<or> m = TCP_DPM_EVT_PR_SWAP_AS_SRC
         then Inr (pd_handle_tcp_event_pr_swap (m - TCP_DPM_EVT_PR_SWAP_AS_SNK) t)
      else if m = TCP_DPM_EVT_DR_SWAP_AS_UFP \<or> m = TCP_DPM_EVT_DR_SWAP_AS_DFP
         then Inr (pd_handle_tcp_event_dr_swap (m - TCP_DPM_EVT_DR_SWAP_AS_UFP) t)
      else if m = TCP_DPM_EVT_VCONN_SWAP_OFF \<or> m = TCP_DPM_EVT_VCONN_SWAP_ON
         then Inr (pd_handle_tcp_event_vconn_swap (m - TCP_DPM_EVT_VCONN_SWAP_OFF) t)
      else if m = TCP_DPM_EVT_GOTOMIN then Inr (pd_handle_tcp_event_gotomin t)
      else if m = TCP_DPM_EVT_SOFTRESET then Inr (pd_handle_tcp_event_softreset t)
      else if m = TCP_DPM_EVT_CABLE_SOFTRESET then Inr (pd_handle_tcp_event_cable_softreset t)
      else if m = TCP_DPM_EVT_GET_SOURCE_CAP then Inr (pd_handle_tcp_event_get_source_cap t)
      else if m = TCP_DPM_EVT_GET_SINK_CAP then Inr (pd_handle_tcp_event_get_sink_cap t)
      else if m = TCP_DPM_EVT_REQUEST \<or> m = TCP_DPM_EVT_REQUEST_EX \<or> m = TCP_DPM_EVT_REQUEST_AGAIN
         then pd_handle_tcp_event_request t
      else if m = TCP_DPM_EVT_BIST_CM2 then Inr (pd_handle_tcp_event_bist_cm2 t)
      else if m = TCP_DPM_EVT_GET_SOURCE_CAP_EXT then Inr (pd_handle_tcp_event_get_source_cap_ext t)
      else if m = TCP_DPM_EVT_GET_STATUS
         then Inr (pd_make_tcp_event_transit_ready2 PE_SNK_GET_SOURCE_STATUS PE_SRC_GET_SINK_STATUS t)
      else if m = TCP_DPM_EVT_GET_COUNTRY_CODE then Inr (pd_make_tcp_event_transit_ready PE_GET_COUNTRY_CODES t)
      else if m = TCP_DPM_EVT_GET_PPS_STATUS then Inr (pd_handle_tcp_event_get_pps_status t)
      else if m = TCP_DPM_EVT_ALERT then Inr (pd_handle_tcp_event_alert t)
      else if m = TCP_DPM_EVT_GET_COUNTRY_INFO then Inr (pd_make_tcp_event_transit_ready PE_GET_COUNTRY_INFO t)
      else if m = TCP_DPM_EVT_GET_BAT_CAP then Inr (pd_make_tcp_event_transit_ready PE_GET_BATTERY_CAP t)
      else if m = TCP_DPM_EVT_GET_BAT_STATUS then Inr (pd_make_tcp_event_transit_ready PE_GET_BATTERY_STATUS t)
      else if m = TCP_DPM_EVT_GET_MFRS_INFO then Inr (pd_make_tcp_event_transit_ready PE_GET_MANUFACTURER_INFO t)
      else if m = TCP_DPM_EVT_HARD_RESET then Inr (TCP_DPM_RET_SENT, pe_transit_hard_reset_state t)
      else if m = TCP_DPM_EVT_ERROR_RECOVERY then Inr (TCP_DPM_RET_SENT, PE_TRANSIT_STATE PE_ERROR_RECOVERY t)
      else Inr (TCP_DPM_RET_DENIED_UNKNOWN, t))"

definition pd_process_event_tcp :: "tcpc_device \<Rightarrow> (bool \<times> tcpc_device) kres" where
  "pd_process_event_tcp t =
     kbind (pd_handle_tcp_dpm_event t)
       (\<lambda>(ret, t). Inr (ret = TCP_DPM_RET_SENT, pd_notify_tcp_event_1st_result ret t))"

end
