(* ===== verification/Pe_Vdm.thy ===== *)
theory Pe_Vdm
  imports Pe_Tcp
begin

unbundle bit_operations_syntax

text \<open>
  Vendor defined messages (\<open>pd_process_evt_vdm.c\<close>): the table of commands, the transitions
  on a request of the partner and on the answer to a request of this port, custom messages,
  and the requests of the port manager.
\<close>

abbreviation (input) CMDT_RSP_NAK :: nat where "CMDT_RSP_NAK \<equiv> 2"
abbreviation (input) CMDT_RSP_BUSY :: nat where "CMDT_RSP_BUSY \<equiv> 3"
abbreviation (input) CMD_DISCOVER_IDENT :: nat where "CMD_DISCOVER_IDENT \<equiv> 1"
abbreviation (input) CMD_DISCOVER_SVID :: nat where "CMD_DISCOVER_SVID \<equiv> 2"
abbreviation (input) CMD_DISCOVER_MODES :: nat where "CMD_DISCOVER_MODES \<equiv> 3"
abbreviation (input) CMD_ENTER_MODE :: nat where "CMD_ENTER_MODE \<equiv> 4"
abbreviation (input) CMD_EXIT_MODE :: nat where "CMD_EXIT_MODE \<equiv> 5"
abbreviation (input) CMD_DP_STATUS :: nat where "CMD_DP_STATUS \<equiv> 16"
abbreviation (input) CMD_DP_CONFIG :: nat where "CMD_DP_CONFIG \<equiv> 17"
abbreviation (input) USB_SID_PD :: "16 word" where "USB_SID_PD \<equiv> 0xff00"
abbreviation (input) USB_SID_DISPLAYPORT :: "16 word" where "USB_SID_DISPLAYPORT \<equiv> 0xff01"
abbreviation (input) USB_VID_MQP :: "16 word" where "USB_VID_MQP \<equiv> 0x1748"

abbreviation (input) VDM_CMD_FLAG_CABLE_CMD :: "8 word" where "VDM_CMD_FLAG_CABLE_CMD \<equiv> 1"
abbreviation (input) VDM_CMD_FLAG_SEND_BY_UFP :: "8 word" where "VDM_CMD_FLAG_SEND_BY_UFP \<equiv> 2"
abbreviation (input) VDM_CMD_FLAG_SEND_BY_DFP :: "8 word" where "VDM_CMD_FLAG_SEND_BY_DFP \<equiv> 4"
abbreviation (input) VDM_CMD_FLAG_RECV_BY_UFP :: "8 word" where "VDM_CMD_FLAG_RECV_BY_UFP \<equiv> 8"
abbreviation (input) VDM_CMD_FLAG_RECV_BY_DFP :: "8 word" where "VDM_CMD_FLAG_RECV_BY_DFP \<equiv> 16"
abbreviation (input) VDM_CMD_FLAG_PD30_DUPLEX :: "8 word" where "VDM_CMD_FLAG_PD30_DUPLEX \<equiv> 32"

abbreviation (input) VDM_STATE_FLAG_ENABLE_VDM_RESPONSE_TIMER :: "8 word" where
  "VDM_STATE_FLAG_ENABLE_VDM_RESPONSE_TIMER \<equiv> 1"
abbreviation (input) VDM_STATE_FLAG_DPM_ACK_IMMEDIATELY :: "8 word" where
  "VDM_STATE_FLAG_DPM_ACK_IMMEDIATELY \<equiv> 16"
abbreviation (input) VDM_STATE_FLAG_BACK_READY_IF_DPM_ACK :: "8 word" where
  "VDM_STATE_FLAG_BACK_READY_IF_DPM_ACK \<equiv> 64"
abbreviation (input) VDM_STATE_FLAG_BACK_READY_IF_RECV_GOOD_CRC :: "8 word" where
  "VDM_STATE_FLAG_BACK_READY_IF_RECV_GOOD_CRC \<equiv> 128"

abbreviation (input) TCP_DPM_EVT_DISCOVER_ID :: nat where "TCP_DPM_EVT_DISCOVER_ID \<equiv> 29"
abbreviation (input) TCP_DPM_EVT_DISCOVER_SVIDS :: nat where "TCP_DPM_EVT_DISCOVER_SVIDS \<equiv> 30"
abbreviation (input) TCP_DPM_EVT_DISCOVER_MODES :: nat where "TCP_DPM_EVT_DISCOVER_MODES \<equiv> 31"
abbreviation (input) TCP_DPM_EVT_ENTER_MODE :: nat where "TCP_DPM_EVT_ENTER_MODE \<equiv> 32"
abbreviation (input) TCP_DPM_EVT_EXIT_MODE :: nat where "TCP_DPM_EVT_EXIT_MODE \<equiv> 33"
abbreviation (input) TCP_DPM_EVT_ATTENTION :: nat where "TCP_DPM_EVT_ATTENTION \<equiv> 34"
abbreviation (input) TCP_DPM_EVT_DP_ATTENTION :: nat where "TCP_DPM_EVT_DP_ATTENTION \<equiv> 35"
abbreviation (input) TCP_DPM_EVT_DP_STATUS_UPDATE :: nat where "TCP_DPM_EVT_DP_STATUS_UPDATE \<equiv> 36"
abbreviation (input) TCP_DPM_EVT_DP_CONFIG :: nat where "TCP_DPM_EVT_DP_CONFIG \<equiv> 37"
abbreviation (input) TCP_DPM_EVT_UVDM :: nat where "TCP_DPM_EVT_UVDM \<equiv> 38"

definition upd_vdm :: "(vdm_info \<Rightarrow> vdm_info) \<Rightarrow> tcpc_device \<Rightarrow> tcpc_device" where
  "upd_vdm f = upd_port (\<lambda>p. p\<lparr>vdm_info := f (vdm_info p)\<rparr>)"

section \<open>The table of commands\<close>

record vdm_state_transition =
  vdm_cmd :: nat
  vdm_init_state :: pe_state
  vdm_request_state :: pe_state
  vdm_cmd_flags :: "8 word"

definition VDM_CMD_REACTION :: "nat \<Rightarrow> pe_state \<Rightarrow> pe_state \<Rightarrow> 8 word \<Rightarrow> vdm_state_transition" where
  "VDM_CMD_REACTION cmd i req flags =
     \<lparr>vdm_cmd = cmd, vdm_init_state = i, vdm_request_state = req, vdm_cmd_flags = flags\<rparr>"

definition VDM_DFP_CMD_REACTION :: "nat \<Rightarrow> pe_state \<Rightarrow> pe_state \<Rightarrow> vdm_state_transition" where
  "VDM_DFP_CMD_REACTION cmd i req =
     VDM_CMD_REACTION cmd i req (VDM_CMD_FLAG_SEND_BY_DFP OR VDM_CMD_FLAG_RECV_BY_UFP)"

definition VDM_CABLE_CMD_REACTION :: "nat \<Rightarrow> pe_state \<Rightarrow> pe_state \<Rightarrow> vdm_state_transition" where
  "VDM_CABLE_CMD_REACTION cmd i req =
     VDM_CMD_REACTION cmd i req (VDM_CMD_FLAG_SEND_BY_UFP OR VDM_CMD_FLAG_SEND_BY_DFP OR VDM_CMD_FLAG_CABLE_CMD)"

definition VDM_DFP_CMD_REACTION_PD30 :: "nat \<Rightarrow> pe_state \<Rightarrow> pe_state \<Rightarrow> vdm_state_transition" where
  "VDM_DFP_CMD_REACTION_PD30 cmd i req =
     VDM_CMD_REACTION cmd i req (VDM_CMD_FLAG_SEND_BY_DFP OR VDM_CMD_FLAG_RECV_BY_UFP OR VDM_CMD_FLAG_PD30_DUPLEX)"

definition VDM_UFP_CMD_REACTION_PD30 :: "nat \<Rightarrow> pe_state \<Rightarrow> pe_state \<Rightarrow> vdm_state_transition" where
  "VDM_UFP_CMD_REACTION_PD30 cmd i req =
     VDM_CMD_REACTION cmd i req (VDM_CMD_FLAG_SEND_BY_UFP OR VDM_CMD_FLAG_RECV_BY_DFP OR VDM_CMD_FLAG_PD30_DUPLEX)"

definition pe_vdm_state_reactions :: "vdm_state_transition list" where
  "pe_vdm_state_reactions =
     [VDM_DFP_CMD_REACTION_PD30 CMD_DISCOVER_IDENT PE_UFP_VDM_GET_IDENTITY PE_DFP_UFP_VDM_IDENTITY_REQUEST,
      VDM_DFP_CMD_REACTION_PD30 CMD_DISCOVER_SVID PE_UFP_VDM_GET_SVIDS PE_DFP_VDM_SVIDS_REQUEST,
      VDM_DFP_CMD_REACTION_PD30 CMD_DISCOVER_MODES PE_UFP_VDM_GET_MODES PE_DFP_VDM_MODES_REQUEST,
      VDM_DFP_CMD_REACTION CMD_ENTER_MODE PE_UFP_VDM_EVALUATE_MODE_ENTRY PE_DFP_VDM_MODE_ENTRY_REQUEST,
      VDM_DFP_CMD_REACTION CMD_EXIT_MODE PE_UFP_VDM_MODE_EXIT PE_DFP_VDM_MODE_EXIT_REQUEST,
      VDM_UFP_CMD_REACTION_PD30 CMD_ATTENTION PE_DFP_VDM_ATTENTION_REQUEST PE_UFP_VDM_ATTENTION_REQUEST,
      VDM_DFP_CMD_REACTION CMD_DP_STATUS PE_UFP_VDM_DP_STATUS_UPDATE PE_DFP_VDM_DP_STATUS_UPDATE_REQUEST,
      VDM_DFP_CMD_REACTION CMD_DP_CONFIG PE_UFP_VDM_DP_CONFIGURE PE_DFP_VDM_DP_CONFIGURATION_REQUEST,
      VDM_DFP_CMD_REACTION_PD30 0 PE_UFP_UVDM_RECV PE_DFP_UVDM_SEND,
      VDM_CABLE_CMD_REACTION CMD_DISCOVER_IDENT 0 PE_SRC_VDM_IDENTITY_REQUEST,
      VDM_CABLE_CMD_REACTION CMD_DISCOVER_IDENT 0 PE_DFP_CBL_VDM_IDENTITY_REQUEST]"

definition pd_vdm_state_transit_rx :: "vdm_state_transition \<Rightarrow> tcpc_device \<Rightarrow> bool \<times> tcpc_device" where
  "pd_vdm_state_transit_rx st t =
     (if \<not> pd_check_pe_state_ready t then (False, t) else transit (vdm_init_state st) t)"

text \<open>The states of an answer follow the state of the request in the enumeration.\<close>

definition pd_vdm_state_transit_tx :: "nat \<Rightarrow> vdm_state_transition \<Rightarrow> tcpc_device \<Rightarrow> bool \<times> tcpc_device" where
  "pd_vdm_state_transit_tx vdm_cmdt st t =
     (let curr_state = vdm_request_state st;
          (ret_code, s) =
            (if vdm_cmdt = CMDT_RSP_NAK
             then (TCP_DPM_RET_VDM_NAK,
                   if curr_state \<noteq> PE_DFP_VDM_MODE_EXIT_REQUEST then curr_state + 2 else curr_state + 1)
             else if vdm_cmdt = CMDT_RSP_BUSY
             then (TCP_DPM_RET_VDM_NAK,
                   if curr_state = PE_DFP_VDM_MODE_EXIT_REQUEST then curr_hreset_state (pd_port t) else curr_state + 2)
             else (TCP_DPM_RET_VDM_ACK, curr_state + 1))
      in transit s (pd_notify_tcp_vdm_event_2nd_result ret_code t))"

definition vdm_is_state_transition_available :: "bool \<Rightarrow> vdm_state_transition \<Rightarrow> pd_port \<Rightarrow> bool" where
  "vdm_is_state_transition_available recv st p \<longleftrightarrow>
     (let flags = vdm_cmd_flags st;
          shift = 1 + (if data_role p = PD_ROLE_DFP then 1 else 0) + (if recv then 2 else 0)
      in if pd_check_rev30 p \<and> has_flag flags VDM_CMD_FLAG_PD30_DUPLEX then True
         else has_flag flags (push_bit shift 1))"

definition pd_vdm_state_transit :: "nat \<Rightarrow> vdm_state_transition \<Rightarrow> tcpc_device \<Rightarrow> bool \<times> tcpc_device" where
  "pd_vdm_state_transit vdm_cmdt st t =
     (if curr t = PE_UFP_VDM_ATTENTION_REQUEST
      then (False, pd_notify_tcp_vdm_event_2nd_result TCP_DPM_RET_TIMEOUT
              (upd_pe (\<lambda>d. d\<lparr>vdm_state_flags := VDM_STATE_FLAG_BACK_READY_IF_DPM_ACK OR
                                                 VDM_STATE_FLAG_DPM_ACK_IMMEDIATELY\<rparr>) t))
      else if vdm_cmdt = CMDT_INIT
      then if \<not> vdm_is_state_transition_available True st (pd_port t) then (False, t)
           else pd_vdm_state_transit_rx st t
      else if \<not> vdm_is_state_transition_available False st (pd_port t) then (False, t)
      else if curr t \<noteq> vdm_request_state st then (False, t)
      else pd_vdm_state_transit_tx vdm_cmdt st t)"

datatype vdm_transit_type = VDM_STATE_TRANSIT_SOP_CMD | VDM_STATE_TRANSIT_SOP_PRIME_CMD | VDM_STATE_TRANSIT_NAK

text \<open>
  \<open>Some cmdt\<close> when the entry of the table applies, with the command type that the code hands
  back through a pointer.
\<close>

definition pe_check_vdm_state_transit_valid ::
  "vdm_transit_type \<Rightarrow> vdm_state_transition \<Rightarrow> tcpc_device \<Rightarrow> nat option" where
  "pe_check_vdm_state_transit_valid transit_type st t =
     (let hdr = curr_vdm_hdr (vdm_info (pd_port t));
          cable_cmd = has_flag (vdm_cmd_flags st) VDM_CMD_FLAG_CABLE_CMD
      in if transit_type = VDM_STATE_TRANSIT_NAK
         then if curr t \<noteq> vdm_request_state st then None else Some CMDT_RSP_BUSY
         else if vdm_cmd st \<noteq> PD_VDO_CMD hdr then None
         else if cable_cmd \<noteq> (transit_type = VDM_STATE_TRANSIT_SOP_PRIME_CMD) then None
         else if cable_cmd \<and> curr t \<noteq> vdm_request_state st then None
         else Some (PD_VDO_CMDT hdr))"

primrec vdm_state_transit_loop ::
  "vdm_transit_type \<Rightarrow> vdm_state_transition list \<Rightarrow> tcpc_device \<Rightarrow> bool \<times> tcpc_device" where
  "vdm_state_transit_loop ty [] t = (False, t)"
| "vdm_state_transit_loop ty (st # sts) t =
     (case pe_check_vdm_state_transit_valid ty st t of
        None \<Rightarrow> vdm_state_transit_loop ty sts t
      | Some cmdt \<Rightarrow> pd_vdm_state_transit cmdt st t)"

definition pd_make_vdm_state_transit :: "vdm_transit_type \<Rightarrow> tcpc_device \<Rightarrow> bool \<times> tcpc_device" where
  "pd_make_vdm_state_transit ty t = vdm_state_transit_loop ty pe_vdm_state_reactions t"

text \<open>
  \<open>pd_make_vdm_state_transit\<close> with a state as its second argument (\<open>VDM_STATE_TRANSIT_CHECK_TX\<close>
  and above): whether this port may send the request.
\<close>

primrec check_tx_loop :: "vdm_state_transition list \<Rightarrow> pe_state \<Rightarrow> pd_port \<Rightarrow> bool" where
  "check_tx_loop [] s p = False"
| "check_tx_loop (st # sts) s p =
     (if vdm_request_state st = s then vdm_is_state_transition_available False st p else check_tx_loop sts s p)"

definition pd_check_tcp_msg_valid :: "pe_state \<Rightarrow> pd_port \<Rightarrow> bool" where
  "pd_check_tcp_msg_valid s p = check_tx_loop pe_vdm_state_reactions s p"

definition PD_DPM_MSG_DISCOVER_CABLE :: "(pe_state \<times> pe_state) list" where
  "PD_DPM_MSG_DISCOVER_CABLE =
     [(PE_SRC_STARTUP, PE_SRC_VDM_IDENTITY_REQUEST), (PE_SRC_DISCOVERY, PE_SRC_VDM_IDENTITY_REQUEST),
      (PE_SRC_READY, PE_DFP_CBL_VDM_IDENTITY_REQUEST), (PE_SNK_READY, PE_DFP_CBL_VDM_IDENTITY_REQUEST),
      (PE_SRC_CBL_SEND_SOFT_RESET, PE_SRC_VDM_IDENTITY_REQUEST)]"

section \<open>Messages\<close>

definition pd_process_ctrl_msg_vdm :: "tcpc_device \<Rightarrow> bool \<times> tcpc_device" where
  "pd_process_ctrl_msg_vdm t =
     (if msg (evt t) \<noteq> PD_CTRL_GOOD_CRC then (False, t)
      else let
        flags = vdm_state_flags (pe_data (pd_port t));
        t = (if has_flag flags VDM_STATE_FLAG_ENABLE_VDM_RESPONSE_TIMER
             then act (EnableTimer (vdm_state_timer (pd_port t))) t else t);
        back = (\<lambda>t. if has_flag flags VDM_STATE_FLAG_BACK_READY_IF_RECV_GOOD_CRC
                    then (True, pe_transit_ready_state t) else (False, t))
      in if curr t = PE_UFP_VDM_ATTENTION_REQUEST then back (pd_notify_tcp_vdm_event_2nd_result TCP_DPM_RET_VDM_ACK t)
         else if curr t = PE_SRC_VDM_IDENTITY_REQUEST \<or> curr t = PE_DFP_CBL_VDM_IDENTITY_REQUEST
         then (False, upd_port (\<lambda>p. p\<lparr>power_cable_present := True\<rparr>) t)
         else if curr t = PE_DFP_UVDM_SEND \<and> \<not> uvdm_wait_resp (vdm_info (pd_port t)) then transit PE_DFP_UVDM_ACKED t
         else back t)"

definition pd_process_custom_vdm :: "bool \<Rightarrow> tcpc_device \<Rightarrow> bool \<times> tcpc_device" where
  "pd_process_custom_vdm svdm t =
     (let recv = (data_role (pd_port t) = PD_ROLE_UFP \<or> pd_check_rev30 (pd_port t) \<and> svdm)
      in if pd_check_pe_state_ready t \<and> recv then transit PE_UFP_UVDM_RECV t
         else if \<not> pd_check_pe_state_ready t \<and> curr t = PE_DFP_UVDM_SEND then transit PE_DFP_UVDM_ACKED t
         else (False, pd_put_dpm_event PD_DPM_NOT_SUPPORT t))"

definition pd_process_uvdm :: "pd_msg \<Rightarrow> tcpc_device \<Rightarrow> bool \<times> tcpc_device" where
  "pd_process_uvdm pm t =
     (if frame_type pm \<noteq> TCPC_TX_SOP then (False, t) else pd_process_custom_vdm False t)"

definition pd_process_sop_vdm :: "tcpc_device \<Rightarrow> bool \<times> tcpc_device" where
  "pd_process_sop_vdm t =
     or_else (pd_make_vdm_state_transit VDM_STATE_TRANSIT_SOP_CMD t) (pd_process_custom_vdm True)"

definition pd_process_data_msg_vdm :: "tcpc_device \<Rightarrow> (bool \<times> tcpc_device) kres" where
  "pd_process_data_msg_vdm t =
     (if msg (evt t) \<noteq> PD_DATA_VENDOR_DEF then Inr (False, t)
      else case pd_msg (evt t) of
        None \<Rightarrow> Inl NullDeref
      | Some m \<Rightarrow>
          (let hdr = vdm_header m t; pm = pd_msg_buffer t ! m; svid = ucast (drop_bit 16 hdr);
               t = upd_vdm (\<lambda>v. v\<lparr>curr_vdm_hdr := hdr, curr_vdm_ops := unat (drop_bit 8 hdr AND 7),
                                  curr_vdm_svid := svid\<rparr>) t
           in if \<not> PD_VDO_SVDM hdr then Inr (pd_process_uvdm pm t)
              else let
                t = (if PD_VDO_CMDT hdr = CMDT_INIT
                     then upd_port (\<lambda>p. p\<lparr>pe_vdm_state := pe_pd_state p, pe_state_curr := pe_pd_state p\<rparr>) t else t)
              in if svid \<noteq> USB_SID_PD \<and> svid \<notin> set (map sd_svid (svid_data (vdm_info (pd_port t)))) \<and> svid \<noteq> USB_VID_MQP
                 then Inr (transit PE_UFP_VDM_SEND_NAK t)
                 else if frame_type pm = TCPC_TX_SOP_PRIME
                 then Inr (pd_make_vdm_state_transit VDM_STATE_TRANSIT_SOP_PRIME_CMD t)
                 else Inr (pd_process_sop_vdm t)))"

definition pd_process_dpm_msg_vdm :: "tcpc_device \<Rightarrow> bool \<times> tcpc_device" where
  "pd_process_dpm_msg_vdm t =
     (if msg (evt t) = PD_DPM_ACK \<and>
         has_flag (vdm_state_flags (pe_data (pd_port t))) VDM_STATE_FLAG_BACK_READY_IF_DPM_ACK
      then (True, pe_transit_ready_state t) else (False, t))"

definition pd_process_hw_msg_vdm :: "tcpc_device \<Rightarrow> bool \<times> tcpc_device" where
  "pd_process_hw_msg_vdm t =
     (let m = msg (evt t);
          t = (if m = PD_HW_TX_DISCARD \<and> vdm_discard_retry_count (pe_data (pd_port t)) < 10
               then upd_pe (\<lambda>d. d\<lparr>vdm_discard_retry_flag := True,
                                  vdm_discard_retry_count := vdm_discard_retry_count d + 1\<rparr>) t else t)
      in if m = PD_HW_TX_FAILED \<or> m = PD_HW_TX_DISCARD then pd_make_vdm_state_transit VDM_STATE_TRANSIT_NAK t
         else if m = PD_HW_RETRY_VDM
         then if vdm_state_timer (pd_port t) \<noteq> 0 then pd_make_vdm_state_transit VDM_STATE_TRANSIT_NAK t
              else pd_process_sop_vdm t
         else (False, t))"

definition pd_process_pe_msg_vdm :: "tcpc_device \<Rightarrow> bool \<times> tcpc_device" where
  "pd_process_pe_msg_vdm t =
     (let m = msg (evt t)
      in if m = PD_PE_VDM_NOT_SUPPORT then pd_make_vdm_state_transit VDM_STATE_TRANSIT_NAK t
         else if m = PD_PE_VDM_RESET
         then pd_make_vdm_state_transit VDM_STATE_TRANSIT_NAK (upd_pe (\<lambda>d. d\<lparr>reset_vdm_state := True\<rparr>) t)
         else (False, t))"

definition pd_process_timer_msg_vdm :: "tcpc_device \<Rightarrow> bool \<times> tcpc_device" where
  "pd_process_timer_msg_vdm t =
     (let m = msg (evt t)
      in if m = PD_TIMER_VDM_MODE_ENTRY \<or> m = PD_TIMER_VDM_MODE_EXIT \<or> m = PD_TIMER_VDM_RESPONSE \<or>
            m = PD_TIMER_UVDM_RESPONSE
         then pd_make_vdm_state_transit VDM_STATE_TRANSIT_NAK t else (False, t))"

section \<open>Requests of the port manager\<close>

definition tcp_vdm_evt_init_state :: "pe_state list" where
  "tcp_vdm_evt_init_state =
     [PE_DFP_UFP_VDM_IDENTITY_REQUEST, PE_DFP_VDM_SVIDS_REQUEST, PE_DFP_VDM_MODES_REQUEST,
      PE_DFP_VDM_MODE_ENTRY_REQUEST, PE_DFP_VDM_MODE_EXIT_REQUEST, PE_UFP_VDM_ATTENTION_REQUEST,
      PE_UFP_VDM_ATTENTION_REQUEST, PE_DFP_VDM_DP_STATUS_UPDATE_REQUEST, PE_DFP_VDM_DP_CONFIGURATION_REQUEST,
      PE_DFP_UVDM_SEND]"

definition pd_process_tcp_cable_event :: "tcpc_device \<Rightarrow> bool \<times> tcpc_device" where
  "pd_process_tcp_cable_event t =
     (let role_check = (pd_check_rev30 (pd_port t) \<longrightarrow> vconn_role (pd_port t) \<noteq> PD_ROLE_VCONN_OFF)
      in if role_check
         then let (ret, t) = pd_make_pe_state_transit PD_DPM_MSG_DISCOVER_CABLE t
              in (ret, pd_notify_tcp_event_1st_result (if ret then TCP_DPM_RET_SENT else TCP_DPM_RET_DENIED_NOT_READY) t)
         else (False, pd_notify_tcp_event_1st_result TCP_DPM_RET_DENIED_WRONG_DATA_ROLE t))"

definition tcpc_update_bits :: "32 word \<Rightarrow> 32 word \<Rightarrow> 32 word \<Rightarrow> 32 word" where
  "tcpc_update_bits var update m = (var AND NOT m) OR (update AND m)"

definition pd_parse_tcp_dpm_evt_svdm :: "tcpc_device \<Rightarrow> tcpc_device" where
  "pd_parse_tcp_dpm_evt_svdm t =
     upd_vdm (\<lambda>v. v\<lparr>mode_svid := ucast (tcp_word 0 t), mode_obj_pos := unat (drop_bit 16 (tcp_word 0 t) AND 0xFF)\<rparr>) t"

definition pd_parse_tcp_dpm_evt_dp_status :: "tcpc_device \<Rightarrow> tcpc_device" where
  "pd_parse_tcp_dpm_evt_dp_status t =
     upd_pe (\<lambda>d. d\<lparr>dp_local_status := tcpc_update_bits (dp_local_status d) (tcp_word 0 t) (tcp_word 1 t)\<rparr>)
       (upd_vdm (\<lambda>v. v\<lparr>mode_svid := USB_SID_DISPLAYPORT\<rparr>) t)"

definition pd_parse_tcp_dpm_evt_dp_config :: "tcpc_device \<Rightarrow> tcpc_device" where
  "pd_parse_tcp_dpm_evt_dp_config t =
     upd_pe (\<lambda>d. d\<lparr>dp_local_config := tcpc_update_bits (dp_local_config d) (tcp_word 0 t) (tcp_word 1 t)\<rparr>)
       (upd_vdm (\<lambda>v. v\<lparr>mode_svid := USB_SID_DISPLAYPORT\<rparr>) t)"

text \<open>
  The first word of a custom message holds \<open>wait_resp\<close> and the count, the objects follow. The
  count is not checked; both arrays have seven elements.
\<close>

definition pd_parse_tcp_dpm_evt_uvdm :: "tcpc_device \<Rightarrow> tcpc_device kres" where
  "pd_parse_tcp_dpm_evt_uvdm t =
     (let cnt = unat (drop_bit 8 (tcp_word 0 t) AND 0xFF); wait_resp = (tcp_word 0 t AND 0xFF \<noteq> 0);
          old = uvdm_data (vdm_info (pd_port t))
      in if cnt > 7 then Inl OutOfBounds
         else let data = map (\<lambda>i. tcp_word (i + 1) t) [0..<cnt] @ drop cnt old;
                  data = (if pd_check_rev30 (pd_port t) \<and> has_flag (data ! 0) (push_bit 15 1)
                          then data[0 := data ! 0 OR push_bit 13 1] else data)
              in Inr (upd_vdm (\<lambda>v. v\<lparr>uvdm_cnt := cnt, uvdm_wait_resp := wait_resp, uvdm_data := data\<rparr>) t))"

definition pd_parse_tcp_dpm_evt_from_tcpm :: "tcpc_device \<Rightarrow> tcpc_device kres" where
  "pd_parse_tcp_dpm_evt_from_tcpm t =
     (let m = msg (evt t)
      in if m = TCP_DPM_EVT_DISCOVER_SVIDS then Inr (upd_pe (\<lambda>d. d\<lparr>remote_svids := []\<rparr>) t)
         else if m = TCP_DPM_EVT_DISCOVER_MODES \<or> m = TCP_DPM_EVT_ENTER_MODE \<or> m = TCP_DPM_EVT_EXIT_MODE \<or>
                 m = TCP_DPM_EVT_ATTENTION
         then Inr (pd_parse_tcp_dpm_evt_svdm t)
         else if m = TCP_DPM_EVT_DP_ATTENTION \<or> m = TCP_DPM_EVT_DP_STATUS_UPDATE
         then Inr (pd_parse_tcp_dpm_evt_dp_status t)
         else if m = TCP_DPM_EVT_DP_CONFIG then Inr (pd_parse_tcp_dpm_evt_dp_config t)
         else if m = TCP_DPM_EVT_UVDM then pd_parse_tcp_dpm_evt_uvdm t
         else Inr t)"

text \<open>
  \<open>new_state = pd_event->msg - TCP_DPM_EVT_DISCOVER_ID\<close> is a byte; \<open>PD_BUG_ON\<close> only warns.
\<close>

definition pd_process_tcp_msg_vdm :: "tcpc_device \<Rightarrow> (bool \<times> tcpc_device) kres" where
  "pd_process_tcp_msg_vdm t =
     (let m = msg (evt t); i = u8 (m + 256 - TCP_DPM_EVT_DISCOVER_ID)
      in if m = TCP_DPM_EVT_DISCOVER_CABLE then Inr (pd_process_tcp_cable_event t)
         else if \<not> pd_check_pe_state_ready t
         then Inr (False, pd_notify_tcp_event_1st_result TCP_DPM_RET_DENIED_NOT_READY t)
         else if i \<ge> length tcp_vdm_evt_init_state then Inr (False, t)
         else let s = tcp_vdm_evt_init_state ! i
              in if \<not> pd_check_tcp_msg_valid s (pd_port t)
                 then Inr (False, pd_notify_tcp_event_1st_result TCP_DPM_RET_DENIED_WRONG_DATA_ROLE t)
                 else kbind (if msg_sec (evt t) = PD_TCP_FROM_TCPM then pd_parse_tcp_dpm_evt_from_tcpm t else Inr t)
                        (\<lambda>t. Inr (True, pd_notify_tcp_event_1st_result TCP_DPM_RET_SENT (PE_TRANSIT_STATE s t))))"

definition pd_process_event_vdm :: "tcpc_device \<Rightarrow> (bool \<times> tcpc_device) kres" where
  "pd_process_event_vdm t =
     (let t = upd_pe (\<lambda>d. d\<lparr>vdm_discard_retry_flag := False\<rparr>) t; ty = event_type (evt t)
      in if ty = PD_EVT_CTRL_MSG then Inr (pd_process_ctrl_msg_vdm t)
         else if ty = PD_EVT_DATA_MSG then pd_process_data_msg_vdm t
         else if ty = PD_EVT_DPM_MSG then Inr (pd_process_dpm_msg_vdm t)
         else if ty = PD_EVT_HW_MSG then Inr (pd_process_hw_msg_vdm t)
         else if ty = PD_EVT_PE_MSG then Inr (pd_process_pe_msg_vdm t)
         else if ty = PD_EVT_TIMER_MSG then Inr (pd_process_timer_msg_vdm t)
         else if ty = PD_EVT_TCP_MSG then pd_process_tcp_msg_vdm t
         else Inr (False, t))"

end
