(* ===== verification/Pe_Event.thy ===== *)
theory Pe_Event
  imports Pe_Vdm
begin

unbundle bit_operations_syntax

text \<open>
  \<open>pd_process_event\<close> of \<open>pd_process_evt.c\<close>: an event passes the idle trap and the checks
  on a received message, and goes to the vendor messages, to the requests of the port
  manager, to the cable, or to the common part, the swap in progress and the sink or the
  source, in this order.
\<close>

text \<open>
  A lost message is made up on the chip SC2150A only. Whatever the state is, the message
  in hand is not processed.
\<close>

definition pe_recover_miss_msg :: "tcpc_device \<Rightarrow> (bool \<times> tcpc_device) kres" where
  "pe_recover_miss_msg t =
     (let s = pe_pd_state (pd_port t); m = msg (evt t);
          clear = (\<lambda>t. Inr (False, upd_port (\<lambda>p. p\<lparr>miss_msg := False\<rparr>) t))
      in if s = PE_SNK_TRANSITION_SINK then kbind (pd_add_miss_msg PD_CTRL_PS_RDY t) clear
         else if s = PE_SNK_SELECT_CAPABILITY
         then if m = PD_CTRL_PS_RDY then kbind (pd_add_miss_msg PD_CTRL_ACCEPT t) clear
              else if m = PD_DATA_SOURCE_CAP then kbind (pd_add_miss_msg PD_CTRL_REJECT t) clear
              else clear t
         else clear t)"

definition pe_dispatch :: "chip_env \<Rightarrow> tcpc_device \<Rightarrow> (bool \<times> tcpc_device) kres" where
  "pe_dispatch env t =
     (let e = evt t; role_machine = (\<lambda>t. if power_role (pd_port t) = PD_ROLE_SINK then pd_process_event_snk t
                                          else pd_process_event_src t)
      in if curr_is_vdm_evt (pd_port t) then pd_process_event_vdm t
         else if event_type e = PD_EVT_TCP_MSG then pd_process_event_tcp t
         else if event_type e = PD_EVT_CTRL_MSG \<and> msg e \<noteq> PD_CTRL_GOOD_CRC \<and>
                 (case pd_msg e of None \<Rightarrow> False | Some m \<Rightarrow> frame_type (pd_msg_buffer t ! m) \<noteq> TCPC_TX_SOP)
         then pd_process_event_cable t
         else kbind (pd_process_event_com env t) (\<lambda>(ret, t).
           if ret then Inr (True, t)
           else let sm = state_machine (pd_port t);
                    (ret, t) = (if sm = PE_STATE_MACHINE_DR_SWAP then pd_process_event_drs t
                                else if sm = PE_STATE_MACHINE_PR_SWAP then pd_process_event_prs t
                                else if sm = PE_STATE_MACHINE_VCONN_SWAP then pd_process_event_vcs t
                                else (False, t))
                in if ret then Inr (True, t) else role_machine t))"

text \<open>The part after the checks on a received message.\<close>

definition pe_handle :: "chip_env \<Rightarrow> tcpc_device \<Rightarrow> (bool \<times> tcpc_device) kres" where
  "pe_handle env t = kbind (pd_copy_msg_data_from_evt t) (pe_dispatch env)"

text \<open>The checks on a received message, \<open>event_type < PD_EVT_PD_MSG_END\<close> with a message.\<close>

definition pe_check_pd_msg :: "chip_env \<Rightarrow> pd_msg \<Rightarrow> tcpc_device \<Rightarrow> (bool \<times> tcpc_device) kres" where
  "pe_check_pd_msg env pm t =
     kbind (pe_is_valid_pd_msg_id pm t) (\<lambda>(ok, t).
       if \<not> ok then Inr (False, t)
       else if \<not> pe_is_valid_pd_msg_role pm t then Inr (transit PE_ERROR_RECOVERY t)
       else if chip_rv env = 0 \<and> chip_id env = SC2150A_DID \<and> miss_msg (pd_port t) then pe_recover_miss_msg t
       else pe_handle env t)"

definition pd_process_event :: "chip_env \<Rightarrow> tcpc_device \<Rightarrow> (bool \<times> tcpc_device) kres" where
  "pd_process_event env t =
     (case pe_check_trap_in_idle_state t of
        (TII_TRAP_IN_IDLE, t) \<Rightarrow> Inr (False, t)
      | (TII_TRANSIT_STATE, t) \<Rightarrow> Inr (True, t)
      | (TII_PE_RUNNING, t) \<Rightarrow>
          (let t = pe_init_curr_state t; m = pd_msg (evt t)
           in if event_type (evt t) = PD_EVT_PD_MSG \<and> m = None then Inl NullDeref
              else let t = (if event_type (evt t) = PD_EVT_PD_MSG
                            then pe_translate_pd_msg_event (pd_msg_buffer t ! the m) t else t)
                   in if event_type (evt t) < PD_EVT_PD_MSG_END \<and> m \<noteq> None
                      then pe_check_pd_msg env (pd_msg_buffer t ! the m) t else pe_handle env t))"

end
