(* ===== verification/Pe_Frame.thy ===== *)
theory Pe_Frame
  imports Pe_Event
begin

unbundle bit_operations_syntax

text \<open>
  What the operations that the handlers call leave alone. \<open>pe_view\<close> is the part of the port
  by which a handler chooses the next state: the power role, the current state and the
  three states of the role, and the next state; and what no handler may change: the state of
  the engine, whether there is a contract, and whether the event is a vendor message
  (\<open>pe_kept\<close>). The lemmas of \<open>view\<close> say that an operation keeps it.
\<close>

named_theorems view

definition pe_kept :: "pd_port \<Rightarrow> pe_state \<times> bool \<times> bool" where
  "pe_kept p = (pe_pd_state p, explicit_contract p, curr_is_vdm_evt p)"

definition pe_view ::
  "tcpc_device \<Rightarrow> (pe_state \<times> bool \<times> bool) \<times> nat \<times> pe_state \<times> pe_state \<times> pe_state \<times> pe_state \<times> pe_state" where
  "pe_view t =
     (pe_kept (pd_port t), power_role (pd_port t), curr t, curr_ready_state (pd_port t), curr_hreset_state (pd_port t),
      curr_sreset_state (pd_port t), next_state t)"

lemma view_fields:
  assumes "pe_view a = pe_view b"
  shows "power_role (pd_port a) = power_role (pd_port b)" "curr a = curr b"
    "curr_ready_state (pd_port a) = curr_ready_state (pd_port b)"
    "curr_hreset_state (pd_port a) = curr_hreset_state (pd_port b)"
    "curr_sreset_state (pd_port a) = curr_sreset_state (pd_port b)" "next_state a = next_state b"
    "pe_kept (pd_port a) = pe_kept (pd_port b)"
  using assms by (simp_all add: pe_view_def Let_def)

lemma kept_simps [simp]:
  "pe_kept (p\<lparr>during_swap := b\<rparr>) = pe_kept p" "pe_kept (p\<lparr>state_machine := n\<rparr>) = pe_kept p"
  "pe_kept (p\<lparr>pe_state_next := n\<rparr>) = pe_kept p" "pe_kept (p\<lparr>pe_state_curr := n\<rparr>) = pe_kept p"
  "pe_kept (p\<lparr>pe_vdm_state := n\<rparr>) = pe_kept p" "pe_kept (p\<lparr>msg_id_tx := l\<rparr>) = pe_kept p"
  "pe_kept (p\<lparr>pe_data := d\<rparr>) = pe_kept p" "pe_kept (p\<lparr>vdm_info := v\<rparr>) = pe_kept p"
  by (simp_all add: pe_kept_def)

lemma view_port: "pd_port a = pd_port b \<Longrightarrow> pe_view a = pe_view b"
  by (simp add: pe_view_def pe_kept_def)

lemma view_act [view]: "pe_view (act a t) = pe_view t"
  by (simp add: act_def pe_view_def pe_kept_def)

lemma view_upd_pe [view]: "pe_view (upd_pe f t) = pe_view t"
  by (simp add: pe_view_def pe_kept_def upd_pe_def upd_port_def)

lemma view_upd_vdm [view]: "pe_view (upd_vdm f t) = pe_view t"
  by (simp add: pe_view_def pe_kept_def upd_vdm_def upd_port_def)

lemma view_set_msg [view]: "pe_view (set_msg m t) = pe_view t"
  by (simp add: pe_view_def pe_kept_def set_msg_def upd_port_def)

lemma view_set_unsupported [view]: "pe_view (set_unsupported t) = pe_view t"
  by (simp add: pe_view_def pe_kept_def set_unsupported_def upd_port_def)

section \<open>Event layer\<close>

lemma port_act [simp]: "pd_port (act a t) = pd_port t"
  by (simp add: act_def)

lemma port_put_event [simp]: "pd_port (snd (pd_put_event e b t)) = pd_port t"
  by (simp add: pd_put_event_def pd_put_event_locked_def postpone_vdm_event_def Let_def)

lemma port_put_event_locked [simp]: "pd_port (snd (pd_put_event_locked e b t)) = pd_port t"
  using port_put_event[of e b t] by (simp add: pd_put_event_def)

lemma port_free_msg [simp]: "pd_port (pd_free_msg_locked m t) = pd_port t"
  by (simp add: pd_free_msg_locked_def Let_def)

lemma port_free_event [simp]: "pd_port (snd (pd_free_event_locked e t)) = pd_port t"
  by (simp add: pd_free_event_locked_def split: option.splits)

lemma port_put_vdm_own [simp]:
  assumes "pd_msg e = None" "pd_put_vdm_event e False t = Inr r"
  shows "pd_port (snd r) = pd_port t"
  using assms by (auto simp: pd_put_vdm_event_def vdm_accept_def Let_def split: if_splits)

lemma put_vdm_own: "pd_msg e = None \<Longrightarrow> \<exists>b t'. pd_put_vdm_event e False t = Inr (b, t') \<and> pd_port t' = pd_port t"
  by (auto simp: pd_put_vdm_event_def vdm_accept_def Let_def)

lemma discover_cable_event:
  obtains b t' where "vdm_put_dpm_discover_cable_event t = Inr (b, t')" "pd_port t' = pd_port t"
  using put_vdm_own[of "simple_evt PD_EVT_TCP_MSG TCP_DPM_EVT_DISCOVER_CABLE 1" t]
  by (auto simp: vdm_put_dpm_discover_cable_event_def pd_put_tcp_vdm_event_def simple_evt_def)

lemma put_pe_event:
  obtains b t' where "vdm_put_pe_event m t = Inr (b, t')" "pd_port t' = pd_port t"
  using put_vdm_own[of "simple_evt PD_EVT_PE_MSG m 0" t] by (auto simp: vdm_put_pe_event_def simple_evt_def)

lemma port_put_simple [simp]:
  "pd_port (pd_put_dpm_event m t) = pd_port t" "pd_port (pd_put_pe_event m t) = pd_port t"
  "pd_port (snd (pd_put_hw_event_locked m t)) = pd_port t" "pd_port (snd (pd_put_pe_event_locked m t)) = pd_port t"
  "pd_port (snd (pd_put_tcp_pd_event m t)) = pd_port t"
  by (simp_all add: pd_put_dpm_event_def pd_put_pe_event_def pd_put_hw_event_locked_def pd_put_pe_event_locked_def
      pd_put_tcp_pd_event_def)

lemma port_vbus_events [simp]:
  "pd_port (pd_put_vbus_changed_event b t) = pd_port t" "pd_port (pd_put_vbus_safe0v_event t) = pd_port t"
  "pd_port (pd_put_vbus_stable_event t) = pd_port t" "pd_port (pd_notify_pe_wait_vbus_once n t) = pd_port t"
  by (simp_all add: pd_put_vbus_changed_event_def pd_put_vbus_safe0v_event_def pd_put_vbus_stable_event_def
      pd_notify_pe_wait_vbus_once_def pd_report_vbus_present_def Let_def)

lemma port_detections [simp]:
  "pd_port (pd_enable_vbus_valid_detection b t) = pd_port t" "pd_port (pd_enable_vbus_safe0v_detection t) = pd_port t"
  "pd_port (pd_enable_vbus_stable_detection t) = pd_port t"
  by (simp_all add: pd_enable_vbus_valid_detection_def pd_enable_vbus_safe0v_detection_def
      pd_enable_vbus_stable_detection_def)

lemma port_vbus [simp]:
  "pd_port (tcpci_sink_vbus ty mv ma t) = pd_port t" "pd_port (tcpci_source_vbus ty mv ma t) = pd_port t"
  by (simp_all add: tcpci_sink_vbus_def tcpci_source_vbus_def Let_def)

lemma port_hard_reset_completed [simp]: "pd_port (pd_notify_pe_hard_reset_completed t) = pd_port t"
  by (simp add: pd_notify_pe_hard_reset_completed_def tcpci_notify_hard_reset_state_def)

lemma port_idle [simp]: "pd_port (pd_notify_pe_idle t) = pd_port t" "pd_port (pd_try_put_pe_idle_event t) = pd_port t"
  by (simp_all add: pd_notify_pe_idle_def pd_try_put_pe_idle_event_def Let_def)

lemma port_bist [simp]: "pd_port (pd_noitfy_pe_bist_mode m t) = pd_port t"
  by (simp add: pd_noitfy_pe_bist_mode_def)

lemma view_results [view]:
  "pe_view (pd_notify_tcp_event_2nd_result r t) = pe_view t"
  "pe_view (pd_notify_tcp_event_1st_result r t) = pe_view t"
  "pe_view (pd_notify_tcp_vdm_event_2nd_result r t) = pe_view t"
  by (simp_all add: pe_view_def pe_kept_def pd_notify_tcp_event_2nd_result_def pd_notify_tcp_event_1st_result_def
      pd_notify_tcp_vdm_event_2nd_result_def call_event_cb_def upd_port_def Let_def)

lemma port_call_event_cb [simp]: "pd_port (call_event_cb r e t) = pd_port t"
  by (simp add: call_event_cb_def)

lemma port_tcp_drain [simp]: "pd_port (tcp_event_drain reason t) = pd_port t"
proof (induction reason t rule: tcp_event_drain.induct)
  case (1 reason t)
  have "pd_port t' = pd_port t" if "pd_get_deferred_tcp_event_locked t = (x, t')" for x t'
    using that by (auto simp: pd_get_deferred_tcp_event_locked_def Let_def split: if_splits)
  with 1 show ?case by (auto simp: tcp_event_drain.simps[of reason t] split: prod.splits option.splits)
qed

lemma view_buf_reset [view]: "pe_view (pd_notify_tcp_event_buf_reset r t) = pe_view t"
  by (simp add: pd_notify_tcp_event_buf_reset_def tcp_event_buf_reset_locked_def view_results
      view_port[OF port_tcp_drain])

section \<open>Operations of the port\<close>

lemma view_cancel [view]:
  "pe_view (pd_cancel_dpm_reaction t) = pe_view t" "pe_view (pd_notify_pe_cancel_pr_swap t) = pe_view t"
  by (simp_all add: pe_view_def pe_kept_def pd_cancel_dpm_reaction_def dpm_reaction_clear_def pd_notify_pe_cancel_pr_swap_def
      upd_port_def Let_def)

lemma view_set_vconn [view]: "pe_view (snd (pd_set_vconn rv role t)) = pe_view t"
  by (simp add: pe_view_def pe_kept_def pd_set_vconn_def pe_reset_msg_id_def upd_port_def Let_def)

lemma view_power [view]:
  "pe_view (pd_dpm_snk_transition_power t) = pe_view t" "pe_view (pd_dpm_src_transition_power t) = pe_view t"
  by (simp_all add: pe_view_def pe_kept_def pd_dpm_snk_transition_power_def pd_dpm_src_transition_power_def
      pd_dpm_start_pps_request_thread_def upd_port_def Let_def)

lemma view_send [view]: "pe_view (pd_send_message sop m ext data t) = pe_view t"
  by (simp add: pe_view_def pe_kept_def)

lemma view_timers [view]:
  "pe_view (pd_enable_pe_state_timer n t) = pe_view t" "pe_view (pd_disable_pe_state_timer t) = pe_view t"
  by (simp_all add: pe_view_def pe_kept_def pd_enable_pe_state_timer_def pd_disable_pe_state_timer_def upd_pe_def upd_port_def)

lemma view_vbus_ctrl [view]:
  "pe_view (pd_dpm_sink_vbus b t) = pe_view t" "pe_view (pd_dpm_source_vbus b t) = pe_view t"
  "pe_view (pd_dpm_prs_enable_power_source b t) = pe_view t" "pe_view (pd_set_rx_enable n t) = pe_view t"
  by (simp_all add: pe_view_def pe_kept_def pd_dpm_sink_vbus_def pd_dpm_source_vbus_def pd_dpm_prs_enable_power_source_def
      pd_set_rx_enable_def upd_port_def Let_def)

lemma view_hard_reset_recovery [view]: "pe_view (pd_handle_hard_reset_recovery t) = pe_view t"
  by (simp add: pe_view_def pe_kept_def pd_handle_hard_reset_recovery_def upd_pe_def upd_port_def Let_def)

lemma view_typec_only [view]: "pe_view (pd_report_typec_only_charger t) = pe_view t"
  by (simp add: pe_view_def pe_kept_def pd_report_typec_only_charger_def pd_dpm_sink_vbus_def pd_set_rx_enable_def upd_port_def
      Let_def)

lemma view_flow [view]: "pe_view (snk_flow_delay t) = pe_view t"
  by (simp add: pe_view_def pe_kept_def snk_flow_delay_def dpm_reaction_set_ready_once_def dpm_reaction_set_def upd_port_def Let_def)

lemma view_copy [view]: "pe_view (pd_copy_msg_data d c u t) = pe_view t"
  by (simp add: pe_view_def pe_kept_def pd_copy_msg_data_def upd_port_def)

lemma view_upd_port:
  assumes "\<And>p. power_role (f p) = power_role p" "\<And>p. pe_state_curr (f p) = pe_state_curr p"
    "\<And>p. curr_ready_state (f p) = curr_ready_state p" "\<And>p. curr_hreset_state (f p) = curr_hreset_state p"
    "\<And>p. curr_sreset_state (f p) = curr_sreset_state p" "\<And>p. pe_state_next (f p) = pe_state_next p"
    "\<And>p. pe_kept (f p) = pe_kept p"
  shows "pe_view (upd_port f t) = pe_view t"
  by (simp add: pe_view_def upd_port_def assms Let_def)

lemma view_reaction [view]:
  "pe_view (upd_port (dpm_reaction_set_clear a b) t) = pe_view t"
  "pe_view (upd_port (dpm_reaction_clear a) t) = pe_view t" "pe_view (upd_port src_sink_tx t) = pe_view t"
  by (rule view_upd_port; simp add: dpm_reaction_set_clear_def dpm_reaction_clear_def src_sink_tx_def pe_kept_def Let_def)+

lemma update_request_view:
  assumes "dpm_update_request r t = Inr t'"
  shows "pe_view t' = pe_view t"
  using assms
  by (auto simp: dpm_update_request_def dpm_update_request_bat_def dpm_update_request_not_bat_def
      dpm_update_request_i_new_def pd_notify_pe_direct_charge_def pe_view_def pe_kept_def upd_port_def kbind_eq_Inr Let_def
      split: if_splits)

end
