(* ===== verification/Pe_Roles.thy ===== *)
theory Pe_Roles
  imports Pe_Frame
begin

unbundle bit_operations_syntax

text \<open>
  Which states belong to which power role, and that no event makes a sink enter a state of
  a source or the reverse. The role changes in two states only, on their entry: in
  \<open>PE_PRS_SRC_SNK_ASSERT_RD\<close> a source becomes a sink, in \<open>PE_PRS_SNK_SRC_ASSERT_RP\<close> a
  sink becomes a source.
\<close>

section \<open>States of a role\<close>

definition source_only :: "pe_state \<Rightarrow> bool" where
  "source_only s \<longleftrightarrow> s \<le> PE_SRC_GET_SINK_STATUS \<or>
     s \<in> {PE_PRS_SRC_SNK_EVALUATE_PR_SWAP, PE_PRS_SRC_SNK_ACCEPT_PR_SWAP, PE_PRS_SRC_SNK_TRANSITION_TO_OFF,
          PE_PRS_SRC_SNK_SEND_SWAP, PE_PRS_SRC_SNK_REJECT_PR_SWAP, PE_PRS_SNK_SRC_ASSERT_RP,
          PE_PRS_SNK_SRC_SOURCE_ON, PE_DR_SRC_GET_SOURCE_CAP, PE_DR_SRC_GIVE_SINK_CAP, PE_DR_SRC_GET_SOURCE_CAP_EXT}"

definition sink_only :: "pe_state \<Rightarrow> bool" where
  "sink_only s \<longleftrightarrow> PE_SNK_STARTUP \<le> s \<and> s \<le> PE_SNK_GET_PPS_STATUS \<or>
     s \<in> {PE_PRS_SRC_SNK_ASSERT_RD, PE_PRS_SRC_SNK_WAIT_SOURCE_ON, PE_PRS_SNK_SRC_EVALUATE_PR_SWAP,
          PE_PRS_SNK_SRC_ACCEPT_PR_SWAP, PE_PRS_SNK_SRC_TRANSITION_TO_OFF, PE_PRS_SNK_SRC_SEND_SWAP,
          PE_PRS_SNK_SRC_REJECT_SWAP, PE_DR_SNK_GET_SINK_CAP, PE_DR_SNK_GIVE_SOURCE_CAP, PE_DR_SNK_GIVE_SOURCE_CAP_EXT}"

definition role_state :: "nat \<Rightarrow> pe_state \<Rightarrow> bool" where
  "role_state r s \<longleftrightarrow> s < PD_NR_PE_STATES \<and>
     (r = PD_ROLE_SINK \<longrightarrow> \<not> source_only s) \<and> (r \<noteq> PD_ROLE_SINK \<longrightarrow> \<not> sink_only s)"

definition role_next :: "nat \<Rightarrow> pe_state \<Rightarrow> bool" where
  "role_next r s \<longleftrightarrow> role_state r s \<or>
     r = PD_ROLE_SINK \<and> s = PE_PRS_SNK_SRC_ASSERT_RP \<or> r \<noteq> PD_ROLE_SINK \<and> s = PE_PRS_SRC_SNK_ASSERT_RD"

lemmas role_defs = role_state_def role_next_def source_only_def sink_only_def

section \<open>Handlers that respect the role\<close>

definition good :: "nat \<Rightarrow> pe_state \<times> bool \<times> bool \<Rightarrow> tcpc_device \<Rightarrow> bool" where
  "good r k t \<longleftrightarrow> (case pe_view t of (kept, role, c, ready, hreset, sreset, n) \<Rightarrow>
     kept = k \<and> role = r \<and> role_state r c \<and> ready = (if r = PD_ROLE_SINK then PE_SNK_READY else PE_SRC_READY) \<and>
     hreset = (if r = PD_ROLE_SINK then PE_SNK_HARD_RESET else PE_SRC_HARD_RESET) \<and>
     sreset = (if r = PD_ROLE_SINK then PE_SNK_SEND_SOFT_RESET else PE_SRC_SEND_SOFT_RESET))"

definition keeps :: "nat \<Rightarrow> pe_state \<times> bool \<times> bool \<Rightarrow> bool \<times> tcpc_device \<Rightarrow> bool" where
  "keeps r k res \<longleftrightarrow> (if fst res then pe_kept (pd_port (snd res)) = k \<and> power_role (pd_port (snd res)) = r \<and> role_next r (next_state (snd res))
                    else good r k (snd res))"

definition keeps_res :: "nat \<Rightarrow> pe_state \<times> bool \<times> bool \<Rightarrow> (bool \<times> tcpc_device) kres \<Rightarrow> bool" where
  "keeps_res r k res \<longleftrightarrow> (case res of Inl e \<Rightarrow> True | Inr x \<Rightarrow> keeps r k x)"

lemma good_cong: "pe_view a = pe_view b \<Longrightarrow> good r k a = good r k b"
  by (simp add: good_def)

lemmas view_simps [simp] =
  view[THEN view_fields(1)] view[THEN view_fields(2)] view[THEN view_fields(3)]
  view[THEN view_fields(4)] view[THEN view_fields(5)] view[THEN view_fields(6)] view[THEN view_fields(7)]
  view[THEN good_cong]

lemma good_port: "pd_port a = pd_port b \<Longrightarrow> good r k a = good r k b"
  by (simp add: good_def pe_view_def)

lemma transit_simps [simp]:
  "power_role (pd_port (PE_TRANSIT_STATE s t)) = power_role (pd_port t)" "next_state (PE_TRANSIT_STATE s t) = s"
  "pe_kept (pd_port (PE_TRANSIT_STATE s t)) = pe_kept (pd_port t)"
  by (simp_all add: PE_TRANSIT_STATE_def upd_port_def pe_kept_def)

lemma goodD:
  assumes "good r k t"
  shows "power_role (pd_port t) = r" "role_state r (curr t)"
    "curr_ready_state (pd_port t) = (if r = 0 then PE_SNK_READY else PE_SRC_READY)"
    "curr_hreset_state (pd_port t) = (if r = 0 then PE_SNK_HARD_RESET else PE_SRC_HARD_RESET)"
    "curr_sreset_state (pd_port t) = (if r = 0 then PE_SNK_SEND_SOFT_RESET else PE_SRC_SEND_SOFT_RESET)"
    "pe_kept (pd_port t) = k"
  using assms by (simp_all add: good_def pe_view_def)

lemma role_next_roles [simp]:
  "role_next r (if r = 0 then PE_SNK_READY else PE_SRC_READY)"
  "role_next r (if r = 0 then PE_SNK_HARD_RESET else PE_SRC_HARD_RESET)"
  "role_next r (if r = 0 then PE_SNK_SEND_SOFT_RESET else PE_SRC_SEND_SOFT_RESET)"
  by (simp_all add: role_defs)

named_theorems keep

lemma keeps_no [keep]: "good r k t \<Longrightarrow> keeps r k (False, t)"
  by (simp add: keeps_def)

lemma keeps_if [keep]: "(c \<Longrightarrow> keeps r k a) \<Longrightarrow> (\<not> c \<Longrightarrow> keeps r k b) \<Longrightarrow> keeps r k (if c then a else b)"
  by simp

lemma keeps_transit [keep]: "good r k t \<Longrightarrow> role_next r s \<Longrightarrow> keeps r k (transit s t)"
  by (simp add: keeps_def transit_def goodD)

lemma keeps_to [keep]:
  assumes "good r k t"
  shows "keeps r k (True, pe_transit_ready_state t)" "keeps r k (True, pe_transit_hard_reset_state t)"
    "keeps r k (True, pe_transit_soft_reset_state t)" "keeps r k (True, pe_transit_soft_reset_recv_state t)"
    "keeps r k (True, pe_transit_hard_reset_recv_state t)" "keeps r k (True, pe_transit_evaluate_pr_swap_state t)"
    "keeps r k (True, pe_transit_send_pr_swap_state t)"
  using goodD[OF assms] unfolding keeps_def
  by (simp_all add: pe_transit_ready_state_def pe_transit_hard_reset_state_def pe_transit_soft_reset_state_def
      pe_transit_soft_reset_recv_state_def pe_transit_hard_reset_recv_state_def pe_transit_evaluate_pr_swap_state_def
      pe_transit_send_pr_swap_state_def pd_get_curr_soft_reset_recv_state_def pd_get_curr_hard_reset_recv_state_def
      pe_get_curr_evaluate_pr_swap_state_def pe_get_curr_send_pr_swap_state_def, simp_all add: role_defs)

lemma keeps_single [keep]:
  assumes "good r k t" "role_state r c \<Longrightarrow> role_next r s"
  shows "keeps r k (pd_make_pe_state_transit_single c s t)"
  using assms goodD[OF assms(1)]
  by (auto simp: pd_make_pe_state_transit_single_def intro!: keeps_transit keeps_no)

lemma transition_of_mem: "transition_of tbl c = Some s \<Longrightarrow> (c, s) \<in> set tbl"
  by (induction tbl) (auto split: if_splits)

definition role_table :: "nat \<Rightarrow> (pe_state \<times> pe_state) list \<Rightarrow> bool" where
  "role_table r tbl \<longleftrightarrow> list_all (\<lambda>(c, s). role_state r c \<longrightarrow> role_next r s) tbl"

lemma keeps_table [keep]:
  assumes "good r k t" "role_table r tbl"
  shows "keeps r k (pd_make_pe_state_transit tbl t)"
proof (cases "transition_of tbl (curr t)")
  case None
  then show ?thesis using assms by (simp add: pd_make_pe_state_transit_def keeps_no)
next
  case (Some s)
  from transition_of_mem[OF Some] have "role_next r s"
    using assms(2) goodD(2)[OF assms(1)] by (auto simp: role_table_def list_all_iff)
  with Some assms(1) show ?thesis by (simp add: pd_make_pe_state_transit_def keeps_transit)
qed

lemma keeps_or_else [keep]:
  "keeps r k res \<Longrightarrow> (\<And>t. good r k t \<Longrightarrow> keeps r k (f t)) \<Longrightarrow> keeps r k (or_else res f)"
  by (simp add: or_else_def keeps_def)

lemma good_upd [simp]:
  "good r k (upd_port (\<lambda>p. p\<lparr>during_swap := a, state_machine := m\<rparr>) t) = good r k t"
  "good r k (upd_port (\<lambda>p. p\<lparr>state_machine := m\<rparr>) t) = good r k t"
  "good r k (upd_port (\<lambda>p. p\<lparr>msg_id_pr_swap_last := n\<rparr>) t) = good r k t"
  "good r k (upd_port (\<lambda>p. dpm_reaction_set_ready_once (p\<lparr>pd_traffic_control := n\<rparr>)) t) = good r k t"
  by (rule good_cong, rule view_upd_port; simp add: dpm_reaction_set_ready_once_def dpm_reaction_set_def pe_kept_def)+

lemma good_port_simps [simp]:
  "good r k (pd_noitfy_pe_bist_mode m t) = good r k t" "good r k (pd_put_dpm_event m t) = good r k t"
  "good r k (pd_put_pe_event m t) = good r k t" "good r k (pd_enable_vbus_valid_detection b t) = good r k t"
  "good r k (pd_enable_vbus_safe0v_detection t) = good r k t"
  by (rule good_port; simp)+

lemma keeps_res_Inr [keep]: "keeps r k x \<Longrightarrow> keeps_res r k (Inr x)"
  by (simp add: keeps_res_def)

lemma keeps_res_if [keep]:
  "(c \<Longrightarrow> keeps_res r k a) \<Longrightarrow> (\<not> c \<Longrightarrow> keeps_res r k b) \<Longrightarrow> keeps_res r k (if c then a else b)"
  by simp

lemma keeps_res_Inl [simp]: "keeps_res r k (Inl e)"
  by (simp add: keeps_res_def)

lemma keeps_discover [keep]:
  assumes "good r k t" "\<And>b t'. good r k t' \<Longrightarrow> keeps_res r k (f (b, t'))"
  shows "keeps_res r k (kbind (vdm_put_dpm_discover_cable_event t) f)"
  using discover_cable_event[of t] assms good_port by (metis kbind_Inr)

lemma keeps_put_pe [keep]:
  assumes "good r k t" "\<And>b t'. good r k t' \<Longrightarrow> keeps_res r k (f (b, t'))"
  shows "keeps_res r k (kbind (vdm_put_pe_event m t) f)"
  using put_pe_event[of m t] assms good_port by (metis kbind_Inr)

end
