(* ===== verification/Pe_Closed.thy ===== *)
theory Pe_Closed
  imports Pe_Roles
begin

unbundle bit_operations_syntax

text \<open>
  Every handler of events respects the power role, and so does \<open>pd_process_event\<close>.
\<close>

section \<open>Common part\<close>

lemma keeps_ready_error [keep]: "good r k t \<Longrightarrow> keeps r k (pd_process_ready_protocol_error t)"
  unfolding pd_process_ready_protocol_error_def Let_def
  by (intro keep; simp add: goodD) (simp_all add: role_defs)

lemma keeps_error [keep]: "good r k t \<Longrightarrow> keeps r k (pd_process_protocol_error t)"
  unfolding pd_process_protocol_error_def Let_def by (intro keep; simp add: role_defs)

lemma keeps_tx_failed [keep]: "good r k t \<Longrightarrow> keeps r k (pd_process_tx_failed t)"
  unfolding pd_process_tx_failed_def by (intro keep)

lemma keeps_dr_swap [keep]:
  assumes "good r k t"
  shows "keeps r k (pd_process_ctrl_msg_dr_swap t)"
proof -
  have "keeps r k (True, PE_TRANSIT_DATA_STATE PE_DRS_UFP_DFP_EVALUATE_DR_SWAP PE_DRS_DFP_UFP_EVALUATE_DR_SWAP
    (upd_port (\<lambda>p. p\<lparr>during_swap := a, state_machine := m\<rparr>) t))" for a m
    using goodD[OF assms] by (simp add: keeps_def PE_TRANSIT_DATA_STATE_def) (simp add: upd_port_def role_defs)
  with assms show ?thesis
    unfolding pd_process_ctrl_msg_dr_swap_def by (intro keep; simp add: role_defs)
qed

lemma keeps_pr_swap [keep]: "good r k t \<Longrightarrow> keeps r k (pd_process_ctrl_msg_pr_swap t)"
  unfolding pd_process_ctrl_msg_pr_swap_def by (intro keep; simp add: role_defs)

lemma keeps_vconn_swap [keep]: "good r k t \<Longrightarrow> keeps r k (pd_process_ctrl_msg_vconn_swap t)"
  unfolding pd_process_ctrl_msg_vconn_swap_def by (intro keep; simp add: role_defs)

lemma keeps_wait_reject [keep]: "good r k t \<Longrightarrow> keeps r k (pd_process_ctrl_msg_wait_reject t)"
  unfolding pd_process_ctrl_msg_wait_reject_def Let_def by (intro keep) simp

lemma keeps_bist [keep]:
  assumes "good r k t"
  shows "keeps_res r k (pd_process_data_msg_bist t)"
proof -
  have "keeps r k (True, pd_noitfy_pe_bist_mode m (PE_TRANSIT_STATE s t))" if "role_next r s" for m s
    using goodD[OF assms] that by (simp add: keeps_def)
  with assms show ?thesis
    unfolding pd_process_data_msg_bist_def Let_def
    by (cases "pd_msg (evt t)"; simp; intro keep impI conjI; simp add: role_defs)
qed

lemma keeps_ctrl_com [keep]: "good r k t \<Longrightarrow> keeps_res r k (pd_process_ctrl_msg_com t)"
  unfolding pd_process_ctrl_msg_com_def Let_def
  by (intro keep; simp add: goodD) (simp_all add: role_defs)

lemma keeps_data_com [keep]: "good r k t \<Longrightarrow> keeps_res r k (pd_process_data_msg_com t)"
  unfolding pd_process_data_msg_com_def Let_def by (intro keep; simp add: goodD) (simp_all add: role_defs)

lemma keeps_ext_com [keep]: "good r k t \<Longrightarrow> keeps r k (pd_process_ext_msg_com t)"
  unfolding pd_process_ext_msg_com_def Let_def by (intro keep; simp add: goodD) (simp_all add: role_defs)

lemma keeps_dpm_com [keep]: "good r k t \<Longrightarrow> keeps r k (pd_process_dpm_msg_com t)"
  unfolding pd_process_dpm_msg_com_def by (intro keep; simp add: role_defs)

lemma keeps_hw_com [keep]: "good r k t \<Longrightarrow> keeps r k (pd_process_hw_msg_com t)"
  unfolding pd_process_hw_msg_com_def pd_process_recv_hard_reset_def pd_process_hw_msg_tx_failed_com_def Let_def
  by (intro keep; simp add: role_defs)

lemma keeps_timer_com [keep]: "good r k t \<Longrightarrow> keeps r k (pd_process_timer_msg_com env t)"
  unfolding pd_process_timer_msg_com_def Let_def by (intro keep; simp add: goodD)

lemma keeps_com [keep]: "good r k t \<Longrightarrow> keeps_res r k (pd_process_event_com env t)"
  unfolding pd_process_event_com_def Let_def by (intro keep)

section \<open>Sink\<close>

lemma good_partner_first_snk: "good PD_ROLE_SINK k t \<Longrightarrow> good PD_ROLE_SINK k (partner_first_snk t)"
  by (simp add: partner_first_snk_def) (auto simp: good_def pe_view_def upd_port_def role_defs)

lemma keeps_get_source_cap [keep]:
  "good r k t \<Longrightarrow> (role_state r PE_SNK_READY \<Longrightarrow> role_next r s) \<Longrightarrow> keeps r k (pd_process_ctrl_msg_get_source_cap s t)"
  using goodD(2)[of r k t] unfolding pd_process_ctrl_msg_get_source_cap_def by (intro keep; simp)

lemma keeps_ctrl_snk [keep]:
  assumes "good PD_ROLE_SINK k t"
  shows "keeps PD_ROLE_SINK k (pd_process_ctrl_msg_snk t)"
  using good_partner_first_snk[OF assms]
  unfolding pd_process_ctrl_msg_snk_def Let_def
  by (intro keep; simp add: role_defs role_table_def PD_CTRL_MSG_ACCEPT_snk_def)

lemma keeps_data_snk [keep]: "good PD_ROLE_SINK k t \<Longrightarrow> keeps PD_ROLE_SINK k (pd_process_data_msg_snk t)"
  unfolding pd_process_data_msg_snk_def Let_def
  by (intro keep; simp add: role_defs role_table_def PD_DATA_MSG_SOURCE_CAP_snk_def)

lemma keeps_ext_snk [keep]: "good PD_ROLE_SINK k t \<Longrightarrow> keeps PD_ROLE_SINK k (pd_process_ext_msg_snk t)"
  unfolding pd_process_ext_msg_snk_def Let_def by (intro keep; simp add: role_defs)

lemma keeps_dpm_snk [keep]: "good PD_ROLE_SINK k t \<Longrightarrow> keeps PD_ROLE_SINK k (pd_process_dpm_msg_snk t)"
  unfolding pd_process_dpm_msg_snk_def by (intro keep; simp add: role_defs)

lemma keeps_hw_snk [keep]: "good PD_ROLE_SINK k t \<Longrightarrow> keeps PD_ROLE_SINK k (pd_process_hw_msg_snk t)"
  unfolding pd_process_hw_msg_snk_def pd_process_vbus_absent_def pd_process_hw_msg_sink_tx_change_def Let_def
  by (intro keep; simp add: role_defs)

lemma keeps_pe_snk [keep]: "good PD_ROLE_SINK k t \<Longrightarrow> keeps PD_ROLE_SINK k (pd_process_pe_msg_snk t)"
  unfolding pd_process_pe_msg_snk_def Let_def by (intro keep; simp add: role_defs)

lemma keeps_timer_snk [keep]: "good PD_ROLE_SINK k t \<Longrightarrow> keeps_res PD_ROLE_SINK k (pd_process_timer_msg_snk t)"
  unfolding pd_process_timer_msg_snk_def Let_def by (intro keep; simp add: role_defs)

lemma keeps_snk: "good PD_ROLE_SINK k t \<Longrightarrow> keeps_res PD_ROLE_SINK k (pd_process_event_snk t)"
  unfolding pd_process_event_snk_def Let_def by (intro keep)

section \<open>Source\<close>

lemma good_partner_first_src: "r \<noteq> PD_ROLE_SINK \<Longrightarrow> good r k t \<Longrightarrow> good r k (partner_first_src t)"
  by (simp add: partner_first_src_def) (auto simp: good_def pe_view_def upd_port_def role_defs)

lemma keeps_ctrl_src [keep]:
  assumes "r \<noteq> PD_ROLE_SINK" "good r k t"
  shows "keeps r k (pd_process_ctrl_msg_src t)"
  using good_partner_first_src[OF assms] assms(1)
  unfolding pd_process_ctrl_msg_src_def pd_process_ctrl_msg_good_crc_src_def pd_process_ctrl_msg_get_sink_cap_def Let_def
  by (intro keep; simp add: role_defs)

lemma keeps_data_src [keep]: "r \<noteq> PD_ROLE_SINK \<Longrightarrow> good r k t \<Longrightarrow> keeps r k (pd_process_data_msg_src t)"
  unfolding pd_process_data_msg_src_def Let_def
  by (intro keep; simp add: role_defs role_table_def PD_DATA_MSG_REQUEST_src_def)

lemma keeps_ext_src [keep]: "r \<noteq> PD_ROLE_SINK \<Longrightarrow> good r k t \<Longrightarrow> keeps r k (pd_process_ext_msg_src t)"
  unfolding pd_process_ext_msg_src_def Let_def by (intro keep; simp add: role_defs)

lemma keeps_dpm_src [keep]: "r \<noteq> PD_ROLE_SINK \<Longrightarrow> good r k t \<Longrightarrow> keeps r k (pd_process_dpm_msg_src t)"
  unfolding pd_process_dpm_msg_src_def Let_def
  by (intro keep; simp add: role_defs role_table_def PD_DPM_MSG_ACK_src_def PD_DPM_MSG_CAP_CHANGED_src_def)

lemma keeps_hw_src [keep]: "r \<noteq> PD_ROLE_SINK \<Longrightarrow> good r k t \<Longrightarrow> keeps r k (pd_process_hw_msg_src t)"
  unfolding pd_process_hw_msg_src_def pd_process_hw_msg_vbus_present_def pd_process_hw_msg_tx_failed_src_def Let_def
  by (intro keep; simp add: role_defs)

lemma keeps_pe_src [keep]: "r \<noteq> PD_ROLE_SINK \<Longrightarrow> good r k t \<Longrightarrow> keeps r k (pd_process_pe_msg_src t)"
  unfolding pd_process_pe_msg_src_def Let_def by (intro keep; simp add: role_defs)

lemma keeps_source_start [keep]:
  assumes "r \<noteq> PD_ROLE_SINK" "good r k t"
  shows "keeps_res r k (pd_process_timer_msg_source_start t)"
proof -
  have start: "keeps r k (source_start t)" if "good r k t" for t
    unfolding source_start_def using assms(1) that by (intro keep; simp add: role_defs)
  obtain d t' where d: "pd_is_discover_cable t = (d, t')" "good r k t'"
    using assms(2) by (cases "pd_is_discover_cable t") (auto simp: pd_is_discover_cable_def Let_def split: if_splits)
  show ?thesis unfolding pd_process_timer_msg_source_start_def d(1) Let_def
    using assms(1) d(2) by (simp; intro keep impI conjI start; simp add: role_defs start keep)
qed

lemma keeps_timer_src [keep]: "r \<noteq> PD_ROLE_SINK \<Longrightarrow> good r k t \<Longrightarrow> keeps_res r k (pd_process_timer_msg_src t)"
  unfolding pd_process_timer_msg_src_def pd_process_timer_msg_source_cap_def pd_process_timer_msg_no_response_def Let_def
  by (intro keep; simp add: role_defs role_table_def PD_TIMER_PS_HARD_RESET_src_def)

lemma keeps_src: "r \<noteq> PD_ROLE_SINK \<Longrightarrow> good r k t \<Longrightarrow> keeps_res r k (pd_process_event_src t)"
  unfolding pd_process_event_src_def Let_def by (intro keep)

section \<open>Swaps\<close>

lemma keeps_drs [keep]: "good r k t \<Longrightarrow> keeps r k (pd_process_event_drs t)"
  unfolding pd_process_event_drs_def Let_def
  by (intro keep; simp add: role_defs role_table_def PD_CTRL_MSG_GOOD_CRC_drs_def PD_CTRL_MSG_ACCEPT_drs_def
      PD_DPM_MSG_ACK_drs_def PD_DPM_MSG_NAK_drs_def)

lemmas prs_tables = PD_CTRL_MSG_GOOD_CRC_prs_def PD_CTRL_MSG_ACCEPT_prs_def PD_CTRL_MSG_PS_RDY_prs_def
  PD_DPM_MSG_ACK_prs_def PD_DPM_MSG_NAK_prs_def PD_HW_VBUS_PRESENT_prs_def PD_HW_TX_FAILED_prs_def
  PD_HW_VBUS_SAFE0V_prs_def

lemma keeps_prs [keep]: "good r k t \<Longrightarrow> keeps r k (pd_process_event_prs t)"
  unfolding pd_process_event_prs_def pd_process_ctrl_msg_prs_def pd_process_ctrl_msg_good_crc_prs_def
    pd_process_ctrl_msg_ps_rdy_def pd_process_dpm_msg_prs_def pd_process_hw_msg_prs_def pd_process_timer_msg_prs_def
    pd_send_sop_ctrl_msg_def Let_def
  by (intro keep; simp add: role_defs role_table_def prs_tables)

lemma keeps_vcs [keep]: "good r k t \<Longrightarrow> keeps r k (pd_process_event_vcs t)"
  unfolding pd_process_event_vcs_def pd_process_ctrl_msg_vcs_def pd_process_dpm_msg_vcs_def pd_process_timer_msg_vcs_def
    Let_def
  by (intro keep; simp add: goodD role_table_def PD_DPM_MSG_ACK_vcs_def) (simp_all add: role_defs)

end
