(* ===== verification/Pe_Discipline.thy ===== *)
theory Pe_Discipline
  imports Pe_Closed Tcpc_Spec
begin

unbundle bit_operations_syntax

text \<open>
  The requests of the port manager and the vendor messages respect the power role, and the
  discipline of roles of \<open>pd_process_event\<close>.
\<close>

section \<open>Requests of the port manager\<close>

abbreviation sent :: "nat \<times> tcpc_device \<Rightarrow> bool \<times> tcpc_device" where
  "sent x \<equiv> (fst x = TCP_DPM_RET_SENT, snd x)"

lemma sent_if: "sent (if c then a else b) = (if c then sent a else sent b)"
  by simp

lemma sent_denied: "n \<noteq> 0 \<Longrightarrow> sent (n, t) = (False, t)" and sent_to: "sent (0, t) = (True, t)"
  by simp_all

lemma keeps_sent_to [keep]: "good r k t \<Longrightarrow> role_next r s \<Longrightarrow> keeps r k (True, PE_TRANSIT_STATE s t)"
  using keeps_transit[of r k t s] by (simp add: transit_def)

lemma keeps_drs_to [keep]: "good r k t \<Longrightarrow>
  keeps r k (True, PE_TRANSIT_DATA_STATE PE_DRS_UFP_DFP_SEND_DR_SWAP PE_DRS_DFP_UFP_SEND_DR_SWAP t)"
  unfolding PE_TRANSIT_DATA_STATE_def by (intro keep) (simp_all add: role_defs)

lemmas tcp_defs = pd_handle_tcp_event_pr_swap_def pd_handle_tcp_event_dr_swap_def pd_handle_tcp_event_vconn_swap_def
  pd_handle_tcp_event_gotomin_def pd_handle_tcp_event_softreset_def pd_handle_tcp_event_cable_softreset_def
  pd_handle_tcp_event_get_source_cap_def pd_handle_tcp_event_get_sink_cap_def
  pd_handle_tcp_event_get_source_cap_ext_def pd_handle_tcp_event_get_pps_status_def
  pd_make_tcp_event_transit_ready_def pd_make_tcp_event_transit_ready2_def pd_handle_tcp_event_alert_def

lemma keeps_tcp_swaps [keep]:
  assumes "good r k t"
  shows "keeps r k (sent (pd_handle_tcp_event_pr_swap n t))" "keeps r k (sent (pd_handle_tcp_event_dr_swap n t))"
    "keeps r k (sent (pd_handle_tcp_event_vconn_swap n t))"
  using assms unfolding tcp_defs Let_def sent_if
  by (simp_all only: sent_denied sent_to) (intro keep; simp add: role_defs)+

lemma keeps_tcp_power [keep]:
  assumes "good r k t"
  shows "keeps r k (sent (pd_handle_tcp_event_gotomin t))" "keeps r k (sent (pd_handle_tcp_event_softreset t))"
    "keeps r k (sent (pd_handle_tcp_event_cable_softreset t))" "keeps r k (sent (pd_handle_tcp_event_get_source_cap t))"
    "keeps r k (sent (pd_handle_tcp_event_get_sink_cap t))" "keeps r k (sent (pd_handle_tcp_event_get_source_cap_ext t))"
    "keeps r k (sent (pd_handle_tcp_event_get_pps_status t))"
  using assms goodD(2)[OF assms] unfolding tcp_defs Let_def sent_if
  by (simp_all only: sent_denied sent_to) (intro keep; auto simp: role_defs)+

lemma keeps_tcp_ready [keep]:
  assumes "good r k t" "role_next r s"
  shows "keeps r k (sent (pd_make_tcp_event_transit_ready s t))"
  using assms unfolding tcp_defs sent_if by (simp_all only: sent_denied sent_to) (intro keep)

lemma keeps_tcp_ready2 [keep]:
  assumes "good r k t" "role_state r PE_SNK_READY \<Longrightarrow> role_next r s" "role_state r PE_SRC_READY \<Longrightarrow> role_next r s'"
  shows "keeps r k (sent (pd_make_tcp_event_transit_ready2 s s' t))"
  using assms goodD(2)[OF assms(1)] unfolding tcp_defs sent_if
  by (simp_all only: sent_denied sent_to) (intro keep; auto)

lemma keeps_tcp_alert [keep]: "good r k t \<Longrightarrow> keeps r k (sent (pd_handle_tcp_event_alert t))"
  unfolding pd_handle_tcp_event_alert_def Let_def by (intro keeps_tcp_ready2) (simp_all add: role_defs)

lemma build_info_port:
  assumes "dpm_build_request_info p = Inr (found, q, p')"
  shows "p' = p \<or> (\<exists>n. p' = p\<lparr>local_selected_cap := n\<rparr>)"
  using assms unfolding dpm_build_request_info_def dpm_build_request_info_pdo_def Let_def
  by (auto simp: kbind_eq_Inr split: if_split_asm)

lemma build_request_port:
  assumes "build_request p = Inr (q, p')"
  shows "\<exists>n. p' = p \<or> p' = p\<lparr>local_selected_cap := n\<rparr>"
proof -
  obtain found q1 p1 where b: "dpm_build_request_info p = Inr (found, q1, p1)"
    and r: "(if \<not> found then dpm_build_default_request_info q1 p1 else Inr (q1, p1)) = Inr (q, p')"
    using assms by (auto simp: build_request_def kbind_eq_Inr)
  have "p' = p1 \<or> p' = p1\<lparr>local_selected_cap := 1\<rparr>"
    using r unfolding dpm_build_default_request_info_def Let_def by (auto simp: kbind_eq_Inr split: if_split_asm)
  with build_info_port[OF b] show ?thesis by auto
qed

lemma build_request_view:
  assumes "build_request p = Inr (q, p')"
  shows "pe_view (t\<lparr>pd_port := p'\<rparr>) = pe_view (t\<lparr>pd_port := p\<rparr>)"
  using build_request_port[OF assms] by (auto simp: pe_view_def pe_kept_def)

lemma tcp_request_view:
  "pd_dpm_update_tcp_request mv ma t = Inr (n, t') \<Longrightarrow> pe_view t' = pe_view t"
  "pd_dpm_update_tcp_request_ex pos mx oper t = Inr (n, t') \<Longrightarrow> pe_view t' = pe_view t"
  "pd_dpm_update_tcp_request_again t = Inr (n, t') \<Longrightarrow> pe_view t' = pe_view t"
proof -
  assume "pd_dpm_update_tcp_request mv ma t = Inr (n, t')"
  then show "pe_view t' = pe_view t"
    by (auto simp: pd_dpm_update_tcp_request_def kbind_eq_Inr Let_def dest!: update_request_view split: if_splits)
      (simp_all add: pe_view_def pe_kept_def upd_port_def)
next
  assume "pd_dpm_update_tcp_request_ex pos mx oper t = Inr (n, t')"
  then show "pe_view t' = pe_view t"
    by (auto simp: pd_dpm_update_tcp_request_ex_def kbind_eq_Inr Let_def dest!: update_request_view split: if_splits)
next
  assume "pd_dpm_update_tcp_request_again t = Inr (n, t')"
  then show "pe_view t' = pe_view t"
    by (auto simp: pd_dpm_update_tcp_request_again_def kbind_eq_Inr Let_def
        dest!: update_request_view build_request_view[of _ _ _ t] split: if_splits)
qed

lemma tcp_request_result:
  assumes "pd_handle_tcp_event_request t = Inr (n, t')"
  obtains "n \<noteq> 0" "pe_view t' = pe_view t"
  | t1 where "n = 0" "curr t = PE_SNK_READY" "t' = PE_TRANSIT_STATE PE_SNK_SELECT_CAPABILITY t1" "pe_view t1 = pe_view t"
proof (cases "curr t = PE_SNK_READY")
  case True
  obtain n1 t1 where r: "(if msg (evt t) = TCP_DPM_EVT_REQUEST
      then pd_dpm_update_tcp_request (sint (tcp_word 0 t)) (sint (tcp_word 1 t)) t
      else if msg (evt t) = TCP_DPM_EVT_REQUEST_EX
      then pd_dpm_update_tcp_request_ex (unat (tcp_word 0 t AND 0xFF)) (tcp_word 1 t) (tcp_word 2 t) t
      else if msg (evt t) = TCP_DPM_EVT_REQUEST_AGAIN then pd_dpm_update_tcp_request_again t
      else Inr (0, t)) = Inr (n1, t1)"
    "(if n1 \<noteq> 0 then Inr (n1, t1) else Inr (0, PE_TRANSIT_STATE PE_SNK_SELECT_CAPABILITY t1)) = (Inr (n, t') :: (nat \<times> tcpc_device) kres)"
    using assms True unfolding pd_handle_tcp_event_request_def Let_def by (auto simp: kbind_eq_Inr)
  have "pe_view t1 = pe_view t" using r(1) by (auto split: if_split_asm dest: tcp_request_view)
  then show thesis using that r(2) True by (auto split: if_split_asm)
qed (use assms that in \<open>simp add: pd_handle_tcp_event_request_def\<close>)

lemma keeps_pair:
  "keeps r k (b, t) \<longleftrightarrow>
     (b \<longrightarrow> pe_kept (pd_port t) = k \<and> power_role (pd_port t) = r \<and> role_next r (next_state t)) \<and> (\<not> b \<longrightarrow> good r k t)"
  by (simp add: keeps_def)

abbreviation first_result :: "nat \<times> tcpc_device \<Rightarrow> (bool \<times> tcpc_device) kres" where
  "first_result \<equiv> \<lambda>(n, t). Inr (n = TCP_DPM_RET_SENT, pd_notify_tcp_event_1st_result n t)"

lemma keeps_tcp_request [keep]:
  assumes "good r k t"
  shows "keeps_res r k (kbind (pd_handle_tcp_event_request t) first_result)"
proof (cases "pd_handle_tcp_event_request t")
  case (Inr x)
  obtain n t' where x: "x = (n, t')" by (cases x)
  have "keeps r k (n = 0, t')"
    using Inr[unfolded x]
  proof (cases rule: tcp_request_result)
    case 1
    have "good r k t'" using assms good_cong[OF 1(2)] by simp
    then show ?thesis using 1(1) by (simp add: keeps_no)
  next
    case (2 t1)
    have g: "good r k t1" using assms good_cong[OF 2(4)] by simp
    have "role_next r PE_SNK_SELECT_CAPABILITY"
      using goodD(2)[OF assms] unfolding 2(2) by (auto simp: role_defs)
    from keeps_sent_to[OF g this] show ?thesis by (simp add: 2(1,3))
  qed
  then show ?thesis by (simp add: Inr x keeps_res_def keeps_pair)
qed simp

lemma keeps_first_result [keep]: "keeps r k (sent x) \<Longrightarrow> keeps_res r k (kbind (Inr x) first_result)"
  by (cases x) (simp add: keeps_res_def keeps_pair)

lemma kbind_if: "kbind (if c then a else b) f = (if c then kbind a f else kbind b f)"
  by simp

lemma keeps_tcp:
  assumes "good r k t" "msg (evt t) \<noteq> TCP_DPM_EVT_BIST_CM2"
  shows "keeps_res r k (pd_process_event_tcp t)"
  using assms unfolding pd_process_event_tcp_def pd_handle_tcp_dpm_event_def Let_def kbind_if
  by (intro keep) (simp_all add: role_defs keeps_no keeps_to keeps_sent_to)

section \<open>Vendor messages\<close>

lemmas vdm_reaction_defs = pe_vdm_state_reactions_def VDM_DFP_CMD_REACTION_def VDM_CABLE_CMD_REACTION_def
  VDM_DFP_CMD_REACTION_PD30_def VDM_UFP_CMD_REACTION_PD30_def VDM_CMD_REACTION_def

lemma vdm_init_neutral:
  assumes "st \<in> set pe_vdm_state_reactions" "vdm_is_state_transition_available True st p"
  shows "role_next r (vdm_init_state st)"
proof -
  have "vdm_init_state st \<noteq> 0"
    using assms by (auto simp: vdm_reaction_defs vdm_is_state_transition_available_def Let_def split: if_split_asm)
  moreover have "\<forall>st \<in> set pe_vdm_state_reactions. vdm_init_state st \<noteq> 0 \<longrightarrow> role_next r (vdm_init_state st)"
    by (simp add: vdm_reaction_defs role_defs)
  ultimately show ?thesis using assms(1) by blast
qed

lemma vdm_answer_role:
  assumes "st \<in> set pe_vdm_state_reactions" "role_state r (vdm_request_state st)"
  shows "role_next r (vdm_request_state st + 1)" "role_next r (vdm_request_state st + 2)"
proof -
  have "\<forall>st \<in> set pe_vdm_state_reactions. role_state r (vdm_request_state st) \<longrightarrow>
    role_next r (vdm_request_state st + 1) \<and> role_next r (vdm_request_state st + 2)"
    by (simp add: vdm_reaction_defs role_defs)
  with assms show "role_next r (vdm_request_state st + 1)" "role_next r (vdm_request_state st + 2)" by blast+
qed

lemma keeps_vdm_answer [keep]:
  assumes "good r k t" "st \<in> set pe_vdm_state_reactions" "role_state r (vdm_request_state st)"
  shows "keeps r k (pd_vdm_state_transit_tx cmdt st t)"
  using assms vdm_answer_role[OF assms(2,3)] goodD(4)[OF assms(1)]
  by (simp add: pd_vdm_state_transit_tx_def Let_def) (intro conjI impI keep; simp add: role_defs)

lemma keeps_vdm_transit [keep]:
  assumes "good r k t" "st \<in> set pe_vdm_state_reactions"
  shows "keeps r k (pd_vdm_state_transit cmdt st t)"
  using assms goodD(2)[OF assms(1)] vdm_init_neutral[OF assms(2), of "pd_port t" r]
  unfolding pd_vdm_state_transit_def pd_vdm_state_transit_rx_def by (intro keep; simp)

lemma keeps_vdm_loop:
  "good r k t \<Longrightarrow> set sts \<subseteq> set pe_vdm_state_reactions \<Longrightarrow> keeps r k (vdm_state_transit_loop ty sts t)"
  by (induction sts) (auto intro: keep split: option.split)

lemma keeps_make_vdm [keep]: "good r k t \<Longrightarrow> keeps r k (pd_make_vdm_state_transit ty t)"
  by (simp add: pd_make_vdm_state_transit_def keeps_vdm_loop)

lemma keeps_sop_vdm [keep]:
  assumes "good r k t"
  shows "keeps r k (pd_process_custom_vdm b t)" "keeps r k (pd_process_sop_vdm t)" "keeps r k (pd_process_uvdm pm t)"
proof -
  have c: "keeps r k (pd_process_custom_vdm b t)" if "good r k t" for b t
    unfolding pd_process_custom_vdm_def Let_def using that by (intro keep; simp add: role_defs)
  then show "keeps r k (pd_process_custom_vdm b t)" "keeps r k (pd_process_sop_vdm t)" "keeps r k (pd_process_uvdm pm t)"
    using assms unfolding pd_process_sop_vdm_def pd_process_uvdm_def by (blast intro: keep)+
qed

lemma good_if [keep]: "good r k a \<Longrightarrow> good r k b \<Longrightarrow> good r k (if c then a else b)"
  by simp

lemma good_vdm_upd [simp]:
  "good r k (upd_port (\<lambda>p. p\<lparr>power_cable_present := b\<rparr>) t) = good r k t"
  by (rule good_cong, rule view_upd_port; simp add: pe_kept_def)

lemma keeps_vdm_ctrl [keep]: "good r k t \<Longrightarrow> keeps r k (pd_process_ctrl_msg_vdm t)"
  unfolding pd_process_ctrl_msg_vdm_def Let_def by (intro keep; simp add: role_defs)

lemma keeps_vdm_dpm [keep]: "good r k t \<Longrightarrow> keeps r k (pd_process_dpm_msg_vdm t)"
  unfolding pd_process_dpm_msg_vdm_def Let_def by (intro keep)

lemma keeps_vdm_hw [keep]: "good r k t \<Longrightarrow> keeps r k (pd_process_hw_msg_vdm t)"
  unfolding pd_process_hw_msg_vdm_def Let_def by (intro keep; simp)

lemma keeps_vdm_pe [keep]: "good r k t \<Longrightarrow> keeps r k (pd_process_pe_msg_vdm t)"
  unfolding pd_process_pe_msg_vdm_def Let_def by (intro keep; simp)

lemma keeps_vdm_timer [keep]: "good r k t \<Longrightarrow> keeps r k (pd_process_timer_msg_vdm t)"
  unfolding pd_process_timer_msg_vdm_def Let_def by (intro keep)

lemma keeps_result:
  assumes "keeps r k x" "\<And>t. pe_view (f (fst x) t) = pe_view t"
  shows "keeps r k (let (ret, t) = x in (ret, f ret t))"
proof -
  have v: "pe_view (f (fst x) (snd x)) = pe_view (snd x)" by (rule assms(2))
  show ?thesis
    using assms(1) view_fields(1,6,7)[OF v] good_cong[OF v] by (cases x; cases "fst x") (simp_all add: keeps_pair)
qed

lemma keeps_tcp_cable [keep]: "good r k t \<Longrightarrow> keeps r k (pd_process_tcp_cable_event t)"
  unfolding pd_process_tcp_cable_event_def Let_def[of "_ \<longrightarrow> _"]
  by (intro keep keeps_result; simp add: role_table_def PD_DPM_MSG_DISCOVER_CABLE_def role_defs view_results)

lemma parse_tcpm_view:
  assumes "pd_parse_tcp_dpm_evt_from_tcpm t = Inr t'"
  shows "pe_view t' = pe_view t"
  using assms
  by (auto simp: pd_parse_tcp_dpm_evt_from_tcpm_def pd_parse_tcp_dpm_evt_svdm_def pd_parse_tcp_dpm_evt_dp_status_def
      pd_parse_tcp_dpm_evt_dp_config_def pd_parse_tcp_dpm_evt_uvdm_def view Let_def split: if_split_asm)

lemma tcp_vdm_neutral: "i < length tcp_vdm_evt_init_state \<Longrightarrow> role_next r (tcp_vdm_evt_init_state ! i)"
proof -
  have "list_all (role_next r) tcp_vdm_evt_init_state"
    by (simp add: tcp_vdm_evt_init_state_def role_defs)
  then show "i < length tcp_vdm_evt_init_state \<Longrightarrow> role_next r (tcp_vdm_evt_init_state ! i)"
    by (simp add: list_all_length)
qed

lemma keeps_vdm_sent [keep]:
  assumes "good r k t" "role_next r s"
  shows "keeps_res r k (kbind (if c then pd_parse_tcp_dpm_evt_from_tcpm t else Inr t)
    (\<lambda>t. Inr (True, pd_notify_tcp_event_1st_result n (PE_TRANSIT_STATE s t))))"
proof -
  have "keeps r k (True, pd_notify_tcp_event_1st_result n (PE_TRANSIT_STATE s t'))" if "pe_view t' = pe_view t" for t'
    using assms good_cong[OF that] by (simp add: keeps_pair goodD)
  then show ?thesis using parse_tcpm_view[of t]
    by (cases "pd_parse_tcp_dpm_evt_from_tcpm t") (auto simp: keeps_res_def)
qed

lemma keeps_vdm_tcp [keep]: "good r k t \<Longrightarrow> keeps_res r k (pd_process_tcp_msg_vdm t)"
  unfolding pd_process_tcp_msg_vdm_def Let_def
  by (intro keep; simp add: tcp_vdm_neutral)

lemma good_back_to_pd:
  "good r k t \<Longrightarrow> role_state r (pe_pd_state (pd_port t)) \<Longrightarrow>
     good r k (upd_port (\<lambda>p. p\<lparr>pe_vdm_state := pe_pd_state p, pe_state_curr := pe_pd_state p\<rparr>) t)"
  by (simp add: good_def pe_view_def pe_kept_def upd_port_def split: if_split_asm)

lemma pd_state_upd_vdm [simp]: "pe_pd_state (pd_port (upd_vdm f t)) = pe_pd_state (pd_port t)"
  by (simp add: upd_vdm_def upd_port_def)

lemma keeps_vdm_data [keep]:
  assumes "good r k t" "role_state r (pe_pd_state (pd_port t))"
  shows "keeps_res r k (pd_process_data_msg_vdm t)"
proof (cases "pd_msg (evt t)")
  case None
  then show ?thesis unfolding pd_process_data_msg_vdm_def using assms by (simp add: keep)
next
  case (Some m)
  define t1 where "t1 = upd_vdm (\<lambda>v. v\<lparr>curr_vdm_hdr := vdm_header m t,
    curr_vdm_ops := unat (drop_bit 8 (vdm_header m t) AND 7), curr_vdm_svid := ucast (drop_bit 16 (vdm_header m t))\<rparr>) t"
  define t2 where "t2 = (if PD_VDO_CMDT (vdm_header m t) = CMDT_INIT
    then upd_port (\<lambda>p. p\<lparr>pe_vdm_state := pe_pd_state p, pe_state_curr := pe_pd_state p\<rparr>) t1 else t1)"
  have "good r k t1" "good r k t2" using assms by (simp_all add: t1_def t2_def good_back_to_pd)
  then show ?thesis unfolding pd_process_data_msg_vdm_def Some Let_def option.case t1_def[symmetric] t2_def[symmetric]
    using assms(1) by (intro keep) (simp_all add: role_defs)
qed

lemma keeps_vdm:
  assumes "good r k t" "role_state r (pe_pd_state (pd_port t))"
  shows "keeps_res r k (pd_process_event_vdm t)"
proof -
  have "good r k (upd_pe f t)" "pe_pd_state (pd_port (upd_pe f t)) = pe_pd_state (pd_port t)" for f
    using assms(1) by simp (simp add: upd_pe_def upd_port_def)
  then show ?thesis unfolding pd_process_event_vdm_def Let_def using assms by (intro keep; simp)
qed

section \<open>The event as a whole\<close>

lemma keeps_cable [keep]: "good r k t \<Longrightarrow> keeps_res r k (pd_process_event_cable t)"
  unfolding pd_process_event_cable_def pd_process_cable_ctrl_msg_accept_def by (intro keep; simp)

lemma keeps_bind [keep]:
  assumes "keeps_res r k x" "\<And>t. good r k t \<Longrightarrow> keeps_res r k (f t)"
  shows "keeps_res r k (kbind x (\<lambda>(ret, t). if ret then Inr (True, t) else f t))"
  using assms by (cases x) (auto simp: keeps_res_def keeps_pair)

definition tcp_bist :: "pd_event \<Rightarrow> bool" where
  "tcp_bist e \<longleftrightarrow> event_type e = PD_EVT_TCP_MSG \<and> msg e = TCP_DPM_EVT_BIST_CM2"

lemma keeps_role_machine:
  assumes "good r k t"
  shows "keeps_res r k (if power_role (pd_port t) = PD_ROLE_SINK then pd_process_event_snk t else pd_process_event_src t)"
  using goodD(1)[OF assms] assms keeps_snk keeps_src by (cases "r = 0") simp_all

lemma keeps_then:
  assumes "keeps r k x" "\<And>t. good r k t \<Longrightarrow> keeps_res r k (f t)"
  shows "keeps_res r k (let (ret, t) = x in if ret then Inr (True, t) else f t)"
  using keeps_bind[of r k "Inr x" f] assms by (simp add: keeps_res_def)

lemma keeps_dispatch:
  assumes "good r k t" "role_state r (pe_pd_state (pd_port t))" "\<not> tcp_bist (evt t)"
  shows "keeps_res r k (pe_dispatch env t)"
proof -
  have tcp: "keeps_res r k (pd_process_event_tcp t)" if "event_type (evt t) = PD_EVT_TCP_MSG"
    using assms(1,3) that by (simp add: tcp_bist_def keeps_tcp)
  have "keeps r k (if a then pd_process_event_drs t else if b then pd_process_event_prs t
    else if c then pd_process_event_vcs t else (False, t))" if "good r k t" for a b c t
    using that by (intro keep)
  then have machines: "keeps_res r k (kbind (pd_process_event_com env t) (\<lambda>(ret, t). if ret then Inr (True, t)
    else let (ret, t) = (if state_machine (pd_port t) = PE_STATE_MACHINE_DR_SWAP then pd_process_event_drs t
                         else if state_machine (pd_port t) = PE_STATE_MACHINE_PR_SWAP then pd_process_event_prs t
                         else if state_machine (pd_port t) = PE_STATE_MACHINE_VCONN_SWAP then pd_process_event_vcs t
                         else (False, t))
         in if ret then Inr (True, t) else if power_role (pd_port t) = PD_ROLE_SINK then pd_process_event_snk t
         else pd_process_event_src t))"
    using assms(1) keeps_role_machine by (intro keeps_bind keeps_com keeps_then) blast+
  show ?thesis
    unfolding pe_dispatch_def Let_def[of "state_machine _"] Let_def[of "curr_pd_event _"] Let_def[of "\<lambda>t. if _ t then _ t else _ t"]
    using assms tcp machines keeps_vdm[OF assms(1,2)] by (intro keeps_res_if keeps_cable)
qed

lemma keeps_handle:
  assumes "good r k t" "role_state r (pe_pd_state (pd_port t))" "\<not> tcp_bist (evt t)"
  shows "keeps_res r k (pe_handle env t)"
proof -
  have "keeps_res r k (pe_dispatch env (pd_copy_msg_data d c u t))" for d c u
    using assms by (intro keeps_dispatch) (simp_all add: view_copy[THEN good_cong], simp_all add: pd_copy_msg_data_def upd_port_def)
  then show ?thesis
    by (simp add: pe_handle_def pd_copy_msg_data_from_evt_def Let_def split: option.split)
qed

lemma valid_id_frame:
  assumes "pe_is_valid_pd_msg_id pm t = Inr (ok, t')"
  shows "pe_view t' = pe_view t" "pe_pd_state (pd_port t') = pe_pd_state (pd_port t)" "evt t' = evt t"
  using assms by (auto simp: pe_is_valid_pd_msg_id_def pe_view_def pe_kept_def upd_port_def Let_def split: if_split_asm)

lemma port_vdm_accept [simp]: "pd_port (vdm_accept e b t) = pd_port t"
  by (simp add: vdm_accept_def reset_pe_vdm_state_def postpone_vdm_event_def Let_def split: option.splits)

lemma port_put_vdm: "pd_put_vdm_event e b t = Inr r \<Longrightarrow> pd_port (snd r) = pd_port t"
  by (auto simp: pd_put_vdm_event_def free_vdm_event_def case_prod_beta Let_def split: if_split_asm)

lemma port_msg_filter: "pd_port (snd (pd_msg_filter m t)) = pd_port t"
  by (simp add: pd_msg_filter_def Let_def)

lemma port_put_pd_msg:
  assumes "pd_put_pd_msg_event m t = Inr r"
  shows "pd_port (snd r) = pd_port t"
proof (cases "pd_msg_filter m t")
  case (Pair x t1)
  define e where "e = \<lparr>event_type = PD_EVT_PD_MSG, msg = 0, msg_sec = 0, pd_msg = Some m\<rparr>"
  define t2 where "t2 = (if x = Some True then snd (pd_put_hw_event PD_HW_TX_FAILED (act (DisableTimer PD_TIMER_DISCARD) t1)) else t1)"
  have t2: "pd_port t2 = pd_port t"
    using port_msg_filter[of m t] Pair by (simp add: t2_def pd_put_hw_event_def)
  have put: "pd_port b = pd_port t" if "pd_put_event e True t2 = (a, b)" for a b
    using port_put_event[of e True t2] that t2 by simp
  show ?thesis
  proof (cases x)
    case None
    then show ?thesis using assms Pair t2 by (auto simp: pd_put_pd_msg_event_def Let_def t2_def)
  next
    case (Some d)
    then have d: "(if d then snd (pd_put_hw_event PD_HW_TX_FAILED (act (DisableTimer PD_TIMER_DISCARD) t1)) else t1) = t2"
      by (simp add: t2_def)
    show ?thesis
      using assms t2 put unfolding pd_put_pd_msg_event_def Pair Some Let_def prod.case option.case d e_def[symmetric]
      by (auto simp: pd_free_event_def dest!: port_put_vdm split: prod.split_asm bool.split_asm if_split_asm)
  qed
qed

lemma port_alloc_msg: "pd_port (snd (pd_alloc_msg t)) = pd_port t"
  by (simp add: pd_alloc_msg_def pd_alloc_msg_locked_def split: option.split)

lemma view_add_miss:
  assumes "pd_add_miss_msg m t = Inr t'"
  shows "pe_view t' = pe_view t"
proof -
  let ?t = "snd (pd_put_event (simple_evt PD_EVT_CTRL_MSG m 0) True t)"
  have a: "pd_port (snd (pd_alloc_msg ?t)) = pd_port t" by (simp add: port_alloc_msg)
  show ?thesis
  proof (cases "pd_alloc_msg ?t")
    case (Pair x t1)
    then have "pd_port t1 = pd_port t" using a by simp
    then show ?thesis using assms Pair
      by (auto simp: pd_add_miss_msg_def kbind_eq_Inr Let_def pe_view_def pe_kept_def upd_port_def
          dest!: port_put_pd_msg split: option.split_asm if_split_asm)
  qed
qed

lemma view_recover: "pe_recover_miss_msg t = Inr (b, t') \<Longrightarrow> pe_view t' = pe_view t"
  by (auto simp: pe_recover_miss_msg_def Let_def kbind_eq_Inr dest!: view_add_miss split: if_split_asm)
    (simp_all add: pe_view_def pe_kept_def upd_port_def)

lemma recover_no_transit: "pe_recover_miss_msg t = Inr (ret, t') \<Longrightarrow> \<not> ret"
  by (auto simp: pe_recover_miss_msg_def Let_def kbind_eq_Inr split: if_split_asm)

lemma keeps_check_pd_msg:
  assumes "good r k t" "role_state r (pe_pd_state (pd_port t))" "\<not> tcp_bist (evt t)"
  shows "keeps_res r k (pe_check_pd_msg env pm t)"
proof (cases "pe_is_valid_pd_msg_id pm t")
  case (Inr x)
  obtain ok t1 where x: "x = (ok, t1)" by (cases x)
  note v = Inr[unfolded x]
  have g: "good r k t1" using assms(1) valid_id_frame(1)[OF v] good_cong by blast
  have "keeps_res r k (pe_handle env t1)" "keeps r k (transit PE_ERROR_RECOVERY t1)"
    using assms(2,3) g valid_id_frame(2,3)[OF v] by (simp_all add: keeps_handle keeps_transit role_defs)
  moreover have "keeps_res r k (pe_recover_miss_msg t1)"
  proof (cases "pe_recover_miss_msg t1")
    case (Inr y)
    then obtain b t2 where y: "pe_recover_miss_msg t1 = Inr (b, t2)" by (cases y) auto
    have "good r k t2" using g good_cong[OF view_recover[OF y]] by simp
    then show ?thesis using recover_no_transit[OF y] by (simp add: y keeps_res_def keeps_no)
  qed (simp add: keeps_res_def)
  ultimately show ?thesis using g by (simp add: pe_check_pd_msg_def v keeps_res_def keeps_no)
qed (simp add: pe_check_pd_msg_def keeps_res_def)

lemma translate_frame:
  "pe_view (pe_translate_pd_msg_event pm t) = pe_view t"
  "pe_pd_state (pd_port (pe_translate_pd_msg_event pm t)) = pe_pd_state (pd_port t)"
  "\<not> tcp_bist (evt (pe_translate_pd_msg_event pm t))"
  by (simp_all add: pe_translate_pd_msg_event_def pd_sync_sop_prime_spec_revision_def pe_view_def pe_kept_def upd_port_def
      tcp_bist_def Let_def)

lemma init_curr_state_good:
  assumes "role_state (power_role (pd_port t)) (curr t)"
  shows "good (power_role (pd_port t)) (pe_kept (pd_port t)) (pe_init_curr_state t)"
  using assms by (cases "power_role (pd_port t) = 0") (simp_all add: good_def pe_view_def pe_kept_def pe_init_curr_state_def upd_port_def)

lemma init_curr_state_frame:
  "pe_pd_state (pd_port (pe_init_curr_state t)) = pe_pd_state (pd_port t)" "evt (pe_init_curr_state t) = evt t"
  "pd_msg_buffer (pe_init_curr_state t) = pd_msg_buffer t" "curr (pe_init_curr_state t) = curr t"
  by (simp_all add: pe_init_curr_state_def upd_port_def)

lemma keeps_running:
  assumes "role_state (power_role (pd_port t)) (pe_pd_state (pd_port t))" "role_state (power_role (pd_port t)) (curr t)"
    and "\<not> tcp_bist (evt t)" and "pe_check_trap_in_idle_state t = (TII_PE_RUNNING, t)"
  shows "keeps_res (power_role (pd_port t)) (pe_kept (pd_port t)) (pd_process_event env t)"
proof -
  define t1 where "t1 = pe_init_curr_state t"
  define t2 where "t2 = (if event_type (evt t1) = PD_EVT_PD_MSG
    then pe_translate_pd_msg_event (pd_msg_buffer t1 ! the (pd_msg (evt t1))) t1 else t1)"
  have g1: "good (power_role (pd_port t)) (pe_kept (pd_port t)) t1"
    unfolding t1_def by (rule init_curr_state_good[OF assms(2)])
  have g2: "good (power_role (pd_port t)) (pe_kept (pd_port t)) t2" "role_state (power_role (pd_port t)) (pe_pd_state (pd_port t2))"
    "\<not> tcp_bist (evt t2)"
    using g1 assms(1,3) translate_frame(1)[THEN good_cong] by (simp_all add: t2_def t1_def translate_frame init_curr_state_frame)
  have "pd_process_event env t = Inl NullDeref \<or> pd_process_event env t =
      (if event_type (evt t2) < PD_EVT_PD_MSG_END \<and> pd_msg (evt t1) \<noteq> None
       then pe_check_pd_msg env (pd_msg_buffer t2 ! the (pd_msg (evt t1))) t2 else pe_handle env t2)"
    using assms(4) unfolding pd_process_event_def t2_def t1_def Let_def by auto
  with keeps_check_pd_msg[OF g2, of env] keeps_handle[OF g2, of env] show ?thesis by (auto simp: keeps_res_def)
qed

lemma trap_cases:
  assumes "pe_check_trap_in_idle_state t = (x, t1)"
  obtains "x = TII_PE_RUNNING" "t1 = t" "pe_pd_state (pd_port t) \<notin> {PE_IDLE1, PE_IDLE2, PE_ERROR_RECOVERY}"
  | "x = TII_TRAP_IN_IDLE"
  | "x = TII_TRANSIT_STATE" "pe_pd_state (pd_port t) \<noteq> PE_IDLE2"
    "power_role (pd_port t1) = power_role (pd_port t)" "next_state t1 \<in> {PE_IDLE1, PE_IDLE2}"
  | "x = TII_TRANSIT_STATE" "pe_pd_state (pd_port t) = PE_IDLE2" "pe_transit_startup_state t = (True, t1)"
  using assms unfolding pe_check_trap_in_idle_state_def Let_def
  by (auto split: if_split_asm prod.split_asm)

lemma role_notify_startup [simp]: "power_role (pd_port (pd_dpm_notify_pe_startup t)) = power_role (pd_port t)"
  by (simp add: pd_dpm_notify_pe_startup_def svdm_notify_pe_startup_def svdm_reset_state_def dpm_reaction_set_def upd_port_def)

lemma role_init_hdr [simp]: "power_role (pd_port (pd_init_message_hdr b t)) = (if b then PD_ROLE_SINK else PD_ROLE_SOURCE)"
  by (simp add: pd_init_message_hdr_def pd_update_msg_header_def pd_init_spec_revision_def upd_port_def Let_def)

lemma role_next_neutral [simp]:
  "role_next r PE_IDLE1" "role_next r PE_IDLE2" "role_next r PE_ERROR_RECOVERY" "role_next r PE_ERROR_RECOVERY_ONCE"
  by (simp_all add: role_defs)

lemma startup_role:
  assumes "pe_transit_startup_state t = (True, t')"
  shows "role_next (power_role (pd_port t')) (next_state t')"
proof -
  obtain s t1 where s: "pe_get_startup_state t = (Some s, t1)" "t' = PE_TRANSIT_STATE s (pd_dpm_notify_pe_startup t1)"
    using assms by (auto simp: pe_transit_startup_state_def transit_def split: prod.split_asm option.split_asm)
  then have "role_next (power_role (pd_port t1)) s"
    by (auto simp: pe_get_startup_state_def Let_def split: if_split_asm) (simp_all add: role_defs)
  then show ?thesis by (simp add: s)
qed

lemma process_event_roles:
  assumes "role_state (power_role (pd_port t)) (pe_pd_state (pd_port t))" "role_state (power_role (pd_port t)) (curr t)"
    and "\<not> tcp_bist (evt t)" and "pd_process_event env t = Inr (True, t')"
  shows "role_next (power_role (pd_port t')) (next_state t')"
    and "pe_pd_state (pd_port t) \<noteq> PE_IDLE2 \<Longrightarrow> power_role (pd_port t') = power_role (pd_port t)"
proof -
  obtain x t1 where tr: "pe_check_trap_in_idle_state t = (x, t1)" by fastforce
  have "role_next (power_role (pd_port t')) (next_state t') \<and>
    (pe_pd_state (pd_port t) \<noteq> PE_IDLE2 \<longrightarrow> power_role (pd_port t') = power_role (pd_port t))"
    using tr
  proof (cases rule: trap_cases)
    case 1
    then show ?thesis using keeps_running[OF assms(1-3), of env] tr assms(4) by (simp add: keeps_res_def keeps_pair)
  next
    case 2
    then show ?thesis using assms(4) tr by (simp add: pd_process_event_def)
  next
    case 3
    then have "t1 = t'" using assms(4) tr by (simp add: pd_process_event_def)
    then show ?thesis using 3 by auto
  next
    case 4
    then show ?thesis using assms(4) tr startup_role by (auto simp: pd_process_event_def)
  qed
  then show "role_next (power_role (pd_port t')) (next_state t')"
    "pe_pd_state (pd_port t) \<noteq> PE_IDLE2 \<Longrightarrow> power_role (pd_port t') = power_role (pd_port t)" by blast+
qed

text \<open>
  C15. The states of a sink and of a source do not mix. When an event makes the engine change its
  state, the next state belongs to the power role of the port, or is the one state in which a power
  role swap changes the role; and the role changes only when a partner is attached to an idle
  port. The request of a carrier mode test is left out: it asks for a change of state without
  choosing the state.
\<close>

theorem role_discipline:
  assumes "role_state (power_role (pd_port t)) (pe_pd_state (pd_port t))" "role_state (power_role (pd_port t)) (curr t)"
    and "\<not> tcp_bist (evt t)" and "pd_process_event env t = Inr (True, t')"
  shows "role_next (power_role (pd_port t')) (next_state t') \<and>
    (pe_pd_state (pd_port t) \<noteq> PE_IDLE2 \<longrightarrow> power_role (pd_port t') = power_role (pd_port t))"
  using process_event_roles[OF assms] by blast

definition sink_hard_reset :: tcpc_device where
  "sink_hard_reset = upd_port (\<lambda>p. p\<lparr>pe_pd_state := PE_SNK_READY, pe_state_curr := PE_SNK_READY,
     curr_pd_event := simple_evt PD_EVT_HW_MSG PD_HW_RECV_HARD_RESET 0\<rparr>) zero_tcpc"

theorem role_discipline_witness:
  "\<exists>t'. pd_process_event chip0 sink_hard_reset = Inr (True, t') \<and>
     role_next (power_role (pd_port t')) (next_state t') \<and> power_role (pd_port t') = PD_ROLE_SINK"
proof -
  have "role_state (power_role (pd_port sink_hard_reset)) (pe_pd_state (pd_port sink_hard_reset)) \<and>
    role_state (power_role (pd_port sink_hard_reset)) (curr sink_hard_reset) \<and> \<not> tcp_bist (evt sink_hard_reset) \<and>
    pe_pd_state (pd_port sink_hard_reset) \<noteq> PE_IDLE2 \<and> power_role (pd_port sink_hard_reset) = PD_ROLE_SINK \<and>
    map_sum id fst (pd_process_event chip0 sink_hard_reset) = Inr True"
    by code_simp
  then show ?thesis
    using role_discipline[of sink_hard_reset chip0]
    by (cases "pd_process_event chip0 sink_hard_reset") auto
qed

end
