(* ===== verification/Pe_Actions.thy ===== *)
theory Pe_Actions
  imports Pe_Event
begin

unbundle bit_operations_syntax

text \<open>
  What the policy engine does when it enters or leaves a state, first the operations that the
  states share: flags of a state (\<open>inc/pd_policy_engine.h\<close>), resets, roles and messages
  (\<open>pd_core.c\<close>), swaps and VCONN (\<open>pd_dpm_core.c\<close>). Notifications, the results of which are not
  used, are recorded; the lock of the debug output is a flag.
\<close>

abbreviation (input) PE_STATE_MACHINE_IDLE :: nat where "PE_STATE_MACHINE_IDLE \<equiv> 0"
abbreviation (input) PD_RX_CAP_PE_DISABLE :: nat where "PD_RX_CAP_PE_DISABLE \<equiv> 32"
abbreviation (input) PD_RX_CAP_PE_STARTUP :: nat where "PD_RX_CAP_PE_STARTUP \<equiv> 32"
abbreviation (input) PD_RX_CAP_PE_HARDRESET :: nat where "PD_RX_CAP_PE_HARDRESET \<equiv> 0"
abbreviation (input) PD_RX_CAP_PE_SWAP :: nat where "PD_RX_CAP_PE_SWAP \<equiv> 33"
abbreviation (input) PD_RX_CAP_PE_SEND_WAIT_CAP :: nat where "PD_RX_CAP_PE_SEND_WAIT_CAP \<equiv> 33"
abbreviation (input) PD_RX_CAP_PE_DISCOVER_CABLE :: nat where "PD_RX_CAP_PE_DISCOVER_CABLE \<equiv> 34"
abbreviation (input) PD_RX_CAP_PE_READY_UFP :: nat where "PD_RX_CAP_PE_READY_UFP \<equiv> 33"
abbreviation (input) PD_RX_CAP_PE_READY_DFP :: nat where "PD_RX_CAP_PE_READY_DFP \<equiv> 35"
abbreviation (input) PD_CONNECT_TYPEC_ONLY_SRC :: nat where "PD_CONNECT_TYPEC_ONLY_SRC \<equiv> 3"
abbreviation (input) PD_CONNECT_HARD_RESET :: nat where "PD_CONNECT_HARD_RESET \<equiv> 9"
abbreviation (input) TCP_NOTIFY_PR_SWAP :: nat where "TCP_NOTIFY_PR_SWAP \<equiv> 9"
abbreviation (input) TCP_NOTIFY_DR_SWAP :: nat where "TCP_NOTIFY_DR_SWAP \<equiv> 10"
abbreviation (input) TCP_DPM_RET_DROP_RECV_SRESET :: nat where "TCP_DPM_RET_DROP_RECV_SRESET \<equiv> 12"
abbreviation (input) TCP_DPM_RET_DROP_SEND_BIST :: nat where "TCP_DPM_RET_DROP_SEND_BIST \<equiv> 16"
abbreviation (input) TCPC_TX_BIST_MODE_2 :: nat where "TCPC_TX_BIST_MODE_2 \<equiv> 7"
abbreviation (input) PD_ROLE_VCONN_DYNAMIC_OFF :: nat where "PD_ROLE_VCONN_DYNAMIC_OFF \<equiv> 2"
abbreviation (input) TCPC_VCONN_SUPPLY_NEVER :: nat where "TCPC_VCONN_SUPPLY_NEVER \<equiv> 0"
abbreviation (input) TCPC_VCONN_SUPPLY_ALWAYS :: nat where "TCPC_VCONN_SUPPLY_ALWAYS \<equiv> 1"
abbreviation (input) TCPC_VCONN_SUPPLY_EMARK_ONLY :: nat where "TCPC_VCONN_SUPPLY_EMARK_ONLY \<equiv> 2"
abbreviation (input) TCPC_VCONN_SUPPLY_STARTUP :: nat where "TCPC_VCONN_SUPPLY_STARTUP \<equiv> 3"
abbreviation (input) DPM_REACTION_RETURN_VCONN_SRC :: "32 word" where "DPM_REACTION_RETURN_VCONN_SRC \<equiv> 0x40"
abbreviation (input) DPM_CAP_LOCAL_EXT_POWER :: "32 word" where "DPM_CAP_LOCAL_EXT_POWER \<equiv> 4"
abbreviation (input) DPM_CAP_PR_SWAP_CHECK_GP_SNK :: "32 word" where "DPM_CAP_PR_SWAP_CHECK_GP_SNK \<equiv> 0x800000"
abbreviation (input) CONFIG_USB_PD_DPM_SVDM_RETRY :: nat where "CONFIG_USB_PD_DPM_SVDM_RETRY \<equiv> 2"

section \<open>Flags of a state\<close>

definition state_flags :: "8 word \<Rightarrow> tcpc_device \<Rightarrow> tcpc_device" where
  "state_flags f = upd_pe (\<lambda>d. d\<lparr>pe_state_flags := f\<rparr>)"

definition state_flags2 :: "8 word \<Rightarrow> tcpc_device \<Rightarrow> tcpc_device" where
  "state_flags2 f = upd_pe (\<lambda>d. d\<lparr>pe_state_flags2 := f\<rparr>)"

definition PE_STATE_WAIT_RESPONSE :: "tcpc_device \<Rightarrow> tcpc_device" where
  "PE_STATE_WAIT_RESPONSE = state_flags PE_STATE_FLAG_ENABLE_SENDER_RESPONSE_TIMER"

definition PE_STATE_WAIT_MSG :: "tcpc_device \<Rightarrow> tcpc_device" where
  "PE_STATE_WAIT_MSG = state_flags
     (PE_STATE_FLAG_BACK_READY_IF_SR_TIMER_TOUT OR PE_STATE_FLAG_ENABLE_SENDER_RESPONSE_TIMER)"

definition PE_STATE_WAIT_MSG_HRESET_IF_TOUT :: "tcpc_device \<Rightarrow> tcpc_device" where
  "PE_STATE_WAIT_MSG_HRESET_IF_TOUT = state_flags
     (PE_STATE_FLAG_HRESET_IF_SR_TIMEOUT OR PE_STATE_FLAG_ENABLE_SENDER_RESPONSE_TIMER)"

definition PE_STATE_WAIT_MSG_OR_TX_FAILED :: "tcpc_device \<Rightarrow> tcpc_device" where
  "PE_STATE_WAIT_MSG_OR_TX_FAILED = state_flags
     (PE_STATE_FLAG_BACK_READY_IF_TX_FAILED OR PE_STATE_FLAG_BACK_READY_IF_SR_TIMER_TOUT OR
      PE_STATE_FLAG_ENABLE_SENDER_RESPONSE_TIMER)"

definition PE_STATE_WAIT_MSG_OR_RJ :: "tcpc_device \<Rightarrow> tcpc_device" where
  "PE_STATE_WAIT_MSG_OR_RJ = state_flags
     (PE_STATE_FLAG_BACK_READY_IF_RECV_REJECT OR PE_STATE_FLAG_BACK_READY_IF_SR_TIMER_TOUT OR
      PE_STATE_FLAG_ENABLE_SENDER_RESPONSE_TIMER)"

definition PE_STATE_WAIT_ANSWER_MSG :: "tcpc_device \<Rightarrow> tcpc_device" where
  "PE_STATE_WAIT_ANSWER_MSG = state_flags
     (PE_STATE_FLAG_BACK_READY_IF_RECV_WAIT OR PE_STATE_FLAG_BACK_READY_IF_RECV_REJECT OR
      PE_STATE_FLAG_BACK_READY_IF_SR_TIMER_TOUT OR PE_STATE_FLAG_ENABLE_SENDER_RESPONSE_TIMER)"

definition PE_STATE_IGNORE_UNKNOWN_EVENT :: "tcpc_device \<Rightarrow> tcpc_device" where
  "PE_STATE_IGNORE_UNKNOWN_EVENT = state_flags PE_STATE_FLAG_IGNORE_UNKNOWN_EVENT"

definition PE_STATE_RECV_SOFT_RESET :: "tcpc_device \<Rightarrow> tcpc_device" where
  "PE_STATE_RECV_SOFT_RESET = state_flags
     (PE_STATE_FLAG_HRESET_IF_TX_FAILED OR PE_STATE_FLAG_IGNORE_UNKNOWN_EVENT)"

definition PE_STATE_SEND_SOFT_RESET :: "tcpc_device \<Rightarrow> tcpc_device" where
  "PE_STATE_SEND_SOFT_RESET = state_flags
     (PE_STATE_FLAG_HRESET_IF_TX_FAILED OR PE_STATE_FLAG_HRESET_IF_SR_TIMEOUT OR
      PE_STATE_FLAG_IGNORE_UNKNOWN_EVENT OR PE_STATE_FLAG_ENABLE_SENDER_RESPONSE_TIMER)"

definition PE_STATE_WAIT_TX_SUCCESS :: "tcpc_device \<Rightarrow> tcpc_device" where
  "PE_STATE_WAIT_TX_SUCCESS = state_flags2 PE_STATE_FLAG_BACK_READY_IF_RECV_GOOD_CRC"

definition PE_STATE_DPM_INFORMED :: "tcpc_device \<Rightarrow> tcpc_device" where
  "PE_STATE_DPM_INFORMED = state_flags2 (PE_STATE_FLAG_BACK_READY_IF_DPM_ACK OR PE_STATE_FLAG_DPM_ACK_IMMEDIATELY)"

definition PE_STATE_WAIT_DPM_ACK :: "tcpc_device \<Rightarrow> tcpc_device" where
  "PE_STATE_WAIT_DPM_ACK = state_flags2 PE_STATE_FLAG_BACK_READY_IF_DPM_ACK"

definition PE_STATE_DPM_ACK_IMMEDIATELY :: "tcpc_device \<Rightarrow> tcpc_device" where
  "PE_STATE_DPM_ACK_IMMEDIATELY =
     upd_pe (\<lambda>d. d\<lparr>pe_state_flags2 := pe_state_flags2 d OR PE_STATE_FLAG_DPM_ACK_IMMEDIATELY\<rparr>)"

definition pe_send_swap_request_entry :: "nat \<Rightarrow> tcpc_device \<Rightarrow> tcpc_device" where
  "pe_send_swap_request_entry m t = pd_send_sop_ctrl_msg m (PE_STATE_WAIT_ANSWER_MSG t)"

section \<open>Resets and roles\<close>

definition pd_lock_msg_output :: "tcpc_device \<Rightarrow> tcpc_device" where
  "pd_lock_msg_output = upd_port (\<lambda>p. p\<lparr>msg_output_lock := True\<rparr>)"

definition pd_unlock_msg_output :: "tcpc_device \<Rightarrow> tcpc_device" where
  "pd_unlock_msg_output = upd_port (\<lambda>p. p\<lparr>msg_output_lock := False\<rparr>)"

definition pd_reset_pe_timer :: "tcpc_device \<Rightarrow> tcpc_device" where
  "pd_reset_pe_timer t =
     (let t = act ResetPeTimers t
      in if request_apdo (pd_port t)
         then pd_dpm_start_pps_request_thread False (upd_port (\<lambda>p. p\<lparr>request_apdo := False\<rparr>) t) else t)"

definition pd_reset_svid_data :: "tcpc_device \<Rightarrow> tcpc_device" where
  "pd_reset_svid_data = upd_vdm (\<lambda>v. v\<lparr>svid_data :=
     map (\<lambda>d. d\<lparr>sd_exist := False, remote_mode := (remote_mode d)\<lparr>mode_cnt := 0\<rparr>, active_mode := 0\<rparr>) (svid_data v)\<rparr>)"

definition pd_reset_protocol_layer :: "bool \<Rightarrow> tcpc_device \<Rightarrow> tcpc_device" where
  "pd_reset_protocol_layer sop_only t =
     (let t = pd_notify_pe_reset_protocol (upd_port (\<lambda>p. p\<lparr>state_machine := PE_STATE_MACHINE_NORMAL\<rparr>) t);
          t = upd_pe (\<lambda>d. d\<lparr>cap_counter := 0, remote_alert := 0\<rparr>) t
      in upd_port (\<lambda>p.
           let p = p\<lparr>explicit_contract := False, local_selected_cap := 0, remote_selected_cap := 0,
                     during_swap := False, cap_miss_match := 0, msg_id_pr_swap_last := 255\<rparr>;
               p = (if pd_prev_connected p then dpm_reaction_set DPM_REACTION_DFP_FLOW_DELAY p else p);
               p = pe_reset_msg_id TCPC_TX_SOP (dpm_reaction_clear DPM_REACTION_RETURN_VCONN_SRC p)
           in if sop_only then p
              else pe_reset_msg_id TCPC_TX_SOP_PRIME_PRIME (pe_reset_msg_id TCPC_TX_SOP_PRIME
                     (p\<lparr>request_i := - 1, request_v := 5000\<rparr>))) t)"

definition pd_set_data_role :: "chip_env \<Rightarrow> nat \<Rightarrow> tcpc_device \<Rightarrow> tcpc_device" where
  "pd_set_data_role env dr t =
     (if dr = data_role (pd_port t) then t
      else let t = pd_update_msg_header (upd_port (\<lambda>p. p\<lparr>data_role := dr\<rparr>) t)
           in if chip_msg_header env < 0 then t else act (NotifyRoleSwap TCP_NOTIFY_DR_SWAP dr) t)"

definition pd_set_power_role :: "chip_env \<Rightarrow> nat \<Rightarrow> tcpc_device \<Rightarrow> tcpc_device" where
  "pd_set_power_role env pr t =
     (if pr = power_role (pd_port t) then t
      else let t = pd_update_msg_header (upd_port (\<lambda>p. p\<lparr>power_role := pr\<rparr>) t)
           in if chip_msg_header env < 0 then t
              else act (NotifyRoleSwap TCP_NOTIFY_PR_SWAP pr) (pd_notify_pe_pr_changed t))"

definition pd_reset_modal_operation :: "tcpc_device \<Rightarrow> tcpc_device" where
  "pd_reset_modal_operation t =
     upd_pe (\<lambda>d. d\<lparr>modal_operation := False\<rparr>)
       (upd_vdm (\<lambda>v. v\<lparr>svid_data := map (\<lambda>d. d\<lparr>active_mode := 0\<rparr>) (svid_data v)\<rparr>)
         (fold (\<lambda>d t. if active_mode d \<noteq> 0 then act (ExitMode (sd_svid d)) t else t)
            (svid_data (vdm_info (pd_port t))) t))"

definition pd_dpm_notify_pe_hardreset :: "tcpc_device \<Rightarrow> tcpc_device" where
  "pd_dpm_notify_pe_hardreset t =
     (let t = upd_port (\<lambda>p. p\<lparr>pd_traffic_idle := False\<rparr>) (upd_pe (\<lambda>d. d\<lparr>pe_ready := False\<rparr>) (svdm_reset_state t))
      in if dpm_svdm_retry_cnt (pe_data (pd_port t)) \<ge> CONFIG_USB_PD_DPM_SVDM_RETRY then t
         else svdm_notify_pe_startup
           (upd_port (dpm_reaction_set (DPM_REACTION_DISCOVER_ID OR DPM_REACTION_DISCOVER_SVID))
             (upd_pe (\<lambda>d. d\<lparr>dpm_svdm_retry_cnt := dpm_svdm_retry_cnt d + 1\<rparr>) t)))"

definition pd_reset_local_hw :: "chip_env \<Rightarrow> tcpc_device \<Rightarrow> tcpc_device" where
  "pd_reset_local_hw env t =
     (let t = pd_unlock_msg_output (pd_notify_pe_transit_to_default PD_CONNECT_HARD_RESET t);
          t = pd_set_rx_enable PD_RX_CAP_PE_HARDRESET (pd_reset_pe_timer t);
          t = upd_port (\<lambda>p. dpm_reaction_clear DPM_REACTION_CAP_RESET_CABLE
                (p\<lparr>explicit_contract := False, vconn_highv_prot := False, vconn_highv_prot_role := PD_ROLE_VCONN_OFF\<rparr>)) t;
          t = pd_reset_modal_operation (upd_pe (\<lambda>d. d\<lparr>pd_connected := False, pe_ready := False\<rparr>) t);
          t = snd (pd_set_vconn (chip_vconn env) PD_ROLE_VCONN_OFF t);
          dr = (if power_role (pd_port t) = PD_ROLE_SINK then PD_ROLE_UFP else PD_ROLE_DFP);
          t = pd_set_data_role env dr (upd_port (\<lambda>p. p\<lparr>state_machine := PE_STATE_MACHINE_NORMAL\<rparr>) t)
      in pd_dpm_notify_pe_hardreset (pd_init_spec_revision t))"

definition pd_handle_soft_reset :: "tcpc_device \<Rightarrow> tcpc_device" where
  "pd_handle_soft_reset t =
     pd_send_sop_ctrl_msg PD_CTRL_ACCEPT
       (pd_notify_tcp_event_buf_reset TCP_DPM_RET_DROP_RECV_SRESET
         (pd_reset_protocol_layer True (PE_STATE_RECV_SOFT_RESET t)))"

definition pd_handle_first_pd_command :: "tcpc_device \<Rightarrow> tcpc_device" where
  "pd_handle_first_pd_command t =
     upd_port (\<lambda>p. p\<lparr>pd_prev_connected := True\<rparr>)
       (upd_pe (\<lambda>d. d\<lparr>pd_connected := True\<rparr>) (upd_port pd_sync_sop_spec_revision t))"

definition pd_send_soft_reset :: "tcpc_device \<Rightarrow> tcpc_device" where
  "pd_send_soft_reset t =
     pd_send_sop_ctrl_msg PD_CTRL_SOFT_RESET
       (pd_notify_tcp_event_buf_reset TCP_DPM_RET_DROP_SENT_SRESET
         (pd_reset_protocol_layer True (PE_STATE_SEND_SOFT_RESET t)))"

definition pd_send_hard_reset :: "tcpc_device \<Rightarrow> tcpc_device" where
  "pd_send_hard_reset t =
     act TransmitHardReset (pd_notify_pe_send_hard_reset
       (upd_pe (\<lambda>d. d\<lparr>hard_reset_counter := u8 (hard_reset_counter d + 1)\<rparr>) (act AttachWakeup t)))"

definition pd_send_cable_soft_reset :: "tcpc_device \<Rightarrow> tcpc_device" where
  "pd_send_cable_soft_reset t =
     pd_send_message TCPC_TX_SOP_PRIME PD_CTRL_SOFT_RESET False []
       (upd_port (\<lambda>p. dpm_reaction_clear DPM_REACTION_CAP_RESET_CABLE (pe_reset_msg_id TCPC_TX_SOP_PRIME p)) t)"

definition pd_send_bist_mode2 :: "tcpc_device \<Rightarrow> tcpc_device" where
  "pd_send_bist_mode2 t =
     act (Transmit TCPC_TX_BIST_MODE_2 0 []) (pd_notify_tcp_event_buf_reset TCP_DPM_RET_DROP_SEND_BIST t)"

definition pd_enable_bist_test_mode :: "bool \<Rightarrow> tcpc_device \<Rightarrow> tcpc_device" where
  "pd_enable_bist_test_mode en = act (SetBistTestMode en)"

definition pd_reply_wait_reject_msg_no_resp :: "tcpc_device \<Rightarrow> tcpc_device" where
  "pd_reply_wait_reject_msg_no_resp t =
     pd_send_sop_ctrl_msg (if msg_sec (evt t) = PD_DPM_NAK_REJECT then PD_CTRL_REJECT else PD_CTRL_WAIT) t"

definition pd_reply_wait_reject_msg :: "tcpc_device \<Rightarrow> tcpc_device" where
  "pd_reply_wait_reject_msg t = pd_reply_wait_reject_msg_no_resp (PE_STATE_WAIT_TX_SUCCESS t)"

section \<open>Swaps and VCONN\<close>

definition dpm_response_request :: "bool \<Rightarrow> tcpc_device \<Rightarrow> tcpc_device" where
  "dpm_response_request accept t = (if accept then pd_put_dpm_ack_event t else pd_put_dpm_nak_event PD_DPM_NAK_REJECT t)"

definition pd_dpm_drs_evaluate_swap :: "nat \<Rightarrow> tcpc_device \<Rightarrow> tcpc_device" where
  "pd_dpm_drs_evaluate_swap role t = pd_put_dpm_ack_event t"

definition pd_dpm_drs_change_role :: "chip_env \<Rightarrow> nat \<Rightarrow> tcpc_device \<Rightarrow> tcpc_device" where
  "pd_dpm_drs_change_role env role t =
     PE_STATE_DPM_INFORMED (upd_port (\<lambda>p. dpm_reaction_set DPM_REACTION_DFP_FLOW_DELAY (p\<lparr>pd_traffic_idle := False\<rparr>))
       (upd_pe (\<lambda>d. d\<lparr>pe_ready := False\<rparr>) (pd_set_data_role env role t)))"

datatype good_power = GOOD_PW_NONE | GOOD_PW_PARTNER | GOOD_PW_LOCAL | GOOD_PW_BOTH

definition dpm_check_good_power :: "pd_port \<Rightarrow> good_power" where
  "dpm_check_good_power p =
     (let local_ex = has_flag (dpm_caps p) DPM_CAP_LOCAL_EXT_POWER; partner_ex = has_flag (dpm_flags p) DPM_FLAGS_PARTNER_EXTPOWER
      in if local_ex \<noteq> partner_ex then if partner_ex then GOOD_PW_PARTNER else GOOD_PW_LOCAL
         else if local_ex then GOOD_PW_BOTH else GOOD_PW_NONE)"

definition pd_dpm_prs_evaluate_swap :: "nat \<Rightarrow> tcpc_device \<Rightarrow> tcpc_device" where
  "pd_dpm_prs_evaluate_swap role t =
     (let p = pd_port t;
          check_src = has_flag (dpm_caps p) DPM_CAP_PR_SWAP_CHECK_GP_SRC;
          check_snk = has_flag (dpm_caps p) DPM_CAP_PR_SWAP_CHECK_GP_SNK;
          sink = (power_role p = PD_ROLE_SINK);
          accept = (if check_src \<or> check_snk
                    then case dpm_check_good_power p of
                           GOOD_PW_PARTNER \<Rightarrow> \<not> (sink \<and> check_snk)
                         | GOOD_PW_LOCAL \<Rightarrow> \<not> (\<not> sink \<and> check_src)
                         | _ \<Rightarrow> True
                    else True)
      in dpm_response_request accept t)"

definition pd_dpm_prs_turn_off_power_sink :: "tcpc_device \<Rightarrow> tcpc_device" where
  "pd_dpm_prs_turn_off_power_sink = tcpci_sink_vbus TCP_VBUS_CTRL_PR_SWAP 0 0"

definition pd_dpm_prs_change_role :: "chip_env \<Rightarrow> nat \<Rightarrow> tcpc_device \<Rightarrow> tcpc_device" where
  "pd_dpm_prs_change_role env role t =
     pd_put_dpm_ack_event (pd_set_power_role env role
       (upd_port (\<lambda>p. dpm_reaction_clear DPM_REACTION_REQUEST_PR_SWAP (p\<lparr>pd_traffic_idle := False\<rparr>)) t))"

definition pd_dpm_vcs_evaluate_swap :: "tcpc_device \<Rightarrow> tcpc_device" where
  "pd_dpm_vcs_evaluate_swap t =
     dpm_response_request (\<not> (vconn_role (pd_port t) = 0 \<and> tcpc_vconn_supply t = TCPC_VCONN_SUPPLY_NEVER)) t"

definition pd_dpm_vcs_enable_vconn :: "chip_env \<Rightarrow> nat \<Rightarrow> tcpc_device \<Rightarrow> tcpc_device" where
  "pd_dpm_vcs_enable_vconn env role t =
     (let t = snd (pd_set_vconn (chip_vconn env) role t)
      in if role \<noteq> PD_ROLE_VCONN_OFF then act (EnableTimer PD_TIMER_VCONN_READY) t
         else PE_STATE_DPM_ACK_IMMEDIATELY t)"

definition pd_dpm_dynamic_enable_vconn :: "chip_env \<Rightarrow> tcpc_device \<Rightarrow> tcpc_device" where
  "pd_dpm_dynamic_enable_vconn env t =
     (if tcpc_vconn_supply t \<le> TCPC_VCONN_SUPPLY_ALWAYS then t
      else if vconn_role (pd_port t) = PD_ROLE_VCONN_DYNAMIC_OFF
      then snd (pd_set_vconn (chip_vconn env) PD_ROLE_VCONN_DYNAMIC_ON t) else t)"

definition pd_dpm_dynamic_disable_vconn :: "chip_env \<Rightarrow> tcpc_device \<Rightarrow> tcpc_device" where
  "pd_dpm_dynamic_disable_vconn env t =
     (let p = pd_port t;
          keep_vconn = (if tcpc_vconn_supply t = TCPC_VCONN_SUPPLY_EMARK_ONLY then power_cable_present p
                        else tcpc_vconn_supply t \<noteq> TCPC_VCONN_SUPPLY_STARTUP)
      in if vconn_role p = PD_ROLE_VCONN_OFF \<or> keep_vconn \<or> tcp_event_count t \<noteq> 0 then t
         else if vconn_role p \<noteq> PD_ROLE_VCONN_DYNAMIC_OFF
         then snd (pd_set_vconn (chip_vconn env) PD_ROLE_VCONN_DYNAMIC_OFF t) else t)"

end
