(* ===== verification/Pe_Ext.thy ===== *)
theory Pe_Ext
  imports Pe_Actions
begin

unbundle bit_operations_syntax

text \<open>
  Messages of revision 3.0 that the port sends about itself and what it does with those of
  the partner (\<open>pd_dpm_core.c\<close>), and the packing of an extended message (\<open>pd_send_ext_msg\<close>
  of \<open>pd_core.c\<close>): 16 bits of header and the data, as little-endian words in an array of
  seven. Functions of which the only effect is debug output are left out.
\<close>

abbreviation (input) MAX_EXTENDED_MSG_LEN :: nat where "MAX_EXTENDED_MSG_LEN \<equiv> 26"
abbreviation (input) PD_DATA_OBJ_SIZE :: nat where "PD_DATA_OBJ_SIZE \<equiv> 7"
abbreviation (input) PD_SCEDB_SIZE :: nat where "PD_SCEDB_SIZE \<equiv> 24"
abbreviation (input) PD_BCDB_SIZE :: nat where "PD_BCDB_SIZE \<equiv> 9"
abbreviation (input) PD_GBCDB_SIZE :: nat where "PD_GBCDB_SIZE \<equiv> 1"
abbreviation (input) PD_GBSDB_SIZE :: nat where "PD_GBSDB_SIZE \<equiv> 1"
abbreviation (input) PD_GMIDB_SIZE :: nat where "PD_GMIDB_SIZE \<equiv> 2"
abbreviation (input) PD_GMIDB_TARGET_PORT :: nat where "PD_GMIDB_TARGET_PORT \<equiv> 0"
abbreviation (input) PD_GMIDB_TARGET_BATTRY :: nat where "PD_GMIDB_TARGET_BATTRY \<equiv> 1"
abbreviation (input) PD_CIDB_MIN_SIZE :: nat where "PD_CIDB_MIN_SIZE \<equiv> 4"
abbreviation (input) PD_STATUS_INPUT_INT_POWER_BAT :: "8 word" where "PD_STATUS_INPUT_INT_POWER_BAT \<equiv> 8"
abbreviation (input) PD_STATUS_EVENT_OTP :: "8 word" where "PD_STATUS_EVENT_OTP \<equiv> 4"
abbreviation (input) PD_STATUS_EVENT_OVP :: "8 word" where "PD_STATUS_EVENT_OVP \<equiv> 8"
abbreviation (input) PD_STASUS_EVENT_READ_CLEAR :: "8 word" where "PD_STASUS_EVENT_READ_CLEAR \<equiv> 14"

section \<open>Bytes and words\<close>

fun le_words :: "8 word list \<Rightarrow> 32 word list" where
  "le_words (a # b # c # d # xs) =
     (ucast a OR push_bit 8 (ucast b) OR push_bit 16 (ucast c) OR push_bit 24 (ucast d)) # le_words xs"
| "le_words xs = []"

definition le16 :: "16 word \<Rightarrow> 8 word list" where
  "le16 w = [ucast w, ucast (drop_bit 8 w)]"

definition le32 :: "32 word \<Rightarrow> 8 word list" where
  "le32 w = [ucast w, ucast (drop_bit 8 w), ucast (drop_bit 16 w), ucast (drop_bit 24 w)]"

text \<open>
  Byte \<open>i\<close> of the data of the current message. The data of an extended message begin behind
  the two bytes of the extended header.
\<close>

definition msg_byte :: "nat \<Rightarrow> tcpc_device \<Rightarrow> nat kres" where
  "msg_byte i t =
     (case pd_msg_data_payload (pd_port t) of
        None \<Rightarrow> Inl NullDeref
      | Some m \<Rightarrow>
          let bytes = concat (map le32 (payload (pd_msg_buffer t ! m)));
              j = i + (if event_type (evt t) = PD_EVT_EXT_MSG then 2 else 0)
          in if j < length bytes then Inr (unat (bytes ! j)) else Inl OutOfBounds)"

text \<open>Data object \<open>i\<close> of the current message.\<close>

definition msg_word :: "nat \<Rightarrow> tcpc_device \<Rightarrow> 32 word kres" where
  "msg_word i t =
     (case pd_msg_data_payload (pd_port t) of
        None \<Rightarrow> Inl NullDeref
      | Some m \<Rightarrow> pdo_at (payload (pd_msg_buffer t ! m)) i)"

section \<open>Extended messages\<close>

definition PD_EXT_HEADER_CK :: "nat \<Rightarrow> bool \<Rightarrow> nat \<Rightarrow> bool \<Rightarrow> 16 word" where
  "PD_EXT_HEADER_CK data_size req chunk_nr chunked =
     of_nat data_size OR push_bit 10 (of_bool req) OR push_bit 11 (of_nat chunk_nr) OR push_bit 15 (of_bool chunked)"

definition pd_send_ext_msg :: "nat \<Rightarrow> nat \<Rightarrow> bool \<Rightarrow> nat \<Rightarrow> 8 word list \<Rightarrow> tcpc_device \<Rightarrow> tcpc_device kres" where
  "pd_send_ext_msg sop_type m request chunk_nr data t =
     (let size = length data; cnt = (size + 2 - 1) div 4 + 1;
          bytes = le16 (PD_EXT_HEADER_CK size request chunk_nr True) @ data
      in if cnt > PD_DATA_OBJ_SIZE then Inl OutOfBounds
         else Inr (pd_send_message sop_type m True (le_words (bytes @ replicate (4 * cnt - length bytes) 0)) t))"

definition pd_send_sop_ext_msg :: "nat \<Rightarrow> 8 word list \<Rightarrow> tcpc_device \<Rightarrow> tcpc_device kres" where
  "pd_send_sop_ext_msg m data = pd_send_ext_msg TCPC_TX_SOP m False 0 data"

text \<open>The first \<open>n\<close> bytes of the data of the current request of the port manager.\<close>

definition tcp_event_bytes :: "nat \<Rightarrow> tcpc_device \<Rightarrow> 8 word list" where
  "tcp_event_bytes n t = take n (concat (map le32 (tcp_dpm_data (tcp_event (pd_port t)))))"

section \<open>Capabilities, batteries, manufacturer\<close>

definition pd_dpm_inform_source_cap_ext :: "tcpc_device \<Rightarrow> tcpc_device" where
  "pd_dpm_inform_source_cap_ext t =
     (if pd_event_msg_match (evt t) PD_EVT_EXT_MSG PD_EXT_SOURCE_CAP_EXT
      then upd_port (dpm_reaction_clear DPM_REACTION_GET_SOURCE_CAP_EXT) t else t)"

definition pd_dpm_send_source_cap_ext :: "tcpc_device \<Rightarrow> tcpc_device kres" where
  "pd_dpm_send_source_cap_ext t =
     pd_send_sop_ext_msg PD_EXT_SOURCE_CAP_EXT (take PD_SCEDB_SIZE (src_cap_ext (port_info (pd_port t)))) t"

definition pd_get_fix_battery_nr :: "pd_port \<Rightarrow> nat" where
  "pd_get_fix_battery_nr p = bat_nr p AND 0xf"

definition pd_get_battery_info :: "nat \<Rightarrow> pd_port \<Rightarrow> pd_battery_info option kres" where
  "pd_get_battery_info ref p =
     (let bats = fix_bat_info (port_info p)
      in if ref < pd_get_fix_battery_nr p
         then if ref < length bats then Inr (Some (bats ! ref)) else Inl OutOfBounds
         else Inr None)"

definition c_invalid_bcdb :: "8 word list" where
  "c_invalid_bcdb = replicate 8 0 @ [1]"

definition pd_dpm_send_battery_cap :: "tcpc_device \<Rightarrow> tcpc_device kres" where
  "pd_dpm_send_battery_cap t =
     kbind (msg_byte 0 t) (\<lambda>ref. kbind (pd_get_battery_info ref (pd_port t)) (\<lambda>info.
       case info of
         Some b \<Rightarrow> pd_send_sop_ext_msg PD_EXT_BAT_CAP (take PD_BCDB_SIZE (bat_cap b)) (act (RequestBatInfo ref) t)
       | None \<Rightarrow> pd_send_sop_ext_msg PD_EXT_BAT_CAP c_invalid_bcdb t))"

definition c_invalid_bsdo :: "32 word" where
  "c_invalid_bsdo = push_bit 16 0xffff OR push_bit 8 1"

definition pd_dpm_send_battery_status :: "tcpc_device \<Rightarrow> tcpc_device kres" where
  "pd_dpm_send_battery_status t =
     kbind (msg_byte 0 t) (\<lambda>ref. kbind (pd_get_battery_info ref (pd_port t)) (\<lambda>info.
       let (bsdo, t) = (case info of Some b \<Rightarrow> (bat_status b, act (RequestBatInfo ref) t)
                                   | None \<Rightarrow> (c_invalid_bsdo, t))
       in Inr (pd_send_sop_data_msg PD_DATA_BAT_STATUS [bsdo] (upd_pe (\<lambda>d. d\<lparr>get_status_once := True\<rparr>) t))))"

text \<open>
  \<open>struct pd_manufacturer_info\<close>: four bytes of numbers, and an array of characters that ends
  at the first zero or at its end.
\<close>

definition c_invalid_mfrs :: "8 word list \<times> 8 word list" where
  "c_invalid_mfrs = ([0xff, 0xff, 0, 0],
     [78, 111, 116, 32, 83, 117, 112, 112, 111, 114, 116, 101, 100] @ replicate 9 0)"

definition pd_dpm_send_mfrs_info :: "tcpc_device \<Rightarrow> tcpc_device kres" where
  "pd_dpm_send_mfrs_info t =
     kbind (msg_byte 0 t) (\<lambda>target. kbind (msg_byte 1 t) (\<lambda>ref.
     kbind (if target = PD_GMIDB_TARGET_BATTRY then pd_get_battery_info ref (pd_port t) else Inr None) (\<lambda>info.
       let pi = port_info (pd_port t);
           (ids, str) = (if target = PD_GMIDB_TARGET_PORT then (mfrs_ids pi, mfrs_string pi)
                         else case info of Some b \<Rightarrow> (bat_mfrs b, bat_mfrs_string b) | None \<Rightarrow> c_invalid_mfrs);
           len = length (takeWhile (\<lambda>c. c \<noteq> 0) str);
           len = (if len < length str then len + 1 else len)
       in pd_send_sop_ext_msg PD_EXT_MFR_INFO (ids @ take len str) t)))"

section \<open>Countries\<close>

text \<open>
  \<open>country_code\<close> has 12 elements and \<open>country_special_data\<close> has 22; the numbers of
  countries and of bytes come from the device tree and are not checked.
\<close>

definition pd_dpm_send_country_codes :: "tcpc_device \<Rightarrow> tcpc_device kres" where
  "pd_dpm_send_country_codes t =
     (let n = country_nr (pd_port t); ca = country_info (port_info (pd_port t))
      in if n > length ca \<or> n > 12 then Inl OutOfBounds
         else pd_send_sop_ext_msg PD_EXT_COUNTRY_CODES (le16 (of_nat n) @ concat (map (le16 \<circ> fst) (take n ca))) t)"

definition CCDO_COUNTRY_CODE :: "32 word \<Rightarrow> 16 word" where
  "CCDO_COUNTRY_CODE x = ucast (drop_bit 16 x AND 0xffff)"

definition pd_dpm_send_country_info :: "tcpc_device \<Rightarrow> tcpc_device kres" where
  "pd_dpm_send_country_info t =
     kbind (msg_word 0 t) (\<lambda>ccdo.
       let cc = CCDO_COUNTRY_CODE ccdo; n = country_nr (pd_port t);
           ca = country_info (port_info (pd_port t));
           special = (case find (\<lambda>c. fst c = cc) (take n ca) of Some c \<Rightarrow> snd c | None \<Rightarrow> [])
       in if (n > length ca \<and> find (\<lambda>c. fst c = cc) ca = None) \<or> length special > MAX_EXTENDED_MSG_LEN - PD_CIDB_MIN_SIZE
          then Inl OutOfBounds
          else pd_send_sop_ext_msg PD_EXT_COUNTRY_INFO (le16 cc @ [0, 0] @ special) t)"

section \<open>Alerts and status\<close>

definition pd_dpm_inform_alert :: "tcpc_device \<Rightarrow> tcpc_device kres" where
  "pd_dpm_inform_alert t =
     kbind (msg_word 0 t) (\<lambda>ado.
       Inr (act (NotifyAlert ado) (upd_pe (\<lambda>d. d\<lparr>remote_alert := ado\<rparr>)
         (upd_port (\<lambda>p. p\<lparr>pd_traffic_idle := False\<rparr>) t))))"

definition pd_dpm_send_alert :: "tcpc_device \<Rightarrow> tcpc_device" where
  "pd_dpm_send_alert t =
     (let ado = local_alert (pe_data (pd_port t))
      in pd_send_sop_data_msg PD_DATA_ALERT [ado] (upd_pe (\<lambda>d. d\<lparr>local_alert := 0\<rparr>) t))"

definition pd_dpm_inform_status :: "tcpc_device \<Rightarrow> tcpc_device" where
  "pd_dpm_inform_status t =
     (if pd_event_msg_match (evt t) PD_EVT_EXT_MSG PD_EXT_STATUS then act NotifyStatus t else t)"

definition pd_dpm_send_status :: "tcpc_device \<Rightarrow> tcpc_device kres" where
  "pd_dpm_send_status t =
     (let p = pd_port t; pi = port_info p; flags = pd_status_event (pe_data p);
          present_input = pd_status_present_in pi;
          bat_input = (if has_flag present_input PD_STATUS_INPUT_INT_POWER_BAT then pd_status_bat_in pi else 0);
          temp_status = (if has_flag flags PD_STATUS_EVENT_OTP then 6 else pd_status_temp_status pi);
          event_flags = (if power_role p \<noteq> PD_ROLE_SINK then flags AND NOT PD_STATUS_EVENT_OVP else flags)
      in pd_send_sop_ext_msg PD_EXT_STATUS
           [pd_status_temp pi, present_input, bat_input, event_flags, temp_status, 0, 0]
           (upd_pe (\<lambda>d. d\<lparr>pd_status_event := pd_status_event d AND NOT PD_STASUS_EVENT_READ_CLEAR,
                           get_status_once := True\<rparr>) t))"

end
