(* ===== verification/Pe_Svdm.thy ===== *)
theory Pe_Svdm
  imports Pe_Ext
begin

unbundle bit_operations_syntax

text \<open>
  Vendor defined messages of the device policy manager (\<open>pd_dpm_core.c\<close>, \<open>pd_dpm_prv.h\<close>) and
  their sending (\<open>pd_core.c\<close>): identity of the cable and of the partner, discovery of
  alternate modes, entering and leaving a mode, custom messages. What the code of an
  alternate mode does with a call is not modelled; the call is recorded.
\<close>

abbreviation (input) CMDT_RSP_ACK :: nat where "CMDT_RSP_ACK \<equiv> 1"
abbreviation (input) VDO_MAX_NR :: nat where "VDO_MAX_NR \<equiv> 6"
abbreviation (input) VDO_MAX_SVID_NR :: nat where "VDO_MAX_SVID_NR \<equiv> 12"
abbreviation (input) SVDM_REV10 :: nat where "SVDM_REV10 \<equiv> 0"
abbreviation (input) SVDM_REV20 :: nat where "SVDM_REV20 \<equiv> 1"
abbreviation (input) PD_IDH_MODAL_SUPPORT :: "32 word" where "PD_IDH_MODAL_SUPPORT \<equiv> 0x4000000"
abbreviation (input) USB_VID_DIRECTCHARGE :: "16 word" where "USB_VID_DIRECTCHARGE \<equiv> 0x29cf"
abbreviation (input) TCPC_REG_ALERT_RX_STATUS :: "32 word" where "TCPC_REG_ALERT_RX_STATUS \<equiv> 4"
abbreviation (input) PD_DISCOVER_ID30_COUNT :: nat where "PD_DISCOVER_ID30_COUNT \<equiv> 2"

section \<open>Flags of the vendor state machine\<close>

definition VDM_STATE_DPM_INFORMED :: "tcpc_device \<Rightarrow> tcpc_device" where
  "VDM_STATE_DPM_INFORMED = upd_pe (\<lambda>d. d\<lparr>vdm_state_flags :=
     VDM_STATE_FLAG_BACK_READY_IF_DPM_ACK OR VDM_STATE_FLAG_DPM_ACK_IMMEDIATELY\<rparr>)"

definition VDM_STATE_REPLY_SVDM_REQUEST :: "tcpc_device \<Rightarrow> tcpc_device" where
  "VDM_STATE_REPLY_SVDM_REQUEST = upd_pe (\<lambda>d. d\<lparr>vdm_state_flags := VDM_STATE_FLAG_BACK_READY_IF_RECV_GOOD_CRC\<rparr>)"

definition VDM_STATE_NORESP_CMD :: "tcpc_device \<Rightarrow> tcpc_device" where
  "VDM_STATE_NORESP_CMD = upd_pe (\<lambda>d. d\<lparr>vdm_state_flags := VDM_STATE_FLAG_BACK_READY_IF_RECV_GOOD_CRC\<rparr>)"

definition VDM_STATE_RESPONSE_CMD :: "tcpc_timer \<Rightarrow> tcpc_device \<Rightarrow> tcpc_device" where
  "VDM_STATE_RESPONSE_CMD timer_id t =
     upd_port (\<lambda>p. p\<lparr>vdm_state_timer := timer_id\<rparr>)
       (upd_pe (\<lambda>d. d\<lparr>vdm_state_flags := VDM_STATE_FLAG_ENABLE_VDM_RESPONSE_TIMER\<rparr>) t)"

section \<open>Sending\<close>

definition VDO_S :: "16 word \<Rightarrow> nat \<Rightarrow> nat \<Rightarrow> nat \<Rightarrow> nat \<Rightarrow> 32 word" where
  "VDO_S svid ver cmd_type cmd obj =
     push_bit 16 (ucast svid) OR push_bit 15 1 OR
     ((push_bit 13 (of_nat ver) OR push_bit 6 (of_nat cmd_type) OR push_bit 8 (of_nat obj) OR of_nat cmd) AND 0x7FFF)"

definition VDO_REPLY :: "nat \<Rightarrow> nat \<Rightarrow> 32 word \<Rightarrow> 32 word" where
  "VDO_REPLY ver cmd_type request_vdo =
     push_bit 13 (of_nat ver) OR push_bit 6 (of_nat cmd_type) OR (request_vdo AND NOT 0x60C0)"

definition send_result :: "chip_env \<Rightarrow> tcpc_device \<Rightarrow> int" where
  "send_result env t =
     (if typec_attach_old t = TYPEC_UNATTACHED \<or> pd_hard_reset_event_pending t then 0 else chip_transmit env)"

definition pd_send_svdm_request ::
  "chip_env \<Rightarrow> nat \<Rightarrow> 16 word \<Rightarrow> nat \<Rightarrow> nat \<Rightarrow> 32 word list \<Rightarrow> tcpc_timer \<Rightarrow> tcpc_device \<Rightarrow> tcpc_device" where
  "pd_send_svdm_request env sop_type svid cmd obj_pos data timer_id t =
     (if length data > VDO_MAX_NR then act WarnState t
      else let ver = (if pd_get_rev sop_type t \<ge> PD_REV30 then SVDM_REV20 else SVDM_REV10);
               ret = send_result env t;
               t = pd_send_message sop_type PD_DATA_VENDOR_DEF False
                     (VDO_S svid ver CMDT_INIT cmd obj_pos # data) t
           in if ret = 0 \<and> timer_id \<noteq> 0 then VDM_STATE_RESPONSE_CMD timer_id t else t)"

definition pd_send_vdm_discover_id :: "chip_env \<Rightarrow> nat \<Rightarrow> tcpc_device \<Rightarrow> tcpc_device" where
  "pd_send_vdm_discover_id env sop_type =
     pd_send_svdm_request env sop_type USB_SID_PD CMD_DISCOVER_IDENT 0 [] PD_TIMER_VDM_RESPONSE"

definition pd_send_vdm_discover_svids :: "chip_env \<Rightarrow> nat \<Rightarrow> tcpc_device \<Rightarrow> tcpc_device" where
  "pd_send_vdm_discover_svids env sop_type =
     pd_send_svdm_request env sop_type USB_SID_PD CMD_DISCOVER_SVID 0 [] PD_TIMER_VDM_RESPONSE"

definition pd_send_vdm_discover_modes :: "chip_env \<Rightarrow> nat \<Rightarrow> 16 word \<Rightarrow> tcpc_device \<Rightarrow> tcpc_device" where
  "pd_send_vdm_discover_modes env sop_type svid =
     pd_send_svdm_request env sop_type svid CMD_DISCOVER_MODES 0 [] PD_TIMER_VDM_RESPONSE"

definition pd_send_vdm_enter_mode :: "chip_env \<Rightarrow> nat \<Rightarrow> 16 word \<Rightarrow> nat \<Rightarrow> tcpc_device \<Rightarrow> tcpc_device" where
  "pd_send_vdm_enter_mode env sop_type svid obj_pos =
     pd_send_svdm_request env sop_type svid CMD_ENTER_MODE obj_pos [] PD_TIMER_VDM_MODE_ENTRY"

definition pd_send_vdm_exit_mode :: "chip_env \<Rightarrow> nat \<Rightarrow> 16 word \<Rightarrow> nat \<Rightarrow> tcpc_device \<Rightarrow> tcpc_device" where
  "pd_send_vdm_exit_mode env sop_type svid obj_pos =
     pd_send_svdm_request env sop_type svid CMD_EXIT_MODE obj_pos [] PD_TIMER_VDM_MODE_EXIT"

definition pd_send_vdm_attention :: "chip_env \<Rightarrow> nat \<Rightarrow> 16 word \<Rightarrow> nat \<Rightarrow> tcpc_device \<Rightarrow> tcpc_device" where
  "pd_send_vdm_attention env sop_type svid obj_pos =
     pd_send_svdm_request env sop_type svid CMD_ATTENTION obj_pos [] 0"

text \<open>With more than six objects the words sent are read past the end of \<open>payload\<close>.\<close>

definition pd_reply_svdm_request :: "chip_env \<Rightarrow> nat \<Rightarrow> 32 word list \<Rightarrow> tcpc_device \<Rightarrow> tcpc_device kres" where
  "pd_reply_svdm_request env reply data t =
     (let ver = (if pd_check_rev30 (pd_port t) then SVDM_REV20 else SVDM_REV10);
          hdr = VDO_REPLY ver reply (curr_vdm_hdr (vdm_info (pd_port t)))
      in if chip_alert_rv env \<noteq> 0 \<or> has_flag (chip_alert env) TCPC_REG_ALERT_RX_STATUS then Inr t
         else if length data > VDO_MAX_NR then Inl OutOfBounds
         else Inr (pd_send_sop_data_msg PD_DATA_VENDOR_DEF (hdr # data) (VDM_STATE_REPLY_SVDM_REQUEST t)))"

definition dpm_vdm_reply_svdm_request :: "chip_env \<Rightarrow> bool \<Rightarrow> tcpc_device \<Rightarrow> tcpc_device kres" where
  "dpm_vdm_reply_svdm_request env ack = pd_reply_svdm_request env (if ack then CMDT_RSP_ACK else CMDT_RSP_NAK) []"

definition dpm_vdm_reply_svdm_nak :: "chip_env \<Rightarrow> tcpc_device \<Rightarrow> tcpc_device kres" where
  "dpm_vdm_reply_svdm_nak env = pd_reply_svdm_request env CMDT_RSP_NAK []"

definition pd_send_custom_vdm :: "nat \<Rightarrow> tcpc_device \<Rightarrow> tcpc_device kres" where
  "pd_send_custom_vdm sop_type t =
     (let v = vdm_info (pd_port t)
      in if uvdm_cnt v \<le> length (uvdm_data v)
         then Inr (pd_send_message sop_type PD_DATA_VENDOR_DEF False (take (uvdm_cnt v) (uvdm_data v)) t)
         else Inl OutOfBounds)"

section \<open>Registered modes\<close>

definition dpm_get_svdm_svid_data :: "16 word \<Rightarrow> tcpc_device \<Rightarrow> svdm_svid_data option" where
  "dpm_get_svdm_svid_data svid t = find (\<lambda>d. sd_svid d = svid) (svid_data (vdm_info (pd_port t)))"

primrec upd_first :: "('a \<Rightarrow> bool) \<Rightarrow> ('a \<Rightarrow> 'a) \<Rightarrow> 'a list \<Rightarrow> 'a list" where
  "upd_first q f [] = []"
| "upd_first q f (x # xs) = (if q x then f x # xs else x # upd_first q f xs)"

definition upd_svid :: "16 word \<Rightarrow> (svdm_svid_data \<Rightarrow> svdm_svid_data) \<Rightarrow> tcpc_device \<Rightarrow> tcpc_device" where
  "upd_svid svid f = upd_vdm (\<lambda>v. v\<lparr>svid_data := upd_first (\<lambda>d. sd_svid d = svid) f (svid_data v)\<rparr>)"

definition alt_mode :: "16 word \<Rightarrow> alt_call \<Rightarrow> tcpc_device \<Rightarrow> tcpc_device" where
  "alt_mode svid a t = (if dpm_get_svdm_svid_data svid t = None then t else act (AltMode a) t)"

text \<open>\<open>modal_operation\<close> after a mode was left: some other registered mode is still active.\<close>

definition update_modal_operation :: "tcpc_device \<Rightarrow> tcpc_device" where
  "update_modal_operation t =
     upd_pe (\<lambda>d. d\<lparr>modal_operation := list_ex (\<lambda>s. active_mode s \<noteq> 0) (svid_data (vdm_info (pd_port t)))\<rparr>) t"

section \<open>Cable\<close>

text \<open>
  \<open>memcpy(cable_vdos, payload + 1, pd_get_msg_data_size(pd_port))\<close>: the size counts the
  vendor header too, which the source leaves out.
\<close>

definition copy_cable_vdos :: "nat \<Rightarrow> tcpc_device \<Rightarrow> tcpc_device kres" where
  "copy_cable_vdos m t =
     (let n = pd_msg_data_size (pd_port t) div 4; src = drop 1 (payload (pd_msg_buffer t ! m))
      in if n \<le> length (cable_vdos (pd_port t)) \<and> n \<le> length src
         then Inr (upd_port (\<lambda>p. p\<lparr>cable_vdos := take n src @ drop n (cable_vdos p)\<rparr>) t)
         else Inl OutOfBounds)"

definition pd_dpm_inform_cable_id :: "bool \<Rightarrow> tcpc_device \<Rightarrow> tcpc_device kres" where
  "pd_dpm_inform_cable_id src_startup t =
     kbind (case pd_msg_data_payload (pd_port t) of
              Some m \<Rightarrow> kbind (copy_cable_vdos m t)
                (\<lambda>t. Inr (upd_port (dpm_reaction_clear DPM_REACTION_DISCOVER_CABLE) t))
            | None \<Rightarrow> Inr (if discover_id_counter (pe_data (pd_port t)) \<ge> PD_DISCOVER_ID30_COUNT
                           then upd_port (pd_sync_sop_prime_spec_revision PD_REV20) t else t))
       (\<lambda>t. Inr (if src_startup then act (EnableTimer PD_TIMER_SOURCE_START) t else VDM_STATE_DPM_INFORMED t))"

section \<open>Requests of the partner\<close>

text \<open>Both functions pass \<open>mode_vdo[ops]\<close> on, though the modes are numbered from one.\<close>

definition dpm_ufp_update_svid_data_enter_mode :: "16 word \<Rightarrow> nat \<Rightarrow> tcpc_device \<Rightarrow> (bool \<times> tcpc_device) kres" where
  "dpm_ufp_update_svid_data_enter_mode svid ops t =
     (case dpm_get_svdm_svid_data svid t of
        None \<Rightarrow> Inr (False, t)
      | Some d \<Rightarrow>
          if active_mode d \<noteq> 0 then Inr (False, t)
          else if ops = 0 \<or> ops > mode_cnt (local_mode d) then Inr (False, t)
          else let t = upd_pe (\<lambda>d. d\<lparr>modal_operation := True\<rparr>) (upd_svid svid (\<lambda>d. d\<lparr>active_mode := ops\<rparr>) t);
                   t = alt_mode svid (AltUfpEnterMode svid ops) t
               in kbind (pdo_at (mode_vdo (local_mode d)) ops) (\<lambda>vdo. Inr (True, act (EnterMode svid ops vdo) t)))"

definition dpm_ufp_update_svid_data_exit_mode :: "16 word \<Rightarrow> nat \<Rightarrow> tcpc_device \<Rightarrow> bool \<times> tcpc_device" where
  "dpm_ufp_update_svid_data_exit_mode svid ops t =
     (case dpm_get_svdm_svid_data svid t of
        None \<Rightarrow> (False, t)
      | Some d \<Rightarrow>
          if active_mode d = 0 then (False, t)
          else if ops = 0 \<or> ops = active_mode d
          then (True, act (ExitMode svid) (alt_mode svid (AltUfpExitMode svid ops)
                 (update_modal_operation (upd_svid svid (\<lambda>d. d\<lparr>active_mode := 0\<rparr>) t))))
          else (False, t))"

definition VDO_IDH_PD20 :: "32 word \<Rightarrow> 32 word" where
  "VDO_IDH_PD20 idh = idh AND NOT (push_bit 21 0x1f)"

definition dpm_vdm_ufp_response_id :: "chip_env \<Rightarrow> tcpc_device \<Rightarrow> tcpc_device kres" where
  "dpm_vdm_ufp_response_id env t =
     (let rev30 = pd_check_rev30 (pd_port t); v = vdm_info (pd_port t);
          vdos = (id_vdos v)[0 := if rev30 then id_header v else VDO_IDH_PD20 (id_header v)];
          n = (if rev30 then id_vdo_nr v else 3)
      in if n > length vdos then Inl OutOfBounds
         else pd_reply_svdm_request env CMDT_RSP_ACK (take n vdos) (upd_vdm (\<lambda>v. v\<lparr>id_vdos := vdos\<rparr>) t))"

definition VDO_SVID :: "16 word \<Rightarrow> 16 word \<Rightarrow> 32 word" where
  "VDO_SVID svid0 svid1 = push_bit 16 (ucast svid0) OR ucast svid1"

fun svid_pairs :: "16 word list \<Rightarrow> 32 word list" where
  "svid_pairs (a # b # xs) = VDO_SVID a b # svid_pairs xs"
| "svid_pairs [a] = [VDO_SVID a 0]"
| "svid_pairs [] = []"

definition dpm_ufp_response_svids :: "chip_env \<Rightarrow> tcpc_device \<Rightarrow> tcpc_device kres" where
  "dpm_ufp_response_svids env t =
     (let ids = map sd_svid (svid_data (vdm_info (pd_port t)));
          svids = svid_pairs ids @ (if length ids mod 2 = 0 then [VDO_SVID 0 0] else [])
      in if length svids > VDO_MAX_NR then Inl OutOfBounds else pd_reply_svdm_request env CMDT_RSP_ACK svids t)"

definition dpm_vdm_ufp_response_modes :: "chip_env \<Rightarrow> tcpc_device \<Rightarrow> tcpc_device kres" where
  "dpm_vdm_ufp_response_modes env t =
     (case dpm_get_svdm_svid_data (curr_vdm_svid (vdm_info (pd_port t))) t of
        None \<Rightarrow> Inl NullDeref
      | Some d \<Rightarrow>
          if mode_cnt (local_mode d) > length (mode_vdo (local_mode d)) then Inl OutOfBounds
          else pd_reply_svdm_request env CMDT_RSP_ACK (take (mode_cnt (local_mode d)) (mode_vdo (local_mode d))) t)"

definition pd_is_support_modal_operation :: "vdm_info \<Rightarrow> bool" where
  "pd_is_support_modal_operation v \<longleftrightarrow> has_flag (id_vdos v ! 0) PD_IDH_MODAL_SUPPORT \<and> svid_data v \<noteq> []"

definition pd_dpm_ufp_request_id_info :: "chip_env \<Rightarrow> tcpc_device \<Rightarrow> tcpc_device kres" where
  "pd_dpm_ufp_request_id_info env t =
     (if curr_vdm_svid (vdm_info (pd_port t)) \<noteq> USB_SID_PD then dpm_vdm_reply_svdm_nak env t
      else dpm_vdm_ufp_response_id env t)"

definition pd_dpm_ufp_request_svid_info :: "chip_env \<Rightarrow> tcpc_device \<Rightarrow> tcpc_device kres" where
  "pd_dpm_ufp_request_svid_info env t =
     (let v = vdm_info (pd_port t)
      in if \<not> (pd_is_support_modal_operation v \<and> curr_vdm_svid v = USB_SID_PD) then dpm_vdm_reply_svdm_nak env t
         else dpm_ufp_response_svids env t)"

definition pd_dpm_ufp_request_mode_info :: "chip_env \<Rightarrow> tcpc_device \<Rightarrow> tcpc_device kres" where
  "pd_dpm_ufp_request_mode_info env t =
     (if dpm_get_svdm_svid_data (curr_vdm_svid (vdm_info (pd_port t))) t = None then dpm_vdm_reply_svdm_nak env t
      else dpm_vdm_ufp_response_modes env t)"

definition pd_dpm_ufp_request_enter_mode :: "chip_env \<Rightarrow> tcpc_device \<Rightarrow> tcpc_device kres" where
  "pd_dpm_ufp_request_enter_mode env t =
     (let v = vdm_info (pd_port t)
      in kbind (dpm_ufp_update_svid_data_enter_mode (curr_vdm_svid v) (curr_vdm_ops v) t)
           (\<lambda>(ack, t). dpm_vdm_reply_svdm_request env ack t))"

definition pd_dpm_ufp_request_exit_mode :: "chip_env \<Rightarrow> tcpc_device \<Rightarrow> tcpc_device kres" where
  "pd_dpm_ufp_request_exit_mode env t =
     (let v = vdm_info (pd_port t);
          (ack, t) = dpm_ufp_update_svid_data_exit_mode (curr_vdm_svid v) (curr_vdm_ops v) t
      in dpm_vdm_reply_svdm_request env ack t)"

definition pd_dpm_ufp_send_svdm_nak :: "chip_env \<Rightarrow> tcpc_device \<Rightarrow> tcpc_device kres" where
  "pd_dpm_ufp_send_svdm_nak = dpm_vdm_reply_svdm_nak"

end
