(* ===== verification/Pe_Dfp.thy ===== *)
theory Pe_Dfp
  imports Pe_Svdm
begin

unbundle bit_operations_syntax

text \<open>
  Answers of the partner to vendor requests of this port, and custom messages
  (\<open>pd_dpm_core.c\<close>). The count of objects in an answer leaves out the vendor header, as an
  8-bit difference.
\<close>

definition pd_get_msg_vdm_data_count :: "pd_port \<Rightarrow> nat" where
  "pd_get_msg_vdm_data_count p = u8 (pd_msg_data_count p + 255)"

text \<open>\<open>memcpy(dst, payload + 1, n * 4)\<close> over an array of \<open>size\<close> elements.\<close>

definition copy_vdos :: "nat \<Rightarrow> nat \<Rightarrow> tcpc_device \<Rightarrow> 32 word list \<Rightarrow> 32 word list kres" where
  "copy_vdos m n t dst =
     (let src = drop 1 (payload (pd_msg_buffer t ! m))
      in if n \<le> length dst \<and> n \<le> length src then Inr (take n src @ drop n dst) else Inl OutOfBounds)"

section \<open>Identity and alternate modes\<close>

definition dpm_dfp_update_partner_id :: "nat \<Rightarrow> tcpc_device \<Rightarrow> tcpc_device kres" where
  "dpm_dfp_update_partner_id m t =
     kbind (copy_vdos m (pd_get_msg_vdm_data_count (pd_port t)) t (partner_vdos (pe_data (pd_port t))))
       (\<lambda>vdos. Inr (upd_pe (\<lambda>d. d\<lparr>partner_id_present := True, partner_vdos := vdos\<rparr>) t))"

definition dpm_dfp_update_svid_data_exist :: "16 word \<Rightarrow> tcpc_device \<Rightarrow> tcpc_device" where
  "dpm_dfp_update_svid_data_exist svid t =
     upd_vdm (\<lambda>v. v\<lparr>svid_data := map (\<lambda>d. if sd_svid d = svid then d\<lparr>sd_exist := True\<rparr> else d) (svid_data v)\<rparr>)
       (upd_pe (\<lambda>d. if length (remote_svids d) < VDO_MAX_SVID_NR
                    then d\<lparr>remote_svids := remote_svids d @ [svid]\<rparr> else d) t)"

definition dpm_dfp_update_svid_data_modes :: "16 word \<Rightarrow> nat \<Rightarrow> nat \<Rightarrow> tcpc_device \<Rightarrow> tcpc_device kres" where
  "dpm_dfp_update_svid_data_modes svid m count t =
     (case dpm_get_svdm_svid_data svid t of
        None \<Rightarrow> Inr t
      | Some d \<Rightarrow> kbind (copy_vdos m count t (mode_vdo (remote_mode d)))
          (\<lambda>vdos. Inr (upd_svid svid (\<lambda>d. d\<lparr>remote_mode := \<lparr>mode_cnt = count, mode_vdo = vdos\<rparr>\<rparr>) t)))"

definition dpm_dfp_update_svid_enter_mode :: "16 word \<Rightarrow> nat \<Rightarrow> tcpc_device \<Rightarrow> tcpc_device kres" where
  "dpm_dfp_update_svid_enter_mode svid ops t =
     (case dpm_get_svdm_svid_data svid t of
        None \<Rightarrow> Inr t
      | Some d \<Rightarrow>
          let t = upd_pe (\<lambda>d. d\<lparr>modal_operation := True\<rparr>) (upd_svid svid (\<lambda>d. d\<lparr>active_mode := ops\<rparr>) t)
          in kbind (pdo_at (mode_vdo (remote_mode d)) ops) (\<lambda>vdo. Inr (act (EnterMode svid ops vdo) t)))"

definition dpm_dfp_update_svid_data_exit_mode :: "16 word \<Rightarrow> nat \<Rightarrow> tcpc_device \<Rightarrow> tcpc_device" where
  "dpm_dfp_update_svid_data_exit_mode svid ops t =
     (case dpm_get_svdm_svid_data svid t of
        None \<Rightarrow> t
      | Some d \<Rightarrow>
          if ops = 7 \<or> ops = active_mode d
          then act (ExitMode svid) (update_modal_operation (upd_svid svid (\<lambda>d. d\<lparr>active_mode := 0\<rparr>) t)) else t)"

definition pd_dpm_dfp_inform_id :: "bool \<Rightarrow> tcpc_device \<Rightarrow> tcpc_device kres" where
  "pd_dpm_dfp_inform_id ack t =
     (let t = VDM_STATE_DPM_INFORMED t
      in case pd_msg_data_payload (pd_port t) of
           None \<Rightarrow> Inr (upd_port (dpm_reaction_clear (DPM_REACTION_DISCOVER_ID OR DPM_REACTION_DISCOVER_SVID)) t)
         | Some m \<Rightarrow>
             kbind (if ack then dpm_dfp_update_partner_id m t else Inr t) (\<lambda>t.
               if vdm_discard_retry_flag (pe_data (pd_port t)) then Inr t
               else kbind (if ack then msg_word 1 t else Inr 0) (\<lambda>idh.
                 let t = upd_port (if \<not> ack \<or> \<not> has_flag idh PD_IDH_MODAL_SUPPORT
                                   then dpm_reaction_clear DPM_REACTION_DISCOVER_SVID
                                   else dpm_reaction_set DPM_REACTION_DISCOVER_SVID) t
                 in Inr (upd_port (dpm_reaction_clear DPM_REACTION_DISCOVER_ID) (act (AltMode (AltInformId ack)) t)))))"

text \<open>
  One word holds two numbers; a zero ends the list and the inner loop, but the outer loop
  goes on. The first result is \<open>discover_again\<close>.
\<close>

primrec consume_svid_words :: "32 word list \<Rightarrow> bool \<Rightarrow> tcpc_device \<Rightarrow> bool \<times> tcpc_device" where
  "consume_svid_words [] again t = (again, t)"
| "consume_svid_words (w # ws) again t =
     (let svid0 = ucast (drop_bit 16 w); svid1 = ucast (w AND 0xffff)
      in if svid0 = 0 then consume_svid_words ws False t
         else if svid1 = 0 then consume_svid_words ws False (dpm_dfp_update_svid_data_exist svid0 t)
         else consume_svid_words ws again
                (dpm_dfp_update_svid_data_exist svid1 (dpm_dfp_update_svid_data_exist svid0 t)))"

definition dpm_dfp_consume_svids :: "nat \<Rightarrow> nat \<Rightarrow> tcpc_device \<Rightarrow> (bool \<times> tcpc_device) kres" where
  "dpm_dfp_consume_svids m count t =
     (let src = drop 1 (payload (pd_msg_buffer t ! m))
      in if count > length src then Inl OutOfBounds
         else let (again, t) = consume_svid_words (take count src) (count \<ge> 6) t
              in if again
                 then kbind (pd_put_tcp_vdm_event TCP_DPM_EVT_DISCOVER_SVIDS t) (\<lambda>r. Inr (True, snd r))
                 else Inr (False, t))"

definition pd_dpm_dfp_inform_svids :: "bool \<Rightarrow> tcpc_device \<Rightarrow> tcpc_device kres" where
  "pd_dpm_dfp_inform_svids ack t =
     (let t = VDM_STATE_DPM_INFORMED t
      in kbind (if \<not> ack then Inr (False, t)
                else case pd_msg_data_payload (pd_port t) of
                       None \<Rightarrow> Inr (True, t)
                     | Some m \<Rightarrow> dpm_dfp_consume_svids m (pd_get_msg_vdm_data_count (pd_port t)) t)
           (\<lambda>(done, t).
             if done \<or> vdm_discard_retry_flag (pe_data (pd_port t)) then Inr t
             else Inr (upd_port (dpm_reaction_clear DPM_REACTION_DISCOVER_SVID) (act (AltMode (AltInformSvids ack)) t))))"

definition pd_dpm_dfp_inform_modes :: "bool \<Rightarrow> tcpc_device \<Rightarrow> tcpc_device kres" where
  "pd_dpm_dfp_inform_modes ack t =
     (let v = vdm_info (pd_port t); svid = curr_vdm_svid v; expected_svid = mode_svid v;
          ok = (ack \<and> svid = expected_svid)
      in kbind (case pd_msg_data_payload (pd_port t) of
                  Some m \<Rightarrow> if ok then dpm_dfp_update_svid_data_modes svid m (pd_get_msg_vdm_data_count (pd_port t)) t
                           else Inr t
                | None \<Rightarrow> Inr t)
           (\<lambda>t. Inr (VDM_STATE_DPM_INFORMED (alt_mode expected_svid (AltInformModes expected_svid ok) t))))"

definition pd_dpm_dfp_inform_enter_mode :: "bool \<Rightarrow> tcpc_device \<Rightarrow> tcpc_device kres" where
  "pd_dpm_dfp_inform_enter_mode ack t =
     (let v = vdm_info (pd_port t); svid = curr_vdm_svid v; expected_svid = mode_svid v;
          ops = (if ack then curr_vdm_ops v else 0); ok = (ack \<and> svid = expected_svid)
      in kbind (if ok then dpm_dfp_update_svid_enter_mode svid ops t else Inr t)
           (\<lambda>t. Inr (VDM_STATE_DPM_INFORMED
                  (alt_mode expected_svid (AltInformEnterMode expected_svid ops ok) t))))"

definition pd_dpm_dfp_inform_exit_mode :: "tcpc_device \<Rightarrow> tcpc_device" where
  "pd_dpm_dfp_inform_exit_mode t =
     (let expected_ops = mode_obj_pos (vdm_info (pd_port t)); expected_svid = mode_svid (vdm_info (pd_port t))
      in VDM_STATE_DPM_INFORMED (alt_mode expected_svid (AltInformExitMode expected_svid expected_ops)
           (dpm_dfp_update_svid_data_exit_mode expected_svid expected_ops t)))"

definition pd_dpm_dfp_inform_attention :: "tcpc_device \<Rightarrow> tcpc_device" where
  "pd_dpm_dfp_inform_attention t =
     (let svid = curr_vdm_svid (vdm_info (pd_port t))
      in VDM_STATE_DPM_INFORMED (alt_mode svid (AltInformAttention svid) t))"

section \<open>Custom messages\<close>

text \<open>\<open>memcpy(uvdm_data, payload, size)\<close>, the whole message with its header.\<close>

definition copy_uvdm :: "tcpc_device \<Rightarrow> tcpc_device kres" where
  "copy_uvdm t =
     (case pd_msg_data_payload (pd_port t) of
        None \<Rightarrow> if pd_msg_data_size (pd_port t) = 0
                then Inr (upd_vdm (\<lambda>v. v\<lparr>uvdm_cnt := pd_msg_data_count (pd_port t)\<rparr>) t) else Inl NullDeref
      | Some m \<Rightarrow>
          let n = pd_msg_data_size (pd_port t) div 4; src = payload (pd_msg_buffer t ! m)
          in if n \<le> length (uvdm_data (vdm_info (pd_port t))) \<and> n \<le> length src
             then Inr (upd_vdm (\<lambda>v. v\<lparr>uvdm_cnt := pd_msg_data_count (pd_port t),
                                      uvdm_data := take n src @ drop n (uvdm_data v)\<rparr>) t)
             else Inl OutOfBounds)"

definition pd_dpm_ufp_recv_uvdm :: "tcpc_device \<Rightarrow> tcpc_device kres" where
  "pd_dpm_ufp_recv_uvdm t =
     (let svid = curr_vdm_svid (vdm_info (pd_port t))
      in kbind (copy_uvdm (upd_vdm (\<lambda>v. v\<lparr>uvdm_svid := svid\<rparr>) t)) (\<lambda>t.
           if dpm_get_svdm_svid_data svid t \<noteq> None
           then Inr (act (NotifyUvdm True)
                  (if svid = USB_VID_DIRECTCHARGE then act (AltMode (AltUfpUvdm svid)) t else VDM_STATE_DPM_INFORMED t))
           else Inr (VDM_STATE_DPM_INFORMED (pd_put_dpm_event PD_DPM_NOT_SUPPORT t))))"

definition PD_VDO_VID :: "32 word \<Rightarrow> 16 word" where
  "PD_VDO_VID vdo = ucast (drop_bit 16 vdo)"

definition pd_dpm_dfp_send_uvdm :: "tcpc_device \<Rightarrow> tcpc_device kres" where
  "pd_dpm_dfp_send_uvdm t =
     kbind (pd_send_custom_vdm TCPC_TX_SOP t) (\<lambda>t.
       let t = upd_vdm (\<lambda>v. v\<lparr>uvdm_svid := PD_VDO_VID (uvdm_data v ! 0)\<rparr>) t
       in Inr (if uvdm_wait_resp (vdm_info (pd_port t)) then VDM_STATE_RESPONSE_CMD PD_TIMER_UVDM_RESPONSE t else t))"

definition pd_dpm_dfp_inform_uvdm :: "bool \<Rightarrow> tcpc_device \<Rightarrow> tcpc_device kres" where
  "pd_dpm_dfp_inform_uvdm ack t =
     (let v = vdm_info (pd_port t); expected_svid = uvdm_svid v;
          answer = (ack \<and> uvdm_wait_resp v); ok = (if answer then curr_vdm_svid v = expected_svid else ack)
      in kbind (if answer \<and> ok then copy_uvdm t else Inr t) (\<lambda>t.
           let t = act (NotifyUvdm ok) (alt_mode expected_svid (AltDfpUvdm expected_svid ok) t)
           in Inr (VDM_STATE_DPM_INFORMED (pd_notify_tcp_vdm_event_2nd_result
                (if ok then TCP_DPM_RET_VDM_ACK else TCP_DPM_RET_VDM_NAK) t))))"

end
