(* ===== verification/Pe_Enter.thy ===== *)
theory Pe_Enter
  imports Pe_Dfp
begin

unbundle bit_operations_syntax

text \<open>
  What the engine does on entering and on leaving a state: common states, sink and source
  (\<open>pd_policy_engine_com.c\<close>, \<open>pd_policy_engine_snk.c\<close>, \<open>pd_policy_engine_src.c\<close>). The debug
  output of \<open>PE_DBG\<close> and \<open>PE_INFO\<close> is left out. An entry that can fault gives a result of
  type \<open>kres\<close>.
\<close>

abbreviation (input) PD_CTRL_GET_PPS_STATUS :: nat where "PD_CTRL_GET_PPS_STATUS \<equiv> 20"

section \<open>Common states\<close>

definition pe_idle_reset_data :: "tcpc_device \<Rightarrow> tcpc_device" where
  "pe_idle_reset_data t =
     (let t = pd_reset_svid_data (pd_reset_pe_timer t);
          t = upd_port (\<lambda>p. p\<lparr>pd_prev_connected := False, state_machine := PE_STATE_MACHINE_IDLE\<rparr>) t;
          t = act (EnableTimer PD_TIMER_PE_IDLE_TOUT) (pd_enable_bist_test_mode False t)
      in pd_unlock_msg_output t)"

definition pe_idle1_entry :: "tcpc_device \<Rightarrow> tcpc_device" where
  "pe_idle1_entry t =
     pd_try_put_pe_idle_event (pe_idle_reset_data (upd_port (\<lambda>p. p\<lparr>error_recovery_once := 0\<rparr>) t))"

text \<open>
  \<open>memset(&pd_port->pe_data, 0, sizeof(struct pe_data))\<close>. The members of \<open>struct pe_data\<close> that
  the event layer uses are members of the port here.
\<close>

definition c_pe_data :: pe_data where
  "c_pe_data = \<lparr>pd_connected = False, modal_operation = False, pe_ready = False, reset_vdm_state = False,
     cable_rev_discovered = False, cap_counter = 0, discover_id_counter = 0, hard_reset_counter = 0,
     renegotiation_count = 0, vdm_discard_retry_flag = False, vdm_discard_retry_count = 0, dpm_reaction_id = 0, dpm_reaction_retry = 0,
     pe_state_flags = 0, pe_state_flags2 = 0, vdm_state_flags = 0, pe_state_timer = 0, local_alert = 0,
     remote_alert = 0, remote_svids = [], dp_local_status = 0, dp_local_config = 0, dpm_svdm_retry_cnt = 0,
     get_status_once = False, pd_status_event = 0, partner_id_present = False, partner_vdos = replicate VDO_MAX_NR 0\<rparr>"

definition pe_data_clear :: "pd_port \<Rightarrow> pd_port" where
  "pe_data_clear p = p\<lparr>pe_data := c_pe_data, pd_prev_connected := False, explicit_contract := False,
     invalid_contract := False, power_cable_present := False, during_swap := False,
     vconn_highv_prot := False, vconn_highv_prot_role := 0, msg_id_rx := replicate 3 0, msg_id_tx := replicate 3 0,
     dpm_flags := 0, dpm_ready_reactions := 0, local_selected_cap := 0, remote_selected_cap := 0,
     vdm_state_timer := 0, cable_vdos := replicate VDO_MAX_NR 0,
     remote_src_cap := \<lparr>caps_nr = 0, caps_pdos = replicate PD_DATA_OBJ_SIZE 0\<rparr>,
     remote_snk_cap := \<lparr>caps_nr = 0, caps_pdos = replicate PD_DATA_OBJ_SIZE 0\<rparr>,
     pd_traffic_idle := False, pd_traffic_control := 0\<rparr>"

definition pe_idle2_entry :: "tcpc_device \<Rightarrow> tcpc_device" where
  "pe_idle2_entry t =
     pd_notify_pe_idle (act (DisableTimer PD_TIMER_PE_IDLE_TOUT)
       (pd_set_rx_enable PD_RX_CAP_PE_IDLE (upd_port pe_data_clear t)))"

definition pe_reject_entry :: "tcpc_device \<Rightarrow> tcpc_device" where
  "pe_reject_entry t = pd_send_sop_ctrl_msg PD_CTRL_REJECT (PE_STATE_WAIT_TX_SUCCESS t)"

definition pe_error_recovery_entry :: "tcpc_device \<Rightarrow> tcpc_device" where
  "pe_error_recovery_entry t =
     pd_try_put_pe_idle_event (pd_notify_pe_error_recovery (pe_idle_reset_data
       (upd_port (\<lambda>p. p\<lparr>error_recovery_once := u8 (error_recovery_once p + 1)\<rparr>) t)))"

definition pe_error_recovery_once_entry :: "chip_env \<Rightarrow> tcpc_device \<Rightarrow> tcpc_device" where
  "pe_error_recovery_once_entry env t =
     (let t = pd_notify_pe_hard_reset_completed t
      in if power_role (pd_port t) = PD_ROLE_SOURCE
         then act (UpdateConnectState PD_CONNECT_TYPEC_ONLY_SRC) (pd_dpm_dynamic_disable_vconn env t)
         else act (UpdateConnectState PD_CONNECT_TYPEC_ONLY_SNK_DFT) (pd_dpm_sink_vbus True t))"

definition pe_bist_test_data_entry :: "tcpc_device \<Rightarrow> tcpc_device" where
  "pe_bist_test_data_entry t = pd_enable_bist_test_mode True (PE_STATE_IGNORE_UNKNOWN_EVENT t)"

definition pe_bist_test_data_exit :: "tcpc_device \<Rightarrow> tcpc_device" where
  "pe_bist_test_data_exit = pd_enable_bist_test_mode False"

definition pe_bist_carrier_mode_2_entry :: "tcpc_device \<Rightarrow> tcpc_device" where
  "pe_bist_carrier_mode_2_entry t = pd_enable_pe_state_timer PD_TIMER_BIST_CONT_MODE (pd_send_bist_mode2 t)"

definition pe30_power_ready_entry :: "tcpc_device \<Rightarrow> nat \<times> tcpc_device" where
  "pe30_power_ready_entry t =
     (if vconn_role (pd_port t) \<noteq> PD_ROLE_VCONN_OFF then PD_RX_CAP_PE_READY_DFP else PD_RX_CAP_PE_READY_UFP,
      upd_port (dpm_reaction_clear (DPM_REACTION_DFP_FLOW_DELAY OR DPM_REACTION_UFP_FLOW_DELAY)) t)"

definition pe20_power_ready_entry :: "tcpc_device \<Rightarrow> nat \<times> tcpc_device" where
  "pe20_power_ready_entry t =
     (if data_role (pd_port t) = PD_ROLE_DFP then PD_RX_CAP_PE_READY_DFP else PD_RX_CAP_PE_READY_UFP, t)"

definition pe_power_ready_entry :: "tcpc_device \<Rightarrow> tcpc_device" where
  "pe_power_ready_entry t =
     (let t = upd_port (\<lambda>p. p\<lparr>state_machine := PE_STATE_MACHINE_NORMAL, during_swap := False, explicit_contract := True\<rparr>) t;
          t = upd_pe (\<lambda>d. d\<lparr>renegotiation_count := 0\<rparr>) t;
          (cap, t) = (if pd_check_rev30 (pd_port t) then pe30_power_ready_entry t else pe20_power_ready_entry t);
          t = upd_port (dpm_reaction_set DPM_REACTION_CAP_READY_ONCE) (pd_set_rx_enable cap t)
      in pd_notify_tcp_event_2nd_result TCP_DPM_RET_SUCCESS t)"

definition pe_get_battery_cap_entry :: "tcpc_device \<Rightarrow> tcpc_device kres" where
  "pe_get_battery_cap_entry t =
     pd_send_sop_ext_msg PD_EXT_GET_BAT_CAP (tcp_event_bytes PD_GBCDB_SIZE t) (PE_STATE_WAIT_MSG t)"

definition pe_give_battery_cap_entry :: "tcpc_device \<Rightarrow> tcpc_device kres" where
  "pe_give_battery_cap_entry t = pd_dpm_send_battery_cap (PE_STATE_WAIT_TX_SUCCESS t)"

definition pe_get_battery_status_entry :: "tcpc_device \<Rightarrow> tcpc_device kres" where
  "pe_get_battery_status_entry t =
     pd_send_sop_ext_msg PD_EXT_GET_BAT_STATUS (tcp_event_bytes PD_GBSDB_SIZE t) (PE_STATE_WAIT_MSG t)"

definition pe_give_battery_status_entry :: "tcpc_device \<Rightarrow> tcpc_device kres" where
  "pe_give_battery_status_entry t = pd_dpm_send_battery_status (PE_STATE_WAIT_TX_SUCCESS t)"

definition pe_get_manufacturer_info_entry :: "tcpc_device \<Rightarrow> tcpc_device kres" where
  "pe_get_manufacturer_info_entry t =
     pd_send_sop_ext_msg PD_EXT_GET_MFR_INFO (tcp_event_bytes PD_GMIDB_SIZE t) (PE_STATE_WAIT_MSG t)"

definition pe_give_manufacturer_info_entry :: "tcpc_device \<Rightarrow> tcpc_device kres" where
  "pe_give_manufacturer_info_entry t = pd_dpm_send_mfrs_info (PE_STATE_WAIT_TX_SUCCESS t)"

definition pe_get_country_codes_entry :: "tcpc_device \<Rightarrow> tcpc_device" where
  "pe_get_country_codes_entry t = pd_send_sop_ctrl_msg PD_CTRL_GET_COUNTRY_CODE (PE_STATE_WAIT_MSG t)"

definition pe_give_country_codes_entry :: "tcpc_device \<Rightarrow> tcpc_device kres" where
  "pe_give_country_codes_entry t = pd_dpm_send_country_codes (PE_STATE_WAIT_TX_SUCCESS t)"

definition pe_get_country_info_entry :: "tcpc_device \<Rightarrow> tcpc_device" where
  "pe_get_country_info_entry t =
     pd_send_sop_data_msg PD_DATA_GET_COUNTRY_INFO (take 1 (tcp_dpm_data (tcp_event (pd_port t)))) (PE_STATE_WAIT_MSG t)"

definition pe_give_country_info_entry :: "tcpc_device \<Rightarrow> tcpc_device kres" where
  "pe_give_country_info_entry t = pd_dpm_send_country_info (PE_STATE_WAIT_TX_SUCCESS t)"

definition pe_vdm_not_supported_entry :: "tcpc_device \<Rightarrow> tcpc_device" where
  "pe_vdm_not_supported_entry t = pd_send_sop_ctrl_msg PD_CTRL_NOT_SUPPORTED (PE_STATE_WAIT_TX_SUCCESS t)"

section \<open>Sink\<close>

definition pe_snk_startup_entry :: "tcpc_device \<Rightarrow> tcpc_device" where
  "pe_snk_startup_entry t =
     (let pr_swap = (state_machine (pd_port t) = PE_STATE_MACHINE_PR_SWAP);
          msg_id_last = msg_id_rx (pd_port t) ! TCPC_TX_SOP;
          t = pd_reset_protocol_layer False t;
          t = (if pr_swap then upd_port (\<lambda>p. p\<lparr>msg_id_pr_swap_last := msg_id_last\<rparr>) t else t);
          cap = (if pr_swap then PD_RX_CAP_PE_SEND_WAIT_CAP else PD_RX_CAP_PE_STARTUP)
      in pd_put_pe_event PD_PE_RESET_PRL_COMPLETED (pd_set_rx_enable cap t))"

definition pe_snk_discovery_entry :: "tcpc_device \<Rightarrow> tcpc_device" where
  "pe_snk_discovery_entry t =
     (if pd_wait_hard_reset_complete t
      then pd_enable_vbus_valid_detection False (pd_enable_pe_state_timer PD_TIMER_PS_TRANSITION t)
      else pd_enable_vbus_valid_detection True t)"

definition pe_snk_wait_for_capabilities_entry :: "tcpc_device \<Rightarrow> tcpc_device" where
  "pe_snk_wait_for_capabilities_entry t =
     (let t = (if pd_wait_hard_reset_complete t then pd_dpm_sink_vbus True t else t);
          t = pd_set_rx_enable PD_RX_CAP_PE_SEND_WAIT_CAP (pd_notify_pe_hard_reset_completed t)
      in pd_enable_pe_state_timer PD_TIMER_SINK_WAIT_CAP t)"

definition pe_snk_evaluate_capability_entry :: "tcpc_device \<Rightarrow> tcpc_device kres" where
  "pe_snk_evaluate_capability_entry t =
     pd_dpm_snk_evaluate_caps (upd_port (\<lambda>p. p\<lparr>explicit_contract := False\<rparr>)
       (pd_handle_first_pd_command (pd_handle_hard_reset_recovery (pd_lock_msg_output t))))"

definition pe_snk_select_capability_entry :: "tcpc_device \<Rightarrow> tcpc_device" where
  "pe_snk_select_capability_entry t =
     pd_send_sop_data_msg PD_DATA_REQUEST [last_rdo (pd_port t)] (pd_lock_msg_output (PE_STATE_WAIT_MSG_HRESET_IF_TOUT t))"

definition pe_snk_select_capability_exit :: "tcpc_device \<Rightarrow> tcpc_device" where
  "pe_snk_select_capability_exit t =
     (let e = evt t;
          t = (if pd_event_ctrl_msg_match e PD_CTRL_ACCEPT
               then upd_port (\<lambda>p. p\<lparr>remote_selected_cap := RDO_POS (last_rdo p), cap_miss_match := 0\<rparr>) t
               else if pd_event_ctrl_msg_match e PD_CTRL_REJECT
               then upd_port (\<lambda>p. p\<lparr>cap_miss_match := cap_miss_match p OR 2\<rparr>)
                      (if cap_miss_match (pd_port t) = 1 then upd_pe (\<lambda>d. d\<lparr>renegotiation_count := 0\<rparr>) t else t)
               else upd_port (\<lambda>p. p\<lparr>cap_miss_match := 0\<rparr>) t)
      in if pd_event_msg_match e PD_EVT_TIMER_MSG PD_TIMER_SENDER_RESPONSE then t else pd_unlock_msg_output t)"

definition pe_snk_transition_sink_entry :: "chip_env \<Rightarrow> tcpc_device \<Rightarrow> tcpc_device kres" where
  "pe_snk_transition_sink_entry env t =
     (let t = pd_enable_pe_state_timer PD_TIMER_PS_TRANSITION t;
          t = (if pd_event_ctrl_msg_match (evt t) PD_CTRL_GOTO_MIN \<and> has_flag (dpm_caps (pd_port t)) DPM_CAP_LOCAL_GIVE_BACK
               then upd_port (\<lambda>p. p\<lparr>request_i_new := request_i_op p\<rparr>) t else t)
      in pd_dpm_snk_standby_power (chip_vconn env) t)"

definition pe_snk_ready_entry :: "tcpc_device \<Rightarrow> tcpc_device" where
  "pe_snk_ready_entry t =
     pe_power_ready_entry (pd_notify_pe_snk_explicit_contract
       (if pd_event_ctrl_msg_match (evt t) PD_CTRL_WAIT then act (EnableTimer PD_TIMER_SINK_REQUEST) t else t))"

definition pe_snk_hard_reset_entry :: "chip_env \<Rightarrow> tcpc_device \<Rightarrow> tcpc_device" where
  "pe_snk_hard_reset_entry env t =
     (let t = pd_send_hard_reset t
      in if chip_rv env = 0 \<and> chip_id env = SC2150A_DID then act (EnableTimer PD_TIMER_HARD_RESET_COMPLETE) t else t)"

definition pe_snk_transition_to_default_entry :: "chip_env \<Rightarrow> tcpc_device \<Rightarrow> tcpc_device" where
  "pe_snk_transition_to_default_entry env t = pd_dpm_snk_hard_reset (pd_reset_local_hw env t)"

definition pe_snk_give_sink_cap_entry :: "tcpc_device \<Rightarrow> tcpc_device" where
  "pe_snk_give_sink_cap_entry t = pd_dpm_send_sink_caps (PE_STATE_WAIT_TX_SUCCESS t)"

definition pe_snk_get_source_cap_entry :: "tcpc_device \<Rightarrow> tcpc_device" where
  "pe_snk_get_source_cap_entry t = pd_send_sop_ctrl_msg PD_CTRL_GET_SOURCE_CAP (PE_STATE_WAIT_MSG t)"

definition pe_snk_send_soft_reset_entry :: "tcpc_device \<Rightarrow> tcpc_device" where
  "pe_snk_send_soft_reset_entry = pd_send_soft_reset"

definition pe_snk_soft_reset_entry :: "tcpc_device \<Rightarrow> tcpc_device" where
  "pe_snk_soft_reset_entry = pd_handle_soft_reset"

definition pe_snk_send_not_supported_entry :: "tcpc_device \<Rightarrow> tcpc_device" where
  "pe_snk_send_not_supported_entry t = pd_send_sop_ctrl_msg PD_CTRL_NOT_SUPPORTED (PE_STATE_WAIT_TX_SUCCESS t)"

definition pe_snk_not_supported_received_entry :: "tcpc_device \<Rightarrow> tcpc_device" where
  "pe_snk_not_supported_received_entry = PE_STATE_DPM_INFORMED"

definition pe_snk_chunk_received_entry :: "tcpc_device \<Rightarrow> tcpc_device" where
  "pe_snk_chunk_received_entry = act (EnableTimer PD_TIMER_CK_NOT_SUPPORTED)"

definition pe_snk_source_alert_received_entry :: "tcpc_device \<Rightarrow> tcpc_device kres" where
  "pe_snk_source_alert_received_entry t = pd_dpm_inform_alert (PE_STATE_DPM_INFORMED t)"

definition pe_snk_send_sink_alert_entry :: "tcpc_device \<Rightarrow> tcpc_device" where
  "pe_snk_send_sink_alert_entry t = pd_dpm_send_alert (PE_STATE_WAIT_TX_SUCCESS t)"

definition pe_snk_get_source_cap_ext_entry :: "tcpc_device \<Rightarrow> tcpc_device" where
  "pe_snk_get_source_cap_ext_entry t = pd_send_sop_ctrl_msg PD_CTRL_GET_SOURCE_CAP_EXT (PE_STATE_WAIT_MSG t)"

definition pe_snk_get_source_status_entry :: "tcpc_device \<Rightarrow> tcpc_device" where
  "pe_snk_get_source_status_entry t = pd_send_sop_ctrl_msg PD_CTRL_GET_STATUS (PE_STATE_WAIT_MSG t)"

definition pe_snk_give_sink_status_entry :: "tcpc_device \<Rightarrow> tcpc_device kres" where
  "pe_snk_give_sink_status_entry t = pd_dpm_send_status (PE_STATE_WAIT_TX_SUCCESS t)"

definition pe_snk_get_pps_status_entry :: "tcpc_device \<Rightarrow> tcpc_device" where
  "pe_snk_get_pps_status_entry t = pd_send_sop_ctrl_msg PD_CTRL_GET_PPS_STATUS (PE_STATE_WAIT_MSG t)"

section \<open>Source\<close>

definition pe_src_startup_entry :: "tcpc_device \<Rightarrow> tcpc_device" where
  "pe_src_startup_entry t =
     act (EnableTimer PD_TIMER_SOURCE_START) (pd_set_rx_enable PD_RX_CAP_PE_STARTUP (pd_reset_protocol_layer False t))"

definition pe_src_discovery_entry :: "tcpc_device \<Rightarrow> tcpc_device" where
  "pe_src_discovery_entry t =
     (let t = act (EnableTimer PD_TIMER_SOURCE_CAPABILITY) (upd_pe (\<lambda>d. d\<lparr>pd_connected := False\<rparr>) t);
          (discover, t) = pd_is_discover_cable t
      in if discover then act (EnableTimer PD_TIMER_DISCOVER_ID) t else t)"

definition pe_src_send_capabilities_entry :: "tcpc_device \<Rightarrow> tcpc_device kres" where
  "pe_src_send_capabilities_entry t =
     kbind (pd_dpm_send_source_caps (pd_set_rx_enable PD_RX_CAP_PE_SEND_WAIT_CAP (PE_STATE_WAIT_MSG_HRESET_IF_TOUT t)))
       (\<lambda>t. Inr (upd_pe (\<lambda>d. d\<lparr>cap_counter := u8 (cap_counter d + 1)\<rparr>) t))"

definition pe_src_negotiate_capabilities_entry :: "tcpc_device \<Rightarrow> tcpc_device kres" where
  "pe_src_negotiate_capabilities_entry t = pd_dpm_src_evaluate_request (pd_handle_first_pd_command t)"

definition pe_src_transition_supply_entry :: "tcpc_device \<Rightarrow> tcpc_device" where
  "pe_src_transition_supply_entry t =
     (if event_type (evt t) = PD_EVT_TCP_MSG
      then pd_send_sop_ctrl_msg PD_CTRL_GOTO_MIN (upd_port (\<lambda>p. p\<lparr>request_i_new := request_i_op p\<rparr>) t)
      else pd_send_sop_ctrl_msg PD_CTRL_ACCEPT t)"

definition pe_src_transition_supply2_entry :: "tcpc_device \<Rightarrow> tcpc_device" where
  "pe_src_transition_supply2_entry t = pd_send_sop_ctrl_msg PD_CTRL_PS_RDY (PE_STATE_WAIT_TX_SUCCESS t)"

definition pe_src_ready_entry :: "tcpc_device \<Rightarrow> tcpc_device" where
  "pe_src_ready_entry t = pe_power_ready_entry (pd_notify_pe_src_explicit_contract t)"

definition pe_src_disabled_entry :: "chip_env \<Rightarrow> tcpc_device \<Rightarrow> tcpc_device" where
  "pe_src_disabled_entry env t =
     pd_dpm_dynamic_disable_vconn env (act (UpdateConnectState PD_CONNECT_TYPEC_ONLY_SRC)
       (pd_set_rx_enable PD_RX_CAP_PE_DISABLE (pd_notify_pe_hard_reset_completed t)))"

definition pe_src_capability_response_entry :: "tcpc_device \<Rightarrow> tcpc_device" where
  "pe_src_capability_response_entry = pd_reply_wait_reject_msg_no_resp"

definition pe_src_hard_reset_entry :: "tcpc_device \<Rightarrow> tcpc_device" where
  "pe_src_hard_reset_entry t =
     act (EnableTimer PD_TIMER_NO_RESPONSE) (act (EnableTimer PD_TIMER_PS_HARD_RESET) (pd_send_hard_reset t))"

definition pe_src_hard_reset_received_entry :: "tcpc_device \<Rightarrow> tcpc_device" where
  "pe_src_hard_reset_received_entry t =
     act (EnableTimer PD_TIMER_NO_RESPONSE) (act (EnableTimer PD_TIMER_PS_HARD_RESET) t)"

definition pe_src_transition_to_default_entry :: "chip_env \<Rightarrow> tcpc_device \<Rightarrow> tcpc_device" where
  "pe_src_transition_to_default_entry env t = pd_dpm_src_hard_reset (pd_reset_local_hw env t)"

definition pe_src_transition_to_default_exit :: "chip_env \<Rightarrow> tcpc_device \<Rightarrow> tcpc_device" where
  "pe_src_transition_to_default_exit env t = snd (pd_set_vconn (chip_vconn env) PD_ROLE_VCONN_ON t)"

definition pe_src_get_sink_cap_entry :: "tcpc_device \<Rightarrow> tcpc_device" where
  "pe_src_get_sink_cap_entry t = pd_send_sop_ctrl_msg PD_CTRL_GET_SINK_CAP (PE_STATE_WAIT_MSG t)"

definition pe_src_get_sink_cap_exit :: "tcpc_device \<Rightarrow> tcpc_device kres" where
  "pe_src_get_sink_cap_exit = pd_dpm_dr_inform_sink_cap"

definition pe_src_wait_new_capabilities_entry :: "tcpc_device \<Rightarrow> tcpc_device" where
  "pe_src_wait_new_capabilities_entry t = t"

definition pe_src_send_soft_reset_entry :: "tcpc_device \<Rightarrow> tcpc_device" where
  "pe_src_send_soft_reset_entry = pd_send_soft_reset"

definition pe_src_soft_reset_entry :: "tcpc_device \<Rightarrow> tcpc_device" where
  "pe_src_soft_reset_entry = pd_handle_soft_reset"

definition pe_src_cbl_send_soft_reset_entry :: "tcpc_device \<Rightarrow> tcpc_device" where
  "pe_src_cbl_send_soft_reset_entry t =
     pd_send_cable_soft_reset (pd_set_rx_enable PD_RX_CAP_PE_DISCOVER_CABLE (PE_STATE_WAIT_RESPONSE t))"

definition pe_src_vdm_identity_request_entry :: "chip_env \<Rightarrow> tcpc_device \<Rightarrow> tcpc_device" where
  "pe_src_vdm_identity_request_entry env t =
     pd_send_vdm_discover_id env TCPC_TX_SOP_PRIME
       (upd_pe (\<lambda>d. d\<lparr>discover_id_counter := u8 (discover_id_counter d + 1)\<rparr>)
         (pd_set_rx_enable PD_RX_CAP_PE_DISCOVER_CABLE t))"

definition pe_src_vdm_identity_acked_entry :: "tcpc_device \<Rightarrow> tcpc_device kres" where
  "pe_src_vdm_identity_acked_entry = pd_dpm_inform_cable_id True"

definition pe_src_vdm_identity_naked_entry :: "tcpc_device \<Rightarrow> tcpc_device kres" where
  "pe_src_vdm_identity_naked_entry = pd_dpm_inform_cable_id True"

definition pe_src_send_not_supported_entry :: "tcpc_device \<Rightarrow> tcpc_device" where
  "pe_src_send_not_supported_entry t = pd_send_sop_ctrl_msg PD_CTRL_NOT_SUPPORTED (PE_STATE_WAIT_TX_SUCCESS t)"

definition pe_src_not_supported_received_entry :: "tcpc_device \<Rightarrow> tcpc_device" where
  "pe_src_not_supported_received_entry = PE_STATE_DPM_INFORMED"

definition pe_src_chunk_received_entry :: "tcpc_device \<Rightarrow> tcpc_device" where
  "pe_src_chunk_received_entry = act (EnableTimer PD_TIMER_CK_NOT_SUPPORTED)"

definition pe_src_send_source_alert_entry :: "tcpc_device \<Rightarrow> tcpc_device" where
  "pe_src_send_source_alert_entry t = pd_dpm_send_alert (PE_STATE_WAIT_TX_SUCCESS t)"

definition pe_src_sink_alert_received_entry :: "tcpc_device \<Rightarrow> tcpc_device kres" where
  "pe_src_sink_alert_received_entry t = pd_dpm_inform_alert (PE_STATE_DPM_INFORMED t)"

definition pe_src_give_source_cap_ext_entry :: "tcpc_device \<Rightarrow> tcpc_device kres" where
  "pe_src_give_source_cap_ext_entry t = pd_dpm_send_source_cap_ext (PE_STATE_WAIT_TX_SUCCESS t)"

definition pe_src_give_source_status_entry :: "tcpc_device \<Rightarrow> tcpc_device kres" where
  "pe_src_give_source_status_entry t = pd_dpm_send_status (PE_STATE_WAIT_TX_SUCCESS t)"

definition pe_src_get_sink_status_entry :: "tcpc_device \<Rightarrow> tcpc_device" where
  "pe_src_get_sink_status_entry t = pd_send_sop_ctrl_msg PD_CTRL_GET_STATUS (PE_STATE_WAIT_MSG t)"

end
