(* ===== verification/Pe_Table.thy ===== *)
theory Pe_Table
  imports Pe_Enter
begin

unbundle bit_operations_syntax

text \<open>
  Entry and exit actions of the states of swaps (\<open>pd_policy_engine_dr.c\<close>, \<open>_drs.c\<close>, \<open>_prs.c\<close>,
  \<open>_vcs.c\<close>) and of vendor messages (\<open>_ufp.c\<close>, \<open>_dfp.c\<close>), and the tables of all entry and exit
  actions (\<open>pd_policy_engine.c\<close>). DisplayPort answers its own messages
  (\<open>pd_dpm_alt_mode_dp.c\<close>); these calls are recorded.
\<close>

section \<open>Capabilities of the same role\<close>

definition pe_dr_src_get_source_cap_entry :: "tcpc_device \<Rightarrow> tcpc_device" where
  "pe_dr_src_get_source_cap_entry t = pd_send_sop_ctrl_msg PD_CTRL_GET_SOURCE_CAP (PE_STATE_WAIT_MSG_OR_RJ t)"

definition pe_dr_src_get_source_cap_exit :: "tcpc_device \<Rightarrow> tcpc_device kres" where
  "pe_dr_src_get_source_cap_exit = pd_dpm_dr_inform_source_cap"

definition pe_dr_src_give_sink_cap_entry :: "tcpc_device \<Rightarrow> tcpc_device" where
  "pe_dr_src_give_sink_cap_entry t = pd_dpm_send_sink_caps (PE_STATE_WAIT_TX_SUCCESS t)"

definition pe_dr_snk_get_sink_cap_entry :: "tcpc_device \<Rightarrow> tcpc_device" where
  "pe_dr_snk_get_sink_cap_entry t = pd_send_sop_ctrl_msg PD_CTRL_GET_SINK_CAP (PE_STATE_WAIT_MSG_OR_RJ t)"

definition pe_dr_snk_get_sink_cap_exit :: "tcpc_device \<Rightarrow> tcpc_device kres" where
  "pe_dr_snk_get_sink_cap_exit = pd_dpm_dr_inform_sink_cap"

definition pe_dr_snk_give_source_cap_entry :: "tcpc_device \<Rightarrow> tcpc_device kres" where
  "pe_dr_snk_give_source_cap_entry t = pd_dpm_send_source_caps (PE_STATE_WAIT_TX_SUCCESS t)"

definition pe_dr_snk_give_source_cap_ext_entry :: "tcpc_device \<Rightarrow> tcpc_device kres" where
  "pe_dr_snk_give_source_cap_ext_entry t = pd_dpm_send_source_cap_ext (PE_STATE_WAIT_TX_SUCCESS t)"

definition pe_dr_src_get_source_cap_ext_entry :: "tcpc_device \<Rightarrow> tcpc_device" where
  "pe_dr_src_get_source_cap_ext_entry t = pd_send_sop_ctrl_msg PD_CTRL_GET_SOURCE_CAP_EXT (PE_STATE_WAIT_MSG t)"

section \<open>Swap of the data role\<close>

definition pe_drs_dfp_ufp_evaluate_dr_swap_entry :: "tcpc_device \<Rightarrow> tcpc_device" where
  "pe_drs_dfp_ufp_evaluate_dr_swap_entry = pd_dpm_drs_evaluate_swap PD_ROLE_UFP"

definition pe_drs_dfp_ufp_accept_dr_swap_entry :: "tcpc_device \<Rightarrow> tcpc_device" where
  "pe_drs_dfp_ufp_accept_dr_swap_entry = pd_send_sop_ctrl_msg PD_CTRL_ACCEPT"

definition pe_drs_dfp_ufp_change_to_ufp_entry :: "chip_env \<Rightarrow> tcpc_device \<Rightarrow> tcpc_device" where
  "pe_drs_dfp_ufp_change_to_ufp_entry env = pd_dpm_drs_change_role env PD_ROLE_UFP"

definition pe_drs_dfp_ufp_send_dr_swap_entry :: "tcpc_device \<Rightarrow> tcpc_device" where
  "pe_drs_dfp_ufp_send_dr_swap_entry = pe_send_swap_request_entry PD_CTRL_DR_SWAP"

definition pe_drs_dfp_ufp_reject_dr_swap_entry :: "tcpc_device \<Rightarrow> tcpc_device" where
  "pe_drs_dfp_ufp_reject_dr_swap_entry = pd_reply_wait_reject_msg"

definition pe_drs_ufp_dfp_evaluate_dr_swap_entry :: "tcpc_device \<Rightarrow> tcpc_device" where
  "pe_drs_ufp_dfp_evaluate_dr_swap_entry = pd_dpm_drs_evaluate_swap PD_ROLE_DFP"

definition pe_drs_ufp_dfp_accept_dr_swap_entry :: "tcpc_device \<Rightarrow> tcpc_device" where
  "pe_drs_ufp_dfp_accept_dr_swap_entry = pd_send_sop_ctrl_msg PD_CTRL_ACCEPT"

definition pe_drs_ufp_dfp_change_to_dfp_entry :: "chip_env \<Rightarrow> tcpc_device \<Rightarrow> tcpc_device" where
  "pe_drs_ufp_dfp_change_to_dfp_entry env t = 
     pd_dpm_drs_change_role env PD_ROLE_DFP (upd_port (dpm_reaction_set DPM_REACTION_CAP_RESET_CABLE) t)"

definition pe_drs_ufp_dfp_send_dr_swap_entry :: "tcpc_device \<Rightarrow> tcpc_device" where
  "pe_drs_ufp_dfp_send_dr_swap_entry = pe_send_swap_request_entry PD_CTRL_DR_SWAP"

definition pe_drs_ufp_dfp_reject_dr_swap_entry :: "tcpc_device \<Rightarrow> tcpc_device" where
  "pe_drs_ufp_dfp_reject_dr_swap_entry = pd_reply_wait_reject_msg"

section \<open>Swap of the power role\<close>

definition pe_prs_src_snk_evaluate_pr_swap_entry :: "tcpc_device \<Rightarrow> tcpc_device" where
  "pe_prs_src_snk_evaluate_pr_swap_entry = pd_dpm_prs_evaluate_swap PD_ROLE_SINK"

definition pe_prs_src_snk_accept_pr_swap_entry :: "tcpc_device \<Rightarrow> tcpc_device" where
  "pe_prs_src_snk_accept_pr_swap_entry t = pd_send_sop_ctrl_msg PD_CTRL_ACCEPT (pd_notify_pe_execute_pr_swap True t)"

definition pe_prs_src_snk_transition_to_off_entry :: "tcpc_device \<Rightarrow> tcpc_device" where
  "pe_prs_src_snk_transition_to_off_entry t = 
     act (EnableTimer PD_TIMER_SOURCE_TRANSITION) (pd_notify_pe_execute_pr_swap True (pd_lock_msg_output t))"

definition pe_prs_src_snk_assert_rd_entry :: "chip_env \<Rightarrow> tcpc_device \<Rightarrow> tcpc_device" where
  "pe_prs_src_snk_assert_rd_entry env = pd_dpm_prs_change_role env PD_ROLE_SINK"

definition pe_prs_src_snk_wait_source_on_entry :: "tcpc_device \<Rightarrow> tcpc_device" where
  "pe_prs_src_snk_wait_source_on_entry = pd_send_sop_ctrl_msg PD_CTRL_PS_RDY"

definition pe_prs_src_snk_send_swap_entry :: "tcpc_device \<Rightarrow> tcpc_device" where
  "pe_prs_src_snk_send_swap_entry = pe_send_swap_request_entry PD_CTRL_PR_SWAP"

definition pe_prs_src_snk_reject_pr_swap_entry :: "tcpc_device \<Rightarrow> tcpc_device" where
  "pe_prs_src_snk_reject_pr_swap_entry = pd_reply_wait_reject_msg"

definition pe_prs_snk_src_evaluate_pr_swap_entry :: "tcpc_device \<Rightarrow> tcpc_device" where
  "pe_prs_snk_src_evaluate_pr_swap_entry = pd_dpm_prs_evaluate_swap PD_ROLE_SOURCE"

definition pe_prs_snk_src_accept_pr_swap_entry :: "tcpc_device \<Rightarrow> tcpc_device" where
  "pe_prs_snk_src_accept_pr_swap_entry t = pd_send_sop_ctrl_msg PD_CTRL_ACCEPT (pd_notify_pe_execute_pr_swap True t)"

definition pe_prs_snk_src_transition_to_off_entry :: "tcpc_device \<Rightarrow> tcpc_device" where
  "pe_prs_snk_src_transition_to_off_entry t = 
     pd_dpm_prs_turn_off_power_sink (pd_enable_pe_state_timer PD_TIMER_PS_SOURCE_OFF
       (upd_port (\<lambda>p. p\<lparr>during_swap := True\<rparr>) t))"

definition pe_prs_snk_src_assert_rp_entry :: "chip_env \<Rightarrow> tcpc_device \<Rightarrow> tcpc_device" where
  "pe_prs_snk_src_assert_rp_entry env = pd_dpm_prs_change_role env PD_ROLE_SOURCE"

definition pe_prs_snk_src_source_on_entry :: "chip_env \<Rightarrow> tcpc_device \<Rightarrow> tcpc_device" where
  "pe_prs_snk_src_source_on_entry env t = 
     pd_dpm_prs_enable_power_source True (pd_dpm_dynamic_enable_vconn env
       (upd_port (dpm_reaction_set DPM_REACTION_CAP_RESET_CABLE) t))"

definition pe_prs_snk_src_send_swap_entry :: "tcpc_device \<Rightarrow> tcpc_device" where
  "pe_prs_snk_src_send_swap_entry t = pe_send_swap_request_entry PD_CTRL_PR_SWAP (pd_notify_pe_execute_pr_swap False t)"

definition pe_prs_snk_src_reject_swap_entry :: "tcpc_device \<Rightarrow> tcpc_device" where
  "pe_prs_snk_src_reject_swap_entry = pd_reply_wait_reject_msg"

section \<open>Swap of the VCONN source\<close>

definition pe_vcs_send_swap_entry :: "tcpc_device \<Rightarrow> tcpc_device" where
  "pe_vcs_send_swap_entry = pe_send_swap_request_entry PD_CTRL_VCONN_SWAP"

definition pe_vcs_evaluate_swap_entry :: "tcpc_device \<Rightarrow> tcpc_device" where
  "pe_vcs_evaluate_swap_entry = pd_dpm_vcs_evaluate_swap"

definition pe_vcs_accept_swap_entry :: "tcpc_device \<Rightarrow> tcpc_device" where
  "pe_vcs_accept_swap_entry = pd_send_sop_ctrl_msg PD_CTRL_ACCEPT"

definition pe_vcs_reject_vconn_swap_entry :: "tcpc_device \<Rightarrow> tcpc_device" where
  "pe_vcs_reject_vconn_swap_entry = pd_reply_wait_reject_msg"

definition pe_vcs_wait_for_vconn_entry :: "tcpc_device \<Rightarrow> tcpc_device" where
  "pe_vcs_wait_for_vconn_entry = pd_enable_pe_state_timer PD_TIMER_VCONN_ON"

definition pe_vcs_turn_off_vconn_entry :: "chip_env \<Rightarrow> tcpc_device \<Rightarrow> tcpc_device" where
  "pe_vcs_turn_off_vconn_entry env t = pd_dpm_vcs_enable_vconn env PD_ROLE_VCONN_OFF (PE_STATE_WAIT_DPM_ACK t)"

definition pe_vcs_turn_on_vconn_entry :: "chip_env \<Rightarrow> tcpc_device \<Rightarrow> tcpc_device" where
  "pe_vcs_turn_on_vconn_entry env t = 
     pd_dpm_vcs_enable_vconn env PD_ROLE_VCONN_DYNAMIC_ON (upd_port (dpm_reaction_set DPM_REACTION_CAP_RESET_CABLE) t)"

definition pe_vcs_send_ps_rdy_entry :: "tcpc_device \<Rightarrow> tcpc_device" where
  "pe_vcs_send_ps_rdy_entry t = pd_send_sop_ctrl_msg PD_CTRL_PS_RDY (PE_STATE_WAIT_TX_SUCCESS t)"

section \<open>Vendor requests of the partner\<close>

definition pe_ufp_vdm_get_identity_entry :: "chip_env \<Rightarrow> tcpc_device \<Rightarrow> tcpc_device kres" where
  "pe_ufp_vdm_get_identity_entry env = pd_dpm_ufp_request_id_info env"

definition pe_ufp_vdm_get_svids_entry :: "chip_env \<Rightarrow> tcpc_device \<Rightarrow> tcpc_device kres" where
  "pe_ufp_vdm_get_svids_entry env = pd_dpm_ufp_request_svid_info env"

definition pe_ufp_vdm_get_modes_entry :: "chip_env \<Rightarrow> tcpc_device \<Rightarrow> tcpc_device kres" where
  "pe_ufp_vdm_get_modes_entry env = pd_dpm_ufp_request_mode_info env"

definition pe_ufp_vdm_evaluate_mode_entry_entry :: "chip_env \<Rightarrow> tcpc_device \<Rightarrow> tcpc_device kres" where
  "pe_ufp_vdm_evaluate_mode_entry_entry env = pd_dpm_ufp_request_enter_mode env"

definition pe_ufp_vdm_mode_exit_entry :: "chip_env \<Rightarrow> tcpc_device \<Rightarrow> tcpc_device kres" where
  "pe_ufp_vdm_mode_exit_entry env = pd_dpm_ufp_request_exit_mode env"

definition pe_ufp_vdm_attention_request_entry :: "chip_env \<Rightarrow> tcpc_device \<Rightarrow> tcpc_device" where
  "pe_ufp_vdm_attention_request_entry env t = 
     (let t = VDM_STATE_NORESP_CMD t; v = vdm_info (pd_port t)
      in if mode_svid v = USB_SID_DISPLAYPORT then act (AltMode DpUfpAttention) t
         else pd_send_vdm_attention env TCPC_TX_SOP (mode_svid v) (mode_obj_pos v) t)"

definition pe_ufp_vdm_dp_status_update_entry :: "tcpc_device \<Rightarrow> tcpc_device" where
  "pe_ufp_vdm_dp_status_update_entry = act (AltMode DpUfpStatus)"

definition pe_ufp_vdm_dp_configure_entry :: "tcpc_device \<Rightarrow> tcpc_device" where
  "pe_ufp_vdm_dp_configure_entry = act (AltMode DpUfpConfig)"

definition pe_ufp_uvdm_recv_entry :: "tcpc_device \<Rightarrow> tcpc_device kres" where
  "pe_ufp_uvdm_recv_entry = pd_dpm_ufp_recv_uvdm"

definition pe_ufp_vdm_send_nak_entry :: "chip_env \<Rightarrow> tcpc_device \<Rightarrow> tcpc_device kres" where
  "pe_ufp_vdm_send_nak_entry env t = kbind (pd_dpm_ufp_send_svdm_nak env t) (\<lambda>t. Inr (VDM_STATE_DPM_INFORMED t))"

section \<open>Vendor requests of this port\<close>

definition pe_dfp_ufp_vdm_identity_request_entry :: "chip_env \<Rightarrow> tcpc_device \<Rightarrow> tcpc_device" where
  "pe_dfp_ufp_vdm_identity_request_entry env = pd_send_vdm_discover_id env TCPC_TX_SOP"

definition pe_dfp_ufp_vdm_identity_acked_entry :: "tcpc_device \<Rightarrow> tcpc_device kres" where
  "pe_dfp_ufp_vdm_identity_acked_entry = pd_dpm_dfp_inform_id True"

definition pe_dfp_ufp_vdm_identity_naked_entry :: "tcpc_device \<Rightarrow> tcpc_device kres" where
  "pe_dfp_ufp_vdm_identity_naked_entry = pd_dpm_dfp_inform_id False"

definition pe_dfp_cbl_vdm_identity_request_entry :: "chip_env \<Rightarrow> tcpc_device \<Rightarrow> tcpc_device" where
  "pe_dfp_cbl_vdm_identity_request_entry env t = 
     pd_send_vdm_discover_id env TCPC_TX_SOP_PRIME
       (upd_pe (\<lambda>d. d\<lparr>discover_id_counter := u8 (discover_id_counter d + 1)\<rparr>) t)"

definition pe_dfp_cbl_vdm_identity_acked_entry :: "tcpc_device \<Rightarrow> tcpc_device kres" where
  "pe_dfp_cbl_vdm_identity_acked_entry = pd_dpm_inform_cable_id False"

definition pe_dfp_cbl_vdm_identity_naked_entry :: "tcpc_device \<Rightarrow> tcpc_device kres" where
  "pe_dfp_cbl_vdm_identity_naked_entry = pd_dpm_inform_cable_id False"

definition pe_dfp_vdm_svids_request_entry :: "chip_env \<Rightarrow> tcpc_device \<Rightarrow> tcpc_device" where
  "pe_dfp_vdm_svids_request_entry env = pd_send_vdm_discover_svids env TCPC_TX_SOP"

definition pe_dfp_vdm_svids_acked_entry :: "tcpc_device \<Rightarrow> tcpc_device kres" where
  "pe_dfp_vdm_svids_acked_entry = pd_dpm_dfp_inform_svids True"

definition pe_dfp_vdm_svids_naked_entry :: "tcpc_device \<Rightarrow> tcpc_device kres" where
  "pe_dfp_vdm_svids_naked_entry = pd_dpm_dfp_inform_svids False"

definition pe_dfp_vdm_modes_request_entry :: "chip_env \<Rightarrow> tcpc_device \<Rightarrow> tcpc_device" where
  "pe_dfp_vdm_modes_request_entry env t = pd_send_vdm_discover_modes env TCPC_TX_SOP (mode_svid (vdm_info (pd_port t))) t"

definition pe_dfp_vdm_modes_acked_entry :: "tcpc_device \<Rightarrow> tcpc_device kres" where
  "pe_dfp_vdm_modes_acked_entry = pd_dpm_dfp_inform_modes True"

definition pe_dfp_vdm_modes_naked_entry :: "tcpc_device \<Rightarrow> tcpc_device kres" where
  "pe_dfp_vdm_modes_naked_entry = pd_dpm_dfp_inform_modes False"

definition pe_dfp_vdm_mode_entry_request_entry :: "chip_env \<Rightarrow> tcpc_device \<Rightarrow> tcpc_device" where
  "pe_dfp_vdm_mode_entry_request_entry env t = 
     pd_send_vdm_enter_mode env TCPC_TX_SOP (mode_svid (vdm_info (pd_port t))) (mode_obj_pos (vdm_info (pd_port t))) t"

definition pe_dfp_vdm_mode_entry_acked_entry :: "tcpc_device \<Rightarrow> tcpc_device kres" where
  "pe_dfp_vdm_mode_entry_acked_entry = pd_dpm_dfp_inform_enter_mode True"

definition pe_dfp_vdm_mode_entry_naked_entry :: "tcpc_device \<Rightarrow> tcpc_device kres" where
  "pe_dfp_vdm_mode_entry_naked_entry = pd_dpm_dfp_inform_enter_mode False"

definition pe_dfp_vdm_mode_exit_request_entry :: "chip_env \<Rightarrow> tcpc_device \<Rightarrow> tcpc_device" where
  "pe_dfp_vdm_mode_exit_request_entry env t = 
     pd_send_vdm_exit_mode env TCPC_TX_SOP (mode_svid (vdm_info (pd_port t))) (mode_obj_pos (vdm_info (pd_port t))) t"

definition pe_dfp_vdm_mode_exit_acked_entry :: "tcpc_device \<Rightarrow> tcpc_device" where
  "pe_dfp_vdm_mode_exit_acked_entry = pd_dpm_dfp_inform_exit_mode"

definition pe_dfp_vdm_attention_request_entry :: "tcpc_device \<Rightarrow> tcpc_device" where
  "pe_dfp_vdm_attention_request_entry = pd_dpm_dfp_inform_attention"

definition pe_dfp_cbl_send_soft_reset_entry :: "tcpc_device \<Rightarrow> tcpc_device" where
  "pe_dfp_cbl_send_soft_reset_entry t = pd_send_cable_soft_reset (PE_STATE_WAIT_MSG_OR_TX_FAILED t)"

definition pe_dfp_cbl_send_cable_reset_entry :: "tcpc_device \<Rightarrow> tcpc_device" where
  "pe_dfp_cbl_send_cable_reset_entry t = t"

definition pe_dfp_vdm_dp_status_update_request_entry :: "tcpc_device \<Rightarrow> tcpc_device" where
  "pe_dfp_vdm_dp_status_update_request_entry = act (AltMode DpDfpSendStatus)"

definition pe_dfp_vdm_dp_status_update_acked_entry :: "tcpc_device \<Rightarrow> tcpc_device" where
  "pe_dfp_vdm_dp_status_update_acked_entry = act (AltMode (DpDfpInformStatus True))"

definition pe_dfp_vdm_dp_status_update_naked_entry :: "tcpc_device \<Rightarrow> tcpc_device" where
  "pe_dfp_vdm_dp_status_update_naked_entry = act (AltMode (DpDfpInformStatus False))"

definition pe_dfp_vdm_dp_configuration_request_entry :: "tcpc_device \<Rightarrow> tcpc_device" where
  "pe_dfp_vdm_dp_configuration_request_entry = act (AltMode DpDfpSendConfig)"

definition pe_dfp_vdm_dp_configuration_acked_entry :: "tcpc_device \<Rightarrow> tcpc_device" where
  "pe_dfp_vdm_dp_configuration_acked_entry = act (AltMode (DpDfpInformConfig True))"

definition pe_dfp_vdm_dp_configuration_naked_entry :: "tcpc_device \<Rightarrow> tcpc_device" where
  "pe_dfp_vdm_dp_configuration_naked_entry = act (AltMode (DpDfpInformConfig False))"

definition pe_dfp_uvdm_send_entry :: "tcpc_device \<Rightarrow> tcpc_device kres" where
  "pe_dfp_uvdm_send_entry = pd_dpm_dfp_send_uvdm"

definition pe_dfp_uvdm_acked_entry :: "tcpc_device \<Rightarrow> tcpc_device kres" where
  "pe_dfp_uvdm_acked_entry = pd_dpm_dfp_inform_uvdm True"

definition pe_dfp_uvdm_naked_entry :: "tcpc_device \<Rightarrow> tcpc_device kres" where
  "pe_dfp_uvdm_naked_entry = pd_dpm_dfp_inform_uvdm False"

section \<open>Tables\<close>

text \<open>The entry action of each state, in the order of \<open>pe_state_actions\<close>; most of them cannot fault.\<close>

definition ok :: "('a \<Rightarrow> 'b) \<Rightarrow> 'a \<Rightarrow> 'b kres" where
  "ok f x = Inr (f x)"

definition pe_state_actions :: "chip_env \<Rightarrow> (tcpc_device \<Rightarrow> tcpc_device kres) list" where
  "pe_state_actions env =
     [ok pe_src_startup_entry, ok pe_src_discovery_entry, pe_src_send_capabilities_entry,
      pe_src_negotiate_capabilities_entry, ok pe_src_transition_supply_entry, ok pe_src_transition_supply2_entry,
      ok pe_src_ready_entry, ok (pe_src_disabled_entry env), ok pe_src_capability_response_entry,
      ok pe_src_hard_reset_entry, ok pe_src_hard_reset_received_entry, ok (pe_src_transition_to_default_entry env),
      ok pe_src_get_sink_cap_entry, ok pe_src_wait_new_capabilities_entry, ok pe_src_send_soft_reset_entry,
      ok pe_src_soft_reset_entry, ok pe_src_cbl_send_soft_reset_entry, ok (pe_src_vdm_identity_request_entry env),
      pe_src_vdm_identity_acked_entry, pe_src_vdm_identity_naked_entry, ok pe_src_send_not_supported_entry,
      ok pe_src_not_supported_received_entry, ok pe_src_chunk_received_entry, ok pe_src_send_source_alert_entry,
      pe_src_sink_alert_received_entry, pe_src_give_source_cap_ext_entry, pe_src_give_source_status_entry,
      ok pe_src_get_sink_status_entry, ok pe_snk_startup_entry, ok pe_snk_discovery_entry,
      ok pe_snk_wait_for_capabilities_entry, pe_snk_evaluate_capability_entry, ok pe_snk_select_capability_entry,
      pe_snk_transition_sink_entry env, ok pe_snk_ready_entry, ok (pe_snk_hard_reset_entry env),
      ok (pe_snk_transition_to_default_entry env), ok pe_snk_give_sink_cap_entry, ok pe_snk_get_source_cap_entry,
      ok pe_snk_send_soft_reset_entry, ok pe_snk_soft_reset_entry, ok pe_snk_send_not_supported_entry,
      ok pe_snk_not_supported_received_entry, ok pe_snk_chunk_received_entry, pe_snk_source_alert_received_entry,
      ok pe_snk_send_sink_alert_entry, ok pe_snk_get_source_cap_ext_entry, ok pe_snk_get_source_status_entry,
      pe_snk_give_sink_status_entry, ok pe_snk_get_pps_status_entry, ok pe_drs_dfp_ufp_evaluate_dr_swap_entry,
      ok pe_drs_dfp_ufp_accept_dr_swap_entry, ok (pe_drs_dfp_ufp_change_to_ufp_entry env),
      ok pe_drs_dfp_ufp_send_dr_swap_entry, ok pe_drs_dfp_ufp_reject_dr_swap_entry,
      ok pe_drs_ufp_dfp_evaluate_dr_swap_entry, ok pe_drs_ufp_dfp_accept_dr_swap_entry,
      ok (pe_drs_ufp_dfp_change_to_dfp_entry env), ok pe_drs_ufp_dfp_send_dr_swap_entry,
      ok pe_drs_ufp_dfp_reject_dr_swap_entry, ok pe_prs_src_snk_evaluate_pr_swap_entry,
      ok pe_prs_src_snk_accept_pr_swap_entry, ok pe_prs_src_snk_transition_to_off_entry,
      ok (pe_prs_src_snk_assert_rd_entry env), ok pe_prs_src_snk_wait_source_on_entry,
      ok pe_prs_src_snk_send_swap_entry, ok pe_prs_src_snk_reject_pr_swap_entry,
      ok pe_prs_snk_src_evaluate_pr_swap_entry, ok pe_prs_snk_src_accept_pr_swap_entry,
      ok pe_prs_snk_src_transition_to_off_entry, ok (pe_prs_snk_src_assert_rp_entry env),
      ok (pe_prs_snk_src_source_on_entry env), ok pe_prs_snk_src_send_swap_entry, ok pe_prs_snk_src_reject_swap_entry,
      ok pe_dr_src_get_source_cap_entry, ok pe_dr_src_give_sink_cap_entry, ok pe_dr_snk_get_sink_cap_entry,
      pe_dr_snk_give_source_cap_entry, pe_dr_snk_give_source_cap_ext_entry, ok pe_dr_src_get_source_cap_ext_entry,
      ok pe_vcs_send_swap_entry, ok pe_vcs_evaluate_swap_entry, ok pe_vcs_accept_swap_entry,
      ok pe_vcs_reject_vconn_swap_entry, ok pe_vcs_wait_for_vconn_entry, ok (pe_vcs_turn_off_vconn_entry env),
      ok (pe_vcs_turn_on_vconn_entry env), ok pe_vcs_send_ps_rdy_entry, pe_ufp_vdm_get_identity_entry env,
      pe_ufp_vdm_get_svids_entry env, pe_ufp_vdm_get_modes_entry env, pe_ufp_vdm_evaluate_mode_entry_entry env,
      pe_ufp_vdm_mode_exit_entry env, ok (pe_ufp_vdm_attention_request_entry env),
      ok pe_ufp_vdm_dp_status_update_entry, ok pe_ufp_vdm_dp_configure_entry,
      ok (pe_dfp_ufp_vdm_identity_request_entry env), pe_dfp_ufp_vdm_identity_acked_entry,
      pe_dfp_ufp_vdm_identity_naked_entry, ok (pe_dfp_cbl_vdm_identity_request_entry env),
      pe_dfp_cbl_vdm_identity_acked_entry, pe_dfp_cbl_vdm_identity_naked_entry,
      ok (pe_dfp_vdm_svids_request_entry env), pe_dfp_vdm_svids_acked_entry, pe_dfp_vdm_svids_naked_entry,
      ok (pe_dfp_vdm_modes_request_entry env), pe_dfp_vdm_modes_acked_entry, pe_dfp_vdm_modes_naked_entry,
      ok (pe_dfp_vdm_mode_entry_request_entry env), pe_dfp_vdm_mode_entry_acked_entry,
      pe_dfp_vdm_mode_entry_naked_entry, ok (pe_dfp_vdm_mode_exit_request_entry env),
      ok pe_dfp_vdm_mode_exit_acked_entry, ok pe_dfp_vdm_attention_request_entry, ok pe_dfp_cbl_send_soft_reset_entry,
      ok pe_dfp_cbl_send_cable_reset_entry, ok pe_dfp_vdm_dp_status_update_request_entry,
      ok pe_dfp_vdm_dp_status_update_acked_entry, ok pe_dfp_vdm_dp_status_update_naked_entry,
      ok pe_dfp_vdm_dp_configuration_request_entry, ok pe_dfp_vdm_dp_configuration_acked_entry,
      ok pe_dfp_vdm_dp_configuration_naked_entry, pe_ufp_uvdm_recv_entry, pe_dfp_uvdm_send_entry,
      pe_dfp_uvdm_acked_entry, pe_dfp_uvdm_naked_entry, pe_ufp_vdm_send_nak_entry env, pe_get_battery_cap_entry,
      pe_give_battery_cap_entry, pe_get_battery_status_entry, pe_give_battery_status_entry,
      pe_get_manufacturer_info_entry, pe_give_manufacturer_info_entry, ok pe_get_country_codes_entry,
      pe_give_country_codes_entry, ok pe_get_country_info_entry, pe_give_country_info_entry,
      ok pe_vdm_not_supported_entry, ok pe_reject_entry, ok pe_error_recovery_entry,
      ok (pe_error_recovery_once_entry env), ok pe_bist_test_data_entry, ok pe_bist_carrier_mode_2_entry,
      ok pe_idle1_entry, ok pe_idle2_entry]"

text \<open>Exit actions of which the only effect is debug output do nothing here.\<close>

definition pe_get_exit_action :: "chip_env \<Rightarrow> pe_state \<Rightarrow> tcpc_device \<Rightarrow> tcpc_device kres" where
  "pe_get_exit_action env s =
     (if s = PE_SRC_TRANSITION_TO_DEFAULT then ok (pe_src_transition_to_default_exit env)
      else if s = PE_SRC_GET_SINK_CAP then pe_src_get_sink_cap_exit
      else if s = PE_SRC_GET_SINK_STATUS then ok pd_dpm_inform_status
      else if s = PE_SNK_SELECT_CAPABILITY then ok pe_snk_select_capability_exit
      else if s = PE_SNK_GET_SOURCE_CAP_EXT then ok pd_dpm_inform_source_cap_ext
      else if s = PE_SNK_GET_SOURCE_STATUS then ok pd_dpm_inform_status
      else if s = PE_DR_SRC_GET_SOURCE_CAP then pe_dr_src_get_source_cap_exit
      else if s = PE_DR_SNK_GET_SINK_CAP then pe_dr_snk_get_sink_cap_exit
      else if s = PE_DR_SRC_GET_SOURCE_CAP_EXT then ok pd_dpm_inform_source_cap_ext
      else if s = PE_BIST_TEST_DATA then ok pe_bist_test_data_exit
      else Inr)"

lemma state_actions_length [simp]: "length (pe_state_actions env) = PD_NR_PE_STATES"
  by (simp add: pe_state_actions_def)

end
