(* ===== verification/Pe_React.thy ===== *)
theory Pe_React
  imports Pe_Table
begin

unbundle bit_operations_syntax

text \<open>
  What the device policy manager starts when the port is ready (\<open>pd_dpm_reaction.c\<close>): a table
  of reactions, each with the bit that asks for it, the condition on data role and revision,
  how it is cleared, and its handler. A handler gives the request to be made of the engine,
  0 for nothing or \<open>DPM_READY_REACTION_BUSY\<close>.
\<close>

abbreviation (input) DPM_REACTION_COND_ALWAYS :: "8 word" where "DPM_REACTION_COND_ALWAYS \<equiv> 1"
abbreviation (input) DPM_REACTION_COND_UFP_ONLY :: "8 word" where "DPM_REACTION_COND_UFP_ONLY \<equiv> 2"
abbreviation (input) DPM_REACTION_COND_DFP_ONLY :: "8 word" where "DPM_REACTION_COND_DFP_ONLY \<equiv> 4"
abbreviation (input) DPM_REACTION_COND_PD30 :: "8 word" where "DPM_REACTION_COND_PD30 \<equiv> 8"
abbreviation (input) DPM_REACTION_COND_CHECK_ONCE :: "8 word" where "DPM_REACTION_COND_CHECK_ONCE \<equiv> 32"
abbreviation (input) DPM_REACTION_COND_ONE_SHOT :: "8 word" where "DPM_REACTION_COND_ONE_SHOT \<equiv> 64"
abbreviation (input) DPM_REACTION_COND_LIMITED_RETRIES :: "8 word" where "DPM_REACTION_COND_LIMITED_RETRIES \<equiv> 128"

abbreviation (input) DPM_CAP_PR_CHECK_PREFER_SNK :: "32 word" where "DPM_CAP_PR_CHECK_PREFER_SNK \<equiv> 1"
abbreviation (input) DPM_CAP_PR_CHECK_PREFER_SRC :: "32 word" where "DPM_CAP_PR_CHECK_PREFER_SRC \<equiv> 2"
abbreviation (input) DPM_CAP_DR_CHECK_PREFER_DFP :: "32 word" where "DPM_CAP_DR_CHECK_PREFER_DFP \<equiv> 2"
abbreviation (input) PD30_SINK_TX_OK :: nat where "PD30_SINK_TX_OK \<equiv> TYPEC_CC_RP_3_0"
abbreviation (input) PD30_SINK_TX_NG :: nat where "PD30_SINK_TX_NG \<equiv> TYPEC_CC_RP_1_5"
abbreviation (input) PD_CONNECT_PE_READY_SNK :: nat where "PD_CONNECT_PE_READY_SNK \<equiv> 4"
abbreviation (input) PD_CONNECT_PE_READY_SRC :: nat where "PD_CONNECT_PE_READY_SRC \<equiv> 5"
abbreviation (input) PD_CONNECT_PE_READY_SNK_PD30 :: nat where "PD_CONNECT_PE_READY_SNK_PD30 \<equiv> 6"
abbreviation (input) PD_CONNECT_PE_READY_SRC_PD30 :: nat where "PD_CONNECT_PE_READY_SRC_PD30 \<equiv> 7"
abbreviation (input) PD_CONNECT_PE_READY_SNK_APDO :: nat where "PD_CONNECT_PE_READY_SNK_APDO \<equiv> 8"
abbreviation (input) ADO_ALERT_BAT_CHANGED :: "32 word" where "ADO_ALERT_BAT_CHANGED \<equiv> 2"
abbreviation (input) ADO_ALERT_OCP :: "32 word" where "ADO_ALERT_OCP \<equiv> 4"
abbreviation (input) ADO_ALERT_OTP :: "32 word" where "ADO_ALERT_OTP \<equiv> 8"
abbreviation (input) ADO_ALERT_OPER_CHANGED :: "32 word" where "ADO_ALERT_OPER_CHANGED \<equiv> 16"
abbreviation (input) ADO_ALERT_SRC_IN_CHANGED :: "32 word" where "ADO_ALERT_SRC_IN_CHANGED \<equiv> 32"
abbreviation (input) ADO_ALERT_OVP :: "32 word" where "ADO_ALERT_OVP \<equiv> 64"

section \<open>Delays and capabilities\<close>

definition dpm_reaction_ufp_flow_delay :: "tcpc_device \<Rightarrow> nat \<times> tcpc_device" where
  "dpm_reaction_ufp_flow_delay t = (DPM_READY_REACTION_BUSY, act (RestartTimer PD_TIMER_UFP_FLOW_DELAY) t)"

definition dpm_reaction_dfp_flow_delay :: "tcpc_device \<Rightarrow> nat \<times> tcpc_device" where
  "dpm_reaction_dfp_flow_delay t = (DPM_READY_REACTION_BUSY, act (RestartTimer PD_TIMER_DFP_FLOW_DELAY) t)"

definition dpm_reaction_vconn_stable_delay :: "tcpc_device \<Rightarrow> nat \<times> tcpc_device" where
  "dpm_reaction_vconn_stable_delay t =
     (if vconn_role (pd_port t) = PD_ROLE_VCONN_DYNAMIC_ON then DPM_READY_REACTION_BUSY else 0, t)"

definition dpm_reaction_get_source_cap_ext :: "tcpc_device \<Rightarrow> nat \<times> tcpc_device" where
  "dpm_reaction_get_source_cap_ext t =
     (if power_role (pd_port t) = PD_ROLE_SINK then TCP_DPM_EVT_GET_SOURCE_CAP_EXT else 0, t)"

definition dpm_reaction_get_sink_cap :: "tcpc_device \<Rightarrow> nat \<times> tcpc_device" where
  "dpm_reaction_get_sink_cap t = (TCP_DPM_EVT_GET_SINK_CAP, t)"

definition dpm_reaction_get_source_cap :: "tcpc_device \<Rightarrow> nat \<times> tcpc_device" where
  "dpm_reaction_get_source_cap t = (TCP_DPM_EVT_GET_SOURCE_CAP, t)"

definition dpm_reaction_attemp_get_flag :: "tcpc_device \<Rightarrow> nat \<times> tcpc_device" where
  "dpm_reaction_attemp_get_flag t = (TCP_DPM_EVT_GET_SINK_CAP, t)"

section \<open>Swaps\<close>

definition DPM_CAP_EXTRACT_PR_CHECK :: "32 word \<Rightarrow> 32 word" where
  "DPM_CAP_EXTRACT_PR_CHECK raw = drop_bit 18 raw AND 3"

definition dpm_reaction_request_pr_swap :: "tcpc_device \<Rightarrow> nat \<times> tcpc_device" where
  "dpm_reaction_request_pr_swap t =
     (let p = pd_port t; prefer_role = DPM_CAP_EXTRACT_PR_CHECK (dpm_caps p)
      in if \<not> has_flag (dpm_caps p) DPM_CAP_LOCAL_DR_POWER then (0, t)
         else if power_role p = PD_ROLE_SINK
         then (if prefer_role = DPM_CAP_PR_CHECK_PREFER_SRC then TCP_DPM_EVT_PR_SWAP_AS_SRC else 0, t)
         else if dpm_check_good_power p = GOOD_PW_PARTNER then (TCP_DPM_EVT_PR_SWAP_AS_SNK, t)
         else (if prefer_role = DPM_CAP_PR_CHECK_PREFER_SNK then TCP_DPM_EVT_PR_SWAP_AS_SNK else 0, t))"

definition dpm_reaction_request_dr_swap :: "tcpc_device \<Rightarrow> nat \<times> tcpc_device" where
  "dpm_reaction_request_dr_swap t =
     (let p = pd_port t; prefer_role = DPM_CAP_EXTRACT_DR_CHECK (dpm_caps p)
      in if \<not> has_flag (dpm_caps p) DPM_CAP_LOCAL_DR_DATA then (0, t)
         else if data_role p = PD_ROLE_DFP \<and> prefer_role = DPM_CAP_DR_CHECK_PREFER_UFP
         then (TCP_DPM_EVT_DR_SWAP_AS_UFP, t)
         else if data_role p = PD_ROLE_UFP \<and> prefer_role = DPM_CAP_DR_CHECK_PREFER_DFP
         then (TCP_DPM_EVT_DR_SWAP_AS_DFP, t)
         else (0, t))"

section \<open>Cable and alternate modes\<close>

definition dpm_reaction_dynamic_vconn :: "chip_env \<Rightarrow> tcpc_device \<Rightarrow> nat \<times> tcpc_device" where
  "dpm_reaction_dynamic_vconn env t = (0, pd_dpm_dynamic_enable_vconn env t)"

definition dpm_reaction_request_vconn_source :: "tcpc_device \<Rightarrow> nat \<times> tcpc_device" where
  "dpm_reaction_request_vconn_source t =
     (let p = pd_port t;
          return_vconn = (tcpc_vconn_supply t \<noteq> TCPC_VCONN_SUPPLY_STARTUP \<and> \<not> pd_check_rev30 p)
      in if \<not> has_flag (dpm_caps p) DPM_CAP_LOCAL_VCONN_SUPPLY then (0, t)
         else if vconn_role p \<noteq> PD_ROLE_VCONN_OFF then (0, t)
         else (TCP_DPM_EVT_VCONN_SWAP_ON,
               if return_vconn then upd_port (dpm_reaction_set DPM_REACTION_RETURN_VCONN_SRC) t else t))"

definition pd_dpm_reaction_discover_cable :: "tcpc_device \<Rightarrow> nat \<times> tcpc_device" where
  "pd_dpm_reaction_discover_cable t =
     (if pd_is_reset_cable (pd_port t) then (TCP_DPM_EVT_CABLE_SOFTRESET, t)
      else let (discover, t) = pd_is_discover_cable t
           in if discover then (DPM_READY_REACTION_BUSY, act (RestartTimer PD_TIMER_DISCOVER_ID) t) else (0, t))"

definition dpm_reaction_return_vconn_source :: "tcpc_device \<Rightarrow> nat \<times> tcpc_device" where
  "dpm_reaction_return_vconn_source t =
     (if vconn_role (pd_port t) \<noteq> PD_ROLE_VCONN_OFF then TCP_DPM_EVT_VCONN_SWAP_OFF else 0, t)"

definition dpm_reaction_discover_id :: "tcpc_device \<Rightarrow> nat \<times> tcpc_device" where
  "dpm_reaction_discover_id t = (TCP_DPM_EVT_DISCOVER_ID, t)"

definition dpm_reaction_discover_svid :: "tcpc_device \<Rightarrow> nat \<times> tcpc_device" where
  "dpm_reaction_discover_svid t = (TCP_DPM_EVT_DISCOVER_SVIDS, t)"

definition dpm_reaction_mode_operation :: "chip_env \<Rightarrow> tcpc_device \<Rightarrow> nat \<times> tcpc_device" where
  "dpm_reaction_mode_operation env t =
     (if modes_busy env then DPM_READY_REACTION_BUSY else 0, act (AltMode AltPeReady) t)"

section \<open>Alerts\<close>

text \<open>\<open>ADO(ADO_ALERT_BAT_CHANGED | ADO_ALERT_SRC_IN_CHANGED, 0xff, 0xff)\<close>.\<close>

definition ADO_GET_STATUS_ONCE_MASK :: "32 word" where
  "ADO_GET_STATUS_ONCE_MASK =
     push_bit 24 (ADO_ALERT_BAT_CHANGED OR ADO_ALERT_SRC_IN_CHANGED) OR push_bit 20 0xff OR push_bit 16 0xff"

definition dpm_reaction_send_alert :: "tcpc_device \<Rightarrow> nat \<times> tcpc_device" where
  "dpm_reaction_send_alert t =
     (let d = pe_data (pd_port t); alert_urgent = local_alert d AND NOT ADO_GET_STATUS_ONCE_MASK;
          t = (if \<not> get_status_once d then upd_pe (\<lambda>d. d\<lparr>local_alert := alert_urgent\<rparr>) t else t)
      in if \<not> pe_ready d \<and> alert_urgent = 0 then (0, t)
         else if local_alert (pe_data (pd_port t)) = 0 then (0, t)
         else (TCP_DPM_EVT_ALERT, t))"

definition c_get_status_alert_type :: "32 word" where
  "c_get_status_alert_type =
     ADO_ALERT_OCP OR ADO_ALERT_OTP OR ADO_ALERT_OVP OR ADO_ALERT_OPER_CHANGED OR ADO_ALERT_SRC_IN_CHANGED"

definition clear_alert :: "32 word \<Rightarrow> tcpc_device \<Rightarrow> tcpc_device" where
  "clear_alert bits = upd_pe (\<lambda>d. d\<lparr>remote_alert := remote_alert d AND NOT bits\<rparr>)"

definition dpm_reaction_alert_status_changed :: "tcpc_device \<Rightarrow> nat \<times> tcpc_device" where
  "dpm_reaction_alert_status_changed t = (TCP_DPM_EVT_GET_STATUS, clear_alert (push_bit 24 c_get_status_alert_type) t)"

definition ADO_FIXED_BAT :: "32 word \<Rightarrow> 32 word" where
  "ADO_FIXED_BAT raw = drop_bit 20 raw AND 0x0f"

definition ADO_HOT_SWAP_BAT :: "32 word \<Rightarrow> 32 word" where
  "ADO_HOT_SWAP_BAT raw = drop_bit 16 raw AND 0x0f"

text \<open>
  The loop over the four bits of a mask: the first bit that is set is taken out of the mask,
  and then the bits \<^emph>\<open>left\<close> in the mask are cleared in the alert.
\<close>

definition take_battery :: "nat \<Rightarrow> 32 word \<Rightarrow> tcpc_device \<Rightarrow> nat option \<times> 32 word \<times> tcpc_device" where
  "take_battery pos bats t =
     (case find (\<lambda>i. has_flag bats (push_bit i 1)) [0..<4] of
        None \<Rightarrow> (None, bats, t)
      | Some i \<Rightarrow> let bats = bats AND NOT (push_bit i 1) in (Some i, bats, clear_alert (push_bit pos bats) t))"

definition dpm_reaction_alert_battry_changed :: "tcpc_device \<Rightarrow> nat \<times> tcpc_device" where
  "dpm_reaction_alert_battry_changed t =
     (let mask1 = ADO_FIXED_BAT (remote_alert (pe_data (pd_port t)));
          mask2 = ADO_HOT_SWAP_BAT (remote_alert (pe_data (pd_port t)));
          (i, mask1, mask2, t) =
            (if mask1 \<noteq> 0 then let (i, m, t) = take_battery 20 mask1 t in (i, m, mask2, t)
             else if mask2 \<noteq> 0
             then let (i, m, t) = take_battery 16 mask2 t in (map_option (\<lambda>i. i + 4) i, mask1, m, t)
             else (None, mask1, mask2, t));
          t = (if mask1 = 0 \<and> mask2 = 0 then clear_alert (push_bit 24 ADO_ALERT_BAT_CHANGED) t else t)
      in case i of
           None \<Rightarrow> (0, t)
         | Some i \<Rightarrow> (TCP_DPM_EVT_GET_BAT_STATUS, upd_port (\<lambda>p. p\<lparr>tcp_event := (tcp_event p)
                      \<lparr>tcp_dpm_data := (tcp_dpm_data (tcp_event p))[0 := of_nat i]\<rparr>\<rparr>) t))"

definition dpm_reaction_handle_alert :: "tcpc_device \<Rightarrow> nat \<times> tcpc_device" where
  "dpm_reaction_handle_alert t =
     (let alert_type = drop_bit 24 (remote_alert (pe_data (pd_port t)))
      in if has_flag alert_type c_get_status_alert_type then dpm_reaction_alert_status_changed t
         else if has_flag alert_type ADO_ALERT_BAT_CHANGED then dpm_reaction_alert_battry_changed t
         else (0, t))"

section \<open>The port is ready\<close>

definition pd_is_source_support_apdo :: "pd_port \<Rightarrow> bool" where
  "pd_is_source_support_apdo p \<longleftrightarrow>
     (let cap = remote_src_cap p in list_ex (\<lambda>i. PDO_TYPE (caps_pdos cap ! i) = PDO_TYPE_APDO) [1..<caps_nr cap])"

definition dpm_get_pd_connect_state :: "pd_port \<Rightarrow> nat" where
  "dpm_get_pd_connect_state p =
     (if power_role p = PD_ROLE_SOURCE
      then if pd_check_rev30 p then PD_CONNECT_PE_READY_SRC_PD30 else PD_CONNECT_PE_READY_SRC
      else if pd_check_rev30 p
      then if pd_is_source_support_apdo p then PD_CONNECT_PE_READY_SNK_APDO else PD_CONNECT_PE_READY_SNK_PD30
      else PD_CONNECT_PE_READY_SNK)"

definition dpm_check_vconn_highv_prot :: "chip_env \<Rightarrow> tcpc_device \<Rightarrow> tcpc_device" where
  "dpm_check_vconn_highv_prot env t =
     (let p = pd_port t; highv = (request_v_new p > 5000)
      in if vconn_highv_prot p \<and> \<not> highv \<and> has_flag (tcpc_flags t) TCPC_FLAGS_VCONN_SAFE5V_ONLY
         then snd (pd_set_vconn (chip_vconn env) (vconn_highv_prot_role p)
                (upd_port (\<lambda>p. p\<lparr>vconn_highv_prot := highv\<rparr>) t))
         else t)"

definition pd_set_sink_tx :: "nat \<Rightarrow> tcpc_device \<Rightarrow> tcpc_device" where
  "pd_set_sink_tx cc t =
     (let control = pd_traffic_control (pd_port t)
      in if cc = PD30_SINK_TX_OK \<and> control \<noteq> PD_SINK_TX_OK
         then act (DisableTimer PD_TIMER_SINK_TX)
                (upd_port (\<lambda>p. p\<lparr>pd_traffic_control := PD_SINK_TX_OK\<rparr>) (act (SetCc cc) t))
         else if cc = PD30_SINK_TX_NG \<and> control = PD_SINK_TX_OK
         then act (EnableTimer PD_TIMER_SINK_TX)
                (upd_port (\<lambda>p. p\<lparr>pd_traffic_control := PD_SINK_TX_NG\<rparr>) (act (SetCc cc) t))
         else t)"

definition dpm_reaction_update_pe_ready :: "chip_env \<Rightarrow> tcpc_device \<Rightarrow> nat \<times> tcpc_device" where
  "dpm_reaction_update_pe_ready env t =
     (let t = upd_pe (\<lambda>d. d\<lparr>pe_ready := True\<rparr>) t;
          t = act (UpdateConnectState (dpm_get_pd_connect_state (pd_port t))) t;
          t = pd_dpm_dynamic_disable_vconn env (dpm_check_vconn_highv_prot env t);
          t = upd_port (\<lambda>p. p\<lparr>pd_traffic_idle := True\<rparr>) t
      in (0, if pd_check_rev30 (pd_port t) \<and> power_role (pd_port t) = PD_ROLE_SOURCE
             then pd_set_sink_tx PD30_SINK_TX_OK t else t))"

section \<open>The table\<close>

type_synonym reaction = "32 word \<times> 8 word \<times> (tcpc_device \<Rightarrow> nat \<times> tcpc_device)"

abbreviation bit_mask :: "reaction \<Rightarrow> 32 word" where "bit_mask r \<equiv> fst r"
abbreviation condition :: "reaction \<Rightarrow> 8 word" where "condition r \<equiv> fst (snd r)"
abbreviation handler :: "reaction \<Rightarrow> tcpc_device \<Rightarrow> nat \<times> tcpc_device" where "handler r \<equiv> snd (snd r)"

definition dpm_reactions :: "chip_env \<Rightarrow> reaction list" where
  "dpm_reactions env =
    [(DPM_REACTION_CAP_ALWAYS, DPM_REACTION_COND_PD30, dpm_reaction_send_alert),
     (DPM_REACTION_CAP_ALWAYS, DPM_REACTION_COND_PD30, dpm_reaction_handle_alert),
     (DPM_REACTION_DFP_FLOW_DELAY, DPM_REACTION_COND_DFP_ONLY, dpm_reaction_dfp_flow_delay),
     (DPM_REACTION_UFP_FLOW_DELAY, DPM_REACTION_COND_UFP_ONLY, dpm_reaction_ufp_flow_delay),
     (DPM_REACTION_GET_SINK_CAP, DPM_REACTION_COND_ALWAYS OR DPM_REACTION_COND_LIMITED_RETRIES, dpm_reaction_get_sink_cap),
     (DPM_REACTION_GET_SOURCE_CAP, DPM_REACTION_COND_ALWAYS OR DPM_REACTION_COND_LIMITED_RETRIES,
      dpm_reaction_get_source_cap),
     (DPM_REACTION_ATTEMPT_GET_FLAG, DPM_REACTION_COND_ALWAYS OR DPM_REACTION_COND_LIMITED_RETRIES,
      dpm_reaction_attemp_get_flag),
     (DPM_REACTION_GET_SOURCE_CAP_EXT, DPM_REACTION_COND_PD30 OR DPM_REACTION_COND_ONE_SHOT,
      dpm_reaction_get_source_cap_ext),
     (DPM_REACTION_REQUEST_PR_SWAP, DPM_REACTION_COND_ALWAYS OR DPM_REACTION_COND_CHECK_ONCE,
      dpm_reaction_request_pr_swap),
     (DPM_REACTION_REQUEST_DR_SWAP, DPM_REACTION_COND_ALWAYS OR DPM_REACTION_COND_CHECK_ONCE,
      dpm_reaction_request_dr_swap),
     (DPM_REACTION_DYNAMIC_VCONN, DPM_REACTION_COND_DFP_ONLY OR DPM_REACTION_COND_PD30 OR DPM_REACTION_COND_CHECK_ONCE,
      dpm_reaction_dynamic_vconn env),
     (DPM_REACTION_REQUEST_VCONN_SRC,
      DPM_REACTION_COND_DFP_ONLY OR DPM_REACTION_COND_PD30 OR DPM_REACTION_COND_CHECK_ONCE OR DPM_REACTION_COND_ONE_SHOT,
      dpm_reaction_request_vconn_source),
     (DPM_REACTION_VCONN_STABLE_DELAY,
      DPM_REACTION_COND_DFP_ONLY OR DPM_REACTION_COND_PD30 OR DPM_REACTION_COND_CHECK_ONCE,
      dpm_reaction_vconn_stable_delay),
     (DPM_REACTION_DISCOVER_CABLE,
      DPM_REACTION_COND_DFP_ONLY OR DPM_REACTION_COND_PD30 OR DPM_REACTION_COND_CHECK_ONCE,
      pd_dpm_reaction_discover_cable),
     (DPM_REACTION_RETURN_VCONN_SRC,
      DPM_REACTION_COND_DFP_ONLY OR DPM_REACTION_COND_PD30 OR DPM_REACTION_COND_CHECK_ONCE OR DPM_REACTION_COND_ONE_SHOT,
      dpm_reaction_return_vconn_source),
     (DPM_REACTION_DISCOVER_ID,
      DPM_REACTION_COND_DFP_ONLY OR DPM_REACTION_COND_PD30 OR DPM_REACTION_COND_LIMITED_RETRIES, dpm_reaction_discover_id),
     (DPM_REACTION_DISCOVER_SVID,
      DPM_REACTION_COND_DFP_ONLY OR DPM_REACTION_COND_PD30 OR DPM_REACTION_COND_LIMITED_RETRIES, dpm_reaction_discover_svid),
     (DPM_REACTION_CAP_ALWAYS, DPM_REACTION_COND_ALWAYS, dpm_reaction_mode_operation env),
     (DPM_REACTION_CAP_ALWAYS, DPM_REACTION_COND_ALWAYS, dpm_reaction_update_pe_ready env)]"

section \<open>Choice of a reaction\<close>

definition dpm_get_reaction_env :: "pd_port \<Rightarrow> 8 word" where
  "dpm_get_reaction_env p =
     (if data_role p = PD_ROLE_DFP then DPM_REACTION_COND_ALWAYS OR DPM_REACTION_COND_DFP_ONLY
      else DPM_REACTION_COND_ALWAYS OR DPM_REACTION_COND_UFP_ONLY) OR
     (if pd_check_rev30 p then DPM_REACTION_COND_PD30 else 0)"

definition dpm_check_reaction_busy :: "reaction \<Rightarrow> pd_port \<Rightarrow> bool" where
  "dpm_check_reaction_busy r p \<longleftrightarrow>
     \<not> has_flag (bit_mask r) DPM_REACTION_CAP_ALWAYS \<and> \<not> has_flag (dpm_ready_reactions p) DPM_REACTION_CAP_READY_ONCE"

definition dpm_check_reaction_available :: "8 word \<Rightarrow> reaction \<Rightarrow> tcpc_device \<Rightarrow> nat \<times> tcpc_device" where
  "dpm_check_reaction_available env r t =
     (if \<not> has_flag (dpm_ready_reactions (pd_port t)) (bit_mask r) then (0, t)
      else if \<not> has_flag (condition r) env then (0, t)
      else if dpm_check_reaction_busy r (pd_port t) then (DPM_READY_REACTION_BUSY, t)
      else let (ret, t) = handler r t
           in (ret, if ret = 0 \<and> has_flag (condition r) DPM_REACTION_COND_CHECK_ONCE
                    then upd_port (dpm_reaction_clear (bit_mask r)) t else t))"

definition dpm_check_clear_reaction :: "reaction \<Rightarrow> tcpc_device \<Rightarrow> bool \<times> tcpc_device" where
  "dpm_check_clear_reaction r t =
     (let d = pe_data (pd_port t);
          retry = u8 ((if dpm_reaction_id d \<noteq> bit_mask r then 0 else dpm_reaction_retry d) + 1);
          t = upd_pe (\<lambda>d. d\<lparr>dpm_reaction_retry := retry, dpm_reaction_id := bit_mask r\<rparr>) t
      in (has_flag (condition r) DPM_REACTION_COND_ONE_SHOT \<or>
          has_flag (condition r) DPM_REACTION_COND_LIMITED_RETRIES \<and> retry > 3, t))"

text \<open>The loop of \<open>pd_dpm_get_ready_reaction\<close> with the bits to be cleared.\<close>

primrec reaction_loop :: "8 word \<Rightarrow> reaction list \<Rightarrow> tcpc_device \<Rightarrow> nat \<times> 32 word \<times> tcpc_device" where
  "reaction_loop env [] t = (0, 0, t)"
| "reaction_loop env (r # rs) t =
     (let (evt, t) = dpm_check_reaction_available env r t
      in if evt = 0 then reaction_loop env rs t
         else let (clear, t) = dpm_check_clear_reaction r t in (evt, if clear then bit_mask r else 0, t))"

definition pd_dpm_get_ready_reaction :: "chip_env \<Rightarrow> tcpc_device \<Rightarrow> nat \<times> tcpc_device" where
  "pd_dpm_get_ready_reaction env t =
     (let (evt, clear, t) = reaction_loop (dpm_get_reaction_env (pd_port t)) (dpm_reactions env) t
      in (evt, upd_port (dpm_reaction_clear (DPM_REACTION_CAP_READY_ONCE OR clear)) t))"

end
