(* ===== verification/Pe_Run.thy ===== *)
theory Pe_Run
  imports Pe_React Tcpc_Alert
begin

unbundle bit_operations_syntax

text \<open>
  The engine itself (\<open>pd_policy_engine.c\<close>): the change of state, the handling of one event,
  the choice of the next event and one round of \<open>pd_policy_engine_run\<close>. The locks are left
  out: the rounds of a port run one after the other.
\<close>

section \<open>Change of state\<close>

definition pe_reset_vdm_state_variable :: "tcpc_device \<Rightarrow> tcpc_device" where
  "pe_reset_vdm_state_variable t =
     (let timer = vdm_state_timer (pd_port t); t = (if timer \<noteq> 0 then act (DisableTimer timer) t else t)
      in upd_port (\<lambda>p. p\<lparr>vdm_state_timer := 0\<rparr>) (upd_pe (\<lambda>d. d\<lparr>vdm_state_flags := 0\<rparr>) t))"

text \<open>What \<open>pd_pe_state_change\<close> does before the exit action of the old state.\<close>

definition leave_state :: "tcpc_device \<Rightarrow> tcpc_device" where
  "leave_state t =
     (let t = (if has_flag (pe_state_flags (pe_data (pd_port t))) PE_STATE_FLAG_ENABLE_SENDER_RESPONSE_TIMER
               then act (DisableTimer PD_TIMER_SENDER_RESPONSE) t else t);
          timer = pe_state_timer (pe_data (pd_port t));
          t = (if curr_is_vdm_evt (pd_port t) then pe_reset_vdm_state_variable t
               else if timer \<noteq> 0 then upd_pe (\<lambda>d. d\<lparr>pe_state_timer := 0\<rparr>) (act (DisableTimer timer) t)
               else t)
      in upd_pe (\<lambda>d. d\<lparr>pe_state_flags := 0, pe_state_flags2 := 0\<rparr>) t)"

text \<open>What it does after the entry action of the new state.\<close>

definition enter_state :: "pe_state \<Rightarrow> tcpc_device \<Rightarrow> tcpc_device" where
  "enter_state new_state t =
     (let t = upd_port (\<lambda>p. (if curr_is_vdm_evt p then p\<lparr>pe_vdm_state := new_state\<rparr> else p\<lparr>pe_pd_state := new_state\<rparr>)
                \<lparr>pe_state_curr := new_state\<rparr>) t
      in if state_machine (pd_port t) > PE_STATE_MACHINE_NORMAL then pd_set_rx_enable PD_RX_CAP_PE_SWAP t else t)"

definition pd_pe_state_change :: "chip_env \<Rightarrow> tcpc_device \<Rightarrow> tcpc_device kres" where
  "pd_pe_state_change env t =
     (let old_state = curr t; new_state = next_state t
      in if old_state \<ge> PD_NR_PE_STATES \<or> new_state \<ge> PD_NR_PE_STATES then Inr (act WarnState t)
         else kbind (if new_state < PE_IDLE1 then pe_get_exit_action env old_state (leave_state t) else Inr (leave_state t))
           (\<lambda>t. kbind ((pe_state_actions env ! new_state) t) (\<lambda>t. Inr (enter_state new_state t))))"

section \<open>One event\<close>

definition vdm_dpm_immediately :: "tcpc_device \<Rightarrow> bool" where
  "vdm_dpm_immediately t \<longleftrightarrow> has_flag (vdm_state_flags (pe_data (pd_port t))) VDM_STATE_FLAG_DPM_ACK_IMMEDIATELY"

definition choose_curr_state :: "tcpc_device \<Rightarrow> tcpc_device" where
  "choose_curr_state t =
     (if curr_is_vdm_evt (pd_port t)
      then let t = (if reset_vdm_state (pe_data (pd_port t)) \<and> \<not> vdm_dpm_immediately t \<or> event_type (evt t) = PD_EVT_TCP_MSG
                    then pe_reset_vdm_state_variable (upd_port (\<lambda>p. p\<lparr>pe_vdm_state := pe_pd_state p\<rparr>)
                           (upd_pe (\<lambda>d. d\<lparr>reset_vdm_state := False\<rparr>) t))
                    else t)
           in upd_port (\<lambda>p. p\<lparr>pe_state_curr := pe_vdm_state p\<rparr>) t
      else upd_port (\<lambda>p. p\<lparr>pe_state_curr := pe_pd_state p\<rparr>) t)"

definition free_curr_event :: "tcpc_device \<Rightarrow> tcpc_device" where
  "free_curr_event t = (let (e, t) = pd_free_event (evt t) t in upd_port (\<lambda>p. p\<lparr>curr_pd_event := e\<rparr>) t)"

definition pd_handle_event :: "chip_env \<Rightarrow> tcpc_device \<Rightarrow> tcpc_device kres" where
  "pd_handle_event env t =
     kbind (pd_process_event env (choose_curr_state t)) (\<lambda>(ret, t).
     kbind (if ret then pd_pe_state_change env t else Inr t) (\<lambda>t. Inr (free_curr_event t)))"

definition pd_handle_dpm_immediately :: "chip_env \<Rightarrow> tcpc_device \<Rightarrow> tcpc_device kres" where
  "pd_handle_dpm_immediately env t =
     (let immediately = (if curr_is_vdm_evt (pd_port t) then vdm_dpm_immediately t
                         else has_flag (pe_state_flags2 (pe_data (pd_port t))) PE_STATE_FLAG_DPM_ACK_IMMEDIATELY)
      in if immediately
         then pd_handle_event env (upd_port (\<lambda>p. p\<lparr>curr_pd_event := (curr_pd_event p)
                \<lparr>event_type := PD_EVT_DPM_MSG, msg := PD_DPM_ACK\<rparr>\<rparr>) t)
         else Inr t)"

section \<open>The next event\<close>

datatype pe_new_evt_type = PE_NEW_EVT_NULL | PE_NEW_EVT_PD | PE_NEW_EVT_VDM

definition set_curr_event :: "pd_event \<Rightarrow> tcpc_device \<Rightarrow> tcpc_device" where
  "set_curr_event e = upd_port (\<lambda>p. p\<lparr>curr_pd_event := e\<rparr>)"

definition pd_check_sink_tx_ok :: "pd_port \<Rightarrow> bool" where
  "pd_check_sink_tx_ok p \<longleftrightarrow> \<not> (pd_check_rev30 p \<and> pd_traffic_control p \<noteq> PD_SINK_TX_OK)"

definition pd_check_source_tx_ok :: "tcpc_device \<Rightarrow> bool \<times> tcpc_device" where
  "pd_check_source_tx_ok t =
     (let p = pd_port t
      in if \<not> pd_check_rev30 p \<or> pd_traffic_control p = PD_SOURCE_TX_OK then (True, t)
         else (False, if pd_traffic_idle p then t else pd_set_sink_tx PD30_SINK_TX_NG t))"

definition pd_check_pd30_tx_ready :: "tcpc_device \<Rightarrow> bool \<times> tcpc_device" where
  "pd_check_pd30_tx_ready t =
     (if pe_pd_state (pd_port t) = PE_SNK_READY then (pd_check_sink_tx_ok (pd_port t), t)
      else if pe_pd_state (pd_port t) = PE_SRC_READY then pd_check_source_tx_ok t
      else (False, t))"

definition pd_check_tx_ready :: "tcpc_device \<Rightarrow> bool \<times> tcpc_device" where
  "pd_check_tx_ready t = (if vdm_state_timer (pd_port t) \<noteq> 0 then (False, t) else pd_check_pd30_tx_ready t)"

definition pd_try_get_active_event :: "chip_env \<Rightarrow> tcpc_device \<Rightarrow> pe_new_evt_type \<times> tcpc_device" where
  "pd_try_get_active_event env t =
     (let (ready, t) = pd_check_tx_ready t
      in if \<not> ready then (PE_NEW_EVT_NULL, t)
         else let (ret, t) = pd_dpm_get_ready_reaction env t;
                  (ret, from_pe, t) = (if ret = 0
                    then let (ret, t) = pd_try_get_deferred_tcp_event t in (ret, PD_TCP_FROM_TCPM, t)
                    else (ret, 1, t))
              in if ret = DPM_READY_REACTION_BUSY then (PE_NEW_EVT_NULL, t)
                 else (if ret \<ge> TCP_DPM_EVT_VDM_COMMAND then PE_NEW_EVT_VDM else PE_NEW_EVT_PD,
                       set_curr_event (simple_evt PD_EVT_TCP_MSG ret from_pe) t))"

definition pd_try_get_next_event :: "chip_env \<Rightarrow> tcpc_device \<Rightarrow> pe_new_evt_type \<times> tcpc_device" where
  "pd_try_get_next_event env t =
     (case pd_get_event t of
        (Some e, t) \<Rightarrow> (PE_NEW_EVT_PD, set_curr_event e t)
      | (None, t) \<Rightarrow>
          (case pd_try_get_vdm_event (chip_rv env = 0 \<and> chip_id env = SC2150A_DID) t of
             (Some e, t) \<Rightarrow> (PE_NEW_EVT_VDM, set_curr_event e t)
           | (None, t) \<Rightarrow> pd_try_get_active_event env t))"

definition pd_policy_engine_run :: "chip_env \<Rightarrow> tcpc_device \<Rightarrow> (bool \<times> tcpc_device) kres" where
  "pd_policy_engine_run env t =
     (let (ret, t) = pd_try_get_next_event env t
      in if ret = PE_NEW_EVT_NULL then Inr (False, t)
         else kbind (pd_handle_event env (upd_port (\<lambda>p. p\<lparr>curr_is_vdm_evt := (ret = PE_NEW_EVT_VDM)\<rparr>) t)) (\<lambda>t.
              kbind (pd_handle_dpm_immediately env t) (\<lambda>t. Inr (True, t))))"

end
