(* ===== verification/Pe_Power.thy ===== *)
theory Pe_Power
  imports Pe_Discipline Pe_Run Tcpc_Spec
begin

unbundle bit_operations_syntax

text \<open>
  What the actions of the states do to the power role: all of the 145 actions on entry and the
  actions on exit leave it alone, except for the two states of a power role swap that set it. The
  lemmas of \<open>role\<close> say so for the operations that the actions call.
\<close>

section \<open>The power role\<close>

named_theorems role

text \<open>The power role, and whether the event in hand is a vendor message, which no action may change either.\<close>

definition role_of :: "pd_port \<Rightarrow> nat \<times> bool" where
  "role_of p = (power_role p, curr_is_vdm_evt p)"

abbreviation pwr :: "tcpc_device \<Rightarrow> nat \<times> bool" where
  "pwr t \<equiv> role_of (pd_port t)"

lemma role_fields [simp, role]:
  "role_of (p\<lparr>rx_cap := x0\<rparr>) = role_of p" "role_of (p\<lparr>pe_pd_state := x1\<rparr>) = role_of p"
  "role_of (p\<lparr>pe_vdm_state := x2\<rparr>) = role_of p" "role_of (p\<lparr>pe_state_curr := x3\<rparr>) = role_of p"
  "role_of (p\<lparr>curr_ready_state := x4\<rparr>) = role_of p" "role_of (p\<lparr>data_role := x5\<rparr>) = role_of p"
  "role_of (p\<lparr>pd_revision0 := x6\<rparr>) = role_of p" "role_of (p\<lparr>request_v := x7\<rparr>) = role_of p"
  "role_of (p\<lparr>request_apdo := x8\<rparr>) = role_of p" "role_of (p\<lparr>tcp_event := x9\<rparr>) = role_of p"
  "role_of (p\<lparr>tcp_event_id_1st := x10\<rparr>) = role_of p" "role_of (p\<lparr>tcp_event_id_2nd := x11\<rparr>) = role_of p"
  "role_of (p\<lparr>tcp_event_drop_reset_once := x12\<rparr>) = role_of p"
  "role_of (p\<lparr>explicit_contract := x13\<rparr>) = role_of p" "role_of (p\<lparr>during_swap := x14\<rparr>) = role_of p"
  "role_of (p\<lparr>pd_traffic_idle := x15\<rparr>) = role_of p" "role_of (p\<lparr>pd_traffic_control := x16\<rparr>) = role_of p"
  "role_of (p\<lparr>vdm_state_timer := x17\<rparr>) = role_of p" "role_of (p\<lparr>dpm_ready_reactions := x18\<rparr>) = role_of p"
  "role_of (p\<lparr>request_i := x19\<rparr>) = role_of p" "role_of (p\<lparr>request_v_new := x20\<rparr>) = role_of p"
  "role_of (p\<lparr>request_i_new := x21\<rparr>) = role_of p" "role_of (p\<lparr>request_i_op := x22\<rparr>) = role_of p"
  "role_of (p\<lparr>request_i_max := x23\<rparr>) = role_of p" "role_of (p\<lparr>request_v_apdo := x24\<rparr>) = role_of p"
  "role_of (p\<lparr>request_i_apdo := x25\<rparr>) = role_of p" "role_of (p\<lparr>request_apdo_new := x26\<rparr>) = role_of p"
  "role_of (p\<lparr>last_rdo := x27\<rparr>) = role_of p" "role_of (p\<lparr>dpm_caps := x28\<rparr>) = role_of p"
  "role_of (p\<lparr>dpm_flags := x29\<rparr>) = role_of p" "role_of (p\<lparr>dpm_charging_policy := x30\<rparr>) = role_of p"
  "role_of (p\<lparr>cap_miss_match := x31\<rparr>) = role_of p" "role_of (p\<lparr>local_src_cap := x32\<rparr>) = role_of p"
  "role_of (p\<lparr>local_snk_cap := x33\<rparr>) = role_of p" "role_of (p\<lparr>local_src_cap_default := x34\<rparr>) = role_of p"
  "role_of (p\<lparr>local_snk_cap_nr_pd30 := x35\<rparr>) = role_of p"
  "role_of (p\<lparr>local_snk_cap_nr_pd20 := x36\<rparr>) = role_of p"
  "role_of (p\<lparr>remote_src_cap := x37\<rparr>) = role_of p" "role_of (p\<lparr>remote_snk_cap := x38\<rparr>) = role_of p"
  "role_of (p\<lparr>local_selected_cap := x39\<rparr>) = role_of p"
  "role_of (p\<lparr>remote_selected_cap := x40\<rparr>) = role_of p"
  "role_of (p\<lparr>invalid_contract := x41\<rparr>) = role_of p"
  "role_of (p\<lparr>power_cable_present := x42\<rparr>) = role_of p"
  "role_of (p\<lparr>pd_prev_connected := x43\<rparr>) = role_of p" "role_of (p\<lparr>cable_vdos := x44\<rparr>) = role_of p"
  "role_of (p\<lparr>vconn_role := x45\<rparr>) = role_of p" "role_of (p\<lparr>vconn_highv_prot := x46\<rparr>) = role_of p"
  "role_of (p\<lparr>vconn_highv_prot_role := x47\<rparr>) = role_of p" "role_of (p\<lparr>curr_pd_event := x48\<rparr>) = role_of p"
  "role_of (p\<lparr>pd_msg_data_count := x49\<rparr>) = role_of p"
  "role_of (p\<lparr>pd_msg_data_payload := x50\<rparr>) = role_of p" "role_of (p\<lparr>msg_id_tx := x51\<rparr>) = role_of p"
  "role_of (p\<lparr>msg_id_rx := x52\<rparr>) = role_of p" "role_of (p\<lparr>pe_state_next := x53\<rparr>) = role_of p"
  "role_of (p\<lparr>state_machine := x54\<rparr>) = role_of p" "role_of (p\<lparr>curr_hreset_state := x55\<rparr>) = role_of p"
  "role_of (p\<lparr>curr_sreset_state := x56\<rparr>) = role_of p"
  "role_of (p\<lparr>curr_unsupported_msg := x57\<rparr>) = role_of p" "role_of (p\<lparr>curr_msg_hdr := x58\<rparr>) = role_of p"
  "role_of (p\<lparr>miss_msg := x59\<rparr>) = role_of p" "role_of (p\<lparr>msg_id_pr_swap_last := x60\<rparr>) = role_of p"
  "role_of (p\<lparr>error_recovery_once := x61\<rparr>) = role_of p" "role_of (p\<lparr>pd_revision1 := x62\<rparr>) = role_of p"
  "role_of (p\<lparr>bat_nr := x63\<rparr>) = role_of p" "role_of (p\<lparr>country_nr := x64\<rparr>) = role_of p"
  "role_of (p\<lparr>pd_msg_data_size := x65\<rparr>) = role_of p"
  "role_of (p\<lparr>dpm_charging_policy_default := x66\<rparr>) = role_of p"
  "role_of (p\<lparr>msg_output_lock := x67\<rparr>) = role_of p" "role_of (p\<lparr>pe_data := x68\<rparr>) = role_of p"
  "role_of (p\<lparr>vdm_info := x69\<rparr>) = role_of p" "role_of (p\<lparr>port_info := x70\<rparr>) = role_of p"
  by (simp_all add: role_of_def)

lemma role_port [role]: "pwr (upd_port f t) = role_of (f (pd_port t))"
  by (simp add: upd_port_def)

lemma role_view: "pe_view a = pe_view b \<Longrightarrow> pwr a = pwr b"
  by (auto simp: role_of_def pe_kept_def dest: view_fields(1,7))

lemmas role_view_simps [simp] = view[THEN role_view]

lemma role_reactions [role]:
  "role_of (dpm_reaction_set b p) = role_of p" "role_of (dpm_reaction_clear b p) = role_of p"
  "role_of (pe_reset_msg_id n p) = role_of p" "role_of (pd_sync_sop_spec_revision p) = role_of p"
  "role_of (pd_sync_sop_prime_spec_revision n p) = role_of p"
  by (simp_all add: dpm_reaction_set_def dpm_reaction_clear_def pe_reset_msg_id_def pd_sync_sop_spec_revision_def
      pd_sync_sop_prime_spec_revision_def Let_def)

lemma role_flags [role]:
  "pwr (state_flags f t) = pwr t" "pwr (state_flags2 f t) = pwr t" "pwr (PE_STATE_DPM_ACK_IMMEDIATELY t) = pwr t"
  "pwr (VDM_STATE_DPM_INFORMED t) = pwr t" "pwr (VDM_STATE_REPLY_SVDM_REQUEST t) = pwr t"
  "pwr (VDM_STATE_NORESP_CMD t) = pwr t" "pwr (VDM_STATE_RESPONSE_CMD n t) = pwr t"
  by (simp_all add: state_flags_def state_flags2_def PE_STATE_DPM_ACK_IMMEDIATELY_def VDM_STATE_DPM_INFORMED_def
      VDM_STATE_REPLY_SVDM_REQUEST_def VDM_STATE_NORESP_CMD_def VDM_STATE_RESPONSE_CMD_def role)

lemmas flag_defs = PE_STATE_WAIT_RESPONSE_def PE_STATE_WAIT_MSG_def PE_STATE_WAIT_MSG_HRESET_IF_TOUT_def
  PE_STATE_WAIT_MSG_OR_TX_FAILED_def PE_STATE_WAIT_MSG_OR_RJ_def PE_STATE_WAIT_ANSWER_MSG_def
  PE_STATE_IGNORE_UNKNOWN_EVENT_def PE_STATE_RECV_SOFT_RESET_def PE_STATE_SEND_SOFT_RESET_def
  PE_STATE_WAIT_TX_SUCCESS_def PE_STATE_DPM_INFORMED_def PE_STATE_WAIT_DPM_ACK_def

lemma role_send [role]:
  "pwr (pd_send_sop_ctrl_msg m t) = pwr t" "pwr (pd_send_sop_data_msg m ws t) = pwr t"
  "pwr (pe_send_swap_request_entry m t) = pwr t" "pwr (pd_send_bist_mode2 t) = pwr t"
  "pwr (pd_enable_bist_test_mode b t) = pwr t" "pwr (pd_send_cable_soft_reset t) = pwr t"
  "pwr (pd_reply_wait_reject_msg_no_resp t) = pwr t" "pwr (pd_reply_wait_reject_msg t) = pwr t"
  by (simp_all add: pd_send_sop_ctrl_msg_def pd_send_sop_data_msg_def pe_send_swap_request_entry_def flag_defs
      pd_send_bist_mode2_def pd_enable_bist_test_mode_def pd_send_cable_soft_reset_def
      pd_reply_wait_reject_msg_no_resp_def pd_reply_wait_reject_msg_def role)

lemma role_put [role]:
  "pwr (pd_put_dpm_ack_event t) = pwr t" "pwr (pd_put_dpm_nak_event n t) = pwr t"
  "pwr (pd_put_dpm_notify_event n t) = pwr t" "pwr (dpm_response_request b t) = pwr t"
  by (simp_all add: pd_put_dpm_ack_event_def pd_put_dpm_nak_event_def pd_put_dpm_notify_event_def dpm_response_request_def)

lemma port_exit_modes [simp]:
  "pd_port (fold (\<lambda>d t. if 0 < active_mode d then act (ExitMode (sd_svid d)) t else t) ds t) = pd_port t"
  by (induction ds arbitrary: t) simp_all

lemma role_resets [role]:
  "pwr (pd_lock_msg_output t) = pwr t" "pwr (pd_unlock_msg_output t) = pwr t"
  "pwr (pd_reset_svid_data t) = pwr t" "pwr (pd_reset_modal_operation t) = pwr t"
  "pwr (pd_notify_pe_reset_protocol t) = pwr t" "pwr (pd_notify_pe_transit_to_default n t) = pwr t"
  "pwr (pd_notify_pe_send_hard_reset t) = pwr t" "pwr (pd_notify_pe_execute_pr_swap b t) = pwr t"
  by (simp_all add: pd_lock_msg_output_def pd_unlock_msg_output_def pd_reset_svid_data_def pd_reset_modal_operation_def
      pd_notify_pe_reset_protocol_def pd_notify_pe_transit_to_default_def pd_notify_pe_send_hard_reset_def
      tcpci_notify_hard_reset_state_def pd_notify_pe_execute_pr_swap_def role Let_def)

lemma role_startup [role]:
  "pwr (pd_init_spec_revision t) = pwr t" "pwr (pd_update_msg_header t) = pwr t" "pwr (svdm_reset_state t) = pwr t"
  "pwr (svdm_notify_pe_startup t) = pwr t" "pwr (pd_reset_pe_timer t) = pwr t"
  by (simp_all add: pd_init_spec_revision_def pd_update_msg_header_def svdm_reset_state_def svdm_notify_pe_startup_def
      pd_reset_pe_timer_def pd_dpm_start_pps_request_thread_def role Let_def)

lemma role_error_recovery [role]: "pwr (pd_notify_pe_error_recovery t) = pwr t"
  by (simp add: pd_notify_pe_error_recovery_def tcpci_notify_hard_reset_state_def tcp_event_buf_reset_locked_def role Let_def)

lemma role_reset_protocol_layer [role]: "pwr (pd_reset_protocol_layer b t) = pwr t"
  by (simp add: pd_reset_protocol_layer_def Let_def role)

lemma role_set_data_role [role]: "pwr (pd_set_data_role env n t) = pwr t"
  by (simp add: pd_set_data_role_def Let_def role)

lemma role_hardreset [role]: "pwr (pd_dpm_notify_pe_hardreset t) = pwr t"
  by (simp add: pd_dpm_notify_pe_hardreset_def Let_def role)

lemma role_reset_local_hw [role]: "pwr (pd_reset_local_hw env t) = pwr t"
  by (simp add: pd_reset_local_hw_def Let_def role)

section \<open>Entry actions\<close>

text \<open>\<open>sets_role g f\<close>: the action \<open>f\<close>, unless it faults, applies \<open>g\<close> to the role.\<close>

definition sets_role :: "(nat \<times> bool \<Rightarrow> nat \<times> bool) \<Rightarrow> (tcpc_device \<Rightarrow> tcpc_device kres) \<Rightarrow> bool" where
  "sets_role g f \<longleftrightarrow> (\<forall>t t'. f t = Inr t' \<longrightarrow> pwr t' = g (pwr t))"

abbreviation keeps_role :: "(tcpc_device \<Rightarrow> tcpc_device kres) \<Rightarrow> bool" where
  "keeps_role \<equiv> sets_role (\<lambda>r. r)"

lemma sets_role_ok: "(\<And>t. pwr (f t) = g (pwr t)) \<Longrightarrow> sets_role g (ok f)"
  by (simp add: sets_role_def ok_def)

lemma role_common [role]:
  "pwr (pe_idle_reset_data t) = pwr t" "pwr (pe_idle1_entry t) = pwr t" "pwr (pe_reject_entry t) = pwr t"
  "pwr (pe_error_recovery_entry t) = pwr t" "pwr (pe_bist_test_data_entry t) = pwr t"
  "pwr (pe_bist_test_data_exit t) = pwr t" "pwr (pe_bist_carrier_mode_2_entry t) = pwr t"
  "pwr (pe_get_country_codes_entry t) = pwr t" "pwr (pe_get_country_info_entry t) = pwr t"
  "pwr (pe_vdm_not_supported_entry t) = pwr t"
  by (simp_all add: pe_idle_reset_data_def pe_idle1_entry_def pe_reject_entry_def pe_error_recovery_entry_def
      pe_bist_test_data_entry_def pe_bist_test_data_exit_def pe_bist_carrier_mode_2_entry_def
      pe_get_country_codes_entry_def pe_get_country_info_entry_def pe_vdm_not_supported_entry_def flag_defs role Let_def)

lemma role_idle2 [role]: "pwr (pe_idle2_entry t) = pwr t"
  by (simp add: pe_idle2_entry_def pe_data_clear_def role)

lemma role_vconn [role]:
  "pwr (pd_dpm_dynamic_disable_vconn env t) = pwr t" "pwr (pd_dpm_dynamic_enable_vconn env t) = pwr t"
  "pwr (pd_dpm_vcs_enable_vconn env n t) = pwr t" "pwr (pd_dpm_vcs_evaluate_swap t) = pwr t"
  by (simp_all add: pd_dpm_dynamic_disable_vconn_def pd_dpm_dynamic_enable_vconn_def pd_dpm_vcs_enable_vconn_def
      pd_dpm_vcs_evaluate_swap_def role Let_def)

lemma role_error_recovery_once [role]: "pwr (pe_error_recovery_once_entry env t) = pwr t"
  by (simp add: pe_error_recovery_once_entry_def role Let_def)

lemma role_contract [role]:
  "pwr (pd_notify_pe_snk_explicit_contract t) = pwr t" "pwr (pd_notify_pe_src_explicit_contract t) = pwr t"
  by (simp_all add: pd_notify_pe_snk_explicit_contract_def pd_notify_pe_src_explicit_contract_def role Let_def
      split: prod.splits)

lemma role_power_ready [role]: "pwr (pe_power_ready_entry t) = pwr t"
  by (simp add: pe_power_ready_entry_def pe30_power_ready_entry_def pe20_power_ready_entry_def role Let_def)

lemma role_ready [role]: "pwr (pe_snk_ready_entry t) = pwr t" "pwr (pe_src_ready_entry t) = pwr t"
  by (simp_all add: pe_snk_ready_entry_def pe_src_ready_entry_def role)

section \<open>Actions that can fault\<close>

lemma role_ext: "pd_send_sop_ext_msg m d t = Inr t' \<Longrightarrow> pwr t' = pwr t"
  by (auto simp: pd_send_sop_ext_msg_def pd_send_ext_msg_def Let_def role split: if_splits)

lemma role_give:
  "pd_dpm_send_source_cap_ext t = Inr t' \<Longrightarrow> pwr t' = pwr t" "pd_dpm_send_battery_cap t = Inr t' \<Longrightarrow> pwr t' = pwr t"
  "pd_dpm_send_battery_status t = Inr t' \<Longrightarrow> pwr t' = pwr t" "pd_dpm_send_mfrs_info t = Inr t' \<Longrightarrow> pwr t' = pwr t"
  "pd_dpm_send_country_codes t = Inr t' \<Longrightarrow> pwr t' = pwr t" "pd_dpm_send_country_info t = Inr t' \<Longrightarrow> pwr t' = pwr t"
  "pd_dpm_inform_alert t = Inr t' \<Longrightarrow> pwr t' = pwr t" "pd_dpm_send_status t = Inr t' \<Longrightarrow> pwr t' = pwr t"
  by (auto simp: pd_dpm_send_source_cap_ext_def pd_dpm_send_battery_cap_def pd_dpm_send_battery_status_def
      pd_dpm_send_mfrs_info_def pd_dpm_send_country_codes_def pd_dpm_send_country_info_def pd_dpm_inform_alert_def
      pd_dpm_send_status_def kbind_eq_Inr Let_def role dest!: role_ext split: if_splits option.splits prod.splits)

lemma role_caps:
  "pd_dpm_send_source_caps t = Inr t' \<Longrightarrow> pwr t' = pwr t" "pd_dpm_dr_inform_sink_cap t = Inr t' \<Longrightarrow> pwr t' = pwr t"
  "pd_dpm_dr_inform_source_cap t = Inr t' \<Longrightarrow> pwr t' = pwr t" "pd_dpm_snk_standby_power rv t = Inr t' \<Longrightarrow> pwr t' = pwr t"
  by (auto simp: pd_dpm_send_source_caps_def pd_dpm_dr_inform_sink_cap_def pd_dpm_dr_inform_source_cap_def
      pd_dpm_snk_standby_power_def pd_dpm_update_pdos_flags_def kbind_eq_Inr Let_def role split: if_splits)

lemma role_evaluate_request: "dpm_evaluate_request rdo n p = Inr (b, p') \<Longrightarrow> role_of p' = role_of p"
  by (auto simp: dpm_evaluate_request_def kbind_eq_Inr Let_def split: if_splits prod.splits)

lemma role_src_evaluate: "pd_dpm_src_evaluate_request t = Inr t' \<Longrightarrow> pwr t' = pwr t"
  by (auto simp: pd_dpm_src_evaluate_request_def kbind_eq_Inr Let_def role dest!: role_evaluate_request
      split: if_splits option.splits prod.splits)

lemma role_update_request: "dpm_update_request r t = Inr t' \<Longrightarrow> pwr t' = pwr t"
  by (rule role_view) (rule update_request_view)

lemma role_build_update:
  assumes "build_request (pd_port t) = Inr (q, p)" "dpm_update_request q (t\<lparr>pd_port := p\<rparr>) = Inr t'"
  shows "pwr t' = pwr t"
  using role_update_request[OF assms(2)] build_request_port[OF assms(1)] by (auto simp: role)

lemma role_snk_evaluate:
  assumes "pd_dpm_snk_evaluate_caps t = Inr t'"
  shows "pwr t' = pwr t"
proof -
  let ?t0 = "if pd_msg_data_payload (pd_port t) = None then act WarnNullMsg t else t"
  obtain t1 where t1: "pd_dpm_dr_inform_source_cap ?t0 = Inr t1"
    using assms by (auto simp only: pd_dpm_snk_evaluate_caps_def kbind_eq_Inr)
  then have "pwr t1 = pwr t" using role_caps(3)[of ?t0 t1] by simp
  moreover have "pwr t' = pwr t1"
    using assms t1 unfolding pd_dpm_snk_evaluate_caps_def Let_def
    by (auto simp: kbind_eq_Inr role dest: role_build_update split: if_splits)
  ultimately show ?thesis by simp
qed

lemma role_vdm_send [role]:
  "pwr (pd_send_svdm_request env sop svid cmd pos ws n t) = pwr t" "pwr (upd_svid svid f t) = pwr t"
  "pwr (alt_mode svid a t) = pwr t" "pwr (update_modal_operation t) = pwr t"
  by (simp_all add: pd_send_svdm_request_def upd_svid_def alt_mode_def update_modal_operation_def role Let_def)

lemma role_reply: "pd_reply_svdm_request env n ws t = Inr t' \<Longrightarrow> pwr t' = pwr t"
  by (auto simp: pd_reply_svdm_request_def Let_def role split: if_splits)

lemma role_vdm_reply:
  "dpm_vdm_reply_svdm_request env b t = Inr t' \<Longrightarrow> pwr t' = pwr t" "dpm_vdm_reply_svdm_nak env t = Inr t' \<Longrightarrow> pwr t' = pwr t"
  "dpm_vdm_ufp_response_id env t = Inr t' \<Longrightarrow> pwr t' = pwr t" "dpm_ufp_response_svids env t = Inr t' \<Longrightarrow> pwr t' = pwr t"
  "dpm_vdm_ufp_response_modes env t = Inr t' \<Longrightarrow> pwr t' = pwr t" "pd_send_custom_vdm n t = Inr t' \<Longrightarrow> pwr t' = pwr t"
  by (auto simp: dpm_vdm_reply_svdm_request_def dpm_vdm_reply_svdm_nak_def dpm_vdm_ufp_response_id_def
      dpm_ufp_response_svids_def dpm_vdm_ufp_response_modes_def pd_send_custom_vdm_def Let_def role dest!: role_reply
      split: if_splits option.splits)

lemma role_ufp_modes:
  "dpm_ufp_update_svid_data_enter_mode svid n t = Inr (b, t') \<Longrightarrow> pwr t' = pwr t"
  "dpm_ufp_update_svid_data_exit_mode svid n t = (b, t') \<Longrightarrow> pwr t' = pwr t"
  by (auto simp: dpm_ufp_update_svid_data_enter_mode_def dpm_ufp_update_svid_data_exit_mode_def kbind_eq_Inr Let_def role
      split: if_splits option.splits)

lemma role_ufp_requests:
  "pd_dpm_ufp_request_id_info env t = Inr t' \<Longrightarrow> pwr t' = pwr t"
  "pd_dpm_ufp_request_svid_info env t = Inr t' \<Longrightarrow> pwr t' = pwr t"
  "pd_dpm_ufp_request_mode_info env t = Inr t' \<Longrightarrow> pwr t' = pwr t"
  "pd_dpm_ufp_request_enter_mode env t = Inr t' \<Longrightarrow> pwr t' = pwr t"
  "pd_dpm_ufp_request_exit_mode env t = Inr t' \<Longrightarrow> pwr t' = pwr t"
  by (auto simp: pd_dpm_ufp_request_id_info_def pd_dpm_ufp_request_svid_info_def pd_dpm_ufp_request_mode_info_def
      pd_dpm_ufp_request_enter_mode_def pd_dpm_ufp_request_exit_mode_def kbind_eq_Inr Let_def
      dest!: role_vdm_reply role_ufp_modes split: if_splits prod.splits)

lemma role_cable_id: "pd_dpm_inform_cable_id b t = Inr t' \<Longrightarrow> pwr t' = pwr t"
  by (auto simp: pd_dpm_inform_cable_id_def copy_cable_vdos_def kbind_eq_Inr Let_def role split: if_splits option.splits)

lemma role_consume: "pwr (snd (consume_svid_words ws b t)) = pwr t"
  by (induction ws arbitrary: b t) (simp_all add: dpm_dfp_update_svid_data_exist_def role Let_def)

lemma role_tcp_vdm_event: "pd_put_tcp_vdm_event n t = Inr r \<Longrightarrow> pwr (snd r) = pwr t"
  using port_put_vdm_own[of "simple_evt PD_EVT_TCP_MSG n 1" t r] by (simp add: pd_put_tcp_vdm_event_def simple_evt_def)

lemma role_consume_svids: "dpm_dfp_consume_svids m n t = Inr (b, t') \<Longrightarrow> pwr t' = pwr t"
  using role_consume[of "take n (drop 1 (payload (pd_msg_buffer t ! m)))" "n \<ge> 6" t]
  by (auto simp: dpm_dfp_consume_svids_def kbind_eq_Inr Let_def dest!: role_tcp_vdm_event split: if_splits prod.splits)

lemma role_dfp_inform:
  "pd_dpm_dfp_inform_id b t = Inr t' \<Longrightarrow> pwr t' = pwr t" "pd_dpm_dfp_inform_svids b t = Inr t' \<Longrightarrow> pwr t' = pwr t"
  "pd_dpm_dfp_inform_modes b t = Inr t' \<Longrightarrow> pwr t' = pwr t" "pd_dpm_dfp_inform_enter_mode b t = Inr t' \<Longrightarrow> pwr t' = pwr t"
  by (auto simp: pd_dpm_dfp_inform_id_def dpm_dfp_update_partner_id_def pd_dpm_dfp_inform_svids_def
      pd_dpm_dfp_inform_modes_def dpm_dfp_update_svid_data_modes_def pd_dpm_dfp_inform_enter_mode_def
      dpm_dfp_update_svid_enter_mode_def kbind_eq_Inr Let_def role dest!: role_consume_svids
      split: if_splits option.splits)

lemma role_dfp_plain [role]:
  "pwr (pd_dpm_dfp_inform_exit_mode t) = pwr t" "pwr (pd_dpm_dfp_inform_attention t) = pwr t"
  by (simp_all add: pd_dpm_dfp_inform_exit_mode_def dpm_dfp_update_svid_data_exit_mode_def
      pd_dpm_dfp_inform_attention_def role Let_def split: option.splits)

lemma role_copy_uvdm: "copy_uvdm t = Inr t' \<Longrightarrow> pwr t' = pwr t"
  by (auto simp: copy_uvdm_def Let_def split: if_splits option.splits)

lemma role_uvdm:
  "pd_dpm_ufp_recv_uvdm t = Inr t' \<Longrightarrow> pwr t' = pwr t" "pd_dpm_dfp_send_uvdm t = Inr t' \<Longrightarrow> pwr t' = pwr t"
  "pd_dpm_dfp_inform_uvdm b t = Inr t' \<Longrightarrow> pwr t' = pwr t"
  by (auto simp: pd_dpm_ufp_recv_uvdm_def pd_dpm_dfp_send_uvdm_def pd_dpm_dfp_inform_uvdm_def kbind_eq_Inr Let_def role
      dest!: role_copy_uvdm role_vdm_reply(6) split: if_splits)

section \<open>States of a sink and of a source\<close>

lemma role_snk_entries [role]:
  "pwr (pe_snk_startup_entry t) = pwr t" "pwr (pe_snk_discovery_entry t) = pwr t"
  "pwr (pe_snk_wait_for_capabilities_entry t) = pwr t" "pwr (pe_snk_select_capability_entry t) = pwr t"
  "pwr (pe_snk_select_capability_exit t) = pwr t" "pwr (pe_snk_hard_reset_entry env t) = pwr t"
  "pwr (pe_snk_transition_to_default_entry env t) = pwr t" "pwr (pe_snk_give_sink_cap_entry t) = pwr t"
  "pwr (pe_snk_get_source_cap_entry t) = pwr t" "pwr (pe_snk_send_soft_reset_entry t) = pwr t"
  "pwr (pe_snk_soft_reset_entry t) = pwr t" "pwr (pe_snk_send_not_supported_entry t) = pwr t"
  "pwr (pe_snk_not_supported_received_entry t) = pwr t" "pwr (pe_snk_chunk_received_entry t) = pwr t"
  "pwr (pe_snk_send_sink_alert_entry t) = pwr t" "pwr (pe_snk_get_source_cap_ext_entry t) = pwr t"
  "pwr (pe_snk_get_source_status_entry t) = pwr t" "pwr (pe_snk_get_pps_status_entry t) = pwr t"
  by (simp_all add: pe_snk_startup_entry_def pe_snk_discovery_entry_def pe_snk_wait_for_capabilities_entry_def
      pe_snk_select_capability_entry_def pe_snk_select_capability_exit_def pe_snk_hard_reset_entry_def
      pe_snk_transition_to_default_entry_def pe_snk_give_sink_cap_entry_def pe_snk_get_source_cap_entry_def
      pe_snk_send_soft_reset_entry_def pe_snk_soft_reset_entry_def pe_snk_send_not_supported_entry_def
      pe_snk_not_supported_received_entry_def pe_snk_chunk_received_entry_def pe_snk_send_sink_alert_entry_def
      pe_snk_get_source_cap_ext_entry_def pe_snk_get_source_status_entry_def pe_snk_get_pps_status_entry_def
      flag_defs pd_dpm_sink_vbus_def pd_send_hard_reset_def pd_send_soft_reset_def pd_handle_soft_reset_def
      pd_dpm_snk_hard_reset_def pd_dpm_send_sink_caps_def pd_dpm_send_alert_def role Let_def)

lemma role_src_entries [role]:
  "pwr (pe_src_startup_entry t) = pwr t" "pwr (pe_src_discovery_entry t) = pwr t"
  "pwr (pe_src_transition_supply_entry t) = pwr t" "pwr (pe_src_transition_supply2_entry t) = pwr t"
  "pwr (pe_src_disabled_entry env t) = pwr t" "pwr (pe_src_capability_response_entry t) = pwr t"
  "pwr (pe_src_hard_reset_entry t) = pwr t" "pwr (pe_src_hard_reset_received_entry t) = pwr t"
  "pwr (pe_src_transition_to_default_entry env t) = pwr t" "pwr (pe_src_transition_to_default_exit env t) = pwr t"
  "pwr (pe_src_get_sink_cap_entry t) = pwr t" "pwr (pe_src_wait_new_capabilities_entry t) = pwr t"
  "pwr (pe_src_send_soft_reset_entry t) = pwr t" "pwr (pe_src_soft_reset_entry t) = pwr t"
  "pwr (pe_src_cbl_send_soft_reset_entry t) = pwr t" "pwr (pe_src_vdm_identity_request_entry env t) = pwr t"
  "pwr (pe_src_send_not_supported_entry t) = pwr t" "pwr (pe_src_not_supported_received_entry t) = pwr t"
  "pwr (pe_src_chunk_received_entry t) = pwr t" "pwr (pe_src_send_source_alert_entry t) = pwr t"
  "pwr (pe_src_get_sink_status_entry t) = pwr t"
  by (simp_all add: pe_src_startup_entry_def pe_src_discovery_entry_def pe_src_transition_supply_entry_def
      pe_src_transition_supply2_entry_def pe_src_disabled_entry_def pe_src_capability_response_entry_def
      pe_src_hard_reset_entry_def pe_src_hard_reset_received_entry_def pe_src_transition_to_default_entry_def
      pe_src_transition_to_default_exit_def pe_src_get_sink_cap_entry_def
      pe_src_wait_new_capabilities_entry_def pe_src_send_soft_reset_entry_def pe_src_soft_reset_entry_def
      pe_src_cbl_send_soft_reset_entry_def pe_src_vdm_identity_request_entry_def
      pe_src_send_not_supported_entry_def pe_src_not_supported_received_entry_def
      pe_src_chunk_received_entry_def pe_src_send_source_alert_entry_def pe_src_get_sink_status_entry_def
      flag_defs pd_send_hard_reset_def pd_send_soft_reset_def pd_handle_soft_reset_def
      pd_dpm_src_hard_reset_def pd_is_discover_cable_def pd_dpm_send_alert_def pd_send_vdm_discover_id_def role Let_def)

lemma role_swap_entries [role]:
  "pwr (pe_dr_src_get_source_cap_entry t) = pwr t" "pwr (pe_dr_src_give_sink_cap_entry t) = pwr t"
  "pwr (pe_dr_snk_get_sink_cap_entry t) = pwr t" "pwr (pe_dr_src_get_source_cap_ext_entry t) = pwr t"
  "pwr (pe_drs_dfp_ufp_evaluate_dr_swap_entry t) = pwr t" "pwr (pe_drs_dfp_ufp_accept_dr_swap_entry t) = pwr t"
  "pwr (pe_drs_dfp_ufp_change_to_ufp_entry env t) = pwr t" "pwr (pe_drs_dfp_ufp_send_dr_swap_entry t) = pwr t"
  "pwr (pe_drs_dfp_ufp_reject_dr_swap_entry t) = pwr t" "pwr (pe_drs_ufp_dfp_evaluate_dr_swap_entry t) = pwr t"
  "pwr (pe_drs_ufp_dfp_accept_dr_swap_entry t) = pwr t" "pwr (pe_drs_ufp_dfp_change_to_dfp_entry env t) = pwr t"
  "pwr (pe_drs_ufp_dfp_send_dr_swap_entry t) = pwr t" "pwr (pe_drs_ufp_dfp_reject_dr_swap_entry t) = pwr t"
  "pwr (pe_prs_src_snk_evaluate_pr_swap_entry t) = pwr t" "pwr (pe_prs_src_snk_accept_pr_swap_entry t) = pwr t"
  "pwr (pe_prs_src_snk_transition_to_off_entry t) = pwr t" "pwr (pe_prs_src_snk_wait_source_on_entry t) = pwr t"
  "pwr (pe_prs_src_snk_send_swap_entry t) = pwr t" "pwr (pe_prs_src_snk_reject_pr_swap_entry t) = pwr t"
  "pwr (pe_prs_snk_src_evaluate_pr_swap_entry t) = pwr t" "pwr (pe_prs_snk_src_accept_pr_swap_entry t) = pwr t"
  "pwr (pe_prs_snk_src_transition_to_off_entry t) = pwr t" "pwr (pe_prs_snk_src_source_on_entry env t) = pwr t"
  "pwr (pe_prs_snk_src_send_swap_entry t) = pwr t" "pwr (pe_prs_snk_src_reject_swap_entry t) = pwr t"
  "pwr (pe_vcs_send_swap_entry t) = pwr t" "pwr (pe_vcs_evaluate_swap_entry t) = pwr t"
  "pwr (pe_vcs_accept_swap_entry t) = pwr t" "pwr (pe_vcs_reject_vconn_swap_entry t) = pwr t"
  "pwr (pe_vcs_wait_for_vconn_entry t) = pwr t" "pwr (pe_vcs_turn_off_vconn_entry env t) = pwr t"
  "pwr (pe_vcs_turn_on_vconn_entry env t) = pwr t" "pwr (pe_vcs_send_ps_rdy_entry t) = pwr t"
  by (simp_all add: pe_dr_src_get_source_cap_entry_def pe_dr_src_give_sink_cap_entry_def pe_dr_snk_get_sink_cap_entry_def
      pe_dr_src_get_source_cap_ext_entry_def pe_drs_dfp_ufp_evaluate_dr_swap_entry_def
      pe_drs_dfp_ufp_accept_dr_swap_entry_def pe_drs_dfp_ufp_change_to_ufp_entry_def
      pe_drs_dfp_ufp_send_dr_swap_entry_def pe_drs_dfp_ufp_reject_dr_swap_entry_def
      pe_drs_ufp_dfp_evaluate_dr_swap_entry_def pe_drs_ufp_dfp_accept_dr_swap_entry_def
      pe_drs_ufp_dfp_change_to_dfp_entry_def pe_drs_ufp_dfp_send_dr_swap_entry_def
      pe_drs_ufp_dfp_reject_dr_swap_entry_def pe_prs_src_snk_evaluate_pr_swap_entry_def
      pe_prs_src_snk_accept_pr_swap_entry_def pe_prs_src_snk_transition_to_off_entry_def
      pe_prs_src_snk_wait_source_on_entry_def pe_prs_src_snk_send_swap_entry_def
      pe_prs_src_snk_reject_pr_swap_entry_def pe_prs_snk_src_evaluate_pr_swap_entry_def
      pe_prs_snk_src_accept_pr_swap_entry_def pe_prs_snk_src_transition_to_off_entry_def
      pe_prs_snk_src_source_on_entry_def pe_prs_snk_src_send_swap_entry_def
      pe_prs_snk_src_reject_swap_entry_def pe_vcs_send_swap_entry_def pe_vcs_evaluate_swap_entry_def
      pe_vcs_accept_swap_entry_def pe_vcs_reject_vconn_swap_entry_def pe_vcs_wait_for_vconn_entry_def
      pe_vcs_turn_off_vconn_entry_def pe_vcs_turn_on_vconn_entry_def pe_vcs_send_ps_rdy_entry_def flag_defs
      pd_dpm_drs_evaluate_swap_def pd_dpm_drs_change_role_def pd_dpm_prs_evaluate_swap_def
      pd_dpm_prs_turn_off_power_sink_def pd_dpm_send_sink_caps_def role Let_def)

lemma role_vdm_entries [role]:
  "pwr (pe_ufp_vdm_attention_request_entry env t) = pwr t" "pwr (pe_ufp_vdm_dp_status_update_entry t) = pwr t"
  "pwr (pe_ufp_vdm_dp_configure_entry t) = pwr t" "pwr (pe_dfp_ufp_vdm_identity_request_entry env t) = pwr t"
  "pwr (pe_dfp_cbl_vdm_identity_request_entry env t) = pwr t" "pwr (pe_dfp_vdm_svids_request_entry env t) = pwr t"
  "pwr (pe_dfp_vdm_modes_request_entry env t) = pwr t" "pwr (pe_dfp_vdm_mode_entry_request_entry env t) = pwr t"
  "pwr (pe_dfp_vdm_mode_exit_request_entry env t) = pwr t" "pwr (pe_dfp_vdm_mode_exit_acked_entry t) = pwr t"
  "pwr (pe_dfp_vdm_attention_request_entry t) = pwr t" "pwr (pe_dfp_cbl_send_soft_reset_entry t) = pwr t"
  "pwr (pe_dfp_cbl_send_cable_reset_entry t) = pwr t" "pwr (pe_dfp_vdm_dp_status_update_request_entry t) = pwr t"
  "pwr (pe_dfp_vdm_dp_status_update_acked_entry t) = pwr t"
  "pwr (pe_dfp_vdm_dp_status_update_naked_entry t) = pwr t"
  "pwr (pe_dfp_vdm_dp_configuration_request_entry t) = pwr t"
  "pwr (pe_dfp_vdm_dp_configuration_acked_entry t) = pwr t"
  "pwr (pe_dfp_vdm_dp_configuration_naked_entry t) = pwr t"
  by (simp_all add: pe_ufp_vdm_attention_request_entry_def pe_ufp_vdm_dp_status_update_entry_def
      pe_ufp_vdm_dp_configure_entry_def pe_dfp_ufp_vdm_identity_request_entry_def
      pe_dfp_cbl_vdm_identity_request_entry_def pe_dfp_vdm_svids_request_entry_def
      pe_dfp_vdm_modes_request_entry_def pe_dfp_vdm_mode_entry_request_entry_def
      pe_dfp_vdm_mode_exit_request_entry_def pe_dfp_vdm_mode_exit_acked_entry_def
      pe_dfp_vdm_attention_request_entry_def pe_dfp_cbl_send_soft_reset_entry_def
      pe_dfp_cbl_send_cable_reset_entry_def pe_dfp_vdm_dp_status_update_request_entry_def
      pe_dfp_vdm_dp_status_update_acked_entry_def pe_dfp_vdm_dp_status_update_naked_entry_def
      pe_dfp_vdm_dp_configuration_request_entry_def pe_dfp_vdm_dp_configuration_acked_entry_def
      pe_dfp_vdm_dp_configuration_naked_entry_def flag_defs pd_send_vdm_discover_id_def
      pd_send_vdm_discover_svids_def pd_send_vdm_discover_modes_def pd_send_vdm_enter_mode_def
      pd_send_vdm_exit_mode_def pd_send_vdm_attention_def role Let_def)

lemma role_com_faulty [simp]:
  "keeps_role pe_get_battery_cap_entry" "keeps_role pe_give_battery_cap_entry"
  "keeps_role pe_get_battery_status_entry" "keeps_role pe_give_battery_status_entry"
  "keeps_role pe_get_manufacturer_info_entry" "keeps_role pe_give_manufacturer_info_entry"
  "keeps_role pe_give_country_codes_entry" "keeps_role pe_give_country_info_entry"
  by (auto simp: sets_role_def pe_get_battery_cap_entry_def pe_give_battery_cap_entry_def pe_get_battery_status_entry_def
      pe_give_battery_status_entry_def pe_get_manufacturer_info_entry_def pe_give_manufacturer_info_entry_def
      pe_give_country_codes_entry_def pe_give_country_info_entry_def flag_defs pd_dpm_ufp_send_svdm_nak_def
      kbind_eq_Inr Let_def role dest!: role_ext role_give)

lemma role_power_faulty [simp]:
  "keeps_role pe_snk_evaluate_capability_entry" "keeps_role (pe_snk_transition_sink_entry env)"
  "keeps_role pe_snk_source_alert_received_entry" "keeps_role pe_snk_give_sink_status_entry"
  "keeps_role pe_src_send_capabilities_entry" "keeps_role pe_src_negotiate_capabilities_entry"
  "keeps_role pe_src_get_sink_cap_exit" "keeps_role pe_src_vdm_identity_acked_entry"
  "keeps_role pe_src_vdm_identity_naked_entry" "keeps_role pe_src_sink_alert_received_entry"
  "keeps_role pe_src_give_source_cap_ext_entry" "keeps_role pe_src_give_source_status_entry"
  "keeps_role pe_dr_src_get_source_cap_exit" "keeps_role pe_dr_snk_get_sink_cap_exit"
  "keeps_role pe_dr_snk_give_source_cap_entry" "keeps_role pe_dr_snk_give_source_cap_ext_entry"
  by (auto simp: sets_role_def pe_snk_evaluate_capability_entry_def pe_snk_transition_sink_entry_def
      pe_snk_source_alert_received_entry_def pe_snk_give_sink_status_entry_def
      pe_src_send_capabilities_entry_def pe_src_negotiate_capabilities_entry_def pe_src_get_sink_cap_exit_def
      pe_src_vdm_identity_acked_entry_def pe_src_vdm_identity_naked_entry_def
      pe_src_sink_alert_received_entry_def pe_src_give_source_cap_ext_entry_def
      pe_src_give_source_status_entry_def pe_dr_src_get_source_cap_exit_def pe_dr_snk_get_sink_cap_exit_def
      pe_dr_snk_give_source_cap_entry_def pe_dr_snk_give_source_cap_ext_entry_def flag_defs
      pd_handle_first_pd_command_def kbind_eq_Inr Let_def role dest!: role_give role_caps role_snk_evaluate
      role_src_evaluate role_cable_id)

lemma role_ufp_faulty [simp]:
  "keeps_role (pe_ufp_vdm_get_identity_entry env)" "keeps_role (pe_ufp_vdm_get_svids_entry env)"
  "keeps_role (pe_ufp_vdm_get_modes_entry env)" "keeps_role (pe_ufp_vdm_evaluate_mode_entry_entry env)"
  "keeps_role (pe_ufp_vdm_mode_exit_entry env)" "keeps_role pe_ufp_uvdm_recv_entry"
  "keeps_role (pe_ufp_vdm_send_nak_entry env)"
  by (auto simp: sets_role_def pe_ufp_vdm_get_identity_entry_def pe_ufp_vdm_get_svids_entry_def
      pe_ufp_vdm_get_modes_entry_def pe_ufp_vdm_evaluate_mode_entry_entry_def pe_ufp_vdm_mode_exit_entry_def
      pe_ufp_uvdm_recv_entry_def pe_ufp_vdm_send_nak_entry_def flag_defs pd_dpm_ufp_send_svdm_nak_def
      kbind_eq_Inr Let_def role dest!: role_ufp_requests role_uvdm role_vdm_reply)

lemma role_dfp_faulty [simp]:
  "keeps_role pe_dfp_ufp_vdm_identity_acked_entry" "keeps_role pe_dfp_ufp_vdm_identity_naked_entry"
  "keeps_role pe_dfp_cbl_vdm_identity_acked_entry" "keeps_role pe_dfp_cbl_vdm_identity_naked_entry"
  "keeps_role pe_dfp_vdm_svids_acked_entry" "keeps_role pe_dfp_vdm_svids_naked_entry"
  "keeps_role pe_dfp_vdm_modes_acked_entry" "keeps_role pe_dfp_vdm_modes_naked_entry"
  "keeps_role pe_dfp_vdm_mode_entry_acked_entry" "keeps_role pe_dfp_vdm_mode_entry_naked_entry"
  "keeps_role pe_dfp_uvdm_send_entry" "keeps_role pe_dfp_uvdm_acked_entry" "keeps_role pe_dfp_uvdm_naked_entry"
  by (auto simp: sets_role_def pe_dfp_ufp_vdm_identity_acked_entry_def pe_dfp_ufp_vdm_identity_naked_entry_def
      pe_dfp_cbl_vdm_identity_acked_entry_def pe_dfp_cbl_vdm_identity_naked_entry_def
      pe_dfp_vdm_svids_acked_entry_def pe_dfp_vdm_svids_naked_entry_def pe_dfp_vdm_modes_acked_entry_def
      pe_dfp_vdm_modes_naked_entry_def pe_dfp_vdm_mode_entry_acked_entry_def
      pe_dfp_vdm_mode_entry_naked_entry_def pe_dfp_uvdm_send_entry_def pe_dfp_uvdm_acked_entry_def
      pe_dfp_uvdm_naked_entry_def flag_defs pd_dpm_ufp_send_svdm_nak_def kbind_eq_Inr Let_def role dest!:
      role_cable_id role_dfp_inform role_uvdm)

section \<open>All entry actions\<close>

definition new_role :: "pe_state \<Rightarrow> nat \<Rightarrow> nat" where
  "new_role s r = (if s = PE_PRS_SRC_SNK_ASSERT_RD then PD_ROLE_SINK
                   else if s = PE_PRS_SNK_SRC_ASSERT_RP then PD_ROLE_SOURCE else r)"

lemma role_set: "role_of (p\<lparr>power_role := r\<rparr>) = (r, snd (role_of p))"
  by (simp add: role_of_def)

lemma role_set_power_role: "pwr (pd_set_power_role env r t) = (r, snd (pwr t))"
  by (simp add: pd_set_power_role_def pd_notify_pe_pr_changed_def role role_set Let_def) (simp add: role_of_def)

lemma role_change: "pwr (pd_dpm_prs_change_role env r t) = (r, snd (pwr t))"
  by (simp add: pd_dpm_prs_change_role_def role_set_power_role role)

lemma actions_keep_role:
  "list_all keeps_role (take 63 (pe_state_actions env) @ take 6 (drop 64 (pe_state_actions env)) @ drop 71 (pe_state_actions env))"
  by (simp add: pe_state_actions_def) (simp add: sets_role_def ok_def role)

lemma nth_without_two:
  assumes "list_all P (take i xs @ take (j - Suc i) (drop (Suc i) xs) @ drop (Suc j) xs)" "n < length xs" "n \<noteq> i" "n \<noteq> j"
  shows "P (xs ! n)"
proof -
  consider "n < i" | "i < n" "n < j" | "j < n" "i < n" | "j < n" "n < i" using assms(3,4) by linarith
  then have "xs ! n \<in> set (take i xs) \<union> set (take (j - Suc i) (drop (Suc i) xs)) \<union> set (drop (Suc j) xs)"
    by cases (use assms(2) in \<open>auto simp: in_set_conv_nth intro: exI[of _ n] exI[of _ "n - Suc i"] exI[of _ "n - Suc j"]\<close>)
  then show ?thesis using assms(1) by (auto simp: list_all_iff)
qed

lemma entry_role:
  assumes "s < PD_NR_PE_STATES" "(pe_state_actions env ! s) t = Inr t'"
  shows "pwr t' = (new_role s (fst (pwr t)), snd (pwr t))"
proof (cases "s = PE_PRS_SRC_SNK_ASSERT_RD \<or> s = PE_PRS_SNK_SRC_ASSERT_RP")
  case True
  then show ?thesis using assms(2)
    by (auto simp: pe_state_actions_def ok_def pe_prs_src_snk_assert_rd_entry_def pe_prs_snk_src_assert_rp_entry_def
        role_change new_role_def)
next
  case False
  then have "keeps_role (pe_state_actions env ! s)"
    using nth_without_two[of keeps_role 63 "pe_state_actions env" 70 s] actions_keep_role assms(1) by simp
  then show ?thesis using assms(2) False by (simp add: sets_role_def new_role_def)
qed

lemma exit_role: "keeps_role (pe_get_exit_action env s)"
  by (simp add: pe_get_exit_action_def)
    (auto simp: sets_role_def ok_def role pd_dpm_inform_status_def pd_dpm_inform_source_cap_ext_def)

end
