(* ===== verification/Pe_Engine.thy ===== *)
theory Pe_Engine
  imports Pe_Power
begin

unbundle bit_operations_syntax

text \<open>
  The engine as a whole (\<open>pd_policy_engine_run\<close>): one event with the change of state it causes,
  the choice of the next event, and the invariant of all rounds.
\<close>

section \<open>One event\<close>

text \<open>
  What holds whenever the engine waits for an event: its state belongs to the power role of the
  port, and there is a contract when it is ready.
\<close>

definition engine_ok :: "pd_port \<Rightarrow> bool" where
  "engine_ok p \<longleftrightarrow> role_state (power_role p) (pe_pd_state p) \<and>
     (pe_pd_state p \<in> {PE_SNK_READY, PE_SRC_READY} \<longrightarrow> explicit_contract p)"

lemma view_kept:
  assumes "pe_view a = pe_view b"
  shows "explicit_contract (pd_port a) = explicit_contract (pd_port b)" "pe_pd_state (pd_port a) = pe_pd_state (pd_port b)"
    "curr_is_vdm_evt (pd_port a) = curr_is_vdm_evt (pd_port b)"
  using view_fields(7)[OF assms] by (simp_all add: pe_kept_def)

lemmas kept_view_simps [simp] = view[THEN view_kept(1)] view[THEN view_kept(2)] view[THEN view_kept(3)]

lemma pd_state_init_hdr [simp]: "pe_pd_state (pd_port (pd_init_message_hdr b t)) = pe_pd_state (pd_port t)"
  by (simp add: pd_init_message_hdr_def pd_update_msg_header_def pd_init_spec_revision_def upd_port_def Let_def)

lemma vdm_evt_init_hdr [simp]: "curr_is_vdm_evt (pd_port (pd_init_message_hdr b t)) = curr_is_vdm_evt (pd_port t)"
  by (simp add: pd_init_message_hdr_def pd_update_msg_header_def pd_init_spec_revision_def upd_port_def Let_def)

lemma port_notify_startup [simp]:
  "pe_pd_state (pd_port (pd_dpm_notify_pe_startup t)) = pe_pd_state (pd_port t)"
  "curr_is_vdm_evt (pd_port (pd_dpm_notify_pe_startup t)) = curr_is_vdm_evt (pd_port t)"
  by (simp_all add: pd_dpm_notify_pe_startup_def svdm_notify_pe_startup_def svdm_reset_state_def dpm_reaction_set_def upd_port_def)

lemma port_transit_state [simp]:
  "pe_pd_state (pd_port (PE_TRANSIT_STATE s t)) = pe_pd_state (pd_port t)"
  "curr_is_vdm_evt (pd_port (PE_TRANSIT_STATE s t)) = curr_is_vdm_evt (pd_port t)"
  "explicit_contract (pd_port (PE_TRANSIT_STATE s t)) = explicit_contract (pd_port t)"
  by (simp_all add: PE_TRANSIT_STATE_def upd_port_def)

lemma startup_keeps:
  assumes "pe_transit_startup_state t = (b, t')"
  shows "pe_pd_state (pd_port t') = pe_pd_state (pd_port t)" "curr_is_vdm_evt (pd_port t') = curr_is_vdm_evt (pd_port t)"
  using assms
  by (auto simp: pe_transit_startup_state_def pe_get_startup_state_def transit_def Let_def
      split: prod.split_asm if_split_asm option.split_asm)

lemma idle_event:
  assumes "pe_check_trap_in_idle_state t = (TII_TRAP_IN_IDLE, t')" "engine_ok (pd_port t)"
  shows "engine_ok (pd_port t')" "curr_is_vdm_evt (pd_port t') = curr_is_vdm_evt (pd_port t)"
proof -
  have "engine_ok (pd_port t') \<and> curr_is_vdm_evt (pd_port t') = curr_is_vdm_evt (pd_port t)"
  proof (cases "pe_pd_state (pd_port t) = PE_IDLE2")
    case True
    then obtain ok t1 where t1: "(if pd_event_msg_match (evt t) PD_EVT_HW_MSG PD_HW_CC_ATTACHED
        then pe_transit_startup_state t else (False, t)) = (ok, t1)" "\<not> ok"
      "t' = (if pd_event_msg_match (evt t) PD_EVT_HW_MSG PD_HW_CC_DETACHED then pd_notify_pe_idle t1 else t1)"
      using assms(1) by (auto simp: pe_check_trap_in_idle_state_def Let_def split: prod.split_asm if_split_asm)
    then have "pe_pd_state (pd_port t1) = PE_IDLE2 \<and> curr_is_vdm_evt (pd_port t1) = curr_is_vdm_evt (pd_port t)"
      using startup_keeps[of t ok t1] True by (auto split: if_split_asm)
    then have "pe_pd_state (pd_port t') = PE_IDLE2 \<and> curr_is_vdm_evt (pd_port t') = curr_is_vdm_evt (pd_port t)"
      using t1(3) by (simp add: pd_notify_pe_idle_def Let_def)
    then show ?thesis by (simp add: engine_ok_def role_defs)
  next
    case False
    then have "t' = pd_try_put_pe_idle_event t"
      using assms(1) by (auto simp: pe_check_trap_in_idle_state_def Let_def split: if_split_asm)
    then show ?thesis using assms(2) by (simp add: engine_ok_def)
  qed
  then show "engine_ok (pd_port t')" "curr_is_vdm_evt (pd_port t') = curr_is_vdm_evt (pd_port t)" by simp_all
qed

lemma ready_contract:
  assumes "s \<in> {PE_SNK_READY, PE_SRC_READY}" "(pe_state_actions env ! s) t = Inr t'"
  shows "explicit_contract (pd_port t')"
proof -
  have r: "explicit_contract (pd_port (upd_port (dpm_reaction_set b) t)) = explicit_contract (pd_port t)"
    "explicit_contract (pd_port (upd_port (dpm_reaction_clear b) t)) = explicit_contract (pd_port t)" for b t
    by (simp_all add: upd_port_def dpm_reaction_set_def dpm_reaction_clear_def)
  have "explicit_contract (pd_port (pe_power_ready_entry u))" for u
    by (simp add: pe_power_ready_entry_def pe30_power_ready_entry_def pe20_power_ready_entry_def r Let_def)
      (simp add: upd_port_def)
  then show ?thesis using assms
    by (auto simp: pe_state_actions_def ok_def pe_snk_ready_entry_def pe_src_ready_entry_def)
qed

lemma role_leave [role]: "pwr (leave_state t) = pwr t"
  by (simp add: leave_state_def pe_reset_vdm_state_variable_def role Let_def)

lemma enter_state_port:
  assumes "\<not> curr_is_vdm_evt (pd_port t)"
  shows "pwr (enter_state s t) = pwr t" "pe_pd_state (pd_port (enter_state s t)) = s"
    "explicit_contract (pd_port (enter_state s t)) = explicit_contract (pd_port t)"
  using assms by (simp_all add: enter_state_def role Let_def) (simp_all add: upd_port_def)

lemma change_state:
  assumes "role_next (power_role (pd_port t)) (next_state t)" "\<not> curr_is_vdm_evt (pd_port t)" "engine_ok (pd_port t)"
    and "pd_pe_state_change env t = Inr t'"
  shows "engine_ok (pd_port t') \<and> \<not> curr_is_vdm_evt (pd_port t')"
proof (cases "curr t < PD_NR_PE_STATES")
  case True
  let ?s = "next_state t"
  have s: "?s < PD_NR_PE_STATES" using assms(1) by (auto simp: role_defs)
  obtain t1 t2 where t1: "(if ?s < PE_IDLE1 then pe_get_exit_action env (curr t) (leave_state t) else Inr (leave_state t)) = Inr t1"
    and t2: "(pe_state_actions env ! ?s) t1 = Inr t2" and t': "t' = enter_state ?s t2"
    using assms(4) True s by (auto simp: pd_pe_state_change_def Let_def kbind_eq_Inr split: if_split_asm)
  have "pwr t1 = pwr t"
    using t1 exit_role[of env "curr t"] by (auto simp: sets_role_def role split: if_split_asm)
  then have r: "pwr t2 = (new_role ?s (power_role (pd_port t)), False)"
    using entry_role[OF s t2] assms(2) by (simp add: role_of_def)
  then have "\<not> curr_is_vdm_evt (pd_port t2)" by (simp add: role_of_def)
  from enter_state_port[OF this, of ?s] show ?thesis
    using assms(1) r ready_contract[OF _ t2] unfolding t'
    by (auto simp: engine_ok_def role_of_def new_role_def role_defs)
next
  case False
  then show ?thesis using assms(2-4) by (auto simp: pd_pe_state_change_def)
qed

lemma port_free_curr:
  "engine_ok (pd_port (free_curr_event t)) = engine_ok (pd_port t)"
  "curr_is_vdm_evt (pd_port (free_curr_event t)) = curr_is_vdm_evt (pd_port t)"
proof -
  have "pd_port (snd (pd_free_event (evt t) t)) = pd_port t" by (simp add: pd_free_event_def)
  then show "engine_ok (pd_port (free_curr_event t)) = engine_ok (pd_port t)"
    "curr_is_vdm_evt (pd_port (free_curr_event t)) = curr_is_vdm_evt (pd_port t)"
    by (simp_all add: free_curr_event_def engine_ok_def upd_port_def case_prod_beta Let_def)
qed

lemma choose_curr_pd:
  assumes "\<not> curr_is_vdm_evt (pd_port t)"
  shows "choose_curr_state t = upd_port (\<lambda>p. p\<lparr>pe_state_curr := pe_pd_state p\<rparr>) t"
  using assms by (simp add: choose_curr_state_def)

lemma event_processed:
  assumes "engine_ok (pd_port t)" "curr t = pe_pd_state (pd_port t)" "\<not> curr_is_vdm_evt (pd_port t)" "\<not> tcp_bist (evt t)"
    and "pd_process_event env t = Inr (ret, t1)"
  shows "engine_ok (pd_port t1)" "\<not> curr_is_vdm_evt (pd_port t1)"
    "ret \<Longrightarrow> role_next (power_role (pd_port t1)) (next_state t1)"
proof -
  obtain x t0 where tr: "pe_check_trap_in_idle_state t = (x, t0)" by fastforce
  have "engine_ok (pd_port t1) \<and> \<not> curr_is_vdm_evt (pd_port t1)"
    using tr
  proof (cases rule: trap_cases)
    case 1
    then show ?thesis using keeps_running[of t env] assms tr
      by (cases ret) (auto simp: keeps_res_def keeps_pair engine_ok_def pe_kept_def good_def pe_view_def)
  next
    case 2
    then show ?thesis using idle_event[of t t0] tr assms by (simp add: pd_process_event_def)
  next
    case 3
    then have "t0 = t1 \<and> (t0 = PE_TRANSIT_STATE PE_IDLE2 t \<or> t0 = PE_TRANSIT_STATE PE_IDLE1 t)"
      using assms(5) tr by (auto simp: pd_process_event_def pe_check_trap_in_idle_state_def Let_def split: if_split_asm)
    then show ?thesis using assms(1,3) by (auto simp: engine_ok_def)
  next
    case 4
    then show ?thesis using assms(3,5) tr startup_keeps[of t True t0]
      by (auto simp: pd_process_event_def engine_ok_def role_defs)
  qed
  then show "engine_ok (pd_port t1)" "\<not> curr_is_vdm_evt (pd_port t1)" by blast+
  show "ret \<Longrightarrow> role_next (power_role (pd_port t1)) (next_state t1)"
    using process_event_roles(1)[of t env t1] assms by (simp add: engine_ok_def)
qed

lemma handled_event:
  assumes "engine_ok (pd_port t)" "\<not> curr_is_vdm_evt (pd_port t)" "\<not> tcp_bist (evt t)" "pd_handle_event env t = Inr t'"
  shows "engine_ok (pd_port t')" "\<not> curr_is_vdm_evt (pd_port t')"
proof -
  let ?t = "upd_port (\<lambda>p. p\<lparr>pe_state_curr := pe_pd_state p\<rparr>) t"
  have t: "engine_ok (pd_port ?t)" "curr ?t = pe_pd_state (pd_port ?t)" "\<not> curr_is_vdm_evt (pd_port ?t)" "\<not> tcp_bist (evt ?t)"
    using assms(1-3) by (simp_all add: engine_ok_def upd_port_def)
  obtain ret t1 t2 where t1: "pd_process_event env ?t = Inr (ret, t1)"
    and t2: "(if ret then pd_pe_state_change env t1 else Inr t1) = Inr t2" "t' = free_curr_event t2"
    using assms(2,4) by (auto simp: pd_handle_event_def choose_curr_pd kbind_eq_Inr)
  note p = event_processed[OF t t1]
  have "engine_ok (pd_port t2) \<and> \<not> curr_is_vdm_evt (pd_port t2)"
    using t2(1) p change_state[OF p(3) p(2,1)] by (cases ret) auto
  then show "engine_ok (pd_port t')" "\<not> curr_is_vdm_evt (pd_port t')" by (simp_all add: t2(2) port_free_curr)
qed

section \<open>Reactions\<close>

lemma view_reaction_flags [view]:
  "pe_view (upd_port (dpm_reaction_set b) t) = pe_view t" "pe_view (upd_port (dpm_reaction_clear b) t) = pe_view t"
  by (simp_all add: pe_view_def pe_kept_def upd_port_def dpm_reaction_set_def dpm_reaction_clear_def)

lemma view_traffic [view]: "pe_view (pd_set_sink_tx n t) = pe_view t" "pe_view (clear_alert b t) = pe_view t"
  by (simp_all add: pe_view_def pe_kept_def upd_port_def upd_pe_def pd_set_sink_tx_def clear_alert_def Let_def)

lemma view_vconn [view]: "pe_view (pd_dpm_dynamic_disable_vconn env t) = pe_view t"
  "pe_view (pd_dpm_dynamic_enable_vconn env t) = pe_view t" "pe_view (dpm_check_vconn_highv_prot env t) = pe_view t"
  by (simp_all add: pd_dpm_dynamic_disable_vconn_def pd_dpm_dynamic_enable_vconn_def dpm_check_vconn_highv_prot_def view Let_def)
    (simp_all add: pe_view_def pe_kept_def upd_port_def)

lemma view_tcp_event [view]: "pe_view (upd_port (\<lambda>p. p\<lparr>tcp_event := f p\<rparr>) t) = pe_view t"
  "pe_view (upd_port (\<lambda>p. p\<lparr>curr_pd_event := g p\<rparr>) t) = pe_view t"
  "pe_view (upd_port (\<lambda>p. p\<lparr>pd_traffic_idle := b\<rparr>) t) = pe_view t"
  by (simp_all add: pe_view_def pe_kept_def upd_port_def)

lemma view_simple_reactions [view]:
  "pe_view (snd (dpm_reaction_send_alert t)) = pe_view t" "pe_view (snd (dpm_reaction_handle_alert t)) = pe_view t"
  "pe_view (snd (dpm_reaction_request_vconn_source t)) = pe_view t"
  "pe_view (snd (pd_dpm_reaction_discover_cable t)) = pe_view t"
  "pe_view (snd (dpm_reaction_update_pe_ready env t)) = pe_view t"
  by (auto simp: dpm_reaction_send_alert_def dpm_reaction_handle_alert_def dpm_reaction_alert_status_changed_def
      dpm_reaction_alert_battry_changed_def take_battery_def dpm_reaction_request_vconn_source_def
      pd_dpm_reaction_discover_cable_def pd_is_discover_cable_def dpm_reaction_update_pe_ready_def view Let_def
      split: option.splits prod.splits)

lemma view_reactions: "list_all (\<lambda>r. \<forall>t. pe_view (snd (handler r t)) = pe_view t) (dpm_reactions env)"
  by (simp add: dpm_reactions_def view)
    (simp add: dpm_reaction_ufp_flow_delay_def dpm_reaction_dfp_flow_delay_def dpm_reaction_vconn_stable_delay_def
      dpm_reaction_get_source_cap_ext_def dpm_reaction_get_sink_cap_def dpm_reaction_get_source_cap_def
      dpm_reaction_attemp_get_flag_def dpm_reaction_request_pr_swap_def dpm_reaction_request_dr_swap_def
      dpm_reaction_dynamic_vconn_def dpm_reaction_return_vconn_source_def dpm_reaction_discover_id_def
      dpm_reaction_discover_svid_def dpm_reaction_mode_operation_def view Let_def)

lemma view_reaction_loop:
  assumes "list_all (\<lambda>r. \<forall>t. pe_view (snd (handler r t)) = pe_view t) rs"
  shows "pe_view (snd (snd (reaction_loop c rs t))) = pe_view t"
  using assms
proof (induction rs arbitrary: t)
  case (Cons r rs)
  have "pe_view (snd (dpm_check_reaction_available c r t)) = pe_view t"
    using Cons.prems by (simp add: dpm_check_reaction_available_def view case_prod_beta Let_def)
  then show ?case using Cons by (simp add: dpm_check_clear_reaction_def view case_prod_beta Let_def)
qed simp

lemma view_ready_reaction: "pe_view (snd (pd_dpm_get_ready_reaction env t)) = pe_view t"
  using view_reaction_loop[OF view_reactions]
  by (simp add: pd_dpm_get_ready_reaction_def view case_prod_beta Let_def)

section \<open>Rounds of the engine\<close>

lemma view_get_event: "pe_view (snd (pd_get_event t)) = pe_view t"
  by (rule view_port) (simp add: pd_get_event_def pd_get_event_locked_def Let_def)

lemma view_no_vdm_event: "pd_try_get_vdm_event b t = (None, t') \<Longrightarrow> pe_view t' = pe_view t"
  by (auto simp: pd_try_get_vdm_event_def pd_get_vdm_event_def Let_def split: if_split_asm prod.split_asm)

lemma view_deferred: "pe_view (snd (pd_try_get_deferred_tcp_event t)) = pe_view t"
  by (simp add: pd_try_get_deferred_tcp_event_def pd_get_deferred_tcp_event_def pd_get_deferred_tcp_event_locked_def
      pe_view_def pe_kept_def upd_port_def case_prod_beta Let_def)

lemma view_tx_ready: "pe_view (snd (pd_check_tx_ready t)) = pe_view t"
  by (simp add: pd_check_tx_ready_def pd_check_pd30_tx_ready_def pd_check_source_tx_ok_def view Let_def)

lemma view_set_event [view]: "pe_view (set_curr_event e t) = pe_view t"
  by (simp add: set_curr_event_def view)

lemma view_active_event: "pe_view (snd (pd_try_get_active_event env t)) = pe_view t"
  using view_tx_ready[of t] view_ready_reaction[of env "snd (pd_check_tx_ready t)"]
    view_deferred[of "snd (pd_dpm_get_ready_reaction env (snd (pd_check_tx_ready t)))"]
  by (simp add: pd_try_get_active_event_def view case_prod_beta Let_def)

lemma view_next_event:
  assumes "pd_try_get_next_event env t = (r, t')" "r \<noteq> PE_NEW_EVT_VDM"
  shows "pe_view t' = pe_view t"
proof (cases "pd_get_event t")
  case (Pair x t1)
  have t1: "pe_view t1 = pe_view t" using view_get_event[of t] Pair by simp
  show ?thesis
  proof (cases x)
    case None
    then show ?thesis
      using assms t1 Pair view_active_event[of env] view_no_vdm_event[of "chip_rv env = 0 \<and> chip_id env = SC2150A_DID" t1]
      by (auto simp: pd_try_get_next_event_def split: prod.split_asm option.split_asm) (metis snd_conv)
  qed (use assms t1 Pair in \<open>auto simp: pd_try_get_next_event_def view\<close>)
qed

lemma engine_round:
  assumes "pd_try_get_next_event env t = (r, t1)" "r \<noteq> PE_NEW_EVT_VDM" "\<not> tcp_bist (evt t1)"
    and "pd_policy_engine_run env t = Inr (b, t')" "engine_ok (pd_port t)"
  shows "engine_ok (pd_port t')"
proof (cases "r = PE_NEW_EVT_NULL")
  case True
  then show ?thesis using assms view_kept[OF view_next_event[OF assms(1,2)]] view_fields(1)[OF view_next_event[OF assms(1,2)]]
    by (auto simp: pd_policy_engine_run_def engine_ok_def)
next
  case False
  define t2 where "t2 = upd_port (\<lambda>p. p\<lparr>curr_is_vdm_evt := False\<rparr>) t1"
  note v = view_next_event[OF assms(1,2)]
  have t2: "engine_ok (pd_port t2)" "\<not> curr_is_vdm_evt (pd_port t2)" "\<not> tcp_bist (evt t2)"
    using assms(3,5) view_kept[OF v] view_fields(1)[OF v] by (simp_all add: t2_def engine_ok_def upd_port_def)
  obtain t3 where t3: "pd_handle_event env t2 = Inr t3" "pd_handle_dpm_immediately env t3 = Inr t'"
    using assms(1,2,4) False by (auto simp: pd_policy_engine_run_def t2_def kbind_eq_Inr)
  note h = handled_event[OF t2 t3(1)]
  let ?ack = "upd_port (\<lambda>p. p\<lparr>curr_pd_event := (curr_pd_event p)\<lparr>event_type := PD_EVT_DPM_MSG, msg := PD_DPM_ACK\<rparr>\<rparr>) t3"
  have "engine_ok (pd_port ?ack)" "\<not> curr_is_vdm_evt (pd_port ?ack)" "\<not> tcp_bist (evt ?ack)"
    using h by (simp_all add: engine_ok_def upd_port_def tcp_bist_def)
  then show ?thesis
    using t3(2) h handled_event(1)[of ?ack env t'] by (auto simp: pd_handle_dpm_immediately_def Let_def split: if_split_asm)
qed

text \<open>
  Rounds of the engine, and between them anything that leaves the role, the state and the contract
  as they are: the other threads post events, timers fire, requests are queued.
\<close>

definition engine_part :: "pd_port \<Rightarrow> nat \<times> pe_state \<times> bool" where
  "engine_part p = (power_role p, pe_pd_state p, explicit_contract p)"

inductive engine_run :: "tcpc_device \<Rightarrow> tcpc_device \<Rightarrow> bool" for start where
  start: "engine_run start start"
| others: "engine_run start t \<Longrightarrow> engine_part (pd_port t') = engine_part (pd_port t) \<Longrightarrow> engine_run start t'"
| round: "engine_run start t \<Longrightarrow> pd_try_get_next_event env t = (r, t1) \<Longrightarrow> r \<noteq> PE_NEW_EVT_VDM \<Longrightarrow> \<not> tcp_bist (evt t1) \<Longrightarrow>
    pd_policy_engine_run env t = Inr (b, t') \<Longrightarrow> engine_run start t'"

text \<open>
  C14. Whatever happens after a port was idle, the state of the engine belongs to the power role
  of the port, and there is a contract whenever the engine is ready: over all rounds of the
  engine with the actions of the states they leave and enter, and all requests, messages, timers
  and swaps. Left out are the rounds that process a vendor message (they have a state of their
  own) and the request of a carrier mode test (it does not choose the state).
\<close>

theorem engine_invariant:
  assumes "engine_run start t" "pe_pd_state (pd_port start) = PE_IDLE2"
  shows "role_state (power_role (pd_port t)) (pe_pd_state (pd_port t)) \<and>
    (pe_pd_state (pd_port t) \<in> {PE_SNK_READY, PE_SRC_READY} \<longrightarrow> explicit_contract (pd_port t))"
proof -
  have "engine_ok (pd_port t)"
    using assms(1)
  proof (induction rule: engine_run.induct)
    case start
    then show ?case using assms(2) by (simp add: engine_ok_def role_defs)
  next
    case (others t t')
    then show ?case by (simp add: engine_ok_def engine_part_def)
  next
    case (round t env r t1 b t')
    then show ?case by (blast intro: engine_round)
  qed
  then show ?thesis by (simp add: engine_ok_def)
qed

definition idle_port :: tcpc_device where
  "idle_port = snd (pd_put_cc_attached_event TYPEC_ATTACHED_SNK
     (upd_port (\<lambda>p. p\<lparr>pe_pd_state := PE_IDLE2\<rparr>) zero_tcpc))"

definition attached_port :: tcpc_device where
  "attached_port = (case pd_policy_engine_run chip0 idle_port of Inr (b, t) \<Rightarrow> t | Inl e \<Rightarrow> zero_tcpc)"

theorem engine_invariant_witness:
  "engine_run idle_port attached_port \<and> pe_pd_state (pd_port idle_port) = PE_IDLE2 \<and>
   pe_pd_state (pd_port attached_port) = PE_SNK_STARTUP \<and> power_role (pd_port attached_port) = PD_ROLE_SINK \<and>
   role_state (power_role (pd_port attached_port)) (pe_pd_state (pd_port attached_port))"
proof -
  have e: "pe_pd_state (pd_port idle_port) = PE_IDLE2 \<and> fst (pd_try_get_next_event chip0 idle_port) = PE_NEW_EVT_PD \<and>
    \<not> tcp_bist (evt (snd (pd_try_get_next_event chip0 idle_port))) \<and>
    map_sum id fst (pd_policy_engine_run chip0 idle_port) = Inr True \<and>
    pe_pd_state (pd_port attached_port) = PE_SNK_STARTUP \<and> power_role (pd_port attached_port) = PD_ROLE_SINK"
    by code_simp
  then obtain b where "pd_policy_engine_run chip0 idle_port = Inr (b, attached_port)"
    unfolding attached_port_def by (cases "pd_policy_engine_run chip0 idle_port") auto
  moreover obtain t1 where n: "pd_try_get_next_event chip0 idle_port = (PE_NEW_EVT_PD, t1)" "\<not> tcp_bist (evt t1)"
    using e by (cases "pd_try_get_next_event chip0 idle_port") simp
  ultimately have "engine_run idle_port attached_port"
    using engine_run.round[OF engine_run.start n(1) _ n(2)] by simp
  then show ?thesis using engine_invariant[of idle_port attached_port] e by simp
qed
end
