(* ===== verification/Pe_Recover.thy ===== *)
theory Pe_Recover
  imports Pe_Discipline
begin

unbundle bit_operations_syntax

text \<open>
  Resets, repeated messages and the change of power at a sink: what \<open>pd_process_event\<close> does
  with them, whatever else is going on.
\<close>

section \<open>Resets\<close>

abbreviation engine_runs :: "tcpc_device \<Rightarrow> bool" where
  "engine_runs t \<equiv> pe_pd_state (pd_port t) \<notin> {PE_IDLE1, PE_IDLE2, PE_ERROR_RECOVERY}"

lemma match_iff: "pd_event_msg_match e ty m \<longleftrightarrow> event_type e = ty \<and> msg e = m"
  by (simp add: pd_event_msg_match_def)

lemma running_not_trapped:
  assumes "engine_runs t" "\<not> pd_event_msg_match (evt t) PD_EVT_HW_MSG PD_HW_CC_DETACHED"
  shows "pe_check_trap_in_idle_state t = (TII_PE_RUNNING, t)"
  using assms by (simp add: pe_check_trap_in_idle_state_def Let_def)

lemma process_running:
  assumes "engine_runs t" "\<not> pd_event_msg_match (evt t) PD_EVT_HW_MSG PD_HW_CC_DETACHED"
    and "PD_EVT_PD_MSG_END \<le> event_type (evt t)"
  shows "pd_process_event env t = pe_handle env (pe_init_curr_state t)"
  using assms(3) running_not_trapped[OF assms(1,2)]
  by (simp add: pd_process_event_def Let_def init_curr_state_frame)

lemma process_recv_hard_reset:
  assumes "\<not> curr_is_vdm_evt (pd_port t)" "engine_runs t" "pd_event_msg_match (evt t) PD_EVT_HW_MSG PD_HW_RECV_HARD_RESET"
  obtains t' where "pd_process_event env t = Inr (True, t')" "power_role (pd_port t') = power_role (pd_port t)"
    "next_state t' = (if power_role (pd_port t) = PD_ROLE_SINK then PE_SNK_TRANSITION_TO_DEFAULT else PE_SRC_HARD_RESET_RECEIVED)"
    "curr t' = curr t" "evt t' = evt t" "\<not> curr_is_vdm_evt (pd_port t')"
proof -
  define t1 where "t1 = pd_copy_msg_data None 0 0 (pe_init_curr_state t)"
  have t1: "evt t1 = evt t" "curr_is_vdm_evt (pd_port t1) = curr_is_vdm_evt (pd_port t)"
    "power_role (pd_port t1) = power_role (pd_port t)" "curr t1 = curr t"
    by (simp_all add: t1_def pd_copy_msg_data_def pe_init_curr_state_def upd_port_def)
  have "pd_process_event env t = pe_dispatch env t1"
    using assms(2,3) by (subst process_running)
      (simp_all add: match_iff pe_handle_def pd_copy_msg_data_from_evt_def t1_def init_curr_state_frame Let_def)
  also have "\<dots> = Inr (pd_process_recv_hard_reset t1)"
    using assms t1 by (simp add: pe_dispatch_def pd_process_event_com_def pd_process_hw_msg_com_def
      match_iff Let_def) (simp add: pd_process_recv_hard_reset_def Let_def)
  finally show thesis
    using t1 assms(1) by (intro that[of "snd (pd_process_recv_hard_reset t1)"])
      (simp_all add: pd_process_recv_hard_reset_def pe_transit_hard_reset_recv_state_def
        pd_get_curr_hard_reset_recv_state_def PE_TRANSIT_STATE_def upd_pe_def upd_port_def Let_def)
qed

text \<open>
  C19. Detaching and a received hard reset are obeyed in every state. In any state in which the
  engine runs, the detach event leads to the first idle state, and a received hard reset leads a
  sink to its default levels and a source to the reset of its supply, in both cases with the power
  role unchanged; in a state that waits for the end of a transmission, the idle event leads to the second idle state.
\<close>

theorem resets_are_obeyed:
  assumes "\<not> curr_is_vdm_evt (pd_port t)"
  shows "(engine_runs t \<and> pd_event_msg_match (evt t) PD_EVT_HW_MSG PD_HW_CC_DETACHED \<longrightarrow>
      pd_process_event env t = Inr (True, PE_TRANSIT_STATE PE_IDLE1 t)) \<and>
    (pe_pd_state (pd_port t) \<in> {PE_IDLE1, PE_ERROR_RECOVERY} \<and> pd_event_msg_match (evt t) PD_EVT_PE_MSG PD_PE_IDLE \<longrightarrow>
      pd_process_event env t = Inr (True, PE_TRANSIT_STATE PE_IDLE2 t)) \<and>
    (engine_runs t \<and> pd_event_msg_match (evt t) PD_EVT_HW_MSG PD_HW_RECV_HARD_RESET \<longrightarrow>
      (\<exists>t'. pd_process_event env t = Inr (True, t') \<and> power_role (pd_port t') = power_role (pd_port t) \<and>
        next_state t' = (if power_role (pd_port t) = PD_ROLE_SINK then PE_SNK_TRANSITION_TO_DEFAULT
                         else PE_SRC_HARD_RESET_RECEIVED)))"
proof -
  have "\<exists>t'. pd_process_event env t = Inr (True, t') \<and> power_role (pd_port t') = power_role (pd_port t) \<and>
        next_state t' = (if power_role (pd_port t) = PD_ROLE_SINK then PE_SNK_TRANSITION_TO_DEFAULT
                         else PE_SRC_HARD_RESET_RECEIVED)"
    if "engine_runs t" "pd_event_msg_match (evt t) PD_EVT_HW_MSG PD_HW_RECV_HARD_RESET"
    using process_recv_hard_reset[OF assms that, of env] by blast
  then show ?thesis
    by (auto simp: pd_process_event_def pe_check_trap_in_idle_state_def Let_def)
qed

theorem resets_are_obeyed_witness:
  "\<exists>t'. pd_process_event chip0 sink_hard_reset = Inr (True, t') \<and>
     next_state t' = PE_SNK_TRANSITION_TO_DEFAULT"
proof -
  have "\<not> curr_is_vdm_evt (pd_port sink_hard_reset)" "engine_runs sink_hard_reset"
    "pd_event_msg_match (evt sink_hard_reset) PD_EVT_HW_MSG PD_HW_RECV_HARD_RESET"
    "power_role (pd_port sink_hard_reset) = PD_ROLE_SINK"
    by (simp_all add: sink_hard_reset_def zero_tcpc_def zero_port_def upd_port_def simple_evt_def match_iff)
  then show ?thesis
    using resets_are_obeyed[of sink_hard_reset chip0] by auto
qed

section \<open>Repeated messages\<close>

text \<open>The device when the header of a received message has been translated.\<close>

definition translated :: "nat \<Rightarrow> tcpc_device \<Rightarrow> tcpc_device" where
  "translated m t = pe_translate_pd_msg_event (pd_msg_buffer t ! m) (pe_init_curr_state t)"

lemma translated_frame:
  "pd_msg (evt (translated m t)) = pd_msg (evt t)" "msg_id_rx (pd_port (translated m t)) = msg_id_rx (pd_port t)"
  "curr (translated m t) = curr t" "curr_msg_hdr (pd_port (translated m t)) = msg_hdr (pd_msg_buffer t ! m)"
  "msg (evt (translated m t)) = PD_HEADER_TYPE (msg_hdr (pd_msg_buffer t ! m))"
  "event_type (evt (translated m t)) = (if PD_HEADER_EXT (msg_hdr (pd_msg_buffer t ! m)) \<noteq> 0 then PD_EVT_EXT_MSG
     else if PD_HEADER_CNT (msg_hdr (pd_msg_buffer t ! m)) \<noteq> 0 then PD_EVT_DATA_MSG else PD_EVT_CTRL_MSG)"
  "pd_msg_buffer (translated m t) = pd_msg_buffer t" "data_role (pd_port (translated m t)) = data_role (pd_port t)"
  "msg_id_pr_swap_last (pd_port (translated m t)) = msg_id_pr_swap_last (pd_port t)"
  "power_role (pd_port (translated m t)) = power_role (pd_port t)" "pe_data (pd_port (translated m t)) =
     (if frame_type (pd_msg_buffer t ! m) = TCPC_TX_SOP_PRIME then (pe_data (pd_port t))\<lparr>cable_rev_discovered := True\<rparr>
      else pe_data (pd_port t))"
  by (simp_all add: translated_def pe_translate_pd_msg_event_def pe_init_curr_state_def upd_port_def
      pd_sync_sop_prime_spec_revision_def Let_def)

lemma process_received:
  assumes "engine_runs t" "event_type (evt t) = PD_EVT_PD_MSG" "pd_msg (evt t) = Some m"
  shows "pd_process_event env t = pe_check_pd_msg env (pd_msg_buffer t ! m) (translated m t)"
proof -
  have "pe_check_trap_in_idle_state t = (TII_PE_RUNNING, t)"
    using assms by (intro running_not_trapped) (simp_all add: match_iff)
  then show ?thesis
    using assms(2,3) translated_frame(6)[of m t]
    by (simp add: pd_process_event_def Let_def init_curr_state_frame)
      (simp add: translated_def[symmetric] translated_frame init_curr_state_frame)
qed

abbreviation hdr_id :: "16 word \<Rightarrow> nat" where
  "hdr_id h \<equiv> unat (drop_bit 9 h AND 7)"

abbreviation is_ctrl :: "16 word \<Rightarrow> nat \<Rightarrow> bool" where
  "is_ctrl h ty \<equiv> PD_HEADER_EXT h = 0 \<and> PD_HEADER_CNT h = 0 \<and> PD_HEADER_TYPE h = ty"

lemma valid_id_repeated:
  assumes "frame_type (pd_msg_buffer t ! m) < length (msg_id_rx (pd_port t))"
    and "h = msg_hdr (pd_msg_buffer t ! m)" "\<not> is_ctrl h PD_CTRL_GOOD_CRC"
    and "if is_ctrl h PD_CTRL_SOFT_RESET then hdr_id h \<noteq> 0
         else msg_id_rx (pd_port t) ! frame_type (pd_msg_buffer t ! m) = hdr_id h"
  shows "pe_is_valid_pd_msg_id (pd_msg_buffer t ! m) (translated m t) = Inr (False, translated m t)"
  using assms(1,3,4) unfolding assms(2) pe_is_valid_pd_msg_id_def Let_def pd_get_msg_hdr_id_def
  by (simp add: translated_frame split: if_split_asm) auto

text \<open>
  C20. A repeated message has no effect. In a running engine, a received message with the number
  of the last one of its kind of packet, or a soft reset with a number other than zero, leaves the
  device as it is after the decoding of its header: no state change, no event, no other message.
\<close>

theorem repeated_message_dropped:
  assumes "engine_runs t" "event_type (evt t) = PD_EVT_PD_MSG" "pd_msg (evt t) = Some m"
    and "frame_type (pd_msg_buffer t ! m) < length (msg_id_rx (pd_port t))"
    and "h = msg_hdr (pd_msg_buffer t ! m)" "\<not> is_ctrl h PD_CTRL_GOOD_CRC"
    and "if is_ctrl h PD_CTRL_SOFT_RESET then hdr_id h \<noteq> 0
         else msg_id_rx (pd_port t) ! frame_type (pd_msg_buffer t ! m) = hdr_id h"
  shows "pd_process_event env t = Inr (False, translated m t)"
  using process_received[OF assms(1-3)] valid_id_repeated[OF assms(4-7)] by (simp add: pe_check_pd_msg_def)

definition sink_message :: "16 word \<Rightarrow> nat \<Rightarrow> pe_state \<Rightarrow> tcpc_device" where
  "sink_message h n s = upd_port (\<lambda>p. p\<lparr>pe_pd_state := s, pe_state_curr := s, msg_id_rx := [n, 0, 0],
     curr_pd_event := (simple_evt PD_EVT_PD_MSG 0 0)\<lparr>pd_msg := Some 0\<rparr>\<rparr>)
     (zero_tcpc\<lparr>pd_msg_buffer := (pd_msg_buffer zero_tcpc)[0 := zero_msg\<lparr>msg_hdr := h\<rparr>]\<rparr>)"

text \<open>A second PS_RDY with the number 3.\<close>

theorem repeated_message_dropped_witness:
  "pd_process_event chip0 (sink_message 0x0766 3 PE_SNK_TRANSITION_SINK) =
     Inr (False, translated 0 (sink_message 0x0766 3 PE_SNK_TRANSITION_SINK))"
  by (rule repeated_message_dropped[OF _ _ _ _ refl]) code_simp+

section \<open>Change of power at a sink\<close>

text \<open>A sink between the acceptance of its request and the end of the change of power.\<close>

definition power_change :: "tcpc_device \<Rightarrow> bool" where
  "power_change t \<longleftrightarrow> curr t = PE_SNK_TRANSITION_SINK \<and> power_role (pd_port t) = PD_ROLE_SINK \<and>
     pe_state_flags (pe_data (pd_port t)) = 0 \<and> \<not> modal_operation (pe_data (pd_port t)) \<and>
     \<not> during_swap (pd_port t) \<and> \<not> pd_wait_hard_reset_complete t"

definition change_ready :: "tcpc_device \<Rightarrow> bool" where
  "change_ready t \<longleftrightarrow> power_change t \<and> curr_ready_state (pd_port t) = PE_SNK_READY \<and>
     curr_hreset_state (pd_port t) = PE_SNK_HARD_RESET"

lemma change_results [simp]:
  "change_ready (pd_notify_tcp_event_2nd_result n t) = change_ready t"
  "change_ready (set_msg m t) = change_ready t" "change_ready (set_unsupported t) = change_ready t"
  "change_ready (pd_cancel_dpm_reaction t) = change_ready t"
  by (simp_all add: change_ready_def power_change_def)
    (simp_all add: pd_notify_tcp_event_2nd_result_def set_msg_def set_unsupported_def pd_cancel_dpm_reaction_def
      dpm_reaction_clear_def upd_port_def act_def call_event_cb_def Let_def)

lemma change_put_pe:
  assumes "change_ready t"
  obtains b t' where "vdm_put_pe_event m t = Inr (b, t')" "change_ready t'" "pd_port t' = pd_port t"
proof -
  obtain b t' where p: "vdm_put_pe_event m t = Inr (b, t')" "pd_port t' = pd_port t" by (rule put_pe_event)
  have "pd_wait_hard_reset_complete t' = pd_wait_hard_reset_complete t"
    using p(1) by (auto simp: vdm_put_pe_event_def pd_put_vdm_event_def vdm_accept_def simple_evt_def pd_free_event_locked_def
        Let_def split: if_split_asm)
  with p assms that show thesis by (simp add: change_ready_def power_change_def)
qed

lemma change_error:
  assumes "change_ready t" "\<not> pd_event_msg_match (evt t) PD_EVT_CTRL_MSG PD_CTRL_PING"
  shows "pd_process_protocol_error t = (True, PE_TRANSIT_STATE PE_SNK_HARD_RESET t)"
  using assms by (simp add: pd_process_protocol_error_def change_ready_def power_change_def Let_def
      pe_transit_hard_reset_state_def)

lemma event_frame [simp]:
  "evt (pd_notify_tcp_event_2nd_result n t) = evt t" "evt (pd_cancel_dpm_reaction t) = evt t"
  "state_machine (pd_port (pd_notify_tcp_event_2nd_result n t)) = state_machine (pd_port t)"
  "state_machine (pd_port (pd_cancel_dpm_reaction t)) = state_machine (pd_port t)"
  by (simp_all add: pd_notify_tcp_event_2nd_result_def pd_cancel_dpm_reaction_def dpm_reaction_clear_def upd_port_def Let_def)

lemma change_com_cases:
  assumes "change_ready t" "msg (evt t) \<notin> {PD_CTRL_GOOD_CRC, PD_CTRL_SOFT_RESET, PD_CTRL_PR_SWAP}"
    and "vdm_put_pe_event PD_PE_VDM_NOT_SUPPORT
      (pd_notify_tcp_event_2nd_result TCP_DPM_RET_NOT_SUPPORT (pd_cancel_dpm_reaction t)) = Inr (b, t1)"
  shows "pd_process_ctrl_msg_com t =
    (let m = msg (evt t) in
     Inr (False, if \<not> pd_check_rev30 (pd_port t) \<and> m \<ge> PD_CTRL_PD30_START then set_msg PD_CTRL_MSG_NR t
      else if m = PD_CTRL_REJECT then pd_notify_tcp_event_2nd_result TCP_DPM_RET_REJECT t
      else if m = PD_CTRL_WAIT then pd_notify_tcp_event_2nd_result TCP_DPM_RET_WAIT t
      else if m = PD_CTRL_NOT_SUPPORTED
      then if vdm_state_timer (pd_port (pd_notify_tcp_event_2nd_result TCP_DPM_RET_NOT_SUPPORT (pd_cancel_dpm_reaction t))) \<noteq> 0
           then t1 else pd_notify_tcp_event_2nd_result TCP_DPM_RET_NOT_SUPPORT (pd_cancel_dpm_reaction t)
      else t))"
proof -
  have flags: "pe_state_flags (pe_data (pd_port t)) = 0" "curr t = PE_SNK_TRANSITION_SINK"
    "curr_ready_state (pd_port t) = PE_SNK_READY" "\<not> modal_operation (pe_data (pd_port t))"
    using assms(1) by (simp_all add: change_ready_def power_change_def)
  then show ?thesis
    using assms(2,3)
    by (simp add: pd_process_ctrl_msg_com_def Let_def pd_process_ctrl_msg_dr_swap_def pd_process_ctrl_msg_vconn_swap_def
        pd_make_pe_state_transit_single_def pd_check_pe_state_ready_def)
qed

lemma change_com:
  assumes "change_ready t" "msg (evt t) \<notin> {PD_CTRL_GOOD_CRC, PD_CTRL_SOFT_RESET, PD_CTRL_PR_SWAP}"
  obtains t' where "pd_process_ctrl_msg_com t = Inr (False, t')" "change_ready t'"
    "event_type (evt t') = event_type (evt t)" "state_machine (pd_port t') = state_machine (pd_port t)"
    "msg (evt t') = msg (evt t) \<or> PD_CTRL_NOT_SUPPORTED \<le> msg (evt t) \<and> msg (evt t') = PD_CTRL_MSG_NR"
proof -
  let ?ns = "pd_notify_tcp_event_2nd_result TCP_DPM_RET_NOT_SUPPORT (pd_cancel_dpm_reaction t)"
  have "change_ready ?ns" using assms(1) by simp
  then obtain b t1 where p: "vdm_put_pe_event PD_PE_VDM_NOT_SUPPORT ?ns = Inr (b, t1)" "change_ready t1"
    "pd_port t1 = pd_port ?ns"
    by (rule change_put_pe)
  have "evt (set_msg n t) = (evt t)\<lparr>msg := n\<rparr>" "state_machine (pd_port (set_msg n t)) = state_machine (pd_port t)" for n
    by (simp_all add: set_msg_def upd_port_def)
  with p assms show thesis
    by (intro that[OF change_com_cases[OF assms p(1), unfolded Let_def]]) simp_all
qed

definition change_next :: "nat \<Rightarrow> pd_port \<Rightarrow> pe_state" where
  "change_next ty p =
     (if ty = PD_CTRL_PS_RDY then PE_SNK_READY
      else if ty = PD_CTRL_SOFT_RESET then PE_SNK_SOFT_RESET
      else if ty = PD_CTRL_PR_SWAP then if pd_evaluate_reject_pr_swap p then PE_REJECT else PE_PRS_SNK_SRC_EVALUATE_PR_SWAP
      else PE_SNK_HARD_RESET)"

lemma change_snk:
  assumes "change_ready t" "event_type (evt t) = PD_EVT_CTRL_MSG" "msg (evt t) \<notin> {PD_CTRL_GOOD_CRC, PD_CTRL_PING}"
  shows "\<exists>t'. pd_process_ctrl_msg_snk t = (True, t') \<and>
    next_state t' = (if msg (evt t) = PD_CTRL_PS_RDY then PE_SNK_READY else PE_SNK_HARD_RESET)"
proof -
  have c: "curr t = PE_SNK_TRANSITION_SINK" using assms(1) by (simp add: change_ready_def power_change_def)
  have u: "evt (set_unsupported t) = evt t" by (simp add: set_unsupported_def upd_port_def)
  have e: "pd_process_protocol_error t = (True, PE_TRANSIT_STATE PE_SNK_HARD_RESET t)"
    "pd_process_protocol_error (set_unsupported t) = (True, PE_TRANSIT_STATE PE_SNK_HARD_RESET (set_unsupported t))"
    using assms u by (intro change_error; simp add: match_iff)+
  then show ?thesis
    using c assms(3)
    by (simp add: pd_process_ctrl_msg_snk_def partner_first_snk_def Let_def or_else_def transit_def
        pd_make_pe_state_transit_single_def pd_make_pe_state_transit_def PD_CTRL_MSG_ACCEPT_snk_def
        pd_process_ctrl_msg_get_source_cap_def)
qed

lemma change_dispatch:
  assumes "change_ready t" "event_type (evt t) = PD_EVT_CTRL_MSG" "msg (evt t) \<notin> {PD_CTRL_GOOD_CRC, PD_CTRL_PING}"
    and "\<not> curr_is_vdm_evt (pd_port t)" "state_machine (pd_port t) = PE_STATE_MACHINE_NORMAL"
    and "pd_msg (evt t) = Some m" "frame_type (pd_msg_buffer t ! m) = TCPC_TX_SOP"
  shows "\<exists>t'. pe_dispatch env t = Inr (True, t') \<and> next_state t' = change_next (msg (evt t)) (pd_port t)"
proof -
  have d: "pe_dispatch env t = kbind (pd_process_ctrl_msg_com t) (\<lambda>(ret, t). if ret then Inr (True, t)
      else let sm = state_machine (pd_port t);
               (ret, t) = (if sm = PE_STATE_MACHINE_DR_SWAP then pd_process_event_drs t
                           else if sm = PE_STATE_MACHINE_PR_SWAP then pd_process_event_prs t
                           else if sm = PE_STATE_MACHINE_VCONN_SWAP then pd_process_event_vcs t else (False, t))
           in if ret then Inr (True, t) else if power_role (pd_port t) = PD_ROLE_SINK then pd_process_event_snk t
              else pd_process_event_src t)"
    using assms(2,4,6,7) by (simp add: pe_dispatch_def pd_process_event_com_def Let_def[of "curr_pd_event _"] Let_def[of "event_type _"]
        Let_def[of "\<lambda>t. if _ t then _ t else _ t"])
  have r: "power_role (pd_port t) = PD_ROLE_SINK" "\<not> during_swap (pd_port t)" "\<not> pd_wait_hard_reset_complete t"
    using assms(1) by (simp_all add: change_ready_def power_change_def)
  show ?thesis
  proof (cases "msg (evt t) \<in> {PD_CTRL_SOFT_RESET, PD_CTRL_PR_SWAP}")
    case True
    define t1 where "t1 = upd_port (\<lambda>p. p\<lparr>during_swap := False, state_machine := PE_STATE_MACHINE_PR_SWAP\<rparr>) t"
    have "power_role (pd_port t1) = 0" using r by (simp add: upd_port_def t1_def)
    then have n: "next_state (pe_transit_evaluate_pr_swap_state t1) = PE_PRS_SNK_SRC_EVALUATE_PR_SWAP"
      "next_state (pe_transit_soft_reset_recv_state t) = PE_SNK_SOFT_RESET"
      using r(1) by (simp_all add: pe_transit_evaluate_pr_swap_state_def pe_get_curr_evaluate_pr_swap_state_def
          pe_transit_soft_reset_recv_state_def pd_get_curr_soft_reset_recv_state_def)
    have "pd_process_ctrl_msg_com t = Inr (if msg (evt t) = PD_CTRL_SOFT_RESET then (True, pe_transit_soft_reset_recv_state t)
        else if pd_evaluate_reject_pr_swap (pd_port t) then (True, PE_TRANSIT_STATE PE_REJECT t)
        else (True, pe_transit_evaluate_pr_swap_state t1))"
      using True r(2,3) unfolding t1_def
      by (cases "msg (evt t) = PD_CTRL_SOFT_RESET")
        (simp_all add: pd_process_ctrl_msg_com_def Let_def pd_process_ctrl_msg_pr_swap_def transit_def)
    then show ?thesis using True n by (simp add: d change_next_def) blast
  next
    case False
    obtain t1 where c: "pd_process_ctrl_msg_com t = Inr (False, t1)" "change_ready t1"
      "event_type (evt t1) = event_type (evt t)" "state_machine (pd_port t1) = state_machine (pd_port t)"
      "msg (evt t1) = msg (evt t) \<or> PD_CTRL_NOT_SUPPORTED \<le> msg (evt t) \<and> msg (evt t1) = PD_CTRL_MSG_NR"
      using change_com[of t] assms(1,3) False by blast
    obtain t2 where s: "pd_process_ctrl_msg_snk t1 = (True, t2)"
      "next_state t2 = (if msg (evt t1) = PD_CTRL_PS_RDY then PE_SNK_READY else PE_SNK_HARD_RESET)"
      using change_snk[of t1] c assms(2,3) by auto
    have r1: "power_role (pd_port t1) = 0" using c(2) by (simp add: change_ready_def power_change_def)
    show ?thesis
      unfolding d c(1) using r1 c(3,4,5) assms(2,5) s False
      by (auto simp: pd_process_event_snk_def Let_def change_next_def)
  qed
qed

lemma change_ping:
  assumes "change_ready t" "event_type (evt t) = PD_EVT_CTRL_MSG" "msg (evt t) = PD_CTRL_PING"
    and "\<not> curr_is_vdm_evt (pd_port t)" "state_machine (pd_port t) = PE_STATE_MACHINE_NORMAL"
    and "pd_msg (evt t) = Some m" "frame_type (pd_msg_buffer t ! m) = TCPC_TX_SOP"
  shows "\<exists>t'. pe_dispatch env t = Inr (False, t') \<and> pe_pd_state (pd_port t') = pe_pd_state (pd_port t)"
proof -
  have c: "curr t = PE_SNK_TRANSITION_SINK" "pe_state_flags (pe_data (pd_port t)) = 0" "power_role (pd_port t) = PD_ROLE_SINK"
      "\<not> pd_wait_hard_reset_complete t"
    using assms(1) by (simp_all add: change_ready_def power_change_def)
  have com: "pd_process_ctrl_msg_com t = Inr (False, t)" using assms(3) by (simp add: pd_process_ctrl_msg_com_def Let_def)
  show ?thesis
    using assms(2-7) c com
    by (simp add: pe_dispatch_def pd_process_event_com_def pd_process_event_snk_def pd_process_ctrl_msg_snk_def
      partner_first_snk_def pd_process_protocol_error_def set_unsupported_def upd_port_def match_iff Let_def)
qed
lemma valid_id_fresh:
  assumes "frame_type (pd_msg_buffer t ! m) < length (msg_id_rx (pd_port t))" "curr t \<noteq> PE_BIST_TEST_DATA"
    and "h = msg_hdr (pd_msg_buffer t ! m)"
    and "if is_ctrl h PD_CTRL_SOFT_RESET then hdr_id h = 0
         else msg_id_rx (pd_port t) ! frame_type (pd_msg_buffer t ! m) \<noteq> hdr_id h \<and>
              \<not> (is_ctrl h PD_CTRL_PS_RDY \<and> msg_id_pr_swap_last (pd_port t) = hdr_id h)"
  shows "\<exists>f. pe_is_valid_pd_msg_id (pd_msg_buffer t ! m) (translated m t) =
    Inr (True, upd_port (\<lambda>p. p\<lparr>miss_msg := fst (f p), msg_id_rx := snd (f p)\<rparr>) (translated m t))"
proof -
  let ?u = "translated m t"
  have "pe_is_valid_pd_msg_id (pd_msg_buffer t ! m) ?u = Inr (True, ?u) \<or>
    pe_is_valid_pd_msg_id (pd_msg_buffer t ! m) ?u = Inr (True, upd_port (\<lambda>p. p\<lparr>miss_msg := (miss_msg p \<or>
        (msg_id_rx p ! frame_type (pd_msg_buffer t ! m) + 2) mod PD_MSG_ID_MAX = hdr_id h),
      msg_id_rx := (msg_id_rx p)[frame_type (pd_msg_buffer t ! m) := hdr_id h]\<rparr>) ?u)"
    using assms(1,2,4) unfolding assms(3) pe_is_valid_pd_msg_id_def Let_def pd_get_msg_hdr_id_def
    by (simp add: translated_frame split: if_split_asm) auto
  then show ?thesis
  proof
    assume "pe_is_valid_pd_msg_id (pd_msg_buffer t ! m) ?u = Inr (True, ?u)"
    moreover have "upd_port (\<lambda>p. p\<lparr>miss_msg := miss_msg p, msg_id_rx := msg_id_rx p\<rparr>) ?u = ?u" by (simp add: upd_port_def)
    ultimately show ?thesis by (intro exI[of _ "\<lambda>p. (miss_msg p, msg_id_rx p)"]) simp
  qed (rule exI[of _ "\<lambda>p. (miss_msg p \<or> (msg_id_rx p ! frame_type (pd_msg_buffer t ! m) + 2) mod PD_MSG_ID_MAX = hdr_id h,
      (msg_id_rx p)[frame_type (pd_msg_buffer t ! m) := hdr_id h])"], simp)
qed

lemma change_prepared:
  fixes t m f
  defines "t1 \<equiv> upd_port (\<lambda>p. p\<lparr>miss_msg := fst (f p), msg_id_rx := snd (f p)\<rparr>) (translated m t)"
  defines "t2 \<equiv> pd_copy_msg_data None 0 0 t1"
  assumes "power_change t" "frame_type (pd_msg_buffer t ! m) = TCPC_TX_SOP"
    and "is_ctrl (msg_hdr (pd_msg_buffer t ! m)) ty"
  shows "change_ready t2" "event_type (evt t2) = PD_EVT_CTRL_MSG" "msg (evt t2) = ty" "event_type (evt t1) = PD_EVT_CTRL_MSG"
    "curr_is_vdm_evt (pd_port t2) = curr_is_vdm_evt (pd_port t)" "state_machine (pd_port t2) = state_machine (pd_port t)"
    "pd_msg (evt t2) = pd_msg (evt t)" "pd_msg_buffer t2 = pd_msg_buffer t" "data_role (pd_port t1) = data_role (pd_port t)"
    "pe_pd_state (pd_port t2) = pe_pd_state (pd_port t)"
    "pd_evaluate_reject_pr_swap (pd_port t2) = pd_evaluate_reject_pr_swap (pd_port t)"
  using assms(3-5) unfolding t1_def t2_def
  by (simp_all add: change_ready_def power_change_def pd_copy_msg_data_def translated_def pe_translate_pd_msg_event_def
      pe_init_curr_state_def upd_port_def pd_evaluate_reject_pr_swap_def Let_def)

text \<open>
  C18. What a control message of the partner does while a sink changes its power, for a message
  of the packet type SOP other than GoodCRC that is new (its number is not that of the last
  message nor, for PS_RDY, the one kept from a power role swap, and a soft reset has the number
  0), comes from the opposite data role, and on a chip
  other than the SC2150A. A Ping is ignored. Every other message changes the state: PS_RDY leads to
  the ready state, a soft reset to its acknowledgement, a request to swap the power roles is
  evaluated or rejected in the middle of the change, and each of the rest leads to a hard reset.
\<close>

theorem power_change_messages:
  assumes "power_change t" "pe_pd_state (pd_port t) = PE_SNK_TRANSITION_SINK" "\<not> curr_is_vdm_evt (pd_port t)"
    and "state_machine (pd_port t) = PE_STATE_MACHINE_NORMAL"
    and "event_type (evt t) = PD_EVT_PD_MSG" "pd_msg (evt t) = Some m" "frame_type (pd_msg_buffer t ! m) = TCPC_TX_SOP"
    and "h = msg_hdr (pd_msg_buffer t ! m)" "is_ctrl h ty" "ty \<noteq> PD_CTRL_GOOD_CRC"
    and "msg_id_rx (pd_port t) \<noteq> []" "PD_HEADER_DR h \<noteq> data_role (pd_port t)" "chip_rv env \<noteq> 0 \<or> chip_id env \<noteq> SC2150A_DID"
    and "if ty = PD_CTRL_SOFT_RESET then hdr_id h = 0
         else msg_id_rx (pd_port t) ! 0 \<noteq> hdr_id h \<and> \<not> (ty = PD_CTRL_PS_RDY \<and> msg_id_pr_swap_last (pd_port t) = hdr_id h)"
  shows "\<exists>t'. if ty = PD_CTRL_PING
    then pd_process_event env t = Inr (False, t') \<and> pe_pd_state (pd_port t') = PE_SNK_TRANSITION_SINK
    else pd_process_event env t = Inr (True, t') \<and> next_state t' = change_next ty (pd_port t)"
proof -
  have c: "curr t = PE_SNK_TRANSITION_SINK" using assms(1) by (simp add: power_change_def)
  have "\<exists>f. pe_is_valid_pd_msg_id (pd_msg_buffer t ! m) (translated m t) =
    Inr (True, upd_port (\<lambda>p. p\<lparr>miss_msg := fst (f p), msg_id_rx := snd (f p)\<rparr>) (translated m t))"
    using assms(7,9,11,14) c by (intro valid_id_fresh[OF _ _ assms(8)]) simp_all
  then obtain f where v: "pe_is_valid_pd_msg_id (pd_msg_buffer t ! m) (translated m t) =
    Inr (True, upd_port (\<lambda>p. p\<lparr>miss_msg := fst (f p), msg_id_rx := snd (f p)\<rparr>) (translated m t))" ..
  note p = change_prepared[OF assms(1,7) assms(9)[unfolded assms(8)], of f]
  have "pd_process_event env t = pe_check_pd_msg env (pd_msg_buffer t ! m) (translated m t)"
    using assms(2,5,6) by (intro process_received) simp_all
  also have "\<dots> = pe_dispatch env (pd_copy_msg_data None 0 0
      (upd_port (\<lambda>p. p\<lparr>miss_msg := fst (f p), msg_id_rx := snd (f p)\<rparr>) (translated m t)))"
    using v assms(8,12,13) p(4,9)
    by (auto simp: pe_check_pd_msg_def pe_is_valid_pd_msg_role_def pe_handle_def pd_copy_msg_data_from_evt_def Let_def)
  finally have d: "pd_process_event env t = pe_dispatch env (pd_copy_msg_data None 0 0
      (upd_port (\<lambda>p. p\<lparr>miss_msg := fst (f p), msg_id_rx := snd (f p)\<rparr>) (translated m t)))" .
  have "change_next ty (pd_port (pd_copy_msg_data None 0 0
      (upd_port (\<lambda>p. p\<lparr>miss_msg := fst (f p), msg_id_rx := snd (f p)\<rparr>) (translated m t)))) = change_next ty (pd_port t)"
    by (simp add: change_next_def p(11))
  then show ?thesis
    unfolding d using change_dispatch[OF p(1,2), of m env] change_ping[OF p(1,2), of m env] p(3,5-8,10) assms(2-4,6,7,10)
    by (cases "ty = PD_CTRL_PING") simp_all
qed

definition sink_changes :: "16 word \<Rightarrow> tcpc_device" where
  "sink_changes h = upd_port (\<lambda>p. p\<lparr>state_machine := PE_STATE_MACHINE_NORMAL\<rparr>) (sink_message h 2 PE_SNK_TRANSITION_SINK)"

text \<open>PS_RDY, Accept and Ping with the number 3.\<close>

theorem power_change_messages_witness:
  "(\<exists>t'. pd_process_event chip0 (sink_changes 0x0766) = Inr (True, t') \<and>
      next_state t' = PE_SNK_READY) \<and>
   (\<exists>t'. pd_process_event chip0 (sink_changes 0x0763) = Inr (True, t') \<and>
      next_state t' = PE_SNK_HARD_RESET) \<and>
   (\<exists>t'. pd_process_event chip0 (sink_changes 0x0765) = Inr (False, t') \<and>
      pe_pd_state (pd_port t') = PE_SNK_TRANSITION_SINK)"
proof -
  note r = power_change_messages[where env = chip0, OF _ _ _ _ _ _ _ refl]
  have n: "change_next PD_CTRL_PS_RDY (pd_port (sink_changes 0x0766)) = PE_SNK_READY"
    "change_next PD_CTRL_ACCEPT (pd_port (sink_changes 0x0763)) = PE_SNK_HARD_RESET"
    by (simp_all add: change_next_def)
  have "\<exists>t'. if PD_CTRL_PS_RDY = PD_CTRL_PING
    then pd_process_event chip0 (sink_changes 0x0766) = Inr (False, t') \<and> pe_pd_state (pd_port t') = PE_SNK_TRANSITION_SINK
    else pd_process_event chip0 (sink_changes 0x0766) = Inr (True, t') \<and>
      next_state t' = change_next PD_CTRL_PS_RDY (pd_port (sink_changes 0x0766))"
    by (rule r[where m = 0]) code_simp+
  moreover have "\<exists>t'. if PD_CTRL_ACCEPT = PD_CTRL_PING
    then pd_process_event chip0 (sink_changes 0x0763) = Inr (False, t') \<and> pe_pd_state (pd_port t') = PE_SNK_TRANSITION_SINK
    else pd_process_event chip0 (sink_changes 0x0763) = Inr (True, t') \<and>
      next_state t' = change_next PD_CTRL_ACCEPT (pd_port (sink_changes 0x0763))"
    by (rule r[where m = 0]) code_simp+
  moreover have "\<exists>t'. if PD_CTRL_PING = PD_CTRL_PING
    then pd_process_event chip0 (sink_changes 0x0765) = Inr (False, t') \<and> pe_pd_state (pd_port t') = PE_SNK_TRANSITION_SINK
    else pd_process_event chip0 (sink_changes 0x0765) = Inr (True, t') \<and>
      next_state t' = change_next PD_CTRL_PING (pd_port (sink_changes 0x0765))"
    by (rule r[where m = 0]) code_simp+
  ultimately show ?thesis using n by simp
qed

section \<open>An attention message without a buffer\<close>

text \<open>
  C21. When a vendor attention message is pending and all message buffers are in use, the engine
  takes an event of a received message that has no message, and dereferences the null pointer.
\<close>

theorem attention_without_buffer:
  assumes "pd_pending_vdm_attention t" "\<not> pd_pending_vdm_event t" "\<not> pd_pending_vdm_discard t"
    and "pd_check_vdm_state_ready (pd_port t)" "fst (pd_alloc_msg t) = None" "engine_runs t"
    and "pd_get_vdm_event t = (Some e, t')"
  shows "pd_process_event env (upd_port (\<lambda>p. p\<lparr>curr_pd_event := e, curr_is_vdm_evt := True\<rparr>) t') = Inl NullDeref"
proof -
  have "e = \<lparr>event_type = PD_EVT_PD_MSG, msg = PD_DATA_VENDOR_DEF, msg_sec = 0, pd_msg = None\<rparr>" "pd_port t' = pd_port t"
    using assms(1-5,7)
    by (auto simp: pd_get_vdm_event_def pd_get_attention_event_def pd_alloc_msg_def pd_alloc_msg_locked_def Let_def
        split: prod.split_asm option.split_asm)
  then show ?thesis
    using assms(6) by (simp add: pd_process_event_def pe_check_trap_in_idle_state_def match_iff upd_port_def
        pe_init_curr_state_def Let_def)
qed

definition full_pool :: tcpc_device where
  "full_pool = upd_port (\<lambda>p. p\<lparr>pe_pd_state := PE_SNK_READY, pe_vdm_state := PE_SNK_READY\<rparr>)
     (zero_tcpc\<lparr>pd_pending_vdm_attention := True, pd_msg_buffer_allocated := - 1\<rparr>)"

theorem attention_without_buffer_witness:
  "\<exists>e t'. pd_get_vdm_event full_pool = (Some e, t') \<and>
     pd_process_event chip0
       (upd_port (\<lambda>p. p\<lparr>curr_pd_event := e, curr_is_vdm_evt := True\<rparr>) t') = Inl NullDeref"
proof -
  have f: "pd_pending_vdm_attention full_pool \<and> \<not> pd_pending_vdm_event full_pool \<and> \<not> pd_pending_vdm_discard full_pool \<and>
    pd_check_vdm_state_ready (pd_port full_pool) \<and> fst (pd_alloc_msg full_pool) = None \<and> engine_runs full_pool \<and>
    fst (pd_get_vdm_event full_pool) \<noteq> None"
    by code_simp
  then obtain e where "pd_get_vdm_event full_pool = (Some e, snd (pd_get_vdm_event full_pool))"
    by (cases "pd_get_vdm_event full_pool") auto
  with attention_without_buffer[OF _ _ _ _ _ _ this] f show ?thesis by blast
qed

end
