(* ===== verification/Pe_Rules.thy ===== *)
theory Pe_Rules
  imports Pe_Engine Pe_Recover
begin

unbundle bit_operations_syntax

text \<open>
  What the actions of the engine do: a sink that receives a hard reset, the choice of a reaction
  in the ready state, the identity of the cable, and alerts.
\<close>

section \<open>Hard reset of a sink\<close>

text \<open>What a hard reset restores.\<close>

definition default_levels :: "pd_port \<Rightarrow> bool" where
  "default_levels p \<longleftrightarrow> \<not> explicit_contract p \<and> vconn_role p = PD_ROLE_VCONN_OFF \<and> state_machine p = PE_STATE_MACHINE_NORMAL \<and>
     \<not> request_apdo p \<and> \<not> msg_output_lock p \<and> \<not> pd_connected (pe_data p) \<and> \<not> pe_ready (pe_data p) \<and>
     \<not> modal_operation (pe_data p) \<and> list_all (\<lambda>d. active_mode d = 0) (svid_data (vdm_info p))"

lemma default_hardreset:
  assumes "default_levels (pd_port t)"
  shows "default_levels (pd_port (pd_dpm_notify_pe_hardreset t))"
    "data_role (pd_port (pd_dpm_notify_pe_hardreset t)) = data_role (pd_port t)"
  using assms by (simp_all add: pd_dpm_notify_pe_hardreset_def svdm_reset_state_def svdm_notify_pe_startup_def
      dpm_reaction_set_def default_levels_def upd_port_def upd_pe_def Let_def)

lemma port_spec_revision: "\<exists>r. pd_port (pd_init_spec_revision t) = (pd_port t)\<lparr>pd_revision0 := r, pd_revision1 := r\<rparr>"
  by (auto simp: pd_init_spec_revision_def upd_port_def Let_def)

lemma port_set_data_role: "pd_port (pd_set_data_role env r t) = (pd_port t)\<lparr>data_role := r\<rparr>"
  by (simp add: pd_set_data_role_def pd_update_msg_header_def upd_port_def Let_def)

lemma vconn_off:
  assumes "\<not> vconn_highv_prot (pd_port t)"
  shows "vconn_role (pd_port (snd (pd_set_vconn rv PD_ROLE_VCONN_OFF t))) = PD_ROLE_VCONN_OFF"
    "explicit_contract (pd_port (snd (pd_set_vconn rv n t))) = explicit_contract (pd_port t)"
    "request_apdo (pd_port (snd (pd_set_vconn rv n t))) = request_apdo (pd_port t)"
    "msg_output_lock (pd_port (snd (pd_set_vconn rv n t))) = msg_output_lock (pd_port t)"
    "pe_data (pd_port (snd (pd_set_vconn rv n t))) = pe_data (pd_port t)"
    "vdm_info (pd_port (snd (pd_set_vconn rv n t))) = vdm_info (pd_port t)"
    "power_role (pd_port (snd (pd_set_vconn rv n t))) = power_role (pd_port t)"
  using assms by (simp_all add: pd_set_vconn_def pe_reset_msg_id_def upd_port_def Let_def)

lemma port_reset_modal: "pd_port (pd_reset_modal_operation t) =
  (pd_port t)\<lparr>vdm_info := (vdm_info (pd_port t))\<lparr>svid_data := map (\<lambda>d. d\<lparr>active_mode := 0\<rparr>) (svid_data (vdm_info (pd_port t)))\<rparr>,
     pe_data := (pe_data (pd_port t))\<lparr>modal_operation := False\<rparr>\<rparr>"
  by (simp add: pd_reset_modal_operation_def upd_port_def upd_pe_def upd_vdm_def)

lemma reset_timer_fields:
  "\<not> request_apdo (pd_port (pd_reset_pe_timer t))" "msg_output_lock (pd_port (pd_reset_pe_timer t)) = msg_output_lock (pd_port t)"
  "pe_data (pd_port (pd_reset_pe_timer t)) = pe_data (pd_port t)" "power_role (pd_port (pd_reset_pe_timer t)) = power_role (pd_port t)"
  by (simp_all add: pd_reset_pe_timer_def pd_dpm_start_pps_request_thread_def upd_port_def Let_def)

lemma reset_default:
  "default_levels (pd_port (pd_reset_local_hw env t))" (is ?D)
  "data_role (pd_port (pd_reset_local_hw env t)) =
     (if power_role (pd_port t) = PD_ROLE_SINK then PD_ROLE_UFP else PD_ROLE_DFP)" (is ?R)
proof -
  define t1 where "t1 = pd_set_rx_enable PD_RX_CAP_PE_HARDRESET (pd_reset_pe_timer (pd_unlock_msg_output
    (pd_notify_pe_transit_to_default PD_CONNECT_HARD_RESET t)))"
  have t1: "\<not> request_apdo (pd_port t1)" "\<not> msg_output_lock (pd_port t1)" "power_role (pd_port t1) = power_role (pd_port t)"
    by (simp_all add: t1_def pd_set_rx_enable_def upd_port_def reset_timer_fields)
      (simp_all add: pd_unlock_msg_output_def pd_notify_pe_transit_to_default_def upd_port_def)
  define t2 where "t2 = pd_reset_modal_operation (upd_pe (\<lambda>d. d\<lparr>pd_connected := False, pe_ready := False\<rparr>)
    (upd_port (\<lambda>p. dpm_reaction_clear DPM_REACTION_CAP_RESET_CABLE
       (p\<lparr>explicit_contract := False, vconn_highv_prot := False, vconn_highv_prot_role := PD_ROLE_VCONN_OFF\<rparr>)) t1))"
  have t2: "\<not> request_apdo (pd_port t2)" "\<not> msg_output_lock (pd_port t2)" "power_role (pd_port t2) = power_role (pd_port t)"
    "\<not> explicit_contract (pd_port t2)" "\<not> vconn_highv_prot (pd_port t2)" "\<not> pd_connected (pe_data (pd_port t2))"
    "\<not> pe_ready (pe_data (pd_port t2))" "\<not> modal_operation (pe_data (pd_port t2))"
    "list_all (\<lambda>d. active_mode d = 0) (svid_data (vdm_info (pd_port t2)))"
    using t1 by (simp_all add: t2_def port_reset_modal upd_pe_def upd_port_def dpm_reaction_clear_def list_all_iff)
  define t3 where "t3 = snd (pd_set_vconn (chip_vconn env) PD_ROLE_VCONN_OFF t2)"
  note t3 = vconn_off[OF t2(5), of "chip_vconn env", folded t3_def]
  define dr where "dr = (if power_role (pd_port t3) = PD_ROLE_SINK then PD_ROLE_UFP else PD_ROLE_DFP)"
  define t4 where "t4 = pd_set_data_role env dr (upd_port (\<lambda>p. p\<lparr>state_machine := PE_STATE_MACHINE_NORMAL\<rparr>) t3)"
  have "default_levels (pd_port t4)" "data_role (pd_port t4) = dr"
    using t2 t3 by (simp_all add: t4_def t3_def vconn_off port_set_data_role default_levels_def upd_port_def)
  then have "default_levels (pd_port (pd_init_spec_revision t4))" "data_role (pd_port (pd_init_spec_revision t4)) = dr"
    using port_spec_revision[of t4] by (auto simp: default_levels_def)
  moreover have "pd_reset_local_hw env t = pd_dpm_notify_pe_hardreset (pd_init_spec_revision t4)"
    by (simp add: pd_reset_local_hw_def t4_def dr_def t3_def t2_def t1_def Let_def)
  moreover have "dr = (if power_role (pd_port t) = PD_ROLE_SINK then PD_ROLE_UFP else PD_ROLE_DFP)"
    using t2(3) t2(5) by (simp add: dr_def t3_def vconn_off)
  ultimately show ?D ?R by (simp_all add: default_hardreset)
qed

lemma port_snk_hard_reset: "pd_port (pd_dpm_snk_hard_reset t) = pd_port t"
  by (simp add: pd_dpm_snk_hard_reset_def tcpci_sink_vbus_def Let_def)

lemma exit_on_hw_event:
  assumes "event_type (evt t) = PD_EVT_HW_MSG"
  shows "\<exists>t'. pe_get_exit_action env s t = Inr t'"
  using assms
  by (simp add: pe_get_exit_action_def ok_def pe_src_get_sink_cap_exit_def pe_dr_src_get_source_cap_exit_def
      pe_dr_snk_get_sink_cap_exit_def pd_dpm_dr_inform_sink_cap_def pd_dpm_dr_inform_source_cap_def match_iff)

lemma evt_leave_state: "evt (leave_state t) = evt t"
  by (simp add: leave_state_def pe_reset_vdm_state_variable_def upd_pe_def upd_port_def Let_def)

lemma default_enter:
  assumes "default_levels (pd_port t)" "\<not> curr_is_vdm_evt (pd_port t)"
  shows "default_levels (pd_port (free_curr_event (enter_state s t)))"
    "data_role (pd_port (free_curr_event (enter_state s t))) = data_role (pd_port t)"
    "power_role (pd_port (free_curr_event (enter_state s t))) = power_role (pd_port t)"
    "pe_pd_state (pd_port (free_curr_event (enter_state s t))) = s"
proof -
  have "pd_port (snd (pd_free_event e u)) = pd_port u" for e u by (simp add: pd_free_event_def)
  then show "default_levels (pd_port (free_curr_event (enter_state s t)))"
    "data_role (pd_port (free_curr_event (enter_state s t))) = data_role (pd_port t)"
    "power_role (pd_port (free_curr_event (enter_state s t))) = power_role (pd_port t)"
    "pe_pd_state (pd_port (free_curr_event (enter_state s t))) = s"
    using assms by (simp_all add: free_curr_event_def enter_state_def default_levels_def upd_port_def case_prod_beta Let_def)
qed

text \<open>
  C16. A received hard reset brings a sink to its default levels. In any state in which the engine
  runs, handling the event succeeds and ends in the state of the default levels: the port is a
  sink and UFP, VCONN is off, there is no contract and no programmable supply, no alternate mode
  is active, no swap is under way, messages may be sent again, and the partner counts as not
  connected and not ready.
\<close>

theorem sink_reset_to_default:
  assumes "power_role (pd_port t) = PD_ROLE_SINK" "engine_runs t" "pe_pd_state (pd_port t) < PD_NR_PE_STATES"
    and "\<not> curr_is_vdm_evt (pd_port t)" "pd_event_msg_match (evt t) PD_EVT_HW_MSG PD_HW_RECV_HARD_RESET"
  shows "\<exists>t'. pd_handle_event env t = Inr t' \<and> pe_pd_state (pd_port t') = PE_SNK_TRANSITION_TO_DEFAULT \<and>
    power_role (pd_port t') = PD_ROLE_SINK \<and> data_role (pd_port t') = PD_ROLE_UFP \<and> default_levels (pd_port t')"
proof -
  let ?t = "upd_port (\<lambda>p. p\<lparr>pe_state_curr := pe_pd_state p\<rparr>) t" and ?s = PE_SNK_TRANSITION_TO_DEFAULT
  have e: "\<not> curr_is_vdm_evt (pd_port ?t)" "engine_runs ?t" "pd_event_msg_match (evt ?t) PD_EVT_HW_MSG PD_HW_RECV_HARD_RESET"
    using assms(2,4,5) by (simp_all add: upd_port_def)
  obtain t1 where t1: "pd_process_event env ?t = Inr (True, t1)" "power_role (pd_port t1) = PD_ROLE_SINK" "next_state t1 = ?s"
    "curr t1 < PD_NR_PE_STATES" "event_type (evt t1) = PD_EVT_HW_MSG" "\<not> curr_is_vdm_evt (pd_port t1)"
    by (rule process_recv_hard_reset[OF e, of env]) (use assms in \<open>simp_all add: upd_port_def match_iff\<close>)
  obtain t2 where t2: "pe_get_exit_action env (curr t1) (leave_state t1) = Inr t2"
    using exit_on_hw_event[of "leave_state t1" env "curr t1"] t1(5) by (auto simp: evt_leave_state)
  have "pwr t2 = (PD_ROLE_SINK, False)"
    using t2 exit_role[of env "curr t1"] t1(2,6) by (auto simp: sets_role_def role) (simp add: role_of_def)
  moreover define t3 where "t3 = pe_snk_transition_to_default_entry env t2"
  ultimately have t3: "pwr t3 = (PD_ROLE_SINK, False)" "default_levels (pd_port t3)" "data_role (pd_port t3) = PD_ROLE_UFP"
    using reset_default[of env t2]
    by (simp_all add: role) (simp_all add: t3_def pe_snk_transition_to_default_entry_def port_snk_hard_reset role_of_def)
  have "pd_handle_event env t = Inr (free_curr_event (enter_state ?s t3))"
    using t1 t2 assms(4)
    by (simp add: pd_handle_event_def choose_curr_pd pd_pe_state_change_def pe_state_actions_def ok_def t3_def Let_def)
  then show ?thesis using t3 default_enter[of t3 ?s] by (simp add: role_of_def)
qed

theorem sink_reset_to_default_witness:
  "\<exists>t'. pd_handle_event chip0 sink_hard_reset = Inr t' \<and> pe_pd_state (pd_port t') = PE_SNK_TRANSITION_TO_DEFAULT \<and>
     default_levels (pd_port t')"
proof -
  have "power_role (pd_port sink_hard_reset) = PD_ROLE_SINK" "engine_runs sink_hard_reset"
    "pe_pd_state (pd_port sink_hard_reset) < PD_NR_PE_STATES" "\<not> curr_is_vdm_evt (pd_port sink_hard_reset)"
    "pd_event_msg_match (evt sink_hard_reset) PD_EVT_HW_MSG PD_HW_RECV_HARD_RESET"
    by (simp_all add: sink_hard_reset_def zero_tcpc_def zero_port_def upd_port_def simple_evt_def match_iff)
  from sink_reset_to_default[OF this, of chip0] show ?thesis by blast
qed

section \<open>Reactions of the ready state\<close>

abbreviation ready_once :: "tcpc_device \<Rightarrow> bool" where
  "ready_once t \<equiv> has_flag (dpm_ready_reactions (pd_port t)) DPM_REACTION_CAP_READY_ONCE"

definition alert_reactions :: "nat set" where
  "alert_reactions = {0, DPM_READY_REACTION_BUSY, TCP_DPM_EVT_ALERT, TCP_DPM_EVT_GET_STATUS, TCP_DPM_EVT_GET_BAT_STATUS}"

lemma clear_flag: "\<not> has_flag (x AND NOT (f OR c)) f" for x :: "32 word"
  by (auto simp: bit_eq_iff bit_simps)

lemma set_flag: "f \<noteq> 0 \<Longrightarrow> has_flag (x OR f) f" for x :: "32 word"
  by (auto simp: bit_eq_iff bit_simps)

lemma cleared_stays: "\<not> has_flag x f \<Longrightarrow> \<not> has_flag (x AND NOT c) f" for x :: "32 word"
  by (auto simp: bit_eq_iff bit_simps)

lemma reactions_upd:
  "dpm_ready_reactions (pd_port (upd_pe f t)) = dpm_ready_reactions (pd_port t)"
  "dpm_ready_reactions (pd_port (clear_alert b t)) = dpm_ready_reactions (pd_port t)"
  by (simp_all add: upd_pe_def clear_alert_def upd_port_def)

lemma reactions_vconn:
  "dpm_ready_reactions (pd_port (snd (pd_set_vconn rv n t))) = dpm_ready_reactions (pd_port t)"
  by (simp add: pd_set_vconn_def pe_reset_msg_id_def upd_port_def Let_def)

text \<open>The reactions that are looked at always, whether or not the port has just become ready.\<close>

lemma always_reactions:
  "\<forall>r \<in> set (dpm_reactions env). has_flag (bit_mask r) DPM_REACTION_CAP_ALWAYS \<longrightarrow>
     handler r \<in> {dpm_reaction_send_alert, dpm_reaction_handle_alert, dpm_reaction_mode_operation env, dpm_reaction_update_pe_ready env}"
  by (simp add: dpm_reactions_def)

lemma alert_result:
  "fst (dpm_reaction_send_alert t) \<in> alert_reactions" "fst (dpm_reaction_handle_alert t) \<in> alert_reactions"
  "fst (dpm_reaction_mode_operation env t) \<in> alert_reactions" "fst (dpm_reaction_update_pe_ready env t) \<in> alert_reactions"
  by (simp_all add: alert_reactions_def dpm_reaction_send_alert_def dpm_reaction_handle_alert_def
      dpm_reaction_alert_status_changed_def dpm_reaction_alert_battry_changed_def dpm_reaction_mode_operation_def
      dpm_reaction_update_pe_ready_def case_prod_beta Let_def split: option.split)

lemma alert_keeps_reactions:
  "dpm_ready_reactions (pd_port (snd (dpm_reaction_send_alert t))) = dpm_ready_reactions (pd_port t)"
  "dpm_ready_reactions (pd_port (snd (dpm_reaction_handle_alert t))) = dpm_ready_reactions (pd_port t)"
  "dpm_ready_reactions (pd_port (snd (dpm_reaction_mode_operation env t))) = dpm_ready_reactions (pd_port t)"
  "dpm_ready_reactions (pd_port (snd (dpm_reaction_update_pe_ready env t))) = dpm_ready_reactions (pd_port t)"
proof -
  show "dpm_ready_reactions (pd_port (snd (dpm_reaction_send_alert t))) = dpm_ready_reactions (pd_port t)"
    "dpm_ready_reactions (pd_port (snd (dpm_reaction_mode_operation env t))) = dpm_ready_reactions (pd_port t)"
    by (simp_all add: dpm_reaction_send_alert_def dpm_reaction_mode_operation_def reactions_upd Let_def)
  show "dpm_ready_reactions (pd_port (snd (dpm_reaction_handle_alert t))) = dpm_ready_reactions (pd_port t)"
    by (auto simp: dpm_reaction_handle_alert_def dpm_reaction_alert_status_changed_def
        dpm_reaction_alert_battry_changed_def take_battery_def upd_port_def reactions_upd Let_def
        split: option.split prod.split)
  show "dpm_ready_reactions (pd_port (snd (dpm_reaction_update_pe_ready env t))) = dpm_ready_reactions (pd_port t)"
    by (simp add: dpm_reaction_update_pe_ready_def dpm_check_vconn_highv_prot_def pd_dpm_dynamic_disable_vconn_def
        pd_set_sink_tx_def reactions_vconn reactions_upd upd_port_def Let_def)
qed

lemma always_handler:
  assumes "r \<in> set (dpm_reactions env)" "has_flag (bit_mask r) DPM_REACTION_CAP_ALWAYS"
  shows "fst (handler r t) \<in> alert_reactions"
    "dpm_ready_reactions (pd_port (snd (handler r t))) = dpm_ready_reactions (pd_port t)"
  using always_reactions[of env] assms alert_result alert_keeps_reactions by fastforce+

lemma available_not_ready:
  assumes "r \<in> set (dpm_reactions env)" "\<not> ready_once t"
  shows "fst (dpm_check_reaction_available c r t) \<in> alert_reactions" "\<not> ready_once (snd (dpm_check_reaction_available c r t))"
proof -
  have busy: "DPM_READY_REACTION_BUSY \<in> alert_reactions" "0 \<in> alert_reactions" by (simp_all add: alert_reactions_def)
  have once: "\<not> ready_once (upd_port (dpm_reaction_clear b) u)" if "\<not> ready_once u" for b u
    using that cleared_stays by (simp add: upd_port_def dpm_reaction_clear_def)
  have "fst (dpm_check_reaction_available c r t) \<in> alert_reactions \<and> \<not> ready_once (snd (dpm_check_reaction_available c r t))"
  proof (cases "has_flag (bit_mask r) DPM_REACTION_CAP_ALWAYS")
    case True
    then show ?thesis using assms(2) always_handler[OF assms(1) True, of t] once busy
      by (auto simp: dpm_check_reaction_available_def case_prod_beta Let_def)
  next
    case False
    then show ?thesis using assms(2) busy
      by (auto simp: dpm_check_reaction_available_def dpm_check_reaction_busy_def)
  qed
  then show "fst (dpm_check_reaction_available c r t) \<in> alert_reactions" "\<not> ready_once (snd (dpm_check_reaction_available c r t))"
    by blast+
qed

lemma loop_not_ready:
  assumes "set rs \<subseteq> set (dpm_reactions env)" "\<not> ready_once t"
  shows "fst (reaction_loop c rs t) \<in> alert_reactions"
  using assms
proof (induction rs arbitrary: t)
  case (Cons r rs)
  then have "r \<in> set (dpm_reactions env)" by simp
  note a = available_not_ready[OF this Cons.prems(2), of c]
  then show ?case using Cons by (simp add: case_prod_beta Let_def)
qed (simp add: alert_reactions_def)

lemma reactions_2nd_result:
  "dpm_ready_reactions (pd_port (pd_notify_tcp_event_2nd_result r t)) = dpm_ready_reactions (pd_port t)"
  by (simp add: pd_notify_tcp_event_2nd_result_def call_event_cb_def upd_port_def Let_def)

text \<open>
  C17. Each visit to the ready state starts at most one reaction. Looking for a reaction clears the
  mark of the visit; without the mark nothing is found but alerts, requests for what an alert of
  the partner is about, or that the port is busy, until the ready state is entered again.
\<close>

theorem one_reaction_per_visit:
  "\<not> ready_once (snd (pd_dpm_get_ready_reaction env t)) \<and>
   (\<not> ready_once t \<longrightarrow> fst (pd_dpm_get_ready_reaction env t) \<in> alert_reactions) \<and>
   ready_once (pe_power_ready_entry t)"
proof -
  have "\<not> ready_once (snd (pd_dpm_get_ready_reaction env t))"
    using clear_flag[where f = DPM_REACTION_CAP_READY_ONCE]
    by (simp add: pd_dpm_get_ready_reaction_def case_prod_beta upd_port_def dpm_reaction_clear_def)
  moreover have "ready_once (pe_power_ready_entry t)"
    using set_flag[where f = DPM_REACTION_CAP_READY_ONCE]
    by (simp add: pe_power_ready_entry_def reactions_2nd_result case_prod_beta Let_def)
      (simp add: upd_port_def dpm_reaction_set_def)
  ultimately show ?thesis
    using loop_not_ready[OF subset_refl, of t _ env]
    by (simp add: pd_dpm_get_ready_reaction_def case_prod_beta Let_def)
qed

text \<open>A DFP that has not just become ready, with the discovery of the identity still to be done.\<close>

definition discover_later :: tcpc_device where
  "discover_later = upd_port (\<lambda>p. p\<lparr>data_role := PD_ROLE_DFP, dpm_ready_reactions := DPM_REACTION_DISCOVER_ID\<rparr>) zero_tcpc"

theorem one_reaction_per_visit_witness:
  "\<not> ready_once discover_later \<and> fst (pd_dpm_get_ready_reaction chip0 discover_later) \<in> alert_reactions \<and>
   fst (pd_dpm_get_ready_reaction chip0 discover_later) = DPM_READY_REACTION_BUSY"
proof -
  have "\<not> ready_once discover_later" "fst (pd_dpm_get_ready_reaction chip0 discover_later) = DPM_READY_REACTION_BUSY"
    by code_simp+
  then show ?thesis using one_reaction_per_visit[of chip0 discover_later] by simp
qed

section \<open>The identity of the cable\<close>

text \<open>
  C22. A cable that answers with all seven data objects makes the driver write past an array. Of an
  answer of \<open>n\<close> objects, the first of which is the vendor header, \<open>n\<close> words behind the header are
  copied to the six words that hold the identity: the \<open>n - 1\<close> objects of the identity and the
  word of the buffer behind them, which is not part of the message; with seven objects the copy
  reads and writes out of bounds.
\<close>

theorem cable_identity_copied:
  assumes "pd_msg_data_payload (pd_port t) = Some m" "length (payload (pd_msg_buffer t ! m)) = PD_DATA_OBJ_SIZE"
    and "length (cable_vdos (pd_port t)) = VDO_MAX_NR" "pd_msg_data_size (pd_port t) = 4 * n" "n \<le> PD_DATA_OBJ_SIZE"
  shows "if n = PD_DATA_OBJ_SIZE then pd_dpm_inform_cable_id src_startup t = Inl OutOfBounds
    else \<exists>t'. pd_dpm_inform_cable_id src_startup t = Inr t' \<and>
      cable_vdos (pd_port t') = take n (drop 1 (payload (pd_msg_buffer t ! m))) @ drop n (cable_vdos (pd_port t))"
  using assms
  by (simp add: pd_dpm_inform_cable_id_def copy_cable_vdos_def VDM_STATE_DPM_INFORMED_def Let_def)
    (simp add: upd_port_def upd_pe_def dpm_reaction_clear_def)

definition cable_answer :: "nat \<Rightarrow> tcpc_device" where
  "cable_answer n = upd_port (\<lambda>p. p\<lparr>pd_msg_data_payload := Some 0, pd_msg_data_size := 4 * n,
     cable_vdos := replicate VDO_MAX_NR 0\<rparr>)
     (zero_tcpc\<lparr>pd_msg_buffer := replicate PD_MSG_BUF_SIZE (zero_msg\<lparr>payload := [1, 2, 3, 4, 5, 6, 7]\<rparr>)\<rparr>)"

theorem cable_identity_copied_witness:
  "pd_dpm_inform_cable_id True (cable_answer 7) = Inl OutOfBounds \<and>
   (\<exists>t'. pd_dpm_inform_cable_id True (cable_answer 5) = Inr t' \<and> cable_vdos (pd_port t') = [2, 3, 4, 5, 6, 0])"
proof -
  have "pd_msg_data_payload (pd_port (cable_answer n)) = Some 0" "pd_msg_buffer (cable_answer n) ! 0 = zero_msg\<lparr>payload := [1, 2, 3, 4, 5, 6, 7]\<rparr>"
    "cable_vdos (pd_port (cable_answer n)) = replicate VDO_MAX_NR 0" "pd_msg_data_size (pd_port (cable_answer n)) = 4 * n" for n
    by (simp_all add: cable_answer_def upd_port_def)
  then show ?thesis
    using cable_identity_copied[of "cable_answer 7" 0 7 True] cable_identity_copied[of "cable_answer 5" 0 5 True]
    by (simp add: numeral_eq_Suc)
qed

section \<open>Alerts of the partner\<close>

lemma flag_bit: "has_flag w (push_bit i 1) \<longleftrightarrow> bit w i" for w :: "32 word"
  by (simp only: bit_iff_and_push_bit_not_eq_0)

lemma first_bit: "i < n \<Longrightarrow> bit w i \<Longrightarrow> \<forall>j<i. \<not> bit w j \<Longrightarrow> find (\<lambda>i. has_flag w (push_bit i 1)) [0..<n] = Some i"
  for w :: "32 word"
  by (simp only: flag_bit) (auto simp: find_Some_iff intro!: exI[of _ i])

lemma fixed_bat_bit: "bit (ADO_FIXED_BAT a) i \<longleftrightarrow> i < 4 \<and> bit a (i + 20)"
proof -
  have "bit (0x0f :: 32 word) i \<longleftrightarrow> i < 4"
    using bit_mask_iff[of 4 i, where ?'a = "32 word"] by (auto simp: mask_eq_exp_minus_1)
  then show ?thesis by (auto simp: ADO_FIXED_BAT_def bit_simps add.commute)
qed

lemma only_first_bit:
  assumes "i < 4" "bit a (i + 20)"
  shows "ADO_FIXED_BAT (a AND NOT (push_bit 20 (ADO_FIXED_BAT a AND NOT (push_bit i 1)))) = push_bit i 1"
proof (rule bit_eqI)
  fix k assume "possible_bit TYPE(32 word) k"
  then show "bit (ADO_FIXED_BAT (a AND NOT (push_bit 20 (ADO_FIXED_BAT a AND NOT (push_bit i 1))))) k \<longleftrightarrow> bit (push_bit i 1 :: 32 word) k"
    using assms by (cases "k = i") (auto simp: fixed_bat_bit bit_simps)
qed

lemma fixed_bat_clear_type: "ADO_FIXED_BAT (b AND NOT (push_bit 24 w)) = ADO_FIXED_BAT b"
proof (rule bit_eqI)
  fix k assume "possible_bit TYPE(32 word) k"
  then show "bit (ADO_FIXED_BAT (b AND NOT (push_bit 24 w))) k \<longleftrightarrow> bit (ADO_FIXED_BAT b) k"
    by (cases "k < 4") (auto simp: fixed_bat_bit bit_simps)
qed

text \<open>
  An alert that the status of several fixed batteries changed: the first battery \<open>i\<close> is asked for,
  and then exactly the \<^emph>\<open>others\<close> are forgotten; \<open>i\<close> stays marked, is asked for once more, and no other
  battery ever is.
\<close>

lemma battery_alert:
  assumes "i < 4" "bit a (i + 20)" "\<forall>j<i. \<not> bit a (j + 20)" "remote_alert (pe_data (pd_port t)) = a"
    and "\<not> has_flag (drop_bit 24 a) c_get_status_alert_type" "has_flag (drop_bit 24 a) ADO_ALERT_BAT_CHANGED"
  shows "\<exists>t'. dpm_reaction_handle_alert t = (TCP_DPM_EVT_GET_BAT_STATUS, t') \<and>
    tcp_dpm_data (tcp_event (pd_port t')) = (tcp_dpm_data (tcp_event (pd_port t)))[0 := of_nat i] \<and>
    ADO_FIXED_BAT (remote_alert (pe_data (pd_port t'))) = push_bit i 1"
proof -
  have b: "bit (ADO_FIXED_BAT a) i" "\<forall>j<i. \<not> bit (ADO_FIXED_BAT a) j" using assms(1-3) by (auto simp: fixed_bat_bit)
  define f where "f = ADO_FIXED_BAT a AND NOT (push_bit i 1)"
  have "ADO_FIXED_BAT a \<noteq> 0" using b(1) by auto
  moreover have "take_battery 20 (ADO_FIXED_BAT a) t = (Some i, f, clear_alert (push_bit 20 f) t)"
    by (simp only: take_battery_def first_bit[OF assms(1) b] option.case Let_def f_def)
  moreover note only_first_bit[OF assms(1,2), folded f_def] fixed_bat_clear_type[of _ ADO_ALERT_BAT_CHANGED, simplified]
  ultimately show ?thesis
    using assms(4-6)
    by (auto simp: dpm_reaction_handle_alert_def dpm_reaction_alert_battry_changed_def clear_alert_def
        upd_pe_def upd_port_def Let_def)
qed

text \<open>
  The mask of the alerts that wait for a request of the status holds the battery fields in eight
  bits each instead of four, and so covers the alerts of over-current and over-temperature: as long
  as the partner has not asked for the status, they are dropped and never sent.
\<close>

lemma protection_alerts_dropped:
  assumes "\<not> get_status_once (pe_data (pd_port t))"
    and "local_alert (pe_data (pd_port t)) AND NOT (push_bit 24 (ADO_ALERT_OCP OR ADO_ALERT_OTP)) = 0"
  shows "\<exists>t'. dpm_reaction_send_alert t = (0, t') \<and> local_alert (pe_data (pd_port t')) = 0"
proof -
  let ?a = "local_alert (pe_data (pd_port t))"
  have "?a AND NOT ADO_GET_STATUS_ONCE_MASK = (?a AND NOT (push_bit 24 (ADO_ALERT_OCP OR ADO_ALERT_OTP))) AND NOT ADO_GET_STATUS_ONCE_MASK"
    by (simp add: ADO_GET_STATUS_ONCE_MASK_def and.assoc)
  then have "?a AND NOT ADO_GET_STATUS_ONCE_MASK = 0" unfolding assms(2) by simp
  then show ?thesis using assms(1)
    by (simp add: dpm_reaction_send_alert_def upd_pe_def upd_port_def Let_def)
qed

end
