(* ===== verification/Utag_String.thy ===== *)
theory Utag_String
  imports MMI_Prelude
begin

text \<open>
  The bytes and C strings of the tag store (\<open>src/drivers/misc/utag/utags.c\<close>). A byte is a
  \<open>char\<close>, a buffer a \<open>string\<close> of its bytes. A \<open>char\<close> array that holds a C string is modelled
  by the characters before its terminating NUL: reading past the end of the list gives
  that NUL (\<open>c_at\<close>), and the arrays of the program are zeroed before they are filled, so
  that the rest of the array is zero as well.
\<close>

named_theorems cstr_simps

abbreviation (input) NUL :: char where "NUL \<equiv> CHR 0x00"
abbreviation (input) COLON :: char where "COLON \<equiv> CHR 0x3A"
abbreviation (input) SLASH :: char where "SLASH \<equiv> CHR 0x2F"
abbreviation (input) COMMA :: char where "COMMA \<equiv> CHR 0x2C"
abbreviation (input) DOT :: char where "DOT \<equiv> CHR 0x2E"
abbreviation (input) NEWLINE :: char where "NEWLINE \<equiv> CHR 0x0A"

abbreviation (input) MAX_UTAG_SIZE :: nat where "MAX_UTAG_SIZE \<equiv> 1024"
abbreviation (input) MAX_UTAG_NAME :: nat where "MAX_UTAG_NAME \<equiv> 32"
abbreviation (input) UTAG_DEPTH :: nat where "UTAG_DEPTH \<equiv> 5"

section \<open>The string functions of the C library\<close>

text \<open>The string a buffer holds, and the byte a pointer into a string reads.\<close>

definition cstr :: "string \<Rightarrow> string" where
  "cstr b = takeWhile (\<lambda>c. c \<noteq> NUL) b"

definition c_at :: "string \<Rightarrow> char" where
  "c_at s = (case s of [] \<Rightarrow> NUL | c # _ \<Rightarrow> c)"

text \<open>
  \<open>strlcpy(dst, src, n)\<close> and the truncating prints: \<open>dst\<close> receives at most \<open>n - 1\<close>
  characters. \<open>scn_append\<close> is the idiom \<open>len += scnprintf(buf + len, n - len, ...)\<close>.
\<close>

definition strlcpy :: "nat \<Rightarrow> string \<Rightarrow> string" where
  "strlcpy n s = take (n - 1) s"

definition scn_append :: "string \<Rightarrow> string \<Rightarrow> string" where
  "scn_append b s = b @ take (MAX_UTAG_NAME - 1 - length b) s"

text \<open>\<open>!strncmp(a, b, n)\<close>.\<close>

definition strn_eq :: "nat \<Rightarrow> string \<Rightarrow> string \<Rightarrow> bool" where
  "strn_eq n a b \<longleftrightarrow> take n a = take n b"

definition strnlen :: "string \<Rightarrow> nat \<Rightarrow> nat" where
  "strnlen b n = length (cstr (take n b))"

text \<open>\<open>strnchr(s, n, c)\<close>: the offset of the first \<open>c\<close> among the first \<open>n\<close> characters.\<close>

definition strnchr :: "string \<Rightarrow> nat \<Rightarrow> char \<Rightarrow> nat option" where
  "strnchr s n c =
     (let p = length (takeWhile (\<lambda>x. x \<noteq> c) (cstr (take n s)))
      in if p < length (cstr (take n s)) then Some p else None)"

text \<open>The part of a name before \<open>':'\<close>, as \<open>sep = strnchr(...); if (sep) *sep = 0\<close> leaves it.\<close>

definition cut_type :: "string \<Rightarrow> string" where
  "cut_type s = (case strnchr s MAX_UTAG_NAME COLON of None \<Rightarrow> s | Some p \<Rightarrow> take p s)"

text \<open>
  \<open>strsep(&ptr, ",")\<close> on the bytes from \<open>ptr\<close> to the end of its buffer: the token and the
  new \<open>ptr\<close> (\<open>None\<close> for NULL). A buffer that ends before a comma or a NUL is read past
  its end.
\<close>

definition strsep :: "string \<Rightarrow> (string \<times> string option) kres" where
  "strsep b =
     (case dropWhile (\<lambda>c. c \<noteq> COMMA \<and> c \<noteq> NUL) b of
        [] \<Rightarrow> Inl OutOfBounds
      | c # rest \<Rightarrow> Inr (takeWhile (\<lambda>c. c \<noteq> COMMA \<and> c \<noteq> NUL) b,
                      if c = COMMA then Some rest else None))"

section \<open>Names\<close>

fun names_match_loop :: "nat \<Rightarrow> string \<Rightarrow> string \<Rightarrow> bool" where
  "names_match_loop 0 s1 s2 = True"
| "names_match_loop (Suc n) s1 s2 =
     (if c_at s1 \<noteq> c_at s2 then False
      else if c_at s1 = NUL \<or> c_at s2 = NUL then True
      else names_match_loop n (tl s1) (tl s2))"

definition names_match :: "string \<Rightarrow> string \<Rightarrow> bool" where
  "names_match s1 s2 = names_match_loop MAX_UTAG_NAME s1 s2"

text \<open>
  \<open>validate_name\<close>: the loop looks at the first character twice and at the last one only
  after its end. The arguments of the loop are \<open>count\<close>, \<open>s1\<close>, \<open>c1\<close> and \<open>sep\<close>.
\<close>

fun validate_loop :: "nat \<Rightarrow> string \<Rightarrow> char \<Rightarrow> nat \<Rightarrow> bool" where
  "validate_loop 0 s c sep = (c \<noteq> COLON)"
| "validate_loop (Suc n) s c sep =
     (let sep' = (if c = COLON then sep + 1 else sep)
      in if sep' > 1 then False else validate_loop n (tl s) (c_at s) sep')"

definition validate_name :: "string \<Rightarrow> nat \<Rightarrow> bool" where
  "validate_name s count =
     (if c_at s = COLON then False else validate_loop count s (c_at s) 0)"

definition check_path :: "string \<Rightarrow> nat \<Rightarrow> int" where
  "check_path fullpath count =
     (case (strnchr fullpath count COLON, strnchr fullpath count SLASH) of
        (Some p, Some b) \<Rightarrow> if b > p then - EINVAL else 0
      | _ \<Rightarrow> 0)"

definition no_show_tag :: "string \<Rightarrow> bool" where
  "no_show_tag name \<longleftrightarrow> name = [SLASH] \<or> name = [DOT]"

text \<open>
  \<open>full_split\<close>: the type is what follows \<open>':'\<close>; the names are the pieces between slashes,
  a slash in front of the first one being skipped. The caller's array has \<open>UTAG_DEPTH\<close>
  entries and the loop does not check its index.
\<close>

function split_path :: "string \<Rightarrow> string list" where
  "split_path s =
     (let p = (if c_at s = SLASH then tl s else s);
          rest = dropWhile (\<lambda>c. c \<noteq> SLASH) p
      in if rest = [] then [takeWhile (\<lambda>c. c \<noteq> SLASH) p]
         else takeWhile (\<lambda>c. c \<noteq> SLASH) p # split_path rest)"
  by pat_completeness auto

lemma dropWhile_slash_shorter:
  assumes "dropWhile (\<lambda>c. c \<noteq> SLASH) (if c_at s = SLASH then tl s else s) \<noteq> []"
  shows "length (dropWhile (\<lambda>c. c \<noteq> SLASH) (if c_at s = SLASH then tl s else s)) < length s"
proof (cases s)
  case Nil
  then show ?thesis using assms by (simp add: c_at_def)
next
  case (Cons c cs)
  then show ?thesis using length_dropWhile_le[of "\<lambda>c. c \<noteq> SLASH" cs]
    by (auto simp: c_at_def)
qed

termination split_path
  by (relation "measure length") (use dropWhile_slash_shorter in \<open>auto simp: Let_def\<close>)

declare split_path.simps [simp del]

definition full_split :: "string \<Rightarrow> (string list \<times> string option) kres" where
  "full_split fullpath =
     (let colon = strnchr fullpath MAX_UTAG_NAME COLON;
          type = map_option (\<lambda>p. drop (p + 1) fullpath) colon;
          names = split_path (case colon of None \<Rightarrow> fullpath | Some p \<Rightarrow> take p fullpath)
      in if UTAG_DEPTH < length names then Inl OutOfBounds else Inr (names, type))"

section \<open>What the functions compute\<close>

definition nul_free :: "string \<Rightarrow> bool" where
  "nul_free s \<longleftrightarrow> NUL \<notin> set s"

lemma nul_free_simps [simp]:
  "nul_free []" "nul_free (c # s) \<longleftrightarrow> c \<noteq> NUL \<and> nul_free s"
  "nul_free (s @ t) \<longleftrightarrow> nul_free s \<and> nul_free t"
  by (auto simp: nul_free_def)

lemma nul_free_take [intro]: "nul_free s \<Longrightarrow> nul_free (take n s)"
  using set_take_subset[of n s] by (auto simp: nul_free_def)

lemma nul_free_cstr [simp]: "nul_free (cstr b)"
  by (induction b) (simp_all add: cstr_def)

lemma cstr_nul_free [simp]: "nul_free s \<Longrightarrow> cstr s = s"
  unfolding cstr_def nul_free_def by (rule takeWhile_eq_all_conv[THEN iffD2]) metis

lemma cstr_terminated [simp]: "nul_free s \<Longrightarrow> cstr (s @ NUL # r) = s"
  by (induction s) (simp_all add: cstr_def)

lemma names_match_take:
  "nul_free s1 \<Longrightarrow> nul_free s2 \<Longrightarrow> names_match_loop n s1 s2 \<longleftrightarrow> take n s1 = take n s2"
proof (induction n s1 s2 rule: names_match_loop.induct)
  case (2 n s1 s2)
  then show ?case by (cases s1; cases s2) (auto simp: c_at_def)
qed simp

lemma names_match_eq:
  "nul_free s1 \<Longrightarrow> nul_free s2 \<Longrightarrow> length s1 \<le> MAX_UTAG_NAME \<Longrightarrow> length s2 \<le> MAX_UTAG_NAME \<Longrightarrow>
    names_match s1 s2 \<longleftrightarrow> s1 = s2"
  by (simp add: names_match_def names_match_take)

lemma strsep_terminated:
  assumes "NUL \<in> set b"
  obtains tok rest where "strsep b = Inr (tok, rest)"
    "case rest of None \<Rightarrow> True | Some r \<Rightarrow> length r < length b \<and> (NUL \<in> set r)"
proof -
  let ?P = "\<lambda>c. c \<noteq> COMMA \<and> c \<noteq> NUL"
  obtain c r where cr: "dropWhile ?P b = c # r"
    using assms by (cases "dropWhile ?P b") (auto simp: dropWhile_eq_Nil_conv)
  have b: "b = takeWhile ?P b @ c # r" using cr takeWhile_dropWhile_id[of ?P b] by simp
  have "\<not> ?P c" using cr hd_dropWhile[of ?P b] by simp
  moreover have "NUL \<notin> set (takeWhile ?P b)" by (auto dest: set_takeWhileD)
  moreover have "NUL \<in> set (takeWhile ?P b @ c # r)" using assms by (simp only: b[symmetric])
  ultimately have "c = COMMA \<Longrightarrow> NUL \<in> set r" by auto
  moreover have "length r < length b"
    using arg_cong[OF b, of length] by simp
  ultimately show ?thesis using that[of "takeWhile ?P b" "if c = COMMA then Some r else None"] cr
    by (simp add: strsep_def)
qed

lemma cut_type_nul_free: "nul_free s \<Longrightarrow> length s \<le> MAX_UTAG_NAME \<Longrightarrow>
    cut_type s = takeWhile (\<lambda>c. c \<noteq> COLON) s"
proof -
  assume nf: "nul_free s" and len: "length s \<le> MAX_UTAG_NAME"
  let ?w = "takeWhile (\<lambda>c. c \<noteq> COLON) s"
  have w: "?w = take (length ?w) s" by (rule takeWhile_eq_take)
  show "cut_type s = ?w"
  proof (cases "length ?w < length s")
    case True
    then show ?thesis using nf len w by (simp add: cut_type_def strnchr_def)
  next
    case False
    then have whole: "?w = s" using w by (metis linorder_not_le take_all)
    have "cut_type s = s" using nf len False by (simp add: cut_type_def strnchr_def)
    then show ?thesis by (simp only: whole)
  qed
qed

end
