(* ===== verification/Utag_Format.thy ===== *)
theory Utag_Format
  imports Utag_String
begin

unbundle bit_operations_syntax

text \<open>
  The tags of a partition and their external format: \<open>struct utag\<close>, \<open>struct frozen_utag\<close>,
  \<open>thaw_tags\<close> and \<open>freeze_tags\<close> of \<open>src/drivers/misc/utag/utags.c\<close>. The doubly linked list
  of tags is a list, from its head to its tail; a pointer into it is the rest of the
  list, NULL the empty list. A frozen tag has 44 bytes: a name of 32 bytes and the words
  size, flags and util in network order, followed by the payload, padded to four bytes.

  A payload is the block that \<open>kzalloc(size + 1)\<close> returned, its last byte being zero. The
  allocators are parameters: whether the k-th tag, a payload of n bytes, a buffer of n
  bytes can be allocated.
\<close>

record utag =
  u_name :: string
  u_only :: string
  u_size :: "32 word"
  u_flags :: "32 word"
  u_util :: "32 word"
  u_payload :: "string option"

record ualloc =
  a_tag :: "nat \<Rightarrow> bool"
  a_buf :: "nat \<Rightarrow> bool"
  a_vm :: "nat \<Rightarrow> bool"

abbreviation (input) UTAG_HEAD :: string where "UTAG_HEAD \<equiv> ''__UTAG_HEAD__''"
abbreviation (input) UTAG_TAIL :: string where "UTAG_TAIL \<equiv> ''__UTAG_TAIL__''"
abbreviation (input) UTAG_MIN_TAG_SIZE :: nat where "UTAG_MIN_TAG_SIZE \<equiv> 44"
abbreviation (input) UTAG_FLAG_PROTECTED :: "32 word" where "UTAG_FLAG_PROTECTED \<equiv> 1"

section \<open>Words\<close>

definition roundup4 :: "32 word \<Rightarrow> 32 word" where
  "roundup4 s = (s + 3) AND NOT 3"

definition TO_SECT_SIZE :: "nat \<Rightarrow> nat" where
  "TO_SECT_SIZE n = (n + 511) div 512 * 512"

definition htonl :: "32 word \<Rightarrow> string" where
  "htonl w = map (\<lambda>i. char_of (unat w div 256 ^ i)) [3, 2, 1, 0]"

definition ntohl :: "string \<Rightarrow> 32 word" where
  "ntohl b = word_of_nat (foldl (\<lambda>a c. 256 * a + of_char c) 0 b)"

section \<open>Thawing\<close>

text \<open>
  \<open>strlcpy(cur->name, frozen->name, MAX_UTAG_NAME - 1)\<close> computes the length of the source
  first: it reads until the next NUL, wherever that is.
\<close>

definition thaw_header :: "string \<Rightarrow> nat \<Rightarrow> utag kres" where
  "thaw_header buf ptr =
     (if length buf < ptr + UTAG_MIN_TAG_SIZE \<or> NUL \<notin> set (drop ptr buf) then Inl OutOfBounds
      else let name = strlcpy (MAX_UTAG_NAME - 1) (cstr (drop ptr buf))
           in Inr \<lparr>u_name = name, u_only = cut_type name,
                   u_size = ntohl (take 4 (drop (ptr + 32) buf)),
                   u_flags = ntohl (take 4 (drop (ptr + 36) buf)),
                   u_util = ntohl (take 4 (drop (ptr + 40) buf)),
                   u_payload = None\<rparr>)"

text \<open>
  \<open>kzalloc(cur->size + 1)\<close>: the sum is a 32-bit one; \<open>kzalloc(0)\<close> returns
  \<open>ZERO_SIZE_PTR\<close>, which is not NULL and cannot be written to.
\<close>

definition thaw_payload :: "'a ualloc_scheme \<Rightarrow> string \<Rightarrow> nat \<Rightarrow> utag \<Rightarrow> utag option kres" where
  "thaw_payload al buf ptr cur =
     (if u_size cur = 0 then Inr (Some cur)
      else if u_size cur + 1 = 0 then Inl NullDeref
      else if \<not> a_buf al (unat (u_size cur + 1)) then Inr None
      else if length buf < ptr + UTAG_MIN_TAG_SIZE + unat (u_size cur) then Inl OutOfBounds
      else Inr (Some (cur\<lparr>u_payload :=
             Some (take (unat (u_size cur)) (drop (ptr + UTAG_MIN_TAG_SIZE) buf) @ [NUL])\<rparr>)))"

text \<open>
  The loop, at tag \<open>k\<close> of the list and offset \<open>ptr\<close> of the buffer. \<open>Inr None\<close> is the
  return of NULL after \<open>free_tags\<close>; a tag that cannot be allocated is dereferenced.
\<close>

function thaw_loop :: "'a ualloc_scheme \<Rightarrow> nat \<Rightarrow> string \<Rightarrow> nat \<Rightarrow> nat \<Rightarrow> utag list option kres" where
  "thaw_loop al block_size buf k ptr =
     (case thaw_header buf ptr of
        Inl e \<Rightarrow> Inl e
      | Inr cur \<Rightarrow>
          if k = 0 \<and> u_name cur \<noteq> UTAG_HEAD then Inr None
          else if u_name cur = UTAG_TAIL then (if u_size cur \<noteq> 0 then Inr None else Inr (Some [cur]))
          else if ptr + UTAG_MIN_TAG_SIZE + unat (roundup4 (u_size cur)) + UTAG_MIN_TAG_SIZE > block_size
          then Inr None
          else (case thaw_payload al buf ptr cur of
                  Inl e \<Rightarrow> Inl e
                | Inr None \<Rightarrow> Inr None
                | Inr (Some cur') \<Rightarrow>
                    if \<not> a_tag al (k + 1) then Inl NullDeref
                    else map_sum id (map_option ((#) cur'))
                      (thaw_loop al block_size buf (k + 1)
                        (ptr + UTAG_MIN_TAG_SIZE + unat (roundup4 (u_size cur))))))"
  by pat_completeness auto

termination thaw_loop
  by (relation "measure (\<lambda>(al, block_size, buf, k, ptr). block_size - ptr)") auto

declare thaw_loop.simps [simp del]

definition thaw_tags :: "'a ualloc_scheme \<Rightarrow> nat \<Rightarrow> string \<Rightarrow> utag list option kres" where
  "thaw_tags al block_size buf =
     (if \<not> a_tag al 0 then Inr None else thaw_loop al block_size buf 0 0)"

section \<open>Freezing\<close>

definition frozen_len :: "utag \<Rightarrow> nat" where
  "frozen_len t = unat (roundup4 (u_size t)) + UTAG_MIN_TAG_SIZE"

text \<open>The first walk: the size so far and the tag the walk stopped at.\<close>

fun freeze_walk :: "utag list \<Rightarrow> nat \<Rightarrow> nat \<times> utag list" where
  "freeze_walk [] frozen_size = (frozen_size, [])"
| "freeze_walk (t # ts) frozen_size =
     (if strn_eq MAX_UTAG_NAME (u_name t) UTAG_TAIL then (frozen_size + frozen_len t, t # ts)
      else freeze_walk ts (frozen_size + frozen_len t))"

definition frozen_header :: "utag \<Rightarrow> string" where
  "frozen_header t = take MAX_UTAG_NAME (u_name t @ replicate MAX_UTAG_NAME NUL)
     @ htonl (u_size t) @ htonl (u_flags t) @ htonl (u_util t)"

definition freeze_tag :: "utag \<Rightarrow> string kres" where
  "freeze_tag t =
     kbind (if u_size t = 0 then Inr []
            else (case u_payload t of
                    None \<Rightarrow> Inl NullDeref
                  | Some p \<Rightarrow> if length p < unat (u_size t) then Inl OutOfBounds
                             else Inr (take (unat (u_size t)) p)))
       (\<lambda>p. Inr (frozen_header t @ p @ replicate (unat (roundup4 (u_size t) - u_size t)) NUL))"

fun freeze_emit :: "utag list \<Rightarrow> string kres" where
  "freeze_emit [] = Inl NullDeref"
| "freeze_emit (t # ts) =
     kbind (freeze_tag t) (\<lambda>b.
       if strn_eq MAX_UTAG_NAME (u_name t) UTAG_TAIL then Inr b
       else kbind (freeze_emit ts) (\<lambda>r. Inr (b @ r)))"

text \<open>The frozen image and the list, whose head has received the size of the image.\<close>

definition freeze_tags :: "'a ualloc_scheme \<Rightarrow> nat \<Rightarrow> utag list \<Rightarrow> (string option \<times> utag list) kres" where
  "freeze_tags al block_size tags =
     (case tags of
        [] \<Rightarrow> Inr (None, tags)
      | h # ts \<Rightarrow>
          if \<not> strn_eq MAX_UTAG_NAME (u_name h) UTAG_HEAD then Inr (None, tags)
          else let (raw, cur) = freeze_walk tags 0;
                   frozen_size = TO_SECT_SIZE raw;
                   tags' = h\<lparr>u_util := word_of_nat frozen_size\<rparr> # ts
               in if cur = [] \<or> tl cur \<noteq> [] then Inr (None, tags)
                  else if block_size < frozen_size then Inr (None, tags)
                  else if \<not> a_vm al frozen_size then Inr (None, tags)
                  else kbind (freeze_emit tags') (\<lambda>b.
                         if frozen_size < length b then Inl OutOfBounds
                         else Inr (Some (b @ replicate (frozen_size - length b) NUL), tags')))"

section \<open>Lemmas on words\<close>

lemma unat32: "unat (w::32 word) < 4294967296"
  using unsigned_less[of w] by simp

lemma unat_and_not_3: "unat ((w::32 word) AND NOT 3) = unat w div 4 * 4"
proof -
  have m: "(3::32 word) = mask 2" by (simp add: mask_eq_exp_minus_1)
  have "w AND NOT (mask 2) = push_bit 2 (drop_bit 2 w)"
    by (rule bit_word_eqI) (auto simp: bit_simps le_add_diff_inverse simp del: add_2_eq_Suc)
  moreover have "unat (push_bit 2 (drop_bit 2 w)) = unat w div 4 * 4"
    using unat32[of w] div_times_less_eq_dividend[of "unat w" 4]
    by (simp add: push_bit_eq_mult drop_bit_eq_div unat_word_ariths unat_div_distrib
        order.strict_trans1)
  ultimately show ?thesis by (simp only: m)
qed

lemma unat_roundup4:
  assumes "unat s + 3 < 4294967296"
  shows "unat (roundup4 s) = (unat s + 3) div 4 * 4"
proof -
  have "unat (s + 3) = unat s + 3" using assms by (simp add: unat_word_ariths)
  then show ?thesis by (simp only: roundup4_def unat_and_not_3)
qed

lemma horner4:
  "256 * (256 * (256 * (n div 16777216) + n div 65536 mod 256) + n div 256 mod 256)
    + n mod 256 = (n::nat)"
proof -
  have e: "n div 65536 = n div 256 div 256" "n div 16777216 = n div 256 div 256 div 256"
    by (simp_all add: div_mult2_eq[symmetric])
  show ?thesis unfolding e using mult_div_mod_eq[of 256] by simp
qed

lemma ntohl_htonl [simp]: "ntohl (htonl w) = w"
proof -
  have "foldl (\<lambda>a c. 256 * a + of_char c) 0 (htonl w) = unat w"
    using horner4[of "unat w"] unat32[of w]
    by (simp add: htonl_def of_char_of take_bit_eq_mod del: mult_div_mod_eq)
  then show ?thesis by (simp add: ntohl_def)
qed

lemma length_htonl [simp]: "length (htonl w) = 4"
  by (simp add: htonl_def)

end
