(* ===== verification/Utag_Roundtrip.thy ===== *)
theory Utag_Roundtrip
  imports Utag_Format
begin

text \<open>
  What thawing and freezing promise: a thawed list has the shape the rest of the store
  relies on, whatever the bytes of the partition are; the buffers on which thawing
  faults; and thawing is the inverse of freezing.
\<close>

section \<open>The shape of a list of tags\<close>

definition payload_ok :: "utag \<Rightarrow> bool" where
  "payload_ok t \<longleftrightarrow>
     (case u_payload t of None \<Rightarrow> u_size t = 0 | Some p \<Rightarrow> length p = unat (u_size t) + 1)"

text \<open>A tag as \<open>thaw_tags\<close> leaves it.\<close>

definition thawed_tag :: "utag \<Rightarrow> bool" where
  "thawed_tag t \<longleftrightarrow> nul_free (u_name t) \<and> length (u_name t) \<le> 30 \<and> u_only t = cut_type (u_name t) \<and>
     (case u_payload t of None \<Rightarrow> u_size t = 0
      | Some p \<Rightarrow> u_size t \<noteq> 0 \<and> length p = unat (u_size t) + 1 \<and> last p = NUL)"

fun ends_with_tail :: "utag list \<Rightarrow> bool" where
  "ends_with_tail [] = False"
| "ends_with_tail [t] = (u_name t = UTAG_TAIL \<and> u_size t = 0)"
| "ends_with_tail (t # ts) = (u_name t \<noteq> UTAG_TAIL \<and> ends_with_tail ts)"

definition tag_list :: "utag list \<Rightarrow> bool" where
  "tag_list ts \<longleftrightarrow> ends_with_tail ts \<and> u_name (hd ts) = UTAG_HEAD"

lemma thawed_payload_ok: "thawed_tag t \<Longrightarrow> payload_ok t"
  by (auto simp: thawed_tag_def payload_ok_def split: option.splits)

lemma ends_with_tail_Cons:
  "ends_with_tail (t # ts) \<longleftrightarrow>
     (if ts = [] then u_name t = UTAG_TAIL \<and> u_size t = 0 else u_name t \<noteq> UTAG_TAIL \<and> ends_with_tail ts)"
  by (cases ts) simp_all

lemma tag_name_eq [simp]:
  "length s \<le> MAX_UTAG_NAME \<Longrightarrow> length c \<le> MAX_UTAG_NAME \<Longrightarrow> strn_eq MAX_UTAG_NAME s c \<longleftrightarrow> s = c"
  by (simp add: strn_eq_def)

section \<open>Thawing\<close>

lemma thaw_headerE:
  assumes "thaw_header buf ptr = Inr cur"
  shows "thawed_tag (cur\<lparr>u_size := 0\<rparr>)" "u_payload cur = None" "ptr + UTAG_MIN_TAG_SIZE \<le> length buf"
    "u_size cur = ntohl (take 4 (drop (ptr + 32) buf))"
proof -
  have "length (take 30 s) \<le> 30" for s :: string by simp
  then show "thawed_tag (cur\<lparr>u_size := 0\<rparr>)" "u_payload cur = None"
    "ptr + UTAG_MIN_TAG_SIZE \<le> length buf" "u_size cur = ntohl (take 4 (drop (ptr + 32) buf))"
    using assms
    by (auto simp: thaw_header_def Let_def thawed_tag_def strlcpy_def split: if_splits
        intro!: nul_free_take)
qed

lemma thaw_payloadE:
  assumes "thaw_payload al buf ptr cur = Inr (Some cur')" "thawed_tag (cur\<lparr>u_size := 0\<rparr>)"
    "u_payload cur = None"
  shows "thawed_tag cur'" "u_name cur' = u_name cur" "u_size cur' = u_size cur"
  using assms by (auto simp: thaw_payload_def thawed_tag_def split: if_splits)

lemma thaw_loop_shape:
  assumes "thaw_loop al bs buf k ptr = Inr (Some ts)"
  shows "ends_with_tail ts \<and> (\<forall>t\<in>set ts. thawed_tag t) \<and> (k = 0 \<longrightarrow> u_name (hd ts) = UTAG_HEAD) \<and>
    ptr + sum_list (map frozen_len ts) \<le> length buf"
  using assms
proof (induction al bs buf k ptr arbitrary: ts rule: thaw_loop.induct)
  case (1 al bs buf k ptr)
  obtain cur where cur: "thaw_header buf ptr = Inr cur"
    using "1.prems" by (cases "thaw_header buf ptr") (simp_all add: thaw_loop.simps)
  note hdr = thaw_headerE[OF cur]
  show ?case
  proof (cases "u_name cur = UTAG_TAIL")
    case True
    then have "ts = [cur]" "u_size cur = 0" "k \<noteq> 0" using "1.prems" cur
      by (auto simp: thaw_loop.simps[of al bs buf k ptr] split: if_splits)
    then show ?thesis using hdr True
      by (auto simp: frozen_len_def roundup4_def thawed_tag_def)
  next
    case False
    let ?next = "ptr + UTAG_MIN_TAG_SIZE + unat (roundup4 (u_size cur))"
    from "1.prems" cur False obtain cur' ts' where step:
      "\<not> (k = 0 \<and> u_name cur \<noteq> UTAG_HEAD)" "\<not> ?next + UTAG_MIN_TAG_SIZE > bs"
      "thaw_payload al buf ptr cur = Inr (Some cur')" "a_tag al (k + 1)"
      "thaw_loop al bs buf (k + 1) ?next = Inr (Some ts')" "ts = cur' # ts'"
      by (auto simp: thaw_loop.simps[of al bs buf k ptr] map_sum_def
          split: if_splits sum.splits option.splits)
    have IH: "ends_with_tail ts' \<and> (\<forall>t\<in>set ts'. thawed_tag t) \<and>
        ?next + sum_list (map frozen_len ts') \<le> length buf"
      using "1.IH"[OF cur step(1) False step(2) step(3) refl _ step(5)] step(4) by simp
    note pl = thaw_payloadE[OF step(3) hdr(1,2)]
    have "frozen_len cur' = unat (roundup4 (u_size cur)) + UTAG_MIN_TAG_SIZE"
      by (simp add: frozen_len_def pl(3))
    then show ?thesis using IH pl step(1,6) False by (auto simp: ends_with_tail_Cons)
  qed
qed

text \<open>
  The offsets of the tags a walk over the buffer visits, and the words that make it
  fault.
\<close>

lemma thaw_loop_fault:
  assumes "thaw_loop al bs buf k ptr = Inl e" "ptr + UTAG_MIN_TAG_SIZE \<le> length buf" "bs = length buf"
    and big: "\<And>n. 2 ^ 31 < n \<Longrightarrow> \<not> a_buf al n"
  shows "(\<exists>p. p + UTAG_MIN_TAG_SIZE \<le> length buf \<and>
           (e = OutOfBounds \<and> NUL \<notin> set (drop p buf) \<or>
            e = NullDeref \<and> ntohl (take 4 (drop (p + 32) buf)) = 0xFFFFFFFF))
    \<or> e = NullDeref \<and> (\<exists>i. \<not> a_tag al i)"
  using assms
proof (induction al bs buf k ptr rule: thaw_loop.induct)
  case (1 al bs buf k ptr)
  show ?case
  proof (cases "thaw_header buf ptr")
    case (Inl f)
    then have "e = f" using "1.prems"(1) by (simp add: thaw_loop.simps[of al bs buf k ptr])
    then have "e = OutOfBounds \<and> NUL \<notin> set (drop ptr buf)" using Inl "1.prems"(2)
      by (auto simp: thaw_header_def Let_def split: if_splits)
    then show ?thesis using "1.prems"(2) by blast
  next
    case (Inr cur)
    note hdr = thaw_headerE[OF Inr]
    let ?next = "ptr + UTAG_MIN_TAG_SIZE + unat (roundup4 (u_size cur))"
    have c: "\<not> (k = 0 \<and> u_name cur \<noteq> UTAG_HEAD)" "u_name cur \<noteq> UTAG_TAIL"
      "\<not> ?next + UTAG_MIN_TAG_SIZE > bs"
      using "1.prems"(1) Inr by (auto simp: thaw_loop.simps[of al bs buf k ptr] split: if_splits)
    consider (pay) "thaw_payload al buf ptr cur = Inl e" | (tag) "e = NullDeref" "\<not> a_tag al (k + 1)"
      | (rest) cur' where "thaw_payload al buf ptr cur = Inr (Some cur')" "a_tag al (k + 1)"
        "thaw_loop al bs buf (k + 1) ?next = Inl e"
      using "1.prems"(1) Inr c
      by (auto simp: thaw_loop.simps[of al bs buf k ptr] map_sum_def
          split: if_splits sum.splits option.splits)
    then show ?thesis
    proof cases
      case pay
      show ?thesis
      proof (cases "u_size cur + 1 = 0")
        case True
        then have "u_size cur = 0xFFFFFFFF" by (simp add: add_eq_0_iff2)
        moreover have "e = NullDeref" using pay True by (auto simp: thaw_payload_def split: if_splits)
        ultimately show ?thesis using hdr(3,4) by auto
      next
        case False
        then have s: "a_buf al (unat (u_size cur + 1))"
          "length buf < ptr + UTAG_MIN_TAG_SIZE + unat (u_size cur)"
          using pay by (auto simp: thaw_payload_def split: if_splits)
        have "unat (u_size cur + 1) = unat (u_size cur) + 1"
          using False by (metis Suc_eq_plus1 add.commute unatSuc)
        then have "unat (u_size cur) < 2 ^ 31"
          using s(1) "1.prems"(4)[of "unat (u_size cur) + 1"] by fastforce
        then have "unat (roundup4 (u_size cur)) = (unat (u_size cur) + 3) div 4 * 4"
          by (intro unat_roundup4) simp
        then have "unat (roundup4 (u_size cur)) \<ge> unat (u_size cur)" by linarith
        then show ?thesis using s(2) c(3) "1.prems"(3) by simp
      qed
    next
      case tag
      then show ?thesis by blast
    next
      case rest
      show ?thesis
        using "1.IH"[OF Inr c rest(1) refl _ rest(3)] rest(2) c(3) "1.prems"(3,4) by simp
    qed
  qed
qed

section \<open>Freezing\<close>

definition frozen_body :: "utag \<Rightarrow> string" where
  "frozen_body t = (case u_payload t of None \<Rightarrow> [] | Some p \<Rightarrow> take (unat (u_size t)) p)
     @ replicate (unat (roundup4 (u_size t)) - unat (u_size t)) NUL"

definition small_tag :: "utag \<Rightarrow> bool" where
  "small_tag t \<longleftrightarrow> unat (u_size t) + 3 < 4294967296"

lemma roundup4_ge: "small_tag t \<Longrightarrow> unat (u_size t) \<le> unat (roundup4 (u_size t))"
  unfolding small_tag_def by (simp add: unat_roundup4)

lemma frozen_name:
  "length s \<le> 31 \<Longrightarrow>
    take MAX_UTAG_NAME (s @ replicate MAX_UTAG_NAME NUL) = s @ NUL # replicate (31 - length s) NUL"
  by (simp add: Suc_diff_le flip: replicate_Suc)

lemma length_frozen_header [simp]: "length (frozen_header t) = UTAG_MIN_TAG_SIZE"
  by (simp add: frozen_header_def)

lemma length_frozen_body:
  "small_tag t \<Longrightarrow> payload_ok t \<Longrightarrow> length (frozen_body t) + UTAG_MIN_TAG_SIZE = frozen_len t"
  using roundup4_ge[of t]
  by (auto simp: frozen_body_def frozen_len_def payload_ok_def split: option.splits)

lemma freeze_tag_ok:
  assumes "small_tag t" "payload_ok t"
  shows "freeze_tag t = Inr (frozen_header t @ frozen_body t)"
proof -
  have "unat (roundup4 (u_size t) - u_size t) = unat (roundup4 (u_size t)) - unat (u_size t)"
    using roundup4_ge[OF assms(1)] by (simp add: unat_sub word_le_nat_alt)
  then show ?thesis using assms(2)
    by (auto simp: freeze_tag_def frozen_body_def payload_ok_def split: option.splits)
qed

lemma freeze_walk_ok:
  assumes "ends_with_tail ts" "\<forall>t\<in>set ts. length (u_name t) \<le> MAX_UTAG_NAME"
  shows "freeze_walk ts n = (n + sum_list (map frozen_len ts), [last ts])"
  using assms by (induction ts n rule: freeze_walk.induct) (auto simp: ends_with_tail_Cons split: if_splits)

lemma freeze_emit_ok:
  assumes "ends_with_tail ts" "\<forall>t\<in>set ts. length (u_name t) \<le> MAX_UTAG_NAME \<and> small_tag t \<and> payload_ok t"
  shows "freeze_emit ts = Inr (concat (map (\<lambda>t. frozen_header t @ frozen_body t) ts))"
  using assms
  by (induction ts rule: freeze_emit.induct) (auto simp: ends_with_tail_Cons freeze_tag_ok split: if_splits)

lemma length_frozen_tags:
  assumes "\<forall>t\<in>set ts. small_tag t \<and> payload_ok t"
  shows "length (concat (map (\<lambda>t. frozen_header t @ frozen_body t) ts)) = sum_list (map frozen_len ts)"
  using assms length_frozen_body by (induction ts) fastforce+

lemma TO_SECT_SIZE_ge: "n \<le> TO_SECT_SIZE n"
  unfolding TO_SECT_SIZE_def by linarith

text \<open>Every list of tags of the right shape can be frozen when it fits.\<close>

definition storable :: "utag \<Rightarrow> bool" where
  "storable t \<longleftrightarrow> length (u_name t) \<le> 31 \<and> nul_free (u_name t) \<and> small_tag t \<and> payload_ok t"

definition set_head_util :: "utag list \<Rightarrow> 32 word \<Rightarrow> utag list" where
  "set_head_util ts w = (hd ts)\<lparr>u_util := w\<rparr> # tl ts"

definition image_size :: "utag list \<Rightarrow> nat" where
  "image_size ts = TO_SECT_SIZE (sum_list (map frozen_len ts))"

definition tag_image :: "utag list \<Rightarrow> string" where
  "tag_image ts = (let b = concat (map (\<lambda>t. frozen_header t @ frozen_body t) ts)
     in b @ replicate (image_size ts - length b) NUL)"

lemma frozen_len_util [simp]: "frozen_len (t\<lparr>u_util := w\<rparr>) = frozen_len t"
  by (simp add: frozen_len_def)

lemma storable_util [simp]: "storable (t\<lparr>u_util := w\<rparr>) = storable t"
  by (simp add: storable_def small_tag_def payload_ok_def split: option.split)

lemma ends_with_tail_util [simp]:
  "ts \<noteq> [] \<Longrightarrow> ends_with_tail (set_head_util ts w) = ends_with_tail ts"
  by (cases ts) (simp_all add: ends_with_tail_Cons set_head_util_def)

lemma tag_list_nonempty: "tag_list ts \<Longrightarrow> ts \<noteq> []"
  by (auto simp: tag_list_def)

lemma tag_list_util [simp]: "ts \<noteq> [] \<Longrightarrow> tag_list (set_head_util ts w) = tag_list ts"
  by (cases ts) (simp_all add: tag_list_def set_head_util_def ends_with_tail_Cons)

lemma image_size_util [simp]: "ts \<noteq> [] \<Longrightarrow> image_size (set_head_util ts w) = image_size ts"
  by (cases ts) (simp_all add: image_size_def set_head_util_def)

lemma storable_set_util [simp]:
  "ts \<noteq> [] \<Longrightarrow> (\<forall>t\<in>set (set_head_util ts w). storable t) \<longleftrightarrow> (\<forall>t\<in>set ts. storable t)"
  by (cases ts) (simp_all add: set_head_util_def)

lemma length_image:
  assumes "\<forall>t\<in>set ts. storable t"
  shows "length (tag_image ts) = image_size ts"
  using length_frozen_tags[of ts] assms TO_SECT_SIZE_ge[of "sum_list (map frozen_len ts)"]
  by (simp add: tag_image_def image_size_def Let_def storable_def)

lemma freeze_tags_ok:
  assumes ts: "tag_list ts" "\<forall>t\<in>set ts. storable t"
    and fits: "image_size ts \<le> bs" "a_vm al (image_size ts)"
  shows "freeze_tags al bs ts =
    (let ts' = set_head_util ts (word_of_nat (image_size ts)) in Inr (Some (tag_image ts'), ts'))"
proof -
  obtain h r where hr: "ts = h # r" using ts(1) by (cases ts) (auto simp: tag_list_def)
  let ?ts' = "set_head_util ts (word_of_nat (image_size ts))"
  have ok': "\<forall>t\<in>set ?ts'. storable t" "ends_with_tail ?ts'"
    using ts hr by (simp_all add: tag_list_def)
  have names: "\<forall>t\<in>set ts. length (u_name t) \<le> MAX_UTAG_NAME" using ts(2) by (auto simp: storable_def)
  have walk: "freeze_walk ts 0 = (sum_list (map frozen_len ts), [last ts])"
    using freeze_walk_ok[OF _ names, of 0] ts(1) by (simp add: tag_list_def)
  have emit: "freeze_emit ?ts' = Inr (concat (map (\<lambda>t. frozen_header t @ frozen_body t) ?ts'))"
    by (rule freeze_emit_ok) (use ok' in \<open>auto simp: storable_def\<close>)
  have len: "length (concat (map (\<lambda>t. frozen_header t @ frozen_body t) ?ts')) = sum_list (map frozen_len ts)"
    using length_frozen_tags[of ?ts'] ok'(1) hr by (simp add: storable_def set_head_util_def)
  have head: "u_name h = UTAG_HEAD" using ts(1) hr by (simp add: tag_list_def)
  have "?ts' = h\<lparr>u_util := word_of_nat (image_size ts)\<rparr> # r" by (simp add: hr set_head_util_def)
  then show ?thesis
    using walk emit len fits head TO_SECT_SIZE_ge[of "sum_list (map frozen_len ts)"] hr
    by (simp add: freeze_tags_def tag_image_def image_size_def Let_def)
qed

section \<open>Thawing what was frozen\<close>

lemma thaw_frozen_header:
  assumes "nul_free (u_name t) \<and> length (u_name t) \<le> 30 \<and> u_only t = cut_type (u_name t)"
    "buf = pre @ frozen_header t @ rest" "ptr = length pre"
  shows "thaw_header buf ptr = Inr (t\<lparr>u_payload := None\<rparr>)"
proof -
  let ?pad = "NUL # replicate (31 - length (u_name t)) NUL"
  have hdr: "frozen_header t = u_name t @ ?pad @ htonl (u_size t) @ htonl (u_flags t) @ htonl (u_util t)"
    using assms(1) frozen_name[of "u_name t"] by (simp add: frozen_header_def)
  have len: "length (u_name t @ ?pad) = 32" using assms(1) by (simp add:)
  have d: "drop (ptr + 32 + n) buf =
      drop n (htonl (u_size t) @ htonl (u_flags t) @ htonl (u_util t) @ rest)" for n
  proof -
    let ?words = "htonl (u_size t) @ htonl (u_flags t) @ htonl (u_util t) @ rest"
    have "drop ptr buf = (u_name t @ ?pad) @ ?words" by (simp add: assms(2,3) hdr)
    then have "drop 32 (drop ptr buf) = drop 32 (u_name t @ ?pad) @ drop (32 - length (u_name t @ ?pad)) ?words"
      by (simp only: drop_append)
    then have "drop 32 (drop ptr buf) = ?words" using len by (simp only: drop_all diff_self_eq_0 drop_0 order_refl append_Nil)
    moreover have "drop (ptr + 32 + n) buf = drop n (drop 32 (drop ptr buf))" by (simp add: add.commute)
    ultimately show ?thesis by (simp only:)
  qed
  have name: "strlcpy (MAX_UTAG_NAME - 1) (cstr (drop ptr buf)) = u_name t"
    using assms(1) by (simp add: assms(2,3) hdr strlcpy_def)
  have "NUL \<in> set (drop ptr buf)" by (simp add: assms(2,3) hdr)
  moreover have "\<not> length buf < ptr + UTAG_MIN_TAG_SIZE" by (simp add: assms(2,3))
  ultimately show ?thesis using name d[of 0] d[of 4] d[of 8] assms(1)
    by (simp add: thaw_header_def Let_def add.commute)
qed

lemma thaw_frozen_payload:
  assumes "thawed_tag t" "small_tag t" "buf = pre @ frozen_header t @ frozen_body t @ rest"
    "ptr = length pre" "a_buf al (unat (u_size t) + 1)"
  shows "thaw_payload al buf ptr (t\<lparr>u_payload := None\<rparr>) = Inr (Some t)"
proof (cases "u_payload t")
  case None
  then show ?thesis using assms(1) by (simp add: thaw_payload_def thawed_tag_def)
next
  case (Some p)
  then have p: "u_size t \<noteq> 0" "length p = unat (u_size t) + 1" "last p = NUL"
    using assms(1) by (simp_all add: thawed_tag_def)
  have "u_size t + 1 \<noteq> 0" using assms(2) 
    by (auto simp: small_tag_def add_eq_0_iff2 unsigned_minus_1_eq_mask mask_eq_exp_minus_1)
  moreover from this have "unat (u_size t + 1) = unat (u_size t) + 1"
    by (metis Suc_eq_plus1 add.commute unatSuc)
  moreover have "take (unat (u_size t)) p @ [NUL] = p"
    using p by (metis append_butlast_last_id butlast_conv_take diff_add_inverse2 list.size(3) nat.simps(3) Suc_eq_plus1)
  ultimately show ?thesis using p Some assms(5)
    by (simp add: thaw_payload_def assms(3,4) frozen_body_def)
qed

lemma thaw_loop_frozen:
  assumes "ends_with_tail ts" "k = 0 \<longrightarrow> u_name (hd ts) = UTAG_HEAD"
    "\<forall>t\<in>set ts. thawed_tag t \<and> small_tag t \<and> a_buf al (unat (u_size t) + 1)" "\<forall>i. a_tag al i"
    "buf = pre @ concat (map (\<lambda>t. frozen_header t @ frozen_body t) ts) @ rest"
  shows "thaw_loop al (length buf) buf k (length pre) = Inr (Some ts)"
  using assms
proof (induction ts arbitrary: k pre)
  case Nil
  then show ?case by simp
next
  case (Cons t ts)
  let ?tail = "concat (map (\<lambda>t. frozen_header t @ frozen_body t) ts) @ rest"
  have t: "thawed_tag t" "small_tag t" "a_buf al (unat (u_size t) + 1)" using Cons.prems(3) by simp_all
  have buf: "buf = pre @ frozen_header t @ frozen_body t @ ?tail" using Cons.prems(5) by simp
  have hdr: "thaw_header buf (length pre) = Inr (t\<lparr>u_payload := None\<rparr>)"
    by (rule thaw_frozen_header[OF _ buf refl]) (use t(1) in \<open>simp add: thawed_tag_def\<close>)
  have pay: "thaw_payload al buf (length pre) (t\<lparr>u_payload := None\<rparr>) = Inr (Some t)"
    by (rule thaw_frozen_payload[OF t(1,2) buf refl t(3)])
  show ?case
  proof (cases "ts = []")
    case True
    then have tail: "u_name t = UTAG_TAIL" "u_size t = 0" "u_payload t = None"
      using Cons.prems(1) t(1) by (auto simp: thawed_tag_def split: option.splits)
    have "k \<noteq> 0" using Cons.prems(2) tail by auto
    then show ?thesis using True tail hdr by (simp add: thaw_loop.simps[of al "length buf" buf k "length pre"])
  next
    case False
    then have nt: "u_name t \<noteq> UTAG_TAIL" "ends_with_tail ts"
      using Cons.prems(1) by (simp_all add: ends_with_tail_Cons)
    let ?pre = "pre @ frozen_header t @ frozen_body t"
    have len: "length ?pre = length pre + UTAG_MIN_TAG_SIZE + unat (roundup4 (u_size t))"
      using length_frozen_body[OF t(2) thawed_payload_ok[OF t(1)]] by (simp add: frozen_len_def)
    have "UTAG_MIN_TAG_SIZE \<le> length ?tail" using False by (cases ts) simp_all
    then have room: "\<not> length pre + UTAG_MIN_TAG_SIZE + unat (roundup4 (u_size t)) + UTAG_MIN_TAG_SIZE > length buf"
      using len arg_cong[OF buf, of length] by simp
    have "thaw_loop al (length buf) buf (k + 1) (length ?pre) = Inr (Some ts)"
      by (rule Cons.IH) (use Cons.prems nt in auto)
    then have IH: "thaw_loop al (length buf) buf (k + 1)
        (length pre + UTAG_MIN_TAG_SIZE + unat (roundup4 (u_size t))) = Inr (Some ts)" by (simp only: len)
    have "0 < k \<or> u_name t = UTAG_HEAD" using Cons.prems(2) by (cases k) simp_all
    then show ?thesis using hdr pay room IH Cons.prems(4) nt
      by (simp add: thaw_loop.simps[of al "length buf" buf k "length pre"])
  qed
qed

lemma thaw_image:
  assumes "tag_list ts" "\<forall>t\<in>set ts. thawed_tag t \<and> small_tag t \<and> a_buf al (unat (u_size t) + 1)"
    "\<forall>i. a_tag al i"
  shows "thaw_tags al (length (tag_image ts @ rest)) (tag_image ts @ rest) = Inr (Some ts)"
  using thaw_loop_frozen[of ts 0 al "tag_image ts @ rest" "[]"] assms
  by (simp add: thaw_tags_def tag_image_def Let_def tag_list_def)

end
