(* ===== verification/Utag_Store.thy ===== *)
theory Utag_Store
  imports Utag_Format
begin

unbundle bit_operations_syntax

text \<open>
  The tag store over its block devices: \<open>struct ctrl\<close>, opening, loading and storing a
  partition, looking a tag up, checking and replacing its payload, adding a tag
  (\<open>src/drivers/misc/utag/utags.c\<close>). The variant of the file access is the one of kernels
  from 5.4 to 5.10, \<open>kernel_read\<close> and \<open>kernel_write\<close> on an opened file.

  The kernel is a parameter, the record \<open>uenv\<close>: what an open of a device returns, whether
  it is a block device, how many bytes a read or write transfers or its negative error,
  and which allocations succeed. The bytes of the devices are the component \<open>c_media\<close> of
  the state, by their path. The work queues run one load or one store at a time and their
  callers wait for the completion, so a queued work is a call.
\<close>

abbreviation (input) EROFS :: int where "EROFS \<equiv> 30"
abbreviation (input) UTAG_STATUS_LOADED :: char where "UTAG_STATUS_LOADED \<equiv> CHR ''0''"
abbreviation (input) UTAG_STATUS_RELOAD :: char where "UTAG_STATUS_RELOAD \<equiv> CHR ''1''"
abbreviation (input) UTAG_STATUS_NOT_READY :: char where "UTAG_STATUS_NOT_READY \<equiv> CHR ''2''"
abbreviation (input) UTAG_STATUS_FAILED :: char where "UTAG_STATUS_FAILED \<equiv> CHR ''3''"

datatype utag_output = OUT_ASCII | OUT_RAW | OUT_TYPE

text \<open>Directory entries of procfs are numbers, 0 being the root directory of the store.\<close>

record proc_node =
  p_name :: string
  p_type :: string
  p_file :: string
  p_dir :: nat
  p_mode :: utag_output

record dir_node =
  d_name :: string
  d_path :: string
  d_dir :: nat
  d_parent :: nat

record blkdev =
  b_name :: "string option"
  b_filep :: bool
  b_size :: nat

type_synonym media = "string \<Rightarrow> string"

record ctrl =
  c_main :: blkdev
  c_backup :: blkdev
  c_reload :: char
  c_rsize :: nat
  c_dirs :: "dir_node list"
  c_nodes :: "proc_node list"
  c_dir_name :: string
  c_lock :: bool
  c_hwtag :: bool
  c_held :: bool
  c_bad_unlock :: bool
  c_attrib :: "utag option"
  c_features :: "utag option"
  c_head :: "utag list"
  c_result :: int
  c_media :: media
  c_next :: nat

record uenv = ualloc +
  e_open :: "string \<Rightarrow> bool \<Rightarrow> int"
  e_isblk :: "string \<Rightarrow> bool"
  e_read :: "string \<Rightarrow> nat \<Rightarrow> int"
  e_write :: "string \<Rightarrow> nat \<Rightarrow> int"
  e_new :: "string \<Rightarrow> bool"
  e_node :: "string \<Rightarrow> bool"
  e_mkdir :: "string \<Rightarrow> nat \<Rightarrow> bool"
  e_user :: bool

section \<open>Devices\<close>

definition size_t :: "int \<Rightarrow> nat" where
  "size_t r = nat (r mod 18446744073709551616)"

definition dev_path :: "blkdev \<Rightarrow> string" where
  "dev_path cb = (case b_name cb of None \<Rightarrow> [] | Some n \<Rightarrow> n)"

text \<open>The tail of \<open>open_utags\<close>, once the file is open.\<close>

definition opened :: "uenv \<Rightarrow> media \<Rightarrow> blkdev \<Rightarrow> int \<times> blkdev" where
  "opened env md cb =
     (if \<not> e_isblk env (dev_path cb) then (- EIO, cb\<lparr>b_filep := False\<rparr>)
      else (0, cb\<lparr>b_filep := True, b_size := length (md (dev_path cb))\<rparr>))"

definition open_utags :: "uenv \<Rightarrow> media \<Rightarrow> blkdev \<Rightarrow> int \<times> blkdev" where
  "open_utags env md cb =
     (if b_name cb = None then (- EIO, cb)
      else if b_filep cb then (0, cb)
      else let rw = e_open env (dev_path cb) True; ro = e_open env (dev_path cb) False
           in if rw < 0 then
                (if rw = - EROFS then (if ro < 0 then (ro, cb) else opened env md cb)
                 else (rw, cb))
              else opened env md cb)"

definition kernel_read_stub :: "uenv \<Rightarrow> media \<Rightarrow> blkdev \<Rightarrow> nat \<Rightarrow> (int \<times> string) kres" where
  "kernel_read_stub env md cb count =
     (if \<not> b_filep cb then Inl NullDeref
      else let r = e_read env (dev_path cb) count;
               n = min (nat r) (min count (length (md (dev_path cb))))
           in Inr (if r < 0 then (r, []) else (int n, take n (md (dev_path cb)))))"

definition kernel_write_stub :: "uenv \<Rightarrow> media \<Rightarrow> blkdev \<Rightarrow> string \<Rightarrow> (int \<times> media) kres" where
  "kernel_write_stub env md cb data =
     (if \<not> b_filep cb then Inl NullDeref
      else let r = e_write env (dev_path cb) (length data);
               n = min (nat r) (min (length data) (length (md (dev_path cb))))
           in Inr (if r < 0 then (r, md)
                   else (int n, md(dev_path cb := take n data @ drop n (md (dev_path cb))))))"

section \<open>Storing\<close>

definition store_backup :: "uenv \<Rightarrow> ctrl \<Rightarrow> string \<Rightarrow> int \<Rightarrow> (int \<times> ctrl) kres" where
  "store_backup env c data rc =
     (if b_name (c_backup c) = None then Inr (rc, c)
      else let (r, cb) = open_utags env (c_media c) (c_backup c); c1 = c\<lparr>c_backup := cb\<rparr>
           in if r \<noteq> 0 then Inr (- EIO, c1)
              else kbind (kernel_write_stub env (c_media c1) cb data) (\<lambda>(w, md).
                     Inr (if size_t w < length data then - EIO else rc, c1\<lparr>c_media := md\<rparr>)))"

definition store_utags :: "uenv \<Rightarrow> ctrl \<Rightarrow> utag list \<Rightarrow> (int \<times> ctrl) kres" where
  "store_utags env c tags =
     kbind (freeze_tags env (b_size (c_main c)) tags) (\<lambda>(datap, tags').
       let c0 = c\<lparr>c_head := tags'\<rparr>
       in case datap of
            None \<Rightarrow> Inr (- EIO, c0)
          | Some data \<Rightarrow>
              let (r, cb) = open_utags env (c_media c0) (c_main c0); c1 = c0\<lparr>c_main := cb\<rparr>
              in if r \<noteq> 0 then Inr (- EIO, c1)
                 else kbind (kernel_write_stub env (c_media c1) cb data) (\<lambda>(w, md).
                        store_backup env (c1\<lparr>c_media := md\<rparr>) data
                          (if size_t w < length data then - EIO else 0)))"

definition store_work_func :: "uenv \<Rightarrow> ctrl \<Rightarrow> ctrl kres" where
  "store_work_func env c =
     kbind (store_utags env c (c_head c)) (\<lambda>(rc, c'). Inr (c'\<lparr>c_result := rc\<rparr>))"

section \<open>The list of tags\<close>

definition empty_utag :: "string \<Rightarrow> utag" where
  "empty_utag name = \<lparr>u_name = name, u_only = [], u_size = 0, u_flags = 0, u_util = 0, u_payload = None\<rparr>"

definition add_utag_tail :: "uenv \<Rightarrow> utag list \<Rightarrow> string \<Rightarrow> string option \<Rightarrow> int \<times> utag list" where
  "add_utag_tail env head utag_name utag_type =
     (let utag = take (MAX_UTAG_NAME - 1)
                   (utag_name @ (case utag_type of None \<Rightarrow> [] | Some t \<Rightarrow> COLON # t))
      in if \<exists>t\<in>set (butlast head). strn_eq MAX_UTAG_NAME (u_only t) utag then (- EEXIST, head)
         else if \<not> e_new env utag then (- ENOMEM, head)
         else if length head = 1 then (0, head @ [empty_utag utag])
         else (0, butlast head @ [empty_utag utag, last head]))"

text \<open>The result is the position of the tag; the head and the tail are not looked at.\<close>

definition find_first_utag :: "utag list \<Rightarrow> string \<Rightarrow> nat option" where
  "find_first_utag head name =
     List.find (\<lambda>i. names_match name (u_name (head ! i))) [1..<length head - 1]"

section \<open>Loading\<close>

definition init_empty :: "uenv \<Rightarrow> ctrl \<Rightarrow> (int \<times> ctrl) kres" where
  "init_empty env c =
     (if \<not> e_new env UTAG_HEAD then Inr (- ENOMEM, c)
      else let tags = snd (add_utag_tail env [empty_utag UTAG_HEAD] UTAG_TAIL None)
           in kbind (store_work_func env (c\<lparr>c_head := tags\<rparr>)) (\<lambda>c'. Inr (0, c')))"

definition read_head :: "uenv \<Rightarrow> media \<Rightarrow> blkdev \<Rightarrow> (int + utag) kres" where
  "read_head env md cb =
     (if \<not> a_vm env UTAG_MIN_TAG_SIZE then Inr (Inl (- ENOMEM))
      else kbind (kernel_read_stub env md cb UTAG_MIN_TAG_SIZE) (\<lambda>(bytes, buf).
             if int UTAG_MIN_TAG_SIZE > bytes then Inr (Inl (- EIO))
             else kbind (thaw_header buf 0) (\<lambda>htag.
                    if \<not> strn_eq MAX_UTAG_NAME (u_name htag) UTAG_HEAD then Inr (Inl (- EIO))
                    else Inr (Inr htag))))"

definition data_size :: "uenv \<Rightarrow> ctrl \<Rightarrow> (nat \<times> ctrl) kres" where
  "data_size env c =
     kbind (read_head env (c_media c) (c_main c)) (\<lambda>r. case r of
       Inl e \<Rightarrow> Inr (0, c)
     | Inr htag \<Rightarrow>
         let util = unat (u_util htag); size = b_size (c_main c);
             bytes = (if c_hwtag c then (if c_rsize c = 0 \<or> util = 0 \<or> util > size then size else util)
                      else size)
         in Inr (bytes, c\<lparr>c_lock := (u_flags htag AND UTAG_FLAG_PROTECTED \<noteq> 0), c_rsize := bytes\<rparr>))"

text \<open>A partition too small for a head and a tail is made an empty one, for hwtags only.\<close>

definition load_size :: "uenv \<Rightarrow> ctrl \<Rightarrow> (nat option \<times> ctrl) kres" where
  "load_size env c =
     kbind (data_size env c) (\<lambda>(bytes, c1).
       if UTAG_MIN_TAG_SIZE * 2 > bytes then
         (if \<not> c_hwtag c1 then Inr (None, c1)
          else kbind (init_empty env c1) (\<lambda>(e, c2).
                 Inr (if e \<noteq> 0 then None else Some (UTAG_MIN_TAG_SIZE * 2), c2)))
       else Inr (Some bytes, c1))"

definition load_data :: "uenv \<Rightarrow> ctrl \<Rightarrow> nat \<Rightarrow> (utag list \<times> ctrl) kres" where
  "load_data env c bytes =
     (if \<not> a_vm env bytes then Inr ([], c)
      else kbind (kernel_read_stub env (c_media c) (c_main c) bytes) (\<lambda>(ret_bytes, data).
        if int bytes \<noteq> ret_bytes then Inr ([], c)
        else kbind (thaw_tags env bytes data) (\<lambda>thawed.
          kbind (if thawed = None \<and> c_hwtag c then map_sum id snd (init_empty env c) else Inr c) (\<lambda>c1.
            let head = (case thawed of None \<Rightarrow> [] | Some ts \<Rightarrow> ts)
            in Inr (head,
                 if c_hwtag c1
                 then c1\<lparr>c_attrib := map_option ((!) head) (find_first_utag head ''.attributes''),
                         c_features := map_option ((!) head) (find_first_utag head ''.features'')\<rparr>
                 else c1)))))"

definition load_utags :: "uenv \<Rightarrow> ctrl \<Rightarrow> (utag list \<times> ctrl) kres" where
  "load_utags env c =
     (let (r, cb) = open_utags env (c_media c) (c_main c); c1 = c\<lparr>c_main := cb\<rparr>
      in if r \<noteq> 0 then Inr ([], c1)
         else kbind (load_size env c1) (\<lambda>(bytes, c2). case bytes of
                None \<Rightarrow> Inr ([], c2)
              | Some n \<Rightarrow> load_data env c2 n))"

definition load_work_func :: "uenv \<Rightarrow> ctrl \<Rightarrow> ctrl kres" where
  "load_work_func env c = kbind (load_utags env c) (\<lambda>(head, c'). Inr (c'\<lparr>c_head := head\<rparr>))"

section \<open>The range of a tag\<close>

text \<open>
  The loop \<open>while (ptr && !found) { tok = strsep(&ptr, ","); ... }\<close> over the buffer \<open>b\<close>.
\<close>

lemma strsep_shorter: "strsep b = Inr (tok, Some r) \<Longrightarrow> length r < length b"
  using length_dropWhile_le[of "\<lambda>c. c \<noteq> COMMA \<and> c \<noteq> NUL" b]
  by (auto simp: strsep_def split: list.splits if_splits)

function tok_scan :: "(string \<Rightarrow> bool) \<Rightarrow> string \<Rightarrow> bool kres" where
  "tok_scan accepts b =
     (case strsep b of
        Inl e \<Rightarrow> Inl e
      | Inr (tok, None) \<Rightarrow> Inr (accepts tok)
      | Inr (tok, Some ptr) \<Rightarrow> if accepts tok then Inr True else tok_scan accepts ptr)"
  by pat_completeness auto

termination tok_scan
  by (relation "measure (\<lambda>(accepts, b). length b)") (auto dest: strsep_shorter)

declare tok_scan.simps [simp del]

definition range_accepts :: "string \<Rightarrow> nat \<Rightarrow> string \<Rightarrow> bool" where
  "range_accepts data data_len tok =
     (let len = strnlen tok MAX_UTAG_SIZE in data_len = len \<and> strn_eq len tok (cstr data))"

definition range_name :: "string \<Rightarrow> string" where
  "range_name tag = cut_type (strlcpy MAX_UTAG_NAME tag) @ ''/.range''"

definition check_range_payload :: "uenv \<Rightarrow> utag \<Rightarrow> string \<Rightarrow> nat \<Rightarrow> int kres" where
  "check_range_payload env rtag data count =
     (case u_payload rtag of
        None \<Rightarrow> Inl NullDeref
      | Some p \<Rightarrow>
          let check = strnlen p (unat (u_size rtag)); data_len = strnlen data count
          in if check = unat (u_size rtag) then Inr (- EIO)
             else if count > check + 1 then Inr (- EIO)
             else if count = data_len then Inr (- EIO)
             else if u_size rtag + 1 = 0 then Inl NullDeref
             else if \<not> a_buf env (unat (u_size rtag + 1)) then Inr (- ENOMEM)
             else kbind (tok_scan (range_accepts data data_len) (take (unat (u_size rtag)) p @ [NUL]))
                    (\<lambda>found. Inr (if \<not> found then - EINVAL else 0)))"

definition check_utag_range :: "uenv \<Rightarrow> string \<Rightarrow> utag list \<Rightarrow> string \<Rightarrow> nat \<Rightarrow> int kres" where
  "check_utag_range env tag head data count =
     (if length (range_name tag) > MAX_UTAG_NAME then Inr (- EIO)
      else case find_first_utag head (take (MAX_UTAG_NAME - 1) (range_name tag)) of
             None \<Rightarrow> Inr 0
           | Some i \<Rightarrow> if u_size (head ! i) = 0 then Inr 0
                      else check_range_payload env (head ! i) data count)"

definition replace_first_utag :: "uenv \<Rightarrow> utag list \<Rightarrow> string \<Rightarrow> string \<Rightarrow> nat \<Rightarrow> int \<times> utag list" where
  "replace_first_utag env head name payload len =
     (case find_first_utag head name of
        None \<Rightarrow> (0, head)
      | Some i \<Rightarrow>
          if u_flags (head ! i) AND UTAG_FLAG_PROTECTED \<noteq> 0 then (- EIO, head)
          else if \<not> a_buf env (len + 1) then (- EIO, head)
          else (0, head[i := (head ! i)\<lparr>u_payload := Some (take len payload @ [NUL]),
                                        u_size := word_of_nat len\<rparr>]))"

section \<open>Validation of new names\<close>

definition hwtag_accepts :: "string \<Rightarrow> string \<Rightarrow> bool" where
  "hwtag_accepts attr tok =
     (let len = strnlen tok MAX_UTAG_NAME
      in \<not> strnlen attr MAX_UTAG_NAME > len \<and> strn_eq len tok attr)"

text \<open>The copy of the payload has no byte for a terminating NUL.\<close>

definition check_hwtag :: "uenv \<Rightarrow> string \<Rightarrow> utag option \<Rightarrow> int kres" where
  "check_hwtag env attr vld =
     (case vld of
        None \<Rightarrow> Inr 0
      | Some v \<Rightarrow>
          if u_size v = 0 then Inr 0
          else if \<not> a_buf env (unat (u_size v)) then Inr (- ENOMEM)
          else (case u_payload v of
                  None \<Rightarrow> Inl NullDeref
                | Some p \<Rightarrow>
                    kbind (tok_scan (hwtag_accepts attr) (take (unat (u_size v)) p))
                      (\<lambda>found. Inr (if \<not> found then - EINVAL else 0))))"

end
