(* ===== verification/Utag_Spec.thy ===== *)
theory Utag_Spec
  imports Utag_Roundtrip Utag_Store
begin

text \<open>
  The properties of the external format and of the range check: what a thawed list looks
  like, on which partitions thawing faults, the round trip, and the tokenizer against a
  reference definition.
\<close>

section \<open>Thawing arbitrary bytes\<close>

lemma thawed_storable:
  assumes "thawed_tag t" "frozen_len t \<le> n" "n < 4294967296"
    "unat (u_size t) + UTAG_MIN_TAG_SIZE \<le> n"
  shows "storable t"
proof -
  have "small_tag t" using assms(3,4) by (simp add: small_tag_def)
  then show ?thesis using assms(1) thawed_payload_ok[OF assms(1)]
    by (auto simp: storable_def thawed_tag_def)
qed

lemma thaw_payload_room:
  assumes "thaw_payload al buf ptr cur = Inr (Some cur')"
  shows "ptr + UTAG_MIN_TAG_SIZE + unat (u_size cur') \<le> length buf \<or> u_size cur' = 0"
  using assms by (auto simp: thaw_payload_def split: if_splits)

lemma thaw_loop_room:
  assumes "thaw_loop al bs buf k ptr = Inr (Some ts)"
  shows "\<forall>t\<in>set ts. unat (u_size t) + UTAG_MIN_TAG_SIZE \<le> length buf"
  using assms
proof (induction al bs buf k ptr arbitrary: ts rule: thaw_loop.induct)
  case (1 al bs buf k ptr)
  obtain cur where cur: "thaw_header buf ptr = Inr cur"
    using "1.prems" by (cases "thaw_header buf ptr") (simp_all add: thaw_loop.simps)
  note hdr = thaw_headerE[OF cur]
  show ?case
  proof (cases "u_name cur = UTAG_TAIL")
    case True
    then have "ts = [cur]" "u_size cur = 0" using "1.prems" cur
      by (auto simp: thaw_loop.simps[of al bs buf k ptr] split: if_splits)
    then show ?thesis using hdr by simp
  next
    case False
    let ?next = "ptr + UTAG_MIN_TAG_SIZE + unat (roundup4 (u_size cur))"
    from "1.prems" cur False obtain cur' ts' where step:
      "\<not> (k = 0 \<and> u_name cur \<noteq> UTAG_HEAD)" "\<not> ?next + UTAG_MIN_TAG_SIZE > bs"
      "thaw_payload al buf ptr cur = Inr (Some cur')" "a_tag al (k + 1)"
      "thaw_loop al bs buf (k + 1) ?next = Inr (Some ts')" "ts = cur' # ts'"
      by (auto simp: thaw_loop.simps[of al bs buf k ptr] map_sum_def
          split: if_splits sum.splits option.splits)
    have "\<forall>t\<in>set ts'. unat (u_size t) + UTAG_MIN_TAG_SIZE \<le> length buf"
      using "1.IH"[OF cur step(1) False step(2) step(3) refl _ step(5)] step(4) by simp
    then show ?thesis using thaw_payload_room[OF step(3)] step(6) hdr(3) by auto
  qed
qed

text \<open>
  C12. Whatever the bytes of a partition of less than 4 GiB are, a list that
  \<open>thaw_tags\<close> returns starts with the head tag, ends with the only tail tag, which has no
  payload, and consists of tags whose names are C strings of at most 30 characters and
  whose payload is a block of \<open>size + 1\<close> bytes ending in NUL, or NULL exactly for size 0;
  together they fit the partition. Such a list can be frozen again: \<open>freeze_tags\<close> returns
  an image or, when its size rounded to sectors exceeds the partition, NULL.
\<close>

theorem thaw_well_formed:
  assumes "thaw_tags al (length buf) buf = Inr (Some ts)" "length buf < 4294967296"
  shows "tag_list ts \<and> (\<forall>t\<in>set ts. thawed_tag t \<and> storable t) \<and>
    sum_list (map frozen_len ts) \<le> length buf \<and>
    (\<forall>bs. a_vm al (image_size ts) \<longrightarrow> (\<exists>img ts'. freeze_tags al bs ts = Inr (img, ts') \<and>
       (img = None \<longleftrightarrow> bs < image_size ts)))"
proof -
  have loop: "thaw_loop al (length buf) buf 0 0 = Inr (Some ts)"
    using assms(1) by (simp add: thaw_tags_def split: if_splits)
  note shape = thaw_loop_shape[OF loop]
  have tl: "tag_list ts" using shape by (simp add: tag_list_def)
  have ok: "\<forall>t\<in>set ts. thawed_tag t \<and> storable t"
  proof
    fix t assume t: "t \<in> set ts"
    then have "frozen_len t \<le> sum_list (map frozen_len ts)" by (simp add: member_le_sum_list)
    then have "frozen_len t \<le> length buf" using shape by simp
    then show "thawed_tag t \<and> storable t"
      using thawed_storable[of t "length buf"] shape t assms(2) thaw_loop_room[OF loop] by blast
  qed
  have "\<exists>img ts'. freeze_tags al bs ts = Inr (img, ts') \<and> (img = None \<longleftrightarrow> bs < image_size ts)"
    if vm: "a_vm al (image_size ts)" for bs
  proof (cases "bs < image_size ts")
    case True
    have names: "\<forall>t\<in>set ts. length (u_name t) \<le> MAX_UTAG_NAME" using ok by (auto simp: storable_def)
    have "freeze_walk ts 0 = (sum_list (map frozen_len ts), [last ts])"
      using freeze_walk_ok[OF _ names, of 0] tl by (simp add: tag_list_def)
    then show ?thesis using True
      by (auto simp: freeze_tags_def image_size_def Let_def split: list.splits)
  next
    case False
    then show ?thesis using freeze_tags_ok[OF tl _ _ vm, of bs] ok by (simp add: Let_def)
  qed
  then show ?thesis using tl ok shape by simp
qed

section \<open>Sample partitions\<close>

definition all_memory :: ualloc where
  "all_memory = \<lparr>a_tag = (\<lambda>k. True), a_buf = (\<lambda>n. n \<le> 4194304), a_vm = (\<lambda>n. True)\<rparr>"

definition sample_tag :: "string \<Rightarrow> string \<Rightarrow> utag" where
  "sample_tag name p = \<lparr>u_name = name, u_only = cut_type name, u_size = word_of_nat (length p), u_flags = 0,
     u_util = 0, u_payload = (if p = [] then None else Some (p @ [NUL]))\<rparr>"

definition sample_tags :: "utag list" where
  "sample_tags = [(sample_tag UTAG_HEAD [])\<lparr>u_util := 512\<rparr>, sample_tag ''serial'' ''X12'',
     sample_tag ''board/rev:s'' ''p2'', sample_tag UTAG_TAIL []]"

lemmas sample_defs = sample_tags_def sample_tag_def cut_type_def strnchr_def cstr_def

lemma sample_ok: "tag_list sample_tags" "\<forall>t\<in>set sample_tags. thawed_tag t"
  "\<forall>t\<in>set sample_tags. unat (u_size t) \<le> 3"
  by (simp_all add: sample_defs tag_list_def thawed_tag_def)

lemma sample_size: "image_size sample_tags = 512"
  by (simp add: sample_defs image_size_def TO_SECT_SIZE_def frozen_len_def roundup4_def)

lemma sample_thaw:
  "thaw_tags all_memory (length (tag_image sample_tags)) (tag_image sample_tags) = Inr (Some sample_tags)"
  using thaw_image[of sample_tags all_memory "[]"] sample_ok
  by (fastforce simp: all_memory_def small_tag_def)

lemma sample_storable: "\<forall>t\<in>set sample_tags. storable t"
  using sample_ok thawed_payload_ok by (fastforce simp: storable_def thawed_tag_def small_tag_def)

lemma sample_length: "length (tag_image sample_tags) = 512"
  using length_image[OF sample_storable] by (simp add: sample_size)

theorem thaw_well_formed_witness:
  "tag_list sample_tags \<and> (\<exists>img ts'. freeze_tags all_memory 512 sample_tags = Inr (img, ts') \<and> img \<noteq> None)"
  using thaw_well_formed[OF sample_thaw] sample_length
  by (auto simp: sample_size all_memory_def)

section \<open>Partitions that fault\<close>

text \<open>
  C13. \<open>thaw_tags\<close> leaves its buffer, or writes to memory it does not own, in three
  cases only, given that no block of more than 2 GiB can be allocated: a tag whose name
  is not followed by a NUL up to the end of the buffer, a tag of size \<open>0xFFFFFFFF\<close>, for
  which \<open>size + 1\<close> is 0, and a tag for which there is no memory. Every other partition is
  read without a fault.
\<close>

theorem thaw_faults:
  assumes "thaw_tags al (length buf) buf = Inl e" "UTAG_MIN_TAG_SIZE \<le> length buf"
    and kmalloc_limit: "\<And>n. 2 ^ 31 < n \<Longrightarrow> \<not> a_buf al n"
  shows "(\<exists>p. p + UTAG_MIN_TAG_SIZE \<le> length buf \<and>
           (e = OutOfBounds \<and> NUL \<notin> set (drop p buf) \<or>
            e = NullDeref \<and> ntohl (take 4 (drop (p + 32) buf)) = 0xFFFFFFFF))
    \<or> e = NullDeref \<and> (\<exists>i. \<not> a_tag al i)"
proof -
  have "thaw_loop al (length buf) buf 0 0 = Inl e"
    using assms(1) by (simp add: thaw_tags_def split: if_splits)
  from thaw_loop_fault[OF this _ refl kmalloc_limit] show ?thesis using assms(2) by simp
qed

definition huge_tag :: string where
  "huge_tag = frozen_header ((sample_tag UTAG_HEAD [])\<lparr>u_size := 0xFFFFFFFF\<rparr>) @ replicate 44 NUL"

lemma huge_tag_faults: "thaw_tags all_memory 88 huge_tag = Inl NullDeref"
proof -
  let ?t = "(sample_tag UTAG_HEAD [])\<lparr>u_size := 0xFFFFFFFF\<rparr>"
  have "thaw_header huge_tag 0 = Inr (?t\<lparr>u_payload := None\<rparr>)"
    by (rule thaw_frozen_header[of _ _ "[]"]) (simp_all add: sample_defs huge_tag_def)
  then show ?thesis
    by (simp add: thaw_tags_def thaw_loop.simps thaw_payload_def all_memory_def roundup4_def sample_tag_def)
qed

theorem thaw_faults_witness:
  "thaw_tags all_memory 88 huge_tag = Inl NullDeref \<and>
    (\<exists>p. p + 44 \<le> 88 \<and> ntohl (take 4 (drop (p + 32) huge_tag)) = 0xFFFFFFFF)"
proof -
  have len: "length huge_tag = 88" by (simp add: huge_tag_def)
  then have fault: "thaw_tags all_memory (length huge_tag) huge_tag = Inl NullDeref"
    using huge_tag_faults by simp
  have "\<not> a_buf all_memory n" if "2 ^ 31 < n" for n using that by (simp add: all_memory_def)
  from thaw_faults[OF fault _ this] show ?thesis
    using len huge_tag_faults by (auto simp: all_memory_def)
qed

section \<open>Round trip\<close>

text \<open>
  C4. Freezing a list of tags and thawing the image, whatever follows it on the
  partition, gives the list back; only the word \<open>util\<close> of the head has become the size
  of the image. This holds for lists of the shape that \<open>thaw_tags\<close> produces, whose names
  have at most 30 characters.
\<close>

theorem freeze_thaw:
  assumes "tag_list ts" "\<forall>t\<in>set ts. thawed_tag t \<and> small_tag t \<and> a_buf al (unat (u_size t) + 1)"
    "\<forall>i. a_tag al i" "a_vm al (image_size ts)" "image_size ts \<le> bs"
  shows "\<exists>img. freeze_tags al bs ts = Inr (Some img, set_head_util ts (word_of_nat (image_size ts))) \<and>
    length img = image_size ts \<and>
    (\<forall>rest. thaw_tags al (length (img @ rest)) (img @ rest)
       = Inr (Some (set_head_util ts (word_of_nat (image_size ts)))))"
proof -
  let ?ts = "set_head_util ts (word_of_nat (image_size ts))"
  have ne: "ts \<noteq> []" using assms(1) by (rule tag_list_nonempty)
  have ok: "\<forall>t\<in>set ts. storable t" using assms(2) thawed_payload_ok
    by (fastforce simp: storable_def thawed_tag_def)
  have ok': "\<forall>t\<in>set ?ts. thawed_tag t \<and> small_tag t \<and> a_buf al (unat (u_size t) + 1)"
    using assms(2) ne by (cases ts) (auto simp: set_head_util_def thawed_tag_def small_tag_def split: option.splits)
  have "freeze_tags al bs ts = Inr (Some (tag_image ?ts), ?ts)"
    using freeze_tags_ok[OF assms(1) ok assms(5,4)] by (simp add: Let_def)
  moreover have "length (tag_image ?ts) = image_size ts" using length_image[of ?ts] ok ne by simp
  moreover have "thaw_tags al (length (tag_image ?ts @ rest)) (tag_image ?ts @ rest) = Inr (Some ?ts)" for rest
    by (rule thaw_image[OF _ ok' assms(3)]) (use assms(1) ne in simp)
  ultimately show ?thesis by blast
qed

theorem freeze_thaw_witness:
  "\<exists>img. freeze_tags all_memory 1024 sample_tags = Inr (Some img, sample_tags) \<and>
    thaw_tags all_memory (length (img @ replicate 512 NUL)) (img @ replicate 512 NUL) = Inr (Some sample_tags)"
proof -
  have "set_head_util sample_tags (word_of_nat (image_size sample_tags)) = sample_tags"
    unfolding sample_size by (simp add: set_head_util_def sample_tags_def)
  moreover have "\<forall>t\<in>set sample_tags. thawed_tag t \<and> small_tag t \<and> a_buf all_memory (unat (u_size t) + 1)"
    using sample_ok by (fastforce simp: small_tag_def all_memory_def)
  moreover have "\<forall>i. a_tag all_memory i" "a_vm all_memory (image_size sample_tags)"
    "image_size sample_tags \<le> 1024" by (simp_all add: all_memory_def sample_size)
  ultimately show ?thesis using freeze_thaw[OF sample_ok(1), of all_memory 1024] by metis
qed

section \<open>The range check against a reference\<close>

text \<open>The values of a comma-separated list.\<close>

fun split_commas :: "string \<Rightarrow> string list" where
  "split_commas [] = [[]]"
| "split_commas (c # s) =
     (if c = COMMA then [] # split_commas s
      else (case split_commas s of [] \<Rightarrow> [[c]] | w # ws \<Rightarrow> (c # w) # ws))"

lemma split_commas_strsep:
  assumes "nul_free s"
  shows "split_commas s = takeWhile (\<lambda>c. c \<noteq> COMMA) s #
    (case dropWhile (\<lambda>c. c \<noteq> COMMA) s of [] \<Rightarrow> [] | c # r \<Rightarrow> split_commas r)"
  using assms by (induction s) auto

lemma strsep_text:
  assumes "nul_free s"
  shows "strsep (s @ NUL # r) = Inr (takeWhile (\<lambda>c. c \<noteq> COMMA) s,
    case dropWhile (\<lambda>c. c \<noteq> COMMA) s of [] \<Rightarrow> None | c # t \<Rightarrow> Some (t @ NUL # r))"
proof -
  have "takeWhile (\<lambda>c. c \<noteq> COMMA \<and> c \<noteq> NUL) (s @ NUL # r) = takeWhile (\<lambda>c. c \<noteq> COMMA) s"
    "dropWhile (\<lambda>c. c \<noteq> COMMA \<and> c \<noteq> NUL) (s @ NUL # r) = dropWhile (\<lambda>c. c \<noteq> COMMA) s @ NUL # r"
    using assms by (induction s) simp_all
  then show ?thesis using hd_dropWhile[of "\<lambda>c. c \<noteq> COMMA" s]
    by (cases "dropWhile (\<lambda>c. c \<noteq> COMMA) s") (simp_all add: strsep_def del: dropWhile_eq_Nil_conv)
qed

lemma tok_scan_text:
  "nul_free s \<Longrightarrow> tok_scan accepts (s @ NUL # r) = Inr (\<exists>w\<in>set (split_commas s). accepts w)"
proof (induction "length s" arbitrary: s rule: less_induct)
  case less
  note sep = strsep_text[OF less.prems, of r] and ref = split_commas_strsep[OF less.prems]
  show ?case
  proof (cases "dropWhile (\<lambda>c. c \<noteq> COMMA) s")
    case Nil
    show ?thesis using sep[unfolded Nil list.case] ref[unfolded Nil list.case]
      by (simp add: tok_scan.simps)
  next
    case (Cons c t)
    have "length t < length s" using length_dropWhile_le[of "\<lambda>c. c \<noteq> COMMA" s] Cons by simp
    moreover have "nul_free t" using less.prems Cons
      by (metis dropWhile_eq_drop nul_free_def set_drop_subset set_subset_Cons subsetD)
    ultimately have "tok_scan accepts (t @ NUL # r) = Inr (\<exists>w\<in>set (split_commas t). accepts w)"
      by (rule less.hyps)
    then show ?thesis using sep ref Cons by (simp add: tok_scan.simps[of accepts "s @ NUL # r"])
  qed
qed

text \<open>
  Two checks tokenize a list in this way, each with its own comparison of a token. The
  contract of such a comparison, for the values it is meant for, makes the whole scan a
  test of membership.
\<close>

locale token_compare =
  fixes accepts :: "string \<Rightarrow> string \<Rightarrow> bool"
    and valid :: "string \<Rightarrow> bool"
  assumes accepts_eq: "valid v \<Longrightarrow> nul_free w \<Longrightarrow> accepts v w \<longleftrightarrow> v = w"
begin

lemma scan_membership:
  assumes "valid v" "nul_free s"
  shows "tok_scan (accepts v) (s @ NUL # r) = Inr (v \<in> set (split_commas s))"
proof -
  have "nul_free w" if "w \<in> set (split_commas s)" for w
    using that assms(2) by (induction s arbitrary: w) (fastforce split: if_splits list.splits)+
  then have "(\<exists>w\<in>set (split_commas s). accepts v w) \<longleftrightarrow> v \<in> set (split_commas s)"
    using accepts_eq[OF assms(1)] by blast
  then show ?thesis using tok_scan_text[OF assms(2)] by simp
qed

end

lemma cstr_split: "NUL \<in> set b \<Longrightarrow> \<exists>r. b = cstr b @ NUL # r"
  by (induction b) (auto simp: cstr_def)

lemma split_commas_length: "w \<in> set (split_commas s) \<Longrightarrow> length w \<le> length s"
  by (induction s arbitrary: w) (fastforce split: if_splits list.splits)+

lemma range_accepts_eq:
  assumes "nul_free tok" "nul_free w" "length w < MAX_UTAG_SIZE"
  shows "range_accepts (w @ NUL # r) (length w) tok \<longleftrightarrow> w = tok"
proof -
  have len: "strnlen tok MAX_UTAG_SIZE = min (length tok) MAX_UTAG_SIZE"
    using assms(1) by (simp add: strnlen_def nul_free_take)
  show ?thesis
  proof (cases "length tok < MAX_UTAG_SIZE")
    case True
    then have "range_accepts (w @ NUL # r) (length w) tok \<longleftrightarrow>
        length w = length tok \<and> tok = take (length tok) w"
      using assms by (simp add: range_accepts_def len strn_eq_def Let_def)
    then show ?thesis by (metis order_refl take_all)
  next
    case False
    then show ?thesis using assms(3) by (auto simp: range_accepts_def len Let_def)
  qed
qed

interpretation range_tok: token_compare "\<lambda>v. range_accepts (v @ NUL # r) (length v)"
    "\<lambda>v. nul_free v \<and> length v < MAX_UTAG_SIZE" for r
  by unfold_locales (use range_accepts_eq in blast)

lemma hwtag_accepts_eq:
  assumes "nul_free tok" "nul_free v" "length v < MAX_UTAG_NAME"
  shows "hwtag_accepts v tok \<longleftrightarrow> v = tok"
proof -
  have len: "strnlen tok MAX_UTAG_NAME = min (length tok) MAX_UTAG_NAME" "strnlen v MAX_UTAG_NAME = length v"
    using assms by (simp_all add: strnlen_def nul_free_take)
  show ?thesis
  proof (cases "length tok < MAX_UTAG_NAME")
    case True
    then have "hwtag_accepts v tok \<longleftrightarrow> length v \<le> length tok \<and> tok = take (length tok) v"
      by (auto simp: hwtag_accepts_def len strn_eq_def Let_def)
    then show ?thesis by (metis order_refl take_all)
  next
    case False
    then have "length (take MAX_UTAG_NAME tok) \<noteq> length (take MAX_UTAG_NAME v)" using assms(3) by simp
    then have "take MAX_UTAG_NAME tok \<noteq> take MAX_UTAG_NAME v" by metis
    then show ?thesis using False assms(3) by (auto simp: hwtag_accepts_def len strn_eq_def Let_def)
  qed
qed

interpretation hw_tok: token_compare hwtag_accepts "\<lambda>v. nul_free v \<and> length v < MAX_UTAG_NAME"
  by unfold_locales (use hwtag_accepts_eq in blast)

text \<open>The check of a name against a validation tag whose payload holds a NUL.\<close>

lemma check_hwtag_membership:
  assumes "u_size v \<noteq> 0" "a_buf env (unat (u_size v))" "u_payload v = Some p" "NUL \<in> set (take (unat (u_size v)) p)"
    "nul_free attr" "length attr < MAX_UTAG_NAME"
  shows "check_hwtag env attr (Some v) =
    Inr (if attr \<in> set (split_commas (cstr (take (unat (u_size v)) p))) then 0 else - EINVAL)"
proof -
  obtain q where q: "take (unat (u_size v)) p = cstr (take (unat (u_size v)) p) @ NUL # q"
    using cstr_split[OF assms(4)] by blast
  have "tok_scan (hwtag_accepts attr) (take (unat (u_size v)) p)
      = Inr (attr \<in> set (split_commas (cstr (take (unat (u_size v)) p))))"
    using hw_tok.scan_membership[OF conjI[OF assms(5,6)] nul_free_cstr, of "take (unat (u_size v)) p" q]
    unfolding q[symmetric] .
  then show ?thesis using assms(1-3) by (simp add: check_hwtag_def)
qed

text \<open>
  C35. The check of a value against the tag \<open>name/.range\<close> of a tag is membership in the
  comma-separated list that the range tag holds: for a value of less than 1024 characters
  with its NUL, the check succeeds exactly if the value is an element of the list.
\<close>

theorem range_check_membership:
  assumes "find_first_utag ts (take (MAX_UTAG_NAME - 1) (range_name tag)) = Some i"
    "length (range_name tag) \<le> MAX_UTAG_NAME" "u_size (ts ! i) \<noteq> 0"
    "u_payload (ts ! i) = Some p" "NUL \<in> set (take (unat (u_size (ts ! i))) p)"
    "a_buf env (unat (u_size (ts ! i) + 1))" "u_size (ts ! i) + 1 \<noteq> 0"
    "nul_free w" "length w < MAX_UTAG_SIZE"
  shows "check_utag_range env tag ts (w @ NUL # r) (length w + 1) = Inr 0
    \<longleftrightarrow> w \<in> set (split_commas (cstr p))"
proof -
  let ?n = "unat (u_size (ts ! i))"
  obtain q where q: "take ?n p = cstr (take ?n p) @ NUL # q" using cstr_split[OF assms(5)] by blast
  have cut: "cstr (take ?n p) = cstr p"
  proof -
    have "p = cstr (take ?n p) @ NUL # q @ drop ?n p"
      using append_take_drop_id[of ?n p] q by (metis append.assoc append_Cons)
    then show ?thesis by (metis cstr_terminated nul_free_cstr)
  qed
  have check: "strnlen p ?n = length (cstr p)" by (simp add: strnlen_def cut)
  have "strnlen p ?n < length (take ?n p)" unfolding check using arg_cong[OF q, of length] cut by simp
  then have short: "strnlen p ?n \<noteq> ?n" by simp
  have dlen: "strnlen (w @ NUL # r) (length w + 1) = length w"
    using assms(8) by (simp add: strnlen_def)
  have "tok_scan (range_accepts (w @ NUL # r) (length w)) (take ?n p @ [NUL])
      = Inr (w \<in> set (split_commas (cstr p)))"
    using range_tok.scan_membership[of w "cstr p" r "q @ [NUL]"] assms(8,9) q cut by simp
  moreover have "w \<in> set (split_commas (cstr p)) \<Longrightarrow> length w \<le> length (cstr p)"
    by (rule split_commas_length)
  ultimately show ?thesis using assms(1-4,6,7) short dlen check
    by (auto simp: check_utag_range_def check_range_payload_def Let_def)
qed

definition good_env :: uenv where
  "good_env = \<lparr>a_tag = (\<lambda>k. True), a_buf = (\<lambda>n. n \<le> 4194304), a_vm = (\<lambda>n. True),
     e_open = (\<lambda>p w. 0), e_isblk = (\<lambda>p. True), e_read = (\<lambda>p n. int n), e_write = (\<lambda>p n. int n),
     e_new = (\<lambda>n. True), e_node = (\<lambda>n. True), e_mkdir = (\<lambda>n d. True), e_user = True\<rparr>"

definition range_tags :: "utag list" where
  "range_tags = [sample_tag UTAG_HEAD [], sample_tag ''color:s'' [],
     sample_tag ''color/.range'' (''red,blue'' @ [NUL]), sample_tag UTAG_TAIL []]"

lemma range_found: "find_first_utag range_tags (take 31 (range_name ''color:s'')) = Some 2"
  by code_simp

lemma range_tag_name: "length (range_name ''color:s'') = 12"
  by code_simp

theorem range_check_membership_witness:
  "check_utag_range good_env ''color:s'' range_tags (''blue'' @ [NUL]) 5 = Inr 0 \<and>
   check_utag_range good_env ''color:s'' range_tags (''green'' @ [NUL]) 6 \<noteq> Inr 0"
proof -
  have eq: "check_utag_range good_env ''color:s'' range_tags (w @ NUL # []) (length w + 1) = Inr 0
      \<longleftrightarrow> w \<in> set (split_commas ''red,blue'')"
    if "nul_free w" "length w < 10" for w
    using range_check_membership[where i = 2 and p = "''red,blue'' @ [NUL, NUL]" and w = w and r = "[]"
        and ts = range_tags and tag = "''color:s''" and env = good_env] range_found range_tag_name that
    by (simp add: range_tags_def sample_tag_def good_env_def cstr_def)
  show ?thesis using eq[of "''blue''"] eq[of "''green''"] by (simp add: eval_nat_numeral)
qed

end
