(* ===== verification/Utag_Proc.thy ===== *)
theory Utag_Proc
  imports Utag_Store
begin

text \<open>
  The procfs side of the tag store: the directories and files of the tags, and the
  handlers of reads and writes of these files, of \<open>all/new\<close>, \<open>all/.delete\<close>, \<open>all/lock\<close> and
  \<open>reload\<close> (\<open>src/drivers/misc/utag/utags.c\<close>). A handler takes the bytes the user wrote,
  whose number is \<open>count\<close>, and returns what the system call returns; a mutex that is held
  when a handler starts is never released (\<open>Deadlock\<close>), since one handler runs at a time.
  An unlock of the free mutex is recorded in \<open>c_bad_unlock\<close>.
\<close>

definition mutex_lock :: "ctrl \<Rightarrow> ctrl kres" where
  "mutex_lock c = (if c_held c then Inl Deadlock else Inr (c\<lparr>c_held := True\<rparr>))"

definition mutex_unlock :: "ctrl \<Rightarrow> ctrl" where
  "mutex_unlock c = (if c_held c then c\<lparr>c_held := False\<rparr> else c\<lparr>c_bad_unlock := True\<rparr>)"

section \<open>Directories and files\<close>

abbreviation (input) ROOT_DIR :: nat where "ROOT_DIR \<equiv> 0"

definition find_dir_node :: "ctrl \<Rightarrow> string \<Rightarrow> dir_node option" where
  "find_dir_node c path = List.find (\<lambda>d. strn_eq MAX_UTAG_NAME (d_path d) path) (c_dirs c)"

fun file_of :: "utag_output \<Rightarrow> string" where
  "file_of OUT_ASCII = ''ascii''"
| "file_of OUT_RAW = ''raw''"
| "file_of OUT_TYPE = ''type''"

definition proc_utag_file :: "uenv \<Rightarrow> ctrl \<Rightarrow> string \<Rightarrow> string option \<Rightarrow> utag_output \<Rightarrow> nat \<Rightarrow> ctrl" where
  "proc_utag_file env c utag_name utag_type mode dir =
     (if \<not> e_node env utag_name then c
      else c\<lparr>c_nodes := c_nodes c @
              [\<lparr>p_name = strlcpy MAX_UTAG_NAME utag_name,
                p_type = (case utag_type of None \<Rightarrow> [] | Some t \<Rightarrow> strlcpy MAX_UTAG_NAME t),
                p_file = file_of mode, p_dir = dir, p_mode = mode\<rparr>]\<rparr>)"

definition populate_utag_dir :: "uenv \<Rightarrow> ctrl \<Rightarrow> string \<Rightarrow> string option \<Rightarrow> nat \<Rightarrow> ctrl" where
  "populate_utag_dir env c tname ttype dir =
     (let c1 = proc_utag_file env c tname ttype OUT_ASCII dir;
          c2 = proc_utag_file env c1 tname ttype OUT_RAW dir
      in proc_utag_file env c2 tname ttype OUT_TYPE dir)"

text \<open>
  The result is an error, or the directory entry: \<open>None\<close>, for NULL, when an existing
  directory was populated, since \<open>dir\<close> is not set on that path. The argument \<open>None\<close> for
  \<open>parent\<close> stands for the root directory.
\<close>

definition proc_utag_dir ::
  "uenv \<Rightarrow> ctrl \<Rightarrow> string \<Rightarrow> string \<Rightarrow> string option \<Rightarrow> bool \<Rightarrow> nat option \<Rightarrow> (int + nat option) \<times> ctrl" where
  "proc_utag_dir env c tname path ttype populate parent =
     (let par = (case parent of None \<Rightarrow> ROOT_DIR | Some p \<Rightarrow> p)
      in case find_dir_node c path of
           Some d \<Rightarrow>
             if populate then (Inr None, populate_utag_dir env c tname ttype (d_dir d))
             else (Inr (Some (d_dir d)), c)
         | None \<Rightarrow>
             if \<not> e_mkdir env tname par then (Inl (- ENOMEM), c)
             else if \<not> e_node env path then (Inl (- ENOMEM), c)
             else let dir = c_next c;
                      c1 = c\<lparr>c_next := c_next c + 1,
                             c_dirs := c_dirs c @ [\<lparr>d_name = strlcpy MAX_UTAG_NAME tname,
                               d_path = strlcpy MAX_UTAG_NAME path, d_dir = dir, d_parent = par\<rparr>]\<rparr>
                  in (Inr (Some dir), if populate then populate_utag_dir env c1 tname ttype dir else c1))"

definition clear_utags_directory :: "ctrl \<Rightarrow> ctrl" where
  "clear_utags_directory c = c\<lparr>c_dirs := [], c_nodes := []\<rparr>"

text \<open>
  The loop over the names of one tag: \<open>path\<close> grows, each directory is created below the
  previous one, the last one is populated.
\<close>

fun build_tag :: "uenv \<Rightarrow> ctrl \<Rightarrow> string \<Rightarrow> string option \<Rightarrow> nat option \<Rightarrow> bool \<Rightarrow> string list \<Rightarrow> bool \<times> ctrl" where
  "build_tag env c path ttype parent first [] = (True, c)"
| "build_tag env c path ttype parent first (n # ns) =
     (let path' = scn_append path ((if first then [] else [SLASH]) @ n);
          (r, c1) = proc_utag_dir env c n path' ttype (ns = []) parent
      in case r of
           Inl e \<Rightarrow> (False, c1)
         | Inr dir \<Rightarrow> build_tag env c1 path' ttype dir False ns)"

fun build_loop :: "uenv \<Rightarrow> ctrl \<Rightarrow> utag list \<Rightarrow> (bool \<times> ctrl) kres" where
  "build_loop env c [] = Inl NullDeref"
| "build_loop env c (cur # ts) =
     (if no_show_tag (u_name cur) then build_loop env c ts
      else if ts = [] then Inr (True, c)
      else case full_split (u_name cur) of
             Inl e \<Rightarrow> Inl e
           | Inr (names, ttype) \<Rightarrow>
               (case build_tag env c [] ttype None True names of
                  (True, c1) \<Rightarrow> build_loop env c1 ts
                | (False, c1) \<Rightarrow> Inr (False, c1)))"

definition build_utags_directory :: "uenv \<Rightarrow> ctrl \<Rightarrow> (int \<times> ctrl) kres" where
  "build_utags_directory env c =
     kbind (load_work_func env c) (\<lambda>c1.
       if c_head c1 = [] then Inr (- EIO, c1)
       else kbind (build_loop env c1 (tl (c_head c1))) (\<lambda>(ok, c2).
              Inr (if ok then (0, c2\<lparr>c_reload := UTAG_STATUS_LOADED\<rparr>) else (- EINVAL, c2))))"

definition rebuild_utags_directory :: "uenv \<Rightarrow> ctrl \<Rightarrow> (int \<times> ctrl) kres" where
  "rebuild_utags_directory env c = build_utags_directory env (clear_utags_directory c)"

section \<open>The name of the tag behind a file\<close>

text \<open>
  The walk up the directories fills an array of \<open>UTAG_DEPTH\<close> names without a check of
  its index: the first argument is the room left.
\<close>

fun dir_chain :: "nat \<Rightarrow> dir_node list \<Rightarrow> nat \<Rightarrow> string list kres" where
  "dir_chain slots dirs parent =
     (case List.find (\<lambda>d. d_dir d = parent) dirs of
        None \<Rightarrow> Inr []
      | Some d \<Rightarrow> (case slots of
                    0 \<Rightarrow> Inl OutOfBounds
                  | Suc n \<Rightarrow> map_sum id ((#) (d_name d)) (dir_chain n dirs (d_parent d))))"

declare dir_chain.simps [simp del]

definition full_utag_name :: "ctrl \<Rightarrow> proc_node \<Rightarrow> string kres" where
  "full_utag_name c pnode =
     kbind (dir_chain UTAG_DEPTH (c_dirs c) (p_dir pnode)) (\<lambda>subdir_names.
       let parts = (case subdir_names of [] \<Rightarrow> [] | n # ns \<Rightarrow> map (\<lambda>m. m @ [SLASH]) (rev ns) @ [n]);
           tag = foldl scn_append [] parts
       in Inr (if p_type pnode \<noteq> [] then scn_append tag (COLON # p_type pnode) else tag))"

section \<open>Handlers\<close>

definition hex_digit :: "nat \<Rightarrow> char" where
  "hex_digit n = ''0123456789ABCDEF'' ! (n mod 16)"

definition hex_byte :: "char \<Rightarrow> string" where
  "hex_byte ch = [hex_digit (of_char ch div 16), hex_digit (of_char ch mod 16)]"

text \<open>The printed form of a NULL string is \<open>(null)\<close>.\<close>

definition show_tag :: "proc_node \<Rightarrow> utag \<Rightarrow> string kres" where
  "show_tag p t =
     (case p_mode p of
        OUT_ASCII \<Rightarrow> Inr (case u_payload t of None \<Rightarrow> ''(null)'' | Some b \<Rightarrow> cstr b)
      | OUT_RAW \<Rightarrow>
          (case u_payload t of
             None \<Rightarrow> if u_size t = 0 then Inr [] else Inl NullDeref
           | Some b \<Rightarrow> if length b < unat (u_size t) then Inl OutOfBounds
                      else Inr (concat (map hex_byte (take (unat (u_size t)) b))))
      | OUT_TYPE \<Rightarrow> Inr (p_type p))"

definition read_utag :: "uenv \<Rightarrow> ctrl \<Rightarrow> proc_node \<Rightarrow> (int \<times> string \<times> ctrl) kres" where
  "read_utag env c p =
     kbind (mutex_lock c) (\<lambda>c1. kbind (load_work_func env c1) (\<lambda>c2.
       if c_head c2 = [] then Inr (- EFAULT, [], mutex_unlock c2)
       else kbind (full_utag_name c2 p) (\<lambda>utag_name.
         if utag_name = []
         then Inr (- EINVAL, ''cannot find utag associated with this file'' @ [NEWLINE], mutex_unlock c2)
         else (case find_first_utag (c_head c2) utag_name of
                 None \<Rightarrow> Inr (- EINVAL, ''utag ['' @ utag_name @ ''] not found'' @ [NEWLINE], mutex_unlock c2)
               | Some i \<Rightarrow> kbind (show_tag p (c_head c2 ! i)) (\<lambda>out.
                            Inr (0, out @ [NEWLINE], mutex_unlock c2))))))"

text \<open>
  The payload a write stores: a trailing newline is dropped, a text without a NUL gets
  one. \<open>lco\<close> is the offset of the last character; for an empty write it is the largest
  \<open>size_t\<close>.
\<close>

definition write_payload :: "utag_output \<Rightarrow> string \<Rightarrow> (string \<times> nat) kres" where
  "write_payload mode user =
     (if user = [] then Inl OutOfBounds
      else let count = length user;
               buf = user @ [NUL];
               newline = (buf ! (count - 1) = NEWLINE);
               buf1 = (if newline then buf[count - 1 := NUL] else buf);
               lco = (if newline \<and> count - 1 \<noteq> 0 then count - 2 else count - 1);
               len = (if newline then count - 1 else count)
           in if mode = OUT_ASCII \<and> NUL \<notin> set (take (lco + 1) buf1)
              then Inr (buf1[lco + 1 := NUL], len + 1)
              else Inr (buf1, len))"

text \<open>What is done with the loaded tags; the result is the new value of \<open>count\<close>.\<close>

definition write_loaded :: "uenv \<Rightarrow> ctrl \<Rightarrow> proc_node \<Rightarrow> string \<Rightarrow> nat \<Rightarrow> int \<Rightarrow> (int \<times> ctrl) kres" where
  "write_loaded env c p payload len count =
     (if c_lock c then Inr (- EACCES, c)
      else kbind (full_utag_name c p) (\<lambda>utag.
        if utag = [] then Inr (- EIO, c)
        else kbind (if c_hwtag c \<and> len \<noteq> 0 then check_utag_range env utag (c_head c) payload len
                    else Inr 0) (\<lambda>error.
          if error \<noteq> 0 then Inr (- EINVAL, c)
          else let (e, tags) = replace_first_utag env (c_head c) utag payload len;
                   c1 = c\<lparr>c_head := tags\<rparr>
               in if e \<noteq> 0 then Inr (- EIO, c1)
                  else kbind (store_work_func env c1) (\<lambda>c2.
                         Inr (if c_result c2 \<noteq> 0 then c_result c2 else count, c2)))))"

definition write_utag :: "uenv \<Rightarrow> ctrl \<Rightarrow> proc_node \<Rightarrow> string \<Rightarrow> (int \<times> ctrl) kres" where
  "write_utag env c p user =
     (if p_mode p = OUT_TYPE then Inr (- EINVAL, c)
      else if MAX_UTAG_SIZE < length user then Inr (- EINVAL, c)
      else if \<not> a_buf env (length user + 1) then Inr (- ENOMEM, c)
      else if \<not> e_user env then Inr (- EIO, mutex_unlock c)
      else kbind (write_payload (p_mode p) user) (\<lambda>(payload, len).
        kbind (mutex_lock c) (\<lambda>c1. kbind (load_work_func env c1) (\<lambda>c2.
          if c_head c2 = [] then Inr (- EIO, mutex_unlock c2)
          else kbind (write_loaded env c2 p payload len (int (length user))) (\<lambda>(r, c3).
                 Inr (r, mutex_unlock c3))))))"

text \<open>
  Deleting: the tags below the deleted one are those whose name starts with its name,
  followed by a slash at offset \<open>count - 1\<close>.
\<close>

definition below :: "string \<Rightarrow> nat \<Rightarrow> utag \<Rightarrow> bool" where
  "below expendable count t \<longleftrightarrow>
     take (length expendable) (u_name t) = expendable \<and> c_at (drop (count - 1) (u_name t)) = SLASH"

definition remove_tag :: "utag list \<Rightarrow> nat \<Rightarrow> utag list" where
  "remove_tag ts i = take i ts @ drop (i + 1) ts"

definition remove_below :: "utag list \<Rightarrow> string \<Rightarrow> nat \<Rightarrow> utag list" where
  "remove_below ts expendable count =
     hd ts # filter (\<lambda>t. \<not> below expendable count t) (butlast (tl ts)) @ [last ts]"

definition delete_loaded :: "uenv \<Rightarrow> ctrl \<Rightarrow> string \<Rightarrow> nat \<Rightarrow> (int \<times> ctrl) kres" where
  "delete_loaded env c expendable count =
     (if c_lock c then Inr (- EACCES, c)
      else case find_first_utag (c_head c) expendable of
             None \<Rightarrow> Inr (- EINVAL, c)
           | Some i \<Rightarrow>
               kbind (store_work_func env
                        (c\<lparr>c_head := remove_below (remove_tag (c_head c) i) expendable count\<rparr>)) (\<lambda>c1.
                 kbind (rebuild_utags_directory env c1) (\<lambda>(e, c2).
                   Inr (if c_result c1 \<noteq> 0 then c_result c1 else int count, c2))))"

definition delete_utag :: "uenv \<Rightarrow> ctrl \<Rightarrow> string \<Rightarrow> (int \<times> ctrl) kres" where
  "delete_utag env c user =
     (let count = length user; buf = user[count - 1 := NUL]
      in if MAX_UTAG_NAME < count \<or> count = 0 then Inr (- EIO, c)
         else if \<not> e_user env then Inr (- EFAULT, c)
         else if \<not> validate_name buf (count - 1) then Inr (- EINVAL, c)
         else if check_path buf (count - 1) \<noteq> 0 then Inr (- EINVAL, c)
         else kbind (mutex_lock c) (\<lambda>c1. kbind (load_work_func env c1) (\<lambda>c2.
                if c_head c2 = [] then Inr (- EINVAL, mutex_unlock c2)
                else kbind (delete_loaded env c2 (cstr buf) count) (\<lambda>(r, c3).
                       Inr (r, mutex_unlock c3)))))"

text \<open>
  A new tag: the paths of all its levels are built and checked first, then each level is
  added that does not exist.
\<close>

fun tree_of :: "string \<Rightarrow> bool \<Rightarrow> string list \<Rightarrow> string list" where
  "tree_of up first [] = []"
| "tree_of up first (n # ns) =
     (let t = take (MAX_UTAG_NAME - 1) (up @ (if first then [] else [SLASH]) @ n)
      in t # tree_of t False ns)"

fun check_levels :: "uenv \<Rightarrow> ctrl \<Rightarrow> (string \<times> string) list \<Rightarrow> bool kres" where
  "check_levels env c [] = Inr True"
| "check_levels env c ((n, t) # ls) =
     (if c_hwtag c \<and> c_at n \<noteq> DOT then
        (case check_hwtag env t (c_features c) of
           Inl e \<Rightarrow> Inl e
         | Inr e \<Rightarrow> if e \<noteq> 0 then Inr False else check_levels env c ls)
      else check_levels env c ls)"

fun add_levels :: "uenv \<Rightarrow> ctrl \<Rightarrow> string option \<Rightarrow> nat option \<Rightarrow> (string \<times> string) list \<Rightarrow> ctrl kres" where
  "add_levels env c ttype parent [] = Inr c"
| "add_levels env c ttype parent ((n, t) # ls) =
     (case add_utag_tail env (c_head c) t ttype of
        (e, tags) \<Rightarrow>
          if e = - EEXIST then
            (case find_dir_node c t of
               None \<Rightarrow> Inl NullDeref
             | Some d \<Rightarrow> add_levels env c ttype (Some (d_dir d)) ls)
          else (case proc_utag_dir env (c\<lparr>c_head := tags\<rparr>) n t ttype True parent of
                  (Inl e', c1) \<Rightarrow> Inr c1
                | (Inr dir, c1) \<Rightarrow> add_levels env c1 ttype dir ls))"

definition new_loaded :: "uenv \<Rightarrow> ctrl \<Rightarrow> string \<Rightarrow> int \<Rightarrow> (int \<times> ctrl) kres" where
  "new_loaded env c expendable count =
     (if c_lock c then Inr (- EACCES, c)
      else if find_first_utag (c_head c) expendable \<noteq> None then Inr (- EINVAL, c)
      else kbind (full_split expendable) (\<lambda>(names, ttype).
        let levels = zip names (tree_of [] True names)
        in kbind (check_levels env c levels) (\<lambda>ok.
             if \<not> ok then Inr (- EINVAL, c)
             else kbind (if c_hwtag c \<and> length names \<noteq> 1 \<and> c_at (last names) = DOT
                         then check_hwtag env (last names) (c_attrib c) else Inr 0) (\<lambda>e.
               if e \<noteq> 0 then Inr (- EINVAL, c)
               else kbind (add_levels env c ttype None levels) (\<lambda>c1.
                 kbind (store_work_func env c1) (\<lambda>c2.
                   Inr (if c_result c2 \<noteq> 0 then c_result c2 else count, c2)))))))"

definition new_utag :: "uenv \<Rightarrow> ctrl \<Rightarrow> string \<Rightarrow> (int \<times> ctrl) kres" where
  "new_utag env c user =
     (let count = length user; buf = user[count - 1 := NUL]
      in if MAX_UTAG_NAME < count \<or> count = 0 then Inr (- EIO, c)
         else if \<not> e_user env then Inr (- EFAULT, c)
         else if \<not> validate_name buf (count - 1) then Inr (- EFAULT, c)
         else if check_path buf (count - 1) \<noteq> 0 then Inr (- EFAULT, c)
         else if no_show_tag (cstr buf) then Inr (- EFAULT, c)
         else kbind (mutex_lock c) (\<lambda>c1. kbind (load_work_func env c1) (\<lambda>c2.
                if c_head c2 = [] then Inr (- EFAULT, mutex_unlock c2)
                else kbind (new_loaded env c2 (cstr buf) (int count)) (\<lambda>(r, c3).
                       Inr (r, mutex_unlock c3)))))"

text \<open>One byte is copied, whatever \<open>count\<close> is.\<close>

definition reload_write :: "uenv \<Rightarrow> ctrl \<Rightarrow> char \<Rightarrow> nat \<Rightarrow> (int \<times> ctrl) kres" where
  "reload_write env c ch count =
     (if 2 < count then Inr (- EIO, c)
      else kbind (mutex_lock c) (\<lambda>c1.
        if c_reload c1 = UTAG_STATUS_LOADED then Inr (int count, mutex_unlock c1)
        else if \<not> e_user env then Inr (- EFAULT, mutex_unlock c1)
        else let c2 = c1\<lparr>c_reload := ch\<rparr>
             in if ch = UTAG_STATUS_RELOAD then
                  kbind (rebuild_utags_directory env c2) (\<lambda>(e, c3).
                    Inr (int count, mutex_unlock (if e \<noteq> 0 then c3\<lparr>c_reload := UTAG_STATUS_FAILED\<rparr> else c3)))
                else Inr (int count, mutex_unlock c2)))"

definition lock_show :: "ctrl \<Rightarrow> string" where
  "lock_show c = (if c_lock c then ''1'' else ''0'') @ [NEWLINE]"

definition reload_show :: "ctrl \<Rightarrow> string" where
  "reload_show c = [c_reload c, NEWLINE]"

section \<open>Probe\<close>

definition unopened :: "string option \<Rightarrow> blkdev" where
  "unopened name = \<lparr>b_name = name, b_filep = False, b_size = 0\<rparr>"

text \<open>
  The state after a successful probe, given the paths that \<open>utags_dt_init\<close> read from the
  device tree and expanded.
\<close>

definition probed_ctrl :: "media \<Rightarrow> string option \<Rightarrow> string option \<Rightarrow> string \<Rightarrow> ctrl" where
  "probed_ctrl md main backup dir_name =
     \<lparr>c_main = unopened main, c_backup = unopened backup, c_reload = UTAG_STATUS_NOT_READY,
      c_rsize = 0, c_dirs = [], c_nodes = [], c_dir_name = dir_name, c_lock = False,
      c_hwtag = strn_eq 3 dir_name ''hw'', c_held = False, c_bad_unlock = False,
      c_attrib = None, c_features = None, c_head = [], c_result = 0, c_media = md, c_next = 1\<rparr>"

text \<open>The services the probe asks for, each with its success, and the result of \<open>utags_dt_init\<close>.\<close>

record probe_env =
  pr_ctrl :: bool
  pr_dt_init :: int
  pr_load_queue :: bool
  pr_store_queue :: bool
  pr_root :: bool
  pr_reload :: bool
  pr_all :: bool
  pr_new :: bool
  pr_lock :: bool
  pr_delete :: bool

definition proc_utag_util :: "probe_env \<Rightarrow> int" where
  "proc_utag_util sv = (if \<not> pr_all sv then - EIO else if \<not> pr_new sv then - EIO
     else if \<not> pr_lock sv then - EIO else if \<not> pr_delete sv then - EIO else 0)"

definition utags_probe ::
  "probe_env \<Rightarrow> media \<Rightarrow> string option \<Rightarrow> string option \<Rightarrow> string \<Rightarrow> int \<times> ctrl option" where
  "utags_probe sv md main backup dir_name =
     (if \<not> pr_ctrl sv then (- ENOMEM, None)
      else if pr_dt_init sv \<noteq> 0 then (- EIO, None)
      else if \<not> pr_load_queue sv then (- ENOMEM, None)
      else if \<not> pr_store_queue sv then (- ENOMEM, None)
      else if \<not> pr_root sv then (- EIO, None)
      else if \<not> pr_reload sv then (- EIO, None)
      else if proc_utag_util sv \<noteq> 0 then (- EFAULT, None)
      else (0, Some (probed_ctrl md main backup dir_name)))"

end
