(* ===== verification/Utag_Correct.thy ===== *)
theory Utag_Correct
  imports Utag_Spec Utag_Proc
begin

unbundle bit_operations_syntax

text \<open>
  The tag store as its users see it: what a load returns when the partition holds a list
  of tags, what a store leaves on the partition, and that the directory code touches
  neither. On these rest the properties of writing and deleting a tag.
\<close>

section \<open>Lists of tags\<close>

lemma ends_with_tail_iff:
  "ends_with_tail ts \<longleftrightarrow> ts \<noteq> [] \<and> u_name (last ts) = UTAG_TAIL \<and> u_size (last ts) = 0 \<and>
     (\<forall>t\<in>set (butlast ts). u_name t \<noteq> UTAG_TAIL)"
  by (induction ts rule: ends_with_tail.induct) auto

lemma tag_list_length: "tag_list ts \<Longrightarrow> 2 \<le> length ts"
  by (cases ts; cases "tl ts") (auto simp: tag_list_def)

lemma tag_list_update:
  assumes "tag_list ts" "1 \<le> i" "i < length ts - 1" "u_name t = u_name (ts ! i)"
  shows "tag_list (ts[i := t])"
proof -
  have "butlast (ts[i := t]) = (butlast ts)[i := t]" using assms(3) by (simp add: butlast_list_update)
  moreover have "ts ! i \<in> set (butlast ts)" using assms(3) by (metis length_butlast nth_butlast nth_mem)
  ultimately have "\<forall>x\<in>set (butlast (ts[i := t])). u_name x \<noteq> UTAG_TAIL"
    using assms(1,4) set_update_subset_insert[of "butlast ts" i t]
    by (fastforce simp: tag_list_def ends_with_tail_iff)
  moreover have "ts \<noteq> []" using assms(3) by auto
  then have "last (ts[i := t]) = last ts" "hd (ts[i := t]) = hd ts"
    using assms(2,3) by (auto simp: last_list_update hd_conv_nth)
  ultimately show ?thesis using assms(1) by (simp add: tag_list_def ends_with_tail_iff)
qed

text \<open>The list a load returns after the list was stored: a block of size 0 comes back as NULL.\<close>

definition reloaded :: "utag list \<Rightarrow> utag list" where
  "reloaded ts = map (\<lambda>t. if u_size t = 0 then t\<lparr>u_payload := None\<rparr> else t) ts"

lemma image_reloaded: "\<forall>t\<in>set ts. payload_ok t \<Longrightarrow> tag_image (reloaded ts) = tag_image ts"
proof -
  assume ok: "\<forall>t\<in>set ts. payload_ok t"
  have "map (\<lambda>t. frozen_header t @ frozen_body t) (reloaded ts) = map (\<lambda>t. frozen_header t @ frozen_body t) ts"
    unfolding reloaded_def map_map
    by (rule map_cong[OF refl]) (auto simp: frozen_header_def frozen_body_def split: option.split)
  moreover have "map frozen_len (reloaded ts) = map frozen_len ts"
    unfolding reloaded_def map_map by (rule map_cong[OF refl]) (simp add: frozen_len_def)
  ultimately show ?thesis by (simp only: tag_image_def image_size_def)
qed

lemma image_size_reloaded [simp]: "image_size (reloaded ts) = image_size ts"
proof -
  have "map frozen_len (reloaded ts) = map frozen_len ts"
    unfolding reloaded_def map_map by (rule map_cong[OF refl]) (simp add: frozen_len_def)
  then show ?thesis by (simp only: image_size_def)
qed

section \<open>A partition that holds a list\<close>

definition loadable :: "utag \<Rightarrow> bool" where
  "loadable t \<longleftrightarrow> thawed_tag t \<and> unat (u_size t) < 4194304"

definition stored :: "utag list \<Rightarrow> bool" where
  "stored ts \<longleftrightarrow> tag_list ts \<and> (\<forall>t\<in>set ts. loadable t) \<and> image_size ts < 4294967296 \<and>
     u_util (hd ts) = word_of_nat (image_size ts)"

definition holds :: "ctrl \<Rightarrow> string \<Rightarrow> utag list \<Rightarrow> bool" where
  "holds c d ts \<longleftrightarrow> b_name (c_main c) = Some d \<and> (\<exists>rest. c_media c d = tag_image ts @ rest) \<and>
     (b_filep (c_main c) \<longrightarrow> b_size (c_main c) = length (c_media c d))"

text \<open>What the kernel gives when nothing fails; writes are treated separately.\<close>

definition services :: "uenv \<Rightarrow> bool" where
  "services env \<longleftrightarrow> (\<forall>k. a_tag env k) \<and> (\<forall>n\<le>4194304. a_buf env n) \<and> (\<forall>n. a_vm env n) \<and>
     (\<forall>p. 0 \<le> e_open env p True) \<and> (\<forall>p. e_isblk env p) \<and> (\<forall>p n. e_read env p n = int n) \<and> e_user env"

definition frame :: "ctrl \<Rightarrow> dir_node list \<times> nat \<times> bool \<times> bool \<times> bool \<times> blkdev \<times> media" where
  "frame c = (c_dirs c, c_next c, c_held c, c_bad_unlock c, c_hwtag c, c_backup c, c_media c)"

lemma stored_storable: "stored ts \<Longrightarrow> \<forall>t\<in>set ts. storable t"
  using thawed_payload_ok by (fastforce simp: stored_def loadable_def storable_def thawed_tag_def small_tag_def)

lemma stored_image_length: "stored ts \<Longrightarrow> length (tag_image ts) = image_size ts"
  by (rule length_image[OF stored_storable])

lemma image_size_ge: "tag_list ts \<Longrightarrow> 512 \<le> image_size ts"
proof -
  assume "tag_list ts"
  then obtain t r where "ts = t # r" by (cases ts) (auto simp: tag_list_def)
  then have "1 \<le> sum_list (map frozen_len ts)" by (simp add: frozen_len_def)
  then have "1 \<le> (sum_list (map frozen_len ts) + 511) div 512" by simp
  then show ?thesis unfolding image_size_def TO_SECT_SIZE_def by simp
qed

lemma take_image:
  assumes "stored ts"
  shows "take 44 (tag_image ts @ rest) = frozen_header (hd ts)"
proof -
  obtain t r where "ts = t # r" using assms by (cases ts) (auto simp: stored_def tag_list_def)
  then show ?thesis by (simp add: tag_image_def Let_def)
qed

lemma thaw_stored:
  assumes "services env" "stored ts"
  shows "thaw_tags env (length (tag_image ts @ rest)) (tag_image ts @ rest) = Inr (Some ts)"
  by (rule thaw_image) (use assms in \<open>auto simp: services_def stored_def loadable_def small_tag_def\<close>)

section \<open>Loading\<close>

lemma open_ok:
  assumes "services env" "b_name cb = Some d" "b_filep cb \<longrightarrow> b_size cb = length (md d)"
  shows "open_utags env md cb = (0, cb\<lparr>b_filep := True, b_size := length (md d)\<rparr>)"
  using assms by (cases cb) (auto simp: open_utags_def opened_def services_def dev_path_def Let_def
      not_le[symmetric])

lemma read_ok:
  assumes "services env" "b_name cb = Some d" "b_filep cb" "n \<le> length (md d)"
  shows "kernel_read_stub env md cb n = Inr (int n, take n (md d))"
  using assms by (simp add: kernel_read_stub_def services_def dev_path_def)

lemma read_head_ok:
  assumes "services env" "stored ts" "holds c d ts" "b_filep (c_main c)"
  shows "read_head env (c_media c) (c_main c) = Inr (Inr ((hd ts)\<lparr>u_payload := None\<rparr>))"
proof -
  obtain rest where md: "c_media c d = tag_image ts @ rest" "b_name (c_main c) = Some d"
    using assms(3) by (auto simp: holds_def)
  have hd: "hd ts \<in> set ts" "u_name (hd ts) = UTAG_HEAD" "tag_list ts"
    using assms(2) tag_list_nonempty by (auto simp: stored_def tag_list_def)
  have len: "44 \<le> length (c_media c d)"
    using image_size_ge[OF hd(3)] stored_image_length[OF assms(2)] by (simp add: md(1))
  have "thaw_header (frozen_header (hd ts)) 0 = Inr ((hd ts)\<lparr>u_payload := None\<rparr>)"
    by (rule thaw_frozen_header[of _ _ "[]" "[]"])
      (use assms(2) hd(1) in \<open>auto simp: stored_def loadable_def thawed_tag_def\<close>)
  then show ?thesis
    using read_ok[where n = 44 and md = "c_media c" and d = d, OF assms(1) md(2) assms(4) len] assms(1) hd(2) take_image[OF assms(2), of rest]
    by (simp add: read_head_def services_def md(1))
qed

lemma data_size_ok:
  assumes "services env" "stored ts" "holds c d ts" "b_filep (c_main c)"
  obtains n where "data_size env c = Inr (n, c\<lparr>c_lock := (u_flags (hd ts) AND 1 \<noteq> 0), c_rsize := n\<rparr>)"
    "image_size ts \<le> n" "n \<le> length (c_media c d)"
proof -
  have util: "unat (u_util (hd ts)) = image_size ts"
    using assms(2) by (simp add: stored_def unat_of_nat)
  have size: "b_size (c_main c) = length (c_media c d)" using assms(3,4) by (simp add: holds_def)
  have "image_size ts \<le> length (c_media c d)"
    using assms(3) stored_image_length[OF assms(2)] by (auto simp: holds_def)
  then show ?thesis using that read_head_ok[OF assms] util size
    by (auto simp: data_size_def Let_def split: if_splits)
qed

lemma load_data_ok:
  assumes "services env" "stored ts" "holds c d ts" "b_filep (c_main c)"
    "image_size ts \<le> n" "n \<le> length (c_media c d)"
  obtains a f where "load_data env c n = Inr (ts, c\<lparr>c_attrib := a, c_features := f\<rparr>)"
proof -
  obtain rest where md: "c_media c d = tag_image ts @ rest" "b_name (c_main c) = Some d"
    using assms(3) by (auto simp: holds_def)
  have data: "take n (c_media c d) = tag_image ts @ take (n - image_size ts) rest"
    using assms(5) stored_image_length[OF assms(2)] by (simp add: md(1))
  have "thaw_tags env n (take n (c_media c d)) = Inr (Some ts)"
  proof -
    have "length (tag_image ts @ take (n - image_size ts) rest) = n"
      using arg_cong[OF data, of length] assms(6) by simp
    then show ?thesis
      using thaw_stored[OF assms(1,2), of "take (n - image_size ts) rest"] unfolding data by (simp only:)
  qed
  then have "load_data env c n = Inr (ts, if c_hwtag c
        then c\<lparr>c_attrib := map_option ((!) ts) (find_first_utag ts ''.attributes''),
               c_features := map_option ((!) ts) (find_first_utag ts ''.features'')\<rparr> else c)"
    using read_ok[where md = "c_media c" and d = d, OF assms(1) md(2) assms(4,6)] assms(1)
    by (simp add: load_data_def services_def Let_def)
  then show ?thesis using that[where a = "c_attrib c" and f = "c_features c"]
    that[where a = "map_option ((!) ts) (find_first_utag ts ''.attributes'')"
      and f = "map_option ((!) ts) (find_first_utag ts ''.features'')"] by (simp split: if_splits)
qed

lemma load_work_ok:
  assumes "services env" "stored ts" "holds c d ts"
  obtains c' where "load_work_func env c = Inr c'" "c_head c' = ts" "frame c' = frame c"
    "holds c' d ts" "b_filep (c_main c')" "c_lock c' = (u_flags (hd ts) AND 1 \<noteq> 0)"
proof -
  have nm: "b_name (c_main c) = Some d" "b_filep (c_main c) \<longrightarrow> b_size (c_main c) = length (c_media c d)"
    using assms(3) by (simp_all add: holds_def)
  let ?c1 = "c\<lparr>c_main := (c_main c)\<lparr>b_filep := True, b_size := length (c_media c d)\<rparr>\<rparr>"
  have h1: "holds ?c1 d ts" "b_filep (c_main ?c1)" using assms(3) by (auto simp: holds_def)
  obtain n where n: "data_size env ?c1 = Inr (n, ?c1\<lparr>c_lock := (u_flags (hd ts) AND 1 \<noteq> 0), c_rsize := n\<rparr>)"
    "image_size ts \<le> n" "n \<le> length (c_media ?c1 d)"
    using data_size_ok[OF assms(1,2) h1] by blast
  let ?c2 = "?c1\<lparr>c_lock := (u_flags (hd ts) AND 1 \<noteq> 0), c_rsize := n\<rparr>"
  have h2: "holds ?c2 d ts" "b_filep (c_main ?c2)" "n \<le> length (c_media ?c2 d)"
    using h1 n(3) by (auto simp: holds_def)
  obtain a f where ld: "load_data env ?c2 n = Inr (ts, ?c2\<lparr>c_attrib := a, c_features := f\<rparr>)"
    using load_data_ok[OF assms(1,2) h2(1,2) n(2) h2(3)] by blast
  have "512 \<le> n" using image_size_ge n(2) assms(2) by (fastforce simp: stored_def)
  then have "load_size env ?c1 = Inr (Some n, ?c2)" using n(1) by (simp add: load_size_def)
  then have "load_utags env c = Inr (ts, ?c2\<lparr>c_attrib := a, c_features := f\<rparr>)"
    using open_ok[where md = "c_media c" and d = d, OF assms(1) nm] ld by (simp add: load_utags_def)
  then have "load_work_func env c = Inr (?c2\<lparr>c_attrib := a, c_features := f, c_head := ts\<rparr>)"
    by (simp add: load_work_func_def)
  then show ?thesis using that h2(1) by (simp add: frame_def holds_def)
qed

section \<open>Storing\<close>

definition writes_ok :: "uenv \<Rightarrow> bool" where
  "writes_ok env \<longleftrightarrow> (\<forall>p n. e_write env p n = int n)"

definition backup_room :: "ctrl \<Rightarrow> nat \<Rightarrow> bool" where
  "backup_room c n \<longleftrightarrow> (\<forall>b. b_name (c_backup c) = Some b \<longrightarrow> n \<le> length (c_media c b))"

text \<open>The part of the state that a store leaves alone.\<close>

definition view :: "ctrl \<Rightarrow> dir_node list \<times> nat \<times> bool \<times> bool \<times> bool \<times> bool \<times> string option" where
  "view c = (c_dirs c, c_next c, c_held c, c_bad_unlock c, c_hwtag c, c_lock c, b_name (c_backup c))"

lemma size_t_small [simp]: "n < 4294967296 \<Longrightarrow> size_t (int n) = n"
  by (simp add: size_t_def)

lemma open_backup:
  assumes "services env" "b_name cb = Some b"
  obtains cb' where "open_utags env md cb = (0, cb')" "b_name cb' = Some b" "b_filep cb'"
proof (cases "b_filep cb")
  case True
  then show ?thesis using that[of cb] assms(2) by (simp add: open_utags_def)
next
  case False
  have "\<not> e_open env (dev_path cb) True < 0" "e_isblk env (dev_path cb)"
    using assms(1) by (simp_all add: services_def not_less)
  then show ?thesis using that[of "cb\<lparr>b_filep := True, b_size := length (md (dev_path cb))\<rparr>"] False assms(2)
    by (simp add: open_utags_def opened_def Let_def)
qed

lemma write_ok:
  assumes "writes_ok env" "b_name cb = Some d" "b_filep cb" "length data \<le> length (md d)"
  shows "kernel_write_stub env md cb data =
    Inr (int (length data), md(d := data @ drop (length data) (md d)))"
  using assms by (simp add: kernel_write_stub_def writes_ok_def dev_path_def Let_def)

lemma store_backup_ok:
  assumes "services env" "writes_ok env" "backup_room c (length data)" "length data < 4294967296"
    "c_media c d = data @ drop (length data) (c_media c d)"
  obtains c' where "store_backup env c data rc = Inr (rc, c')" "c_media c' d = c_media c d"
    "view c' = view c" "c_main c' = c_main c" "c_head c' = c_head c"
    "\<forall>b. length (c_media c' b) = length (c_media c b)"
proof (cases "b_name (c_backup c)")
  case None
  then show ?thesis using that[of c] by (simp add: store_backup_def)
next
  case (Some b)
  then obtain cb where cb: "open_utags env (c_media c) (c_backup c) = (0, cb)" "b_name cb = Some b" "b_filep cb"
    using open_backup[OF assms(1)] by blast
  let ?md = "(c_media c)(b := data @ drop (length data) (c_media c b))"
  have room: "length data \<le> length (c_media c b)" using assms(3) Some by (simp add: backup_room_def)
  have "kernel_write_stub env (c_media c) cb data = Inr (int (length data), ?md)"
    by (rule write_ok) (use assms(2) cb(2,3) room in simp_all)
  then have "store_backup env c data rc = Inr (rc, c\<lparr>c_backup := cb, c_media := ?md\<rparr>)"
    using Some cb(1) assms(4) by (simp add: store_backup_def)
  moreover have "?md d = c_media c d" using assms(5) by (metis fun_upd_apply)
  ultimately show ?thesis using that Some cb(2) room by (simp add: view_def)
qed

lemma store_work_ok:
  assumes env: "services env" "writes_ok env"
    and dev: "b_name (c_main c) = Some d" "b_filep (c_main c)" "b_size (c_main c) = length (c_media c d)"
    and tags: "c_head c = ts" "tag_list ts" "\<forall>t\<in>set ts. storable t"
    and room: "image_size ts \<le> length (c_media c d)" "image_size ts < 4294967296"
      "backup_room c (image_size ts)"
  obtains c' rest where "store_work_func env c = Inr c'" "c_result c' = 0" "view c' = view c"
    "c_main c' = c_main c" "c_media c' d = tag_image (set_head_util ts (word_of_nat (image_size ts))) @ rest"
    "length (c_media c' d) = length (c_media c d)"
proof -
  let ?ts = "set_head_util ts (word_of_nat (image_size ts))"
  let ?img = "tag_image ?ts"
  have ne: "ts \<noteq> []" using tags(2) by (rule tag_list_nonempty)
  have fr: "freeze_tags env (b_size (c_main c)) ts = Inr (Some ?img, ?ts)"
    using freeze_tags_ok[OF tags(2,3), of "b_size (c_main c)" env] env(1) room(1) dev(3)
    by (simp add: services_def Let_def)
  have len: "length ?img = image_size ts" using length_image[of ?ts] tags(3) ne by simp
  let ?md = "(c_media c)(d := ?img @ drop (length ?img) (c_media c d))"
  let ?c = "c\<lparr>c_head := ?ts, c_media := ?md\<rparr>"
  have op: "open_utags env (c_media c) (c_main c) = (0, c_main c)"
    using open_ok[where md = "c_media c" and d = d, OF env(1) dev(1)] dev by (cases "c_main c") simp
  have wr: "kernel_write_stub env (c_media c) (c_main c) ?img = Inr (int (length ?img), ?md)"
    by (rule write_ok[OF env(2) dev(1,2)]) (use room(1) len in simp)
  have "backup_room ?c (length ?img)" using room(1,3) len by (auto simp: backup_room_def)
  then obtain c' where c': "store_backup env ?c ?img 0 = Inr (0, c')" "c_media c' d = c_media ?c d"
    "view c' = view ?c" "c_main c' = c_main ?c" "\<forall>b. length (c_media c' b) = length (c_media ?c b)"
    using store_backup_ok[OF env, of ?c ?img d 0] len room(2) by (auto simp: fun_upd_def)
  have "store_work_func env c = Inr (c'\<lparr>c_result := 0\<rparr>)"
    using tags(1) fr op wr c'(1) len room(2)
    by (simp add: store_work_func_def store_utags_def Let_def)
  moreover have "view (c'\<lparr>c_result := 0\<rparr>) = view c" using c'(3) by (simp add: view_def)
  ultimately show ?thesis
    using that[of "c'\<lparr>c_result := 0\<rparr>" "drop (length ?img) (c_media c d)"] c'(2,4,5) len room(1) by simp
qed

end
