(* ===== verification/Utag_Write.thy ===== *)
theory Utag_Write
  imports Utag_Correct
begin

unbundle bit_operations_syntax

text \<open>
  Writing a tag through its file: the value is on the partition afterwards and is what
  the file reads, nothing else has changed; and the write errors that are not reported.
\<close>

lemma find_first_utagD:
  assumes "find_first_utag ts name = Some i"
  shows "1 \<le> i" "i < length ts - 1" "names_match name (u_name (ts ! i))"
    "\<And>j. 1 \<le> j \<Longrightarrow> j < i \<Longrightarrow> \<not> names_match name (u_name (ts ! j))"
  using find_Some_upt_from[OF assms[unfolded find_first_utag_def]] by auto

lemma find_first_utag_names:
  assumes "length ts' = length ts" "\<And>j. j < length ts \<Longrightarrow> u_name (ts' ! j) = u_name (ts ! j)"
  shows "find_first_utag ts' name = find_first_utag ts name"
  unfolding find_first_utag_def assms(1) by (rule find_cong) (use assms(2) in auto)

lemma full_utag_name_dirs: "c_dirs c' = c_dirs c \<Longrightarrow> full_utag_name c' p = full_utag_name c p"
  by (simp add: full_utag_name_def)

section \<open>The stored list\<close>

text \<open>The list that is found on the partition after the list \<open>ts\<close> was stored.\<close>

definition restored :: "utag list \<Rightarrow> utag list" where
  "restored ts = reloaded (set_head_util ts (word_of_nat (image_size ts)))"

lemma restored_stored:
  assumes "tag_list ts" "\<forall>t\<in>set ts. storable t \<and> length (u_name t) \<le> 30 \<and> u_only t = cut_type (u_name t) \<and>
      unat (u_size t) < 4194304 \<and> (\<forall>q. u_payload t = Some q \<longrightarrow> last q = NUL)" "image_size ts < 4294967296"
  shows "stored (restored ts)"
    "tag_image (restored ts) = tag_image (set_head_util ts (word_of_nat (image_size ts)))"
proof -
  obtain h r where hr: "ts = h # r" using assms(1) by (cases ts) (auto simp: tag_list_def)
  let ?ts = "set_head_util ts (word_of_nat (image_size ts))"
  have sz: "image_size (restored ts) = image_size ts" using hr by (simp add: restored_def)
  have "loadable t" if "t \<in> set (restored ts)" for t
    using that assms(2) hr
    by (auto simp: restored_def reloaded_def set_head_util_def loadable_def thawed_tag_def storable_def
        payload_ok_def split: option.splits if_splits)
  moreover have "r \<noteq> []" using tag_list_length[OF assms(1)] hr by auto
  then have "tag_list (restored ts)"
    using assms(1) hr unfolding tag_list_def ends_with_tail_iff restored_def reloaded_def set_head_util_def
    by (auto simp: last_map map_butlast[symmetric])
  ultimately show "stored (restored ts)" using assms(3) hr sz
    by (simp add: stored_def) (simp add: restored_def reloaded_def set_head_util_def)
  have "payload_ok t" if "t \<in> set ?ts" for t
    using that assms(2) hr by (auto simp: set_head_util_def storable_def payload_ok_def split: option.splits)
  then show "tag_image (restored ts) = tag_image ?ts" unfolding restored_def by (intro image_reloaded) blast
qed

lemma restored_nth:
  assumes "i < length ts"
  shows "restored ts ! i = (let t = (if i = 0 then (hd ts)\<lparr>u_util := word_of_nat (image_size ts)\<rparr> else ts ! i)
    in if u_size t = 0 then t\<lparr>u_payload := None\<rparr> else t)"
  using assms by (cases ts; cases i) (simp_all add: restored_def reloaded_def set_head_util_def)

lemma length_restored [simp]: "ts \<noteq> [] \<Longrightarrow> length (restored ts) = length ts"
  by (cases ts) (simp_all add: restored_def reloaded_def set_head_util_def)

lemma name_restored: "i < length ts \<Longrightarrow> u_name (restored ts ! i) = u_name (ts ! i)"
  by (cases i; cases ts) (simp_all add: restored_nth Let_def)

section \<open>Writing\<close>

lemma stored_restorable:
  assumes "stored ts"
  shows "\<forall>t\<in>set ts. storable t \<and> length (u_name t) \<le> 30 \<and> u_only t = cut_type (u_name t) \<and>
    unat (u_size t) < 4194304 \<and> (\<forall>q. u_payload t = Some q \<longrightarrow> last q = NUL)"
  using stored_storable[OF assms] assms by (auto simp: stored_def loadable_def thawed_tag_def)

lemma update_restorable:
  assumes ts: "stored ts" and i: "1 \<le> i" "i < length ts - 1"
    and new: "new = (ts ! i)\<lparr>u_payload := Some (q @ [NUL]), u_size := word_of_nat (length q)\<rparr>"
      "length q \<le> 1025"
  shows "tag_list (ts[i := new])"
    "\<forall>t\<in>set (ts[i := new]). storable t \<and> length (u_name t) \<le> 30 \<and> u_only t = cut_type (u_name t) \<and>
       unat (u_size t) < 4194304 \<and> (\<forall>q. u_payload t = Some q \<longrightarrow> last q = NUL)"
proof -
  show "tag_list (ts[i := new])" using ts i new(1) by (intro tag_list_update) (simp_all add: stored_def)
  have "ts ! i \<in> set ts" using i by simp
  then have "storable (ts ! i) \<and> length (u_name (ts ! i)) \<le> 30 \<and> u_only (ts ! i) = cut_type (u_name (ts ! i))"
    using stored_restorable[OF ts] by blast
  then have "storable new \<and> length (u_name new) \<le> 30 \<and> u_only new = cut_type (u_name new) \<and>
      unat (u_size new) < 4194304 \<and> (\<forall>q. u_payload new = Some q \<longrightarrow> last q = NUL)"
    using new by (simp add: storable_def small_tag_def payload_ok_def unat_of_nat)
  then show "\<forall>t\<in>set (ts[i := new]). storable t \<and> length (u_name t) \<le> 30 \<and> u_only t = cut_type (u_name t) \<and>
       unat (u_size t) < 4194304 \<and> (\<forall>q. u_payload t = Some q \<longrightarrow> last q = NUL)"
    using stored_restorable[OF ts] set_update_subset_insert[of ts i new] by blast
qed

lemma write_payload_text:
  assumes "user = s \<or> user = s @ [NEWLINE]" "s \<noteq> []" "nul_free s" "last s \<noteq> NEWLINE"
  obtains r where "write_payload OUT_ASCII user = Inr (s @ NUL # r, length s + 1)"
proof -
  have nf: "NUL \<notin> set s" using assms(3) by (simp add: nul_free_def)
  obtain k where k: "length s = Suc k" using assms(2) by (cases s) simp_all
  from assms(1) show ?thesis
  proof
    assume u: "user = s"
    have "(s @ [NUL]) ! k = last s" using assms(2) k by (simp add: nth_append last_conv_nth)
    then have "write_payload OUT_ASCII user = Inr ((s @ [NUL])[length s := NUL], length s + 1)"
      using u assms(2,4) nf k by (simp add: write_payload_def)
    then show ?thesis using that by (simp only: list_update_length)
  next
    assume u: "user = s @ [NEWLINE]"
    have "(s @ NEWLINE # [NUL]) ! length s = NEWLINE" by (simp only: nth_append_length)
    moreover have "(s @ NEWLINE # [NUL])[length s := NUL] = s @ NUL # [NUL]" by (simp only: list_update_length)
    ultimately have "write_payload OUT_ASCII user = Inr ((s @ NUL # [NUL])[length s := NUL], length s + 1)"
      using u nf k by (simp add: write_payload_def)
    then show ?thesis using that by (simp only: list_update_length)
  qed
qed

lemma restored_update:
  assumes "stored ts" "1 \<le> i" "i < length ts" "u_size new \<noteq> 0"
  shows "restored (ts[i := new]) ! i = new"
    "\<And>j. 0 < j \<Longrightarrow> j < length ts \<Longrightarrow> j \<noteq> i \<Longrightarrow> restored (ts[i := new]) ! j = ts ! j"
proof -
  show "restored (ts[i := new]) ! i = new" using assms by (simp add: restored_nth)
  fix j assume j: "0 < j" "j < length ts" "j \<noteq> i"
  then have "thawed_tag (ts ! j)" using assms(1) by (simp add: stored_def loadable_def)
  then show "restored (ts[i := new]) ! j = ts ! j"
    using j by (cases "u_payload (ts ! j)") (auto simp: restored_nth thawed_tag_def)
qed

text \<open>
  Up to the store every write that is accepted goes the same way: the tags are loaded and
  one of them is replaced.
\<close>

lemma write_reaches_store:
  assumes env: "services env" and ts: "stored ts" "holds c d ts" "u_flags (hd ts) AND 1 = 0"
    and c: "\<not> c_held c" "p_mode p \<noteq> OUT_TYPE"
    and tag: "full_utag_name c p = Inr name" "name \<noteq> []" "find_first_utag ts name = Some i"
      "u_flags (ts ! i) AND 1 = 0"
    and user: "write_payload (p_mode p) user = Inr (payload, len)" "length user \<le> MAX_UTAG_SIZE" "len \<le> 1025"
      "c_hwtag c \<and> len \<noteq> 0 \<longrightarrow> check_utag_range env name ts payload len = Inr 0"
    and new: "new = (ts ! i)\<lparr>u_payload := Some (take len payload @ [NUL]), u_size := word_of_nat len\<rparr>"
  obtains c1 where "frame c1 = frame (c\<lparr>c_held := True\<rparr>)" "holds c1 d ts" "b_filep (c_main c1)"
    "c_head c1 = ts[i := new]"
    "\<And>c2. store_work_func env c1 = Inr c2 \<Longrightarrow> c_result c2 = 0 \<Longrightarrow>
       write_utag env c p user = Inr (int (length user), mutex_unlock c2)"
proof -
  have h1: "holds (c\<lparr>c_held := True\<rparr>) d ts" using ts(2) by (simp add: holds_def)
  obtain c1 where c1: "load_work_func env (c\<lparr>c_held := True\<rparr>) = Inr c1" "c_head c1 = ts"
    "frame c1 = frame (c\<lparr>c_held := True\<rparr>)" "holds c1 d ts" "b_filep (c_main c1)" "\<not> c_lock c1"
    using load_work_ok[OF env ts(1) h1] ts(3) by auto
  have f1: "c_dirs c1 = c_dirs c" "c_hwtag c1 = c_hwtag c" using c1(3) by (simp_all add: frame_def)
  have name1: "full_utag_name c1 p = Inr name" using tag(1) full_utag_name_dirs[OF f1(1)] by simp
  have rp: "replace_first_utag env ts name payload len = (0, ts[i := new])"
    using tag(3,4) env user(3) new by (simp add: replace_first_utag_def services_def)
  have ne: "ts \<noteq> []" using find_first_utagD[OF tag(3)] by auto
  have mem: "a_buf env (length user + 1)" "e_user env" using env user(2) by (simp_all add: services_def)
  have "write_utag env c p user = Inr (int (length user), mutex_unlock c2)"
    if "store_work_func env (c1\<lparr>c_head := ts[i := new]\<rparr>) = Inr c2" "c_result c2 = 0" for c2
  proof -
    have "write_loaded env c1 p payload len (int (length user)) = Inr (int (length user), c2)"
      using c1(2,6) name1 tag(2) user(4) f1(2) rp that by (auto simp: write_loaded_def)
    then show ?thesis using c user(1,2) c1(1,2) ne mem by (simp add: write_utag_def mutex_lock_def)
  qed
  then show ?thesis
    using that[of "c1\<lparr>c_head := ts[i := new]\<rparr>"] c1 by (simp add: frame_def holds_def)
qed

lemma write_utag_ok:
  assumes env: "services env" "writes_ok env" and ts: "stored ts" "holds c d ts" "u_flags (hd ts) AND 1 = 0"
    and c: "\<not> c_held c" "p_mode p \<noteq> OUT_TYPE"
    and tag: "full_utag_name c p = Inr name" "name \<noteq> []" "find_first_utag ts name = Some i"
      "u_flags (ts ! i) AND 1 = 0"
    and user: "write_payload (p_mode p) user = Inr (payload, len)" "length user \<le> MAX_UTAG_SIZE" "len \<le> 1025"
      "c_hwtag c \<and> len \<noteq> 0 \<longrightarrow> check_utag_range env name ts payload len = Inr 0"
    and new: "new = (ts ! i)\<lparr>u_payload := Some (take len payload @ [NUL]), u_size := word_of_nat len\<rparr>"
      "len \<le> length payload"
    and room: "image_size (ts[i := new]) \<le> length (c_media c d)" "image_size (ts[i := new]) < 4294967296"
      "backup_room c (image_size (ts[i := new]))"
  obtains c' where "write_utag env c p user = Inr (int (length user), c')" "\<not> c_held c'"
    "holds c' d (restored (ts[i := new]))" "c_dirs c' = c_dirs c"
proof -
  obtain c1 where c1: "frame c1 = frame (c\<lparr>c_held := True\<rparr>)" "holds c1 d ts" "b_filep (c_main c1)"
    "c_head c1 = ts[i := new]"
    and fin: "\<And>c2. store_work_func env c1 = Inr c2 \<Longrightarrow> c_result c2 = 0 \<Longrightarrow>
       write_utag env c p user = Inr (int (length user), mutex_unlock c2)"
    using write_reaches_store[OF env(1) ts c tag user new(1)] by blast
  have f1: "c_dirs c1 = c_dirs c" "c_held c1" "c_media c1 = c_media c" "c_backup c1 = c_backup c"
    using c1(1) by (simp_all add: frame_def)
  note i = find_first_utagD[OF tag(3)]
  have q: "new = (ts ! i)\<lparr>u_payload := Some (take len payload @ [NUL]),
      u_size := word_of_nat (length (take len payload))\<rparr>" "length (take len payload) \<le> 1025"
    using new user(3) by simp_all
  note ok = update_restorable[OF ts(1) i(1,2) q]
  have st: "\<forall>t\<in>set (ts[i := new]). storable t" using ok(2) by blast
  have dev: "b_name (c_main c1) = Some d" "b_size (c_main c1) = length (c_media c1 d)"
    using c1(2,3) by (simp_all add: holds_def)
  have room': "image_size (ts[i := new]) \<le> length (c_media c1 d)" "backup_room c1 (image_size (ts[i := new]))"
    using room f1 by (simp_all add: backup_room_def)
  obtain c2 rest where c2: "store_work_func env c1 = Inr c2" "c_result c2 = 0" "view c2 = view c1"
    "c_main c2 = c_main c1"
    "c_media c2 d = tag_image (set_head_util (ts[i := new]) (word_of_nat (image_size (ts[i := new])))) @ rest"
    "length (c_media c2 d) = length (c_media c1 d)"
    using store_work_ok[OF env dev(1) c1(3) dev(2) c1(4) ok(1) st room'(1) room(2) room'(2)] by blast
  have "holds (mutex_unlock c2) d (restored (ts[i := new]))" "\<not> c_held (mutex_unlock c2)"
    "c_dirs (mutex_unlock c2) = c_dirs c"
    using restored_stored(2)[OF ok room(2)] c2(3-6) dev f1 by (auto simp: holds_def mutex_unlock_def view_def)
  then show ?thesis using that fin[OF c2(1,2)] by blast
qed

lemma read_utag_ok:
  assumes "services env" "stored ts" "holds c d ts" "\<not> c_held c" "full_utag_name c p = Inr name" "name \<noteq> []"
    "find_first_utag ts name = Some i" "show_tag p (ts ! i) = Inr out"
  obtains c' where "read_utag env c p = Inr (0, out @ [NEWLINE], c')" "holds c' d ts" "\<not> c_held c'"
proof -
  let ?c1 = "c\<lparr>c_held := True\<rparr>"
  have "holds ?c1 d ts" using assms(3) by (simp add: holds_def)
  then obtain c' where c': "load_work_func env ?c1 = Inr c'" "c_head c' = ts" "frame c' = frame ?c1"
    "holds c' d ts" using load_work_ok[OF assms(1,2)] by blast
  have "full_utag_name c' p = Inr name"
    using assms(5) full_utag_name_dirs[of c' c p] c'(3) by (simp add: frame_def)
  moreover have "ts \<noteq> []" using assms(2) by (auto simp: stored_def tag_list_def)
  ultimately have "read_utag env c p = Inr (0, out @ [NEWLINE], mutex_unlock c')"
    using assms(4,6,7,8) c' by (simp add: read_utag_def mutex_lock_def)
  moreover have "holds (mutex_unlock c') d ts" "\<not> c_held (mutex_unlock c')"
    using c'(3,4) by (simp_all add: mutex_unlock_def frame_def holds_def)
  ultimately show ?thesis using that by blast
qed

text \<open>
  C10. Writing a text, with or without a trailing newline, to the file \<open>ascii\<close> of a tag
  that is not protected, on a store that is not locked, returns the number of bytes
  written; the partition then holds the same tags as before except for the payload of
  this tag, which is the text with its NUL; reading the file gives the text; and the mutex
  is free. The kernel's services work, the new image fits the partition and its backup,
  and for hardware tags the text is in the range of the tag.
\<close>

theorem write_read_back:
  assumes env: "services env" "writes_ok env" and ts: "stored ts" "holds c d ts" "u_flags (hd ts) AND 1 = 0"
    and c: "\<not> c_held c" "p_mode p = OUT_ASCII"
    and tag: "full_utag_name c p = Inr name" "name \<noteq> []" "find_first_utag ts name = Some i"
      "u_flags (ts ! i) AND 1 = 0"
    and user: "user = s \<or> user = s @ [NEWLINE]" "s \<noteq> []" "nul_free s" "last s \<noteq> NEWLINE"
      "length user \<le> MAX_UTAG_SIZE"
      "c_hwtag c \<longrightarrow> (\<forall>r. check_utag_range env name ts (s @ NUL # r) (length s + 1) = Inr 0)"
    and new: "new = (ts ! i)\<lparr>u_payload := Some (s @ [NUL, NUL]), u_size := word_of_nat (length s + 1)\<rparr>"
    and room: "image_size (ts[i := new]) \<le> length (c_media c d)" "image_size (ts[i := new]) < 4294967296"
      "backup_room c (image_size (ts[i := new]))"
  shows "\<exists>c' c'' ts'. write_utag env c p user = Inr (int (length user), c') \<and>
    read_utag env c' p = Inr (0, s @ [NEWLINE], c'') \<and> \<not> c_held c' \<and>
    holds c' d ts' \<and> stored ts' \<and> length ts' = length ts \<and> ts' ! i = new \<and>
    (\<forall>j. 0 < j \<and> j < length ts \<and> j \<noteq> i \<longrightarrow> ts' ! j = ts ! j)"
proof -
  obtain r where pl: "write_payload OUT_ASCII user = Inr (s @ NUL # r, length s + 1)"
    using write_payload_text[OF user(1-4)] by blast
  have len: "length s + 1 \<le> 1025" "length s + 1 \<le> length (s @ NUL # r)" using user(1,5) by auto
  have new': "new = (ts ! i)\<lparr>u_payload := Some (take (length s + 1) (s @ NUL # r) @ [NUL]),
      u_size := word_of_nat (length s + 1)\<rparr>" using new by simp
  note i = find_first_utagD[OF tag(3)]
  obtain c' where w: "write_utag env c p user = Inr (int (length user), c')" "\<not> c_held c'"
    and c': "holds c' d (restored (ts[i := new]))" "c_dirs c' = c_dirs c"
    using write_utag_ok[OF env ts c(1) _ tag _ user(5) len(1) _ new' len(2) room] pl c(2) user(6) by auto
  have st: "stored (restored (ts[i := new]))"
    using restored_stored(1)[OF _ _ room(2)]
      update_restorable[where q = "take (length s + 1) (s @ NUL # r)", OF ts(1) i(1,2), of new] new' len by simp
  have "unat (word_of_nat n :: 32 word) = n" if "n \<le> 1025" for n using that by (simp add: unat_of_nat)
  then have "unat (word_of_nat (length s + 1) :: 32 word) = length s + 1" using len(1) by blast
  then have "unat (u_size new) = length s + 1" by (simp add: new)
  then have sz: "u_size new \<noteq> 0" by auto
  have il: "i < length ts" "ts \<noteq> []" using i by auto
  note upd = restored_update[OF ts(1) i(1) il(1) sz]
  have find: "find_first_utag (restored (ts[i := new])) name = Some i"
    unfolding tag(3)[symmetric]
    by (rule find_first_utag_names) (use il new in \<open>auto simp: name_restored nth_list_update\<close>)
  have shown: "show_tag p (restored (ts[i := new]) ! i) = Inr s"
    using upd(1) c(2) user(3) new by (simp add: show_tag_def)
  have "full_utag_name c' p = Inr name" using tag(1) full_utag_name_dirs[OF c'(2)] by simp
  then obtain c'' where "read_utag env c' p = Inr (0, s @ [NEWLINE], c'')"
    using read_utag_ok[OF env(1) st c'(1) w(2) _ tag(2) find shown] by blast
  moreover have "length (restored (ts[i := new])) = length ts" using il(2) by simp
  ultimately show ?thesis using w c'(1) st upd by blast
qed

section \<open>Errors of a write\<close>

lemma size_t_error:
  assumes "- 4095 \<le> r" "r < 0"
  shows "4294967296 < size_t r"
proof -
  have "r mod 18446744073709551616 = (r + 18446744073709551616) mod 18446744073709551616" by simp
  also have "\<dots> = r + 18446744073709551616" using assms by (intro mod_pos_pos_trivial) simp_all
  finally have "r mod 18446744073709551616 = r + 18446744073709551616" .
  then show ?thesis using assms by (simp add: size_t_def)
qed

lemma store_work_lost:
  assumes "services env" "e_write env d (image_size ts) = r" "- 4095 \<le> r" "r < 0"
    and dev: "b_name (c_main c) = Some d" "b_filep (c_main c)" "b_size (c_main c) = length (c_media c d)"
      "b_name (c_backup c) = None"
    and tags: "c_head c = ts" "tag_list ts" "\<forall>t\<in>set ts. storable t"
    and room: "image_size ts \<le> length (c_media c d)" "image_size ts < 4294967296"
  obtains c' where "store_work_func env c = Inr c'" "c_result c' = 0" "c_media c' = c_media c" "c_held c' = c_held c"
proof -
  let ?ts = "set_head_util ts (word_of_nat (image_size ts))"
  let ?img = "tag_image ?ts"
  have fr: "freeze_tags env (b_size (c_main c)) ts = Inr (Some ?img, ?ts)"
    using freeze_tags_ok[OF tags(2,3), of "b_size (c_main c)" env] assms(1) room(1) dev(3)
    by (simp add: services_def Let_def)
  have len: "length ?img = image_size ts"
    using length_image[of ?ts] tags(3) tag_list_nonempty[OF tags(2)] by simp
  have op: "open_utags env (c_media c) (c_main c) = (0, c_main c)"
    using open_ok[where md = "c_media c" and d = d, OF assms(1) dev(1)] dev by (cases "c_main c") simp
  have wr: "kernel_write_stub env (c_media c) (c_main c) ?img = Inr (r, c_media c)"
    using dev assms(2,4) len by (simp add: kernel_write_stub_def dev_path_def Let_def)
  have "\<not> size_t r < length ?img" using size_t_error[OF assms(3,4)] room(2) len by simp
  then have "store_work_func env c = Inr (c\<lparr>c_head := ?ts, c_main := c_main c, c_media := c_media c, c_result := 0\<rparr>)"
    using tags(1) fr op wr dev(4) by (simp add: store_work_func_def store_utags_def store_backup_def Let_def)
  then show ?thesis using that by simp
qed

text \<open>
  An error of the device is lost: \<open>written\<close> is a \<open>size_t\<close>, a negative result of
  \<open>kernel_write\<close> becomes a huge number in it, and the test for a short write does not see
  it. A write whose data never reach the partition, for any error number, returns the
  number of bytes written, as a successful one does, and the partition is as before.
\<close>

theorem write_error_lost:
  assumes env: "services env" "\<forall>n. e_write env d n = r" "- 4095 \<le> r" "r < 0"
    and ts: "stored ts" "holds c d ts" "u_flags (hd ts) AND 1 = 0"
    and c: "\<not> c_held c" "p_mode p = OUT_ASCII" "b_name (c_backup c) = None"
    and tag: "full_utag_name c p = Inr name" "name \<noteq> []" "find_first_utag ts name = Some i"
      "u_flags (ts ! i) AND 1 = 0"
    and user: "user = s \<or> user = s @ [NEWLINE]" "s \<noteq> []" "nul_free s" "last s \<noteq> NEWLINE"
      "length user \<le> MAX_UTAG_SIZE"
      "c_hwtag c \<longrightarrow> (\<forall>r. check_utag_range env name ts (s @ NUL # r) (length s + 1) = Inr 0)"
    and new: "new = (ts ! i)\<lparr>u_payload := Some (s @ [NUL, NUL]), u_size := word_of_nat (length s + 1)\<rparr>"
    and room: "image_size (ts[i := new]) \<le> length (c_media c d)" "image_size (ts[i := new]) < 4294967296"
  shows "\<exists>c'. write_utag env c p user = Inr (int (length user), c') \<and> c_media c' = c_media c"
proof -
  obtain q where pl: "write_payload OUT_ASCII user = Inr (s @ NUL # q, length s + 1)"
    using write_payload_text[OF user(1-4)] by blast
  have len: "length s + 1 \<le> 1025" "length s + 1 \<le> length (s @ NUL # q)" using user(1,5) by auto
  have new': "new = (ts ! i)\<lparr>u_payload := Some (take (length s + 1) (s @ NUL # q) @ [NUL]),
      u_size := word_of_nat (length s + 1)\<rparr>" using new by simp
  note i = find_first_utagD[OF tag(3)]
  obtain c1 where c1: "frame c1 = frame (c\<lparr>c_held := True\<rparr>)" "holds c1 d ts" "b_filep (c_main c1)"
    "c_head c1 = ts[i := new]"
    and fin: "\<And>c2. store_work_func env c1 = Inr c2 \<Longrightarrow> c_result c2 = 0 \<Longrightarrow>
       write_utag env c p user = Inr (int (length user), mutex_unlock c2)"
    using write_reaches_store[OF env(1) ts c(1) _ tag _ user(5) len(1) _ new'] pl c(2) user(6) by auto
  have ok: "tag_list (ts[i := new])" "\<forall>t\<in>set (ts[i := new]). storable t"
    using update_restorable[where q = "take (length s + 1) (s @ NUL # q)", OF ts(1) i(1,2), of new] new' len by simp_all
  have dev: "b_name (c_main c1) = Some d" "b_size (c_main c1) = length (c_media c1 d)"
    "b_name (c_backup c1) = None" "image_size (ts[i := new]) \<le> length (c_media c1 d)"
    using c1(1-3) c(3) room(1) by (simp_all add: holds_def frame_def)
  obtain c2 where "store_work_func env c1 = Inr c2" "c_result c2 = 0" "c_media c2 = c_media c1"
    using store_work_lost[OF env(1) _ env(3,4) dev(1) c1(3) dev(2,3) c1(4) ok dev(4) room(2)] env(2) by blast
  moreover have "c_media c1 = c_media c" using c1(1) by (simp add: frame_def)
  ultimately show ?thesis using fin by (auto simp: mutex_unlock_def)
qed

section \<open>A sample store\<close>

definition sample_ctrl :: ctrl where
  "sample_ctrl = (probed_ctrl (\<lambda>d. tag_image sample_tags @ replicate 512 NUL) (Some ''cfg'') None ''config'')
     \<lparr>c_dirs := [\<lparr>d_name = ''serial'', d_path = ''serial'', d_dir = 1, d_parent = 0\<rparr>]\<rparr>"

definition sample_file :: proc_node where
  "sample_file = \<lparr>p_name = ''serial'', p_type = [], p_file = ''ascii'', p_dir = 1, p_mode = OUT_ASCII\<rparr>"

definition sample_new :: utag where
  "sample_new = (sample_tags ! 1)\<lparr>u_payload := Some (''Y9'' @ [NUL, NUL]), u_size := word_of_nat (length ''Y9'' + 1)\<rparr>"

lemma sample_store:
  "services good_env" "writes_ok good_env" "stored sample_tags" "holds sample_ctrl ''cfg'' sample_tags"
  "u_flags (hd sample_tags) AND 1 = 0" "\<not> c_held sample_ctrl" "\<not> c_hwtag sample_ctrl"
  "u_flags (sample_tags ! 1) AND 1 = 0" "b_name (c_backup sample_ctrl) = None"
proof -
  have "unat (u_size t) < 4194304" if "t \<in> set sample_tags" for t using sample_ok(3) that by fastforce
  then show "stored sample_tags"
    using sample_ok sample_size by (simp add: stored_def loadable_def) (simp add: sample_tags_def)
qed (simp_all add: services_def good_env_def writes_ok_def holds_def sample_ctrl_def probed_ctrl_def
    unopened_def strn_eq_def sample_tags_def sample_tag_def)

lemma sample_name: "full_utag_name sample_ctrl sample_file = Inr ''serial''"
  by (simp add: full_utag_name_def sample_ctrl_def sample_file_def dir_chain.simps scn_append_def eval_nat_numeral)

lemma sample_found: "find_first_utag sample_tags ''serial'' = Some 1"
  by code_simp

lemma sample_room: "image_size (sample_tags[1 := sample_new]) = 512" "length (c_media sample_ctrl ''cfg'') = 1024"
proof -
  show "image_size (sample_tags[1 := sample_new]) = 512"
    by (simp add: sample_defs sample_new_def image_size_def TO_SECT_SIZE_def frozen_len_def roundup4_def)
  show "length (c_media sample_ctrl ''cfg'') = 1024"
    using sample_length by (simp add: sample_ctrl_def probed_ctrl_def)
qed

theorem write_read_back_witness:
  "\<exists>c' c''. write_utag good_env sample_ctrl sample_file (''Y9'' @ [NEWLINE]) = Inr (3, c') \<and>
    read_utag good_env c' sample_file = Inr (0, ''Y9'' @ [NEWLINE], c'')"
proof -
  have "backup_room sample_ctrl n" for n using sample_store(9) by (simp add: backup_room_def)
  then show ?thesis
    using write_read_back[OF sample_store(1-6) _ sample_name _ sample_found sample_store(8),
        where user = "''Y9'' @ [NEWLINE]" and s = "''Y9''" and new = sample_new] sample_store(7) sample_room
    by (force simp: sample_file_def sample_new_def)
qed

definition broken_env :: uenv where
  "broken_env = good_env\<lparr>e_write := (\<lambda>p n. - EIO)\<rparr>"

theorem write_error_lost_witness:
  "\<exists>c'. write_utag broken_env sample_ctrl sample_file (''Y9'' @ [NEWLINE]) = Inr (3, c') \<and>
    c_media c' = c_media sample_ctrl"
proof -
  have "services broken_env" "\<forall>n. e_write broken_env ''cfg'' n = - EIO"
    using sample_store(1) by (simp_all add: broken_env_def services_def)
  then show ?thesis
    using write_error_lost[OF _ _ _ _ sample_store(3-6) _ sample_store(9) sample_name _ sample_found sample_store(8),
        where env = broken_env and r = "- EIO" and user = "''Y9'' @ [NEWLINE]" and s = "''Y9''" and new = sample_new]
      sample_store(7) sample_room by (force simp: sample_file_def sample_new_def)
qed

end
