(* ===== verification/Utag_Delete.thy ===== *)
theory Utag_Delete
  imports Utag_Write
begin

unbundle bit_operations_syntax

text \<open>
  Deleting a tag: which tags are left on the partition, and that rebuilding the
  directories, which follows the store, touches neither the devices nor the mutex.
\<close>

section \<open>Directories do not touch the devices\<close>

definition devs :: "ctrl \<Rightarrow> media \<times> blkdev \<times> bool" where
  "devs c = (c_media c, c_main c, c_held c)"

lemma devs_simps [simp]:
  "devs (c\<lparr>c_dirs := a\<rparr>) = devs c" "devs (c\<lparr>c_nodes := b\<rparr>) = devs c" "devs (c\<lparr>c_next := n\<rparr>) = devs c"
  "devs (c\<lparr>c_reload := ch\<rparr>) = devs c" "devs (clear_utags_directory c) = devs c"
  by (simp_all add: devs_def clear_utags_directory_def)

lemma devs_proc_utag_file [simp]: "devs (proc_utag_file env c n t m d) = devs c"
  by (simp add: proc_utag_file_def)

lemma devs_populate [simp]: "devs (populate_utag_dir env c n t d) = devs c"
  by (simp add: populate_utag_dir_def Let_def)

lemma devs_proc_utag_dir [simp]: "devs (snd (proc_utag_dir env c n path t pop parent)) = devs c"
  by (simp add: proc_utag_dir_def Let_def split: option.split)

lemma devs_build_tag [simp]: "devs (snd (build_tag env c path t parent first ns)) = devs c"
proof (induction ns arbitrary: c path parent first)
  case (Cons n ns)
  let ?path = "scn_append path ((if first then [] else [SLASH]) @ n)"
  have "devs (snd (proc_utag_dir env c n ?path t (ns = []) parent)) = devs c" by simp
  then show ?case using Cons.IH
    by (cases "proc_utag_dir env c n ?path t (ns = []) parent") (auto split: sum.split)
qed simp

lemma build_loop_ok:
  assumes "ts \<noteq> []" "u_name (last ts) = UTAG_TAIL" "\<forall>t\<in>set ts. \<exists>r. full_split (u_name t) = Inr r"
  shows "\<exists>ok c'. build_loop env c ts = Inr (ok, c') \<and> devs c' = devs c"
  using assms
proof (induction ts arbitrary: c)
  case (Cons t ts)
  show ?case
  proof (cases "ts = []")
    case True
    then have "build_loop env c (t # ts) = Inr (True, c)" using Cons.prems(2) by (simp add: no_show_tag_def)
    then show ?thesis by blast
  next
    case False
    then have IH: "\<exists>ok c'. build_loop env c1 ts = Inr (ok, c') \<and> devs c' = devs c1" for c1
      using Cons by simp
    obtain names ty where sp: "full_split (u_name t) = Inr (names, ty)"
      using Cons.prems(3) by (metis list.set_intros(1) surj_pair)
    obtain ok c1 where b: "build_tag env c [] ty None True names = (ok, c1)" by (metis surj_pair)
    then have "devs c1 = devs c" using devs_build_tag[of env c "[]" ty None True names] by simp
    then show ?thesis using IH[of c] IH[of c1] False sp b by (cases ok) auto
  qed
qed simp

lemma rebuild_ok:
  assumes "services env" "stored ts" "holds c d ts" "\<forall>t\<in>set ts. \<exists>r. full_split (u_name t) = Inr r"
  obtains e c' where "rebuild_utags_directory env c = Inr (e, c')" "holds c' d ts" "c_held c' = c_held c"
    "c_media c' = c_media c"
proof -
  have h: "holds (clear_utags_directory c) d ts" using assms(3) by (simp add: holds_def clear_utags_directory_def)
  obtain c1 where c1: "load_work_func env (clear_utags_directory c) = Inr c1" "c_head c1 = ts"
    "frame c1 = frame (clear_utags_directory c)" "holds c1 d ts"
    using load_work_ok[OF assms(1,2) h] by blast
  have ts: "ends_with_tail ts" "2 \<le> length ts" using assms(2) tag_list_length by (auto simp: stored_def tag_list_def)
  obtain h r where "ts = h # r" "r \<noteq> []" using ts(2) by (cases ts; cases "tl ts") auto
  then have "tl ts \<noteq> []" "last (tl ts) = last ts" "set (tl ts) \<subseteq> set ts" "ts \<noteq> []" by auto
  moreover have "u_name (last ts) = UTAG_TAIL" using ts(1) by (simp add: ends_with_tail_iff)
  ultimately obtain ok c2 where c2: "build_loop env c1 (tl ts) = Inr (ok, c2)" "devs c2 = devs c1"
    using build_loop_ok[of "tl ts" env c1] assms(4) by (metis subsetD)
  let ?r = "if ok then (0, c2\<lparr>c_reload := UTAG_STATUS_LOADED\<rparr>) else (- EINVAL, c2)"
  have "rebuild_utags_directory env c = Inr ?r"
    using c1(1,2) c2(1) \<open>ts = h # r\<close> by (simp add: rebuild_utags_directory_def build_utags_directory_def)
  moreover have "devs (snd ?r) = devs c1" using c2(2) by simp
  moreover have "c_held c1 = c_held c" "c_media c1 = c_media c"
    using c1(3) by (simp_all add: frame_def clear_utags_directory_def)
  moreover have "holds x d ts" if "devs x = devs c1" for x using that c1(4) by (simp add: devs_def holds_def)
  ultimately show ?thesis using that[of "fst ?r" "snd ?r"] by (simp add: devs_def)
qed

section \<open>The tags that are kept\<close>

definition kept :: "utag list \<Rightarrow> nat \<Rightarrow> string \<Rightarrow> utag list" where
  "kept ts i name = hd ts # map ((!) ts) (filter (\<lambda>j. j \<noteq> i \<and> \<not> (\<exists>r. u_name (ts ! j) = name @ SLASH # r))
     [1..<length ts - 1]) @ [last ts]"

lemma below_iff: "below name (length name + 1) t \<longleftrightarrow> (\<exists>r. u_name t = name @ SLASH # r)"
proof
  assume "below name (length name + 1) t"
  then have b: "take (length name) (u_name t) = name" "c_at (drop (length name) (u_name t)) = SLASH"
    by (simp_all add: below_def)
  then obtain r where "drop (length name) (u_name t) = SLASH # r"
    by (auto simp: c_at_def split: list.splits)
  then show "\<exists>r. u_name t = name @ SLASH # r" using b(1) append_take_drop_id[of "length name" "u_name t"] by metis
next
  assume "\<exists>r. u_name t = name @ SLASH # r"
  then show "below name (length name + 1) t" by (auto simp: below_def c_at_def)
qed

lemma remove_kept:
  assumes "1 \<le> i" "i < length ts - 1"
  shows "remove_below (remove_tag ts i) name (length name + 1) = kept ts i name"
proof -
  let ?n = "length ts - 1"
  have len: "length ts = Suc ?n" using assms(2) by simp
  have "take i ts = map ((!) ts) [0..<i]" "drop (i + 1) ts = map ((!) ts) [i + 1..<length ts]"
    by (rule nth_equalityI; use assms(2) in simp)+
  then have "remove_tag ts i = map ((!) ts) ([0..<i] @ [i + 1..<length ts])" by (simp add: remove_tag_def)
  also have "[0..<i] @ [i + 1..<length ts] = 0 # ([1..<i] @ [i + 1..<?n]) @ [?n]"
    using assms by (subst len) (simp add: upt_conv_Cons)
  also have "[1..<i] @ [i + 1..<?n] = filter (\<lambda>j. j \<noteq> i) [1..<?n]"
  proof -
    have "[1..<?n] = [1..<i] @ i # [i + 1..<?n]"
      using upt_add_eq_append[of 1 i "?n - i"] assms by (simp add: upt_conv_Cons)
    moreover have "filter (\<lambda>j. j \<noteq> i) [1..<i] = [1..<i]" "filter (\<lambda>j. j \<noteq> i) [i + 1..<?n] = [i + 1..<?n]"
      by (auto intro: filter_True)
    ultimately show ?thesis by simp
  qed
  finally have "remove_tag ts i = ts ! 0 # map ((!) ts) (filter (\<lambda>j. j \<noteq> i) [1..<?n]) @ [ts ! ?n]" by simp
  moreover have "ts \<noteq> []" using assms by auto
  then have "ts ! 0 = hd ts" "ts ! ?n = last ts" by (simp_all add: hd_conv_nth last_conv_nth)
  ultimately show ?thesis
    by (simp add: remove_below_def kept_def below_iff[simplified] filter_map o_def conj_commute)
qed

lemma kept_nonempty: "kept ts i name \<noteq> []"
  by (simp add: kept_def)

lemma kept_subset: "ts \<noteq> [] \<Longrightarrow> set (kept ts i name) \<subseteq> set ts"
  by (auto simp: kept_def)

lemma tag_list_kept:
  assumes "tag_list ts"
  shows "tag_list (kept ts i name)"
proof -
  have "2 \<le> length ts" by (rule tag_list_length[OF assms])
  moreover from this have "hd ts \<in> set (butlast ts)" by (cases ts; cases "tl ts") auto
  moreover have "ts ! j \<in> set (butlast ts)" if "j < length ts - 1" for j
    using that by (metis length_butlast nth_butlast nth_mem)
  ultimately show ?thesis using assms
    by (auto simp: tag_list_def ends_with_tail_iff kept_def butlast_append)
qed

lemma image_size_kept:
  assumes "2 \<le> length ts"
  shows "image_size (kept ts i name) \<le> image_size ts"
proof -
  let ?n = "length ts - 1"
  have len: "length ts = Suc ?n" using assms by simp
  have "ts = map ((!) ts) (0 # [1..<?n] @ [?n])"
    using assms map_nth[of ts] by (subst (asm) len) (simp add: upt_conv_Cons)
  from arg_cong[OF this, of "\<lambda>xs. sum_list (map frozen_len xs)"]
  have "sum_list (map frozen_len ts) = frozen_len (ts ! 0) + (\<Sum>j\<leftarrow>[1..<?n]. frozen_len (ts ! j)) + frozen_len (ts ! ?n)"
    by (simp add: o_def del: upt_Suc)
  moreover have "ts \<noteq> []" using assms by auto
  then have "ts ! 0 = hd ts" "ts ! ?n = last ts" by (simp_all add: hd_conv_nth last_conv_nth)
  ultimately have "sum_list (map frozen_len (kept ts i name)) \<le> sum_list (map frozen_len ts)"
    using sum_list_filter_le_nat[of "\<lambda>j. frozen_len (ts ! j)" _ "[1..<?n]"]
    by (simp add: kept_def o_def)
  then show ?thesis by (simp add: image_size_def TO_SECT_SIZE_def div_le_mono)
qed

section \<open>Deleting\<close>

lemma full_split_restored:
  assumes "\<forall>t\<in>set ts. \<exists>r. full_split (u_name t) = Inr r" "ts \<noteq> []"
  shows "\<forall>t\<in>set (restored ts). \<exists>r. full_split (u_name t) = Inr r"
proof
  fix t assume "t \<in> set (restored ts)"
  then obtain j where "j < length ts" "t = restored ts ! j"
    using assms(2) by (metis in_set_conv_nth length_restored)
  then show "\<exists>r. full_split (u_name t) = Inr r" using assms(1) by (simp add: name_restored)
qed

lemma delete_loaded_ok:
  assumes env: "services env" "writes_ok env" and ts: "stored ts"
    and c: "c_head c = ts" "holds c d ts" "b_filep (c_main c)" "\<not> c_lock c" "backup_room c (image_size ts)"
    and tag: "find_first_utag ts name = Some i" "count = length name + 1"
    and depth: "\<forall>t\<in>set ts. \<exists>r. full_split (u_name t) = Inr r"
  obtains c' where "delete_loaded env c name count = Inr (int count, c')"
    "holds c' d (restored (kept ts i name))" "c_held c' = c_held c" "stored (restored (kept ts i name))"
proof -
  let ?k = "kept ts i name"
  note i = find_first_utagD[OF tag(1)]
  have tl: "tag_list ts" "2 \<le> length ts" "ts \<noteq> []" using ts tag_list_length by (auto simp: stored_def tag_list_def)
  have sub: "set ?k \<subseteq> set ts" by (rule kept_subset[OF tl(3)])
  have le: "image_size ?k \<le> image_size ts" by (rule image_size_kept[OF tl(2)])
  have ok: "tag_list ?k" "\<forall>t\<in>set ?k. storable t \<and> length (u_name t) \<le> 30 \<and> u_only t = cut_type (u_name t) \<and>
      unat (u_size t) < 4194304 \<and> (\<forall>q. u_payload t = Some q \<longrightarrow> last q = NUL)"
    using tag_list_kept[OF tl(1)] stored_restorable[OF ts] sub by blast+
  have small: "image_size ?k < 4294967296" using le ts by (simp add: stored_def)
  let ?c1 = "c\<lparr>c_head := ?k\<rparr>"
  have dev: "b_name (c_main ?c1) = Some d" "b_filep (c_main ?c1)" "b_size (c_main ?c1) = length (c_media ?c1 d)"
    using c(2,3) by (simp_all add: holds_def)
  have "image_size ts \<le> length (c_media c d)" using c(2) stored_image_length[OF ts] by (auto simp: holds_def)
  then have room: "image_size ?k \<le> length (c_media ?c1 d)" "backup_room ?c1 (image_size ?k)"
    using le c(5) by (auto simp: backup_room_def)
  have st: "\<forall>t\<in>set ?k. storable t" using ok(2) by blast
  obtain c2 rest where c2: "store_work_func env ?c1 = Inr c2" "c_result c2 = 0" "view c2 = view ?c1"
    "c_main c2 = c_main ?c1" "c_media c2 d = tag_image (set_head_util ?k (word_of_nat (image_size ?k))) @ rest"
    "length (c_media c2 d) = length (c_media ?c1 d)"
    using store_work_ok[OF env dev _ ok(1) st room(1) small room(2)] by auto
  note rs = restored_stored[OF ok small]
  have "holds c2 d (restored ?k)" using rs(2) c2(4-6) dev by (auto simp: holds_def)
  moreover have "\<forall>t\<in>set (restored ?k). \<exists>r. full_split (u_name t) = Inr r"
    by (rule full_split_restored) (use depth sub in \<open>auto simp: kept_def\<close>)
  ultimately obtain e c' where "rebuild_utags_directory env c2 = Inr (e, c')" "holds c' d (restored ?k)"
      "c_held c' = c_held c2" using rebuild_ok[OF env(1) rs(1)] by blast
  moreover have "remove_below (remove_tag ts i) name count = ?k" using remove_kept[OF i(1,2)] tag(2) by simp
  ultimately show ?thesis
    using that[of c'] c(1,4) tag(1) c2(1-3) rs(1) by (simp add: delete_loaded_def view_def)
qed

lemma kept_not_below:
  assumes "\<forall>t\<in>{hd ts, last ts}. SLASH \<notin> set (u_name t)" "t \<in> set (kept ts i name)"
  shows "u_name t \<noteq> name @ SLASH # r"
proof
  assume n: "u_name t = name @ SLASH # r"
  then have "SLASH \<in> set (u_name t)" by simp
  then have "t \<noteq> hd ts" "t \<noteq> last ts" using assms(1) by auto
  then show False using assms(2) n by (auto simp: kept_def)
qed

text \<open>
  C11. Deleting an untyped tag by its full name, on a store that is not locked, removes from the
  partition the first tag of that name and the tags below it, those whose name continues
  it with a slash, and nothing else; the other tags keep their order and contents, and no tag
  below the name is left. The kernel's services work, and no tag has more than five levels.
  (The name of a typed tag ends in the type, which the names below it do not contain: these
  stay, see \<open>typed_subtree_stays\<close>.)
\<close>

theorem delete_removes_subtree:
  assumes env: "services env" "writes_ok env" and ts: "stored ts" "holds c d ts" "u_flags (hd ts) AND 1 = 0"
    and c: "\<not> c_held c" "backup_room c (image_size ts)"
    and user: "user = name @ [x]" "length name < MAX_UTAG_NAME" "nul_free name" "COLON \<notin> set name"
      "validate_name (name @ [NUL]) (length name)" "check_path (name @ [NUL]) (length name) = 0"
    and tag: "find_first_utag ts name = Some i"
    and depth: "\<forall>t\<in>set ts. \<exists>r. full_split (u_name t) = Inr r"
  shows "\<exists>c' ts'. delete_utag env c user = Inr (int (length user), c') \<and> \<not> c_held c' \<and>
    holds c' d ts' \<and> stored ts' \<and> tl ts' = tl (kept ts i name) \<and>
    u_name (hd ts') = UTAG_HEAD \<and> (\<forall>t\<in>set ts'. \<forall>r. u_name t \<noteq> name @ SLASH # r)"
proof -
  have h1: "holds (c\<lparr>c_held := True\<rparr>) d ts" using ts(2) by (simp add: holds_def)
  obtain c1 where c1: "load_work_func env (c\<lparr>c_held := True\<rparr>) = Inr c1" "c_head c1 = ts"
    "frame c1 = frame (c\<lparr>c_held := True\<rparr>)" "holds c1 d ts" "b_filep (c_main c1)" "\<not> c_lock c1"
    using load_work_ok[OF env(1) ts(1) h1] ts(3) by auto
  have "backup_room c1 (image_size ts)" "c_held c1" using c(2) c1(3) by (simp_all add: backup_room_def frame_def)
  then obtain c2 where c2: "delete_loaded env c1 name (length user) = Inr (int (length user), c2)"
    "holds c2 d (restored (kept ts i name))" "c_held c2" "stored (restored (kept ts i name))"
    using delete_loaded_ok[OF env ts(1) c1(2,4,5,6) _ tag _ depth, of "length user"] user(1) by auto
  have ne: "ts \<noteq> []" using find_first_utagD[OF tag] by auto
  have buf: "user[length user - 1 := NUL] = name @ [NUL]" using user(1) by simp
  have "delete_utag env c user = Inr (int (length user), mutex_unlock c2)"
    using env(1) user buf c(1) c1(1,2) c2(1) ne by (simp add: delete_utag_def services_def mutex_lock_def)
  moreover have "holds (mutex_unlock c2) d (restored (kept ts i name))" "\<not> c_held (mutex_unlock c2)"
    using c2(2,3) by (simp_all add: mutex_unlock_def holds_def)
  moreover have "tl (restored (kept ts i name)) = tl (kept ts i name)"
  proof -
    have "(if u_size t = 0 then t\<lparr>u_payload := None\<rparr> else t) = t" if "t \<in> set ts" for t
      using that ts(1) by (cases "u_payload t") (auto simp: stored_def loadable_def thawed_tag_def)
    moreover have "set (tl (kept ts i name)) \<subseteq> set ts" using kept_subset[OF ne, of i name] by (auto simp: kept_def)
    ultimately show ?thesis
      by (auto simp: restored_def reloaded_def set_head_util_def intro!: map_idI)
  qed
  moreover have "u_name (hd (restored (kept ts i name))) = UTAG_HEAD"
    using c2(4) by (simp add: stored_def tag_list_def)
  moreover have "u_name t \<noteq> name @ SLASH # r" if "t \<in> set (restored (kept ts i name))" for t r
  proof -
    have "u_name (hd ts) = UTAG_HEAD" "u_name (last ts) = UTAG_TAIL"
      using ts(1) by (simp_all add: stored_def tag_list_def ends_with_tail_iff)
    then have "\<forall>t\<in>set (kept ts i name). u_name t \<noteq> name @ SLASH # r" using kept_not_below[of ts] by auto
    moreover have "u_name t \<in> u_name ` set (kept ts i name)"
      using that name_restored length_restored by (metis imageI in_set_conv_nth kept_nonempty)
    ultimately show ?thesis by auto
  qed
  ultimately show ?thesis using c2(4) by blast
qed

definition sample_tree :: "utag list" where
  "sample_tree = [(sample_tag UTAG_HEAD [])\<lparr>u_util := 512\<rparr>, sample_tag ''board'' [], sample_tag ''board/rev'' ''p2'',
     sample_tag ''boardx'' ''1'', sample_tag UTAG_TAIL []]"

lemma sample_tree_ok: "stored sample_tree"
proof -
  have "image_size sample_tree = 512"
    by (simp add: sample_tree_def sample_tag_def image_size_def TO_SECT_SIZE_def frozen_len_def roundup4_def)
  moreover have "tag_list sample_tree" "\<forall>t\<in>set sample_tree. loadable t"
    by (simp_all add: sample_tree_def sample_tag_def tag_list_def loadable_def thawed_tag_def)
  ultimately show ?thesis by (simp add: stored_def) (simp add: sample_tree_def)
qed

definition tree_ctrl :: ctrl where
  "tree_ctrl = probed_ctrl (\<lambda>d. tag_image sample_tree) (Some ''cfg'') None ''config''"

lemma sample_depth: "\<forall>t\<in>set sample_tree. \<exists>r. full_split (u_name t) = Inr r"
  by (simp add: sample_tree_def sample_tag_def full_split_def strnchr_def cstr_def split_path.simps c_at_def)

theorem delete_removes_subtree_witness:
  "\<exists>c' ts'. delete_utag good_env tree_ctrl (''board'' @ [NEWLINE]) = Inr (6, c') \<and>
    holds c' ''cfg'' ts' \<and> map u_name (tl ts') = [''boardx'', UTAG_TAIL]"
proof -
  have hold: "holds tree_ctrl ''cfg'' sample_tree" "\<not> c_held tree_ctrl" "b_name (c_backup tree_ctrl) = None"
    by (simp_all add: holds_def tree_ctrl_def probed_ctrl_def unopened_def)
  have room: "backup_room tree_ctrl n" for n using hold(3) by (simp add: backup_room_def)
  have checks: "validate_name (''board'' @ [NUL]) (length ''board'')" "check_path (''board'' @ [NUL]) (length ''board'') = 0"
    "find_first_utag sample_tree ''board'' = Some 1" by code_simp+
  have flag: "u_flags (hd sample_tree) AND 1 = 0" by (simp add: sample_tree_def sample_tag_def)
  have names: "map u_name (tl (kept sample_tree 1 ''board'')) = [''boardx'', UTAG_TAIL]"
    by (simp add: kept_def sample_tree_def sample_tag_def upt_rec)
  obtain c' ts' where "delete_utag good_env tree_ctrl (''board'' @ [NEWLINE]) = Inr (int (length (''board'' @ [NEWLINE])), c')"
    "holds c' ''cfg'' ts'" "tl ts' = tl (kept sample_tree 1 ''board'')"
    using delete_removes_subtree[OF sample_store(1,2) sample_tree_ok hold(1) flag hold(2) room refl _ _ _ checks sample_depth, of NEWLINE]
    by auto
  then show ?thesis using names by auto
qed

end
