(* ===== verification/Utag_Findings.thy ===== *)
theory Utag_Findings
  imports Utag_Delete
begin

text \<open>
  Inputs on which the tag store does not do what it means to do: each lemma is about the
  model of the code, at the input that shows it.
\<close>

text \<open>
  A name of 31 characters, the longest that \<open>all/new\<close> accepts, comes back from the
  partition without its last character.
\<close>

lemma long_name_truncated:
  assumes "nul_free name" "length name = 31"
  shows "\<exists>t. thaw_header (frozen_header (empty_utag name) @ rest) 0 = Inr t \<and> u_name t = take 30 name"
proof -
  have "frozen_header (empty_utag name) @ rest = name @ NUL # (htonl 0 @ htonl 0 @ htonl 0 @ rest)"
    using frozen_name[of name] assms(2) by (simp add: frozen_header_def empty_utag_def)
  moreover have "length (frozen_header (empty_utag name) @ rest) \<ge> 44" by simp
  ultimately show ?thesis using assms(1) by (simp add: thaw_header_def Let_def strlcpy_def)
qed

text \<open>An empty write to the file of a tag reads the byte before its buffer.\<close>

lemma empty_write_faults:
  "services env \<Longrightarrow> p_mode p \<noteq> OUT_TYPE \<Longrightarrow> write_utag env c p [] = Inl OutOfBounds"
  by (simp add: write_utag_def services_def write_payload_def)

text \<open>A write whose data cannot be copied releases a mutex that it has not taken.\<close>

lemma failed_copy_unlocks:
  assumes "\<not> e_user env" "a_buf env (length user + 1)" "length user \<le> MAX_UTAG_SIZE" "p_mode p \<noteq> OUT_TYPE" "\<not> c_held c"
  shows "write_utag env c p user = Inr (- EIO, c\<lparr>c_bad_unlock := True\<rparr>)"
  using assms by (simp add: write_utag_def mutex_unlock_def)

text \<open>The names of a path of six levels are written past the array of five.\<close>

lemma deep_path_faults: "full_split ''a/b/c/d/e/f'' = Inl OutOfBounds"
  by (simp add: full_split_def strnchr_def cstr_def split_path.simps c_at_def)

text \<open>
  The list of allowed names is copied without a terminating NUL: a payload that fills its
  size is read past the end of the copy.
\<close>

lemma features_overread:
  "check_hwtag good_env ''radio'' (Some (sample_tag ''.features'' ''gps,nfc'')) = Inl OutOfBounds"
  by (simp add: check_hwtag_def sample_tag_def good_env_def tok_scan.simps strsep_def hwtag_accepts_def
      strnlen_def strn_eq_def cstr_def)

text \<open>
  The directory of \<open>a\<close> exists because of the tag \<open>a/b\<close>. Adding the tag \<open>a/c\<close> populates it,
  which returns NULL, and the directory of \<open>a/c\<close> is created in the root instead of in \<open>a\<close>.
\<close>

definition parent_only :: ctrl where
  "parent_only = (probed_ctrl (\<lambda>d. []) (Some ''cfg'') None ''config'')
     \<lparr>c_dirs := [\<lparr>d_name = ''a'', d_path = ''a'', d_dir = 1, d_parent = 0\<rparr>,
                \<lparr>d_name = ''b'', d_path = ''a/b'', d_dir = 2, d_parent = 1\<rparr>], c_next := 3,
      c_head := [sample_tag UTAG_HEAD [], sample_tag ''a/b'' ''1'', sample_tag UTAG_TAIL []]\<rparr>"

lemma child_misplaced:
  "\<exists>c'. add_levels good_env parent_only None None [(''a'', ''a''), (''c'', ''a/c'')] = Inr c' \<and>
    last (c_dirs c') = \<lparr>d_name = ''c'', d_path = ''a/c'', d_dir = 3, d_parent = 0\<rparr>"
  by (simp add: parent_only_def probed_ctrl_def sample_tag_def good_env_def add_utag_tail_def strn_eq_def
      cut_type_def strnchr_def cstr_def proc_utag_dir_def find_dir_node_def populate_utag_dir_def
      proc_utag_file_def strlcpy_def empty_utag_def Let_def)

text \<open>
  Before the directories are built, adding a level below an existing tag dereferences
  the directory node that is not there.
\<close>

lemma missing_directory_faults:
  "add_levels good_env (parent_only\<lparr>c_dirs := [], c_head := [sample_tag UTAG_HEAD [], sample_tag ''a'' ''1'',
     sample_tag UTAG_TAIL []]\<rparr>) None None [(''a'', ''a''), (''c'', ''a/c'')] = Inl NullDeref"
  by (simp add: parent_only_def probed_ctrl_def sample_tag_def good_env_def add_utag_tail_def strn_eq_def
      cut_type_def strnchr_def cstr_def find_dir_node_def Let_def)

text \<open>
  The tags below a tag with a type do not start with its full name: deleting \<open>a:s\<close> keeps
  \<open>a/b:s\<close>.
\<close>

lemma typed_subtree_stays: "\<not> below ''a:s'' 4 (sample_tag ''a/b:s'' ''1'')"
  by (simp add: below_def sample_tag_def)

end
