(* ===== verification/Spec2Isabelle.thy ===== *)
theory Spec2Isabelle
  imports Voter_Registry Charger_Combine Charger_Reach Tcpc_Reset Tcpc_Thread Pd_Contract Pe_Rules Utag_Findings
begin

text \<open>
  \<^bold>\<open>Verification of Motorola's kernel modules\<close>

  The repository holds out-of-tree modules of the Linux kernel for Motorola phones:
  drivers for charging, USB Type-C, configuration data, touch, audio and many chips. This
  development models six parts that carry logic of their own and proves what makes them
  correct.

  \<^bold>\<open>The parts and how they interact\<close>

  \<^item> The \<^emph>\<open>vote arbiter\<close> (\<open>src/drivers/power/mmi_discrete_charger/mmi_discrete_voter.c\<close>). Clients
    of the charging code vote for a limit or a switch; the arbiter elects the minimum, the
    maximum or the disjunction and calls the owner back when the result changes. The
    discrete charger drivers, which are not modelled, are its clients.
  \<^item> The \<^emph>\<open>common charger driver\<close> (\<open>src/drivers/power/mmi_charger/mmi_charger.c\<close>). Low-level
    drivers register with their callbacks; a heartbeat polls them, computes temperature
    zone, charging step and limits of each charger, combines the packs and writes the
    configuration back. It has small vote tables of its own.
  \<^item> The \<^emph>\<open>event layer of the Type-C stack\<close> (\<open>tcpci_event.c\<close>, \<open>tcpci_alert.c\<close> under
    \<open>src/drivers/usb/typec/mmi_tcpc\<close>). Interrupt handlers, timers and the port manager post
    events and messages into queues, the event thread hands them to the policy engine.
  \<^item> The \<^emph>\<open>power negotiation\<close> of USB Power Delivery (\<open>pd_dpm_pdo_select.c\<close>, the power part of
    \<open>pd_dpm_core.c\<close>, \<open>pd_core.c\<close>, same directory): the sink chooses a capability of the
    source and builds a request, the source evaluates it, both follow the change of power.
  \<^item> The \<^emph>\<open>policy engine\<close> of USB Power Delivery (same directory). Each round takes an event from
    the queues of the event layer, or a reaction that is due in the ready state
    (\<open>pd_dpm_reaction.c\<close>). \<open>pd_process_evt*.c\<close> check the event and select the next of the 145
    protocol states, \<open>pd_policy_engine*.c\<close> run the exit action of the old and the entry action
    of the new state. The actions send messages, negotiate power, answer vendor and extended
    messages (\<open>pd_dpm_core.c\<close>) and notify the port manager.
  \<^item> The \<^emph>\<open>tag store\<close> (\<open>src/drivers/misc/utag/utags.c\<close>). Named values on a flash partition,
    readable and writable through files of procfs, with protection and range checks.

  \<^bold>\<open>Theories\<close>

  \<^descr>[Prelude] \<open>MMI_Prelude\<close>: error numbers, the wrap-around of C integers, faults of the
    kernel as values (\<open>kres\<close>: a NULL dereference, an access out of bounds, a use after
    free, a deadlock, a loop that does not end), and the locale \<open>vote_scan\<close>, the contract of
    a loop that keeps the best ballot, interpreted for \<open>vote_min\<close> and \<open>vote_max\<close> of the
    arbiter and for the effective voter of the charger. \<open>Ring_Queue\<close>: the locale
    \<open>ring_queue\<close>, the contract of a ring buffer and the bounded queue it implements.
  \<^descr>[Arbiter] \<open>Voter\<close>: \<open>struct votable\<close> and its operations with lock and callback;
    refinement to a map from clients to ballots. \<open>Voter_Registry\<close>: the list of votables,
    creation and destruction, the locale \<open>name_registry\<close>.
  \<^descr>[Charger] \<open>Charger_Data\<close> (structures), \<open>Charger_Zones\<close> (temperature zones with
    hysteresis), \<open>Charger_Vote\<close> (vote tables), \<open>Charger_Step\<close> (one charger in a heartbeat:
    demo and factory modes, charging steps, limits, configuration), \<open>Charger_Battery\<close> (status
    of a pack, notifications, power supplies), \<open>Charger_Combine\<close> (values over all packs),
    \<open>Charger_Heartbeat\<close> (device tree, work function, power off), \<open>Charger_Registry\<close>
    (registration, probe, suspend), \<open>Charger_Sysfs\<close> (attributes); \<open>Charger_Correct\<close>,
    \<open>Charger_Safety\<close> and \<open>Charger_Reach\<close> hold the invariant of the chip, the decisions
    given to the drivers and the reachable states.
  \<^descr>[Type-C] \<open>Tcpc_Data\<close>, \<open>Tcpc_Event\<close> (message buffers, queues, vendor message slot,
    resets), \<open>Tcpc_Post\<close> (posting and notification functions), \<open>Tcpc_Alert\<close> (alerts and
    taking of events), \<open>Tcpc_Queue\<close> (interpretations of \<open>ring_queue\<close>), \<open>Tcpc_Owner\<close> (the
    ownership invariant as a multiset of references), \<open>Tcpc_Correct\<close> (the step relation),
    \<open>Tcpc_Spec\<close>, \<open>Tcpc_Thread\<close>, \<open>Tcpc_Reset\<close> (properties).
  \<^descr>[Negotiation] \<open>Pd_Pdo\<close> (capabilities and requests as 32-bit words), \<open>Pd_Select\<close> (the
    choice under each charging policy), \<open>Pd_Dpm\<close> and \<open>Pd_Request\<close> (the device policy
    manager: building and evaluating a request, power levels, received capabilities);
    \<open>Pd_Rdo\<close> (round trip of a request), \<open>Pd_Choose\<close> (the locales \<open>cap_choice\<close> and
    \<open>cap_best\<close>, interpreted for the comparison of each policy), \<open>Pd_Match\<close>,
    \<open>Pd_Negotiate\<close>, \<open>Pd_Best\<close>, \<open>Pd_Power\<close>, \<open>Pd_Contract\<close> (lemmas and properties).
  \<^descr>[Policy engine] \<open>Pd_States\<close> (the numbers of states and timers), \<open>Pe_Base\<close> (transitions,
    protocol errors), \<open>Pe_Recv\<close> (checks on a received message, start), \<open>Pe_Com\<close>, \<open>Pe_Snk\<close>,
    \<open>Pe_Src\<close>, \<open>Pe_Swap\<close> (common part, sink, source, the three swaps), \<open>Pe_Tcp\<close> (requests of
    the port manager), \<open>Pe_Vdm\<close> (vendor messages), \<open>Pe_Event\<close> (\<open>pd_process_event\<close>);
    \<open>Pe_Actions\<close> (resets, roles and swaps that several states share), \<open>Pe_Ext\<close> (extended
    messages, batteries, alerts, status), \<open>Pe_Svdm\<close> and \<open>Pe_Dfp\<close> (vendor messages, cable and
    partner), \<open>Pe_Enter\<close> and \<open>Pe_Table\<close> (entry and exit actions of all states), \<open>Pe_React\<close>
    (reactions), \<open>Pe_Run\<close> (\<open>pd_policy_engine_run\<close>);
    \<open>Pe_Frame\<close>, \<open>Pe_Roles\<close>, \<open>Pe_Closed\<close> (what handlers keep, the states of each role),
    \<open>Pe_Power\<close> (what actions do to the role), \<open>Pe_Discipline\<close>, \<open>Pe_Recover\<close>, \<open>Pe_Engine\<close>
    and \<open>Pe_Rules\<close> (properties).
  \<^descr>[Tags] \<open>Utag_String\<close> (C strings and names), \<open>Utag_Format\<close> (\<open>thaw_tags\<close>, \<open>freeze_tags\<close>),
    \<open>Utag_Roundtrip\<close> (their lemmas), \<open>Utag_Store\<close> (devices, loading, storing, range check),
    \<open>Utag_Proc\<close> (directories and handlers), \<open>Utag_Spec\<close> (format and range check, with the
    locale \<open>token_compare\<close> for the two tokenizers), \<open>Utag_Correct\<close> (load and store),
    \<open>Utag_Write\<close>, \<open>Utag_Delete\<close> (handlers), \<open>Utag_Findings\<close> (inputs that go wrong).

  \<^bold>\<open>How the code is modelled\<close>

  A C structure is a record with the fields the functions use, a function is a definition
  of the same name over an explicit state; a loop or a block of a long function that is
  reasoned about alone has a definition of its own, and the comments say which. What
  cannot be returned from is a value of \<open>kfault\<close>. Arrays are lists of fixed length;
  pointers between objects that are registered and removed are numbers looked up in the
  list of live objects, so that a dangling one is a use after free. Integers that can
  overflow are 32-bit words or integers with \<open>i32\<close>, \<open>u32\<close> written out. The states of the
  policy engine are numbers, as the code compares them (\<open>state < PD_NR_PE_STATES\<close>).

  Everything the kernel provides is a parameter: allocations that may fail, the callbacks
  of drivers, what a chip, a device tree property or a block device returns; the build option
  that moves the recharge point of a full battery is one too. Theorems that
  need them to succeed say so in their hypotheses, and each such theorem has a witness on
  a concrete environment. Functions that run under one mutex or spin lock are one step;
  where a lock is not released, or taken twice, the state or the fault shows it.

  \<^bold>\<open>Termination\<close>

  No definition uses fuel. The loops over lists are structural; \<open>thaw_loop\<close> ends because
  each tag advances by at least 44 bytes within the block size, \<open>split_path\<close> and \<open>tok_scan\<close>
  because the rest of the string gets shorter, the loops that drain the event queues
  because each removal decreases the count; the walk from a directory to the root is
  bounded by the array of five names it fills.

  \<^bold>\<open>What is shown\<close>

  For the arbiter: the invariant of slots and ballots, refinement of \<open>vote\<close> to the
  election over a map, when the callback runs, that an override holds, what a full table
  does, the round trip of create and destroy, and the paths that keep the lock or leave a
  dangling entry. For the charger: that a battery outside its limits is not charged and
  full means full, the decision given to drivers and when they get the full rate at the taper
  voltage of a zone, that zones stay within their table and do not chatter, the pack status, the
  combined capacity within its range, that no sequence of registrations (with device trees of
  one to ten zones and a readable FFC table) and heartbeats faults, and that removal breaks
  this.
  For the event layer: both queues are bounded FIFO queues, every message buffer has one
  owner in each reachable state, what a reset leaves, that the thread sleeps on no queued
  event, and what the window of a hard reset refuses. For the negotiation: under the policy
  of maximum power the request is the best of all pairs that fit and exceeds neither side,
  a source that runs the same code accepts it and both record the same current, a cable
  carries no more than its rating (all for fixed and variable capabilities), what current the
  sink orders before the voltage changes, and a capability of the partner can make the decoder divide by zero. For the
  policy engine: over all rounds its state belongs to the power role of the port and a ready
  port has a contract, no event makes a port enter a state of the other power role, detaching and
  hard resets are obeyed in every running state, a repeated message changes nothing, what
  each message does during a change of power, a hard reset restores the default levels of a
  sink, one visit to the ready state starts one reaction, a vendor message that meets no free
  buffer dereferences NULL, and a long identity of a cable overflows its array. For the tag store: a thawed list is
  well formed whatever the bytes are, the exact cases in which thawing faults, the round
  trip, the range check as membership, that a written value is read back and persists,
  what deletion of an untyped tag removes, and that device errors are lost.

  \<^bold>\<open>Not modelled\<close>

  The Type-C connection state machine and its timers, and the handlers of \<open>tcpci_alert.c\<close>
  that only call it: it drives the chip through calls of the vendor drivers at every step.
  Of the policy engine, the alternate modes (\<open>pd_dpm_alt_mode_dp.c\<close>, \<open>pd_dpm_mmi_adapter.c\<close>),
  whose callbacks are only recorded, and the reading of the device tree; the machine for debug
  accessories is not compiled in. The discrete, turbo and parallel chargers and the common touchscreen layer.
  In \<open>utags.c\<close> the parsing of the device tree and of boot arguments, and the block I/O
  variant of newer kernels. Printing and tracing are left out everywhere. The remaining
  directories are chip drivers that program registers, third-party libraries, file systems
  and firmware images; the list of components gives the reason for each.
\<close>

end
